(* ===== verification/CorePrelude.thy ===== *)
theory CorePrelude
  imports Complex_Main "HOL-Library.AList"
begin

text \<open>
  Shared vocabulary of the development.
  \<^item> \<open>pyval\<close> is the dynamic value that the sources annotate as \<open>Any\<close>; \<open>truthy\<close> is Python's
    truth test on it.
  \<^item> A Python \<open>dict\<close> is an association list with distinct keys: \<open>AList.update\<close> overwrites in
    place or appends at the end and \<open>AList.delete\<close> removes, which is the insertion-ordered
    behaviour of \<open>dict\<close>; \<open>map_of\<close> is \<open>dict.get\<close>.
  \<^item> A raised exception is a value of \<open>exn\<close> (its class and its message); an operation that may
    raise returns \<open>exn + 'a\<close>.
  \<^item> \<open>bounded_push\<close> is the append-then-\<open>pop(0)\<close> idiom of every bounded history.
  Floats (\<open>time.time()\<close>, time-outs, metric values) are reals: rounding is not modelled.
\<close>

named_theorems dict_simps \<open>laws of the ordered dictionary operations\<close>
named_theorems state_frames \<open>fields an operation leaves alone\<close>

section \<open>Dynamic values\<close>

datatype pyval =
    PNone
  | PBool bool
  | PInt int
  | PFloat real
  | PStr string
  | PList "pyval list"
  | PDict "(string \<times> pyval) list"
  | PObj nat

type_synonym pydict = "(string \<times> pyval) list"

fun truthy :: "pyval \<Rightarrow> bool" where
  "truthy PNone = False"
| "truthy (PBool b) = b"
| "truthy (PInt i) = (i \<noteq> 0)"
| "truthy (PFloat x) = (x \<noteq> 0)"
| "truthy (PStr s) = (s \<noteq> [])"
| "truthy (PList xs) = (xs \<noteq> [])"
| "truthy (PDict d) = (d \<noteq> [])"
| "truthy (PObj _) = True"

text \<open>\<open>d.get(k)\<close>: the value, or \<open>None\<close> when the key is missing.\<close>

definition pyget :: "pydict \<Rightarrow> string \<Rightarrow> pyval" where
  "pyget d k = (case map_of d k of None \<Rightarrow> PNone | Some v \<Rightarrow> v)"

definition opt_str :: "string option \<Rightarrow> pyval" where
  "opt_str s = (case s of None \<Rightarrow> PNone | Some x \<Rightarrow> PStr x)"

definition opt_float :: "real option \<Rightarrow> pyval" where
  "opt_float s = (case s of None \<Rightarrow> PNone | Some x \<Rightarrow> PFloat x)"

section \<open>Exceptions\<close>

text \<open>
  The exception classes the modelled sources raise or catch. \<open>UserExc\<close> stands for any
  exception raised by code outside the repository (callbacks, plugins, agents).
\<close>

datatype exn_class =
    ValueErr | TypeErr | KeyErr | IndexErr | RuntimeErr | OverflowErr | TimeoutErr
  | QueueEmptyErr | RecursionErr | AttributeErr | UserExc string
  | ServiceErr | DuplicateServiceErr | ServiceNotFoundErr | DependencyErr
  | MissingDependencyErr | CircularDependencyErr
  | OrchestratorErr
  | DIErr | DependencyResolutionErr | DICircularDependencyErr
  | PluginErr | PluginDependencyErr | PluginVersionErr | PluginNotFoundErr | PluginStateErr
  | SecurityErr | AccessDeniedErr | AuthenticationErr | PermissionValidationErr
  | VersionMismatchErr | MigrationErr
  | ConfigurationValidationErr
  | StorageErr | StorageConnectionErr | StorageNotFoundErr | StorageValidationErr
  | AIProviderErr | AIProviderConnectionErr | AIProviderAuthErr | AIProviderRateLimitErr
  | SDKErr | SDKValidationErr | SDKAuthenticationErr | SDKConnectionErr | SDKExecutionErr
  | APICompatibilityErr | EcosystemValidationErr

datatype exn = Exn (exn_class: exn_class) (exn_msg: string)

text \<open>The next step of a computation, unless the previous one raised.\<close>

definition and_then :: "exn + 'a \<Rightarrow> ('a \<Rightarrow> exn + 'b) \<Rightarrow> exn + 'b" where
  "and_then r f = (case r of Inl e \<Rightarrow> Inl e | Inr x \<Rightarrow> f x)"

lemma and_then_simps [simp]: "and_then (Inl e) f = Inl e" "and_then (Inr x) f = f x"
  by (simp_all add: and_then_def)

lemma and_then_Inr: "and_then r f = Inr y \<longleftrightarrow> (\<exists>x. r = Inr x \<and> f x = Inr y)"
  by (cases r) simp_all

section \<open>Rendering of integers\<close>

text \<open>\<open>str(n)\<close> for an integer, as it is interpolated into names and messages.\<close>

definition digit_char :: "nat \<Rightarrow> char" where
  "digit_char d = char_of (48 + d)"

fun nat_str :: "nat \<Rightarrow> string" where
  "nat_str n = (if n < 10 then [digit_char n] else nat_str (n div 10) @ [digit_char (n mod 10)])"

declare nat_str.simps [simp del]

definition int_str :: "int \<Rightarrow> string" where
  "int_str i = (if i < 0 then ''-'' @ nat_str (nat (- i)) else nat_str (nat i))"

text \<open>A value between single quotes, as the f-strings of the messages have it.\<close>

definition quoted :: "string \<Rightarrow> string" where
  "quoted s = CHR 0x27 # s @ [CHR 0x27]"

text \<open>Reading an attribute that no value of the type has. Other objects are called \<open>object\<close>.\<close>

definition py_type_name :: "pyval \<Rightarrow> string" where
  "py_type_name v = (case v of PNone \<Rightarrow> ''NoneType'' | PBool _ \<Rightarrow> ''bool'' | PInt _ \<Rightarrow> ''int'' | PFloat _ \<Rightarrow> ''float''
     | PStr _ \<Rightarrow> ''str'' | PList _ \<Rightarrow> ''list'' | PDict _ \<Rightarrow> ''dict'' | PObj _ \<Rightarrow> ''object'')"

definition attribute_error :: "string \<Rightarrow> pyval \<Rightarrow> exn" where
  "attribute_error attr v = Exn AttributeErr (quoted (py_type_name v) @ '' object has no attribute '' @ quoted attr)"

section \<open>Ordered dictionaries\<close>

abbreviation dict_keys :: "('k \<times> 'v) list \<Rightarrow> 'k list" where
  "dict_keys d \<equiv> map fst d"

abbreviation dict_has :: "('k \<times> 'v) list \<Rightarrow> 'k \<Rightarrow> bool" where
  "dict_has d k \<equiv> k \<in> set (dict_keys d)"

definition wf_dict :: "('k \<times> 'v) list \<Rightarrow> bool" where
  "wf_dict d \<longleftrightarrow> distinct (dict_keys d)"

lemma wf_dict_Nil [simp, intro]: "wf_dict []"
  by (simp add: wf_dict_def)

lemma wf_dict_update [simp, intro]: "wf_dict d \<Longrightarrow> wf_dict (AList.update k v d)"
  by (simp add: wf_dict_def distinct_update)

lemma wf_dict_delete [simp, intro]: "wf_dict d \<Longrightarrow> wf_dict (AList.delete k d)"
  by (simp add: wf_dict_def distinct_delete)

lemma wf_dict_filter [intro]: "wf_dict d \<Longrightarrow> wf_dict (filter P d)"
  by (simp add: wf_dict_def distinct_map_filter)

lemma map_of_update [dict_simps]:
  "map_of (AList.update k v d) k' = (if k' = k then Some v else map_of d k')"
  by (simp add: update_conv')

lemma map_of_delete [dict_simps]:
  "map_of (AList.delete k d) k' = (if k' = k then None else map_of d k')"
  by (simp add: delete_conv')

lemma keys_update [dict_simps]:
  "set (dict_keys (AList.update k v d)) = insert k (set (dict_keys d))"
  by (simp add: dom_update flip: dom_map_of_conv_image_fst) (simp add: update_conv' dom_map_of_conv_image_fst)

lemma keys_delete [dict_simps]:
  "set (dict_keys (AList.delete k d)) = set (dict_keys d) - {k}"
  by (auto simp: AList.delete_eq)

lemma keys_update_order:
  "dict_keys (AList.update k v d) = (if dict_has d k then dict_keys d else dict_keys d @ [k])"
  by (induction d) auto

lemma mem_iff_map_of: "wf_dict d \<Longrightarrow> (k, v) \<in> set d \<longleftrightarrow> map_of d k = Some v"
  by (simp add: wf_dict_def)

lemma dict_has_iff: "dict_has d k \<longleftrightarrow> map_of d k \<noteq> None"
  by (simp add: map_of_eq_None_iff)

lemma set_update_wf:
  "wf_dict d \<Longrightarrow> set (AList.update k v d) = insert (k, v) {p \<in> set d. fst p \<noteq> k}"
  by (induction d) (auto simp: wf_dict_def rev_image_eqI)

lemma set_delete: "set (AList.delete k d) = {p \<in> set d. fst p \<noteq> k}"
  by (auto simp: AList.delete_eq)

lemma length_update_new: "\<not> dict_has d k \<Longrightarrow> length (AList.update k v d) = Suc (length d)"
  by (induction d) auto

lemma length_update_old: "dict_has d k \<Longrightarrow> length (AList.update k v d) = length d"
  by (induction d) auto

section \<open>Bounded histories\<close>

text \<open>\<open>h.append(x); if len(h) > n: h.pop(0)\<close>\<close>

definition bounded_push :: "nat \<Rightarrow> 'a list \<Rightarrow> 'a \<Rightarrow> 'a list" where
  "bounded_push n h x = (let h' = h @ [x] in if length h' > n then tl h' else h')"

lemma bounded_push_length: "length h \<le> n \<Longrightarrow> length (bounded_push n h x) \<le> n"
  by (simp add: bounded_push_def Let_def)

lemma bounded_push_last: "0 < n \<Longrightarrow> bounded_push n h x \<noteq> [] \<and> last (bounded_push n h x) = x"
  by (cases h) (auto simp: bounded_push_def Let_def)

lemma bounded_push_drop:
  "bounded_push n h x = drop (if n < length h + 1 then 1 else 0) (h @ [x])"
  by (cases h) (auto simp: bounded_push_def Let_def)

lemma bounded_push_keeps_newest:
  assumes "h = drop (length xs - n) xs"
  shows "bounded_push n h x = drop (length (xs @ [x]) - n) (xs @ [x])"
proof -
  have "h @ [x] = drop (length xs - n) (xs @ [x])"
    using assms by simp
  moreover have "length h = min n (length xs)"
    using assms by simp
  ultimately show ?thesis
    by (auto simp: bounded_push_drop Suc_diff_le simp del: drop_append)
qed

lemma foldl_bounded_push:
  "foldl (bounded_push n) (drop (length ys - n) ys) xs = drop (length (ys @ xs) - n) (ys @ xs)"
proof (induction xs arbitrary: ys)
  case (Cons x xs)
  show ?case
    using Cons.IH [of "ys @ [x]"] bounded_push_keeps_newest [OF refl, of n ys x] by simp
qed simp

text \<open>Python's \<open>xs[-n:]\<close>: all of the list for \<open>n = 0\<close>, a prefix is dropped for negative \<open>n\<close>.\<close>

definition last_slice :: "int \<Rightarrow> 'a list \<Rightarrow> 'a list" where
  "last_slice n xs = (if n > 0 then drop (length xs - nat n) xs else drop (nat (- n)) xs)"

lemma last_slice_length: "0 < n \<Longrightarrow> length (last_slice n xs) = min (nat n) (length xs)"
  by (auto simp: last_slice_def)

end
