(* ===== verification/PyStrings.thy ===== *)
theory PyStrings
  imports CorePrelude "HOL-Library.Sublist" "HOL-Library.Char_ord"
begin

text \<open>
  The \<open>str\<close> methods the sources use, on ASCII strings: \<open>lower\<close>, \<open>upper\<close>, \<open>strip\<close>,
  \<open>split\<close> on a separator character and on white space, \<open>join\<close>, \<open>isdigit\<close> and \<open>int(s)\<close>.
\<close>

definition in_range_char :: "nat \<Rightarrow> nat \<Rightarrow> char \<Rightarrow> bool" where
  "in_range_char lo hi c \<longleftrightarrow> lo \<le> of_char c \<and> of_char c \<le> hi"

definition char_lower :: "char \<Rightarrow> char" where
  "char_lower c = (if in_range_char 65 90 c then char_of (of_char c + 32 :: nat) else c)"

definition char_upper :: "char \<Rightarrow> char" where
  "char_upper c = (if in_range_char 97 122 c then char_of (of_char c - 32 :: nat) else c)"

definition str_lower :: "string \<Rightarrow> string" where
  "str_lower s = map char_lower s"

definition str_upper :: "string \<Rightarrow> string" where
  "str_upper s = map char_upper s"

definition is_space :: "char \<Rightarrow> bool" where
  "is_space c \<longleftrightarrow> in_range_char 9 13 c \<or> in_range_char 28 32 c"

definition is_digit :: "char \<Rightarrow> bool" where
  "is_digit c \<longleftrightarrow> in_range_char 48 57 c"

definition str_lstrip :: "string \<Rightarrow> string" where
  "str_lstrip s = dropWhile is_space s"

definition str_strip :: "string \<Rightarrow> string" where
  "str_strip s = rev (dropWhile is_space (rev (dropWhile is_space s)))"

text \<open>\<open>s.split(c)\<close> for a one-character separator: never empty.\<close>

fun str_split :: "char \<Rightarrow> string \<Rightarrow> string list" where
  "str_split c [] = [[]]"
| "str_split c (x # xs) =
     (if x = c then [] # str_split c xs
      else case str_split c xs of [] \<Rightarrow> [[x]] | w # ws \<Rightarrow> (x # w) # ws)"

text \<open>\<open>s.split()\<close>: maximal runs of non-space characters.\<close>

fun words_acc :: "string \<Rightarrow> string \<Rightarrow> string list" where
  "words_acc acc [] = (if acc = [] then [] else [rev acc])"
| "words_acc acc (x # xs) =
     (if is_space x then (if acc = [] then words_acc [] xs else rev acc # words_acc [] xs)
      else words_acc (x # acc) xs)"

definition str_words :: "string \<Rightarrow> string list" where
  "str_words s = words_acc [] s"

fun str_join :: "char \<Rightarrow> string list \<Rightarrow> string" where
  "str_join c [] = []"
| "str_join c [w] = w"
| "str_join c (w # ws) = w @ c # str_join c ws"

definition digit_val :: "char \<Rightarrow> nat" where
  "digit_val c = of_char c - 48"

definition digits_val :: "string \<Rightarrow> nat" where
  "digits_val s = foldl (\<lambda>n c. 10 * n + digit_val c) 0 s"

text \<open>
  \<open>int(s)\<close>: surrounding white space, an optional sign, decimal digits (underscore separators,
  which \<open>int\<close> also accepts between digits, are outside the model); everything else is a
  \<open>ValueError\<close>.
\<close>

definition parse_int :: "string \<Rightarrow> exn + int" where
  "parse_int s0 =
     (let s = str_strip s0;
          sgn = (case s of c # _ \<Rightarrow> (if c = CHR ''-'' then -1 else 1) | [] \<Rightarrow> 1);
          ds = (case s of c # cs \<Rightarrow> (if c = CHR ''-'' \<or> c = CHR ''+'' then cs else s) | [] \<Rightarrow> [])
      in if ds \<noteq> [] \<and> list_all is_digit ds then Inr (sgn * int (digits_val ds))
         else Inl (Exn ValueErr ''invalid literal for int()''))"

lemma str_split_not_Nil [simp]: "str_split c s \<noteq> []"
  by (cases s) (auto split: list.splits)

lemma str_join_split: "str_join c (str_split c s) = s"
proof (induction s)
  case (Cons x xs)
  obtain w ws where e: "str_split c xs = w # ws"
    by (cases "str_split c xs") auto
  with Cons show ?case
    by (cases ws) auto
qed simp

lemma str_split_no_sep: "c \<notin> set s \<Longrightarrow> str_split c s = [s]"
  by (induction s) auto

lemma str_split_pieces: "w \<in> set (str_split c s) \<Longrightarrow> c \<notin> set w"
proof (induction s arbitrary: w)
  case (Cons x xs)
  obtain v vs where e: "str_split c xs = v # vs"
    by (cases "str_split c xs") auto
  with Cons show ?case
    by (auto split: if_splits)
qed simp

lemma str_split_append: "c \<notin> set w \<Longrightarrow> str_split c (w @ c # s) = w # str_split c s"
  by (induction w) auto

lemma str_split_join:
  "ws \<noteq> [] \<Longrightarrow> (\<And>w. w \<in> set ws \<Longrightarrow> c \<notin> set w) \<Longrightarrow> str_split c (str_join c ws) = ws"
  by (induction c ws rule: str_join.induct) (auto simp: str_split_no_sep str_split_append)

lemma str_lower_length [simp]: "length (str_lower s) = length s"
  by (simp add: str_lower_def)

lemma char_lower_idem [simp]: "char_lower (char_lower c) = char_lower c"
  by (auto simp: char_lower_def in_range_char_def)

lemma str_lower_idem [simp]: "str_lower (str_lower s) = str_lower s"
  by (simp add: str_lower_def)

lemma digits_val_snoc: "digits_val (s @ [c]) = 10 * digits_val s + digit_val c"
  by (simp add: digits_val_def)

lemma digit_val_digit_char: "d < 10 \<Longrightarrow> digit_val (digit_char d) = d"
  by (simp add: digit_val_def digit_char_def)

lemma is_digit_digit_char: "d < 10 \<Longrightarrow> is_digit (digit_char d)"
  by (simp add: is_digit_def digit_char_def in_range_char_def)

lemma nat_str_not_Nil [simp]: "nat_str n \<noteq> []"
  by (subst nat_str.simps) simp

lemma nat_str_digits: "list_all is_digit (nat_str n)"
proof (induction n rule: nat_str.induct)
  case (1 n)
  then show ?case
    by (cases "n < 10") (simp_all add: nat_str.simps [of n] is_digit_digit_char)
qed

lemma digits_val_nat_str: "digits_val (nat_str n) = n"
proof (induction n rule: nat_str.induct)
  case (1 n)
  show ?case
  proof (cases "n < 10")
    case True
    then show ?thesis
      by (simp add: nat_str.simps [of n] digits_val_def digit_val_digit_char)
  next
    case False
    then show ?thesis
      using 1 by (simp add: nat_str.simps [of n] digits_val_snoc digit_val_digit_char)
  qed
qed

lemma is_digit_not_space: "is_digit c \<Longrightarrow> \<not> is_space c"
  by (auto simp: is_digit_def is_space_def in_range_char_def)

lemma dropWhile_none: "list_all (\<lambda>c. \<not> P c) s \<Longrightarrow> dropWhile P s = s"
  by (cases s) auto

lemma str_strip_no_space: "list_all (\<lambda>c. \<not> is_space c) s \<Longrightarrow> str_strip s = s"
  by (simp add: str_strip_def dropWhile_none list_all_rev)

lemma str_strip_digits: "list_all is_digit s \<Longrightarrow> str_strip s = s"
  by (rule str_strip_no_space) (auto simp: list_all_iff is_digit_not_space)

lemma parse_int_nat_str: "parse_int (nat_str n) = Inr (int n)"
proof -
  obtain c cs where cs: "nat_str n = c # cs"
    by (cases "nat_str n") auto
  have d: "list_all is_digit (c # cs)"
    using nat_str_digits [of n] cs by simp
  then have "c \<noteq> CHR ''-''" "c \<noteq> CHR ''+''"
    by (auto simp: is_digit_def in_range_char_def)
  then show ?thesis
    using d digits_val_nat_str [of n] cs
    by (simp add: parse_int_def cs str_strip_digits Let_def)
qed

text \<open>\<open>k in s\<close> for strings\<close>

definition has_part :: "string \<Rightarrow> string \<Rightarrow> bool" where
  "has_part k s = list_ex (\<lambda>i. take (length k) (drop i s) = k) [0..<length s + 1]"

text \<open>\<open>sep.join(xs)\<close> for a separator of any length.\<close>

definition join_with :: "string \<Rightarrow> string list \<Rightarrow> string" where
  "join_with sep xs = (case xs of [] \<Rightarrow> [] | x # rest \<Rightarrow> x @ concat (map (\<lambda>y. sep @ y) rest))"

end
