(* ===== verification/ExecJobs.thy ===== *)
theory ExecJobs
  imports PyStrings
begin

text \<open>
  \<open>yasin_core/execution/models.py\<close>: the job record, its status and priority enumerations, the
  constructor, the property setters, \<open>cancel\<close> and \<open>to_dict\<close>. A job object is one value of
  \<open>job\<close>; the theories that share jobs between containers keep them in a store indexed by
  object identity (\<open>nat\<close>).
\<close>

section \<open>Enumerations\<close>

datatype job_status = J_PENDING | J_QUEUED | J_RUNNING | J_COMPLETED | J_FAILED | J_CANCELLED

fun job_status_value :: "job_status \<Rightarrow> string" where
  "job_status_value J_PENDING = ''pending''"
| "job_status_value J_QUEUED = ''queued''"
| "job_status_value J_RUNNING = ''running''"
| "job_status_value J_COMPLETED = ''completed''"
| "job_status_value J_FAILED = ''failed''"
| "job_status_value J_CANCELLED = ''cancelled''"

definition all_job_status :: "job_status list" where
  "all_job_status = [J_PENDING, J_QUEUED, J_RUNNING, J_COMPLETED, J_FAILED, J_CANCELLED]"

text \<open>\<open>JobStatus(v)\<close>: lookup by value.\<close>

definition job_status_of :: "string \<Rightarrow> exn + job_status" where
  "job_status_of v =
     (case filter (\<lambda>s. job_status_value s = v) all_job_status of
        s # _ \<Rightarrow> Inr s
      | [] \<Rightarrow> Inl (Exn ValueErr (v @ '' is not a valid JobStatus'')))"

datatype job_priority = P_LOW | P_NORMAL | P_HIGH | P_CRITICAL

fun priority_value :: "job_priority \<Rightarrow> int" where
  "priority_value P_LOW = 10"
| "priority_value P_NORMAL = 20"
| "priority_value P_HIGH = 30"
| "priority_value P_CRITICAL = 40"

instantiation job_priority :: linorder
begin

definition less_eq_job_priority :: "job_priority \<Rightarrow> job_priority \<Rightarrow> bool" where
  "less_eq_job_priority a b \<longleftrightarrow> priority_value a \<le> priority_value b"

definition less_job_priority :: "job_priority \<Rightarrow> job_priority \<Rightarrow> bool" where
  "less_job_priority a b \<longleftrightarrow> priority_value a < priority_value b"

instance
proof
  fix a b :: job_priority
  show "a \<le> b \<Longrightarrow> b \<le> a \<Longrightarrow> a = b"
    by (cases a; cases b) (simp_all add: less_eq_job_priority_def)
qed (auto simp: less_eq_job_priority_def less_job_priority_def)

end

text \<open>
  What a job runs: a callable (its module and \<open>__name__\<close>), the name of an agent or plugin, or
  an object that is neither (its type's name and its \<open>str\<close>).
\<close>

datatype job_target = T_Callable string string | T_Name string | T_Other string string

section \<open>The job object\<close>

record job =
  job_id :: string
  job_name :: string
  job_target :: job_target
  job_args :: "pyval list"
  job_kwargs :: pydict
  job_priority :: int
  job_retries :: int
  job_retry_count :: int
  job_timeout :: "real option"
  job_status :: job_status
  job_result :: pyval
  job_error :: "string option"
  job_created_at :: real
  job_started_at :: "real option"
  job_completed_at :: "real option"
  job_context_id :: "string option"
  job_cancelled :: bool
  job_worker_id :: "string option"

definition or_default :: "string option \<Rightarrow> string \<Rightarrow> string" where
  "or_default s d = (case s of Some x \<Rightarrow> if x = [] then d else x | None \<Rightarrow> d)"

definition str_of_pyval :: "pyval \<Rightarrow> string option" where
  "str_of_pyval v = (case v of PStr s \<Rightarrow> Some s | _ \<Rightarrow> None)"

text \<open>
  \<open>Job(target, args, kwargs, id, name, priority, retries, timeout, context_id)\<close>; \<open>uuid\<close> and
  \<open>now\<close> are what \<open>uuid.uuid4()\<close> and \<open>time.time()\<close> return. The worker id is read from the keyword
  arguments, where it is a string as annotated.
\<close>

definition mk_job ::
  "job_target \<Rightarrow> pyval list option \<Rightarrow> pydict option \<Rightarrow> string option \<Rightarrow> string option \<Rightarrow> int \<Rightarrow> int
   \<Rightarrow> real option \<Rightarrow> string option \<Rightarrow> string \<Rightarrow> real \<Rightarrow> job" where
  "mk_job target args kwargs jid name priority retries timeout ctx uuid now =
     (let i = or_default jid uuid in
      \<lparr> job_id = i,
        job_name = or_default name (''job-'' @ take 8 i),
        job_target = target,
        job_args = (case args of Some a \<Rightarrow> a | None \<Rightarrow> []),
        job_kwargs = (case kwargs of Some k \<Rightarrow> k | None \<Rightarrow> []),
        job_priority = priority,
        job_retries = retries,
        job_retry_count = 0,
        job_timeout = timeout,
        job_status = J_PENDING,
        job_result = PNone,
        job_error = None,
        job_created_at = now,
        job_started_at = None,
        job_completed_at = None,
        job_context_id = ctx,
        job_cancelled = False,
        job_worker_id =
          (case kwargs of Some k \<Rightarrow> str_of_pyval (pyget k ''worker_id'') | None \<Rightarrow> None) \<rparr>)"

text \<open>The \<open>status\<close> setter given a string (an unknown name raises and stores nothing).\<close>

definition set_status_str :: "string \<Rightarrow> job \<Rightarrow> exn + job" where
  "set_status_str v j =
     (case job_status_of (str_lower v) of
        Inl e \<Rightarrow> Inl e
      | Inr s \<Rightarrow> Inr (j\<lparr>job_status := s\<rparr>))"

definition job_terminal :: "job_status \<Rightarrow> bool" where
  "job_terminal s \<longleftrightarrow> s \<in> {J_COMPLETED, J_FAILED, J_CANCELLED}"

text \<open>\<open>Job.cancel()\<close> at time \<open>now\<close>: the new object and the returned truth value.\<close>

definition job_cancel :: "real \<Rightarrow> job \<Rightarrow> job \<times> bool" where
  "job_cancel now j =
     (if job_terminal (job_status j) then (j, False)
      else (j\<lparr>job_cancelled := True, job_status := J_CANCELLED,
               job_completed_at := Some now\<rparr>, True))"

fun target_name :: "job_target \<Rightarrow> string" where
  "target_name (T_Callable m n) = n"
| "target_name (T_Name s) = s"
| "target_name (T_Other t s) = s"

definition job_to_dict :: "job \<Rightarrow> pydict" where
  "job_to_dict j =
     [(''id'', PStr (job_id j)),
      (''name'', PStr (job_name j)),
      (''target'', PStr (target_name (job_target j))),
      (''args'', PList (job_args j)),
      (''kwargs'', PDict (job_kwargs j)),
      (''priority'', PInt (job_priority j)),
      (''retries'', PInt (job_retries j)),
      (''retry_count'', PInt (job_retry_count j)),
      (''timeout'', opt_float (job_timeout j)),
      (''status'', PStr (job_status_value (job_status j))),
      (''result'', job_result j),
      (''error'', opt_str (job_error j)),
      (''created_at'', PFloat (job_created_at j)),
      (''started_at'', opt_float (job_started_at j)),
      (''completed_at'', opt_float (job_completed_at j)),
      (''context_id'', opt_str (job_context_id j)),
      (''cancelled'', PBool (job_cancelled j)),
      (''worker_id'', opt_str (job_worker_id j))]"

section \<open>Lemmas\<close>

lemma job_status_value_inj [simp]: "job_status_value a = job_status_value b \<longleftrightarrow> a = b"
  by (cases a; cases b) simp_all

lemma job_status_of_value [simp]: "job_status_of (job_status_value s) = Inr s"
  by (cases s) (simp_all add: job_status_of_def all_job_status_def)

lemma job_status_of_Inr: "job_status_of v = Inr s \<Longrightarrow> job_status_value s = v"
  by (auto simp: job_status_of_def all_job_status_def split: list.splits if_splits)

lemma str_lower_status_value [simp]: "str_lower (job_status_value s) = job_status_value s"
  by (cases s) (simp_all add: str_lower_def char_lower_def in_range_char_def)

lemma job_terminal_simps [simp]:
  "job_terminal J_COMPLETED" "job_terminal J_FAILED" "job_terminal J_CANCELLED"
  "\<not> job_terminal J_PENDING" "\<not> job_terminal J_QUEUED" "\<not> job_terminal J_RUNNING"
  by (simp_all add: job_terminal_def)

lemma job_cancel_terminal [simp]: "job_terminal (job_status (fst (job_cancel now j)))"
  by (simp add: job_cancel_def)

lemma job_cancel_frames [state_frames]:
  "job_id (fst (job_cancel now j)) = job_id j"
  "job_retries (fst (job_cancel now j)) = job_retries j"
  "job_retry_count (fst (job_cancel now j)) = job_retry_count j"
  "job_priority (fst (job_cancel now j)) = job_priority j"
  "job_created_at (fst (job_cancel now j)) = job_created_at j"
  by (simp_all add: job_cancel_def)

end
