(* ===== verification/JobProperties.thy ===== *)
theory JobProperties
  imports ExecJobs
begin

text \<open>
  The properties of \<open>Job\<close> in \<open>execution/models.py\<close>: what the callers of a job read and assign. The lock around each access
  makes it one step. Values have the types of the annotations.
\<close>

section \<open>Reading\<close>

text \<open>The value of a property: a target, a status, a tuple, or plain data\<close>

datatype job_value = Target_Value job_target | Status_Value job_status | Tuple_Value "pyval list" | Data_Value pyval

definition job_properties :: "(string \<times> (job \<Rightarrow> job_value)) list" where
  "job_properties =
     [(''id'', \<lambda>j. Data_Value (PStr (job_id j))),
      (''name'', \<lambda>j. Data_Value (PStr (job_name j))),
      (''target'', \<lambda>j. Target_Value (job_target j)),
      (''args'', \<lambda>j. Tuple_Value (job_args j)),
      (''kwargs'', \<lambda>j. Data_Value (PDict (job_kwargs j))),
      (''priority'', \<lambda>j. Data_Value (PInt (job_priority j))),
      (''retries'', \<lambda>j. Data_Value (PInt (job_retries j))),
      (''retry_count'', \<lambda>j. Data_Value (PInt (job_retry_count j))),
      (''timeout'', \<lambda>j. Data_Value (opt_float (job_timeout j))),
      (''status'', \<lambda>j. Status_Value (job_status j)),
      (''result'', \<lambda>j. Data_Value (job_result j)),
      (''error'', \<lambda>j. Data_Value (opt_str (job_error j))),
      (''created_at'', \<lambda>j. Data_Value (PFloat (job_created_at j))),
      (''started_at'', \<lambda>j. Data_Value (opt_float (job_started_at j))),
      (''completed_at'', \<lambda>j. Data_Value (opt_float (job_completed_at j))),
      (''context_id'', \<lambda>j. Data_Value (opt_str (job_context_id j))),
      (''worker_id'', \<lambda>j. Data_Value (opt_str (job_worker_id j))),
      (''cancelled'', \<lambda>j. Data_Value (PBool (job_cancelled j)))]"

definition job_property :: "string \<Rightarrow> job \<Rightarrow> job_value option" where
  "job_property name j = map_option (\<lambda>f. f j) (map_of job_properties name)"

text \<open>What \<open>to_dict\<close> writes for a value\<close>

fun plain_value :: "job_value \<Rightarrow> pyval" where
  "plain_value (Target_Value t) = PStr (target_name t)"
| "plain_value (Status_Value s) = PStr (job_status_value s)"
| "plain_value (Tuple_Value xs) = PList xs"
| "plain_value (Data_Value v) = v"

section \<open>Assigning\<close>

text \<open>The properties that have a setter, with the value given\<close>

datatype job_assignment =
    Assign_Priority int
  | Assign_Retry_Count int
  | Assign_Status job_status
  | Assign_Status_Name string
  | Assign_Result pyval
  | Assign_Error "string option"
  | Assign_Started_At "real option"
  | Assign_Completed_At "real option"
  | Assign_Context_Id "string option"
  | Assign_Worker_Id "string option"

fun assigned_property :: "job_assignment \<Rightarrow> string" where
  "assigned_property (Assign_Priority _) = ''priority''"
| "assigned_property (Assign_Retry_Count _) = ''retry_count''"
| "assigned_property (Assign_Status _) = ''status''"
| "assigned_property (Assign_Status_Name _) = ''status''"
| "assigned_property (Assign_Result _) = ''result''"
| "assigned_property (Assign_Error _) = ''error''"
| "assigned_property (Assign_Started_At _) = ''started_at''"
| "assigned_property (Assign_Completed_At _) = ''completed_at''"
| "assigned_property (Assign_Context_Id _) = ''context_id''"
| "assigned_property (Assign_Worker_Id _) = ''worker_id''"

fun assign_property :: "job_assignment \<Rightarrow> job \<Rightarrow> exn + job" where
  "assign_property (Assign_Priority v) j = Inr (j\<lparr>job_priority := v\<rparr>)"
| "assign_property (Assign_Retry_Count v) j = Inr (j\<lparr>job_retry_count := v\<rparr>)"
| "assign_property (Assign_Status s) j = Inr (j\<lparr>job_status := s\<rparr>)"
| "assign_property (Assign_Status_Name s) j = set_status_str s j"
| "assign_property (Assign_Result v) j = Inr (j\<lparr>job_result := v\<rparr>)"
| "assign_property (Assign_Error v) j = Inr (j\<lparr>job_error := v\<rparr>)"
| "assign_property (Assign_Started_At v) j = Inr (j\<lparr>job_started_at := v\<rparr>)"
| "assign_property (Assign_Completed_At v) j = Inr (j\<lparr>job_completed_at := v\<rparr>)"
| "assign_property (Assign_Context_Id v) j = Inr (j\<lparr>job_context_id := v\<rparr>)"
| "assign_property (Assign_Worker_Id v) j = Inr (j\<lparr>job_worker_id := v\<rparr>)"

text \<open>The value that the property has afterwards\<close>

fun assigned_value :: "job_assignment \<Rightarrow> exn + job_value" where
  "assigned_value (Assign_Priority v) = Inr (Data_Value (PInt v))"
| "assigned_value (Assign_Retry_Count v) = Inr (Data_Value (PInt v))"
| "assigned_value (Assign_Status s) = Inr (Status_Value s)"
| "assigned_value (Assign_Status_Name s) = map_sum id Status_Value (job_status_of (str_lower s))"
| "assigned_value (Assign_Result v) = Inr (Data_Value v)"
| "assigned_value (Assign_Error v) = Inr (Data_Value (opt_str v))"
| "assigned_value (Assign_Started_At v) = Inr (Data_Value (opt_float v))"
| "assigned_value (Assign_Completed_At v) = Inr (Data_Value (opt_float v))"
| "assigned_value (Assign_Context_Id v) = Inr (Data_Value (opt_str v))"
| "assigned_value (Assign_Worker_Id v) = Inr (Data_Value (opt_str v))"

section \<open>Reading, assigning and the dictionary agree\<close>

lemma properties_in_dict:
  "map_of (job_to_dict j) name = map_option plain_value (job_property name j)"
  by (simp add: job_to_dict_def job_property_def job_properties_def)

lemma dict_keys_properties: "set (map fst (job_to_dict j)) = set (map fst job_properties)"
  by (auto simp: job_to_dict_def job_properties_def)

text \<open>An assignment changes the one property and no other, or raises and changes nothing.\<close>

theorem assignment_effect:
  "case assigned_value a of
     Inl e \<Rightarrow> assign_property a j = Inl e
   | Inr v \<Rightarrow> (\<exists>j'. assign_property a j = Inr j' \<and> job_property (assigned_property a) j' = Some v
        \<and> (\<forall>name. name \<noteq> assigned_property a \<longrightarrow> job_property name j' = job_property name j)
        \<and> job_to_dict j' = AList.update (assigned_property a) (plain_value v) (job_to_dict j))"
  by (cases a; cases "\<exists>s. a = Assign_Status_Name s")
    (auto simp: job_property_def job_properties_def job_to_dict_def set_status_str_def split: sum.splits)

end
