(* ===== verification/ExecQueue.thy ===== *)
theory ExecQueue
  imports ExecJobs "HOL-Library.Product_Lexorder" "HOL-Library.Multiset"
begin

text \<open>
  \<open>yasin_core/execution/queue.py\<close>. \<open>queue.PriorityQueue\<close> hands out the least entry; it is kept
  here as the list of its entries in increasing order. An entry is the tuple of the source,
  \<open>(-priority, created_at, counter, job)\<close>; the job is an object reference, and the counter makes
  every tuple distinct before the comparison reaches it.
\<close>

section \<open>The interface\<close>

text \<open>
  What the engine and its workers rely on: an entry put is in the queue, \<open>get\<close> fails exactly on
  the empty queue and otherwise removes a least entry.
\<close>

locale priority_queue =
  fixes entries :: "'q \<Rightarrow> ('k::linorder \<times> 'a) multiset"
    and empty :: "'q"
    and put :: "'j \<Rightarrow> 'a \<Rightarrow> 'q \<Rightarrow> 'q"
    and get :: "'q \<Rightarrow> ('a \<times> 'q) option"
    and key :: "'j \<Rightarrow> 'q \<Rightarrow> 'k"
    and invar :: "'q \<Rightarrow> bool"
  assumes entries_empty: "entries empty = {#}"
    and entries_put: "invar q \<Longrightarrow> entries (put j x q) = add_mset (key j q, x) (entries q)"
    and get_None: "invar q \<Longrightarrow> get q = None \<longleftrightarrow> entries q = {#}"
    and get_Some: "invar q \<Longrightarrow> get q = Some (x, q') \<Longrightarrow>
          \<exists>k. entries q = add_mset (k, x) (entries q') \<and> (\<forall>e \<in># entries q'. k \<le> fst e)"
    and invar_empty: "invar empty"
    and invar_put: "invar q \<Longrightarrow> invar (put j x q)"
    and invar_get: "invar q \<Longrightarrow> get q = Some (x, q') \<Longrightarrow> invar q'"
begin

lemma get_size: "invar q \<Longrightarrow> get q = Some (x, q') \<Longrightarrow> size (entries q) = Suc (size (entries q'))"
  using get_Some by fastforce

lemma put_not_empty: "invar q \<Longrightarrow> get (put j x q) \<noteq> None"
  by (simp add: get_None entries_put invar_put)

lemma get_members:
  assumes "invar q" "get q = Some (x, q')"
  shows "snd ` set_mset (entries q) = insert x (snd ` set_mset (entries q'))"
  using get_Some [OF assms] by auto

lemma put_members:
  "invar q \<Longrightarrow> snd ` set_mset (entries (put j x q)) = insert x (snd ` set_mset (entries q))"
  by (simp add: entries_put)

lemma get_least:
  assumes "invar q" "get q = Some (x, q')"
  shows "\<exists>k. (k, x) \<in># entries q \<and> (\<forall>e \<in># entries q. k \<le> fst e)"
  using get_Some [OF assms] by fastforce

end

section \<open>JobQueue\<close>

type_synonym queue_key = "int \<times> real \<times> nat"

record job_queue =
  jq_heap :: "(queue_key \<times> nat) list"
  jq_counter :: nat

definition jq_init :: job_queue where
  "jq_init = \<lparr> jq_heap = [], jq_counter = 0 \<rparr>"

definition jq_key :: "job \<Rightarrow> job_queue \<Rightarrow> queue_key" where
  "jq_key j q = (- job_priority j, job_created_at j, jq_counter q + 1)"

definition jq_put :: "job \<Rightarrow> nat \<Rightarrow> job_queue \<Rightarrow> job_queue" where
  "jq_put j ob q =
     \<lparr> jq_heap = insort_key fst (jq_key j q, ob) (jq_heap q), jq_counter = jq_counter q + 1 \<rparr>"

definition jq_empty :: "job_queue \<Rightarrow> bool" where
  "jq_empty q \<longleftrightarrow> jq_heap q = []"

definition jq_size :: "job_queue \<Rightarrow> nat" where
  "jq_size q = length (jq_heap q)"

definition jq_get_nowait :: "job_queue \<Rightarrow> exn + (nat \<times> job_queue)" where
  "jq_get_nowait q =
     (case jq_heap q of
        [] \<Rightarrow> Inl (Exn QueueEmptyErr [])
      | e # es \<Rightarrow> Inr (snd e, q\<lparr>jq_heap := es\<rparr>))"

text \<open>
  \<open>get(timeout)\<close>: a blocking wait either finds an entry or ends in \<open>queue.Empty\<close>, so on the
  state at its end it is \<open>get_nowait\<close>.
\<close>

definition jq_get :: "job_queue \<Rightarrow> exn + (nat \<times> job_queue)" where
  "jq_get q = jq_get_nowait q"

text \<open>\<open>clear\<close>: take entries until the queue is empty.\<close>

function jq_clear :: "job_queue \<Rightarrow> job_queue" where
  "jq_clear q =
     (if jq_empty q then q
      else case jq_get_nowait q of Inl _ \<Rightarrow> q | Inr (ob, q') \<Rightarrow> jq_clear q')"
  by pat_completeness auto
termination
  by (relation "measure jq_size")
    (auto simp: jq_get_nowait_def jq_size_def split: list.splits)

declare jq_clear.simps [simp del]

definition jq_objs :: "job_queue \<Rightarrow> nat list" where
  "jq_objs q = map snd (jq_heap q)"

text \<open>Invariant: the entries are in order and their counters are distinct and in the past.\<close>

definition jq_wf :: "job_queue \<Rightarrow> bool" where
  "jq_wf q \<longleftrightarrow> sorted (map fst (jq_heap q)) \<and> distinct (map (\<lambda>e. snd (snd (fst e))) (jq_heap q))
     \<and> (\<forall>e \<in> set (jq_heap q). snd (snd (fst e)) \<le> jq_counter q)"

definition jq_get_opt :: "job_queue \<Rightarrow> (nat \<times> job_queue) option" where
  "jq_get_opt q = (case jq_get_nowait q of Inl _ \<Rightarrow> None | Inr r \<Rightarrow> Some r)"

lemma jq_wf_init [simp]: "jq_wf jq_init"
  by (simp add: jq_wf_def jq_init_def)

lemma set_jq_put [simp]:
  "set (jq_heap (jq_put j ob q)) = insert (jq_key j q, ob) (set (jq_heap q))"
  by (simp add: jq_put_def set_insort_key)

lemma jq_objs_put [simp]: "set (jq_objs (jq_put j ob q)) = insert ob (set (jq_objs q))"
  by (simp add: jq_objs_def)

lemma jq_size_put [simp]: "jq_size (jq_put j ob q) = Suc (jq_size q)"
  by (simp add: jq_size_def jq_put_def)

lemma distinct_insort_counter:
  "distinct (map g xs) \<Longrightarrow> g x \<notin> g ` set xs \<Longrightarrow> distinct (map g (insort_key f x xs))"
  by (induction xs) (auto simp: set_insort_key)

lemma jq_wf_put [simp]:
  assumes "jq_wf q"
  shows "jq_wf (jq_put j ob q)"
proof -
  have "snd (snd (fst (jq_key j q, ob))) \<notin> (\<lambda>e. snd (snd (fst e))) ` set (jq_heap q)"
    using assms by (fastforce simp: jq_wf_def jq_key_def)
  with assms show ?thesis
    by (auto simp: jq_wf_def jq_put_def jq_key_def sorted_insort_key set_insort_key
        distinct_insort_counter le_Suc_eq)
qed

lemma jq_get_Inr:
  "jq_get_nowait q = Inr (ob, q') \<longleftrightarrow>
     (\<exists>k es. jq_heap q = (k, ob) # es \<and> q' = q\<lparr>jq_heap := es\<rparr>)"
  by (auto simp: jq_get_nowait_def split: list.splits)

lemma jq_get_Inl: "jq_get_nowait q = Inl e \<longleftrightarrow> jq_heap q = [] \<and> e = Exn QueueEmptyErr []"
  by (auto simp: jq_get_nowait_def split: list.splits)

lemma jq_wf_get: "jq_wf q \<Longrightarrow> jq_get_nowait q = Inr (ob, q') \<Longrightarrow> jq_wf q'"
  by (fastforce simp: jq_wf_def jq_get_Inr)

lemma jq_objs_get: "jq_get_nowait q = Inr (ob, q') \<Longrightarrow> jq_objs q = ob # jq_objs q'"
  by (auto simp: jq_get_Inr jq_objs_def)

lemma jq_get_opt_Some: "jq_get_opt q = Some r \<longleftrightarrow> jq_get_nowait q = Inr r"
  by (auto simp: jq_get_opt_def split: sum.splits)

interpretation jobq: priority_queue "\<lambda>q. mset (jq_heap q)" jq_init jq_put jq_get_opt jq_key jq_wf
proof unfold_locales
  fix q and x :: nat and q'
  assume "jq_wf q" "jq_get_opt q = Some (x, q')"
  then show "\<exists>k. mset (jq_heap q) = add_mset (k, x) (mset (jq_heap q'))
      \<and> (\<forall>e \<in># mset (jq_heap q'). k \<le> fst e)"
    by (auto simp: jq_get_opt_Some jq_get_Inr jq_wf_def)
next
  fix q j and x :: nat
  show "jq_wf q \<Longrightarrow> jq_wf (jq_put j x q)" by (rule jq_wf_put)
next
  fix q and x :: nat and q'
  show "jq_wf q \<Longrightarrow> jq_get_opt q = Some (x, q') \<Longrightarrow> jq_wf q'"
    by (simp add: jq_get_opt_Some jq_wf_get)
qed (auto simp: jq_init_def jq_put_def mset_insort jq_get_opt_def jq_get_nowait_def
       jq_wf_def split: list.splits)

section \<open>The queue as a stable sort\<close>

text \<open>The order of the class comment: priority downwards, then creation time, then arrival.\<close>

definition urgency :: "job \<times> nat \<Rightarrow> int \<times> real" where
  "urgency p = (- job_priority (fst p), job_created_at (fst p))"

definition queue_of :: "(job \<times> nat) list \<Rightarrow> job_queue" where
  "queue_of xs = foldl (\<lambda>q p. jq_put (fst p) (snd p) q) jq_init xs"

definition entry_urgency :: "queue_key \<times> nat \<Rightarrow> int \<times> real" where
  "entry_urgency e = (fst (fst e), fst (snd (fst e)))"

lemma mset_eq_if_filters_eq:
  assumes "\<And>k. filter (\<lambda>y. f y = k) ys = filter (\<lambda>y. f y = k) xs"
  shows "mset ys = mset xs"
proof (rule multiset_eqI)
  fix y
  have "count (mset zs) y = count (mset (filter (\<lambda>z. f z = f y) zs)) y" for zs
    by simp
  then show "count (mset ys) y = count (mset xs) y"
    using assms [of "f y"] by metis
qed

lemma sort_key_unique:
  assumes "\<And>k. filter (\<lambda>y. f y = k) ys = filter (\<lambda>y. f y = k) xs" "sorted (map f ys)"
  shows "sort_key f xs = ys"
  by (rule properties_for_sort_key [OF mset_eq_if_filters_eq [of f]])
    (use assms in \<open>auto simp: eq_commute\<close>)

lemma insort_key_map: "insort_key f (g x) (map g xs) = map g (insort_key (\<lambda>x. f (g x)) x xs)"
  by (induction xs) auto

lemma sort_key_map: "sort_key f (map g xs) = map g (sort_key (\<lambda>x. f (g x)) xs)"
  by (induction xs) (auto simp: insort_key_map)

lemma filter_insort_newest:
  assumes "sorted (map fst h)" "\<forall>e \<in> set h. snd (snd (fst e)) < n"
  shows "filter (\<lambda>e. entry_urgency e = k) (insort_key fst ((p, c, n), ob) h)
       = filter (\<lambda>e. entry_urgency e = k) h @ (if (p, c) = k then [((p, c, n), ob)] else [])"
  using assms
proof (induction h)
  case (Cons e h)
  show ?case
  proof (cases "(p, c, n) \<le> fst e")
    case True
    then have lt: "(p, c) < entry_urgency e"
      using Cons.prems(2) by (cases e) (auto simp: entry_urgency_def)
    have le: "entry_urgency e \<le> entry_urgency e'" if "e' \<in> set h" for e'
      using Cons.prems(1) that by (cases e; cases e') (fastforce simp: entry_urgency_def)
    have "(p, c) < entry_urgency e'" if "e' \<in> set (e # h)" for e'
      using that lt le by (metis less_le_trans set_ConsD)
    then have none: "filter (\<lambda>e. entry_urgency e = k) (e # h) = []" if "(p, c) = k"
      unfolding filter_empty_conv using that by (metis less_irrefl)
    have "entry_urgency ((p, c, n), ob) = (p, c)"
      by (simp add: entry_urgency_def)
    with True none show ?thesis
      by (cases "(p, c) = k") (simp_all del: filter.simps add: filter.simps(2) [of _ "((p, c, n), ob)"])
  next
    case False
    with Cons show ?thesis by simp
  qed
qed (simp add: entry_urgency_def)

lemma queue_of_snoc: "queue_of (xs @ [p]) = jq_put (fst p) (snd p) (queue_of xs)"
  by (simp add: queue_of_def)

lemma jq_wf_queue_of [simp]: "jq_wf (queue_of xs)"
  by (induction xs rule: rev_induct) (simp_all add: queue_of_snoc, simp add: queue_of_def)

lemma queue_of_filter:
  "map (\<lambda>e. (entry_urgency e, snd e)) (filter (\<lambda>e. entry_urgency e = k) (jq_heap (queue_of xs)))
     = map (\<lambda>p. (urgency p, snd p)) (filter (\<lambda>p. urgency p = k) xs)"
proof (induction xs rule: rev_induct)
  case Nil
  show ?case by (simp add: queue_of_def jq_init_def)
next
  case (snoc p xs)
  have "sorted (map fst (jq_heap (queue_of xs)))"
    "\<forall>e \<in> set (jq_heap (queue_of xs)). snd (snd (fst e)) < jq_counter (queue_of xs) + 1"
    using jq_wf_queue_of [of xs] by (auto simp: jq_wf_def le_imp_less_Suc)
  from filter_insort_newest [OF this, of k] snoc show ?case
    by (simp add: queue_of_snoc jq_put_def jq_key_def urgency_def entry_urgency_def)
qed

lemma queue_of_sorted: "sorted (map entry_urgency (jq_heap (queue_of xs)))"
proof -
  have "sorted (map fst (jq_heap (queue_of xs)))"
    using jq_wf_queue_of [of xs] by (simp add: jq_wf_def)
  then have "sorted_wrt (\<lambda>a b. entry_urgency a \<le> entry_urgency b) (jq_heap (queue_of xs))"
    by (auto simp: sorted_map entry_urgency_def elim!: sorted_wrt_mono_rel [rotated])
  then show ?thesis
    by (simp add: sorted_map)
qed

text \<open>
  \<open>C24\<close>. Jobs put into an empty queue come out in the documented order: highest priority first,
  oldest first among equals, and in arrival order where both agree; that is, the queue is a
  stable sort of the submitted jobs.
\<close>

theorem job_queue_stable_sort: "jq_objs (queue_of xs) = map snd (sort_key urgency xs)"
proof -
  let ?h = "map (\<lambda>e. (entry_urgency e, snd e)) (jq_heap (queue_of xs))"
  let ?x = "map (\<lambda>p. (urgency p, snd p)) xs"
  have same: "filter (\<lambda>y. fst y = k) ?h = filter (\<lambda>y. fst y = k) ?x" for k
    using queue_of_filter [of k xs] by (simp add: filter_map comp_def)
  have "sort_key fst ?x = ?h"
    by (rule sort_key_unique) (use same queue_of_sorted [of xs] in \<open>auto simp: comp_def\<close>)
  moreover have "sort_key fst ?x = map (\<lambda>p. (urgency p, snd p)) (sort_key urgency xs)"
    by (simp add: sort_key_map)
  ultimately show ?thesis
    by (simp add: jq_objs_def) (metis (no_types, lifting) comp_apply list.map_comp map_eq_conv snd_conv)
qed

lemma jq_clear_eq: "jq_clear q = q\<lparr>jq_heap := []\<rparr>"
proof (induction q rule: jq_clear.induct)
  case (1 q)
  show ?case
  proof (cases "jq_heap q")
    case Nil
    then show ?thesis by (simp add: jq_clear.simps [of q] jq_empty_def)
  next
    case (Cons e es)
    then have "jq_get_nowait q = Inr (snd e, q\<lparr>jq_heap := es\<rparr>)"
      by (simp add: jq_get_nowait_def)
    with 1 Cons show ?thesis
      by (simp add: jq_clear.simps [of q] jq_empty_def)
  qed
qed

end
