(* ===== verification/ExecWorld.thy ===== *)
theory ExecWorld
  imports ExecQueue
begin

text \<open>
  The state that the execution engine (\<open>execution/engine.py\<close>), its worker threads
  (\<open>execution/worker.py\<close>) and the distributed worker manager (\<open>execution/distributed.py\<close>)
  share. Job objects are mutated through every container that holds them, so they live in a store
  \<open>w_heap\<close> indexed by object identity; queues and registries hold identities. What leaves the
  program (published events, saved memory entries, metric increments) is appended to a log in the
  order in which the code produces it.
\<close>

section \<open>Worker nodes\<close>

datatype worker_state = W_REGISTERED | W_ACTIVE | W_OFFLINE | W_SUSPENDED | W_FAILED

fun worker_state_value :: "worker_state \<Rightarrow> string" where
  "worker_state_value W_REGISTERED = ''registered''"
| "worker_state_value W_ACTIVE = ''active''"
| "worker_state_value W_OFFLINE = ''offline''"
| "worker_state_value W_SUSPENDED = ''suspended''"
| "worker_state_value W_FAILED = ''failed''"

record worker_node =
  wn_id :: string
  wn_name :: string
  wn_status :: worker_state
  wn_caps :: "string list"
  wn_health :: pydict
  wn_heartbeat :: real
  wn_queue :: "nat list"
  wn_assigned :: "(string \<times> nat) list"

definition mk_node :: "string \<Rightarrow> string \<Rightarrow> string list \<Rightarrow> pydict \<Rightarrow> real \<Rightarrow> worker_node" where
  "mk_node wid name caps health now =
     \<lparr> wn_id = wid, wn_name = name, wn_status = W_REGISTERED, wn_caps = remdups caps,
       wn_health = health, wn_heartbeat = now, wn_queue = [], wn_assigned = [] \<rparr>"

definition dict_merge :: "('k \<times> 'v) list \<Rightarrow> ('k \<times> 'v) list \<Rightarrow> ('k \<times> 'v) list" where
  "dict_merge base upd = foldl (\<lambda>d p. AList.update (fst p) (snd p) d) base upd"

definition node_update_heartbeat :: "real \<Rightarrow> pydict \<Rightarrow> worker_node \<Rightarrow> worker_node" where
  "node_update_heartbeat now metrics n =
     n\<lparr> wn_heartbeat := now,
        wn_health := (if metrics \<noteq> [] then dict_merge (wn_health n) metrics else wn_health n),
        wn_status := (if wn_status n = W_REGISTERED \<or> wn_status n = W_OFFLINE then W_ACTIVE
                      else wn_status n) \<rparr>"

definition node_is_alive :: "real \<Rightarrow> real \<Rightarrow> worker_node \<Rightarrow> bool" where
  "node_is_alive timeout now n \<longleftrightarrow>
     (if wn_status n = W_OFFLINE \<or> wn_status n = W_FAILED then False
      else now - wn_heartbeat n < timeout)"

definition node_report_capability :: "string \<Rightarrow> worker_node \<Rightarrow> worker_node" where
  "node_report_capability c n = n\<lparr>wn_caps := List.insert c (wn_caps n)\<rparr>"

definition node_remove_capability :: "string \<Rightarrow> worker_node \<Rightarrow> worker_node" where
  "node_remove_capability c n = n\<lparr>wn_caps := removeAll c (wn_caps n)\<rparr>"

definition node_to_dict :: "worker_node \<Rightarrow> pydict" where
  "node_to_dict n =
     [(''id'', PStr (wn_id n)), (''name'', PStr (wn_name n)),
      (''status'', PStr (worker_state_value (wn_status n))),
      (''capabilities'', PList (map PStr (wn_caps n))),
      (''health'', PDict (wn_health n)),
      (''last_heartbeat'', PFloat (wn_heartbeat n)),
      (''assigned_job_count'', PInt (int (length (wn_assigned n)))),
      (''queue_size'', PInt (int (length (wn_queue n))))]"

section \<open>The shared state\<close>

record world =
  w_heap :: "nat \<Rightarrow> job option"
  w_queue :: job_queue
  w_jobs :: "(string \<times> nat) list"
  w_threads :: "string list"
  w_nodes :: "(string \<times> worker_node) list"
  w_monitor :: bool
  w_assignments :: int
  w_events :: "(string \<times> pydict) list"
  w_saved :: "(string \<times> pydict \<times> pydict) list"
  w_metrics :: "(string \<times> (string \<times> string) list) list"

text \<open>
  Which collaborators the \<open>client\<close> object offers: the \<open>hasattr\<close> and truth tests of the sources.
\<close>

record client_cfg =
  c_event_bus :: bool
  c_manager :: bool
  c_execution :: bool
  c_save_memory :: bool
  c_observability :: bool

definition full_client :: client_cfg where
  "full_client = \<lparr> c_event_bus = True, c_manager = True, c_execution = True,
                   c_save_memory = True, c_observability = True \<rparr>"

definition w_init :: world where
  "w_init = \<lparr> w_heap = (\<lambda>_. None), w_queue = jq_init, w_jobs = [], w_threads = [], w_nodes = [],
             w_monitor = False, w_assignments = 0, w_events = [], w_saved = [], w_metrics = [] \<rparr>"

definition upd_job :: "nat \<Rightarrow> (job \<Rightarrow> job) \<Rightarrow> world \<Rightarrow> world" where
  "upd_job ob f w = w\<lparr>w_heap := (w_heap w)(ob := map_option f (w_heap w ob))\<rparr>"

definition upd_node :: "string \<Rightarrow> (worker_node \<Rightarrow> worker_node) \<Rightarrow> world \<Rightarrow> world" where
  "upd_node wid f w =
     (case map_of (w_nodes w) wid of
        None \<Rightarrow> w
      | Some n \<Rightarrow> w\<lparr>w_nodes := AList.update wid (f n) (w_nodes w)\<rparr>)"

definition emit :: "client_cfg \<Rightarrow> string \<Rightarrow> pydict \<Rightarrow> world \<Rightarrow> world" where
  "emit cfg name payload w =
     (if c_event_bus cfg then w\<lparr>w_events := w_events w @ [(name, payload)]\<rparr> else w)"

text \<open>\<open>queue.put(job)\<close> on the central queue, reading the key from the object as it is now.\<close>

definition enqueue :: "nat \<Rightarrow> world \<Rightarrow> world" where
  "enqueue ob w =
     (case w_heap w ob of None \<Rightarrow> w | Some j \<Rightarrow> w\<lparr>w_queue := jq_put j ob (w_queue w)\<rparr>)"

text \<open>\<open>TaskExecutionEngine.get_job\<close>\<close>

definition engine_get_job :: "string \<Rightarrow> world \<Rightarrow> nat option" where
  "engine_get_job jid w = map_of (w_jobs w) jid"

text \<open>\<open>TaskExecutionEngine._publish_event\<close>\<close>

definition job_payload :: "job \<Rightarrow> pydict" where
  "job_payload j =
     [(''job_id'', PStr (job_id j)), (''job_name'', PStr (job_name j)),
      (''status'', PStr (job_status_value (job_status j))),
      (''result'', job_result j), (''error'', opt_str (job_error j)),
      (''priority'', PInt (job_priority j)), (''retry_count'', PInt (job_retry_count j)),
      (''context_id'', opt_str (job_context_id j)), (''job'', PDict (job_to_dict j))]"

definition publish_job :: "client_cfg \<Rightarrow> string \<Rightarrow> nat \<Rightarrow> world \<Rightarrow> world" where
  "publish_job cfg name ob w =
     (case w_heap w ob of None \<Rightarrow> w | Some j \<Rightarrow> emit cfg name (job_payload j) w)"

text \<open>\<open>TaskExecutionEngine._save_to_memory\<close>: key, value and metadata of the saved entry.\<close>

definition memory_entry :: "job \<Rightarrow> string \<times> pydict \<times> pydict" where
  "memory_entry j =
     (''job_execution:'' @ job_id j,
      [(''result'', job_result j), (''error'', opt_str (job_error j)),
       (''status'', PStr (job_status_value (job_status j)))],
      [(''job_id'', PStr (job_id j)), (''job_name'', PStr (job_name j)),
       (''status'', PStr (job_status_value (job_status j))),
       (''completed_at'', opt_float (job_completed_at j))]
      @ (case job_context_id j of
           Some c \<Rightarrow> if c = [] then [] else [(''context_id'', PStr c)]
         | None \<Rightarrow> []))"

definition save_to_memory :: "client_cfg \<Rightarrow> nat \<Rightarrow> world \<Rightarrow> world" where
  "save_to_memory cfg ob w =
     (case w_heap w ob of
        None \<Rightarrow> w
      | Some j \<Rightarrow>
          if c_save_memory cfg then w\<lparr>w_saved := w_saved w @ [memory_entry j]\<rparr> else w)"

section \<open>Frames\<close>

lemma upd_job_heap [simp]:
  "w_heap (upd_job ob f w) x = (if x = ob then map_option f (w_heap w ob) else w_heap w x)"
  by (simp add: upd_job_def)

lemma upd_job_frames [simp]:
  "w_queue (upd_job ob f w) = w_queue w" "w_jobs (upd_job ob f w) = w_jobs w"
  "w_nodes (upd_job ob f w) = w_nodes w" "w_assignments (upd_job ob f w) = w_assignments w"
  "w_events (upd_job ob f w) = w_events w" "w_threads (upd_job ob f w) = w_threads w"
  "w_monitor (upd_job ob f w) = w_monitor w" "w_saved (upd_job ob f w) = w_saved w"
  by (simp_all add: upd_job_def)

lemma upd_node_nodes [simp]:
  "map_of (w_nodes (upd_node wid f w)) x =
     (if x = wid then map_option f (map_of (w_nodes w) wid) else map_of (w_nodes w) x)"
  by (simp add: upd_node_def dict_simps split: option.split)

lemma upd_node_frames [simp]:
  "w_queue (upd_node wid f w) = w_queue w" "w_jobs (upd_node wid f w) = w_jobs w"
  "w_heap (upd_node wid f w) = w_heap w" "w_assignments (upd_node wid f w) = w_assignments w"
  "w_events (upd_node wid f w) = w_events w" "w_threads (upd_node wid f w) = w_threads w"
  "w_monitor (upd_node wid f w) = w_monitor w"  "w_saved (upd_node wid f w) = w_saved w"
  by (simp_all add: upd_node_def split: option.split)

lemma upd_node_keys [simp]: "set (dict_keys (w_nodes (upd_node wid f w))) = set (dict_keys (w_nodes w))"
proof (cases "map_of (w_nodes w) wid")
  case (Some n)
  then have "dict_has (w_nodes w) wid"
    by (simp add: dict_has_iff del: set_map)
  with Some show ?thesis
    by (simp add: upd_node_def keys_update insert_absorb del: set_map)
qed (simp add: upd_node_def)

lemma upd_node_wf [simp]: "wf_dict (w_nodes w) \<Longrightarrow> wf_dict (w_nodes (upd_node wid f w))"
  by (simp add: upd_node_def split: option.split)

lemma emit_frames [simp]:
  "w_queue (emit cfg n p w) = w_queue w" "w_jobs (emit cfg n p w) = w_jobs w"
  "w_heap (emit cfg n p w) = w_heap w" "w_assignments (emit cfg n p w) = w_assignments w"
  "w_nodes (emit cfg n p w) = w_nodes w" "w_threads (emit cfg n p w) = w_threads w"
  "w_monitor (emit cfg n p w) = w_monitor w" "w_saved (emit cfg n p w) = w_saved w"
  by (simp_all add: emit_def)

lemma enqueue_frames [simp]:
  "w_heap (enqueue ob w) = w_heap w" "w_jobs (enqueue ob w) = w_jobs w"
  "w_nodes (enqueue ob w) = w_nodes w" "w_assignments (enqueue ob w) = w_assignments w"
  "w_events (enqueue ob w) = w_events w" "w_threads (enqueue ob w) = w_threads w"
  "w_monitor (enqueue ob w) = w_monitor w" "w_saved (enqueue ob w) = w_saved w"
  by (simp_all add: enqueue_def split: option.split)

lemma enqueue_objs [simp]:
  "w_heap w ob \<noteq> None \<Longrightarrow>
     set (jq_objs (w_queue (enqueue ob w))) = insert ob (set (jq_objs (w_queue w)))"
  by (auto simp: enqueue_def)

lemma enqueue_objs_mono: "set (jq_objs (w_queue w)) \<subseteq> set (jq_objs (w_queue (enqueue ob w)))"
  by (auto simp: enqueue_def split: option.split)

lemma enqueue_wf [simp]: "jq_wf (w_queue w) \<Longrightarrow> jq_wf (w_queue (enqueue ob w))"
  by (auto simp: enqueue_def split: option.split)

lemma publish_job_frames [simp]:
  "w_queue (publish_job cfg n ob w) = w_queue w" "w_jobs (publish_job cfg n ob w) = w_jobs w"
  "w_heap (publish_job cfg n ob w) = w_heap w" "w_nodes (publish_job cfg n ob w) = w_nodes w"
  "w_assignments (publish_job cfg n ob w) = w_assignments w"
  "w_threads (publish_job cfg n ob w) = w_threads w" "w_monitor (publish_job cfg n ob w) = w_monitor w"
  "w_saved (publish_job cfg n ob w) = w_saved w"
  by (simp_all add: publish_job_def split: option.split)

lemma save_to_memory_frames [simp]:
  "w_queue (save_to_memory cfg ob w) = w_queue w" "w_jobs (save_to_memory cfg ob w) = w_jobs w"
  "w_heap (save_to_memory cfg ob w) = w_heap w" "w_nodes (save_to_memory cfg ob w) = w_nodes w"
  "w_assignments (save_to_memory cfg ob w) = w_assignments w"
  "w_threads (save_to_memory cfg ob w) = w_threads w" "w_monitor (save_to_memory cfg ob w) = w_monitor w"
  "w_events (save_to_memory cfg ob w) = w_events w"
  by (simp_all add: save_to_memory_def split: option.split)

end
