(* ===== verification/ExecManager.thy ===== *)
theory ExecManager
  imports ExecWorld
begin

text \<open>
  \<open>DistributedWorkerManager\<close> of \<open>yasin_core/execution/distributed.py\<close>: registration, discovery,
  heartbeats, assignment and routing of jobs to worker nodes, status reports with retries, the
  monitoring sweep with recovery of the jobs of dead workers, and the service operations. Every
  operation of the source runs under the manager's lock and is one function on \<open>world\<close>.
\<close>

section \<open>Registry of nodes\<close>

definition worker_payload :: "worker_node \<Rightarrow> job option \<Rightarrow> pydict" where
  "worker_payload n j =
     [(''worker_id'', PStr (wn_id n)), (''worker_name'', PStr (wn_name n)),
      (''status'', PStr (worker_state_value (wn_status n))),
      (''capabilities'', PList (map PStr (wn_caps n)))]
     @ (case j of None \<Rightarrow> []
        | Some j \<Rightarrow> [(''job_id'', PStr (job_id j)), (''job_name'', PStr (job_name j))])"

definition publish_worker ::
  "client_cfg \<Rightarrow> string \<Rightarrow> string \<Rightarrow> nat option \<Rightarrow> world \<Rightarrow> world" where
  "publish_worker cfg name wid ob w =
     (case map_of (w_nodes w) wid of
        None \<Rightarrow> w
      | Some n \<Rightarrow> emit cfg name (worker_payload n (Option.bind ob (w_heap w))) w)"

definition register_worker ::
  "client_cfg \<Rightarrow> string \<Rightarrow> string \<Rightarrow> string list \<Rightarrow> pydict \<Rightarrow> real \<Rightarrow> world \<Rightarrow> world" where
  "register_worker cfg wid name caps health now w =
     publish_worker cfg ''worker_registered'' wid None
       (w\<lparr>w_nodes := AList.update wid (mk_node wid name caps health now) (w_nodes w)\<rparr>)"

definition unregister_worker ::
  "client_cfg \<Rightarrow> string \<Rightarrow> world \<Rightarrow> world \<times> worker_node option" where
  "unregister_worker cfg wid w =
     (case map_of (w_nodes w) wid of
        None \<Rightarrow> (w, None)
      | Some n \<Rightarrow>
          let n' = n\<lparr>wn_status := W_OFFLINE\<rparr>;
              w' = w\<lparr>w_nodes := AList.delete wid (w_nodes w)\<rparr>
          in (emit cfg ''worker_unregistered'' (worker_payload n' None) w', Some n'))"

definition get_worker :: "string \<Rightarrow> world \<Rightarrow> worker_node option" where
  "get_worker wid w = map_of (w_nodes w) wid"

definition list_workers :: "worker_state option \<Rightarrow> world \<Rightarrow> worker_node list" where
  "list_workers st w =
     (case st of
        Some s \<Rightarrow> filter (\<lambda>n. wn_status n = s) (map snd (w_nodes w))
      | None \<Rightarrow> map snd (w_nodes w))"

text \<open>\<open>capability in w.capabilities\<close>: only strings can be members.\<close>

definition has_capability :: "pyval \<Rightarrow> worker_node \<Rightarrow> bool" where
  "has_capability c n = (case c of PStr s \<Rightarrow> s \<in> set (wn_caps n) | _ \<Rightarrow> False)"

definition discover_workers :: "pyval \<Rightarrow> world \<Rightarrow> worker_node list" where
  "discover_workers c w = filter (has_capability c) (list_workers (Some W_ACTIVE) w)"

definition manager_heartbeat ::
  "client_cfg \<Rightarrow> string \<Rightarrow> pydict \<Rightarrow> real \<Rightarrow> world \<Rightarrow> world \<times> bool" where
  "manager_heartbeat cfg wid health now w =
     (case map_of (w_nodes w) wid of
        None \<Rightarrow> (w, False)
      | Some _ \<Rightarrow>
          (publish_worker cfg ''worker_heartbeat'' wid None
             (upd_node wid (node_update_heartbeat now health) w), True))"

section \<open>Assignment\<close>

definition assign_job :: "client_cfg \<Rightarrow> string \<Rightarrow> string \<Rightarrow> world \<Rightarrow> world \<times> bool" where
  "assign_job cfg jid wid w =
     (case map_of (w_nodes w) wid of
        None \<Rightarrow> (w, False)
      | Some n \<Rightarrow>
          if wn_status n \<noteq> W_ACTIVE then (w, False)
          else if \<not> c_execution cfg then (w, False)
          else case engine_get_job jid w of
                 None \<Rightarrow> (w, False)
               | Some ob \<Rightarrow>
                   let w1 = upd_node wid (\<lambda>n. n\<lparr>wn_assigned := AList.update jid ob (wn_assigned n)\<rparr>) w;
                       w2 = upd_job ob (\<lambda>j. j\<lparr>job_worker_id := Some wid, job_status := J_QUEUED\<rparr>) w1;
                       w3 = upd_node wid (\<lambda>n. n\<lparr>wn_queue := wn_queue n @ [ob]\<rparr>) w2;
                       w4 = w3\<lparr>w_assignments := w_assignments w3 + 1\<rparr>
                   in (publish_worker cfg ''job_assigned'' wid (Some ob) w4, True))"

text \<open>\<open>kwargs.get("required_capability") or kwargs.get("capability")\<close>\<close>

definition requested_capability :: "job \<Rightarrow> pyval" where
  "requested_capability j =
     (let a = pyget (job_kwargs j) ''required_capability''
      in if truthy a then a else pyget (job_kwargs j) ''capability'')"

definition routing_capability :: "job \<Rightarrow> pyval" where
  "routing_capability j =
     (if truthy (requested_capability j) then requested_capability j
      else case job_target j of
             T_Name s \<Rightarrow> PStr (''target:'' @ s)
           | _ \<Rightarrow> PStr ''default'')"

definition worker_candidates :: "pyval \<Rightarrow> world \<Rightarrow> worker_node list" where
  "worker_candidates cap w =
     (let c1 = discover_workers cap w;
          c2 = (if c1 = [] then discover_workers (PStr ''default'') w else c1)
      in if c2 = [] then list_workers (Some W_ACTIVE) w else c2)"

definition assign_job_by_capability ::
  "client_cfg \<Rightarrow> nat \<Rightarrow> world \<Rightarrow> world \<times> string option" where
  "assign_job_by_capability cfg ob w =
     (case w_heap w ob of
        None \<Rightarrow> (w, None)
      | Some j \<Rightarrow>
          let cands = worker_candidates (routing_capability j) w
          in if cands = [] then (w, None)
             else let sel = arg_min_list (\<lambda>n. length (wn_assigned n)) cands;
                      r = assign_job cfg (job_id j) (wn_id sel) w
                  in (fst r, if snd r then Some (wn_id sel) else None))"

definition get_assigned_jobs :: "string \<Rightarrow> world \<Rightarrow> nat list" where
  "get_assigned_jobs wid w =
     (case map_of (w_nodes w) wid of None \<Rightarrow> [] | Some n \<Rightarrow> map snd (wn_assigned n))"

section \<open>Status reports\<close>

definition inc_metric :: "client_cfg \<Rightarrow> string \<Rightarrow> (string \<times> string) list \<Rightarrow> world \<Rightarrow> world" where
  "inc_metric cfg name labels w =
     (if c_observability cfg then w\<lparr>w_metrics := w_metrics w @ [(name, labels)]\<rparr> else w)"

text \<open>The update of the job and of the node's table under the job's lock.\<close>

definition report_update ::
  "string \<Rightarrow> string \<Rightarrow> nat \<Rightarrow> job_status \<Rightarrow> pyval \<Rightarrow> string option \<Rightarrow> real \<Rightarrow> world \<Rightarrow> world" where
  "report_update wid jid ob status result error now w =
     (let w1 = upd_job ob (\<lambda>j. j\<lparr>job_status := status\<rparr>) w
      in if status = J_RUNNING then upd_job ob (\<lambda>j. j\<lparr>job_started_at := Some now\<rparr>) w1
         else if job_terminal status then
           upd_node wid (\<lambda>n. n\<lparr>wn_assigned := AList.delete jid (wn_assigned n)\<rparr>)
             (upd_job ob (\<lambda>j. j\<lparr>job_completed_at := Some now, job_result := result,
                                 job_error := error\<rparr>) w1)
         else w1)"

definition report_retry :: "client_cfg \<Rightarrow> string \<Rightarrow> string \<Rightarrow> nat \<Rightarrow> world \<Rightarrow> world" where
  "report_retry cfg wid jid ob w =
     upd_node wid (\<lambda>n. n\<lparr>wn_assigned := AList.update jid ob (wn_assigned n),
                          wn_queue := wn_queue n @ [ob]\<rparr>)
       (publish_job cfg ''job_retrying'' ob
          (upd_job ob (\<lambda>j. j\<lparr>job_retry_count := job_retry_count j + 1, job_status := J_QUEUED\<rparr>) w))"

definition report_job_status ::
  "client_cfg \<Rightarrow> string \<Rightarrow> string \<Rightarrow> job_status \<Rightarrow> pyval \<Rightarrow> string option \<Rightarrow> real \<Rightarrow> world
   \<Rightarrow> world \<times> bool" where
  "report_job_status cfg wid jid status result error now w =
     (case map_of (w_nodes w) wid of
        None \<Rightarrow> (w, False)
      | Some _ \<Rightarrow>
          if \<not> c_execution cfg then (w, False)
          else case engine_get_job jid w of
                 None \<Rightarrow> (w, False)
               | Some ob \<Rightarrow>
                   let w1 = report_update wid jid ob status result error now w;
                       w2 = (case status of
                               J_RUNNING \<Rightarrow> publish_job cfg ''job_started'' ob w1
                             | J_COMPLETED \<Rightarrow>
                                 save_to_memory cfg ob (publish_job cfg ''job_completed'' ob w1)
                             | J_FAILED \<Rightarrow>
                                 (case w_heap w1 ob of
                                    None \<Rightarrow> w1
                                  | Some j \<Rightarrow>
                                      if job_retry_count j < job_retries j
                                      then report_retry cfg wid jid ob w1
                                      else save_to_memory cfg ob (publish_job cfg ''job_failed'' ob w1))
                             | J_CANCELLED \<Rightarrow> publish_job cfg ''job_cancelled'' ob w1
                             | _ \<Rightarrow> w1)
                   in (inc_metric cfg ''yasin_distributed_worker_job_processed_total''
                         [(''worker_id'', wid), (''status'', job_status_value status)] w2, True))"

section \<open>Monitoring and recovery\<close>

definition heartbeat_timeout :: real where
  "heartbeat_timeout = 6"

fun requeue_jobs :: "client_cfg \<Rightarrow> nat list \<Rightarrow> world \<Rightarrow> world" where
  "requeue_jobs cfg [] w = w"
| "requeue_jobs cfg (ob # obs) w =
     (let w1 = upd_job ob (\<lambda>j. j\<lparr>job_status := J_QUEUED, job_worker_id := None\<rparr>) w;
          w2 = (if c_execution cfg then publish_job cfg ''job_queued'' ob (enqueue ob w1) else w1)
      in requeue_jobs cfg obs w2)"

definition recover_worker_jobs :: "client_cfg \<Rightarrow> string \<Rightarrow> world \<Rightarrow> world" where
  "recover_worker_jobs cfg wid w =
     (let unfinished = get_assigned_jobs wid w
      in requeue_jobs cfg unfinished (upd_node wid (\<lambda>n. n\<lparr>wn_assigned := [], wn_queue := []\<rparr>) w))"

definition monitor_node :: "client_cfg \<Rightarrow> real \<Rightarrow> string \<Rightarrow> world \<Rightarrow> world" where
  "monitor_node cfg now wid w =
     (case map_of (w_nodes w) wid of
        None \<Rightarrow> w
      | Some n \<Rightarrow>
          if wn_status n = W_ACTIVE then
            (if now - wn_heartbeat n \<ge> heartbeat_timeout
             then publish_worker cfg ''worker_suspended'' wid None
                    (upd_node wid (\<lambda>n. n\<lparr>wn_status := W_SUSPENDED\<rparr>) w)
             else w)
          else if wn_status n = W_SUSPENDED then
            (if now - wn_heartbeat n \<ge> heartbeat_timeout * 2
             then recover_worker_jobs cfg wid
                    (publish_worker cfg ''worker_offline'' wid None
                       (upd_node wid (\<lambda>n. n\<lparr>wn_status := W_OFFLINE\<rparr>) w))
             else w)
          else w)"

definition monitor_workers :: "client_cfg \<Rightarrow> real \<Rightarrow> world \<Rightarrow> world" where
  "monitor_workers cfg now w = fold (monitor_node cfg now) (dict_keys (w_nodes w)) w"

section \<open>Service operations\<close>

definition manager_initialize :: "world \<Rightarrow> world" where
  "manager_initialize w = (if w_monitor w then w else w\<lparr>w_monitor := True\<rparr>)"

definition manager_shutdown :: "world \<Rightarrow> world" where
  "manager_shutdown w = (if \<not> w_monitor w then w else w\<lparr>w_monitor := False, w_nodes := []\<rparr>)"

definition count_workers :: "worker_state \<Rightarrow> world \<Rightarrow> pyval" where
  "count_workers s w = PInt (int (length (list_workers (Some s) w)))"

definition manager_health :: "world \<Rightarrow> pydict" where
  "manager_health w =
     [(''healthy'', PBool (w_monitor w)),
      (''status'', PStr (if w_monitor w then ''healthy'' else ''stopped'')),
      (''active_workers'', count_workers W_ACTIVE w),
      (''total_registered_workers'', PInt (int (length (w_nodes w))))]"

definition manager_status :: "world \<Rightarrow> pydict" where
  "manager_status w =
     [(''state'', PStr (if w_monitor w then ''active'' else ''inactive'')),
      (''total_registered_workers'', PInt (int (length (w_nodes w)))),
      (''workers'', PDict [(''active'', count_workers W_ACTIVE w),
                           (''suspended'', count_workers W_SUSPENDED w),
                           (''offline'', count_workers W_OFFLINE w)]),
      (''total_assignments'', PInt (w_assignments w))]"

section \<open>What the operations change\<close>

lemma publish_worker_frames [simp]:
  "w_queue (publish_worker cfg n i ob w) = w_queue w" "w_jobs (publish_worker cfg n i ob w) = w_jobs w"
  "w_heap (publish_worker cfg n i ob w) = w_heap w" "w_nodes (publish_worker cfg n i ob w) = w_nodes w"
  "w_assignments (publish_worker cfg n i ob w) = w_assignments w"
  "w_threads (publish_worker cfg n i ob w) = w_threads w"
  "w_monitor (publish_worker cfg n i ob w) = w_monitor w"
  by (simp_all add: publish_worker_def split: option.split)

lemma inc_metric_frames [simp]:
  "w_queue (inc_metric cfg n l w) = w_queue w" "w_jobs (inc_metric cfg n l w) = w_jobs w"
  "w_heap (inc_metric cfg n l w) = w_heap w" "w_nodes (inc_metric cfg n l w) = w_nodes w"
  "w_events (inc_metric cfg n l w) = w_events w" "w_saved (inc_metric cfg n l w) = w_saved w"
  by (simp_all add: inc_metric_def)

lemma register_worker_frames [simp]:
  "w_queue (register_worker cfg i n c h t w) = w_queue w"
  "w_jobs (register_worker cfg i n c h t w) = w_jobs w"
  "w_heap (register_worker cfg i n c h t w) = w_heap w"
  "map_of (w_nodes (register_worker cfg i n c h t w)) x =
     (if x = i then Some (mk_node i n c h t) else map_of (w_nodes w) x)"
  by (simp_all add: register_worker_def dict_simps)

text \<open>Every job an operation leaves in the store keeps its identity, its id and its retry limit.\<close>

definition same_jobs :: "world \<Rightarrow> world \<Rightarrow> bool" where
  "same_jobs w w' \<longleftrightarrow>
     (\<forall>ob. map_option (\<lambda>j. (job_id j, job_retries j)) (w_heap w' ob)
         = map_option (\<lambda>j. (job_id j, job_retries j)) (w_heap w ob))"

lemma same_jobs_refl [simp, intro]: "same_jobs w w"
  by (simp add: same_jobs_def)

lemma same_jobs_trans [trans]: "same_jobs a b \<Longrightarrow> same_jobs b c \<Longrightarrow> same_jobs a c"
  by (simp add: same_jobs_def)

lemma same_jobs_heap: "w_heap w' = w_heap w \<Longrightarrow> same_jobs w w'"
  by (simp add: same_jobs_def)

lemma same_jobs_upd_job:
  assumes "\<And>j. job_id (f j) = job_id j" "\<And>j. job_retries (f j) = job_retries j"
  shows "same_jobs w (upd_job ob f w)"
  using assms by (auto simp: same_jobs_def option.map_comp comp_def)

lemma same_jobs_Some:
  "same_jobs w w' \<Longrightarrow> w_heap w ob = Some j \<Longrightarrow>
     \<exists>j'. w_heap w' ob = Some j' \<and> job_id j' = job_id j \<and> job_retries j' = job_retries j"
  by (auto simp: same_jobs_def dest!: spec [of _ ob])

lemma assign_job_False: "\<not> snd (assign_job cfg jid wid w) \<Longrightarrow> fst (assign_job cfg jid wid w) = w"
  by (auto simp: assign_job_def Let_def split: option.splits if_splits)

lemma assign_job_True:
  assumes "snd (assign_job cfg jid wid w)"
  shows "\<exists>n ob. map_of (w_nodes w) wid = Some n \<and> wn_status n = W_ACTIVE \<and> c_execution cfg
     \<and> engine_get_job jid w = Some ob
     \<and> w_jobs (fst (assign_job cfg jid wid w)) = w_jobs w
     \<and> w_queue (fst (assign_job cfg jid wid w)) = w_queue w
     \<and> w_heap (fst (assign_job cfg jid wid w)) = (w_heap w)(ob :=
           map_option (\<lambda>j. j\<lparr>job_worker_id := Some wid, job_status := J_QUEUED\<rparr>) (w_heap w ob))
     \<and> map_of (w_nodes (fst (assign_job cfg jid wid w))) = (map_of (w_nodes w))(wid \<mapsto>
           n\<lparr>wn_assigned := AList.update jid ob (wn_assigned n), wn_queue := wn_queue n @ [ob]\<rparr>)
     \<and> w_assignments (fst (assign_job cfg jid wid w)) = w_assignments w + 1"
  using assms
  by (auto simp: assign_job_def Let_def fun_eq_iff split: option.splits if_splits)

lemma assign_job_wf_nodes:
  "wf_dict (w_nodes w) \<Longrightarrow> wf_dict (w_nodes (fst (assign_job cfg jid wid w)))"
  by (auto simp: assign_job_def Let_def split: option.splits)

lemma worker_candidates_active:
  assumes "n \<in> set (worker_candidates cap w)"
  shows "n \<in> snd ` set (w_nodes w) \<and> wn_status n = W_ACTIVE"
  using assms
  by (auto simp: worker_candidates_def discover_workers_def list_workers_def Let_def split: if_splits)

lemma arg_min_list_mem: "xs \<noteq> [] \<Longrightarrow> arg_min_list f xs \<in> set xs"
  by (induction xs rule: induct_list012) (auto simp: Let_def)

lemma arg_min_list_le: "x \<in> set xs \<Longrightarrow> f (arg_min_list f xs) \<le> f x"
  for f :: "'a \<Rightarrow> 'b::linorder"
proof (induction xs rule: induct_list012)
  case (3 y z zs)
  then show ?case by (fastforce simp: Let_def)
qed auto

lemma assign_by_capability_cases:
  obtains (none) "fst (assign_job_by_capability cfg ob w) = w"
      "snd (assign_job_by_capability cfg ob w) = None"
  | (some) j sel where "w_heap w ob = Some j"
      "sel \<in> set (worker_candidates (routing_capability j) w)"
      "\<forall>n \<in> set (worker_candidates (routing_capability j) w).
         length (wn_assigned sel) \<le> length (wn_assigned n)"
      "snd (assign_job cfg (job_id j) (wn_id sel) w)"
      "fst (assign_job_by_capability cfg ob w) = fst (assign_job cfg (job_id j) (wn_id sel) w)"
      "snd (assign_job_by_capability cfg ob w) = Some (wn_id sel)"
proof (cases "w_heap w ob")
  case None
  then show ?thesis
    using none by (simp add: assign_job_by_capability_def)
next
  case (Some j)
  let ?c = "worker_candidates (routing_capability j) w"
  let ?sel = "arg_min_list (\<lambda>n. length (wn_assigned n)) ?c"
  show ?thesis
  proof (cases "?c = [] \<or> \<not> snd (assign_job cfg (job_id j) (wn_id ?sel) w)")
    case True
    then show ?thesis
      using none Some assign_job_False [of cfg "job_id j" "wn_id ?sel" w]
      by (auto simp: assign_job_by_capability_def Let_def)
  next
    case False
    then show ?thesis
      using Some some [of j ?sel] arg_min_list_mem [of ?c]
        arg_min_list_le [of _ ?c "\<lambda>n. length (wn_assigned n)"]
      by (auto simp: assign_job_by_capability_def Let_def)
  qed
qed

lemma report_update_frames [simp]:
  "w_queue (report_update wid jid ob st r e t w) = w_queue w"
  "w_jobs (report_update wid jid ob st r e t w) = w_jobs w"
  by (simp_all add: report_update_def Let_def)

lemma report_retry_frames [simp]:
  "w_queue (report_retry cfg wid jid ob w) = w_queue w"
  "w_jobs (report_retry cfg wid jid ob w) = w_jobs w"
  by (simp_all add: report_retry_def)

lemma requeue_jobs_frames [simp]:
  "w_jobs (requeue_jobs cfg obs w) = w_jobs w" "w_nodes (requeue_jobs cfg obs w) = w_nodes w"
  by (induction obs arbitrary: w) (simp_all add: Let_def)

lemma requeue_jobs_same: "same_jobs w (requeue_jobs cfg obs w)"
proof (induction obs arbitrary: w)
  case (Cons ob obs)
  let ?w1 = "upd_job ob (\<lambda>j. j\<lparr>job_status := J_QUEUED, job_worker_id := None\<rparr>) w"
  let ?w2 = "if c_execution cfg then publish_job cfg ''job_queued'' ob (enqueue ob ?w1) else ?w1"
  have "same_jobs w ?w1"
    by (rule same_jobs_upd_job) simp_all
  also have "same_jobs ?w1 ?w2"
    by (rule same_jobs_heap) simp
  also have "same_jobs ?w2 (requeue_jobs cfg obs ?w2)"
    by (rule Cons)
  finally show ?case
    by (simp add: Let_def)
qed simp

lemma requeue_jobs_queue_mono:
  "set (jq_objs (w_queue w)) \<subseteq> set (jq_objs (w_queue (requeue_jobs cfg obs w)))"
proof (induction obs arbitrary: w)
  case (Cons ob obs)
  let ?w1 = "upd_job ob (\<lambda>j. j\<lparr>job_status := J_QUEUED, job_worker_id := None\<rparr>) w"
  let ?w2 = "if c_execution cfg then publish_job cfg ''job_queued'' ob (enqueue ob ?w1) else ?w1"
  have "set (jq_objs (w_queue w)) \<subseteq> set (jq_objs (w_queue ?w2))"
    using enqueue_objs_mono [of ?w1 ob] by simp
  also have "\<dots> \<subseteq> set (jq_objs (w_queue (requeue_jobs cfg obs ?w2)))"
    by (rule Cons)
  finally show ?case
    by (simp add: Let_def)
qed simp

lemma requeue_jobs_queued:
  assumes "c_execution cfg" "ob \<in> set obs" "w_heap w ob \<noteq> None"
  shows "ob \<in> set (jq_objs (w_queue (requeue_jobs cfg obs w)))"
  using assms(2,3)
proof (induction obs arbitrary: w)
  case (Cons x obs)
  let ?w1 = "upd_job x (\<lambda>j. j\<lparr>job_status := J_QUEUED, job_worker_id := None\<rparr>) w"
  show ?case
  proof (cases "ob = x")
    case True
    with Cons.prems have "ob \<in> set (jq_objs (w_queue (enqueue x ?w1)))"
      by simp
    then show ?thesis
      using requeue_jobs_queue_mono [of "publish_job cfg ''job_queued'' x (enqueue x ?w1)" cfg obs]
        assms(1) by (auto simp: Let_def)
  next
    case False
    with Cons.prems Cons.IH [of "publish_job cfg ''job_queued'' x (enqueue x ?w1)"] assms(1)
    show ?thesis by (simp add: Let_def)
  qed
qed simp

lemma requeue_jobs_wf: "jq_wf (w_queue w) \<Longrightarrow> jq_wf (w_queue (requeue_jobs cfg obs w))"
  by (induction obs arbitrary: w) (simp_all add: Let_def)

lemma requeue_jobs_status:
  "w_heap (requeue_jobs cfg obs w) ob =
     (if ob \<in> set obs
      then map_option (\<lambda>j. j\<lparr>job_status := J_QUEUED, job_worker_id := None\<rparr>) (w_heap w ob)
      else w_heap w ob)"
  by (induction obs arbitrary: w) (auto simp: Let_def option.map_comp comp_def cong: option.map_cong)

lemma monitor_node_frames [simp]:
  "w_jobs (monitor_node cfg now wid w) = w_jobs w"
  by (simp add: monitor_node_def recover_worker_jobs_def Let_def split: option.split)

end
