(* ===== verification/ExecEngine.thy ===== *)
theory ExecEngine
  imports ExecManager
begin

text \<open>
  \<open>TaskExecutionEngine\<close> of \<open>yasin_core/execution/engine.py\<close> and the worker thread
  \<open>JobWorker\<close> of \<open>yasin_core/execution/worker.py\<close>. The processing of one job is split where the
  job's target runs: \<open>worker_begin\<close> is everything before the call, \<open>worker_finish\<close> everything
  after it, so that other threads can be interleaved between the two.
\<close>

section \<open>Submission and routing\<close>

text \<open>
  The part of \<open>submit_job\<close> that tries the distributed workers; the truth value says that the job
  was handed over (the early returns of the source).
\<close>

definition route_explicit :: "client_cfg \<Rightarrow> job \<Rightarrow> world \<Rightarrow> world \<times> bool" where
  "route_explicit cfg j w =
     (case job_worker_id j of
        Some wid \<Rightarrow> if wid \<noteq> [] then assign_job cfg (job_id j) wid w else (w, False)
      | None \<Rightarrow> (w, False))"

definition route_capability :: "client_cfg \<Rightarrow> job \<Rightarrow> nat \<Rightarrow> world \<Rightarrow> world \<times> bool" where
  "route_capability cfg j ob w =
     (if truthy (requested_capability j)
      then (case assign_job_by_capability cfg ob w of (w', r) \<Rightarrow> (w', r \<noteq> None))
      else (w, False))"

definition route_target :: "client_cfg \<Rightarrow> job \<Rightarrow> nat \<Rightarrow> world \<Rightarrow> world \<times> bool" where
  "route_target cfg j ob w =
     (case job_target j of
        T_Name s \<Rightarrow>
          if discover_workers (PStr (''target:'' @ s)) w \<noteq> []
          then (case assign_job_by_capability cfg ob w of (w', r) \<Rightarrow> (w', r \<noteq> None))
          else (w, False)
      | _ \<Rightarrow> (w, False))"

definition route_job :: "client_cfg \<Rightarrow> job \<Rightarrow> nat \<Rightarrow> world \<Rightarrow> world \<times> bool" where
  "route_job cfg j ob w =
     (if c_manager cfg \<and> list_workers None w \<noteq> [] then
        (case route_explicit cfg j w of (w1, done1) \<Rightarrow>
           if done1 then (w1, True)
           else case route_capability cfg j ob w1 of (w2, done2) \<Rightarrow>
             if done2 then (w2, True) else route_target cfg j ob w2)
      else (w, False))"

text \<open>
  \<open>submit_job\<close>; \<open>ctx\<close> is the id of the active context when that is a \<open>RuntimeContext\<close>.
\<close>

definition submit_register :: "string option \<Rightarrow> nat \<Rightarrow> job \<Rightarrow> world \<Rightarrow> world" where
  "submit_register ctx ob j w =
     (let c = (case job_context_id j of
                 Some x \<Rightarrow> if x = [] then (case ctx of Some y \<Rightarrow> Some y | None \<Rightarrow> Some x) else Some x
               | None \<Rightarrow> ctx)
      in upd_job ob (\<lambda>j. j\<lparr>job_context_id := c, job_status := J_QUEUED\<rparr>)
           (w\<lparr>w_jobs := AList.update (job_id j) ob (w_jobs w)\<rparr>))"

definition submit_job :: "client_cfg \<Rightarrow> string option \<Rightarrow> nat \<Rightarrow> world \<Rightarrow> world" where
  "submit_job cfg ctx ob w =
     (case w_heap w ob of
        None \<Rightarrow> w
      | Some j \<Rightarrow>
          let w1 = submit_register ctx ob j w
          in case route_job cfg j ob w1 of (w2, handed_over) \<Rightarrow>
               if handed_over then w2
               else publish_job cfg ''job_queued'' ob (enqueue ob w2))"

text \<open>\<open>create_job\<close>: the new object gets an identity that is not in use.\<close>

definition create_job ::
  "client_cfg \<Rightarrow> string option \<Rightarrow> job_target \<Rightarrow> pyval list option \<Rightarrow> pydict option \<Rightarrow> string option
   \<Rightarrow> int \<Rightarrow> int \<Rightarrow> real option \<Rightarrow> string \<Rightarrow> real \<Rightarrow> nat \<Rightarrow> world \<Rightarrow> world" where
  "create_job cfg ctx target args kwargs name priority retries timeout uuid now ob w =
     submit_job cfg ctx ob
       (w\<lparr>w_heap := (w_heap w)(ob \<mapsto>
            mk_job target args kwargs None name priority retries timeout None uuid now)\<rparr>)"

definition engine_cancel_job :: "client_cfg \<Rightarrow> real \<Rightarrow> string \<Rightarrow> world \<Rightarrow> world \<times> bool" where
  "engine_cancel_job cfg now jid w =
     (case engine_get_job jid w of
        None \<Rightarrow> (w, False)
      | Some ob \<Rightarrow>
          (case w_heap w ob of
             None \<Rightarrow> (w, False)
           | Some j \<Rightarrow>
               if snd (job_cancel now j)
               then (publish_job cfg ''job_cancelled'' ob
                       (upd_job ob (\<lambda>j. fst (job_cancel now j)) w), True)
               else (w, False)))"

definition engine_list_jobs :: "world \<Rightarrow> nat list" where
  "engine_list_jobs w = map snd (w_jobs w)"

definition job_status_at :: "world \<Rightarrow> nat \<Rightarrow> job_status option" where
  "job_status_at w ob = map_option job_status (w_heap w ob)"

definition engine_clear_jobs :: "world \<Rightarrow> world" where
  "engine_clear_jobs w =
     w\<lparr>w_jobs := filter (\<lambda>(jid, ob). job_status_at w ob \<in> Some ` {J_PENDING, J_QUEUED, J_RUNNING})
                  (w_jobs w)\<rparr>"

section \<open>Life cycle and reports\<close>

definition engine_initialize :: "int \<Rightarrow> world \<Rightarrow> world" where
  "engine_initialize num_workers w =
     (if w_threads w \<noteq> [] then w
      else w\<lparr>w_threads := map (\<lambda>i. ''worker-'' @ nat_str i) [0..<nat num_workers]\<rparr>)"

definition engine_shutdown :: "world \<Rightarrow> world" where
  "engine_shutdown w = w\<lparr>w_threads := [], w_queue := jq_clear (w_queue w)\<rparr>"

definition engine_health :: "world \<Rightarrow> pydict" where
  "engine_health w =
     [(''healthy'', PBool (length (w_threads w) > 0)),
      (''status'', PStr (if length (w_threads w) > 0 then ''healthy'' else ''degraded'')),
      (''worker_count'', PInt (int (length (w_threads w))))]"

definition count_jobs :: "job_status \<Rightarrow> world \<Rightarrow> nat" where
  "count_jobs s w = length (filter (\<lambda>p. job_status_at w (snd p) = Some s) (w_jobs w))"

definition engine_status :: "world \<Rightarrow> pydict" where
  "engine_status w =
     [(''state'', PStr (if w_threads w \<noteq> [] then ''active'' else ''inactive'')),
      (''total_workers'', PInt (int (length (w_threads w)))),
      (''queue_size'', PInt (int (jq_size (w_queue w)))),
      (''jobs'', PDict
         [(''total'', PInt (int (length (w_jobs w)))),
          (''pending'', PInt (int (count_jobs J_PENDING w))),
          (''queued'', PInt (int (count_jobs J_QUEUED w))),
          (''running'', PInt (int (count_jobs J_RUNNING w))),
          (''completed'', PInt (int (count_jobs J_COMPLETED w))),
          (''failed'', PInt (int (count_jobs J_FAILED w))),
          (''cancelled'', PInt (int (count_jobs J_CANCELLED w)))])]"

section \<open>Running a target\<close>

text \<open>
  Callables, agents and plugins are code outside this component: what calling them does is a
  parameter. \<open>te_plugin\<close> tells which of \<open>execute\<close>, \<open>run\<close> and \<open>__call__\<close> a plugin offers.
\<close>

datatype plugin_shape = PS_Execute | PS_Run | PS_Callable | PS_Inert

record target_env =
  te_call :: "job_target \<Rightarrow> pyval list \<Rightarrow> pydict \<Rightarrow> exn + pyval"
  te_has_agents :: bool
  te_agent_running :: "string \<Rightarrow> bool option"
  te_agent_start :: "string \<Rightarrow> exn option"
  te_agent_execute :: "string \<Rightarrow> pydict \<Rightarrow> exn + pyval"
  te_has_plugins :: bool
  te_plugin :: "string \<Rightarrow> plugin_shape option"
  te_plugin_call :: "string \<Rightarrow> plugin_shape \<Rightarrow> pyval list \<Rightarrow> pydict \<Rightarrow> exn + pyval"

definition agent_payload :: "pyval list \<Rightarrow> pydict \<Rightarrow> pydict" where
  "agent_payload args kwargs =
     (case args of
        a # _ \<Rightarrow> (case a of PDict d \<Rightarrow> d | _ \<Rightarrow> [])
      | [] \<Rightarrow> kwargs)"

definition run_plugin :: "target_env \<Rightarrow> string \<Rightarrow> pyval list \<Rightarrow> pydict \<Rightarrow> exn + pyval" where
  "run_plugin env s args kwargs =
     (let unresolved = Inl (Exn ValueErr (''Target string '' @ quoted s @
            '' could not be resolved to any registered Agent or Plugin.''))
      in if te_has_plugins env then
           (case te_plugin env s of
              None \<Rightarrow> unresolved
            | Some PS_Inert \<Rightarrow> unresolved
            | Some sh \<Rightarrow> te_plugin_call env s sh args kwargs)
         else unresolved)"

definition execute_target :: "target_env \<Rightarrow> job \<Rightarrow> exn + pyval" where
  "execute_target env j =
     (case job_target j of
        T_Callable m n \<Rightarrow> te_call env (T_Callable m n) (job_args j) (job_kwargs j)
      | T_Name s \<Rightarrow>
          (case (if te_has_agents env then te_agent_running env s else None) of
             Some running \<Rightarrow>
               (case (if running then None else te_agent_start env s) of
                  Some e \<Rightarrow> Inl e
                | None \<Rightarrow> te_agent_execute env s (agent_payload (job_args j) (job_kwargs j)))
           | None \<Rightarrow> run_plugin env s (job_args j) (job_kwargs j))
      | T_Other t s \<Rightarrow> Inl (Exn TypeErr (''Unsupported job target type: '' @ t)))"

text \<open>
  \<open>_execute_with_timeout\<close>. A call of the target takes \<open>d\<close> seconds and has outcome \<open>r\<close>; the
  result is the time the worker thread is busy and what it gets. The \<open>with\<close> block joins the
  helper thread before the \<open>TimeoutError\<close> leaves it. \<open>msg\<close> renders the limit in the message.
\<close>

definition execute_with_timeout ::
  "(real \<Rightarrow> string) \<Rightarrow> job \<Rightarrow> real \<Rightarrow> exn + pyval \<Rightarrow> real \<times> (exn + pyval)" where
  "execute_with_timeout msg j d r =
     (case job_timeout j of
        None \<Rightarrow> (d, r)
      | Some t \<Rightarrow>
          if t \<le> 0 then (d, r)
          else if d > t then (d, Inl (Exn TimeoutErr (msg t)))
          else (d, r))"

section \<open>Processing a job on a worker thread\<close>

definition worker_begin :: "client_cfg \<Rightarrow> real \<Rightarrow> nat \<Rightarrow> world \<Rightarrow> world \<times> bool" where
  "worker_begin cfg now ob w =
     (case w_heap w ob of
        None \<Rightarrow> (w, False)
      | Some j \<Rightarrow>
          if job_cancelled j \<or> job_status j = J_CANCELLED then
            (publish_job cfg ''job_cancelled'' ob
               (upd_job ob (\<lambda>j. j\<lparr>job_status := J_CANCELLED, job_completed_at := Some now\<rparr>) w), False)
          else
            (publish_job cfg ''job_started'' ob
               (upd_job ob (\<lambda>j. j\<lparr>job_status := J_RUNNING, job_started_at := Some now\<rparr>) w), True))"

text \<open>The context in which the target runs, when the engine knows the job's context id.\<close>

definition run_context :: "(string \<Rightarrow> bool) \<Rightarrow> job \<Rightarrow> string option" where
  "run_context known j =
     (case job_context_id j of
        Some c \<Rightarrow> if c \<noteq> [] \<and> known c then Some c else None
      | None \<Rightarrow> None)"

definition worker_finish ::
  "client_cfg \<Rightarrow> real \<Rightarrow> nat \<Rightarrow> exn + pyval \<Rightarrow> world \<Rightarrow> world" where
  "worker_finish cfg now ob r w =
     (case w_heap w ob of
        None \<Rightarrow> w
      | Some j \<Rightarrow>
          (case r of
             Inr v \<Rightarrow>
               save_to_memory cfg ob (publish_job cfg ''job_completed'' ob
                 (upd_job ob (\<lambda>j. j\<lparr>job_result := v, job_status := J_COMPLETED,
                                     job_completed_at := Some now\<rparr>) w))
           | Inl e \<Rightarrow>
               if job_retry_count j < job_retries j then
                 enqueue ob (publish_job cfg ''job_retrying'' ob
                   (upd_job ob (\<lambda>j. j\<lparr>job_retry_count := job_retry_count j + 1,
                                       job_status := J_QUEUED\<rparr>) w))
               else
                 save_to_memory cfg ob (publish_job cfg ''job_failed'' ob
                   (upd_job ob (\<lambda>j. j\<lparr>job_error := Some (exn_msg e), job_status := J_FAILED,
                                       job_completed_at := Some now\<rparr>) w))))"

text \<open>
  \<open>_process_job\<close> as one step: \<open>run\<close> gives the outcome of the call for the job as it is when it
  starts (so it may differ from one attempt to the next), \<open>t1\<close> and \<open>t2\<close> are the clock readings.
\<close>

definition process_job ::
  "client_cfg \<Rightarrow> (job \<Rightarrow> exn + pyval) \<Rightarrow> real \<Rightarrow> real \<Rightarrow> nat \<Rightarrow> world \<Rightarrow> world" where
  "process_job cfg run t1 t2 ob w =
     (case worker_begin cfg t1 ob w of (w1, go) \<Rightarrow>
        if go then
          (case w_heap w1 ob of
             None \<Rightarrow> w1
           | Some j \<Rightarrow> worker_finish cfg t2 ob (run j) w1)
        else w1)"

text \<open>One round of \<open>JobWorker.run\<close>: take a job if there is one and process it.\<close>

definition worker_round ::
  "client_cfg \<Rightarrow> (job \<Rightarrow> exn + pyval) \<Rightarrow> real \<Rightarrow> real \<Rightarrow> world \<Rightarrow> world" where
  "worker_round cfg run t1 t2 w =
     (case jq_get (w_queue w) of
        Inl _ \<Rightarrow> w
      | Inr (ob, q) \<Rightarrow> process_job cfg run t1 t2 ob (w\<lparr>w_queue := q\<rparr>))"

end
