(* ===== verification/DistWorker.thy ===== *)
theory DistWorker
  imports ExecEngine
begin

text \<open>
  \<open>BaseDistributedWorker\<close> of \<open>yasin_core/execution/distributed.py\<close>: the runner a distributed
  worker process uses. Its two loops (heartbeats and job execution) are given by one round each;
  the execution of a job is split where the target runs, like the worker thread's.
\<close>

record dist_worker =
  dw_id :: string
  dw_name :: string
  dw_caps :: "string list"
  dw_status :: worker_state
  dw_stop :: bool

definition mk_dist_worker :: "string \<Rightarrow> string option \<Rightarrow> string list option \<Rightarrow> string \<Rightarrow> dist_worker" where
  "mk_dist_worker name wid caps uuid =
     \<lparr> dw_id = or_default wid uuid, dw_name = name,
       dw_caps = (case caps of Some c \<Rightarrow> c | None \<Rightarrow> []),
       dw_status = W_REGISTERED, dw_stop = False \<rparr>"

definition dw_health :: "int \<Rightarrow> real \<Rightarrow> dist_worker \<Rightarrow> pydict" where
  "dw_health threads now d =
     [(''active_threads'', PInt threads), (''time'', PFloat now),
      (''status'', PStr (worker_state_value (dw_status d)))]"

definition dw_publish :: "client_cfg \<Rightarrow> string \<Rightarrow> dist_worker \<Rightarrow> world \<Rightarrow> world" where
  "dw_publish cfg name d w =
     emit cfg name
       [(''worker_id'', PStr (dw_id d)), (''worker_name'', PStr (dw_name d)),
        (''status'', PStr (worker_state_value (dw_status d))),
        (''capabilities'', PList (map PStr (dw_caps d)))] w"

definition dw_start ::
  "client_cfg \<Rightarrow> int \<Rightarrow> real \<Rightarrow> dist_worker \<Rightarrow> world \<Rightarrow> dist_worker \<times> world" where
  "dw_start cfg threads now d w =
     (let d1 = d\<lparr>dw_stop := False\<rparr>;
          w1 = register_worker cfg (dw_id d1) (dw_name d1) (dw_caps d1) (dw_health threads now d1) now w;
          d2 = d1\<lparr>dw_status := W_ACTIVE\<rparr>
      in (d2, dw_publish cfg ''worker_started'' d2 w1))"

definition dw_stop_worker :: "client_cfg \<Rightarrow> dist_worker \<Rightarrow> world \<Rightarrow> dist_worker \<times> world" where
  "dw_stop_worker cfg d w =
     (let d1 = d\<lparr>dw_stop := True\<rparr>;
          w1 = fst (unregister_worker cfg (dw_id d1) w);
          d2 = d1\<lparr>dw_status := W_OFFLINE\<rparr>
      in (d2, dw_publish cfg ''worker_stopped'' d2 w1))"

definition dw_set_state ::
  "client_cfg \<Rightarrow> worker_state \<Rightarrow> string \<Rightarrow> dist_worker \<Rightarrow> world \<Rightarrow> dist_worker \<times> world" where
  "dw_set_state cfg st event d w =
     (let d1 = d\<lparr>dw_status := st\<rparr>
      in (d1, dw_publish cfg event d1 (upd_node (dw_id d1) (\<lambda>n. n\<lparr>wn_status := st\<rparr>) w)))"

definition dw_pause :: "client_cfg \<Rightarrow> dist_worker \<Rightarrow> world \<Rightarrow> dist_worker \<times> world" where
  "dw_pause cfg = dw_set_state cfg W_SUSPENDED ''worker_suspended''"

definition dw_resume :: "client_cfg \<Rightarrow> dist_worker \<Rightarrow> world \<Rightarrow> dist_worker \<times> world" where
  "dw_resume cfg = dw_set_state cfg W_ACTIVE ''worker_resumed''"

definition dw_send_heartbeat ::
  "client_cfg \<Rightarrow> int \<Rightarrow> real \<Rightarrow> dist_worker \<Rightarrow> world \<Rightarrow> world \<times> bool" where
  "dw_send_heartbeat cfg threads now d w =
     manager_heartbeat cfg (dw_id d) (dw_health threads now d) now w"

text \<open>One round of \<open>_heartbeat_loop\<close>.\<close>

definition dw_heartbeat_round :: "client_cfg \<Rightarrow> int \<Rightarrow> real \<Rightarrow> dist_worker \<Rightarrow> world \<Rightarrow> world" where
  "dw_heartbeat_round cfg threads now d w =
     (if \<not> dw_stop d \<and> dw_status d = W_ACTIVE
      then fst (dw_send_heartbeat cfg threads now d w) else w)"

definition dw_fetch_job :: "string \<Rightarrow> world \<Rightarrow> (nat \<times> world) option" where
  "dw_fetch_job wid w =
     (case get_worker wid w of
        None \<Rightarrow> None
      | Some n \<Rightarrow>
          (case wn_queue n of
             [] \<Rightarrow> None
           | ob # obs \<Rightarrow> Some (ob, upd_node wid (\<lambda>n. n\<lparr>wn_queue := tl (wn_queue n)\<rparr>) w)))"

definition report :: "client_cfg \<Rightarrow> string \<Rightarrow> string \<Rightarrow> job_status \<Rightarrow> pyval \<Rightarrow> string option \<Rightarrow> real
    \<Rightarrow> world \<Rightarrow> world" where
  "report cfg wid jid st r e now w = fst (report_job_status cfg wid jid st r e now w)"

text \<open>\<open>_execute_job\<close> up to the call of the target; the truth value says that it is called.\<close>

definition dw_begin :: "client_cfg \<Rightarrow> string \<Rightarrow> real \<Rightarrow> nat \<Rightarrow> world \<Rightarrow> world \<times> bool" where
  "dw_begin cfg wid now ob w =
     (case w_heap w ob of
        None \<Rightarrow> (w, False)
      | Some j \<Rightarrow>
          let w1 = report cfg wid (job_id j) J_RUNNING PNone None now w
          in case w_heap w1 ob of
               None \<Rightarrow> (w1, False)
             | Some j1 \<Rightarrow>
                 if job_cancelled j1
                 then (report cfg wid (job_id j1) J_CANCELLED PNone None now w1, False)
                 else (w1, True))"

definition dw_finish :: "client_cfg \<Rightarrow> string \<Rightarrow> real \<Rightarrow> nat \<Rightarrow> exn + pyval \<Rightarrow> world \<Rightarrow> world" where
  "dw_finish cfg wid now ob r w =
     (case w_heap w ob of
        None \<Rightarrow> w
      | Some j \<Rightarrow>
          (case r of
             Inr v \<Rightarrow> report cfg wid (job_id j) J_COMPLETED v None now w
           | Inl e \<Rightarrow> report cfg wid (job_id j) J_FAILED PNone (Some (exn_msg e)) now w))"

text \<open>\<open>execute_task_target\<close>: the engine of the manager's client runs the job.\<close>

definition dw_run_target :: "client_cfg \<Rightarrow> target_env \<Rightarrow> job \<Rightarrow> exn + pyval" where
  "dw_run_target cfg env j =
     (if c_execution cfg then execute_target env j
      else Inl (Exn ValueErr ''No execution capability available on the manager client.''))"

definition dw_execute_job ::
  "client_cfg \<Rightarrow> target_env \<Rightarrow> string \<Rightarrow> real \<Rightarrow> real \<Rightarrow> nat \<Rightarrow> world \<Rightarrow> world" where
  "dw_execute_job cfg env wid t1 t2 ob w =
     (case dw_begin cfg wid t1 ob w of (w1, go) \<Rightarrow>
        if go then
          (case w_heap w1 ob of
             None \<Rightarrow> w1
           | Some j \<Rightarrow> dw_finish cfg wid t2 ob (dw_run_target cfg env j) w1)
        else w1)"

text \<open>One round of \<open>_execution_loop\<close>.\<close>

definition dw_execution_round ::
  "client_cfg \<Rightarrow> target_env \<Rightarrow> real \<Rightarrow> real \<Rightarrow> dist_worker \<Rightarrow> world \<Rightarrow> world" where
  "dw_execution_round cfg env t1 t2 d w =
     (if dw_stop d \<or> dw_status d \<noteq> W_ACTIVE then w
      else case dw_fetch_job (dw_id d) w of
             None \<Rightarrow> w
           | Some (ob, w1) \<Rightarrow> dw_execute_job cfg env (dw_id d) t1 t2 ob w1)"

end
