(* ===== verification/ExecInvariant.thy ===== *)
theory ExecInvariant
  imports DistWorker
begin

text \<open>
  The invariants of the execution state and what each operation does to them.
  \<^item> \<open>world_ok\<close>: containers refer to existing jobs, job ids are unique, node tables are keyed by
    the ids of what they hold, the central queue is ordered, retry counters are within bounds.
  \<^item> \<open>accounted w H\<close>: every registered job that is queued or running can still reach an end: it is
    in the central queue, in the table of assigned jobs of a node, or held by a worker (\<open>H\<close>).
  The rules for the primitive updates are declared so that the operations' lemmas follow by
  unfolding them.
\<close>

section \<open>Definitions\<close>

definition job_ok :: "job \<Rightarrow> bool" where
  "job_ok j \<longleftrightarrow> 0 \<le> job_retry_count j \<and> job_retry_count j \<le> max 0 (job_retries j)"

definition known :: "world \<Rightarrow> string \<Rightarrow> nat \<Rightarrow> bool" where
  "known w jid ob \<longleftrightarrow> map_option job_id (w_heap w ob) = Some jid"

definition ids_unique :: "world \<Rightarrow> bool" where
  "ids_unique w \<longleftrightarrow> (\<forall>jid a b. known w jid a \<longrightarrow> known w jid b \<longrightarrow> a = b)"

definition node_ok :: "world \<Rightarrow> string \<Rightarrow> worker_node \<Rightarrow> bool" where
  "node_ok w wid n \<longleftrightarrow> wn_id n = wid \<and> (\<forall>(jid, ob) \<in> set (wn_assigned n). known w jid ob)
     \<and> (\<forall>ob \<in> set (wn_queue n). w_heap w ob \<noteq> None)"

definition world_ok :: "world \<Rightarrow> bool" where
  "world_ok w \<longleftrightarrow>
     ids_unique w \<and> (\<forall>ob j. w_heap w ob = Some j \<longrightarrow> job_ok j)
     \<and> wf_dict (w_jobs w) \<and> wf_dict (w_nodes w) \<and> (\<forall>wid n. map_of (w_nodes w) wid = Some n \<longrightarrow> node_ok w wid n)
     \<and> jq_wf (w_queue w) \<and> (\<forall>ob \<in> set (jq_objs (w_queue w)). w_heap w ob \<noteq> None)
     \<and> (\<forall>jid ob. map_of (w_jobs w) jid = Some ob \<longrightarrow> known w jid ob)"

definition assigned_objs :: "world \<Rightarrow> nat set" where
  "assigned_objs w = {ob. \<exists>wid n. map_of (w_nodes w) wid = Some n \<and> ob \<in> snd ` set (wn_assigned n)}"

definition located :: "world \<Rightarrow> nat set" where
  "located w = set (jq_objs (w_queue w)) \<union> assigned_objs w"

definition job_active :: "job \<Rightarrow> bool" where
  "job_active j \<longleftrightarrow> job_status j = J_QUEUED \<or> job_status j = J_RUNNING"

definition accounted :: "world \<Rightarrow> nat set \<Rightarrow> bool" where
  "accounted w H \<longleftrightarrow>
     (\<forall>jid ob j. map_of (w_jobs w) jid = Some ob \<longrightarrow> w_heap w ob = Some j \<longrightarrow> job_active j \<longrightarrow>
        ob \<in> located w \<union> H)"

named_theorems world_rules \<open>preservation of the invariants by the primitive updates\<close>

section \<open>Primitive updates and \<open>world_ok\<close>\<close>

lemma known_Some: "w_heap w ob = Some j \<Longrightarrow> known w (job_id j) ob"
  by (simp add: known_def)

lemma known_heap: "known w jid ob \<Longrightarrow> \<exists>j. w_heap w ob = Some j \<and> job_id j = jid"
  by (auto simp: known_def)

lemma known_upd_job [simp]:
  assumes "\<And>j. job_id (f j) = job_id j"
  shows "known (upd_job ob f w) jid x = known w jid x"
  using assms by (cases "w_heap w ob") (simp_all add: known_def)

lemma known_cong [simp]:
  "known (upd_node wid g w) = known w" "known (emit cfg n p w) = known w"
  "known (enqueue ob w) = known w"
  "known (publish_job cfg n ob w) = known w" "known (publish_worker cfg n wid ob' w) = known w"
  "known (save_to_memory cfg ob w) = known w" "known (inc_metric cfg n l w) = known w"
  "known (w_queue_update q w) = known w" "known (w_assignments_update k w) = known w"
  "known (w_jobs_update d w) = known w" "known (w_nodes_update ns w) = known w"
  by (auto simp: fun_eq_iff known_def)

lemma world_okI:
  assumes "world_ok w" "w_heap w' = w_heap w" "w_nodes w' = w_nodes w" "w_queue w' = w_queue w"
    "w_jobs w' = w_jobs w"
  shows "world_ok w'"
  using assms by (simp add: world_ok_def ids_unique_def node_ok_def known_def)

lemma world_ok_upd_job [world_rules]:
  assumes "world_ok w" "\<And>j. job_id (f j) = job_id j"
    "\<And>j. w_heap w ob = Some j \<Longrightarrow> job_ok j \<Longrightarrow> job_ok (f j)"
  shows "world_ok (upd_job ob f w)"
  using assms by (auto simp: world_ok_def ids_unique_def node_ok_def)

lemma world_ok_upd_node [world_rules]:
  assumes "world_ok w" "\<And>n. map_of (w_nodes w) wid = Some n \<Longrightarrow> node_ok w wid n \<Longrightarrow> node_ok w wid (f n)"
  shows "world_ok (upd_node wid f w)"
  using assms by (auto simp: world_ok_def ids_unique_def node_ok_def split: if_splits)

lemma world_ok_enqueue [world_rules]:
  assumes "world_ok w"
  shows "world_ok (enqueue ob w)"
  using assms by (auto simp: world_ok_def ids_unique_def node_ok_def enqueue_def known_def
      split: option.splits)

lemma world_ok_logs [world_rules]:
  "world_ok w \<Longrightarrow> world_ok (emit cfg n p w)"
  "world_ok w \<Longrightarrow> world_ok (publish_job cfg n ob w)"
  "world_ok w \<Longrightarrow> world_ok (publish_worker cfg n wid ob' w)"
  "world_ok w \<Longrightarrow> world_ok (save_to_memory cfg ob w)"
  "world_ok w \<Longrightarrow> world_ok (inc_metric cfg n l w)"
  "world_ok w \<Longrightarrow> world_ok (w_assignments_update k w)"
  by (auto elim!: world_okI)

lemma world_ok_jobs:
  assumes "world_ok w" "wf_dict (d (w_jobs w))" "\<And>jid ob. map_of (d (w_jobs w)) jid = Some ob \<Longrightarrow> known w jid ob"
  shows "world_ok (w_jobs_update d w)"
  using assms by (auto simp: world_ok_def ids_unique_def node_ok_def)

lemma job_ok_same [simp]:
  "job_ok (j\<lparr>job_status := s\<rparr>) = job_ok j" "job_ok (j\<lparr>job_worker_id := x\<rparr>) = job_ok j"
  "job_ok (j\<lparr>job_started_at := t\<rparr>) = job_ok j" "job_ok (j\<lparr>job_completed_at := t\<rparr>) = job_ok j"
  "job_ok (j\<lparr>job_result := r\<rparr>) = job_ok j" "job_ok (j\<lparr>job_error := e\<rparr>) = job_ok j"
  "job_ok (j\<lparr>job_context_id := c\<rparr>) = job_ok j" "job_ok (j\<lparr>job_cancelled := b\<rparr>) = job_ok j"
  by (simp_all add: job_ok_def)

lemma job_ok_retry:
  "job_ok j \<Longrightarrow> job_retry_count j < job_retries j \<Longrightarrow> job_ok (j\<lparr>job_retry_count := job_retry_count j + 1\<rparr>)"
  by (simp add: job_ok_def)

section \<open>Primitive updates and \<open>accounted\<close>\<close>

lemma located_cong [simp]:
  "located (upd_job ob f w) = located w" "located (emit cfg n p w) = located w"
  "located (publish_job cfg n ob w) = located w" "located (publish_worker cfg n wid ob' w) = located w"
  "located (save_to_memory cfg ob w) = located w" "located (inc_metric cfg n l w) = located w"
  "located (w_assignments_update k w) = located w" "located (w_jobs_update d w) = located w"
  by (simp_all add: located_def assigned_objs_def)

lemma located_enqueue: "w_heap w ob \<noteq> None \<Longrightarrow> located (enqueue ob w) = insert ob (located w)"
  by (simp add: located_def assigned_objs_def)

lemma located_enqueue_mono: "located w \<subseteq> located (enqueue ob w)"
  using enqueue_objs_mono [of w ob] by (auto simp: located_def assigned_objs_def)

lemma accountedI:
  assumes "accounted w H" "w_heap w' = w_heap w" "w_jobs w' = w_jobs w" "located w \<subseteq> located w'"
  shows "accounted w' H"
  using assms by (auto simp: accounted_def)

lemma accounted_mono: "accounted w H \<Longrightarrow> H \<subseteq> H' \<Longrightarrow> accounted w H'"
  by (auto simp: accounted_def)

lemma accounted_logs [world_rules]:
  "accounted w H \<Longrightarrow> accounted (emit cfg n p w) H"
  "accounted w H \<Longrightarrow> accounted (publish_job cfg n ob w) H"
  "accounted w H \<Longrightarrow> accounted (publish_worker cfg n wid ob' w) H"
  "accounted w H \<Longrightarrow> accounted (save_to_memory cfg ob w) H"
  "accounted w H \<Longrightarrow> accounted (inc_metric cfg n l w) H"
  "accounted w H \<Longrightarrow> accounted (w_assignments_update k w) H"
  by (auto elim!: accountedI)

lemma accounted_upd_held:
  assumes "accounted w H" "ob \<in> located w \<union> H"
  shows "accounted (upd_job ob f w) H"
  using assms by (auto simp: accounted_def split: if_splits)

lemma accounted_upd_ended:
  assumes "accounted w (insert ob H)" "\<And>j. w_heap w ob = Some j \<Longrightarrow> \<not> job_active (f j)"
  shows "accounted (upd_job ob f w) H"
  using assms by (auto simp: accounted_def split: if_splits)

lemma accounted_enqueue:
  assumes "accounted w (insert ob H)" "w_heap w ob \<noteq> None"
  shows "accounted (enqueue ob w) H"
  using assms by (auto simp: accounted_def located_enqueue)

lemma accounted_enqueue_mono: "accounted w H \<Longrightarrow> accounted (enqueue ob w) H"
  by (erule accountedI) (simp_all add: located_enqueue_mono)

lemma assigned_objs_upd_node:
  assumes "\<And>n. map_of (w_nodes w) wid = Some n \<Longrightarrow>
             snd ` set (wn_assigned n) \<subseteq> snd ` set (wn_assigned (f n)) \<union> X"
  shows "assigned_objs w \<subseteq> assigned_objs (upd_node wid f w) \<union> X"
proof
  fix ob assume "ob \<in> assigned_objs w"
  then obtain i n where n: "map_of (w_nodes w) i = Some n" "ob \<in> snd ` set (wn_assigned n)"
    by (auto simp: assigned_objs_def)
  show "ob \<in> assigned_objs (upd_node wid f w) \<union> X"
  proof (cases "i = wid")
    case True
    with n assms have "ob \<in> snd ` set (wn_assigned (f n)) \<union> X" by blast
    with n True show ?thesis by (auto simp: assigned_objs_def)
  next
    case False
    with n show ?thesis by (auto simp: assigned_objs_def)
  qed
qed

lemma located_upd_node:
  assumes "\<And>n. map_of (w_nodes w) wid = Some n \<Longrightarrow>
             snd ` set (wn_assigned n) \<subseteq> snd ` set (wn_assigned (f n)) \<union> X"
  shows "located w \<subseteq> located (upd_node wid f w) \<union> X"
  using assigned_objs_upd_node [of w wid f X, OF assms] by (auto simp: located_def)

text \<open>An update of a node that keeps its table, and one that only adds to it.\<close>

lemma accounted_upd_node [world_rules]:
  assumes "accounted w H" "\<And>n. map_of (w_nodes w) wid = Some n \<Longrightarrow>
      snd ` set (wn_assigned n) \<subseteq> snd ` set (wn_assigned (f n))"
  shows "accounted (upd_node wid f w) H"
  using located_upd_node [of w wid f "{}"] assms(2) by (intro accountedI [OF assms(1)]) auto

lemma accounted_assigned:
  assumes "accounted w (insert ob H)" "map_of (w_nodes w) wid = Some n"
    "snd ` set (wn_assigned n) \<subseteq> snd ` set (wn_assigned (f n))" "ob \<in> snd ` set (wn_assigned (f n))"
  shows "accounted (upd_node wid f w) H"
proof -
  have "located w \<subseteq> located (upd_node wid f w)"
    using located_upd_node [of w wid f "{}"] assms(2,3) by simp
  moreover have "ob \<in> located (upd_node wid f w)"
    using assms(2,4) by (auto simp: located_def assigned_objs_def)
  ultimately show ?thesis
    using assms(1) by (auto simp: accounted_def)
qed

section \<open>The manager's operations\<close>

text \<open>A node's table holds at most one object under a job id, since ids are unique.\<close>

lemma set_alist_update: "set (AList.update k v d) \<subseteq> insert (k, v) (set d)"
  by (induction d) auto

lemma alist_update_value: "v \<in> snd ` set (AList.update k v d)"
  by (induction d) auto

lemma alist_update_keeps:
  "\<forall>(k', v') \<in> set d. k' = k \<longrightarrow> v' = v \<Longrightarrow> snd ` set d \<subseteq> snd ` set (AList.update k v d)"
  by (induction d) auto

lemma alist_delete_keeps:
  "\<forall>(k', v') \<in> set d. k' = k \<longrightarrow> v' = v \<Longrightarrow> snd ` set d \<subseteq> insert v (snd ` set (AList.delete k d))"
  by (induction d) auto

lemma node_ok_same:
  "node_ok w wid n \<Longrightarrow> wn_id n' = wn_id n \<Longrightarrow> set (wn_assigned n') \<subseteq> set (wn_assigned n) \<Longrightarrow>
     set (wn_queue n') \<subseteq> set (wn_queue n) \<Longrightarrow> node_ok w wid n'"
  by (auto simp: node_ok_def)

lemma world_ok_node: "world_ok w \<Longrightarrow> map_of (w_nodes w) wid = Some n \<Longrightarrow> node_ok w wid n"
  by (simp add: world_ok_def)

lemma world_ok_registered: "world_ok w \<Longrightarrow> map_of (w_jobs w) jid = Some ob \<Longrightarrow> known w jid ob"
  by (simp add: world_ok_def)

lemma world_ok_same_id: "world_ok w \<Longrightarrow> known w jid a \<Longrightarrow> known w jid b \<Longrightarrow> a = b"
  unfolding world_ok_def ids_unique_def by blast

lemma world_ok_queued: "world_ok w \<Longrightarrow> ob \<in> set (jq_objs (w_queue w)) \<Longrightarrow> w_heap w ob \<noteq> None"
  by (simp add: world_ok_def)

lemma world_ok_register:
  assumes "world_ok w"
  shows "world_ok (register_worker cfg wid name caps health now w)"
  unfolding register_worker_def
  using assms by (intro world_rules)
    (auto simp: world_ok_def ids_unique_def node_ok_def dict_simps mk_node_def)

lemma accounted_register:
  assumes "accounted w H" "map_of (w_nodes w) wid = None"
  shows "accounted (register_worker cfg wid name caps health now w) H"
proof (rule accountedI [OF assms(1)])
  have "assigned_objs w \<subseteq> assigned_objs (register_worker cfg wid name caps health now w)"
  proof
    fix ob assume "ob \<in> assigned_objs w"
    then obtain i n where "map_of (w_nodes w) i = Some n" "ob \<in> snd ` set (wn_assigned n)"
      by (auto simp: assigned_objs_def)
    with assms(2) have "map_of (w_nodes (register_worker cfg wid name caps health now w)) i = Some n"
      by auto
    with \<open>ob \<in> snd ` set (wn_assigned n)\<close>
    show "ob \<in> assigned_objs (register_worker cfg wid name caps health now w)"
      unfolding assigned_objs_def by blast
  qed
  then show "located w \<subseteq> located (register_worker cfg wid name caps health now w)"
    by (auto simp: located_def)
qed simp_all

lemma world_ok_heartbeat:
  assumes "world_ok w"
  shows "world_ok (fst (manager_heartbeat cfg wid health now w))"
  using assms unfolding manager_heartbeat_def
  by (auto split: option.split intro!: world_rules simp: node_update_heartbeat_def elim: node_ok_same)

lemma accounted_heartbeat:
  assumes "accounted w H"
  shows "accounted (fst (manager_heartbeat cfg wid health now w)) H"
  using assms unfolding manager_heartbeat_def
  by (auto split: option.split intro!: world_rules simp: node_update_heartbeat_def)

lemma node_ok_insert:
  "node_ok w wid n \<Longrightarrow> known w jid ob \<Longrightarrow>
     node_ok w wid (n\<lparr>wn_assigned := AList.update jid ob (wn_assigned n)\<rparr>)"
  using set_alist_update [of jid ob "wn_assigned n"] by (fastforce simp: node_ok_def)

lemma node_ok_insert_push:
  assumes "node_ok w wid n" "known w jid ob"
  shows "node_ok w wid (n\<lparr>wn_assigned := AList.update jid ob (wn_assigned n),
                           wn_queue := wn_queue n @ [ob]\<rparr>)"
proof -
  have "w_heap w ob \<noteq> None"
    using assms(2) by (auto simp: known_def)
  moreover have "node_ok w wid (n\<lparr>wn_assigned := AList.update jid ob (wn_assigned n)\<rparr>)"
    by (rule node_ok_insert [OF assms])
  ultimately show ?thesis
    by (simp add: node_ok_def ball_Un)
qed

lemma world_ok_table:
  assumes "world_ok w" "map_of (w_nodes w) wid = Some n" "known w jid ob"
  shows "\<forall>(k, v) \<in> set (wn_assigned n). k = jid \<longrightarrow> v = ob"
  using world_ok_node [OF assms(1,2)] world_ok_same_id [OF assms(1) assms(3)]
  by (fastforce simp: node_ok_def)

lemma assign_job_cases:
  obtains (no) "fst (assign_job cfg jid wid w) = w" "\<not> snd (assign_job cfg jid wid w)"
  | (yes) n ob where "map_of (w_nodes w) wid = Some n" "map_of (w_jobs w) jid = Some ob"
      "snd (assign_job cfg jid wid w)"
      "fst (assign_job cfg jid wid w) =
         publish_worker cfg ''job_assigned'' wid (Some ob)
           (w_assignments_update (\<lambda>_. w_assignments w + 1)
             (upd_node wid (\<lambda>n. n\<lparr>wn_queue := wn_queue n @ [ob]\<rparr>)
               (upd_job ob (\<lambda>j. j\<lparr>job_worker_id := Some wid, job_status := J_QUEUED\<rparr>)
                 (upd_node wid (\<lambda>n. n\<lparr>wn_assigned := AList.update jid ob (wn_assigned n)\<rparr>) w))))"
proof (cases "snd (assign_job cfg jid wid w)")
  case True
  then obtain n ob where "map_of (w_nodes w) wid = Some n" "wn_status n = W_ACTIVE" "c_execution cfg"
      "map_of (w_jobs w) jid = Some ob"
    using assign_job_True [OF True] by (auto simp: engine_get_job_def)
  then show ?thesis
    using True by (intro yes [of n ob]) (simp_all add: assign_job_def engine_get_job_def Let_def
        upd_node_frames upd_job_frames)
next
  case False
  show ?thesis
    by (rule no [OF assign_job_False [OF False] False])
qed

lemma world_ok_assign:
  assumes "world_ok w"
  shows "world_ok (fst (assign_job cfg jid wid w))"
proof (cases cfg jid wid w rule: assign_job_cases)
  case (yes n ob)
  have k: "known w jid ob"
    using world_ok_registered [OF assms yes(2)] .
  then have h: "w_heap w ob \<noteq> None"
    by (auto simp: known_def)
  let ?w1 = "upd_node wid (\<lambda>n. n\<lparr>wn_assigned := AList.update jid ob (wn_assigned n)\<rparr>) w"
  let ?w2 = "upd_job ob (\<lambda>j. j\<lparr>job_worker_id := Some wid, job_status := J_QUEUED\<rparr>) ?w1"
  have "world_ok ?w1"
    by (intro world_rules assms) (rule node_ok_insert [OF _ k])
  then have "world_ok ?w2"
    by (rule world_ok_upd_job) simp_all
  then have "world_ok (upd_node wid (\<lambda>n. n\<lparr>wn_queue := wn_queue n @ [ob]\<rparr>) ?w2)"
    by (rule world_ok_upd_node) (use h in \<open>auto simp: node_ok_def\<close>)
  then show ?thesis
    unfolding yes(4) by (intro world_ok_logs)
qed (use assms in simp)

text \<open>A successful assignment leaves the job in the node's table, whoever had to look after it.\<close>

lemma accounted_assign:
  assumes "world_ok w" "accounted w (insert ob H)" "map_of (w_jobs w) jid = Some ob"
    "snd (assign_job cfg jid wid w)"
  shows "accounted (fst (assign_job cfg jid wid w)) H"
proof (cases cfg jid wid w rule: assign_job_cases)
  case (yes n ob')
  have "ob' = ob"
    using yes(2) assms(3) by simp
  have k: "known w jid ob"
    using world_ok_registered [OF assms(1,3)] .
  let ?w1 = "upd_node wid (\<lambda>n. n\<lparr>wn_assigned := AList.update jid ob (wn_assigned n)\<rparr>) w"
  have "accounted ?w1 H"
    by (rule accounted_assigned [OF assms(2) yes(1)])
      (simp_all add: alist_update_value alist_update_keeps [OF world_ok_table [OF assms(1) yes(1) k]])
  moreover have "ob \<in> located ?w1"
    using yes(1) by (auto simp: located_def assigned_objs_def intro!: exI [of _ wid] alist_update_value)
  ultimately show ?thesis
    unfolding yes(4) \<open>ob' = ob\<close>
    by (intro accounted_logs accounted_upd_node [OF accounted_upd_held]) simp_all
qed (use assms in simp)

lemma accounted_assign_any:
  assumes "world_ok w" "accounted w H"
  shows "accounted (fst (assign_job cfg jid wid w)) H"
proof (cases cfg jid wid w rule: assign_job_cases)
  case (yes n ob)
  then show ?thesis
    using accounted_assign [OF assms(1) accounted_mono [OF assms(2)]] by blast
qed (use assms in simp)

lemma assign_job_jobs [simp]: "w_jobs (fst (assign_job cfg jid wid w)) = w_jobs w"
  by (cases cfg jid wid w rule: assign_job_cases) simp_all

lemma world_ok_assign_cap:
  "world_ok w \<Longrightarrow> world_ok (fst (assign_job_by_capability cfg ob w))"
  by (cases cfg ob w rule: assign_by_capability_cases) (simp_all add: world_ok_assign)

lemma assign_cap_jobs [simp]: "w_jobs (fst (assign_job_by_capability cfg ob w)) = w_jobs w"
  by (cases cfg ob w rule: assign_by_capability_cases) simp_all

lemma accounted_assign_cap:
  assumes "world_ok w" "accounted w (insert ob H)" "w_heap w ob = Some j"
    "map_of (w_jobs w) (job_id j) = Some ob" "snd (assign_job_by_capability cfg ob w) \<noteq> None"
  shows "accounted (fst (assign_job_by_capability cfg ob w)) H"
  by (cases cfg ob w rule: assign_by_capability_cases)
    (use assms accounted_assign [OF assms(1,2)] in auto)

lemma assign_cap_failed: "snd (assign_job_by_capability cfg ob w) = None \<Longrightarrow>
    fst (assign_job_by_capability cfg ob w) = w"
  by (cases cfg ob w rule: assign_by_capability_cases) auto

section \<open>Status reports\<close>

lemma job_active_status: "job_active (j\<lparr>job_status := s\<rparr>) \<longleftrightarrow> s = J_QUEUED \<or> s = J_RUNNING"
  by (simp add: job_active_def)

lemma known_report_update [simp]: "known (report_update wid jid ob st r e t w) = known w"
  by (auto simp: fun_eq_iff report_update_def Let_def)

lemma world_ok_report_update:
  assumes "world_ok w"
  shows "world_ok (report_update wid jid ob st r e t w)"
proof -
  let ?w1 = "upd_job ob (\<lambda>j. j\<lparr>job_status := st\<rparr>) w"
  have 1: "world_ok ?w1"
    by (rule world_ok_upd_job [OF assms]) simp_all
  have 2: "world_ok (upd_job ob (\<lambda>j. j\<lparr>job_started_at := Some t\<rparr>) ?w1)"
    by (rule world_ok_upd_job [OF 1]) simp_all
  have "world_ok (upd_job ob (\<lambda>j. j\<lparr>job_completed_at := Some t, job_result := r, job_error := e\<rparr>) ?w1)"
    by (rule world_ok_upd_job [OF 1]) simp_all
  then have "world_ok (upd_node wid (\<lambda>n. n\<lparr>wn_assigned := AList.delete jid (wn_assigned n)\<rparr>)
      (upd_job ob (\<lambda>j. j\<lparr>job_completed_at := Some t, job_result := r, job_error := e\<rparr>) ?w1))"
    by (rule world_ok_upd_node) (erule node_ok_same, auto simp: set_delete)
  with 1 2 show ?thesis
    by (cases st) (simp_all add: report_update_def Let_def)
qed

text \<open>
  A report of \<open>RUNNING\<close> needs someone who looks after the job; a report of an end does not.
\<close>

lemma accounted_report_running:
  assumes "accounted w H" "ob \<in> located w \<union> H"
  shows "accounted (report_update wid jid ob J_RUNNING r e t w) H"
  using assms by (auto simp: report_update_def Let_def intro!: accounted_upd_held)

lemma accounted_report_ended:
  assumes "world_ok w" "accounted w (insert ob H)" "known w jid ob" "job_terminal st"
  shows "accounted (report_update wid jid ob st r e t w) H"
proof -
  let ?f = "\<lambda>j. j\<lparr>job_completed_at := Some t, job_result := r, job_error := e\<rparr>"
  let ?w2 = "upd_job ob ?f (upd_job ob (\<lambda>j. j\<lparr>job_status := st\<rparr>) w)"
  let ?d = "\<lambda>n. n\<lparr>wn_assigned := AList.delete jid (wn_assigned n)\<rparr>"
  have "located ?w2 \<subseteq> located (upd_node wid ?d ?w2) \<union> {ob}"
  proof (rule located_upd_node)
    fix n assume "map_of (w_nodes ?w2) wid = Some n"
    then have "\<forall>(k, v) \<in> set (wn_assigned n). k = jid \<longrightarrow> v = ob"
      using world_ok_table [OF assms(1) _ assms(3)] by simp
    from alist_delete_keeps [OF this]
    show "snd ` set (wn_assigned n) \<subseteq> snd ` set (wn_assigned (?d n)) \<union> {ob}"
      by simp
  qed
  then have "located w \<subseteq> located (upd_node wid ?d ?w2) \<union> {ob}"
    by simp
  then have "accounted (upd_node wid ?d ?w2) H"
    using assms(2,4) unfolding accounted_def
    by (auto simp: job_active_def job_terminal_def split: if_splits)
  then show ?thesis
    using assms(4) by (cases st) (simp_all add: report_update_def Let_def)
qed

definition report_tail ::
  "client_cfg \<Rightarrow> string \<Rightarrow> string \<Rightarrow> nat \<Rightarrow> job_status \<Rightarrow> world \<Rightarrow> world" where
  "report_tail cfg wid jid ob status w1 =
     (case status of
        J_RUNNING \<Rightarrow> publish_job cfg ''job_started'' ob w1
      | J_COMPLETED \<Rightarrow> save_to_memory cfg ob (publish_job cfg ''job_completed'' ob w1)
      | J_FAILED \<Rightarrow>
          (case w_heap w1 ob of
             None \<Rightarrow> w1
           | Some j \<Rightarrow>
               if job_retry_count j < job_retries j then report_retry cfg wid jid ob w1
               else save_to_memory cfg ob (publish_job cfg ''job_failed'' ob w1))
      | J_CANCELLED \<Rightarrow> publish_job cfg ''job_cancelled'' ob w1
      | _ \<Rightarrow> w1)"

lemma report_cases:
  obtains (no) "report cfg wid jid st r e now w = w"
      "map_of (w_nodes w) wid = None \<or> \<not> c_execution cfg \<or> map_of (w_jobs w) jid = None"
  | (yes) n ob where "map_of (w_nodes w) wid = Some n" "map_of (w_jobs w) jid = Some ob"
      "c_execution cfg"
      "report cfg wid jid st r e now w =
         inc_metric cfg ''yasin_distributed_worker_job_processed_total''
           [(''worker_id'', wid), (''status'', job_status_value st)]
           (report_tail cfg wid jid ob st (report_update wid jid ob st r e now w))"
  unfolding report_def report_job_status_def engine_get_job_def Let_def report_tail_def
  by (cases "map_of (w_nodes w) wid"; cases "map_of (w_jobs w) jid"; cases "c_execution cfg") auto

lemma world_ok_report_retry:
  assumes "world_ok w" "known w jid ob" "w_heap w ob = Some j" "job_retry_count j < job_retries j"
  shows "world_ok (report_retry cfg wid jid ob w)"
proof -
  let ?f = "\<lambda>j. j\<lparr>job_retry_count := job_retry_count j + 1, job_status := J_QUEUED\<rparr>"
  let ?w1 = "publish_job cfg ''job_retrying'' ob (upd_job ob ?f w)"
  have "world_ok (upd_job ob ?f w)"
    by (rule world_ok_upd_job [OF assms(1)]) (use assms(3,4) in \<open>auto simp: job_ok_def\<close>)
  then have 1: "world_ok ?w1"
    by (rule world_ok_logs)
  have k: "known ?w1 jid ob"
    using assms(2) by simp
  show ?thesis
    unfolding report_retry_def
    by (rule world_ok_upd_node [OF 1]) (rule node_ok_insert_push [OF _ k])
qed

lemma world_ok_report:
  assumes "world_ok w"
  shows "world_ok (report cfg wid jid st r e now w)"
proof (cases rule: report_cases [where cfg = cfg and wid = wid and jid = jid and st = st and r = r
      and e = e and now = now and w = w])
  case (yes n ob)
  let ?w1 = "report_update wid jid ob st r e now w"
  have ok: "world_ok ?w1"
    by (rule world_ok_report_update [OF assms])
  have k: "known ?w1 jid ob"
    using world_ok_registered [OF assms yes(2)] by simp
  have "world_ok (report_tail cfg wid jid ob st ?w1)"
    using ok world_ok_report_retry [OF ok k]
    by (auto simp: report_tail_def split: job_status.splits option.splits intro!: world_ok_logs)
  then show ?thesis
    unfolding yes(4) by (rule world_ok_logs)
qed (use assms in simp)

lemma report_retry_accounted:
  assumes "world_ok w" "known w jid ob" "map_of (w_nodes w) wid \<noteq> None" "accounted w (insert ob H)"
  shows "accounted (report_retry cfg wid jid ob w) H"
proof -
  let ?f = "\<lambda>j. j\<lparr>job_retry_count := job_retry_count j + 1, job_status := J_QUEUED\<rparr>"
  let ?w1 = "publish_job cfg ''job_retrying'' ob (upd_job ob ?f w)"
  obtain n where n: "map_of (w_nodes w) wid = Some n"
    using assms(3) by auto
  have "accounted ?w1 (insert ob H)"
    using assms(4) by (intro accounted_logs accounted_upd_held) auto
  then show ?thesis
    unfolding report_retry_def
    by (rule accounted_assigned [where n = n])
      (use n world_ok_table [OF assms(1) n assms(2)] in
        \<open>simp_all add: alist_update_value alist_update_keeps\<close>)
qed

lemma accounted_report:
  assumes "world_ok w" "accounted w H" "known w jid ob" "ob \<in> H"
  shows "accounted (report cfg wid jid st r e now w) H"
proof (cases rule: report_cases [where cfg = cfg and wid = wid and jid = jid and st = st and r = r
      and e = e and now = now and w = w])
  case (yes n ob')
  have "ob' = ob"
    using world_ok_same_id [OF assms(1) world_ok_registered [OF assms(1) yes(2)] assms(3)] .
  let ?w1 = "report_update wid jid ob st r e now w"
  have a: "accounted ?w1 H"
  proof (cases "job_terminal st")
    case True
    show ?thesis
      by (rule accounted_report_ended [OF assms(1) _ assms(3) True])
        (rule accounted_mono [OF assms(2)], auto)
  next
    case False
    then show ?thesis
      using assms(2,4) by (auto simp: report_update_def Let_def intro!: accounted_upd_held)
  qed
  have n1: "map_of (w_nodes ?w1) wid \<noteq> None"
    using yes(1) by (simp add: report_update_def Let_def)
  have "accounted (report_tail cfg wid jid ob st ?w1) H"
    using a report_retry_accounted [OF world_ok_report_update [OF assms(1)] _ n1, where jid = jid and H = H]
      assms(3) accounted_mono [OF a, of "insert ob H"]
    by (auto simp: report_tail_def split: job_status.splits option.splits intro!: accounted_logs)
  then show ?thesis
    unfolding yes(4) \<open>ob' = ob\<close> by (rule accounted_logs)
qed (use assms in simp)

text \<open>The final report of a registered worker: afterwards it need not hold the job any more.\<close>

lemma accounted_report_final:
  assumes "world_ok w" "accounted w (insert ob H)" "known w jid ob" "job_terminal st"
    "map_of (w_nodes w) wid \<noteq> None" "c_execution cfg"
  shows "accounted (report cfg wid jid st r e now w) H"
proof (cases rule: report_cases [where cfg = cfg and wid = wid and jid = jid and st = st and r = r
      and e = e and now = now and w = w])
  case no
  then have "map_of (w_jobs w) jid = None"
    using assms(5,6) by simp
  have "accounted w H"
    unfolding accounted_def
  proof (intro allI impI)
    fix jid' x j
    assume x: "map_of (w_jobs w) jid' = Some x" "w_heap w x = Some j" "job_active j"
    with assms(2) have "x \<in> located w \<union> insert ob H"
      unfolding accounted_def by blast
    moreover have "x \<noteq> ob"
      using x(1) world_ok_registered [OF assms(1) x(1)] assms(3) \<open>map_of (w_jobs w) jid = None\<close>
      by (auto simp: known_def)
    ultimately show "x \<in> located w \<union> H" by auto
  qed
  with no show ?thesis by simp
next
  case (yes n ob')
  have "ob' = ob"
    using world_ok_same_id [OF assms(1) world_ok_registered [OF assms(1) yes(2)] assms(3)] .
  let ?w1 = "report_update wid jid ob st r e now w"
  have a: "accounted ?w1 H"
    by (rule accounted_report_ended [OF assms(1-4)])
  have n1: "map_of (w_nodes ?w1) wid \<noteq> None"
    using yes(1) by (simp add: report_update_def Let_def)
  have "accounted (report_tail cfg wid jid ob st ?w1) H"
    using a report_retry_accounted [OF world_ok_report_update [OF assms(1)] _ n1, where jid = jid and H = H]
      assms(3) accounted_mono [OF a, of "insert ob H"]
    by (auto simp: report_tail_def split: job_status.splits option.splits intro!: accounted_logs)
  then show ?thesis
    unfolding yes(4) \<open>ob' = ob\<close> by (rule accounted_logs)
qed

section \<open>Monitoring and recovery\<close>

lemma world_ok_requeue: "world_ok w \<Longrightarrow> world_ok (requeue_jobs cfg obs w)"
proof (induction obs arbitrary: w)
  case (Cons ob obs)
  let ?w1 = "upd_job ob (\<lambda>j. j\<lparr>job_status := J_QUEUED, job_worker_id := None\<rparr>) w"
  have 1: "world_ok ?w1"
    by (rule world_ok_upd_job [OF Cons.prems]) simp_all
  then have "world_ok (publish_job cfg ''job_queued'' ob (enqueue ob ?w1))"
    by (intro world_ok_logs world_ok_enqueue)
  with 1 Cons.IH show ?case
    by (auto simp: Let_def)
qed simp

lemma accounted_requeue:
  assumes "c_execution cfg"
  shows "accounted w (set obs \<union> H) \<Longrightarrow> \<forall>ob \<in> set obs. w_heap w ob \<noteq> None \<Longrightarrow>
           accounted (requeue_jobs cfg obs w) H"
proof (induction obs arbitrary: w)
  case (Cons ob obs)
  let ?w1 = "upd_job ob (\<lambda>j. j\<lparr>job_status := J_QUEUED, job_worker_id := None\<rparr>) w"
  let ?w2 = "publish_job cfg ''job_queued'' ob (enqueue ob ?w1)"
  have "accounted ?w1 (insert ob (set obs \<union> H))"
    using Cons.prems(1) by (intro accounted_upd_held) auto
  then have "accounted ?w2 (set obs \<union> H)"
    using Cons.prems(2) by (intro accounted_logs accounted_enqueue) auto
  then have "accounted (requeue_jobs cfg obs ?w2) H"
    using Cons.prems(2) by (intro Cons.IH) auto
  then show ?case
    using assms by (simp add: Let_def)
qed simp

lemma world_ok_recover: "world_ok w \<Longrightarrow> world_ok (recover_worker_jobs cfg wid w)"
  unfolding recover_worker_jobs_def Let_def
  by (intro world_ok_requeue world_ok_upd_node) (auto elim: node_ok_same)

lemma get_assigned_known:
  assumes "world_ok w" "ob \<in> set (get_assigned_jobs wid w)"
  shows "w_heap w ob \<noteq> None"
proof (cases "map_of (w_nodes w) wid")
  case (Some n)
  with assms(2) obtain jid where "(jid, ob) \<in> set (wn_assigned n)"
    by (auto simp: get_assigned_jobs_def)
  then have "known w jid ob"
    using world_ok_node [OF assms(1) Some] by (auto simp: node_ok_def)
  then show ?thesis
    by (auto simp: known_def)
qed (use assms in \<open>simp add: get_assigned_jobs_def\<close>)

lemma accounted_recover:
  assumes "world_ok w" "accounted w H" "c_execution cfg"
  shows "accounted (recover_worker_jobs cfg wid w) H"
proof -
  let ?obs = "get_assigned_jobs wid w"
  let ?w1 = "upd_node wid (\<lambda>n. n\<lparr>wn_assigned := [], wn_queue := []\<rparr>) w"
  have "located w \<subseteq> located ?w1 \<union> set ?obs"
    by (rule located_upd_node) (auto simp: get_assigned_jobs_def)
  then have "accounted ?w1 (set ?obs \<union> H)"
    using assms(2) unfolding accounted_def upd_node_frames by blast
  then show ?thesis
    unfolding recover_worker_jobs_def Let_def
    using get_assigned_known [OF assms(1)] by (intro accounted_requeue assms) auto
qed

lemma world_ok_monitor_node: "world_ok w \<Longrightarrow> world_ok (monitor_node cfg now wid w)"
  unfolding monitor_node_def
  by (auto split: option.split intro!: world_ok_recover world_ok_logs world_ok_upd_node elim: node_ok_same)

lemma accounted_monitor_node:
  assumes "world_ok w" "accounted w H" "c_execution cfg"
  shows "accounted (monitor_node cfg now wid w) H"
  using assms unfolding monitor_node_def
  by (auto split: option.split elim: node_ok_same
      intro!: accounted_recover world_ok_logs world_ok_upd_node accounted_logs accounted_upd_node)

lemma monitor_workers_inv:
  assumes "world_ok w" "accounted w H" "c_execution cfg"
  shows "world_ok (monitor_workers cfg now w) \<and> accounted (monitor_workers cfg now w) H"
proof -
  have "world_ok (fold (monitor_node cfg now) wids w) \<and> accounted (fold (monitor_node cfg now) wids w) H"
    for wids
    using assms(1,2)
  proof (induction wids arbitrary: w)
    case (Cons wid wids)
    then show ?case
      using accounted_monitor_node [OF Cons.prems assms(3)] world_ok_monitor_node by simp
  qed simp
  then show ?thesis
    by (simp add: monitor_workers_def)
qed

lemma recover_nodes:
  "map_of (w_nodes (recover_worker_jobs cfg wid w)) x =
     (if x = wid then map_option (\<lambda>n. n\<lparr>wn_assigned := [], wn_queue := []\<rparr>) (map_of (w_nodes w) wid)
      else map_of (w_nodes w) x)"
  by (simp add: recover_worker_jobs_def Let_def)

lemma monitor_node_keys [simp]:
  "map_of (w_nodes (monitor_node cfg now wid w)) x = None \<longleftrightarrow> map_of (w_nodes w) x = None"
  by (auto simp: monitor_node_def recover_nodes split: option.splits)

section \<open>Submission, cancellation, clearing\<close>

text \<open>What a routing attempt owes: the job is handed over, or nothing has changed.\<close>

definition handover :: "world \<Rightarrow> nat set \<Rightarrow> world \<times> bool \<Rightarrow> bool" where
  "handover w H r \<longleftrightarrow> world_ok (fst r) \<and> (if snd r then accounted (fst r) H else fst r = w)"

lemma handover_stay: "world_ok w \<Longrightarrow> handover w H (w, False)"
  by (simp add: handover_def)

lemma handover_assign:
  assumes "world_ok w" "accounted w (insert ob H)" "map_of (w_jobs w) jid = Some ob"
  shows "handover w H (assign_job cfg jid wid w)"
  using world_ok_assign [OF assms(1)] accounted_assign [OF assms] assign_job_False [of cfg jid wid w]
  by (simp add: handover_def)

lemma handover_cap:
  assumes "world_ok w" "accounted w (insert ob H)" "w_heap w ob = Some j"
    "map_of (w_jobs w) (job_id j) = Some ob"
  shows "handover w H (case assign_job_by_capability cfg ob w of (w', r) \<Rightarrow> (w', r \<noteq> None))"
  using world_ok_assign_cap [OF assms(1), of cfg ob] accounted_assign_cap [OF assms, of cfg]
    assign_cap_failed [of cfg ob w]
  by (cases "assign_job_by_capability cfg ob w") (auto simp: handover_def)

lemma handover_then:
  assumes "handover w H r1" "r1 = (w1, d1)" "handover w H r2"
  shows "handover w H (if d1 then (w1, True) else r2)"
  using assms by (auto simp: handover_def)

lemma route_job_inv:
  assumes "world_ok w" "accounted w (insert ob H)" "map_of (w_jobs w) (job_id j) = Some ob"
  shows "handover w H (route_job cfg j ob w)"
proof -
  obtain j' where j': "w_heap w ob = Some j'" "job_id j' = job_id j"
    using known_heap [OF world_ok_registered [OF assms(1,3)]] by blast
  have cap: "handover w H (case assign_job_by_capability cfg ob w of (w', r) \<Rightarrow> (w', r \<noteq> None))"
    using handover_cap [OF assms(1,2) j'(1)] assms(3) j'(2) by simp
  have e: "handover w H (route_explicit cfg j w)"
    using handover_assign [OF assms] handover_stay [OF assms(1)]
    by (simp add: route_explicit_def split: option.split)
  have c: "handover w H (route_capability cfg j ob w)"
    using cap handover_stay [OF assms(1)] by (simp add: route_capability_def)
  have t: "handover w H (route_target cfg j ob w)"
    using cap handover_stay [OF assms(1)] by (simp add: route_target_def split: job_target.split)
  obtain w1 d1 where r1: "route_explicit cfg j w = (w1, d1)" by (cases "route_explicit cfg j w")
  obtain w2 d2 where r2: "route_capability cfg j ob w = (w2, d2)"
    by (cases "route_capability cfg j ob w")
  have stay: "\<not> d1 \<Longrightarrow> w1 = w" "\<not> d2 \<Longrightarrow> w2 = w"
    using e c r1 r2 by (auto simp: handover_def)
  have "handover w H (if d1 then (w1, True) else if d2 then (w2, True) else route_target cfg j ob w)"
    using handover_then [OF e r1 handover_then [OF c r2 t]] .
  then show ?thesis
    using handover_stay [OF assms(1)] stay by (auto simp: route_job_def r1 r2 split: if_splits)
qed

lemma submit_register_inv:
  assumes "world_ok w" "w_heap w ob = Some j"
  shows "world_ok (submit_register ctx ob j w)"
    and "accounted w H \<Longrightarrow> accounted (submit_register ctx ob j w) (insert ob H)"
    and "map_of (w_jobs (submit_register ctx ob j w)) (job_id j) = Some ob"
proof -
  let ?w1 = "w_jobs_update (\<lambda>_. AList.update (job_id j) ob (w_jobs w)) w"
  have ok: "world_ok ?w1"
    by (rule world_ok_jobs [OF assms(1)])
      (use assms(1) world_ok_def assms(2) world_ok_registered [OF assms(1)] in
        \<open>auto simp: dict_simps known_Some split: if_splits\<close>)
  show "world_ok (submit_register ctx ob j w)"
    unfolding submit_register_def Let_def by (rule world_ok_upd_job [OF ok]) simp_all
  show "accounted (submit_register ctx ob j w) (insert ob H)" if "accounted w H"
    unfolding submit_register_def Let_def
    by (rule accounted_upd_held)
      (use that in \<open>auto simp: accounted_def dict_simps split: if_splits\<close>)
  show "map_of (w_jobs (submit_register ctx ob j w)) (job_id j) = Some ob"
    by (simp add: submit_register_def Let_def dict_simps)
qed

lemma submit_job_inv:
  assumes "world_ok w" "accounted w H" "w_heap w ob \<noteq> None"
  shows "world_ok (submit_job cfg ctx ob w) \<and> accounted (submit_job cfg ctx ob w) H"
proof -
  obtain j where j: "w_heap w ob = Some j"
    using assms(3) by auto
  let ?w1 = "submit_register ctx ob j w"
  note ok = submit_register_inv(1) [OF assms(1) j, where ctx = ctx]
  note acc = submit_register_inv(2) [OF assms(1) j assms(2), where ctx = ctx]
  note reg = submit_register_inv(3) [OF assms(1) j, where ctx = ctx]
  obtain w2 b where r: "route_job cfg j ob ?w1 = (w2, b)"
    by (cases "route_job cfg j ob ?w1")
  have s: "submit_job cfg ctx ob w =
      (if b then w2 else publish_job cfg ''job_queued'' ob (enqueue ob w2))"
    using j r by (simp add: submit_job_def)
  show ?thesis
  proof (cases b)
    case True
    then show ?thesis
      using route_job_inv [OF ok acc reg, of cfg] r s by (simp add: handover_def)
  next
    case False
    then have "w2 = ?w1"
      using route_job_inv [OF ok acc reg, of cfg] r by (simp add: handover_def)
    moreover have "w_heap ?w1 ob \<noteq> None"
      using j by (simp add: submit_register_def)
    ultimately show ?thesis
      using False s ok acc
      by (simp add: world_ok_logs world_ok_enqueue accounted_logs accounted_enqueue)
  qed
qed

text \<open>A new job: its identity and its id are in use nowhere.\<close>

lemma create_job_inv:
  assumes "world_ok w" "accounted w H" "w_heap w ob = None" "\<forall>x. \<not> known w uuid x" "uuid \<noteq> []"
  shows "world_ok (create_job cfg ctx tg args kw name p r t uuid now ob w)
       \<and> accounted (create_job cfg ctx tg args kw name p r t uuid now ob w) H"
proof -
  let ?j = "mk_job tg args kw None name p r t None uuid now"
  let ?w1 = "w\<lparr>w_heap := (w_heap w)(ob \<mapsto> ?j)\<rparr>"
  have id: "job_id ?j = uuid" and ok: "job_ok ?j"
    by (simp_all add: mk_job_def or_default_def Let_def job_ok_def)
  have k: "known ?w1 jid x \<longleftrightarrow> (if x = ob then jid = uuid else known w jid x)" for jid x
    using id by (auto simp: known_def)
  have kk: "known w jid x \<Longrightarrow> known ?w1 jid x" for jid x
    using assms(3) by (auto simp: k known_def)
  have u: "ids_unique ?w1"
    using assms(1,4) unfolding world_ok_def ids_unique_def k by (auto split: if_splits)
  have n: "node_ok w wid n \<Longrightarrow> node_ok ?w1 wid n" for wid n
    using kk by (auto simp: node_ok_def)
  have "world_ok ?w1"
    using assms(1) u n kk ok unfolding world_ok_def by (auto split: if_splits)
  moreover have "accounted ?w1 H"
    unfolding accounted_def
  proof (intro allI impI)
    fix jid x j
    assume x: "map_of (w_jobs ?w1) jid = Some x" "w_heap ?w1 x = Some j" "job_active j"
    then have "x \<noteq> ob"
      using world_ok_registered [OF assms(1), of jid x] assms(3) by (auto simp: known_def)
    with x assms(2) have "x \<in> located w \<union> H"
      by (auto simp: accounted_def)
    then show "x \<in> located ?w1 \<union> H"
      by (simp add: located_def assigned_objs_def)
  qed
  ultimately show ?thesis
    unfolding create_job_def by (intro submit_job_inv) simp_all
qed

lemma job_cancel_inv:
  "job_ok j \<Longrightarrow> job_ok (fst (job_cancel now j))" "\<not> job_active (fst (job_cancel now j))"
  by (auto simp: job_cancel_def job_ok_def job_active_def job_terminal_def)

lemma cancel_job_inv:
  assumes "world_ok w" "accounted w H"
  shows "world_ok (fst (engine_cancel_job cfg now jid w))
       \<and> accounted (fst (engine_cancel_job cfg now jid w)) H"
proof -
  have "world_ok (upd_job ob (\<lambda>j. fst (job_cancel now j)) w)" for ob
    by (rule world_ok_upd_job [OF assms(1)]) (simp_all add: state_frames job_cancel_inv)
  moreover have "accounted (upd_job ob (\<lambda>j. fst (job_cancel now j)) w) H" for ob
    by (rule accounted_upd_ended) (use accounted_mono [OF assms(2)] in \<open>auto simp: job_cancel_inv\<close>)
  ultimately show ?thesis
    using assms by (auto simp: engine_cancel_job_def world_ok_logs accounted_logs split: option.split)
qed

lemma map_of_filter_Some:
  "distinct (map fst d) \<Longrightarrow> map_of (filter P d) k = Some v \<Longrightarrow> map_of d k = Some v"
  by (simp add: distinct_map_filter)

text \<open>\<open>clear_jobs\<close> unregisters exactly the jobs that have ended.\<close>

lemma clear_jobs_inv:
  assumes "world_ok w" "accounted w H"
  shows "world_ok (engine_clear_jobs w) \<and> accounted (engine_clear_jobs w) H"
proof -
  have wf: "wf_dict (w_jobs w)"
    using assms(1) by (simp add: world_ok_def)
  have sub: "map_of (w_jobs (engine_clear_jobs w)) jid = Some ob \<Longrightarrow> map_of (w_jobs w) jid = Some ob"
    for jid ob
    using map_of_filter_Some [OF wf [unfolded wf_dict_def]]
    by (simp add: engine_clear_jobs_def del: map_of_eq_Some_iff)
  have "world_ok (engine_clear_jobs w)"
    unfolding engine_clear_jobs_def
    by (rule world_ok_jobs [OF assms(1)])
      (use sub world_ok_registered [OF assms(1)] wf_dict_filter [OF wf] in \<open>auto simp: engine_clear_jobs_def\<close>)
  moreover have "located (engine_clear_jobs w) = located w" "w_heap (engine_clear_jobs w) = w_heap w"
    by (simp_all add: engine_clear_jobs_def located_def assigned_objs_def)
  ultimately show ?thesis
    using assms(2) sub unfolding accounted_def by simp blast
qed

section \<open>Worker threads\<close>

lemma take_inv:
  assumes "world_ok w" "accounted w H" "jq_get (w_queue w) = Inr (ob, q)"
  shows "world_ok (w_queue_update (\<lambda>_. q) w)"
    and "accounted (w_queue_update (\<lambda>_. q) w) (insert ob H)"
    and "w_heap w ob \<noteq> None"
proof -
  obtain e where e: "jq_heap (w_queue w) = e # jq_heap q" "ob = snd e" "jq_counter q = jq_counter (w_queue w)"
    using assms(3) by (auto simp: jq_get_def jq_get_nowait_def split: list.splits)
  then have objs: "jq_objs (w_queue w) = ob # jq_objs q"
    by (simp add: jq_objs_def)
  show "w_heap w ob \<noteq> None"
    using world_ok_queued [OF assms(1)] objs by simp
  have "jq_wf q"
    using assms(1) e by (auto simp: world_ok_def jq_wf_def)
  then show "world_ok (w_queue_update (\<lambda>_. q) w)"
    using assms(1) objs by (auto simp: world_ok_def ids_unique_def node_ok_def)
  have "located w \<subseteq> insert ob (located (w_queue_update (\<lambda>_. q) w))"
    using objs by (auto simp: located_def assigned_objs_def)
  then show "accounted (w_queue_update (\<lambda>_. q) w) (insert ob H)"
    using assms(2) unfolding accounted_def by auto
qed

lemma worker_begin_inv:
  assumes "world_ok w" "accounted w (insert ob H)"
  shows "world_ok (fst (worker_begin cfg now ob w))"
    and "snd (worker_begin cfg now ob w) \<Longrightarrow> accounted (fst (worker_begin cfg now ob w)) (insert ob H)"
    and "\<not> snd (worker_begin cfg now ob w) \<Longrightarrow> w_heap w ob \<noteq> None \<Longrightarrow>
           accounted (fst (worker_begin cfg now ob w)) H"
proof -
  have "world_ok (upd_job ob (\<lambda>j. j\<lparr>job_status := J_CANCELLED, job_completed_at := Some now\<rparr>) w)"
    "world_ok (upd_job ob (\<lambda>j. j\<lparr>job_status := J_RUNNING, job_started_at := Some now\<rparr>) w)"
    by (rule world_ok_upd_job [OF assms(1)]; simp)+
  then show "world_ok (fst (worker_begin cfg now ob w))"
    using assms(1) by (auto simp: worker_begin_def world_ok_logs split: option.split)
  have "accounted (upd_job ob (\<lambda>j. j\<lparr>job_status := J_RUNNING, job_started_at := Some now\<rparr>) w) (insert ob H)"
    by (rule accounted_upd_held [OF assms(2)]) simp
  then show "snd (worker_begin cfg now ob w) \<Longrightarrow>
      accounted (fst (worker_begin cfg now ob w)) (insert ob H)"
    by (auto simp: worker_begin_def accounted_logs split: option.splits if_splits)
  have "accounted (upd_job ob (\<lambda>j. j\<lparr>job_status := J_CANCELLED, job_completed_at := Some now\<rparr>) w) H"
    by (rule accounted_upd_ended [OF assms(2)]) (simp add: job_active_def)
  then show "\<not> snd (worker_begin cfg now ob w) \<Longrightarrow> w_heap w ob \<noteq> None \<Longrightarrow>
      accounted (fst (worker_begin cfg now ob w)) H"
    by (auto simp: worker_begin_def accounted_logs split: option.splits if_splits)
qed

lemma worker_finish_inv:
  assumes "world_ok w" "accounted w (insert ob H)" "w_heap w ob = Some j"
  shows "world_ok (worker_finish cfg now ob r w) \<and> accounted (worker_finish cfg now ob r w) H"
proof (cases r)
  case (Inr v)
  let ?w1 = "upd_job ob (\<lambda>j. j\<lparr>job_result := v, job_status := J_COMPLETED, job_completed_at := Some now\<rparr>) w"
  have "world_ok ?w1" by (rule world_ok_upd_job [OF assms(1)]) simp_all
  moreover have "accounted ?w1 H"
    by (rule accounted_upd_ended [OF assms(2)]) (simp add: job_active_def)
  ultimately show ?thesis
    using assms(3) Inr by (simp add: worker_finish_def world_ok_logs accounted_logs)
next
  case (Inl e)
  show ?thesis
  proof (cases "job_retry_count j < job_retries j")
    case True
    let ?w1 = "upd_job ob (\<lambda>j. j\<lparr>job_retry_count := job_retry_count j + 1, job_status := J_QUEUED\<rparr>) w"
    have "world_ok ?w1"
      by (rule world_ok_upd_job [OF assms(1)]) (use assms(3) True in \<open>auto simp: job_ok_def\<close>)
    moreover have "accounted ?w1 (insert ob H)"
      by (rule accounted_upd_held [OF assms(2)]) simp
    ultimately show ?thesis
      using assms(3) Inl True
      by (simp add: worker_finish_def world_ok_logs world_ok_enqueue accounted_logs accounted_enqueue)
  next
    case False
    let ?w1 = "upd_job ob (\<lambda>j. j\<lparr>job_error := Some (exn_msg e), job_status := J_FAILED,
                                 job_completed_at := Some now\<rparr>) w"
    have "world_ok ?w1" by (rule world_ok_upd_job [OF assms(1)]) simp_all
    moreover have "accounted ?w1 H"
      by (rule accounted_upd_ended [OF assms(2)]) (simp add: job_active_def)
    ultimately show ?thesis
      using assms(3) Inl False by (simp add: worker_finish_def world_ok_logs accounted_logs)
  qed
qed

section \<open>Distributed workers\<close>

lemma report_nodes [simp]:
  "map_of (w_nodes (report cfg wid jid st r e now w)) x = None \<longleftrightarrow> map_of (w_nodes w) x = None"
  by (cases rule: report_cases [where cfg = cfg and wid = wid and jid = jid and st = st and r = r
      and e = e and now = now and w = w])
    (auto simp: report_tail_def report_update_def report_retry_def Let_def
      split: job_status.splits option.splits)

lemma report_same_jobs: "same_jobs w (report cfg wid jid st r e now w)"
  by (cases rule: report_cases [where cfg = cfg and wid = wid and jid = jid and st = st and r = r
      and e = e and now = now and w = w])
    (auto simp: same_jobs_def report_tail_def report_update_def report_retry_def Let_def
      option.map_comp comp_def split: job_status.splits option.splits)

lemma in_set_tlD: "x \<in> set (tl xs) \<Longrightarrow> x \<in> set xs"
  by (cases xs) auto

lemma known_same: "same_jobs w w' \<Longrightarrow> known w' jid ob = known w jid ob"
proof -
  assume "same_jobs w w'"
  then have "map_option fst (map_option (\<lambda>j. (job_id j, job_retries j)) (w_heap w' ob))
      = map_option fst (map_option (\<lambda>j. (job_id j, job_retries j)) (w_heap w ob))"
    by (simp add: same_jobs_def)
  then show ?thesis
    by (simp add: known_def option.map_comp comp_def)
qed

lemma dw_fetch_inv:
  assumes "world_ok w" "accounted w H" "dw_fetch_job wid w = Some (ob, w')"
  shows "world_ok w'" "accounted w' H" "w_heap w ob \<noteq> None" "map_of (w_nodes w) wid \<noteq> None"
proof -
  obtain n obs where n: "map_of (w_nodes w) wid = Some n" "wn_queue n = ob # obs"
    and w': "w' = upd_node wid (\<lambda>n. n\<lparr>wn_queue := tl (wn_queue n)\<rparr>) w"
    using assms(3) by (auto simp: dw_fetch_job_def get_worker_def split: option.splits list.splits)
  show "world_ok w'"
    unfolding w' by (rule world_ok_upd_node [OF assms(1)])
      (erule node_ok_same, auto simp: n elim: in_set_tlD)
  show "accounted w' H"
    unfolding w' by (rule accounted_upd_node [OF assms(2)]) simp
  show "w_heap w ob \<noteq> None" "map_of (w_nodes w) wid \<noteq> None"
    using world_ok_node [OF assms(1) n(1)] n by (auto simp: node_ok_def)
qed

lemma dw_begin_inv:
  assumes "world_ok w" "accounted w (insert ob H)" "w_heap w ob \<noteq> None"
    "map_of (w_nodes w) wid \<noteq> None" "c_execution cfg"
  shows "world_ok (fst (dw_begin cfg wid now ob w))"
    and "snd (dw_begin cfg wid now ob w) \<Longrightarrow> accounted (fst (dw_begin cfg wid now ob w)) (insert ob H)"
    and "\<not> snd (dw_begin cfg wid now ob w) \<Longrightarrow> accounted (fst (dw_begin cfg wid now ob w)) H"
proof -
  obtain j where j: "w_heap w ob = Some j"
    using assms(3) by auto
  let ?w1 = "report cfg wid (job_id j) J_RUNNING PNone None now w"
  have ok: "world_ok ?w1"
    by (rule world_ok_report [OF assms(1)])
  have acc: "accounted ?w1 (insert ob H)"
    by (rule accounted_report [OF assms(1,2) known_Some [OF j]]) simp
  have k: "known ?w1 (job_id j) ob"
    using known_same [OF report_same_jobs] known_Some [OF j] by simp
  then obtain j1 where j1: "w_heap ?w1 ob = Some j1" "job_id j1 = job_id j"
    using known_heap by blast
  have ok2: "world_ok (report cfg wid (job_id j1) J_CANCELLED PNone None now ?w1)"
    by (rule world_ok_report [OF ok])
  have acc2: "accounted (report cfg wid (job_id j1) J_CANCELLED PNone None now ?w1) H"
    by (rule accounted_report_final [OF ok acc]) (use k j1(2) assms(4,5) in simp_all)
  show "world_ok (fst (dw_begin cfg wid now ob w))"
    "snd (dw_begin cfg wid now ob w) \<Longrightarrow> accounted (fst (dw_begin cfg wid now ob w)) (insert ob H)"
    "\<not> snd (dw_begin cfg wid now ob w) \<Longrightarrow> accounted (fst (dw_begin cfg wid now ob w)) H"
    using ok ok2 acc acc2 by (auto simp: dw_begin_def j j1 Let_def split: if_splits)
qed

lemma dw_finish_inv:
  assumes "world_ok w" "accounted w (insert ob H)" "w_heap w ob = Some j"
    "map_of (w_nodes w) wid \<noteq> None" "c_execution cfg"
  shows "world_ok (dw_finish cfg wid now ob r w) \<and> accounted (dw_finish cfg wid now ob r w) H"
  using world_ok_report [OF assms(1)]
    accounted_report_final [OF assms(1,2) known_Some [OF assms(3)] _ assms(4,5)]
  by (cases r) (simp_all add: dw_finish_def assms(3))

end
