(* ===== verification/ExecSystem.thy ===== *)
theory ExecSystem
  imports ExecInvariant
begin

text \<open>
  The execution service as a transition system: clients that create, submit, cancel and clear
  jobs, worker threads, distributed workers and the monitor act on the shared state in any
  order. A worker thread takes a job, begins it and finishes it in three steps; a distributed
  worker fetches, begins and finishes. \<open>sy_taken\<close> and \<open>sy_running\<close> are the jobs between the steps
  of worker threads, \<open>sy_fetched\<close> and \<open>sy_remote\<close> those of distributed workers, with the worker's
  id. The steps do not include the shutdown of the engine or the manager, nor a worker that
  unregisters or registers again under an id in use; what those do to jobs is stated separately.
\<close>

record sys =
  sy_w :: world
  sy_taken :: "nat list"
  sy_running :: "nat list"
  sy_fetched :: "(string \<times> nat) list"
  sy_remote :: "(string \<times> nat) list"

definition sys_init :: sys where
  "sys_init = \<lparr> sy_w = w_init, sy_taken = [], sy_running = [], sy_fetched = [], sy_remote = [] \<rparr>"

inductive sys_step :: "client_cfg \<Rightarrow> sys \<Rightarrow> sys \<Rightarrow> bool" for cfg where
  create: "w_heap (sy_w s) ob = None \<Longrightarrow> \<forall>x. \<not> known (sy_w s) uuid x \<Longrightarrow> uuid \<noteq> [] \<Longrightarrow>
     sys_step cfg s (s\<lparr>sy_w := create_job cfg ctx tg args kw name p r t uuid now ob (sy_w s)\<rparr>)"
| submit: "w_heap (sy_w s) ob \<noteq> None \<Longrightarrow>
     sys_step cfg s (s\<lparr>sy_w := submit_job cfg ctx ob (sy_w s)\<rparr>)"
| cancel: "sys_step cfg s (s\<lparr>sy_w := fst (engine_cancel_job cfg now jid (sy_w s))\<rparr>)"
| clear: "sys_step cfg s (s\<lparr>sy_w := engine_clear_jobs (sy_w s)\<rparr>)"
| take: "jq_get (w_queue (sy_w s)) = Inr (ob, q) \<Longrightarrow>
     sys_step cfg s (s\<lparr>sy_w := w_queue_update (\<lambda>_. q) (sy_w s), sy_taken := ob # sy_taken s\<rparr>)"
| begin_run: "ob \<in> set (sy_taken s) \<Longrightarrow> worker_begin cfg now ob (sy_w s) = (w', True) \<Longrightarrow>
     sys_step cfg s (s\<lparr>sy_w := w', sy_taken := remove1 ob (sy_taken s),
                        sy_running := ob # sy_running s\<rparr>)"
| begin_skip: "ob \<in> set (sy_taken s) \<Longrightarrow> worker_begin cfg now ob (sy_w s) = (w', False) \<Longrightarrow>
     sys_step cfg s (s\<lparr>sy_w := w', sy_taken := remove1 ob (sy_taken s)\<rparr>)"
| finish: "ob \<in> set (sy_running s) \<Longrightarrow>
     sys_step cfg s (s\<lparr>sy_w := worker_finish cfg now ob r (sy_w s),
                        sy_running := remove1 ob (sy_running s)\<rparr>)"
| register: "map_of (w_nodes (sy_w s)) wid = None \<Longrightarrow>
     sys_step cfg s (s\<lparr>sy_w := register_worker cfg wid name caps health now (sy_w s)\<rparr>)"
| heartbeat: "sys_step cfg s (s\<lparr>sy_w := fst (manager_heartbeat cfg wid health now (sy_w s))\<rparr>)"
| monitor: "sys_step cfg s (s\<lparr>sy_w := monitor_workers cfg now (sy_w s)\<rparr>)"
| assign: "sys_step cfg s (s\<lparr>sy_w := fst (assign_job cfg jid wid (sy_w s))\<rparr>)"
| set_state: "sys_step cfg s (s\<lparr>sy_w := snd (dw_set_state cfg st ev d (sy_w s))\<rparr>)"
| fetch: "dw_fetch_job wid (sy_w s) = Some (ob, w') \<Longrightarrow>
     sys_step cfg s (s\<lparr>sy_w := w', sy_fetched := (wid, ob) # sy_fetched s\<rparr>)"
| dbegin_run: "(wid, ob) \<in> set (sy_fetched s) \<Longrightarrow> dw_begin cfg wid now ob (sy_w s) = (w', True) \<Longrightarrow>
     sys_step cfg s (s\<lparr>sy_w := w', sy_fetched := remove1 (wid, ob) (sy_fetched s),
                        sy_remote := (wid, ob) # sy_remote s\<rparr>)"
| dbegin_skip: "(wid, ob) \<in> set (sy_fetched s) \<Longrightarrow> dw_begin cfg wid now ob (sy_w s) = (w', False) \<Longrightarrow>
     sys_step cfg s (s\<lparr>sy_w := w', sy_fetched := remove1 (wid, ob) (sy_fetched s)\<rparr>)"
| dfinish: "(wid, ob) \<in> set (sy_remote s) \<Longrightarrow>
     sys_step cfg s (s\<lparr>sy_w := dw_finish cfg wid now ob r (sy_w s),
                        sy_remote := remove1 (wid, ob) (sy_remote s)\<rparr>)"

inductive sys_reachable :: "client_cfg \<Rightarrow> sys \<Rightarrow> bool" for cfg where
  start: "sys_reachable cfg sys_init"
| step: "sys_reachable cfg s \<Longrightarrow> sys_step cfg s s' \<Longrightarrow> sys_reachable cfg s'"

definition held :: "sys \<Rightarrow> nat set" where
  "held s = set (sy_taken s) \<union> set (sy_running s) \<union> snd ` set (sy_fetched s) \<union> snd ` set (sy_remote s)"

definition sys_ok :: "sys \<Rightarrow> bool" where
  "sys_ok s \<longleftrightarrow> world_ok (sy_w s) \<and> accounted (sy_w s) (held s)
     \<and> (\<forall>ob \<in> held s. w_heap (sy_w s) ob \<noteq> None)
     \<and> (\<forall>wid \<in> fst ` (set (sy_fetched s) \<union> set (sy_remote s)). map_of (w_nodes (sy_w s)) wid \<noteq> None)"

section \<open>Objects and nodes stay\<close>

text \<open>No step removes a job object or a registered node.\<close>

definition keeps :: "world \<Rightarrow> world \<Rightarrow> bool" where
  "keeps w w' \<longleftrightarrow> (\<forall>ob. w_heap w ob \<noteq> None \<longrightarrow> w_heap w' ob \<noteq> None)
     \<and> (\<forall>wid. map_of (w_nodes w) wid \<noteq> None \<longrightarrow> map_of (w_nodes w') wid \<noteq> None)"

lemma keeps_refl [simp, intro]: "keeps w w"
  by (simp add: keeps_def)

lemma keeps_trans: "keeps a b \<Longrightarrow> keeps b c \<Longrightarrow> keeps a c"
  by (simp add: keeps_def)

lemma keeps_prim [simp]:
  "keeps w (emit cfg n p w') \<longleftrightarrow> keeps w w'" "keeps w (publish_job cfg n ob w') \<longleftrightarrow> keeps w w'"
  "keeps w (publish_worker cfg n i x w') \<longleftrightarrow> keeps w w'" "keeps w (enqueue ob w') \<longleftrightarrow> keeps w w'"
  "keeps w (save_to_memory cfg ob w') \<longleftrightarrow> keeps w w'" "keeps w (inc_metric cfg n l w') \<longleftrightarrow> keeps w w'"
  "keeps w (upd_node wid g w') \<longleftrightarrow> keeps w w'" "keeps w (upd_job ob f w') \<longleftrightarrow> keeps w w'"
  "keeps w (w_assignments_update k w') \<longleftrightarrow> keeps w w'" "keeps w (w_queue_update q w') \<longleftrightarrow> keeps w w'"
  "keeps w (w_jobs_update d w') \<longleftrightarrow> keeps w w'"
  by (auto simp: keeps_def split: if_splits)

lemma keeps_requeue [simp]: "keeps w (requeue_jobs cfg obs w') \<longleftrightarrow> keeps w w'"
  by (induction obs arbitrary: w') (simp_all add: Let_def)

lemma keeps_monitor_node [simp]: "keeps w (monitor_node cfg now wid w') \<longleftrightarrow> keeps w w'"
  by (simp add: monitor_node_def recover_worker_jobs_def Let_def split: option.split)

lemma keeps_monitor [simp]: "keeps w (monitor_workers cfg now w') \<longleftrightarrow> keeps w w'"
proof -
  have "keeps w (fold (monitor_node cfg now) wids w') \<longleftrightarrow> keeps w w'" for wids
    by (induction wids arbitrary: w') simp_all
  then show ?thesis by (simp add: monitor_workers_def)
qed

lemma keeps_assign [simp]: "keeps w (fst (assign_job cfg jid wid w')) \<longleftrightarrow> keeps w w'"
  by (cases cfg jid wid w' rule: assign_job_cases) simp_all

lemma keeps_assign_cap [simp]: "keeps w (fst (assign_job_by_capability cfg ob w')) \<longleftrightarrow> keeps w w'"
  by (cases cfg ob w' rule: assign_by_capability_cases) simp_all

lemma keeps_report [simp]: "keeps w (report cfg wid jid st r e now w') \<longleftrightarrow> keeps w w'"
  by (cases rule: report_cases [where cfg = cfg and wid = wid and jid = jid and st = st and r = r
      and e = e and now = now and w = w'])
    (simp_all add: report_tail_def report_update_def report_retry_def Let_def
      split: job_status.splits option.splits)

lemma keeps_route_parts:
  "keeps w (fst (route_explicit cfg j w')) \<longleftrightarrow> keeps w w'"
  "keeps w (fst (route_capability cfg j ob w')) \<longleftrightarrow> keeps w w'"
  "keeps w (fst (route_target cfg j ob w')) \<longleftrightarrow> keeps w w'"
  using keeps_assign_cap [of w cfg ob w']
  by (simp_all add: route_explicit_def route_capability_def route_target_def split_def
      split: option.split job_target.split)

lemma keeps_route: "keeps w (fst (route_job cfg j ob w')) \<longleftrightarrow> keeps w w'"
  by (simp add: route_job_def split_def keeps_route_parts)

lemma keeps_submit [simp]: "keeps w (submit_job cfg ctx ob w') \<longleftrightarrow> keeps w w'"
  by (simp add: submit_job_def submit_register_def Let_def split_def keeps_route split: option.split)

lemma keeps_create:
  assumes "w_heap w ob = None"
  shows "keeps w (create_job cfg ctx tg args kw name p r t uuid now ob w)"
  unfolding create_job_def keeps_submit using assms by (auto simp: keeps_def)

lemma keeps_register:
  "keeps w (register_worker cfg wid name caps health now w)"
  by (auto simp: keeps_def)

lemma keeps_others [simp]:
  "keeps w (fst (engine_cancel_job cfg now jid w)) " "keeps w (engine_clear_jobs w)"
  "keeps w (fst (worker_begin cfg now ob w))" "keeps w (worker_finish cfg now ob r w)"
  "keeps w (fst (manager_heartbeat cfg wid health now w))"
  "keeps w (snd (dw_set_state cfg st ev d w))"
  "keeps w (fst (dw_begin cfg wid now ob w))" "keeps w (dw_finish cfg wid now ob r w)"
  by (auto simp: engine_cancel_job_def engine_clear_jobs_def worker_begin_def worker_finish_def
      manager_heartbeat_def dw_set_state_def dw_publish_def dw_begin_def dw_finish_def Let_def
      split: option.split sum.split)

lemma keeps_fetch: "dw_fetch_job wid w = Some (ob, w') \<Longrightarrow> keeps w w'"
  by (auto simp: dw_fetch_job_def split: option.splits list.splits)

section \<open>Every step preserves the invariant\<close>

lemma sys_ok_init: "sys_ok sys_init"
  by (simp add: sys_ok_def sys_init_def held_def w_init_def world_ok_def ids_unique_def known_def
      accounted_def jq_wf_def jq_init_def jq_objs_def)

lemma sys_okI:
  assumes "sys_ok s" "world_ok (sy_w s')" "accounted (sy_w s') (held s')" "keeps (sy_w s) (sy_w s')"
    "\<forall>ob \<in> held s' - held s. w_heap (sy_w s) ob \<noteq> None"
    "\<forall>wid \<in> fst ` (set (sy_fetched s') \<union> set (sy_remote s')) -
        fst ` (set (sy_fetched s) \<union> set (sy_remote s)). map_of (w_nodes (sy_w s)) wid \<noteq> None"
  shows "sys_ok s'"
proof -
  have "w_heap (sy_w s) ob \<noteq> None" if "ob \<in> held s'" for ob
    using that assms(1,5) by (cases "ob \<in> held s") (auto simp: sys_ok_def)
  moreover have "map_of (w_nodes (sy_w s)) wid \<noteq> None"
    if "wid \<in> fst ` (set (sy_fetched s') \<union> set (sy_remote s'))" for wid
    using that assms(1,6) unfolding sys_ok_def by blast
  ultimately show ?thesis
    using assms(2-4) unfolding sys_ok_def keeps_def by blast
qed

lemma sys_ok_world:
  assumes "sys_ok s" "world_ok w'" "accounted w' (held s)" "keeps (sy_w s) w'"
  shows "sys_ok (s\<lparr>sy_w := w'\<rparr>)"
  by (rule sys_okI [OF assms(1)]) (use assms(2-4) in \<open>simp_all add: held_def\<close>)

lemma set_remove1_insert: "set xs \<subseteq> insert x (set (remove1 x xs))"
  by (induction xs) auto

lemma held_subset:
  "held s \<subseteq> insert ob (held (s\<lparr>sy_w := w, sy_taken := remove1 ob (sy_taken s)\<rparr>))"
  "held s \<subseteq> insert ob (held (s\<lparr>sy_w := w, sy_running := remove1 ob (sy_running s)\<rparr>))"
  "held s \<subseteq> insert ob (held (s\<lparr>sy_w := w, sy_fetched := remove1 (wid, ob) (sy_fetched s)\<rparr>))"
  "held s \<subseteq> insert ob (held (s\<lparr>sy_w := w, sy_remote := remove1 (wid, ob) (sy_remote s)\<rparr>))"
  using set_remove1_insert [of "sy_taken s" ob] set_remove1_insert [of "sy_running s" ob]
    image_mono [OF set_remove1_insert [of "sy_fetched s" "(wid, ob)"], of snd]
    image_mono [OF set_remove1_insert [of "sy_remote s" "(wid, ob)"], of snd]
  by (auto simp: held_def)

text \<open>A step that ends the work on a job, and one that passes it on.\<close>

lemma sys_ok_release:
  assumes "sys_ok s" "world_ok (sy_w s')" "accounted (sy_w s') (held s')" "keeps (sy_w s) (sy_w s')"
    "set (sy_taken s') \<subseteq> set (sy_taken s)" "set (sy_running s') \<subseteq> set (sy_running s)"
    "set (sy_fetched s') \<subseteq> set (sy_fetched s)" "set (sy_remote s') \<subseteq> set (sy_remote s)"
  shows "sys_ok s'"
proof (rule sys_okI [OF assms(1-4)])
  have "held s' \<subseteq> held s"
    using assms(5-8) by (auto simp: held_def)
  then show "\<forall>ob \<in> held s' - held s. w_heap (sy_w s) ob \<noteq> None"
    by blast
  have "fst ` (set (sy_fetched s') \<union> set (sy_remote s')) \<subseteq> fst ` (set (sy_fetched s) \<union> set (sy_remote s))"
    using assms(7,8) by blast
  then show "\<forall>wid \<in> fst ` (set (sy_fetched s') \<union> set (sy_remote s')) -
        fst ` (set (sy_fetched s) \<union> set (sy_remote s)). map_of (w_nodes (sy_w s)) wid \<noteq> None"
    by blast
qed

lemma sys_ok_pass:
  assumes "sys_ok s" "world_ok (sy_w s')" "accounted (sy_w s') (held s)" "keeps (sy_w s) (sy_w s')"
    "held s' = held s"
    "fst ` (set (sy_fetched s') \<union> set (sy_remote s')) \<subseteq> fst ` (set (sy_fetched s) \<union> set (sy_remote s))"
  shows "sys_ok s'"
proof (rule sys_okI [OF assms(1,2) _ assms(4)])
  show "accounted (sy_w s') (held s')"
    using assms(3,5) by simp
qed (use assms(5,6) in blast)+

lemma held_pass:
  "ob \<in> set (sy_taken s) \<Longrightarrow>
     held (s\<lparr>sy_w := w, sy_taken := remove1 ob (sy_taken s), sy_running := ob # sy_running s\<rparr>) = held s"
  "(wid, ob) \<in> set (sy_fetched s) \<Longrightarrow>
     held (s\<lparr>sy_w := w, sy_fetched := remove1 (wid, ob) (sy_fetched s),
            sy_remote := (wid, ob) # sy_remote s\<rparr>) = held s"
proof -
  have 1: "insert x (set (remove1 x xs)) = set xs" if "x \<in> set xs" for x :: 'b and xs
    using set_remove1_insert [of xs x] set_remove1_subset [of x xs] that by blast
  assume t: "ob \<in> set (sy_taken s)"
  have "held (s\<lparr>sy_w := w, sy_taken := remove1 ob (sy_taken s), sy_running := ob # sy_running s\<rparr>)
      = insert ob (set (remove1 ob (sy_taken s))) \<union> set (sy_running s)
        \<union> snd ` set (sy_fetched s) \<union> snd ` set (sy_remote s)"
    by (simp add: held_def)
  also have "\<dots> = held s"
    unfolding 1 [OF t] held_def ..
  finally show "held (s\<lparr>sy_w := w, sy_taken := remove1 ob (sy_taken s),
      sy_running := ob # sy_running s\<rparr>) = held s" .
next
  have 1: "insert x (set (remove1 x xs)) = set xs" if "x \<in> set xs" for x :: 'b and xs
    using set_remove1_insert [of xs x] set_remove1_subset [of x xs] that by blast
  assume t: "(wid, ob) \<in> set (sy_fetched s)"
  have "held (s\<lparr>sy_w := w, sy_fetched := remove1 (wid, ob) (sy_fetched s),
            sy_remote := (wid, ob) # sy_remote s\<rparr>)
      = set (sy_taken s) \<union> set (sy_running s)
        \<union> snd ` insert (wid, ob) (set (remove1 (wid, ob) (sy_fetched s))) \<union> snd ` set (sy_remote s)"
    by (simp add: held_def)
  also have "\<dots> = held s"
    unfolding 1 [OF t] held_def ..
  finally show "held (s\<lparr>sy_w := w, sy_fetched := remove1 (wid, ob) (sy_fetched s),
            sy_remote := (wid, ob) # sy_remote s\<rparr>) = held s" .
qed

lemma sys_ok_parts:
  assumes "sys_ok s"
  shows "world_ok (sy_w s)" "accounted (sy_w s) (held s)"
    "ob \<in> held s \<Longrightarrow> w_heap (sy_w s) ob \<noteq> None"
    "wid \<in> fst ` (set (sy_fetched s) \<union> set (sy_remote s)) \<Longrightarrow> map_of (w_nodes (sy_w s)) wid \<noteq> None"
  using assms unfolding sys_ok_def by blast+

lemma sys_ok_local:
  assumes "sys_ok s"
  shows "ob \<in> set (sy_taken s) \<Longrightarrow> worker_begin cfg now ob (sy_w s) = (w', True) \<Longrightarrow>
      sys_ok (s\<lparr>sy_w := w', sy_taken := remove1 ob (sy_taken s), sy_running := ob # sy_running s\<rparr>)"
    and "ob \<in> set (sy_taken s) \<Longrightarrow> worker_begin cfg now ob (sy_w s) = (w', False) \<Longrightarrow>
      sys_ok (s\<lparr>sy_w := w', sy_taken := remove1 ob (sy_taken s)\<rparr>)"
    and "ob \<in> set (sy_running s) \<Longrightarrow>
      sys_ok (s\<lparr>sy_w := worker_finish cfg now ob r (sy_w s), sy_running := remove1 ob (sy_running s)\<rparr>)"
proof -
  note ok = sys_ok_parts(1) [OF assms] and acc = sys_ok_parts(2) [OF assms]
  have k: "keeps (sy_w s) (fst (worker_begin cfg now ob (sy_w s)))" by simp
  {
    assume t: "ob \<in> set (sy_taken s)" and b: "worker_begin cfg now ob (sy_w s) = (w', True)"
    have h: "ob \<in> held s" using t by (simp add: held_def)
    have "accounted (sy_w s) (insert ob (held s))"
      using accounted_mono [OF acc] by blast
    from worker_begin_inv(1,2) [OF ok this, of cfg now] b
    have "world_ok w'" "accounted w' (insert ob (held s))" by simp_all
    then show "sys_ok (s\<lparr>sy_w := w', sy_taken := remove1 ob (sy_taken s),
        sy_running := ob # sy_running s\<rparr>)"
      using k b h by (intro sys_ok_pass [OF assms]) (simp_all add: held_pass(1) [OF t] insert_absorb)
  next
    assume t: "ob \<in> set (sy_taken s)" and b: "worker_begin cfg now ob (sy_w s) = (w', False)"
    have h: "ob \<in> held s" using t by (simp add: held_def)
    note inv = worker_begin_inv(1,3) [OF ok accounted_mono [OF acc held_subset(1)], where cfg = cfg and now = now and ob = ob]
    show "sys_ok (s\<lparr>sy_w := w', sy_taken := remove1 ob (sy_taken s)\<rparr>)"
      by (rule sys_ok_release [OF assms])
        (use inv b k sys_ok_parts(3) [OF assms h] in \<open>simp_all add: set_remove1_subset\<close>)
  next
    assume t: "ob \<in> set (sy_running s)"
    have h: "ob \<in> held s" using t by (simp add: held_def)
    then obtain j where "w_heap (sy_w s) ob = Some j"
      using sys_ok_parts(3) [OF assms h] by auto
    note inv = worker_finish_inv [OF ok accounted_mono [OF acc held_subset(2)] this, of cfg now r]
    show "sys_ok (s\<lparr>sy_w := worker_finish cfg now ob r (sy_w s),
        sy_running := remove1 ob (sy_running s)\<rparr>)"
      by (rule sys_ok_release [OF assms]) (use inv in \<open>simp_all add: set_remove1_subset\<close>)
  }
qed

lemma sys_ok_remote:
  assumes "sys_ok s" "c_execution cfg"
  shows "(wid, ob) \<in> set (sy_fetched s) \<Longrightarrow> dw_begin cfg wid now ob (sy_w s) = (w', True) \<Longrightarrow>
      sys_ok (s\<lparr>sy_w := w', sy_fetched := remove1 (wid, ob) (sy_fetched s),
               sy_remote := (wid, ob) # sy_remote s\<rparr>)"
    and "(wid, ob) \<in> set (sy_fetched s) \<Longrightarrow> dw_begin cfg wid now ob (sy_w s) = (w', False) \<Longrightarrow>
      sys_ok (s\<lparr>sy_w := w', sy_fetched := remove1 (wid, ob) (sy_fetched s)\<rparr>)"
    and "(wid, ob) \<in> set (sy_remote s) \<Longrightarrow>
      sys_ok (s\<lparr>sy_w := dw_finish cfg wid now ob r (sy_w s),
               sy_remote := remove1 (wid, ob) (sy_remote s)\<rparr>)"
proof -
  note ok = sys_ok_parts(1) [OF assms(1)] and acc = sys_ok_parts(2) [OF assms(1)]
  have k: "keeps (sy_w s) (fst (dw_begin cfg wid now ob (sy_w s)))" by simp
  have held: "ob \<in> held s" "w_heap (sy_w s) ob \<noteq> None" "map_of (w_nodes (sy_w s)) wid \<noteq> None"
    if "(wid, ob) \<in> set (sy_fetched s) \<union> set (sy_remote s)"
  proof -
    show h: "ob \<in> held s"
      using that by (force simp: held_def)
    show "w_heap (sy_w s) ob \<noteq> None"
      by (rule sys_ok_parts(3) [OF assms(1) h])
    have "wid \<in> fst ` (set (sy_fetched s) \<union> set (sy_remote s))"
      using that by force
    then show "map_of (w_nodes (sy_w s)) wid \<noteq> None"
      by (rule sys_ok_parts(4) [OF assms(1)])
  qed
  {
    assume t: "(wid, ob) \<in> set (sy_fetched s)" and b: "dw_begin cfg wid now ob (sy_w s) = (w', True)"
    have "accounted (sy_w s) (insert ob (held s))"
      using accounted_mono [OF acc] by blast
    from dw_begin_inv(1,2) [OF ok this held(2,3) assms(2), of now] b t held(1)
    have "world_ok w'" "accounted w' (held s)" by (simp_all add: insert_absorb)
    moreover have "fst ` (set (remove1 (wid, ob) (sy_fetched s)) \<union> insert (wid, ob) (set (sy_remote s)))
        \<subseteq> fst ` (set (sy_fetched s) \<union> set (sy_remote s))"
      using t set_remove1_subset [of "(wid, ob)" "sy_fetched s"] by (intro image_mono) blast
    ultimately show "sys_ok (s\<lparr>sy_w := w', sy_fetched := remove1 (wid, ob) (sy_fetched s),
               sy_remote := (wid, ob) # sy_remote s\<rparr>)"
      using k b by (intro sys_ok_pass [OF assms(1)]) (simp_all add: held_pass(2) [OF t])
  next
    assume t: "(wid, ob) \<in> set (sy_fetched s)" and b: "dw_begin cfg wid now ob (sy_w s) = (w', False)"
    have "accounted (sy_w s)
        (insert ob (held (s\<lparr>sy_w := w', sy_fetched := remove1 (wid, ob) (sy_fetched s)\<rparr>)))"
      by (rule accounted_mono [OF acc held_subset(3)])
    note inv = dw_begin_inv(1,3) [OF ok this held(2,3) [OF UnI1 [OF t]] assms(2), of now]
    show "sys_ok (s\<lparr>sy_w := w', sy_fetched := remove1 (wid, ob) (sy_fetched s)\<rparr>)"
      by (rule sys_ok_release [OF assms(1)]) (use inv b k t in \<open>simp_all add: set_remove1_subset\<close>)
  next
    assume t: "(wid, ob) \<in> set (sy_remote s)"
    then obtain j where "w_heap (sy_w s) ob = Some j"
      using held(2) by auto
    note inv = dw_finish_inv [OF ok accounted_mono [OF acc held_subset(4)] this held(3) assms(2)]
    show "sys_ok (s\<lparr>sy_w := dw_finish cfg wid now ob r (sy_w s),
               sy_remote := remove1 (wid, ob) (sy_remote s)\<rparr>)"
      by (rule sys_ok_release [OF assms(1)]) (use inv t in \<open>simp_all add: set_remove1_subset\<close>)
  }
qed

lemma sys_ok_step:
  assumes "sys_step cfg s s'" "c_execution cfg" "sys_ok s"
  shows "sys_ok s'"
proof -
  note ok = sys_ok_parts(1) [OF assms(3)] and acc = sys_ok_parts(2) [OF assms(3)]
  note world = sys_ok_world [OF assms(3)]
  from assms(1) show ?thesis
  proof cases
    case (create ob uuid ctx tg args kw name p r t now)
    then show ?thesis
      using create_job_inv [OF ok acc] by (auto intro!: world keeps_create)
  next
    case (submit ob ctx)
    then show ?thesis
      using submit_job_inv [OF ok acc submit(2)] by (auto intro!: world)
  next
    case (cancel now jid)
    then show ?thesis
      using cancel_job_inv [OF ok acc] by (auto intro!: world)
  next
    case clear
    then show ?thesis
      using clear_jobs_inv [OF ok acc] by (auto intro!: world)
  next
    case (take ob q)
    note inv = take_inv [OF ok acc take(2)]
    show ?thesis
      unfolding take(1)
      by (rule sys_okI [OF assms(3)]) (use inv in \<open>auto simp: held_def\<close>)
  next
    case (begin_run ob now w')
    then show ?thesis by (simp add: sys_ok_local(1) [OF assms(3)])
  next
    case (begin_skip ob now w')
    then show ?thesis by (simp add: sys_ok_local(2) [OF assms(3)])
  next
    case (finish ob now r)
    then show ?thesis by (simp add: sys_ok_local(3) [OF assms(3)])
  next
    case (register wid name caps health now)
    then show ?thesis
      by (auto intro!: world world_ok_register ok accounted_register acc keeps_register)
  next
    case (heartbeat wid health now)
    then show ?thesis
      by (auto intro!: world world_ok_heartbeat ok accounted_heartbeat acc)
  next
    case (monitor now)
    then show ?thesis
      using monitor_workers_inv [OF ok acc assms(2)] by (auto intro!: world)
  next
    case (assign jid wid)
    then show ?thesis
      by (auto intro!: world world_ok_assign ok accounted_assign_any acc)
  next
    case (set_state st ev d)
    have "world_ok (snd (dw_set_state cfg st ev d (sy_w s)))"
      unfolding dw_set_state_def dw_publish_def Let_def snd_conv
      by (intro world_ok_logs world_ok_upd_node ok) (auto elim: node_ok_same)
    moreover have "accounted (snd (dw_set_state cfg st ev d (sy_w s))) (held s)"
      unfolding dw_set_state_def dw_publish_def Let_def snd_conv
      by (intro accounted_logs accounted_upd_node acc) simp
    ultimately show ?thesis
      unfolding set_state by (intro world) simp_all
  next
    case (fetch wid ob w')
    note inv = dw_fetch_inv [OF ok acc fetch(2)]
    have "accounted w' (held s')"
      unfolding fetch(1) using inv(2) by (rule accounted_mono) (auto simp: held_def)
    then show ?thesis
      unfolding fetch(1)
      by (intro sys_okI [OF assms(3)])
        (use inv keeps_fetch [OF fetch(2)] in \<open>auto simp: held_def\<close>)
  next
    case (dbegin_run wid ob now w')
    then show ?thesis by (simp add: sys_ok_remote(1) [OF assms(3,2)])
  next
    case (dbegin_skip wid ob now w')
    then show ?thesis by (simp add: sys_ok_remote(2) [OF assms(3,2)])
  next
    case (dfinish wid ob now r)
    then show ?thesis by (simp add: sys_ok_remote(3) [OF assms(3,2)])
  qed
qed

lemma sys_ok_reachable: "sys_reachable cfg s \<Longrightarrow> c_execution cfg \<Longrightarrow> sys_ok s"
  by (induction rule: sys_reachable.induct) (auto intro: sys_ok_init sys_ok_step)

section \<open>Consequences for every interleaving\<close>

lemma assigned_objs_iff: "ob \<in> assigned_objs w \<longleftrightarrow> (\<exists>wid. ob \<in> set (get_assigned_jobs wid w))"
proof -
  have "ob \<in> set (get_assigned_jobs wid w) \<longleftrightarrow>
      (\<exists>n. map_of (w_nodes w) wid = Some n \<and> ob \<in> snd ` set (wn_assigned n))" for wid
    by (cases "map_of (w_nodes w) wid") (simp_all add: get_assigned_jobs_def)
  then show ?thesis
    by (simp add: assigned_objs_def)
qed



text \<open>The state after a first job has been created.\<close>

definition demo_sys :: sys where
  "demo_sys = sys_init\<lparr>sy_w := create_job full_client None (T_Name ''t'') None None None 20 1 None
     ''a'' 0 0 w_init\<rparr>"

lemma demo_sys_reachable: "sys_reachable full_client demo_sys"
proof -
  have "sys_step full_client sys_init demo_sys"
    using sys_step.create [where cfg = full_client and s = sys_init and ob = 0 and uuid = "''a''"
        and ctx = None and tg = "T_Name ''t''" and args = None and kw = None and name = None
        and p = 20 and r = 1 and t = None and now = 0]
    by (simp add: demo_sys_def sys_init_def w_init_def known_def)
  then show ?thesis
    by (rule sys_reachable.step [OF sys_reachable.start])
qed

lemmas demo_unfold = demo_sys_def sys_init_def w_init_def create_job_def submit_job_def
  submit_register_def mk_job_def or_default_def route_job_def full_client_def list_workers_def
  enqueue_def publish_job_def emit_def upd_job_def engine_get_job_def

lemma demo_sys_job:
  "engine_get_job ''a'' (sy_w demo_sys) = Some 0"
  "map_option (\<lambda>j. (job_status j, job_retries j)) (w_heap (sy_w demo_sys) 0) = Some (J_QUEUED, 1)"
  by (simp_all add: demo_unfold Let_def)



section \<open>Recovery, routing, and what an unregistration loses\<close>

lemma monitor_node_other:
  "wid' \<noteq> wid \<Longrightarrow> map_of (w_nodes (monitor_node cfg now wid' w)) wid = map_of (w_nodes w) wid"
  by (simp add: monitor_node_def recover_nodes split: option.split)

lemma monitor_node_heap:
  "w_heap (monitor_node cfg now wid w) ob = w_heap w ob
   \<or> w_heap (monitor_node cfg now wid w) ob =
       map_option (\<lambda>j. j\<lparr>job_status := J_QUEUED, job_worker_id := None\<rparr>) (w_heap w ob)"
  by (auto simp: monitor_node_def recover_worker_jobs_def Let_def requeue_jobs_status
      split: option.split)

lemma monitor_node_queue_mono:
  "set (jq_objs (w_queue w)) \<subseteq> set (jq_objs (w_queue (monitor_node cfg now wid w)))"
proof -
  have "set (jq_objs (w_queue w')) \<subseteq> set (jq_objs (w_queue (recover_worker_jobs cfg wid w')))" for w'
    using requeue_jobs_queue_mono [of "upd_node wid (\<lambda>n. n\<lparr>wn_assigned := [], wn_queue := []\<rparr>) w'"]
    by (simp add: recover_worker_jobs_def Let_def)
  from this [of "publish_worker cfg ''worker_offline'' wid None
      (upd_node wid (\<lambda>n. n\<lparr>wn_status := W_OFFLINE\<rparr>) w)"] show ?thesis
    by (auto simp: monitor_node_def split: option.split)
qed

text \<open>A job that is back in the central queue, free for any worker.\<close>

definition back_in_queue :: "world \<Rightarrow> nat \<Rightarrow> bool" where
  "back_in_queue w ob \<longleftrightarrow> ob \<in> set (jq_objs (w_queue w))
     \<and> (\<exists>j. w_heap w ob = Some j \<and> job_status j = J_QUEUED \<and> job_worker_id j = None)"

lemma back_in_queue_monitor: "back_in_queue w ob \<Longrightarrow> back_in_queue (monitor_node cfg now wid w) ob"
  using monitor_node_queue_mono [of w cfg now wid] monitor_node_heap [of cfg now wid w ob]
  unfolding back_in_queue_def by auto

lemma monitor_node_dead:
  assumes "world_ok w" "c_execution cfg" "map_of (w_nodes w) wid = Some n"
    "wn_status n = W_SUSPENDED" "now - wn_heartbeat n \<ge> heartbeat_timeout * 2"
  shows "map_of (w_nodes (monitor_node cfg now wid w)) wid =
           Some (n\<lparr>wn_status := W_OFFLINE, wn_assigned := [], wn_queue := []\<rparr>)"
    and "ob \<in> set (get_assigned_jobs wid w) \<Longrightarrow> back_in_queue (monitor_node cfg now wid w) ob"
proof -
  let ?w1 = "publish_worker cfg ''worker_offline'' wid None
      (upd_node wid (\<lambda>n. n\<lparr>wn_status := W_OFFLINE\<rparr>) w)"
  have m: "monitor_node cfg now wid w = recover_worker_jobs cfg wid ?w1"
    using assms(3-5) by (simp add: monitor_node_def)
  show "map_of (w_nodes (monitor_node cfg now wid w)) wid =
           Some (n\<lparr>wn_status := W_OFFLINE, wn_assigned := [], wn_queue := []\<rparr>)"
    unfolding m recover_nodes using assms(3) by simp
  assume ob: "ob \<in> set (get_assigned_jobs wid w)"
  have same: "get_assigned_jobs wid ?w1 = get_assigned_jobs wid w"
    using assms(3) by (simp add: get_assigned_jobs_def)
  have "w_heap w ob \<noteq> None"
    by (rule get_assigned_known [OF assms(1) ob])
  then show "back_in_queue (monitor_node cfg now wid w) ob"
    unfolding m recover_worker_jobs_def Let_def same back_in_queue_def
    using ob assms(2) requeue_jobs_queued [of cfg ob "get_assigned_jobs wid w"]
    by (auto simp: requeue_jobs_status)
qed

text \<open>
  Failure recovery: a sweep of the monitor takes a suspended worker that has been silent
  for twice the heartbeat limit offline, empties its tables, and puts every job it had been
  assigned back into the central queue, queued and bound to no worker.
\<close>

theorem monitor_recovers_jobs:
  assumes "world_ok w" "c_execution cfg" "map_of (w_nodes w) wid = Some n"
    "wn_status n = W_SUSPENDED" "now - wn_heartbeat n \<ge> heartbeat_timeout * 2"
  shows "map_of (w_nodes (monitor_workers cfg now w)) wid =
           Some (n\<lparr>wn_status := W_OFFLINE, wn_assigned := [], wn_queue := []\<rparr>)
    \<and> (\<forall>ob \<in> set (get_assigned_jobs wid w). back_in_queue (monitor_workers cfg now w) ob)"
proof -
  let ?dead = "Some (n\<lparr>wn_status := W_OFFLINE, wn_assigned := [], wn_queue := []\<rparr>)"
  have after: "map_of (w_nodes (fold (monitor_node cfg now) ws v)) wid = ?dead
      \<and> (\<forall>ob \<in> X. back_in_queue (fold (monitor_node cfg now) ws v) ob)"
    if "map_of (w_nodes v) wid = ?dead" "\<forall>ob \<in> X. back_in_queue v ob" for ws v X
    using that
  proof (induction ws arbitrary: v)
    case (Cons x ws)
    have "map_of (w_nodes (monitor_node cfg now x v)) wid = ?dead"
      using Cons.prems(1) monitor_node_other [of x wid cfg now v]
      by (cases "x = wid") (auto simp: monitor_node_def)
    with Cons.IH Cons.prems(2) back_in_queue_monitor show ?case by simp
  qed simp
  have "map_of (w_nodes (fold (monitor_node cfg now) ws v)) wid = ?dead
      \<and> (\<forall>ob \<in> set (get_assigned_jobs wid w). back_in_queue (fold (monitor_node cfg now) ws v) ob)"
    if "wid \<in> set ws" "world_ok v" "map_of (w_nodes v) wid = Some n" for ws v
    using that
  proof (induction ws arbitrary: v)
    case (Cons x ws)
    show ?case
    proof (cases "x = wid")
      case True
      have "get_assigned_jobs wid v = get_assigned_jobs wid w"
        using Cons.prems(3) assms(3) by (simp add: get_assigned_jobs_def)
      then show ?thesis
        using after [OF monitor_node_dead(1) [OF Cons.prems(2) assms(2) Cons.prems(3) assms(4,5)],
            where X = "set (get_assigned_jobs wid w)" and ws = ws]
          monitor_node_dead(2) [OF Cons.prems(2) assms(2) Cons.prems(3) assms(4,5)] True
        by simp
    next
      case False
      with Cons.prems show ?thesis
        using Cons.IH [of "monitor_node cfg now x v"] by (simp add: monitor_node_other world_ok_monitor_node)
    qed
  qed simp
  moreover have "wid \<in> set (dict_keys (w_nodes w))"
    using assms(3) by (simp add: dict_has_iff del: set_map)
  ultimately show ?thesis
    unfolding monitor_workers_def using assms(1,3) by blast
qed

text \<open>A world in which worker \<open>w\<close> was assigned job \<open>a\<close> and then fell silent.\<close>

definition demo_dead :: world where
  "demo_dead =
     (let w1 = register_worker full_client ''w'' ''n'' [] [] 0 (sy_w demo_sys);
          w2 = fst (manager_heartbeat full_client ''w'' [] 0 w1);
          w3 = fst (assign_job full_client ''a'' ''w'' w2)
      in monitor_workers full_client 10 w3)"

lemma monitor_workers_single:
  assumes "dict_keys (w_nodes w) = [wid]"
  shows "monitor_workers cfg now w = monitor_node cfg now wid w"
  using assms by (simp add: monitor_workers_def)

lemma demo_dead_ok: "world_ok demo_dead"
  unfolding demo_dead_def Let_def
  using sys_ok_parts(1) [OF sys_ok_reachable [OF demo_sys_reachable]]
    monitor_workers_inv [OF _ _ _, of _ UNIV]
  by (simp add: world_ok_register world_ok_heartbeat world_ok_assign full_client_def accounted_def)

lemma demo_dead_node:
  "map_option (\<lambda>n. (wn_status n, wn_heartbeat n, wn_assigned n)) (map_of (w_nodes demo_dead) ''w'')
     = Some (W_SUSPENDED, 0, [(''a'', 0)])"
  by (simp add: demo_dead_def Let_def monitor_workers_def monitor_node_def heartbeat_timeout_def
      assign_job_def manager_heartbeat_def register_worker_def publish_worker_def upd_node_def
      mk_node_def node_update_heartbeat_def demo_unfold emit_def)

theorem monitor_recovers_jobs_witness: "back_in_queue (monitor_workers full_client 20 demo_dead) 0"
proof -
  obtain n where n: "map_of (w_nodes demo_dead) ''w'' = Some n" "wn_status n = W_SUSPENDED"
      "wn_heartbeat n = 0" "wn_assigned n = [(''a'', 0)]"
    using demo_dead_node by auto
  then have "0 \<in> set (get_assigned_jobs ''w'' demo_dead)"
    by (simp add: get_assigned_jobs_def)
  then show ?thesis
    using monitor_recovers_jobs [OF demo_dead_ok _ n(1,2), of full_client 20] n(3)
    by (simp add: full_client_def heartbeat_timeout_def)
qed


definition demo_live :: world where
  "demo_live =
     fst (manager_heartbeat full_client ''w'' [] 0
       (register_worker full_client ''w'' ''n'' [''target:t''] [] 0 (sy_w demo_sys)))"


text \<open>
  An unregistration loses the jobs of the worker: a queued or running job that only this
  worker had is afterwards still registered with the same status, but it is in no queue and in no
  worker's table (whereas a worker found dead by the monitor has its jobs recovered).
\<close>

theorem unregister_strands_jobs:
  assumes "engine_get_job jid w = Some ob" "w_heap w ob = Some j" "job_active j"
    "ob \<notin> set (jq_objs (w_queue w))"
    "\<forall>wid'. wid' \<noteq> wid \<longrightarrow> ob \<notin> set (get_assigned_jobs wid' w)"
  shows "let w' = fst (unregister_worker cfg wid w) in
     engine_get_job jid w' = Some ob \<and> w_heap w' ob = Some j \<and> ob \<notin> located w'"
proof -
  let ?w' = "fst (unregister_worker cfg wid w)"
  have frames: "w_jobs ?w' = w_jobs w" "w_heap ?w' = w_heap w" "w_queue ?w' = w_queue w"
    by (simp_all add: unregister_worker_def Let_def split: option.split)
  have "get_assigned_jobs x ?w' = (if x = wid then [] else get_assigned_jobs x w)" for x
    by (auto simp: unregister_worker_def get_assigned_jobs_def Let_def dict_simps split: option.split)
  then have "ob \<notin> assigned_objs ?w'"
    using assms(5) by (simp add: assigned_objs_iff)
  then show ?thesis
    using assms(1,2,4) frames by (simp add: located_def engine_get_job_def Let_def)
qed

text \<open>The job is created while worker \<open>w\<close> offers its target, so it goes to that worker only.\<close>

definition demo_assigned :: world where
  "demo_assigned = create_job full_client None (T_Name ''t'') None None None 20 1 None ''a'' 0 0
     (fst (manager_heartbeat full_client ''w'' [] 0
       (register_worker full_client ''w'' ''n'' [''target:t''] [] 0 w_init)))"

lemma demo_assigned_eqs:
  "engine_get_job ''a'' demo_assigned = Some 0"
  "map_option job_status (w_heap demo_assigned 0) = Some J_QUEUED"
  "jq_objs (w_queue demo_assigned) = []"
  "dict_keys (w_nodes demo_assigned) = [''w'']"
  by (simp_all add: demo_assigned_def manager_heartbeat_def register_worker_def publish_worker_def
        upd_node_def mk_node_def node_update_heartbeat_def demo_unfold emit_def route_explicit_def
        route_capability_def route_target_def assign_job_by_capability_def worker_candidates_def
        discover_workers_def has_capability_def routing_capability_def requested_capability_def
        pyget_def assign_job_def Let_def jq_init_def jq_objs_def)

theorem unregister_strands_jobs_witness:
  "0 \<notin> located (fst (unregister_worker full_client ''w'' demo_assigned))"
proof -
  obtain j where j: "w_heap demo_assigned 0 = Some j" "job_status j = J_QUEUED"
    using demo_assigned_eqs(2) by auto
  have "map_of (w_nodes demo_assigned) wid' = None" if "wid' \<noteq> ''w''" for wid'
    using that demo_assigned_eqs(4) by (simp add: map_of_eq_None_iff flip: set_map del: set_map)
  then have "\<forall>wid'. wid' \<noteq> ''w'' \<longrightarrow> 0 \<notin> set (get_assigned_jobs wid' demo_assigned)"
    by (simp add: get_assigned_jobs_def)
  then show ?thesis
    using unregister_strands_jobs [OF demo_assigned_eqs(1) j(1), of "''w''" full_client] j(2)
      demo_assigned_eqs(3) by (simp add: job_active_def Let_def)
qed

end
