(* ===== verification/ExecMonitor.thy ===== *)
theory ExecMonitor
  imports ExecSystem
begin

text \<open>
  The monitoring thread of \<open>execution/distributed.py\<close>: its loop of sweeps, what one sweep makes of each worker, and the
  recovery of a silent worker.
\<close>

section \<open>The loop\<close>

text \<open>Per round, whether the stop event is set and what the clock shows; the sleep between the rounds has no effect.\<close>

fun monitoring_loop :: "client_cfg \<Rightarrow> (bool \<times> real) list \<Rightarrow> world \<Rightarrow> world" where
  "monitoring_loop cfg [] w = w"
| "monitoring_loop cfg ((stop, now) # rounds) w =
     (if stop then w else monitoring_loop cfg rounds (monitor_workers cfg now w))"

section \<open>One sweep\<close>

definition swept :: "real \<Rightarrow> worker_node \<Rightarrow> worker_node" where
  "swept now n =
     (if wn_status n = W_ACTIVE \<and> now - wn_heartbeat n \<ge> heartbeat_timeout then n\<lparr>wn_status := W_SUSPENDED\<rparr>
      else if wn_status n = W_SUSPENDED \<and> now - wn_heartbeat n \<ge> heartbeat_timeout * 2
      then n\<lparr>wn_status := W_OFFLINE, wn_assigned := [], wn_queue := []\<rparr>
      else n)"

lemma monitor_node_self:
  "map_of (w_nodes (monitor_node cfg now wid w)) wid = map_option (swept now) (map_of (w_nodes w) wid)"
  by (auto simp: monitor_node_def recover_nodes swept_def split: option.splits)

lemma monitor_nodes_fold:
  assumes "distinct ws"
  shows "map_of (w_nodes (fold (monitor_node cfg now) ws w)) wid
     = (if wid \<in> set ws then map_option (swept now) (map_of (w_nodes w) wid) else map_of (w_nodes w) wid)"
  using assms
proof (induction ws arbitrary: w)
  case (Cons x ws)
  show ?case
    using Cons.IH [of "monitor_node cfg now x w"] Cons.prems monitor_node_self [of cfg now x w] monitor_node_other [of x wid cfg now w]
    by (cases "x = wid") simp_all
qed simp

lemma sweep_pointwise:
  assumes "world_ok w"
  shows "map_of (w_nodes (monitor_workers cfg now w)) wid = map_option (swept now) (map_of (w_nodes w) wid)"
proof -
  have "distinct (dict_keys (w_nodes w))" using assms by (simp add: world_ok_def wf_dict_def)
  then show ?thesis
    by (cases "map_of (w_nodes w) wid") (simp_all add: monitor_workers_def monitor_nodes_fold dict_has_iff del: set_map)
qed

lemma sweep_keeps_queued: "back_in_queue w ob \<Longrightarrow> back_in_queue (monitor_workers cfg now w) ob"
proof -
  have "back_in_queue w ob \<Longrightarrow> back_in_queue (fold (monitor_node cfg now) ws w) ob" for ws
    by (induction ws arbitrary: w) (simp_all add: back_in_queue_monitor)
  then show "back_in_queue w ob \<Longrightarrow> back_in_queue (monitor_workers cfg now w) ob" by (simp add: monitor_workers_def)
qed

lemma sweep_world_ok: "world_ok w \<Longrightarrow> world_ok (monitor_workers cfg now w)"
proof -
  have "world_ok w \<Longrightarrow> world_ok (fold (monitor_node cfg now) ws w)" for ws
    by (induction ws arbitrary: w) (simp_all add: world_ok_monitor_node)
  then show "world_ok w \<Longrightarrow> world_ok (monitor_workers cfg now w)" by (simp add: monitor_workers_def)
qed

section \<open>Recovery of a silent worker\<close>

text \<open>How many more sweeps after the limit a worker needs\<close>

fun sweeps_left :: "worker_state \<Rightarrow> nat" where
  "sweeps_left W_ACTIVE = 2" | "sweeps_left W_SUSPENDED = 1" | "sweeps_left _ = 0"

definition late :: "real \<Rightarrow> real list \<Rightarrow> nat" where
  "late hb nows = length (filter (\<lambda>now. now - hb \<ge> heartbeat_timeout * 2) nows)"

lemma loop_keeps_recovered:
  assumes "world_ok w" "map_of (w_nodes w) wid = Some n" "wn_status n = W_OFFLINE" "\<forall>ob \<in> X. back_in_queue w ob"
  shows "map_of (w_nodes (monitoring_loop cfg (map (Pair False) nows) w)) wid = Some n
     \<and> (\<forall>ob \<in> X. back_in_queue (monitoring_loop cfg (map (Pair False) nows) w) ob)"
  using assms
proof (induction nows arbitrary: w)
  case (Cons now nows)
  have "map_of (w_nodes (monitor_workers cfg now w)) wid = Some n"
    using Cons.prems by (simp add: sweep_pointwise swept_def)
  then show ?case
    using Cons.IH [OF sweep_world_ok [OF Cons.prems(1)]] Cons.prems(3,4) sweep_keeps_queued by simp
qed simp

lemma loop_recovers:
  assumes "world_ok w" "c_execution cfg" "map_of (w_nodes w) wid = Some n" "wn_status n = W_ACTIVE \<or> wn_status n = W_SUSPENDED"
    "late (wn_heartbeat n) nows \<ge> sweeps_left (wn_status n)"
  shows "map_of (w_nodes (monitoring_loop cfg (map (Pair False) nows) w)) wid
       = Some (n\<lparr>wn_status := W_OFFLINE, wn_assigned := [], wn_queue := []\<rparr>)
     \<and> (\<forall>ob \<in> set (get_assigned_jobs wid w). back_in_queue (monitoring_loop cfg (map (Pair False) nows) w) ob)"
  using assms
proof (induction nows arbitrary: w n)
  case Nil
  then show ?case by (auto simp: late_def)
next
  case (Cons now nows)
  note p = Cons.prems
  let ?w = "monitor_workers cfg now w"
  have ok: "world_ok ?w" using sweep_world_ok [OF p(1)] .
  have n': "map_of (w_nodes ?w) wid = Some (swept now n)" using p(3) by (simp add: sweep_pointwise [OF p(1)])
  show ?case
  proof (cases "wn_status n = W_SUSPENDED \<and> now - wn_heartbeat n \<ge> heartbeat_timeout * 2")
    case True
    note dead = monitor_recovers_jobs [OF p(1-3) conjunct1 [OF True] conjunct2 [OF True]]
    show ?thesis
      using loop_keeps_recovered [OF ok conjunct1 [OF dead] _ conjunct2 [OF dead], of cfg nows] by simp
  next
    case False
    have s: "wn_status (swept now n) = W_ACTIVE \<or> wn_status (swept now n) = W_SUSPENDED"
        "wn_heartbeat (swept now n) = wn_heartbeat n"
        "(swept now n)\<lparr>wn_status := W_OFFLINE, wn_assigned := [], wn_queue := []\<rparr> = n\<lparr>wn_status := W_OFFLINE, wn_assigned := [], wn_queue := []\<rparr>"
        "wn_assigned (swept now n) = wn_assigned n"
      using p(4) False by (auto simp: swept_def)
    have "sweeps_left (wn_status (swept now n)) \<le> late (wn_heartbeat n) nows"
      using p(4,5) False by (auto simp: swept_def late_def heartbeat_timeout_def split: if_splits)
    then show ?thesis
      using Cons.IH [OF ok p(2) n' s(1)] s(2-4) n' p(3) by (simp add: get_assigned_jobs_def)
  qed
qed

text \<open>
  Failure recovery: in every state the system can reach, a worker that is active or suspended and stays silent is
  taken offline by the monitoring loop, after at most two sweeps past twice the heartbeat limit. It is left without jobs,
  and every job it had been assigned is back in the central queue, queued and bound to no worker.
\<close>
theorem silent_worker_recovered:
  assumes "sys_reachable cfg s" "c_execution cfg" "map_of (w_nodes (sy_w s)) wid = Some n"
    "wn_status n = W_ACTIVE \<or> wn_status n = W_SUSPENDED" "late (wn_heartbeat n) nows \<ge> 2"
  shows "map_of (w_nodes (monitoring_loop cfg (map (Pair False) nows) (sy_w s))) wid
       = Some (n\<lparr>wn_status := W_OFFLINE, wn_assigned := [], wn_queue := []\<rparr>)
     \<and> (\<forall>ob \<in> set (get_assigned_jobs wid (sy_w s)).
          back_in_queue (monitoring_loop cfg (map (Pair False) nows) (sy_w s)) ob)"
proof -
  have "sweeps_left (wn_status n) \<le> late (wn_heartbeat n) nows" using assms(4,5) by auto
  then show ?thesis
    using loop_recovers [OF sys_ok_parts(1) [OF sys_ok_reachable [OF assms(1,2)]] assms(2-4)] by simp
qed

text \<open>A reachable state in which the active worker \<open>w\<close> was assigned job \<open>a\<close>\<close>

definition demo_assigned_sys :: sys where
  "demo_assigned_sys =
     (let s1 = demo_sys\<lparr>sy_w := register_worker full_client ''w'' ''n'' [] [] 0 (sy_w demo_sys)\<rparr>;
          s2 = s1\<lparr>sy_w := fst (manager_heartbeat full_client ''w'' [] 0 (sy_w s1))\<rparr>
      in s2\<lparr>sy_w := fst (assign_job full_client ''a'' ''w'' (sy_w s2))\<rparr>)"

lemma demo_assigned_reachable: "sys_reachable full_client demo_assigned_sys"
proof -
  have "map_of (w_nodes (sy_w demo_sys)) ''w'' = None" by (simp add: demo_unfold emit_def)
  from sys_step.register [OF this]
  have "sys_reachable full_client (demo_sys\<lparr>sy_w := register_worker full_client ''w'' ''n'' [] [] 0 (sy_w demo_sys)\<rparr>)"
    by (rule sys_reachable.step [OF demo_sys_reachable])
  then show ?thesis
    unfolding demo_assigned_sys_def Let_def
    by (intro sys_reachable.step [OF sys_reachable.step [OF _ sys_step.heartbeat] sys_step.assign])
qed

lemma demo_assigned_node:
  "map_option (\<lambda>n. (wn_status n, wn_heartbeat n, wn_assigned n)) (map_of (w_nodes (sy_w demo_assigned_sys)) ''w'')
     = Some (W_ACTIVE, 0, [(''a'', 0)])"
  by (simp add: demo_assigned_sys_def Let_def assign_job_def manager_heartbeat_def register_worker_def publish_worker_def
      upd_node_def mk_node_def node_update_heartbeat_def demo_unfold emit_def)

theorem silent_worker_recovered_witness:
  "back_in_queue (monitoring_loop full_client (map (Pair False) [1, 7, 13, 14]) (sy_w demo_assigned_sys)) 0"
proof -
  obtain n where n: "map_of (w_nodes (sy_w demo_assigned_sys)) ''w'' = Some n" "wn_status n = W_ACTIVE"
      "wn_heartbeat n = 0" "wn_assigned n = [(''a'', 0)]"
    using demo_assigned_node by auto
  then have "0 \<in> set (get_assigned_jobs ''w'' (sy_w demo_assigned_sys))" by (simp add: get_assigned_jobs_def)
  then show ?thesis
    using silent_worker_recovered [OF demo_assigned_reachable _ n(1), of "[1, 7, 13, 14]"] n(2,3)
    by (simp add: full_client_def late_def heartbeat_timeout_def)
qed

section \<open>Recovery while the rest of the system runs\<close>

text \<open>
  The runs of the system in which the worker \<open>wid\<close> gives no sign: the sweeps of the monitor, with what the clock shows at
  each, and between them any steps of clients, threads, other workers and also of this worker, as long as none of them
  changes its recorded state or its last heartbeat.
\<close>

definition signs :: "string \<Rightarrow> sys \<Rightarrow> (worker_state \<times> real) option" where
  "signs wid s = map_option (\<lambda>n. (wn_status n, wn_heartbeat n)) (map_of (w_nodes (sy_w s)) wid)"

abbreviation sweep :: "client_cfg \<Rightarrow> real \<Rightarrow> sys \<Rightarrow> sys" where
  "sweep cfg now s \<equiv> s\<lparr>sy_w := monitor_workers cfg now (sy_w s)\<rparr>"

inductive silent_run :: "client_cfg \<Rightarrow> string \<Rightarrow> sys \<Rightarrow> real list \<Rightarrow> sys \<Rightarrow> bool" for cfg wid s where
  here: "silent_run cfg wid s [] s"
| sweeps: "silent_run cfg wid s nows t \<Longrightarrow> silent_run cfg wid s (nows @ [now]) (sweep cfg now t)"
| others: "silent_run cfg wid s nows t \<Longrightarrow> sys_step cfg t t' \<Longrightarrow> signs wid t' = signs wid t \<Longrightarrow> silent_run cfg wid s nows t'"

lemma silent_run_reachable: "silent_run cfg wid s nows t \<Longrightarrow> sys_reachable cfg s \<Longrightarrow> sys_reachable cfg t"
  by (induction rule: silent_run.induct) (auto intro: sys_reachable.step sys_step.monitor)

lemma silent_run_trans: "silent_run cfg wid t nows' u \<Longrightarrow> silent_run cfg wid s nows t \<Longrightarrow> silent_run cfg wid s (nows @ nows') u"
proof (induction rule: silent_run.induct)
  case (sweeps nows' u now)
  then show ?case using silent_run.sweeps [of cfg wid s "nows @ nows'" u now] by simp
qed (auto intro: silent_run.others)

lemma monitoring_loop_run: "silent_run cfg wid s nows (s\<lparr>sy_w := monitoring_loop cfg (map (Pair False) nows) (sy_w s)\<rparr>)"
proof (induction nows arbitrary: s)
  case Nil
  then show ?case using silent_run.here [of cfg wid s] by simp
next
  case (Cons now nows)
  show ?case
    using silent_run_trans [OF Cons.IH [of "sweep cfg now s"] silent_run.sweeps [OF silent_run.here, of cfg wid s now]] by simp
qed

lemma late_simps [simp]:
  "late hb [] = 0"
  "late hb (nows @ nows') = late hb nows + late hb nows'"
  "late hb (now # nows) = (if now - hb \<ge> heartbeat_timeout * 2 then 1 else 0) + late hb nows"
  by (simp_all add: late_def)

lemma signs_sweep:
  assumes "world_ok (sy_w s)" "signs wid s = Some (st, hb)"
  shows "signs wid (sweep cfg now s) = Some
     (if st = W_ACTIVE \<and> now - hb \<ge> heartbeat_timeout then W_SUSPENDED
      else if st = W_SUSPENDED \<and> now - hb \<ge> heartbeat_timeout * 2 then W_OFFLINE else st, hb)"
  using assms(2) by (auto simp: signs_def sweep_pointwise [OF assms(1)] swept_def)

text \<open>The sweep that takes a worker offline: it was suspended, and its jobs are back in the queue.\<close>

definition retires :: "client_cfg \<Rightarrow> string \<Rightarrow> real \<Rightarrow> sys \<Rightarrow> bool" where
  "retires cfg wid now s \<longleftrightarrow> (\<exists>n. map_of (w_nodes (sy_w s)) wid = Some n \<and> wn_status n = W_SUSPENDED
     \<and> map_of (w_nodes (sy_w (sweep cfg now s))) wid = Some (n\<lparr>wn_status := W_OFFLINE, wn_assigned := [], wn_queue := []\<rparr>)
     \<and> (\<forall>ob \<in> set (get_assigned_jobs wid (sy_w s)). back_in_queue (sy_w (sweep cfg now s)) ob))"

lemma sweep_retires:
  assumes "world_ok (sy_w s)" "c_execution cfg" "signs wid s = Some (W_SUSPENDED, hb)" "now - hb \<ge> heartbeat_timeout * 2"
  shows "retires cfg wid now s"
proof -
  obtain n where n: "map_of (w_nodes (sy_w s)) wid = Some n" "wn_status n = W_SUSPENDED" "wn_heartbeat n = hb"
    using assms(3) by (auto simp: signs_def)
  then show ?thesis
    using monitor_recovers_jobs [OF assms(1,2) n(1,2), of now] assms(4) by (simp add: retires_def)
qed

lemma silent_run_progress:
  assumes "silent_run cfg wid s nows t" "sys_reachable cfg s" "c_execution cfg" "signs wid s = Some (st0, hb)" "st0 \<noteq> W_OFFLINE"
    "st0 = W_ACTIVE \<or> st0 = W_SUSPENDED"
  shows "signs wid t = Some (W_ACTIVE, hb) \<and> late hb nows = 0 \<or> signs wid t = Some (W_SUSPENDED, hb) \<and> late hb nows \<le> 1
     \<or> signs wid t = Some (W_OFFLINE, hb) \<and> (\<exists>nows1 now nows2 u. nows = nows1 @ now # nows2 \<and> silent_run cfg wid s nows1 u
         \<and> retires cfg wid now u \<and> silent_run cfg wid (sweep cfg now u) nows2 t)"
  using assms(1)
proof (induction rule: silent_run.induct)
  case here
  then show ?case using assms(4,6) by auto
next
  case (sweeps nows t now)
  have ok: "world_ok (sy_w t)"
    by (rule sys_ok_parts(1) [OF sys_ok_reachable [OF silent_run_reachable [OF sweeps.hyps assms(2)] assms(3)]])
  have t2: "heartbeat_timeout \<le> heartbeat_timeout * 2" by (simp add: heartbeat_timeout_def)
  from sweeps.IH show ?case
  proof (elim disjE)
    assume "signs wid t = Some (W_ACTIVE, hb) \<and> late hb nows = 0"
    then show ?thesis using t2 by (auto simp: signs_sweep [OF ok])
  next
    assume a: "signs wid t = Some (W_SUSPENDED, hb) \<and> late hb nows \<le> 1"
    show ?thesis
    proof (cases "now - hb \<ge> heartbeat_timeout * 2")
      case True
      then have "retires cfg wid now t" "signs wid (sweep cfg now t) = Some (W_OFFLINE, hb)"
        using sweep_retires [OF ok assms(3)] a by (auto simp: signs_sweep [OF ok])
      then show ?thesis using sweeps.hyps silent_run.here by blast
    next
      case False
      then show ?thesis using a by (auto simp: signs_sweep [OF ok])
    qed
  next
    assume a: "signs wid t = Some (W_OFFLINE, hb) \<and> (\<exists>nows1 now nows2 u. nows = nows1 @ now # nows2 \<and> silent_run cfg wid s nows1 u
         \<and> retires cfg wid now u \<and> silent_run cfg wid (sweep cfg now u) nows2 t)"
    then obtain nows1 now' nows2 u where u: "nows = nows1 @ now' # nows2" "silent_run cfg wid s nows1 u" "retires cfg wid now' u"
        "silent_run cfg wid (sweep cfg now' u) nows2 t" by blast
    have "nows @ [now] = nows1 @ now' # (nows2 @ [now])" by (simp add: u(1))
    moreover have "signs wid (sweep cfg now t) = Some (W_OFFLINE, hb)" using a by (simp add: signs_sweep [OF ok])
    ultimately show ?thesis using u(2,3) silent_run.sweeps [OF u(4), of now] by blast
  qed
next
  case (others nows t t')
  then show ?case using silent_run.others by metis
qed

text \<open>
  \<open>C21\<close>. Failure recovery under concurrency: take any reachable state with an active or suspended worker, and any run from it,
  of clients, threads, workers and the monitor in any order, in which this worker gives no sign and the monitor sweeps
  at least twice later than twice the heartbeat limit after its last heartbeat. Then one of the sweeps of the run took
  the worker, suspended by then, offline, emptied its tables, and put every job that it had been assigned at that moment
  back into the central queue, queued and bound to no worker; and the worker is offline at the end.
\<close>
theorem silent_worker_retired:
  assumes "sys_reachable cfg s" "c_execution cfg" "signs wid s = Some (st, hb)" "st = W_ACTIVE \<or> st = W_SUSPENDED"
    "silent_run cfg wid s nows t" "late hb nows \<ge> 2"
  shows "signs wid t = Some (W_OFFLINE, hb)
     \<and> (\<exists>nows1 now nows2 u. nows = nows1 @ now # nows2 \<and> silent_run cfg wid s nows1 u
         \<and> retires cfg wid now u \<and> silent_run cfg wid (sweep cfg now u) nows2 t)"
  using silent_run_progress [OF assms(5,1,2,3) _ assms(4)] assms(4,6) by auto

theorem silent_worker_retired_witness:
  "signs ''w'' (demo_assigned_sys\<lparr>sy_w := monitoring_loop full_client (map (Pair False) [1, 7, 13, 14]) (sy_w demo_assigned_sys)\<rparr>)
     = Some (W_OFFLINE, 0)"
proof -
  have "signs ''w'' demo_assigned_sys = Some (W_ACTIVE, 0)" using demo_assigned_node by (auto simp: signs_def)
  from silent_worker_retired [OF demo_assigned_reachable _ this _ monitoring_loop_run, of "[1, 7, 13, 14]"]
  show ?thesis by (simp add: full_client_def heartbeat_timeout_def)
qed

end
