(* ===== verification/ExecDrain.thy ===== *)
theory ExecDrain
  imports ExecInvariant
begin

text \<open>
  The worker loop run to its end: how many rounds empty the queue whatever the targets do, in
  which state it leaves the jobs, and what a job that always fails goes through. A round is given
  the outcomes of the calls (\<open>run\<close>, a function of the job) and two clock readings, so outcomes may
  change from one attempt to the next.
\<close>

type_synonym round_input = "(job \<Rightarrow> exn + pyval) \<times> real \<times> real"

definition worker_rounds :: "client_cfg \<Rightarrow> round_input list \<Rightarrow> world \<Rightarrow> world" where
  "worker_rounds cfg rs w = fold (\<lambda>(run, t1, t2). worker_round cfg run t1 t2) rs w"

text \<open>
  The work left: one round for every entry, and one for every attempt that an object in the
  queue may still fail with a retry.
\<close>

definition retries_left :: "world \<Rightarrow> nat \<Rightarrow> nat" where
  "retries_left w ob =
     (case w_heap w ob of None \<Rightarrow> 0 | Some j \<Rightarrow> nat (job_retries j - job_retry_count j))"

definition work :: "world \<Rightarrow> nat" where
  "work w = sum (retries_left w) (set (jq_objs (w_queue w))) + jq_size (w_queue w)"

lemma jq_objs_Cons:
  assumes "jq_get_nowait q = Inr (ob, q')"
  shows "jq_objs q = ob # jq_objs q'" "jq_size q = Suc (jq_size q')"
  using assms by (auto simp: jq_get_nowait_def jq_objs_def jq_size_def split: list.splits)

text \<open>What the treatment of the object at the head does to the state.\<close>

inductive treated :: "nat \<Rightarrow> world \<Rightarrow> world \<Rightarrow> bool" where
  ended: "w_queue w' = w_queue w \<Longrightarrow> w_heap w' = (w_heap w)(ob \<mapsto> j') \<Longrightarrow>
     w_heap w ob = Some j \<Longrightarrow> job_terminal (job_status j') \<Longrightarrow>
     job_retries j' - job_retry_count j' \<le> job_retries j - job_retry_count j \<Longrightarrow> treated ob w w'"
| again: "w_queue w' = jq_put j' ob (w_queue w) \<Longrightarrow> w_heap w' = (w_heap w)(ob \<mapsto> j') \<Longrightarrow>
     w_heap w ob = Some j \<Longrightarrow> job_status j' = J_QUEUED \<Longrightarrow>
     job_retries j' - job_retry_count j' + 1 = job_retries j - job_retry_count j \<Longrightarrow>
     job_retry_count j < job_retries j \<Longrightarrow> treated ob w w'"

lemma enqueue_eq: "w_heap w ob = Some j \<Longrightarrow> enqueue ob w = w\<lparr>w_queue := jq_put j ob (w_queue w)\<rparr>"
  by (simp add: enqueue_def)

lemma process_job_treated:
  assumes "w_heap w ob = Some j"
  shows "treated ob w (process_job cfg run t1 t2 ob w)"
proof -
  consider (cancelled) "job_cancelled j \<or> job_status j = J_CANCELLED"
    | (success) v where "\<not> (job_cancelled j \<or> job_status j = J_CANCELLED)"
        "run (j\<lparr>job_status := J_RUNNING, job_started_at := Some t1\<rparr>) = Inr v"
    | (failure) e where "\<not> (job_cancelled j \<or> job_status j = J_CANCELLED)"
        "run (j\<lparr>job_status := J_RUNNING, job_started_at := Some t1\<rparr>) = Inl e"
    by (cases "run (j\<lparr>job_status := J_RUNNING, job_started_at := Some t1\<rparr>)") auto
  then show ?thesis
  proof cases
    case cancelled
    then show ?thesis
      using assms
      by (intro ended [where j = j and j' = "j\<lparr>job_status := J_CANCELLED, job_completed_at := Some t1\<rparr>"])
        (auto simp: process_job_def worker_begin_def upd_job_def publish_job_def emit_def)
  next
    case (success v)
    let ?j = "j\<lparr>job_status := J_COMPLETED, job_started_at := Some t1, job_result := v,
        job_completed_at := Some t2\<rparr>"
    from success show ?thesis
      using assms
      by (intro ended [where j = j and j' = ?j])
        (auto simp: process_job_def worker_begin_def worker_finish_def)
  next
    case (failure e)
    show ?thesis
    proof (cases "job_retry_count j < job_retries j")
      case True
      let ?j = "j\<lparr>job_started_at := Some t1, job_retry_count := job_retry_count j + 1,
          job_status := J_QUEUED\<rparr>"
      from failure True show ?thesis
        using assms
        by (intro again [where j = j and j' = ?j])
          (auto simp: process_job_def worker_begin_def worker_finish_def enqueue_def)
    next
      case False
      let ?j = "j\<lparr>job_status := J_FAILED, job_started_at := Some t1, job_error := Some (exn_msg e),
          job_completed_at := Some t2\<rparr>"
      from failure False show ?thesis
        using assms
        by (intro ended [where j = j and j' = ?j])
          (auto simp: process_job_def worker_begin_def worker_finish_def)
    qed
  qed
qed

lemma worker_round_empty: "jq_objs (w_queue w) = [] \<Longrightarrow> worker_round cfg run t1 t2 w = w"
  by (simp add: worker_round_def jq_get_def jq_get_nowait_def jq_objs_def)

lemma worker_round_treated:
  assumes "jq_objs (w_queue w) = ob # obs" "w_heap w ob \<noteq> None"
  obtains q where "jq_get_nowait (w_queue w) = Inr (ob, q)" "jq_objs q = obs"
    "treated ob (w\<lparr>w_queue := q\<rparr>) (worker_round cfg run t1 t2 w)"
proof -
  obtain q where q: "jq_get_nowait (w_queue w) = Inr (ob, q)"
    using assms(1) by (auto simp: jq_get_nowait_def jq_objs_def split: list.splits)
  obtain j where j: "w_heap (w\<lparr>w_queue := q\<rparr>) ob = Some j"
    using assms(2) by auto
  have "worker_round cfg run t1 t2 w = process_job cfg run t1 t2 ob (w\<lparr>w_queue := q\<rparr>)"
    using q by (simp add: worker_round_def jq_get_def)
  with that [OF q] jq_objs_Cons [OF q] assms(1) process_job_treated [OF j] show ?thesis
    by simp
qed

lemma jq_size_objs: "jq_size q = length (jq_objs q)"
  by (simp add: jq_size_def jq_objs_def)

text \<open>Every round on a non-empty queue makes progress.\<close>

lemma worker_round_work:
  assumes "jq_objs (w_queue w) = ob # obs" "w_heap w ob \<noteq> None"
  shows "work (worker_round cfg run t1 t2 w) < work w"
proof -
  let ?w' = "worker_round cfg run t1 t2 w"
  obtain q where q: "jq_get_nowait (w_queue w) = Inr (ob, q)" "jq_objs q = obs"
    and t: "treated ob (w\<lparr>w_queue := q\<rparr>) ?w'"
    using worker_round_treated [OF assms] .
  have size: "jq_size (w_queue w) = Suc (length obs)"
    using assms(1) by (simp add: jq_size_objs)
  from t show ?thesis
  proof cases
    case (ended j' j)
    have le: "retries_left ?w' x \<le> retries_left w x" for x
      using ended by (auto simp: retries_left_def)
    have "sum (retries_left ?w') (set obs) \<le> sum (retries_left w) (set obs)"
      using le by (rule sum_mono)
    also have "\<dots> \<le> sum (retries_left w) (insert ob (set obs))"
      by (rule sum_mono2) auto
    finally show ?thesis
      using ended(1) q(2) size by (simp add: work_def jq_size_objs assms(1))
  next
    case (again j' j)
    have at: "retries_left ?w' ob + 1 = retries_left w ob"
      using again by (simp add: retries_left_def)
    have other: "retries_left ?w' x = retries_left w x" if "x \<noteq> ob" for x
      using again that by (simp add: retries_left_def)
    have fin: "finite (set obs)" by simp
    have "sum (retries_left ?w') (insert ob (set obs)) + 1 = sum (retries_left w) (insert ob (set obs))"
      unfolding sum.insert_remove [OF fin]
      using at sum.cong [OF refl, of "set obs - {ob}" "retries_left ?w'" "retries_left w"] other by simp
    moreover have "set (jq_objs (w_queue ?w')) = insert ob (set obs)"
      using again(1) q(2) by simp
    moreover have "jq_size (w_queue ?w') = jq_size (w_queue w)"
      using again(1) q(2) size by (simp add: jq_size_objs [of q])
    ultimately show ?thesis
      using assms(1) by (simp add: work_def)
  qed
qed

definition ended_or_queued :: "nat set \<Rightarrow> world \<Rightarrow> bool" where
  "ended_or_queued S w \<longleftrightarrow>
     (\<forall>ob \<in> set (jq_objs (w_queue w)). w_heap w ob \<noteq> None)
     \<and> (\<forall>ob \<in> S. ob \<in> set (jq_objs (w_queue w))
          \<or> (\<exists>j. w_heap w ob = Some j \<and> job_terminal (job_status j)))"

lemma worker_round_ended_or_queued:
  assumes "ended_or_queued S w"
  shows "ended_or_queued S (worker_round cfg run t1 t2 w)"
proof (cases "jq_objs (w_queue w)")
  case Nil
  then show ?thesis using assms by (simp add: worker_round_empty)
next
  case (Cons ob obs)
  then have h: "w_heap w ob \<noteq> None"
    using assms by (simp add: ended_or_queued_def)
  obtain q where q: "jq_objs q = obs" and t: "treated ob (w\<lparr>w_queue := q\<rparr>) (worker_round cfg run t1 t2 w)"
    using worker_round_treated [OF Cons h] by metis
  from t show ?thesis
    by cases (use assms Cons q in \<open>auto simp: ended_or_queued_def\<close>)
qed

text \<open>
  The worker loop makes every queued job end: whatever the targets return or raise on each
  attempt, after \<open>work w\<close> rounds (the number of queue entries plus the retries still allowed) the
  queue is empty and every job that was in it is completed, failed or cancelled.
\<close>

theorem worker_loop_drains_queue:
  assumes "\<forall>ob \<in> set (jq_objs (w_queue w)). w_heap w ob \<noteq> None" "work w \<le> length rs"
  shows "jq_objs (w_queue (worker_rounds cfg rs w)) = []
    \<and> (\<forall>ob \<in> set (jq_objs (w_queue w)).
         \<exists>j. w_heap (worker_rounds cfg rs w) ob = Some j \<and> job_terminal (job_status j))"
proof -
  let ?S = "set (jq_objs (w_queue w))"
  have "jq_objs (w_queue (worker_rounds cfg rs v)) = [] \<and> ended_or_queued ?S (worker_rounds cfg rs v)"
    if "ended_or_queued ?S v" "work v \<le> length rs" for v
    using that
  proof (induction rs arbitrary: v)
    case Nil
    then show ?case by (simp add: worker_rounds_def work_def jq_size_objs)
  next
    case (Cons r rs)
    obtain run t1 t2 where r: "r = (run, t1, t2)" by (cases r)
    let ?v = "worker_round cfg run t1 t2 v"
    have "work ?v \<le> length rs"
    proof (cases "jq_objs (w_queue v)")
      case Nil
      then show ?thesis
        using worker_round_empty [OF Nil] by (simp add: work_def jq_size_objs)
    next
      case (Cons ob obs)
      have "w_heap v ob \<noteq> None"
        using Cons Cons.prems(1) by (simp add: ended_or_queued_def)
      then show ?thesis
        using worker_round_work [OF Cons] Cons.prems(2) by (metis Suc_leI le_trans length_Cons not_less_eq_eq)
    qed
    then show ?case
      using Cons.IH [of ?v] worker_round_ended_or_queued [OF Cons.prems(1)] r
      by (simp add: worker_rounds_def)
  qed
  moreover have "ended_or_queued ?S w"
    using assms(1) by (simp add: ended_or_queued_def)
  ultimately have "jq_objs (w_queue (worker_rounds cfg rs w)) = []"
    "ended_or_queued ?S (worker_rounds cfg rs w)"
    using assms(2) by blast+
  then show ?thesis
    by (simp add: ended_or_queued_def)
qed

section \<open>A job that always fails\<close>

definition started_count :: "world \<Rightarrow> nat" where
  "started_count w = length (filter (\<lambda>e. fst e = ''job_started'') (w_events w))"

lemma started_count_emit:
  "started_count (emit cfg n p w) =
     started_count w + (if c_event_bus cfg \<and> n = ''job_started'' then 1 else 0)"
  by (simp add: started_count_def emit_def)

lemma started_count_same [simp]:
  "started_count (upd_job ob f w) = started_count w" "started_count (enqueue ob w) = started_count w"
  "started_count (save_to_memory cfg ob w) = started_count w"
  "started_count (w\<lparr>w_queue := q\<rparr>) = started_count w"
  by (simp_all add: started_count_def)

lemma publish_job_Some: "w_heap w ob = Some j \<Longrightarrow> publish_job cfg n ob w = emit cfg n (job_payload j) w"
  by (simp add: publish_job_def)

text \<open>One failing attempt at the only job of the queue.\<close>

lemma failing_round:
  assumes "jq_objs (w_queue w) = [ob]" "w_heap w ob = Some j" "\<not> job_cancelled j"
    "job_status j = J_QUEUED" "c_event_bus cfg" "\<And>j. run j = Inl (e j)"
  shows "started_count (worker_round cfg run t1 t2 w) = Suc (started_count w)"
    and "job_retry_count j < job_retries j \<Longrightarrow>
      jq_objs (w_queue (worker_round cfg run t1 t2 w)) = [ob]
      \<and> w_heap (worker_round cfg run t1 t2 w) ob =
          Some (j\<lparr>job_started_at := Some t1, job_retry_count := job_retry_count j + 1,
                   job_status := J_QUEUED\<rparr>)"
    and "\<not> job_retry_count j < job_retries j \<Longrightarrow>
      jq_objs (w_queue (worker_round cfg run t1 t2 w)) = []
      \<and> (\<exists>j'. w_heap (worker_round cfg run t1 t2 w) ob = Some j' \<and> job_status j' = J_FAILED
           \<and> job_retry_count j' = job_retry_count j)"
proof -
  obtain q where q: "jq_get_nowait (w_queue w) = Inr (ob, q)"
    using assms(1) by (auto simp: jq_get_nowait_def jq_objs_def split: list.splits)
  have heap: "jq_heap q = []"
    using jq_objs_Cons(1) [OF q] assms(1) by (simp add: jq_objs_def)
  note unf = worker_round_def jq_get_def q process_job_def worker_begin_def worker_finish_def
    started_count_emit publish_job_Some assms(2-6)
  show "started_count (worker_round cfg run t1 t2 w) = Suc (started_count w)"
    by (simp add: unf)
  show "job_retry_count j < job_retries j \<Longrightarrow>
      jq_objs (w_queue (worker_round cfg run t1 t2 w)) = [ob]
      \<and> w_heap (worker_round cfg run t1 t2 w) ob =
          Some (j\<lparr>job_started_at := Some t1, job_retry_count := job_retry_count j + 1,
                   job_status := J_QUEUED\<rparr>)"
    by (simp add: unf enqueue_def heap jq_put_def jq_objs_def)
  show "\<not> job_retry_count j < job_retries j \<Longrightarrow>
      jq_objs (w_queue (worker_round cfg run t1 t2 w)) = []
      \<and> (\<exists>j'. w_heap (worker_round cfg run t1 t2 w) ob = Some j' \<and> job_status j' = J_FAILED
           \<and> job_retry_count j' = job_retry_count j)"
    by (simp add: unf heap jq_objs_def)
qed

lemma failing_rounds:
  assumes "c_event_bus cfg" "\<forall>(run, t1, t2) \<in> set rs. \<forall>j. \<exists>e. run j = Inl e"
  shows "jq_objs (w_queue w) = [ob] \<Longrightarrow> w_heap w ob = Some j \<Longrightarrow> \<not> job_cancelled j \<Longrightarrow>
     job_status j = J_QUEUED \<Longrightarrow> length rs = Suc (nat (job_retries j - job_retry_count j)) \<Longrightarrow>
     jq_objs (w_queue (worker_rounds cfg rs w)) = []
     \<and> started_count (worker_rounds cfg rs w) = started_count w + length rs
     \<and> (\<exists>j'. w_heap (worker_rounds cfg rs w) ob = Some j' \<and> job_status j' = J_FAILED
          \<and> job_retry_count j' = max (job_retry_count j) (job_retries j))"
  using assms(2)
proof (induction rs arbitrary: w j)
  case (Cons r rs)
  obtain run t1 t2 where r: "r = (run, t1, t2)" by (cases r)
  have "\<forall>j. \<exists>e. run j = Inl e"
    using Cons.prems(6) r by simp
  then obtain e where e: "\<And>j. run j = Inl (e j)" by metis
  let ?w = "worker_round cfg run t1 t2 w"
  note step = failing_round [OF Cons.prems(1-4) assms(1), of run e t1 t2, OF e]
  show ?case
  proof (cases "job_retry_count j < job_retries j")
    case True
    let ?j = "j\<lparr>job_started_at := Some t1, job_retry_count := job_retry_count j + 1,
                   job_status := J_QUEUED\<rparr>"
    have "length rs = Suc (nat (job_retries ?j - job_retry_count ?j))"
      using Cons.prems(5) True by simp
    then have "jq_objs (w_queue (worker_rounds cfg rs ?w)) = []
      \<and> started_count (worker_rounds cfg rs ?w) = started_count ?w + length rs
      \<and> (\<exists>j'. w_heap (worker_rounds cfg rs ?w) ob = Some j' \<and> job_status j' = J_FAILED
           \<and> job_retry_count j' = max (job_retry_count ?j) (job_retries ?j))"
      using step(2) [OF True] Cons.prems(3,6) by (intro Cons.IH) auto
    then show ?thesis
      using step(1) True r by (simp add: worker_rounds_def)
  next
    case False
    then have "rs = []"
      using Cons.prems(5) by simp
    then show ?thesis
      using step(1) step(3) [OF False] False r by (auto simp: worker_rounds_def)
  qed
qed simp

text \<open>
  Retries: a queued job whose target raises on every attempt is started exactly once more
  than its retry limit allows retries, and then it is failed with its retry counter at the limit
  and the queue is empty.
\<close>

theorem failing_job_attempts:
  assumes "c_event_bus cfg" "\<forall>(run, t1, t2) \<in> set rs. \<forall>j. \<exists>e. run j = Inl e"
    and "jq_objs (w_queue w) = [ob]" "w_heap w ob = Some j" "\<not> job_cancelled j"
    and "job_status j = J_QUEUED" "job_retry_count j = 0" "length rs = nat (job_retries j) + 1"
  shows "jq_objs (w_queue (worker_rounds cfg rs w)) = []
     \<and> started_count (worker_rounds cfg rs w) = started_count w + nat (job_retries j) + 1
     \<and> (\<exists>j'. w_heap (worker_rounds cfg rs w) ob = Some j' \<and> job_status j' = J_FAILED
          \<and> job_retry_count j' = max 0 (job_retries j))"
  using failing_rounds [OF assms(1-6)] assms(7,8) by simp

text \<open>A job with one retry in the queue of a fresh engine.\<close>

definition demo_queue_world :: world where
  "demo_queue_world = create_job full_client None (T_Name ''t'') None None None 20 1 None ''a'' 0 0 w_init"

lemma demo_queue_world_eqs:
  "jq_objs (w_queue demo_queue_world) = [0]"
  "map_option (\<lambda>j. (job_status j, job_cancelled j, job_retry_count j, job_retries j))
     (w_heap demo_queue_world 0) = Some (J_QUEUED, False, 0, 1)"
  by (simp_all add: demo_queue_world_def w_init_def create_job_def submit_job_def
      submit_register_def mk_job_def or_default_def route_job_def full_client_def list_workers_def
      enqueue_def publish_job_def emit_def upd_job_def Let_def jq_init_def jq_put_def jq_objs_def)

theorem failing_job_attempts_witness:
  "started_count (worker_rounds full_client (replicate 2 (\<lambda>_. Inl (Exn RuntimeErr ''x''), 0, 0))
     demo_queue_world) = started_count demo_queue_world + 2"
proof -
  obtain j where "w_heap demo_queue_world 0 = Some j" "job_status j = J_QUEUED" "\<not> job_cancelled j"
      "job_retry_count j = 0" "job_retries j = 1"
    using demo_queue_world_eqs(2) by auto
  then show ?thesis
    using failing_job_attempts [of full_client "replicate 2 (\<lambda>_. Inl (Exn RuntimeErr ''x''), 0, 0)",
        OF _ _ demo_queue_world_eqs(1)]
    by (simp add: full_client_def)
qed

theorem worker_loop_drains_queue_witness:
  "jq_objs (w_queue (worker_rounds full_client (replicate 2 (\<lambda>_. Inr PNone, 0, 0)) demo_queue_world)) = []"
proof -
  obtain j where "w_heap demo_queue_world 0 = Some j" "job_retry_count j = 0" "job_retries j = 1"
    using demo_queue_world_eqs(2) by auto
  then show ?thesis
    using worker_loop_drains_queue [of demo_queue_world "replicate 2 (\<lambda>_. Inr PNone, 0, 0)" full_client]
    by (simp add: demo_queue_world_eqs(1) work_def retries_left_def jq_size_objs)
qed

section \<open>Cancellation\<close>

text \<open>
  Cancelling a job that a worker has not begun succeeds and is final: the worker that takes
  the job does not call its target and leaves it cancelled. Cancelling a job whose target is
  running also reports success and marks the job cancelled, but when the target returns the
  worker overwrites this with completed and with the result.
\<close>

theorem cancellation_effect:
  assumes "engine_get_job jid w = Some ob" "w_heap w ob = Some j"
    and "job_status j = J_QUEUED \<or> job_status j = J_RUNNING"
  shows "case engine_cancel_job cfg now jid w of (w1, b) \<Rightarrow> b \<and> job_status_at w1 ob = Some J_CANCELLED
     \<and> (\<forall>run t1 t2. job_status_at (process_job cfg run t1 t2 ob w1) ob = Some J_CANCELLED
          \<and> snd (worker_begin cfg t1 ob w1) = False)
     \<and> (\<forall>v t2. job_status_at (worker_finish cfg t2 ob (Inr v) w1) ob = Some J_COMPLETED)"
proof -
  have "snd (job_cancel now j)"
    "fst (job_cancel now j) = j\<lparr>job_cancelled := True, job_status := J_CANCELLED,
       job_completed_at := Some now\<rparr>"
    using assms(3) by (auto simp: job_cancel_def)
  then show ?thesis
    using assms(1,2)
    by (simp add: engine_cancel_job_def job_status_at_def process_job_def worker_begin_def
        worker_finish_def)
qed

theorem cancellation_effect_witness:
  "snd (engine_cancel_job full_client 1 ''a'' demo_queue_world)"
proof -
  obtain j where "w_heap demo_queue_world 0 = Some j" "job_status j = J_QUEUED"
    using demo_queue_world_eqs(2) by auto
  moreover have "engine_get_job ''a'' demo_queue_world = Some 0"
    by (simp add: demo_queue_world_def w_init_def create_job_def submit_job_def
      submit_register_def mk_job_def or_default_def route_job_def full_client_def list_workers_def
      enqueue_def publish_job_def emit_def upd_job_def Let_def engine_get_job_def)
  ultimately show ?thesis
    using cancellation_effect [of "''a''" demo_queue_world 0 _ full_client 1] by (auto split: prod.splits)
qed

end
