(* ===== verification/Storage.thy ===== *)
theory Storage
  imports PyStrings
begin

text \<open>
  The storage back ends of \<open>yasin_core/storage\<close>: \<open>InMemoryStorage\<close>, \<open>JSONFileStorage\<close> on a model of
  its file, and the table of back ends. Their contract is the locale \<open>kv_store\<close> over the record of
  operations \<open>storage_ops\<close>, through which the memory and the contexts use a storage.
\<close>

record 's storage_ops =
  st_get :: "string \<Rightarrow> 's \<Rightarrow> pyval option"
  st_set :: "string \<Rightarrow> pyval \<Rightarrow> 's \<Rightarrow> 's \<times> exn option"
  st_delete :: "string \<Rightarrow> 's \<Rightarrow> 's \<times> exn option"
  st_clear :: "'s \<Rightarrow> 's \<times> exn option"
  st_keys :: "'s \<Rightarrow> string list"

text \<open>
  What a client may rely on. The data follow a map also when an operation raises: both back ends change
  their dictionary before anything can fail.
\<close>

locale kv_store =
  fixes ops :: "'s storage_ops"
    and wf :: "'s \<Rightarrow> bool"
    and view :: "'s \<Rightarrow> string \<rightharpoonup> pyval"
  assumes get_view: "wf s \<Longrightarrow> st_get ops k s = view s k"
    and set_view: "wf s \<Longrightarrow> st_set ops k v s = (s', r) \<Longrightarrow> wf s' \<and> view s' = (view s)(k \<mapsto> v)"
    and delete_view: "wf s \<Longrightarrow> st_delete ops k s = (s', r) \<Longrightarrow> wf s' \<and> view s' = (view s)(k := None)"
    and clear_view: "wf s \<Longrightarrow> st_clear ops s = (s', r) \<Longrightarrow> wf s' \<and> view s' = Map.empty"
    and keys_view: "wf s \<Longrightarrow> distinct (st_keys ops s) \<and> set (st_keys ops s) = dom (view s)"
begin

lemma get_set: "wf s \<Longrightarrow> st_get ops k' (fst (st_set ops k v s)) = (if k' = k then Some v else st_get ops k' s)"
  using set_view [of s k v] get_view by (cases "st_set ops k v s") simp

lemma wf_set: "wf s \<Longrightarrow> wf (fst (st_set ops k v s))"
  using set_view [of s k v] by (cases "st_set ops k v s") simp

lemma wf_delete: "wf s \<Longrightarrow> wf (fst (st_delete ops k s))"
  using delete_view [of s k] by (cases "st_delete ops k s") simp

lemma view_delete: "wf s \<Longrightarrow> view (fst (st_delete ops k s)) = (view s)(k := None)"
  using delete_view [of s k] by (cases "st_delete ops k s") simp

lemma view_set: "wf s \<Longrightarrow> view (fst (st_set ops k v s)) = (view s)(k \<mapsto> v)"
  using set_view [of s k v] by (cases "st_set ops k v s") simp

end

section \<open>In memory\<close>

record mem_storage =
  ms_data :: pydict
  ms_initialized :: bool

definition ms_init :: mem_storage where
  "ms_init = \<lparr> ms_data = [], ms_initialized = False \<rparr>"

definition ms_initialize :: "mem_storage \<Rightarrow> mem_storage" where
  "ms_initialize s = s\<lparr>ms_initialized := True\<rparr>"

definition ms_shutdown :: "mem_storage \<Rightarrow> mem_storage" where
  "ms_shutdown s = s\<lparr>ms_initialized := False\<rparr>"

definition ms_health :: "mem_storage \<Rightarrow> pydict" where
  "ms_health s =
     (if \<not> ms_initialized s
      then [(''status'', PStr ''unhealthy''), (''healthy'', PBool False), (''error'', PStr ''Not initialized'')]
      else [(''status'', PStr ''healthy''), (''healthy'', PBool True)])"

definition ms_metadata :: pydict where
  "ms_metadata = [(''backend_type'', PStr ''in-memory''), (''persistent'', PBool False), (''key_value'', PBool True)]"

definition ms_get :: "string \<Rightarrow> mem_storage \<Rightarrow> pyval option" where
  "ms_get k s = map_of (ms_data s) k"

definition ms_set :: "string \<Rightarrow> pyval \<Rightarrow> mem_storage \<Rightarrow> mem_storage" where
  "ms_set k v s = s\<lparr>ms_data := AList.update k v (ms_data s)\<rparr>"

definition ms_delete :: "string \<Rightarrow> mem_storage \<Rightarrow> mem_storage" where
  "ms_delete k s = (if dict_has (ms_data s) k then s\<lparr>ms_data := AList.delete k (ms_data s)\<rparr> else s)"

definition ms_clear :: "mem_storage \<Rightarrow> mem_storage" where
  "ms_clear s = s\<lparr>ms_data := []\<rparr>"

definition mem_ops :: "mem_storage storage_ops" where
  "mem_ops = \<lparr> st_get = ms_get, st_set = (\<lambda>k v s. (ms_set k v s, None)), st_delete = (\<lambda>k s. (ms_delete k s, None)),
              st_clear = (\<lambda>s. (ms_clear s, None)), st_keys = (\<lambda>s. dict_keys (ms_data s)) \<rparr>"

lemma map_of_delete_fun: "map_of (if dict_has d k then AList.delete k d else d) = (map_of d)(k := None)"
  by (auto simp: dict_has_iff fun_eq_iff map_of_delete simp del: set_map)

interpretation mem: kv_store mem_ops "\<lambda>s. wf_dict (ms_data s)" "\<lambda>s. map_of (ms_data s)"
proof unfold_locales
  fix s k s' r
  assume "wf_dict (ms_data s)" "st_delete mem_ops k s = (s', r)"
  then show "wf_dict (ms_data s') \<and> map_of (ms_data s') = (map_of (ms_data s))(k := None)"
    using map_of_delete_fun [where d = "ms_data s" and k = k] by (cases "dict_has (ms_data s) k") (auto simp: mem_ops_def ms_delete_def simp del: set_map)
qed (auto simp: mem_ops_def ms_get_def ms_set_def ms_clear_def map_of_update wf_dict_def distinct_update dom_map_of_conv_image_fst fun_eq_iff)

section \<open>In a JSON file\<close>

text \<open>
  What the file holds: nothing, the text of a dictionary, or something that is not JSON. The
  library renders and reads back every dictionary that it can render at all.
\<close>

datatype json_file = FNone | FJson pydict | FBroken

fun jsonable :: "pyval \<Rightarrow> bool" where
  "jsonable (PObj _) = False"
| "jsonable (PList xs) = list_all jsonable xs"
| "jsonable (PDict d) = list_all (\<lambda>p. jsonable (snd p)) d"
| "jsonable _ = True"

record json_storage =
  js_path :: string
  js_data :: pydict
  js_initialized :: bool
  js_file :: json_file
  js_dir :: bool

text \<open>What the file system answers to \<open>makedirs\<close>, to \<open>open(..., "w")\<close> and to the access checks.\<close>

record file_env =
  fe_mkdir :: "exn option"
  fe_open :: "exn option"
  fe_parent_writable :: bool
  fe_file_writable :: bool

definition js_load :: "json_storage \<Rightarrow> json_storage" where
  "js_load s = s\<lparr>js_data := (case js_file s of FNone \<Rightarrow> [] | FJson d \<Rightarrow> d | FBroken \<Rightarrow> [])\<rparr>"

definition js_init :: "string \<Rightarrow> json_file \<Rightarrow> bool \<Rightarrow> json_storage" where
  "js_init path file dir =
     js_load \<lparr> js_path = path, js_data = [], js_initialized = False, js_file = file, js_dir = dir \<rparr>"

definition mkdir_failed :: "exn \<Rightarrow> exn" where
  "mkdir_failed e = Exn StorageConnectionErr (''Failed to create directory for database storage: '' @ exn_msg e)"

definition write_failed :: "string \<Rightarrow> string \<Rightarrow> exn" where
  "write_failed path msg = Exn StorageConnectionErr (''Failed to write to storage file '' @ path @ '': '' @ msg)"

text \<open>Opening the file for writing empties it; a value that is not JSON stops the writing halfway.\<close>

definition js_save :: "file_env \<Rightarrow> json_storage \<Rightarrow> json_storage \<times> exn option" where
  "js_save env s =
     (case (if js_dir s then None else fe_mkdir env) of
        Some e \<Rightarrow> (s, Some (mkdir_failed e))
      | None \<Rightarrow>
          let s1 = s\<lparr>js_dir := True\<rparr>
          in case fe_open env of
               Some e \<Rightarrow> (s1, Some (write_failed (js_path s) (exn_msg e)))
             | None \<Rightarrow>
                 if jsonable (PDict (js_data s)) then (s1\<lparr>js_file := FJson (js_data s)\<rparr>, None)
                 else (s1\<lparr>js_file := FBroken\<rparr>, Some (write_failed (js_path s) ''Object is not JSON serializable'')))"

definition js_initialize :: "json_storage \<Rightarrow> json_storage" where
  "js_initialize s = js_load (s\<lparr>js_initialized := True\<rparr>)"

definition js_shutdown :: "file_env \<Rightarrow> json_storage \<Rightarrow> json_storage \<times> exn option" where
  "js_shutdown env s =
     (case js_save env s of
        (s1, Some e) \<Rightarrow> (s1, Some e)
      | (s1, None) \<Rightarrow> (s1\<lparr>js_initialized := False\<rparr>, None))"

definition path_dirname :: "string \<Rightarrow> string" where
  "path_dirname p =
     (let head = rev (dropWhile (\<lambda>c. c \<noteq> CHR ''/'') (rev p))
      in if list_all (\<lambda>c. c = CHR ''/'') head then head else rev (dropWhile (\<lambda>c. c = CHR ''/'') (rev head)))"

definition unhealthy_file :: "string \<Rightarrow> pydict" where
  "unhealthy_file msg = [(''status'', PStr ''unhealthy''), (''healthy'', PBool False), (''error'', PStr msg)]"

definition js_health :: "file_env \<Rightarrow> json_storage \<Rightarrow> pydict" where
  "js_health env s =
     (let dir = path_dirname (js_path s); parent = (if path_dirname dir = [] then ''.'' else path_dirname dir);
          ok = [(''status'', PStr ''healthy''), (''healthy'', PBool True)]
      in if dir \<noteq> [] \<and> \<not> js_dir s
         then if \<not> fe_parent_writable env then unhealthy_file (''Parent directory '' @ parent @ '' is not writable'') else ok
         else if js_file s \<noteq> FNone \<and> \<not> fe_file_writable env
         then unhealthy_file (''File '' @ js_path s @ '' is not writable'')
         else ok)"

definition js_metadata :: "json_storage \<Rightarrow> pydict" where
  "js_metadata s =
     [(''backend_type'', PStr ''json''), (''persistent'', PBool True), (''key_value'', PBool True), (''filepath'', PStr (js_path s))]"

definition js_get :: "string \<Rightarrow> json_storage \<Rightarrow> pyval option" where
  "js_get k s = map_of (js_data s) k"

definition js_set :: "file_env \<Rightarrow> string \<Rightarrow> pyval \<Rightarrow> json_storage \<Rightarrow> json_storage \<times> exn option" where
  "js_set env k v s = js_save env (s\<lparr>js_data := AList.update k v (js_data s)\<rparr>)"

definition js_delete :: "file_env \<Rightarrow> string \<Rightarrow> json_storage \<Rightarrow> json_storage \<times> exn option" where
  "js_delete env k s =
     (if dict_has (js_data s) k then js_save env (s\<lparr>js_data := AList.delete k (js_data s)\<rparr>) else (s, None))"

definition js_clear :: "file_env \<Rightarrow> json_storage \<Rightarrow> json_storage \<times> exn option" where
  "js_clear env s = js_save env (s\<lparr>js_data := []\<rparr>)"

definition json_ops :: "file_env \<Rightarrow> json_storage storage_ops" where
  "json_ops env = \<lparr> st_get = js_get, st_set = js_set env, st_delete = js_delete env, st_clear = js_clear env,
                   st_keys = (\<lambda>s. dict_keys (js_data s)) \<rparr>"

lemma js_save_data: "js_save env s = (s', r) \<Longrightarrow> js_data s' = js_data s"
  by (auto simp: js_save_def Let_def split: option.splits if_splits)

interpretation json: kv_store "json_ops env" "\<lambda>s. wf_dict (js_data s)" "\<lambda>s. map_of (js_data s)"
proof unfold_locales
  fix s k s' r
  assume "wf_dict (js_data s)" "st_delete (json_ops env) k s = (s', r)"
  then show "wf_dict (js_data s') \<and> map_of (js_data s') = (map_of (js_data s))(k := None)"
    using map_of_delete_fun [where d = "js_data s" and k = k]
    by (cases "dict_has (js_data s) k") (auto simp: json_ops_def js_delete_def dest!: js_save_data simp del: set_map)
qed (auto simp: json_ops_def js_get_def js_set_def js_clear_def map_of_update wf_dict_def distinct_update dom_map_of_conv_image_fst
       fun_eq_iff dest!: js_save_data)

section \<open>The table of back ends\<close>

type_synonym 's backends = "(string \<times> (pydict \<Rightarrow> exn + 's)) list"

definition register_backend :: "string \<Rightarrow> (pydict \<Rightarrow> exn + 's) \<Rightarrow> 's backends \<Rightarrow> 's backends" where
  "register_backend name ctor tab = AList.update name ctor tab"

definition unknown_backend :: "string \<Rightarrow> exn" where
  "unknown_backend name = Exn ValueErr (''Unknown storage backend: '' @ name)"

definition backend_failed :: "string \<Rightarrow> exn \<Rightarrow> exn" where
  "backend_failed name e =
     Exn StorageConnectionErr (''Failed to initialize storage backend '' @ quoted name @ '': '' @ exn_msg e)"

definition get_storage :: "'s backends \<Rightarrow> string \<Rightarrow> pydict \<Rightarrow> exn + 's" where
  "get_storage tab name kwargs =
     (case map_of tab name of
        None \<Rightarrow> Inl (unknown_backend name)
      | Some ctor \<Rightarrow> (case ctor kwargs of Inl e \<Rightarrow> Inl (backend_failed name e) | Inr s \<Rightarrow> Inr s))"

section \<open>What reaches the file\<close>

text \<open>The file and the dictionary agree, and the file can be read.\<close>

definition js_synced :: "json_storage \<Rightarrow> bool" where
  "js_synced s \<longleftrightarrow> js_data (js_load s) = js_data s"

lemma js_save_ok: "js_save env s = (s', None) \<Longrightarrow> js_synced s' \<and> js_data s' = js_data s"
  by (auto simp: js_save_def js_synced_def js_load_def Let_def split: option.splits if_splits)

section \<open>Properties\<close>

text \<open>
  A change of the JSON storage that returns without an error is durable: a storage that
  is opened on the same path afterwards has the changed dictionary.
\<close>

theorem json_storage_durable:
  assumes "wf_dict (js_data s)" "js_synced s"
  shows "(case js_set env k v s of (s', r) \<Rightarrow>
            js_get k s' = Some v \<and> (r = None \<longrightarrow> js_data (js_init path (js_file s') (js_dir s')) = AList.update k v (js_data s)))
     \<and> (case js_delete env k s of (s', r) \<Rightarrow>
            js_get k s' = None \<and> (r = None \<longrightarrow> js_data (js_init path (js_file s') (js_dir s')) = AList.delete k (js_data s)))
     \<and> (case js_clear env s of (s', r) \<Rightarrow>
            js_data s' = [] \<and> (r = None \<longrightarrow> js_data (js_init path (js_file s') (js_dir s')) = []))"
proof -
  have reopen: "js_data (js_init path (js_file x) (js_dir x)) = js_data (js_load x)" for x
    by (simp add: js_init_def js_load_def)
  have saved: "js_save env x = (x', r) \<Longrightarrow> js_data x' = js_data x \<and> (r = None \<longrightarrow> js_data (js_load x') = js_data x)" for x x' r
    using js_save_ok js_save_data by (cases r) (auto simp: js_synced_def)
  have absent: "\<not> dict_has (js_data s) k \<Longrightarrow> AList.delete k (js_data s) = js_data s"
    by (simp add: delete_id)
  obtain s1 r1 where 1: "js_save env (s\<lparr>js_data := AList.update k v (js_data s)\<rparr>) = (s1, r1)" by (meson surj_pair)
  obtain s2 r2 where 2: "js_save env (s\<lparr>js_data := AList.delete k (js_data s)\<rparr>) = (s2, r2)" by (meson surj_pair)
  obtain s3 r3 where 3: "js_save env (s\<lparr>js_data := []\<rparr>) = (s3, r3)" by (meson surj_pair)
  have delete_part: "case js_delete env k s of (s', r) \<Rightarrow>
      js_get k s' = None \<and> (r = None \<longrightarrow> js_data (js_init path (js_file s') (js_dir s')) = AList.delete k (js_data s))"
  proof (cases "dict_has (js_data s) k")
    case True
    then show ?thesis
      using saved [OF 2] by (simp add: js_delete_def 2 js_get_def reopen map_of_delete del: set_map)
  next
    case False
    then have "map_of (js_data s) k = None" by (simp add: dict_has_iff del: set_map)
    then show ?thesis
      using False absent assms(2) by (simp add: js_delete_def js_get_def reopen js_synced_def del: set_map)
  qed
  then show ?thesis
    using saved [OF 1] saved [OF 3] by (simp add: js_set_def js_get_def 1 js_clear_def 3 reopen map_of_update)
qed

definition plain_files :: file_env where
  "plain_files = \<lparr> fe_mkdir = None, fe_open = None, fe_parent_writable = True, fe_file_writable = True \<rparr>"

theorem json_storage_durable_witness:
  "js_get ''k'' (fst (js_set plain_files ''k'' (PInt 1) (js_init ''db/x.json'' FNone False))) = Some (PInt 1)"
  using json_storage_durable [where s = "js_init ''db/x.json'' FNone False" and env = plain_files and k = "''k''" and v = "PInt 1"]
  by (simp add: js_init_def js_load_def js_synced_def split_beta)

text \<open>
  A value that JSON cannot express destroys the file: the call that stores it raises, but
  only after the file was opened for writing and emptied. The storage itself still has the value, while
  everything stored before is gone for whoever opens the file next.
\<close>

theorem json_bad_value_destroys_file:
  assumes "\<not> jsonable v" "js_dir s \<or> fe_mkdir env = None" "fe_open env = None"
  shows "case js_set env k v s of (s', r) \<Rightarrow>
      r \<noteq> None \<and> js_get k s' = Some v \<and> js_data (js_init path (js_file s') (js_dir s')) = []"
proof -
  have "(k, v) \<in> set (AList.update k v (js_data s))"
    by (rule map_of_SomeD) (simp add: map_of_update)
  then have "\<not> jsonable (PDict (AList.update k v (js_data s)))"
    using assms(1) by (force simp: list_all_iff)
  then show ?thesis
    using assms(2,3) by (auto simp: js_set_def js_save_def js_get_def js_init_def js_load_def Let_def map_of_update split: option.split)
qed

theorem json_bad_value_destroys_file_witness:
  "snd (js_set plain_files ''k'' (PObj 0) (js_init ''x.json'' (FJson [(''old'', PInt 1)]) True)) \<noteq> None"
  using json_bad_value_destroys_file [where v = "PObj 0" and s = "js_init ''x.json'' (FJson [(''old'', PInt 1)]) True" and env = plain_files and k = "''k''"]
  by (simp add: plain_files_def js_init_def js_load_def split_beta)

end
