(* ===== verification/PyDateTime.thy ===== *)
theory PyDateTime
  imports PyStrings
begin

text \<open>
  The naive \<open>datetime\<close> values of the standard library that the source computes with: the fields of
  the proleptic Gregorian calendar, the weekday, the addition of one minute, and the ISO rendering
  with the reading of the form that it produces (the other forms that \<open>fromisoformat\<close> accepts do
  not occur, since the only texts read are those written by \<open>isoformat\<close>).
\<close>

section \<open>The calendar\<close>

record datetime =
  dt_year :: nat
  dt_month :: nat
  dt_day :: nat
  dt_hour :: nat
  dt_minute :: nat
  dt_second :: nat
  dt_micro :: nat

definition leap_year :: "nat \<Rightarrow> bool" where
  "leap_year y \<longleftrightarrow> y mod 4 = 0 \<and> (y mod 100 \<noteq> 0 \<or> y mod 400 = 0)"

definition month_lengths :: "nat \<Rightarrow> nat list" where
  "month_lengths y = [31, if leap_year y then 29 else 28, 31, 30, 31, 30, 31, 31, 30, 31, 30, 31]"

definition days_in_month :: "nat \<Rightarrow> nat \<Rightarrow> nat" where
  "days_in_month y m = month_lengths y ! (m - 1)"

definition days_before_month :: "nat \<Rightarrow> nat \<Rightarrow> nat" where
  "days_before_month y m = sum_list (take (m - 1) (month_lengths y))"

definition days_before_year :: "nat \<Rightarrow> nat" where
  "days_before_year y = (y - 1) * 365 + (y - 1) div 4 - (y - 1) div 100 + (y - 1) div 400"

definition ordinal :: "datetime \<Rightarrow> nat" where
  "ordinal t = days_before_year (dt_year t) + days_before_month (dt_year t) (dt_month t) + dt_day t"

text \<open>Monday is 0.\<close>

definition weekday :: "datetime \<Rightarrow> nat" where
  "weekday t = (ordinal t + 6) mod 7"

definition valid_datetime :: "datetime \<Rightarrow> bool" where
  "valid_datetime t \<longleftrightarrow> 1 \<le> dt_year t \<and> dt_year t \<le> 9999 \<and> 1 \<le> dt_month t \<and> dt_month t \<le> 12
     \<and> 1 \<le> dt_day t \<and> dt_day t \<le> days_in_month (dt_year t) (dt_month t)
     \<and> dt_hour t < 24 \<and> dt_minute t < 60 \<and> dt_second t < 60 \<and> dt_micro t < 1000000"

text \<open>\<open>t.replace(second=0, microsecond=0)\<close> and \<open>t + timedelta(minutes=1)\<close>\<close>

definition truncate_minute :: "datetime \<Rightarrow> datetime" where
  "truncate_minute t = t\<lparr>dt_second := 0, dt_micro := 0\<rparr>"

definition plus_minute :: "datetime \<Rightarrow> exn + datetime" where
  "plus_minute t =
     (if dt_minute t < 59 then Inr (t\<lparr>dt_minute := dt_minute t + 1\<rparr>)
      else if dt_hour t < 23 then Inr (t\<lparr>dt_hour := dt_hour t + 1, dt_minute := 0\<rparr>)
      else if dt_day t < days_in_month (dt_year t) (dt_month t)
      then Inr (t\<lparr>dt_day := dt_day t + 1, dt_hour := 0, dt_minute := 0\<rparr>)
      else if dt_month t < 12
      then Inr (t\<lparr>dt_month := dt_month t + 1, dt_day := 1, dt_hour := 0, dt_minute := 0\<rparr>)
      else if dt_year t < 9999
      then Inr (t\<lparr>dt_year := dt_year t + 1, dt_month := 1, dt_day := 1, dt_hour := 0, dt_minute := 0\<rparr>)
      else Inl (Exn OverflowErr ''date value out of range''))"

lemma month_cases:
  "1 \<le> m \<Longrightarrow> m \<le> 12 \<Longrightarrow> m = 1 \<or> m = 2 \<or> m = 3 \<or> m = 4 \<or> m = 5 \<or> m = 6 \<or> m = 7 \<or> m = 8 \<or> m = 9
     \<or> m = 10 \<or> m = 11 \<or> m = (12::nat)"
  by presburger

lemma days_before_month_Suc:
  assumes "1 \<le> m" "m < 12"
  shows "days_before_month y (m + 1) = days_before_month y m + days_in_month y m"
proof -
  have "m - 1 < length (month_lengths y)"
    using assms by (simp add: month_lengths_def)
  then have "take (Suc (m - 1)) (month_lengths y) = take (m - 1) (month_lengths y) @ [month_lengths y ! (m - 1)]"
    by (rule take_Suc_conv_app_nth)
  then show ?thesis
    using assms by (simp add: days_before_month_def days_in_month_def)
qed

lemma days_in_month_ge: "1 \<le> m \<Longrightarrow> m \<le> 12 \<Longrightarrow> 28 \<le> days_in_month y m"
  by (drule (1) month_cases) (auto simp: days_in_month_def month_lengths_def)

lemma plus_minute_valid:
  "valid_datetime t \<Longrightarrow> plus_minute t = Inr t' \<Longrightarrow> valid_datetime t'"
  using days_in_month_ge [of "dt_month t + 1" "dt_year t"] days_in_month_ge [of 1 "dt_year t + 1"]
  by (auto simp: valid_datetime_def plus_minute_def split: if_splits)

section \<open>Minutes of the year\<close>

definition minute_of_year :: "datetime \<Rightarrow> nat" where
  "minute_of_year t =
     (days_before_month (dt_year t) (dt_month t) + (dt_day t - 1)) * 1440 + dt_hour t * 60 + dt_minute t"

definition year_minutes :: "nat \<Rightarrow> nat" where
  "year_minutes y = (if leap_year y then 366 else 365) * 1440"

lemma days_before_month_12: "days_before_month y 12 + 31 = (if leap_year y then 366 else 365)"
  by (simp add: days_before_month_def month_lengths_def numeral_eq_Suc)

lemma plus_minute_of_year:
  assumes "valid_datetime t" "minute_of_year t + 1 < year_minutes (dt_year t)"
  shows "\<exists>t'. plus_minute t = Inr t' \<and> dt_year t' = dt_year t \<and> minute_of_year t' = minute_of_year t + 1"
proof -
  note v = assms(1) [unfolded valid_datetime_def]
  obtain d where d: "dt_day t = Suc d"
    using v by (cases "dt_day t") auto
  consider "dt_minute t < 59" | "dt_minute t = 59" "dt_hour t < 23"
    | "dt_minute t = 59" "dt_hour t = 23" "dt_day t < days_in_month (dt_year t) (dt_month t)"
    | "dt_minute t = 59" "dt_hour t = 23" "dt_day t = days_in_month (dt_year t) (dt_month t)" "dt_month t < 12"
    | "dt_minute t = 59" "dt_hour t = 23" "dt_day t = days_in_month (dt_year t) (dt_month t)" "dt_month t = 12"
    using v by linarith
  then show ?thesis
  proof cases
    case 4
    then show ?thesis
      using v days_before_month_Suc [of "dt_month t" "dt_year t"]
        days_in_month_ge [of "dt_month t" "dt_year t"]
      by (simp add: plus_minute_def minute_of_year_def algebra_simps)
  next
    case 5
    have "days_in_month (dt_year t) 12 = 31"
      by (simp add: days_in_month_def month_lengths_def)
    then show ?thesis
      using 5 assms(2) days_before_month_12 [of "dt_year t"]
      by (auto simp: minute_of_year_def year_minutes_def algebra_simps split: if_splits)
  qed (use v d in \<open>simp_all add: plus_minute_def minute_of_year_def\<close>)
qed

lemma january_over:
  assumes "valid_datetime t" "44640 \<le> minute_of_year t"
  shows "dt_month t \<noteq> 1"
proof
  assume "dt_month t = 1"
  then show False
    using assms by (auto simp: valid_datetime_def minute_of_year_def days_before_month_def
        days_in_month_def month_lengths_def)
qed

section \<open>The ISO form\<close>

definition zero_padded :: "nat \<Rightarrow> nat \<Rightarrow> string" where
  "zero_padded w n = replicate (w - length (nat_str n)) (CHR ''0'') @ nat_str n"

definition isoformat :: "datetime \<Rightarrow> string" where
  "isoformat t =
     zero_padded 4 (dt_year t) @ ''-'' @ zero_padded 2 (dt_month t) @ ''-'' @ zero_padded 2 (dt_day t) @ ''T''
       @ zero_padded 2 (dt_hour t) @ '':'' @ zero_padded 2 (dt_minute t) @ '':'' @ zero_padded 2 (dt_second t)
       @ (if dt_micro t = 0 then [] else ''.'' @ zero_padded 6 (dt_micro t))"

text \<open>Reads the fields of given widths, each followed by its separator.\<close>

fun read_fields :: "(nat \<times> char) list \<Rightarrow> string \<Rightarrow> (nat list \<times> string) option" where
  "read_fields [] s = Some ([], s)"
| "read_fields ((w, c) # fs) s =
     (if length s \<le> w \<or> \<not> list_all is_digit (take w s) \<or> s ! w \<noteq> c then None
      else case read_fields fs (drop (w + 1) s) of
             None \<Rightarrow> None
           | Some (ns, rest) \<Rightarrow> Some (digits_val (take w s) # ns, rest))"

definition read_seconds :: "string \<Rightarrow> (nat \<times> nat) option" where
  "read_seconds s =
     (if length s = 2 \<and> list_all is_digit s then Some (digits_val s, 0)
      else if length s = 9 \<and> list_all is_digit (take 2 s) \<and> s ! 2 = CHR ''.'' \<and> list_all is_digit (drop 3 s)
      then Some (digits_val (take 2 s), digits_val (drop 3 s))
      else None)"

definition fromisoformat :: "string \<Rightarrow> datetime option" where
  "fromisoformat s =
     (case read_fields [(4, CHR ''-''), (2, CHR ''-''), (2, CHR ''T''), (2, CHR '':''), (2, CHR '':'')] s of
        Some ([y, mo, d, h, mi], rest) \<Rightarrow>
          (case read_seconds rest of
             Some (sec, us) \<Rightarrow>
               let t = \<lparr> dt_year = y, dt_month = mo, dt_day = d, dt_hour = h, dt_minute = mi,
                         dt_second = sec, dt_micro = us \<rparr>
               in if valid_datetime t then Some t else None
           | None \<Rightarrow> None)
      | _ \<Rightarrow> None)"

lemma nat_str_length: "0 < w \<Longrightarrow> n < 10 ^ w \<Longrightarrow> length (nat_str n) \<le> w"
proof (induction n arbitrary: w rule: nat_str.induct)
  case (1 n)
  show ?case
  proof (cases "n < 10")
    case True
    then show ?thesis
      using 1(2) by (simp add: nat_str.simps [of n])
  next
    case False
    then obtain v where w: "w = Suc v" "0 < v"
      using 1(2,3) by (cases w; cases "w - 1") auto
    have "n div 10 < 10 ^ v"
      using 1(3) w by (simp add: less_mult_imp_div_less)
    then show ?thesis
      using 1(1) [OF False w(2)] w False by (simp add: nat_str.simps [of n])
  qed
qed

lemma digits_val_zeros: "digits_val (replicate k (CHR ''0'') @ s) = digits_val s"
proof (induction k)
  case (Suc k)
  have "digits_val (CHR ''0'' # t) = digits_val t" for t
    by (simp add: digits_val_def digit_val_def)
  then show ?case using Suc by simp
qed simp

lemma zero_padded_val [simp]: "digits_val (zero_padded w n) = n"
  by (simp add: zero_padded_def digits_val_zeros digits_val_nat_str)

lemma zero_padded_length: "0 < w \<Longrightarrow> n < 10 ^ w \<Longrightarrow> length (zero_padded w n) = w"
  using nat_str_length [of w n] by (simp add: zero_padded_def)

lemma zero_padded_digits [simp]: "list_all is_digit (zero_padded w n)"
  using nat_str_digits [of n] by (auto simp: zero_padded_def list_all_iff is_digit_def in_range_char_def)

lemma read_field:
  "0 < w \<Longrightarrow> n < 10 ^ w \<Longrightarrow> read_fields ((w, c) # fs) (zero_padded w n @ c # s) =
     map_option (\<lambda>(ns, rest). (n # ns, rest)) (read_fields fs s)"
  by (simp add: zero_padded_length nth_append split: option.splits)

lemma fromisoformat_isoformat:
  assumes "valid_datetime t"
  shows "fromisoformat (isoformat t) = Some t"
proof -
  note v = assms [unfolded valid_datetime_def]
  have d31: "days_in_month (dt_year t) (dt_month t) \<le> 31"
    using month_cases [of "dt_month t"] v by (auto simp: days_in_month_def month_lengths_def)
  let ?sec = "zero_padded 2 (dt_second t) @ (if dt_micro t = 0 then [] else ''.'' @ zero_padded 6 (dt_micro t))"
  have sec: "read_seconds ?sec = Some (dt_second t, dt_micro t)"
    using v zero_padded_length [of 2 "dt_second t"] zero_padded_length [of 6 "dt_micro t"]
    by (simp add: read_seconds_def nth_append)
  have "read_fields [(4, CHR ''-''), (2, CHR ''-''), (2, CHR ''T''), (2, CHR '':''), (2, CHR '':'')] (isoformat t)
      = Some ([dt_year t, dt_month t, dt_day t, dt_hour t, dt_minute t], ?sec)"
    using v d31 by (simp only: isoformat_def append_assoc append_Cons append_Nil) (simp add: read_field del: read_fields.simps(2))
  moreover have fields: "\<lparr> dt_year = dt_year t, dt_month = dt_month t, dt_day = dt_day t, dt_hour = dt_hour t,
      dt_minute = dt_minute t, dt_second = dt_second t, dt_micro = dt_micro t \<rparr> = t"
    by simp
  ultimately show ?thesis
    using assms by (simp add: fromisoformat_def sec Let_def fields del: read_fields.simps)
qed

end
