(* ===== verification/PyInstant.thy ===== *)
theory PyInstant
  imports PyDateTime
begin

text \<open>
  Aware \<open>datetime\<close> values as instants: the microseconds since the start of the year 1, UTC. Dates are
  found from day counts, \<open>timedelta(seconds=...)\<close> is added with the range check of the library, and
  instants are rendered in the ISO form and read back, with an offset of hours and minutes or
  without one (then the value is naive). The other forms that \<open>fromisoformat\<close> accepts are not modelled.
\<close>

definition year_length :: "nat \<Rightarrow> nat" where
  "year_length y = (if leap_year y then 366 else 365)"

function year_split :: "nat \<Rightarrow> nat \<Rightarrow> nat \<times> nat" where
  "year_split y d = (if d < year_length y then (y, d) else year_split (y + 1) (d - year_length y))"
  by pat_completeness auto

termination by (relation "measure snd") (auto simp: year_length_def split: if_splits)

declare year_split.simps [simp del]

function month_split :: "nat \<Rightarrow> nat \<Rightarrow> nat \<Rightarrow> nat \<times> nat" where
  "month_split y m d = (if m \<ge> 12 \<or> d < days_in_month y m then (m, d) else month_split y (m + 1) (d - days_in_month y m))"
  by pat_completeness auto

termination by (relation "measure (\<lambda>(y, m, d). 12 - m)") auto

declare month_split.simps [simp del]

definition day_micros :: nat where
  "day_micros = 86400 * 1000000"

definition to_micros :: "datetime \<Rightarrow> nat" where
  "to_micros t = (ordinal t - 1) * day_micros
     + ((dt_hour t * 60 + dt_minute t) * 60 + dt_second t) * 1000000 + dt_micro t"

definition of_micros :: "nat \<Rightarrow> datetime" where
  "of_micros n =
     (let (y, yd) = year_split 1 (n div day_micros); (m, md) = month_split y 1 yd; r = n mod day_micros
      in \<lparr> dt_year = y, dt_month = m, dt_day = md + 1, dt_hour = r div 3600000000,
           dt_minute = r div 60000000 mod 60, dt_second = r div 1000000 mod 60, dt_micro = r mod 1000000 \<rparr>)"

text \<open>The first instant after the year 9999.\<close>

definition max_micros :: nat where
  "max_micros = days_before_year 10000 * day_micros"

section \<open>From day counts to dates and back\<close>

lemma days_before_year_Suc:
  assumes "1 \<le> y"
  shows "days_before_year (y + 1) = days_before_year y + year_length y"
proof -
  obtain k where k: "y = Suc k" using assms by (cases y) auto
  have "k div 100 \<le> k div 4" by (simp add: div_le_mono2)
  then obtain c where c: "k div 4 = k div 100 + c" by (metis le_Suc_ex)
  have "Suc k mod 400 = 0 \<Longrightarrow> Suc k mod 100 = 0" "Suc k mod 100 = 0 \<Longrightarrow> Suc k mod 4 = 0"
    using dvd_trans [of 100 400 "Suc k"] dvd_trans [of 4 100 "Suc k"] by (simp_all add: mod_eq_0_iff_dvd)
  then show ?thesis
    by (auto simp: k days_before_year_def year_length_def leap_year_def div_Suc c)
qed

lemma year_split_spec:
  "1 \<le> y \<Longrightarrow> year_split y d = (y', d') \<Longrightarrow>
     1 \<le> y' \<and> d' < year_length y' \<and> days_before_year y' + d' = days_before_year y + d"
proof (induction y d rule: year_split.induct)
  case (1 y d)
  show ?case
  proof (cases "d < year_length y")
    case True
    then show ?thesis using 1(2,3) by (simp add: year_split.simps [of y d])
  next
    case False
    then show ?thesis
      using 1(1) [OF False] 1(2,3) days_before_year_Suc [OF 1(2)] by (simp add: year_split.simps [of y d])
  qed
qed

lemma month_split_spec:
  "1 \<le> m \<Longrightarrow> m \<le> 12 \<Longrightarrow> days_before_month y m + d < year_length y \<Longrightarrow> month_split y m d = (m', d') \<Longrightarrow>
     1 \<le> m' \<and> m' \<le> 12 \<and> d' < days_in_month y m' \<and> days_before_month y m' + d' = days_before_month y m + d"
proof (induction y m d rule: month_split.induct)
  case (1 y m d)
  show ?case
  proof (cases "m \<ge> 12 \<or> d < days_in_month y m")
    case True
    have "d < days_in_month y m"
    proof (cases "m = 12")
      case m: True
      have "days_in_month y 12 = 31" by (simp add: days_in_month_def month_lengths_def)
      then show ?thesis using 1(4) days_before_month_12 [of y] by (auto simp: m year_length_def split: if_splits)
    qed (use True 1(3) in auto)
    then show ?thesis using True 1(2,3,5) by (simp add: month_split.simps [of y m d])
  next
    case False
    then show ?thesis
      using 1(1) [OF False] 1(2-5) days_before_month_Suc [of m y] by (simp add: month_split.simps [of y m d])
  qed
qed

lemma days_before_year_mono: "1 \<le> a \<Longrightarrow> a \<le> b \<Longrightarrow> days_before_year a \<le> days_before_year b"
proof (induction b)
  case (Suc b)
  then show ?case using days_before_year_Suc [of b] by (cases "a = Suc b") auto
qed simp

lemma of_micros_spec:
  assumes "n < max_micros"
  shows "valid_datetime (of_micros n) \<and> to_micros (of_micros n) = n"
proof -
  define r where "r = n mod day_micros"
  obtain y yd where y: "year_split 1 (n div day_micros) = (y, yd)" by (meson surj_pair)
  obtain m md where m: "month_split y 1 yd = (m, md)" by (meson surj_pair)
  note ys = year_split_spec [OF _ y, simplified]
  have z: "days_before_year 1 = 0" "days_before_month y 1 = 0"
    by (simp_all add: days_before_year_def days_before_month_def)
  have ms: "1 \<le> m" "m \<le> 12" "md < days_in_month y m" "days_before_month y m + md = yd"
    using month_split_spec [OF _ _ _ m] ys z by auto
  have days: "n div day_micros < days_before_year 10000"
    using assms by (simp add: max_micros_def less_mult_imp_div_less)
  have "y \<le> 9999"
  proof (rule ccontr)
    assume "\<not> y \<le> 9999"
    then have "days_before_year 10000 \<le> days_before_year y" by (intro days_before_year_mono) simp_all
    then show False using ys z days by (simp add: One_nat_def)
  qed
  have rlt: "r < 86400 * 1000000" unfolding r_def day_micros_def by (rule mod_less_divisor) simp
  have t: "of_micros n = \<lparr> dt_year = y, dt_month = m, dt_day = md + 1, dt_hour = r div 3600000000,
           dt_minute = r div 60000000 mod 60, dt_second = r div 1000000 mod 60, dt_micro = r mod 1000000 \<rparr>"
    using m y by (simp add: of_micros_def r_def Let_def)
  have v: "valid_datetime (of_micros n)"
    unfolding t valid_datetime_def using ys ms rlt \<open>y \<le> 9999\<close> by (simp add: less_mult_imp_div_less)
  have clock: "((r div 3600000000 * 60 + r div 60000000 mod 60) * 60 + r div 1000000 mod 60) * 1000000 + r mod 1000000 = r"
  proof -
    have "r div 60000000 = r div 3600000000 * 60 + r div 60000000 mod 60"
      using div_mult_mod_eq [of "r div 60000000" 60] by (simp add: div_mult2_eq [symmetric])
    moreover have "r div 1000000 = r div 60000000 * 60 + r div 1000000 mod 60"
      using div_mult_mod_eq [of "r div 1000000" 60] by (simp add: div_mult2_eq [symmetric])
    ultimately show ?thesis by (metis div_mult_mod_eq)
  qed
  have "ordinal (of_micros n) - 1 = n div day_micros"
    unfolding t ordinal_def using ys ms z by simp
  then have "to_micros (of_micros n) = n div day_micros * day_micros + r"
    unfolding to_micros_def using clock unfolding t by simp
  then show ?thesis using v by (simp add: r_def)
qed

section \<open>Adding seconds\<close>

text \<open>\<open>round\<close> to the nearest integer, a tie to the even one.\<close>

definition py_round :: "real \<Rightarrow> int" where
  "py_round x =
     (let f = \<lfloor>x\<rfloor>; d = x - real_of_int f
      in if d < 1 / 2 then f else if d > 1 / 2 then f + 1 else if even f then f else f + 1)"

definition seconds_micros :: "pyval \<Rightarrow> exn + int" where
  "seconds_micros v =
     (case v of
        PInt i \<Rightarrow> Inr (i * 1000000)
      | PFloat x \<Rightarrow> Inr (py_round (x * 1000000))
      | PBool b \<Rightarrow> Inr (if b then 1000000 else 0)
      | _ \<Rightarrow> Inl (Exn TypeErr ''unsupported type for timedelta seconds component''))"

definition plus_seconds :: "nat \<Rightarrow> pyval \<Rightarrow> exn + nat" where
  "plus_seconds n v =
     (case seconds_micros v of
        Inl e \<Rightarrow> Inl e
      | Inr d \<Rightarrow> if 0 \<le> int n + d \<and> int n + d < int max_micros then Inr (nat (int n + d))
                 else Inl (Exn OverflowErr ''date value out of range''))"

lemma plus_seconds_range: "plus_seconds n v = Inr k \<Longrightarrow> k < max_micros"
  by (auto simp: plus_seconds_def split: sum.splits if_splits)

section \<open>The ISO form of instants\<close>

definition iso_utc :: "nat \<Rightarrow> string" where
  "iso_utc n = isoformat (of_micros n) @ ''+00:00''"

text \<open>The offset in minutes that a text ends with, and the text before it.\<close>

definition split_offset :: "string \<Rightarrow> (string \<times> int) option" where
  "split_offset s =
     (let p = take (length s - 6) s; o6 = drop (length s - 6) s
      in if 6 \<le> length s \<and> o6 ! 0 \<in> {CHR ''+'', CHR ''-''} \<and> list_all is_digit (take 2 (drop 1 o6)) \<and> o6 ! 3 = CHR '':''
            \<and> list_all is_digit (drop 4 o6)
         then let v = int (digits_val (take 2 (drop 1 o6)) * 60 + digits_val (drop 4 o6))
              in Some (p, if o6 ! 0 = CHR ''-'' then - v else v)
         else None)"

text \<open>A text read as a time: its microseconds, and whether it is aware.\<close>

definition parse_instant :: "string \<Rightarrow> (int \<times> bool) option" where
  "parse_instant s =
     (case split_offset s of
        Some (p, off) \<Rightarrow>
          if \<bar>off\<bar> < 1440 then map_option (\<lambda>t. (int (to_micros t) - off * 60000000, True)) (fromisoformat p) else None
      | None \<Rightarrow> map_option (\<lambda>t. (int (to_micros t), False)) (fromisoformat s))"

lemma parse_iso_utc [simp]:
  assumes "n < max_micros"
  shows "parse_instant (iso_utc n) = Some (int n, True)"
proof -
  have "split_offset (iso_utc n) = Some (isoformat (of_micros n), 0)"
    by (simp add: split_offset_def iso_utc_def Let_def is_digit_def in_range_char_def digits_val_def digit_val_def)
  then show ?thesis
    using of_micros_spec [OF assms] fromisoformat_isoformat by (simp add: parse_instant_def)
qed

lemma iso_utc_nonempty [simp]: "iso_utc n \<noteq> []"
  by (simp add: iso_utc_def)

end
