(* ===== verification/MemoryStore.thy ===== *)
theory MemoryStore
  imports Storage PyInstant
begin

text \<open>
  \<open>yasin_core/memory\<close>: memory entries with their expiry, the in-memory memories, and the long-term
  memory on a storage, which is any implementation of \<open>kv_store\<close>. Time is read once per operation:
  \<open>ck_now\<close> is the UTC time, \<open>ck_local\<close> the naive local time. How Python shows a value as a text
  is the parameter \<open>shown\<close> of the search. A stored dictionary whose \<open>key\<close>, \<open>created_at\<close> or \<open>expire_at\<close> has
  another type than the entries give it counts as a raw value.
\<close>

section \<open>Equality of values\<close>

fun num_of :: "pyval \<Rightarrow> real option" where
  "num_of (PBool b) = Some (if b then 1 else 0)"
| "num_of (PInt i) = Some (real_of_int i)"
| "num_of (PFloat x) = Some x"
| "num_of _ = None"

text \<open>Python's \<open>==\<close>: numbers of different types are compared by value, dictionaries without order.\<close>

fun py_eq :: "pyval \<Rightarrow> pyval \<Rightarrow> bool"
  and list_eq :: "pyval list \<Rightarrow> pyval list \<Rightarrow> bool"
  and items_eq :: "pydict \<Rightarrow> pydict \<Rightarrow> bool" where
  "py_eq (PList xs) w = (case w of PList ys \<Rightarrow> list_eq xs ys | _ \<Rightarrow> False)"
| "py_eq (PDict d) w = (case w of PDict e \<Rightarrow> length d = length e \<and> items_eq d e | _ \<Rightarrow> False)"
| "py_eq v w = (case num_of v of Some x \<Rightarrow> num_of w = Some x | None \<Rightarrow> v = w)"
| "list_eq [] ys = (ys = [])"
| "list_eq (x # xs) ys = (case ys of [] \<Rightarrow> False | y # ys' \<Rightarrow> py_eq x y \<and> list_eq xs ys')"
| "items_eq [] e = True"
| "items_eq ((k, v) # d) e = (case map_of e k of None \<Rightarrow> False | Some w \<Rightarrow> py_eq v w \<and> items_eq d e)"

section \<open>Entries\<close>

record memory_entry =
  en_key :: string
  en_value :: pyval
  en_metadata :: pydict
  en_created_at :: string
  en_expire_at :: "string option"

record clock =
  ck_now :: nat
  ck_local :: int

definition mk_entry :: "clock \<Rightarrow> string \<Rightarrow> pyval \<Rightarrow> pydict \<Rightarrow> string option \<Rightarrow> string option \<Rightarrow> memory_entry" where
  "mk_entry ck k v md created expire =
     \<lparr> en_key = k, en_value = v, en_metadata = md,
       en_created_at = (case created of Some c \<Rightarrow> if c = [] then iso_utc (ck_now ck) else c | None \<Rightarrow> iso_utc (ck_now ck)),
       en_expire_at = expire \<rparr>"

definition entry_expired :: "clock \<Rightarrow> memory_entry \<Rightarrow> bool" where
  "entry_expired ck e =
     (case en_expire_at e of
        None \<Rightarrow> False
      | Some s \<Rightarrow>
          if s = [] then False
          else case parse_instant s of
                 None \<Rightarrow> False
               | Some (x, aware) \<Rightarrow> if aware then int (ck_now ck) > x else ck_local ck > x)"

definition entry_to_dict :: "memory_entry \<Rightarrow> pydict" where
  "entry_to_dict e =
     [(''key'', PStr (en_key e)), (''value'', en_value e), (''metadata'', PDict (en_metadata e)),
      (''created_at'', PStr (en_created_at e)), (''expire_at'', opt_str (en_expire_at e))]"

definition str_field :: "pydict \<Rightarrow> string \<Rightarrow> exn + string option" where
  "str_field d k =
     (case pyget d k of PNone \<Rightarrow> Inr None | PStr s \<Rightarrow> Inr (Some s) | _ \<Rightarrow> Inl (Exn TypeErr k))"

definition entry_from_dict :: "clock \<Rightarrow> pydict \<Rightarrow> exn + memory_entry" where
  "entry_from_dict ck d =
     (case (map_of d ''key'', map_of d ''value'') of
        (Some (PStr k), Some v) \<Rightarrow>
          and_then (case pyget d ''metadata'' of
              PNone \<Rightarrow> Inr []
            | PDict md \<Rightarrow> Inr md
            | _ \<Rightarrow> Inl (Exn TypeErr ''metadata''))
          (\<lambda>md. and_then (str_field d ''created_at'') (\<lambda>c. and_then (str_field d ''expire_at'')
             (\<lambda>x. Inr (mk_entry ck k v md c x))))
      | _ \<Rightarrow> Inl (Exn KeyErr ''key''))"

lemma entry_roundtrip:
  assumes "en_created_at e \<noteq> []"
  shows "entry_from_dict ck (entry_to_dict e) = Inr e"
  using assms by (cases "en_expire_at e") (simp_all add: entry_from_dict_def entry_to_dict_def str_field_def pyget_def mk_entry_def opt_str_def)

section \<open>In-memory memories\<close>

record memory =
  mm_data :: "(string \<times> memory_entry) list"
  mm_type :: string
  mm_bus :: bool
  mm_events :: "(string \<times> pydict \<times> pydict) list"

definition mm_init :: "bool \<Rightarrow> string \<Rightarrow> memory" where
  "mm_init bus ty = \<lparr> mm_data = [], mm_type = ty, mm_bus = bus, mm_events = [] \<rparr>"

definition short_term_init :: "bool \<Rightarrow> memory" where
  "short_term_init bus = mm_init bus ''short-term''"

definition long_term_init :: "bool \<Rightarrow> memory" where
  "long_term_init bus = mm_init bus ''long-term''"

definition mm_publish :: "string \<Rightarrow> pydict \<Rightarrow> pydict \<Rightarrow> memory \<Rightarrow> memory" where
  "mm_publish name payload md m = (if mm_bus m then m\<lparr>mm_events := mm_events m @ [(name, payload, md)]\<rparr> else m)"

definition mm_cleanup :: "clock \<Rightarrow> memory \<Rightarrow> memory" where
  "mm_cleanup ck m =
     (let expired = map fst (filter (\<lambda>p. entry_expired ck (snd p)) (mm_data m))
      in m\<lparr>mm_data := fold AList.delete expired (mm_data m)\<rparr>)"

definition mm_get :: "clock \<Rightarrow> string \<Rightarrow> pyval \<Rightarrow> memory \<Rightarrow> memory \<times> pyval" where
  "mm_get ck k dflt m =
     (let m1 = mm_cleanup ck m
      in (m1, case map_of (mm_data m1) k of Some e \<Rightarrow> en_value e | None \<Rightarrow> dflt))"

text \<open>\<open>(datetime.now(timezone.utc) + timedelta(seconds=ttl)).isoformat()\<close>\<close>

definition ttl_expiry :: "clock \<Rightarrow> int option \<Rightarrow> exn + string option" where
  "ttl_expiry ck ttl =
     (case ttl of
        None \<Rightarrow> Inr None
      | Some n \<Rightarrow> and_then (plus_seconds (ck_now ck) (PInt n)) (\<lambda>t. Inr (Some (iso_utc t))))"

definition mm_set :: "clock \<Rightarrow> string \<Rightarrow> pyval \<Rightarrow> pydict \<Rightarrow> int option \<Rightarrow> memory \<Rightarrow> memory \<times> exn option" where
  "mm_set ck k v md ttl m =
     (let m1 = mm_cleanup ck m
      in case ttl_expiry ck ttl of
           Inl e \<Rightarrow> (m1, Some e)
         | Inr expire \<Rightarrow>
             let e = mk_entry ck k v md None expire
             in (mm_publish ''memory_saved'' [(''key'', PStr k), (''category'', PStr (mm_type m1))]
                   [(''entry'', PDict (entry_to_dict e))] (m1\<lparr>mm_data := AList.update k e (mm_data m1)\<rparr>), None))"

definition mm_delete :: "clock \<Rightarrow> string \<Rightarrow> memory \<Rightarrow> memory" where
  "mm_delete ck k m =
     (let m1 = mm_cleanup ck m
      in if dict_has (mm_data m1) k
         then mm_publish ''memory_deleted'' [(''key'', PStr k), (''category'', PStr (mm_type m1))] []
                (m1\<lparr>mm_data := AList.delete k (mm_data m1)\<rparr>)
         else m1)"

definition mm_clear :: "memory \<Rightarrow> memory" where
  "mm_clear m = mm_publish ''memory_cleared'' [(''category'', PStr (mm_type m))] [] (m\<lparr>mm_data := []\<rparr>)"

definition mm_get_entry :: "clock \<Rightarrow> string \<Rightarrow> memory \<Rightarrow> memory \<times> memory_entry option" where
  "mm_get_entry ck k m = (let m1 = mm_cleanup ck m in (m1, map_of (mm_data m1) k))"

definition entry_mentions :: "(pyval \<Rightarrow> string) \<Rightarrow> string \<Rightarrow> memory_entry \<Rightarrow> bool" where
  "entry_mentions shown q e \<longleftrightarrow>
     sublist q (str_lower (en_key e)) \<or> sublist q (str_lower (shown (en_value e)))
     \<or> list_ex (\<lambda>p. sublist q (str_lower (fst p)) \<or> sublist q (str_lower (shown (snd p)))) (en_metadata e)"

definition mm_search :: "(pyval \<Rightarrow> string) \<Rightarrow> clock \<Rightarrow> string \<Rightarrow> memory \<Rightarrow> memory \<times> memory_entry list" where
  "mm_search shown ck query m =
     (let m1 = mm_cleanup ck m; q = str_lower query
      in (m1, filter (entry_mentions shown q) (map snd (mm_data m1))))"

definition entry_passes :: "pydict \<Rightarrow> memory_entry \<Rightarrow> bool" where
  "entry_passes filters e \<longleftrightarrow>
     list_all (\<lambda>(k, v). case map_of (en_metadata e) k of None \<Rightarrow> False | Some w \<Rightarrow> py_eq w v) filters"

definition mm_filter :: "clock \<Rightarrow> pydict \<Rightarrow> memory \<Rightarrow> memory \<times> memory_entry list" where
  "mm_filter ck filters m =
     (let m1 = mm_cleanup ck m in (m1, filter (entry_passes filters) (map snd (mm_data m1))))"

definition mm_health :: "clock \<Rightarrow> memory \<Rightarrow> memory \<times> pydict" where
  "mm_health ck m =
     (let m1 = mm_cleanup ck m
      in (m1, [(''status'', PStr ''healthy''), (''total_entries'', PInt (int (length (mm_data m1))))]))"

definition mm_status :: "clock \<Rightarrow> memory \<Rightarrow> memory \<times> pydict" where
  "mm_status ck m =
     (let m1 = mm_cleanup ck m
      in (m1, [(''state'', PStr ''active''), (''total_entries'', PInt (int (length (mm_data m1)))),
               (''keys'', PList (map PStr (dict_keys (mm_data m1))))]))"

section \<open>The long-term memory on a storage\<close>

record 's long_memory =
  lt_storage :: 's
  lt_bus :: bool
  lt_events :: "(string \<times> pydict \<times> pydict) list"

definition lt_publish :: "string \<Rightarrow> pydict \<Rightarrow> pydict \<Rightarrow> 's long_memory \<Rightarrow> 's long_memory" where
  "lt_publish name payload md m = (if lt_bus m then m\<lparr>lt_events := lt_events m @ [(name, payload, md)]\<rparr> else m)"

text \<open>
  An expired entry is deleted from the storage. When that raises, the handler at the end turns the
  stored dictionary into the value of a fresh entry.
\<close>

definition lt_get_entry :: "'s storage_ops \<Rightarrow> clock \<Rightarrow> string \<Rightarrow> 's long_memory \<Rightarrow> 's long_memory \<times> memory_entry option" where
  "lt_get_entry ops ck k m =
     (case st_get ops k (lt_storage m) of
        None \<Rightarrow> (m, None)
      | Some PNone \<Rightarrow> (m, None)
      | Some data \<Rightarrow>
          let raw = mk_entry ck k data [] None None
          in case data of
               PDict d \<Rightarrow>
                 if \<not> dict_has d ''key'' \<or> \<not> dict_has d ''value'' then (m, Some raw)
                 else (case entry_from_dict ck d of
                         Inl _ \<Rightarrow> (m, Some raw)
                       | Inr e \<Rightarrow>
                           if entry_expired ck e
                           then (case st_delete ops k (lt_storage m) of
                                   (s, None) \<Rightarrow> (m\<lparr>lt_storage := s\<rparr>, None)
                                 | (s, Some _) \<Rightarrow> (m\<lparr>lt_storage := s\<rparr>, Some raw))
                           else (m, Some e))
             | _ \<Rightarrow> (m, Some raw))"

text \<open>
  The scan that removes expired entries. The entries it looks at are never expired, because
  \<open>get_entry\<close> has removed those that were, so nothing is left for the second loop of the code.
\<close>

definition lt_cleanup :: "'s storage_ops \<Rightarrow> clock \<Rightarrow> 's long_memory \<Rightarrow> 's long_memory" where
  "lt_cleanup ops ck m = fold (\<lambda>k m. fst (lt_get_entry ops ck k m)) (st_keys ops (lt_storage m)) m"

definition lt_get :: "'s storage_ops \<Rightarrow> clock \<Rightarrow> string \<Rightarrow> pyval \<Rightarrow> 's long_memory \<Rightarrow> 's long_memory \<times> pyval" where
  "lt_get ops ck k dflt m =
     (case lt_get_entry ops ck k (lt_cleanup ops ck m) of
        (m1, Some e) \<Rightarrow> (m1, en_value e)
      | (m1, None) \<Rightarrow> (m1, dflt))"

definition lt_set :: "'s storage_ops \<Rightarrow> clock \<Rightarrow> string \<Rightarrow> pyval \<Rightarrow> pydict \<Rightarrow> int option \<Rightarrow> 's long_memory \<Rightarrow> 's long_memory \<times> exn option" where
  "lt_set ops ck k v md ttl m =
     (let m1 = lt_cleanup ops ck m
      in case ttl_expiry ck ttl of
           Inl e \<Rightarrow> (m1, Some e)
         | Inr expire \<Rightarrow>
             let e = mk_entry ck k v md None expire
             in case st_set ops k (PDict (entry_to_dict e)) (lt_storage m1) of
                  (s, Some x) \<Rightarrow> (m1\<lparr>lt_storage := s\<rparr>, Some x)
                | (s, None) \<Rightarrow>
                    (lt_publish ''memory_saved'' [(''key'', PStr k), (''category'', PStr ''long-term'')]
                       [(''entry'', PDict (entry_to_dict e))] (m1\<lparr>lt_storage := s\<rparr>), None))"

definition lt_delete :: "'s storage_ops \<Rightarrow> clock \<Rightarrow> string \<Rightarrow> 's long_memory \<Rightarrow> 's long_memory \<times> exn option" where
  "lt_delete ops ck k m =
     (let m1 = lt_cleanup ops ck m
      in case st_delete ops k (lt_storage m1) of
           (s, Some x) \<Rightarrow> (m1\<lparr>lt_storage := s\<rparr>, Some x)
         | (s, None) \<Rightarrow>
             (lt_publish ''memory_deleted'' [(''key'', PStr k), (''category'', PStr ''long-term'')] [] (m1\<lparr>lt_storage := s\<rparr>), None))"

definition lt_clear :: "'s storage_ops \<Rightarrow> 's long_memory \<Rightarrow> 's long_memory \<times> exn option" where
  "lt_clear ops m =
     (case st_clear ops (lt_storage m) of
        (s, Some x) \<Rightarrow> (m\<lparr>lt_storage := s\<rparr>, Some x)
      | (s, None) \<Rightarrow> (lt_publish ''memory_cleared'' [(''category'', PStr ''long-term'')] [] (m\<lparr>lt_storage := s\<rparr>), None))"

text \<open>The loop of \<open>search\<close> and \<open>filter\<close> over the keys the storage has after the scan.\<close>

fun lt_collect ::
  "'s storage_ops \<Rightarrow> clock \<Rightarrow> (memory_entry \<Rightarrow> bool) \<Rightarrow> string list \<Rightarrow> 's long_memory \<Rightarrow> 's long_memory \<times> memory_entry list" where
  "lt_collect ops ck p [] m = (m, [])"
| "lt_collect ops ck p (k # ks) m =
     (case lt_get_entry ops ck k m of
        (m1, r) \<Rightarrow>
          (case lt_collect ops ck p ks m1 of
             (m2, es) \<Rightarrow> (m2, (case r of Some e \<Rightarrow> if p e then [e] else [] | None \<Rightarrow> []) @ es)))"

definition lt_search ::
  "(pyval \<Rightarrow> string) \<Rightarrow> 's storage_ops \<Rightarrow> clock \<Rightarrow> string \<Rightarrow> 's long_memory \<Rightarrow> 's long_memory \<times> memory_entry list" where
  "lt_search shown ops ck query m =
     (let m1 = lt_cleanup ops ck m
      in lt_collect ops ck (entry_mentions shown (str_lower query)) (st_keys ops (lt_storage m1)) m1)"

definition lt_filter ::
  "'s storage_ops \<Rightarrow> clock \<Rightarrow> pydict \<Rightarrow> 's long_memory \<Rightarrow> 's long_memory \<times> memory_entry list" where
  "lt_filter ops ck filters m =
     (let m1 = lt_cleanup ops ck m
      in lt_collect ops ck (entry_passes filters) (st_keys ops (lt_storage m1)) m1)"

definition lt_health :: "'s storage_ops \<Rightarrow> clock \<Rightarrow> 's long_memory \<Rightarrow> 's long_memory \<times> pydict" where
  "lt_health ops ck m =
     (let m1 = lt_cleanup ops ck m
      in (m1, [(''status'', PStr ''healthy''), (''total_entries'', PInt (int (length (st_keys ops (lt_storage m1)))))]))"

definition lt_status :: "'s storage_ops \<Rightarrow> clock \<Rightarrow> 's long_memory \<Rightarrow> 's long_memory \<times> pydict" where
  "lt_status ops ck m =
     (let m1 = lt_cleanup ops ck m
      in (m1, [(''state'', PStr ''active''), (''total_entries'', PInt (int (length (st_keys ops (lt_storage m1))))),
               (''keys'', PList (map PStr (st_keys ops (lt_storage m1))))]))"

section \<open>The memory over any storage\<close>

text \<open>What a stored value means at a time: whether it is an expired entry, and the value it gives.\<close>

definition stored_entry :: "clock \<Rightarrow> string \<Rightarrow> pyval \<Rightarrow> memory_entry" where
  "stored_entry ck k data =
     (case data of
        PDict d \<Rightarrow>
          if \<not> dict_has d ''key'' \<or> \<not> dict_has d ''value'' then mk_entry ck k data [] None None
          else (case entry_from_dict ck d of Inl _ \<Rightarrow> mk_entry ck k data [] None None | Inr e \<Rightarrow> e)
      | _ \<Rightarrow> mk_entry ck k data [] None None)"

definition live_entry :: "clock \<Rightarrow> string \<Rightarrow> pyval option \<Rightarrow> memory_entry option" where
  "live_entry ck k data =
     (case data of
        None \<Rightarrow> None
      | Some x \<Rightarrow> if x = PNone \<or> entry_expired ck (stored_entry ck k x) then None else Some (stored_entry ck k x))"

definition expired_data :: "clock \<Rightarrow> string \<Rightarrow> pyval option \<Rightarrow> bool" where
  "expired_data ck k data \<longleftrightarrow> (case data of None \<Rightarrow> False | Some x \<Rightarrow> entry_expired ck (stored_entry ck k x))"

lemma mk_entry_fresh [simp]: "\<not> entry_expired ck (mk_entry ck' k v md c None)"
  by (simp add: entry_expired_def mk_entry_def)

lemma entry_expired_mono:
  assumes "entry_expired ck (stored_entry ck k x)" "ck_now ck \<le> ck_now ck'" "ck_local ck \<le> ck_local ck'"
  shows "entry_expired ck' (stored_entry ck' k x)"
proof -
  have "en_expire_at (stored_entry ck k x) = en_expire_at (stored_entry ck' k x)"
    by (auto simp: stored_entry_def entry_from_dict_def and_then_def mk_entry_def split: pyval.splits option.splits sum.splits)
  then show ?thesis
    using assms by (auto simp: entry_expired_def split: option.splits if_splits)
qed

lemma stored_value_time: "en_value (stored_entry ck k x) = en_value (stored_entry ck' k x)"
  by (auto simp: stored_entry_def entry_from_dict_def and_then_def mk_entry_def split: pyval.splits option.splits sum.splits)

lemma stored_entry_dict [simp]:
  "en_created_at e \<noteq> [] \<Longrightarrow> stored_entry ck k (PDict (entry_to_dict e)) = e"
  by (simp add: stored_entry_def entry_roundtrip) (simp add: entry_to_dict_def)

lemma mk_entry_created [simp]: "en_created_at (mk_entry ck k v md c x) \<noteq> []"
  by (simp add: mk_entry_def split: option.split)

context kv_store
begin

lemma lt_get_entry_cases:
  assumes "wf (lt_storage m)" "lt_get_entry ops ck k m = (m', r)"
  shows "wf (lt_storage m') \<and> lt_bus m' = lt_bus m \<and> lt_events m' = lt_events m
     \<and> view (lt_storage m') = (if expired_data ck k (view (lt_storage m) k) then (view (lt_storage m))(k := None) else view (lt_storage m))
     \<and> (\<not> expired_data ck k (view (lt_storage m) k) \<longrightarrow> m' = m \<and> r = live_entry ck k (view (lt_storage m) k))"
proof (cases "view (lt_storage m) k")
  case None
  then show ?thesis
    using assms get_view [OF assms(1)] by (simp add: lt_get_entry_def expired_data_def live_entry_def)
next
  case (Some x)
  have g: "st_get ops k (lt_storage m) = Some x" using Some get_view [OF assms(1)] by simp
  show ?thesis
  proof (cases "entry_expired ck (stored_entry ck k x)")
    case True
    obtain s d where d: "st_delete ops k (lt_storage m) = (s, d)" by (meson surj_pair)
    have "m' = m\<lparr>lt_storage := s\<rparr>"
      using True assms(2) g d
      by (auto simp: lt_get_entry_def stored_entry_def Let_def split: pyval.splits if_splits sum.splits option.splits)
    then show ?thesis using delete_view [OF assms(1) d] True Some by (simp add: expired_data_def)
  next
    case False
    then have "m' = m" "r = live_entry ck k (Some x)"
      using assms(2) g
      by (auto simp: lt_get_entry_def stored_entry_def live_entry_def Let_def split: pyval.splits if_splits sum.splits option.splits)
    then show ?thesis using False Some assms(1) by (simp add: expired_data_def)
  qed
qed

lemma fold_get_entry:
  assumes "wf (lt_storage m)" "distinct ks"
  shows "wf (lt_storage (fold (\<lambda>k m. fst (lt_get_entry ops ck k m)) ks m))
     \<and> view (lt_storage (fold (\<lambda>k m. fst (lt_get_entry ops ck k m)) ks m))
       = (\<lambda>k. if k \<in> set ks \<and> expired_data ck k (view (lt_storage m) k) then None else view (lt_storage m) k)"
  using assms
proof (induction ks arbitrary: m)
  case (Cons k ks)
  obtain m1 r where g: "lt_get_entry ops ck k m = (m1, r)" by (meson surj_pair)
  note c = lt_get_entry_cases [OF Cons.prems(1) g]
  from Cons.IH [of m1] Cons.prems(2) c g show ?case
    by (auto simp: fun_eq_iff expired_data_def)
qed simp

lemma lt_cleanup_view:
  assumes "wf (lt_storage m)"
  shows "wf (lt_storage (lt_cleanup ops ck m))"
    "view (lt_storage (lt_cleanup ops ck m)) k = (if expired_data ck k (view (lt_storage m) k) then None else view (lt_storage m) k)"
proof -
  have "view (lt_storage m) k \<noteq> None" if "expired_data ck k (view (lt_storage m) k)"
    using that by (auto simp: expired_data_def split: option.splits)
  then have "expired_data ck k (view (lt_storage m) k) \<longrightarrow> k \<in> set (st_keys ops (lt_storage m))"
    using keys_view [OF assms] by auto
  then show "wf (lt_storage (lt_cleanup ops ck m))"
    "view (lt_storage (lt_cleanup ops ck m)) k = (if expired_data ck k (view (lt_storage m) k) then None else view (lt_storage m) k)"
    using fold_get_entry [OF assms conjunct1 [OF keys_view [OF assms]], of ck] by (simp_all add: lt_cleanup_def)
qed

lemma lt_get_value:
  assumes "wf (lt_storage m)"
  shows "snd (lt_get ops ck k dflt m)
    = (case live_entry ck k (view (lt_storage m) k) of Some e \<Rightarrow> en_value e | None \<Rightarrow> dflt)"
proof -
  note c = lt_cleanup_view [OF assms, of ck]
  obtain m1 r where g: "lt_get_entry ops ck k (lt_cleanup ops ck m) = (m1, r)" by (meson surj_pair)
  have fresh: "\<not> expired_data ck k (view (lt_storage (lt_cleanup ops ck m)) k)"
    using c(2) [of k] by (auto simp: expired_data_def)
  then have "r = live_entry ck k (view (lt_storage (lt_cleanup ops ck m)) k)"
    using lt_get_entry_cases [OF c(1) g] by simp
  also have "\<dots> = live_entry ck k (view (lt_storage m) k)"
    using c(2) [of k] by (auto simp: live_entry_def expired_data_def split: option.splits)
  finally show ?thesis using g by (simp add: lt_get_def split: option.split)
qed

lemma lt_set_view:
  assumes "wf (lt_storage m)" "lt_set ops ck k v md ttl m = (m', None)"
  obtains x where "ttl_expiry ck ttl = Inr x" "wf (lt_storage m')"
    "view (lt_storage m') = (view (lt_storage (lt_cleanup ops ck m)))(k \<mapsto> PDict (entry_to_dict (mk_entry ck k v md None x)))"
proof -
  obtain x where x: "ttl_expiry ck ttl = Inr x"
    using assms(2) by (cases "ttl_expiry ck ttl") (simp_all add: lt_set_def Let_def)
  define e where "e = mk_entry ck k v md None x"
  obtain s r where s: "st_set ops k (PDict (entry_to_dict e)) (lt_storage (lt_cleanup ops ck m)) = (s, r)" by (meson surj_pair)
  have "lt_storage m' = s"
    using assms(2) x s by (auto simp: lt_set_def Let_def e_def lt_publish_def split: option.splits if_splits)
  then show ?thesis
    using that [OF x] set_view [OF lt_cleanup_view(1) [OF assms(1)] s] by (simp add: e_def)
qed

text \<open>Reading after writing, at a later time.\<close>

lemma lt_get_after_set:
  assumes "wf (lt_storage m)" "lt_set ops ck k v md ttl m = (m', None)"
    "ck_now ck \<le> ck_now ck'" "ck_local ck \<le> ck_local ck'"
  shows "snd (lt_get ops ck' k' dflt m')
    = (if k' = k
       then if (case ttl of None \<Rightarrow> False | Some n \<Rightarrow> int (ck_now ck) + n * 1000000 < int (ck_now ck')) then dflt else v
       else snd (lt_get ops ck' k' dflt m))"
proof -
  obtain x where x: "ttl_expiry ck ttl = Inr x" "wf (lt_storage m')"
    "view (lt_storage m') = (view (lt_storage (lt_cleanup ops ck m)))(k \<mapsto> PDict (entry_to_dict (mk_entry ck k v md None x)))"
    using lt_set_view [OF assms(1,2)] .
  show ?thesis
  proof (cases "k' = k")
    case True
    have "entry_expired ck' (mk_entry ck k v md None x)
        \<longleftrightarrow> (case ttl of None \<Rightarrow> False | Some n \<Rightarrow> int (ck_now ck) + n * 1000000 < int (ck_now ck'))"
    proof (cases ttl)
      case None
      then show ?thesis using x(1) by (simp add: ttl_expiry_def)
    next
      case (Some n)
      then obtain t where t: "plus_seconds (ck_now ck) (PInt n) = Inr t" "x = Some (iso_utc t)"
        using x(1) by (auto simp: ttl_expiry_def and_then_Inr)
      have "int t = int (ck_now ck) + n * 1000000"
        using t(1) by (auto simp: plus_seconds_def seconds_micros_def split: if_splits)
      then show ?thesis
        using t(2) Some plus_seconds_range [OF t(1)] by (simp add: entry_expired_def mk_entry_def)
    qed
    then show ?thesis
      using lt_get_value [OF x(2), of ck' k'] x(3) True by (simp add: live_entry_def) (simp add: mk_entry_def)
  next
    case False
    have "live_entry ck' k' (view (lt_storage m') k') = live_entry ck' k' (view (lt_storage m) k')"
      using False x(3) lt_cleanup_view(2) [OF assms(1), of ck k'] entry_expired_mono [OF _ assms(3,4)]
      by (auto simp: live_entry_def expired_data_def split: option.splits)
    then show ?thesis using lt_get_value [OF x(2)] lt_get_value [OF assms(1)] False by simp
  qed
qed

end

section \<open>The two long-term memories agree\<close>

text \<open>The storage holds the rendered entries of the in-memory memory, in the same order.\<close>

definition same_entries :: "memory \<Rightarrow> mem_storage long_memory \<Rightarrow> bool" where
  "same_entries m lm \<longleftrightarrow>
     wf_dict (mm_data m) \<and> (\<forall>p \<in> set (mm_data m). en_created_at (snd p) \<noteq> []) \<and>
     ms_data (lt_storage lm) = map (\<lambda>p. (fst p, PDict (entry_to_dict (snd p)))) (mm_data m)"

lemma fold_delete_filter: "fold AList.delete ks d = filter (\<lambda>p. fst p \<notin> set ks) d"
  by (induction ks arbitrary: d) (auto simp: AList.delete_eq intro: filter_cong)

lemma mm_cleanup_filter:
  assumes "wf_dict (mm_data m)"
  shows "mm_data (mm_cleanup ck m) = filter (\<lambda>p. \<not> entry_expired ck (snd p)) (mm_data m)"
proof -
  have "fst p \<in> fst ` {q \<in> set (mm_data m). entry_expired ck (snd q)} \<longleftrightarrow> entry_expired ck (snd p)" if "p \<in> set (mm_data m)" for p
    using assms that by (auto simp: wf_dict_def distinct_map inj_on_def)
  then show ?thesis by (simp add: mm_cleanup_def Let_def fold_delete_filter cong: filter_cong)
qed

lemma mem_get_entry_data:
  assumes "map_of (ms_data (lt_storage m)) k = Some (PDict (entry_to_dict e))" "en_created_at e \<noteq> []"
  shows "lt_get_entry mem_ops ck k m =
    (if entry_expired ck e then (m\<lparr>lt_storage := ms_delete k (lt_storage m)\<rparr>, None) else (m, Some e))"
  using assms by (simp add: lt_get_entry_def mem_ops_def ms_get_def entry_roundtrip Let_def) (simp add: entry_to_dict_def)

lemma mem_fold_cleanup:
  assumes "wf_dict (ys @ xs)" "\<forall>p \<in> set xs. en_created_at (snd p) \<noteq> []"
    "ms_data (lt_storage lm) = map (\<lambda>p. (fst p, PDict (entry_to_dict (snd p)))) (ys @ xs)"
  shows "ms_data (lt_storage (fold (\<lambda>k m. fst (lt_get_entry mem_ops ck k m)) (map fst xs) lm))
    = map (\<lambda>p. (fst p, PDict (entry_to_dict (snd p)))) (ys @ filter (\<lambda>p. \<not> entry_expired ck (snd p)) xs)"
  using assms
proof (induction xs arbitrary: ys lm)
  case (Cons p xs)
  define f where "f = (\<lambda>p. (fst p :: string, PDict (entry_to_dict (snd p))))"
  have d: "ms_data (lt_storage lm) = map f ys @ f p # map f xs" using Cons.prems(3) by (simp add: f_def)
  have fresh: "fst p \<notin> fst ` set ys" "fst p \<notin> fst ` set xs" using Cons.prems(1) by (auto simp: wf_dict_def)
  have "map_of (map f ys) (fst p) = None" using fresh(1) by (simp add: map_of_eq_None_iff f_def image_image)
  then have look: "map_of (ms_data (lt_storage lm)) (fst p) = Some (PDict (entry_to_dict (snd p)))"
    unfolding d by (simp add: map_add_def f_def)
  have del: "AList.delete (fst p) (ms_data (lt_storage lm)) = map f (ys @ xs)"
  proof -
    have app: "AList.delete k (as @ bs) = AList.delete k as @ AList.delete k bs" for k :: string and as bs :: pydict
      by (induction as) auto
    have id: "AList.delete (fst p) (map f zs) = map f zs" if "fst p \<notin> fst ` set zs" for zs
      using that by (intro delete_id) (simp add: f_def image_image)
    show ?thesis unfolding d app using id [OF fresh(1)] id [OF fresh(2)] by (simp add: f_def)
  qed
  have has: "dict_has (ms_data (lt_storage lm)) (fst p)" unfolding d by (simp add: f_def)
  note g = mem_get_entry_data [OF look, of ck]
  show ?case
  proof (cases "entry_expired ck (snd p)")
    case True
    define lm1 where "lm1 = lm\<lparr>lt_storage := ms_delete (fst p) (lt_storage lm)\<rparr>"
    have "ms_data (lt_storage lm1) = map f (ys @ xs)"
      using del has by (simp add: lm1_def ms_delete_def del: set_map)
    then show ?thesis
      using Cons.IH [of ys lm1] Cons.prems g True by (auto simp: f_def lm1_def wf_dict_def)
  next
    case False
    then show ?thesis
      using Cons.IH [of "ys @ [p]" lm] Cons.prems g by simp
  qed
qed simp

lemma same_cleanup:
  assumes "same_entries m lm"
  shows "same_entries (mm_cleanup ck m) (lt_cleanup mem_ops ck lm)"
    "mm_data (mm_cleanup ck m) = filter (\<lambda>p. \<not> entry_expired ck (snd p)) (mm_data m)"
proof -
  have wf: "wf_dict (mm_data m)" using assms by (simp add: same_entries_def)
  note f = mm_cleanup_filter [OF wf, of ck]
  have "st_keys mem_ops (lt_storage lm) = map fst (mm_data m)"
    using assms by (simp add: same_entries_def mem_ops_def)
  then show "same_entries (mm_cleanup ck m) (lt_cleanup mem_ops ck lm)"
    using mem_fold_cleanup [of "[]" "mm_data m" lm ck] assms f wf_dict_filter [OF wf]
    by (auto simp: same_entries_def lt_cleanup_def)
  show "mm_data (mm_cleanup ck m) = filter (\<lambda>p. \<not> entry_expired ck (snd p)) (mm_data m)" by (rule f)
qed

lemma same_lookup:
  assumes "same_entries m lm"
  shows "map_of (ms_data (lt_storage lm)) k = map_option (\<lambda>e. PDict (entry_to_dict e)) (map_of (mm_data m) k)"
proof -
  have "map_of (map (\<lambda>p. (fst p, PDict (entry_to_dict (snd p)))) d) k = map_option (\<lambda>e. PDict (entry_to_dict e)) (map_of d k)" for d
    by (induction d) auto
  then show ?thesis using assms by (simp add: same_entries_def)
qed

lemma same_get_entry:
  assumes "same_entries m lm"
  shows "lt_get_entry mem_ops ck k (lt_cleanup mem_ops ck lm)
    = (lt_cleanup mem_ops ck lm, map_of (mm_data (mm_cleanup ck m)) k)"
proof (cases "map_of (mm_data (mm_cleanup ck m)) k")
  case None
  then show ?thesis
    using same_lookup [OF same_cleanup(1) [OF assms, of ck], of k] by (simp add: lt_get_entry_def mem_ops_def ms_get_def)
next
  case (Some e)
  then have "(k, e) \<in> set (mm_data (mm_cleanup ck m))" by (rule map_of_SomeD)
  then have e: "\<not> entry_expired ck e" "en_created_at e \<noteq> []"
    using same_cleanup [OF assms, of ck] assms unfolding same_entries_def by auto
  then show ?thesis
    using mem_get_entry_data [of "lt_cleanup mem_ops ck lm" k e ck] same_lookup [OF same_cleanup(1) [OF assms, of ck], of k] Some
    by simp
qed

lemma map_update_entries:
  "AList.update k (g e) (map (\<lambda>p. (fst p, g (snd p))) d) = map (\<lambda>p. (fst p, g (snd p))) (AList.update k e d)"
  by (induction d) auto

lemma map_delete_entries:
  "AList.delete k (map (\<lambda>p. (fst p, g (snd p))) d) = map (\<lambda>p. (fst p, g (snd p))) (AList.delete k d)"
  by (induction d) auto

datatype memory_op =
    MoGet string pyval
  | MoSet string pyval pydict "int option"
  | MoDelete string
  | MoClear
  | MoFilter pydict
  | MoStatus

datatype memory_result = MrValue pyval | MrDone "exn option" | MrEntries "memory_entry list" | MrDict pydict

fun mm_do :: "clock \<Rightarrow> memory_op \<Rightarrow> memory \<Rightarrow> memory \<times> memory_result" where
  "mm_do ck (MoGet k d) m = apsnd MrValue (mm_get ck k d m)"
| "mm_do ck (MoSet k v md ttl) m = apsnd MrDone (mm_set ck k v md ttl m)"
| "mm_do ck (MoDelete k) m = (mm_delete ck k m, MrDone None)"
| "mm_do ck MoClear m = (mm_clear m, MrDone None)"
| "mm_do ck (MoFilter f) m = apsnd MrEntries (mm_filter ck f m)"
| "mm_do ck MoStatus m = apsnd MrDict (mm_status ck m)"

fun lt_do :: "'s storage_ops \<Rightarrow> clock \<Rightarrow> memory_op \<Rightarrow> 's long_memory \<Rightarrow> 's long_memory \<times> memory_result" where
  "lt_do ops ck (MoGet k d) m = apsnd MrValue (lt_get ops ck k d m)"
| "lt_do ops ck (MoSet k v md ttl) m = apsnd MrDone (lt_set ops ck k v md ttl m)"
| "lt_do ops ck (MoDelete k) m = apsnd MrDone (lt_delete ops ck k m)"
| "lt_do ops ck MoClear m = apsnd MrDone (lt_clear ops m)"
| "lt_do ops ck (MoFilter f) m = apsnd MrEntries (lt_filter ops ck f m)"
| "lt_do ops ck MoStatus m = apsnd MrDict (lt_status ops ck m)"

fun run_results :: "(clock \<Rightarrow> memory_op \<Rightarrow> 'm \<Rightarrow> 'm \<times> memory_result) \<Rightarrow> (clock \<times> memory_op) list \<Rightarrow> 'm \<Rightarrow> memory_result list" where
  "run_results f [] m = []"
| "run_results f ((ck, op) # ops) m = (case f ck op m of (m1, r) \<Rightarrow> r # run_results f ops m1)"

lemma same_collect:
  assumes "same_entries m lm" "\<forall>q \<in> set (mm_data m). \<not> entry_expired ck (snd q)" "set ys \<subseteq> set (mm_data m)"
  shows "lt_collect mem_ops ck p (map fst ys) lm = (lm, filter p (map snd ys))"
  using assms(3)
proof (induction ys)
  case (Cons y ys)
  have "map_of (mm_data m) (fst y) = Some (snd y)"
    using assms(1) Cons.prems by (simp add: same_entries_def wf_dict_def)
  then have "lt_get_entry mem_ops ck (fst y) lm = (lm, Some (snd y))"
    using mem_get_entry_data [of lm "fst y" "snd y" ck] same_lookup [OF assms(1), of "fst y"] assms(1,2) Cons.prems
    by (simp add: same_entries_def)
  then show ?case using Cons by simp
qed simp

lemma same_frames [simp]:
  "mm_data (mm_publish n p d m) = mm_data m" "lt_storage (lt_publish n p d lm) = lt_storage lm"
  "same_entries (mm_publish n p d m) lm = same_entries m lm" "same_entries m (lt_publish n p d lm) = same_entries m lm"
  by (simp_all add: mm_publish_def lt_publish_def same_entries_def)

lemma same_set:
  assumes "same_entries m lm" "en_created_at e \<noteq> []"
  shows "same_entries (m\<lparr>mm_data := AList.update k e (mm_data m)\<rparr>)
    (lm\<lparr>lt_storage := ms_set k (PDict (entry_to_dict e)) (lt_storage lm)\<rparr>)"
  using assms map_update_entries [where g = "\<lambda>e. PDict (entry_to_dict e)" and k = k and e = e and d = "mm_data m"]
  by (auto simp: same_entries_def ms_set_def set_update_wf)

lemma same_delete:
  assumes "same_entries m lm"
  shows "same_entries (if dict_has (mm_data m) k then m\<lparr>mm_data := AList.delete k (mm_data m)\<rparr> else m)
    (lm\<lparr>lt_storage := ms_delete k (lt_storage lm)\<rparr>)"
proof -
  have "dict_has (ms_data (lt_storage lm)) k \<longleftrightarrow> dict_has (mm_data m) k"
    using assms by (simp add: same_entries_def image_image)
  then show ?thesis
    using assms map_delete_entries [where g = "\<lambda>e. PDict (entry_to_dict e)" and k = k and d = "mm_data m"]
    by (auto simp: same_entries_def ms_delete_def set_delete simp del: set_map)
qed

lemma same_step:
  assumes "same_entries m lm" "mm_do ck op m = (m', r)" "lt_do mem_ops ck op lm = (lm', r')"
  shows "same_entries m' lm' \<and> r' = r"
proof -
  note c = same_cleanup [OF assms(1), of ck]
  have live: "\<forall>q \<in> set (mm_data (mm_cleanup ck m)). \<not> entry_expired ck (snd q)" unfolding c(2) by simp
  have keys: "st_keys mem_ops (lt_storage (lt_cleanup mem_ops ck lm)) = map fst (mm_data (mm_cleanup ck m))"
    using c(1) by (simp add: same_entries_def mem_ops_def)
  show ?thesis
  proof (cases op)
    case (MoGet k d)
    then show ?thesis
      using assms(2,3) c(1) same_get_entry [OF assms(1), of ck k]
      by (auto simp: mm_get_def lt_get_def Let_def split: option.splits)
  next
    case (MoSet k v md ttl)
    show ?thesis
    proof (cases "ttl_expiry ck ttl")
      case (Inl e)
      then show ?thesis using MoSet assms(2,3) c(1) by (auto simp: mm_set_def lt_set_def Let_def)
    next
      case (Inr x)
      then show ?thesis
        using MoSet assms(2,3) same_set [OF c(1), of "mk_entry ck k v md None x" k]
        by (auto simp: mm_set_def lt_set_def Let_def mem_ops_def)
    qed
  next
    case (MoDelete k)
    then show ?thesis
      using assms(2,3) same_delete [OF c(1), of k]
      by (auto simp: mm_delete_def lt_delete_def Let_def mem_ops_def simp del: set_map split: if_splits)
  next
    case MoClear
    then show ?thesis
      using assms(2,3) by (auto simp: mm_clear_def lt_clear_def mem_ops_def ms_clear_def same_entries_def)
  next
    case (MoFilter f)
    then show ?thesis
      using assms(2,3) c(1) keys same_collect [OF c(1) live order_refl, of "entry_passes f"]
      by (auto simp: mm_filter_def lt_filter_def Let_def)
  next
    case MoStatus
    then show ?thesis using assms(2,3) c(1) keys by (auto simp: mm_status_def lt_status_def Let_def)
  qed
qed

lemma same_run:
  "same_entries m lm \<Longrightarrow> run_results (lt_do mem_ops) ops lm = run_results mm_do ops m"
proof (induction ops arbitrary: m lm)
  case (Cons o1 ops)
  obtain ck op where o1: "o1 = (ck, op)" by (cases o1)
  obtain m' r where 1: "mm_do ck op m = (m', r)" by (meson surj_pair)
  obtain lm' r' where 2: "lt_do mem_ops ck op lm = (lm', r')" by (meson surj_pair)
  show ?case using same_step [OF Cons.prems 1 2] Cons.IH [of m' lm'] 1 2 o1 by simp
qed simp

section \<open>Properties\<close>


text \<open>
  A value stored in the long-term memory of a JSON file is what \<open>get\<close> returns until more than
  its time to live has passed, and the default afterwards; other keys read as if it had not been stored.
  This holds also if the storage fails to write when it removes what has expired.
\<close>

theorem long_term_memory_ttl:
  assumes "wf_dict (js_data (lt_storage m))" "lt_set (json_ops env) ck k v md ttl m = (m', None)"
    "ck_now ck \<le> ck_now ck'" "ck_local ck \<le> ck_local ck'"
  shows "snd (lt_get (json_ops env') ck' k' dflt m')
    = (if k' = k
       then if (case ttl of None \<Rightarrow> False | Some n \<Rightarrow> int (ck_now ck) + n * 1000000 < int (ck_now ck')) then dflt else v
       else snd (lt_get (json_ops env') ck' k' dflt m))"
proof -
  have same: "snd (lt_get (json_ops env') ck' k' dflt x) = snd (lt_get (json_ops env) ck' k' dflt x)"
    if "wf_dict (js_data (lt_storage x))" for x
    using json.lt_get_value [OF that] by simp
  obtain x where "wf_dict (js_data (lt_storage m'))" using json.lt_set_view [OF assms(1,2)] .
  then show ?thesis
    using same assms(1) json.lt_get_after_set [OF assms, of k' dflt] by simp
qed

theorem long_term_memory_ttl_witness:
  "\<exists>m'. lt_set (json_ops plain_files) \<lparr> ck_now = 10, ck_local = 10 \<rparr> ''k'' (PInt 1) [] None
           \<lparr> lt_storage = js_init ''x.json'' FNone True, lt_bus = False, lt_events = [] \<rparr> = (m', None)
     \<and> snd (lt_get (json_ops plain_files) \<lparr> ck_now = 20, ck_local = 20 \<rparr> ''k'' PNone m') = PInt 1"
proof -
  define ck where "ck = \<lparr> ck_now = 10, ck_local = 10 \<rparr>"
  define m where "m = \<lparr> lt_storage = js_init ''x.json'' FNone True, lt_bus = False, lt_events = [] \<rparr>"
  have "snd (lt_set (json_ops plain_files) ck ''k'' (PInt 1) [] None m) = None"
    by (simp add: lt_set_def lt_cleanup_def json_ops_def m_def js_init_def js_load_def ttl_expiry_def js_set_def js_save_def
        plain_files_def Let_def entry_to_dict_def mk_entry_def opt_str_def)
  then obtain m' where s: "lt_set (json_ops plain_files) ck ''k'' (PInt 1) [] None m = (m', None)" by (metis prod.collapse)
  have wf: "wf_dict (js_data (lt_storage m))" by (simp add: m_def js_init_def js_load_def)
  have "snd (lt_get (json_ops plain_files) \<lparr> ck_now = 20, ck_local = 20 \<rparr> ''k'' PNone m') = PInt 1"
    using long_term_memory_ttl [OF wf s, of "\<lparr> ck_now = 20, ck_local = 20 \<rparr>" plain_files "''k''" PNone] by (simp add: ck_def)
  then show ?thesis using s by (auto simp: ck_def m_def)
qed

end
