(* ===== verification/ClientMemory.thy ===== *)
theory ClientMemory
  imports MemoryStore
begin

text \<open>
  The memories of a client (\<open>sdk/client.py\<close>): the short-term memory, the long-term memory that the
  constructor chooses by what the storage says of itself, and \<open>save_memory\<close> and \<open>get_memory\<close>,
  which the API gateway and the agent runtime go through.
\<close>

section \<open>The memories\<close>

text \<open>
  The client's storage is one object: a long-term memory built on it and everybody else who uses
  \<open>client.storage\<close> see the same entries. So the storage is kept in one place.
\<close>

datatype 's long_term = LT_In_Memory memory 's | LT_On_Storage "'s long_memory"

record 's client_memories =
  cm_short :: memory
  cm_long :: "'s long_term"

fun client_storage :: "'s long_term \<Rightarrow> 's" where
  "client_storage (LT_In_Memory m s) = s"
| "client_storage (LT_On_Storage m) = lt_storage m"

fun put_storage :: "'s \<Rightarrow> 's long_term \<Rightarrow> 's long_term" where
  "put_storage s (LT_In_Memory m s0) = LT_In_Memory m s"
| "put_storage s (LT_On_Storage m) = LT_On_Storage (m\<lparr>lt_storage := s\<rparr>)"

text \<open>\<open>self._storage.metadata.get("persistent", False)\<close> decides; neither memory gets the event bus.\<close>

definition client_memories :: "pydict \<Rightarrow> 's \<Rightarrow> 's client_memories" where
  "client_memories storage_metadata s =
     \<lparr> cm_short = short_term_init False,
       cm_long = (if truthy (case map_of storage_metadata ''persistent'' of Some v \<Rightarrow> v | None \<Rightarrow> PBool False)
                  then LT_On_Storage \<lparr> lt_storage = s, lt_bus = False, lt_events = [] \<rparr>
                  else LT_In_Memory (long_term_init False) s) \<rparr>"

section \<open>Saving and reading\<close>

fun long_set :: "'s storage_ops \<Rightarrow> clock \<Rightarrow> string \<Rightarrow> pyval \<Rightarrow> pydict \<Rightarrow> int option \<Rightarrow> 's long_term \<Rightarrow> 's long_term \<times> exn option" where
  "long_set ops ck k v md ttl (LT_In_Memory m s) = map_prod (\<lambda>m'. LT_In_Memory m' s) id (mm_set ck k v md ttl m)"
| "long_set ops ck k v md ttl (LT_On_Storage m) = map_prod LT_On_Storage id (lt_set ops ck k v md ttl m)"

fun long_get :: "'s storage_ops \<Rightarrow> clock \<Rightarrow> string \<Rightarrow> pyval \<Rightarrow> 's long_term \<Rightarrow> 's long_term \<times> pyval" where
  "long_get ops ck k dflt (LT_In_Memory m s) = map_prod (\<lambda>m'. LT_In_Memory m' s) id (mm_get ck k dflt m)"
| "long_get ops ck k dflt (LT_On_Storage m) = map_prod LT_On_Storage id (lt_get ops ck k dflt m)"

definition unsupported_category :: "string \<Rightarrow> exn" where
  "unsupported_category cat = Exn ValueErr (''Unsupported memory category: '' @ cat @ ''. Support: ''
     @ quoted ''short-term'' @ '' or '' @ quoted ''long-term'')"

text \<open>
  The metadata, with the identifier of the active context if the thread has a runtime context
  (\<open>context\<close>; a plain context has no identifier).
\<close>

definition context_metadata :: "string option \<Rightarrow> pydict option \<Rightarrow> pydict" where
  "context_metadata context md =
     (let merged = (case md of Some d \<Rightarrow> d | None \<Rightarrow> [])
      in case context of
           Some cid \<Rightarrow> if cid \<noteq> [] then AList.update ''context_id'' (PStr cid) merged else merged
         | None \<Rightarrow> merged)"

definition save_memory ::
  "'s storage_ops \<Rightarrow> clock \<Rightarrow> string option \<Rightarrow> string \<Rightarrow> pyval \<Rightarrow> string \<Rightarrow> pydict option \<Rightarrow> int option
     \<Rightarrow> 's client_memories \<Rightarrow> 's client_memories \<times> exn option" where
  "save_memory ops ck context k v cat md ttl m =
     (let merged = context_metadata context md
      in if cat = ''short-term''
         then map_prod (\<lambda>s. m\<lparr>cm_short := s\<rparr>) id (mm_set ck k v merged ttl (cm_short m))
         else if cat = ''long-term''
         then map_prod (\<lambda>l. m\<lparr>cm_long := l\<rparr>) id (long_set ops ck k v merged ttl (cm_long m))
         else (m, Some (unsupported_category cat)))"

definition get_memory ::
  "'s storage_ops \<Rightarrow> clock \<Rightarrow> string \<Rightarrow> pyval \<Rightarrow> string \<Rightarrow> 's client_memories \<Rightarrow> 's client_memories \<times> (exn + pyval)" where
  "get_memory ops ck k dflt cat m =
     (if cat = ''short-term'' then map_prod (\<lambda>s. m\<lparr>cm_short := s\<rparr>) Inr (mm_get ck k dflt (cm_short m))
      else if cat = ''long-term'' then map_prod (\<lambda>l. m\<lparr>cm_long := l\<rparr>) Inr (long_get ops ck k dflt (cm_long m))
      else (m, Inl (unsupported_category cat)))"

section \<open>What was saved is read\<close>

definition outlived :: "clock \<Rightarrow> int option \<Rightarrow> clock \<Rightarrow> bool" where
  "outlived ck ttl ck' \<longleftrightarrow> (case ttl of None \<Rightarrow> False | Some n \<Rightarrow> int (ck_now ck) + n * 1000000 < int (ck_now ck'))"

lemma map_of_filter_wf:
  "wf_dict d \<Longrightarrow> map_of (filter (\<lambda>p. P (snd p)) d) k = (case map_of d k of Some v \<Rightarrow> if P v then Some v else None | None \<Rightarrow> None)"
  by (induction d) (auto simp: wf_dict_def map_of_eq_None_iff split: option.splits intro: rev_image_eqI)

lemma mm_cleanup_data:
  assumes "wf_dict (mm_data m)"
  shows "mm_data (mm_cleanup ck m) = filter (\<lambda>p. \<not> entry_expired ck (snd p)) (mm_data m)"
proof -
  have "fst p \<in> set (map fst (filter (\<lambda>p. entry_expired ck (snd p)) (mm_data m))) \<longleftrightarrow> entry_expired ck (snd p)"
    if "p \<in> set (mm_data m)" for p
    using assms that by (cases p) (auto simp: wf_dict_def dest: eq_key_imp_eq_value intro: rev_image_eqI)
  then show ?thesis
    by (auto simp: mm_cleanup_def Let_def fold_delete_filter intro!: filter_cong)
qed

lemma mm_cleanup_frames [simp]: "mm_bus (mm_cleanup ck m) = mm_bus m" "mm_type (mm_cleanup ck m) = mm_type m"
  by (simp_all add: mm_cleanup_def Let_def)

lemma mm_publish_data [simp]: "mm_data (mm_publish n p d m) = mm_data m"
  by (simp add: mm_publish_def)

lemma mm_get_value:
  assumes "wf_dict (mm_data m)"
  shows "snd (mm_get ck k dflt m) = (case map_of (mm_data m) k of
     Some e \<Rightarrow> if entry_expired ck e then dflt else en_value e | None \<Rightarrow> dflt)"
  by (simp add: mm_get_def Let_def mm_cleanup_data [OF assms]
      map_of_filter_wf [OF assms, of "\<lambda>e. \<not> entry_expired ck e"] split: option.split)

lemma entry_outlived:
  assumes "ttl_expiry ck ttl = Inr x"
  shows "entry_expired ck' (mk_entry ck k v md None x) \<longleftrightarrow> outlived ck ttl ck'"
proof (cases ttl)
  case None
  then show ?thesis using assms by (simp add: ttl_expiry_def outlived_def)
next
  case (Some n)
  then obtain t where t: "plus_seconds (ck_now ck) (PInt n) = Inr t" "x = Some (iso_utc t)"
    using assms by (auto simp: ttl_expiry_def and_then_Inr)
  have "int t = int (ck_now ck) + n * 1000000"
    using t(1) by (auto simp: plus_seconds_def seconds_micros_def split: if_splits)
  then show ?thesis
    using t(2) Some plus_seconds_range [OF t(1)] by (simp add: entry_expired_def mk_entry_def outlived_def)
qed

lemma mm_set_data:
  assumes "mm_set ck k v md ttl m = (m', None)" "wf_dict (mm_data m)"
  obtains x where "ttl_expiry ck ttl = Inr x" "wf_dict (mm_data m')"
    "mm_data m' = AList.update k (mk_entry ck k v md None x) (filter (\<lambda>p. \<not> entry_expired ck (snd p)) (mm_data m))"
proof (cases "ttl_expiry ck ttl")
  case (Inl e)
  then show ?thesis using assms(1) by (simp add: mm_set_def Let_def)
next
  case (Inr x)
  then have "mm_data m' = AList.update k (mk_entry ck k v md None x) (filter (\<lambda>p. \<not> entry_expired ck (snd p)) (mm_data m))"
    using assms by (auto simp: mm_set_def Let_def mm_cleanup_data)
  with Inr show ?thesis using that assms(2) by (auto intro!: wf_dict_update wf_dict_filter)
qed

lemma expired_later:
  "entry_expired ck e \<Longrightarrow> ck_now ck \<le> ck_now ck' \<Longrightarrow> ck_local ck \<le> ck_local ck' \<Longrightarrow> entry_expired ck' e"
  by (auto simp: entry_expired_def split: option.splits if_splits prod.splits)

lemma mm_get_after_set:
  assumes "wf_dict (mm_data m)" "mm_set ck k v md ttl m = (m', None)"
    "ck_now ck \<le> ck_now ck'" "ck_local ck \<le> ck_local ck'"
  shows "snd (mm_get ck' k' dflt m')
    = (if k' = k then if outlived ck ttl ck' then dflt else v else snd (mm_get ck' k' dflt m))"
proof -
  obtain x where x: "ttl_expiry ck ttl = Inr x" "wf_dict (mm_data m')"
    "mm_data m' = AList.update k (mk_entry ck k v md None x) (filter (\<lambda>p. \<not> entry_expired ck (snd p)) (mm_data m))"
    using mm_set_data [OF assms(2,1)] .
  show ?thesis
  proof (cases "k' = k")
    case True
    then show ?thesis
      using mm_get_value [OF x(2), of ck' k' dflt] x(3) entry_outlived [OF x(1), of ck' k v md]
      by (simp add: map_of_update) (simp add: mk_entry_def)
  next
    case False
    then show ?thesis
      using mm_get_value [OF x(2), of ck' k' dflt] mm_get_value [OF assms(1), of ck' k' dflt] x(3)
        expired_later [OF _ assms(3,4)]
      by (auto simp: map_of_update map_of_filter_wf [OF assms(1), of "\<lambda>e. \<not> entry_expired ck e"] split: option.split)
  qed
qed

fun long_wf :: "('s \<Rightarrow> bool) \<Rightarrow> 's long_term \<Rightarrow> bool" where
  "long_wf ok (LT_In_Memory m s) \<longleftrightarrow> wf_dict (mm_data m) \<and> ok s"
| "long_wf ok (LT_On_Storage m) \<longleftrightarrow> ok (lt_storage m)"

definition memories_wf :: "('s \<Rightarrow> bool) \<Rightarrow> 's client_memories \<Rightarrow> bool" where
  "memories_wf ok m \<longleftrightarrow> wf_dict (mm_data (cm_short m)) \<and> long_wf ok (cm_long m)"

lemma memories_wf_init: "ok s \<Longrightarrow> memories_wf ok (client_memories md s)"
  by (auto simp: memories_wf_def client_memories_def short_term_init_def long_term_init_def mm_init_def)

context kv_store
begin

lemma long_get_after_set:
  assumes "long_wf wf l" "long_set ops ck k v md ttl l = (l', None)"
    "ck_now ck \<le> ck_now ck'" "ck_local ck \<le> ck_local ck'"
  shows "snd (long_get ops ck' k' dflt l')
    = (if k' = k then if outlived ck ttl ck' then dflt else v else snd (long_get ops ck' k' dflt l))"
proof (cases l)
  case (LT_In_Memory m s)
  obtain m' r where r: "mm_set ck k v md ttl m = (m', r)" by (meson surj_pair)
  then show ?thesis using assms LT_In_Memory mm_get_after_set [of m ck k v md ttl m' ck' k' dflt] by auto
next
  case (LT_On_Storage m)
  obtain m' r where r: "lt_set ops ck k v md ttl m = (m', r)" by (meson surj_pair)
  then show ?thesis
    using assms LT_On_Storage lt_get_after_set [of m ck k v md ttl m' ck' k' dflt] by (auto simp: outlived_def)
qed

lemma save_keeps_wf:
  assumes "memories_wf wf m" "save_memory ops ck context k v cat md ttl m = (m', None)"
  shows "memories_wf wf m'"
proof -
  have s: "wf_dict (mm_data x')" if "mm_set ck k v d ttl x = (x', None)" "wf_dict (mm_data x)" for x x' d
    using mm_set_data [OF that] by metis
  have l: "long_wf wf x'" if "long_set ops ck k v d ttl x = (x', None)" "long_wf wf x" for x x' d
  proof (cases x)
    case (LT_In_Memory m s0)
    obtain m' r where r: "mm_set ck k v d ttl m = (m', r)" by (meson surj_pair)
    then show ?thesis using that LT_In_Memory s [of d m m'] by auto
  next
    case (LT_On_Storage m)
    obtain m' r where r: "lt_set ops ck k v d ttl m = (m', r)" by (meson surj_pair)
    then have w: "r = None" "wf (lt_storage m)" "x' = LT_On_Storage m'" using that LT_On_Storage by auto
    obtain y where "wf (lt_storage m')" using lt_set_view [OF w(2) r [unfolded w(1)]] .
    then show ?thesis using w(3) by simp
  qed
  let ?md = "context_metadata context md"
  obtain x r where x: "mm_set ck k v ?md ttl (cm_short m) = (x, r)" by (meson surj_pair)
  obtain y q where y: "long_set ops ck k v ?md ttl (cm_long m) = (y, q)" by (meson surj_pair)
  have "wf_dict (mm_data (cm_short m))" "long_wf wf (cm_long m)" using assms(1) by (simp_all add: memories_wf_def)
  then show ?thesis
    using assms(2) s [of ?md "cm_short m" x] l [of ?md "cm_long m" y] x y
    by (auto simp: save_memory_def Let_def memories_wf_def split: if_splits)
qed

text \<open>The two categories are apart, and each returns what was last saved in it.\<close>

lemma get_after_save:
  assumes "memories_wf wf m" "save_memory ops ck context k v cat md ttl m = (m', None)"
    "ck_now ck \<le> ck_now ck'" "ck_local ck \<le> ck_local ck'"
  shows "snd (get_memory ops ck' k' dflt cat' m')
    = (if k' = k \<and> cat' = cat then Inr (if outlived ck ttl ck' then dflt else v) else snd (get_memory ops ck' k' dflt cat' m))"
proof -
  have c: "cat = ''short-term'' \<or> cat = ''long-term''"
    using assms(2) by (auto simp: save_memory_def Let_def split: if_splits)
  let ?md = "context_metadata context md"
  show ?thesis
  proof (cases "cat = ''short-term''")
    case True
    obtain s r where s: "mm_set ck k v ?md ttl (cm_short m) = (s, r)" by (meson surj_pair)
    then have "m' = m\<lparr>cm_short := s\<rparr>" "r = None" using assms(2) True by (auto simp: save_memory_def Let_def)
    then show ?thesis
      using mm_get_after_set [of "cm_short m" ck k v ?md ttl s ck' k' dflt] s assms(1,3,4) True
      by (auto simp: get_memory_def memories_wf_def)
  next
    case False
    obtain l r where l: "long_set ops ck k v ?md ttl (cm_long m) = (l, r)" by (meson surj_pair)
    then have "m' = m\<lparr>cm_long := l\<rparr>" "r = None" using assms(2) False c by (auto simp: save_memory_def Let_def)
    then show ?thesis
      using long_get_after_set [of "cm_long m" ck k v ?md ttl l ck' k' dflt] l assms(1,3,4) False c
      by (auto simp: get_memory_def memories_wf_def)
  qed
qed

end

lemma save_memory_ok:
  assumes "cat = ''short-term'' \<or> (cat = ''long-term'' \<and> (\<exists>l s. cm_long m = LT_In_Memory l s))"
  shows "\<exists>m'. save_memory ops ck context k v cat md None m = (m', None)"
  using assms by (auto simp: save_memory_def Let_def mm_set_def ttl_expiry_def)

end
