(* ===== verification/ExecResults.thy ===== *)
theory ExecResults
  imports ExecDrain ExecSystem ClientMemory
begin

text \<open>
  The execution engine and the client's memory together: \<open>_save_to_memory\<close> of \<open>execution/engine.py\<close> calls \<open>save_memory\<close> of
  \<open>sdk/client.py\<close>, and what a job came to is then read with \<open>get_memory\<close>.
\<close>

section \<open>What the worker saves\<close>

text \<open>The treatment of a job: cancelled, ended and saved, or queued again.\<close>

definition stopped :: "job \<Rightarrow> bool" where
  "stopped j \<longleftrightarrow> job_cancelled j \<or> job_status j = J_CANCELLED"

definition settled :: "nat \<Rightarrow> job \<Rightarrow> world \<Rightarrow> world \<Rightarrow> bool" where
  "settled ob j' w w' \<longleftrightarrow> w_heap w' = (w_heap w)(ob \<mapsto> j')
     \<and> (if job_status j' = J_QUEUED then w_queue w' = jq_put j' ob (w_queue w) \<and> w_saved w' = w_saved w
        else w_queue w' = w_queue w \<and> job_terminal (job_status j')
          \<and> w_saved w' = w_saved w @ (if job_status j' = J_CANCELLED then [] else [ExecWorld.memory_entry j']))"

lemma process_job_settled:
  assumes "w_heap w ob = Some j" "c_save_memory cfg"
  obtains j' where "settled ob j' w (process_job cfg run t1 t2 ob w)" "job_id j' = job_id j" "stopped j' = stopped j"
    "stopped j \<Longrightarrow> job_status j' = J_CANCELLED"
proof -
  consider (cancelled) "job_cancelled j \<or> job_status j = J_CANCELLED"
    | (success) v where "\<not> (job_cancelled j \<or> job_status j = J_CANCELLED)"
        "run (j\<lparr>job_status := J_RUNNING, job_started_at := Some t1\<rparr>) = Inr v"
    | (failure) e where "\<not> (job_cancelled j \<or> job_status j = J_CANCELLED)"
        "run (j\<lparr>job_status := J_RUNNING, job_started_at := Some t1\<rparr>) = Inl e"
    by (cases "run (j\<lparr>job_status := J_RUNNING, job_started_at := Some t1\<rparr>)") auto
  then show ?thesis
  proof cases
    case cancelled
    then have "settled ob (j\<lparr>job_status := J_CANCELLED, job_completed_at := Some t1\<rparr>) w (process_job cfg run t1 t2 ob w)"
      using assms by (auto simp: settled_def process_job_def worker_begin_def upd_job_def publish_job_def emit_def job_terminal_def)
    then show ?thesis by (rule that) (use cancelled in \<open>auto simp: stopped_def\<close>)
  next
    case (success v)
    then have "settled ob (j\<lparr>job_status := J_COMPLETED, job_started_at := Some t1, job_result := v, job_completed_at := Some t2\<rparr>)
        w (process_job cfg run t1 t2 ob w)"
      using assms by (auto simp: settled_def process_job_def worker_begin_def worker_finish_def save_to_memory_def job_terminal_def ExecWorld.memory_entry_def)
    then show ?thesis by (rule that) (use success in \<open>auto simp: stopped_def\<close>)
  next
    case (failure e)
    show ?thesis
    proof (cases "job_retry_count j < job_retries j")
      case True
      then have "settled ob (j\<lparr>job_started_at := Some t1, job_retry_count := job_retry_count j + 1, job_status := J_QUEUED\<rparr>)
          w (process_job cfg run t1 t2 ob w)"
        using assms failure by (auto simp: settled_def process_job_def worker_begin_def worker_finish_def enqueue_def)
      then show ?thesis by (rule that) (use failure in \<open>auto simp: stopped_def\<close>)
    next
      case False
      then have "settled ob (j\<lparr>job_status := J_FAILED, job_started_at := Some t1, job_error := Some (exn_msg e),
          job_completed_at := Some t2\<rparr>) w (process_job cfg run t1 t2 ob w)"
        using assms failure by (auto simp: settled_def process_job_def worker_begin_def worker_finish_def save_to_memory_def job_terminal_def ExecWorld.memory_entry_def)
      then show ?thesis by (rule that) (use failure in \<open>auto simp: stopped_def\<close>)
    qed
  qed
qed

text \<open>The last entry saved under a key\<close>

definition last_saved :: "world \<Rightarrow> string \<Rightarrow> pydict option" where
  "last_saved w k = map_of (rev (map (\<lambda>(k, v, md). (k, v)) (w_saved w))) k"

definition job_key :: "job \<Rightarrow> string" where
  "job_key j = fst (ExecWorld.memory_entry j)"

definition job_report :: "job \<Rightarrow> pydict" where
  "job_report j = fst (snd (ExecWorld.memory_entry j))"

definition reported :: "world \<Rightarrow> nat \<Rightarrow> bool" where
  "reported w ob \<longleftrightarrow> (\<exists>j. w_heap w ob = Some j
     \<and> (if stopped j then job_status j = J_CANCELLED
        else job_status j \<in> {J_COMPLETED, J_FAILED} \<and> last_saved w (job_key j) = Some (job_report j)))"

text \<open>What does not change: the identifier and whether the job was cancelled\<close>

definition same_job :: "world \<Rightarrow> world \<Rightarrow> nat \<Rightarrow> bool" where
  "same_job w w' ob \<longleftrightarrow> map_option (\<lambda>j. (job_id j, stopped j)) (w_heap w' ob) = map_option (\<lambda>j. (job_id j, stopped j)) (w_heap w ob)"

definition reported_or_queued :: "nat set \<Rightarrow> world \<Rightarrow> bool" where
  "reported_or_queued S w \<longleftrightarrow> ids_unique w \<and> (\<forall>ob \<in> set (jq_objs (w_queue w)). w_heap w ob \<noteq> None)
     \<and> (\<forall>ob \<in> S. ob \<in> set (jq_objs (w_queue w)) \<or> reported w ob)"

lemma job_key_eq [simp]: "job_key i = job_key j \<longleftrightarrow> job_id i = job_id j"
  by (simp add: job_key_def ExecWorld.memory_entry_def)

lemma reported_queue: "reported (w\<lparr>w_queue := q\<rparr>) x \<longleftrightarrow> reported w x"
  by (cases w) (simp add: reported_def last_saved_def)

lemma settled_reported:
  assumes "settled ob j' w w'" "w_heap w ob = Some j" "job_id j' = job_id j" "stopped j' = stopped j"
    "stopped j \<Longrightarrow> job_status j' = J_CANCELLED" "job_status j' \<noteq> J_QUEUED"
  shows "reported w' ob"
  using assms by (auto simp: settled_def reported_def last_saved_def job_key_def job_report_def split_beta job_terminal_def stopped_def)

lemma settled_keeps_reported:
  assumes "settled ob j' w w'" "w_heap w ob = Some j" "job_id j' = job_id j" "ids_unique w" "reported w x" "x \<noteq> ob"
  shows "reported w' x"
proof -
  obtain i where i: "w_heap w x = Some i"
      "if stopped i then job_status i = J_CANCELLED
       else job_status i \<in> {J_COMPLETED, J_FAILED} \<and> last_saved w (job_key i) = Some (job_report i)"
    using assms(5) by (auto simp: reported_def)
  have "job_id i \<noteq> job_id j'"
    using assms(2-4,6) i(1) by (auto simp: ids_unique_def known_def)
  then have "last_saved w' (job_key i) = last_saved w (job_key i)"
    using assms(1) by (auto simp: settled_def last_saved_def split_beta job_key_def ExecWorld.memory_entry_def split: if_splits)
  then show ?thesis using i assms(1,6) by (auto simp: reported_def settled_def)
qed

lemma settled_ids_unique:
  assumes "settled ob j' w w'" "w_heap w ob = Some j" "job_id j' = job_id j" "ids_unique w"
  shows "ids_unique w'"
proof -
  have "known w' k x \<longleftrightarrow> known w k x" for k x using assms(1-3) by (auto simp: settled_def known_def)
  then show ?thesis using assms(4) by (simp add: ids_unique_def)
qed

lemma reported_round:
  assumes "reported_or_queued S w" "c_save_memory cfg"
  shows "reported_or_queued S (worker_round cfg run t1 t2 w) \<and> same_job w (worker_round cfg run t1 t2 w) x"
proof (cases "jq_objs (w_queue w)")
  case Nil
  then show ?thesis using assms(1) by (simp add: worker_round_empty same_job_def)
next
  case (Cons ob obs)
  let ?w' = "worker_round cfg run t1 t2 w"
  obtain q where q: "jq_get_nowait (w_queue w) = Inr (ob, q)"
    using Cons by (auto simp: jq_get_nowait_def jq_objs_def split: list.splits)
  have obs: "jq_objs q = obs" using jq_objs_Cons(1) [OF q] Cons by simp
  let ?v = "w\<lparr>w_queue := q\<rparr>"
  obtain j where j: "w_heap ?v ob = Some j" using assms(1) Cons by (auto simp: reported_or_queued_def)
  obtain j' where j': "settled ob j' ?v ?w'" "job_id j' = job_id j" "stopped j' = stopped j" "stopped j \<Longrightarrow> job_status j' = J_CANCELLED"
    using process_job_settled [OF j assms(2), of run t1 t2] q by (auto simp: worker_round_def jq_get_def)
  have u: "ids_unique ?v" using assms(1) by (simp add: reported_or_queued_def ids_unique_def known_def)
  have objs: "set (jq_objs (w_queue ?w')) = (if job_status j' = J_QUEUED then insert ob (set obs) else set obs)"
    using j'(1) obs by (simp add: settled_def)
  have heap: "w_heap ?w' = (w_heap w)(ob \<mapsto> j')" using j'(1) by (simp add: settled_def)
  have same: "same_job w ?w' x" using heap j j'(2,3) by (auto simp: same_job_def)
  have "x \<in> set (jq_objs (w_queue ?w')) \<or> reported ?w' x" if x: "x \<in> S" for x
  proof (cases "x = ob")
    case True
    then show ?thesis using settled_reported [OF j'(1) j j'(2-4)] objs by auto
  next
    case False
    have "x \<in> set obs \<or> reported w x" using assms(1) x False Cons by (auto simp: reported_or_queued_def)
    moreover have "reported ?v x \<longleftrightarrow> reported w x" by (rule reported_queue)
    ultimately show ?thesis using settled_keeps_reported [OF j'(1) j j'(2) u _ False] objs by auto
  qed
  moreover have "y \<in> set (jq_objs (w_queue ?w')) \<Longrightarrow> w_heap ?w' y \<noteq> None" for y
    using objs heap assms(1) Cons by (auto simp: reported_or_queued_def split: if_splits)
  ultimately show ?thesis
    using settled_ids_unique [OF j'(1) j j'(2) u] same by (auto simp: reported_or_queued_def)
qed

lemma reported_rounds:
  "reported_or_queued S w \<Longrightarrow> c_save_memory cfg
     \<Longrightarrow> reported_or_queued S (worker_rounds cfg rs w) \<and> same_job w (worker_rounds cfg rs w) x"
proof (induction rs arbitrary: w)
  case (Cons r rs)
  obtain run t1 t2 where r: "r = (run, t1, t2)" by (cases r)
  note round = reported_round [OF Cons.prems, of run t1 t2 x]
  show ?case
    using Cons.IH [OF conjunct1 [OF round] Cons.prems(2)] conjunct2 [OF round] by (simp add: worker_rounds_def r same_job_def)
qed (simp add: worker_rounds_def same_job_def)

section \<open>What the memory holds\<close>

text \<open>
  The calls of \<open>save_memory\<close> that the engine makes, with the clock and the thread's context at each call. No lifetime is
  given, so the entries do not expire.
\<close>

type_synonym saved_entry = "string \<times> pydict \<times> pydict"

definition remember_entry :: "'s storage_ops \<Rightarrow> (clock \<times> string option) \<times> saved_entry \<Rightarrow> 's client_memories \<Rightarrow> 's client_memories" where
  "remember_entry ops e m =
     (case e of ((ck, ctx), (k, v, md)) \<Rightarrow> fst (save_memory ops ck ctx k (PDict v) ''short-term'' (Some md) None m))"

definition remembered :: "'s storage_ops \<Rightarrow> (clock \<times> string option) list \<Rightarrow> saved_entry list \<Rightarrow> 's client_memories \<Rightarrow> 's client_memories" where
  "remembered ops cks saved m = fold (remember_entry ops) (zip cks saved) m"

definition permanent :: "string \<Rightarrow> pyval \<Rightarrow> memory \<Rightarrow> bool" where
  "permanent k v s \<longleftrightarrow> (\<exists>e. map_of (mm_data s) k = Some e \<and> en_value e = v \<and> en_expire_at e = None)"

lemma unlimited_not_expired: "en_expire_at e = None \<Longrightarrow> \<not> entry_expired ck e"
  by (simp add: entry_expired_def)

lemma remember_entry_data:
  assumes "wf_dict (mm_data (cm_short m))"
  shows "wf_dict (mm_data (cm_short (remember_entry ops (cks, (k, v, md)) m)))"
    and "permanent k (PDict v) (cm_short (remember_entry ops (cks, (k, v, md)) m))"
    and "k' \<noteq> k \<Longrightarrow> permanent k' x (cm_short m) \<Longrightarrow> permanent k' x (cm_short (remember_entry ops (cks, (k, v, md)) m))"
proof -
  obtain ck ctx where cks: "cks = (ck, ctx)" by fastforce
  let ?md = "context_metadata ctx (Some md)"
  have t: "ttl_expiry ck None = Inr None" by (simp add: ttl_expiry_def)
  obtain s where s: "mm_set ck k (PDict v) ?md None (cm_short m) = (s, None)"
    by (simp add: mm_set_def Let_def t)
  have r: "cm_short (remember_entry ops (cks, (k, v, md)) m) = s"
    by (simp add: remember_entry_def cks save_memory_def Let_def s)
  obtain x' where d: "ttl_expiry ck None = Inr x'" "wf_dict (mm_data s)"
      "mm_data s = AList.update k (mk_entry ck k (PDict v) ?md None x') (filter (\<lambda>p. \<not> entry_expired ck (snd p)) (mm_data (cm_short m)))"
    using mm_set_data [OF s assms] .
  show "wf_dict (mm_data (cm_short (remember_entry ops (cks, (k, v, md)) m)))" using d(2) r by simp
  show "permanent k (PDict v) (cm_short (remember_entry ops (cks, (k, v, md)) m))"
    using d(1) by (simp add: r permanent_def d(3) map_of_update t) (simp add: mk_entry_def)
  show "k' \<noteq> k \<Longrightarrow> permanent k' x (cm_short m) \<Longrightarrow> permanent k' x (cm_short (remember_entry ops (cks, (k, v, md)) m))"
    by (auto simp: r permanent_def d(3) map_of_update map_of_filter_wf [OF assms, of "\<lambda>e. \<not> entry_expired ck e"] unlimited_not_expired)
qed

lemma last_entry:
  "map_of (rev (map (\<lambda>(k, v, md). (k, v)) saved)) k = Some v
     \<Longrightarrow> \<exists>pre md post. saved = pre @ (k, v, md) # post \<and> (\<forall>(k', v', md) \<in> set post. k' \<noteq> k)"
proof (induction saved rule: rev_induct)
  case (snoc e saved)
  obtain k' v' md' where e: "e = (k', v', md')" by (metis prod.exhaust)
  show ?case
  proof (cases "k' = k")
    case True
    then have "saved @ [e] = saved @ (k, v, md') # []" using snoc.prems e by simp
    then show ?thesis by (intro exI [of _ saved] exI [of _ md'] exI [of _ "[]"]) simp
  next
    case False
    then have "map_of (rev (map (\<lambda>(k, v, md). (k, v)) saved)) k = Some v" using snoc.prems e by simp
    from snoc.IH [OF this] obtain pre md post
      where p: "saved = pre @ (k, v, md) # post" "\<forall>(k', v', md) \<in> set post. k' \<noteq> k" by blast
    then have "saved @ [e] = pre @ (k, v, md) # (post @ [e])" by simp
    moreover have "\<forall>(k', v', md) \<in> set (post @ [e]). k' \<noteq> k" using p(2) e False by simp
    ultimately show ?thesis by blast
  qed
qed simp

lemma remembered_last:
  assumes "wf_dict (mm_data (cm_short m))" "length saved \<le> length cks"
    "map_of (rev (map (\<lambda>(k, v, md). (k, v)) saved)) k = Some v"
  shows "wf_dict (mm_data (cm_short (remembered ops cks saved m))) \<and> permanent k (PDict v) (cm_short (remembered ops cks saved m))"
proof -
  have wf: "wf_dict (mm_data (cm_short (fold (remember_entry ops) es m)))" if "wf_dict (mm_data (cm_short m))" for es m
    using that by (induction es arbitrary: m) (auto simp: remember_entry_data(1))
  have keep: "permanent k x (cm_short (fold (remember_entry ops) es m))"
    if "wf_dict (mm_data (cm_short m))" "permanent k x (cm_short m)" "\<forall>(cks, k', v', md) \<in> set es. k' \<noteq> k" for es m x
    using that by (induction es arbitrary: m) (auto simp: remember_entry_data)
  obtain pre md post where p: "saved = pre @ (k, v, md) # post" "\<forall>(k', v', md) \<in> set post. k' \<noteq> k"
    using last_entry [OF assms(3)] by blast
  define c1 c2 where "c1 = take (length pre) cks" and "c2 = drop (length pre) cks"
  have c: "cks = c1 @ c2" "length c1 = length pre" "c2 \<noteq> []" using assms(2) by (simp_all add: p(1) c1_def c2_def)
  then obtain a c3 where c3: "c2 = a # c3" by (cases c2) simp_all
  have "zip cks saved = zip c1 pre @ (a, (k, v, md)) # zip c3 post"
    using c(2) by (simp add: p(1) c(1) c3)
  moreover have "\<forall>(a, k', v', md) \<in> set (zip c3 post). k' \<noteq> k"
    using p(2) by (fastforce dest: set_zip_rightD)
  ultimately show ?thesis
    unfolding remembered_def using wf [OF assms(1)] by (simp add: wf keep remember_entry_data)
qed

lemma permanent_get:
  "permanent k v (cm_short m) \<Longrightarrow> wf_dict (mm_data (cm_short m)) \<Longrightarrow> snd (get_memory ops ck k dflt ''short-term'' m) = Inr v"
  by (auto simp: get_memory_def permanent_def mm_get_value entry_expired_def)

section \<open>Every queued job ends and is remembered\<close>

lemma drained_and_remembered:
  assumes "world_ok w" "c_save_memory cfg" "work w \<le> length rs" "wf_dict (mm_data (cm_short m))"
    "length (w_saved (worker_rounds cfg rs w)) \<le> length cks"
  shows "jq_objs (w_queue (worker_rounds cfg rs w)) = []
     \<and> (\<forall>ob \<in> set (jq_objs (w_queue w)). \<exists>i j. w_heap w ob = Some i
          \<and> w_heap (worker_rounds cfg rs w) ob = Some j \<and> job_id j = job_id i
          \<and> (if stopped i then job_status j = J_CANCELLED
             else job_status j \<in> {J_COMPLETED, J_FAILED}
               \<and> (\<forall>ck dflt. snd (get_memory ops ck (''job_execution:'' @ job_id i) dflt ''short-term''
                      (remembered ops cks (w_saved (worker_rounds cfg rs w)) m))
                    = Inr (PDict [(''result'', job_result j), (''error'', opt_str (job_error j)),
                                  (''status'', PStr (job_status_value (job_status j)))]))))"
    (is "_ \<and> (\<forall>ob \<in> _. ?ends ob)")
proof -
  let ?w' = "worker_rounds cfg rs w"
  have q: "\<forall>ob \<in> set (jq_objs (w_queue w)). w_heap w ob \<noteq> None" "ids_unique w" using assms(1) by (auto simp: world_ok_def)
  have e: "jq_objs (w_queue ?w') = []" using worker_loop_drains_queue [OF q(1) assms(3)] by blast
  have "reported_or_queued (set (jq_objs (w_queue w))) w"
    using q by (simp add: reported_or_queued_def)
  note rounds = reported_rounds [OF this assms(2), of rs]
  have "?ends ob" if ob: "ob \<in> set (jq_objs (w_queue w))" for ob
  proof -
    obtain j where j: "w_heap ?w' ob = Some j"
        "if stopped j then job_status j = J_CANCELLED
         else job_status j \<in> {J_COMPLETED, J_FAILED} \<and> last_saved ?w' (job_key j) = Some (job_report j)"
      using rounds ob e by (auto simp: reported_or_queued_def reported_def)
    obtain i where i: "w_heap w ob = Some i" using q(1) ob by auto
    have same: "job_id j = job_id i" "stopped j = stopped i"
      using conjunct2 [OF rounds, of ob] i j(1) by (simp_all add: same_job_def)
    show ?thesis
    proof (cases "stopped i")
      case False
      then have "last_saved ?w' (job_key j) = Some (job_report j)" using j(2) same by simp
      from remembered_last [OF assms(4,5) this [unfolded last_saved_def], of ops]
      have "snd (get_memory ops ck (job_key j) dflt ''short-term'' (remembered ops cks (w_saved ?w') m)) = Inr (PDict (job_report j))" for ck dflt
        by (intro permanent_get) auto
      then show ?thesis using i j False same by (auto simp: job_key_def job_report_def ExecWorld.memory_entry_def)
    qed (use i j same in auto)
  qed
  with e show ?thesis by blast
qed

text \<open>
  \<open>C6\<close>. From every state the system can reach, a worker that runs on alone empties the queue, after as many rounds as there
  are entries and retries left, whatever the targets return or raise. Every job that was in the queue has then ended: it
  is cancelled if it had been cancelled, and otherwise it is completed or failed and \<open>get_memory\<close> gives, at any later
  time, its result, its error and its status under its key in the short-term memory.
\<close>
theorem job_results_remembered:
  assumes "sys_reachable cfg s" "c_execution cfg" "c_save_memory cfg" "work (sy_w s) \<le> length rs" "wf_dict (mm_data (cm_short m))"
    "length (w_saved (worker_rounds cfg rs (sy_w s))) \<le> length cks"
  shows "jq_objs (w_queue (worker_rounds cfg rs (sy_w s))) = []
     \<and> (\<forall>ob \<in> set (jq_objs (w_queue (sy_w s))). \<exists>i j. w_heap (sy_w s) ob = Some i
          \<and> w_heap (worker_rounds cfg rs (sy_w s)) ob = Some j \<and> job_id j = job_id i
          \<and> (if stopped i then job_status j = J_CANCELLED
             else job_status j \<in> {J_COMPLETED, J_FAILED}
               \<and> (\<forall>ck dflt. snd (get_memory ops ck (''job_execution:'' @ job_id i) dflt ''short-term''
                      (remembered ops cks (w_saved (worker_rounds cfg rs (sy_w s))) m))
                    = Inr (PDict [(''result'', job_result j), (''error'', opt_str (job_error j)),
                                  (''status'', PStr (job_status_value (job_status j)))]))))"
  using drained_and_remembered [OF sys_ok_parts(1) [OF sys_ok_reachable [OF assms(1,2)]] assms(3-6)] .

text \<open>The demo's job, whose target returns 5, and the memory of a client whose storage is in memory\<close>

definition demo_clock :: clock where
  "demo_clock = \<lparr> ck_now = 0, ck_local = 0 \<rparr>"

theorem job_results_remembered_witness:
  "\<exists>j. w_heap (worker_rounds full_client (replicate 2 (\<lambda>_. Inr (PInt 5), 0, 0)) (sy_w demo_sys)) 0 = Some j
     \<and> job_status j \<in> {J_COMPLETED, J_FAILED}
     \<and> snd (get_memory mem_ops demo_clock (''job_execution:'' @ job_id j) PNone ''short-term''
             (remembered mem_ops
               (replicate (length (w_saved (worker_rounds full_client (replicate 2 (\<lambda>_. Inr (PInt 5), 0, 0)) (sy_w demo_sys)))) (demo_clock, None))
               (w_saved (worker_rounds full_client (replicate 2 (\<lambda>_. Inr (PInt 5), 0, 0)) (sy_w demo_sys))) (client_memories [] ms_init)))
           = Inr (PDict [(''result'', job_result j), (''error'', opt_str (job_error j)), (''status'', PStr (job_status_value (job_status j)))])"
proof -
  have d: "sy_w demo_sys = demo_queue_world" by (simp add: demo_sys_def demo_queue_world_def sys_init_def)
  obtain i where i: "w_heap demo_queue_world 0 = Some i" "job_retry_count i = 0" "job_retries i = 1" "\<not> stopped i"
    using demo_queue_world_eqs(2) by (auto simp: stopped_def)
  have k: "work (sy_w demo_sys) \<le> length (replicate 2 (\<lambda>_ :: job. Inr (PInt 5) :: exn + pyval, 0 :: real, 0 :: real))"
    by (simp add: d demo_queue_world_eqs(1) work_def retries_left_def jq_size_objs i)
  have m: "wf_dict (mm_data (cm_short (client_memories [] ms_init)))"
    by (simp add: client_memories_def short_term_init_def mm_init_def)
  have q: "0 \<in> set (jq_objs (w_queue (sy_w demo_sys)))" by (simp add: d demo_queue_world_eqs(1))
  have c: "c_execution full_client" "c_save_memory full_client" by (simp_all add: full_client_def)
  show ?thesis
    using bspec [OF conjunct2 [OF job_results_remembered [OF demo_sys_reachable c k m, of _ mem_ops]] q,
        of "replicate (length (w_saved (worker_rounds full_client (replicate 2 (\<lambda>_. Inr (PInt 5), 0, 0)) (sy_w demo_sys)))) (demo_clock, None)"] i
    by (auto simp: d)
qed

end
