(* ===== verification/CronTime.thy ===== *)
theory CronTime
  imports PyDateTime
begin

text \<open>
  \<open>parse_cron_field\<close> and \<open>get_next_cron_time\<close> of \<open>yasin_core/execution/scheduler.py\<close>: the values a
  cron field stands for, and the search for the next matching minute.
\<close>

section \<open>Fields\<close>

text \<open>\<open>range(a, b, s)\<close>\<close>

definition py_range :: "int \<Rightarrow> int \<Rightarrow> int \<Rightarrow> exn + int list" where
  "py_range a b s =
     (if s = 0 then Inl (Exn ValueErr ''range() arg 3 must not be zero'')
      else Inr (map (\<lambda>i. a + int i * s)
                  [0 ..< nat (if s > 0 then (b - a + s - 1) div s else (a - b - s - 1) div (- s))]))"

definition unpack_err :: "string list \<Rightarrow> exn" where
  "unpack_err ws = Exn ValueErr (if length ws < 2 then ''not enough values to unpack'' else ''too many values to unpack (expected 2)'')"

text \<open>The step of a part: the text before the \<open>/\<close>, and the step.\<close>

definition split_step :: "string \<Rightarrow> exn + string \<times> int" where
  "split_step part =
     (if CHR ''/'' \<in> set part
      then case str_split (CHR ''/'') part of
             [p, st] \<Rightarrow> (case parse_int st of Inl e \<Rightarrow> Inl e | Inr s \<Rightarrow> Inr (p, s))
           | ws \<Rightarrow> Inl (unpack_err ws)
      else Inr (part, 1))"

definition part_bounds :: "string \<Rightarrow> int \<Rightarrow> int \<Rightarrow> exn + int \<times> int" where
  "part_bounds part min_val max_val =
     (if part = ''*'' then Inr (min_val, max_val)
      else if CHR ''-'' \<in> set part
      then case str_split (CHR ''-'') part of
             [a, b] \<Rightarrow>
               (case parse_int a of Inl e \<Rightarrow> Inl e
                | Inr x \<Rightarrow> (case parse_int b of Inl e \<Rightarrow> Inl e | Inr y \<Rightarrow> Inr (x, y)))
           | ws \<Rightarrow> Inl (unpack_err ws)
      else case parse_int part of Inl e \<Rightarrow> Inl e | Inr x \<Rightarrow> Inr (x, x))"

definition cron_part :: "string \<Rightarrow> int \<Rightarrow> int \<Rightarrow> exn + int list" where
  "cron_part part min_val max_val =
     (case split_step part of
        Inl e \<Rightarrow> Inl e
      | Inr (p, step) \<Rightarrow>
          (case part_bounds p min_val max_val of
             Inl e \<Rightarrow> Inl e
           | Inr (a, b) \<Rightarrow> py_range a (b + 1) step))"

fun cron_parts :: "string list \<Rightarrow> int \<Rightarrow> int \<Rightarrow> int list \<Rightarrow> exn + int list" where
  "cron_parts [] min_val max_val acc = Inr acc"
| "cron_parts (p # ps) min_val max_val acc =
     (case cron_part p min_val max_val of
        Inl e \<Rightarrow> Inl e
      | Inr vs \<Rightarrow> cron_parts ps min_val max_val (acc @ vs))"

text \<open>The values as a list that stands for the source's set.\<close>

definition parse_cron_field :: "string \<Rightarrow> int \<Rightarrow> int \<Rightarrow> exn + int list" where
  "parse_cron_field field min_val max_val =
     (if field = ''*'' then py_range min_val (max_val + 1) 1
      else cron_parts (str_split (CHR '','') field) min_val max_val [])"

section \<open>The search\<close>

record cron_spec =
  cs_minutes :: "int list"
  cs_hours :: "int list"
  cs_days :: "int list"
  cs_months :: "int list"
  cs_weekdays :: "int list"

definition parse_cron :: "string \<Rightarrow> exn + cron_spec" where
  "parse_cron expr =
     (case str_words expr of
        [f0, f1, f2, f3, f4] \<Rightarrow>
          (case parse_cron_field f0 0 59 of Inl e \<Rightarrow> Inl e | Inr mi \<Rightarrow>
          (case parse_cron_field f1 0 23 of Inl e \<Rightarrow> Inl e | Inr h \<Rightarrow>
          (case parse_cron_field f2 1 31 of Inl e \<Rightarrow> Inl e | Inr d \<Rightarrow>
          (case parse_cron_field f3 1 12 of Inl e \<Rightarrow> Inl e | Inr mo \<Rightarrow>
          (case parse_cron_field f4 0 7 of Inl e \<Rightarrow> Inl e | Inr wd \<Rightarrow>
             Inr \<lparr> cs_minutes = mi, cs_hours = h, cs_days = d, cs_months = mo,
                   cs_weekdays = (if 7 \<in> set wd then 0 # wd else wd) \<rparr>)))))
      | _ \<Rightarrow> Inl (Exn ValueErr ''Invalid cron expression. Must have exactly 5 fields.''))"

definition cron_matches :: "cron_spec \<Rightarrow> datetime \<Rightarrow> bool" where
  "cron_matches c t \<longleftrightarrow>
     int (dt_minute t) \<in> set (cs_minutes c) \<and> int (dt_hour t) \<in> set (cs_hours c)
     \<and> int (dt_day t) \<in> set (cs_days c) \<and> int (dt_month t) \<in> set (cs_months c)
     \<and> int ((weekday t + 1) mod 7) \<in> set (cs_weekdays c)"

definition no_run_time :: exn where
  "no_run_time = Exn ValueErr ''Could not determine next run time for cron expression within search window.''"

primrec cron_search :: "nat \<Rightarrow> cron_spec \<Rightarrow> datetime \<Rightarrow> exn + datetime" where
  "cron_search 0 c t = Inl no_run_time"
| "cron_search (Suc n) c t =
     (if cron_matches c t then Inr t
      else case plus_minute t of Inl e \<Rightarrow> Inl e | Inr t' \<Rightarrow> cron_search n c t')"

definition search_window :: nat where
  "search_window = 100000"

definition get_next_cron_time :: "string \<Rightarrow> datetime \<Rightarrow> exn + datetime" where
  "get_next_cron_time expr base =
     (case plus_minute (truncate_minute base) of
        Inl e \<Rightarrow> Inl e
      | Inr current \<Rightarrow>
          (case parse_cron expr of
             Inl e \<Rightarrow> Inl e
           | Inr c \<Rightarrow> cron_search search_window c current))"

section \<open>The values of a field\<close>

lemma le_div_mult: "0 < s \<Longrightarrow> k \<le> d div s \<longleftrightarrow> k * s \<le> d" for s :: int
proof
  assume s: "0 < s" and "k \<le> d div s"
  then have "k * s \<le> d div s * s" by (intro mult_right_mono) simp_all
  also have "\<dots> \<le> d" using s by (metis div_mult_mod_eq le_add_same_cancel1 pos_mod_sign)
  finally show "k * s \<le> d" .
next
  assume s: "0 < s" and "k * s \<le> d"
  then have "k * s div s \<le> d div s" by (intro zdiv_mono1)
  then show "k \<le> d div s" using s by simp
qed

lemma py_range_step:
  assumes "0 < s"
  shows "\<exists>xs. py_range a (b + 1) s = Inr xs \<and> (\<forall>x. x \<in> set xs \<longleftrightarrow> a \<le> x \<and> x \<le> b \<and> s dvd x - a)"
proof -
  have "(b + 1 - a + s - 1) div s = (b - a) div s + 1"
    using assms div_add_self2 [of s "b - a"] by (simp add: algebra_simps)
  then have i: "int i < (b + 1 - a + s - 1) div s \<longleftrightarrow> int i * s \<le> b - a" for i
    using le_div_mult [OF assms, of "int i" "b - a"] by linarith
  have "(\<exists>i. int i * s \<le> b - a \<and> x = a + int i * s) \<longleftrightarrow> a \<le> x \<and> x \<le> b \<and> s dvd x - a" for x
  proof
    assume x: "a \<le> x \<and> x \<le> b \<and> s dvd x - a"
    then obtain k where k: "x - a = s * k" by (auto elim: dvdE)
    then have "0 \<le> k" using x assms by (metis diff_ge_0_iff_ge zero_le_mult_iff not_less)
    then have "int (nat k) * s \<le> b - a \<and> x = a + int (nat k) * s" using k x by (simp add: algebra_simps)
    then show "\<exists>i. int i * s \<le> b - a \<and> x = a + int i * s" by blast
  qed (use assms in auto)
  then show ?thesis
    using assms i by (auto simp: py_range_def image_iff zless_nat_eq_int_zless Bex_def)
qed

lemma nat_str_plain: "CHR ''/'' \<notin> set (nat_str n)" "CHR ''-'' \<notin> set (nat_str n)" "CHR '','' \<notin> set (nat_str n)"
    "CHR ''*'' \<notin> set (nat_str n)"
  using nat_str_digits [of n] by (auto simp: list_all_iff is_digit_def in_range_char_def)

lemma nat_str_no_star: "nat_str n \<noteq> ''*''" "nat_str n @ s \<noteq> ''*''"
  using nat_str_plain(4) [of n] by (cases "nat_str n"; auto)+

lemma split_pair: "c \<notin> set a \<Longrightarrow> c \<notin> set b \<Longrightarrow> str_split c (a @ c # b) = [a, b]"
  by (simp add: str_split_append str_split_no_sep)

lemma cron_field_single:
  assumes "CHR '','' \<notin> set f" "f \<noteq> ''*''"
  shows "parse_cron_field f lo hi = cron_part f lo hi"
  using assms by (cases "cron_part f lo hi") (simp_all add: parse_cron_field_def str_split_no_sep)

lemma cron_part_range:
  "cron_part (nat_str a @ ''-'' @ nat_str b @ ''/'' @ nat_str s) lo hi = py_range (int a) (int b + 1) (int s)"
  using split_pair [of "CHR ''/''" "nat_str a @ ''-'' @ nat_str b" "nat_str s"]
    split_pair [of "CHR ''-''" "nat_str a" "nat_str b"]
  by (simp add: cron_part_def split_step_def part_bounds_def nat_str_plain parse_int_nat_str nat_str_no_star)

lemma cron_part_star:
  "cron_part (''*/'' @ nat_str s) lo hi = py_range lo (hi + 1) (int s)"
  using split_pair [of "CHR ''/''" "''*''" "nat_str s"]
  by (simp add: cron_part_def split_step_def part_bounds_def nat_str_plain parse_int_nat_str)

lemma cron_part_value_step:
  "cron_part (nat_str a @ ''/'' @ nat_str s) lo hi = py_range (int a) (int a + 1) (int s)"
  using split_pair [of "CHR ''/''" "nat_str a" "nat_str s"]
  by (simp add: cron_part_def split_step_def part_bounds_def nat_str_plain parse_int_nat_str nat_str_no_star)

section \<open>The minutes after a time\<close>

primrec minutes_after :: "nat \<Rightarrow> datetime \<Rightarrow> datetime option" where
  "minutes_after 0 t = Some t"
| "minutes_after (Suc n) t = (case plus_minute t of Inl e \<Rightarrow> None | Inr t' \<Rightarrow> minutes_after n t')"

lemma minutes_after_1: "plus_minute t = Inr t' \<Longrightarrow> minutes_after (Suc n) t = minutes_after n t'"
  by simp

lemma cron_search_spec:
  "case cron_search n c t of
     Inr r \<Rightarrow> \<exists>k < n. minutes_after k t = Some r \<and> cron_matches c r
       \<and> (\<forall>i < k. \<exists>x. minutes_after i t = Some x \<and> \<not> cron_matches c x)
   | Inl e \<Rightarrow> (\<forall>i < n. \<forall>x. minutes_after i t = Some x \<longrightarrow> \<not> cron_matches c x)
       \<and> (e = no_run_time \<or> (\<exists>i \<le> n. minutes_after i t = None))"
proof (induction n arbitrary: t)
  case (Suc n)
  show ?case
  proof (cases "cron_matches c t")
    case True
    then show ?thesis by (auto intro!: exI [of _ 0])
  next
    case no: False
    show ?thesis
    proof (cases "plus_minute t")
      case (Inl e)
      then show ?thesis using no by (auto simp: less_Suc_eq_0_disj intro!: exI [of _ 1])
    next
      case (Inr t')
      show ?thesis
      proof (cases "cron_search n c t'")
        case (Inl e)
        then have "e = no_run_time \<or> (\<exists>i \<le> n. minutes_after (Suc i) t = None)"
          using Suc [of t'] minutes_after_1 [OF Inr] by simp
        then have "e = no_run_time \<or> (\<exists>i \<le> Suc n. minutes_after i t = None)"
          by (metis Suc_le_mono)
        then show ?thesis using Inl Suc [of t'] no Inr by (auto simp: less_Suc_eq_0_disj)
      next
        case r: (Inr r)
        then obtain k where "k < n" "minutes_after k t' = Some r" "cron_matches c r"
            "\<forall>i < k. \<exists>x. minutes_after i t' = Some x \<and> \<not> cron_matches c x"
          using Suc [of t'] by auto
        then have "Suc k < Suc n \<and> minutes_after (Suc k) t = Some r \<and> cron_matches c r
            \<and> (\<forall>i < Suc k. \<exists>x. minutes_after i t = Some x \<and> \<not> cron_matches c x)"
          using no Inr by (auto simp: less_Suc_eq_0_disj)
        then show ?thesis
          using no Inr r by (simp only: cron_search.simps sum.case if_False) blast
      qed
    qed
  qed
qed simp

lemma minutes_in_year:
  "valid_datetime t \<Longrightarrow> minute_of_year t + n < year_minutes (dt_year t) \<Longrightarrow>
   \<exists>x. minutes_after n t = Some x \<and> valid_datetime x \<and> minute_of_year x = minute_of_year t + n"
proof (induction n arbitrary: t)
  case (Suc n)
  obtain t' where t': "plus_minute t = Inr t'" "dt_year t' = dt_year t" "minute_of_year t' = minute_of_year t + 1"
    using plus_minute_of_year [OF Suc.prems(1)] Suc.prems(2) by auto
  then show ?case
    using Suc.IH [of t'] Suc.prems plus_minute_valid by simp
qed simp

lemma parse_cron_search:
  assumes "plus_minute (truncate_minute base) = Inr t" "parse_cron expr = Inr c"
  shows "get_next_cron_time expr base = cron_search search_window c t"
  using assms by (simp add: get_next_cron_time_def)

section \<open>Properties\<close>


text \<open>
  What the forms of a cron field stand for: \<open>a-b/s\<close> every \<open>s\<close>-th value from \<open>a\<close> to \<open>b\<close>; \<open>*/s\<close> every
  \<open>s\<close>-th value of the whole range; but \<open>a/s\<close> only the value \<open>a\<close> (where cron means every \<open>s\<close>-th value
  from \<open>a\<close> on).
\<close>

theorem cron_field_values:
  assumes "0 < s"
  shows "(\<exists>xs. parse_cron_field (nat_str a @ ''-'' @ nat_str b @ ''/'' @ nat_str s) lo hi = Inr xs
           \<and> set xs = {x. int a \<le> x \<and> x \<le> int b \<and> int s dvd x - int a})
    \<and> (\<exists>xs. parse_cron_field (''*/'' @ nat_str s) lo hi = Inr xs \<and> set xs = {x. lo \<le> x \<and> x \<le> hi \<and> int s dvd x - lo})
    \<and> (\<exists>xs. parse_cron_field (nat_str a @ ''/'' @ nat_str s) lo hi = Inr xs \<and> set xs = {int a})"
proof (intro conjI)
  have s: "0 < int s" using assms by simp
  note single = cron_field_single [of _ lo hi]
  show "\<exists>xs. parse_cron_field (nat_str a @ ''-'' @ nat_str b @ ''/'' @ nat_str s) lo hi = Inr xs
           \<and> set xs = {x. int a \<le> x \<and> x \<le> int b \<and> int s dvd x - int a}"
    using py_range_step [OF s, of "int a" "int b"]
    by (subst single) (auto simp: nat_str_plain nat_str_no_star cron_part_range simp del: append_Cons append_Nil)
  show "\<exists>xs. parse_cron_field (''*/'' @ nat_str s) lo hi = Inr xs \<and> set xs = {x. lo \<le> x \<and> x \<le> hi \<and> int s dvd x - lo}"
    using py_range_step [OF s, of lo hi] cron_part_star [of s lo hi]
    by (subst single) (auto simp: nat_str_plain)
  show "\<exists>xs. parse_cron_field (nat_str a @ ''/'' @ nat_str s) lo hi = Inr xs \<and> set xs = {int a}"
    using py_range_step [OF s, of "int a" "int a"] cron_part_value_step [of a s lo hi] nat_str_no_star(2) [of a "CHR ''/'' # nat_str s"]
    by (subst single) (auto simp: nat_str_plain)
qed

text \<open>
  The search window makes yearly jobs fail: for an expression that names January only, whose
  fields are all well formed, there is no next run time between the end of January and the middle
  of October, only a \<open>ValueError\<close>.
\<close>

theorem cron_window_yearly:
  assumes "parse_cron expr = Inr c" "set (cs_months c) = {1}" "valid_datetime base"
    and "44640 \<le> minute_of_year base" "minute_of_year base + search_window + 1 < year_minutes (dt_year base)"
  shows "get_next_cron_time expr base = Inl no_run_time"
proof -
  let ?t = "truncate_minute base"
  have v: "valid_datetime ?t" "minute_of_year ?t = minute_of_year base" "dt_year ?t = dt_year base"
    using assms(3) by (simp_all add: valid_datetime_def truncate_minute_def minute_of_year_def)
  have within: "\<exists>x. minutes_after i ?t = Some x \<and> dt_month x \<noteq> 1" if "i \<le> Suc search_window" for i
    using minutes_in_year [OF v(1), of i] v that assms(4,5) january_over by fastforce
  obtain t where t: "plus_minute ?t = Inr t"
    using within [of 1] by (cases "plus_minute ?t") auto
  have later: "\<exists>x. minutes_after i t = Some x \<and> dt_month x \<noteq> 1" if "i \<le> search_window" for i
    using within [of "Suc i"] that t by simp
  have no: "\<not> cron_matches c x" if "dt_month x \<noteq> 1" for x
    using that assms(2) by (simp add: cron_matches_def)
  show ?thesis
  proof (cases "cron_search search_window c t")
    case (Inl e)
    then have "e = no_run_time"
      using cron_search_spec [where n = search_window and c = c and t = t] later by force
    then show ?thesis using Inl parse_cron_search [OF t assms(1)] by simp
  next
    case (Inr r)
    then obtain k where "k < search_window" "minutes_after k t = Some r" "cron_matches c r"
      using cron_search_spec [where n = search_window and c = c and t = t] by auto
    then show ?thesis using later [of k] no by fastforce
  qed
qed

section \<open>Witnesses\<close>

definition demo_base :: datetime where
  "demo_base = \<lparr> dt_year = 2024, dt_month = 3, dt_day = 1, dt_hour = 10, dt_minute = 2, dt_second = 30, dt_micro = 0 \<rparr>"

lemma demo_base_valid: "valid_datetime demo_base"
  by (simp add: demo_base_def valid_datetime_def days_in_month_def month_lengths_def leap_year_def)

theorem cron_window_yearly_witness: "get_next_cron_time ''0 0 1 1 *'' demo_base = Inl no_run_time"
proof -
  have "parse_cron ''0 0 1 1 *'' = Inr \<lparr> cs_minutes = [0], cs_hours = [0], cs_days = [1], cs_months = [1],
      cs_weekdays = [0, 0, 1, 2, 3, 4, 5, 6, 7] \<rparr>"
    by code_simp
  moreover have "minute_of_year demo_base = 87002" "year_minutes (dt_year demo_base) = 527040"
    by (simp_all add: minute_of_year_def demo_base_def days_before_month_def month_lengths_def leap_year_def
        year_minutes_def)
  ultimately show ?thesis
    using cron_window_yearly [OF _ _ demo_base_valid] by (simp add: search_window_def)
qed

theorem cron_field_values_witness: "\<exists>xs. parse_cron_field ''5/10'' 0 59 = Inr xs \<and> set xs = {5}"
proof -
  have "nat_str 5 = ''5''" "nat_str 10 = ''10''"
    by code_simp+
  then show ?thesis
    using cron_field_values [of 10 5 0 0 59] by simp
qed


end
