(* ===== verification/ExecScheduler.thy ===== *)
theory ExecScheduler
  imports CronTime ExecInvariant
begin

text \<open>
  \<open>ScheduledJob\<close> and \<open>Scheduler\<close> of \<open>yasin_core/execution/scheduler.py\<close>: the calculation of run
  times, scheduling, the tick that hands due jobs to the execution engine, and persistence. A
  scheduled job object is an index into a list of objects; triggered jobs go to the engine's
  \<open>world\<close>. Time zone conversion and imports are parameters.
\<close>

section \<open>Scheduled jobs\<close>

record sched_job =
  sj_id :: string
  sj_name :: string
  sj_target :: job_target
  sj_args :: "pyval list"
  sj_kwargs :: pydict
  sj_priority :: int
  sj_retries :: int
  sj_timeout :: "real option"
  sj_interval :: "real option"
  sj_delay :: "real option"
  sj_cron :: "string option"
  sj_max_runs :: "int option"
  sj_run_count :: int
  sj_created_at :: real
  sj_last_run :: "real option"
  sj_cancelled :: bool
  sj_next :: "real option"

record sched_env =
  se_client :: client_cfg
  se_storage :: bool
  se_fromtimestamp :: "real \<Rightarrow> datetime"
  se_timestamp :: "datetime \<Rightarrow> real"
  se_import :: "string \<Rightarrow> string \<Rightarrow> job_target option"

definition cron_run_time :: "sched_env \<Rightarrow> string \<Rightarrow> real \<Rightarrow> exn + real option" where
  "cron_run_time env cron now =
     (case get_next_cron_time cron (se_fromtimestamp env now) of
        Inl e \<Rightarrow> Inl e
      | Inr t \<Rightarrow> Inr (Some (se_timestamp env t)))"

text \<open>The value that \<open>calculate_next_run\<close> assigns to \<open>next_run_time\<close>, or what it raises.\<close>

definition next_run :: "sched_env \<Rightarrow> real \<Rightarrow> sched_job \<Rightarrow> exn + real option" where
  "next_run env now j =
     (if sj_cancelled j then Inr None
      else if (case sj_max_runs j of Some m \<Rightarrow> m \<le> sj_run_count j | None \<Rightarrow> False) then Inr None
      else if sj_run_count j = 0 then
        (case sj_delay j of
           Some d \<Rightarrow> Inr (Some (now + d))
         | None \<Rightarrow>
             (case sj_cron j of
                Some c \<Rightarrow> cron_run_time env c now
              | None \<Rightarrow>
                  (case sj_interval j of
                     Some i \<Rightarrow> Inr (Some (now + i))
                   | None \<Rightarrow> Inr (Some now))))
      else
        (case sj_cron j of
           Some c \<Rightarrow> cron_run_time env c now
         | None \<Rightarrow>
             (case sj_interval j of
                Some i \<Rightarrow> Inr (Some (now + i))
              | None \<Rightarrow> Inr None)))"

definition calculate_next_run :: "sched_env \<Rightarrow> real \<Rightarrow> sched_job \<Rightarrow> exn + sched_job" where
  "calculate_next_run env now j =
     (case next_run env now j of Inl e \<Rightarrow> Inl e | Inr t \<Rightarrow> Inr (j\<lparr>sj_next := t\<rparr>))"

text \<open>
  The constructor; \<open>raw\<close> holds the arguments as they are given, with \<open>jid\<close>, \<open>name\<close> and \<open>created\<close>
  apart since they have defaults, and \<open>uuid\<close> and \<open>now\<close> are the fresh id and the clock.
\<close>

definition mk_sched_job ::
  "sched_env \<Rightarrow> string option \<Rightarrow> string option \<Rightarrow> real option \<Rightarrow> string \<Rightarrow> real \<Rightarrow> sched_job \<Rightarrow> exn + sched_job" where
  "mk_sched_job env jid name created uuid now raw =
     (let i = or_default jid uuid;
          j = raw\<lparr>sj_id := i, sj_name := or_default name (''sched-job-'' @ take 8 i),
                  sj_created_at := (case created of Some t \<Rightarrow> if t = 0 then now else t | None \<Rightarrow> now),
                  sj_cancelled := False\<rparr>
      in case sj_next raw of
           Some t \<Rightarrow> Inr j
         | None \<Rightarrow> calculate_next_run env now j)"

definition sched_cancel :: "sched_job \<Rightarrow> sched_job" where
  "sched_cancel j = j\<lparr>sj_cancelled := True, sj_next := None\<rparr>"

section \<open>Serialisation\<close>

datatype saved_target = Saved_Str string | Saved_Callable string string

definition serialize_target :: "job_target \<Rightarrow> exn + saved_target" where
  "serialize_target t =
     (case t of
        T_Name s \<Rightarrow> Inr (Saved_Str s)
      | T_Callable m n \<Rightarrow> Inr (Saved_Callable m n)
      | T_Other ty s \<Rightarrow> Inl (Exn TypeErr (''Cannot serialize job target of type '' @ ty)))"

definition deserialize_target :: "sched_env \<Rightarrow> saved_target \<Rightarrow> job_target" where
  "deserialize_target env s =
     (case s of
        Saved_Str v \<Rightarrow> T_Name v
      | Saved_Callable m n \<Rightarrow>
          (if m \<noteq> [] \<and> n \<noteq> [] then (case se_import env m n of Some t \<Rightarrow> t | None \<Rightarrow> T_Name n) else T_Name n))"

text \<open>The dictionary of a job: the job itself with the serialised target in place of the target.\<close>

datatype saved_job = Saved_Job (sv_target: saved_target) (sv_job: sched_job)

definition sched_to_dict :: "sched_job \<Rightarrow> exn + saved_job" where
  "sched_to_dict j =
     (case serialize_target (sj_target j) of
        Inl e \<Rightarrow> Inl e
      | Inr t \<Rightarrow> Inr (Saved_Job t j))"

definition sched_from_dict :: "sched_env \<Rightarrow> string \<Rightarrow> real \<Rightarrow> saved_job \<Rightarrow> exn + sched_job" where
  "sched_from_dict env uuid now d =
     (let j = sv_job d
      in mk_sched_job env (Some (sj_id j)) (Some (sj_name j)) (Some (sj_created_at j)) uuid now
           (j\<lparr>sj_target := deserialize_target env (sv_target d)\<rparr>))"

section \<open>The scheduler\<close>

record scheduler =
  sd_heap :: "sched_job list"
  sd_jobs :: "(string \<times> nat) list"
  sd_thread :: bool
  sd_triggers :: int
  sd_saved :: "(string \<times> saved_job) list option"
  sd_world :: world

definition sd_init :: "world \<Rightarrow> scheduler" where
  "sd_init w = \<lparr> sd_heap = [], sd_jobs = [], sd_thread = False, sd_triggers = 0, sd_saved = None, sd_world = w \<rparr>"

definition save_entry :: "scheduler \<Rightarrow> string \<times> nat \<Rightarrow> (string \<times> saved_job) list" where
  "save_entry s p =
     (let j = sd_heap s ! snd p
      in if \<not> sj_cancelled j \<and> sj_next j \<noteq> None
         then (case sched_to_dict j of Inr d \<Rightarrow> [(fst p, d)] | Inl _ \<Rightarrow> [])
         else [])"

definition save_schedule :: "sched_env \<Rightarrow> scheduler \<Rightarrow> scheduler" where
  "save_schedule env s =
     (if se_storage env then s\<lparr>sd_saved := Some (concat (map (save_entry s) (sd_jobs s)))\<rparr> else s)"

text \<open>\<open>ScheduledJob.to_dict\<close> as a dynamic value, for the events.\<close>

definition saved_target_dict :: "saved_target \<Rightarrow> pydict" where
  "saved_target_dict t =
     (case t of
        Saved_Str v \<Rightarrow> [(''type'', PStr ''str''), (''val'', PStr v)]
      | Saved_Callable m n \<Rightarrow> [(''type'', PStr ''callable''), (''module'', PStr m), (''name'', PStr n)])"

definition saved_job_dict :: "saved_job \<Rightarrow> pydict" where
  "saved_job_dict d =
     (let j = sv_job d
      in [(''id'', PStr (sj_id j)), (''name'', PStr (sj_name j)), (''target'', PDict (saved_target_dict (sv_target d))),
          (''args'', PList (sj_args j)), (''kwargs'', PDict (sj_kwargs j)), (''priority'', PInt (sj_priority j)),
          (''retries'', PInt (sj_retries j)), (''timeout'', opt_float (sj_timeout j)),
          (''interval'', opt_float (sj_interval j)), (''delay'', opt_float (sj_delay j)), (''cron'', opt_str (sj_cron j)),
          (''max_runs'', (case sj_max_runs j of Some m \<Rightarrow> PInt m | None \<Rightarrow> PNone)),
          (''run_count'', PInt (sj_run_count j)), (''created_at'', PFloat (sj_created_at j)),
          (''last_run_time'', opt_float (sj_last_run j)), (''next_run_time'', opt_float (sj_next j)),
          (''cancelled'', PBool (sj_cancelled j))])"

text \<open>\<open>_publish_event\<close>: a job that cannot be serialised is logged instead.\<close>

definition sched_payload :: "sched_job \<Rightarrow> saved_job \<Rightarrow> pydict" where
  "sched_payload j d =
     [(''job_id'', PStr (sj_id j)), (''job_name'', PStr (sj_name j)),
      (''interval'', opt_float (sj_interval j)), (''cron'', opt_str (sj_cron j)),
      (''delay'', opt_float (sj_delay j)), (''next_run_time'', opt_float (sj_next j)),
      (''run_count'', PInt (sj_run_count j)), (''job'', PDict (saved_job_dict d))]"

definition publish_sched :: "sched_env \<Rightarrow> string \<Rightarrow> sched_job \<Rightarrow> scheduler \<Rightarrow> scheduler" where
  "publish_sched env name j s =
     (case sched_to_dict j of
        Inl _ \<Rightarrow> s
      | Inr d \<Rightarrow> s\<lparr>sd_world := emit (se_client env) name (sched_payload j d) (sd_world s)\<rparr>)"

definition schedule_job ::
  "sched_env \<Rightarrow> string option \<Rightarrow> string option \<Rightarrow> string \<Rightarrow> real \<Rightarrow> sched_job \<Rightarrow> scheduler
   \<Rightarrow> scheduler \<times> (exn + nat)" where
  "schedule_job env jid name uuid now raw s =
     (case mk_sched_job env jid name None uuid now (raw\<lparr>sj_run_count := 0, sj_last_run := None, sj_next := None\<rparr>) of
        Inl e \<Rightarrow> (s, Inl e)
      | Inr j \<Rightarrow>
          let ob = length (sd_heap s);
              s1 = s\<lparr>sd_heap := sd_heap s @ [j], sd_jobs := AList.update (sj_id j) ob (sd_jobs s)\<rparr>
          in (publish_sched env ''job_scheduled'' j (save_schedule env s1), Inr ob))"

definition unschedule_job :: "sched_env \<Rightarrow> string \<Rightarrow> scheduler \<Rightarrow> scheduler \<times> bool" where
  "unschedule_job env jid s =
     (case map_of (sd_jobs s) jid of
        None \<Rightarrow> (s, False)
      | Some ob \<Rightarrow>
          let j = sched_cancel (sd_heap s ! ob);
              s1 = s\<lparr>sd_heap := (sd_heap s)[ob := j], sd_jobs := AList.delete jid (sd_jobs s)\<rparr>
          in (publish_sched env ''job_unscheduled'' j (save_schedule env s1), True))"

definition sched_get_job :: "string \<Rightarrow> scheduler \<Rightarrow> nat option" where
  "sched_get_job jid s = map_of (sd_jobs s) jid"

definition sched_list_jobs :: "scheduler \<Rightarrow> nat list" where
  "sched_list_jobs s = map snd (sd_jobs s)"

definition sched_clear_jobs :: "sched_env \<Rightarrow> scheduler \<Rightarrow> scheduler" where
  "sched_clear_jobs env s =
     save_schedule env
       (s\<lparr>sd_jobs := filter (\<lambda>p. let j = sd_heap s ! snd p in \<not> sj_cancelled j \<and> sj_next j \<noteq> None) (sd_jobs s)\<rparr>)"

text \<open>What a trigger reads from outside: fresh id and object of the new job, context, clocks.\<close>

record trigger_input =
  ti_uuid :: string
  ti_obj :: nat
  ti_context :: "string option"
  ti_created :: real
  ti_now :: real

definition trigger_job :: "sched_env \<Rightarrow> trigger_input \<Rightarrow> nat \<Rightarrow> scheduler \<Rightarrow> scheduler \<times> exn option" where
  "trigger_job env inp ob s =
     (if c_execution (se_client env) then
        let j = sd_heap s ! ob;
            w1 = create_job (se_client env) (ti_context inp) (sj_target j) (Some (sj_args j)) (Some (sj_kwargs j))
                   (Some (sj_name j)) (sj_priority j) (sj_retries j) (sj_timeout j) (ti_uuid inp) (ti_created inp)
                   (ti_obj inp) (sd_world s);
            j1 = j\<lparr>sj_run_count := sj_run_count j + 1, sj_last_run := Some (ti_now inp)\<rparr>
        in case calculate_next_run env (ti_now inp) j1 of
             Inl e \<Rightarrow> (s\<lparr>sd_heap := (sd_heap s)[ob := j1], sd_world := w1\<rparr>, Some e)
           | Inr j2 \<Rightarrow>
               (save_schedule env (publish_sched env ''job_triggered'' j2
                  (s\<lparr>sd_heap := (sd_heap s)[ob := j2], sd_world := w1, sd_triggers := sd_triggers s + 1\<rparr>)), None)
      else (s, None))"

definition due :: "real \<Rightarrow> sched_job \<Rightarrow> bool" where
  "due now j \<longleftrightarrow> (case sj_next j of Some t \<Rightarrow> t \<le> now | None \<Rightarrow> False) \<and> \<not> sj_cancelled j"

definition due_jobs :: "real \<Rightarrow> scheduler \<Rightarrow> nat list" where
  "due_jobs now s = filter (\<lambda>ob. due now (sd_heap s ! ob)) (sched_list_jobs s)"

text \<open>An exception leaves the loop; the polling thread logs it and ticks again later.\<close>

fun trigger_all ::
  "sched_env \<Rightarrow> (nat \<Rightarrow> trigger_input) \<Rightarrow> nat list \<Rightarrow> scheduler \<Rightarrow> scheduler \<times> exn option" where
  "trigger_all env inp [] s = (s, None)"
| "trigger_all env inp (ob # obs) s =
     (case trigger_job env (inp ob) ob s of
        (s1, Some e) \<Rightarrow> (s1, Some e)
      | (s1, None) \<Rightarrow> trigger_all env inp obs s1)"

definition sched_tick :: "sched_env \<Rightarrow> real \<Rightarrow> (nat \<Rightarrow> trigger_input) \<Rightarrow> scheduler \<Rightarrow> scheduler \<times> exn option" where
  "sched_tick env now inp s = trigger_all env inp (due_jobs now s) s"

text \<open>\<open>_load_schedule\<close>: an entry that cannot be rebuilt is logged and skipped.\<close>

definition load_entry :: "sched_env \<Rightarrow> (string \<Rightarrow> string) \<Rightarrow> real \<Rightarrow> scheduler \<Rightarrow> string \<times> saved_job \<Rightarrow> scheduler" where
  "load_entry env uuid now s p =
     (case sched_from_dict env (uuid (fst p)) now (snd p) of
        Inl _ \<Rightarrow> s
      | Inr j \<Rightarrow> s\<lparr>sd_heap := sd_heap s @ [j],
                    sd_jobs := AList.update (sj_id j) (length (sd_heap s)) (sd_jobs s)\<rparr>)"

definition load_schedule :: "sched_env \<Rightarrow> (string \<Rightarrow> string) \<Rightarrow> real \<Rightarrow> scheduler \<Rightarrow> scheduler" where
  "load_schedule env uuid now s =
     (if se_storage env
      then case sd_saved s of
             None \<Rightarrow> s
           | Some saved \<Rightarrow> foldl (load_entry env uuid now) s saved
      else s)"

definition sched_initialize :: "sched_env \<Rightarrow> (string \<Rightarrow> string) \<Rightarrow> real \<Rightarrow> scheduler \<Rightarrow> scheduler" where
  "sched_initialize env uuid now s =
     (if sd_thread s then s else (load_schedule env uuid now s)\<lparr>sd_thread := True\<rparr>)"

definition sched_reload :: "sched_env \<Rightarrow> (string \<Rightarrow> string) \<Rightarrow> real \<Rightarrow> scheduler \<Rightarrow> scheduler" where
  "sched_reload env uuid now s = load_schedule env uuid now s"

text \<open>One round of the background thread, which logs what a tick raises\<close>

definition sched_round :: "sched_env \<Rightarrow> real \<Rightarrow> (nat \<Rightarrow> trigger_input) \<Rightarrow> scheduler \<Rightarrow> scheduler" where
  "sched_round env now inp s = (if sd_thread s then fst (sched_tick env now inp s) else s)"

definition sched_shutdown :: "scheduler \<Rightarrow> scheduler" where
  "sched_shutdown s = s\<lparr>sd_thread := False\<rparr>"

definition sched_health :: "scheduler \<Rightarrow> pydict" where
  "sched_health s =
     [(''healthy'', PBool (sd_thread s)),
      (''status'', PStr (if sd_thread s then ''healthy'' else ''stopped'')),
      (''total_jobs'', PInt (int (length (sd_jobs s))))]"

definition sched_status :: "scheduler \<Rightarrow> pydict" where
  "sched_status s =
     [(''state'', PStr (if sd_thread s then ''active'' else ''inactive'')),
      (''total_scheduled'', PInt (int (length (sd_jobs s)))),
      (''active_schedules'', PInt (int (length (filter (\<lambda>ob. sj_next (sd_heap s ! ob) \<noteq> None) (sched_list_jobs s))))),
      (''total_triggers'', PInt (sd_triggers s))]"

section \<open>What the operations touch\<close>

lemma save_schedule_frames [simp]:
  "sd_heap (save_schedule env s) = sd_heap s" "sd_jobs (save_schedule env s) = sd_jobs s"
  "sd_triggers (save_schedule env s) = sd_triggers s" "sd_world (save_schedule env s) = sd_world s"
  by (simp_all add: save_schedule_def)

lemma publish_sched_frames [simp]:
  "sd_heap (publish_sched env n j s) = sd_heap s" "sd_jobs (publish_sched env n j s) = sd_jobs s"
  "sd_triggers (publish_sched env n j s) = sd_triggers s" "sd_saved (publish_sched env n j s) = sd_saved s"
  by (simp_all add: publish_sched_def split: sum.split)

lemma publish_sched_jobs [simp]: "w_jobs (sd_world (publish_sched env n j s)) = w_jobs (sd_world s)"
  by (simp add: publish_sched_def emit_def split: sum.split)

text \<open>The object of a job after it was triggered.\<close>

definition triggered :: "sched_env \<Rightarrow> trigger_input \<Rightarrow> sched_job \<Rightarrow> sched_job" where
  "triggered env inp j =
     (let j1 = j\<lparr>sj_run_count := sj_run_count j + 1, sj_last_run := Some (ti_now inp)\<rparr>
      in case calculate_next_run env (ti_now inp) j1 of Inl e \<Rightarrow> j1 | Inr j2 \<Rightarrow> j2)"

definition trigger_error :: "sched_env \<Rightarrow> trigger_input \<Rightarrow> sched_job \<Rightarrow> exn option" where
  "trigger_error env inp j =
     (case calculate_next_run env (ti_now inp)
             (j\<lparr>sj_run_count := sj_run_count j + 1, sj_last_run := Some (ti_now inp)\<rparr>) of
        Inl e \<Rightarrow> Some e | Inr _ \<Rightarrow> None)"

lemma create_job_jobs [simp]:
  "w_jobs (create_job cfg ctx tg args kw name p r t uuid now ob w) = AList.update uuid ob (w_jobs w)"
proof -
  have route: "w_jobs (fst (route_job cfg j ob w)) = w_jobs w" for j w
    by (auto simp: route_job_def route_explicit_def route_capability_def route_target_def case_prod_beta
        split: option.split job_target.split)
  have pj: "w_jobs (publish_job cfg n ob w) = w_jobs w" for n w
    by (simp add: publish_job_def emit_def split: option.split)
  have eq: "w_jobs (enqueue ob w) = w_jobs w" for w
    by (simp add: enqueue_def split: option.split)
  show ?thesis
    by (simp add: create_job_def submit_job_def Let_def case_prod_beta route pj eq submit_register_def upd_job_def
        mk_job_def or_default_def)
qed

lemma trigger_job_effect:
  assumes "c_execution (se_client env)"
  shows "snd (trigger_job env inp ob s) = trigger_error env inp (sd_heap s ! ob)"
    and "sd_heap (fst (trigger_job env inp ob s)) = (sd_heap s)[ob := triggered env inp (sd_heap s ! ob)]"
    and "sd_jobs (fst (trigger_job env inp ob s)) = sd_jobs s"
    and "sd_triggers (fst (trigger_job env inp ob s)) =
           sd_triggers s + (if trigger_error env inp (sd_heap s ! ob) = None then 1 else 0)"
    and "w_jobs (sd_world (fst (trigger_job env inp ob s))) = AList.update (ti_uuid inp) (ti_obj inp) (w_jobs (sd_world s))"
  using assms by (auto simp: trigger_job_def trigger_error_def triggered_def Let_def split: sum.split)

section \<open>The invariant\<close>

definition run_bounded :: "sched_job \<Rightarrow> bool" where
  "run_bounded j \<longleftrightarrow> (\<forall>m. sj_max_runs j = Some m \<longrightarrow>
     sj_run_count j \<le> max 0 m \<and> (sj_next j \<noteq> None \<longrightarrow> sj_run_count j < m))"

definition sched_ok :: "scheduler \<Rightarrow> bool" where
  "sched_ok s \<longleftrightarrow> wf_dict (sd_jobs s)
     \<and> (\<forall>p \<in> set (sd_jobs s). snd p < length (sd_heap s) \<and> sj_id (sd_heap s ! snd p) = fst p)
     \<and> (\<forall>j \<in> set (sd_heap s). run_bounded j)
     \<and> (\<forall>saved. sd_saved s = Some saved \<longrightarrow> (\<forall>x \<in> set saved. run_bounded (sv_job (snd x)) \<and> sj_next (sv_job (snd x)) \<noteq> None))"

lemma next_run_bound:
  "next_run env now j = Inr (Some t) \<Longrightarrow> sj_max_runs j = Some m \<Longrightarrow> sj_run_count j < m"
  by (auto simp: next_run_def split: if_splits)

lemma next_run_error_bound:
  "next_run env now j = Inl e \<Longrightarrow> sj_max_runs j = Some m \<Longrightarrow> sj_run_count j < m"
  by (auto simp: next_run_def split: if_splits)

lemma calculate_bounded:
  assumes "calculate_next_run env now j = Inr j'" "\<forall>m. sj_max_runs j = Some m \<longrightarrow> sj_run_count j \<le> max 0 m"
  shows "run_bounded j'"
  using assms by (auto simp: calculate_next_run_def run_bounded_def next_run_bound split: sum.splits)

lemma triggered_bounded:
  assumes "run_bounded j" "sj_next j \<noteq> None"
  shows "run_bounded (triggered env inp j)"
proof -
  let ?j1 = "j\<lparr>sj_run_count := sj_run_count j + 1, sj_last_run := Some (ti_now inp)\<rparr>"
  have le: "\<forall>m. sj_max_runs ?j1 = Some m \<longrightarrow> sj_run_count ?j1 \<le> max 0 m"
    using assms by (auto simp: run_bounded_def)
  show ?thesis
  proof (cases "calculate_next_run env (ti_now inp) ?j1")
    case (Inl e)
    then have "next_run env (ti_now inp) ?j1 = Inl e"
      by (simp add: calculate_next_run_def split: sum.splits)
    then have "run_bounded ?j1"
      using le next_run_error_bound [of env "ti_now inp" ?j1 e] by (auto simp: run_bounded_def)
    then show ?thesis using Inl by (simp add: triggered_def)
  next
    case (Inr j2)
    then show ?thesis using calculate_bounded [OF Inr le] by (simp add: triggered_def)
  qed
qed

lemma triggered_id [simp]: "sj_id (triggered env inp j) = sj_id j"
  by (auto simp: triggered_def Let_def calculate_next_run_def split: sum.splits)

lemma mk_sched_job_bounded:
  assumes "mk_sched_job env jid name cr uuid now raw = Inr j"
    "sj_next raw \<noteq> None \<Longrightarrow> run_bounded raw" "sj_next raw = None \<Longrightarrow> sj_run_count raw = 0"
  shows "run_bounded j"
proof (cases "sj_next raw")
  case None
  then show ?thesis
    using assms calculate_bounded by (auto simp: mk_sched_job_def Let_def)
next
  case (Some t)
  then show ?thesis
    using assms by (auto simp: mk_sched_job_def Let_def run_bounded_def)
qed

lemma mk_sched_job_id: "mk_sched_job env jid name cr uuid now raw = Inr j \<Longrightarrow> sj_id j = or_default jid uuid"
  by (auto simp: mk_sched_job_def Let_def calculate_next_run_def split: option.splits sum.splits)

lemma save_entry_cases:
  "save_entry s p =
     (if sj_cancelled (sd_heap s ! snd p) \<or> sj_next (sd_heap s ! snd p) = None then []
      else case sched_to_dict (sd_heap s ! snd p) of Inr d \<Rightarrow> [(fst p, d)] | Inl _ \<Rightarrow> [])"
  by (simp add: save_entry_def Let_def)

lemma sched_to_dict_job: "sched_to_dict j = Inr d \<Longrightarrow> sv_job d = j"
  by (auto simp: sched_to_dict_def split: sum.splits)

lemma save_entry_ok:
  assumes "sched_ok s" "p \<in> set (sd_jobs s)" "x \<in> set (save_entry s p)"
  shows "run_bounded (sv_job (snd x)) \<and> sj_next (sv_job (snd x)) \<noteq> None"
proof -
  have "snd p < length (sd_heap s)"
    using assms(1,2) unfolding sched_ok_def by blast
  then have "sd_heap s ! snd p \<in> set (sd_heap s)" by (rule nth_mem)
  then have "run_bounded (sd_heap s ! snd p)"
    using assms(1) unfolding sched_ok_def by blast
  moreover have "sv_job (snd x) = sd_heap s ! snd p \<and> sj_next (sd_heap s ! snd p) \<noteq> None"
    using assms(3) sched_to_dict_job [of "sd_heap s ! snd p"]
    by (cases "sched_to_dict (sd_heap s ! snd p)"; cases "sj_next (sd_heap s ! snd p)"; cases "sj_cancelled (sd_heap s ! snd p)")
      (simp_all add: save_entry_cases [of s p])
  ultimately show ?thesis by simp
qed

lemma save_schedule_ok:
  assumes "sched_ok s" shows "sched_ok (save_schedule env s)"
proof (cases "se_storage env")
  case True
  have "run_bounded (sv_job (snd x)) \<and> sj_next (sv_job (snd x)) \<noteq> None"
    if "x \<in> set (concat (map (save_entry s) (sd_jobs s)))" for x
    using that save_entry_ok [OF assms] unfolding set_concat set_map by blast
  then show ?thesis
    using assms True unfolding sched_ok_def save_schedule_def by (simp add: case_prod_beta del: set_concat)
qed (simp add: save_schedule_def assms)

lemma publish_sched_ok: "sched_ok (publish_sched env n j s) = sched_ok s"
  by (simp add: sched_ok_def)

lemma add_job_ok:
  assumes "sched_ok s" "run_bounded j"
  shows "sched_ok (s\<lparr>sd_heap := sd_heap s @ [j], sd_jobs := AList.update (sj_id j) (length (sd_heap s)) (sd_jobs s)\<rparr>)"
proof -
  have "wf_dict (sd_jobs s)" using assms by (simp add: sched_ok_def)
  then show ?thesis
    using assms by (auto simp: sched_ok_def set_update_wf nth_append)
qed

lemma schedule_ok:
  assumes "sched_ok s" shows "sched_ok (fst (schedule_job env jid name uuid now raw s))"
proof (cases "mk_sched_job env jid name None uuid now (raw\<lparr>sj_run_count := 0, sj_last_run := None, sj_next := None\<rparr>)")
  case (Inr j)
  have "run_bounded j"
    by (rule mk_sched_job_bounded [OF Inr]) simp_all
  then show ?thesis
    using Inr add_job_ok [OF assms] by (simp add: schedule_job_def Let_def publish_sched_ok save_schedule_ok)
qed (simp add: schedule_job_def assms)

lemma unschedule_ok:
  assumes "sched_ok s" shows "sched_ok (fst (unschedule_job env jid s))"
proof (cases "map_of (sd_jobs s) jid")
  case (Some ob)
  have in_jobs: "(jid, ob) \<in> set (sd_jobs s)" using Some by (rule map_of_SomeD)
  then have ob: "ob < length (sd_heap s)" "sj_id (sd_heap s ! ob) = jid" "run_bounded (sd_heap s ! ob)"
    using assms by (force simp: sched_ok_def)+
  have "run_bounded (sched_cancel (sd_heap s ! ob))"
    using ob(3) by (auto simp: run_bounded_def sched_cancel_def)
  then have "sched_ok (s\<lparr>sd_heap := (sd_heap s)[ob := sched_cancel (sd_heap s ! ob)], sd_jobs := AList.delete jid (sd_jobs s)\<rparr>)"
    using assms ob by (auto simp: sched_ok_def set_delete nth_list_update dest!: subsetD [OF set_update_subset_insert])
  then show ?thesis
    using Some by (simp add: unschedule_job_def Let_def publish_sched_ok save_schedule_ok)
qed (simp add: unschedule_job_def assms)

lemma sched_clear_ok: "sched_ok s \<Longrightarrow> sched_ok (sched_clear_jobs env s)"
  unfolding sched_clear_jobs_def
  by (rule save_schedule_ok) (auto simp: sched_ok_def wf_dict_filter)

lemma trigger_saved:
  "sd_saved (fst (trigger_job env inp ob s)) = sd_saved s
   \<or> (\<exists>s'. fst (trigger_job env inp ob s) = save_schedule env s' \<and> sd_saved s' = sd_saved s)"
  by (auto simp: trigger_job_def Let_def split: sum.split)

lemma trigger_ok:
  assumes "sched_ok s" "ob < length (sd_heap s)" "sj_next (sd_heap s ! ob) \<noteq> None"
  shows "sched_ok (fst (trigger_job env inp ob s))"
proof (cases "c_execution (se_client env)")
  case True
  let ?h = "(sd_heap s)[ob := triggered env inp (sd_heap s ! ob)]"
  have b: "run_bounded (triggered env inp (sd_heap s ! ob))"
    using assms by (intro triggered_bounded) (auto simp: sched_ok_def)
  have ids: "sj_id (?h ! i) = sj_id (sd_heap s ! i)" for i
    using assms(2) by (cases "i = ob") simp_all
  have base: "sched_ok t" if "sd_heap t = ?h" "sd_jobs t = sd_jobs s" "sd_saved t = sd_saved s" for t
    using assms(1) b unfolding sched_ok_def that
    by (auto simp: ids dest!: subsetD [OF set_update_subset_insert])
  show ?thesis
    using trigger_saved [of env inp ob s] trigger_job_effect(2,3) [OF True, of inp ob s] base save_schedule_ok
    by (metis save_schedule_frames(1,2))
qed (simp add: trigger_job_def assms(1))

section \<open>The tick\<close>

lemma jobs_distinct: assumes "sched_ok s" shows "distinct (sched_list_jobs s)"
proof -
  have d: "distinct (sd_jobs s)" "inj_on fst (set (sd_jobs s))"
    using assms distinct_map [of fst "sd_jobs s"] by (auto simp: sched_ok_def wf_dict_def)
  have "inj_on snd (set (sd_jobs s))"
  proof (rule inj_onI)
    fix p q assume pq: "p \<in> set (sd_jobs s)" "q \<in> set (sd_jobs s)" "snd p = snd q"
    then have "fst p = fst q" using assms unfolding sched_ok_def by metis
    then show "p = q" using d(2) pq by (simp add: inj_on_def)
  qed
  then show ?thesis using d(1) by (simp add: sched_list_jobs_def distinct_map)
qed

lemma due_jobs_spec:
  assumes "sched_ok s"
  shows "distinct (due_jobs now s)" "\<And>ob. ob \<in> set (due_jobs now s) \<Longrightarrow> ob < length (sd_heap s)"
    "\<And>ob. ob \<in> set (due_jobs now s) \<Longrightarrow> sj_next (sd_heap s ! ob) \<noteq> None"
  using jobs_distinct [OF assms] assms
  by (auto simp: due_jobs_def due_def sched_list_jobs_def sched_ok_def split: option.splits)

lemma trigger_all_ok:
  "sched_ok s \<Longrightarrow> distinct obs \<Longrightarrow> \<forall>ob \<in> set obs. ob < length (sd_heap s) \<and> sj_next (sd_heap s ! ob) \<noteq> None \<Longrightarrow>
   sched_ok (fst (trigger_all env inp obs s))"
proof (induction obs arbitrary: s)
  case (Cons ob obs)
  let ?s1 = "fst (trigger_job env (inp ob) ob s)"
  have ok: "sched_ok ?s1" using Cons.prems trigger_ok by simp
  show ?case
  proof (cases "c_execution (se_client env)")
    case True
    have "\<forall>x \<in> set obs. x < length (sd_heap ?s1) \<and> sj_next (sd_heap ?s1 ! x) \<noteq> None"
      using Cons.prems(2,3) by (auto simp: trigger_job_effect(2) [OF True] nth_list_update)
    then have "sched_ok (fst (trigger_all env inp obs ?s1))"
      using Cons.IH ok Cons.prems(2) by simp
    then show ?thesis using ok by (simp add: case_prod_beta split: option.split)
  next
    case False
    then show ?thesis using Cons by (simp add: trigger_job_def)
  qed
qed simp

lemma tick_ok: "sched_ok s \<Longrightarrow> sched_ok (fst (sched_tick env now inp s))"
  using trigger_all_ok due_jobs_spec by (simp add: sched_tick_def)

lemma load_entry_ok:
  assumes "sched_ok s" "run_bounded (sv_job (snd p))" "sj_next (sv_job (snd p)) \<noteq> None"
  shows "sched_ok (load_entry env uuid now s p)"
proof (cases "sched_from_dict env (uuid (fst p)) now (snd p)")
  case (Inr j)
  have raw: "mk_sched_job env (Some (sj_id (sv_job (snd p)))) (Some (sj_name (sv_job (snd p))))
      (Some (sj_created_at (sv_job (snd p)))) (uuid (fst p)) now
      ((sv_job (snd p))\<lparr>sj_target := deserialize_target env (sv_target (snd p))\<rparr>) = Inr j"
    using Inr by (simp add: sched_from_dict_def Let_def)
  have "run_bounded j"
    by (rule mk_sched_job_bounded [OF raw]) (use assms(2,3) in \<open>simp_all add: run_bounded_def\<close>)
  then show ?thesis using add_job_ok [OF assms(1)] Inr by (simp add: load_entry_def)
qed (simp add: load_entry_def assms(1))

lemma load_entry_saved [simp]: "sd_saved (load_entry env uuid now s p) = sd_saved s"
  by (simp add: load_entry_def split: sum.split)

lemma load_ok: assumes "sched_ok s" shows "sched_ok (load_schedule env uuid now s)"
proof -
  have "sched_ok (foldl (load_entry env uuid now) t xs)"
    if "sched_ok t" "\<forall>x \<in> set xs. run_bounded (sv_job (snd x)) \<and> sj_next (sv_job (snd x)) \<noteq> None" for t xs
    using that by (induction xs arbitrary: t) (simp_all add: load_entry_ok)
  moreover have "\<forall>x \<in> set xs. run_bounded (sv_job (snd x)) \<and> sj_next (sv_job (snd x)) \<noteq> None"
    if "sd_saved s = Some xs" for xs
    using assms that unfolding sched_ok_def by blast
  ultimately show ?thesis
    using assms by (simp add: load_schedule_def split: option.split)
qed

section \<open>The life of a scheduler\<close>

inductive sched_reachable :: "sched_env \<Rightarrow> scheduler \<Rightarrow> bool" for env where
  start: "sched_reachable env (sd_init w)"
| schedule: "sched_reachable env s \<Longrightarrow> sched_reachable env (fst (schedule_job env jid name uuid now raw s))"
| unschedule: "sched_reachable env s \<Longrightarrow> sched_reachable env (fst (unschedule_job env jid s))"
| clear: "sched_reachable env s \<Longrightarrow> sched_reachable env (sched_clear_jobs env s)"
| tick: "sched_reachable env s \<Longrightarrow> sched_reachable env (fst (sched_tick env now inp s))"
| initialize: "sched_reachable env s \<Longrightarrow> sched_reachable env (sched_initialize env ids now s)"
| shutdown: "sched_reachable env s \<Longrightarrow> sched_reachable env (sched_shutdown s)"
| reload: "sched_reachable env s \<Longrightarrow> sched_reachable env (load_schedule env ids now s)"

lemma sched_reachable_ok: "sched_reachable env s \<Longrightarrow> sched_ok s"
proof (induction rule: sched_reachable.induct)
  case (start w)
  show ?case by (simp add: sched_ok_def sd_init_def)
next
  case (initialize s ids now)
  then show ?case
    using load_ok [OF initialize.IH, of env ids now] by (auto simp: sched_initialize_def sched_ok_def)
next
  case (shutdown s)
  then show ?case by (simp add: sched_ok_def sched_shutdown_def)
qed (simp_all add: schedule_ok unschedule_ok sched_clear_ok tick_ok load_ok)

lemma find_in: "find P xs = Some y \<Longrightarrow> P y \<and> y \<in> set xs"
  by (induction xs) (auto split: if_splits)

lemma trigger_all_effect:
  assumes "c_execution (se_client env)"
  shows "distinct obs \<Longrightarrow> \<forall>ob \<in> set obs. ob < length (sd_heap s) \<Longrightarrow> trigger_all env inp obs s = (s', None) \<Longrightarrow>
    length (sd_heap s') = length (sd_heap s) \<and> sd_jobs s' = sd_jobs s
    \<and> sd_triggers s' = sd_triggers s + int (length obs)
    \<and> (\<forall>i < length (sd_heap s). sd_heap s' ! i = (if i \<in> set obs then triggered env (inp i) (sd_heap s ! i) else sd_heap s ! i))
    \<and> (\<forall>u. map_of (w_jobs (sd_world s')) u =
         (case find (\<lambda>ob. ti_uuid (inp ob) = u) (rev obs) of
            Some ob \<Rightarrow> Some (ti_obj (inp ob)) | None \<Rightarrow> map_of (w_jobs (sd_world s)) u))"
proof (induction obs arbitrary: s)
  case (Cons ob obs)
  let ?s1 = "fst (trigger_job env (inp ob) ob s)"
  note eff = trigger_job_effect [OF assms, of "inp ob" ob s]
  have none: "trigger_error env (inp ob) (sd_heap s ! ob) = None" and rest: "trigger_all env inp obs ?s1 = (s', None)"
    using Cons.prems(3) eff(1) by (auto simp: case_prod_beta split: option.splits)
  have find_append: "find P (xs @ [y]) = (case find P xs of Some x \<Rightarrow> Some x | None \<Rightarrow> if P y then Some y else None)"
    for P :: "nat \<Rightarrow> bool" and xs y by (induction xs) auto
  show ?case
    using Cons.IH [of ?s1] Cons.prems(1,2) rest none
    by (auto simp: eff nth_list_update find_append dict_simps split: option.split)
qed simp

section \<open>Properties\<close>


text \<open>
  A tick that raises nothing triggers exactly the due jobs, each once: each of them is counted
  and gets its next run time, a new execution job is registered with the engine for it, and all
  other scheduled jobs are as before.
\<close>

theorem tick_triggers_due:
  assumes "sched_reachable env s" "c_execution (se_client env)" "sched_tick env now inp s = (s', None)"
    and "inj_on (\<lambda>ob. ti_uuid (inp ob)) (set (due_jobs now s))"
  shows "sd_triggers s' = sd_triggers s + int (length (due_jobs now s)) \<and> sd_jobs s' = sd_jobs s
    \<and> (\<forall>i < length (sd_heap s). sd_heap s' ! i =
          (if i \<in> set (due_jobs now s) then triggered env (inp i) (sd_heap s ! i) else sd_heap s ! i))
    \<and> (\<forall>ob \<in> set (due_jobs now s). sj_run_count (sd_heap s' ! ob) = sj_run_count (sd_heap s ! ob) + 1
          \<and> engine_get_job (ti_uuid (inp ob)) (sd_world s') = Some (ti_obj (inp ob)))"
proof -
  have ok: "sched_ok s" using assms(1) by (rule sched_reachable_ok)
  note due = due_jobs_spec [OF ok]
  have eff: "length (sd_heap s') = length (sd_heap s) \<and> sd_jobs s' = sd_jobs s
    \<and> sd_triggers s' = sd_triggers s + int (length (due_jobs now s))
    \<and> (\<forall>i < length (sd_heap s). sd_heap s' ! i =
          (if i \<in> set (due_jobs now s) then triggered env (inp i) (sd_heap s ! i) else sd_heap s ! i))
    \<and> (\<forall>u. map_of (w_jobs (sd_world s')) u =
         (case find (\<lambda>ob. ti_uuid (inp ob) = u) (rev (due_jobs now s)) of
            Some ob \<Rightarrow> Some (ti_obj (inp ob)) | None \<Rightarrow> map_of (w_jobs (sd_world s)) u))"
    by (rule trigger_all_effect [OF assms(2) due(1) _ assms(3) [unfolded sched_tick_def]]) (use due(2) in blast)
  have count: "sj_run_count (triggered env (inp ob) j) = sj_run_count j + 1" for ob j
    by (auto simp: triggered_def calculate_next_run_def Let_def split: sum.split)
  have found: "find (\<lambda>x. ti_uuid (inp x) = ti_uuid (inp ob)) (rev (due_jobs now s)) = Some ob" if "ob \<in> set (due_jobs now s)" for ob
  proof -
    have "find (\<lambda>x. ti_uuid (inp x) = ti_uuid (inp ob)) (rev (due_jobs now s)) \<noteq> None"
      using that by (auto simp: find_None_iff)
    then obtain y where y: "find (\<lambda>x. ti_uuid (inp x) = ti_uuid (inp ob)) (rev (due_jobs now s)) = Some y"
      by auto
    then have "ti_uuid (inp y) = ti_uuid (inp ob)" "y \<in> set (due_jobs now s)"
      using find_in [OF y] by simp_all
    then show ?thesis using y assms(4) that by (auto simp: inj_on_def)
  qed
  show ?thesis
    using eff due(2) by (auto simp: count engine_get_job_def found)
qed

text \<open>
  A job whose next run time cannot be calculated is triggered again and again: its run is
  submitted and counted, but the tick ends with the exception, the job stays due at every later
  time, and the due jobs behind it are not triggered.
\<close>

theorem cron_failure_retriggers:
  assumes "sched_reachable env s" "c_execution (se_client env)" "due_jobs now s = ob # rest"
    and "trigger_error env (inp ob) (sd_heap s ! ob) = Some e"
  shows "case sched_tick env now inp s of (s', r) \<Rightarrow> r = Some e
    \<and> engine_get_job (ti_uuid (inp ob)) (sd_world s') = Some (ti_obj (inp ob))
    \<and> sj_run_count (sd_heap s' ! ob) = sj_run_count (sd_heap s ! ob) + 1
    \<and> (\<forall>now'. now \<le> now' \<longrightarrow> due now' (sd_heap s' ! ob))
    \<and> (\<forall>i \<in> set rest. sd_heap s' ! i = sd_heap s ! i)"
proof -
  have ok: "sched_ok s" using assms(1) by (rule sched_reachable_ok)
  have ob: "ob < length (sd_heap s)" "ob \<notin> set rest" "due now (sd_heap s ! ob)"
  proof -
    have "distinct (ob # rest)" "ob \<in> set (due_jobs now s)"
      using due_jobs_spec(1) [OF ok, of now] assms(3) by simp_all
    then show "ob < length (sd_heap s)" "ob \<notin> set rest" "due now (sd_heap s ! ob)"
      using due_jobs_spec(2) [OF ok] by (auto simp: due_jobs_def)
  qed
  note eff = trigger_job_effect [OF assms(2), of "inp ob" ob s]
  have tick: "sched_tick env now inp s = (fst (trigger_job env (inp ob) ob s), Some e)"
    using eff(1) assms(3,4) by (simp add: sched_tick_def case_prod_beta)
  have "triggered env (inp ob) (sd_heap s ! ob) = (sd_heap s ! ob)\<lparr>sj_run_count := sj_run_count (sd_heap s ! ob) + 1,
      sj_last_run := Some (ti_now (inp ob))\<rparr>"
    using assms(4) by (auto simp: triggered_def trigger_error_def Let_def split: sum.splits)
  then show ?thesis
    using ob unfolding tick prod.case
    by (auto simp: eff engine_get_job_def dict_simps nth_list_update due_def split: option.splits)
qed

definition sched_active :: "sched_job \<Rightarrow> bool" where
  "sched_active j \<longleftrightarrow> \<not> sj_cancelled j \<and> sj_next j \<noteq> None"

definition reloadable :: "sched_env \<Rightarrow> sched_job \<Rightarrow> bool" where
  "reloadable env j \<longleftrightarrow> sj_id j \<noteq> [] \<and> sj_name j \<noteq> [] \<and> sj_created_at j \<noteq> 0
     \<and> (case sj_target j of
          T_Name _ \<Rightarrow> True
        | T_Callable m n \<Rightarrow> m \<noteq> [] \<and> n \<noteq> [] \<and> se_import env m n = Some (T_Callable m n)
        | T_Other _ _ \<Rightarrow> False)"

lemma to_from_dict:
  assumes "sched_active j" "reloadable env j"
  shows "\<exists>d. sched_to_dict j = Inr d \<and> sv_job d = j \<and> sched_from_dict env u now d = Inr j"
proof -
  obtain t where t: "serialize_target (sj_target j) = Inr t" "deserialize_target env t = sj_target j"
    using assms(2) by (cases "sj_target j") (auto simp: reloadable_def serialize_target_def deserialize_target_def)
  have "sched_from_dict env u now (Saved_Job t j) = Inr j"
    using assms by (cases j) (auto simp: sched_from_dict_def mk_sched_job_def reloadable_def sched_active_def
        or_default_def Let_def t(2))
  then show ?thesis using t(1) by (simp add: sched_to_dict_def)
qed

lemma load_all:
  "\<forall>x \<in> set xs. sched_from_dict env (ids (fst x)) now (snd x) = Inr (sv_job (snd x)) \<and> sj_id (sv_job (snd x)) = fst x \<Longrightarrow>
   distinct (map fst xs) \<Longrightarrow>
   (\<forall>x \<in> set xs. \<exists>ob. map_of (sd_jobs (foldl (load_entry env ids now) t xs)) (fst x) = Some ob
       \<and> sd_heap (foldl (load_entry env ids now) t xs) ! ob = sv_job (snd x))
   \<and> (\<forall>k. k \<notin> fst ` set xs \<longrightarrow> map_of (sd_jobs (foldl (load_entry env ids now) t xs)) k = map_of (sd_jobs t) k)
   \<and> (\<forall>i < length (sd_heap t). sd_heap (foldl (load_entry env ids now) t xs) ! i = sd_heap t ! i)"
proof (induction xs arbitrary: t)
  case (Cons x xs)
  let ?t1 = "load_entry env ids now t x"
  have t1: "?t1 = t\<lparr>sd_heap := sd_heap t @ [sv_job (snd x)],
      sd_jobs := AList.update (fst x) (length (sd_heap t)) (sd_jobs t)\<rparr>"
    using Cons.prems(1) by (simp add: load_entry_def)
  let ?r = "foldl (load_entry env ids now) ?t1 xs"
  have ih: "\<forall>x \<in> set xs. \<exists>ob. map_of (sd_jobs ?r) (fst x) = Some ob \<and> sd_heap ?r ! ob = sv_job (snd x)"
    "\<And>k. k \<notin> fst ` set xs \<Longrightarrow> map_of (sd_jobs ?r) k = map_of (sd_jobs ?t1) k"
    "\<And>i. i < length (sd_heap ?t1) \<Longrightarrow> sd_heap ?r ! i = sd_heap ?t1 ! i"
    using Cons.IH [of ?t1] Cons.prems by auto
  have "fst x \<notin> fst ` set xs" using Cons.prems(2) by simp
  then have x: "map_of (sd_jobs ?r) (fst x) = Some (length (sd_heap t)) \<and> sd_heap ?r ! length (sd_heap t) = sv_job (snd x)"
    using ih(2) [of "fst x"] ih(3) [of "length (sd_heap t)"] by (simp add: t1 dict_simps nth_append)
  have keep: "k \<notin> fst ` set (x # xs) \<longrightarrow> map_of (sd_jobs ?r) k = map_of (sd_jobs t) k" for k
    using ih(2) [of k] by (auto simp: t1 dict_simps)
  have heap: "i < length (sd_heap t) \<longrightarrow> sd_heap ?r ! i = sd_heap t ! i" for i
    using ih(3) [of i] by (simp add: t1 nth_append)
  show ?case
    unfolding foldl_Cons using x ih(1) keep heap by (simp add: t1 [symmetric])
qed simp

text \<open>
  Persistence: when every active job has an id, a name, a creation time and a target that can be
  found again, a new scheduler that loads what was saved has exactly the active jobs, each under
  its id and equal in all fields.
\<close>

theorem schedule_persistence:
  assumes "sched_reachable env s" "se_storage env"
    and "\<forall>ob \<in> set (sched_list_jobs s). sched_active (sd_heap s ! ob) \<longrightarrow> reloadable env (sd_heap s ! ob)"
    and "s' = load_schedule env ids now ((sd_init w)\<lparr>sd_saved := sd_saved (save_schedule env s)\<rparr>)"
  shows "case sched_get_job jid s of
      Some ob \<Rightarrow> (if sched_active (sd_heap s ! ob)
                  then \<exists>ob'. sched_get_job jid s' = Some ob' \<and> sd_heap s' ! ob' = sd_heap s ! ob
                  else sched_get_job jid s' = None)
    | None \<Rightarrow> sched_get_job jid s' = None"
proof -
  have ok: "sched_ok s" using assms(1) by (rule sched_reachable_ok)
  define xs where "xs = concat (map (save_entry s) (sd_jobs s))"
  let ?s0 = "(sd_init w)\<lparr>sd_saved := Some xs\<rparr>"
  have s': "s' = foldl (load_entry env ids now) ?s0 xs"
    using assms(2,4) by (simp add: load_schedule_def save_schedule_def xs_def)
  have entry: "if sched_active (sd_heap s ! snd p)
      then \<exists>d. save_entry s p = [(fst p, d)] \<and> sv_job d = sd_heap s ! snd p
         \<and> sched_from_dict env (ids (fst p)) now d = Inr (sd_heap s ! snd p) \<and> sj_id (sv_job d) = fst p
      else save_entry s p = []" if "p \<in> set (sd_jobs s)" for p
  proof (cases "sched_active (sd_heap s ! snd p)")
    case True
    have "reloadable env (sd_heap s ! snd p)"
      using assms(3) True that by (auto simp: sched_list_jobs_def)
    then obtain d where "sched_to_dict (sd_heap s ! snd p) = Inr d" "sv_job d = sd_heap s ! snd p"
        "sched_from_dict env (ids (fst p)) now d = Inr (sd_heap s ! snd p)"
      using to_from_dict [OF True] by blast
    moreover have "sj_id (sd_heap s ! snd p) = fst p"
      using ok that by (simp add: sched_ok_def)
    ultimately show ?thesis
      using True by (simp add: save_entry_cases sched_active_def)
  qed (auto simp: save_entry_cases sched_active_def)
  have keys: "map fst xs = map fst (filter (\<lambda>p. sched_active (sd_heap s ! snd p)) (sd_jobs s))"
  proof -
    have "map fst (concat (map (save_entry s) ps)) = map fst (filter (\<lambda>p. sched_active (sd_heap s ! snd p)) ps)"
      if "set ps \<subseteq> set (sd_jobs s)" for ps
      using that entry by (induction ps) (fastforce split: if_splits)+
    then show ?thesis unfolding xs_def by simp
  qed
  have "distinct (map fst xs)"
    unfolding keys using ok by (simp add: sched_ok_def wf_dict_def distinct_map_filter)
  moreover have "\<forall>x \<in> set xs. sched_from_dict env (ids (fst x)) now (snd x) = Inr (sv_job (snd x))
      \<and> sj_id (sv_job (snd x)) = fst x"
  proof
    fix x assume "x \<in> set xs"
    then obtain p where p: "p \<in> set (sd_jobs s)" "x \<in> set (save_entry s p)"
      unfolding xs_def set_concat set_map by blast
    then show "sched_from_dict env (ids (fst x)) now (snd x) = Inr (sv_job (snd x)) \<and> sj_id (sv_job (snd x)) = fst x"
      using entry [OF p(1)] by (cases "sched_active (sd_heap s ! snd p)") auto
  qed
  ultimately have "(\<forall>x \<in> set xs. \<exists>ob. map_of (sd_jobs s') (fst x) = Some ob \<and> sd_heap s' ! ob = sv_job (snd x))
      \<and> (\<forall>k. k \<notin> fst ` set xs \<longrightarrow> map_of (sd_jobs s') k = map_of (sd_jobs ?s0) k)"
    using load_all [where xs = xs and env = env and ids = ids and now = now and t = ?s0] unfolding s' by blast
  then have loaded: "\<And>x. x \<in> set xs \<Longrightarrow> \<exists>ob. map_of (sd_jobs s') (fst x) = Some ob \<and> sd_heap s' ! ob = sv_job (snd x)"
      "\<And>k. k \<notin> set (map fst xs) \<Longrightarrow> map_of (sd_jobs s') k = None"
    by (simp_all add: sd_init_def)
  show ?thesis
  proof (cases "map_of (sd_jobs s) jid")
    case None
    then have "jid \<notin> set (map fst xs)"
      unfolding keys by (auto simp: map_of_eq_None_iff)
    then show ?thesis using None loaded(2) by (simp add: sched_get_job_def)
  next
    case (Some ob)
    then have p: "(jid, ob) \<in> set (sd_jobs s)" by (rule map_of_SomeD)
    show ?thesis
    proof (cases "sched_active (sd_heap s ! ob)")
      case True
      then obtain d where d: "save_entry s (jid, ob) = [(jid, d)]" "sv_job d = sd_heap s ! ob"
        using entry [OF p] by auto
      then have "(jid, d) \<in> set xs"
        using p unfolding xs_def set_concat set_map by (metis UnionI image_eqI list.set_intros(1))
      then show ?thesis using loaded(1) [of "(jid, d)"] d True Some by (simp add: sched_get_job_def)
    next
      case False
      have "ob' = ob" if "(jid, ob') \<in> set (sd_jobs s)" for ob'
        using ok p that mem_iff_map_of [of "sd_jobs s"] by (simp add: sched_ok_def)
      then have "jid \<notin> set (map fst xs)"
        unfolding keys using False by auto
      then show ?thesis using False Some loaded(2) by (simp add: sched_get_job_def)
    qed
  qed
qed

section \<open>Witnesses\<close>

text \<open>A job with a delay and a cron expression that is read only after the first run.\<close>

definition demo_sched_env :: sched_env where
  "demo_sched_env = \<lparr> se_client = full_client, se_storage = True, se_fromtimestamp = (\<lambda>_. demo_base),
     se_timestamp = (\<lambda>_. 100), se_import = (\<lambda>m n. Some (T_Callable m n)) \<rparr>"

definition demo_raw :: "string option \<Rightarrow> sched_job" where
  "demo_raw cron = \<lparr> sj_id = [], sj_name = [], sj_target = T_Name ''agent'', sj_args = [], sj_kwargs = [],
     sj_priority = 20, sj_retries = 0, sj_timeout = None, sj_interval = None, sj_delay = Some 0, sj_cron = cron,
     sj_max_runs = Some 3, sj_run_count = 0, sj_created_at = 0, sj_last_run = None, sj_cancelled = False,
     sj_next = None \<rparr>"

definition demo_sched :: "string option \<Rightarrow> scheduler" where
  "demo_sched cron = fst (schedule_job demo_sched_env (Some ''j1'') (Some ''n1'') ''u'' 10 (demo_raw cron) (sd_init w_init))"

definition demo_input :: "nat \<Rightarrow> trigger_input" where
  "demo_input ob = \<lparr> ti_uuid = ''x'', ti_obj = 7, ti_context = None, ti_created = 10, ti_now = 10 \<rparr>"

definition demo_job :: "string option \<Rightarrow> sched_job" where
  "demo_job cron = (demo_raw cron)\<lparr>sj_id := ''j1'', sj_name := ''n1'', sj_created_at := 10, sj_next := Some 10\<rparr>"

lemma demo_sched_simps:
  "sd_heap (demo_sched cron) = [demo_job cron]" "sd_jobs (demo_sched cron) = [(''j1'', 0)]"
  by (simp_all add: demo_sched_def schedule_job_def mk_sched_job_def demo_raw_def or_default_def Let_def
      calculate_next_run_def next_run_def sd_init_def demo_job_def)

lemma demo_sched_reachable: "sched_reachable demo_sched_env (demo_sched cron)"
  unfolding demo_sched_def by (intro sched_reachable.intros)

lemma demo_due: "due_jobs 10 (demo_sched cron) = [0]"
  by (simp add: due_jobs_def sched_list_jobs_def demo_sched_simps due_def demo_job_def demo_raw_def)

lemma bad_cron: "get_next_cron_time ''bad'' demo_base = Inl (Exn ValueErr ''Invalid cron expression. Must have exactly 5 fields.'')"
proof -
  have "parse_cron ''bad'' = Inl (Exn ValueErr ''Invalid cron expression. Must have exactly 5 fields.'')"
    by code_simp
  then show ?thesis
    by (simp add: get_next_cron_time_def plus_minute_def truncate_minute_def demo_base_def)
qed


theorem tick_triggers_due_witness: "sd_triggers (fst (sched_tick demo_sched_env 10 demo_input (demo_sched None))) = 1"
proof -
  have c: "c_execution (se_client demo_sched_env)"
    by (simp add: demo_sched_env_def full_client_def)
  have "trigger_error demo_sched_env (demo_input 0) (demo_job None) = None"
    by (simp add: trigger_error_def calculate_next_run_def next_run_def demo_job_def demo_raw_def)
  then have "snd (sched_tick demo_sched_env 10 demo_input (demo_sched None)) = None"
    using trigger_job_effect(1) [OF c, of "demo_input 0" 0 "demo_sched None"]
    by (simp add: sched_tick_def demo_due demo_sched_simps case_prod_beta)
  then have "sched_tick demo_sched_env 10 demo_input (demo_sched None)
      = (fst (sched_tick demo_sched_env 10 demo_input (demo_sched None)), None)"
    by (simp add: prod_eq_iff)
  then have "sd_triggers (fst (sched_tick demo_sched_env 10 demo_input (demo_sched None))) =
      sd_triggers (demo_sched None) + int (length (due_jobs 10 (demo_sched None)))"
    using tick_triggers_due [OF demo_sched_reachable [of None] c] by (simp add: demo_due)
  moreover have "sd_triggers (demo_sched None) = 0"
    by (simp add: demo_sched_def schedule_job_def mk_sched_job_def demo_raw_def or_default_def Let_def
        calculate_next_run_def next_run_def sd_init_def)
  ultimately show ?thesis by (simp add: demo_due)
qed

theorem cron_failure_retriggers_witness:
  "due 1000 (sd_heap (fst (sched_tick demo_sched_env 10 demo_input (demo_sched (Some ''bad'')))) ! 0)"
proof -
  have c: "c_execution (se_client demo_sched_env)"
    by (simp add: demo_sched_env_def full_client_def)
  have "trigger_error demo_sched_env (demo_input 0) (sd_heap (demo_sched (Some ''bad'')) ! 0)
      = Some (Exn ValueErr ''Invalid cron expression. Must have exactly 5 fields.'')"
    by (simp add: demo_sched_simps trigger_error_def calculate_next_run_def next_run_def demo_job_def demo_raw_def
        cron_run_time_def demo_sched_env_def bad_cron)
  from cron_failure_retriggers [where inp = demo_input, OF demo_sched_reachable c demo_due this] show ?thesis
    by (simp add: case_prod_beta)
qed

theorem schedule_persistence_witness:
  "\<exists>ob'. sched_get_job ''j1'' (load_schedule demo_sched_env (\<lambda>_. ''v'') 50 ((sd_init w_init)\<lparr>sd_saved :=
       sd_saved (save_schedule demo_sched_env (demo_sched None))\<rparr>)) = Some ob'"
proof -
  have "sched_active (demo_job None)" "reloadable demo_sched_env (demo_job None)"
    by (simp_all add: sched_active_def reloadable_def demo_job_def demo_raw_def)
  moreover have "se_storage demo_sched_env" by (simp add: demo_sched_env_def)
  ultimately show ?thesis
    using schedule_persistence [OF demo_sched_reachable [of None] _ _ refl,
        where ids = "\<lambda>_. ''v''" and now = 50 and w = w_init and jid = "''j1''"]
    by (auto simp: sched_get_job_def sched_list_jobs_def demo_sched_simps)
qed

end
