(* ===== verification/ScheduledRuns.thy ===== *)
theory ScheduledRuns
  imports ExecScheduler ExecResults
begin

text \<open>
  The scheduler, the execution service and the client's memory together: \<open>execution/scheduler.py\<close> creates the jobs that
  \<open>execution/engine.py\<close> queues, runs and saves. Clients, worker threads, distributed workers, the monitor and the scheduler
  act in any order on the one state of the engine.
\<close>

section \<open>The services in one state\<close>

text \<open>The identities and ids that a tick reads are not in use when they are drawn, as objects and uuids in Python are.\<close>

fun fresh_inputs :: "sched_env \<Rightarrow> (nat \<Rightarrow> trigger_input) \<Rightarrow> nat list \<Rightarrow> scheduler \<Rightarrow> bool" where
  "fresh_inputs env inp [] s \<longleftrightarrow> True"
| "fresh_inputs env inp (ob # obs) s \<longleftrightarrow>
     w_heap (sd_world s) (ti_obj (inp ob)) = None \<and> (\<forall>x. \<not> known (sd_world s) (ti_uuid (inp ob)) x)
     \<and> ti_uuid (inp ob) \<noteq> [] \<and> fresh_inputs env inp obs (fst (trigger_job env (inp ob) ob s))"

inductive service_run :: "sched_env \<Rightarrow> scheduler \<Rightarrow> sys \<Rightarrow> bool" for env where
  start: "service_run env (sd_init w_init) sys_init"
| engine: "service_run env s y \<Longrightarrow> sys_step (se_client env) y y' \<Longrightarrow> service_run env (s\<lparr>sd_world := sy_w y'\<rparr>) y'"
| schedule: "service_run env s y \<Longrightarrow> s' = fst (schedule_job env jid name uuid now raw s)
     \<Longrightarrow> service_run env s' (y\<lparr>sy_w := sd_world s'\<rparr>)"
| unschedule: "service_run env s y \<Longrightarrow> s' = fst (unschedule_job env jid s) \<Longrightarrow> service_run env s' (y\<lparr>sy_w := sd_world s'\<rparr>)"
| clear: "service_run env s y \<Longrightarrow> service_run env (sched_clear_jobs env s) y"
| initialize: "service_run env s y \<Longrightarrow> service_run env (sched_initialize env ids now s) y"
| shutdown: "service_run env s y \<Longrightarrow> service_run env (sched_shutdown s) y"
| reload: "service_run env s y \<Longrightarrow> service_run env (load_schedule env ids now s) y"
| tick: "service_run env s y \<Longrightarrow> fresh_inputs env inp (due_jobs now s) s \<Longrightarrow> s' = fst (sched_tick env now inp s)
     \<Longrightarrow> service_run env s' (y\<lparr>sy_w := sd_world s'\<rparr>)"

definition services_ok :: "scheduler \<Rightarrow> sys \<Rightarrow> bool" where
  "services_ok s y \<longleftrightarrow> sched_ok s \<and> sys_ok y \<and> sd_world s = sy_w y"

section \<open>What the scheduler does to the engine\<close>

lemma world_sys_ok:
  assumes "sys_ok y" "w_heap w = w_heap (sy_w y)" "w_nodes w = w_nodes (sy_w y)" "w_queue w = w_queue (sy_w y)"
    "w_jobs w = w_jobs (sy_w y)"
  shows "sys_ok (y\<lparr>sy_w := w\<rparr>)"
proof -
  have "accounted w (held y)"
    using sys_ok_parts(2) [OF assms(1)] assms(2-5) by (simp add: accounted_def located_def assigned_objs_def)
  moreover have "keeps (sy_w y) w" using assms(2,3) by (simp add: keeps_def)
  ultimately show ?thesis using world_okI [OF sys_ok_parts(1) [OF assms(1)]] assms by (intro sys_ok_world) simp_all
qed

lemma publish_sched_world [simp]:
  "w_heap (sd_world (publish_sched env n j s)) = w_heap (sd_world s)"
  "w_nodes (sd_world (publish_sched env n j s)) = w_nodes (sd_world s)"
  "w_queue (sd_world (publish_sched env n j s)) = w_queue (sd_world s)"
  "w_saved (sd_world (publish_sched env n j s)) = w_saved (sd_world s)"
  by (simp_all add: publish_sched_def split: sum.split)

text \<open>The new engine job of a scheduled job\<close>

definition created_by :: "sched_env \<Rightarrow> trigger_input \<Rightarrow> sched_job \<Rightarrow> world \<Rightarrow> world" where
  "created_by env inp j w =
     create_job (se_client env) (ti_context inp) (sj_target j) (Some (sj_args j)) (Some (sj_kwargs j))
       (Some (sj_name j)) (sj_priority j) (sj_retries j) (sj_timeout j) (ti_uuid inp) (ti_created inp) (ti_obj inp) w"

lemma trigger_world:
  assumes "c_execution (se_client env)"
  shows "w_heap (sd_world (fst (trigger_job env inp ob s))) = w_heap (created_by env inp (sd_heap s ! ob) (sd_world s))"
    and "w_nodes (sd_world (fst (trigger_job env inp ob s))) = w_nodes (created_by env inp (sd_heap s ! ob) (sd_world s))"
    and "w_queue (sd_world (fst (trigger_job env inp ob s))) = w_queue (created_by env inp (sd_heap s ! ob) (sd_world s))"
    and "w_jobs (sd_world (fst (trigger_job env inp ob s))) = w_jobs (created_by env inp (sd_heap s ! ob) (sd_world s))"
  using assms by (simp_all add: trigger_job_def created_by_def Let_def split: sum.split)

section \<open>The invariant\<close>

lemma created_sys_ok:
  assumes "sys_ok y" "w_heap (sy_w y) (ti_obj inp) = None" "\<forall>x. \<not> known (sy_w y) (ti_uuid inp) x" "ti_uuid inp \<noteq> []"
  shows "sys_ok (y\<lparr>sy_w := created_by env inp j (sy_w y)\<rparr>)"
  using create_job_inv [OF sys_ok_parts(1,2) [OF assms(1)] assms(2-4)] assms(1,2)
  unfolding created_by_def by (intro sys_ok_world) (auto intro: keeps_create)

lemma trigger_services_ok:
  assumes "services_ok s y" "c_execution (se_client env)" "ob < length (sd_heap s)" "sj_next (sd_heap s ! ob) \<noteq> None"
    "w_heap (sd_world s) (ti_obj inp) = None" "\<forall>x. \<not> known (sd_world s) (ti_uuid inp) x" "ti_uuid inp \<noteq> []"
  shows "services_ok (fst (trigger_job env inp ob s)) (y\<lparr>sy_w := sd_world (fst (trigger_job env inp ob s))\<rparr>)"
proof -
  have w: "sd_world s = sy_w y" using assms(1) by (simp add: services_ok_def)
  have "sys_ok (y\<lparr>sy_w := created_by env inp (sd_heap s ! ob) (sy_w y)\<rparr>)"
    using assms(1,5-7) by (intro created_sys_ok) (simp_all add: services_ok_def)
  from world_sys_ok [OF this, of "sd_world (fst (trigger_job env inp ob s))"]
  have "sys_ok (y\<lparr>sy_w := sd_world (fst (trigger_job env inp ob s))\<rparr>)"
    by (simp add: trigger_world [OF assms(2)] w)
  then show ?thesis using assms(1,3,4) by (simp add: services_ok_def trigger_ok)
qed

lemma trigger_all_services_ok:
  assumes "c_execution (se_client env)"
  shows "services_ok s y \<Longrightarrow> distinct obs \<Longrightarrow> \<forall>ob \<in> set obs. ob < length (sd_heap s) \<and> sj_next (sd_heap s ! ob) \<noteq> None
    \<Longrightarrow> fresh_inputs env inp obs s
    \<Longrightarrow> services_ok (fst (trigger_all env inp obs s)) (y\<lparr>sy_w := sd_world (fst (trigger_all env inp obs s))\<rparr>)"
proof (induction obs arbitrary: s y)
  case Nil
  then show ?case by (simp add: services_ok_def)
next
  case (Cons ob obs)
  let ?s1 = "fst (trigger_job env (inp ob) ob s)"
  have ok: "services_ok ?s1 (y\<lparr>sy_w := sd_world ?s1\<rparr>)"
    using Cons.prems by (intro trigger_services_ok assms) simp_all
  have "\<forall>x \<in> set obs. x < length (sd_heap ?s1) \<and> sj_next (sd_heap ?s1 ! x) \<noteq> None"
    using Cons.prems(2,3) by (auto simp: trigger_job_effect(2) [OF assms] nth_list_update)
  from Cons.IH [OF ok _ this] have "services_ok (fst (trigger_all env inp obs ?s1)) (y\<lparr>sy_w := sd_world (fst (trigger_all env inp obs ?s1))\<rparr>)"
    using Cons.prems(2,4) by simp
  then show ?case using ok by (simp add: case_prod_beta split: option.split)
qed

lemma sched_op_services_ok:
  assumes "services_ok s y" "sched_ok s'" "w_heap (sd_world s') = w_heap (sd_world s)" "w_nodes (sd_world s') = w_nodes (sd_world s)"
    "w_queue (sd_world s') = w_queue (sd_world s)" "w_jobs (sd_world s') = w_jobs (sd_world s)"
  shows "services_ok s' (y\<lparr>sy_w := sd_world s'\<rparr>)"
  using assms by (simp add: services_ok_def world_sys_ok)

lemma schedule_world:
  "w_heap (sd_world (fst (schedule_job env jid name uuid now raw s))) = w_heap (sd_world s)"
  "w_nodes (sd_world (fst (schedule_job env jid name uuid now raw s))) = w_nodes (sd_world s)"
  "w_queue (sd_world (fst (schedule_job env jid name uuid now raw s))) = w_queue (sd_world s)"
  "w_jobs (sd_world (fst (schedule_job env jid name uuid now raw s))) = w_jobs (sd_world s)"
  by (simp_all add: schedule_job_def Let_def split: sum.split)

lemma unschedule_world:
  "w_heap (sd_world (fst (unschedule_job env jid s))) = w_heap (sd_world s)"
  "w_nodes (sd_world (fst (unschedule_job env jid s))) = w_nodes (sd_world s)"
  "w_queue (sd_world (fst (unschedule_job env jid s))) = w_queue (sd_world s)"
  "w_jobs (sd_world (fst (unschedule_job env jid s))) = w_jobs (sd_world s)"
  by (simp_all add: unschedule_job_def Let_def split: option.split)

lemma load_world [simp]: "sd_world (load_schedule env ids now s) = sd_world s"
proof -
  have "sd_world (foldl (load_entry env ids now) t xs) = sd_world t" for t xs
    by (induction xs arbitrary: t) (simp_all add: load_entry_def split: sum.split)
  then show ?thesis by (simp add: load_schedule_def split: option.split)
qed

lemma services_ok_run: "service_run env s y \<Longrightarrow> c_execution (se_client env) \<Longrightarrow> services_ok s y"
proof (induction rule: service_run.induct)
  case start
  show ?case using sys_ok_init sched_reachable_ok [OF sched_reachable.start] by (simp add: services_ok_def sd_init_def sys_init_def)
next
  case (engine s y y')
  then have "sys_ok y'" "sched_ok (s\<lparr>sd_world := sy_w y'\<rparr>)"
    using sys_ok_step [OF engine(2)] by (simp_all add: services_ok_def sched_ok_def)
  then show ?case by (simp add: services_ok_def)
next
  case (schedule s y s' jid name uuid now raw)
  show ?case unfolding schedule(2)
    by (rule sched_op_services_ok [OF schedule.IH]) (use schedule in \<open>simp_all add: schedule_world schedule_ok services_ok_def\<close>)
next
  case (unschedule s y s' jid)
  show ?case unfolding unschedule(2)
    by (rule sched_op_services_ok [OF unschedule.IH]) (use unschedule in \<open>simp_all add: unschedule_world unschedule_ok services_ok_def\<close>)
next
  case (clear s y)
  then show ?case by (simp add: services_ok_def sched_clear_ok) (simp add: sched_clear_jobs_def)
next
  case (initialize s y ids now)
  then have ok: "sched_ok s" "sys_ok y" "sd_world s = sy_w y" by (simp_all add: services_ok_def)
  then show ?case using load_ok [OF ok(1), of env ids now] by (auto simp: services_ok_def sched_initialize_def sched_ok_def)
next
  case (shutdown s y)
  then show ?case by (simp add: services_ok_def sched_shutdown_def sched_ok_def)
next
  case (reload s y ids now)
  then show ?case by (simp add: services_ok_def load_ok)
next
  case (tick s y inp now s')
  then have ok: "services_ok s y" "sched_ok s" by (simp_all add: services_ok_def)
  show ?case unfolding tick(3) sched_tick_def
    by (rule trigger_all_services_ok [OF tick.prems ok(1)]) (use due_jobs_spec [OF ok(2)] tick(2) in auto)
qed

section \<open>A tick without distributed workers\<close>

text \<open>The engine job of a scheduled job as the queue holds it\<close>

definition run_of :: "trigger_input \<Rightarrow> sched_job \<Rightarrow> job" where
  "run_of inp j =
     (mk_job (sj_target j) (Some (sj_args j)) (Some (sj_kwargs j)) None (Some (sj_name j)) (sj_priority j) (sj_retries j)
        (sj_timeout j) None (ti_uuid inp) (ti_created inp))\<lparr>job_context_id := ti_context inp, job_status := J_QUEUED\<rparr>"

lemma created_local:
  assumes "w_nodes w = []"
  shows "w_heap (created_by env inp j w) = (w_heap w)(ti_obj inp \<mapsto> run_of inp j)"
    "w_nodes (created_by env inp j w) = []"
    "set (jq_objs (w_queue (created_by env inp j w))) = insert (ti_obj inp) (set (jq_objs (w_queue w)))"
    "jq_size (w_queue (created_by env inp j w)) = Suc (jq_size (w_queue w))"
  using assms
  by (simp_all add: created_by_def create_job_def submit_job_def submit_register_def Let_def route_job_def list_workers_def
      run_of_def mk_job_def or_default_def enqueue_def upd_job_def)

lemma trigger_all_local:
  assumes "c_execution (se_client env)"
  shows "w_nodes (sd_world s) = [] \<Longrightarrow> distinct obs \<Longrightarrow> fresh_inputs env inp obs s \<Longrightarrow> trigger_all env inp obs s = (s', None)
    \<Longrightarrow> w_nodes (sd_world s') = []
      \<and> (\<forall>x. w_heap (sd_world s) x \<noteq> None \<longrightarrow> w_heap (sd_world s') x = w_heap (sd_world s) x)
      \<and> set (jq_objs (w_queue (sd_world s'))) = set (jq_objs (w_queue (sd_world s))) \<union> (\<lambda>ob. ti_obj (inp ob)) ` set obs
      \<and> (\<forall>ob \<in> set obs. ob < length (sd_heap s) \<longrightarrow> w_heap (sd_world s') (ti_obj (inp ob)) = Some (run_of (inp ob) (sd_heap s ! ob)))"
proof (induction obs arbitrary: s)
  case (Cons ob obs)
  let ?s1 = "fst (trigger_job env (inp ob) ob s)"
  note world = trigger_world [OF assms, of "inp ob" ob s] created_local [OF Cons.prems(1), of env "inp ob" "sd_heap s ! ob"]
  have rest: "trigger_all env inp obs ?s1 = (s', None)"
    using Cons.prems(4) by (auto simp: case_prod_beta split: option.splits)
  have nodes: "w_nodes (sd_world ?s1) = []" by (simp add: world)
  have fresh: "w_heap (sd_world s) (ti_obj (inp ob)) = None" "fresh_inputs env inp obs ?s1"
    using Cons.prems(3) by simp_all
  note ih = Cons.IH [OF nodes _ fresh(2) rest]
  have heap: "sd_heap ?s1 ! x = sd_heap s ! x" "length (sd_heap ?s1) = length (sd_heap s)" if "x \<in> set obs" for x
    using Cons.prems(2) that by (cases "x = ob"; simp add: trigger_job_effect(2) [OF assms])+
  show ?case using ih Cons.prems(2) fresh(1) heap by (auto simp: world)
qed simp

section \<open>Every scheduled run ends and is remembered\<close>

text \<open>
  \<open>C27\<close>. In every run of clients, worker threads, distributed workers, the monitor and the scheduler in any order: when no
  distributed worker is registered, a tick that raises nothing triggers each due job once and no other, and queues for each a new
  engine job with its target, arguments, priority and retries. After as many rounds of a worker as there are
  entries and retries left, each of these engine jobs is completed or failed, and \<open>get_memory\<close> gives its result, its error
  and its status at any later time.
\<close>
theorem scheduled_runs_remembered:
  assumes "service_run env s y" "c_execution (se_client env)" "c_save_memory (se_client env)" "w_nodes (sd_world s) = []"
    "fresh_inputs env inp (due_jobs now s) s" "sched_tick env now inp s = (s', None)" "work (sd_world s') \<le> length rs"
    "w = worker_rounds (se_client env) rs (sd_world s')" "wf_dict (mm_data (cm_short m))" "length (w_saved w) \<le> length cks"
  shows "sd_triggers s' = sd_triggers s + int (length (due_jobs now s))
     \<and> (\<forall>i < length (sd_heap s). i \<notin> set (due_jobs now s) \<longrightarrow> sd_heap s' ! i = sd_heap s ! i)
     \<and> (\<forall>ob \<in> set (due_jobs now s). sj_run_count (sd_heap s' ! ob) = sj_run_count (sd_heap s ! ob) + 1
          \<and> w_heap (sd_world s') (ti_obj (inp ob)) = Some (run_of (inp ob) (sd_heap s ! ob))
          \<and> (\<exists>j. w_heap w (ti_obj (inp ob)) = Some j \<and> job_id j = ti_uuid (inp ob) \<and> job_status j \<in> {J_COMPLETED, J_FAILED}
               \<and> (\<forall>ck dflt. snd (get_memory ops ck (''job_execution:'' @ ti_uuid (inp ob)) dflt ''short-term'' (remembered ops cks (w_saved w) m))
                    = Inr (PDict [(''result'', job_result j), (''error'', opt_str (job_error j)),
                                  (''status'', PStr (job_status_value (job_status j)))]))))"
proof -
  have ok: "services_ok s y" "sched_ok s" using services_ok_run [OF assms(1,2)] by (simp_all add: services_ok_def)
  note due = due_jobs_spec [OF ok(2), where now = now]
  note tick = assms(6) [unfolded sched_tick_def]
  have "\<forall>ob \<in> set (due_jobs now s). ob < length (sd_heap s)" using due(2) by blast
  note effect = trigger_all_effect [OF assms(2) due(1) this tick]
  have count: "sj_run_count (triggered env i j) = sj_run_count j + 1" for i j
    by (auto simp: triggered_def calculate_next_run_def Let_def split: sum.split)
  note local = trigger_all_local [OF assms(2,4) due(1) assms(5) tick]
  have "\<forall>ob \<in> set (due_jobs now s). ob < length (sd_heap s) \<and> sj_next (sd_heap s ! ob) \<noteq> None" using due(2,3) by blast
  from trigger_all_services_ok [OF assms(2) ok(1) due(1) this assms(5)] tick
  have "world_ok (sd_world s')" by (simp add: services_ok_def sys_ok_def)
  note drained = drained_and_remembered [OF this assms(3,7,9), of cks ops, folded assms(8), OF assms(10)]
  have run: "job_id (run_of i j) = ti_uuid i" "\<not> stopped (run_of i j)" for i j
    by (simp_all add: run_of_def mk_job_def or_default_def Let_def stopped_def)
  have "\<exists>j. w_heap w (ti_obj (inp ob)) = Some j \<and> job_id j = ti_uuid (inp ob) \<and> job_status j \<in> {J_COMPLETED, J_FAILED}
       \<and> (\<forall>ck dflt. snd (get_memory ops ck (''job_execution:'' @ ti_uuid (inp ob)) dflt ''short-term'' (remembered ops cks (w_saved w) m))
            = Inr (PDict [(''result'', job_result j), (''error'', opt_str (job_error j)), (''status'', PStr (job_status_value (job_status j)))]))"
    if ob: "ob \<in> set (due_jobs now s)" for ob
  proof -
    have "w_heap (sd_world s') (ti_obj (inp ob)) = Some (run_of (inp ob) (sd_heap s ! ob))"
      "ti_obj (inp ob) \<in> set (jq_objs (w_queue (sd_world s')))"
      using local ob due(2) [OF ob] by auto
    then show ?thesis using bspec [OF conjunct2 [OF drained], of "ti_obj (inp ob)"] by (auto simp: run)
  qed
  then show ?thesis using effect local due(2) by (simp add: count)
qed

text \<open>The demo's scheduled job, due at once, with a target that returns 5\<close>

definition demo_ticked :: scheduler where
  "demo_ticked = fst (sched_tick demo_sched_env 10 demo_input (demo_sched None))"

definition demo_rounds :: "round_input list" where
  "demo_rounds = [(\<lambda>_. Inr (PInt 5), 10, 11)]"

theorem scheduled_runs_remembered_witness:
  "\<exists>j. w_heap (worker_rounds full_client demo_rounds (sd_world demo_ticked)) 7 = Some j \<and> job_id j = ''x''
     \<and> job_status j \<in> {J_COMPLETED, J_FAILED}"
proof -
  have c: "c_execution (se_client demo_sched_env)" "c_save_memory (se_client demo_sched_env)" "se_client demo_sched_env = full_client"
    by (simp_all add: demo_sched_env_def full_client_def)
  have run: "service_run demo_sched_env (demo_sched None) (sys_init\<lparr>sy_w := sd_world (demo_sched None)\<rparr>)"
    unfolding demo_sched_def by (rule service_run.schedule [OF service_run.start refl])
  have w: "w_heap (sd_world (demo_sched None)) = Map.empty" "w_nodes (sd_world (demo_sched None)) = []"
      "jq_objs (w_queue (sd_world (demo_sched None))) = []" "jq_size (w_queue (sd_world (demo_sched None))) = 0"
    by (simp_all add: demo_sched_def schedule_world sd_init_def w_init_def jq_init_def jq_objs_def jq_size_def)
  have fresh: "fresh_inputs demo_sched_env demo_input (due_jobs 10 (demo_sched None)) (demo_sched None)"
    by (simp add: demo_due w known_def demo_input_def)
  have "trigger_error demo_sched_env (demo_input 0) (demo_job None) = None"
    by (simp add: trigger_error_def calculate_next_run_def next_run_def demo_job_def demo_raw_def)
  then have "snd (sched_tick demo_sched_env 10 demo_input (demo_sched None)) = None"
    using trigger_job_effect(1) [OF c(1), of "demo_input 0" 0 "demo_sched None"]
    by (simp add: sched_tick_def demo_due demo_sched_simps case_prod_beta)
  then have tick: "sched_tick demo_sched_env 10 demo_input (demo_sched None) = (demo_ticked, None)"
    by (simp add: demo_ticked_def prod_eq_iff)
  have ticked: "demo_ticked = fst (trigger_job demo_sched_env (demo_input 0) 0 (demo_sched None))"
    using tick by (auto simp: sched_tick_def demo_due demo_ticked_def case_prod_beta split: option.splits)
  note local = created_local [OF w(2), of demo_sched_env "demo_input 0" "demo_job None"]
  have obj: "ti_obj (demo_input 0) = 7" by (simp add: demo_input_def)
  have "w_heap (sd_world demo_ticked) 7 = Some (run_of (demo_input 0) (demo_job None))"
    "set (jq_objs (w_queue (sd_world demo_ticked))) = {7}" "jq_size (w_queue (sd_world demo_ticked)) = 1"
    unfolding ticked trigger_world [OF c(1)] demo_sched_simps nth_Cons_0 local by (simp_all add: obj w)
  moreover have "retries_left (sd_world demo_ticked) 7 = 0"
    unfolding retries_left_def calculation(1) by (simp add: run_of_def mk_job_def Let_def demo_job_def demo_raw_def)
  ultimately have "work (sd_world demo_ticked) \<le> length demo_rounds"
    by (simp add: work_def demo_rounds_def)
  note remembered = scheduled_runs_remembered [OF run c(1,2) w(2) fresh tick this refl, of "client_memories [] ms_init"
      "replicate (length (w_saved (worker_rounds full_client demo_rounds (sd_world demo_ticked)))) (demo_clock, None)" mem_ops]
  have "wf_dict (mm_data (cm_short (client_memories [] ms_init)))"
    by (simp add: client_memories_def short_term_init_def mm_init_def)
  then show ?thesis using remembered by (auto simp: c(3) demo_due demo_input_def)
qed

end
