(* ===== verification/EventBus.thy ===== *)
theory EventBus
  imports PyDateTime
begin

text \<open>
  \<open>yasin_core/events\<close>: the event object (\<open>event.py\<close>) and the event bus (\<open>event_bus.py\<close>). Handlers
  and filters are identified by numbers; what a handler does when it is called, to the bus
  included, is a parameter.
\<close>

section \<open>Events\<close>

record event =
  ev_name :: string
  ev_payload :: pyval
  ev_metadata :: pydict
  ev_timestamp :: datetime
  ev_id :: string

definition add_missing :: "string \<Rightarrow> pyval \<Rightarrow> pydict \<Rightarrow> pydict" where
  "add_missing k v d = (if dict_has d k then d else d @ [(k, v)])"

text \<open>\<open>now\<close> and \<open>uuid\<close> are the clock and the fresh id of the call.\<close>

definition mk_event ::
  "string \<Rightarrow> pyval \<Rightarrow> pydict option \<Rightarrow> datetime option \<Rightarrow> string option \<Rightarrow> datetime \<Rightarrow> string \<Rightarrow> event" where
  "mk_event name payload metadata timestamp event_id now uuid =
     (let ts = (case timestamp of Some t \<Rightarrow> t | None \<Rightarrow> now);
          eid = (case event_id of Some i \<Rightarrow> if i = [] then uuid else i | None \<Rightarrow> uuid);
          meta = (case metadata of Some d \<Rightarrow> d | None \<Rightarrow> [])
      in \<lparr> ev_name = name,
           ev_payload = (if payload = PNone then PDict [] else payload),
           ev_metadata = add_missing ''timestamp'' (PStr (isoformat ts))
                           (add_missing ''event_id'' (PStr eid) meta),
           ev_timestamp = ts, ev_id = eid \<rparr>)"

text \<open>The dictionary part of the object: an event is a \<open>dict\<close> with the payload's entries.\<close>

definition ev_items :: "event \<Rightarrow> pydict" where
  "ev_items e = (case ev_payload e of PDict d \<Rightarrow> d | _ \<Rightarrow> [])"

text \<open>The dictionary form of an event, with the types its keys have; \<open>None\<close> is a missing key.\<close>

record event_data =
  ed_event_id :: "string option"
  ed_name :: "string option"
  ed_payload :: pyval
  ed_metadata :: "pydict option"
  ed_timestamp :: "string option"

definition event_to_dict :: "event \<Rightarrow> event_data" where
  "event_to_dict e =
     \<lparr> ed_event_id = Some (ev_id e), ed_name = Some (ev_name e), ed_payload = ev_payload e,
       ed_metadata = Some (ev_metadata e), ed_timestamp = Some (isoformat (ev_timestamp e)) \<rparr>"

definition event_from_dict :: "event_data \<Rightarrow> datetime \<Rightarrow> string \<Rightarrow> event" where
  "event_from_dict d now uuid =
     (let ts = (case ed_timestamp d of Some s \<Rightarrow> if s = [] then None else fromisoformat s | None \<Rightarrow> None)
      in mk_event (case ed_name d of Some n \<Rightarrow> n | None \<Rightarrow> ''unknown'') (ed_payload d) (ed_metadata d)
           ts (ed_event_id d) now uuid)"

definition event_eq :: "event \<Rightarrow> event \<Rightarrow> bool" where
  "event_eq a b \<longleftrightarrow> ev_id a = ev_id b"

section \<open>The bus\<close>

record subscription =
  sb_handler :: nat
  sb_filter :: "nat option"
  sb_async :: bool

record event_bus =
  eb_subs :: "(string \<times> subscription list) list"
  eb_listeners :: "(string \<times> nat list) list"
  eb_history :: "event list"
  eb_max :: nat
  eb_executor :: bool
  eb_shutdown :: bool

definition bus_init :: "nat \<Rightarrow> event_bus" where
  "bus_init n = \<lparr> eb_subs = [], eb_listeners = [], eb_history = [], eb_max = n,
                  eb_executor = True, eb_shutdown = False \<rparr>"

definition entries :: "('k \<times> 'v list) list \<Rightarrow> 'k \<Rightarrow> 'v list" where
  "entries d k = (case map_of d k of Some xs \<Rightarrow> xs | None \<Rightarrow> [])"

definition subscribe ::
  "string \<Rightarrow> nat \<Rightarrow> nat option \<Rightarrow> bool \<Rightarrow> event_bus \<Rightarrow> event_bus" where
  "subscribe ev h f async b =
     (let subs = entries (eb_subs b) ev
      in if h \<in> sb_handler ` set subs
         then b\<lparr>eb_subs := AList.update ev subs (eb_subs b)\<rparr>
         else b\<lparr>eb_subs := AList.update ev
                   (subs @ [\<lparr> sb_handler = h, sb_filter = f, sb_async = async \<rparr>]) (eb_subs b),
                eb_listeners := AList.update ev (entries (eb_listeners b) ev @ [h]) (eb_listeners b)\<rparr>)"

text \<open>\<open>d[k] = [x for x in d[k] if ...]\<close>, and the key is deleted when nothing is left.\<close>

definition prune :: "('v \<Rightarrow> bool) \<Rightarrow> 'k \<Rightarrow> ('k \<times> 'v list) list \<Rightarrow> ('k \<times> 'v list) list" where
  "prune P k d =
     (case map_of d k of
        None \<Rightarrow> d
      | Some xs \<Rightarrow> if filter P xs = [] then AList.delete k d else AList.update k (filter P xs) d)"

definition unsubscribe :: "string \<Rightarrow> nat \<Rightarrow> event_bus \<Rightarrow> event_bus" where
  "unsubscribe ev h b =
     b\<lparr>eb_subs := prune (\<lambda>s. sb_handler s \<noteq> h) ev (eb_subs b),
       eb_listeners := prune (\<lambda>x. x \<noteq> h) ev (eb_listeners b)\<rparr>"

definition bus_clear :: "event_bus \<Rightarrow> event_bus" where
  "bus_clear b = b\<lparr>eb_subs := [], eb_listeners := []\<rparr>"

definition bus_reset :: "event_bus \<Rightarrow> event_bus" where
  "bus_reset b = b\<lparr>eb_executor := False, eb_shutdown := False\<rparr>"

definition bus_shutdown :: "event_bus \<Rightarrow> event_bus" where
  "bus_shutdown b = (if eb_executor b then b\<lparr>eb_executor := False, eb_shutdown := True\<rparr> else b)"

definition get_executor :: "event_bus \<Rightarrow> exn + event_bus" where
  "get_executor b =
     (if eb_shutdown b then Inl (Exn RuntimeErr ''Cannot get executor: EventBus is shut down.'')
      else Inr (b\<lparr>eb_executor := True\<rparr>))"

section \<open>Publication\<close>

text \<open>
  The world of a publication: which handlers are coroutine functions, what the filters answer, if
  an asyncio loop runs in the thread, and what a handler called at once does to the bus and raises.
\<close>

record bus_env =
  be_coro :: "nat \<Rightarrow> bool"
  be_filter :: "nat \<Rightarrow> event \<Rightarrow> exn + bool"
  be_loop :: bool
  be_run :: "nat \<Rightarrow> event \<Rightarrow> event_bus \<Rightarrow> event_bus \<times> exn option"

datatype dispatch =
    Called nat "exn option"
  | To_Executor nat
  | To_Loop nat
  | Dropped nat

definition submit_to_executor :: "nat \<Rightarrow> event_bus \<Rightarrow> event_bus \<times> dispatch list" where
  "submit_to_executor h b =
     (case get_executor b of
        Inl _ \<Rightarrow> (b, [Dropped h])
      | Inr b1 \<Rightarrow> (b1, [To_Executor h]))"

definition passes :: "bus_env \<Rightarrow> event \<Rightarrow> subscription \<Rightarrow> bool" where
  "passes env e s =
     (case sb_filter s of
        None \<Rightarrow> True
      | Some f \<Rightarrow> (case be_filter env f e of Inr r \<Rightarrow> r | Inl _ \<Rightarrow> False))"

definition dispatch_one ::
  "bus_env \<Rightarrow> event \<Rightarrow> subscription \<Rightarrow> event_bus \<Rightarrow> event_bus \<times> dispatch list" where
  "dispatch_one env e s b =
     (if \<not> passes env e s then (b, [])
      else if be_coro env (sb_handler s) then
        (if be_loop env then (b, [To_Loop (sb_handler s)]) else submit_to_executor (sb_handler s) b)
      else if sb_async s then submit_to_executor (sb_handler s) b
      else case be_run env (sb_handler s) e b of (b1, r) \<Rightarrow> (b1, [Called (sb_handler s) r]))"

fun dispatch_all ::
  "bus_env \<Rightarrow> event \<Rightarrow> subscription list \<Rightarrow> event_bus \<Rightarrow> event_bus \<times> dispatch list" where
  "dispatch_all env e [] b = (b, [])"
| "dispatch_all env e (s # ss) b =
     (case dispatch_one env e s b of (b1, ds) \<Rightarrow>
        (case dispatch_all env e ss b1 of (b2, ds') \<Rightarrow> (b2, ds @ ds')))"

text \<open>The subscriptions an event goes to, as they are when it is published.\<close>

definition recipients :: "event \<Rightarrow> event_bus \<Rightarrow> subscription list" where
  "recipients e b = entries (eb_subs b) (ev_name e) @ entries (eb_subs b) ''*''"

definition publish :: "bus_env \<Rightarrow> event \<Rightarrow> event_bus \<Rightarrow> event_bus \<times> dispatch list" where
  "publish env e b =
     (let b1 = b\<lparr>eb_history := bounded_push (eb_max b) (eb_history b) e\<rparr>
      in dispatch_all env e (recipients e b1) b1)"

text \<open>\<open>publish(name, data, **metadata)\<close> with a name instead of an event object.\<close>

definition publish_named ::
  "bus_env \<Rightarrow> string \<Rightarrow> pyval \<Rightarrow> pydict \<Rightarrow> datetime \<Rightarrow> string \<Rightarrow> event_bus \<Rightarrow> event_bus \<times> dispatch list" where
  "publish_named env name data metadata now uuid b =
     publish env (mk_event name data (Some metadata) None None now uuid) b"

text \<open>\<open>async_publish\<close> runs inside a loop, so coroutine handlers always become tasks of that loop.\<close>

definition async_publish :: "bus_env \<Rightarrow> event \<Rightarrow> event_bus \<Rightarrow> event_bus \<times> dispatch list" where
  "async_publish env e b = publish (env\<lparr>be_loop := True\<rparr>) e b"

definition bus_history :: "int option \<Rightarrow> string option \<Rightarrow> event_bus \<Rightarrow> event list" where
  "bus_history limit name b =
     (let evs = (case name of
                   Some n \<Rightarrow> if n = [] then eb_history b else filter (\<lambda>e. ev_name e = n) (eb_history b)
                 | None \<Rightarrow> eb_history b)
      in case limit of Some n \<Rightarrow> last_slice n evs | None \<Rightarrow> evs)"

definition bus_clear_history :: "event_bus \<Rightarrow> event_bus" where
  "bus_clear_history b = b\<lparr>eb_history := []\<rparr>"

section \<open>Serialisation of events\<close>

lemma add_missing_has [simp]: "dict_has d k \<Longrightarrow> add_missing k v d = d"
  by (simp add: add_missing_def)

lemma add_missing_keys [simp]: "set (dict_keys (add_missing k v d)) = insert k (set (dict_keys d))"
  by (auto simp: add_missing_def)

lemma mk_event_stable:
  assumes "e = mk_event name payload metadata timestamp event_id now uuid" "ev_id e \<noteq> []"
  shows "mk_event (ev_name e) (ev_payload e) (Some (ev_metadata e)) (Some (ev_timestamp e)) (Some (ev_id e)) now' uuid' = e"
proof -
  have keys: "dict_has (ev_metadata e) ''event_id''" "dict_has (ev_metadata e) ''timestamp''"
    unfolding assms(1) mk_event_def Let_def event.select_convs add_missing_keys by simp_all
  have "ev_payload e \<noteq> PNone"
    by (simp add: assms(1) mk_event_def Let_def)
  then show ?thesis
    using keys assms(2) by (simp add: mk_event_def del: set_map)
qed

lemma event_from_to_dict:
  assumes "e = mk_event name payload metadata timestamp event_id now uuid" "ev_id e \<noteq> []"
    and "valid_datetime (ev_timestamp e)"
  shows "event_from_dict (event_to_dict e) now' uuid' = e"
proof -
  have "isoformat (ev_timestamp e) \<noteq> []" by (simp add: isoformat_def)
  then show ?thesis
    using mk_event_stable [OF assms(1,2)] fromisoformat_isoformat [OF assms(3)]
    by (simp add: event_from_dict_def event_to_dict_def)
qed

section \<open>Delivery\<close>

fun dispatched :: "dispatch \<Rightarrow> nat" where
  "dispatched (Called h r) = h"
| "dispatched (To_Executor h) = h"
| "dispatched (To_Loop h) = h"
| "dispatched (Dropped h) = h"

lemma dispatch_one_handlers:
  "map dispatched (snd (dispatch_one env e s b)) = (if passes env e s then [sb_handler s] else [])"
  by (simp add: dispatch_one_def submit_to_executor_def get_executor_def split: prod.split)

lemma dispatch_all_handlers:
  "map dispatched (snd (dispatch_all env e ss b)) = map sb_handler (filter (passes env e) ss)"
proof (induction ss arbitrary: b)
  case (Cons s ss)
  then show ?case
    using dispatch_one_handlers [of env e s b] by (auto simp: case_prod_beta)
qed simp

text \<open>How a subscription that passes its filter is served.\<close>

definition served_as :: "bus_env \<Rightarrow> subscription \<Rightarrow> dispatch \<Rightarrow> bool" where
  "served_as env s d =
     (case d of
        Called h r \<Rightarrow> h = sb_handler s \<and> \<not> be_coro env h \<and> \<not> sb_async s
      | To_Loop h \<Rightarrow> h = sb_handler s \<and> be_coro env h \<and> be_loop env
      | To_Executor h \<Rightarrow> h = sb_handler s \<and> (if be_coro env h then \<not> be_loop env else sb_async s)
      | Dropped h \<Rightarrow> h = sb_handler s \<and> (if be_coro env h then \<not> be_loop env else sb_async s))"

lemma dispatch_one_served:
  "passes env e s \<Longrightarrow> \<exists>b' d. dispatch_one env e s b = (b', [d]) \<and> served_as env s d"
  by (auto simp: dispatch_one_def submit_to_executor_def get_executor_def served_as_def split: prod.split)

lemma dispatch_all_served:
  "list_all2 (served_as env) (filter (passes env e) ss) (snd (dispatch_all env e ss b))"
proof (induction ss arbitrary: b)
  case (Cons s ss)
  show ?case
  proof (cases "passes env e s")
    case True
    then obtain b' d where "dispatch_one env e s b = (b', [d])" "served_as env s d"
      using dispatch_one_served by blast
    then show ?thesis
      using True Cons [of b'] by (simp add: case_prod_beta)
  next
    case False
    then show ?thesis
      using Cons [of b] by (simp add: dispatch_one_def case_prod_beta)
  qed
qed simp

section \<open>The invariant of the bus\<close>

text \<open>
  The simple listener table mirrors the subscriptions, a handler is subscribed to an event at most
  once, no event is left with an empty list, and the history is bounded.
\<close>

definition bus_ok :: "event_bus \<Rightarrow> bool" where
  "bus_ok b \<longleftrightarrow> wf_dict (eb_subs b) \<and> wf_dict (eb_listeners b)
     \<and> dict_keys (eb_listeners b) = dict_keys (eb_subs b)
     \<and> (\<forall>ev. entries (eb_listeners b) ev = map sb_handler (entries (eb_subs b) ev))
     \<and> (\<forall>ev. distinct (map sb_handler (entries (eb_subs b) ev)))
     \<and> (\<forall>ev \<in> set (dict_keys (eb_subs b)). entries (eb_subs b) ev \<noteq> [])
     \<and> length (eb_history b) \<le> eb_max b"

lemma entries_update: "entries (AList.update k xs d) k' = (if k' = k then xs else entries d k')"
  by (simp add: entries_def dict_simps)

lemma entries_delete: "entries (AList.delete k d) k' = (if k' = k then [] else entries d k')"
  by (simp add: entries_def dict_simps)

lemma entries_prune: "entries (prune P k d) k' = (if k' = k then filter P (entries d k) else entries d k')"
  by (auto simp: prune_def entries_update entries_delete split: option.split) (auto simp: entries_def)

lemma wf_prune [simp]: "wf_dict d \<Longrightarrow> wf_dict (prune P k d)"
  by (auto simp: prune_def split: option.split)

lemma keys_pruned_order: "dict_keys (AList.delete k d) = filter (\<lambda>x. x \<noteq> k) (dict_keys d)"
  by (induction d) auto

lemma keys_prune:
  "dict_keys (prune P k d) = (if filter P (entries d k) = [] then filter (\<lambda>x. x \<noteq> k) (dict_keys d) else dict_keys d)"
proof (cases "map_of d k")
  case None
  then have "k \<notin> fst ` set d"
    by (simp add: map_of_eq_None_iff)
  then have "filter (\<lambda>x. x \<noteq> k) (dict_keys d) = dict_keys d"
    by (induction d) auto
  then show ?thesis using None by (simp add: prune_def entries_def)
next
  case (Some xs)
  then have "dict_has d k" by (metis dict_has_iff option.distinct(1))
  then show ?thesis
    using Some by (simp add: prune_def entries_def keys_pruned_order keys_update_order del: set_map)
qed

lemma entries_missing: "\<not> dict_has d k \<Longrightarrow> entries d k = []"
  by (simp add: entries_def dict_has_iff del: set_map)

lemma subscribe_known: "bus_ok b \<Longrightarrow> h \<in> sb_handler ` set (entries (eb_subs b) ev) \<Longrightarrow> subscribe ev h f async b = b"
  by (cases "map_of (eb_subs b) ev") (auto simp: subscribe_def entries_def bus_ok_def Let_def AList.update_triv)

lemma subscribe_ok: assumes "bus_ok b" shows "bus_ok (subscribe ev h f async b)"
proof (cases "h \<in> sb_handler ` set (entries (eb_subs b) ev)")
  case True
  then show ?thesis using subscribe_known [OF assms] assms by simp
next
  case False
  then have "h \<notin> set (map sb_handler (entries (eb_subs b) ev))" "\<forall>x \<in> set (entries (eb_subs b) ev). sb_handler x \<noteq> h"
    by auto
  moreover have "dict_keys (eb_listeners b) = dict_keys (eb_subs b)"
    using assms by (simp add: bus_ok_def)
  moreover have "dict_has (eb_listeners b) ev = dict_has (eb_subs b) ev"
    using calculation by metis
  ultimately show ?thesis
    using assms
    by (auto simp: bus_ok_def subscribe_def Let_def entries_update keys_update_order dict_simps simp del: set_map)
qed

lemma unsubscribe_ok: assumes "bus_ok b" shows "bus_ok (unsubscribe ev h b)"
proof -
  have f: "filter (\<lambda>x. x \<noteq> h) (map sb_handler xs) = map sb_handler (filter (\<lambda>s. sb_handler s \<noteq> h) xs)" for xs
    by (induction xs) auto
  show ?thesis
    using assms unfolding bus_ok_def unsubscribe_def
    by (auto simp: entries_prune keys_prune f distinct_map_filter simp del: set_map)
qed

lemma history_ok: "bus_ok b \<Longrightarrow> bus_ok (b\<lparr>eb_history := bounded_push (eb_max b) (eb_history b) e\<rparr>)"
  by (simp add: bus_ok_def bounded_push_length)

lemma executor_ok: "bus_ok (b\<lparr>eb_executor := x\<rparr>) = bus_ok b"
  by (simp add: bus_ok_def)

lemma bus_clear_ok: "bus_ok b \<Longrightarrow> bus_ok (bus_clear b)"
  by (simp add: bus_ok_def bus_clear_def entries_def)

lemma reset_ok: "bus_ok b \<Longrightarrow> bus_ok (bus_reset b)"
  by (simp add: bus_ok_def bus_reset_def)

lemma shutdown_ok: "bus_ok b \<Longrightarrow> bus_ok (bus_shutdown b)"
  by (simp add: bus_ok_def bus_shutdown_def)

lemma clear_history_ok: "bus_ok b \<Longrightarrow> bus_ok (bus_clear_history b)"
  by (simp add: bus_ok_def bus_clear_history_def)

lemma submit_ok: "bus_ok b \<Longrightarrow> bus_ok (fst (submit_to_executor h b))"
  by (simp add: submit_to_executor_def get_executor_def executor_ok)

lemma dispatch_all_ok:
  assumes "\<And>h e b. bus_ok b \<Longrightarrow> bus_ok (fst (be_run env h e b))"
  shows "bus_ok b \<Longrightarrow> bus_ok (fst (dispatch_all env e ss b))"
proof (induction ss arbitrary: b)
  case (Cons s ss)
  have "bus_ok (fst (dispatch_one env e s b))"
    using Cons.prems assms [of b "sb_handler s" e]
    by (auto simp: dispatch_one_def submit_ok split: prod.split)
  then show ?case
    using Cons.IH by (simp add: case_prod_beta)
qed simp

lemma publish_ok:
  assumes "\<And>h e b. bus_ok b \<Longrightarrow> bus_ok (fst (be_run env h e b))" "bus_ok b"
  shows "bus_ok (fst (publish env e b))"
  using dispatch_all_ok [where env = env, OF assms(1)] history_ok [OF assms(2)] by (simp add: publish_def Let_def)

section \<open>Properties\<close>


text \<open>
  The bus keeps its tables in step: subscription, unsubscription, clearing, reset, shutdown
  and publication preserve that the listener table mirrors the subscriptions, that a handler is
  subscribed to an event at most once and that the history is bounded, whatever handlers do to the
  bus through its operations while an event is delivered.
\<close>

theorem bus_invariant:
  assumes "bus_ok b" "\<forall>h e b. bus_ok b \<longrightarrow> bus_ok (fst (be_run env h e b))"
  shows "bus_ok (subscribe ev h f async b) \<and> bus_ok (unsubscribe ev h b) \<and> bus_ok (bus_clear b)
    \<and> bus_ok (bus_reset b) \<and> bus_ok (bus_shutdown b) \<and> bus_ok (bus_clear_history b)
    \<and> bus_ok (fst (publish env e b)) \<and> bus_ok (fst (async_publish env e b))"
proof (intro conjI)
  show "bus_ok (fst (publish env e b))"
    using publish_ok [of env b e] assms by simp
  show "bus_ok (fst (async_publish env e b))"
    using publish_ok [of "env\<lparr>be_loop := True\<rparr>" b e] assms by (simp add: async_publish_def)
qed (use assms(1) in \<open>simp_all add: subscribe_ok unsubscribe_ok bus_clear_ok reset_ok shutdown_ok clear_history_ok\<close>)

lemma dispatch_all_down:
  assumes "\<And>h e b. eb_shutdown (fst (be_run env h e b)) = eb_shutdown b"
  shows "eb_shutdown b \<Longrightarrow> To_Executor h \<notin> set (snd (dispatch_all env e ss b))"
proof (induction ss arbitrary: b)
  case (Cons s ss)
  have "eb_shutdown (fst (dispatch_one env e s b)) \<and> To_Executor h \<notin> set (snd (dispatch_one env e s b))"
    using Cons.prems assms [of "sb_handler s" e b]
    by (auto simp: dispatch_one_def submit_to_executor_def get_executor_def split: prod.split)
  then show ?case
    using Cons.IH by (simp add: case_prod_beta)
qed simp

text \<open>
  Shutdown and restart, when handlers leave the shutdown flag alone: after a shutdown of a bus
  that has an executor no publication hands anything to an executor; but a bus that was reset (as a
  runtime start does) and has not used its executor since is not shut down by \<open>shutdown\<close>: a
  publication afterwards still hands an asynchronous handler to a new executor.
\<close>

theorem shutdown_effect:
  assumes "\<forall>h e b. eb_shutdown (fst (be_run env h e b)) = eb_shutdown b"
  shows "(eb_executor b \<longrightarrow> (\<forall>h. To_Executor h \<notin> set (snd (publish env e (bus_shutdown b)))))
   \<and> (\<forall>s. recipients e b = [s] \<longrightarrow> passes env e s \<longrightarrow> sb_async s \<longrightarrow> \<not> be_coro env (sb_handler s) \<longrightarrow>
        snd (publish env e (bus_shutdown (bus_reset b))) = [To_Executor (sb_handler s)])"
proof (intro conjI allI impI)
  fix h assume "eb_executor b"
  then show "To_Executor h \<notin> set (snd (publish env e (bus_shutdown b)))"
    using dispatch_all_down [of env] assms by (simp add: publish_def Let_def bus_shutdown_def)
next
  fix s assume s: "recipients e b = [s]" "passes env e s" "sb_async s" "\<not> be_coro env (sb_handler s)"
  have "recipients e (b\<lparr>eb_executor := False, eb_shutdown := False, eb_history := hs\<rparr>) = [s]" for hs
    using s(1) by (simp add: recipients_def)
  then show "snd (publish env e (bus_shutdown (bus_reset b))) = [To_Executor (sb_handler s)]"
    using s(2-4) by (simp add: publish_def Let_def bus_shutdown_def bus_reset_def dispatch_one_def
        submit_to_executor_def get_executor_def recipients_def)
qed

text \<open>
  An event survives its dictionary form: what \<open>from_dict\<close> makes of the result of \<open>to_dict\<close> is
  the same event, in all its fields, whatever clock and fresh ids the call sees.
\<close>

theorem event_roundtrip:
  assumes "e = mk_event name payload metadata timestamp event_id now uuid" "ev_id e \<noteq> []"
    and "valid_datetime (ev_timestamp e)"
  shows "event_from_dict (event_to_dict e) now' uuid' = e \<and> event_eq (event_from_dict (event_to_dict e) now' uuid') e"
  using event_from_to_dict [OF assms] by (simp add: event_eq_def)

text \<open>
  The history is a sliding window: after any sequence of publications to handlers that do
  not themselves publish, it holds exactly the newest events, in order, as many as the bus keeps.
\<close>

theorem event_history_window:
  assumes "\<forall>h e b. eb_history (fst (be_run env h e b)) = eb_history b \<and> eb_max (fst (be_run env h e b)) = eb_max b"
  shows "eb_history (fold (\<lambda>e b. fst (publish env e b)) es (b\<lparr>eb_history := []\<rparr>)) = drop (length es - eb_max b) es"
proof -
  have one: "eb_history (fst (dispatch_one env e s b)) = eb_history b \<and> eb_max (fst (dispatch_one env e s b)) = eb_max b"
    for e s b
    using assms by (auto simp: dispatch_one_def submit_to_executor_def get_executor_def split: prod.split) (metis fst_conv)+
  have all: "eb_history (fst (dispatch_all env e ss b)) = eb_history b \<and> eb_max (fst (dispatch_all env e ss b)) = eb_max b"
    for e ss b
    by (induction ss arbitrary: b) (simp_all add: case_prod_beta one)
  have pub: "eb_history (fst (publish env e b)) = bounded_push (eb_max b) (eb_history b) e
      \<and> eb_max (fst (publish env e b)) = eb_max b" for e b
    by (simp add: publish_def Let_def all)
  have "eb_history (fold (\<lambda>e b. fst (publish env e b)) es b) = foldl (bounded_push (eb_max b)) (eb_history b) es"
    for b
    by (induction es arbitrary: b) (simp_all add: pub)
  then show ?thesis
    using foldl_bounded_push [of "eb_max b" "[]" es] by simp
qed

section \<open>Witnesses\<close>

text \<open>Handler 1 unsubscribes itself from \<open>a\<close> and raises, all others return.\<close>

definition demo_bus_env :: bus_env where
  "demo_bus_env = \<lparr> be_coro = (\<lambda>h. h = 2), be_filter = (\<lambda>f e. Inr True), be_loop = False,
     be_run = (\<lambda>h e b. if h = 1 then (unsubscribe ''a'' 1 b, Some (Exn ValueErr ''x'')) else (b, None)) \<rparr>"

definition quiet_bus_env :: bus_env where
  "quiet_bus_env = \<lparr> be_coro = (\<lambda>h. False), be_filter = (\<lambda>f e. Inr True), be_loop = False,
     be_run = (\<lambda>h e b. (b, None)) \<rparr>"

definition demo_time :: datetime where
  "demo_time = \<lparr> dt_year = 2024, dt_month = 2, dt_day = 29, dt_hour = 23, dt_minute = 59, dt_second = 5, dt_micro = 120 \<rparr>"

theorem bus_invariant_witness:
  "bus_ok (fst (publish demo_bus_env (mk_event ''a'' PNone None None None demo_time ''u'')
     (subscribe ''a'' 1 None False (bus_init 100))))"
proof -
  have "bus_ok (bus_init 100)"
    by (simp add: bus_ok_def bus_init_def entries_def)
  then have "bus_ok (subscribe ''a'' 1 None False (bus_init 100))"
    by (rule subscribe_ok)
  then show ?thesis
    using bus_invariant [of "subscribe ''a'' 1 None False (bus_init 100)" demo_bus_env]
    by (auto simp: demo_bus_env_def unsubscribe_ok)
qed

theorem event_roundtrip_witness:
  "event_from_dict (event_to_dict (mk_event ''a'' (PInt 1) None (Some demo_time) None demo_time ''u'')) demo_time ''v''
     = mk_event ''a'' (PInt 1) None (Some demo_time) None demo_time ''u''"
proof -
  have "valid_datetime demo_time"
    by (simp add: valid_datetime_def demo_time_def days_in_month_def month_lengths_def leap_year_def)
  then show ?thesis
    using event_roundtrip [of "mk_event ''a'' (PInt 1) None (Some demo_time) None demo_time ''u''" "''a''" "PInt 1"
        None "Some demo_time" None demo_time "''u''" demo_time "''v''"]
    by (simp add: mk_event_def Let_def)
qed

theorem event_history_window_witness:
  "eb_history (fold (\<lambda>e b. fst (publish quiet_bus_env e b))
     [mk_event ''a'' PNone None None None demo_time ''u'', mk_event ''b'' PNone None None None demo_time ''v'']
     (bus_init 1)) = [mk_event ''b'' PNone None None None demo_time ''v'']"
proof -
  have "(bus_init 1)\<lparr>eb_history := []\<rparr> = bus_init 1" "eb_max (bus_init 1) = 1"
    by (simp_all add: bus_init_def)
  then show ?thesis
    using event_history_window [of quiet_bus_env "[mk_event ''a'' PNone None None None demo_time ''u'',
        mk_event ''b'' PNone None None None demo_time ''v'']" "bus_init 1"]
    by (simp add: quiet_bus_env_def)
qed


theorem shutdown_effect_witness:
  "snd (publish quiet_bus_env (mk_event ''a'' PNone None None None demo_time ''u'')
     (bus_shutdown (bus_reset (subscribe ''a'' 1 None True (bus_init 100))))) = [To_Executor 1]"
  using shutdown_effect [of quiet_bus_env "subscribe ''a'' 1 None True (bus_init 100)"
      "mk_event ''a'' PNone None None None demo_time ''u''"]
  by (simp add: recipients_def subscribe_def bus_init_def entries_def passes_def mk_event_def Let_def quiet_bus_env_def)

end
