(* ===== verification/ServiceOrder.thy ===== *)
theory ServiceOrder
  imports CorePrelude "HOL-Library.List_Lexorder" "HOL-Library.Char_ord"
begin

text \<open>
  The start-up order of services: \<open>_get_startup_order\<close> of
  \<open>yasin_core/runtime/service_manager.py\<close>. Services and their dependency lists are given by an
  association list in registration order. The theory holds the check for missing dependencies,
  the dependency graph with its in-degrees, and Kahn's algorithm on a sorted queue, with the
  proof that it returns the topological order that always picks the least ready name, and that
  it fails exactly on cyclic dependencies. Names are compared by code points, as Python does.
\<close>

section \<open>The algorithm\<close>

type_synonym dep_table = "(string \<times> string list) list"

text \<open>The pairs of a service and a declared dependency, in the order of the nested loops.\<close>

definition dep_edges :: "dep_table \<Rightarrow> (string \<times> string) list" where
  "dep_edges ds = concat (map (\<lambda>(name, deps). map (\<lambda>dep. (name, dep)) deps) ds)"

definition missing_dependency :: "dep_table \<Rightarrow> (string \<times> string) option" where
  "missing_dependency ds = List.find (\<lambda>(name, dep). \<not> dict_has ds dep) (dep_edges ds)"

definition neighbors :: "dep_table \<Rightarrow> string \<Rightarrow> string list" where
  "neighbors g x = (case map_of g x of Some ns \<Rightarrow> ns | None \<Rightarrow> [])"

definition add_edge :: "string \<times> string \<Rightarrow> dep_table \<times> (string \<Rightarrow> int) \<Rightarrow> dep_table \<times> (string \<Rightarrow> int)" where
  "add_edge e s =
     (case e of (name, dep) \<Rightarrow> case s of (graph, indegree) \<Rightarrow>
        (AList.update dep (neighbors graph dep @ [name]) graph,
         indegree(name := indegree name + 1)))"

definition build_graph :: "dep_table \<Rightarrow> dep_table \<times> (string \<Rightarrow> int)" where
  "build_graph ds = fold add_edge (dep_edges ds) (map (\<lambda>n. (n, [])) (dict_keys ds), (\<lambda>_. 0))"

fun relax :: "string list \<Rightarrow> (string \<Rightarrow> int) \<Rightarrow> string list \<Rightarrow> (string \<Rightarrow> int) \<times> string list" where
  "relax [] indegree queue = (indegree, queue)"
| "relax (n # ns) indegree queue =
     (let indegree' = indegree(n := indegree n - 1)
      in relax ns indegree' (if indegree' n = 0 then queue @ [n] else queue))"

definition targets :: "dep_table \<Rightarrow> string set" where
  "targets g = \<Union> (set ` snd ` set g)"

lemma finite_targets [simp, intro]: "finite (targets g)"
  by (simp add: targets_def)

lemma neighbors_targets: "set (neighbors g x) \<subseteq> targets g"
proof (cases "map_of g x")
  case (Some ns)
  then have "(x, ns) \<in> set g" by (rule map_of_SomeD)
  with Some show ?thesis by (force simp: neighbors_def targets_def)
qed (simp add: neighbors_def)

lemma relax_measure:
  assumes "set ns \<subseteq> S" "finite S" "relax ns d q = (d', q')"
  shows "length q' + (\<Sum>x \<in> S. nat (d' x)) \<le> length q + (\<Sum>x \<in> S. nat (d x))"
  using assms(1,3)
proof (induction ns arbitrary: d q)
  case (Cons n ns)
  let ?d = "d(n := d n - 1)"
  let ?q = "if ?d n = 0 then q @ [n] else q"
  have n: "n \<in> S" using Cons.prems(1) by simp
  have "length q' + (\<Sum>x \<in> S. nat (d' x)) \<le> length ?q + (\<Sum>x \<in> S. nat (?d x))"
    using Cons.IH [of ?d ?q] Cons.prems by (simp add: Let_def del: fun_upd_apply)
  also have "(\<Sum>x \<in> S. nat (?d x)) = nat (d n - 1) + (\<Sum>x \<in> S - {n}. nat (d x))"
    using sum.cong [OF refl, of "S - {n}" "\<lambda>x. nat (?d x)" "\<lambda>x. nat (d x)"]
    by (simp add: sum.remove [OF assms(2) n])
  also have "length ?q + (nat (d n - 1) + (\<Sum>x \<in> S - {n}. nat (d x)))
      \<le> length q + (nat (d n) + (\<Sum>x \<in> S - {n}. nat (d x)))"
    by (cases "d n = 1") (simp_all add: nat_mono)
  also have "nat (d n) + (\<Sum>x \<in> S - {n}. nat (d x)) = (\<Sum>x \<in> S. nat (d x))"
    by (rule sum.remove [OF assms(2) n, symmetric])
  finally show ?case .
qed simp

function kahn :: "dep_table \<Rightarrow> string list \<Rightarrow> (string \<Rightarrow> int) \<Rightarrow> string list \<Rightarrow> string list" where
  "kahn g [] indegree order = order"
| "kahn g (node # queue) indegree order =
     (case relax (neighbors g node) indegree queue of
        (indegree', queue') \<Rightarrow> kahn g (sort queue') indegree' (order @ [node]))"
  by pat_completeness auto
termination
  by (relation "measure (\<lambda>(g, queue, indegree, order).
        length queue + (\<Sum>x \<in> targets g. nat (indegree x)))")
    (auto dest!: relax_measure [OF neighbors_targets finite_targets, OF sym])

definition startup_order :: "dep_table \<Rightarrow> exn + string list" where
  "startup_order ds =
     (case missing_dependency ds of
        Some (name, dep) \<Rightarrow>
          Inl (Exn MissingDependencyErr (''Service '' @ quoted name @ '' depends on '' @ quoted dep
                 @ '', which is not registered.''))
      | None \<Rightarrow>
          (case build_graph ds of (graph, indegree) \<Rightarrow>
             let queue = sort (filter (\<lambda>n. indegree n = 0) (dict_keys ds));
                 order = kahn graph queue indegree []
             in if length order < length ds
                then Inl (Exn CircularDependencyErr ''Circular dependency detected among services.'')
                else Inr order))"

section \<open>The graph\<close>

lemma neighbors_update:
  "neighbors (AList.update k v g) x = (if x = k then v else neighbors g x)"
  by (simp add: neighbors_def dict_simps)

lemma add_edge_eq: "add_edge (name, dep) (g, d) =
    (AList.update dep (neighbors g dep @ [name]) g, d(name := d name + 1))"
  by (simp add: add_edge_def)

lemma fold_add_edge:
  "fold add_edge es (g, d) = (g', d') \<Longrightarrow>
     (\<forall>x. neighbors g' x = neighbors g x @ map fst (filter (\<lambda>e. snd e = x) es))
     \<and> (\<forall>x. d' x = d x + int (length (filter (\<lambda>e. fst e = x) es)))"
proof (induction es arbitrary: g d)
  case (Cons e es)
  obtain name dep where e: "e = (name, dep)" by (cases e)
  have "fold add_edge es (AList.update dep (neighbors g dep @ [name]) g, d(name := d name + 1)) = (g', d')"
    using Cons.prems e by (simp add: add_edge_eq del: fun_upd_apply)
  from Cons.IH [OF this] e show ?case
    by (simp add: neighbors_update)
qed simp

lemma neighbors_empty: "neighbors (map (\<lambda>p. (fst p, [])) ds) x = []"
  by (induction ds) (simp_all add: neighbors_def)

lemma dep_edges_Cons: "dep_edges ((name, deps) # ds) = map (Pair name) deps @ dep_edges ds"
  by (simp add: dep_edges_def)

lemma dep_edges_keys: "fst ` set (dep_edges ds) \<subseteq> set (dict_keys ds)"
  by (force simp: dep_edges_def)

lemma neighbors_Cons: "neighbors ((name, deps) # ds) x = (if x = name then deps else neighbors ds x)"
  by (simp add: neighbors_def)

lemma neighbors_not_key: "x \<notin> set (dict_keys ds) \<Longrightarrow> neighbors ds x = []"
  by (simp add: neighbors_def map_of_eq_None_iff split: option.split)
    (metis map_of_eq_None_iff not_Some_eq set_map)

lemma out_edges_count:
  "wf_dict ds \<Longrightarrow> length (filter (\<lambda>e. fst e = x) (dep_edges ds)) = length (neighbors ds x)"
proof (induction ds)
  case (Cons p ds)
  obtain name deps where p: "p = (name, deps)" by (cases p)
  have "neighbors ds name = []"
    using Cons.prems p by (intro neighbors_not_key) (simp add: wf_dict_def)
  then show ?case
    using Cons p by (auto simp: dep_edges_Cons neighbors_Cons wf_dict_def filter_map comp_def)
qed (simp add: dep_edges_def neighbors_def)

lemma in_edges_count:
  "wf_dict ds \<Longrightarrow>
     count_list (map fst (filter (\<lambda>e. snd e = y) (dep_edges ds))) x = count_list (neighbors ds x) y"
proof (induction ds)
  case (Cons p ds)
  obtain name deps where p: "p = (name, deps)" by (cases p)
  have "neighbors ds name = []"
    using Cons.prems p by (intro neighbors_not_key) (simp add: wf_dict_def)
  moreover have "count_list (map fst (filter (\<lambda>e. snd e = y) (map (Pair name) deps))) x
      = (if x = name then count_list deps y else 0)"
    by (induction deps) auto
  ultimately show ?case
    using Cons p by (auto simp: dep_edges_Cons neighbors_Cons wf_dict_def)
qed (simp add: dep_edges_def neighbors_def)

lemma build_graph_spec:
  assumes "wf_dict ds" "build_graph ds = (g, d)"
  shows "d x = int (length (neighbors ds x))"
    and "count_list (neighbors g y) x = count_list (neighbors ds x) y"
  using fold_add_edge [OF assms(2) [unfolded build_graph_def]] out_edges_count [OF assms(1)] in_edges_count [OF assms(1)]
  by (simp_all add: neighbors_empty comp_def)

section \<open>Kahn's algorithm\<close>

lemma relax_spec:
  "relax ns d q = (d', q') \<Longrightarrow>
     (\<forall>x. d' x = d x - int (count_list ns x))
     \<and> (\<exists>hits. q' = q @ hits \<and> distinct hits
          \<and> set hits = {x. 0 < d x \<and> d x \<le> int (count_list ns x)})"
proof (induction ns arbitrary: d q)
  case (Cons n ns)
  let ?d = "d(n := d n - 1)"
  let ?q = "if ?d n = 0 then q @ [n] else q"
  have r: "relax ns ?d ?q = (d', q')"
    using Cons.prems by (simp add: Let_def del: fun_upd_apply)
  obtain hits where h: "q' = ?q @ hits" "distinct hits"
      "set hits = {x. 0 < ?d x \<and> ?d x \<le> int (count_list ns x)}"
    using Cons.IH [OF r] by blast
  have "\<forall>x. d' x = ?d x - int (count_list ns x)"
    using Cons.IH [OF r] by blast
  then have "\<forall>x. d' x = d x - int (count_list (n # ns) x)"
    by simp
  moreover have "\<exists>hits. q' = q @ hits \<and> distinct hits
      \<and> set hits = {x. 0 < d x \<and> d x \<le> int (count_list (n # ns) x)}"
  proof (cases "d n = 1")
    case True
    then show ?thesis
      using h by (intro exI [of _ "n # hits"]) auto
  next
    case False
    then show ?thesis
      using h by (intro exI [of _ hits]) auto
  qed
  ultimately show ?case by blast
qed simp

text \<open>The services that could be initialised next, after those in \<open>xs\<close>.\<close>

definition ready :: "dep_table \<Rightarrow> string list \<Rightarrow> string set" where
  "ready ds xs = {x \<in> set (dict_keys ds). x \<notin> set xs \<and> set (neighbors ds x) \<subseteq> set xs}"

definition greedy :: "dep_table \<Rightarrow> string list \<Rightarrow> bool" where
  "greedy ds xs \<longleftrightarrow> (\<forall>i < length xs. xs ! i \<in> ready ds (take i xs) \<and>
                          (\<forall>y \<in> ready ds (take i xs). xs ! i \<le> y))"

lemma greedy_snoc:
  "greedy ds (xs @ [x]) \<longleftrightarrow> greedy ds xs \<and> x \<in> ready ds xs \<and> (\<forall>y \<in> ready ds xs. x \<le> y)"
  by (auto simp: greedy_def less_Suc_eq nth_append)

lemma greedy_Nil [simp]: "greedy ds []"
  by (simp add: greedy_def)

definition waiting :: "dep_table \<Rightarrow> string list \<Rightarrow> string \<Rightarrow> nat" where
  "waiting ds xs x = length (filter (\<lambda>y. y \<notin> set xs) (neighbors ds x))"

lemma waiting_0: "waiting ds xs x = 0 \<longleftrightarrow> set (neighbors ds x) \<subseteq> set xs"
  by (auto simp: waiting_def filter_empty_conv)

lemma waiting_snoc:
  "y \<notin> set xs \<Longrightarrow> waiting ds (xs @ [y]) x + count_list (neighbors ds x) y = waiting ds xs x"
proof -
  assume y: "y \<notin> set xs"
  have "length (filter (\<lambda>z. z \<notin> set (xs @ [y])) zs) + count_list zs y = length (filter (\<lambda>z. z \<notin> set xs) zs)"
    for zs
    by (induction zs) (use y in auto)
  then show ?thesis by (simp add: waiting_def)
qed

definition kahn_inv :: "dep_table \<Rightarrow> string list \<Rightarrow> (string \<Rightarrow> int) \<Rightarrow> string list \<Rightarrow> bool" where
  "kahn_inv ds q d xs \<longleftrightarrow> distinct q \<and> sorted q \<and> set q = ready ds xs
     \<and> (\<forall>x \<in> set (dict_keys ds). d x = int (waiting ds xs x))
     \<and> distinct xs \<and> set xs \<subseteq> set (dict_keys ds) \<and> greedy ds xs"

lemma kahn_inv_step:
  assumes inv: "kahn_inv ds (node # q) d xs"
    and g: "\<And>x y. count_list (neighbors g y) x = count_list (neighbors ds x) y"
    and r: "relax (neighbors g node) d q = (d', q')"
  shows "kahn_inv ds (sort q') d' (xs @ [node])"
proof -
  let ?N = "set (dict_keys ds)"
  obtain hits where h: "q' = q @ hits" "distinct hits"
      "set hits = {x. 0 < d x \<and> d x \<le> int (count_list (neighbors ds x) node)}"
    and d': "\<And>x. d' x = d x - int (count_list (neighbors ds x) node)"
    using relax_spec [OF r] g by auto
  have node: "node \<in> ready ds xs" "node \<notin> set q" "\<forall>y \<in> ready ds xs. node \<le> y"
    using inv unfolding kahn_inv_def by auto
  then have fresh: "node \<notin> set xs"
    by (simp add: ready_def)
  have dx: "d x = int (waiting ds xs x)" if "x \<in> ?N" for x
    using inv that by (simp add: kahn_inv_def del: set_map)
  have step: "d' x = int (waiting ds (xs @ [node]) x)" if "x \<in> ?N" for x
    using d' [of x] dx [OF that] waiting_snoc [OF fresh, of ds x] by simp
  have hits: "set hits = {x \<in> ?N. 0 < waiting ds xs x \<and> waiting ds (xs @ [node]) x = 0}"
  proof -
    have "x \<in> ?N" if "x \<in> set hits" for x
      using that h(3) neighbors_not_key [of x ds] by force
    moreover have "0 < d x \<and> d x \<le> int (count_list (neighbors ds x) node) \<longleftrightarrow>
        0 < waiting ds xs x \<and> waiting ds (xs @ [node]) x = 0" if "x \<in> ?N" for x
      using dx [OF that] waiting_snoc [OF fresh, of ds x] by auto
    ultimately show ?thesis
      using h(3) by blast
  qed
  have q: "set q = ready ds xs - {node}"
    using inv node(2) by (auto simp: kahn_inv_def)
  have sub: "waiting ds (xs @ [node]) x \<le> waiting ds xs x" for x
    using waiting_snoc [OF fresh, of ds x] by simp
  have dep_self: "waiting ds (xs @ [node]) x = 0" if "waiting ds xs x = 0" for x
    using sub [of x] that by simp
  have R: "ready ds ys = {x \<in> ?N. x \<notin> set ys \<and> waiting ds ys x = 0}" for ys
    by (auto simp: ready_def waiting_0)
  have "set q' = ready ds (xs @ [node])"
  proof (intro set_eqI iffI)
    fix x assume "x \<in> set q'"
    then consider "x \<in> set q" | "x \<in> set hits" using h(1) by auto
    then show "x \<in> ready ds (xs @ [node])"
    proof cases
      case 1
      then show ?thesis using q dep_self by (auto simp: R)
    next
      case 2
      then have "x \<in> ?N" "0 < waiting ds xs x" "waiting ds (xs @ [node]) x = 0"
        using hits by auto
      moreover have "x \<notin> set xs"
      proof
        assume "x \<in> set xs"
        then obtain i where i: "i < length xs" "xs ! i = x" by (auto simp: in_set_conv_nth)
        then have "x \<in> ready ds (take i xs)"
          using inv by (auto simp: kahn_inv_def greedy_def)
        then have "set (neighbors ds x) \<subseteq> set xs"
          using set_take_subset [of i xs] by (auto simp: ready_def)
        then show False using \<open>0 < waiting ds xs x\<close> waiting_0 [of ds xs x] by simp
      qed
      moreover have "x \<noteq> node"
        using node(1) \<open>0 < waiting ds xs x\<close> waiting_0 [of ds xs x] by (auto simp: ready_def)
      ultimately show ?thesis by (simp add: R)
    qed
  next
    fix x assume x: "x \<in> ready ds (xs @ [node])"
    show "x \<in> set q'"
    proof (cases "waiting ds xs x = 0")
      case True
      with x q h(1) show ?thesis by (auto simp: R)
    next
      case False
      with x hits h(1) show ?thesis by (auto simp: R)
    qed
  qed
  moreover have "distinct q'"
    using inv h(1,2) hits q by (auto simp: kahn_inv_def R)
  ultimately show ?thesis
    using inv step node fresh unfolding kahn_inv_def greedy_snoc by (auto simp: ready_def)
qed

lemma kahn_correct:
  assumes "kahn_inv ds q d xs" "\<And>x y. count_list (neighbors g y) x = count_list (neighbors ds x) y"
  shows "distinct (kahn g q d xs) \<and> set (kahn g q d xs) \<subseteq> set (dict_keys ds)
    \<and> greedy ds (kahn g q d xs) \<and> ready ds (kahn g q d xs) = {}"
  using assms
proof (induction g q d xs rule: kahn.induct)
  case (1 g d xs)
  then show ?case by (simp add: kahn_inv_def)
next
  case (2 g node q d xs)
  obtain d' q' where r: "relax (neighbors g node) d q = (d', q')"
    by (cases "relax (neighbors g node) d q")
  from 2(1) [OF r [symmetric] kahn_inv_step [OF 2(2,3) r] 2(3)] show ?case
    by (simp add: r)
qed

section \<open>Correctness of the order\<close>

text \<open>\<open>(x, y)\<close>: service \<open>x\<close> declares a dependency on \<open>y\<close>.\<close>

definition depends_on :: "dep_table \<Rightarrow> (string \<times> string) set" where
  "depends_on ds = set (dep_edges ds)"

lemma depends_on_iff: "wf_dict ds \<Longrightarrow> (x, y) \<in> depends_on ds \<longleftrightarrow> y \<in> set (neighbors ds x)"
proof -
  assume wf: "wf_dict ds"
  have "(x, y) \<in> depends_on ds \<longleftrightarrow> x \<in> set (map fst (filter (\<lambda>e. snd e = y) (dep_edges ds)))"
    by (force simp: depends_on_def)
  also have "\<dots> \<longleftrightarrow> count_list (neighbors ds x) y \<noteq> 0"
    unfolding in_edges_count [OF wf, symmetric] count_list_0_iff by simp
  also have "\<dots> \<longleftrightarrow> y \<in> set (neighbors ds x)"
    by (simp add: count_list_0_iff)
  finally show ?thesis .
qed

lemma missing_dependency_None:
  "missing_dependency ds = None \<longleftrightarrow> snd ` depends_on ds \<subseteq> set (dict_keys ds)"
  by (auto simp: missing_dependency_def find_None_iff depends_on_def simp del: set_map)

definition kahn_of :: "dep_table \<Rightarrow> string list" where
  "kahn_of ds = (case build_graph ds of (graph, indegree) \<Rightarrow>
     kahn graph (sort (filter (\<lambda>n. indegree n = 0) (dict_keys ds))) indegree [])"

lemma kahn_of_correct:
  assumes "wf_dict ds"
  shows "distinct (kahn_of ds) \<and> set (kahn_of ds) \<subseteq> set (dict_keys ds)
    \<and> greedy ds (kahn_of ds) \<and> ready ds (kahn_of ds) = {}"
proof -
  obtain g d where b: "build_graph ds = (g, d)" by (cases "build_graph ds")
  have d: "d x = int (waiting ds [] x)" for x
    using build_graph_spec(1) [OF assms b] by (simp add: waiting_def)
  let ?q = "sort (filter (\<lambda>n. d n = 0) (dict_keys ds))"
  have "kahn_inv ds ?q d []"
    using assms d by (auto simp: kahn_inv_def ready_def wf_dict_def waiting_def)
  from kahn_correct [OF this build_graph_spec(2) [OF assms b]] show ?thesis
    by (simp add: kahn_of_def b)
qed

lemma startup_order_eq:
  "startup_order ds =
     (case missing_dependency ds of
        Some (name, dep) \<Rightarrow>
          Inl (Exn MissingDependencyErr (''Service '' @ quoted name @ '' depends on '' @ quoted dep
                 @ '', which is not registered.''))
      | None \<Rightarrow>
          if length (kahn_of ds) < length ds
          then Inl (Exn CircularDependencyErr ''Circular dependency detected among services.'')
          else Inr (kahn_of ds))"
  by (simp add: startup_order_def kahn_of_def Let_def split: option.split prod.split)

lemma complete_iff:
  assumes "wf_dict ds"
  shows "length (kahn_of ds) < length ds \<longleftrightarrow> set (kahn_of ds) \<noteq> set (dict_keys ds)"
proof -
  have "length (kahn_of ds) = card (set (kahn_of ds))" "length ds = card (set (dict_keys ds))"
    using kahn_of_correct [OF assms] assms
    by (simp_all add: distinct_card wf_dict_def del: set_map)
  moreover have "set (kahn_of ds) \<subseteq> set (dict_keys ds)"
    using kahn_of_correct [OF assms] by blast
  ultimately show ?thesis
    using psubset_card_mono [of "set (dict_keys ds)" "set (kahn_of ds)"] by auto
qed

text \<open>An order in which every element's dependencies come before it rules out cycles.\<close>

lemma greedy_acyclic:
  assumes "wf_dict ds" "greedy ds xs" "set xs = set (dict_keys ds)" "distinct xs"
  shows "acyclic (depends_on ds)"
proof -
  have earlier: "\<exists>i j. i < j \<and> j < length xs \<and> xs ! i = y \<and> xs ! j = x" if "(x, y) \<in> depends_on ds" for x y
  proof -
    have "x \<in> set xs"
      using that neighbors_not_key [of x ds] assms(1,3) by (auto simp: depends_on_iff)
    then obtain j where j: "j < length xs" "xs ! j = x" by (auto simp: in_set_conv_nth)
    then have "y \<in> set (take j xs)"
      using assms(1,2) that by (auto simp: greedy_def ready_def depends_on_iff)
    then obtain i where "i < j" "xs ! i = y"
      using j(1) by (auto simp: in_set_conv_nth)
    with j show ?thesis by blast
  qed
  have "\<exists>i j. i < j \<and> j < length xs \<and> xs ! i = y \<and> xs ! j = x" if "(x, y) \<in> (depends_on ds)\<^sup>+" for x y
    using that
  proof induction
    case (step y z)
    then obtain i j where 1: "i < j" "j < length xs" "xs ! i = y" "xs ! j = x" by blast
    from earlier [OF step(2)] obtain k l where 2: "k < l" "l < length xs" "xs ! k = z" "xs ! l = y"
      by blast
    have "l = i"
      using 1 2 nth_eq_iff_index_eq [OF assms(4), of l i] by simp
    with 1 2 show ?case by (intro exI [of _ k] exI [of _ j]) simp
  qed (rule earlier)
  then show ?thesis
    using assms(4) unfolding acyclic_def by (metis distinct_conv_nth less_irrefl order.strict_trans)
qed

lemma stuck_cyclic:
  assumes "wf_dict ds" "snd ` depends_on ds \<subseteq> set (dict_keys ds)" "ready ds xs = {}"
    "set xs \<subset> set (dict_keys ds)"
  shows "\<not> acyclic (depends_on ds)"
proof
  assume a: "acyclic (depends_on ds)"
  let ?M = "set (dict_keys ds) - set xs"
  have "finite (depends_on ds)"
    by (simp add: depends_on_def)
  then have wf: "wf ((depends_on ds)\<inverse>)"
    using a by (simp add: finite_acyclic_wf_converse)
  obtain x where x: "x \<in> ?M"
    using assms(4) by blast
  obtain z where z: "z \<in> ?M" "\<And>y. (y, z) \<in> (depends_on ds)\<inverse> \<Longrightarrow> y \<notin> ?M"
    by (rule wfE_min [OF wf x]) blast
  have "y \<in> set xs" if "y \<in> set (neighbors ds z)" for y
  proof -
    have zy: "(z, y) \<in> depends_on ds"
      using that assms(1) by (simp add: depends_on_iff)
    then have "y \<in> set (dict_keys ds)"
      using assms(2) by (metis imageI snd_conv subsetD)
    with z(2) [of y] zy show ?thesis by blast
  qed
  then have "set (neighbors ds z) \<subseteq> set xs" by blast
  with z(1) have "z \<in> ready ds xs"
    by (simp add: ready_def)
  with assms(3) show False by simp
qed

text \<open>
  \<open>C3\<close>. The start-up order: if one is returned it is a permutation of the registered services in
  which every service comes after all its dependencies, and each position holds the least name
  among the services that are ready there (so it does not depend on the order of registration);
  one is returned exactly if every declared dependency is registered and there is no cycle; the
  error names the reason.
\<close>

theorem startup_order_correct:
  assumes "wf_dict ds"
  shows "case startup_order ds of
      Inr order \<Rightarrow> distinct order \<and> set order = set (dict_keys ds)
        \<and> (\<forall>i < length order. order ! i \<in> ready ds (take i order)
             \<and> (\<forall>y \<in> ready ds (take i order). order ! i \<le> y))
        \<and> snd ` depends_on ds \<subseteq> set (dict_keys ds) \<and> acyclic (depends_on ds)
    | Inl e \<Rightarrow>
        (exn_class e = MissingDependencyErr \<and> \<not> snd ` depends_on ds \<subseteq> set (dict_keys ds))
        \<or> (exn_class e = CircularDependencyErr \<and> snd ` depends_on ds \<subseteq> set (dict_keys ds)
           \<and> \<not> acyclic (depends_on ds))"
proof (cases "missing_dependency ds")
  case (Some p)
  then show ?thesis
    using missing_dependency_None [of ds] by (auto simp: startup_order_eq split: prod.split)
next
  case None
  then have deps: "snd ` depends_on ds \<subseteq> set (dict_keys ds)"
    by (simp add: missing_dependency_None del: set_map)
  note k = kahn_of_correct [OF assms]
  show ?thesis
  proof (cases "set (kahn_of ds) = set (dict_keys ds)")
    case True
    then have "startup_order ds = Inr (kahn_of ds)"
      using None complete_iff [OF assms] by (simp add: startup_order_eq)
    then show ?thesis
      using True k deps greedy_acyclic [OF assms _ True] by (simp add: greedy_def del: set_map)
  next
    case False
    then have "startup_order ds =
        Inl (Exn CircularDependencyErr ''Circular dependency detected among services.'')"
      using None complete_iff [OF assms] by (simp add: startup_order_eq)
    then show ?thesis
      using False k deps stuck_cyclic [OF assms deps, of "kahn_of ds"] by (simp add: psubset_eq del: set_map)
  qed
qed

theorem startup_order_correct_witness:
  "startup_order [(''b'', [''a'']), (''a'', []), (''c'', [''b'', ''a''])] = Inr [''a'', ''b'', ''c'']
   \<and> acyclic (depends_on [(''b'', [''a'']), (''a'', []), (''c'', [''b'', ''a''])])"
proof -
  let ?ds = "[(''b'', [''a'']), (''a'', []), (''c'', [''b'', ''a''])]"
  have "startup_order ?ds = Inr [''a'', ''b'', ''c'']"
    by code_simp
  then show ?thesis
    using startup_order_correct [of ?ds] by (simp add: wf_dict_def)
qed

end
