(* ===== verification/ServiceManager.thy ===== *)
theory ServiceManager
  imports ServiceOrder PyStrings
begin

text \<open>
  \<open>RuntimeServiceManager\<close> (\<open>yasin_core/runtime/service_manager.py\<close>), the registry in front of it
  (\<open>runtime/registry.py\<close>) and their data (\<open>runtime/models.py\<close>). Services are objects of other
  components: what their methods do is the parameter \<open>service_env\<close> of each operation (so it may
  differ from one operation to the next), and the calls made on them are recorded in \<open>sv_calls\<close>.
\<close>

section \<open>Data\<close>

datatype service_state = S_UNINITIALIZED | S_INITIALIZING | S_ACTIVE | S_FAILED | S_STOPPED

fun service_state_value :: "service_state \<Rightarrow> string" where
  "service_state_value S_UNINITIALIZED = ''UNINITIALIZED''"
| "service_state_value S_INITIALIZING = ''INITIALIZING''"
| "service_state_value S_ACTIVE = ''ACTIVE''"
| "service_state_value S_FAILED = ''FAILED''"
| "service_state_value S_STOPPED = ''STOPPED''"

record service_meta =
  sm_name :: string
  sm_version :: string
  sm_description :: string
  sm_dependencies :: "string list"
  sm_metadata :: pydict

record service_manager =
  sv_services :: "(string \<times> nat) list"
  sv_meta :: "(string \<times> service_meta) list"
  sv_states :: "(string \<times> service_state) list"
  sv_initialized :: bool
  sv_calls :: "(string \<times> string) list"

text \<open>
  The methods of the service objects: \<open>None\<close> when the object has no such method, else what the
  call raises or returns.
\<close>

record service_env =
  se_initialize :: "nat \<Rightarrow> exn option option"
  se_shutdown :: "nat \<Rightarrow> exn option option"
  se_reload :: "nat \<Rightarrow> exn option option"
  se_health :: "nat \<Rightarrow> (exn + pyval) option"
  se_status :: "nat \<Rightarrow> (exn + pyval) option"

definition sv_init :: service_manager where
  "sv_init = \<lparr> sv_services = [], sv_meta = [], sv_states = [], sv_initialized = False, sv_calls = [] \<rparr>"

section \<open>Registration\<close>

definition svc_has :: "string \<Rightarrow> service_manager \<Rightarrow> bool" where
  "svc_has name m = dict_has (sv_services m) name"

definition svc_list :: "service_manager \<Rightarrow> string list" where
  "svc_list m = dict_keys (sv_services m)"

definition svc_get :: "string \<Rightarrow> service_manager \<Rightarrow> exn + nat" where
  "svc_get name m =
     (case map_of (sv_services m) name of
        None \<Rightarrow> Inl (Exn ServiceNotFoundErr (''Service '' @ quoted name @ '' was not found.''))
      | Some ob \<Rightarrow> Inr ob)"

definition svc_register :: "nat \<Rightarrow> service_meta \<Rightarrow> service_manager \<Rightarrow> exn + service_manager" where
  "svc_register ob meta m =
     (let name = sm_name meta
      in if svc_has name m
         then Inl (Exn DuplicateServiceErr (''Service with name '' @ quoted name @ '' is already registered.''))
         else Inr (m\<lparr>sv_services := AList.update name ob (sv_services m),
                     sv_meta := AList.update name meta (sv_meta m),
                     sv_states := AList.update name S_UNINITIALIZED (sv_states m)\<rparr>))"

definition set_state :: "string \<Rightarrow> service_state \<Rightarrow> service_manager \<Rightarrow> service_manager" where
  "set_state name st m = m\<lparr>sv_states := AList.update name st (sv_states m)\<rparr>"

definition svc_state :: "service_manager \<Rightarrow> string \<Rightarrow> service_state option" where
  "svc_state m name = map_of (sv_states m) name"

text \<open>
  A call \<open>if hasattr(service, method): service.method()\<close> on the service registered under a name:
  the manager with the call recorded, and what it raises.
\<close>

definition call_service ::
  "(nat \<Rightarrow> exn option option) \<Rightarrow> string \<Rightarrow> string \<Rightarrow> service_manager \<Rightarrow> service_manager \<times> exn option" where
  "call_service meth label name m =
     (case map_of (sv_services m) name of
        None \<Rightarrow> (m, Some (Exn KeyErr name))
      | Some ob \<Rightarrow>
          (case meth ob of
             None \<Rightarrow> (m, None)
           | Some r \<Rightarrow> (m\<lparr>sv_calls := sv_calls m @ [(label, name)]\<rparr>, r)))"

definition list_repr :: "string list \<Rightarrow> string" where
  "list_repr xs = ''['' @ join_with '', '' (map quoted xs) @ '']''"

definition svc_dependents :: "string \<Rightarrow> service_manager \<Rightarrow> string list" where
  "svc_dependents name m =
     map fst (filter (\<lambda>(svc, meta). name \<in> set (sm_dependencies meta)) (sv_meta m))"

definition svc_unregister ::
  "service_env \<Rightarrow> string \<Rightarrow> service_manager \<Rightarrow> exn + service_manager" where
  "svc_unregister env name m =
     (if \<not> svc_has name m
      then Inl (Exn ServiceNotFoundErr (''Service '' @ quoted name @ '' is not registered.''))
      else if svc_dependents name m \<noteq> []
      then Inl (Exn DependencyErr (''Cannot unregister service '' @ quoted name @
             '' because other services depend on it: '' @ list_repr (svc_dependents name m)))
      else
        let m1 = (if svc_state m name = Some S_ACTIVE
                  then fst (call_service (se_shutdown env) ''shutdown'' name m) else m)
        in Inr (m1\<lparr>sv_services := AList.delete name (sv_services m1),
                   sv_meta := AList.delete name (sv_meta m1),
                   sv_states := AList.delete name (sv_states m1)\<rparr>))"

section \<open>Life cycle\<close>

definition svc_deps :: "service_manager \<Rightarrow> dep_table" where
  "svc_deps m = map (\<lambda>(name, meta). (name, sm_dependencies meta)) (sv_meta m)"

definition svc_startup_order :: "service_manager \<Rightarrow> exn + string list" where
  "svc_startup_order m = startup_order (svc_deps m)"

text \<open>\<open>raise ServiceError(f"Service '{name}' ... failed: {e}")\<close>\<close>

definition service_failed :: "string \<Rightarrow> string \<Rightarrow> exn \<Rightarrow> exn" where
  "service_failed what name e =
     Exn ServiceErr (''Service '' @ quoted name @ what @ '' failed: '' @ exn_msg e)"

fun init_loop :: "service_env \<Rightarrow> string list \<Rightarrow> service_manager \<Rightarrow> service_manager \<times> exn option" where
  "init_loop env [] m = (m, None)"
| "init_loop env (name # names) m =
     (case call_service (se_initialize env) ''initialize'' name (set_state name S_INITIALIZING m) of
        (m1, Some e) \<Rightarrow>
          (set_state name S_FAILED m1, Some (service_failed '' initialization'' name e))
      | (m1, None) \<Rightarrow> init_loop env names (set_state name S_ACTIVE m1))"

definition svc_initialize :: "service_env \<Rightarrow> service_manager \<Rightarrow> service_manager \<times> exn option" where
  "svc_initialize env m =
     (if sv_initialized m then (m, None)
      else case svc_startup_order m of
             Inl e \<Rightarrow> (m, Some e)
           | Inr order \<Rightarrow>
               (case init_loop env order m of
                  (m1, Some e) \<Rightarrow> (m1, Some e)
                | (m1, None) \<Rightarrow> (m1\<lparr>sv_initialized := True\<rparr>, None)))"

definition shutdown_one :: "service_env \<Rightarrow> string \<Rightarrow> service_manager \<Rightarrow> service_manager" where
  "shutdown_one env name m =
     (if svc_state m name = Some S_ACTIVE
      then case call_service (se_shutdown env) ''shutdown'' name m of
             (m1, None) \<Rightarrow> set_state name S_STOPPED m1
           | (m1, Some _) \<Rightarrow> m1
      else m)"

definition svc_shutdown :: "service_env \<Rightarrow> service_manager \<Rightarrow> service_manager" where
  "svc_shutdown env m =
     (let order = (case svc_startup_order m of Inl _ \<Rightarrow> svc_list m | Inr order \<Rightarrow> order)
      in (fold (shutdown_one env) (rev order) m)\<lparr>sv_initialized := False\<rparr>)"

fun reload_loop :: "service_env \<Rightarrow> string list \<Rightarrow> service_manager \<Rightarrow> service_manager \<times> exn option" where
  "reload_loop env [] m = (m, None)"
| "reload_loop env (name # names) m =
     (if svc_state m name = Some S_ACTIVE
      then case call_service (se_reload env) ''reload'' name m of
             (m1, Some e) \<Rightarrow>
               (m1, Some (service_failed '' reload'' name e))
           | (m1, None) \<Rightarrow> reload_loop env names m1
      else reload_loop env names m)"

definition svc_reload :: "service_env \<Rightarrow> service_manager \<Rightarrow> service_manager \<times> exn option" where
  "svc_reload env m =
     (case svc_startup_order m of
        Inl e \<Rightarrow> (m, Some (Exn ServiceErr (''Cannot reload services due to dependency error: '' @ exn_msg e)))
      | Inr order \<Rightarrow> reload_loop env order m)"

section \<open>Reports\<close>

text \<open>\<open>h.get("healthy", True) and h.get("status", "healthy") == "healthy"\<close>\<close>

definition dict_get_or :: "pydict \<Rightarrow> string \<Rightarrow> pyval \<Rightarrow> pyval" where
  "dict_get_or d k v = (case map_of d k of Some x \<Rightarrow> x | None \<Rightarrow> v)"

definition interpret_health :: "pyval \<Rightarrow> pyval \<times> pyval" where
  "interpret_health r =
     (case r of
        PBool b \<Rightarrow> (PBool b, PDict [])
      | PDict d \<Rightarrow>
          (let h = dict_get_or d ''healthy'' (PBool True)
           in (if truthy h then PBool (dict_get_or d ''status'' (PStr ''healthy'') = PStr ''healthy'') else h,
               PDict d))
      | _ \<Rightarrow> (PBool True, PDict [(''response'', r)]))"

text \<open>The report on one service and whether it lets the whole be healthy.\<close>

definition service_health :: "service_env \<Rightarrow> service_manager \<Rightarrow> string \<Rightarrow> nat \<Rightarrow> pydict \<times> bool" where
  "service_health env m name ob =
     (let st = (case svc_state m name of Some s \<Rightarrow> s | None \<Rightarrow> S_UNINITIALIZED);
          stv = PStr (service_state_value st)
      in case st of
           S_FAILED \<Rightarrow> ([(''healthy'', PBool False), (''state'', stv),
                         (''error'', PStr ''Initialization failed'')], False)
         | S_ACTIVE \<Rightarrow>
             (let (h, details) =
                 (case se_health env ob of
                    None \<Rightarrow> (PBool True, PDict [(''status'', PStr ''healthy'')])
                  | Some (Inl e) \<Rightarrow> (PBool False, PDict [(''error'', PStr (exn_msg e))])
                  | Some (Inr r) \<Rightarrow> interpret_health r)
              in ([(''healthy'', h), (''state'', stv), (''details'', details)], truthy h))
         | _ \<Rightarrow> ([(''healthy'', PBool True), (''state'', stv),
                   (''details'', PStr ''Not initialized / Stopped'')], True))"

definition svc_health :: "service_env \<Rightarrow> service_manager \<Rightarrow> pydict" where
  "svc_health env m =
     (let reports = map (\<lambda>(name, ob). (name, service_health env m name ob)) (sv_services m)
      in [(''healthy'', PBool (\<forall>r \<in> set reports. snd (snd r))),
          (''services'', PDict (map (\<lambda>(name, r). (name, PDict (fst r))) reports))])"

text \<open>Entries of \<open>extra\<close> whose key is free are added to \<open>base\<close>.\<close>

definition merge_new :: "pydict \<Rightarrow> pydict \<Rightarrow> pydict" where
  "merge_new base extra = foldl (\<lambda>d (k, v). if dict_has d k then d else d @ [(k, v)]) base extra"

definition service_status :: "service_env \<Rightarrow> service_manager \<Rightarrow> string \<Rightarrow> nat \<Rightarrow> service_meta \<Rightarrow> pydict" where
  "service_status env m name ob meta =
     (let st = (case svc_state m name of Some s \<Rightarrow> s | None \<Rightarrow> S_UNINITIALIZED);
          custom = (if st = S_ACTIVE then
                      (case se_status env ob of
                         None \<Rightarrow> []
                       | Some (Inl e) \<Rightarrow> [(''status_error'', PStr (exn_msg e))]
                       | Some (Inr (PDict d)) \<Rightarrow> d
                       | Some (Inr _) \<Rightarrow> [])
                    else [])
      in merge_new
           [(''state'', PStr (service_state_value st)), (''version'', PStr (sm_version meta)),
            (''dependencies'', PList (map PStr (sm_dependencies meta))),
            (''description'', PStr (sm_description meta))]
           custom)"

definition svc_status :: "service_env \<Rightarrow> service_manager \<Rightarrow> pydict" where
  "svc_status env m =
     [(''initialized'', PBool (sv_initialized m)),
      (''service_count'', PInt (int (length (sv_services m)))),
      (''services'', PDict (concat (map (\<lambda>(name, ob).
          (case map_of (sv_meta m) name of
             None \<Rightarrow> []
           | Some meta \<Rightarrow> [(name, PDict (service_status env m name ob meta))])) (sv_services m))))]"

section \<open>The registry\<close>

definition reg_register ::
  "string \<Rightarrow> nat \<Rightarrow> string \<Rightarrow> string \<Rightarrow> string list option \<Rightarrow> pydict option \<Rightarrow> service_manager
   \<Rightarrow> exn + service_manager" where
  "reg_register name ob version description deps metadata m =
     svc_register ob
       \<lparr> sm_name = name, sm_version = version, sm_description = description,
         sm_dependencies = (case deps of Some d \<Rightarrow> d | None \<Rightarrow> []),
         sm_metadata = (case metadata of Some d \<Rightarrow> d | None \<Rightarrow> []) \<rparr> m"

definition reg_get_metadata :: "string \<Rightarrow> service_manager \<Rightarrow> exn + service_meta" where
  "reg_get_metadata name m =
     (if \<not> svc_has name m
      then Inl (Exn ServiceNotFoundErr (''Service '' @ quoted name @ '' is not registered.''))
      else case map_of (sv_meta m) name of
             None \<Rightarrow> Inl (Exn KeyErr name)
           | Some meta \<Rightarrow> Inr meta)"

text \<open>The other methods forward to the manager under the registry's lock.\<close>

definition reg_unregister :: "service_env \<Rightarrow> string \<Rightarrow> service_manager \<Rightarrow> exn + service_manager" where
  "reg_unregister = svc_unregister"

definition reg_get :: "string \<Rightarrow> service_manager \<Rightarrow> exn + nat" where
  "reg_get = svc_get"

definition reg_has :: "string \<Rightarrow> service_manager \<Rightarrow> bool" where
  "reg_has = svc_has"

definition reg_list :: "service_manager \<Rightarrow> string list" where
  "reg_list = svc_list"

definition reg_initialize :: "service_env \<Rightarrow> service_manager \<Rightarrow> service_manager \<times> exn option" where
  "reg_initialize = svc_initialize"

definition reg_shutdown :: "service_env \<Rightarrow> service_manager \<Rightarrow> service_manager" where
  "reg_shutdown = svc_shutdown"

definition reg_reload :: "service_env \<Rightarrow> service_manager \<Rightarrow> service_manager \<times> exn option" where
  "reg_reload = svc_reload"

definition reg_health :: "service_env \<Rightarrow> service_manager \<Rightarrow> pydict" where
  "reg_health = svc_health"

definition reg_status :: "service_env \<Rightarrow> service_manager \<Rightarrow> pydict" where
  "reg_status = svc_status"

section \<open>Frames and the well-formedness invariant\<close>

definition svc_wf :: "service_manager \<Rightarrow> bool" where
  "svc_wf m \<longleftrightarrow> wf_dict (sv_services m) \<and> dict_keys (sv_meta m) = dict_keys (sv_services m)
     \<and> wf_dict (sv_states m) \<and> set (dict_keys (sv_states m)) = set (dict_keys (sv_services m))
     \<and> (\<forall>(name, meta) \<in> set (sv_meta m). sm_name meta = name)"

lemma call_service_frames [simp]:
  "sv_services (fst (call_service meth l name m)) = sv_services m"
  "sv_meta (fst (call_service meth l name m)) = sv_meta m"
  "sv_states (fst (call_service meth l name m)) = sv_states m"
  "sv_initialized (fst (call_service meth l name m)) = sv_initialized m"
  by (simp_all add: call_service_def split: option.split)

lemma set_state_frames [simp]:
  "sv_services (set_state name st m) = sv_services m" "sv_meta (set_state name st m) = sv_meta m"
  "sv_initialized (set_state name st m) = sv_initialized m" "sv_calls (set_state name st m) = sv_calls m"
  "svc_state (set_state name st m) x = (if x = name then Some st else svc_state m x)"
  by (simp_all add: set_state_def svc_state_def dict_simps)

lemma svc_state_call [simp]: "svc_state (fst (call_service meth l name m)) x = svc_state m x"
  by (simp add: svc_state_def)

lemma svc_wf_call [simp]: "svc_wf (fst (call_service meth l name m)) = svc_wf m"
  by (simp add: svc_wf_def)

lemma svc_wf_set_state: "svc_wf m \<Longrightarrow> dict_has (sv_services m) name \<Longrightarrow> svc_wf (set_state name st m)"
  by (simp add: svc_wf_def set_state_def keys_update insert_absorb del: set_map)

lemma svc_deps_keys [simp]: "dict_keys (svc_deps m) = dict_keys (sv_meta m)"
  by (simp add: svc_deps_def comp_def split_def)

lemma svc_wf_deps: "svc_wf m \<Longrightarrow> wf_dict (svc_deps m)"
  by (simp add: svc_wf_def wf_dict_def)

lemma startup_names:
  assumes "svc_wf m" "svc_startup_order m = Inr order"
  shows "distinct order" "set order = set (dict_keys (sv_services m))"
  using startup_order_eq [of "svc_deps m"] kahn_of_correct [OF svc_wf_deps [OF assms(1)]]
    complete_iff [OF svc_wf_deps [OF assms(1)]] assms
  by (auto simp: svc_startup_order_def svc_wf_def split: option.splits if_splits simp del: set_map)

text \<open>What a call does, by method and name.\<close>

definition has_method :: "(nat \<Rightarrow> exn option option) \<Rightarrow> service_manager \<Rightarrow> string \<Rightarrow> bool" where
  "has_method meth m name =
     (case map_of (sv_services m) name of None \<Rightarrow> False | Some ob \<Rightarrow> meth ob \<noteq> None)"

definition call_raises :: "(nat \<Rightarrow> exn option option) \<Rightarrow> service_manager \<Rightarrow> string \<Rightarrow> exn option" where
  "call_raises meth m name =
     (case map_of (sv_services m) name of
        None \<Rightarrow> Some (Exn KeyErr name)
      | Some ob \<Rightarrow> (case meth ob of None \<Rightarrow> None | Some r \<Rightarrow> r))"

lemma call_service_snd: "snd (call_service meth l name m) = call_raises meth m name"
  by (simp add: call_service_def call_raises_def split: option.split)

lemma call_service_calls:
  "sv_calls (fst (call_service meth l name m)) =
     sv_calls m @ (if has_method meth m name then [(l, name)] else [])"
  by (simp add: call_service_def has_method_def split: option.split)

lemma method_cong:
  "sv_services m' = sv_services m \<Longrightarrow> has_method meth m' = has_method meth m"
  "sv_services m' = sv_services m \<Longrightarrow> call_raises meth m' = call_raises meth m"
  by (auto simp: has_method_def call_raises_def fun_eq_iff)

section \<open>Initialisation\<close>

lemma init_loop_Cons:
  "init_loop env (name # names) m =
     (let m1 = fst (call_service (se_initialize env) ''initialize'' name (set_state name S_INITIALIZING m))
      in case call_raises (se_initialize env) m name of
           Some e \<Rightarrow> (set_state name S_FAILED m1, Some (service_failed '' initialization'' name e))
         | None \<Rightarrow> init_loop env names (set_state name S_ACTIVE m1))"
  using call_service_snd [of "se_initialize env" "''initialize''" name "set_state name S_INITIALIZING m"]
  by (auto simp: Let_def method_cong [of "set_state name S_INITIALIZING m" m] split: prod.split option.split)

declare init_loop.simps(2) [simp del]

lemma init_loop_frames:
  "sv_services (fst (init_loop env names m)) = sv_services m
   \<and> sv_meta (fst (init_loop env names m)) = sv_meta m
   \<and> sv_initialized (fst (init_loop env names m)) = sv_initialized m"
  by (induction names arbitrary: m) (simp_all add: init_loop_Cons Let_def split: option.split)

lemma init_loop_wf:
  "svc_wf m \<Longrightarrow> set names \<subseteq> set (dict_keys (sv_services m)) \<Longrightarrow> svc_wf (fst (init_loop env names m))"
proof (induction names arbitrary: m)
  case (Cons name names)
  then have "svc_wf (set_state name st (fst (call_service (se_initialize env) ''initialize'' name
      (set_state name S_INITIALIZING m))))" for st
    by (intro svc_wf_set_state) (simp_all add: svc_wf_set_state del: set_map)
  then show ?case
    using Cons by (simp add: init_loop_Cons Let_def del: set_map split: option.split)
qed simp

lemma init_loop_ok:
  assumes "snd (init_loop env names m) = None"
  shows "(\<forall>x. svc_state (fst (init_loop env names m)) x =
            (if x \<in> set names then Some S_ACTIVE else svc_state m x))
    \<and> sv_calls (fst (init_loop env names m)) =
        sv_calls m @ map (Pair ''initialize'') (filter (has_method (se_initialize env) m) names)"
  using assms
proof (induction names arbitrary: m)
  case (Cons name names)
  let ?m1 = "fst (call_service (se_initialize env) ''initialize'' name (set_state name S_INITIALIZING m))"
  have ok: "call_raises (se_initialize env) m name = None"
    using Cons.prems by (simp add: init_loop_Cons Let_def split: option.splits)
  have hm: "has_method meth (set_state n st m') = has_method meth m'"
    "has_method meth (fst (call_service meth' l n m')) = has_method meth m'" for meth n st m' meth' l
    by (rule method_cong(1); simp)+
  show ?case
    using Cons.IH [of "set_state name S_ACTIVE ?m1"] Cons.prems ok
    by (auto simp: init_loop_Cons Let_def call_service_calls hm)
qed simp

lemma init_loop_fail:
  assumes "snd (init_loop env names m) = Some e" "distinct names"
  shows "\<exists>pre name post cause. names = pre @ name # post
     \<and> e = service_failed '' initialization'' name cause
     \<and> call_raises (se_initialize env) m name = Some cause
     \<and> (\<forall>x. svc_state (fst (init_loop env names m)) x =
          (if x \<in> set pre then Some S_ACTIVE else if x = name then Some S_FAILED else svc_state m x))"
  using assms
proof (induction names arbitrary: m)
  case (Cons name names)
  let ?m1 = "fst (call_service (se_initialize env) ''initialize'' name (set_state name S_INITIALIZING m))"
  have cr: "call_raises meth (set_state n st m') = call_raises meth m'"
    "call_raises meth (fst (call_service meth' l n m')) = call_raises meth m'" for meth n st m' meth' l
    by (rule method_cong(2); simp)+
  show ?case
  proof (cases "call_raises (se_initialize env) m name")
    case (Some cause)
    then show ?thesis
      using Cons.prems(1)
      by (intro exI [of _ "[]"] exI [of _ name] exI [of _ names] exI [of _ cause])
        (auto simp: init_loop_Cons Let_def)
  next
    case None
    then obtain pre n post cause where "names = pre @ n # post"
        "e = service_failed '' initialization'' n cause"
        "call_raises (se_initialize env) m n = Some cause"
        "\<forall>x. svc_state (fst (init_loop env names (set_state name S_ACTIVE ?m1))) x =
          (if x \<in> set pre then Some S_ACTIVE else if x = n then Some S_FAILED
           else svc_state (set_state name S_ACTIVE ?m1) x)"
      using Cons.IH [of "set_state name S_ACTIVE ?m1"] Cons.prems
      by (auto simp: init_loop_Cons Let_def cr)
    then show ?thesis
      using None Cons.prems(2)
      by (intro exI [of _ "name # pre"] exI [of _ n] exI [of _ post] exI [of _ cause])
        (auto simp: init_loop_Cons Let_def)
  qed
qed simp

section \<open>Shutdown\<close>

lemma shutdown_one_frames [simp]:
  "sv_services (shutdown_one env name m) = sv_services m" "sv_meta (shutdown_one env name m) = sv_meta m"
  "sv_initialized (shutdown_one env name m) = sv_initialized m"
  using call_service_frames [of "se_shutdown env" "''shutdown''" name m]
  by (auto simp: shutdown_one_def simp del: call_service_frames split: prod.split option.split)

text \<open>The state a service is left in by a shutdown.\<close>

definition after_shutdown :: "service_env \<Rightarrow> service_manager \<Rightarrow> string \<Rightarrow> service_state option" where
  "after_shutdown env m x =
     (if svc_state m x = Some S_ACTIVE \<and> call_raises (se_shutdown env) m x = None
      then Some S_STOPPED else svc_state m x)"

lemma shutdown_one_eq:
  "shutdown_one env name m =
     (if svc_state m name = Some S_ACTIVE
      then let m1 = fst (call_service (se_shutdown env) ''shutdown'' name m)
           in if call_raises (se_shutdown env) m name = None then set_state name S_STOPPED m1 else m1
      else m)"
  using call_service_snd [of "se_shutdown env" "''shutdown''" name m]
  by (auto simp: shutdown_one_def Let_def split: prod.split option.split)

lemma shutdown_one_state:
  "svc_state (shutdown_one env name m) x = (if x = name then after_shutdown env m x else svc_state m x)"
  by (simp add: shutdown_one_eq after_shutdown_def Let_def)

lemma shutdown_one_methods:
  "call_raises meth (shutdown_one env name m) = call_raises meth m"
  "has_method meth (shutdown_one env name m) = has_method meth m"
  by (rule method_cong; simp)+

lemma fold_shutdown:
  "distinct names \<Longrightarrow>
     (\<forall>x. svc_state (fold (shutdown_one env) names m) x =
        (if x \<in> set names then after_shutdown env m x else svc_state m x))
     \<and> sv_services (fold (shutdown_one env) names m) = sv_services m
     \<and> sv_meta (fold (shutdown_one env) names m) = sv_meta m
     \<and> sv_calls (fold (shutdown_one env) names m) = sv_calls m @ map (Pair ''shutdown'')
         (filter (\<lambda>x. svc_state m x = Some S_ACTIVE \<and> has_method (se_shutdown env) m x) names)"
proof (induction names arbitrary: m)
  case (Cons name names)
  let ?m = "shutdown_one env name m"
  have same: "svc_state ?m x = svc_state m x" "after_shutdown env ?m x = after_shutdown env m x"
    if "x \<noteq> name" for x
    using that by (simp_all add: shutdown_one_state after_shutdown_def shutdown_one_methods)
  have f: "filter (\<lambda>x. svc_state ?m x = Some S_ACTIVE \<and> has_method (se_shutdown env) ?m x) names
      = filter (\<lambda>x. svc_state m x = Some S_ACTIVE \<and> has_method (se_shutdown env) m x) names"
  proof (rule filter_cong [OF refl])
    fix x assume "x \<in> set names"
    then have "x \<noteq> name" using Cons.prems by auto
    then show "(svc_state ?m x = Some S_ACTIVE \<and> has_method (se_shutdown env) ?m x)
        = (svc_state m x = Some S_ACTIVE \<and> has_method (se_shutdown env) m x)"
      by (simp add: same(1) shutdown_one_methods)
  qed
  have c: "sv_calls ?m = sv_calls m @ map (Pair ''shutdown'')
      (filter (\<lambda>x. svc_state m x = Some S_ACTIVE \<and> has_method (se_shutdown env) m x) [name])"
    by (simp add: shutdown_one_eq call_service_calls Let_def)
  have in_names: "after_shutdown env ?m x = after_shutdown env m x" if "x \<in> set names" for x
    using same(2) [of x] that Cons.prems by auto
  show ?case
    using Cons.IH [of ?m] Cons.prems f c by (auto simp: in_names shutdown_one_state)
qed simp

lemma shutdown_names:
  assumes "svc_wf m"
  shows "distinct (case svc_startup_order m of Inl _ \<Rightarrow> svc_list m | Inr order \<Rightarrow> order)
    \<and> set (case svc_startup_order m of Inl _ \<Rightarrow> svc_list m | Inr order \<Rightarrow> order) =
       set (dict_keys (sv_services m))"
proof (cases "svc_startup_order m")
  case (Inl e)
  then show ?thesis
    using assms by (simp add: svc_list_def svc_wf_def wf_dict_def)
next
  case (Inr order)
  then show ?thesis
    using startup_names [OF assms Inr] by simp
qed

lemma svc_state_None: "svc_wf m \<Longrightarrow> svc_state m x = None \<longleftrightarrow> x \<notin> set (dict_keys (sv_services m))"
  using dict_has_iff [of x "sv_states m"] by (simp add: svc_state_def svc_wf_def del: set_map)

section \<open>Well-formedness is kept by every operation\<close>

lemma svc_wf_states_cong:
  "svc_wf m \<Longrightarrow> sv_services m' = sv_services m \<Longrightarrow> sv_meta m' = sv_meta m \<Longrightarrow>
     wf_dict (sv_states m') \<Longrightarrow> set (dict_keys (sv_states m')) = set (dict_keys (sv_states m)) \<Longrightarrow> svc_wf m'"
  by (simp add: svc_wf_def del: set_map)

lemma fold_shutdown_wf:
  "svc_wf m \<Longrightarrow> set names \<subseteq> set (dict_keys (sv_services m)) \<Longrightarrow> svc_wf (fold (shutdown_one env) names m)"
proof (induction names arbitrary: m)
  case (Cons name names)
  then have "svc_wf (shutdown_one env name m)"
    by (simp add: shutdown_one_eq Let_def svc_wf_set_state del: set_map)
  with Cons show ?case by (simp del: set_map)
qed simp

lemma reload_loop_states:
  "sv_services (fst (reload_loop env names m)) = sv_services m
   \<and> sv_meta (fst (reload_loop env names m)) = sv_meta m
   \<and> sv_states (fst (reload_loop env names m)) = sv_states m"
proof (induction names arbitrary: m)
  case (Cons name names)
  then show ?case
    using call_service_frames [of "se_reload env" "''reload''" name m]
    by (auto simp del: call_service_frames split: prod.split option.split)
qed simp

lemma svc_wf_initialized [simp]: "svc_wf (m\<lparr>sv_initialized := b\<rparr>) = svc_wf m"
  by (simp add: svc_wf_def)

lemma svc_register_wf:
  assumes "svc_wf m" "svc_register ob meta m = Inr m'"
  shows "svc_wf m'"
proof -
  have new: "\<not> dict_has (sv_services m) (sm_name meta)"
    and m': "m' = m\<lparr>sv_services := AList.update (sm_name meta) ob (sv_services m),
                   sv_meta := AList.update (sm_name meta) meta (sv_meta m),
                   sv_states := AList.update (sm_name meta) S_UNINITIALIZED (sv_states m)\<rparr>"
    using assms(2) by (auto simp: svc_register_def svc_has_def Let_def split: if_splits)
  have "(n, x) \<in> set (AList.update (sm_name meta) meta (sv_meta m)) \<Longrightarrow> sm_name x = n" for n x
  proof -
    assume "(n, x) \<in> set (AList.update (sm_name meta) meta (sv_meta m))"
    then have "(n, x) \<in> insert (sm_name meta, meta) (set (sv_meta m))"
      using assms(1) set_update_wf [of "sv_meta m" "sm_name meta" meta]
      by (auto simp: svc_wf_def wf_dict_def)
    then show ?thesis using assms(1) by (auto simp: svc_wf_def)
  qed
  then show ?thesis
    using assms(1) new unfolding m' svc_wf_def
    by (auto simp: keys_update_order keys_update simp del: set_map)
qed

lemma keys_delete_order: "dict_keys (AList.delete k d) = filter (\<lambda>x. x \<noteq> k) (dict_keys d)"
  by (induction d) auto

lemma svc_unregister_wf:
  assumes "svc_wf m" "svc_unregister env name m = Inr m'"
  shows "svc_wf m'"
proof -
  let ?m1 = "if svc_state m name = Some S_ACTIVE
             then fst (call_service (se_shutdown env) ''shutdown'' name m) else m"
  have m': "m' = ?m1\<lparr>sv_services := AList.delete name (sv_services ?m1),
                   sv_meta := AList.delete name (sv_meta ?m1),
                   sv_states := AList.delete name (sv_states ?m1)\<rparr>"
    using assms(2) by (auto simp: svc_unregister_def Let_def split: if_splits)
  have "svc_wf ?m1" using assms(1) by simp
  then show ?thesis
    unfolding m' svc_wf_def
    by (auto simp: keys_delete keys_delete_order set_delete simp del: set_map)
qed

lemma tables_kept:
  assumes "svc_wf m"
  shows "svc_register ob meta m = Inr m' \<Longrightarrow> svc_wf m'" "svc_unregister env name m = Inr m' \<Longrightarrow> svc_wf m'"
    and "svc_wf (fst (svc_initialize env m))" "svc_wf (svc_shutdown env m)" "svc_wf (fst (svc_reload env m))"
proof -
  show "svc_wf (fst (svc_initialize env m))"
  proof (cases "svc_startup_order m")
    case (Inr order)
    then show ?thesis
      using assms init_loop_wf [OF assms, of order env] startup_names [OF assms Inr]
      by (auto simp: svc_initialize_def split: prod.split option.split simp del: set_map)
  qed (use assms in \<open>simp add: svc_initialize_def\<close>)
  show "svc_wf (svc_shutdown env m)"
    unfolding svc_shutdown_def Let_def svc_wf_initialized
    by (rule fold_shutdown_wf [OF assms]) (use shutdown_names [OF assms] in \<open>simp del: set_map\<close>)
  show "svc_wf (fst (svc_reload env m))"
  proof (cases "svc_startup_order m")
    case (Inr order)
    then show ?thesis
      using reload_loop_states [of env order m]
      by (intro svc_wf_states_cong [OF assms])
        (use assms in \<open>simp_all add: svc_reload_def svc_wf_def del: set_map\<close>)
  qed (use assms in \<open>simp add: svc_reload_def\<close>)
qed (use assms svc_register_wf svc_unregister_wf in blast)+

text \<open>
  The manager's three tables stay in step: registration, unregistration, initialisation,
  shutdown and reload, successful or not, keep them dictionaries over the same names, with each
  service's metadata under its own name.
\<close>

theorem service_tables_invariant:
  assumes "svc_wf m"
  shows "(\<forall>ob meta m'. svc_register ob meta m = Inr m' \<longrightarrow> svc_wf m')
    \<and> (\<forall>env name m'. svc_unregister env name m = Inr m' \<longrightarrow> svc_wf m')
    \<and> (\<forall>env. svc_wf (fst (svc_initialize env m)))
    \<and> (\<forall>env. svc_wf (svc_shutdown env m))
    \<and> (\<forall>env. svc_wf (fst (svc_reload env m)))"
  using tables_kept [OF assms] by blast

lemma sv_init_wf [simp]: "svc_wf sv_init"
  by (simp add: svc_wf_def sv_init_def)

section \<open>What the life cycle does\<close>

lemma initialize_steps:
  assumes "svc_wf m" "\<not> sv_initialized m" "svc_startup_order m = Inr order"
  shows "case svc_initialize env m of
      (m', None) \<Rightarrow> sv_initialized m'
        \<and> (\<forall>x \<in> set (dict_keys (sv_services m)). svc_state m' x = Some S_ACTIVE)
        \<and> sv_calls m' = sv_calls m @ map (Pair ''initialize'')
            (filter (has_method (se_initialize env) m) order)
    | (m', Some e) \<Rightarrow> \<not> sv_initialized m'
        \<and> (\<exists>pre name post cause. order = pre @ name # post
            \<and> e = service_failed '' initialization'' name cause
            \<and> call_raises (se_initialize env) m name = Some cause
            \<and> (\<forall>x. svc_state m' x = (if x \<in> set pre then Some S_ACTIVE
                 else if x = name then Some S_FAILED else svc_state m x)))"
proof -
  note names = startup_names [OF assms(1,3)]
  obtain m1 r where l: "init_loop env order m = (m1, r)"
    by (cases "init_loop env order m")
  have fr: "sv_initialized m1 = sv_initialized m"
    using init_loop_frames [of env order m] l by simp
  show ?thesis
  proof (cases r)
    case None
    then show ?thesis
      using init_loop_ok [of env order m] l assms names
      by (auto simp: svc_initialize_def svc_state_def simp del: set_map)
  next
    case (Some e)
    then show ?thesis
      using init_loop_fail [of env order m e, OF _ names(1)] l assms fr
      by (simp add: svc_initialize_def)
  qed
qed

text \<open>
  \<open>C18\<close>. Initialisation goes through the start-up order. If it succeeds, every registered service
  is active and each was called once, after all its dependencies; if a service raises, those
  before it are active, it is failed, those after it are as they were, and the manager is not
  initialised and reports that service.
\<close>

theorem initialize_outcome:
  assumes "svc_wf m" "\<not> sv_initialized m" "svc_startup_order m = Inr order"
  shows "case svc_initialize env m of
      (m', None) \<Rightarrow> sv_initialized m'
        \<and> (\<forall>x \<in> set (dict_keys (sv_services m)). svc_state m' x = Some S_ACTIVE)
        \<and> sv_calls m' = sv_calls m @ map (Pair ''initialize'')
            (filter (has_method (se_initialize env) m) order)
    | (m', Some e) \<Rightarrow> \<not> sv_initialized m'
        \<and> (\<exists>pre name post cause. order = pre @ name # post
            \<and> e = service_failed '' initialization'' name cause
            \<and> call_raises (se_initialize env) m name = Some cause
            \<and> (\<forall>x. svc_state m' x = (if x \<in> set pre then Some S_ACTIVE
                 else if x = name then Some S_FAILED else svc_state m x)))"
  by (rule initialize_steps [OF assms])

text \<open>
  Shutdown goes through the services in reverse order (of start-up, or of registration when
  there is no start-up order) and never fails: each active service is asked once to shut down
  and is stopped unless it raises, in which case it stays active; all other services are left
  alone, and the manager is no longer initialised.
\<close>

theorem shutdown_outcome:
  assumes "svc_wf m"
  shows "\<not> sv_initialized (svc_shutdown env m)
    \<and> (\<forall>x. svc_state (svc_shutdown env m) x =
          (if svc_state m x = Some S_ACTIVE \<and> call_raises (se_shutdown env) m x = None
           then Some S_STOPPED else svc_state m x))
    \<and> sv_calls (svc_shutdown env m) = sv_calls m @ map (Pair ''shutdown'')
        (filter (\<lambda>x. svc_state m x = Some S_ACTIVE \<and> has_method (se_shutdown env) m x)
           (rev (case svc_startup_order m of Inl _ \<Rightarrow> svc_list m | Inr order \<Rightarrow> order)))"
proof -
  let ?names = "case svc_startup_order m of Inl _ \<Rightarrow> svc_list m | Inr order \<Rightarrow> order"
  have all: "x \<in> set ?names \<or> svc_state m x = None" for x
    using shutdown_names [OF assms] svc_state_None [OF assms] by (simp del: set_map)
  have d: "distinct (rev ?names)"
    using shutdown_names [OF assms] by simp
  have "svc_state (fold (shutdown_one env) (rev ?names) m) x = after_shutdown env m x" for x
    using fold_shutdown [OF d, of env m] all [of x] by (auto simp: after_shutdown_def)
  then show ?thesis
    using fold_shutdown [OF d, of env m]
    by (simp add: svc_shutdown_def Let_def svc_state_def after_shutdown_def)
qed

text \<open>
  A service can be unregistered exactly if it is registered and no registered service
  declares a dependency on it, so a registry without missing dependencies stays so.
\<close>

theorem unregister_keeps_dependencies:
  assumes "svc_wf m" "snd ` depends_on (svc_deps m) \<subseteq> set (dict_keys (sv_services m))"
  shows "case svc_unregister env name m of
      Inr m' \<Rightarrow> svc_has name m \<and> \<not> svc_has name m'
        \<and> snd ` depends_on (svc_deps m') \<subseteq> set (dict_keys (sv_services m'))
    | Inl e \<Rightarrow> (exn_class e = ServiceNotFoundErr \<and> \<not> svc_has name m)
        \<or> (exn_class e = DependencyErr \<and> (\<exists>x. (x, name) \<in> depends_on (svc_deps m)))"
proof -
  have edges: "(x, y) \<in> depends_on (svc_deps m') \<longleftrightarrow>
      (\<exists>meta. (x, meta) \<in> set (sv_meta m') \<and> y \<in> set (sm_dependencies meta))" for x y m'
    by (force simp: depends_on_def dep_edges_def svc_deps_def)
  have dep: "svc_dependents name m \<noteq> [] \<longleftrightarrow> (\<exists>x. (x, name) \<in> depends_on (svc_deps m))"
    unfolding edges svc_dependents_def by (auto simp: filter_empty_conv)
  show ?thesis
  proof (cases "svc_has name m \<and> svc_dependents name m = []")
    case False
    then show ?thesis
      using dep by (auto simp: svc_unregister_def)
  next
    case True
    let ?m1 = "if svc_state m name = Some S_ACTIVE
             then fst (call_service (se_shutdown env) ''shutdown'' name m) else m"
    let ?m' = "?m1\<lparr>sv_services := AList.delete name (sv_services ?m1),
                   sv_meta := AList.delete name (sv_meta ?m1),
                   sv_states := AList.delete name (sv_states ?m1)\<rparr>"
    have u: "svc_unregister env name m = Inr ?m'"
      using True by (simp add: svc_unregister_def Let_def)
    have "y \<in> set (dict_keys (AList.delete name (sv_services m)))"
      if "(x, y) \<in> depends_on (svc_deps ?m')" for x y
    proof -
      have xy: "(x, y) \<in> depends_on (svc_deps m)"
        using that unfolding edges by (auto simp: set_delete split: if_splits)
      then have "y \<noteq> name"
        using True dep by auto
      moreover have "y \<in> set (dict_keys (sv_services m))"
        using assms(2) xy by (metis imageI snd_conv subsetD)
      ultimately show ?thesis
        by (simp add: keys_delete del: set_map)
    qed
    then have "snd ` depends_on (svc_deps ?m') \<subseteq> set (dict_keys (sv_services ?m'))"
      by (auto simp del: set_map)
    then show ?thesis
      unfolding u using True by (simp add: svc_has_def keys_delete del: set_map)
  qed
qed

section \<open>Instances\<close>

definition demo_meta :: "string \<Rightarrow> string list \<Rightarrow> service_meta" where
  "demo_meta name deps = \<lparr> sm_name = name, sm_version = ''1.0.0'', sm_description = [],
     sm_dependencies = deps, sm_metadata = [] \<rparr>"

definition demo_services :: service_manager where
  "demo_services = \<lparr> sv_services = [(''b'', 1), (''a'', 0)],
     sv_meta = [(''b'', demo_meta ''b'' [''a'']), (''a'', demo_meta ''a'' [])],
     sv_states = [(''b'', S_UNINITIALIZED), (''a'', S_UNINITIALIZED)],
     sv_initialized = False, sv_calls = [] \<rparr>"

text \<open>Every service has the methods; the start and the stop of service 1 raise.\<close>

definition demo_env :: service_env where
  "demo_env = \<lparr> se_initialize = (\<lambda>ob. Some (if ob = 1 then Some (Exn RuntimeErr ''no'') else None)),
     se_shutdown = (\<lambda>ob. Some (if ob = 1 then Some (Exn RuntimeErr ''no'') else None)),
     se_reload = (\<lambda>_. None), se_health = (\<lambda>_. None), se_status = (\<lambda>_. None) \<rparr>"

lemma demo_services_wf: "svc_wf demo_services"
  by (simp add: svc_wf_def demo_services_def demo_meta_def wf_dict_def)

lemma demo_services_order: "svc_startup_order demo_services = Inr [''a'', ''b'']"
  by code_simp

theorem service_tables_invariant_witness: "svc_wf (svc_shutdown demo_env demo_services)"
  using service_tables_invariant [OF demo_services_wf] by blast

theorem initialize_outcome_witness:
  "case svc_initialize demo_env demo_services of
     (m', None) \<Rightarrow> False
   | (m', Some e) \<Rightarrow> svc_state m' ''a'' = Some S_ACTIVE \<and> svc_state m' ''b'' = Some S_FAILED"
proof -
  have no: "\<not> sv_initialized demo_services"
    by (simp add: demo_services_def)
  have fails: "snd (svc_initialize demo_env demo_services) \<noteq> None"
    by code_simp
  have raises: "call_raises (se_initialize demo_env) demo_services ''a'' = None"
    by (simp add: call_raises_def demo_env_def demo_services_def)
  obtain m' e where r: "svc_initialize demo_env demo_services = (m', Some e)"
    using fails by (cases "svc_initialize demo_env demo_services") auto
  obtain pre name post where "[''a'', ''b''] = pre @ name # post"
      "call_raises (se_initialize demo_env) demo_services name \<noteq> None"
    and st: "\<And>x. svc_state m' x = (if x \<in> set pre then Some S_ACTIVE
               else if x = name then Some S_FAILED else svc_state demo_services x)"
    using initialize_outcome [OF demo_services_wf no demo_services_order, of demo_env] r by auto
  then have "pre = [''a'']" "name = ''b''"
    using raises by (auto simp: Cons_eq_append_conv)
  then show ?thesis
    using r st by simp
qed

theorem shutdown_outcome_witness: "\<not> sv_initialized (svc_shutdown demo_env demo_services)"
  using shutdown_outcome [OF demo_services_wf] by blast

theorem unregister_keeps_dependencies_witness:
  "case svc_unregister demo_env ''a'' demo_services of
     Inr m' \<Rightarrow> False | Inl e \<Rightarrow> exn_class e = DependencyErr"
proof -
  have deps: "snd ` depends_on (svc_deps demo_services) \<subseteq> set (dict_keys (sv_services demo_services))"
    by (simp add: depends_on_def dep_edges_def svc_deps_def demo_services_def demo_meta_def)
  have "\<exists>e. svc_unregister demo_env ''a'' demo_services = Inl e"
    by (simp add: svc_unregister_def svc_has_def svc_dependents_def demo_services_def demo_meta_def)
  then obtain e where e: "svc_unregister demo_env ''a'' demo_services = Inl e" by blast
  moreover have "svc_has ''a'' demo_services"
    by (simp add: svc_has_def demo_services_def)
  ultimately show ?thesis
    using unregister_keeps_dependencies [OF demo_services_wf deps, of "''a''" demo_env] by simp
qed

end
