(* ===== verification/Orchestrator.thy ===== *)
theory Orchestrator
  imports ServiceManager
begin

text \<open>
  \<open>RuntimeOrchestrator\<close> of \<open>yasin_core/core/orchestrator.py\<close>: the life-cycle state machine of the
  runtime over the service registry. The operations take the registry's operations as arguments
  (\<open>service_ops\<close>); the locale \<open>service_registry\<close> states what the orchestrator relies on and is
  interpreted on \<open>ServiceManager\<close>. What the event bus and the configuration raise is a parameter.
\<close>

section \<open>State\<close>

datatype runtime_state =
    R_UNINITIALIZED | R_INITIALIZING | R_RUNNING | R_SHUTTING_DOWN | R_STOPPED | R_FAILED

fun runtime_state_value :: "runtime_state \<Rightarrow> string" where
  "runtime_state_value R_UNINITIALIZED = ''uninitialized''"
| "runtime_state_value R_INITIALIZING = ''initializing''"
| "runtime_state_value R_RUNNING = ''running''"
| "runtime_state_value R_SHUTTING_DOWN = ''shutting_down''"
| "runtime_state_value R_STOPPED = ''stopped''"
| "runtime_state_value R_FAILED = ''failed''"

record 'm orchestrator =
  oc_state :: runtime_state
  oc_start_time :: "real option"
  oc_stop_time :: "real option"
  oc_mgr :: 'm
  oc_events :: "(string \<times> pydict) list"
  oc_calls :: "string list"

definition oc_init :: "'m \<Rightarrow> 'm orchestrator" where
  "oc_init m = \<lparr> oc_state = R_UNINITIALIZED, oc_start_time = None, oc_stop_time = None,
                oc_mgr = m, oc_events = [], oc_calls = [] \<rparr>"

text \<open>
  The runtime's collaborators: which are present, what publishing an event raises, what the
  optional methods \<open>event_bus.reset\<close>, \<open>event_bus.shutdown\<close> and \<open>config.initialize\<close> raise.
\<close>

record runtime_env =
  re_event_bus :: bool
  re_publish :: "string \<Rightarrow> exn option"
  re_bus_reset :: "exn option option"
  re_bus_shutdown :: "exn option option"
  re_config_init :: "exn option option"
  re_registry :: bool

record 'm service_ops =
  so_initialize :: "'m \<Rightarrow> 'm \<times> exn option"
  so_shutdown :: "'m \<Rightarrow> 'm"
  so_reload :: "'m \<Rightarrow> 'm \<times> exn option"
  so_status :: "'m \<Rightarrow> pydict"
  so_health :: "'m \<Rightarrow> pydict"

section \<open>Operations\<close>

definition oc_publish :: "runtime_env \<Rightarrow> string \<Rightarrow> pydict \<Rightarrow> 'm orchestrator \<Rightarrow> 'm orchestrator \<times> exn option" where
  "oc_publish env name payload c =
     (case re_publish env name of
        Some e \<Rightarrow> (c, Some e)
      | None \<Rightarrow> (c\<lparr>oc_events := oc_events c @ [(name, payload)]\<rparr>, None))"

definition transition_to :: "runtime_env \<Rightarrow> real \<Rightarrow> runtime_state \<Rightarrow> 'm orchestrator \<Rightarrow> 'm orchestrator" where
  "transition_to env now new c =
     (let c1 = c\<lparr>oc_state := new\<rparr>;
          payload = [(''old_state'', PStr (runtime_state_value (oc_state c))),
                     (''new_state'', PStr (runtime_state_value new)), (''timestamp'', PFloat now)]
      in if re_event_bus env
         then (case oc_publish env ''runtime_state_changed'' payload c1 of
                 (c2, Some _) \<Rightarrow> c2
               | (c2, None) \<Rightarrow> fst (oc_publish env (''runtime_'' @ runtime_state_value new) payload c2))
         else c1)"

text \<open>\<open>if hasattr(...)\<close>: the method is called; an exception is logged and dropped.\<close>

definition call_quietly :: "string \<Rightarrow> exn option option \<Rightarrow> 'm orchestrator \<Rightarrow> 'm orchestrator" where
  "call_quietly label r c =
     (case r of None \<Rightarrow> c | Some _ \<Rightarrow> c\<lparr>oc_calls := oc_calls c @ [label]\<rparr>)"

definition orchestrator_failed :: "string \<Rightarrow> exn \<Rightarrow> exn" where
  "orchestrator_failed what e = Exn OrchestratorErr (what @ exn_msg e)"

definition oc_start ::
  "'m service_ops \<Rightarrow> runtime_env \<Rightarrow> real \<Rightarrow> 'm orchestrator \<Rightarrow> 'm orchestrator \<times> exn option" where
  "oc_start ops env now c =
     (if oc_state c = R_RUNNING then (c, None)
      else if oc_state c = R_INITIALIZING
      then (c, Some (Exn OrchestratorErr ''Runtime is currently initializing.''))
      else
        let c1 = (transition_to env now R_INITIALIZING c)\<lparr>oc_start_time := Some now, oc_stop_time := None\<rparr>;
            c2 = (if re_event_bus env then call_quietly ''event_bus.reset'' (re_bus_reset env) c1 else c1);
            c3 = call_quietly ''config.initialize'' (re_config_init env) c2
        in case (if re_registry env then so_initialize ops (oc_mgr c3) else (oc_mgr c3, None)) of
             (m, None) \<Rightarrow> (transition_to env now R_RUNNING (c3\<lparr>oc_mgr := m\<rparr>), None)
           | (m, Some e) \<Rightarrow>
               (transition_to env now R_FAILED (c3\<lparr>oc_mgr := m\<rparr>),
                Some (orchestrator_failed ''Startup sequence failed: '' e)))"

text \<open>The services that a status report shows as active, as \<open>stop\<close> looks for them.\<close>

definition shows_active :: "string \<times> pyval \<Rightarrow> bool" where
  "shows_active p =
     (case snd p of
        PDict info \<Rightarrow>
          fst p \<noteq> ''services'' \<and>
          (case pyget info ''state'' of PStr s \<Rightarrow> str_upper s = ''ACTIVE'' | _ \<Rightarrow> False)
      | _ \<Rightarrow> False)"

definition active_in_status :: "pydict \<Rightarrow> string list" where
  "active_in_status status =
     (case dict_get_or status ''services'' (PDict status) of
        PDict services \<Rightarrow> map fst (filter shows_active services)
      | _ \<Rightarrow> [])"

definition oc_stop ::
  "'m service_ops \<Rightarrow> runtime_env \<Rightarrow> real \<Rightarrow> 'm orchestrator \<Rightarrow> 'm orchestrator \<times> exn option" where
  "oc_stop ops env now c =
     (if oc_state c = R_STOPPED \<or> oc_state c = R_UNINITIALIZED then (c, None)
      else
        let c1 = transition_to env now R_SHUTTING_DOWN c;
            c2 = (if re_registry env then c1\<lparr>oc_mgr := so_shutdown ops (oc_mgr c1)\<rparr> else c1)
        in case (if re_registry env then active_in_status (so_status ops (oc_mgr c2)) else []) of
             name # _ \<Rightarrow>
               (transition_to env now R_FAILED c2,
                Some (orchestrator_failed ''Shutdown sequence failed: ''
                  (Exn OrchestratorErr (''Service '' @ quoted name @ '' failed to stop (remains active).''))))
           | [] \<Rightarrow>
               let c3 = (if re_event_bus env
                         then call_quietly ''event_bus.shutdown'' (re_bus_shutdown env) c2 else c2)
               in (transition_to env now R_STOPPED (c3\<lparr>oc_stop_time := Some now\<rparr>), None))"

definition oc_reload ::
  "'m service_ops \<Rightarrow> runtime_env \<Rightarrow> real \<Rightarrow> 'm orchestrator \<Rightarrow> 'm orchestrator \<times> exn option" where
  "oc_reload ops env now c =
     (if oc_state c \<noteq> R_RUNNING
      then (c, Some (Exn OrchestratorErr (''Cannot reload unless runtime is in RUNNING state. Current: ''
             @ runtime_state_value (oc_state c))))
      else case (if re_registry env then so_reload ops (oc_mgr c) else (oc_mgr c, None)) of
             (m, Some e) \<Rightarrow> (c\<lparr>oc_mgr := m\<rparr>, Some (orchestrator_failed ''Reload failed: '' e))
           | (m, None) \<Rightarrow>
               if re_event_bus env
               then (case oc_publish env ''runtime_reloaded'' [(''timestamp'', PFloat now)] (c\<lparr>oc_mgr := m\<rparr>) of
                       (c1, Some e) \<Rightarrow> (c1, Some (orchestrator_failed ''Reload failed: '' e))
                     | (c1, None) \<Rightarrow> (c1, None))
               else (c\<lparr>oc_mgr := m\<rparr>, None))"

definition oc_health :: "'m service_ops \<Rightarrow> runtime_env \<Rightarrow> 'm orchestrator \<Rightarrow> pydict" where
  "oc_health ops env c =
     (let report = (if re_registry env then so_health ops (oc_mgr c) else []);
          healthy = (oc_state c = R_RUNNING \<or> oc_state c = R_STOPPED)
            \<and> \<not> (re_registry env \<and> pyget report ''healthy'' = PBool False)
      in [(''healthy'', PBool healthy), (''state'', PStr (runtime_state_value (oc_state c))),
          (''services'', dict_get_or report ''services'' (PDict report))])"

text \<open>\<open>status\<close>; \<open>ctx\<close> and \<open>di\<close> are the reports of the context engine and of the container.\<close>

definition oc_status ::
  "'m service_ops \<Rightarrow> runtime_env \<Rightarrow> pydict \<Rightarrow> string list \<Rightarrow> real \<Rightarrow> 'm orchestrator \<Rightarrow> pydict" where
  "oc_status ops env ctx di now c =
     (let uptime = (case oc_start_time c of
                      None \<Rightarrow> 0
                    | Some s \<Rightarrow> if s = 0 then 0
                        else (case oc_stop_time c of
                                Some e \<Rightarrow> (if e = 0 then now else e) - s
                              | None \<Rightarrow> now - s));
          services = (if re_registry env then so_status ops (oc_mgr c) else [])
      in [(''name'', PStr ''Yasin Core Runtime Orchestrator''),
          (''state'', PStr (runtime_state_value (oc_state c))),
          (''running'', PBool (oc_state c = R_RUNNING)),
          (''uptime_seconds'', PFloat uptime),
          (''services'', dict_get_or services ''services'' (PDict services)),
          (''contexts'', PDict ctx),
          (''di_container'', PDict [(''registered_services'', PList (map PStr di))])])"

definition command_result :: "string \<Rightarrow> 'm orchestrator \<times> exn option \<Rightarrow> 'm orchestrator \<times> (exn + pydict)" where
  "command_result msg r =
     (fst r, case snd r of
               Some e \<Rightarrow> Inl e
             | None \<Rightarrow> Inr [(''status'', PStr ''success''), (''message'', PStr msg)])"

definition oc_execute_command ::
  "'m service_ops \<Rightarrow> runtime_env \<Rightarrow> pydict \<Rightarrow> string list \<Rightarrow> real \<Rightarrow> string \<Rightarrow> 'm orchestrator
   \<Rightarrow> 'm orchestrator \<times> (exn + pydict)" where
  "oc_execute_command ops env ctx di now command c =
     (let cmd = str_lower (str_strip command)
      in if cmd = ''start'' then command_result ''Runtime started'' (oc_start ops env now c)
         else if cmd = ''stop'' then command_result ''Runtime stopped'' (oc_stop ops env now c)
         else if cmd = ''reload'' then command_result ''Runtime reloaded'' (oc_reload ops env now c)
         else if cmd = ''status'' then (c, Inr (oc_status ops env ctx di now c))
         else if cmd = ''health'' then (c, Inr (oc_health ops env c))
         else (c, Inl (Exn ValueErr (''Unknown orchestrator command: '' @ quoted command))))"

lemma transition_to_frames [simp]:
  "oc_state (transition_to env now new c) = new" "oc_mgr (transition_to env now new c) = oc_mgr c"
  "oc_start_time (transition_to env now new c) = oc_start_time c"
  "oc_stop_time (transition_to env now new c) = oc_stop_time c"
  by (simp_all add: transition_to_def oc_publish_def Let_def split: option.split)

lemma call_quietly_frames [simp]:
  "oc_state (call_quietly l r c) = oc_state c" "oc_mgr (call_quietly l r c) = oc_mgr c"
  by (simp_all add: call_quietly_def split: option.split)

lemma oc_start_running: "oc_state c = R_RUNNING \<Longrightarrow> oc_start ops env now c = (c, None)"
  by (simp add: oc_start_def)

lemma oc_start_cases:
  assumes "oc_state c \<noteq> R_RUNNING" "oc_state c \<noteq> R_INITIALIZING" "re_registry env"
    "so_initialize ops (oc_mgr c) = (m, r)"
  shows "snd (oc_start ops env now c) = map_option (orchestrator_failed ''Startup sequence failed: '') r
    \<and> oc_mgr (fst (oc_start ops env now c)) = m
    \<and> oc_state (fst (oc_start ops env now c)) = (if r = None then R_RUNNING else R_FAILED)"
  using assms by (cases r) (simp_all add: oc_start_def Let_def)

section \<open>What the orchestrator relies on\<close>

locale service_registry =
  fixes ops :: "'m service_ops"
    and invar :: "'m \<Rightarrow> bool"
    and initialized :: "'m \<Rightarrow> bool"
    and names :: "'m \<Rightarrow> string set"
    and active :: "'m \<Rightarrow> string set"
  assumes init_ok: "invar m \<Longrightarrow> \<not> initialized m \<Longrightarrow> so_initialize ops m = (m', None) \<Longrightarrow>
        invar m' \<and> initialized m' \<and> names m \<subseteq> active m' \<and> names m' = names m"
    and init_err: "invar m \<Longrightarrow> \<not> initialized m \<Longrightarrow> so_initialize ops m = (m', Some e) \<Longrightarrow>
        invar m' \<and> \<not> initialized m' \<and> names m' = names m"
    and shutdown: "invar m \<Longrightarrow> invar (so_shutdown ops m) \<and> \<not> initialized (so_shutdown ops m)
        \<and> names (so_shutdown ops m) = names m"
    and reload: "invar m \<Longrightarrow> so_reload ops m = (m', r) \<Longrightarrow>
        invar m' \<and> initialized m' = initialized m \<and> names m' = names m \<and> active m' = active m"
    and status: "invar m \<Longrightarrow> active m \<subseteq> insert ''services'' (set (active_in_status (so_status ops m)))"
begin

text \<open>The states in which no operation is under way, with what they say of the services.\<close>

definition at_rest :: "'m orchestrator \<Rightarrow> bool" where
  "at_rest c \<longleftrightarrow> invar (oc_mgr c) \<and>
     (case oc_state c of
        R_UNINITIALIZED \<Rightarrow> \<not> initialized (oc_mgr c)
      | R_RUNNING \<Rightarrow> initialized (oc_mgr c) \<and> names (oc_mgr c) \<subseteq> active (oc_mgr c)
      | R_STOPPED \<Rightarrow> \<not> initialized (oc_mgr c) \<and> active (oc_mgr c) \<subseteq> {''services''}
      | R_FAILED \<Rightarrow> \<not> initialized (oc_mgr c)
      | _ \<Rightarrow> False)"

lemma start_rest:
  assumes "at_rest c" "re_registry env"
  shows "at_rest (fst (oc_start ops env now c))"
    and "snd (oc_start ops env now c) = None \<longleftrightarrow> oc_state (fst (oc_start ops env now c)) = R_RUNNING"
    and "snd (oc_start ops env now c) \<noteq> None \<Longrightarrow> oc_state (fst (oc_start ops env now c)) = R_FAILED"
    and "names (oc_mgr (fst (oc_start ops env now c))) = names (oc_mgr c)"
proof -
  have *: "at_rest (fst (oc_start ops env now c))
    \<and> (snd (oc_start ops env now c) = None \<longleftrightarrow> oc_state (fst (oc_start ops env now c)) = R_RUNNING)
    \<and> (snd (oc_start ops env now c) \<noteq> None \<longrightarrow> oc_state (fst (oc_start ops env now c)) = R_FAILED)
    \<and> names (oc_mgr (fst (oc_start ops env now c))) = names (oc_mgr c)"
  proof (cases "oc_state c = R_RUNNING")
    case True
    then show ?thesis using assms(1) by (simp add: oc_start_running)
  next
    case False
    obtain m r where i: "so_initialize ops (oc_mgr c) = (m, r)"
      by (cases "so_initialize ops (oc_mgr c)")
    have inv: "invar (oc_mgr c)" and st: "oc_state c \<noteq> R_INITIALIZING"
      and ni: "\<not> initialized (oc_mgr c)"
      using assms(1) False by (auto simp: at_rest_def split: runtime_state.splits)
    note c = oc_start_cases [OF False st assms(2) i, of now]
    show ?thesis
    proof (cases r)
      case None
      then show ?thesis
        using c init_ok [OF inv ni, of m] i by (auto simp: at_rest_def)
    next
      case (Some e)
      then show ?thesis
        using c init_err [OF inv ni, of m e] i by (auto simp: at_rest_def)
    qed
  qed
  show "at_rest (fst (oc_start ops env now c))"
    "snd (oc_start ops env now c) = None \<longleftrightarrow> oc_state (fst (oc_start ops env now c)) = R_RUNNING"
    "snd (oc_start ops env now c) \<noteq> None \<Longrightarrow> oc_state (fst (oc_start ops env now c)) = R_FAILED"
    "names (oc_mgr (fst (oc_start ops env now c))) = names (oc_mgr c)"
    using * by blast+
qed

lemma stop_rest:
  assumes "at_rest c" "re_registry env"
  shows "at_rest (fst (oc_stop ops env now c))"
    and "snd (oc_stop ops env now c) \<noteq> None \<longleftrightarrow> oc_state (fst (oc_stop ops env now c)) = R_FAILED"
    and "names (oc_mgr (fst (oc_stop ops env now c))) = names (oc_mgr c)"
proof -
  have inv: "invar (oc_mgr c)"
    using assms(1) by (simp add: at_rest_def)
  note sh = shutdown [OF inv] and st = status [OF conjunct1 [OF shutdown [OF inv]]]
  show "at_rest (fst (oc_stop ops env now c))"
    using assms sh st by (auto simp: oc_stop_def Let_def at_rest_def split: list.split)
  show "snd (oc_stop ops env now c) \<noteq> None \<longleftrightarrow> oc_state (fst (oc_stop ops env now c)) = R_FAILED"
    using assms by (auto simp: oc_stop_def Let_def at_rest_def split: list.split)
  show "names (oc_mgr (fst (oc_stop ops env now c))) = names (oc_mgr c)"
    using assms sh by (auto simp: oc_stop_def Let_def split: list.split)
qed

lemma reload_rest:
  assumes "at_rest c" "re_registry env"
  shows "at_rest (fst (oc_reload ops env now c))"
    and "oc_state (fst (oc_reload ops env now c)) = oc_state c"
    and "names (oc_mgr (fst (oc_reload ops env now c))) = names (oc_mgr c)"
proof -
  obtain m r where i: "so_reload ops (oc_mgr c) = (m, r)"
    by (cases "so_reload ops (oc_mgr c)")
  have inv: "invar (oc_mgr c)"
    using assms(1) by (simp add: at_rest_def)
  note rl = reload [OF inv i]
  show "at_rest (fst (oc_reload ops env now c))" "oc_state (fst (oc_reload ops env now c)) = oc_state c"
    "names (oc_mgr (fst (oc_reload ops env now c))) = names (oc_mgr c)"
    using assms i rl
    by (auto simp: oc_reload_def oc_publish_def at_rest_def split: option.split runtime_state.splits)
qed

end

section \<open>The service manager behind the orchestrator\<close>

definition svc_ops :: "service_env \<Rightarrow> service_manager service_ops" where
  "svc_ops env = \<lparr> so_initialize = svc_initialize env, so_shutdown = svc_shutdown env,
     so_reload = svc_reload env, so_status = svc_status env, so_health = svc_health env \<rparr>"

definition svc_active :: "service_manager \<Rightarrow> string set" where
  "svc_active m = {x. svc_state m x = Some S_ACTIVE}"

lemma merge_new_keeps: "map_of base k = Some v \<Longrightarrow> map_of (merge_new base extra) k = Some v"
  unfolding merge_new_def
  by (induction extra arbitrary: base) (auto simp: map_add_def)

lemma service_status_state:
  "pyget (service_status env m name ob meta) ''state'' =
     PStr (service_state_value (case svc_state m name of Some s \<Rightarrow> s | None \<Rightarrow> S_UNINITIALIZED))"
  unfolding service_status_def pyget_def Let_def by (subst merge_new_keeps) auto

lemma svc_active_shown:
  assumes "svc_wf m"
  shows "svc_active m \<subseteq> insert ''services'' (set (active_in_status (svc_status env m)))"
proof
  fix x assume "x \<in> svc_active m"
  then have st: "svc_state m x = Some S_ACTIVE" by (simp add: svc_active_def)
  then have "x \<in> set (dict_keys (sv_services m))"
    using svc_state_None [OF assms, of x] by auto
  then obtain ob where ob: "(x, ob) \<in> set (sv_services m)" by auto
  have "x \<in> set (dict_keys (sv_meta m))"
    using assms \<open>x \<in> set (dict_keys (sv_services m))\<close> by (simp add: svc_wf_def del: set_map)
  then obtain meta where meta: "map_of (sv_meta m) x = Some meta"
    by (auto simp: dict_has_iff simp del: set_map)
  let ?items = "concat (map (\<lambda>(name, ob). (case map_of (sv_meta m) name of
             None \<Rightarrow> [] | Some meta \<Rightarrow> [(name, PDict (service_status env m name ob meta))])) (sv_services m))"
  have "(x, PDict (service_status env m x ob meta)) \<in> set ?items"
    using ob meta by force
  moreover have "x \<noteq> ''services'' \<Longrightarrow> shows_active (x, PDict (service_status env m x ob meta))"
    using st by (simp add: shows_active_def service_status_state str_upper_def char_upper_def in_range_char_def)
  ultimately have "x \<noteq> ''services'' \<Longrightarrow>
      (x, PDict (service_status env m x ob meta)) \<in> set (filter shows_active ?items)"
    by simp
  then have "x \<noteq> ''services'' \<Longrightarrow> x \<in> set (map fst (filter shows_active ?items))"
    by (auto simp del: set_filter set_concat intro: rev_image_eqI)
  moreover have "active_in_status (svc_status env m) = map fst (filter shows_active ?items)"
    by (simp add: active_in_status_def svc_status_def dict_get_or_def del: map_concat)
  ultimately show "x \<in> insert ''services'' (set (active_in_status (svc_status env m)))"
    by (cases "x = ''services''") simp_all
qed

lemma svc_initialize_names: "sv_services (fst (svc_initialize env m)) = sv_services m"
proof (cases "sv_initialized m")
  case False
  show ?thesis
  proof (cases "svc_startup_order m")
    case (Inr order)
    then show ?thesis
      using False init_loop_frames [of env order m]
      by (cases "init_loop env order m") (simp add: svc_initialize_def split: option.split)
  qed (simp add: svc_initialize_def)
qed (simp add: svc_initialize_def)

lemma svc_shutdown_names:
  assumes "svc_wf m"
  shows "sv_services (svc_shutdown env m) = sv_services m"
proof -
  let ?names = "case svc_startup_order m of Inl _ \<Rightarrow> svc_list m | Inr order \<Rightarrow> order"
  have "distinct (rev ?names)"
    using shutdown_names [OF assms] by simp
  from fold_shutdown [OF this, of env m] show ?thesis
    unfolding svc_shutdown_def Let_def by simp
qed

lemma reload_loop_initialized: "sv_initialized (fst (reload_loop env names m)) = sv_initialized m"
proof (induction names arbitrary: m)
  case (Cons name names)
  obtain m1 r where c: "call_service (se_reload env) ''reload'' name m = (m1, r)"
    by (cases "call_service (se_reload env) ''reload'' name m")
  have "sv_initialized m1 = sv_initialized m"
    using call_service_frames(4) [of "se_reload env" "''reload''" name m] by (simp add: c)
  with Cons [of m1] Cons [of m] show ?case
    by (simp add: c split: option.split)
qed simp

lemma svc_reload_frames:
  "sv_services (fst (svc_reload env m)) = sv_services m
   \<and> sv_states (fst (svc_reload env m)) = sv_states m
   \<and> sv_initialized (fst (svc_reload env m)) = sv_initialized m"
proof (cases "svc_startup_order m")
  case (Inr order)
  then show ?thesis
    using reload_loop_states [of env order m] reload_loop_initialized [of env order m]
    by (simp add: svc_reload_def)
qed (simp add: svc_reload_def)

lemma svc_initialize_ok:
  assumes "svc_wf m" "\<not> sv_initialized m" "svc_initialize env m = (m', None)"
  shows "sv_initialized m' \<and> set (svc_list m) \<subseteq> svc_active m'"
proof -
  obtain order where o: "svc_startup_order m = Inr order"
    using assms(2,3) by (cases "svc_startup_order m") (auto simp: svc_initialize_def)
  show ?thesis
    using initialize_steps [OF assms(1,2) o, of env] assms(3)
    by (auto simp: svc_active_def svc_list_def)
qed

lemma svc_initialize_err:
  assumes "\<not> sv_initialized m" "svc_initialize env m = (m', Some e)"
  shows "\<not> sv_initialized m'"
proof (cases "svc_startup_order m")
  case (Inl e')
  then show ?thesis
    using assms by (simp add: svc_initialize_def)
next
  case (Inr order)
  then show ?thesis
    using assms init_loop_frames [of env order m]
    by (cases "init_loop env order m") (auto simp: svc_initialize_def split: option.splits)
qed

interpretation sreg: service_registry "svc_ops env" svc_wf sv_initialized "\<lambda>m. set (svc_list m)" svc_active
  for env
proof unfold_locales
  fix m m' assume "svc_wf m" "\<not> sv_initialized m" "so_initialize (svc_ops env) m = (m', None)"
  then show "svc_wf m' \<and> sv_initialized m' \<and> set (svc_list m) \<subseteq> svc_active m'
      \<and> set (svc_list m') = set (svc_list m)"
    using svc_initialize_ok [of m env m'] tables_kept(3) [of m env] svc_initialize_names [of env m]
    by (simp add: svc_ops_def svc_list_def)
next
  fix m m' e assume "svc_wf m" "\<not> sv_initialized m" "so_initialize (svc_ops env) m = (m', Some e)"
  then show "svc_wf m' \<and> \<not> sv_initialized m' \<and> set (svc_list m') = set (svc_list m)"
    using svc_initialize_err [of m env m' e] tables_kept(3) [of m env] svc_initialize_names [of env m]
    by (simp add: svc_ops_def svc_list_def)
next
  fix m assume "svc_wf m"
  then show "svc_wf (so_shutdown (svc_ops env) m) \<and> \<not> sv_initialized (so_shutdown (svc_ops env) m)
      \<and> set (svc_list (so_shutdown (svc_ops env) m)) = set (svc_list m)"
    using tables_kept(4) [of m env] svc_shutdown_names [of m env]
    by (simp add: svc_ops_def svc_list_def svc_shutdown_def Let_def)
next
  fix m m' r assume "svc_wf m" "so_reload (svc_ops env) m = (m', r)"
  then show "svc_wf m' \<and> sv_initialized m' = sv_initialized m \<and> set (svc_list m') = set (svc_list m)
      \<and> svc_active m' = svc_active m"
    using tables_kept(5) [of m env] svc_reload_frames [of env m]
    by (simp add: svc_ops_def svc_list_def svc_active_def svc_state_def)
next
  fix m assume "svc_wf m"
  then show "svc_active m \<subseteq> insert ''services'' (set (active_in_status (so_status (svc_ops env) m)))"
    using svc_active_shown by (simp add: svc_ops_def)
qed

section \<open>The life cycle of the runtime\<close>

text \<open>What the control commands can reach from a runtime with registered services.\<close>

inductive oc_reachable :: "service_manager \<Rightarrow> service_manager orchestrator \<Rightarrow> bool" for m0 where
  init: "oc_reachable m0 (oc_init m0)"
| start: "oc_reachable m0 c \<Longrightarrow> re_registry env \<Longrightarrow>
     oc_reachable m0 (fst (oc_start (svc_ops senv) env now c))"
| stop: "oc_reachable m0 c \<Longrightarrow> re_registry env \<Longrightarrow>
     oc_reachable m0 (fst (oc_stop (svc_ops senv) env now c))"
| reload: "oc_reachable m0 c \<Longrightarrow> re_registry env \<Longrightarrow>
     oc_reachable m0 (fst (oc_reload (svc_ops senv) env now c))"

lemma oc_reachable_rest:
  "oc_reachable m0 c \<Longrightarrow> svc_wf m0 \<Longrightarrow> \<not> sv_initialized m0 \<Longrightarrow>
     sreg.at_rest c \<and> set (svc_list (oc_mgr c)) = set (svc_list m0)"
proof (induction rule: oc_reachable.induct)
  case init
  then show ?case by (simp add: sreg.at_rest_def oc_init_def)
next
  case (start c env senv now)
  then show ?case using sreg.start_rest(1,4) [of c env senv now] by simp
next
  case (stop c env senv now)
  then show ?case using sreg.stop_rest(1,3) [of c env senv now] by simp
next
  case (reload c env senv now)
  then show ?case using sreg.reload_rest(1,3) [of c env senv now] by simp
qed

text \<open>
  \<open>C4\<close>. Whatever services, event bus and configuration raise, and in whatever order start, stop and
  reload are issued: between commands the runtime is uninitialised, running, stopped or failed;
  when it is running every registered service is active; when it is stopped none is (except
  possibly one registered under the name \<open>services\<close>, which the check skips).
\<close>

theorem runtime_lifecycle_invariant:
  assumes "oc_reachable m0 c" "svc_wf m0" "\<not> sv_initialized m0"
  shows "case oc_state c of
      R_RUNNING \<Rightarrow> \<forall>x \<in> set (svc_list m0). svc_state (oc_mgr c) x = Some S_ACTIVE
    | R_STOPPED \<Rightarrow> \<forall>x. x \<noteq> ''services'' \<longrightarrow> svc_state (oc_mgr c) x \<noteq> Some S_ACTIVE
    | R_INITIALIZING \<Rightarrow> False
    | R_SHUTTING_DOWN \<Rightarrow> False
    | _ \<Rightarrow> \<not> sv_initialized (oc_mgr c)"
  using oc_reachable_rest [OF assms]
  by (cases "oc_state c") (auto simp: sreg.at_rest_def svc_active_def)

text \<open>
  A command reports an error exactly when it leaves the runtime failed: a start that raises
  leaves it failed, one that returns leaves it running, and a stop that returns leaves it stopped
  or, if it was never started, as it was.
\<close>

theorem start_stop_outcome:
  assumes "oc_reachable m0 c" "svc_wf m0" "\<not> sv_initialized m0" "re_registry env"
  shows "(case oc_start (svc_ops senv) env now c of
       (c', None) \<Rightarrow> oc_state c' = R_RUNNING | (c', Some e) \<Rightarrow> oc_state c' = R_FAILED)
    \<and> (case oc_stop (svc_ops senv) env now c of
       (c', None) \<Rightarrow> oc_state c' = R_STOPPED \<or> c' = c \<and> oc_state c = R_UNINITIALIZED
     | (c', Some e) \<Rightarrow> oc_state c' = R_FAILED)"
proof -
  have rest: "sreg.at_rest c"
    using oc_reachable_rest [OF assms(1-3)] by blast
  have stop: "snd (oc_stop (svc_ops senv) env now c) = None \<Longrightarrow>
      oc_state (fst (oc_stop (svc_ops senv) env now c)) = R_STOPPED
      \<or> fst (oc_stop (svc_ops senv) env now c) = c \<and> oc_state c = R_UNINITIALIZED"
    using assms(4)
    by (cases "oc_state c = R_STOPPED \<or> oc_state c = R_UNINITIALIZED")
      (auto simp: oc_stop_def Let_def split: list.splits)
  show ?thesis
    using sreg.start_rest(2,3) [OF rest assms(4), of senv now]
      sreg.stop_rest(2) [OF rest assms(4), of senv now] stop
    by (auto split: prod.splits option.splits)
qed

definition demo_runtime_env :: runtime_env where
  "demo_runtime_env = \<lparr> re_event_bus = True, re_publish = (\<lambda>_. None), re_bus_reset = Some None,
     re_bus_shutdown = Some None, re_config_init = None, re_registry = True \<rparr>"

definition demo_started :: "service_manager orchestrator" where
  "demo_started = fst (oc_start (svc_ops (demo_env\<lparr>se_initialize := \<lambda>_. None\<rparr>)) demo_runtime_env 1
     (oc_init demo_services))"

lemma demo_started_reachable: "oc_reachable demo_services demo_started"
  unfolding demo_started_def
  by (rule oc_reachable.start [OF oc_reachable.init]) (simp add: demo_runtime_env_def)

lemma demo_started_running: "oc_state demo_started = R_RUNNING"
proof -
  have "svc_startup_order demo_services = Inr [''a'', ''b'']"
    by (rule demo_services_order)
  then have "snd (svc_initialize (demo_env\<lparr>se_initialize := \<lambda>_. None\<rparr>) demo_services) = None"
    by (simp add: svc_initialize_def init_loop_Cons demo_services_def call_raises_def set_state_def
        call_service_def)
  then show ?thesis
    by (cases "svc_initialize (demo_env\<lparr>se_initialize := \<lambda>_. None\<rparr>) demo_services")
      (simp add: demo_started_def oc_start_def oc_init_def svc_ops_def demo_runtime_env_def Let_def)
qed

theorem runtime_lifecycle_invariant_witness:
  "svc_state (oc_mgr demo_started) ''b'' = Some S_ACTIVE"
proof -
  have "\<not> sv_initialized demo_services" "''b'' \<in> set (svc_list demo_services)"
    by (simp_all add: demo_services_def svc_list_def)
  then show ?thesis
    using runtime_lifecycle_invariant [OF demo_started_reachable demo_services_wf]
    by (simp add: demo_started_running)
qed

theorem start_stop_outcome_witness:
  "case oc_stop (svc_ops demo_env) demo_runtime_env 2 demo_started of
     (c', None) \<Rightarrow> oc_state c' = R_STOPPED | (c', Some e) \<Rightarrow> oc_state c' = R_FAILED"
proof -
  have "\<not> sv_initialized demo_services" "re_registry demo_runtime_env"
    by (simp_all add: demo_services_def demo_runtime_env_def)
  then show ?thesis
    using start_stop_outcome [OF demo_started_reachable demo_services_wf, of demo_runtime_env demo_env 2]
    by (auto simp: demo_started_running split: prod.splits option.splits)
qed

end
