(* ===== verification/Glob.thy ===== *)
theory Glob
  imports PyStrings
begin

text \<open>
  \<open>fnmatch.fnmatchcase\<close> of the Python standard library, which
  \<open>yasin_core/security/models.py\<close> uses to compare permissions: \<open>*\<close> is any string, \<open>?\<close> any
  character, \<open>[seq]\<close> and \<open>[!seq]\<close> a character in or not in a set with ranges; an unclosed bracket
  is literal, a range with its ends exchanged is empty.
\<close>

section \<open>Patterns\<close>

datatype glob = G_Star | G_Any | G_Set bool "(char \<times> char) list" | G_Lit char

text \<open>The items of a bracket: ranges \<open>a-b\<close> and single characters.\<close>

fun set_items :: "string \<Rightarrow> (char \<times> char) list" where
  "set_items (a # h # b # rest) =
     (if h = CHR ''-'' then (a, b) # set_items rest else (a, a) # set_items (h # b # rest))"
| "set_items (a # rest) = (a, a) # set_items rest"
| "set_items [] = []"

text \<open>The bracket after \<open>[\<close>: negation, body and the rest of the pattern, if it is closed.\<close>

definition parse_bracket :: "string \<Rightarrow> (bool \<times> string \<times> string) option" where
  "parse_bracket r =
     (let neg = (take 1 r = ''!'');
          r1 = (if neg then drop 1 r else r);
          first = (if take 1 r1 = '']'' then '']'' else []);
          r2 = drop (length first) r1;
          body = first @ takeWhile (\<lambda>c. c \<noteq> CHR '']'') r2;
          rest = dropWhile (\<lambda>c. c \<noteq> CHR '']'') r2
      in case rest of [] \<Rightarrow> None | _ # rest' \<Rightarrow> Some (neg, body, rest'))"

lemma parse_bracket_shorter:
  assumes "parse_bracket r = Some (neg, body, rest)"
  shows "length rest < length r"
proof -
  let ?r1 = "if take 1 r = ''!'' then drop 1 r else r"
  let ?first = "if take 1 ?r1 = '']'' then '']'' else []"
  let ?r2 = "drop (length ?first) ?r1"
  have "\<exists>c. dropWhile (\<lambda>c. c \<noteq> CHR '']'') ?r2 = c # rest"
    using assms by (auto simp: parse_bracket_def Let_def split: list.splits)
  then have "length rest < length (dropWhile (\<lambda>c. c \<noteq> CHR '']'') ?r2)"
    by auto
  also have "\<dots> \<le> length ?r2"
    by (rule length_dropWhile_le)
  also have "\<dots> \<le> length r"
    by simp
  finally show ?thesis .
qed

function parse_glob :: "string \<Rightarrow> glob list" where
  "parse_glob [] = []"
| "parse_glob (c # r) =
     (if c = CHR ''*'' then G_Star # parse_glob r
      else if c = CHR ''?'' then G_Any # parse_glob r
      else if c = CHR ''['' then
        (case parse_bracket r of
           None \<Rightarrow> G_Lit c # parse_glob r
         | Some (neg, body, rest) \<Rightarrow> G_Set neg (set_items body) # parse_glob rest)
      else G_Lit c # parse_glob r)"
  by pat_completeness auto
termination
  by (relation "measure length") (auto dest: parse_bracket_shorter)

definition in_items :: "(char \<times> char) list \<Rightarrow> char \<Rightarrow> bool" where
  "in_items items c \<longleftrightarrow> list_ex (\<lambda>(lo, hi). lo \<le> c \<and> c \<le> hi) items"

fun glob_match :: "glob list \<Rightarrow> string \<Rightarrow> bool" where
  "glob_match [] s \<longleftrightarrow> s = []"
| "glob_match (G_Star # ps) [] \<longleftrightarrow> glob_match ps []"
| "glob_match (G_Star # ps) (c # s) \<longleftrightarrow> glob_match ps (c # s) \<or> glob_match (G_Star # ps) s"
| "glob_match (G_Any # ps) s \<longleftrightarrow> (case s of [] \<Rightarrow> False | _ # s' \<Rightarrow> glob_match ps s')"
| "glob_match (G_Set neg items # ps) s \<longleftrightarrow>
     (case s of [] \<Rightarrow> False | c # s' \<Rightarrow> in_items items c \<noteq> neg \<and> glob_match ps s')"
| "glob_match (G_Lit c # ps) s \<longleftrightarrow> (case s of [] \<Rightarrow> False | d # s' \<Rightarrow> c = d \<and> glob_match ps s')"

definition fnmatchcase :: "string \<Rightarrow> string \<Rightarrow> bool" where
  "fnmatchcase name pat = glob_match (parse_glob pat) name"

section \<open>Laws\<close>

definition literal :: "string \<Rightarrow> bool" where
  "literal s \<longleftrightarrow> set s \<inter> set ''*?['' = {}"

lemma parse_literal: "literal s \<Longrightarrow> parse_glob (s @ p) = map G_Lit s @ parse_glob p"
  by (induction s) (auto simp: literal_def)

lemma match_literal: "glob_match (map G_Lit s @ ps) t \<longleftrightarrow> (\<exists>u. t = s @ u \<and> glob_match ps u)"
  by (induction s arbitrary: t) (auto split: list.split)

lemma match_star: "glob_match (G_Star # ps) t \<longleftrightarrow> (\<exists>u v. t = u @ v \<and> glob_match ps v)"
proof (induction t)
  case (Cons c t)
  have "(\<exists>u v. c # t = u @ v \<and> glob_match ps v) \<longleftrightarrow>
      glob_match ps (c # t) \<or> (\<exists>u v. t = u @ v \<and> glob_match ps v)"
    by (metis append_Cons append_Nil Cons_eq_append_conv)
  with Cons show ?case by simp
qed simp

text \<open>A pattern without metacharacters matches itself only; a prefix pattern every extension.\<close>

lemma fnmatch_literal: "literal p \<Longrightarrow> fnmatchcase s p \<longleftrightarrow> s = p"
  using parse_literal [of p "[]"] match_literal [of p "[]" s] by (simp add: fnmatchcase_def)

lemma fnmatch_prefix: "literal p \<Longrightarrow> fnmatchcase s (p @ ''*'') \<longleftrightarrow> (\<exists>u. s = p @ u)"
  using parse_literal [of p "''*''"] match_literal [of p "[G_Star]" s] match_star [of "[]"]
  by (auto simp: fnmatchcase_def)

lemma fnmatch_star: "fnmatchcase s ''*''"
  using match_star [of "[]" s] by (simp add: fnmatchcase_def)

lemma fnmatch_middle:
  "literal p \<Longrightarrow> literal q \<Longrightarrow> fnmatchcase s (p @ ''*'' @ q) \<longleftrightarrow> (\<exists>u. s = p @ u @ q)"
  using parse_literal [of p "''*'' @ q"] match_literal [of p "G_Star # map G_Lit q" s]
    match_literal [of q "[]"] parse_literal [of q "[]"] match_star [of "map G_Lit q"]
  by (auto simp: fnmatchcase_def)

end
