(* ===== verification/SecurityModel.thy ===== *)
theory SecurityModel
  imports Glob
begin

text \<open>
  Access control: permissions, roles and subjects (\<open>security/models.py\<close>), the policy engine
  (\<open>security/policy.py\<close>), the audit log (\<open>security/audit.py\<close>) and the checks of the
  \<open>SecurityManager\<close> (\<open>security/manager.py\<close>). Custom policies are code of the applications: a
  policy is a function that may raise.
\<close>

section \<open>Permissions, roles, subjects\<close>

record permission =
  pm_name :: string
  pm_description :: string
  pm_attributes :: pydict

definition mk_permission :: "string \<Rightarrow> string \<Rightarrow> pydict option \<Rightarrow> permission" where
  "mk_permission name desc attrs =
     \<lparr> pm_name = str_strip name, pm_description = desc,
       pm_attributes = (case attrs of Some a \<Rightarrow> a | None \<Rightarrow> []) \<rparr>"

definition perm_of :: "string \<Rightarrow> permission" where
  "perm_of name = mk_permission name [] None"

definition perm_matches :: "string \<Rightarrow> permission \<Rightarrow> bool" where
  "perm_matches required p =
     (let r = str_strip required in fnmatchcase r (pm_name p) \<or> fnmatchcase (pm_name p) r)"

record role =
  rl_name :: string
  rl_description :: string
  rl_permissions :: "permission list"

definition role_add_permission :: "permission \<Rightarrow> role \<Rightarrow> role" where
  "role_add_permission p r = r\<lparr>rl_permissions := rl_permissions r @ [p]\<rparr>"

definition mk_role :: "string \<Rightarrow> permission list \<Rightarrow> string \<Rightarrow> role" where
  "mk_role name perms desc =
     foldl (\<lambda>r p. role_add_permission p r)
       \<lparr> rl_name = str_strip name, rl_description = desc, rl_permissions = [] \<rparr> perms"

fun any_matches :: "string \<Rightarrow> permission list \<Rightarrow> bool" where
  "any_matches required [] = False"
| "any_matches required (p # ps) = (if perm_matches required p then True else any_matches required ps)"

definition role_has_permission :: "string \<Rightarrow> role \<Rightarrow> bool" where
  "role_has_permission required r = any_matches required (rl_permissions r)"

record subject =
  su_id :: string
  su_type :: string
  su_roles :: "string list"
  su_permissions :: "permission list"
  su_metadata :: pydict
  su_role_objects :: "(string \<times> role) list"

datatype role_ref = Role_Name string | Role_Obj role

definition subject_add_role :: "role_ref \<Rightarrow> subject \<Rightarrow> subject" where
  "subject_add_role rr s =
     (case rr of
        Role_Name n \<Rightarrow> s\<lparr>su_roles := List.insert (str_strip n) (su_roles s)\<rparr>
      | Role_Obj r \<Rightarrow> s\<lparr>su_roles := List.insert (rl_name r) (su_roles s),
                       su_role_objects := AList.update (rl_name r) r (su_role_objects s)\<rparr>)"

definition subject_add_permission :: "permission \<Rightarrow> subject \<Rightarrow> subject" where
  "subject_add_permission p s = s\<lparr>su_permissions := su_permissions s @ [p]\<rparr>"

definition mk_subject :: "string \<Rightarrow> string \<Rightarrow> role_ref list \<Rightarrow> permission list \<Rightarrow> pydict \<Rightarrow> subject" where
  "mk_subject i ty roles perms meta =
     foldl (\<lambda>s p. subject_add_permission p s)
       (foldl (\<lambda>s r. subject_add_role r s)
          \<lparr> su_id = str_strip i, su_type = str_lower (str_strip ty), su_roles = [],
            su_permissions = [], su_metadata = meta, su_role_objects = [] \<rparr> roles) perms"

section \<open>Policies\<close>

type_synonym roles_registry = "(string \<times> role) list"
type_synonym policy = "subject \<Rightarrow> string \<Rightarrow> roles_registry \<Rightarrow> exn + bool"

definition effective_role :: "subject \<Rightarrow> roles_registry \<Rightarrow> string \<Rightarrow> role option" where
  "effective_role s reg n =
     (case map_of (su_role_objects s) n of Some r \<Rightarrow> Some r | None \<Rightarrow> map_of reg n)"

fun roles_grant :: "subject \<Rightarrow> string \<Rightarrow> roles_registry \<Rightarrow> string list \<Rightarrow> bool" where
  "roles_grant s required reg [] = False"
| "roles_grant s required reg (n # ns) =
     (case effective_role s reg n of
        Some r \<Rightarrow> if role_has_permission required r then True else roles_grant s required reg ns
      | None \<Rightarrow> roles_grant s required reg ns)"

definition default_policy :: policy where
  "default_policy s required reg =
     Inr (if any_matches required (su_permissions s) then True
          else roles_grant s required reg (su_roles s))"

text \<open>The registered policies; custom ones carry their object's identity.\<close>

record policy_engine =
  pe_policies :: "(nat \<times> policy) list"

definition pe_init :: policy_engine where
  "pe_init = \<lparr> pe_policies = [(0, default_policy)] \<rparr>"

definition pe_register :: "nat \<Rightarrow> policy \<Rightarrow> policy_engine \<Rightarrow> policy_engine" where
  "pe_register i p e =
     (if i \<in> set (map fst (pe_policies e)) then e else e\<lparr>pe_policies := pe_policies e @ [(i, p)]\<rparr>)"

fun eval_policies :: "policy list \<Rightarrow> policy" where
  "eval_policies [] s required reg = Inr False"
| "eval_policies (p # ps) s required reg =
     (case p s required reg of
        Inl e \<Rightarrow> Inl e
      | Inr b \<Rightarrow> if b then Inr True else eval_policies ps s required reg)"

definition evaluate_all :: "policy_engine \<Rightarrow> policy" where
  "evaluate_all e = eval_policies (map snd (pe_policies e))"

section \<open>The audit log\<close>

record audit_entry =
  ae_timestamp :: string
  ae_action :: string
  ae_subject_id :: string
  ae_subject_type :: string
  ae_resource :: string
  ae_result :: string
  ae_details :: string
  ae_extra :: pydict

record audit_log =
  al_max :: nat
  al_history :: "audit_entry list"
  al_bus :: bool
  al_published :: "(string \<times> audit_entry) list"

definition al_init :: "bool \<Rightarrow> audit_log" where
  "al_init bus = \<lparr> al_max = 200, al_history = [], al_bus = bus, al_published = [] \<rparr>"

definition log_event ::
  "string \<Rightarrow> string \<Rightarrow> string \<Rightarrow> string \<Rightarrow> string \<Rightarrow> string \<Rightarrow> string \<Rightarrow> audit_log \<Rightarrow> audit_log" where
  "log_event now action sid stype resource result details l =
     (let entry = \<lparr> ae_timestamp = now, ae_action = action, ae_subject_id = sid, ae_subject_type = stype,
                    ae_resource = resource, ae_result = result, ae_details = details, ae_extra = [] \<rparr>;
          events = (if al_bus l then
                      [(''security:audit'', entry)]
                      @ (if result = ''GRANTED'' then [(''security:access_granted'', entry)]
                         else if result = ''DENIED'' then [(''security:access_denied'', entry)] else [])
                    else [])
      in l\<lparr>al_history := bounded_push (al_max l) (al_history l) entry,
           al_published := al_published l @ events\<rparr>)"

definition audit_history :: "int option \<Rightarrow> string option \<Rightarrow> string option \<Rightarrow> audit_log \<Rightarrow> audit_entry list" where
  "audit_history limit sid result l =
     (let r1 = (case sid of
                  Some i \<Rightarrow> if i = [] then al_history l else filter (\<lambda>r. ae_subject_id r = i) (al_history l)
                | None \<Rightarrow> al_history l);
          r2 = (case result of
                  Some x \<Rightarrow> if x = [] then r1 else filter (\<lambda>r. ae_result r = x) r1
                | None \<Rightarrow> r1)
      in case limit of Some n \<Rightarrow> last_slice n r2 | None \<Rightarrow> r2)"

definition clear_history :: "audit_log \<Rightarrow> audit_log" where
  "clear_history l = l\<lparr>al_history := []\<rparr>"

section \<open>The security manager\<close>

record security_manager =
  sc_roles :: roles_registry
  sc_subjects :: "(string \<times> subject) list"
  sc_engine :: policy_engine
  sc_audit :: audit_log

definition sc_init :: "bool \<Rightarrow> security_manager" where
  "sc_init bus = \<lparr> sc_roles = [], sc_subjects = [], sc_engine = pe_init, sc_audit = al_init bus \<rparr>"

definition audit ::
  "string \<Rightarrow> string \<Rightarrow> string \<Rightarrow> string \<Rightarrow> string \<Rightarrow> string \<Rightarrow> string \<Rightarrow> security_manager \<Rightarrow> security_manager" where
  "audit now action sid stype resource result details m =
     m\<lparr>sc_audit := log_event now action sid stype resource result details (sc_audit m)\<rparr>"

definition register_role :: "string \<Rightarrow> role \<Rightarrow> security_manager \<Rightarrow> security_manager" where
  "register_role now r m =
     audit now ''register_role'' ''system'' ''system'' (''role:'' @ rl_name r) ''SUCCESS''
       (''Registered role '' @ quoted (rl_name r) @ '' with '' @ nat_str (length (rl_permissions r))
        @ '' permissions.'')
       (m\<lparr>sc_roles := AList.update (rl_name r) r (sc_roles m)\<rparr>)"

definition register_subject :: "string \<Rightarrow> subject \<Rightarrow> security_manager \<Rightarrow> security_manager" where
  "register_subject now s m =
     audit now ''register_subject'' ''system'' ''system'' (''subject:'' @ su_id s) ''SUCCESS''
       (''Registered subject '' @ quoted (su_id s) @ '' of type '' @ quoted (su_type s) @ ''.'')
       (m\<lparr>sc_subjects := AList.update (su_id s) s (sc_subjects m)\<rparr>)"

definition get_subject :: "string \<Rightarrow> security_manager \<Rightarrow> subject option" where
  "get_subject i m = map_of (sc_subjects m) i"

definition get_role :: "string \<Rightarrow> security_manager \<Rightarrow> role option" where
  "get_role name m = map_of (sc_roles m) name"

text \<open>
  The common part of the checks: evaluate, audit the decision, raise if access is denied. An
  exception of a policy leaves before the audit.
\<close>

definition check_access ::
  "string \<Rightarrow> subject \<Rightarrow> string \<Rightarrow> string \<Rightarrow> string \<Rightarrow> string \<Rightarrow> string \<Rightarrow> string \<Rightarrow> security_manager
   \<Rightarrow> security_manager \<times> (exn + bool)" where
  "check_access now s required action stype resource details denied m =
     (case evaluate_all (sc_engine m) s required (sc_roles m) of
        Inl e \<Rightarrow> (m, Inl e)
      | Inr granted \<Rightarrow>
          (audit now action (su_id s) stype resource (if granted then ''GRANTED'' else ''DENIED'') details m,
           if granted then Inr True else Inl (Exn AccessDeniedErr denied)))"

definition lacks_permission :: "string \<Rightarrow> string \<Rightarrow> string" where
  "lacks_permission sid p = ''Access Denied: Subject '' @ quoted sid @ '' lacks permission '' @ quoted p"

definition validate_service_access ::
  "string \<Rightarrow> subject \<Rightarrow> string \<Rightarrow> string \<Rightarrow> security_manager \<Rightarrow> security_manager \<times> (exn + bool)" where
  "validate_service_access now s service action m =
     (let p = ''service:'' @ service @ '':'' @ action
      in check_access now s p (''service_access:'' @ action) (su_type s) (''service:'' @ service)
           (''Evaluated permission: '' @ p) (lacks_permission (su_id s) p) m)"

definition validate_plugin_access ::
  "string \<Rightarrow> subject \<Rightarrow> string \<Rightarrow> string \<Rightarrow> security_manager \<Rightarrow> security_manager \<times> (exn + bool)" where
  "validate_plugin_access now s plugin action m =
     (let p = ''plugin:'' @ plugin @ '':'' @ action
      in check_access now s p (''plugin_access:'' @ action) (su_type s) (''plugin:'' @ plugin)
           (''Evaluated permission: '' @ p) (lacks_permission (su_id s) p) m)"

definition validate_agent_capability ::
  "string \<Rightarrow> string \<Rightarrow> string \<Rightarrow> security_manager \<Rightarrow> security_manager \<times> (exn + bool)" where
  "validate_agent_capability now agent capability m =
     (let s = (case map_of (sc_subjects m) agent of
                 Some s \<Rightarrow> s
               | None \<Rightarrow> mk_subject agent ''agent'' [] [] []);
          p = ''capability:'' @ capability
      in check_access now s p ''agent_capability'' ''agent'' p (''Checked agent capability: '' @ capability)
           (''Access Denied: Agent '' @ quoted agent @ '' lacks capability '' @ quoted capability) m)"

text \<open>An agent is given by its name and the names of its tools.\<close>

definition tool_permission :: "string \<Rightarrow> string" where
  "tool_permission t = ''tool:'' @ t @ '':use''"

definition validate_agent_tool ::
  "string \<Rightarrow> string \<Rightarrow> string list \<Rightarrow> string \<Rightarrow> security_manager \<Rightarrow> security_manager \<times> (exn + bool)" where
  "validate_agent_tool now agent tools tool m =
     (let s = (case map_of (sc_subjects m) agent of
                 Some s \<Rightarrow> s
               | None \<Rightarrow> mk_subject agent ''agent'' [] (map (\<lambda>t. perm_of (tool_permission t)) tools) []);
          p = tool_permission tool
      in check_access now s p ''agent_tool'' ''agent'' (''tool:'' @ tool) (''Evaluated permission: '' @ p)
           (''Access Denied: Agent '' @ quoted agent @ '' is not authorized to execute tool '' @ quoted tool) m)"

definition api_subject_id :: "string \<Rightarrow> string" where
  "api_subject_id key = (if key \<noteq> [] then ''api_key:'' @ take 8 key else ''anonymous'')"

definition validate_api_access ::
  "string \<Rightarrow> string \<Rightarrow> string \<Rightarrow> string \<Rightarrow> security_manager \<Rightarrow> security_manager \<times> (exn + bool)" where
  "validate_api_access now key endpoint method m =
     (let sid = api_subject_id key;
          p = ''api:'' @ endpoint @ '':'' @ str_upper method;
          check = (\<lambda>s. check_access now s p ''api_access'' ''api'' (''api:'' @ endpoint @ '':'' @ method)
                    (''Evaluated permission: '' @ p)
                    (''Access Denied: API Key '' @ quoted sid @ '' lacks permission for '' @ method
                     @ '' on '' @ endpoint) m)
      in case map_of (sc_subjects m) sid of
           Some s \<Rightarrow> check s
         | None \<Rightarrow>
             if key = [] then check (mk_subject ''anonymous'' ''api'' [] [] [])
             else (audit now ''api_access'' ''unregistered'' ''api'' (''api:'' @ endpoint @ '':'' @ method)
                     ''DENIED'' ''Invalid or unregistered API key'' m,
                   Inl (Exn AuthenticationErr ''Authentication Failed: Invalid API Key'')))"

definition validate_runtime_check ::
  "string \<Rightarrow> subject \<Rightarrow> string \<Rightarrow> string \<Rightarrow> security_manager \<Rightarrow> security_manager \<times> (exn + bool)" where
  "validate_runtime_check now s action resource m =
     (let p = action @ '':'' @ resource
      in check_access now s p ''runtime_check'' (su_type s) p (''Evaluated permission: '' @ p)
           (lacks_permission (su_id s) p) m)"

definition security_initialize :: "string \<Rightarrow> string \<Rightarrow> security_manager \<Rightarrow> security_manager" where
  "security_initialize t1 t2 m =
     register_role t2 (mk_role ''guest'' [perm_of ''service:*:read'', perm_of ''plugin:*:read''] [])
       (register_role t1 (mk_role ''admin'' [perm_of ''*''] []) m)"

definition security_status :: "security_manager \<Rightarrow> pydict" where
  "security_status m =
     [(''state'', PStr ''active''),
      (''registered_roles_count'', PInt (int (length (sc_roles m)))),
      (''registered_subjects_count'', PInt (int (length (sc_subjects m)))),
      (''audit_history_count'', PInt (int (length (audit_history None None None (sc_audit m)))))]"

section \<open>The decision\<close>

text \<open>All permissions a subject has: its own and those of its roles.\<close>

definition effective_permissions :: "subject \<Rightarrow> roles_registry \<Rightarrow> permission list" where
  "effective_permissions s reg = su_permissions s
     @ concat (map (\<lambda>n. case effective_role s reg n of Some r \<Rightarrow> rl_permissions r | None \<Rightarrow> []) (su_roles s))"

lemma any_matches_iff: "any_matches x ps \<longleftrightarrow> (\<exists>p \<in> set ps. perm_matches x p)"
  by (induction ps) auto

lemma roles_grant_iff:
  "roles_grant s x reg ns \<longleftrightarrow>
     (\<exists>n \<in> set ns. \<exists>r. effective_role s reg n = Some r \<and> role_has_permission x r)"
  by (induction ns) (auto split: option.splits)

lemma default_policy_iff:
  "default_policy s x reg = Inr (\<exists>p \<in> set (effective_permissions s reg). perm_matches x p)"
proof -
  have role: "(p \<in> set (case effective_role s reg n of Some r \<Rightarrow> rl_permissions r | None \<Rightarrow> [])) =
      (\<exists>r. effective_role s reg n = Some r \<and> p \<in> set (rl_permissions r))" for p n
    by (cases "effective_role s reg n") simp_all
  have "(any_matches x (su_permissions s) \<or> roles_grant s x reg (su_roles s)) =
      (\<exists>p \<in> set (effective_permissions s reg). perm_matches x p)"
    unfolding any_matches_iff roles_grant_iff role_has_permission_def effective_permissions_def
      set_append set_concat set_map UN_iff bex_Un image_iff
    using role by (simp add: bex_UN) blast
  then show ?thesis
    by (auto simp: default_policy_def)
qed

lemma evaluate_init: "evaluate_all pe_init s x reg = default_policy s x reg"
  by (simp add: evaluate_all_def pe_init_def default_policy_def)

lemma evaluate_default_first:
  assumes "pe_policies e = (0, default_policy) # ps" "p \<in> set (effective_permissions s reg)" "perm_matches x p"
  shows "evaluate_all e s x reg = Inr True"
  using assms default_policy_iff [of s x reg] by (auto simp: evaluate_all_def)

text \<open>Every policy comes to a decision.\<close>

definition policies_total :: "policy_engine \<Rightarrow> bool" where
  "policies_total e \<longleftrightarrow> (\<forall>(i, p) \<in> set (pe_policies e). \<forall>s x reg. \<exists>b. p s x reg = Inr b)"

lemma evaluate_total:
  assumes "policies_total e"
  shows "\<exists>b. evaluate_all e s x reg = Inr b"
proof -
  have *: "(\<forall>p \<in> set ps. \<forall>s x reg. \<exists>b. p s x reg = Inr b) \<Longrightarrow> \<exists>b. eval_policies ps s x reg = Inr b" for ps
  proof (induction ps)
    case Nil
    show ?case by (rule exI [of _ False]) simp
  next
    case (Cons p ps)
    obtain b where "p s x reg = Inr b" using Cons.prems by (meson list.set_intros(1))
    then show ?case using Cons by auto
  qed
  have "\<forall>p \<in> set (map snd (pe_policies e)). \<forall>s x reg. \<exists>b. p s x reg = Inr b"
    using assms unfolding policies_total_def by auto
  from * [OF this] show ?thesis
    by (simp only: evaluate_all_def)
qed

section \<open>Literal permissions\<close>

lemma strip_id: "s \<noteq> [] \<Longrightarrow> \<not> is_space (hd s) \<Longrightarrow> \<not> is_space (last s) \<Longrightarrow> str_strip s = s"
proof -
  assume s: "s \<noteq> []" "\<not> is_space (hd s)" "\<not> is_space (last s)"
  then have "dropWhile is_space s = s" by (cases s) auto
  moreover have "dropWhile is_space (rev s) = rev s"
    using s by (cases "rev s") (auto simp: last_conv_nth hd_rev [symmetric])
  ultimately show ?thesis by (simp add: str_strip_def)
qed

lemma perm_matches_literal:
  "literal (pm_name p) \<Longrightarrow> literal (str_strip x) \<Longrightarrow> perm_matches x p \<longleftrightarrow> str_strip x = pm_name p"
  by (auto simp: perm_matches_def Let_def fnmatch_literal)

text \<open>
  \<open>C7\<close>. Least privilege: with the built-in policy and names without wildcards, a service access is
  granted exactly if the permission \<open>service:name:action\<close> is one of the subject's own permissions
  or of the permissions of its roles, where a role object embedded in the subject hides the
  registered role of that name.
\<close>

theorem service_access_literal:
  assumes "sc_engine m = pe_init" "literal (''service:'' @ name @ '':'' @ action)"
    and "\<forall>p \<in> set (effective_permissions s (sc_roles m)). literal (pm_name p)"
    and "name \<noteq> []" "action \<noteq> []" "\<not> is_space (last action)"
  shows "snd (validate_service_access now s name action m) = Inr True \<longleftrightarrow>
     (''service:'' @ name @ '':'' @ action) \<in> pm_name ` set (effective_permissions s (sc_roles m))"
proof -
  let ?p = "''service:'' @ name @ '':'' @ action"
  have strip: "str_strip ?p = ?p"
    by (rule strip_id) (use assms(5,6) in \<open>auto simp: is_space_def in_range_char_def\<close>)
  have "snd (validate_service_access now s name action m) = Inr True \<longleftrightarrow>
      (\<exists>p \<in> set (effective_permissions s (sc_roles m)). perm_matches ?p p)"
    using assms(1) by (simp add: validate_service_access_def check_access_def evaluate_init default_policy_iff Let_def)
  also have "\<dots> \<longleftrightarrow> ?p \<in> pm_name ` set (effective_permissions s (sc_roles m))"
    using assms(2,3) strip perm_matches_literal [of _ ?p] by (auto simp: rev_image_eqI)
  finally show ?thesis .
qed

section \<open>Complete auditing\<close>

text \<open>What every check owes: the registries untouched, the decision in the log, no other answer.\<close>

definition decision_audited :: "security_manager \<Rightarrow> security_manager \<times> (exn + bool) \<Rightarrow> bool" where
  "decision_audited m res \<longleftrightarrow>
     sc_roles (fst res) = sc_roles m \<and> sc_subjects (fst res) = sc_subjects m
     \<and> sc_engine (fst res) = sc_engine m \<and> al_history (sc_audit (fst res)) \<noteq> []
     \<and> (case snd res of
          Inr b \<Rightarrow> b \<and> ae_result (last (al_history (sc_audit (fst res)))) = ''GRANTED''
        | Inl e \<Rightarrow> (exn_class e = AccessDeniedErr \<or> exn_class e = AuthenticationErr)
            \<and> ae_result (last (al_history (sc_audit (fst res)))) = ''DENIED'')"

lemma log_event_last:
  "0 < al_max l \<Longrightarrow> al_history (log_event now a i t r res d l) \<noteq> []
     \<and> ae_result (last (al_history (log_event now a i t r res d l))) = res"
  using bounded_push_last [of "al_max l" "al_history l"] by (simp add: log_event_def Let_def)

lemma check_access_audited:
  assumes "policies_total (sc_engine m)" "0 < al_max (sc_audit m)"
  shows "decision_audited m (check_access now s p a ty r d msg m)"
proof -
  obtain b where "evaluate_all (sc_engine m) s p (sc_roles m) = Inr b"
    using evaluate_total [OF assms(1)] by blast
  then show ?thesis
    using log_event_last [OF assms(2)]
    by (simp add: check_access_def decision_audited_def audit_def)
qed

text \<open>
  \<open>C26\<close>. Every access check leaves a trace: if no custom policy raises, each of the six checks either
  returns true with a \<open>GRANTED\<close> entry as the newest of the audit history, or raises an access or
  authentication error with a \<open>DENIED\<close> entry as the newest, and changes nothing but the log.
\<close>

theorem access_checks_audited:
  assumes "policies_total (sc_engine m)" "0 < al_max (sc_audit m)"
  shows "decision_audited m (validate_service_access now s name action m)
    \<and> decision_audited m (validate_plugin_access now s name action m)
    \<and> decision_audited m (validate_agent_capability now agent cap m)
    \<and> decision_audited m (validate_agent_tool now agent tools tool m)
    \<and> decision_audited m (validate_api_access now key endpoint meth m)
    \<and> decision_audited m (validate_runtime_check now s action resource m)"
proof -
  have "decision_audited m
      (audit now ''api_access'' ''unregistered'' ''api'' (''api:'' @ endpoint @ '':'' @ meth)
         ''DENIED'' ''Invalid or unregistered API key'' m,
       Inl (Exn AuthenticationErr ''Authentication Failed: Invalid API Key''))"
    using log_event_last [OF assms(2)] by (simp add: decision_audited_def audit_def)
  then show ?thesis
    using check_access_audited [OF assms]
    by (simp add: validate_service_access_def validate_plugin_access_def validate_agent_capability_def
        validate_agent_tool_def validate_api_access_def validate_runtime_check_def Let_def
        split: option.split)
qed

definition log_entry :: "audit_entry \<Rightarrow> audit_log \<Rightarrow> audit_log" where
  "log_entry x l = log_event (ae_timestamp x) (ae_action x) (ae_subject_id x) (ae_subject_type x)
     (ae_resource x) (ae_result x) (ae_details x) l"

lemma log_entry_history:
  "ae_extra x = [] \<Longrightarrow> al_history (log_entry x l) = bounded_push (al_max l) (al_history l) x"
  by (cases x) (simp add: log_entry_def log_event_def Let_def)

lemma log_entry_frames: "al_max (log_entry x l) = al_max l" "al_bus (log_entry x l) = al_bus l"
  by (simp_all add: log_entry_def log_event_def Let_def)

lemma log_entry_published:
  "ae_extra x = [] \<Longrightarrow> filter (\<lambda>e. fst e = ''security:audit'') (al_published (log_entry x l)) =
     filter (\<lambda>e. fst e = ''security:audit'') (al_published l)
       @ (if al_bus l then [(''security:audit'', x)] else [])"
  by (cases x) (simp add: log_entry_def log_event_def Let_def)

text \<open>
  The audit history is a sliding window: after any number of events it holds exactly the
  newest \<open>max_history_size\<close> of them, in order, and every one of them was published on the bus
  under \<open>security:audit\<close>.
\<close>

theorem audit_history_window:
  assumes "\<forall>x \<in> set xs. ae_extra x = []"
  shows "al_history (fold log_entry xs (al_init bus)) = drop (length xs - 200) xs
    \<and> filter (\<lambda>e. fst e = ''security:audit'') (al_published (fold log_entry xs (al_init bus)))
        = (if bus then map (Pair ''security:audit'') xs else [])"
proof -
  have "al_max (fold log_entry xs (al_init bus)) = 200 \<and> al_bus (fold log_entry xs (al_init bus)) = bus
    \<and> al_history (fold log_entry xs (al_init bus)) = drop (length xs - 200) xs
    \<and> filter (\<lambda>e. fst e = ''security:audit'') (al_published (fold log_entry xs (al_init bus)))
        = (if bus then map (Pair ''security:audit'') xs else [])"
    using assms
  proof (induction xs rule: rev_induct)
    case (snoc x xs)
    have "bounded_push 200 (drop (length xs - 200) xs) x = drop (length (xs @ [x]) - 200) (xs @ [x])"
      by (rule bounded_push_keeps_newest) simp
    with snoc show ?case
      by (simp add: log_entry_history log_entry_frames log_entry_published)
  qed (simp add: al_init_def)
  then show ?thesis by blast
qed

section \<open>What the wildcards and the key lookup let through\<close>

lemma literal_append: "literal (a @ b) \<longleftrightarrow> literal a \<and> literal b"
  by (auto simp: literal_def)

lemma tool_permission_strip [simp]: "str_strip (tool_permission t) = tool_permission t"
  by (rule strip_id) (auto simp: tool_permission_def is_space_def in_range_char_def)

lemma mk_subject_perms:
  "su_permissions (mk_subject i ty [] ps meta) = ps" "su_roles (mk_subject i ty [] ps meta) = []"
proof -
  have "su_permissions (foldl (\<lambda>s p. subject_add_permission p s) s ps) = su_permissions s @ ps
    \<and> su_roles (foldl (\<lambda>s p. subject_add_permission p s) s ps) = su_roles s" for s
    by (induction ps arbitrary: s) (simp_all add: subject_add_permission_def)
  then show "su_permissions (mk_subject i ty [] ps meta) = ps" "su_roles (mk_subject i ty [] ps meta) = []"
    by (simp_all add: mk_subject_def)
qed

text \<open>
  A wildcard in the request is granted by any narrower permission, because permissions are
  matched in both directions: an agent that is not registered and has one tool is authorised for
  the tool name \<open>*\<close>, although it has no permission for all tools.
\<close>

theorem wildcard_tool_request_granted:
  assumes "map_of (sc_subjects m) agent = None" "pe_policies (sc_engine m) = (0, default_policy) # ps"
  shows "snd (validate_agent_tool now agent [t] ''*'' m) = Inr True"
proof -
  let ?s = "mk_subject agent ''agent'' [] [perm_of (tool_permission t)] []"
  have "literal ''tool:''" "literal '':use''"
    by (simp_all add: literal_def)
  then have "fnmatchcase (tool_permission t) (tool_permission ''*'')"
    using fnmatch_middle [of "''tool:''" "'':use''" "tool_permission t"] by (auto simp: tool_permission_def)
  then have "perm_matches (tool_permission ''*'') (perm_of (tool_permission t))"
    by (simp add: perm_matches_def perm_of_def mk_permission_def Let_def)
  moreover have "perm_of (tool_permission t) \<in> set (effective_permissions ?s (sc_roles m))"
    by (simp add: effective_permissions_def mk_subject_perms)
  ultimately have "evaluate_all (sc_engine m) ?s (tool_permission ''*'') (sc_roles m) = Inr True"
    using evaluate_default_first [OF assms(2)] by blast
  then show ?thesis
    using assms(1) by (simp add: validate_agent_tool_def check_access_def Let_def)
qed

text \<open>
  API keys: a non-empty key without a registered subject is refused with an authentication
  error whatever the policies say, but a key is identified by its first eight characters only, so
  any key that starts like a registered one is treated exactly like it.
\<close>

theorem api_key_identified_by_prefix:
  assumes "key \<noteq> []"
  shows "(map_of (sc_subjects m) (''api_key:'' @ take 8 key) = None \<longrightarrow>
            (\<exists>e. snd (validate_api_access now key endpoint meth m) = Inl e \<and> exn_class e = AuthenticationErr))
    \<and> (\<forall>key'. key' \<noteq> [] \<longrightarrow> take 8 key' = take 8 key \<longrightarrow>
         validate_api_access now key' endpoint meth m = validate_api_access now key endpoint meth m)"
  using assms by (simp add: validate_api_access_def api_subject_id_def Let_def)

section \<open>The default roles\<close>

lemma mk_role_eqs: "rl_name (mk_role n ps d) = str_strip n" "rl_permissions (mk_role n ps d) = ps"
proof -
  have "rl_name (foldl (\<lambda>r p. role_add_permission p r) r ps) = rl_name r
    \<and> rl_permissions (foldl (\<lambda>r p. role_add_permission p r) r ps) = rl_permissions r @ ps" for r
    by (induction ps arbitrary: r) (simp_all add: role_add_permission_def)
  then show "rl_name (mk_role n ps d) = str_strip n" "rl_permissions (mk_role n ps d) = ps"
    by (simp_all add: mk_role_def)
qed

lemma initial_roles:
  "map_of (sc_roles (security_initialize t1 t2 m)) ''admin'' = Some (mk_role ''admin'' [perm_of ''*''] [])"
  "map_of (sc_roles (security_initialize t1 t2 m)) ''guest'' =
     Some (mk_role ''guest'' [perm_of ''service:*:read'', perm_of ''plugin:*:read''] [])"
  "sc_engine (security_initialize t1 t2 m) = sc_engine m"
  by (simp_all add: security_initialize_def register_role_def audit_def mk_role_eqs dict_simps
      str_strip_def is_space_def in_range_char_def)

text \<open>
  After the service is initialised a subject whose only authority is the role \<open>admin\<close> passes
  every check, and one whose only authority is the role \<open>guest\<close> passes a literal check exactly if
  it asks to read some service or some plugin.
\<close>

theorem default_roles_authority:
  assumes "m' = security_initialize t1 t2 m" "sc_engine m = pe_init"
    and "su_permissions s = []" "su_role_objects s = []"
  shows "(su_roles s = [''admin''] \<longrightarrow> snd (validate_runtime_check now s action resource m') = Inr True)
    \<and> (su_roles s = [''guest''] \<longrightarrow> literal (str_strip (action @ '':'' @ resource)) \<longrightarrow>
        snd (validate_runtime_check now s action resource m') = Inr True \<longleftrightarrow>
        (\<exists>x. str_strip (action @ '':'' @ resource) = ''service:'' @ x @ '':read''
           \<or> str_strip (action @ '':'' @ resource) = ''plugin:'' @ x @ '':read''))"
proof -
  let ?p = "action @ '':'' @ resource"
  have e: "sc_engine m' = pe_init" using assms(1,2) by (simp add: initial_roles)
  have role: "effective_role s (sc_roles m') n = map_of (sc_roles m') n" for n
    using assms(4) by (simp add: effective_role_def)
  have granted: "snd (validate_runtime_check now s action resource m') = Inr True \<longleftrightarrow>
      (\<exists>p \<in> set (effective_permissions s (sc_roles m')). perm_matches ?p p)"
    using e by (simp add: validate_runtime_check_def check_access_def evaluate_init default_policy_iff Let_def)
  have admin: "su_roles s = [''admin''] \<Longrightarrow> effective_permissions s (sc_roles m') = [perm_of ''*'']"
    using assms(1,3) role by (simp add: effective_permissions_def initial_roles mk_role_eqs)
  have guest: "su_roles s = [''guest''] \<Longrightarrow> effective_permissions s (sc_roles m') =
      [perm_of ''service:*:read'', perm_of ''plugin:*:read'']"
    using assms(1,3) role by (simp add: effective_permissions_def initial_roles mk_role_eqs)
  have star: "perm_matches ?p (perm_of ''*'')"
    using fnmatch_star by (simp add: perm_matches_def perm_of_def mk_permission_def str_strip_def
        is_space_def in_range_char_def Let_def)
  have lits: "literal ''service:''" "literal '':read''" "literal ''plugin:''"
    by (simp_all add: literal_def)
  have names: "pm_name (perm_of ''service:*:read'') = ''service:'' @ ''*'' @ '':read''"
    "pm_name (perm_of ''plugin:*:read'') = ''plugin:'' @ ''*'' @ '':read''"
    by (simp_all add: perm_of_def mk_permission_def str_strip_def is_space_def in_range_char_def)
  have glob: "literal q \<Longrightarrow> \<not> literal (pm_name p) \<Longrightarrow> str_strip ?p = q \<Longrightarrow>
      perm_matches ?p p \<longleftrightarrow> fnmatchcase q (pm_name p)" for p q
    by (auto simp: perm_matches_def Let_def fnmatch_literal)
  have nl: "\<not> literal (''service:'' @ ''*'' @ '':read'')" "\<not> literal (''plugin:'' @ ''*'' @ '':read'')"
    by (simp_all add: literal_def)
  have "literal (str_strip ?p) \<Longrightarrow> perm_matches ?p (perm_of ''service:*:read'') \<longleftrightarrow>
      (\<exists>x. str_strip ?p = ''service:'' @ x @ '':read'')"
    "literal (str_strip ?p) \<Longrightarrow> perm_matches ?p (perm_of ''plugin:*:read'') \<longleftrightarrow>
      (\<exists>x. str_strip ?p = ''plugin:'' @ x @ '':read'')"
    using glob [of "str_strip ?p" "perm_of ''service:*:read''"]
      glob [of "str_strip ?p" "perm_of ''plugin:*:read''"]
      nl names fnmatch_middle [OF lits(1,2)] fnmatch_middle [OF lits(3,2)] by simp_all
  then show ?thesis
    using granted admin guest star by auto
qed

section \<open>The decorator\<close>

text \<open>
  \<open>require_permission\<close>: the subject comes from the keyword argument, the first argument that is
  a subject, or the active context; the manager is one that the container has just built, so its
  registries are empty. A permission without a colon does not fit \<open>validate_runtime_check\<close>.
\<close>

definition first_subject :: "subject option \<Rightarrow> subject list \<Rightarrow> subject option \<Rightarrow> subject option" where
  "first_subject kwarg args ctx =
     (case kwarg of
        Some s \<Rightarrow> Some s
      | None \<Rightarrow> (case args of s # _ \<Rightarrow> Some s | [] \<Rightarrow> ctx))"

definition require_permission ::
  "string \<Rightarrow> string \<Rightarrow> subject option \<Rightarrow> subject list \<Rightarrow> subject option \<Rightarrow> exn + bool" where
  "require_permission now perm kwarg args ctx =
     (case first_subject kwarg args ctx of
        None \<Rightarrow> Inl (Exn AccessDeniedErr
                 (''Access Denied: No security Subject context available to evaluate permission ''
                  @ quoted perm))
      | Some s \<Rightarrow>
          (case str_split (CHR '':'') perm of
             action # rest # others \<Rightarrow>
               snd (validate_runtime_check now s action (str_join (CHR '':'') (rest # others)) (sc_init False))
           | _ \<Rightarrow> Inl (Exn TypeErr ''missing 1 required positional argument: resource'')))"

section \<open>Instances\<close>

lemma al_init_max: "0 < al_max (al_init b)"
  by (simp add: al_init_def)

lemma pe_init_total: "policies_total pe_init"
  by (simp add: policies_total_def pe_init_def default_policy_def)

definition demo_reader :: subject where
  "demo_reader = mk_subject ''u'' ''user'' [] [perm_of ''service:db:read''] []"

theorem service_access_literal_witness:
  "snd (validate_service_access [] demo_reader ''db'' ''read'' (sc_init False)) = Inr True
   \<and> snd (validate_service_access [] demo_reader ''db'' ''write'' (sc_init False)) \<noteq> Inr True"
proof -
  have eff: "effective_permissions demo_reader reg = [perm_of ''service:db:read'']" for reg
    by (simp add: demo_reader_def effective_permissions_def mk_subject_perms)
  have nm: "pm_name (perm_of ''service:db:read'') = ''service:db:read''"
    by (simp add: perm_of_def mk_permission_def str_strip_def is_space_def in_range_char_def)
  show ?thesis
    using service_access_literal [of "sc_init False" "''db''" "''read''" demo_reader "[]"]
      service_access_literal [of "sc_init False" "''db''" "''write''" demo_reader "[]"]
    by (simp add: eff nm sc_init_def literal_def is_space_def in_range_char_def)
qed

theorem access_checks_audited_witness:
  "decision_audited (sc_init True) (validate_api_access [] ''k'' ''/jobs'' ''get'' (sc_init True))"
  using access_checks_audited [of "sc_init True"] by (simp add: sc_init_def al_init_max pe_init_total)

definition demo_entry :: audit_entry where
  "demo_entry = \<lparr> ae_timestamp = [], ae_action = [], ae_subject_id = [], ae_subject_type = [],
     ae_resource = [], ae_result = [], ae_details = [], ae_extra = [] \<rparr>"

theorem audit_history_window_witness:
  "length (al_history (fold log_entry (replicate 201 demo_entry) (al_init True))) = 200"
proof -
  have "\<forall>x \<in> set (replicate 201 demo_entry). ae_extra x = []"
    by (simp add: demo_entry_def)
  from conjunct1 [OF audit_history_window [OF this, of True]]
  have "al_history (fold log_entry (replicate 201 demo_entry) (al_init True))
      = drop (length (replicate 201 demo_entry) - 200) (replicate 201 demo_entry)" .
  then show ?thesis
    by (simp only: length_drop length_replicate)
qed

theorem wildcard_tool_request_granted_witness:
  "snd (validate_agent_tool [] ''bot'' [''calc''] ''*'' (sc_init False)) = Inr True"
  using wildcard_tool_request_granted [of "sc_init False" "''bot''" "[]" "[]" "''calc''"]
  by (simp add: sc_init_def pe_init_def)

theorem api_key_identified_by_prefix_witness:
  "\<forall>e meth m. validate_api_access [] ''abcdefgh-other'' e meth m = validate_api_access [] ''abcdefgh-real'' e meth m"
proof -
  have "''abcdefgh-real'' \<noteq> []" "''abcdefgh-other'' \<noteq> []"
    "take 8 ''abcdefgh-other'' = take 8 ''abcdefgh-real''" by simp_all
  then show ?thesis
    using api_key_identified_by_prefix [of "''abcdefgh-real''" _ "[]"] by blast
qed

theorem default_roles_authority_witness:
  "snd (validate_runtime_check [] (mk_subject ''r'' ''user'' [Role_Name ''admin''] [] []) ''plugin'' ''x:stop''
     (security_initialize [] [] (sc_init False))) = Inr True"
  using default_roles_authority [of _ "[]" "[]" "sc_init False"
      "mk_subject ''r'' ''user'' [Role_Name ''admin''] [] []" "[]" "''plugin''" "''x:stop''", OF refl]
  by (simp add: sc_init_def mk_subject_def subject_add_role_def str_strip_def is_space_def in_range_char_def)

end
