(* ===== verification/VersionCompat.thy ===== *)
theory VersionCompat
  imports PyStrings "HOL-Library.List_Lexorder" "HOL-Library.Product_Lexorder"
begin

text \<open>
  \<open>yasin_core/compatibility/version.py\<close>: semantic versions with their order, the compatibility
  expressions and the negotiation of a version. Versions compare as the source's tuple
  \<open>(major, minor, patch, is_release, prerelease)\<close>.
\<close>

section \<open>Versions\<close>

datatype version = Version (v_major: nat) (v_minor: nat) (v_patch: nat) (v_prerelease: string)

definition parse_component :: "string \<Rightarrow> nat" where
  "parse_component s = (let d = filter is_digit s in if d = [] then 0 else digits_val d)"

text \<open>\<open>s.split("-", 1)\<close> when there is a hyphen, else the whole and nothing.\<close>

definition split_prerelease :: "string \<Rightarrow> string \<times> string" where
  "split_prerelease s =
     (takeWhile (\<lambda>c. c \<noteq> CHR ''-'') s, drop 1 (dropWhile (\<lambda>c. c \<noteq> CHR ''-'') s))"

definition parse_version :: "string \<Rightarrow> version" where
  "parse_version s =
     (let clean = dropWhile (\<lambda>c. c = CHR ''v'') (str_strip s);
          (release, pre) = split_prerelease clean;
          parts = str_split (CHR ''.'') release
      in Version (parse_component (parts ! 0))
           (if length parts > 1 then parse_component (parts ! 1) else 0)
           (if length parts > 2 then parse_component (parts ! 2) else 0)
           pre)"

definition as_tuple :: "version \<Rightarrow> nat \<times> nat \<times> nat \<times> bool \<times> string" where
  "as_tuple v = (v_major v, v_minor v, v_patch v, v_prerelease v = [], v_prerelease v)"

lemma as_tuple_inj: "as_tuple a = as_tuple b \<Longrightarrow> a = b"
  by (cases a; cases b) (simp add: as_tuple_def)

instantiation version :: linorder
begin

definition less_eq_version :: "version \<Rightarrow> version \<Rightarrow> bool" where
  "less_eq_version a b \<longleftrightarrow> as_tuple a \<le> as_tuple b"

definition less_version :: "version \<Rightarrow> version \<Rightarrow> bool" where
  "less_version a b \<longleftrightarrow> as_tuple a < as_tuple b"

instance
proof
  fix a b :: version
  show "a \<le> b \<Longrightarrow> b \<le> a \<Longrightarrow> a = b"
    unfolding less_eq_version_def by (rule as_tuple_inj) (rule order.antisym)
qed (auto simp: less_eq_version_def less_version_def)

end

definition version_str :: "version \<Rightarrow> string" where
  "version_str v =
     (let base = nat_str (v_major v) @ ''.'' @ nat_str (v_minor v) @ ''.'' @ nat_str (v_patch v)
      in if v_prerelease v \<noteq> [] then base @ ''-'' @ v_prerelease v else base)"

text \<open>The comparison methods, whose other side is a version, a string, or any other value\<close>

datatype version_operand = Of_Version version | Of_Value pyval

definition version_of :: "version_operand \<Rightarrow> exn + version" where
  "version_of other = (case other of Of_Version v \<Rightarrow> Inr v | Of_Value (PStr s) \<Rightarrow> Inr (parse_version s)
     | Of_Value x \<Rightarrow> Inl (attribute_error ''_as_tuple'' x))"

definition version_eq :: "version \<Rightarrow> version_operand \<Rightarrow> bool" where
  "version_eq v other = (case other of Of_Version u \<Rightarrow> as_tuple v = as_tuple u
     | Of_Value (PStr s) \<Rightarrow> as_tuple v = as_tuple (parse_version s) | Of_Value _ \<Rightarrow> False)"

definition version_ne :: "version \<Rightarrow> version_operand \<Rightarrow> bool" where
  "version_ne v other \<longleftrightarrow> \<not> version_eq v other"

definition version_lt :: "version \<Rightarrow> version_operand \<Rightarrow> exn + bool" where
  "version_lt v other = (case version_of other of Inl e \<Rightarrow> Inl e | Inr u \<Rightarrow> Inr (as_tuple v < as_tuple u))"

definition version_le :: "version \<Rightarrow> version_operand \<Rightarrow> exn + bool" where
  "version_le v other = (case version_of other of Inl e \<Rightarrow> Inl e | Inr u \<Rightarrow> Inr (as_tuple v \<le> as_tuple u))"

definition version_gt :: "version \<Rightarrow> version_operand \<Rightarrow> exn + bool" where
  "version_gt v other = (case version_of other of Inl e \<Rightarrow> Inl e | Inr u \<Rightarrow> Inr (as_tuple v > as_tuple u))"

definition version_ge :: "version \<Rightarrow> version_operand \<Rightarrow> exn + bool" where
  "version_ge v other = (case version_of other of Inl e \<Rightarrow> Inl e | Inr u \<Rightarrow> Inr (as_tuple v \<ge> as_tuple u))"

text \<open>Exactly one of the three comparisons holds, and the mixed ones agree with them.\<close>

lemma version_trichotomy:
  assumes "version_of other = Inr u"
  shows "[version_lt v other, Inr (version_eq v other), version_gt v other]
       \<in> {[Inr True, Inr False, Inr False], [Inr False, Inr True, Inr False], [Inr False, Inr False, Inr True]}"
    and "version_le v other = Inr (version_lt v other = Inr True \<or> version_eq v other)"
    and "version_ge v other = Inr (version_gt v other = Inr True \<or> version_eq v other)"
proof -
  have "version_eq v other \<longleftrightarrow> as_tuple v = as_tuple u"
    using assms by (auto simp: version_eq_def version_of_def split: version_operand.splits pyval.splits)
  then show "[version_lt v other, Inr (version_eq v other), version_gt v other]
       \<in> {[Inr True, Inr False, Inr False], [Inr False, Inr True, Inr False], [Inr False, Inr False, Inr True]}"
    "version_le v other = Inr (version_lt v other = Inr True \<or> version_eq v other)"
    "version_ge v other = Inr (version_gt v other = Inr True \<or> version_eq v other)"
    using assms linorder_less_linear [of "as_tuple v" "as_tuple u"]
    by (auto simp: version_lt_def version_gt_def version_le_def version_ge_def)
qed

lemma version_other_value:
  "\<forall>s. x \<noteq> PStr s \<Longrightarrow> \<not> version_eq v (Of_Value x) \<and> version_lt v (Of_Value x) = Inl (attribute_error ''_as_tuple'' x)"
  by (cases x) (simp_all add: version_eq_def version_lt_def version_of_def)

section \<open>Compatibility expressions\<close>

definition starts_with :: "string \<Rightarrow> string \<Rightarrow> bool" where
  "starts_with p s \<longleftrightarrow> take (length p) s = p"

definition caret_limit :: "version \<Rightarrow> version" where
  "caret_limit r =
     (if v_major r > 0 then parse_version (nat_str (v_major r + 1) @ ''.0.0'')
      else if v_minor r > 0 then parse_version (''0.'' @ nat_str (v_minor r + 1) @ ''.0'')
      else parse_version (''0.0.'' @ nat_str (v_patch r + 1)))"

definition version_operators :: "string list" where
  "version_operators = [''>='', ''<='', ''>'', ''<'', ''=='', ''!='']"

definition compare_versions :: "string \<Rightarrow> version \<Rightarrow> version \<Rightarrow> bool" where
  "compare_versions opr core req =
     (if opr = ''>='' then core \<ge> req
      else if opr = ''<='' then core \<le> req
      else if opr = ''>'' then core > req
      else if opr = ''<'' then core < req
      else if opr = ''=='' then core = req
      else if opr = ''!='' then core \<noteq> req
      else False)"

definition is_compatible :: "string \<Rightarrow> string \<Rightarrow> bool" where
  "is_compatible version_expr core_version =
     (if version_expr = [] \<or> str_strip version_expr = ''*'' then True
      else
        let expr = str_strip version_expr;
            core = parse_version core_version
        in if starts_with ''^'' expr then
             (let req = parse_version (str_strip (drop 1 expr))
              in req \<le> core \<and> core < caret_limit req)
           else
             (case List.find (\<lambda>x. starts_with x expr) version_operators of
                Some opr \<Rightarrow> compare_versions opr core (parse_version (str_strip (drop (length opr) expr)))
              | None \<Rightarrow> compare_versions ''=='' core (parse_version expr)))"

text \<open>\<open>max(versions)\<close>: the first of the greatest.\<close>

fun first_max :: "version \<Rightarrow> version list \<Rightarrow> version" where
  "first_max m [] = m"
| "first_max m (v # vs) = first_max (if v > m then v else m) vs"

definition negotiate :: "string \<Rightarrow> string list \<Rightarrow> exn + string" where
  "negotiate expr servers =
     (case map parse_version (filter (is_compatible expr) servers) of
        [] \<Rightarrow> Inl (Exn VersionMismatchErr (''No compatible version found matching requirement ''
               @ quoted expr @ '' among server versions: [''
               @ join_with '', '' (map quoted servers) @ '']''))
      | v # vs \<Rightarrow> Inr (version_str (first_max v vs)))"

section \<open>Digits and parsing\<close>

lemma parse_component_nat_str [simp]: "parse_component (nat_str n) = n"
  using nat_str_digits [of n]
  by (simp add: parse_component_def Let_def list_all_iff digits_val_nat_str)

lemma digit_not: "is_digit c \<Longrightarrow> c \<noteq> CHR ''.'' \<and> c \<noteq> CHR ''-'' \<and> c \<noteq> CHR ''v'' \<and> \<not> is_space c"
  by (auto simp: is_digit_def is_space_def in_range_char_def)

lemma nat_str_chars: "c \<in> set (nat_str n) \<Longrightarrow> is_digit c"
  using nat_str_digits [of n] by (simp add: list_all_iff)

text \<open>A rendered release number with an optional prerelease part is read back as it is.\<close>

lemma parse_rendered:
  assumes "pre = [] \<or> \<not> is_space (last pre)"
  shows "parse_version (nat_str a @ ''.'' @ nat_str b @ ''.'' @ nat_str c
           @ (if pre \<noteq> [] then ''-'' @ pre else [])) = Version a b c pre"
proof -
  let ?rel = "nat_str a @ ''.'' @ nat_str b @ ''.'' @ nat_str c"
  let ?s = "?rel @ (if pre \<noteq> [] then ''-'' @ pre else [])"
  have hd: "hd ?s = hd (nat_str a)" by simp
  have dh: "is_digit (hd (nat_str a))"
    using nat_str_chars [of "hd (nat_str a)" a] by simp
  have "\<not> is_space (last ?s)"
  proof (cases "pre = []")
    case True
    then show ?thesis
      using digit_not [OF nat_str_chars [of "last (nat_str c)" c]] by simp
  qed (use assms in simp)
  then have strip: "str_strip ?s = ?s"
  proof -
    have "dropWhile is_space ?s = ?s"
      using digit_not [OF dh] hd by (cases "nat_str a") auto
    moreover have "dropWhile is_space (rev ?s) = rev ?s"
      using \<open>\<not> is_space (last ?s)\<close> by (cases "rev ?s") (auto simp flip: hd_rev)
    ultimately show ?thesis by (simp add: str_strip_def)
  qed
  have v: "dropWhile (\<lambda>c. c = CHR ''v'') ?s = ?s"
    using digit_not [OF dh] by (cases "nat_str a") auto
  have no_hyphen: "\<forall>c \<in> set ?rel. c \<noteq> CHR ''-''"
    using digit_not nat_str_chars by (auto; blast)
  have pre: "split_prerelease ?s = (?rel, pre)"
    using no_hyphen by (auto simp: split_prerelease_def takeWhile_append dropWhile_append)
  have nodot: "CHR ''.'' \<notin> set (nat_str n)" for n
    using digit_not nat_str_chars by blast
  have "str_split (CHR ''.'') ?rel = [nat_str a, nat_str b, nat_str c]"
    using str_split_append [OF nodot, of a "nat_str b @ CHR ''.'' # nat_str c"]
      str_split_append [OF nodot, of b "nat_str c"] str_split_no_sep [OF nodot, of c] by simp
  then have split: "str_split (CHR ''.'') ?rel ! 0 = nat_str a" "str_split (CHR ''.'') ?rel ! 1 = nat_str b"
      "str_split (CHR ''.'') ?rel ! 2 = nat_str c" "length (str_split (CHR ''.'') ?rel) = 3"
    by (simp_all only:) simp_all
  have "parse_version ?s = Version a b c pre"
    by (simp only: parse_version_def Let_def strip v pre prod.case split parse_component_nat_str) simp
  then show ?thesis by simp
qed

lemma caret_limit_eq:
  "caret_limit r = (if v_major r > 0 then Version (v_major r + 1) 0 0 []
     else if v_minor r > 0 then Version 0 (v_minor r + 1) 0 [] else Version 0 0 (v_patch r + 1) [])"
proof -
  have z: "nat_str 0 = ''0''"
    by code_simp
  show ?thesis
    using parse_rendered [of "[]" "v_major r + 1" 0 0] parse_rendered [of "[]" 0 "v_minor r + 1" 0]
      parse_rendered [of "[]" 0 0 "v_patch r + 1"]
    by (simp add: caret_limit_def z)
qed

section \<open>Properties\<close>

text \<open>
  Rendering and parsing a version are inverse: every version whose prerelease part does not
  end in white space is read back from its string.
\<close>

theorem version_roundtrip:
  assumes "v_prerelease v = [] \<or> \<not> is_space (last (v_prerelease v))"
  shows "parse_version (version_str v) = v"
proof -
  have s: "version_str v = nat_str (v_major v) @ ''.'' @ nat_str (v_minor v) @ ''.'' @ nat_str (v_patch v)
      @ (if v_prerelease v \<noteq> [] then ''-'' @ v_prerelease v else [])"
    by (simp add: version_str_def)
  show ?thesis
    unfolding s using parse_rendered [OF assms, of "v_major v" "v_minor v" "v_patch v"] by simp
qed

lemma first_max_spec: "first_max m vs \<in> insert m (set vs) \<and> (\<forall>v \<in> insert m (set vs). v \<le> first_max m vs)"
proof (induction vs arbitrary: m)
  case (Cons v vs)
  show ?case
    using Cons [of "if v > m then v else m"] by (auto split: if_splits intro: order.trans)
qed simp

text \<open>
  Negotiation returns the rendering of a server version that satisfies the client's
  expression and that no other satisfying server version exceeds; it fails exactly when no
  server version satisfies the expression.
\<close>

theorem negotiate_best:
  "case negotiate expr servers of
     Inr r \<Rightarrow> \<exists>sv \<in> set servers. is_compatible expr sv \<and> r = version_str (parse_version sv)
        \<and> (\<forall>sv' \<in> set servers. is_compatible expr sv' \<longrightarrow> parse_version sv' \<le> parse_version sv)
   | Inl e \<Rightarrow> exn_class e = VersionMismatchErr \<and> (\<forall>sv \<in> set servers. \<not> is_compatible expr sv)"
proof (cases "map parse_version (filter (is_compatible expr) servers)")
  case Nil
  then show ?thesis
    by (auto simp: negotiate_def filter_empty_conv)
next
  case (Cons v vs)
  have "set (v # vs) = parse_version ` {sv \<in> set servers. is_compatible expr sv}"
    unfolding Cons [symmetric] by simp
  then show ?thesis
    using first_max_spec [of v vs] Cons by (auto simp: negotiate_def)
qed

lemma strip_ends:
  assumes "str_strip s = s" "s \<noteq> []"
  shows "\<not> is_space (last s)" "dropWhile is_space s = s"
proof -
  let ?t = "dropWhile is_space s"
  have "length (str_strip s) \<le> length ?t"
    using length_dropWhile_le [of is_space "rev ?t"] by (simp add: str_strip_def)
  then have len: "length ?t = length s"
    using length_dropWhile_le [of is_space s] assms(1) by simp
  have "s = takeWhile is_space s @ ?t"
    by (rule takeWhile_dropWhile_id [symmetric])
  then show t: "dropWhile is_space s = s"
    using len by (metis append_self_conv2 length_0_conv length_append add_cancel_left_left)
  then have r: "dropWhile is_space (rev s) = rev s"
    using assms(1) by (metis rev_rev_ident str_strip_def)
  have "rev s \<noteq> []" using assms(2) by simp
  then have "\<not> is_space (hd (dropWhile is_space (rev s)))"
    using r by (metis hd_dropWhile)
  then show "\<not> is_space (last s)"
    using r by (simp add: hd_rev)
qed

lemma strip_hat:
  assumes "str_strip s = s" "s \<noteq> []"
  shows "str_strip (''^'' @ s) = ''^'' @ s"
proof -
  have "dropWhile is_space (rev s @ ''^'') = rev s @ ''^''"
    using strip_ends(1) [OF assms] assms(2) by (cases "rev s") (auto simp flip: hd_rev)
  then show ?thesis
    by (simp add: str_strip_def is_space_def in_range_char_def)
qed

lemma caret_compatible:
  assumes "str_strip s = s" "s \<noteq> []"
  shows "is_compatible (''^'' @ s) core \<longleftrightarrow>
     parse_version s \<le> parse_version core \<and> parse_version core < caret_limit (parse_version s)"
  using strip_hat [OF assms] assms by (simp add: is_compatible_def starts_with_def Let_def)

text \<open>
  A caret range: \<open>^\<close> before a version with a non-zero major component admits a release exactly
  if it is not older and has the same major component; but it also admits every prerelease of the
  next major release, since that is ordered before the release that ends the range.
\<close>

theorem caret_range:
  assumes "str_strip s = s" "s \<noteq> []" "v_major (parse_version s) > 0"
  shows "(\<forall>a b c. is_compatible (''^'' @ s) (version_str (Version a b c [])) \<longleftrightarrow>
            parse_version s \<le> Version a b c [] \<and> a = v_major (parse_version s))
    \<and> (\<forall>pre. pre \<noteq> [] \<longrightarrow> \<not> is_space (last pre) \<longrightarrow>
         is_compatible (''^'' @ s) (version_str (Version (v_major (parse_version s) + 1) 0 0 pre)))"
proof (intro conjI allI impI)
  let ?r = "parse_version s"
  have limit: "caret_limit ?r = Version (v_major ?r + 1) 0 0 []"
    using assms(3) by (simp add: caret_limit_eq)
  fix a b c
  have p: "parse_version (version_str (Version a b c [])) = Version a b c []"
    using parse_rendered [of "[]" a b c] by (simp add: version_str_def)
  have "?r \<le> Version a b c [] \<Longrightarrow> Version a b c [] < Version (v_major ?r + 1) 0 0 [] \<longleftrightarrow> a = v_major ?r"
    by (auto simp: less_eq_version_def less_version_def as_tuple_def)
  then show "is_compatible (''^'' @ s) (version_str (Version a b c [])) \<longleftrightarrow>
      ?r \<le> Version a b c [] \<and> a = v_major ?r"
    unfolding caret_compatible [OF assms(1,2)] p limit by blast
next
  let ?r = "parse_version s"
  fix pre :: string assume pre: "pre \<noteq> []" "\<not> is_space (last pre)"
  have limit: "caret_limit ?r = Version (v_major ?r + 1) 0 0 []"
    using assms(3) by (simp add: caret_limit_eq)
  have p: "parse_version (version_str (Version (v_major ?r + 1) 0 0 pre)) = Version (v_major ?r + 1) 0 0 pre"
    using parse_rendered [of pre "v_major ?r + 1" 0 0] pre by (simp add: version_str_def)
  have "?r \<le> Version (v_major ?r + 1) 0 0 pre" "Version (v_major ?r + 1) 0 0 pre < Version (v_major ?r + 1) 0 0 []"
    using pre by (auto simp: less_eq_version_def less_version_def as_tuple_def)
  then show "is_compatible (''^'' @ s) (version_str (Version (v_major ?r + 1) 0 0 pre))"
    unfolding caret_compatible [OF assms(1,2)] p limit by blast
qed

theorem version_roundtrip_witness: "parse_version (version_str (Version 1 10 3 ''rc1'')) = Version 1 10 3 ''rc1''"
  by (rule version_roundtrip) (simp add: is_space_def in_range_char_def)

theorem caret_range_witness: "is_compatible ''^2.0.0'' (version_str (Version 3 0 0 ''rc1''))"
proof -
  have p: "parse_version ''2.0.0'' = Version 2 0 0 []"
    by code_simp
  have "str_strip ''2.0.0'' = ''2.0.0''"
    by code_simp
  then show ?thesis
    using caret_range [of "''2.0.0''"] p by (simp add: is_space_def in_range_char_def)
qed

theorem negotiate_best_witness: "negotiate ''^1.2.0'' [''1.0.0'', ''2.0.0''] \<noteq> Inr ''2.0.0''"
proof
  assume n: "negotiate ''^1.2.0'' [''1.0.0'', ''2.0.0''] = Inr ''2.0.0''"
  have "\<not> is_compatible ''^1.2.0'' ''1.0.0''" "\<not> is_compatible ''^1.2.0'' ''2.0.0''"
    by code_simp+
  then show False
    using negotiate_best [where expr = "''^1.2.0''" and servers = "[''1.0.0'', ''2.0.0'']"]
    unfolding n sum.case by auto
qed

end
