(* ===== verification/SchemaMigration.thy ===== *)
theory SchemaMigration
  imports PyStrings
begin

text \<open>
  \<open>yasin_core/compatibility/migration.py\<close>: the search for a chain of schema migrations and its
  execution, the migration of configurations (renames, nested keys, defaults) and of records.
  Callbacks are numbers whose effect is a parameter.
\<close>

section \<open>Schema migrations\<close>

type_synonym migrations = "((string \<times> string) \<times> nat) list"

definition register_migration :: "string \<Rightarrow> string \<Rightarrow> nat \<Rightarrow> migrations \<Rightarrow> migrations" where
  "register_migration f t cb ms = AList.update (f, t) cb ms"

type_synonym version_graph = "(string \<times> string list) list"

definition graph_edges :: "version_graph \<Rightarrow> string \<Rightarrow> string list" where
  "graph_edges g n = (case map_of g n of Some ts \<Rightarrow> ts | None \<Rightarrow> [])"

definition migration_graph :: "migrations \<Rightarrow> version_graph" where
  "migration_graph ms = foldl (\<lambda>g (f, t). AList.update f (graph_edges g f @ [t]) g) [] (dict_keys ms)"

text \<open>The loop over the neighbours of the last node of a path.\<close>

fun expand_path ::
  "string list \<Rightarrow> string list \<Rightarrow> string list list \<Rightarrow> string set \<Rightarrow> string list list \<times> string set" where
  "expand_path path [] queue visited = (queue, visited)"
| "expand_path path (n # ns) queue visited =
     (if n \<in> visited then expand_path path ns queue visited
      else expand_path path ns (queue @ [path @ [n]]) (insert n visited))"

definition graph_nodes :: "version_graph \<Rightarrow> string set" where
  "graph_nodes g = (\<Union>(f, ts) \<in> set g. set ts)"

lemma finite_graph_nodes [simp]: "finite (graph_nodes g)"
  by (auto simp: graph_nodes_def)

lemma graph_edges_nodes: "set (graph_edges g n) \<subseteq> graph_nodes g"
  by (auto simp: graph_edges_def graph_nodes_def split: option.splits dest!: map_of_SomeD [OF sym])

lemma expand_path_spec:
  "\<exists>new. distinct new \<and> set new = set ns - visited
     \<and> expand_path path ns queue visited = (queue @ map (\<lambda>n. path @ [n]) new, visited \<union> set new)"
proof (induction ns arbitrary: queue visited)
  case Nil
  then show ?case by (intro exI [of _ "[]"]) simp
next
  case (Cons n ns)
  show ?case
  proof (cases "n \<in> visited")
    case True
    then have "set (n # ns) - visited = set ns - visited" by auto
    with Cons [of visited queue] True show ?thesis by simp
  next
    case False
    obtain new where new: "distinct new" "set new = set ns - insert n visited"
        "expand_path path ns (queue @ [path @ [n]]) (insert n visited)
          = ((queue @ [path @ [n]]) @ map (\<lambda>n. path @ [n]) new, insert n visited \<union> set new)"
      using Cons by blast
    show ?thesis
      by (rule exI [of _ "n # new"]) (use False new in auto)
  qed
qed

lemma expand_path_measure:
  assumes "set ns \<subseteq> S" "finite S" "expand_path path ns queue visited = (queue', visited')"
  shows "length queue' + card (S - visited') = length queue + card (S - visited)"
proof -
  obtain new where new: "distinct new" "set new = set ns - visited"
      "queue' = queue @ map (\<lambda>n. path @ [n]) new" "visited' = visited \<union> set new"
    using expand_path_spec [of ns visited path queue] assms(3) by auto
  have "S - visited = (S - visited') \<union> set new" "(S - visited') \<inter> set new = {}"
    using new assms(1) by auto
  then have "card (S - visited) = card (S - visited') + card (set new)"
    using assms(2) by (metis card_Un_disjoint finite_Diff finite_set)
  then show ?thesis
    using new(1,3) by (simp add: distinct_card)
qed

function search_path ::
  "version_graph \<Rightarrow> string \<Rightarrow> string list list \<Rightarrow> string set \<Rightarrow> string list option" where
  "search_path g end_ver [] visited = None"
| "search_path g end_ver (path # queue) visited =
     (if last path = end_ver then Some path
      else case expand_path path (graph_edges g (last path)) queue visited of
             (queue', visited') \<Rightarrow> search_path g end_ver queue' visited')"
  by pat_completeness auto
termination
  by (relation "measure (\<lambda>(g, e, queue, visited). length queue + card (graph_nodes g - visited))")
    (auto split: prod.split dest!: expand_path_measure [OF graph_edges_nodes finite_graph_nodes])

definition path_edges :: "string list \<Rightarrow> (string \<times> string) list" where
  "path_edges p = zip p (tl p)"

definition no_migration_path :: "string \<Rightarrow> string \<Rightarrow> exn" where
  "no_migration_path a b =
     Exn MigrationErr (''No migration path found from version '' @ quoted a @ '' to '' @ quoted b)"

definition find_migration_path :: "migrations \<Rightarrow> string \<Rightarrow> string \<Rightarrow> exn + (string \<times> string) list" where
  "find_migration_path ms start_ver end_ver =
     (if start_ver = end_ver then Inr []
      else case search_path (migration_graph ms) end_ver [[start_ver]] {start_ver} of
             Some path \<Rightarrow> Inr (path_edges path)
           | None \<Rightarrow> Inl (no_migration_path start_ver end_ver))"

text \<open>The chain of callbacks; \<open>cb\<close> gives what a callback returns or raises.\<close>

definition migration_failed :: "string \<Rightarrow> string \<Rightarrow> exn \<Rightarrow> exn" where
  "migration_failed f t e =
     Exn MigrationErr (''Failed migrating schema from '' @ quoted f @ '' to '' @ quoted t @ '': '' @ exn_msg e)"

fun run_migrations ::
  "(nat \<Rightarrow> pydict \<Rightarrow> exn + pydict) \<Rightarrow> migrations \<Rightarrow> (string \<times> string) list \<Rightarrow> pydict \<Rightarrow> exn + pydict" where
  "run_migrations cb ms [] d = Inr d"
| "run_migrations cb ms ((f, t) # es) d =
     (case map_of ms (f, t) of
        None \<Rightarrow> Inl (Exn KeyErr f)
      | Some c \<Rightarrow>
          (case cb c d of
             Inl e \<Rightarrow> Inl (migration_failed f t e)
           | Inr d' \<Rightarrow> run_migrations cb ms es d'))"

definition migrate_schema ::
  "(nat \<Rightarrow> pydict \<Rightarrow> exn + pydict) \<Rightarrow> migrations \<Rightarrow> pydict \<Rightarrow> string \<Rightarrow> string \<Rightarrow> exn + pydict" where
  "migrate_schema cb ms data current target =
     (if current = target then Inr data
      else case find_migration_path ms current target of
             Inl e \<Rightarrow> Inl e
           | Inr path \<Rightarrow> run_migrations cb ms path data)"

section \<open>Configurations\<close>

text \<open>\<open>current[part]\<close> of a nested write: anything but a dictionary is replaced by an empty one.\<close>

definition sub_dict :: "string \<Rightarrow> pydict \<Rightarrow> pydict" where
  "sub_dict k d = (case map_of d k of Some (PDict d') \<Rightarrow> d' | _ \<Rightarrow> [])"

fun set_path :: "string list \<Rightarrow> pyval \<Rightarrow> pydict \<Rightarrow> pydict" where
  "set_path [] v d = d"
| "set_path [k] v d = AList.update k v d"
| "set_path (k # ks) v d = AList.update k (PDict (set_path ks v (sub_dict k d))) d"

fun inject_path :: "string list \<Rightarrow> pyval \<Rightarrow> pydict \<Rightarrow> pydict" where
  "inject_path [] v d = d"
| "inject_path [k] v d = (if dict_has d k then d else AList.update k v d)"
| "inject_path (k # ks) v d = AList.update k (PDict (inject_path ks v (sub_dict k d))) d"

definition key_parts :: "string \<Rightarrow> string list" where
  "key_parts k = str_split (CHR ''.'') k"

definition rename_key :: "pydict \<Rightarrow> string \<times> string \<Rightarrow> pydict" where
  "rename_key d r =
     (case map_of d (fst r) of
        None \<Rightarrow> d
      | Some v \<Rightarrow> set_path (key_parts (snd r)) v (AList.delete (fst r) d))"

definition inject_default :: "pydict \<Rightarrow> string \<times> pyval \<Rightarrow> pydict" where
  "inject_default d kv = inject_path (key_parts (fst kv)) (snd kv) d"

definition migrate_config ::
  "pydict \<Rightarrow> (string \<times> string) list \<Rightarrow> (string \<times> pyval) list \<Rightarrow> (pydict \<Rightarrow> exn + pydict) option \<Rightarrow> exn + pydict" where
  "migrate_config config renames defaults custom =
     (let d1 = foldl rename_key config renames;
          d2 = foldl inject_default d1 defaults
      in case custom of None \<Rightarrow> Inr d2 | Some f \<Rightarrow> f d2)"

section \<open>Records\<close>

text \<open>\<open>rep\<close> renders the record in the message.\<close>

definition record_failed :: "string \<Rightarrow> exn \<Rightarrow> exn" where
  "record_failed r e = Exn MigrationErr (''Failed to migrate record '' @ r @ '': '' @ exn_msg e)"

fun migrate_records ::
  "(pydict \<Rightarrow> string) \<Rightarrow> (pydict \<Rightarrow> exn + pydict) \<Rightarrow> pydict list \<Rightarrow> exn + pydict list" where
  "migrate_records rep f [] = Inr []"
| "migrate_records rep f (r # rs) =
     (case f r of
        Inl e \<Rightarrow> Inl (record_failed (rep r) e)
      | Inr r' \<Rightarrow>
          (case migrate_records rep f rs of
             Inl e \<Rightarrow> Inl e
           | Inr rs' \<Rightarrow> Inr (r' # rs')))"

section \<open>The search\<close>

definition graph_rel :: "version_graph \<Rightarrow> (string \<times> string) set" where
  "graph_rel g = {(a, b). b \<in> set (graph_edges g a)}"

definition chain_from :: "('a \<times> 'a) set \<Rightarrow> 'a \<Rightarrow> 'a list \<Rightarrow> bool" where
  "chain_from E a p \<longleftrightarrow> p \<noteq> [] \<and> hd p = a \<and> successively (\<lambda>x y. (x, y) \<in> E) p"

lemma chain_from_single [simp]: "chain_from E a [a]"
  by (simp add: chain_from_def)

lemma chain_from_snoc:
  "p \<noteq> [] \<Longrightarrow> chain_from E a (p @ [b]) \<longleftrightarrow> chain_from E a p \<and> (last p, b) \<in> E"
  by (auto simp: chain_from_def successively_append_iff)

lemma graph_edges_fold:
  "graph_edges (foldl (\<lambda>g (f, t). AList.update f (graph_edges g f @ [t]) g) g ks) n
     = graph_edges g n @ map snd (filter (\<lambda>k. fst k = n) ks)"
proof (induction ks arbitrary: g)
  case (Cons k ks)
  show ?case
    unfolding foldl_Cons Cons by (cases k) (auto simp: graph_edges_def dict_simps)
qed simp

lemma migration_graph_rel: "graph_rel (migration_graph ms) = set (dict_keys ms)"
proof -
  have "graph_edges [] n = []" for n by (simp add: graph_edges_def)
  then show ?thesis
    unfolding graph_rel_def migration_graph_def graph_edges_fold by (auto simp: image_iff)
qed

text \<open>
  The state of the search after the nodes of \<open>done\<close> have been taken from the queue: the queue holds
  chains of at most two lengths, in order, and every chain that is no longer than the first of
  them ends in a node that is done or that the queue reaches by a chain no longer.
\<close>

definition search_inv ::
  "version_graph \<Rightarrow> string \<Rightarrow> string \<Rightarrow> string list list \<Rightarrow> string set \<Rightarrow> string set \<Rightarrow> bool" where
  "search_inv g a b queue visited done \<longleftrightarrow>
     (\<forall>p \<in> set queue. chain_from (graph_rel g) a p)
   \<and> sorted (map length queue) \<and> (\<forall>p \<in> set queue. length p \<le> length (hd queue) + 1)
   \<and> visited = done \<union> last ` set queue \<and> a \<in> visited
   \<and> (\<forall>u \<in> done. set (graph_edges g u) \<subseteq> visited) \<and> b \<notin> done
   \<and> (\<forall>p. chain_from (graph_rel g) a p \<longrightarrow> queue \<noteq> [] \<longrightarrow> length p \<le> length (hd queue) \<longrightarrow>
         last p \<in> done \<or> (\<exists>q \<in> set queue. last q = last p \<and> length q \<le> length p))"

lemma chain_closed:
  assumes "a \<in> S" "\<forall>u \<in> S. set (graph_edges g u) \<subseteq> S"
  shows "chain_from (graph_rel g) a p \<Longrightarrow> last p \<in> S"
proof (induction p rule: rev_induct)
  case Nil
  then show ?case by (simp add: chain_from_def)
next
  case (snoc x p)
  show ?case
  proof (cases "p = []")
    case True
    then show ?thesis using snoc.prems assms(1) by (simp add: chain_from_def)
  next
    case False
    then have "last p \<in> S" "(last p, x) \<in> graph_rel g"
      using snoc by (simp_all add: chain_from_snoc)
    then show ?thesis using assms(2) by (auto simp: graph_rel_def)
  qed
qed

lemma search_inv_empty:
  assumes "search_inv g a b [] visited done"
  shows "\<not> (\<exists>p. chain_from (graph_rel g) a p \<and> last p = b)"
proof -
  have v: "visited = done" using assms by (simp add: search_inv_def)
  have i: "a \<in> done" "\<forall>u \<in> done. set (graph_edges g u) \<subseteq> done" "b \<notin> done"
    using assms unfolding search_inv_def v by blast+
  have "\<And>p. chain_from (graph_rel g) a p \<Longrightarrow> last p \<in> done"
    by (rule chain_closed [OF i(1,2)])
  then show ?thesis using i(3) by blast
qed

lemma search_inv_found:
  assumes "search_inv g a b (path # queue) visited done" "last path = b"
    "chain_from (graph_rel g) a p" "last p = b"
  shows "length path \<le> length p"
proof (rule ccontr)
  assume short: "\<not> length path \<le> length p"
  have "last p \<in> done \<or> (\<exists>q \<in> set (path # queue). last q = last p \<and> length q \<le> length p)"
    using assms(1,3) short unfolding search_inv_def by (metis linear list.distinct(1) list.sel(1))
  moreover have "\<forall>q \<in> set (path # queue). length path \<le> length q"
    using assms(1) by (auto simp: search_inv_def)
  ultimately show False
    using assms short by (auto simp: search_inv_def)
qed

lemma search_inv_step:
  assumes inv: "search_inv g a b (path # queue) visited done" and nb: "last path \<noteq> b"
    and e: "expand_path path (graph_edges g (last path)) queue visited = (queue', visited')"
  shows "search_inv g a b queue' visited' (insert (last path) done)"
proof -
  let ?E = "graph_rel g" and ?u = "last path" and ?L = "length path"
  obtain new where new: "set new = set (graph_edges g ?u) - visited"
      "queue' = queue @ map (\<lambda>n. path @ [n]) new" "visited' = visited \<union> set new"
    using expand_path_spec [of "graph_edges g ?u" visited path queue] e by auto
  have path: "chain_from ?E a path" "path \<noteq> []" and le: "\<forall>p \<in> set queue. ?L \<le> length p \<and> length p \<le> ?L + 1"
    and srt: "sorted (map length queue)" and vis: "visited = insert ?u (done \<union> last ` set queue)"
    and chains: "\<forall>p \<in> set queue. chain_from ?E a p" and closed: "\<forall>u \<in> done. set (graph_edges g u) \<subseteq> visited"
    and b: "b \<notin> done" and a: "a \<in> visited"
    and near: "\<And>p. chain_from ?E a p \<Longrightarrow> length p \<le> ?L \<Longrightarrow>
        last p \<in> done \<or> (\<exists>q \<in> set (path # queue). last q = last p \<and> length q \<le> length p)"
    using inv by (auto simp: search_inv_def chain_from_def)
  have close: "\<forall>u \<in> insert ?u done. set (graph_edges g u) \<subseteq> visited'"
    using closed new by auto
  have vis': "visited' = insert ?u done \<union> last ` set queue'"
  proof -
    have "last ` set queue' = last ` set queue \<union> set new"
      using new(2) by (simp add: image_Un image_image)
    then show ?thesis using new(3) vis by auto
  qed
  have old: "last p \<in> insert ?u done \<or> (\<exists>q \<in> set queue. last q = last p \<and> length q \<le> length p)"
    if "chain_from ?E a p" "length p \<le> ?L" for p
    using near [OF that] by auto
  have far: "last p \<in> insert ?u done \<or> (\<exists>q \<in> set queue'. last q = last p \<and> length q \<le> length p)"
    if p: "chain_from ?E a p" "length p \<le> length (hd queue')" "queue' \<noteq> []" for p
  proof (cases "length p \<le> ?L")
    case True
    then show ?thesis using old [OF p(1)] new(2) by auto
  next
    case False
    have hd': "length (hd queue') \<le> ?L + 1"
      using le new(2) p(3) by (cases queue; cases new) auto
    then have lp: "length p = ?L + 1" "\<forall>q \<in> set queue. length q = ?L + 1"
    proof -
      show "length p = ?L + 1" using hd' False p(2) by linarith
      then have "length (hd queue') = ?L + 1" using hd' p(2) by linarith
      then show "\<forall>q \<in> set queue. length q = ?L + 1"
        using srt le new(2) by (cases queue) (auto intro: antisym)
    qed
    have "1 < length p" using lp(1) path(2) by (cases path) auto
    then obtain p' x where px: "p = p' @ [x]" "p' \<noteq> []"
      by (cases p rule: rev_cases) auto
    then have "chain_from ?E a p'" "(last p', x) \<in> ?E" "length p' = ?L"
      using p(1) lp(1) by (auto simp: chain_from_snoc)
    then have "last p' \<in> insert ?u done"
      using old [of p'] lp(2) by force
    then have "x \<in> visited'"
      using close \<open>(last p', x) \<in> ?E\<close> by (auto simp: graph_rel_def)
    then show ?thesis
    proof -
      have "x \<in> insert ?u done \<or> (\<exists>q \<in> set queue'. last q = x)"
        using \<open>x \<in> visited'\<close> unfolding vis' by auto
      moreover have "\<forall>q \<in> set queue'. length q \<le> ?L + 1"
        using le new(2) by auto
      ultimately show ?thesis using px(1) lp(1) by auto
    qed
  qed
  have srt': "sorted (map length queue')"
    using srt le new(2) by (auto simp: sorted_append comp_def map_replicate_const)
  have len': "\<forall>p \<in> set queue'. length p \<le> length (hd queue') + 1"
    using le new(2) by (cases queue; cases new) force+
  have ch': "\<forall>p \<in> set queue'. chain_from ?E a p"
    using chains path new by (auto simp: chain_from_snoc graph_rel_def)
  show ?thesis
    unfolding search_inv_def using srt' len' ch' vis' close far a b nb new(3) by auto
qed

lemma search_path_spec:
  "search_inv g a b queue visited done \<Longrightarrow>
   (case search_path g b queue visited of
      Some p \<Rightarrow> chain_from (graph_rel g) a p \<and> last p = b
        \<and> (\<forall>q. chain_from (graph_rel g) a q \<longrightarrow> last q = b \<longrightarrow> length p \<le> length q)
    | None \<Rightarrow> \<not> (\<exists>p. chain_from (graph_rel g) a p \<and> last p = b))"
proof (induction g b queue visited arbitrary: "done" rule: search_path.induct)
  case (1 g b visited)
  then show ?case using search_inv_empty by simp
next
  case (2 g b path queue visited)
  show ?case
  proof (cases "last path = b")
    case True
    have "chain_from (graph_rel g) a path" using 2(2) by (simp add: search_inv_def)
    then show ?thesis
      using True search_inv_found [OF 2(2) True] by simp
  next
    case False
    obtain queue' visited' where e: "expand_path path (graph_edges g (last path)) queue visited = (queue', visited')"
      by fastforce
    show ?thesis
      using 2(1) [OF False e [symmetric] search_inv_step [OF 2(2) False e]] False e by simp
  qed
qed

lemma search_inv_init:
  "a \<noteq> b \<Longrightarrow> search_inv g a b [[a]] {a} {}"
  by (auto simp: search_inv_def chain_from_def length_Suc_conv le_Suc_eq Suc_le_eq)

lemma find_path_spec:
  "case find_migration_path ms a b of
     Inr es \<Rightarrow> (a = b \<and> es = []) \<or> (\<exists>p. chain_from (set (dict_keys ms)) a p \<and> last p = b \<and> es = path_edges p
        \<and> (\<forall>q. chain_from (set (dict_keys ms)) a q \<longrightarrow> last q = b \<longrightarrow> length p \<le> length q))
   | Inl e \<Rightarrow> e = no_migration_path a b \<and> \<not> (\<exists>p. chain_from (set (dict_keys ms)) a p \<and> last p = b)"
  using search_path_spec [OF search_inv_init, of a b "migration_graph ms"]
  by (auto simp: find_migration_path_def migration_graph_rel split: option.splits)

section \<open>Nested keys\<close>

fun get_path :: "string list \<Rightarrow> pydict \<Rightarrow> pyval option" where
  "get_path [] d = None"
| "get_path [k] d = map_of d k"
| "get_path (k # ks) d = get_path ks (sub_dict k d)"

lemma get_path_Nil [simp]: "get_path ks [] = None"
  by (induction ks "[] :: pydict" rule: get_path.induct) (simp_all add: sub_dict_def)

lemma sub_dict_update: "sub_dict k (AList.update k' v d) = (if k = k' then (case v of PDict d' \<Rightarrow> d' | _ \<Rightarrow> []) else sub_dict k d)"
  by (auto simp: sub_dict_def dict_simps)

lemma get_set_path: "ks \<noteq> [] \<Longrightarrow> get_path ks (set_path ks v d) = Some v"
  by (induction ks v d rule: set_path.induct) (simp_all add: dict_simps sub_dict_update)

lemma get_inject_path:
  "ks \<noteq> [] \<Longrightarrow> get_path ks (inject_path ks v d) = (case get_path ks d of Some x \<Rightarrow> Some x | None \<Rightarrow> Some v)"
  by (induction ks v d rule: inject_path.induct)
    (auto simp: dict_simps sub_dict_update dict_has_iff simp del: set_map split: option.split)

text \<open>Two paths neither of which leads through the other.\<close>

fun apart :: "string list \<Rightarrow> string list \<Rightarrow> bool" where
  "apart (k # ks) (l # ls) \<longleftrightarrow> (if k = l then apart ks ls else True)"
| "apart _ _ \<longleftrightarrow> False"

lemma get_path_update_other: "k \<noteq> l \<Longrightarrow> get_path (l # ls) (AList.update k v d) = get_path (l # ls) d"
  by (cases ls) (simp_all add: dict_simps sub_dict_update)

lemma get_path_update_same: "ls \<noteq> [] \<Longrightarrow> get_path (k # ls) (AList.update k (PDict d') d) = get_path ls d'"
  by (cases ls) (simp_all add: sub_dict_update)

lemma get_path_sub: "ls \<noteq> [] \<Longrightarrow> get_path (k # ls) d = get_path ls (sub_dict k d)"
  by (cases ls) simp_all

lemma apart_not_Nil: "apart ks ls \<Longrightarrow> ks \<noteq> [] \<and> ls \<noteq> []"
  by (cases ks; cases ls) simp_all

lemma get_inject_other: "apart ks ls \<Longrightarrow> get_path ls (inject_path ks v d) = get_path ls d"
proof (induction ks v d arbitrary: ls rule: inject_path.induct)
  case (2 k v d)
  then obtain l ls' where "ls = l # ls'" "k \<noteq> l"
    by (cases ls) (auto split: if_splits)
  then show ?case by (simp add: get_path_update_other)
next
  case (3 k k' ks v d)
  then obtain l ls' where ls: "ls = l # ls'"
    by (cases ls) auto
  show ?case
  proof (cases "k = l")
    case True
    then have "apart (k' # ks) ls'" "ls' \<noteq> []"
      using 3(2) ls apart_not_Nil by auto
    then show ?thesis
      using 3(1) True ls by (simp add: get_path_sub sub_dict_update)
  qed (simp add: ls get_path_update_other)
qed simp

lemma get_set_other: "apart ks ls \<Longrightarrow> get_path ls (set_path ks v d) = get_path ls d"
proof (induction ks v d arbitrary: ls rule: set_path.induct)
  case (2 k v d)
  then obtain l ls' where "ls = l # ls'" "k \<noteq> l"
    by (cases ls) (auto split: if_splits)
  then show ?case by (simp add: get_path_update_other)
next
  case (3 k k' ks v d)
  then obtain l ls' where ls: "ls = l # ls'"
    by (cases ls) auto
  show ?case
  proof (cases "k = l")
    case True
    then have "apart (k' # ks) ls'" "ls' \<noteq> []"
      using 3(2) ls apart_not_Nil by auto
    then show ?thesis
      using 3(1) True ls by (simp add: get_path_sub sub_dict_update)
  qed (simp add: ls get_path_update_other)
qed simp

lemma key_parts_not_Nil [simp]: "key_parts k \<noteq> []"
  by (simp add: key_parts_def)

section \<open>Properties\<close>

lemma run_migrations_ok:
  assumes "set es \<subseteq> set (dict_keys ms)"
  shows "case run_migrations cb ms es d of
     Inr d' \<Rightarrow> True
   | Inl e \<Rightarrow> \<exists>pre f t post c d1 e'. es = pre @ (f, t) # post \<and> run_migrations cb ms pre d = Inr d1
       \<and> map_of ms (f, t) = Some c \<and> cb c d1 = Inl e' \<and> e = migration_failed f t e'"
  using assms
proof (induction es arbitrary: d)
  case (Cons x es)
  obtain f t where x: "x = (f, t)" by fastforce
  then obtain c where c: "map_of ms (f, t) = Some c"
    using Cons.prems by (metis dict_has_iff insert_subset list.set(2) option.exhaust)
  show ?case
  proof (cases "cb c d")
    case (Inl e')
    then show ?thesis
      using c x by (auto intro!: exI [of _ "[] :: (string \<times> string) list"])
  next
    case (Inr d1)
    show ?thesis
    proof (cases "run_migrations cb ms es d1")
      case (Inl e)
      then obtain pre f' t' post c' d2 e' where "es = pre @ (f', t') # post" "run_migrations cb ms pre d1 = Inr d2"
          "map_of ms (f', t') = Some c'" "cb c' d2 = Inl e'" "e = migration_failed f' t' e'"
        using Cons.IH [of d1] Cons.prems by auto
      then show ?thesis
        using Inl Inr c x by (auto intro!: exI [of _ "(f, t) # pre"])
    qed (use Inr c x in simp)
  qed
qed simp

lemma path_edges_subset: "chain_from E a p \<Longrightarrow> set (path_edges p) \<subseteq> E"
proof -
  have "successively (\<lambda>x y. (x, y) \<in> E) p \<Longrightarrow> set (zip p (tl p)) \<subseteq> E"
    by (induction p rule: induct_list012) auto
  then show "chain_from E a p \<Longrightarrow> set (path_edges p) \<subseteq> E"
    by (simp add: chain_from_def path_edges_def)
qed

text \<open>
  \<open>C23\<close>. The search for migrations is complete and finds a shortest chain: it returns the steps of a
  chain of registered migrations from the one version to the other than which there is no
  shorter one, and fails exactly if the versions differ and there is no chain.
\<close>

theorem migration_path_shortest:
  "case find_migration_path ms a b of
     Inr es \<Rightarrow> (a = b \<and> es = []) \<or> (\<exists>p. chain_from (set (dict_keys ms)) a p \<and> last p = b \<and> es = path_edges p
        \<and> (\<forall>q. chain_from (set (dict_keys ms)) a q \<longrightarrow> last q = b \<longrightarrow> length p \<le> length q))
   | Inl e \<Rightarrow> e = no_migration_path a b \<and> \<not> (\<exists>p. chain_from (set (dict_keys ms)) a p \<and> last p = b)"
  by (rule find_path_spec)

text \<open>
  A schema migration either returns what the callbacks of the chain make of the data, one after
  the other; or it fails because there is no chain; or because a callback of the chain raised, and
  then the error names its step and all steps before it had succeeded.
\<close>

theorem schema_migration_outcome:
  "case migrate_schema cb ms data a b of
     Inr d \<Rightarrow> (a = b \<and> d = data) \<or> (\<exists>es. find_migration_path ms a b = Inr es \<and> run_migrations cb ms es data = Inr d)
   | Inl e \<Rightarrow> exn_class e = MigrationErr \<and>
       (find_migration_path ms a b = Inl e \<or>
        (\<exists>pre f t post c d1 e'. find_migration_path ms a b = Inr (pre @ (f, t) # post)
           \<and> run_migrations cb ms pre data = Inr d1 \<and> map_of ms (f, t) = Some c \<and> cb c d1 = Inl e'
           \<and> e = migration_failed f t e'))"
proof (cases "a = b")
  case False
  show ?thesis
  proof (cases "find_migration_path ms a b")
    case (Inl e)
    then have "e = no_migration_path a b"
      using find_path_spec [where ms = ms and a = a and b = b] by simp
    then show ?thesis using Inl False by (simp add: migrate_schema_def no_migration_path_def)
  next
    case (Inr es)
    then have "set es \<subseteq> set (dict_keys ms)"
      using find_path_spec [where ms = ms and a = a and b = b] False path_edges_subset
      by (auto simp del: set_map dest!: subsetD [OF path_edges_subset])
    from run_migrations_ok [OF this, of cb data] show ?thesis
      using Inr False by (cases "run_migrations cb ms es data")
        (auto simp: migrate_schema_def migration_failed_def)
  qed
qed (simp add: migrate_schema_def)

text \<open>
  The injection of a default never changes a value that its key already has and otherwise sets
  it; keys that do not lead through one another are not touched. But a key on the way to the
  injected one whose value is not a dictionary is overwritten: afterwards it holds a dictionary.
\<close>

theorem default_injection:
  "get_path (key_parts k) (inject_default d (k, v))
      = (case get_path (key_parts k) d of Some x \<Rightarrow> Some x | None \<Rightarrow> Some v)
   \<and> (\<forall>ls. apart (key_parts k) ls \<longrightarrow> get_path ls (inject_default d (k, v)) = get_path ls d)
   \<and> (\<forall>top rest. key_parts k = top # rest \<longrightarrow> rest \<noteq> [] \<longrightarrow>
        (\<exists>d'. map_of (inject_default d (k, v)) top = Some (PDict d')))"
proof (intro conjI allI impI)
  fix top rest assume "key_parts k = top # rest" "rest \<noteq> []"
  then show "\<exists>d'. map_of (inject_default d (k, v)) top = Some (PDict d')"
    by (cases rest) (simp_all add: inject_default_def dict_simps)
qed (simp_all add: inject_default_def get_inject_path get_inject_other)

text \<open>
  A rename moves the value of the old key to the place the new key names, which may be nested,
  and to that place only: what is under other top-level keys stays as it is.
\<close>

theorem rename_moves_value:
  assumes "map_of d old = Some v"
  shows "get_path (key_parts new) (rename_key d (old, new)) = Some v
    \<and> (\<forall>k. k \<noteq> old \<longrightarrow> k \<noteq> hd (key_parts new) \<longrightarrow> map_of (rename_key d (old, new)) k = map_of d k)
    \<and> (old \<noteq> hd (key_parts new) \<longrightarrow> map_of (rename_key d (old, new)) old = None)"
proof -
  have "map_of (set_path ks v d') k = map_of d' k" if "ks \<noteq> []" "k \<noteq> hd ks" for ks k v and d' :: pydict
    using that by (cases ks rule: list.exhaust; cases "tl ks") (auto simp: dict_simps)
  then show ?thesis
    using assms by (auto simp: rename_key_def get_set_path dict_simps)
qed

text \<open>
  The migration of records transforms all of them in order, or fails with a migration error at
  the first record whose transformation raises.
\<close>

lemma records_outcome:
  "case migrate_records rep f rs of
     Inr rs' \<Rightarrow> map f rs = map Inr rs'
   | Inl e \<Rightarrow> \<exists>pre r post e' ps. rs = pre @ r # post \<and> map f pre = map Inr ps \<and> f r = Inl e'
       \<and> e = record_failed (rep r) e'"
proof (induction rs)
  case (Cons r rs)
  show ?case
  proof (cases "f r")
    case (Inl e')
    then have "r # rs = [] @ r # rs \<and> map f [] = map Inr [] \<and> f r = Inl e'" by simp
    with Inl show ?thesis by (simp only: migrate_records.simps sum.case) blast
  next
    case (Inr r')
    show ?thesis
    proof (cases "migrate_records rep f rs")
      case (Inl e)
      then obtain pre x post e' ps where "rs = pre @ x # post" "map f pre = map Inr ps" "f x = Inl e'"
          "e = record_failed (rep x) e'"
        using Cons by auto
      then have "\<exists>pre y post e' ps. r # rs = pre @ y # post \<and> map f pre = map Inr ps \<and> f y = Inl e'
          \<and> e = record_failed (rep y) e'"
        using Inr by (intro exI [of _ "r # pre"] exI [of _ x] exI [of _ post] exI [of _ e'] exI [of _ "r' # ps"]) simp
      moreover have "migrate_records rep f (r # rs) = Inl e" using Inl Inr by simp
      ultimately show ?thesis by (simp only: sum.case)
    qed (use Cons Inr in simp)
  qed
qed simp

section \<open>Witnesses\<close>

definition demo_migrations :: migrations where
  "demo_migrations = [((''1'', ''2''), 0), ((''2'', ''3''), 1), ((''1'', ''3''), 2)]"

theorem migration_path_shortest_witness:
  "find_migration_path demo_migrations ''1'' ''3'' = Inr [(''1'', ''3'')]"
proof -
  have q: "chain_from (set (dict_keys demo_migrations)) ''1'' [''1'', ''3'']"
    by (simp add: chain_from_def demo_migrations_def)
  note t = migration_path_shortest [where ms = demo_migrations and a = "''1''" and b = "''3''"]
  show ?thesis
  proof (cases "find_migration_path demo_migrations ''1'' ''3''")
    case (Inl e)
    have "last [''1'', ''3''] = ''3''" by simp
    then show ?thesis using t q unfolding Inl sum.case by blast
  next
    case (Inr es)
    obtain p where p: "chain_from (set (dict_keys demo_migrations)) ''1'' p" "last p = ''3''" "es = path_edges p"
        "length p \<le> length [''1'', ''3'']"
      using t q unfolding Inr sum.case by force
    then have "p = [''1'', ''3'']"
      by (cases p; cases "tl p") (auto simp: chain_from_def)
    then show ?thesis using Inr p(3) by (simp add: path_edges_def)
  qed
qed

theorem default_injection_witness:
  "\<exists>d'. map_of (inject_default [(''db'', PStr ''sqlite'')] (''db.pool'', PInt 5)) ''db'' = Some (PDict d')"
proof -
  have "key_parts ''db.pool'' = [''db'', ''pool'']" by (simp add: key_parts_def)
  then show ?thesis
    using default_injection [of "''db.pool''" "[(''db'', PStr ''sqlite'')]" "PInt 5"] by simp
qed

theorem rename_moves_value_witness:
  "get_path (key_parts ''log.level'') (rename_key [(''level'', PStr ''INFO'')] (''level'', ''log.level'')) = Some (PStr ''INFO'')"
  using rename_moves_value [of "[(''level'', PStr ''INFO'')]" "''level''" "PStr ''INFO''" "''log.level''"] by simp

end
