(* ===== verification/PluginVersion.thy ===== *)
theory PluginVersion
  imports VersionCompat
begin

text \<open>
  \<open>PluginRegistry.check_version_compatibility\<close> of \<open>yasin_core/plugins/registry.py\<close>: the second, older
  implementation of version expressions, which compares lists of three numbers, and its relation
  to \<open>is_compatible\<close> of the compatibility package.
\<close>

definition plugin_parse :: "string \<Rightarrow> nat list" where
  "plugin_parse s =
     (let cleaned = filter (\<lambda>c. is_digit c \<or> c = CHR ''.'') s;
          parts = map digits_val (filter (\<lambda>p. p \<noteq> []) (str_split (CHR ''.'') cleaned))
      in take 3 (parts @ replicate (3 - length parts) 0))"

definition plugin_compare :: "string \<Rightarrow> nat list \<Rightarrow> nat list \<Rightarrow> bool" where
  "plugin_compare opr core req =
     (if opr = ''>='' then core \<ge> req
      else if opr = ''<='' then core \<le> req
      else if opr = ''>'' then core > req
      else if opr = ''<'' then core < req
      else if opr = ''=='' then core = req
      else core \<noteq> req)"

definition check_version_compatibility :: "string \<Rightarrow> string \<Rightarrow> bool" where
  "check_version_compatibility compat_expr core_version =
     (if compat_expr = [] \<or> compat_expr = ''*'' then True
      else
        let expr = str_strip compat_expr; core = plugin_parse core_version
        in if starts_with ''^'' expr then
             (let req = plugin_parse (str_strip (drop 1 expr))
              in if core ! 0 \<noteq> req ! 0 then False else core \<ge> req)
           else
             (case List.find (\<lambda>x. starts_with x expr) version_operators of
                Some opr \<Rightarrow> plugin_compare opr core (plugin_parse (str_strip (drop (length opr) expr)))
              | None \<Rightarrow> starts_with expr core_version \<or> core = plugin_parse expr))"

section \<open>Plain release numbers\<close>

definition release_str :: "nat \<Rightarrow> nat \<Rightarrow> nat \<Rightarrow> string" where
  "release_str a b c = nat_str a @ ''.'' @ nat_str b @ ''.'' @ nat_str c"

lemma release_str_version: "release_str a b c = version_str (Version a b c [])"
  by (simp add: release_str_def version_str_def)

lemma release_chars: "c \<in> set (release_str x y z) \<Longrightarrow> is_digit c \<or> c = CHR ''.''"
  using nat_str_chars by (auto simp: release_str_def)

lemma plugin_parse_release [simp]: "plugin_parse (release_str a b c) = [a, b, c]"
proof -
  have "filter (\<lambda>c. is_digit c \<or> c = CHR ''.'') (release_str a b c) = release_str a b c"
    using release_chars by (simp add: filter_id_conv)
  moreover have nodot: "CHR ''.'' \<notin> set (nat_str n)" for n
    using digit_not nat_str_chars by blast
  have "str_split (CHR ''.'') (release_str a b c) = [nat_str a, nat_str b, nat_str c]"
    using str_split_append [OF nodot, of a "nat_str b @ CHR ''.'' # nat_str c"]
      str_split_append [OF nodot, of b "nat_str c"] str_split_no_sep [OF nodot, of c] by (simp add: release_str_def)
  ultimately show ?thesis
    by (simp add: plugin_parse_def digits_val_nat_str)
qed

lemma parse_version_release [simp]: "parse_version (release_str a b c) = Version a b c []"
  using parse_rendered [of "[]" a b c] by (simp add: release_str_def)

lemma release_no_space: "list_all (\<lambda>c. \<not> is_space c) (release_str a b c)"
  using release_chars digit_not by (fastforce simp: list_all_iff is_space_def in_range_char_def)

lemma release_strip [simp]: "str_strip (release_str a b c) = release_str a b c"
  by (rule str_strip_no_space [OF release_no_space])

lemma prefixed_release_strip:
  "list_all (\<lambda>c. \<not> is_space c) p \<Longrightarrow> str_strip (p @ release_str a b c) = p @ release_str a b c"
  using release_no_space by (intro str_strip_no_space) simp

lemma three_le: "[a, b, c] \<le> [x, y, z] \<longleftrightarrow> Version a b c [] \<le> Version x y z []" for a b c x y z :: nat
  by (auto simp: less_eq_version_def as_tuple_def)

lemma three_less: "[a, b, c] < [x, y, z] \<longleftrightarrow> Version a b c [] < Version x y z []" for a b c x y z :: nat
  by (auto simp: less_version_def as_tuple_def)

lemma compare_agree: "opr \<in> set version_operators \<Longrightarrow>
   plugin_compare opr [a, b, c] [x, y, z] = compare_versions opr (Version a b c []) (Version x y z [])"
  unfolding plugin_compare_def compare_versions_def version_operators_def three_le three_less by auto

lemma release_hd: "\<exists>d ds. release_str a b c = d # ds \<and> is_digit d"
proof -
  obtain d ds where "nat_str a = d # ds" by (cases "nat_str a") auto
  moreover have "is_digit d" using nat_str_chars [of d a] calculation by simp
  ultimately show ?thesis by (simp add: release_str_def)
qed

text \<open>An operator in front of a release number is recognised.\<close>

lemma find_operator:
  assumes "opr \<in> set version_operators"
  shows "\<not> starts_with ''^'' (opr @ release_str a b c)"
    and "List.find (\<lambda>x. starts_with x (opr @ release_str a b c)) version_operators = Some opr"
    and "list_all (\<lambda>c. \<not> is_space c) opr" and "opr \<noteq> []" and "opr @ release_str a b c \<noteq> ''*''"
proof -
  obtain d ds where d: "release_str a b c = d # ds" "is_digit d"
    using release_hd by blast
  have n: "d \<noteq> CHR ''=''" using d(2) by (auto simp: is_digit_def in_range_char_def)
  have "opr = ''>='' \<or> opr = ''<='' \<or> opr = ''>'' \<or> opr = ''<'' \<or> opr = ''=='' \<or> opr = ''!=''"
    using assms by (auto simp: version_operators_def)
  then show "\<not> starts_with ''^'' (opr @ release_str a b c)"
    "List.find (\<lambda>x. starts_with x (opr @ release_str a b c)) version_operators = Some opr"
    "list_all (\<lambda>c. \<not> is_space c) opr" "opr \<noteq> []" "opr @ release_str a b c \<noteq> ''*''"
    using n by (auto simp: d(1) starts_with_def version_operators_def is_space_def in_range_char_def)
qed

lemma check_operator:
  assumes "opr \<in> set version_operators"
  shows "check_version_compatibility (opr @ release_str a b c) v =
    plugin_compare opr (plugin_parse v) [a, b, c]"
  using find_operator [OF assms] prefixed_release_strip [of opr a b c]
  by (simp add: check_version_compatibility_def)

lemma compatible_operator:
  assumes "opr \<in> set version_operators"
  shows "is_compatible (opr @ release_str a b c) v = compare_versions opr (parse_version v) (Version a b c [])"
  using find_operator [OF assms] prefixed_release_strip [of opr a b c]
  by (simp add: is_compatible_def)

lemma check_caret:
  "check_version_compatibility (''^'' @ release_str a b c) (release_str x y z) \<longleftrightarrow> x = a \<and> [a, b, c] \<le> [x, y, z]"
  using prefixed_release_strip [of "''^''" a b c]
  by (auto simp: check_version_compatibility_def starts_with_def is_space_def in_range_char_def Let_def)

lemma compatible_caret:
  "is_compatible (''^'' @ release_str a b c) (release_str x y z) \<longleftrightarrow>
     Version a b c [] \<le> Version x y z [] \<and> Version x y z [] < caret_limit (Version a b c [])"
proof -
  have "release_str a b c \<noteq> []" using release_hd [of a b c] by auto
  then show ?thesis
    using caret_compatible [of "release_str a b c" "release_str x y z"] by simp
qed

section \<open>Property\<close>

text \<open>
  The plugin registry's own version check agrees with the one of the compatibility package on
  release numbers, for every comparison operator and for caret ranges with a non-zero major
  component; below 1.0 it admits every later 0.x release, where the other stops before the next
  minor one.
\<close>

theorem plugin_version_agrees:
  assumes "opr \<in> set version_operators"
  shows "check_version_compatibility (opr @ release_str a b c) (release_str x y z)
      = is_compatible (opr @ release_str a b c) (release_str x y z)
    \<and> (0 < a \<longrightarrow> check_version_compatibility (''^'' @ release_str a b c) (release_str x y z)
           = is_compatible (''^'' @ release_str a b c) (release_str x y z))
    \<and> (check_version_compatibility (''^'' @ release_str 0 b c) (release_str 0 y z) \<longleftrightarrow> (b, c) \<le> (y, z))
    \<and> (0 < b \<longrightarrow> is_compatible (''^'' @ release_str 0 b c) (release_str 0 y z) \<longleftrightarrow> y = b \<and> c \<le> z)"
proof (intro conjI impI)
  show "check_version_compatibility (opr @ release_str a b c) (release_str x y z)
      = is_compatible (opr @ release_str a b c) (release_str x y z)"
    by (simp add: check_operator [OF assms] compatible_operator [OF assms] compare_agree [OF assms])
  show "check_version_compatibility (''^'' @ release_str a b c) (release_str x y z)
           = is_compatible (''^'' @ release_str a b c) (release_str x y z)" if "0 < a"
    using that unfolding check_caret compatible_caret three_le
    by (auto simp: caret_limit_eq less_eq_version_def less_version_def as_tuple_def)
  show "check_version_compatibility (''^'' @ release_str 0 b c) (release_str 0 y z) \<longleftrightarrow> (b, c) \<le> (y, z)"
    unfolding check_caret by auto
  show "is_compatible (''^'' @ release_str 0 b c) (release_str 0 y z) \<longleftrightarrow> y = b \<and> c \<le> z" if "0 < b"
    using that unfolding compatible_caret
    by (auto simp: caret_limit_eq less_eq_version_def less_version_def as_tuple_def)
qed

theorem plugin_version_agrees_witness:
  "check_version_compatibility (''>='' @ release_str 1 2 0) (release_str 3 4 0)
     = is_compatible (''>='' @ release_str 1 2 0) (release_str 3 4 0)"
  using plugin_version_agrees [of "''>=''" 1 2 0 3 4 0] by (simp add: version_operators_def)

end
