(* ===== verification/PluginDeps.thy ===== *)
theory PluginDeps
  imports PluginVersion
begin

text \<open>
  \<open>PluginRegistry.validate_dependencies\<close> of \<open>yasin_core/plugins/registry.py\<close>: the depth-first search
  for missing, incompatible and circular dependencies. The set of visited plugins is a list, the
  last finished one first; the stack is the set of plugins whose search has not finished.
\<close>

record plugin =
  pl_object :: nat
  pl_version :: string
  pl_deps :: "string list"
  pl_compat :: string
  pl_description :: string

type_synonym plugin_table = "(string \<times> plugin) list"

definition core_version :: string where
  "core_version = ''3.4.0''"

definition circular_plugin :: "string \<Rightarrow> exn" where
  "circular_plugin name =
     Exn PluginDependencyErr (''Circular dependency detected containing plugin '' @ quoted name @ ''.'')"

definition missing_plugin :: "string \<Rightarrow> exn" where
  "missing_plugin name = Exn PluginDependencyErr (''Dependency '' @ quoted name @ '' is not registered.'')"

definition incompatible_plugin :: "string \<Rightarrow> plugin \<Rightarrow> exn" where
  "incompatible_plugin name p =
     Exn PluginVersionErr (''Plugin '' @ quoted name @ '' version '' @ pl_version p @ '' is incompatible with Core version ''
       @ core_version @ '' (requires '' @ quoted (pl_compat p) @ '').'')"

lemma validate_measure:
  assumes "map_of P name = Some p" "name \<notin> stack"
  shows "card (set (dict_keys P) - insert name stack) < card (set (dict_keys P) - stack)"
proof -
  have "name \<in> set (dict_keys P)" using assms(1) by (metis dict_has_iff option.distinct(1))
  then show ?thesis using assms(2) by (intro psubset_card_mono) auto
qed

function validate_plugin :: "plugin_table \<Rightarrow> string \<Rightarrow> string list \<Rightarrow> string set \<Rightarrow> exn + string list"
  and validate_each :: "plugin_table \<Rightarrow> string list \<Rightarrow> string list \<Rightarrow> string set \<Rightarrow> exn + string list" where
  "validate_plugin P name visited stack =
     (if name \<in> stack then Inl (circular_plugin name)
      else if name \<in> set visited then Inr visited
      else case map_of P name of
             None \<Rightarrow> Inl (missing_plugin name)
           | Some p \<Rightarrow>
               if \<not> check_version_compatibility (pl_compat p) core_version then Inl (incompatible_plugin name p)
               else case validate_each P (pl_deps p) visited (insert name stack) of
                      Inl e \<Rightarrow> Inl e
                    | Inr v \<Rightarrow> Inr (name # v))"
| "validate_each P [] visited stack = Inr visited"
| "validate_each P (d # ds) visited stack =
     (case validate_plugin P d visited stack of
        Inl e \<Rightarrow> Inl e
      | Inr v \<Rightarrow> validate_each P ds v stack)"
  by pat_completeness auto

termination
  by (relation "measures [case_sum (\<lambda>(P, name, v, s). card (set (dict_keys P) - s)) (\<lambda>(P, ds, v, s). card (set (dict_keys P) - s)),
        case_sum (\<lambda>_. 0) (\<lambda>(P, ds, v, s). Suc (length ds))]")
    (auto simp: validate_measure simp del: set_map)

declare validate_plugin.simps [simp del]

definition validate_dependencies :: "plugin_table \<Rightarrow> string \<Rightarrow> exn + string list" where
  "validate_dependencies P name = validate_plugin P name [] {}"

section \<open>The dependency relation\<close>

definition plugin_deps :: "plugin_table \<Rightarrow> string \<Rightarrow> string list" where
  "plugin_deps P name = (case map_of P name of Some p \<Rightarrow> pl_deps p | None \<Rightarrow> [])"

definition plugin_rel :: "plugin_table \<Rightarrow> (string \<times> string) set" where
  "plugin_rel P = {(a, b). b \<in> set (plugin_deps P a)}"

definition plugin_usable :: "plugin_table \<Rightarrow> string \<Rightarrow> bool" where
  "plugin_usable P name =
     (case map_of P name of Some p \<Rightarrow> check_version_compatibility (pl_compat p) core_version | None \<Rightarrow> False)"

text \<open>Every plugin of the list is usable, new, and has all its dependencies behind it.\<close>

fun dependency_ordered :: "plugin_table \<Rightarrow> string list \<Rightarrow> bool" where
  "dependency_ordered P [] \<longleftrightarrow> True"
| "dependency_ordered P (n # ns) \<longleftrightarrow>
     n \<notin> set ns \<and> plugin_usable P n \<and> set (plugin_deps P n) \<subseteq> set ns \<and> dependency_ordered P ns"

lemma validate_success:
  "validate_plugin P name visited stack = Inr v \<Longrightarrow> dependency_ordered P visited \<Longrightarrow> set visited \<inter> stack = {} \<Longrightarrow>
     dependency_ordered P v \<and> name \<in> set v \<and> set visited \<subseteq> set v \<and> set v \<inter> stack = {}"
  "validate_each P ds visited stack = Inr v \<Longrightarrow> dependency_ordered P visited \<Longrightarrow> set visited \<inter> stack = {} \<Longrightarrow>
     dependency_ordered P v \<and> set ds \<subseteq> set v \<and> set visited \<subseteq> set v \<and> set v \<inter> stack = {}"
proof (induction P name visited stack and P ds visited stack arbitrary: v and v rule: validate_plugin_validate_each.induct)
  case (1 P name visited stack)
  show ?case
  proof (cases "name \<in> set visited")
    case True
    then show ?thesis using 1(2-4) by (auto simp: validate_plugin.simps split: if_splits)
  next
    case new: False
    then obtain p w where p: "name \<notin> stack" "map_of P name = Some p"
        "check_version_compatibility (pl_compat p) core_version"
        "validate_each P (pl_deps p) visited (insert name stack) = Inr w" "v = name # w"
      using 1(2) by (auto simp: validate_plugin.simps [of P name] split: if_splits option.splits sum.splits)
    have "dependency_ordered P w \<and> set (pl_deps p) \<subseteq> set w \<and> set visited \<subseteq> set w \<and> set w \<inter> insert name stack = {}"
      using 1(1) [OF p(1) new p(2) _ p(4)] p(3) 1(3,4) new by auto
    then show ?thesis
      using p by (auto simp: plugin_usable_def plugin_deps_def)
  qed
next
  case (3 P d ds visited stack)
  obtain w where w: "validate_plugin P d visited stack = Inr w" "validate_each P ds w stack = Inr v"
    using 3(3) by (auto split: sum.splits)
  then show ?case
    using 3(1) [OF w(1)] 3(2) [OF w] 3(4,5) by auto
qed simp_all

lemma validate_failure:
  "validate_plugin P name visited stack = Inl e \<Longrightarrow> \<forall>s \<in> stack. (s, name) \<in> (plugin_rel P)\<^sup>+ \<Longrightarrow>
     \<exists>x. (name, x) \<in> (plugin_rel P)\<^sup>* \<and>
       (e = circular_plugin x \<and> (x, x) \<in> (plugin_rel P)\<^sup>+
        \<or> e = missing_plugin x \<and> map_of P x = None
        \<or> (\<exists>p. map_of P x = Some p \<and> \<not> check_version_compatibility (pl_compat p) core_version \<and> e = incompatible_plugin x p))"
  "validate_each P ds visited stack = Inl e \<Longrightarrow> \<forall>d \<in> set ds. \<forall>s \<in> stack. (s, d) \<in> (plugin_rel P)\<^sup>+ \<Longrightarrow>
     \<exists>d \<in> set ds. \<exists>x. (d, x) \<in> (plugin_rel P)\<^sup>* \<and>
       (e = circular_plugin x \<and> (x, x) \<in> (plugin_rel P)\<^sup>+
        \<or> e = missing_plugin x \<and> map_of P x = None
        \<or> (\<exists>p. map_of P x = Some p \<and> \<not> check_version_compatibility (pl_compat p) core_version \<and> e = incompatible_plugin x p))"
proof (induction P name visited stack and P ds visited stack arbitrary: e and e rule: validate_plugin_validate_each.induct)
  case (1 P name visited stack)
  consider "name \<in> stack" "e = circular_plugin name"
    | "map_of P name = None" "e = missing_plugin name"
    | p where "map_of P name = Some p" "\<not> check_version_compatibility (pl_compat p) core_version" "e = incompatible_plugin name p"
    | p where "name \<notin> stack" "name \<notin> set visited" "map_of P name = Some p" "check_version_compatibility (pl_compat p) core_version"
        "validate_each P (pl_deps p) visited (insert name stack) = Inl e"
    using 1(2) by (auto simp: validate_plugin.simps [of P name] split: if_splits option.splits sum.splits)
  then show ?case
  proof cases
    case (4 p)
    have edge: "(name, d) \<in> plugin_rel P" if "d \<in> set (pl_deps p)" for d
      using that 4(3) by (simp add: plugin_rel_def plugin_deps_def)
    have "\<forall>d \<in> set (pl_deps p). \<forall>s \<in> insert name stack. (s, d) \<in> (plugin_rel P)\<^sup>+"
      using edge 1(3) by (auto intro: trancl_into_trancl)
    then obtain d x where d: "d \<in> set (pl_deps p)" "(d, x) \<in> (plugin_rel P)\<^sup>*"
        "e = circular_plugin x \<and> (x, x) \<in> (plugin_rel P)\<^sup>+ \<or> e = missing_plugin x \<and> map_of P x = None
        \<or> (\<exists>p. map_of P x = Some p \<and> \<not> check_version_compatibility (pl_compat p) core_version \<and> e = incompatible_plugin x p)"
      using 1(1) [OF 4(1-3) _ 4(5)] 4(4) by auto
    have "(name, x) \<in> (plugin_rel P)\<^sup>*"
      using edge [OF d(1)] d(2) by (rule converse_rtrancl_into_rtrancl)
    then show ?thesis using d(3) by blast
  qed (use 1(3) in blast)+
next
  case (3 P d ds visited stack)
  show ?case
  proof (cases "validate_plugin P d visited stack")
    case (Inl e')
    then have "e' = e" using 3(3) by simp
    then show ?thesis using 3(1) [OF Inl] 3(4) by auto
  next
    case (Inr w)
    then show ?thesis using 3(2) [OF Inr, of e] 3(3,4) by auto
  qed
qed simp

text \<open>The dependencies of an ordered list stay inside it and come later, so there is no cycle.\<close>

lemma ordered_reach:
  assumes "dependency_ordered P v" "(n, x) \<in> (plugin_rel P)\<^sup>*" "n \<in> set v"
  shows "x \<in> set v \<and> plugin_usable P x"
  using assms(2,3)
proof (induction rule: rtrancl_induct)
  case base
  then show ?case using assms(1) by (induction v) auto
next
  case (step y z)
  have "set (plugin_deps P y) \<subseteq> set v" if "y \<in> set v"
    using assms(1) that by (induction v) auto
  then have "z \<in> set v" using step by (auto simp: plugin_rel_def)
  then show ?case using assms(1) by (induction v) auto
qed

lemma ordered_later:
  "dependency_ordered P (n # ns) \<Longrightarrow> (n, x) \<in> (plugin_rel P)\<^sup>+ \<Longrightarrow> x \<in> set ns"
proof -
  assume o: "dependency_ordered P (n # ns)" and "(n, x) \<in> (plugin_rel P)\<^sup>+"
  then obtain y where "(n, y) \<in> plugin_rel P" "(y, x) \<in> (plugin_rel P)\<^sup>*"
    by (meson tranclD)
  then show ?thesis using o ordered_reach [of P ns y x] by (auto simp: plugin_rel_def)
qed

lemma ordered_acyclic:
  "dependency_ordered P v \<Longrightarrow> n \<in> set v \<Longrightarrow> (n, n) \<notin> (plugin_rel P)\<^sup>+"
proof (induction v)
  case (Cons m v)
  then show ?case
  proof (cases "n = m")
    case True
    then show ?thesis using Cons.prems(1) ordered_later [of P m v m] by auto
  qed simp
qed simp

lemma validate_ok:
  assumes "validate_dependencies P name = Inr v" "(name, x) \<in> (plugin_rel P)\<^sup>*"
  shows "plugin_usable P x \<and> (x, x) \<notin> (plugin_rel P)\<^sup>+"
proof -
  have "dependency_ordered P v \<and> name \<in> set v"
    using validate_success(1) [of P name "[]" "{}" v] assms(1) by (simp add: validate_dependencies_def)
  then show ?thesis
    using ordered_reach [OF _ assms(2)] ordered_acyclic by blast
qed

lemma validate_spec:
  "case validate_dependencies P name of
     Inr v \<Rightarrow> \<forall>x. (name, x) \<in> (plugin_rel P)\<^sup>* \<longrightarrow> plugin_usable P x \<and> (x, x) \<notin> (plugin_rel P)\<^sup>+
   | Inl e \<Rightarrow> \<exists>x. (name, x) \<in> (plugin_rel P)\<^sup>* \<and>
       (e = circular_plugin x \<and> (x, x) \<in> (plugin_rel P)\<^sup>+
        \<or> e = missing_plugin x \<and> map_of P x = None
        \<or> (\<exists>p. map_of P x = Some p \<and> \<not> check_version_compatibility (pl_compat p) core_version \<and> e = incompatible_plugin x p))"
proof (cases "validate_dependencies P name")
  case (Inl e)
  then show ?thesis
    using validate_failure(1) [of P name "[]" "{}" e] by (simp add: validate_dependencies_def)
next
  case (Inr v)
  then show ?thesis using validate_ok by simp
qed

section \<open>Property\<close>

text \<open>
  The validation of a plugin succeeds exactly if every plugin it depends on, directly or not,
  is registered and compatible with the core and none of them depends on itself; otherwise the
  error names a plugin that can be reached and that has the defect the error tells of.
\<close>

theorem plugin_validation_correct:
  "case validate_dependencies P name of
     Inr v \<Rightarrow> \<forall>x. (name, x) \<in> (plugin_rel P)\<^sup>* \<longrightarrow> plugin_usable P x \<and> (x, x) \<notin> (plugin_rel P)\<^sup>+
   | Inl e \<Rightarrow> \<exists>x. (name, x) \<in> (plugin_rel P)\<^sup>* \<and>
       (e = circular_plugin x \<and> (x, x) \<in> (plugin_rel P)\<^sup>+
        \<or> e = missing_plugin x \<and> map_of P x = None
        \<or> (\<exists>p. map_of P x = Some p \<and> \<not> check_version_compatibility (pl_compat p) core_version \<and> e = incompatible_plugin x p))"
  by (rule validate_spec)

definition demo_plugin :: "string list \<Rightarrow> plugin" where
  "demo_plugin deps = \<lparr> pl_object = 0, pl_version = ''1.0.0'', pl_deps = deps, pl_compat = ''*'', pl_description = [] \<rparr>"

theorem plugin_validation_correct_witness:
  "\<exists>e. validate_dependencies [(''a'', demo_plugin [''b'']), (''b'', demo_plugin [''a''])] ''a'' = Inl e"
proof -
  let ?P = "[(''a'', demo_plugin [''b'']), (''b'', demo_plugin [''a''])]"
  have "(''a'', ''b'') \<in> plugin_rel ?P" "(''b'', ''a'') \<in> plugin_rel ?P"
    by (simp_all add: plugin_rel_def plugin_deps_def demo_plugin_def)
  then have "(''a'', ''a'') \<in> (plugin_rel ?P)\<^sup>+" by (meson r_into_trancl trancl_into_trancl)
  then show ?thesis
    using plugin_validation_correct [where P = ?P and name = "''a''"]
    by (cases "validate_dependencies ?P ''a''") auto
qed

end
