(* ===== verification/PluginRegistry.thy ===== *)
theory PluginRegistry
  imports PluginDeps
begin

text \<open>
  \<open>PluginRegistry\<close> of \<open>yasin_core/plugins/registry.py\<close>: registration and the life cycle of plugins.
  The hooks of the plugin objects are parameters; \<open>pr_calls\<close> records which were called. The table
  of plugins does not change while plugins are loaded or started, so the recursive operations
  take it as an argument of its own.
\<close>

datatype plugin_state = PL_REGISTERED | PL_LOADED | PL_ACTIVE | PL_STOPPED | PL_FAILED

fun plugin_state_value :: "plugin_state \<Rightarrow> string" where
  "plugin_state_value PL_REGISTERED = ''REGISTERED''"
| "plugin_state_value PL_LOADED = ''LOADED''"
| "plugin_state_value PL_ACTIVE = ''ACTIVE''"
| "plugin_state_value PL_STOPPED = ''STOPPED''"
| "plugin_state_value PL_FAILED = ''FAILED''"

record plugin_registry =
  pr_plugins :: plugin_table
  pr_states :: "(string \<times> plugin_state) list"
  pr_errors :: "(string \<times> string) list"
  pr_events :: "(string \<times> pydict) list"
  pr_calls :: "(string \<times> string) list"

record plugin_env =
  pe_initialize :: "nat \<Rightarrow> exn option option"
  pe_load :: "nat \<Rightarrow> exn option option"
  pe_start :: "nat \<Rightarrow> exn option option"
  pe_stop :: "nat \<Rightarrow> exn option option"
  pe_unload :: "nat \<Rightarrow> exn option option"
  pe_bus :: bool

definition pr_init :: plugin_registry where
  "pr_init = \<lparr> pr_plugins = [], pr_states = [], pr_errors = [], pr_events = [], pr_calls = [] \<rparr>"

definition pr_publish :: "plugin_env \<Rightarrow> string \<Rightarrow> pydict \<Rightarrow> plugin_registry \<Rightarrow> plugin_registry" where
  "pr_publish env name payload m = (if pe_bus env then m\<lparr>pr_events := pr_events m @ [(name, payload)]\<rparr> else m)"

definition set_plugin_state :: "string \<Rightarrow> plugin_state \<Rightarrow> plugin_registry \<Rightarrow> plugin_registry" where
  "set_plugin_state name st m = m\<lparr>pr_states := AList.update name st (pr_states m)\<rparr>"

text \<open>\<open>self.states.get(name, PluginState.REGISTERED)\<close>\<close>

definition plugin_state :: "plugin_registry \<Rightarrow> string \<Rightarrow> plugin_state" where
  "plugin_state m name = (case map_of (pr_states m) name of Some s \<Rightarrow> s | None \<Rightarrow> PL_REGISTERED)"

definition clear_error :: "string \<Rightarrow> plugin_registry \<Rightarrow> plugin_registry" where
  "clear_error name m = m\<lparr>pr_errors := AList.delete name (pr_errors m)\<rparr>"

section \<open>Registration\<close>

definition pr_register :: "plugin_env \<Rightarrow> string \<Rightarrow> plugin \<Rightarrow> plugin_registry \<Rightarrow> plugin_registry" where
  "pr_register env name p m =
     pr_publish env ''plugin_registered'' [(''plugin_name'', PStr name), (''version'', PStr (pl_version p))]
       (clear_error name (set_plugin_state name PL_REGISTERED (m\<lparr>pr_plugins := AList.update name p (pr_plugins m)\<rparr>)))"

text \<open>\<open>discover\<close> registers the plugin objects that the import of a directory yields.\<close>

definition pr_discover :: "plugin_env \<Rightarrow> (string \<times> plugin) list \<Rightarrow> plugin_registry \<Rightarrow> plugin_registry" where
  "pr_discover env found m = fold (\<lambda>(name, p). pr_register env name p) found m"

definition pr_get :: "string \<Rightarrow> plugin_registry \<Rightarrow> plugin option" where
  "pr_get name m = map_of (pr_plugins m) name"

definition pr_list :: "plugin_registry \<Rightarrow> string list" where
  "pr_list m = dict_keys (pr_plugins m)"

definition plugin_not_found :: "string \<Rightarrow> exn" where
  "plugin_not_found name = Exn PluginNotFoundErr (''Plugin '' @ quoted name @ '' is not registered.'')"

definition pr_get_state :: "string \<Rightarrow> plugin_registry \<Rightarrow> exn + plugin_state" where
  "pr_get_state name m =
     (if dict_has (pr_plugins m) name then Inr (plugin_state m name) else Inl (plugin_not_found name))"

section \<open>Loading\<close>

text \<open>\<open>if hasattr(plugin, hook): plugin.hook()\<close>\<close>

definition call_hook ::
  "(nat \<Rightarrow> exn option option) \<Rightarrow> string \<Rightarrow> string \<Rightarrow> plugin \<Rightarrow> plugin_registry \<Rightarrow> plugin_registry \<times> exn option" where
  "call_hook hook label name p m =
     (case hook (pl_object p) of
        None \<Rightarrow> (m, None)
      | Some r \<Rightarrow> (m\<lparr>pr_calls := pr_calls m @ [(label, name)]\<rparr>, r))"

text \<open>The handler of an exception in a stage: the plugin is failed and the error is raised again.\<close>

definition plugin_error :: "string \<Rightarrow> string \<Rightarrow> exn \<Rightarrow> exn" where
  "plugin_error stage name e = Exn PluginErr (''Failed to '' @ stage @ '' plugin '' @ quoted name @ '': '' @ exn_msg e)"

definition plugin_failed :: "plugin_env \<Rightarrow> string \<Rightarrow> string \<Rightarrow> exn \<Rightarrow> plugin_registry \<Rightarrow> plugin_registry \<times> exn option" where
  "plugin_failed env stage name e m =
     (pr_publish env ''plugin_failed'' [(''plugin_name'', PStr name), (''error'', PStr (exn_msg e)), (''stage'', PStr stage)]
        ((set_plugin_state name PL_FAILED m)\<lparr>pr_errors := AList.update name (exn_msg e) (pr_errors m)\<rparr>),
      Some (plugin_error stage name e))"

definition load_hooks :: "plugin_env \<Rightarrow> string \<Rightarrow> plugin \<Rightarrow> plugin_registry \<Rightarrow> plugin_registry \<times> exn option" where
  "load_hooks env name p m =
     (case call_hook (pe_initialize env) ''initialize'' name p m of
        (m1, Some e) \<Rightarrow> plugin_failed env ''load'' name e m1
      | (m1, None) \<Rightarrow>
          (case call_hook (pe_load env) ''load'' name p m1 of
             (m2, Some e) \<Rightarrow> plugin_failed env ''load'' name e m2
           | (m2, None) \<Rightarrow>
               (pr_publish env ''plugin_loaded'' [(''plugin_name'', PStr name)]
                  (clear_error name (set_plugin_state name PL_LOADED m2)), None)))"

text \<open>How far the dependencies of a plugin reach: the measure of the recursion of \<open>load_plugin\<close>.\<close>

definition plugin_weight :: "plugin_table \<Rightarrow> string \<Rightarrow> nat" where
  "plugin_weight P n = card {x. (n, x) \<in> (plugin_rel P)\<^sup>*}"

definition deps_weight :: "plugin_table \<Rightarrow> string list \<Rightarrow> nat" where
  "deps_weight P ds = Max (insert 0 (plugin_weight P ` set ds))"

lemma plugin_rel_finite: "finite (plugin_rel P)"
proof -
  have "plugin_rel P \<subseteq> (\<Union>q \<in> set P. {fst q} \<times> set (pl_deps (snd q)))"
  proof
    fix e assume e: "e \<in> plugin_rel P"
    obtain a b where ab: "e = (a, b)" by (cases e)
    then have b: "b \<in> set (plugin_deps P a)" using e by (simp add: plugin_rel_def)
    then obtain p where p: "map_of P a = Some p" "b \<in> set (pl_deps p)"
      by (cases "map_of P a") (simp_all add: plugin_deps_def)
    have "(a, p) \<in> set P" using p(1) by (rule map_of_SomeD)
    then show "e \<in> (\<Union>q \<in> set P. {fst q} \<times> set (pl_deps (snd q)))" using ab p(2) by force
  qed
  then show ?thesis by (rule finite_subset) auto
qed

lemma plugin_reach_finite: "finite {x. (n, x) \<in> (plugin_rel P)\<^sup>*}"
proof (rule finite_subset)
  show "{x. (n, x) \<in> (plugin_rel P)\<^sup>*} \<subseteq> insert n (snd ` plugin_rel P)"
  proof
    fix x assume "x \<in> {x. (n, x) \<in> (plugin_rel P)\<^sup>*}"
    then consider "x = n" | y where "(y, x) \<in> plugin_rel P" by (auto elim: rtranclE)
    then show "x \<in> insert n (snd ` plugin_rel P)" by cases force+
  qed
qed (simp add: plugin_rel_finite)

lemma plugin_weight_less:
  assumes "validate_dependencies P n = Inr v" "d \<in> set (plugin_deps P n)"
  shows "plugin_weight P d < plugin_weight P n"
proof -
  have nd: "(n, d) \<in> plugin_rel P" using assms(2) by (simp add: plugin_rel_def)
  have "n \<notin> {x. (d, x) \<in> (plugin_rel P)\<^sup>*}"
    using validate_ok [OF assms(1), of n] nd by (auto dest: rtrancl_into_trancl2)
  then have "{x. (d, x) \<in> (plugin_rel P)\<^sup>*} \<subset> {x. (n, x) \<in> (plugin_rel P)\<^sup>*}"
    using nd by (auto intro: converse_rtrancl_into_rtrancl)
  then show ?thesis
    unfolding plugin_weight_def by (intro psubset_card_mono plugin_reach_finite)
qed

lemma plugin_weight_pos: "0 < plugin_weight P n"
  unfolding plugin_weight_def using plugin_reach_finite [of n P] by (auto simp: card_gt_0_iff)

lemma deps_weight_less:
  assumes "map_of P n = Some p" "validate_dependencies P n = Inr v"
  shows "deps_weight P (pl_deps p) < plugin_weight P n"
proof -
  have "plugin_deps P n = pl_deps p" using assms(1) by (simp add: plugin_deps_def)
  then show ?thesis
    using plugin_weight_less [OF assms(2)] plugin_weight_pos [of P n] by (auto simp: deps_weight_def)
qed

lemma deps_weight_Cons: "plugin_weight P d \<le> deps_weight P (d # ds)" "deps_weight P ds \<le> deps_weight P (d # ds)"
  unfolding deps_weight_def by (auto intro!: Max_ge Max_mono)

function load_at :: "plugin_env \<Rightarrow> plugin_table \<Rightarrow> string \<Rightarrow> plugin_registry \<Rightarrow> plugin_registry \<times> exn option"
  and load_each :: "plugin_env \<Rightarrow> plugin_table \<Rightarrow> string list \<Rightarrow> plugin_registry \<Rightarrow> plugin_registry \<times> exn option" where
  "load_at env P name m =
     (case map_of P name of
        None \<Rightarrow> (m, Some (plugin_not_found name))
      | Some p \<Rightarrow>
          if plugin_state m name \<noteq> PL_REGISTERED then (m, None)
          else case validate_dependencies P name of
                 Inl e \<Rightarrow> plugin_failed env ''load'' name e m
               | Inr v \<Rightarrow>
                   (case load_each env P (pl_deps p) m of
                      (m1, Some e) \<Rightarrow> plugin_failed env ''load'' name e m1
                    | (m1, None) \<Rightarrow> load_hooks env name p m1))"
| "load_each env P [] m = (m, None)"
| "load_each env P (d # ds) m =
     (if plugin_state m d = PL_REGISTERED
      then case load_at env P d m of
             (m1, Some e) \<Rightarrow> (m1, Some e)
           | (m1, None) \<Rightarrow> load_each env P ds m1
      else load_each env P ds m)"
  by pat_completeness auto

termination
  by (relation "measures [case_sum (\<lambda>(env, P, n, m). plugin_weight P n) (\<lambda>(env, P, ds, m). deps_weight P ds),
        case_sum (\<lambda>_. 0) (\<lambda>(env, P, ds, m). Suc (length ds))]")
    (auto simp: deps_weight_less deps_weight_Cons intro: le_neq_implies_less)

declare load_at.simps [simp del]

definition load_plugin :: "plugin_env \<Rightarrow> string \<Rightarrow> plugin_registry \<Rightarrow> plugin_registry \<times> exn option" where
  "load_plugin env name m = load_at env (pr_plugins m) name m"

section \<open>Starting and stopping\<close>

definition stop_plugin :: "plugin_env \<Rightarrow> string \<Rightarrow> plugin_registry \<Rightarrow> plugin_registry \<times> exn option" where
  "stop_plugin env name m =
     (case map_of (pr_plugins m) name of
        None \<Rightarrow> (m, Some (plugin_not_found name))
      | Some p \<Rightarrow>
          if plugin_state m name \<noteq> PL_ACTIVE then (m, None)
          else case call_hook (pe_stop env) ''stop'' name p m of
                 (m1, Some e) \<Rightarrow> plugin_failed env ''stop'' name e m1
               | (m1, None) \<Rightarrow>
                   (pr_publish env ''plugin_stopped'' [(''plugin_name'', PStr name)] (set_plugin_state name PL_STOPPED m1), None))"

definition unload_hook :: "plugin_env \<Rightarrow> string \<Rightarrow> plugin \<Rightarrow> plugin_registry \<Rightarrow> plugin_registry \<times> exn option" where
  "unload_hook env name p m =
     (case call_hook (pe_unload env) ''unload'' name p m of
        (m1, Some e) \<Rightarrow> plugin_failed env ''unload'' name e m1
      | (m1, None) \<Rightarrow>
          (pr_publish env ''plugin_unloaded'' [(''plugin_name'', PStr name)] (set_plugin_state name PL_REGISTERED m1), None))"

definition unload_plugin :: "plugin_env \<Rightarrow> string \<Rightarrow> plugin_registry \<Rightarrow> plugin_registry \<times> exn option" where
  "unload_plugin env name m =
     (case map_of (pr_plugins m) name of
        None \<Rightarrow> (m, Some (plugin_not_found name))
      | Some p \<Rightarrow>
          (case plugin_state m name of
             PL_REGISTERED \<Rightarrow> (m, None)
           | PL_ACTIVE \<Rightarrow>
               (case stop_plugin env name m of
                  (m1, Some e) \<Rightarrow> (m1, Some e)
                | (m1, None) \<Rightarrow> unload_hook env name p m1)
           | _ \<Rightarrow> unload_hook env name p m))"

text \<open>The dependencies that are not active are started, one after the other.\<close>

fun start_each ::
  "(string \<Rightarrow> plugin_registry \<Rightarrow> plugin_registry \<times> exn option) \<Rightarrow> string list \<Rightarrow> plugin_registry
   \<Rightarrow> plugin_registry \<times> exn option" where
  "start_each start [] m = (m, None)"
| "start_each start (d # ds) m =
     (if plugin_state m d \<noteq> PL_ACTIVE
      then case start d m of
             (m1, Some e) \<Rightarrow> (m1, Some e)
           | (m1, None) \<Rightarrow> start_each start ds m1
      else start_each start ds m)"

definition recursion_error :: exn where
  "recursion_error = Exn RecursionErr ''maximum recursion depth exceeded''"

text \<open>
  \<open>start_plugin\<close> does not check for cycles: the first argument is the recursion depth that the
  interpreter still allows.
\<close>

primrec start_plugin :: "nat \<Rightarrow> plugin_env \<Rightarrow> string \<Rightarrow> plugin_registry \<Rightarrow> plugin_registry \<times> exn option" where
  "start_plugin 0 env name m = (m, Some recursion_error)"
| "start_plugin (Suc depth) env name m =
     (case map_of (pr_plugins m) name of
        None \<Rightarrow> (m, Some (plugin_not_found name))
      | Some p \<Rightarrow>
          if plugin_state m name = PL_ACTIVE then (m, None)
          else case (if plugin_state m name = PL_REGISTERED then load_plugin env name m else (m, None)) of
                 (m1, Some e) \<Rightarrow> (m1, Some e)
               | (m1, None) \<Rightarrow>
                   (case start_each (start_plugin depth env) (pl_deps p) m1 of
                      (m2, Some e) \<Rightarrow> (m2, Some e)
                    | (m2, None) \<Rightarrow>
                        (case call_hook (pe_start env) ''start'' name p m2 of
                           (m3, Some e) \<Rightarrow> plugin_failed env ''start'' name e m3
                         | (m3, None) \<Rightarrow>
                             (pr_publish env ''plugin_started'' [(''plugin_name'', PStr name)]
                                (set_plugin_state name PL_ACTIVE m3), None))))"

section \<open>Removal\<close>

definition plugin_dependents :: "string \<Rightarrow> plugin_registry \<Rightarrow> string list" where
  "plugin_dependents name m =
     map fst (filter (\<lambda>(n, p). n \<noteq> name \<and> name \<in> set (pl_deps p)) (pr_plugins m))"

definition plugin_list_repr :: "string list \<Rightarrow> string" where
  "plugin_list_repr xs = ''['' @ join_with '', '' (map quoted xs) @ '']''"

text \<open>The state is read once, before the plugin is stopped; errors of the two steps are dropped.\<close>

definition pr_unregister :: "plugin_env \<Rightarrow> string \<Rightarrow> plugin_registry \<Rightarrow> exn + plugin_registry" where
  "pr_unregister env name m =
     (if \<not> dict_has (pr_plugins m) name then Inl (plugin_not_found name)
      else if plugin_dependents name m \<noteq> []
      then Inl (Exn PluginDependencyErr (''Cannot unregister '' @ quoted name @ '' because other plugins depend on it: ''
             @ plugin_list_repr (plugin_dependents name m)))
      else
        let st = map_of (pr_states m) name;
            m1 = (if st = Some PL_ACTIVE then fst (stop_plugin env name m) else m);
            m2 = (if st \<in> {Some PL_ACTIVE, Some PL_LOADED, Some PL_STOPPED} then fst (unload_plugin env name m1) else m1)
        in Inr (m2\<lparr>pr_plugins := AList.delete name (pr_plugins m2),
                   pr_states := AList.delete name (pr_states m2),
                   pr_errors := AList.delete name (pr_errors m2)\<rparr>))"

section \<open>The service operations\<close>

definition initialize_one :: "plugin_env \<Rightarrow> string \<Rightarrow> plugin_registry \<Rightarrow> plugin_registry" where
  "initialize_one env name m =
     (let fail = (\<lambda>e m. (set_plugin_state name PL_FAILED m)\<lparr>pr_errors := AList.update name (exn_msg e) (pr_errors m)\<rparr>)
      in case validate_dependencies (pr_plugins m) name of
           Inl e \<Rightarrow> fail e m
         | Inr _ \<Rightarrow>
             (case load_plugin env name m of
                (m1, Some e) \<Rightarrow> fail e m1
              | (m1, None) \<Rightarrow> m1))"

definition pr_initialize :: "plugin_env \<Rightarrow> plugin_registry \<Rightarrow> plugin_registry" where
  "pr_initialize env m = fold (initialize_one env) (pr_list m) m"

definition shutdown_plugin :: "plugin_env \<Rightarrow> string \<Rightarrow> plugin_registry \<Rightarrow> plugin_registry" where
  "shutdown_plugin env name m =
     (case (if map_of (pr_states m) name = Some PL_ACTIVE then stop_plugin env name m else (m, None)) of
        (m1, Some e) \<Rightarrow> m1
      | (m1, None) \<Rightarrow>
          if map_of (pr_states m1) name \<in> {Some PL_LOADED, Some PL_STOPPED}
          then fst (unload_plugin env name m1) else m1)"

definition pr_shutdown :: "plugin_env \<Rightarrow> plugin_registry \<Rightarrow> plugin_registry" where
  "pr_shutdown env m = fold (shutdown_plugin env) (rev (pr_list m)) m"

definition restart_one :: "nat \<Rightarrow> plugin_env \<Rightarrow> string \<Rightarrow> plugin_registry \<Rightarrow> plugin_registry" where
  "restart_one depth env name m =
     (if dict_has (pr_plugins m) name \<and> map_of (pr_states m) name \<noteq> Some PL_FAILED
      then fst (start_plugin depth env name m) else m)"

definition pr_reload :: "nat \<Rightarrow> plugin_env \<Rightarrow> plugin_registry \<Rightarrow> plugin_registry" where
  "pr_reload depth env m =
     (let active = map fst (filter (\<lambda>p. snd p = PL_ACTIVE) (pr_states m))
      in fold (restart_one depth env) active (pr_initialize env (pr_shutdown env m)))"

definition failed_plugins :: "plugin_registry \<Rightarrow> exn + (string \<times> pyval) list" where
  "failed_plugins m =
     foldr (\<lambda>(name, st) acc.
        if st = PL_FAILED
        then (case map_of (pr_errors m) name of
                None \<Rightarrow> Inl (Exn KeyErr name)
              | Some e \<Rightarrow> (case acc of Inl x \<Rightarrow> Inl x | Inr ps \<Rightarrow> Inr ((name, PStr e) # ps)))
        else acc) (pr_states m) (Inr [])"

definition pr_health :: "plugin_registry \<Rightarrow> exn + pydict" where
  "pr_health m =
     (case failed_plugins m of
        Inl e \<Rightarrow> Inl e
      | Inr failed \<Rightarrow>
          Inr [(''status'', PStr (if failed = [] then ''healthy'' else ''unhealthy'')),
               (''healthy'', PBool (failed = [])), (''failed_plugins'', PDict failed)])"

definition pr_status :: "plugin_registry \<Rightarrow> pydict" where
  "pr_status m =
     [(''state'', PStr ''active''), (''plugin_count'', PInt (int (length (pr_plugins m)))),
      (''plugins'', PDict (map (\<lambda>(name, p). (name, PDict
         [(''state'', PStr (plugin_state_value (plugin_state m name))), (''version'', PStr (pl_version p)),
          (''dependencies'', PList (map PStr (pl_deps p))), (''core_version_compat'', PStr (pl_compat p)),
          (''description'', PStr (pl_description p)), (''error'', opt_str (map_of (pr_errors m) name))])) (pr_plugins m)))]"

end
