(* ===== verification/PluginLife.thy ===== *)
theory PluginLife
  imports PluginRegistry
begin

text \<open>
  The life cycle of plugins: what loading and starting do to the states, and the invariant of the
  registry that every operation keeps.
\<close>

section \<open>Frames\<close>

lemma pr_publish_fields [state_frames, simp]:
  "pr_plugins (pr_publish env n d m) = pr_plugins m" "pr_states (pr_publish env n d m) = pr_states m"
  "pr_errors (pr_publish env n d m) = pr_errors m" "pr_calls (pr_publish env n d m) = pr_calls m"
  by (simp_all add: pr_publish_def)

lemma plugin_state_publish [simp]: "plugin_state (pr_publish env n d m) x = plugin_state m x"
  by (simp add: plugin_state_def)

lemma set_plugin_state_fields [state_frames, simp]:
  "pr_plugins (set_plugin_state n s m) = pr_plugins m" "pr_errors (set_plugin_state n s m) = pr_errors m"
  "pr_calls (set_plugin_state n s m) = pr_calls m" "pr_states (set_plugin_state n s m) = AList.update n s (pr_states m)"
  by (simp_all add: set_plugin_state_def)

lemma plugin_state_set [simp]: "plugin_state (set_plugin_state n s m) x = (if x = n then s else plugin_state m x)"
  by (simp add: plugin_state_def set_plugin_state_def map_of_update)

lemma plugin_state_frame [simp]:
  "plugin_state (m\<lparr>pr_errors := es\<rparr>) x = plugin_state m x" "plugin_state (m\<lparr>pr_calls := cs\<rparr>) x = plugin_state m x"
  "plugin_state (m\<lparr>pr_plugins := ps\<rparr>) x = plugin_state m x"
  by (simp_all add: plugin_state_def)

lemma clear_error_fields [state_frames, simp]:
  "pr_plugins (clear_error n m) = pr_plugins m" "pr_states (clear_error n m) = pr_states m"
  "pr_calls (clear_error n m) = pr_calls m" "pr_errors (clear_error n m) = AList.delete n (pr_errors m)"
  "plugin_state (clear_error n m) x = plugin_state m x"
  by (simp_all add: clear_error_def plugin_state_def)

lemma call_hook_fields [state_frames, simp]:
  "pr_plugins (fst (call_hook h l n p m)) = pr_plugins m" "pr_states (fst (call_hook h l n p m)) = pr_states m"
  "pr_errors (fst (call_hook h l n p m)) = pr_errors m" "plugin_state (fst (call_hook h l n p m)) x = plugin_state m x"
  by (simp_all add: call_hook_def plugin_state_def split: option.splits)

lemma call_hook_eq:
  assumes "call_hook h l n p m = (m', r)"
  shows "pr_plugins m' = pr_plugins m" "pr_states m' = pr_states m" "pr_errors m' = pr_errors m"
    "plugin_state m' x = plugin_state m x"
  using call_hook_fields [of h l n p m] assms by auto

lemma plugin_failed_eq [simp]:
  "pr_plugins (fst (plugin_failed env st n e m)) = pr_plugins m"
  "plugin_state (fst (plugin_failed env st n e m)) x = (if x = n then PL_FAILED else plugin_state m x)"
  "pr_states (fst (plugin_failed env st n e m)) = AList.update n PL_FAILED (pr_states m)"
  "pr_errors (fst (plugin_failed env st n e m)) = AList.update n (exn_msg e) (pr_errors m)"
  "snd (plugin_failed env st n e m) = Some (plugin_error st n e)"
  by (simp_all add: plugin_failed_def)

lemma plugin_error_class [simp]: "exn_class (plugin_error st n e) = PluginErr"
  by (simp add: plugin_error_def)

lemma load_hooks_spec:
  assumes "load_hooks env n p m = (m', r)"
  shows "pr_plugins m' = pr_plugins m"
    "plugin_state m' x = (if x = n then if r = None then PL_LOADED else PL_FAILED else plugin_state m x)"
    "\<And>e. r = Some e \<Longrightarrow> exn_class e = PluginErr"
proof -
  obtain m1 r1 where c1: "call_hook (pe_initialize env) ''initialize'' n p m = (m1, r1)" by (meson surj_pair)
  obtain m2 r2 where c2: "call_hook (pe_load env) ''load'' n p m1 = (m2, r2)" by (meson surj_pair)
  note c = call_hook_eq [OF c1] call_hook_eq [OF c2]
  have "m' = fst (load_hooks env n p m)" "r = snd (load_hooks env n p m)" using assms by simp_all
  then have "pr_plugins m' = pr_plugins m \<and> plugin_state m' x = (if x = n then if r = None then PL_LOADED else PL_FAILED else plugin_state m x)
      \<and> (\<forall>e. r = Some e \<longrightarrow> exn_class e = PluginErr)"
    using c c1 c2 by (cases r1; cases r2) (simp_all add: load_hooks_def)
  then show "pr_plugins m' = pr_plugins m"
    "plugin_state m' x = (if x = n then if r = None then PL_LOADED else PL_FAILED else plugin_state m x)"
    "\<And>e. r = Some e \<Longrightarrow> exn_class e = PluginErr" by auto
qed

section \<open>Loading\<close>

text \<open>
  What a run of the loader from the plugins \<open>roots\<close> may do to the states: only registered plugins
  that the roots reach change, they become loaded or failed, and a plugin that became loaded has no
  dependency left in the registered state.
\<close>

definition load_effect :: "plugin_table \<Rightarrow> string set \<Rightarrow> plugin_registry \<Rightarrow> plugin_registry \<Rightarrow> bool" where
  "load_effect P roots m m' \<longleftrightarrow>
     pr_plugins m' = pr_plugins m \<and>
     (\<forall>x. plugin_state m' x = plugin_state m x
        \<or> plugin_state m x = PL_REGISTERED \<and> plugin_state m' x \<in> {PL_LOADED, PL_FAILED} \<and> x \<in> (plugin_rel P)\<^sup>* `` roots) \<and>
     (\<forall>x. plugin_state m x = PL_REGISTERED \<and> plugin_state m' x = PL_LOADED \<longrightarrow>
        (\<forall>d \<in> set (plugin_deps P x). plugin_state m' d \<noteq> PL_REGISTERED))"

lemma load_effect_refl: "load_effect P R m m"
  by (auto simp: load_effect_def)

lemma load_effect_mono: "load_effect P R m m' \<Longrightarrow> (plugin_rel P)\<^sup>* `` R \<subseteq> (plugin_rel P)\<^sup>* `` S \<Longrightarrow> load_effect P S m m'"
  by (auto simp: load_effect_def)

lemma load_effect_trans:
  assumes "load_effect P R m m1" "load_effect P R m1 m2"
  shows "load_effect P R m m2"
proof -
  have a: "plugin_state m1 x = plugin_state m x \<or> plugin_state m x = PL_REGISTERED \<and> plugin_state m1 x \<in> {PL_LOADED, PL_FAILED} \<and> x \<in> (plugin_rel P)\<^sup>* `` R"
    and b: "plugin_state m2 x = plugin_state m1 x \<or> plugin_state m1 x = PL_REGISTERED \<and> plugin_state m2 x \<in> {PL_LOADED, PL_FAILED} \<and> x \<in> (plugin_rel P)\<^sup>* `` R" for x
    using assms by (simp_all add: load_effect_def)
  have c: "plugin_state m2 d \<noteq> PL_REGISTERED"
    if "plugin_state m x = PL_REGISTERED" "plugin_state m2 x = PL_LOADED" "d \<in> set (plugin_deps P x)" for x d
  proof (cases "plugin_state m1 x = PL_REGISTERED")
    case True
    then show ?thesis using assms(2) that by (simp add: load_effect_def)
  next
    case False
    then have "plugin_state m1 x = PL_LOADED" using b [of x] that by auto
    then have "plugin_state m1 d \<noteq> PL_REGISTERED" using assms(1) that by (simp add: load_effect_def)
    then show ?thesis using b [of d] by auto
  qed
  have d: "plugin_state m2 x = plugin_state m x \<or> plugin_state m x = PL_REGISTERED \<and> plugin_state m2 x \<in> {PL_LOADED, PL_FAILED} \<and> x \<in> (plugin_rel P)\<^sup>* `` R" for x
    using a [of x] b [of x] by auto
  show ?thesis
    unfolding load_effect_def using assms(1,2) c d by (simp add: load_effect_def del: insert_iff) blast
qed

lemma load_effect_fail:
  assumes "load_effect P (set (plugin_deps P n)) m m1" "plugin_state m n = PL_REGISTERED"
    "pr_plugins m' = pr_plugins m1" "\<And>x. plugin_state m' x = (if x = n then PL_FAILED else plugin_state m1 x)"
  shows "load_effect P {n} m m'"
  using assms unfolding load_effect_def
  by (auto simp: plugin_rel_def intro: converse_rtrancl_into_rtrancl)

lemma load_effect_ok:
  assumes "load_effect P (set (plugin_deps P n)) m m1" "plugin_state m n = PL_REGISTERED"
    "pr_plugins m' = pr_plugins m1" "\<And>x. plugin_state m' x = (if x = n then PL_LOADED else plugin_state m1 x)"
    "\<And>d. d \<in> set (plugin_deps P n) \<Longrightarrow> plugin_state m1 d \<noteq> PL_REGISTERED"
  shows "load_effect P {n} m m'"
  using assms unfolding load_effect_def
  by (auto simp: plugin_rel_def intro: converse_rtrancl_into_rtrancl)

lemma load_effects:
  "load_at env P n m = (m', r) \<Longrightarrow>
     load_effect P {n} m m' \<and> (r = None \<longrightarrow> plugin_state m' n \<noteq> PL_REGISTERED)
     \<and> (\<forall>e. r = Some e \<longrightarrow> map_of P n = None \<or> plugin_state m n = PL_REGISTERED \<and> plugin_state m' n = PL_FAILED \<and> exn_class e = PluginErr)
     \<and> (r = None \<and> plugin_state m n = PL_REGISTERED \<longrightarrow> plugin_state m' n = PL_LOADED)"
  "load_each env P ds m = (m', r) \<Longrightarrow>
     load_effect P (set ds) m m' \<and> (r = None \<longrightarrow> (\<forall>d \<in> set ds. plugin_state m' d \<noteq> PL_REGISTERED))"
proof (induction env P n m and env P ds m arbitrary: m' r and m' r rule: load_at_load_each.induct)
  case (1 env P n m)
  show ?case
  proof (cases "map_of P n = None \<or> plugin_state m n \<noteq> PL_REGISTERED")
    case True
    then have "m' = m" "r = None \<longrightarrow> plugin_state m n \<noteq> PL_REGISTERED" "r \<noteq> None \<longrightarrow> map_of P n = None"
      using 1(2) by (auto simp: load_at.simps [of env P n] split: option.splits if_splits)
    then show ?thesis by (auto simp: load_effect_refl)
  next
    case False
    then obtain p where p: "map_of P n = Some p" "plugin_state m n = PL_REGISTERED" by auto
    have deps: "plugin_deps P n = pl_deps p" using p(1) by (simp add: plugin_deps_def)
    show ?thesis
    proof (cases "validate_dependencies P n")
      case (Inl e)
      then have eq: "m' = fst (plugin_failed env ''load'' n e m)" "r = snd (plugin_failed env ''load'' n e m)"
        using 1(2) p by (simp_all add: load_at.simps [of env P n])
      have "load_effect P {n} m m'"
        by (rule load_effect_fail [OF load_effect_refl]) (use p eq in simp_all)
      then show ?thesis using eq p by simp
    next
      case (Inr v)
      obtain m1 r1 where l: "load_each env P (pl_deps p) m = (m1, r1)" by (meson surj_pair)
      have ih: "load_effect P (set (plugin_deps P n)) m m1"
          "r1 = None \<longrightarrow> (\<forall>d \<in> set (plugin_deps P n). plugin_state m1 d \<noteq> PL_REGISTERED)"
        using 1(1) [OF p(1) _ Inr l] p(2) deps by simp_all
      show ?thesis
      proof (cases r1)
        case (Some e)
        then have eq: "m' = fst (plugin_failed env ''load'' n e m1)" "r = snd (plugin_failed env ''load'' n e m1)"
          using 1(2) p Inr l by (simp_all add: load_at.simps [of env P n])
        have "load_effect P {n} m m'"
          by (rule load_effect_fail [OF ih(1)]) (use p eq in simp_all)
        then show ?thesis using eq p by simp
      next
        case None
        then have h: "load_hooks env n p m1 = (m', r)"
          using 1(2) p Inr l by (simp add: load_at.simps [of env P n])
        note hs = load_hooks_spec [OF h]
        show ?thesis
        proof (cases r)
          case rn: None
          have "load_effect P {n} m m'"
            by (rule load_effect_ok [OF ih(1)]) (use p hs rn ih(2) None in simp_all)
          then show ?thesis using rn hs(2) by simp
        next
          case (Some e)
          have "load_effect P {n} m m'"
            by (rule load_effect_fail [OF ih(1)]) (use p hs Some in simp_all)
          then show ?thesis using Some hs(2,3) p by simp
        qed
      qed
    qed
  qed
next
  case (2 env P m)
  then show ?case by (simp add: load_effect_refl)
next
  case (3 env P d ds m)
  have mono: "load_effect P {d} a b \<Longrightarrow> load_effect P (set (d # ds)) a b"
    "load_effect P (set ds) a b \<Longrightarrow> load_effect P (set (d # ds)) a b" for a b
    by (auto elim!: load_effect_mono)
  show ?case
  proof (cases "plugin_state m d = PL_REGISTERED")
    case False
    then have l: "load_each env P ds m = (m', r)" using 3(4) by simp
    have "plugin_state m' d = plugin_state m d \<or> plugin_state m d = PL_REGISTERED"
      using 3(3) [OF False l] by (simp add: load_effect_def) blast
    then show ?thesis using 3(3) [OF False l] mono(2) False by auto
  next
    case True
    obtain m1 r1 where l: "load_at env P d m = (m1, r1)" by (meson surj_pair)
    have ih: "load_effect P {d} m m1" "r1 = None \<longrightarrow> plugin_state m1 d \<noteq> PL_REGISTERED"
      using 3(1) [OF True l] by simp_all
    show ?thesis
    proof (cases r1)
      case (Some e)
      then have "m' = m1" "r = Some e" using 3(4) True l by auto
      then show ?thesis using mono(1) [OF ih(1)] by simp
    next
      case None
      then have l2: "load_each env P ds m1 = (m', r)" using 3(4) True l by simp
      note ih2 = 3(2) [OF True l [symmetric, unfolded None] refl l2]
      have "plugin_state m' d = plugin_state m1 d \<or> plugin_state m1 d = PL_REGISTERED"
        using ih2 by (simp add: load_effect_def) blast
      then show ?thesis
        using load_effect_trans [OF mono(1) [OF ih(1)] mono(2)] ih2 ih(2) None by auto
    qed
  qed
qed

lemma load_plugin_effects:
  assumes "load_plugin env n m = (m', r)"
  shows "load_effect (pr_plugins m) {n} m m'"
    "r = None \<Longrightarrow> plugin_state m' n \<noteq> PL_REGISTERED"
    "r = None \<Longrightarrow> plugin_state m n = PL_REGISTERED \<Longrightarrow> plugin_state m' n = PL_LOADED"
    "r = Some e \<Longrightarrow> map_of (pr_plugins m) n = None \<or> plugin_state m' n = PL_FAILED \<and> exn_class e = PluginErr"
  using load_effects(1) [OF assms [unfolded load_plugin_def]] by auto

lemma load_effect_step:
  "load_effect P {n} m m' \<Longrightarrow> plugin_state m' x \<noteq> plugin_state m x \<Longrightarrow>
     plugin_state m x = PL_REGISTERED \<and> plugin_state m' x \<in> {PL_LOADED, PL_FAILED} \<and> (n, x) \<in> (plugin_rel P)\<^sup>*
     \<and> (plugin_state m' x = PL_LOADED \<longrightarrow> (\<forall>d \<in> set (plugin_deps P x). plugin_state m' d \<noteq> PL_REGISTERED))"
  unfolding load_effect_def by (simp only: Image_singleton_iff) (metis (no_types))

section \<open>The invariant of the registry\<close>

definition registry_ok :: "plugin_registry \<Rightarrow> bool" where
  "registry_ok m \<longleftrightarrow>
     wf_dict (pr_plugins m) \<and> wf_dict (pr_states m) \<and> wf_dict (pr_errors m) \<and>
     set (dict_keys (pr_states m)) = set (dict_keys (pr_plugins m)) \<and>
     set (dict_keys (pr_errors m)) \<subseteq> set (dict_keys (pr_plugins m)) \<and>
     (\<forall>n. map_of (pr_states m) n = Some PL_FAILED \<longrightarrow> dict_has (pr_errors m) n)"

text \<open>An operation that leaves the table of plugins alone and keeps the invariant.\<close>

definition registry_keeps :: "plugin_registry \<Rightarrow> plugin_registry \<Rightarrow> bool" where
  "registry_keeps m m' \<longleftrightarrow> pr_plugins m' = pr_plugins m \<and> (registry_ok m \<longrightarrow> registry_ok m')"

lemma plugin_keeps_refl [simp, intro]: "registry_keeps m m"
  by (simp add: registry_keeps_def)

lemma plugin_keeps_trans [trans]: "registry_keeps m1 m2 \<Longrightarrow> registry_keeps m2 m3 \<Longrightarrow> registry_keeps m1 m3"
  by (simp add: registry_keeps_def)

lemma keeps_same:
  assumes "pr_plugins m' = pr_plugins m" "pr_states m' = pr_states m" "pr_errors m' = pr_errors m"
  shows "registry_keeps m m'"
  using assms by (simp add: registry_keeps_def registry_ok_def)

lemma keeps_hook: "registry_keeps m (fst (call_hook h l n p m))"
  by (rule keeps_same) simp_all

lemma keeps_publish: "registry_keeps m (pr_publish env n d m)"
  by (rule keeps_same) simp_all

lemma keeps_set:
  assumes "map_of (pr_plugins m) n = Some p" "st \<noteq> PL_FAILED"
  shows "registry_keeps m (set_plugin_state n st m)"
proof -
  have "dict_has (pr_plugins m) n" using assms(1) by (auto simp: dict_has_iff simp del: set_map)
  then show ?thesis
    using assms(2) by (auto simp: registry_keeps_def registry_ok_def map_of_update keys_update simp del: set_map split: if_splits)
qed

lemma keeps_clear:
  assumes "plugin_state m n \<noteq> PL_FAILED"
  shows "registry_keeps m (clear_error n m)"
  using assms by (auto simp: registry_keeps_def registry_ok_def keys_delete plugin_state_def simp del: set_map)

lemma keeps_failed_fields:
  assumes "map_of (pr_plugins m) n = Some p" "pr_plugins m' = pr_plugins m"
    "pr_states m' = AList.update n PL_FAILED (pr_states m)" "pr_errors m' = AList.update n e (pr_errors m)"
  shows "registry_keeps m m'"
proof -
  have "dict_has (pr_plugins m) n" using assms(1) by (auto simp: dict_has_iff simp del: set_map)
  then show ?thesis
    using assms(2-) by (auto simp: registry_keeps_def registry_ok_def map_of_update keys_update simp del: set_map split: if_splits)
qed

lemma keeps_failed:
  assumes "map_of (pr_plugins m) n = Some p"
  shows "registry_keeps m (fst (plugin_failed env st n e m))"
  by (rule keeps_failed_fields [OF assms]) simp_all

text \<open>A stage of the life cycle: a hook, then the new state or the failure.\<close>

lemma keeps_stage:
  assumes "map_of (pr_plugins m) n = Some p" "call_hook h l n p m = (m1, r1)" "st \<noteq> PL_FAILED"
  shows "registry_keeps m (fst (plugin_failed env sg n e m1))"
    "registry_keeps m (pr_publish env ev pay (set_plugin_state n st m1))"
proof -
  have 1: "registry_keeps m m1" "map_of (pr_plugins m1) n = Some p"
    using keeps_hook [of m h l n p] call_hook_eq(1) [OF assms(2)] assms(1,2) by simp_all
  show "registry_keeps m (fst (plugin_failed env sg n e m1))"
    by (rule plugin_keeps_trans [OF 1(1) keeps_failed [OF 1(2)]])
  show "registry_keeps m (pr_publish env ev pay (set_plugin_state n st m1))"
    by (rule plugin_keeps_trans [OF plugin_keeps_trans [OF 1(1) keeps_set [OF 1(2) assms(3)]] keeps_publish])
qed

lemma keeps_load_hooks:
  assumes "map_of (pr_plugins m) n = Some p"
  shows "registry_keeps m (fst (load_hooks env n p m))"
proof -
  obtain m1 r1 where c1: "call_hook (pe_initialize env) ''initialize'' n p m = (m1, r1)" by (meson surj_pair)
  obtain m2 r2 where c2: "call_hook (pe_load env) ''load'' n p m1 = (m2, r2)" by (meson surj_pair)
  have 1: "registry_keeps m m1" "map_of (pr_plugins m1) n = Some p"
    using keeps_hook [of m _ _ n p] call_hook_eq(1) [OF c1] assms c1 by (metis fst_conv)+
  have 2: "registry_keeps m m2" "map_of (pr_plugins m2) n = Some p"
    using plugin_keeps_trans [OF 1(1) keeps_hook] call_hook_eq(1) [OF c2] 1(2) c2 by (metis fst_conv)+
  have 3: "registry_keeps m (clear_error n (set_plugin_state n PL_LOADED m2))"
    by (rule plugin_keeps_trans [OF plugin_keeps_trans [OF 2(1) keeps_set [OF 2(2)]] keeps_clear]) simp_all
  show ?thesis
    using plugin_keeps_trans [OF 1(1) keeps_failed [OF 1(2)]] plugin_keeps_trans [OF 2(1) keeps_failed [OF 2(2)]]
      plugin_keeps_trans [OF 3 keeps_publish] c1 c2
    by (simp add: load_hooks_def split: option.split)
qed

lemma keeps_load:
  "P = pr_plugins m \<Longrightarrow> registry_keeps m (fst (load_at env P n m))"
  "P = pr_plugins m \<Longrightarrow> registry_keeps m (fst (load_each env P ds m))"
proof (induction env P n m and env P ds m rule: load_at_load_each.induct)
  case (1 env P n m)
  show ?case
  proof (cases "map_of P n")
    case (Some p)
    have ih: "registry_keeps m (fst (load_each env P (pl_deps p) m))"
      if "plugin_state m n = PL_REGISTERED" "validate_dependencies P n = Inr v" for v
      using 1(1) [OF Some _ that(2)] that(1) 1(2) by simp
    show ?thesis
    proof (cases "validate_dependencies P n")
      case (Inl e)
      then show ?thesis
        using keeps_failed [of m n p] Some 1(2) by (simp add: load_at.simps [of env _ n])
    next
      case (Inr v)
      obtain m1 r1 where l: "load_each env P (pl_deps p) m = (m1, r1)" by (meson surj_pair)
      have 1: "registry_keeps m m1 \<and> map_of (pr_plugins m1) n = Some p" if "plugin_state m n = PL_REGISTERED"
        using ih [OF that Inr] l Some 1(2) by (simp add: registry_keeps_def)
      show ?thesis
        using 1 l Inr Some plugin_keeps_trans [OF _ keeps_failed [of m1 n p]] plugin_keeps_trans [OF _ keeps_load_hooks [of m1 n p]]
        by (simp add: load_at.simps [of env P n] split: option.split)
    qed
  qed (simp add: load_at.simps [of env P n])
next
  case (3 env P d ds m)
  show ?case
  proof (cases "plugin_state m d = PL_REGISTERED")
    case True
    obtain m1 r1 where l: "load_at env P d m = (m1, r1)" by (meson surj_pair)
    have k: "registry_keeps m m1" using 3(1) [OF True 3(4)] l by simp
    then have "P = pr_plugins m1" using 3(4) by (simp add: registry_keeps_def)
    then show ?thesis
      using k 3(2) [OF True l [symmetric]] True l plugin_keeps_trans [OF k] by (auto split: option.splits)
  qed (use 3(3,4) in simp)
qed simp

lemma keeps_load_plugin: "registry_keeps m (fst (load_plugin env n m))"
  unfolding load_plugin_def by (rule keeps_load) simp

lemma keeps_stop: "registry_keeps m (fst (stop_plugin env n m))"
proof (cases "map_of (pr_plugins m) n")
  case (Some p)
  obtain m1 r1 where c: "call_hook (pe_stop env) ''stop'' n p m = (m1, r1)" by (meson surj_pair)
  show ?thesis
    using keeps_stage [OF Some c, of PL_STOPPED] Some c by (cases r1) (simp_all add: stop_plugin_def)
qed (simp add: stop_plugin_def)

lemma keeps_unload_hook:
  assumes "map_of (pr_plugins m) n = Some p"
  shows "registry_keeps m (fst (unload_hook env n p m))"
proof -
  obtain m1 r1 where c: "call_hook (pe_unload env) ''unload'' n p m = (m1, r1)" by (meson surj_pair)
  show ?thesis
    using keeps_stage [OF assms c, of PL_REGISTERED] c by (cases r1) (simp_all add: unload_hook_def)
qed

lemma keeps_unload: "registry_keeps m (fst (unload_plugin env n m))"
proof (cases "map_of (pr_plugins m) n")
  case (Some p)
  obtain m1 r1 where s: "stop_plugin env n m = (m1, r1)" by (meson surj_pair)
  have k: "registry_keeps m m1" using keeps_stop [of m env n] s by simp
  then have "map_of (pr_plugins m1) n = Some p" using Some by (simp add: registry_keeps_def)
  then show ?thesis
    using Some s k keeps_unload_hook [OF Some] plugin_keeps_trans [OF k keeps_unload_hook]
    by (simp add: unload_plugin_def split: plugin_state.split option.split)
qed (simp add: unload_plugin_def)

lemma keeps_start_each:
  assumes "\<And>d m. registry_keeps m (fst (start d m))"
  shows "registry_keeps m (fst (start_each start ds m))"
proof (induction ds arbitrary: m)
  case (Cons d ds)
  obtain m1 r1 where s: "start d m = (m1, r1)" by (meson surj_pair)
  have k: "registry_keeps m m1" using assms [of m d] s by simp
  then show ?case using Cons.IH [of m] plugin_keeps_trans [OF k Cons.IH] s by (simp split: option.split)
qed simp

lemma keeps_start: "registry_keeps m (fst (start_plugin depth env n m))"
proof (induction depth arbitrary: n m)
  case (Suc depth)
  show ?case
  proof (cases "map_of (pr_plugins m) n")
    case (Some p)
    obtain m1 r1 where l: "(if plugin_state m n = PL_REGISTERED then load_plugin env n m else (m, None)) = (m1, r1)"
      by (meson surj_pair)
    obtain m2 r2 where s: "start_each (start_plugin depth env) (pl_deps p) m1 = (m2, r2)" by (meson surj_pair)
    obtain m3 r3 where c: "call_hook (pe_start env) ''start'' n p m2 = (m3, r3)" by (meson surj_pair)
    have k1: "registry_keeps m m1" using keeps_load_plugin [of m env n] l by (auto split: if_splits)
    have k2: "registry_keeps m m2" using plugin_keeps_trans [OF k1 keeps_start_each [where start = "start_plugin depth env" and ds = "pl_deps p", OF Suc.IH]] s by simp
    then have p2: "map_of (pr_plugins m2) n = Some p" using Some by (simp add: registry_keeps_def)
    note k3 = plugin_keeps_trans [OF k2 keeps_stage(1) [OF p2 c, of PL_ACTIVE, simplified]]
      plugin_keeps_trans [OF k2 keeps_stage(2) [OF p2 c, of PL_ACTIVE, simplified]]
    show ?thesis
    proof (cases "plugin_state m n = PL_ACTIVE")
      case False
      then have eq: "start_plugin (Suc depth) env n m =
          (case r1 of Some e \<Rightarrow> (m1, Some e) | None \<Rightarrow>
            (case r2 of Some e \<Rightarrow> (m2, Some e) | None \<Rightarrow>
              (case r3 of Some e \<Rightarrow> plugin_failed env ''start'' n e m3
               | None \<Rightarrow> (pr_publish env ''plugin_started'' [(''plugin_name'', PStr n)] (set_plugin_state n PL_ACTIVE m3), None))))"
        by (simp only: start_plugin.simps Some option.case if_False l s c prod.case)
      show ?thesis
        unfolding eq by (cases r1; cases r2; cases r3) (use k1 k2 k3 in simp_all)
    qed (use Some in simp)
  qed simp
qed simp

end
