(* ===== verification/PluginSystem.thy ===== *)
theory PluginSystem
  imports PluginLife
begin

text \<open>
  Runs of registry operations and the properties of the plugin registry: the invariant and the
  health report, the outcome of loading, and starting with its recursion.
\<close>

section \<open>The invariant along runs\<close>

lemma registry_ok_init: "registry_ok pr_init"
  by (simp add: registry_ok_def pr_init_def)

lemma registry_ok_register:
  assumes "registry_ok m"
  shows "registry_ok (pr_register env n p m)"
proof -
  have "registry_ok (clear_error n (set_plugin_state n PL_REGISTERED (m\<lparr>pr_plugins := AList.update n p (pr_plugins m)\<rparr>)))"
    using assms by (auto simp: registry_ok_def map_of_update keys_update keys_delete simp del: set_map split: if_splits)
  then show ?thesis using keeps_publish by (simp add: pr_register_def registry_keeps_def)
qed

lemma registry_ok_discover: "registry_ok m \<Longrightarrow> registry_ok (pr_discover env found m)"
  by (induction found arbitrary: m) (simp_all add: pr_discover_def registry_ok_register split_beta)

lemma registry_ok_unregister:
  assumes "registry_ok m" "pr_unregister env n m = Inr m'"
  shows "registry_ok m'"
proof -
  define m1 where "m1 = (if map_of (pr_states m) n = Some PL_ACTIVE then fst (stop_plugin env n m) else m)"
  define m2 where "m2 = (if map_of (pr_states m) n \<in> {Some PL_ACTIVE, Some PL_LOADED, Some PL_STOPPED}
                         then fst (unload_plugin env n m1) else m1)"
  have "registry_keeps m m1" unfolding m1_def using keeps_stop by simp
  then have k: "registry_keeps m m2" unfolding m2_def using plugin_keeps_trans [OF _ keeps_unload] by simp
  have "m' = m2\<lparr>pr_plugins := AList.delete n (pr_plugins m2), pr_states := AList.delete n (pr_states m2),
           pr_errors := AList.delete n (pr_errors m2)\<rparr>"
    using assms(2) unfolding pr_unregister_def Let_def m1_def [symmetric] m2_def [symmetric] by (simp split: if_splits)
  then show ?thesis
    using k assms(1) by (auto simp: registry_keeps_def registry_ok_def map_of_delete keys_delete simp del: set_map)
qed

lemma keeps_initialize_one:
  assumes "dict_has (pr_plugins m) n"
  shows "registry_keeps m (initialize_one env n m)"
proof -
  obtain p where p: "map_of (pr_plugins m) n = Some p" using assms by (auto simp: dict_has_iff simp del: set_map)
  obtain m1 r1 where l: "load_plugin env n m = (m1, r1)" by (meson surj_pair)
  have k: "registry_keeps m m1" using keeps_load_plugin [of m env n] l by simp
  then have p1: "map_of (pr_plugins m1) n = Some p" using p by (simp add: registry_keeps_def)
  have f: "registry_keeps x ((set_plugin_state n PL_FAILED x)\<lparr>pr_errors := AList.update n e (pr_errors x)\<rparr>)"
    if "map_of (pr_plugins x) n = Some p" for x e
    by (rule keeps_failed_fields [OF that]) simp_all
  show ?thesis
    using f [OF p] plugin_keeps_trans [OF k f [OF p1]] k l
    by (cases r1) (simp_all add: initialize_one_def Let_def split: sum.split)
qed

lemma keeps_fold:
  assumes "\<And>n m. dict_has (pr_plugins m) n \<Longrightarrow> registry_keeps m (f n m)" "set ns \<subseteq> set (dict_keys (pr_plugins m))"
  shows "registry_keeps m (fold f ns m)"
  using assms(2)
proof (induction ns arbitrary: m)
  case (Cons n ns)
  have k: "registry_keeps m (f n m)" using assms(1) Cons.prems by simp
  then have "set ns \<subseteq> set (dict_keys (pr_plugins (f n m)))" using Cons.prems by (simp add: registry_keeps_def)
  then show ?case using plugin_keeps_trans [OF k Cons.IH] by simp
qed simp

lemma keeps_initialize: "registry_keeps m (pr_initialize env m)"
  unfolding pr_initialize_def by (rule keeps_fold [OF keeps_initialize_one]) (simp_all add: pr_list_def)

lemma keeps_shutdown_plugin: "registry_keeps m (shutdown_plugin env n m)"
proof -
  obtain m1 r1 where s: "(if map_of (pr_states m) n = Some PL_ACTIVE then stop_plugin env n m else (m, None)) = (m1, r1)"
    by (meson surj_pair)
  have k: "registry_keeps m m1" using keeps_stop [of m env n] s by (cases "map_of (pr_states m) n = Some PL_ACTIVE") simp_all
  show ?thesis
    unfolding shutdown_plugin_def s using k plugin_keeps_trans [OF k keeps_unload] by (simp split: option.split)
qed

lemma keeps_shutdown: "registry_keeps m (pr_shutdown env m)"
  unfolding pr_shutdown_def by (rule keeps_fold [OF keeps_shutdown_plugin]) (simp add: pr_list_def)

lemma keeps_reload:
  assumes "registry_ok m"
  shows "registry_keeps m (pr_reload depth env m)"
proof -
  have k: "registry_keeps m (pr_initialize env (pr_shutdown env m))"
    by (rule plugin_keeps_trans [OF keeps_shutdown keeps_initialize])
  have one: "registry_keeps x (restart_one depth env n x)" for n x
    by (simp add: restart_one_def keeps_start)
  have "set (map fst (filter (\<lambda>p. snd p = PL_ACTIVE) (pr_states m))) \<subseteq> set (dict_keys (pr_states m))" by auto
  then have "set (map fst (filter (\<lambda>p. snd p = PL_ACTIVE) (pr_states m))) \<subseteq> set (dict_keys (pr_plugins (pr_initialize env (pr_shutdown env m))))"
    using assms k by (simp add: registry_ok_def registry_keeps_def)
  from plugin_keeps_trans [OF k keeps_fold [OF one this]] show ?thesis by (simp add: pr_reload_def)
qed

datatype plugin_op =
    OpRegister string plugin
  | OpDiscover "(string \<times> plugin) list"
  | OpLoad string
  | OpUnload string
  | OpStart nat string
  | OpStop string
  | OpUnregister string
  | OpInitialize
  | OpShutdown
  | OpReload nat

fun plugin_step :: "plugin_env \<Rightarrow> plugin_op \<Rightarrow> plugin_registry \<Rightarrow> plugin_registry" where
  "plugin_step env (OpRegister n p) m = pr_register env n p m"
| "plugin_step env (OpDiscover found) m = pr_discover env found m"
| "plugin_step env (OpLoad n) m = fst (load_plugin env n m)"
| "plugin_step env (OpUnload n) m = fst (unload_plugin env n m)"
| "plugin_step env (OpStart depth n) m = fst (start_plugin depth env n m)"
| "plugin_step env (OpStop n) m = fst (stop_plugin env n m)"
| "plugin_step env (OpUnregister n) m = (case pr_unregister env n m of Inl e \<Rightarrow> m | Inr m' \<Rightarrow> m')"
| "plugin_step env OpInitialize m = pr_initialize env m"
| "plugin_step env OpShutdown m = pr_shutdown env m"
| "plugin_step env (OpReload depth) m = pr_reload depth env m"

definition plugin_run :: "(plugin_env \<times> plugin_op) list \<Rightarrow> plugin_registry" where
  "plugin_run ops = fold (\<lambda>(env, op). plugin_step env op) ops pr_init"

lemma keeps_ok: "registry_keeps m m' \<Longrightarrow> registry_ok m \<Longrightarrow> registry_ok m'"
  by (simp add: registry_keeps_def)

lemma registry_ok_step: "registry_ok m \<Longrightarrow> registry_ok (plugin_step env op m)"
proof (cases op)
  case (OpUnregister n)
  assume "registry_ok m"
  then show ?thesis
    using registry_ok_unregister OpUnregister by (cases "pr_unregister env n m") auto
qed (simp_all add: registry_ok_register registry_ok_discover keeps_ok [OF keeps_load_plugin] keeps_ok [OF keeps_unload]
    keeps_ok [OF keeps_start] keeps_ok [OF keeps_stop] keeps_ok [OF keeps_initialize] keeps_ok [OF keeps_shutdown]
    keeps_ok [OF keeps_reload])

lemma registry_ok_run: "registry_ok (plugin_run ops)"
proof -
  have "registry_ok m \<Longrightarrow> registry_ok (fold (\<lambda>(env, op). plugin_step env op) ops m)" for m
    by (induction ops arbitrary: m) (auto simp: registry_ok_step)
  then show ?thesis unfolding plugin_run_def by (simp add: registry_ok_init)
qed

lemma failed_plugins_total:
  assumes "\<And>n. map_of (pr_states m) n = Some PL_FAILED \<Longrightarrow> dict_has (pr_errors m) n" "wf_dict (pr_states m)"
  shows "\<exists>fs. failed_plugins m = Inr fs \<and> map fst fs = map fst (filter (\<lambda>p. snd p = PL_FAILED) (pr_states m))"
proof -
  have "\<exists>fs. foldr (\<lambda>(name, st) acc. if st = PL_FAILED
        then (case map_of (pr_errors m) name of None \<Rightarrow> Inl (Exn KeyErr name)
              | Some e \<Rightarrow> (case acc of Inl x \<Rightarrow> Inl x | Inr ps \<Rightarrow> Inr ((name, PStr e) # ps)))
        else acc) ss (Inr []) = Inr fs \<and> map fst fs = map fst (filter (\<lambda>p. snd p = PL_FAILED) ss)"
    if "set ss \<subseteq> set (pr_states m)" for ss
    using that
  proof (induction ss)
    case (Cons s ss)
    obtain n st where s: "s = (n, st)" by (cases s)
    obtain fs where fs: "foldr (\<lambda>(name, st) acc. if st = PL_FAILED
        then (case map_of (pr_errors m) name of None \<Rightarrow> Inl (Exn KeyErr name)
              | Some e \<Rightarrow> (case acc of Inl x \<Rightarrow> Inl x | Inr ps \<Rightarrow> Inr ((name, PStr e) # ps)))
        else acc) ss (Inr []) = Inr fs" "map fst fs = map fst (filter (\<lambda>p. snd p = PL_FAILED) ss)"
      using Cons by auto
    show ?case
    proof (cases "st = PL_FAILED")
      case True
      then have "map_of (pr_states m) n = Some PL_FAILED" using Cons.prems s assms(2) by (simp add: wf_dict_def)
      then obtain e where "map_of (pr_errors m) n = Some e" using assms(1) by (auto simp: dict_has_iff simp del: set_map)
      then show ?thesis using fs s True by simp
    qed (use fs s in simp)
  qed simp
  then show ?thesis by (simp add: failed_plugins_def)
qed

section \<open>Starting\<close>

text \<open>
  What a start may do to the active plugins: none stops being active, and a plugin that became
  active has all its dependencies active.
\<close>

definition active_effect :: "plugin_table \<Rightarrow> plugin_registry \<Rightarrow> plugin_registry \<Rightarrow> bool" where
  "active_effect P m m' \<longleftrightarrow>
     pr_plugins m' = pr_plugins m \<and>
     (\<forall>x. plugin_state m x = PL_ACTIVE \<longrightarrow> plugin_state m' x = PL_ACTIVE) \<and>
     (\<forall>x. plugin_state m x \<noteq> PL_ACTIVE \<and> plugin_state m' x = PL_ACTIVE \<longrightarrow>
        (\<forall>d \<in> set (plugin_deps P x). plugin_state m' d = PL_ACTIVE))"

lemma active_effect_refl [simp]: "active_effect P m m"
  by (auto simp: active_effect_def)

lemma active_effect_trans:
  assumes "active_effect P m m1" "active_effect P m1 m2"
  shows "active_effect P m m2"
  using assms unfolding active_effect_def by (metis (no_types))

lemma active_effect_load:
  assumes "load_effect P R m m'"
  shows "active_effect P m m'"
proof -
  have "plugin_state m' x = PL_ACTIVE \<longleftrightarrow> plugin_state m x = PL_ACTIVE" for x
  proof -
    have "plugin_state m' x = plugin_state m x \<or> plugin_state m x = PL_REGISTERED \<and> plugin_state m' x \<in> {PL_LOADED, PL_FAILED}"
      using assms unfolding load_effect_def by blast
    then show ?thesis by auto
  qed
  then show ?thesis using assms by (simp add: active_effect_def load_effect_def)
qed

lemma start_each_active:
  assumes "\<And>d m m'. pr_plugins m = P \<Longrightarrow> start d m = (m', None) \<Longrightarrow> active_effect P m m' \<and> plugin_state m' d = PL_ACTIVE"
    "pr_plugins m = P" "start_each start ds m = (m', None)"
  shows "active_effect P m m' \<and> (\<forall>d \<in> set ds. plugin_state m' d = PL_ACTIVE)"
  using assms(2,3)
proof (induction ds arbitrary: m)
  case (Cons d ds)
  obtain m1 where 1: "active_effect P m m1" "plugin_state m1 d = PL_ACTIVE" "start_each start ds m1 = (m', None)"
  proof (cases "plugin_state m d = PL_ACTIVE")
    case True
    then show ?thesis using that [of m] Cons.prems(2) by simp
  next
    case False
    then obtain m1 where "start d m = (m1, None)" "start_each start ds m1 = (m', None)"
      using Cons.prems(2) by (auto split: prod.splits option.splits)
    then show ?thesis using that [of m1] assms(1) [OF Cons.prems(1)] by simp
  qed
  then have "pr_plugins m1 = P" using Cons.prems(1) by (simp add: active_effect_def)
  note ih = Cons.IH [OF this 1(3)]
  have "plugin_state m' d = PL_ACTIVE" using ih 1(2) by (simp add: active_effect_def)
  then show ?case using ih active_effect_trans [OF 1(1)] by simp
qed simp

text \<open>The stages of a start at a plugin that is not active.\<close>

lemma start_stages:
  assumes "map_of (pr_plugins m) n = Some p" "plugin_state m n \<noteq> PL_ACTIVE"
    "(if plugin_state m n = PL_REGISTERED then load_plugin env n m else (m, None)) = (m1, r1)"
    "start_each (start_plugin depth env) (pl_deps p) m1 = (m2, r2)"
    "call_hook (pe_start env) ''start'' n p m2 = (m3, r3)"
  shows "start_plugin (Suc depth) env n m =
          (case r1 of Some e \<Rightarrow> (m1, Some e) | None \<Rightarrow>
            (case r2 of Some e \<Rightarrow> (m2, Some e) | None \<Rightarrow>
              (case r3 of Some e \<Rightarrow> plugin_failed env ''start'' n e m3
               | None \<Rightarrow> (pr_publish env ''plugin_started'' [(''plugin_name'', PStr n)] (set_plugin_state n PL_ACTIVE m3), None))))"
  by (simp only: start_plugin.simps assms option.case if_False prod.case)

lemma start_active:
  "pr_plugins m = P \<Longrightarrow> start_plugin depth env n m = (m', None) \<Longrightarrow> active_effect P m m' \<and> plugin_state m' n = PL_ACTIVE"
proof (induction depth arbitrary: n m m')
  case (Suc depth)
  obtain p where p: "map_of (pr_plugins m) n = Some p" using Suc.prems(2) by (cases "map_of (pr_plugins m) n") simp_all
  show ?case
  proof (cases "plugin_state m n = PL_ACTIVE")
    case True
    then show ?thesis using p Suc.prems(2) by simp
  next
    case na: False
    obtain m1 r1 where l: "(if plugin_state m n = PL_REGISTERED then load_plugin env n m else (m, None)) = (m1, r1)"
      by (meson surj_pair)
    obtain m2 r2 where s: "start_each (start_plugin depth env) (pl_deps p) m1 = (m2, r2)" by (meson surj_pair)
    obtain m3 r3 where c: "call_hook (pe_start env) ''start'' n p m2 = (m3, r3)" by (meson surj_pair)
    have r: "r2 = None" "m' = pr_publish env ''plugin_started'' [(''plugin_name'', PStr n)] (set_plugin_state n PL_ACTIVE m3)"
      using start_stages [OF p na l s c] Suc.prems(2)
      by (cases r1; cases r2; cases r3; simp add: plugin_failed_def)+
    have a1: "active_effect P m m1"
      using l active_effect_load [OF load_plugin_effects(1)] Suc.prems(1) by (auto split: if_splits)
    then have p1: "pr_plugins m1 = P" using Suc.prems(1) by (simp add: active_effect_def)
    have s2: "active_effect P m1 m2" "\<forall>d \<in> set (pl_deps p). plugin_state m2 d = PL_ACTIVE"
      using start_each_active [where start = "start_plugin depth env", OF Suc.IH p1] s r(1) by simp_all
    have a2: "active_effect P m m2" by (rule active_effect_trans [OF a1 s2(1)])
    have deps: "plugin_deps P n = pl_deps p" using p Suc.prems(1) by (simp add: plugin_deps_def)
    note c' = call_hook_eq [OF c]
    have st: "plugin_state m' x = (if x = n then PL_ACTIVE else plugin_state m2 x)" "pr_plugins m' = pr_plugins m2" for x
      using r(2) c' by simp_all
    show ?thesis
      using a2 s2(2) na deps by (simp add: active_effect_def st)
  qed
qed simp

definition sound_plugin :: "plugin_table \<Rightarrow> string \<Rightarrow> bool" where
  "sound_plugin P n \<longleftrightarrow> (case validate_dependencies P n of Inl _ \<Rightarrow> False | Inr _ \<Rightarrow> True)"

lemma sound_reach: "sound_plugin P n \<longleftrightarrow> (\<forall>x. (n, x) \<in> (plugin_rel P)\<^sup>* \<longrightarrow> plugin_usable P x \<and> (x, x) \<notin> (plugin_rel P)\<^sup>+)"
proof (cases "validate_dependencies P n")
  case (Inl e)
  then obtain x where "(n, x) \<in> (plugin_rel P)\<^sup>*" "(x, x) \<in> (plugin_rel P)\<^sup>+ \<or> \<not> plugin_usable P x"
    using validate_spec [where P = P and name = n] by (auto simp: plugin_usable_def)
  then show ?thesis using Inl by (auto simp: sound_plugin_def)
next
  case (Inr v)
  then show ?thesis using validate_ok by (simp add: sound_plugin_def)
qed

lemma sound_deps:
  assumes "sound_plugin P n" "d \<in> set (plugin_deps P n)"
  shows "sound_plugin P d" "plugin_weight P d < plugin_weight P n"
proof -
  have "(n, d) \<in> plugin_rel P" using assms(2) by (simp add: plugin_rel_def)
  then show "sound_plugin P d" using assms(1) unfolding sound_reach by (meson converse_rtrancl_into_rtrancl)
  show "plugin_weight P d < plugin_weight P n"
    using assms plugin_weight_less by (cases "validate_dependencies P n") (auto simp: sound_plugin_def)
qed

lemma sound_found:
  assumes "sound_plugin P n"
  obtains p where "map_of P n = Some p"
  using assms unfolding sound_reach plugin_usable_def by (cases "map_of P n") auto

definition quiet_hook :: "(nat \<Rightarrow> exn option option) \<Rightarrow> bool" where
  "quiet_hook h \<longleftrightarrow> (\<forall>k. h k \<in> {None, Some None})"

lemma quiet_call: "quiet_hook h \<Longrightarrow> snd (call_hook h l n p m) = None"
  by (auto simp: quiet_hook_def call_hook_def split: option.splits) (metis option.distinct(1) option.inject)

lemma load_quiet:
  assumes "quiet_hook (pe_initialize env)" "quiet_hook (pe_load env)"
  shows "sound_plugin P n \<Longrightarrow> snd (load_at env P n m) = None"
    "\<forall>d \<in> set ds. sound_plugin Q d \<Longrightarrow> snd (load_each env Q ds m) = None"
  using assms
proof (induction env P n m and env Q ds m rule: load_at_load_each.induct)
  case (1 env P n m)
  obtain p where p: "map_of P n = Some p" using sound_found [OF 1(2)] .
  obtain v where v: "validate_dependencies P n = Inr v"
    using 1(2) by (auto simp: sound_plugin_def split: sum.splits)
  have "\<forall>d \<in> set (pl_deps p). sound_plugin P d" using sound_deps(1) [OF 1(2)] p by (simp add: plugin_deps_def)
  then have "snd (load_each env P (pl_deps p) m) = None" if "plugin_state m n = PL_REGISTERED"
    using 1(1) [OF p _ v] 1(3,4) that by simp
  moreover have "snd (load_hooks env n p x) = None" for x
    using quiet_call [OF 1(3), of "''initialize''" n p x] quiet_call [OF 1(4), of "''load''" n p]
    by (auto simp: load_hooks_def split: prod.splits option.splits) (metis option.distinct(1) snd_conv)+
  ultimately show ?case using p v by (auto simp: load_at.simps [of env P n] split: prod.splits option.splits)
next
  case (3 env P d ds m)
  show ?case
  proof (cases "plugin_state m d = PL_REGISTERED")
    case True
    obtain m1 where l: "load_at env P d m = (m1, None)"
      using 3(1) [OF True _ 3(5,6)] 3(4) by (cases "load_at env P d m") simp
    then show ?thesis using 3(2) [OF True l [symmetric] refl _ 3(5,6)] 3(4) True by simp
  qed (use 3(3) [OF _ _ 3(5,6)] 3(4) in simp)
qed simp

text \<open>
  A start in a registry \<open>P\<close> with enough depth: it ends in success or in a plugin error, never for want
  of recursion depth, and in success if no hook fails.
\<close>

definition good_outcome :: "plugin_env \<Rightarrow> exn option \<Rightarrow> bool" where
  "good_outcome env r \<longleftrightarrow>
     (case r of None \<Rightarrow> True
      | Some e \<Rightarrow> exn_class e = PluginErr \<and>
          \<not> (quiet_hook (pe_initialize env) \<and> quiet_hook (pe_load env) \<and> quiet_hook (pe_start env)))"

lemma start_each_good:
  assumes "\<And>d m. d \<in> set ds \<Longrightarrow> pr_plugins m = P \<Longrightarrow> good_outcome env (snd (start d m)) \<and> pr_plugins (fst (start d m)) = P"
    "pr_plugins m = P"
  shows "good_outcome env (snd (start_each start ds m)) \<and> pr_plugins (fst (start_each start ds m)) = P"
  using assms
proof (induction ds arbitrary: m)
  case (Cons d ds)
  obtain m1 r1 where s: "start d m = (m1, r1)" by (meson surj_pair)
  have 1: "good_outcome env r1" "pr_plugins m1 = P" using Cons.prems(1) [of d m] Cons.prems(2) s by simp_all
  show ?case
    using 1 s Cons.IH [of m1] Cons.IH [of m] Cons.prems by (cases r1) simp_all
qed (simp add: good_outcome_def)

lemma start_good:
  "sound_plugin P n \<Longrightarrow> pr_plugins m = P \<Longrightarrow> plugin_weight P n \<le> depth \<Longrightarrow> good_outcome env (snd (start_plugin depth env n m))"
proof (induction depth arbitrary: n m)
  case 0
  then show ?case using plugin_weight_pos [of P n] by simp
next
  case (Suc depth)
  obtain p where p: "map_of (pr_plugins m) n = Some p" using sound_found [OF Suc.prems(1)] Suc.prems(2) by metis
  have deps: "plugin_deps P n = pl_deps p" using p Suc.prems(2) by (simp add: plugin_deps_def)
  show ?case
  proof (cases "plugin_state m n = PL_ACTIVE")
    case True
    then show ?thesis using p by (simp add: good_outcome_def)
  next
    case na: False
    obtain m1 r1 where l: "(if plugin_state m n = PL_REGISTERED then load_plugin env n m else (m, None)) = (m1, r1)"
      by (meson surj_pair)
    obtain m2 r2 where s: "start_each (start_plugin depth env) (pl_deps p) m1 = (m2, r2)" by (meson surj_pair)
    obtain m3 r3 where c: "call_hook (pe_start env) ''start'' n p m2 = (m3, r3)" by (meson surj_pair)
    have p1: "pr_plugins m1 = P"
      using l keeps_load_plugin [of m env n] Suc.prems(2) by (auto simp: registry_keeps_def split: if_splits)
    have g1: "good_outcome env r1"
    proof (cases "plugin_state m n = PL_REGISTERED")
      case True
      then have lp: "load_plugin env n m = (m1, r1)" using l by simp
      show ?thesis
        using load_plugin_effects(4) [OF lp] p load_quiet(1) [OF _ _ Suc.prems(1), of env m] lp Suc.prems(2)
        by (cases r1) (auto simp: good_outcome_def load_plugin_def)
    qed (use l in \<open>simp add: good_outcome_def\<close>)
    have each: "good_outcome env (snd (start_plugin depth env d x)) \<and> pr_plugins (fst (start_plugin depth env d x)) = P"
      if "d \<in> set (pl_deps p)" "pr_plugins x = P" for d x
      using Suc.IH [of d x] sound_deps [OF Suc.prems(1), of d] that deps Suc.prems(3) keeps_start [of x depth env d]
      by (simp add: registry_keeps_def)
    have g2: "good_outcome env r2"
      using start_each_good [where start = "start_plugin depth env" and ds = "pl_deps p", OF each p1] s by simp
    have g3: "good_outcome env (snd (plugin_failed env ''start'' n e m3))" if "r3 = Some e" for e
      using quiet_call [of "pe_start env" "''start''" n p m2] c that by (auto simp: good_outcome_def)
    show ?thesis
      unfolding start_stages [OF p na l s c] by (cases r1; cases r2; cases r3) (use g1 g2 g3 in \<open>simp_all add: good_outcome_def\<close>)
  qed
qed

section \<open>Properties\<close>

text \<open>
  \<open>C22\<close>. After any sequence of registry operations the three tables agree: exactly the registered
  plugins have a state, only they have an error, and a failed plugin always has one. So the health
  report is produced without a key error, and it is healthy exactly if no plugin has failed.
\<close>

theorem plugin_registry_invariant:
  "registry_ok (plugin_run ops) \<and>
   (\<exists>h. pr_health (plugin_run ops) = Inr h \<and>
        pyget h ''healthy'' = PBool (PL_FAILED \<notin> snd ` set (pr_states (plugin_run ops))))"
proof -
  define m where "m = plugin_run ops"
  have ok: "registry_ok m" unfolding m_def by (rule registry_ok_run)
  obtain fs where fs: "failed_plugins m = Inr fs" "map fst fs = map fst (filter (\<lambda>p. snd p = PL_FAILED) (pr_states m))"
    using failed_plugins_total [of m] ok unfolding registry_ok_def by blast
  have "fs = [] \<longleftrightarrow> map fst fs = []" by simp
  also have "\<dots> \<longleftrightarrow> PL_FAILED \<notin> snd ` set (pr_states m)"
    unfolding fs(2) by (force simp: filter_empty_conv)
  finally show ?thesis
    using ok fs(1) unfolding m_def by (auto simp: pr_health_def pyget_def)
qed

text \<open>
  Loading a registered plugin leaves the table of plugins alone. It ends with the plugin loaded
  and none of its dependencies still registered, or with the plugin failed and a plugin error. Any
  other plugin that changes was registered, is one it depends on, and became loaded (with its own
  dependencies past the registered state) or failed.
\<close>

theorem plugin_load_outcome:
  assumes "map_of (pr_plugins m) n = Some p" "plugin_state m n = PL_REGISTERED"
  shows "case load_plugin env n m of (m', r) \<Rightarrow>
      load_effect (pr_plugins m) {n} m m' \<and>
      (case r of
         None \<Rightarrow> plugin_state m' n = PL_LOADED \<and> (\<forall>d \<in> set (pl_deps p). plugin_state m' d \<noteq> PL_REGISTERED)
       | Some e \<Rightarrow> plugin_state m' n = PL_FAILED \<and> exn_class e = PluginErr)"
proof -
  obtain m' r where l: "load_plugin env n m = (m', r)" by (meson surj_pair)
  note le = load_plugin_effects [OF l]
  have deps: "plugin_deps (pr_plugins m) n = pl_deps p" using assms(1) by (simp add: plugin_deps_def)
  have "plugin_state m' n = PL_LOADED \<and> (\<forall>d \<in> set (pl_deps p). plugin_state m' d \<noteq> PL_REGISTERED)" if "r = None"
    using le(3) [OF that assms(2)] le(1) assms(2) deps unfolding load_effect_def by metis
  then show ?thesis using l le(1,4) assms(1) by (simp split: option.split)
qed

definition quiet_env :: plugin_env where
  "quiet_env = \<lparr> pe_initialize = (\<lambda>_. None), pe_load = (\<lambda>_. Some None), pe_start = (\<lambda>_. Some None),
                pe_stop = (\<lambda>_. None), pe_unload = (\<lambda>_. None), pe_bus = False \<rparr>"

definition demo_registry :: plugin_registry where
  "demo_registry = pr_register quiet_env ''b'' (demo_plugin []) (pr_register quiet_env ''a'' (demo_plugin [''b'']) pr_init)"

lemma demo_registry_facts:
  "map_of (pr_plugins demo_registry) ''a'' = Some (demo_plugin [''b''])"
  "map_of (pr_plugins demo_registry) ''b'' = Some (demo_plugin [])"
  "plugin_state demo_registry ''a'' = PL_REGISTERED"
  by (simp_all add: demo_registry_def pr_register_def pr_init_def map_of_update)

theorem plugin_load_outcome_witness:
  "plugin_state (fst (load_plugin quiet_env ''a'' demo_registry)) ''a'' \<noteq> PL_REGISTERED"
  using plugin_load_outcome [OF demo_registry_facts(1,3), of quiet_env]
  by (auto split: prod.splits option.splits)


lemma demo_sound: "sound_plugin (pr_plugins demo_registry) ''a''"
proof -
  have compat: "check_version_compatibility ''*'' v" for v by (simp add: check_version_compatibility_def)
  have "validate_plugin (pr_plugins demo_registry) ''b'' [] {''a''} = Inr [''b'']"
    by (simp add: validate_plugin.simps [of _ "''b''"] demo_registry_facts demo_plugin_def compat)
  then have "validate_plugin (pr_plugins demo_registry) ''a'' [] {} = Inr [''a'', ''b'']"
    by (simp add: validate_plugin.simps [of _ "''a''"] demo_registry_facts demo_plugin_def compat)
  then show ?thesis by (simp add: sound_plugin_def validate_dependencies_def)
qed

lemma quiet_env_hooks: "quiet_hook (pe_initialize quiet_env)" "quiet_hook (pe_load quiet_env)" "quiet_hook (pe_start quiet_env)"
  by (simp_all add: quiet_env_def quiet_hook_def)


text \<open>
  Starting does not look for cycles. If failed, loaded or stopped plugins depend on each
  other in a circle, the start of one of them recurses until the depth is exhausted, whatever the
  depth is, and the error is not a plugin error.
\<close>

theorem cyclic_start_exhausts_stack:
  assumes "\<forall>x \<in> C. \<exists>p d ds. map_of (pr_plugins m) x = Some p \<and> pl_deps p = d # ds \<and> d \<in> C
      \<and> plugin_state m x \<notin> {PL_REGISTERED, PL_ACTIVE}" "n \<in> C"
  shows "start_plugin depth env n m = (m, Some recursion_error)"
  using assms(2)
proof (induction depth arbitrary: n)
  case (Suc depth)
  obtain p d ds where p: "map_of (pr_plugins m) n = Some p" "pl_deps p = d # ds" "d \<in> C"
      "plugin_state m n \<notin> {PL_REGISTERED, PL_ACTIVE}"
    using assms(1) Suc.prems by meson
  have "plugin_state m d \<noteq> PL_ACTIVE" using assms(1) p(3) by fastforce
  then show ?case using p Suc.IH [OF p(3)] by simp
qed simp

definition cyclic_registry :: plugin_registry where
  "cyclic_registry = pr_initialize quiet_env (pr_register quiet_env ''a'' (demo_plugin [''a'']) pr_init)"

theorem cyclic_start_exhausts_stack_witness:
  "snd (start_plugin 1000 quiet_env ''a'' cyclic_registry) = Some recursion_error"
proof -
  define P where "P = [(''a'', demo_plugin [''a''])]"
  have v: "validate_dependencies P ''a'' = Inl (circular_plugin ''a'')"
    by (simp add: validate_dependencies_def validate_plugin.simps [of _ "''a''"] P_def demo_plugin_def check_version_compatibility_def)
  have "map_of (pr_plugins cyclic_registry) ''a'' = Some (demo_plugin [''a'']) \<and> plugin_state cyclic_registry ''a'' = PL_FAILED"
    using v by (simp add: cyclic_registry_def pr_initialize_def pr_list_def pr_register_def pr_init_def initialize_one_def P_def Let_def)
  then show ?thesis
    using cyclic_start_exhausts_stack [of "{''a''}" cyclic_registry "''a''" 1000 quiet_env] by (simp add: demo_plugin_def)
qed

text \<open>
  The loader passes over a dependency that has failed: a plugin all of whose dependencies have
  failed is loaded as if they had not.
\<close>

theorem failed_dependency_skipped:
  assumes "plugin_state m n = PL_REGISTERED" "sound_plugin (pr_plugins m) n"
    "\<forall>d \<in> set (plugin_deps (pr_plugins m) n). plugin_state m d = PL_FAILED"
    "quiet_hook (pe_initialize env)" "quiet_hook (pe_load env)"
  shows "snd (load_plugin env n m) = None \<and> plugin_state (fst (load_plugin env n m)) n = PL_LOADED
     \<and> (\<forall>d \<in> set (plugin_deps (pr_plugins m) n). plugin_state (fst (load_plugin env n m)) d = PL_FAILED)"
proof -
  obtain m' r where l: "load_plugin env n m = (m', r)" by (meson surj_pair)
  have r: "r = None"
    using load_quiet(1) [OF assms(4,5,2), of m] l by (simp add: load_plugin_def)
  note le = load_plugin_effects [OF l]
  have "plugin_state m' d = PL_FAILED" if "d \<in> set (plugin_deps (pr_plugins m) n)" for d
    using load_effect_step [OF le(1), of d] assms(3) that by fastforce
  then show ?thesis using l r le(3) assms(1) by simp
qed

theorem failed_dependency_skipped_witness:
  "\<exists>m'. load_plugin quiet_env ''a'' (set_plugin_state ''b'' PL_FAILED demo_registry) = (m', None)"
proof -
  have "snd (load_plugin quiet_env ''a'' (set_plugin_state ''b'' PL_FAILED demo_registry)) = None"
    using failed_dependency_skipped [of "set_plugin_state ''b'' PL_FAILED demo_registry" "''a''" quiet_env]
      demo_registry_facts demo_sound quiet_env_hooks
    by (simp add: plugin_deps_def demo_plugin_def)
  then show ?thesis by (metis prod.collapse)
qed

end
