(* ===== verification/Metrics.thy ===== *)
theory Metrics
  imports PyStrings "HOL-Library.List_Lexorder" "HOL-Library.Product_Lexorder"
begin

text \<open>
  \<open>yasin_core/observability/metrics.py\<close>: counters, gauges and histograms, and the registry that finds
  them by name and labels. A metric is an object that the callers and the registry share: the objects
  are in \<open>mt_heap\<close> and a reference is an index of it; the registry maps keys to references.
\<close>

datatype metric_data = Counter real | Gauge real | Histogram "real list"

fun metric_type :: "metric_data \<Rightarrow> string" where
  "metric_type (Counter _) = ''counter''"
| "metric_type (Gauge _) = ''gauge''"
| "metric_type (Histogram _) = ''histogram''"

fun metric_class :: "metric_data \<Rightarrow> string" where
  "metric_class (Counter _) = ''Counter''"
| "metric_class (Gauge _) = ''Gauge''"
| "metric_class (Histogram _) = ''Histogram''"

type_synonym labels = "(string \<times> string) list"

record metric =
  me_name :: string
  me_description :: string
  me_labels :: labels
  me_time :: real
  me_data :: metric_data

definition mk_metric :: "string \<Rightarrow> metric_data \<Rightarrow> string \<Rightarrow> labels \<Rightarrow> real \<Rightarrow> metric" where
  "mk_metric name data desc ls now =
     \<lparr> me_name = name, me_description = desc, me_labels = ls, me_time = now, me_data = data \<rparr>"

type_synonym metric_key = "string \<times> labels"

record metrics =
  mt_heap :: "metric list"
  mt_table :: "(metric_key \<times> nat) list"

definition mt_init :: metrics where
  "mt_init = \<lparr> mt_heap = [], mt_table = [] \<rparr>"

definition metric_at :: "metrics \<Rightarrow> nat \<Rightarrow> metric" where
  "metric_at m r = mt_heap m ! r"

definition set_data :: "nat \<Rightarrow> metric_data \<Rightarrow> real \<Rightarrow> metrics \<Rightarrow> metrics" where
  "set_data r data now m = m\<lparr>mt_heap := (mt_heap m)[r := (metric_at m r)\<lparr>me_data := data, me_time := now\<rparr>]\<rparr>"

section \<open>Operations of the metric objects\<close>

definition no_attribute :: "metric_data \<Rightarrow> string \<Rightarrow> exn" where
  "no_attribute d meth = Exn AttributeErr (quoted (metric_class d) @ '' object has no attribute '' @ quoted meth)"

definition metric_inc :: "nat \<Rightarrow> real \<Rightarrow> real \<Rightarrow> metrics \<Rightarrow> exn + metrics" where
  "metric_inc r v now m =
     (case me_data (metric_at m r) of
        Counter x \<Rightarrow> if v < 0 then Inl (Exn ValueErr ''Counter increments must be non-negative.'')
                     else Inr (set_data r (Counter (x + v)) now m)
      | Gauge x \<Rightarrow> Inr (set_data r (Gauge (x + v)) now m)
      | d \<Rightarrow> Inl (no_attribute d ''inc''))"

definition counter_reset :: "nat \<Rightarrow> real \<Rightarrow> metrics \<Rightarrow> exn + metrics" where
  "counter_reset r now m =
     (case me_data (metric_at m r) of
        Counter _ \<Rightarrow> Inr (set_data r (Counter 0) now m)
      | d \<Rightarrow> Inl (no_attribute d ''reset''))"

definition gauge_set :: "nat \<Rightarrow> real \<Rightarrow> real \<Rightarrow> metrics \<Rightarrow> exn + metrics" where
  "gauge_set r v now m =
     (case me_data (metric_at m r) of
        Gauge _ \<Rightarrow> Inr (set_data r (Gauge v) now m)
      | d \<Rightarrow> Inl (no_attribute d ''set''))"

definition gauge_dec :: "nat \<Rightarrow> real \<Rightarrow> real \<Rightarrow> metrics \<Rightarrow> exn + metrics" where
  "gauge_dec r v now m =
     (case me_data (metric_at m r) of
        Gauge x \<Rightarrow> Inr (set_data r (Gauge (x - v)) now m)
      | d \<Rightarrow> Inl (no_attribute d ''dec''))"

definition histogram_observe :: "nat \<Rightarrow> real \<Rightarrow> real \<Rightarrow> metrics \<Rightarrow> exn + metrics" where
  "histogram_observe r v now m =
     (case me_data (metric_at m r) of
        Histogram xs \<Rightarrow> Inr (set_data r (Histogram (xs @ [v])) now m)
      | d \<Rightarrow> Inl (no_attribute d ''observe''))"

definition histogram_avg :: "real list \<Rightarrow> real" where
  "histogram_avg xs = (if xs = [] then 0 else sum_list xs / real (length xs))"

text \<open>The dictionary of a metric: each class adds to that of its parent.\<close>

definition metric_meta :: "metric \<Rightarrow> pydict" where
  "metric_meta x =
     [(''name'', PStr (me_name x)), (''type'', PStr (metric_type (me_data x))), (''description'', PStr (me_description x)),
      (''labels'', PDict (map (\<lambda>(k, v). (k, PStr v)) (me_labels x))), (''timestamp'', PFloat (me_time x))]"

definition counter_dict :: "metric \<Rightarrow> real \<Rightarrow> pydict" where
  "counter_dict x v = metric_meta x @ [(''value'', PFloat v)]"

definition gauge_dict :: "metric \<Rightarrow> real \<Rightarrow> pydict" where
  "gauge_dict x v = metric_meta x @ [(''value'', PFloat v)]"

definition histogram_dict :: "metric \<Rightarrow> real list \<Rightarrow> pydict" where
  "histogram_dict x xs = metric_meta x @
     [(''count'', PInt (int (length xs))), (''sum'', PFloat (sum_list xs)), (''avg'', PFloat (histogram_avg xs)),
      (''values'', PList (map PFloat xs))]"

definition metric_dict :: "metric \<Rightarrow> pydict" where
  "metric_dict x =
     (case me_data x of
        Counter v \<Rightarrow> counter_dict x v
      | Gauge v \<Rightarrow> gauge_dict x v
      | Histogram xs \<Rightarrow> histogram_dict x xs)"

text \<open>The properties that each class adds; \<open>None\<close> stands for a name that is none of them.\<close>

definition counter_property :: "real \<Rightarrow> string \<Rightarrow> pyval option" where
  "counter_property v p = (if p = ''value'' then Some (PFloat v) else None)"

definition gauge_property :: "real \<Rightarrow> string \<Rightarrow> pyval option" where
  "gauge_property v p = (if p = ''value'' then Some (PFloat v) else None)"

definition histogram_property :: "real list \<Rightarrow> string \<Rightarrow> pyval option" where
  "histogram_property xs p =
     (if p = ''values'' then Some (PList (map PFloat xs))
      else if p = ''count'' then Some (PInt (int (length xs)))
      else if p = ''sum'' then Some (PFloat (sum_list xs))
      else if p = ''avg'' then Some (PFloat (histogram_avg xs))
      else None)"

definition metric_property :: "metric \<Rightarrow> string \<Rightarrow> pyval option" where
  "metric_property x p =
     (case me_data x of
        Counter v \<Rightarrow> counter_property v p
      | Gauge v \<Rightarrow> gauge_property v p
      | Histogram xs \<Rightarrow> histogram_property xs p)"

lemma metric_property_dict: "metric_property x p = Some v \<Longrightarrow> map_of (metric_dict x) p = Some v"
  by (auto simp: metric_property_def metric_dict_def counter_property_def counter_dict_def gauge_property_def gauge_dict_def
      histogram_property_def histogram_dict_def metric_meta_def split: metric_data.splits if_splits)

section \<open>The registry\<close>

definition metric_key :: "string \<Rightarrow> labels \<Rightarrow> metric_key" where
  "metric_key name ls = (name, sort ls)"

text \<open>A metric that a caller has made is on the heap before it is registered.\<close>

definition new_metric :: "metric \<Rightarrow> metrics \<Rightarrow> metrics \<times> nat" where
  "new_metric x m = (m\<lparr>mt_heap := mt_heap m @ [x]\<rparr>, length (mt_heap m))"

definition labels_repr :: "labels \<Rightarrow> string" where
  "labels_repr ls = ''{'' @ join_with '', '' (map (\<lambda>(k, v). quoted k @ '': '' @ quoted v) ls) @ ''}''"

definition metric_exists :: "metric \<Rightarrow> exn" where
  "metric_exists x = Exn ValueErr (''Metric '' @ quoted (me_name x) @ '' with labels '' @ labels_repr (me_labels x)
     @ '' is already registered.'')"

definition mt_register :: "nat \<Rightarrow> metrics \<Rightarrow> exn + metrics" where
  "mt_register r m =
     (let x = metric_at m r; key = metric_key (me_name x) (me_labels x)
      in if dict_has (mt_table m) key then Inl (metric_exists x)
         else Inr (m\<lparr>mt_table := AList.update key r (mt_table m)\<rparr>))"

definition wrong_metric_type :: "string \<Rightarrow> metric_data \<Rightarrow> string \<Rightarrow> exn" where
  "wrong_metric_type name found wanted =
     Exn TypeErr (''Metric '' @ quoted name @ '' exists but is of type '' @ metric_class found @ '', not '' @ wanted @ ''.'')"

text \<open>The body that \<open>counter\<close>, \<open>gauge\<close> and \<open>histogram\<close> share: \<open>zero\<close> is the data of a new metric.\<close>

definition get_or_create :: "metric_data \<Rightarrow> string \<Rightarrow> string \<Rightarrow> labels \<Rightarrow> real \<Rightarrow> metrics \<Rightarrow> metrics \<times> (exn + nat)" where
  "get_or_create zero name desc ls now m =
     (let key = metric_key name ls
      in case map_of (mt_table m) key of
           Some r \<Rightarrow>
             (let d = me_data (metric_at m r)
              in if metric_class d \<noteq> metric_class zero then (m, Inl (wrong_metric_type name d (metric_class zero)))
                 else (m, Inr r))
         | None \<Rightarrow>
             (case new_metric (mk_metric name zero desc ls now) m of
                (m', r) \<Rightarrow> (m'\<lparr>mt_table := AList.update key r (mt_table m')\<rparr>, Inr r)))"

definition get_counter :: "string \<Rightarrow> string \<Rightarrow> labels \<Rightarrow> real \<Rightarrow> metrics \<Rightarrow> metrics \<times> (exn + nat)" where
  "get_counter = get_or_create (Counter 0)"

definition get_gauge :: "string \<Rightarrow> string \<Rightarrow> labels \<Rightarrow> real \<Rightarrow> metrics \<Rightarrow> metrics \<times> (exn + nat)" where
  "get_gauge = get_or_create (Gauge 0)"

definition get_histogram :: "string \<Rightarrow> string \<Rightarrow> labels \<Rightarrow> real \<Rightarrow> metrics \<Rightarrow> metrics \<times> (exn + nat)" where
  "get_histogram = get_or_create (Histogram [])"

definition all_metrics :: "metrics \<Rightarrow> nat list" where
  "all_metrics m = map snd (mt_table m)"

text \<open>An empty name, no labels and the time 0 filter nothing, as their truth tests in the code have it.\<close>

definition metric_matches :: "string \<Rightarrow> labels \<Rightarrow> real option \<Rightarrow> real option \<Rightarrow> metric \<Rightarrow> bool" where
  "metric_matches name ls start_time end_time x \<longleftrightarrow>
     (name = [] \<or> me_name x = name)
     \<and> list_all (\<lambda>(k, v). map_of (me_labels x) k = Some v) ls
     \<and> (case start_time of None \<Rightarrow> True | Some t \<Rightarrow> t = 0 \<or> t \<le> me_time x)
     \<and> (case end_time of None \<Rightarrow> True | Some t \<Rightarrow> t = 0 \<or> me_time x \<le> t)"

definition query_metrics :: "string \<Rightarrow> labels \<Rightarrow> real option \<Rightarrow> real option \<Rightarrow> metrics \<Rightarrow> nat list" where
  "query_metrics name ls start_time end_time m =
     filter (\<lambda>r. metric_matches name ls start_time end_time (metric_at m r)) (all_metrics m)"

definition mt_clear :: "metrics \<Rightarrow> metrics" where
  "mt_clear m = m\<lparr>mt_table := []\<rparr>"

section \<open>Keys\<close>

lemma metric_key_eq:
  assumes "wf_dict l1" "wf_dict l2"
  shows "metric_key n1 l1 = metric_key n2 l2 \<longleftrightarrow> n1 = n2 \<and> map_of l1 = map_of l2"
proof -
  have "distinct l1" "distinct l2" using assms by (simp_all add: wf_dict_def distinct_map)
  then have "sort l1 = sort l2 \<longleftrightarrow> set l1 = set l2"
    by (metis set_sort sorted_distinct_set_unique distinct_sort sorted_sort)
  also have "\<dots> \<longleftrightarrow> map_of l1 = map_of l2"
    using assms map_of_inject_set [of l1 l2] by (simp add: wf_dict_def)
  finally show ?thesis by (simp add: metric_key_def)
qed

section \<open>The invariant\<close>

definition metrics_ok :: "metrics \<Rightarrow> bool" where
  "metrics_ok m \<longleftrightarrow>
     wf_dict (mt_table m) \<and>
     (\<forall>x \<in> set (mt_heap m). wf_dict (me_labels x) \<and> (case me_data x of Counter v \<Rightarrow> 0 \<le> v | _ \<Rightarrow> True)) \<and>
     (\<forall>p \<in> set (mt_table m). snd p < length (mt_heap m)
        \<and> fst p = metric_key (me_name (metric_at m (snd p))) (me_labels (metric_at m (snd p))))"

lemma metrics_ok_init: "metrics_ok mt_init"
  by (simp add: metrics_ok_def mt_init_def)

lemma metrics_ok_set:
  assumes "metrics_ok m" "case d of Counter v \<Rightarrow> 0 \<le> v | _ \<Rightarrow> True"
  shows "metrics_ok (set_data r d now m)"
proof (cases "r < length (mt_heap m)")
  case True
  then have "wf_dict (me_labels (metric_at m r))" using assms(1) by (simp add: metrics_ok_def metric_at_def)
  moreover have "me_name (metric_at (set_data r d now m) s) = me_name (metric_at m s)"
    "me_labels (metric_at (set_data r d now m) s) = me_labels (metric_at m s)" for s
    using True by (cases "s = r", simp_all add: set_data_def metric_at_def)+
  ultimately show ?thesis
    using assms set_update_subset_insert [of "mt_heap m" r] unfolding metrics_ok_def
    by (auto simp: set_data_def dest!: subsetD [OF set_update_subset_insert])
next
  case False
  then have "set_data r d now m = m" by (cases m) (simp add: set_data_def linorder_not_less list_update_beyond)
  then show ?thesis using assms(1) by simp
qed

lemma metrics_ok_new:
  assumes "metrics_ok m" "wf_dict (me_labels x)" "case me_data x of Counter v \<Rightarrow> 0 \<le> v | _ \<Rightarrow> True"
  shows "metrics_ok (fst (new_metric x m))"
  using assms by (auto simp: metrics_ok_def new_metric_def metric_at_def nth_append)

lemma metrics_ok_insert:
  assumes "metrics_ok m" "r < length (mt_heap m)" "key = metric_key (me_name (metric_at m r)) (me_labels (metric_at m r))"
  shows "metrics_ok (m\<lparr>mt_table := AList.update key r (mt_table m)\<rparr>)"
  using assms by (auto simp: metrics_ok_def set_update_wf metric_at_def)

section \<open>Refinement of a map from names and labels to metrics\<close>

type_synonym metric_map = "string \<Rightarrow> (string \<rightharpoonup> string) \<Rightarrow> metric option"

definition metric_is :: "string \<Rightarrow> (string \<rightharpoonup> string) \<Rightarrow> metric \<Rightarrow> bool" where
  "metric_is n L x \<longleftrightarrow> me_name x = n \<and> map_of (me_labels x) = L"

definition abs_metrics :: "metrics \<Rightarrow> metric_map" where
  "abs_metrics m n L = find (metric_is n L) (map (metric_at m) (all_metrics m))"

definition map_metric :: "metric \<Rightarrow> metric_map \<Rightarrow> metric_map" where
  "map_metric x A = A(me_name x := (A (me_name x))(map_of (me_labels x) \<mapsto> x))"

definition spec_get :: "metric_data \<Rightarrow> string \<Rightarrow> string \<Rightarrow> labels \<Rightarrow> real \<Rightarrow> metric_map \<Rightarrow> metric_map \<times> (exn + metric)" where
  "spec_get zero name desc ls now A =
     (case A name (map_of ls) of
        Some x \<Rightarrow> (A, if metric_class (me_data x) = metric_class zero then Inr x
                     else Inl (wrong_metric_type name (me_data x) (metric_class zero)))
      | None \<Rightarrow> let x = mk_metric name zero desc ls now in (map_metric x A, Inr x))"

lemma metrics_unique:
  assumes "metrics_ok m" "p \<in> set (mt_table m)" "q \<in> set (mt_table m)"
    "metric_is n L (metric_at m (snd p))" "metric_is n L (metric_at m (snd q))"
  shows "p = q"
proof -
  have wf: "wf_dict (me_labels (metric_at m (snd x)))" if "x \<in> set (mt_table m)" for x
    using assms(1) that by (simp add: metrics_ok_def metric_at_def)
  have k: "fst x = metric_key (me_name (metric_at m (snd x))) (me_labels (metric_at m (snd x)))" if "x \<in> set (mt_table m)" for x
    using assms(1) that by (simp add: metrics_ok_def)
  have "fst p = fst q"
    using k [OF assms(2)] k [OF assms(3)] metric_key_eq [OF wf [OF assms(2)] wf [OF assms(3)]] assms(4,5)
    by (simp add: metric_is_def)
  moreover have "inj_on fst (set (mt_table m))" using assms(1) by (simp add: metrics_ok_def wf_dict_def distinct_map)
  ultimately show ?thesis using assms(2,3) by (simp add: inj_on_def)
qed

lemma find_Some_unique:
  assumes "x \<in> set xs" "P x" "\<And>y. y \<in> set xs \<Longrightarrow> P y \<Longrightarrow> y = x"
  shows "find P xs = Some x"
proof (cases "find P xs")
  case None
  then show ?thesis using assms(1,2) by (simp add: find_None_iff)
next
  case (Some z)
  then have "z \<in> set xs" "P z" by (auto simp: find_Some_iff)
  then show ?thesis using assms(3) Some by simp
qed

lemma abs_metrics_Some:
  assumes "metrics_ok m" "p \<in> set (mt_table m)" "metric_is n L (metric_at m (snd p))"
  shows "abs_metrics m n L = Some (metric_at m (snd p))"
  unfolding abs_metrics_def all_metrics_def
proof (rule find_Some_unique)
  show "metric_at m (snd p) \<in> set (map (metric_at m) (map snd (mt_table m)))" using assms(2) by auto
next
  fix y assume "y \<in> set (map (metric_at m) (map snd (mt_table m)))" "metric_is n L y"
  then obtain q where "q \<in> set (mt_table m)" "y = metric_at m (snd q)" by auto
  then show "y = metric_at m (snd p)" using metrics_unique [OF assms(1) _ assms(2) _ assms(3)] \<open>metric_is n L y\<close> by auto
qed (rule assms(3))

lemma abs_metrics_None:
  "abs_metrics m n L = None \<longleftrightarrow> (\<forall>p \<in> set (mt_table m). \<not> metric_is n L (metric_at m (snd p)))"
  by (auto simp: abs_metrics_def all_metrics_def find_None_iff)

lemma abs_metrics_lookup:
  assumes "metrics_ok m" "wf_dict ls"
  shows "abs_metrics m n (map_of ls) = map_option (metric_at m) (map_of (mt_table m) (metric_key n ls))"
proof (cases "map_of (mt_table m) (metric_key n ls)")
  case (Some r)
  then have p: "(metric_key n ls, r) \<in> set (mt_table m)" by (rule map_of_SomeD)
  then have "metric_key n ls = metric_key (me_name (metric_at m r)) (me_labels (metric_at m r))" "wf_dict (me_labels (metric_at m r))"
    using assms(1) by (force simp: metrics_ok_def metric_at_def)+
  then have "metric_is n (map_of ls) (metric_at m r)"
    using metric_key_eq [OF assms(2)] by (simp add: metric_is_def)
  then show ?thesis using abs_metrics_Some [OF assms(1) p] Some by simp
next
  case None
  have "\<not> metric_is n (map_of ls) (metric_at m (snd p))" if p: "p \<in> set (mt_table m)" for p
  proof
    assume mi: "metric_is n (map_of ls) (metric_at m (snd p))"
    have "fst p = metric_key n ls"
      using assms(1) p mi metric_key_eq [OF _ assms(2)] by (simp add: metrics_ok_def metric_at_def metric_is_def)
    then show False using None p by (metis map_of_eq_None_iff image_eqI)
  qed
  then show ?thesis using None by (simp add: abs_metrics_None)
qed

text \<open>A registered metric that is new or changed is what the map holds for its name and labels.\<close>

lemma abs_metrics_put:
  assumes "metrics_ok m" "metrics_ok m'" "p \<in> set (mt_table m')" "metric_at m' (snd p) = x"
    "\<And>q. q \<in> set (mt_table m') \<and> q \<noteq> p \<longleftrightarrow> q \<in> set (mt_table m) \<and> q \<noteq> p"
    "\<And>q. q \<in> set (mt_table m) \<Longrightarrow> q \<noteq> p \<Longrightarrow> metric_at m' (snd q) = metric_at m (snd q)"
    "p \<in> set (mt_table m) \<Longrightarrow> metric_is (me_name x) (map_of (me_labels x)) (metric_at m (snd p))"
  shows "abs_metrics m' = map_metric x (abs_metrics m)"
proof (intro ext)
  fix n L
  show "abs_metrics m' n L = map_metric x (abs_metrics m) n L"
  proof (cases "metric_is n L x")
    case True
    then show ?thesis
      using abs_metrics_Some [OF assms(2,3), of n L] assms(4) by (simp add: map_metric_def metric_is_def)
  next
    case False
    then have no: "map_metric x (abs_metrics m) n L = abs_metrics m n L" by (auto simp: map_metric_def metric_is_def)
    show ?thesis
    proof (cases "\<exists>q \<in> set (mt_table m). metric_is n L (metric_at m (snd q))")
      case True
      then obtain q where q: "q \<in> set (mt_table m)" "metric_is n L (metric_at m (snd q))" by blast
      have "q \<noteq> p" using q False assms(7) by (auto simp: metric_is_def)
      then show ?thesis
        using abs_metrics_Some [OF assms(1) q] abs_metrics_Some [OF assms(2), of q n L] q assms(5,6) [of q] no by simp
    next
      case none: False
      then have "\<forall>q \<in> set (mt_table m'). \<not> metric_is n L (metric_at m' (snd q))"
        using assms(4-6) False by metis
      then show ?thesis using none no abs_metrics_None [of m n L] abs_metrics_None [of m' n L] by metis
    qed
  qed
qed

lemma abs_get_or_create:
  assumes "metrics_ok m" "wf_dict ls" "get_or_create zero name desc ls now m = (m', res)" "case zero of Counter v \<Rightarrow> 0 \<le> v | _ \<Rightarrow> True"
  shows "metrics_ok m' \<and> spec_get zero name desc ls now (abs_metrics m) = (abs_metrics m', map_sum id (metric_at m') res)"
proof (cases "map_of (mt_table m) (metric_key name ls)")
  case (Some r)
  then show ?thesis
    using assms abs_metrics_lookup [OF assms(1,2), of name]
    by (auto simp: get_or_create_def spec_get_def Let_def split: if_splits)
next
  case None
  define x where "x = mk_metric name zero desc ls now"
  define m1 where "m1 = fst (new_metric x m)"
  define r where "r = length (mt_heap m)"
  have x: "me_name x = name" "me_labels x = ls" "me_data x = zero" by (simp_all add: x_def mk_metric_def)
  have m': "m' = m1\<lparr>mt_table := AList.update (metric_key name ls) r (mt_table m1)\<rparr>" "res = Inr r"
    using assms(3) None by (simp_all add: get_or_create_def Let_def m1_def new_metric_def x_def r_def)
  have m1: "mt_table m1 = mt_table m" "metric_at m1 r = x" "r < length (mt_heap m1)" "metric_at m1 q = metric_at m q" if "q < r" for q
    using that by (simp_all add: m1_def new_metric_def metric_at_def r_def nth_append)
  have at: "metric_at m' = metric_at m1" by (simp add: m' metric_at_def fun_eq_iff)
  have ok1: "metrics_ok m1" unfolding m1_def using metrics_ok_new [OF assms(1)] assms(2,4) x by simp
  have rx: "metric_at m1 r = x" "r < length (mt_heap m1)" "mt_table m1 = mt_table m"
    by (simp_all add: m1_def new_metric_def metric_at_def r_def)
  have ok: "metrics_ok m'" unfolding m'(1) by (rule metrics_ok_insert [OF ok1 rx(2)]) (simp add: rx(1) x)
  have wf: "wf_dict (mt_table m)" and lt: "\<And>q. q \<in> set (mt_table m) \<Longrightarrow> snd q < r"
    using assms(1) by (auto simp: metrics_ok_def r_def)
  have tab: "set (mt_table m') = insert (metric_key name ls, r) (set (mt_table m))"
    using None set_update_wf [OF wf, of "metric_key name ls" r] by (force simp: m'(1) rx(3) map_of_eq_None_iff)
  have "abs_metrics m' = map_metric x (abs_metrics m)"
  proof (rule abs_metrics_put [OF assms(1) ok, of "(metric_key name ls, r)"])
    show "(metric_key name ls, r) \<in> set (mt_table m) \<Longrightarrow> metric_is (me_name x) (map_of (me_labels x)) (metric_at m (snd (metric_key name ls, r)))"
      using lt [of "(metric_key name ls, r)"] by simp
    show "metric_at m' (snd q) = metric_at m (snd q)" if "q \<in> set (mt_table m)" for q
      using m1(4) [OF lt [OF that]] at by simp
  qed (use tab at rx(1) in auto)
  moreover have "abs_metrics m name (map_of ls) = None" using abs_metrics_lookup [OF assms(1,2), of name] None by simp
  ultimately show ?thesis
    using ok m'(2) at rx(1) by (simp add: spec_get_def Let_def x_def)
qed

lemma abs_set_data:
  assumes "metrics_ok m" "r \<in> set (all_metrics m)" "case d of Counter v \<Rightarrow> 0 \<le> v | _ \<Rightarrow> True"
  shows "abs_metrics (set_data r d now m) = map_metric ((metric_at m r)\<lparr>me_data := d, me_time := now\<rparr>) (abs_metrics m)"
proof -
  obtain p where p: "p \<in> set (mt_table m)" "r = snd p" using assms(2) by (auto simp: all_metrics_def)
  have lt: "r < length (mt_heap m)" using assms(1) p by (simp add: metrics_ok_def)
  have inj: "snd q \<noteq> r" if "q \<in> set (mt_table m)" "q \<noteq> p" for q
    using metrics_unique [OF assms(1) that(1) p(1), of "me_name (metric_at m r)" "map_of (me_labels (metric_at m r))"] that p(2)
    by (auto simp: metric_is_def)
  show ?thesis
  proof (rule abs_metrics_put [OF assms(1) metrics_ok_set [OF assms(1,3)], of p])
    show "metric_at (set_data r d now m) (snd q) = metric_at m (snd q)" if "q \<in> set (mt_table m)" "q \<noteq> p" for q
      using inj [OF that] by (simp add: metric_at_def set_data_def)
  qed (use p lt in \<open>auto simp: set_data_def metric_at_def metric_is_def\<close>)
qed

lemma abs_register:
  assumes "metrics_ok m" "r < length (mt_heap m)"
  shows "case mt_register r m of
      Inl e \<Rightarrow> e = metric_exists (metric_at m r) \<and> abs_metrics m (me_name (metric_at m r)) (map_of (me_labels (metric_at m r))) \<noteq> None
    | Inr m' \<Rightarrow> abs_metrics m (me_name (metric_at m r)) (map_of (me_labels (metric_at m r))) = None
        \<and> abs_metrics m' = map_metric (metric_at m r) (abs_metrics m) \<and> metrics_ok m'"
proof -
  define x where "x = metric_at m r"
  define key where "key = metric_key (me_name x) (me_labels x)"
  have wfl: "wf_dict (me_labels x)" using assms by (simp add: metrics_ok_def metric_at_def x_def)
  note look = abs_metrics_lookup [OF assms(1) wfl, of "me_name x", folded key_def]
  show ?thesis
  proof (cases "map_of (mt_table m) key")
    case (Some s)
    then have "dict_has (mt_table m) key" by (simp add: dict_has_iff del: set_map)
    then show ?thesis using Some look by (simp add: mt_register_def Let_def x_def key_def del: set_map)
  next
    case None
    then have no: "\<not> dict_has (mt_table m) key" by (simp add: dict_has_iff del: set_map)
    define m' where "m' = m\<lparr>mt_table := AList.update key r (mt_table m)\<rparr>"
    have reg: "mt_register r m = Inr m'" using no by (simp add: mt_register_def Let_def m'_def x_def key_def del: set_map)
    have ok: "metrics_ok m'"
      unfolding m'_def by (rule metrics_ok_insert [OF assms]) (simp add: key_def x_def)
    have at: "metric_at m' = metric_at m" by (simp add: m'_def metric_at_def fun_eq_iff)
    have wf: "wf_dict (mt_table m)" using assms(1) by (simp add: metrics_ok_def)
    have tab: "set (mt_table m') = insert (key, r) (set (mt_table m))"
      using no set_update_wf [OF wf, of key r] by (force simp: m'_def)
    have "abs_metrics m' = map_metric x (abs_metrics m)"
      by (rule abs_metrics_put [OF assms(1) ok, of "(key, r)"]) (use tab at in \<open>auto simp: x_def metric_is_def\<close>)
    then show ?thesis using reg ok look None by (simp add: x_def)
  qed
qed

section \<open>Runs\<close>

datatype metric_op =
    MNew metric
  | MRegister nat
  | MGet metric_data string string labels
  | MInc nat real
  | MReset nat
  | MSet nat real
  | MDec nat real
  | MObserve nat real
  | MClear

fun zero_data :: "metric_data \<Rightarrow> metric_data" where
  "zero_data (Counter _) = Counter 0"
| "zero_data (Gauge _) = Gauge 0"
| "zero_data (Histogram _) = Histogram []"

definition kept :: "metrics \<Rightarrow> exn + metrics \<Rightarrow> metrics" where
  "kept m res = (case res of Inl _ \<Rightarrow> m | Inr m' \<Rightarrow> m')"

text \<open>References are allocated ones, labels are dictionaries, and new metrics start from zero.\<close>

fun metric_step :: "real \<times> metric_op \<Rightarrow> metrics \<Rightarrow> metrics" where
  "metric_step (now, MNew x) m =
     (if wf_dict (me_labels x) then fst (new_metric (mk_metric (me_name x) (zero_data (me_data x)) (me_description x) (me_labels x) now) m) else m)"
| "metric_step (now, MRegister r) m = (if r < length (mt_heap m) then kept m (mt_register r m) else m)"
| "metric_step (now, MGet d name desc ls) m = (if wf_dict ls then fst (get_or_create (zero_data d) name desc ls now m) else m)"
| "metric_step (now, MInc r v) m = (if r < length (mt_heap m) then kept m (metric_inc r v now m) else m)"
| "metric_step (now, MReset r) m = (if r < length (mt_heap m) then kept m (counter_reset r now m) else m)"
| "metric_step (now, MSet r v) m = (if r < length (mt_heap m) then kept m (gauge_set r v now m) else m)"
| "metric_step (now, MDec r v) m = (if r < length (mt_heap m) then kept m (gauge_dec r v now m) else m)"
| "metric_step (now, MObserve r v) m = (if r < length (mt_heap m) then kept m (histogram_observe r v now m) else m)"
| "metric_step (now, MClear) m = mt_clear m"

definition metric_run :: "(real \<times> metric_op) list \<Rightarrow> metrics" where
  "metric_run ops = fold metric_step ops mt_init"

lemma zero_data_ok: "case zero_data d of Counter v \<Rightarrow> 0 \<le> v | _ \<Rightarrow> True"
  by (cases d) simp_all

lemma metrics_ok_counter:
  "metrics_ok m \<Longrightarrow> r < length (mt_heap m) \<Longrightarrow> me_data (metric_at m r) = Counter v \<Longrightarrow> 0 \<le> v"
  by (auto simp: metrics_ok_def metric_at_def dest!: nth_mem split: metric_data.splits)

lemma metrics_ok_updates:
  assumes "metrics_ok m" "r < length (mt_heap m)"
  shows "metrics_ok (kept m (metric_inc r v now m))" "metrics_ok (kept m (counter_reset r now m))"
    "metrics_ok (kept m (gauge_set r v now m))" "metrics_ok (kept m (gauge_dec r v now m))"
    "metrics_ok (kept m (histogram_observe r v now m))"
  using assms metrics_ok_counter [OF assms] metrics_ok_set [OF assms(1)]
  by (auto simp: kept_def metric_inc_def counter_reset_def gauge_set_def gauge_dec_def histogram_observe_def
      split: metric_data.splits if_splits)

lemma metrics_ok_step: "metrics_ok m \<Longrightarrow> metrics_ok (metric_step (now, op) m)"
proof (cases op)
  case (MNew x)
  then show "metrics_ok m \<Longrightarrow> ?thesis" using zero_data_ok by (auto intro!: metrics_ok_new simp: mk_metric_def)
next
  case (MRegister r)
  then show "metrics_ok m \<Longrightarrow> ?thesis" using abs_register [of m r] by (auto simp: kept_def split: sum.splits)
next
  case (MGet d name desc ls)
  then show "metrics_ok m \<Longrightarrow> ?thesis"
    using abs_get_or_create [OF _ _ prod.collapse [symmetric] zero_data_ok, of m ls d name desc now] by auto
next
  case MClear
  then show "metrics_ok m \<Longrightarrow> ?thesis" by (simp add: metrics_ok_def mt_clear_def)
qed (simp_all add: metrics_ok_updates)

lemma metrics_ok_run: "metrics_ok (metric_run ops)"
proof -
  have "metrics_ok m \<Longrightarrow> metrics_ok (fold metric_step ops m)" for m
    by (induction ops arbitrary: m) (auto simp: metrics_ok_step)
  then show ?thesis by (simp add: metric_run_def metrics_ok_init)
qed

definition counter_at :: "metrics \<Rightarrow> nat \<Rightarrow> real \<Rightarrow> bool" where
  "counter_at m r v \<longleftrightarrow> r < length (mt_heap m) \<and> (\<exists>w \<ge> v. me_data (metric_at m r) = Counter w)"

lemma counter_at_set:
  assumes "counter_at m r v" "\<And>w. s = r \<Longrightarrow> me_data (metric_at m r) = Counter w \<Longrightarrow> \<exists>w' \<ge> w. d = Counter w'"
  shows "counter_at (set_data s d now m) r v"
proof -
  obtain w where w: "r < length (mt_heap m)" "v \<le> w" "me_data (metric_at m r) = Counter w"
    using assms(1) by (auto simp: counter_at_def)
  show ?thesis
  proof (cases "s = r")
    case True
    then obtain w' where "w \<le> w'" "d = Counter w'" using assms(2) w(3) by blast
    then have "me_data (metric_at (set_data s d now m) r) = Counter w'" "v \<le> w'"
      using True w by (simp_all add: set_data_def metric_at_def)
    then show ?thesis using w(1) by (auto simp: counter_at_def set_data_def)
  next
    case False
    then have "metric_at (set_data s d now m) r = metric_at m r" by (simp add: set_data_def metric_at_def)
    then show ?thesis using w by (auto simp: counter_at_def set_data_def)
  qed
qed

lemma counter_at_new: "counter_at m r v \<Longrightarrow> counter_at (fst (new_metric x m)) r v"
  by (auto simp: counter_at_def new_metric_def metric_at_def nth_append)

lemma counter_at_table [simp]: "counter_at (m\<lparr>mt_table := t\<rparr>) r v = counter_at m r v"
  by (simp add: counter_at_def metric_at_def)

lemma counter_at_get: "counter_at m r v \<Longrightarrow> counter_at (fst (get_or_create zero name desc ls now m)) r v"
  using counter_at_new [of m r v "mk_metric name zero desc ls now"]
  by (simp add: get_or_create_def Let_def split_beta split: option.split)

lemma counter_at_step:
  assumes "counter_at m r v" "\<forall>s. op \<noteq> MReset s"
  shows "counter_at (metric_step (now, op) m) r v"
proof (cases op)
  case (MRegister s)
  then show ?thesis using assms(1) by (simp add: kept_def mt_register_def Let_def)
next
  case (MInc s x)
  show ?thesis
  proof (cases "me_data (metric_at m s)")
    case (Counter y)
    then show ?thesis
      using MInc assms(1) by (auto simp: kept_def metric_inc_def intro!: counter_at_set)
  next
    case (Gauge y)
    then show ?thesis
      using MInc assms(1) by (auto simp: kept_def metric_inc_def intro!: counter_at_set)
  qed (use MInc assms(1) in \<open>simp add: kept_def metric_inc_def\<close>)
next
  case (MSet s x)
  then show ?thesis
    using assms(1) by (cases "me_data (metric_at m s)") (auto simp: kept_def gauge_set_def intro!: counter_at_set)
next
  case (MDec s x)
  then show ?thesis
    using assms(1) by (cases "me_data (metric_at m s)") (auto simp: kept_def gauge_dec_def intro!: counter_at_set)
next
  case (MObserve s x)
  then show ?thesis
    using assms(1) by (cases "me_data (metric_at m s)") (auto simp: kept_def histogram_observe_def intro!: counter_at_set)
next
  case (MReset s)
  then show ?thesis using assms(2) by simp
qed (use assms(1) in \<open>simp_all add: counter_at_new counter_at_get mt_clear_def\<close>)

lemma counter_at_steps:
  assumes "counter_at m r v" "\<forall>t s. (t, MReset s) \<notin> set ops"
  shows "counter_at (fold metric_step ops m) r v"
  using assms
proof (induction ops arbitrary: m)
  case (Cons op ops)
  obtain t o1 where o: "op = (t, o1)" by (cases op)
  have "counter_at (metric_step (t, o1) m) r v" using counter_at_step [OF Cons.prems(1), of o1 t] Cons.prems(2) o by auto
  from Cons.IH [OF this] show ?case using Cons.prems(2) o by simp
qed simp

section \<open>Properties\<close>

text \<open>
  \<open>C20\<close>. Whatever was done before, the registry behaves like a map from names and label sets to
  metrics: \<open>counter\<close>, \<open>gauge\<close> and \<open>histogram\<close> return the metric the map has, whatever the order of
  the labels is, refuse it if it is of another class, and add a new one if there is none; \<open>register\<close>
  adds the metric unless the map has one for its name and labels.
\<close>

theorem metrics_refine_map:
  assumes "wf_dict ls" "r < length (mt_heap (metric_run ops))"
  shows "let m = metric_run ops; x = metric_at m r; abs = (\<lambda>(m', res). (abs_metrics m', map_sum id (metric_at m') res)) in
     abs (get_counter name desc ls now m) = spec_get (Counter 0) name desc ls now (abs_metrics m)
     \<and> abs (get_gauge name desc ls now m) = spec_get (Gauge 0) name desc ls now (abs_metrics m)
     \<and> abs (get_histogram name desc ls now m) = spec_get (Histogram []) name desc ls now (abs_metrics m)
     \<and> (case mt_register r m of
          Inl e \<Rightarrow> e = metric_exists x \<and> abs_metrics m (me_name x) (map_of (me_labels x)) \<noteq> None
        | Inr m' \<Rightarrow> abs_metrics m (me_name x) (map_of (me_labels x)) = None
                   \<and> abs_metrics m' = map_metric x (abs_metrics m))"
proof -
  define m where "m = metric_run ops"
  have ok: "metrics_ok m" unfolding m_def by (rule metrics_ok_run)
  have get: "(\<lambda>(m', res). (abs_metrics m', map_sum id (metric_at m') res)) (get_or_create zero name desc ls now m)
      = spec_get zero name desc ls now (abs_metrics m)" if "case zero of Counter v \<Rightarrow> 0 \<le> v | _ \<Rightarrow> True" for zero
    using abs_get_or_create [OF ok assms(1) prod.collapse [symmetric] that, of name desc now]
    by (simp add: split_beta)
  show ?thesis
    using get [of "Counter 0"] get [of "Gauge 0"] get [of "Histogram []"] abs_register [OF ok assms(2) [folded m_def]]
    unfolding m_def [symmetric] Let_def get_counter_def get_gauge_def get_histogram_def by (auto split: sum.splits)
qed

theorem metrics_refine_map_witness:
  "\<exists>x. snd (spec_get (Gauge 0) ''cpu'' [] [(''b'', ''1''), (''a'', ''2'')] 5
        (abs_metrics (metric_run [(1, MGet (Counter 0) ''cpu'' [] [(''a'', ''2''), (''b'', ''1'')])]))) = Inl x"
proof -
  define m where "m = metric_run [(1, MGet (Counter 0) ''cpu'' [] [(''a'', ''2''), (''b'', ''1'')])]"
  have s: "sort [(''b'', ''1''), (''a'', ''2'')] = [(''a'', ''2''), (''b'', ''1'')]"
    "sort [(''a'', ''2''), (''b'', ''1'')] = [(''a'', ''2''), (''b'', ''1'')]" by code_simp+
  have m: "m = \<lparr> mt_heap = [mk_metric ''cpu'' (Counter 0) [] [(''a'', ''2''), (''b'', ''1'')] 1],
        mt_table = [((''cpu'', [(''a'', ''2''), (''b'', ''1'')]), 0)] \<rparr>"
    by (simp add: m_def metric_run_def get_or_create_def Let_def metric_key_def s mt_init_def new_metric_def wf_dict_def)
  then have r: "0 < length (mt_heap m)" by simp
  have g: "get_gauge ''cpu'' [] [(''b'', ''1''), (''a'', ''2'')] 5 m = (m, Inl (wrong_metric_type ''cpu'' (Counter 0) ''Gauge''))"
    by (simp add: m get_gauge_def get_or_create_def Let_def metric_key_def s metric_at_def mk_metric_def)
  show ?thesis
    using metrics_refine_map [of "[(''b'', ''1''), (''a'', ''2'')]" 0 "[(1, MGet (Counter 0) ''cpu'' [] [(''a'', ''2''), (''b'', ''1'')])]"
        "''cpu''" "[]" 5, folded m_def, OF _ r] g
    unfolding m_def [symmetric] by (simp add: Let_def wf_dict_def) (metis snd_conv)
qed

text \<open>
  Counters count up: no operation other than \<open>reset\<close> lowers the value of a counter, be it
  registered or not, and a counter is never negative.
\<close>

theorem counters_monotone:
  assumes "r < length (mt_heap (metric_run ops))" "me_data (metric_at (metric_run ops) r) = Counter v"
    "\<forall>t s. (t, MReset s) \<notin> set later"
  shows "0 \<le> v \<and> (\<exists>w \<ge> v. me_data (metric_at (metric_run (ops @ later)) r) = Counter w)"
proof -
  have "counter_at (metric_run ops) r v" using assms(1,2) by (simp add: counter_at_def)
  then have "counter_at (metric_run (ops @ later)) r v"
    using counter_at_steps [OF _ assms(3)] by (simp add: metric_run_def)
  then show ?thesis using metrics_ok_counter [OF metrics_ok_run assms(1,2)] by (auto simp: counter_at_def)
qed

theorem counters_monotone_witness:
  "\<exists>w \<ge> 0. me_data (metric_at (metric_run ([(1, MGet (Counter 0) ''c'' [] [])] @ [(2, MInc 0 3), (3, MInc 0 (- 1))])) 0) = Counter w"
proof -
  have m: "metric_run [(1, MGet (Counter 0) ''c'' [] [])]
      = \<lparr> mt_heap = [mk_metric ''c'' (Counter 0) [] [] 1], mt_table = [((''c'', []), 0)] \<rparr>"
    by (simp add: metric_run_def get_or_create_def Let_def metric_key_def mt_init_def new_metric_def)
  show ?thesis
    using counters_monotone [of 0 "[(1, MGet (Counter 0) ''c'' [] [])]" 0 "[(2, MInc 0 3), (3, MInc 0 (- 1))]"]
    unfolding m by (simp add: metric_at_def mk_metric_def)
qed

end
