(* ===== verification/ContextStore.thy ===== *)
theory ContextStore
  imports MemoryStore
begin

text \<open>
  \<open>yasin_core/context\<close>: the basic \<open>Context\<close> with the current-context variable, \<open>RuntimeContext\<close> and the
  \<open>ContextEngine\<close>. Contexts are objects that callers share with the engine: they live in \<open>ce_heap\<close> and
  a reference is an index of it. The recursion of \<open>get\<close> into the parents takes the depth that the
  interpreter still allows. Stored payloads are read with the types that \<open>serialize\<close> gives them.
\<close>

section \<open>The current context\<close>

definition ctx_dict_set :: "string \<Rightarrow> pyval \<Rightarrow> pydict \<Rightarrow> pydict" where
  "ctx_dict_set k v d = AList.update k v d"

definition ctx_dict_delete :: "string \<Rightarrow> pydict \<Rightarrow> pydict" where
  "ctx_dict_delete k d = (if dict_has d k then AList.delete k d else d)"

text \<open>The variable holds a context or nothing; reading it makes an empty one if need be.\<close>

definition get_current_context :: "'c \<Rightarrow> 'c option \<Rightarrow> 'c \<times> 'c option" where
  "get_current_context new var = (case var of None \<Rightarrow> (new, Some new) | Some c \<Rightarrow> (c, Some c))"

text \<open>\<open>with active_context(c): body\<close>: the old value comes back, however the body ends.\<close>

definition active_context :: "'c \<Rightarrow> ('c option \<Rightarrow> 'r \<times> 'c option) \<Rightarrow> 'c option \<Rightarrow> 'r \<times> 'c option" where
  "active_context c body var = (fst (body (Some c)), var)"

section \<open>Runtime contexts\<close>

record rctx =
  rc_id :: string
  rc_parent :: "string option"
  rc_data :: pydict
  rc_metadata :: pydict
  rc_active :: bool
  rc_engine :: bool
  rc_ttl :: pyval
  rc_tags :: "string list"
  rc_created_at :: string
  rc_updated_at :: string
  rc_expires_at :: "string option"

text \<open>
  \<open>(datetime.fromisoformat(created) + timedelta(seconds=ttl)).isoformat()\<close>: the offset of the text
  is kept, and so is its absence; a text that cannot be read counts as the present time.
\<close>

definition created_plus :: "clock \<Rightarrow> string \<Rightarrow> pyval \<Rightarrow> exn + string" where
  "created_plus ck s ttl =
     (case split_offset s of
        Some (p, off) \<Rightarrow>
          (case (if \<bar>off\<bar> < 1440 then fromisoformat p else None) of
             Some t \<Rightarrow> and_then (plus_seconds (to_micros t) ttl) (\<lambda>n. Inr (isoformat (of_micros n) @ drop (length s - 6) s))
           | None \<Rightarrow> and_then (plus_seconds (ck_now ck) ttl) (\<lambda>n. Inr (iso_utc n)))
      | None \<Rightarrow>
          (case fromisoformat s of
             Some t \<Rightarrow> and_then (plus_seconds (to_micros t) ttl) (\<lambda>n. Inr (isoformat (of_micros n)))
           | None \<Rightarrow> and_then (plus_seconds (ck_now ck) ttl) (\<lambda>n. Inr (iso_utc n))))"

definition given_or :: "string option \<Rightarrow> string \<Rightarrow> string" where
  "given_or s dflt = (case s of Some x \<Rightarrow> if x = [] then dflt else x | None \<Rightarrow> dflt)"

text \<open>The constructor; \<open>fresh\<close> is the identifier that \<open>uuid4\<close> gives.\<close>

definition mk_rctx ::
  "clock \<Rightarrow> string \<Rightarrow> string option \<Rightarrow> string option \<Rightarrow> pydict \<Rightarrow> pydict \<Rightarrow> bool \<Rightarrow> pyval \<Rightarrow> string list
   \<Rightarrow> string option \<Rightarrow> string option \<Rightarrow> string option \<Rightarrow> exn + rctx" where
  "mk_rctx ck fresh cid parent data md eng ttl tags created updated expires =
     (let now = iso_utc (ck_now ck); created_at = given_or created now
      in and_then
          (if given_or expires [] \<noteq> [] then Inr expires
           else if ttl \<noteq> PNone then and_then (created_plus ck created_at ttl) (\<lambda>s. Inr (Some s))
           else Inr None)
          (\<lambda>expires_at. Inr \<lparr> rc_id = given_or cid fresh, rc_parent = parent, rc_data = data, rc_metadata = md,
             rc_active = True, rc_engine = eng, rc_ttl = ttl, rc_tags = tags, rc_created_at = created_at,
             rc_updated_at = given_or updated now, rc_expires_at = expires_at \<rparr>))"

text \<open>The comparison with a naive time raises, and the handler answers that the context has not expired.\<close>

definition rc_expired :: "clock \<Rightarrow> rctx \<Rightarrow> bool" where
  "rc_expired ck c =
     (case rc_expires_at c of
        None \<Rightarrow> False
      | Some s \<Rightarrow>
          if s = [] then False
          else case parse_instant s of
                 Some (t, True) \<Rightarrow> int (ck_now ck) \<ge> t
               | _ \<Rightarrow> False)"

definition rc_serialize :: "rctx \<Rightarrow> pydict" where
  "rc_serialize c =
     [(''id'', PStr (rc_id c)), (''parent_id'', opt_str (rc_parent c)), (''metadata'', PDict (rc_metadata c)),
      (''data'', PDict (rc_data c)), (''active'', PBool (rc_active c)), (''ttl'', rc_ttl c),
      (''tags'', PList (map PStr (rc_tags c))), (''created_at'', PStr (rc_created_at c)),
      (''updated_at'', PStr (rc_updated_at c)), (''expires_at'', opt_str (rc_expires_at c))]"

definition dict_field :: "pydict \<Rightarrow> string \<Rightarrow> exn + pydict" where
  "dict_field d k = (case pyget d k of PNone \<Rightarrow> Inr [] | PDict x \<Rightarrow> Inr x | _ \<Rightarrow> Inl (Exn TypeErr k))"

fun the_strs :: "pyval list \<Rightarrow> string list option" where
  "the_strs [] = Some []"
| "the_strs (PStr s # vs) = map_option ((#) s) (the_strs vs)"
| "the_strs _ = None"

definition strs_field :: "pydict \<Rightarrow> string \<Rightarrow> exn + string list" where
  "strs_field d k =
     (case pyget d k of
        PNone \<Rightarrow> Inr []
      | PList vs \<Rightarrow> (case the_strs vs of Some ss \<Rightarrow> Inr ss | None \<Rightarrow> Inl (Exn TypeErr k))
      | _ \<Rightarrow> Inl (Exn TypeErr k))"

definition bool_field :: "pydict \<Rightarrow> string \<Rightarrow> bool \<Rightarrow> exn + bool" where
  "bool_field d k dflt = (case map_of d k of None \<Rightarrow> Inr dflt | Some (PBool b) \<Rightarrow> Inr b | _ \<Rightarrow> Inl (Exn TypeErr k))"

definition rc_deserialize :: "clock \<Rightarrow> string \<Rightarrow> bool \<Rightarrow> pydict \<Rightarrow> exn + rctx" where
  "rc_deserialize ck fresh eng d =
     and_then (str_field d ''id'') (\<lambda>cid. and_then (str_field d ''parent_id'') (\<lambda>parent.
     and_then (dict_field d ''data'') (\<lambda>data. and_then (dict_field d ''metadata'') (\<lambda>md.
     and_then (strs_field d ''tags'') (\<lambda>tags. and_then (str_field d ''created_at'') (\<lambda>created.
     and_then (str_field d ''updated_at'') (\<lambda>updated. and_then (str_field d ''expires_at'') (\<lambda>expires.
     and_then (bool_field d ''active'' True) (\<lambda>act.
     and_then (mk_rctx ck fresh cid parent data md eng (pyget d ''ttl'') tags created updated expires)
       (\<lambda>c. Inr (c\<lparr>rc_active := act\<rparr>)))))))))))"

section \<open>The engine\<close>

record cengine =
  ce_heap :: "rctx list"
  ce_table :: "(string \<times> nat) list"
  ce_bus :: bool
  ce_events :: "(string \<times> pydict) list"

definition ce_init :: "bool \<Rightarrow> cengine" where
  "ce_init bus = \<lparr> ce_heap = [], ce_table = [], ce_bus = bus, ce_events = [] \<rparr>"

definition ctx_at :: "cengine \<Rightarrow> nat \<Rightarrow> rctx" where
  "ctx_at e r = ce_heap e ! r"

definition upd_ctx :: "nat \<Rightarrow> (rctx \<Rightarrow> rctx) \<Rightarrow> cengine \<Rightarrow> cengine" where
  "upd_ctx r f e = e\<lparr>ce_heap := (ce_heap e)[r := f (ctx_at e r)]\<rparr>"

definition ce_publish :: "string \<Rightarrow> pydict \<Rightarrow> cengine \<Rightarrow> cengine" where
  "ce_publish name payload e = (if ce_bus e then e\<lparr>ce_events := ce_events e @ [(name, payload)]\<rparr> else e)"

definition publish_update :: "nat \<Rightarrow> cengine \<Rightarrow> cengine" where
  "publish_update r e =
     (let c = ctx_at e r
      in ce_publish ''context_updated'' [(''context_id'', PStr (rc_id c)), (''metadata'', PDict (rc_metadata c)),
           (''tags'', PList (map PStr (rc_tags c))), (''updated_at'', PStr (rc_updated_at c))] e)"

definition create_context ::
  "clock \<Rightarrow> string \<Rightarrow> pydict \<Rightarrow> string option \<Rightarrow> pydict \<Rightarrow> pyval \<Rightarrow> string list \<Rightarrow> cengine \<Rightarrow> exn + cengine \<times> nat" where
  "create_context ck fresh data parent md ttl tags e =
     and_then (mk_rctx ck fresh None parent data md True ttl tags None None None)
       (\<lambda>c. let r = length (ce_heap e)
            in Inr (ce_publish ''context_created'' [(''context_id'', PStr (rc_id c)), (''parent_id'', opt_str (rc_parent c)),
                    (''metadata'', PDict (rc_metadata c)), (''tags'', PList (map PStr (rc_tags c))), (''ttl'', rc_ttl c)]
                    (e\<lparr>ce_heap := ce_heap e @ [c], ce_table := AList.update (rc_id c) r (ce_table e)\<rparr>), r))"

definition deactivate :: "rctx \<Rightarrow> rctx" where
  "deactivate c = c\<lparr>rc_active := False\<rparr>"

text \<open>The context is taken out under its own identifier, which need not be the key it was found under.\<close>

definition handle_expiration :: "nat \<Rightarrow> cengine \<Rightarrow> cengine" where
  "handle_expiration r e =
     (let cid = rc_id (ctx_at e r)
      in if dict_has (ce_table e) cid
         then let e1 = upd_ctx r deactivate e
              in ce_publish ''context_expired'' [(''context_id'', PStr cid)] (e1\<lparr>ce_table := AList.delete cid (ce_table e1)\<rparr>)
         else e)"

definition get_context :: "clock \<Rightarrow> string \<Rightarrow> cengine \<Rightarrow> cengine \<times> nat option" where
  "get_context ck cid e =
     (case map_of (ce_table e) cid of
        None \<Rightarrow> (e, None)
      | Some r \<Rightarrow> if rc_expired ck (ctx_at e r) then (handle_expiration r e, None) else (e, Some r))"

definition has_context :: "clock \<Rightarrow> string \<Rightarrow> cengine \<Rightarrow> cengine \<times> bool" where
  "has_context ck cid e =
     (case map_of (ce_table e) cid of
        None \<Rightarrow> (e, False)
      | Some r \<Rightarrow> if rc_expired ck (ctx_at e r) then (handle_expiration r e, False) else (e, True))"

definition delete_context :: "string \<Rightarrow> cengine \<Rightarrow> cengine" where
  "delete_context cid e =
     (case map_of (ce_table e) cid of
        None \<Rightarrow> e
      | Some r \<Rightarrow>
          let e1 = upd_ctx r deactivate e
          in ce_publish ''context_deleted'' [(''context_id'', PStr cid)] (e1\<lparr>ce_table := AList.delete cid (ce_table e1)\<rparr>))"

definition prune_expired :: "clock \<Rightarrow> cengine \<Rightarrow> cengine" where
  "prune_expired ck e =
     fold handle_expiration (filter (\<lambda>r. rc_expired ck (ctx_at e r)) (map snd (ce_table e))) e"

definition list_contexts :: "clock \<Rightarrow> bool \<Rightarrow> string list \<Rightarrow> cengine \<Rightarrow> cengine \<times> string list" where
  "list_contexts ck active_only tags e =
     (let e1 = prune_expired ck e
      in (e1, map fst (filter (\<lambda>p. (active_only \<longrightarrow> rc_active (ctx_at e1 (snd p)))
                                 \<and> list_all (\<lambda>t. t \<in> set (rc_tags (ctx_at e1 (snd p)))) tags) (ce_table e1))))"

definition clear_contexts :: "cengine \<Rightarrow> cengine" where
  "clear_contexts e = (fold (\<lambda>r. upd_ctx r deactivate) (map snd (ce_table e)) e)\<lparr>ce_table := []\<rparr>"

section \<open>Reading and writing a context\<close>

definition context_recursion :: exn where
  "context_recursion = Exn RecursionErr ''maximum recursion depth exceeded''"

primrec ctx_get :: "nat \<Rightarrow> clock \<Rightarrow> nat \<Rightarrow> string \<Rightarrow> pyval \<Rightarrow> cengine \<Rightarrow> cengine \<times> (exn + pyval)" where
  "ctx_get 0 ck r k dflt e = (e, Inl context_recursion)"
| "ctx_get (Suc depth) ck r k dflt e =
     (let c = ctx_at e r
      in case map_of (rc_data c) k of
           Some v \<Rightarrow> (e, Inr v)
         | None \<Rightarrow>
             if given_or (rc_parent c) [] \<noteq> [] \<and> rc_engine c
             then (case get_context ck (given_or (rc_parent c) []) e of
                     (e1, Some q) \<Rightarrow> ctx_get depth ck q k dflt e1
                   | (e1, None) \<Rightarrow> (e1, Inr dflt))
             else (e, Inr dflt))"

definition touch :: "clock \<Rightarrow> rctx \<Rightarrow> rctx" where
  "touch ck c = c\<lparr>rc_updated_at := iso_utc (ck_now ck)\<rparr>"

definition ctx_changed :: "nat \<Rightarrow> cengine \<Rightarrow> cengine" where
  "ctx_changed r e = (if rc_engine (ctx_at e r) then publish_update r e else e)"

definition ctx_set :: "clock \<Rightarrow> nat \<Rightarrow> string \<Rightarrow> pyval \<Rightarrow> cengine \<Rightarrow> cengine" where
  "ctx_set ck r k v e = ctx_changed r (upd_ctx r (\<lambda>c. touch ck (c\<lparr>rc_data := ctx_dict_set k v (rc_data c)\<rparr>)) e)"

definition ctx_delete :: "clock \<Rightarrow> nat \<Rightarrow> string \<Rightarrow> cengine \<Rightarrow> cengine" where
  "ctx_delete ck r k e = ctx_changed r (upd_ctx r (\<lambda>c. touch ck (c\<lparr>rc_data := ctx_dict_delete k (rc_data c)\<rparr>)) e)"

definition ctx_clear :: "clock \<Rightarrow> nat \<Rightarrow> cengine \<Rightarrow> cengine" where
  "ctx_clear ck r e = ctx_changed r (upd_ctx r (\<lambda>c. touch ck (c\<lparr>rc_data := []\<rparr>)) e)"

definition with_context :: "clock \<Rightarrow> string \<Rightarrow> (rctx \<Rightarrow> rctx) \<Rightarrow> cengine \<Rightarrow> cengine \<times> nat option" where
  "with_context ck cid f e =
     (case get_context ck cid e of
        (e1, None) \<Rightarrow> (e1, None)
      | (e1, Some r) \<Rightarrow> (publish_update r (upd_ctx r (\<lambda>c. touch ck (f c)) e1), Some r))"

definition update_context_data :: "clock \<Rightarrow> string \<Rightarrow> pydict \<Rightarrow> cengine \<Rightarrow> cengine \<times> nat option" where
  "update_context_data ck cid data =
     with_context ck cid (\<lambda>c. c\<lparr>rc_data := fold (\<lambda>(k, v). AList.update k v) data (rc_data c)\<rparr>)"

definition update_context_metadata :: "clock \<Rightarrow> string \<Rightarrow> pydict \<Rightarrow> cengine \<Rightarrow> cengine \<times> nat option" where
  "update_context_metadata ck cid md =
     with_context ck cid (\<lambda>c. c\<lparr>rc_metadata := fold (\<lambda>(k, v). AList.update k v) md (rc_metadata c)\<rparr>)"

definition add_tags :: "clock \<Rightarrow> string \<Rightarrow> string list \<Rightarrow> cengine \<Rightarrow> cengine \<times> nat option" where
  "add_tags ck cid tags =
     with_context ck cid (\<lambda>c. c\<lparr>rc_tags := fold (\<lambda>t ts. if t \<in> set ts then ts else ts @ [t]) tags (rc_tags c)\<rparr>)"

definition context_status :: "rctx \<Rightarrow> pydict" where
  "context_status c =
     [(''parent_id'', opt_str (rc_parent c)), (''metadata'', PDict (rc_metadata c)), (''active'', PBool (rc_active c)),
      (''ttl'', rc_ttl c), (''tags'', PList (map PStr (rc_tags c))), (''created_at'', PStr (rc_created_at c)),
      (''updated_at'', PStr (rc_updated_at c)), (''expires_at'', opt_str (rc_expires_at c))]"

definition engine_status :: "clock \<Rightarrow> cengine \<Rightarrow> cengine \<times> pydict" where
  "engine_status ck e =
     (let e1 = prune_expired ck e
      in (e1, [(''total_contexts'', PInt (int (length (ce_table e1)))),
               (''active_contexts'', PInt (int (length (filter (\<lambda>p. rc_active (ctx_at e1 (snd p))) (ce_table e1))))),
               (''contexts'', PDict (map (\<lambda>(cid, r). (cid, PDict (context_status (ctx_at e1 r)))) (ce_table e1)))]))"

section \<open>Storage and memories\<close>

definition save_context :: "'s storage_ops \<Rightarrow> clock \<Rightarrow> string \<Rightarrow> string \<Rightarrow> cengine \<Rightarrow> 's \<Rightarrow> cengine \<times> 's \<times> exn option" where
  "save_context ops ck cid key_prefix e s =
     (case get_context ck cid e of
        (e1, None) \<Rightarrow> (e1, s, None)
      | (e1, Some r) \<Rightarrow> (e1, st_set ops (key_prefix @ cid) (PDict (rc_serialize (ctx_at e1 r))) s))"

text \<open>A payload that is empty or missing loads nothing; one that is no dictionary has no \<open>get\<close>.\<close>

definition load_context ::
  "'s storage_ops \<Rightarrow> clock \<Rightarrow> string \<Rightarrow> string \<Rightarrow> string \<Rightarrow> 's \<Rightarrow> cengine \<Rightarrow> cengine \<times> (exn + nat option)" where
  "load_context ops ck fresh cid key_prefix s e =
     (case st_get ops (key_prefix @ cid) s of
        None \<Rightarrow> (e, Inr None)
      | Some payload \<Rightarrow>
          if \<not> truthy payload then (e, Inr None)
          else case payload of
                 PDict d \<Rightarrow>
                   (case rc_deserialize ck fresh True d of
                      Inl x \<Rightarrow> (e, Inl x)
                    | Inr c \<Rightarrow>
                        let r = length (ce_heap e)
                        in (e\<lparr>ce_heap := ce_heap e @ [c], ce_table := AList.update (rc_id c) r (ce_table e)\<rparr>, Inr (Some r)))
               | _ \<Rightarrow> (e, Inl (Exn AttributeErr ''get'')))"

definition save_all_contexts :: "'s storage_ops \<Rightarrow> string \<Rightarrow> cengine \<Rightarrow> 's \<Rightarrow> 's \<times> exn option" where
  "save_all_contexts ops key e s =
     st_set ops key (PDict (map (\<lambda>(cid, r). (cid, PDict (rc_serialize (ctx_at e r)))) (ce_table e))) s"

text \<open>The contexts are registered under the keys of the payload; an error keeps those before it.\<close>

fun load_entries :: "clock \<Rightarrow> (nat \<Rightarrow> string) \<Rightarrow> pydict \<Rightarrow> cengine \<Rightarrow> cengine \<times> exn option" where
  "load_entries ck fresh [] e = (e, None)"
| "load_entries ck fresh ((cid, PDict d) # ps) e =
     (case rc_deserialize ck (fresh (length (ce_heap e))) True d of
        Inl x \<Rightarrow> (e, Some x)
      | Inr c \<Rightarrow> load_entries ck fresh ps
          (e\<lparr>ce_heap := ce_heap e @ [c], ce_table := AList.update cid (length (ce_heap e)) (ce_table e)\<rparr>))"
| "load_entries ck fresh ((cid, _) # ps) e = (e, Some (Exn AttributeErr ''get''))"

definition load_all_contexts :: "'s storage_ops \<Rightarrow> clock \<Rightarrow> (nat \<Rightarrow> string) \<Rightarrow> string \<Rightarrow> 's \<Rightarrow> cengine \<Rightarrow> cengine \<times> exn option" where
  "load_all_contexts ops ck fresh key s e =
     (case st_get ops key s of
        Some (PDict d) \<Rightarrow> load_entries ck fresh d e
      | _ \<Rightarrow> (e, None))"

definition retrieve_context_memories ::
  "(pydict \<Rightarrow> 'a \<Rightarrow> 'a \<times> memory_entry list) \<Rightarrow> (pydict \<Rightarrow> 'b \<Rightarrow> 'b \<times> memory_entry list) \<Rightarrow> string \<Rightarrow> 'a \<Rightarrow> 'b
   \<Rightarrow> 'a \<times> 'b \<times> pydict" where
  "retrieve_context_memories filter_short filter_long cid short long =
     (let (short1, es1) = filter_short [(''context_id'', PStr cid)] short;
          (long1, es2) = filter_long [(''context_id'', PStr cid)] long
      in (short1, long1, [(''short-term'', PList (map (\<lambda>x. PDict (entry_to_dict x)) es1)),
                          (''long-term'', PList (map (\<lambda>x. PDict (entry_to_dict x)) es2))]))"

end
