(* ===== verification/ContextLife.thy ===== *)
theory ContextLife
  imports ContextStore
begin

text \<open>
  The properties of the context engine: its invariant along runs, expiry, the search along the
  parents, and saving and loading.
\<close>

section \<open>Frames\<close>

lemma ce_publish_fields [state_frames, simp]:
  "ce_heap (ce_publish n p e) = ce_heap e" "ce_table (ce_publish n p e) = ce_table e" "ctx_at (ce_publish n p e) r = ctx_at e r"
  by (simp_all add: ce_publish_def ctx_at_def)

lemma ctx_at_table [simp]: "ctx_at (e\<lparr>ce_table := t\<rparr>) r = ctx_at e r"
  by (simp add: ctx_at_def)

lemma upd_ctx_fields [state_frames, simp]:
  "ce_table (upd_ctx r f e) = ce_table e" "length (ce_heap (upd_ctx r f e)) = length (ce_heap e)"
  by (simp_all add: upd_ctx_def)

lemma ctx_at_upd: "r < length (ce_heap e) \<Longrightarrow> ctx_at (upd_ctx r f e) q = (if q = r then f (ctx_at e r) else ctx_at e q)"
  by (simp add: upd_ctx_def ctx_at_def)

lemma publish_update_fields [state_frames, simp]:
  "ce_heap (publish_update r e) = ce_heap e" "ce_table (publish_update r e) = ce_table e" "ctx_at (publish_update r e) q = ctx_at e q"
  by (simp_all add: publish_update_def Let_def)

lemma ctx_changed_fields [state_frames, simp]:
  "ce_heap (ctx_changed r e) = ce_heap e" "ce_table (ctx_changed r e) = ce_table e"
  by (simp_all add: ctx_changed_def)

section \<open>The invariant\<close>

definition rc_wf :: "rctx \<Rightarrow> bool" where
  "rc_wf c \<longleftrightarrow> rc_id c \<noteq> [] \<and> rc_created_at c \<noteq> [] \<and> rc_updated_at c \<noteq> [] \<and> rc_expires_at c \<noteq> Some []
     \<and> (rc_ttl c \<noteq> PNone \<longrightarrow> rc_expires_at c \<noteq> None) \<and> rc_engine c"

definition engine_ok :: "cengine \<Rightarrow> bool" where
  "engine_ok e \<longleftrightarrow>
     wf_dict (ce_table e) \<and> list_all rc_wf (ce_heap e) \<and>
     (\<forall>p \<in> set (ce_table e). snd p < length (ce_heap e) \<and> rc_id (ctx_at e (snd p)) = fst p)"

lemma engine_ok_init: "engine_ok (ce_init bus)"
  by (simp add: engine_ok_def ce_init_def)

lemma engine_ok_frame:
  "ce_heap e' = ce_heap e \<Longrightarrow> ce_table e' = ce_table e \<Longrightarrow> engine_ok e \<Longrightarrow> engine_ok e'"
  by (simp add: engine_ok_def ctx_at_def)

lemma engine_ok_upd:
  assumes "engine_ok e" "\<And>c. rc_wf c \<Longrightarrow> rc_wf (f c) \<and> rc_id (f c) = rc_id c"
  shows "engine_ok (upd_ctx r f e)"
proof (cases "r < length (ce_heap e)")
  case True
  then have "rc_wf (ctx_at e r)" using assms(1) by (simp add: engine_ok_def ctx_at_def list_all_length)
  then show ?thesis
    using assms True ctx_at_upd [OF True, of f]
    by (auto simp: engine_ok_def list_all_length) (auto simp: upd_ctx_def ctx_at_def nth_list_update)
next
  case False
  then have "upd_ctx r f e = e" by (cases e) (simp add: upd_ctx_def list_update_beyond)
  then show ?thesis using assms(1) by simp
qed

lemma engine_ok_delete: "engine_ok e \<Longrightarrow> engine_ok (e\<lparr>ce_table := AList.delete k (ce_table e)\<rparr>)"
  by (auto simp: engine_ok_def set_delete)

lemma engine_ok_add:
  assumes "engine_ok e" "rc_wf c"
  shows "engine_ok (e\<lparr>ce_heap := ce_heap e @ [c], ce_table := AList.update (rc_id c) (length (ce_heap e)) (ce_table e)\<rparr>)"
  using assms by (auto simp: engine_ok_def set_update_wf ctx_at_def nth_append)

lemma rc_wf_changes [simp]:
  "rc_wf (deactivate c) = rc_wf c" "rc_id (deactivate c) = rc_id c" "rc_id (touch ck c) = rc_id c"
  "rc_wf c \<Longrightarrow> rc_wf (touch ck c)" "rc_wf (c\<lparr>rc_data := d\<rparr>) = rc_wf c" "rc_wf (c\<lparr>rc_metadata := d\<rparr>) = rc_wf c"
  "rc_wf (c\<lparr>rc_tags := ts\<rparr>) = rc_wf c" "rc_wf (c\<lparr>rc_active := b\<rparr>) = rc_wf c"
  by (simp_all add: rc_wf_def deactivate_def touch_def)

lemma given_or_nonempty [simp]: "d \<noteq> [] \<Longrightarrow> given_or s d \<noteq> []"
  by (simp add: given_or_def split: option.split)

lemma given_or_nil: "given_or s [] = [] \<longleftrightarrow> s = None \<or> s = Some []"
  by (auto simp: given_or_def split: option.split)

lemma created_plus_nonempty: "created_plus ck s ttl = Inr x \<Longrightarrow> x \<noteq> []"
  by (auto simp: created_plus_def isoformat_def and_then_Inr split: option.splits)

lemma mk_rctx_wf:
  assumes "mk_rctx ck fresh cid parent data md True ttl tags created updated expires = Inr c" "fresh \<noteq> []"
  shows "rc_wf c"
  using assms
  by (auto simp: mk_rctx_def Let_def and_then_Inr rc_wf_def given_or_nil created_plus_nonempty split: if_splits)

lemma rc_deserialize_wf: "rc_deserialize ck fresh True d = Inr c \<Longrightarrow> fresh \<noteq> [] \<Longrightarrow> rc_wf c"
  by (auto simp: rc_deserialize_def and_then_Inr dest!: mk_rctx_wf)

lemma handle_expiration_ok: "engine_ok e \<Longrightarrow> engine_ok (handle_expiration r e)"
proof -
  assume ok: "engine_ok e"
  have "engine_ok ((upd_ctx r deactivate e)\<lparr>ce_table := AList.delete k (ce_table (upd_ctx r deactivate e))\<rparr>)" for k
    by (rule engine_ok_delete [OF engine_ok_upd [OF ok]]) simp
  then have "engine_ok (ce_publish n p ((upd_ctx r deactivate e)\<lparr>ce_table := AList.delete k (ce_table (upd_ctx r deactivate e))\<rparr>))" for n p k
    by (rule engine_ok_frame [rotated 2]) simp_all
  then show ?thesis using ok by (simp add: handle_expiration_def Let_def)
qed

lemma get_context_ok: "engine_ok e \<Longrightarrow> engine_ok (fst (get_context ck cid e))"
  by (simp add: get_context_def handle_expiration_ok split: option.split)

lemma prune_ok: "engine_ok e \<Longrightarrow> engine_ok (prune_expired ck e)"
proof -
  have "engine_ok e \<Longrightarrow> engine_ok (fold handle_expiration rs e)" for rs
    by (induction rs arbitrary: e) (simp_all add: handle_expiration_ok)
  then show "engine_ok e \<Longrightarrow> engine_ok (prune_expired ck e)" by (simp add: prune_expired_def)
qed

lemma ctx_get_ok: "engine_ok e \<Longrightarrow> engine_ok (fst (ctx_get depth ck r k dflt e))"
proof (induction depth arbitrary: r e)
  case (Suc depth)
  have "engine_ok (fst (get_context ck p e))" for p using get_context_ok [OF Suc.prems] .
  then show ?case
    using Suc by (auto simp: Let_def split: option.splits prod.splits) (metis fst_conv)+
qed simp

lemma with_context_ok:
  assumes "engine_ok e" "\<And>c. rc_wf c \<Longrightarrow> rc_wf (f c) \<and> rc_id (f c) = rc_id c"
  shows "engine_ok (fst (with_context ck cid f e))"
proof -
  obtain e1 r where g: "get_context ck cid e = (e1, r)" by (meson surj_pair)
  have "engine_ok e1" using get_context_ok [OF assms(1), of ck cid] g by simp
  then have "engine_ok (upd_ctx q (\<lambda>c. touch ck (f c)) e1)" for q
    by (rule engine_ok_upd) (simp add: assms(2))
  then have "engine_ok (publish_update q (upd_ctx q (\<lambda>c. touch ck (f c)) e1))" for q
    by (rule engine_ok_frame [rotated 2]) simp_all
  then show ?thesis using g \<open>engine_ok e1\<close> by (simp add: with_context_def split: option.split)
qed

lemma ctx_write_ok:
  assumes "engine_ok e" "\<And>c. rc_wf c \<Longrightarrow> rc_wf (f c) \<and> rc_id (f c) = rc_id c"
  shows "engine_ok (ctx_changed r (upd_ctx r (\<lambda>c. touch ck (f c)) e))"
proof (rule engine_ok_frame [of _ "upd_ctx r (\<lambda>c. touch ck (f c)) e"])
  show "engine_ok (upd_ctx r (\<lambda>c. touch ck (f c)) e)"
    by (rule engine_ok_upd [OF assms(1)]) (simp add: assms(2))
qed simp_all

section \<open>Runs\<close>

datatype context_op =
    CoCreate string pydict "string option" pydict pyval "string list"
  | CoGet string
  | CoHas string
  | CoDelete string
  | CoList bool "string list"
  | CoClear
  | CoStatus
  | CoRead nat nat string pyval
  | CoWrite nat string pyval
  | CoRemove nat string
  | CoWipe nat
  | CoUpdate string pydict
  | CoMeta string pydict
  | CoTags string "string list"
  | CoLoad string string mem_storage

text \<open>Fresh identifiers are not empty.\<close>

fun context_step :: "clock \<times> context_op \<Rightarrow> cengine \<Rightarrow> cengine" where
  "context_step (ck, CoCreate fresh d parent md ttl tags) e =
     (if fresh = [] then e else case create_context ck fresh d parent md ttl tags e of Inl _ \<Rightarrow> e | Inr (e', _) \<Rightarrow> e')"
| "context_step (ck, CoGet cid) e = fst (get_context ck cid e)"
| "context_step (ck, CoHas cid) e = fst (has_context ck cid e)"
| "context_step (ck, CoDelete cid) e = delete_context cid e"
| "context_step (ck, CoList active tags) e = fst (list_contexts ck active tags e)"
| "context_step (ck, CoClear) e = clear_contexts e"
| "context_step (ck, CoStatus) e = fst (engine_status ck e)"
| "context_step (ck, CoRead depth r k d) e = fst (ctx_get depth ck r k d e)"
| "context_step (ck, CoWrite r k v) e = ctx_set ck r k v e"
| "context_step (ck, CoRemove r k) e = ctx_delete ck r k e"
| "context_step (ck, CoWipe r) e = ctx_clear ck r e"
| "context_step (ck, CoUpdate cid d) e = fst (update_context_data ck cid d e)"
| "context_step (ck, CoMeta cid d) e = fst (update_context_metadata ck cid d e)"
| "context_step (ck, CoTags cid ts) e = fst (add_tags ck cid ts e)"
| "context_step (ck, CoLoad fresh cid s) e =
     (if fresh = [] then e else fst (load_context mem_ops ck fresh cid ''context:'' s e))"

definition context_run :: "bool \<Rightarrow> (clock \<times> context_op) list \<Rightarrow> cengine" where
  "context_run bus ops = fold context_step ops (ce_init bus)"

lemma create_context_ok:
  assumes "engine_ok e" "create_context ck fresh d parent md ttl tags e = Inr (e', r)" "fresh \<noteq> []"
  shows "engine_ok e'"
proof -
  obtain c where c: "mk_rctx ck fresh None parent d md True ttl tags None None None = Inr c"
    "ce_heap e' = ce_heap e @ [c]" "ce_table e' = AList.update (rc_id c) (length (ce_heap e)) (ce_table e)"
    using assms(2) by (auto simp: create_context_def and_then_Inr Let_def)
  show ?thesis
    using engine_ok_frame [OF _ _ engine_ok_add [OF assms(1) mk_rctx_wf [OF c(1) assms(3)]], of e'] c(2,3) by simp
qed

lemma load_context_ok:
  assumes "engine_ok e" "load_context ops ck fresh cid px s e = (e', r)" "fresh \<noteq> []"
  shows "engine_ok e'"
proof (cases "e' = e")
  case False
  then obtain c d where c: "rc_deserialize ck fresh True d = Inr c"
    "e' = e\<lparr>ce_heap := ce_heap e @ [c], ce_table := AList.update (rc_id c) (length (ce_heap e)) (ce_table e)\<rparr>"
    using assms(2) by (auto simp: load_context_def Let_def split: option.splits if_splits pyval.splits sum.splits)
  show ?thesis unfolding c(2) by (rule engine_ok_add [OF assms(1) rc_deserialize_wf [OF c(1) assms(3)]])
qed (use assms(1) in simp)

lemma clear_contexts_ok: "engine_ok e \<Longrightarrow> engine_ok (clear_contexts e)"
proof -
  have "engine_ok e \<Longrightarrow> engine_ok (fold (\<lambda>r. upd_ctx r deactivate) rs e)" for rs
    by (induction rs arbitrary: e) (simp_all add: engine_ok_upd)
  then show "engine_ok e \<Longrightarrow> engine_ok (clear_contexts e)"
    by (simp add: clear_contexts_def engine_ok_def)
qed

lemma delete_context_ok: "engine_ok e \<Longrightarrow> engine_ok (delete_context cid e)"
proof -
  assume ok: "engine_ok e"
  have "engine_ok ((upd_ctx r deactivate e)\<lparr>ce_table := AList.delete cid (ce_table (upd_ctx r deactivate e))\<rparr>)" for r
    by (rule engine_ok_delete [OF engine_ok_upd [OF ok]]) simp
  then have "engine_ok (ce_publish n p ((upd_ctx r deactivate e)\<lparr>ce_table := AList.delete cid (ce_table (upd_ctx r deactivate e))\<rparr>))" for n p r
    by (rule engine_ok_frame [rotated 2]) simp_all
  then show ?thesis using ok by (simp add: delete_context_def Let_def split: option.split)
qed

lemma context_step_ok: "engine_ok e \<Longrightarrow> engine_ok (context_step (ck, op) e)"
proof (cases op)
  case (CoCreate fresh d parent md ttl tags)
  then show "engine_ok e \<Longrightarrow> ?thesis" by (auto simp: create_context_ok split: sum.split)
next
  case (CoLoad fresh cid s)
  then show "engine_ok e \<Longrightarrow> ?thesis" using load_context_ok [OF _ prod.collapse [symmetric]] by auto
next
  case (CoHas cid)
  then show "engine_ok e \<Longrightarrow> ?thesis" by (simp add: has_context_def handle_expiration_ok split: option.split)
next
  case (CoList a ts)
  then show "engine_ok e \<Longrightarrow> ?thesis" by (simp add: list_contexts_def Let_def prune_ok)
next
  case CoStatus
  then show "engine_ok e \<Longrightarrow> ?thesis" by (simp add: engine_status_def Let_def prune_ok)
qed (auto simp: get_context_ok delete_context_ok clear_contexts_ok ctx_get_ok ctx_set_def ctx_delete_def ctx_clear_def
      update_context_data_def update_context_metadata_def add_tags_def intro!: ctx_write_ok with_context_ok)

lemma context_run_ok: "engine_ok (context_run bus ops)"
proof -
  have "engine_ok e \<Longrightarrow> engine_ok (fold context_step ops e)" for e
    by (induction ops arbitrary: e) (auto simp: context_step_ok)
  then show ?thesis by (simp add: context_run_def engine_ok_init)
qed

section \<open>Expiry\<close>

lemma handle_expiration_effect:
  "ce_table (handle_expiration r e) = AList.delete (rc_id (ctx_at e r)) (ce_table e)"
  "rc_expired ck (ctx_at (handle_expiration r e) q) = rc_expired ck (ctx_at e q)"
  "rc_id (ctx_at (handle_expiration r e) q) = rc_id (ctx_at e q)"
proof -
  have at: "rc_expires_at (ctx_at (upd_ctx r deactivate e) q) = rc_expires_at (ctx_at e q)
      \<and> rc_id (ctx_at (upd_ctx r deactivate e) q) = rc_id (ctx_at e q)"
    by (cases "r < length (ce_heap e)")
      (auto simp: ctx_at_upd deactivate_def, auto simp: upd_ctx_def ctx_at_def list_update_beyond)
  show "ce_table (handle_expiration r e) = AList.delete (rc_id (ctx_at e r)) (ce_table e)"
    by (simp add: handle_expiration_def Let_def delete_id)
  show "rc_expired ck (ctx_at (handle_expiration r e) q) = rc_expired ck (ctx_at e q)"
    "rc_id (ctx_at (handle_expiration r e) q) = rc_id (ctx_at e q)"
    using at by (simp_all add: handle_expiration_def Let_def rc_expired_def)
qed

lemma fold_expiration:
  "ce_table (fold handle_expiration rs e) = filter (\<lambda>p. fst p \<notin> rc_id ` ctx_at e ` set rs) (ce_table e)
   \<and> (\<forall>q. rc_expired ck (ctx_at (fold handle_expiration rs e) q) = rc_expired ck (ctx_at e q))"
proof (induction rs arbitrary: e)
  case (Cons r rs)
  have "rc_id ` ctx_at (handle_expiration r e) ` set rs = rc_id ` ctx_at e ` set rs"
    by (simp add: image_image handle_expiration_effect(3))
  then show ?case
    using Cons.IH [of "handle_expiration r e"] handle_expiration_effect(1) [of r e] handle_expiration_effect(2) [where r = r and e = e and ck = ck]
    by (auto simp: AList.delete_eq split_beta intro: filter_cong)
qed simp

lemma prune_effect:
  assumes "engine_ok e"
  shows "ce_table (prune_expired ck e) = filter (\<lambda>p. \<not> rc_expired ck (ctx_at e (snd p))) (ce_table e)"
    "rc_expired ck (ctx_at (prune_expired ck e) q) = rc_expired ck (ctx_at e q)"
proof -
  define rs where "rs = filter (\<lambda>r. rc_expired ck (ctx_at e r)) (map snd (ce_table e))"
  have "fst p \<in> rc_id ` ctx_at e ` set rs \<longleftrightarrow> rc_expired ck (ctx_at e (snd p))" if p: "p \<in> set (ce_table e)" for p
  proof
    assume "fst p \<in> rc_id ` ctx_at e ` set rs"
    then obtain q where q: "q \<in> set (ce_table e)" "rc_expired ck (ctx_at e (snd q))" "fst p = rc_id (ctx_at e (snd q))"
      by (auto simp: rs_def)
    then have "fst p = fst q" using assms by (simp add: engine_ok_def)
    then have "p = q" using assms p q(1) by (auto simp: engine_ok_def wf_dict_def distinct_map inj_on_def)
    then show "rc_expired ck (ctx_at e (snd p))" using q(2) by simp
  next
    assume x: "rc_expired ck (ctx_at e (snd p))"
    have "fst p = rc_id (ctx_at e (snd p))" using assms p by (simp add: engine_ok_def)
    moreover have "snd p \<in> set rs" using x p by (auto simp: rs_def)
    ultimately show "fst p \<in> rc_id ` ctx_at e ` set rs" by blast
  qed
  then show "ce_table (prune_expired ck e) = filter (\<lambda>p. \<not> rc_expired ck (ctx_at e (snd p))) (ce_table e)"
    using fold_expiration [of rs e ck] by (simp add: prune_expired_def rs_def cong: filter_cong)
  show "rc_expired ck (ctx_at (prune_expired ck e) q) = rc_expired ck (ctx_at e q)"
    using fold_expiration [of rs e ck] by (simp add: prune_expired_def rs_def)
qed

section \<open>The search along the parents\<close>

text \<open>The context in which a search that finds nothing goes on.\<close>

definition chain_next :: "clock \<Rightarrow> cengine \<Rightarrow> nat \<Rightarrow> nat option" where
  "chain_next ck e r =
     (let c = ctx_at e r
      in if given_or (rc_parent c) [] \<noteq> [] \<and> rc_engine c
         then (case map_of (ce_table e) (given_or (rc_parent c) []) of
                 Some q \<Rightarrow> if rc_expired ck (ctx_at e q) then None else Some q
               | None \<Rightarrow> None)
         else None)"

fun parent_chain :: "clock \<Rightarrow> cengine \<Rightarrow> nat list \<Rightarrow> bool" where
  "parent_chain ck e [] \<longleftrightarrow> False"
| "parent_chain ck e [r] \<longleftrightarrow> chain_next ck e r = None"
| "parent_chain ck e (r # q # rs) \<longleftrightarrow> chain_next ck e r = Some q \<and> parent_chain ck e (q # rs)"

fun first_value :: "cengine \<Rightarrow> string \<Rightarrow> pyval \<Rightarrow> nat list \<Rightarrow> pyval" where
  "first_value e k dflt [] = dflt"
| "first_value e k dflt (r # rs) =
     (case map_of (rc_data (ctx_at e r)) k of Some v \<Rightarrow> v | None \<Rightarrow> first_value e k dflt rs)"

lemma ctx_get_next:
  assumes "map_of (rc_data (ctx_at e r)) k = None"
  shows "(case chain_next ck e r of
       Some q \<Rightarrow> ctx_get (Suc depth) ck r k dflt e = ctx_get depth ck q k dflt e
     | None \<Rightarrow> snd (ctx_get (Suc depth) ck r k dflt e) = Inr dflt)"
  using assms by (auto simp: chain_next_def Let_def get_context_def split: option.split)

lemma ctx_get_chain:
  "parent_chain ck e (r # rs) \<Longrightarrow> length (r # rs) \<le> depth \<Longrightarrow>
     snd (ctx_get depth ck r k dflt e) = Inr (first_value e k dflt (r # rs))"
proof (induction rs arbitrary: r depth)
  case Nil
  then obtain d where "depth = Suc d" by (cases depth) auto
  then show ?case
    using Nil ctx_get_next [where e = e and r = r and k = k and ck = ck and depth = d and dflt = dflt] by (cases "map_of (rc_data (ctx_at e r)) k") (simp_all add: Let_def)
next
  case (Cons q rs)
  then obtain d where d: "depth = Suc d" by (cases depth) auto
  show ?case
    using Cons d ctx_get_next [where e = e and r = r and k = k and ck = ck and depth = d and dflt = dflt] by (cases "map_of (rc_data (ctx_at e r)) k") (simp_all add: Let_def)
qed

section \<open>Serialisation\<close>

lemma the_strs_map [simp]: "the_strs (map PStr ss) = Some ss"
  by (induction ss) simp_all

lemma deserialize_serialize:
  assumes "rc_wf c"
  shows "rc_deserialize ck fresh True (rc_serialize c) = Inr c"
proof -
  have f: "str_field (rc_serialize c) ''id'' = Inr (Some (rc_id c))" "str_field (rc_serialize c) ''parent_id'' = Inr (rc_parent c)"
    "dict_field (rc_serialize c) ''data'' = Inr (rc_data c)" "dict_field (rc_serialize c) ''metadata'' = Inr (rc_metadata c)"
    "strs_field (rc_serialize c) ''tags'' = Inr (rc_tags c)" "str_field (rc_serialize c) ''created_at'' = Inr (Some (rc_created_at c))"
    "str_field (rc_serialize c) ''updated_at'' = Inr (Some (rc_updated_at c))" "str_field (rc_serialize c) ''expires_at'' = Inr (rc_expires_at c)"
    "bool_field (rc_serialize c) ''active'' True = Inr (rc_active c)" "pyget (rc_serialize c) ''ttl'' = rc_ttl c"
    by (simp_all add: rc_serialize_def str_field_def dict_field_def strs_field_def bool_field_def pyget_def opt_str_def split: option.split)
  have "mk_rctx ck fresh (Some (rc_id c)) (rc_parent c) (rc_data c) (rc_metadata c) True (rc_ttl c) (rc_tags c)
      (Some (rc_created_at c)) (Some (rc_updated_at c)) (rc_expires_at c) = Inr (c\<lparr>rc_active := True\<rparr>)"
    using assms by (cases c) (auto simp: rc_wf_def mk_rctx_def Let_def given_or_def split: option.splits)
  then show ?thesis by (simp add: rc_deserialize_def f)
qed

section \<open>Properties\<close>


text \<open>
  A context reads as its chain of parents does: the value is that of the nearest context of the chain
  that has the key, the search ends at a parent that is missing or expired, and a recursion depth
  of the length of the chain is enough.
\<close>

theorem context_lookup_chain:
  assumes "parent_chain ck e (r # rs)" "length (r # rs) \<le> depth"
  shows "snd (ctx_get depth ck r k dflt e) = Inr (first_value e k dflt (r # rs))"
  by (rule ctx_get_chain [OF assms])

definition demo_ctx :: "string \<Rightarrow> string option \<Rightarrow> pydict \<Rightarrow> rctx" where
  "demo_ctx cid parent d =
     \<lparr> rc_id = cid, rc_parent = parent, rc_data = d, rc_metadata = [], rc_active = True, rc_engine = True, rc_ttl = PNone,
       rc_tags = [], rc_created_at = ''t'', rc_updated_at = ''t'', rc_expires_at = None \<rparr>"

definition demo_engine :: cengine where
  "demo_engine = \<lparr> ce_heap = [demo_ctx ''a'' None [(''x'', PInt 1)], demo_ctx ''b'' (Some ''a'') []],
     ce_table = [(''a'', 0), (''b'', 1)], ce_bus = False, ce_events = [] \<rparr>"

theorem context_lookup_chain_witness:
  "snd (ctx_get 2 \<lparr> ck_now = 0, ck_local = 0 \<rparr> 1 ''x'' PNone demo_engine) = Inr (PInt 1)"
  using context_lookup_chain [of "\<lparr> ck_now = 0, ck_local = 0 \<rparr>" demo_engine 1 "[0]" 2 "''x''" PNone]
  by (simp add: demo_engine_def chain_next_def ctx_at_def demo_ctx_def given_or_def rc_expired_def)

text \<open>
  Contexts whose parents form a circle (loading can bring them about) make the search for a key that
  none of them has recurse until the depth is exhausted, whatever the depth is.
\<close>

theorem context_cycle_exhausts_stack:
  assumes "\<forall>q \<in> C. map_of (rc_data (ctx_at e q)) k = None \<and> (\<exists>p \<in> C. chain_next ck e q = Some p)" "r \<in> C"
  shows "snd (ctx_get depth ck r k dflt e) = Inl context_recursion"
  using assms(2)
proof (induction depth arbitrary: r)
  case (Suc depth)
  obtain p where p: "p \<in> C" "chain_next ck e r = Some p" "map_of (rc_data (ctx_at e r)) k = None" using assms(1) Suc.prems by blast
  show ?case
    using ctx_get_next [where e = e and r = r and k = k and ck = ck and depth = depth and dflt = dflt] p Suc.IH [OF p(1)]
    by (simp del: ctx_get.simps)
qed simp

theorem context_cycle_exhausts_stack_witness:
  "snd (ctx_get 1000 \<lparr> ck_now = 0, ck_local = 0 \<rparr> 0 ''x'' PNone
     (fst (load_all_contexts mem_ops \<lparr> ck_now = 0, ck_local = 0 \<rparr> (\<lambda>_. ''u'') ''contexts''
        (ms_set ''contexts'' (PDict [(''a'', PDict (rc_serialize (demo_ctx ''a'' (Some ''a'') [])))]) ms_init) (ce_init False))))
   = Inl context_recursion"
proof -
  define ck where "ck = \<lparr> ck_now = 0, ck_local = 0 \<rparr>"
  define c where "c = demo_ctx ''a'' (Some ''a'') []"
  define e where "e = fst (load_all_contexts mem_ops ck (\<lambda>_. ''u'') ''contexts''
        (ms_set ''contexts'' (PDict [(''a'', PDict (rc_serialize c))]) ms_init) (ce_init False))"
  have "rc_wf c" by (simp add: c_def demo_ctx_def rc_wf_def)
  then have e: "ce_heap e = [c]" "ce_table e = [(''a'', 0)]"
    by (simp_all add: e_def load_all_contexts_def mem_ops_def ms_get_def ms_set_def ms_init_def deserialize_serialize ce_init_def)
  have "chain_next ck e 0 = Some 0" "map_of (rc_data (ctx_at e 0)) ''x'' = None"
    using e by (simp_all add: chain_next_def ctx_at_def c_def demo_ctx_def given_or_def rc_expired_def)
  then show ?thesis
    using context_cycle_exhausts_stack [of "{0}" e "''x''" ck 0 1000 PNone] by (simp add: e_def c_def ck_def)
qed

text \<open>
  A context that is saved and loaded again, by the same engine or another, is the same in every
  field; it becomes a new object registered under its identifier.
\<close>

theorem context_save_load:
  assumes "get_context ck cid (context_run bus ops) = (e1, Some r)" "wf_dict (js_data s)"
    "save_context (json_ops env) ck cid px (context_run bus ops) s = (e1, s', err)"
  shows "case load_context (json_ops env') ck' fresh cid px s' e2 of (e3, res) \<Rightarrow>
      res = Inr (Some (length (ce_heap e2))) \<and> ctx_at e3 (length (ce_heap e2)) = ctx_at e1 r
      \<and> map_of (ce_table e3) (rc_id (ctx_at e1 r)) = Some (length (ce_heap e2))"
proof -
  have ok: "engine_ok (context_run bus ops)" by (rule context_run_ok)
  have r: "map_of (ce_table (context_run bus ops)) cid = Some r" "e1 = context_run bus ops"
    using assms(1) by (auto simp: get_context_def split: option.splits if_splits)
  have "(cid, r) \<in> set (ce_table (context_run bus ops))" using r(1) by (rule map_of_SomeD)
  then have "r < length (ce_heap e1)" using ok r(2) by (auto simp: engine_ok_def)
  then have wf: "rc_wf (ctx_at e1 r)" using ok r(2) by (simp add: engine_ok_def ctx_at_def list_all_length)
  define payload where "payload = PDict (rc_serialize (ctx_at e1 r))"
  have s': "st_set (json_ops env) (px @ cid) payload s = (s', err)"
    using assms(1,3) by (simp add: save_context_def payload_def)
  have "wf_dict (js_data s') \<and> map_of (js_data s') = (map_of (js_data s))(px @ cid \<mapsto> payload)"
    by (rule json.set_view [OF assms(2) s'])
  then have "st_get (json_ops env') (px @ cid) s' = Some payload"
    using json.get_view [of s' env'] by simp
  moreover have "truthy payload" by (simp add: payload_def rc_serialize_def)
  moreover have "ctx_at (e2\<lparr>ce_heap := ce_heap e2 @ [c], ce_table := t\<rparr>) (length (ce_heap e2)) = c" for c t
    by (simp add: ctx_at_def)
  ultimately show ?thesis
    by (simp add: load_context_def payload_def deserialize_serialize [OF wf] Let_def map_of_update)
qed

theorem context_save_load_witness:
  "\<exists>e3. load_context (json_ops plain_files) \<lparr> ck_now = 5, ck_local = 5 \<rparr> ''z'' ''a'' ''context:''
      (fst (snd (save_context (json_ops plain_files) \<lparr> ck_now = 5, ck_local = 5 \<rparr> ''a'' ''context:''
        (context_run False [(\<lparr> ck_now = 1, ck_local = 1 \<rparr>, CoCreate ''a'' [(''x'', PInt 1)] None [] PNone [])])
        (js_init ''c.json'' FNone True)))) (ce_init False) = (e3, Inr (Some 0))"
proof -
  define ck where "ck = \<lparr> ck_now = 5, ck_local = 5 \<rparr>"
  define ops where "ops = [(\<lparr> ck_now = 1, ck_local = 1 \<rparr>, CoCreate ''a'' [(''x'', PInt 1)] None [] PNone [])]"
  define e where "e = context_run False ops"
  have g: "get_context ck ''a'' e = (e, Some 0)"
    by (simp add: e_def ops_def context_run_def create_context_def mk_rctx_def Let_def given_or_def ce_init_def get_context_def
        ctx_at_def rc_expired_def ce_publish_def)
  obtain s' err where s: "save_context (json_ops plain_files) ck ''a'' ''context:'' e (js_init ''c.json'' FNone True) = (e, s', err)"
    using g by (simp add: save_context_def) (meson surj_pair)
  have "wf_dict (js_data (js_init ''c.json'' FNone True))" by (simp add: js_init_def js_load_def)
  from context_save_load [OF g [unfolded e_def] this s [unfolded e_def], where env' = plain_files and ck' = ck and fresh = "''z''" and ?e2.0 = "ce_init False"]
  show ?thesis
    using s by (auto simp: e_def ops_def ck_def ce_init_def split: prod.splits)
qed

end
