(* ===== verification/ConfigLayers.thy ===== *)
theory ConfigLayers
  imports PyStrings
begin

text \<open>
  The nested dictionaries of \<open>yasin_core/config/settings.py\<close>: merging one layer over another, setting a
  value under a path, flattening and masking, and what each does to the value under a path.
\<close>

section \<open>Operations\<close>

fun deep_update :: "pydict \<Rightarrow> pydict \<Rightarrow> pydict" where
  "deep_update base [] = base"
| "deep_update base ((k, v) # u) =
     deep_update
       (case v of
          PDict vd \<Rightarrow>
            (case map_of base k of
               Some (PDict bd) \<Rightarrow> AList.update k (PDict (deep_update bd vd)) base
             | _ \<Rightarrow> AList.update k v base)
        | _ \<Rightarrow> AList.update k v base) u"

text \<open>
  \<open>d.setdefault(part, {})\<close> for all parts but the last, then the assignment: a value that is no
  dictionary has no \<open>setdefault\<close>, and refuses the assignment of an item.
\<close>

fun set_deep :: "pydict \<Rightarrow> string list \<Rightarrow> pyval \<Rightarrow> exn + pydict" where
  "set_deep d [] v = Inl (Exn IndexErr ''list index out of range'')"
| "set_deep d [k] v = Inr (AList.update k v d)"
| "set_deep d (k # k' # ks) v =
     (case map_of d k of
        None \<Rightarrow> and_then (set_deep [] (k' # ks) v) (\<lambda>x. Inr (AList.update k (PDict x) d))
      | Some (PDict e) \<Rightarrow> and_then (set_deep e (k' # ks) v) (\<lambda>x. Inr (AList.update k (PDict x) d))
      | Some _ \<Rightarrow> Inl (if ks = [] then Exn TypeErr ''object does not support item assignment''
                      else Exn AttributeErr ''object has no attribute setdefault''))"

fun flatten_dict :: "pydict \<Rightarrow> string \<Rightarrow> pydict" where
  "flatten_dict [] px = []"
| "flatten_dict ((k, v) # d) px =
     (case v of PDict e \<Rightarrow> flatten_dict e (px @ k @ ''.'') | _ \<Rightarrow> [(px @ k, v)]) @ flatten_dict d px"

fun mask_sensitive :: "string list \<Rightarrow> pydict \<Rightarrow> string \<Rightarrow> pydict" where
  "mask_sensitive sens [] px = []"
| "mask_sensitive sens ((k, v) # d) px =
     (k, if px @ k \<in> set sens then PStr ''******''
         else case v of PDict e \<Rightarrow> PDict (mask_sensitive sens e (px @ k @ ''.'')) | _ \<Rightarrow> v)
     # mask_sensitive sens d px"

section \<open>Paths\<close>

text \<open>Where a path leads: to a value, to a dictionary, nowhere, or through a value that is no dictionary.\<close>

datatype place = Leaf pyval | Inner | Absent | Cut

fun walk :: "pyval \<Rightarrow> string list \<Rightarrow> place" where
  "walk v [] = (case v of PDict _ \<Rightarrow> Inner | _ \<Rightarrow> Leaf v)"
| "walk v (k # ks) =
     (case v of PDict d \<Rightarrow> (case map_of d k of None \<Rightarrow> Absent | Some w \<Rightarrow> walk w ks) | _ \<Rightarrow> Cut)"

fun leaf_of :: "place \<Rightarrow> pyval option" where
  "leaf_of (Leaf v) = Some v"
| "leaf_of _ = None"

text \<open>Keys are distinct at every level.\<close>

fun wf_val :: "pyval \<Rightarrow> bool" where
  "wf_val (PDict d) \<longleftrightarrow> wf_dict d \<and> (\<forall>p \<in> set d. wf_val (snd p))"
| "wf_val _ \<longleftrightarrow> True"

text \<open>One layer over another: the upper one decides unless the path is absent from it.\<close>

fun over :: "place \<Rightarrow> pyval option \<Rightarrow> pyval option" where
  "over (Leaf v) b = Some v"
| "over Absent b = b"
| "over _ b = None"

definition merge_value :: "pyval option \<Rightarrow> pyval \<Rightarrow> pyval" where
  "merge_value b v =
     (case (v, b) of
        (PDict vd, Some (PDict bd)) \<Rightarrow> PDict (deep_update bd vd)
      | _ \<Rightarrow> v)"

lemma merged_update:
  "(case v of
      PDict vd \<Rightarrow> (case map_of base k of Some (PDict bd) \<Rightarrow> AList.update k (PDict (deep_update bd vd)) base | _ \<Rightarrow> AList.update k v base)
    | _ \<Rightarrow> AList.update k v base) = AList.update k (merge_value (map_of base k) v) base"
  by (simp add: merge_value_def split: pyval.split option.split)

lemma deep_update_Cons: "deep_update base ((k, v) # u) = deep_update (AList.update k (merge_value (map_of base k) v) base) u"
  by (simp only: deep_update.simps merged_update)

declare deep_update.simps(2) [simp del]

lemma deep_update_lookup:
  "wf_dict u \<Longrightarrow> map_of (deep_update base u) k =
     (case map_of u k of None \<Rightarrow> map_of base k | Some v \<Rightarrow> Some (merge_value (map_of base k) v))"
proof (induction u arbitrary: base)
  case (Cons p u)
  obtain k' v where p: "p = (k', v)" by (cases p)
  have wf: "wf_dict u" "map_of u k' = None" using Cons.prems by (simp_all add: p wf_dict_def map_of_eq_None_iff)
  show ?case
    using Cons.IH [OF wf(1), of "AList.update k' (merge_value (map_of base k') v) base"] wf(2)
    by (auto simp: p deep_update_Cons map_of_update split: option.split)
qed simp

lemma wf_val_lookup: "wf_val (PDict d) \<Longrightarrow> map_of d k = Some v \<Longrightarrow> wf_val v"
  by (fastforce dest: map_of_SomeD)

lemma leaf_deep_update:
  "wf_val (PDict u) \<Longrightarrow> leaf_of (walk (PDict (deep_update base u)) p) = over (walk (PDict u) p) (leaf_of (walk (PDict base) p))"
proof (induction p arbitrary: base u)
  case (Cons k p)
  have wf: "wf_dict u" using Cons.prems by simp
  note look = deep_update_lookup [OF wf, of base k]
  show ?case
  proof (cases "map_of u k")
    case None
    then show ?thesis using look by simp
  next
    case (Some v)
    note wv = wf_val_lookup [OF Cons.prems Some]
    show ?thesis
    proof (cases "\<exists>vd bd. v = PDict vd \<and> map_of base k = Some (PDict bd)")
      case True
      then obtain vd bd where d: "v = PDict vd" "map_of base k = Some (PDict bd)" by blast
      then show ?thesis using look Some Cons.IH [of vd bd] wv by (simp add: merge_value_def)
    next
      case False
      then have m: "merge_value (map_of base k) v = v" by (auto simp: merge_value_def split: pyval.split option.split)
      have "over (walk v p) (leaf_of (case map_of base k of None \<Rightarrow> Absent | Some w \<Rightarrow> walk w p)) = leaf_of (walk v p)"
      proof (cases "walk v p")
        case Absent
        then obtain vd where v: "v = PDict vd" "p \<noteq> []" by (cases p; cases v) (auto split: option.splits)
        have "leaf_of (walk w p) = None" if "map_of base k = Some w" for w
          using that False v by (cases p; cases w) auto
        then show ?thesis using Absent by (auto split: option.split)
      qed simp_all
      then show ?thesis using look Some m by simp
    qed
  qed
qed simp

lemma wf_val_update: "wf_val (PDict d) \<Longrightarrow> wf_val v \<Longrightarrow> wf_val (PDict (AList.update k v d))"
  by (auto simp: set_update_wf)

lemma deep_update_wf: "wf_val (PDict base) \<Longrightarrow> wf_val (PDict u) \<Longrightarrow> wf_val (PDict (deep_update base u))"
proof (induction base u rule: deep_update.induct)
  case (2 base k v u)
  have wv: "wf_val v" and wu: "wf_val (PDict u)" using 2(4) by (auto simp: wf_dict_def)
  have "wf_val (merge_value (map_of base k) v)"
  proof (cases "\<exists>vd bd. v = PDict vd \<and> map_of base k = Some (PDict bd)")
    case True
    then obtain vd bd where d: "v = PDict vd" "map_of base k = Some (PDict bd)" by blast
    then have "wf_val (PDict (deep_update bd vd))"
      using 2(1) [OF d] wv wf_val_lookup [OF 2(3) d(2)] by simp
    then show ?thesis using d by (simp add: merge_value_def)
  next
    case False
    then have "merge_value (map_of base k) v = v" by (auto simp: merge_value_def split: pyval.split option.split)
    then show ?thesis using wv by simp
  qed
  then have w: "wf_val (PDict (AList.update k (merge_value (map_of base k) v) base))"
    by (rule wf_val_update [OF 2(3)])
  show ?case
    using 2(2) [unfolded merged_update, OF w wu] by (simp only: deep_update_Cons)
qed simp

section \<open>Setting\<close>

lemma set_deep_wf: "set_deep d p v = Inr d' \<Longrightarrow> wf_val (PDict d) \<Longrightarrow> wf_val v \<Longrightarrow> wf_val (PDict d')"
proof (induction d p v arbitrary: d' rule: set_deep.induct)
  case (2 d k v)
  then show ?case using wf_val_update [OF 2(2,3), of k] by simp
next
  case (3 d k k' ks v)
  show ?case
  proof (cases "map_of d k")
    case None
    then obtain x where "set_deep [] (k' # ks) v = Inr x" "d' = AList.update k (PDict x) d"
      using 3(3) by (auto simp: and_then_Inr)
    then show ?thesis using 3(1) [OF None] 3(4,5) wf_val_update [OF 3(4), of "PDict x" k] by simp
  next
    case (Some w)
    then obtain e where w: "w = PDict e" using 3(3) by (cases w) (auto split: if_splits)
    then obtain x where x: "set_deep e (k' # ks) v = Inr x" "d' = AList.update k (PDict x) d"
      using 3(3) Some by (auto simp: and_then_Inr)
    have "wf_val (PDict e)" using wf_val_lookup [OF 3(4) Some] w by simp
    then have "wf_val (PDict x)" by (rule 3(2) [OF Some w x(1) _ 3(5)])
    then show ?thesis unfolding x(2) by (rule wf_val_update [OF 3(4)])
  qed
qed simp

text \<open>A path below the one that was set leads into the value; any other leaf is as it was.\<close>

lemma leaf_set_deep:
  "set_deep d p v = Inr d' \<Longrightarrow> leaf_of (walk (PDict d') q) =
     (if take (length p) q = p then leaf_of (walk v (drop (length p) q)) else leaf_of (walk (PDict d) q))"
proof (induction d p v arbitrary: d' q rule: set_deep.induct)
  case (2 d k v)
  then show ?case by (cases q) (auto simp: map_of_update)
next
  case (3 d k k' ks v)
  obtain e x where x: "set_deep e (k' # ks) v = Inr x" "d' = AList.update k (PDict x) d"
      "map_of d k = None \<and> e = [] \<or> map_of d k = Some (PDict e)"
  proof (cases "map_of d k")
    case None
    then show ?thesis using 3(3) that [of "[]"] by (auto simp: and_then_Inr)
  next
    case (Some w)
    then show ?thesis using 3(3) that by (cases w) (auto simp: and_then_Inr split: if_splits)
  qed
  have ih: "leaf_of (walk (PDict x) q') =
      (if take (length (k' # ks)) q' = k' # ks then leaf_of (walk v (drop (length (k' # ks)) q')) else leaf_of (walk (PDict e) q'))" for q'
    using 3(1) [of x q'] 3(2) [of "PDict e" e x q'] x by auto
  show ?case
  proof (cases q)
    case (Cons c q')
    show ?thesis
    proof (cases "c = k")
      case True
      have "leaf_of (walk (PDict e) q') = leaf_of (walk (PDict d) q)" if "map_of d k = Some (PDict e)"
        using that Cons True by simp
      moreover have "leaf_of (walk (PDict []) q') = leaf_of (walk (PDict d) q)" if "map_of d k = None"
        using that Cons True by (cases q') simp_all
      ultimately show ?thesis using ih [of q'] x(2,3) Cons True by (auto simp: map_of_update)
    qed (use Cons x in \<open>simp add: map_of_update\<close>)
  qed simp
qed simp

section \<open>Masking\<close>

fun hidden :: "string list \<Rightarrow> string \<Rightarrow> string list \<Rightarrow> bool" where
  "hidden sens px [] \<longleftrightarrow> False"
| "hidden sens px (k # ks) \<longleftrightarrow> px @ k \<in> set sens \<or> hidden sens (px @ k @ ''.'') ks"

definition mask_value :: "string list \<Rightarrow> string \<Rightarrow> pyval \<Rightarrow> pyval" where
  "mask_value sens key v =
     (if key \<in> set sens then PStr ''******''
      else case v of PDict e \<Rightarrow> PDict (mask_sensitive sens e (key @ ''.'')) | _ \<Rightarrow> v)"

lemma mask_lookup: "map_of (mask_sensitive sens d px) k = map_option (mask_value sens (px @ k)) (map_of d k)"
proof (induction d)
  case (Cons p d)
  then show ?case by (cases p) (auto simp: mask_value_def split: pyval.split)
qed simp

lemma leaf_mask:
  "(\<not> hidden sens px p \<longrightarrow> leaf_of (walk (PDict (mask_sensitive sens d px)) p) = leaf_of (walk (PDict d) p))
   \<and> (hidden sens px p \<longrightarrow> leaf_of (walk (PDict (mask_sensitive sens d px)) p) \<in> {None, Some (PStr ''******'')})"
proof (induction p arbitrary: d px)
  case (Cons k p)
  show ?case
  proof (cases "map_of d k")
    case None
    then show ?thesis by (simp add: mask_lookup)
  next
    case (Some v)
    show ?thesis
    proof (cases "px @ k \<in> set sens")
      case True
      then show ?thesis using Some by (cases p) (simp_all add: mask_lookup mask_value_def)
    next
      case False
      show ?thesis
      proof (cases "\<exists>e. v = PDict e")
        case True
        then obtain e where "v = PDict e" by blast
        then show ?thesis using Cons.IH [where d = e and px = "px @ k @ ''.''"] Some False by (simp add: mask_lookup mask_value_def)
      next
        case nd: False
        then have "mask_value sens (px @ k) v = v" using False by (auto simp: mask_value_def split: pyval.split)
        then show ?thesis using Some nd False by (cases p; cases v) (simp_all add: mask_lookup)
      qed
    qed
  qed
qed simp

lemma hidden_join: "p \<noteq> [] \<Longrightarrow> px @ str_join (CHR ''.'') p \<in> set sens \<Longrightarrow> hidden sens px p"
proof (induction p arbitrary: px)
  case (Cons k p)
  then show ?case using Cons.IH [of "px @ k @ ''.''"] by (cases p) auto
qed simp

end
