(* ===== verification/ConfigSettings.thy ===== *)
theory ConfigSettings
  imports ConfigLayers
begin

text \<open>
  \<open>ConfigurationManager\<close> of \<open>yasin_core/config/settings.py\<close>: the four layers, the schema rules and the
  operations. Reading the files (YAML is a library the sources only call), the environment, the JSON
  reader, the text that Python shows for a value and the order in which a set of keys is walked
  through are the parameters of \<open>config_env\<close>.
\<close>

section \<open>State\<close>

datatype config_type = TAny | TBool | TInt | TFloat | TStr | TList | TDict

record schema_rule =
  ru_type :: config_type
  ru_required :: bool
  ru_default :: pyval
  ru_description :: string
  ru_validator :: "(pyval \<Rightarrow> exn + bool) option"
  ru_sensitive :: bool

text \<open>What a configuration file holds: it is missing, cannot be read, or is a YAML value.\<close>

datatype yaml_file = YMissing | YUnreadable | YData pyval

record config_env =
  fe_default :: yaml_file
  fe_config :: yaml_file
  fe_same_path :: bool
  fe_environ :: "(string \<times> string) list"
  fe_json :: "string \<Rightarrow> pyval option"
  fe_shown :: "pyval \<Rightarrow> string"
  fe_set_order :: "string list \<Rightarrow> string list"

record config =
  cf_defaults :: pydict
  cf_file :: pydict
  cf_env :: pydict
  cf_overrides :: pydict
  cf_merged :: pydict
  cf_schemas :: "(string \<times> schema_rule) list"
  cf_sensitive :: "string list"

definition empty_config :: config where
  "empty_config = \<lparr> cf_defaults = [], cf_file = [], cf_env = [], cf_overrides = [], cf_merged = [], cf_schemas = [], cf_sensitive = [] \<rparr>"

definition dot_split :: "string \<Rightarrow> string list" where
  "dot_split key = str_split (CHR ''.'') key"

section \<open>Reading\<close>

text \<open>\<open>value.get(item, default)\<close> down the path: where a key is missing the walk goes on in the default.\<close>

fun config_walk :: "pyval \<Rightarrow> pyval \<Rightarrow> string list \<Rightarrow> pyval option" where
  "config_walk dflt v [] = Some v"
| "config_walk dflt v (k # ks) =
     (case v of
        PDict d \<Rightarrow> config_walk dflt (case map_of d k of Some w \<Rightarrow> w | None \<Rightarrow> dflt) ks
      | _ \<Rightarrow> None)"

definition cf_get :: "string \<Rightarrow> pyval \<Rightarrow> config \<Rightarrow> pyval" where
  "cf_get key dflt m =
     (case config_walk dflt (PDict (cf_merged m)) (dot_split key) of
        None \<Rightarrow> dflt
      | Some v \<Rightarrow> if v = PNone then dflt else v)"

definition cf_has :: "string \<Rightarrow> config \<Rightarrow> bool" where
  "cf_has key m \<longleftrightarrow> cf_get key PNone m \<noteq> PNone"

section \<open>Numbers in texts\<close>

definition split_at_char :: "char \<Rightarrow> string \<Rightarrow> string \<times> string" where
  "split_at_char c s = (takeWhile (\<lambda>x. x \<noteq> c) s, drop 1 (dropWhile (\<lambda>x. x \<noteq> c) s))"

text \<open>
  \<open>float(s)\<close> for decimal texts: white space, sign, digits with a point, exponent. The names of infinity
  and NaN and digits with underscores are outside the model.
\<close>

definition parse_float :: "string \<Rightarrow> exn + real" where
  "parse_float s0 =
     (let s = str_lower (str_strip s0);
          sgn = (case s of c # _ \<Rightarrow> (if c = CHR ''-'' then -1 else 1) | [] \<Rightarrow> 1) :: real;
          body = (case s of c # cs \<Rightarrow> (if c = CHR ''-'' \<or> c = CHR ''+'' then cs else s) | [] \<Rightarrow> []);
          (mant, ex) = split_at_char (CHR ''e'') body;
          (ip, fp) = split_at_char (CHR ''.'') mant;
          exn_ok = (if CHR ''e'' \<in> set body then (case parse_int ex of Inr i \<Rightarrow> str_strip ex = ex | Inl _ \<Rightarrow> False) else True);
          e = (if CHR ''e'' \<in> set body then (case parse_int ex of Inr i \<Rightarrow> i | Inl _ \<Rightarrow> 0) else 0)
      in if (ip \<noteq> [] \<or> fp \<noteq> []) \<and> list_all is_digit ip \<and> list_all is_digit fp \<and> exn_ok
         then Inr (sgn * (real (digits_val (ip @ fp)) / 10 ^ length fp) * 10 powi e)
         else Inl (Exn ValueErr ''could not convert string to float''))"

definition cf_get_string :: "config_env \<Rightarrow> string \<Rightarrow> pyval \<Rightarrow> config \<Rightarrow> string option" where
  "cf_get_string env key dflt m =
     (let v = cf_get key dflt m in if v = PNone then None else Some (case v of PStr s \<Rightarrow> s | _ \<Rightarrow> fe_shown env v))"

definition py_int :: "pyval \<Rightarrow> exn + int" where
  "py_int v =
     (case v of
        PInt i \<Rightarrow> Inr i
      | PBool b \<Rightarrow> Inr (if b then 1 else 0)
      | PFloat x \<Rightarrow> Inr (if x < 0 then \<lceil>x\<rceil> else \<lfloor>x\<rfloor>)
      | PStr s \<Rightarrow> parse_int s
      | _ \<Rightarrow> Inl (Exn TypeErr ''int() argument must be a string or a number''))"

definition cf_get_int :: "string \<Rightarrow> pyval \<Rightarrow> config \<Rightarrow> exn + int option" where
  "cf_get_int key dflt m =
     (let v = cf_get key dflt m in if v = PNone then Inr None else and_then (py_int v) (\<lambda>i. Inr (Some i)))"

definition py_float :: "pyval \<Rightarrow> exn + real" where
  "py_float v =
     (case v of
        PInt i \<Rightarrow> Inr (real_of_int i)
      | PBool b \<Rightarrow> Inr (if b then 1 else 0)
      | PFloat x \<Rightarrow> Inr x
      | PStr s \<Rightarrow> parse_float s
      | _ \<Rightarrow> Inl (Exn TypeErr ''float() argument must be a string or a number''))"

definition cf_get_float :: "string \<Rightarrow> pyval \<Rightarrow> config \<Rightarrow> exn + real option" where
  "cf_get_float key dflt m =
     (let v = cf_get key dflt m in if v = PNone then Inr None else and_then (py_float v) (\<lambda>x. Inr (Some x)))"

definition cf_get_bool :: "string \<Rightarrow> pyval \<Rightarrow> config \<Rightarrow> bool option" where
  "cf_get_bool key dflt m =
     (case cf_get key dflt m of
        PStr s \<Rightarrow> Some (str_lower s = ''true'')
      | PNone \<Rightarrow> None
      | v \<Rightarrow> Some (truthy v))"

definition not_of_type :: "string \<Rightarrow> string \<Rightarrow> exn" where
  "not_of_type key ty = Exn TypeErr (''Configuration key '' @ quoted key @ '' is not of type '' @ ty)"

definition cf_get_list :: "string \<Rightarrow> pyval \<Rightarrow> config \<Rightarrow> exn + pyval list option" where
  "cf_get_list key dflt m =
     (case cf_get key dflt m of PNone \<Rightarrow> Inr None | PList xs \<Rightarrow> Inr (Some xs) | _ \<Rightarrow> Inl (not_of_type key ''list''))"

definition cf_get_dict :: "string \<Rightarrow> pyval \<Rightarrow> config \<Rightarrow> exn + pydict option" where
  "cf_get_dict key dflt m =
     (case cf_get key dflt m of PNone \<Rightarrow> Inr None | PDict d \<Rightarrow> Inr (Some d) | _ \<Rightarrow> Inl (not_of_type key ''dict''))"

definition cf_get_secure :: "string \<Rightarrow> pyval \<Rightarrow> config \<Rightarrow> pyval" where
  "cf_get_secure key dflt m = cf_get key dflt m"

section \<open>Validation\<close>

fun has_type :: "pyval \<Rightarrow> config_type \<Rightarrow> bool" where
  "has_type v TAny = True"
| "has_type v TBool = (case v of PBool _ \<Rightarrow> True | _ \<Rightarrow> False)"
| "has_type v TInt = (case v of PInt _ \<Rightarrow> True | PBool _ \<Rightarrow> True | _ \<Rightarrow> False)"
| "has_type v TFloat = (case v of PFloat _ \<Rightarrow> True | _ \<Rightarrow> False)"
| "has_type v TStr = (case v of PStr _ \<Rightarrow> True | _ \<Rightarrow> False)"
| "has_type v TList = (case v of PList _ \<Rightarrow> True | _ \<Rightarrow> False)"
| "has_type v TDict = (case v of PDict _ \<Rightarrow> True | _ \<Rightarrow> False)"

fun type_name :: "config_type \<Rightarrow> string" where
  "type_name TAny = ''Any''"
| "type_name TBool = ''bool''"
| "type_name TInt = ''int''"
| "type_name TFloat = ''float''"
| "type_name TStr = ''str''"
| "type_name TList = ''list''"
| "type_name TDict = ''dict''"

fun value_type_name :: "pyval \<Rightarrow> string" where
  "value_type_name PNone = ''NoneType''"
| "value_type_name (PBool _) = ''bool''"
| "value_type_name (PInt _) = ''int''"
| "value_type_name (PFloat _) = ''float''"
| "value_type_name (PStr _) = ''str''"
| "value_type_name (PList _) = ''list''"
| "value_type_name (PDict _) = ''dict''"
| "value_type_name (PObj _) = ''object''"

definition key_missing :: "string \<Rightarrow> exn" where
  "key_missing key = Exn ConfigurationValidationErr
     (''Configuration validation failed: Required key '' @ quoted key @ '' is missing.'')"

definition wrong_type :: "string \<Rightarrow> config_type \<Rightarrow> pyval \<Rightarrow> exn" where
  "wrong_type key ty v = Exn ConfigurationValidationErr
     (''Configuration validation failed: Key '' @ quoted key @ '' must be of type '' @ type_name ty @ '', got ''
       @ value_type_name v @ ''.'')"

definition validator_failed :: "config_env \<Rightarrow> string \<Rightarrow> pyval \<Rightarrow> exn" where
  "validator_failed env key v = Exn ConfigurationValidationErr
     (''Configuration validation failed: Custom validation failed for key '' @ quoted key @ '' with value ''
       @ quoted (fe_shown env v) @ ''.'')"

definition check_rule :: "config_env \<Rightarrow> config \<Rightarrow> string \<Rightarrow> schema_rule \<Rightarrow> exn option" where
  "check_rule env m key ru =
     (let v = cf_get key PNone m
      in if ru_required ru \<and> v = PNone then Some (key_missing key)
         else if v = PNone then None
         else if \<not> has_type v (ru_type ru) then Some (wrong_type key (ru_type ru) v)
         else (case ru_validator ru of
                 None \<Rightarrow> None
               | Some f \<Rightarrow> (case f v of Inl e \<Rightarrow> Some e | Inr True \<Rightarrow> None | Inr False \<Rightarrow> Some (validator_failed env key v))))"

fun check_rules :: "config_env \<Rightarrow> config \<Rightarrow> (string \<times> schema_rule) list \<Rightarrow> exn option" where
  "check_rules env m [] = None"
| "check_rules env m ((key, ru) # rules) =
     (case check_rule env m key ru of Some e \<Rightarrow> Some e | None \<Rightarrow> check_rules env m rules)"

definition cf_validate :: "config_env \<Rightarrow> config \<Rightarrow> exn option" where
  "cf_validate env m = check_rules env m (cf_schemas m)"

section \<open>Loading\<close>

definition load_yaml :: "yaml_file \<Rightarrow> pydict" where
  "load_yaml f = (case f of YData (PDict d) \<Rightarrow> d | _ \<Rightarrow> [])"

definition merge_layers :: "config \<Rightarrow> pydict" where
  "merge_layers m = deep_update (deep_update (deep_update (cf_defaults m) (cf_file m)) (cf_env m)) (cf_overrides m)"

definition apply_merge :: "config \<Rightarrow> config" where
  "apply_merge m = m\<lparr>cf_merged := merge_layers m\<rparr>"

definition starts_and_ends :: "char \<Rightarrow> char \<Rightarrow> string \<Rightarrow> bool" where
  "starts_and_ends a b s \<longleftrightarrow> s \<noteq> [] \<and> hd s = a \<and> last s = b"

definition parse_env_value :: "config_env \<Rightarrow> string \<Rightarrow> pyval" where
  "parse_env_value env s =
     (let low = str_lower (str_strip s)
      in if low = ''true'' then PBool True
         else if low = ''false'' then PBool False
         else if low \<in> {''none'', ''null''} then PNone
         else case (if CHR ''.'' \<in> set s then map_sum id PFloat (parse_float s) else map_sum id PInt (parse_int s)) of
                Inr v \<Rightarrow> v
              | Inl _ \<Rightarrow>
                  if starts_and_ends (CHR ''['') (CHR '']'') s \<or> starts_and_ends (CHR ''{'') (CHR ''}'') s
                  then (case fe_json env s of Some v \<Rightarrow> v | None \<Rightarrow> PStr s)
                  else PStr s)"

text \<open>\<open>s.split("__")\<close>\<close>

fun split_double :: "string \<Rightarrow> string list" where
  "split_double (a # b # s) =
     (if a = CHR ''_'' \<and> b = CHR ''_'' then [] # split_double s
      else (case split_double (b # s) of w # ws \<Rightarrow> (a # w) # ws | [] \<Rightarrow> [[a]]))"
| "split_double s = [s]"

definition subst_char :: "char \<Rightarrow> char \<Rightarrow> string \<Rightarrow> string" where
  "subst_char a b s = map (\<lambda>c. if c = a then b else c) s"

definition known_keys :: "config_env \<Rightarrow> config \<Rightarrow> string list" where
  "known_keys env m = fe_set_order env (remdups (dict_keys (flatten_dict (cf_defaults m) []) @ dict_keys (cf_schemas m)))"

text \<open>The path that the name of an environment variable (without its prefix) stands for.\<close>

definition env_path :: "config_env \<Rightarrow> config \<Rightarrow> string \<Rightarrow> string list" where
  "env_path env m key =
     (let low = str_lower key; known = known_keys env m; dotted = subst_char (CHR ''_'') (CHR ''.'') low
      in if 2 \<le> length (split_double key) then split_double low
         else case find (\<lambda>k. subst_char (CHR ''.'') (CHR ''_'') k = low) known of
                Some k \<Rightarrow> if k \<noteq> [] then dot_split k else if dotted \<in> set known then dot_split dotted else str_split (CHR ''_'') low
              | None \<Rightarrow> if dotted \<in> set known then dot_split dotted else str_split (CHR ''_'') low)"

fun env_overrides :: "config_env \<Rightarrow> config \<Rightarrow> (string \<times> string) list \<Rightarrow> pydict \<Rightarrow> exn + pydict" where
  "env_overrides env m [] acc = Inr acc"
| "env_overrides env m ((name, text) # vars) acc =
     (if take 6 name = ''YASIN_''
      then and_then (set_deep acc (env_path env m (drop 6 name)) (parse_env_value env text)) (env_overrides env m vars)
      else env_overrides env m vars acc)"

text \<open>The layers are replaced one after the other; an error leaves those replaced before it.\<close>

definition cf_reload :: "config_env \<Rightarrow> config \<Rightarrow> config \<times> exn option" where
  "cf_reload env m =
     (let m1 = m\<lparr>cf_defaults := load_yaml (fe_default env)\<rparr>;
          m2 = m1\<lparr>cf_file := (if fe_same_path env then [] else load_yaml (fe_config env))\<rparr>
      in case env_overrides env m2 (fe_environ env) [] of
           Inl e \<Rightarrow> (m2, Some e)
         | Inr ev \<Rightarrow> let m3 = apply_merge (m2\<lparr>cf_env := ev\<rparr>) in (m3, cf_validate env m3))"

definition cf_new :: "config_env \<Rightarrow> exn + config" where
  "cf_new env = (case cf_reload env empty_config of (m, None) \<Rightarrow> Inr m | (_, Some e) \<Rightarrow> Inl e)"

definition cf_load :: "config_env \<Rightarrow> config \<Rightarrow> config \<times> (exn + pydict)" where
  "cf_load env m = (case cf_reload env m of (m', None) \<Rightarrow> (m', Inr (cf_merged m')) | (m', Some e) \<Rightarrow> (m', Inl e))"

section \<open>Changing\<close>

definition cf_set :: "config_env \<Rightarrow> string \<Rightarrow> pyval \<Rightarrow> config \<Rightarrow> config \<times> exn option" where
  "cf_set env key v m =
     (case set_deep (cf_overrides m) (dot_split key) v of
        Inl e \<Rightarrow> (m, Some e)
      | Inr ov \<Rightarrow> let m1 = apply_merge (m\<lparr>cf_overrides := ov\<rparr>) in (m1, cf_validate env m1))"

definition register_schema :: "config_env \<Rightarrow> string \<Rightarrow> schema_rule \<Rightarrow> config \<Rightarrow> config \<times> exn option" where
  "register_schema env key ru m =
     (let m1 = m\<lparr>cf_schemas := AList.update key ru (cf_schemas m),
                 cf_sensitive := (if ru_sensitive ru then List.insert key (cf_sensitive m) else cf_sensitive m)\<rparr>
      in case (if ru_default ru = PNone then Inr (cf_defaults m1) else set_deep (cf_defaults m1) (dot_split key) (ru_default ru)) of
           Inl e \<Rightarrow> (m1, Some e)
         | Inr df \<Rightarrow> let m2 = apply_merge (m1\<lparr>cf_defaults := df\<rparr>) in (m2, cf_validate env m2))"

fun plugin_defaults :: "string \<Rightarrow> pydict \<Rightarrow> config \<Rightarrow> config \<times> exn option" where
  "plugin_defaults px [] m = (m, None)"
| "plugin_defaults px ((k, v) # kvs) m =
     (case set_deep (cf_defaults m) (dot_split (px @ k)) v of
        Inl e \<Rightarrow> (m, Some e)
      | Inr df \<Rightarrow> plugin_defaults px kvs (m\<lparr>cf_defaults := df\<rparr>))"

fun plugin_schemas :: "config_env \<Rightarrow> string \<Rightarrow> (string \<times> schema_rule) list \<Rightarrow> config \<Rightarrow> config \<times> exn option" where
  "plugin_schemas env px [] m = (m, None)"
| "plugin_schemas env px ((k, ru) # rules) m =
     (case register_schema env (px @ k) ru m of
        (m1, Some e) \<Rightarrow> (m1, Some e)
      | (m1, None) \<Rightarrow> plugin_schemas env px rules m1)"

definition register_plugin_config ::
  "config_env \<Rightarrow> string \<Rightarrow> pydict \<Rightarrow> (string \<times> schema_rule) list \<Rightarrow> config \<Rightarrow> config \<times> exn option" where
  "register_plugin_config env plugin defaults rules m =
     (let px = ''plugins.'' @ plugin @ ''.''
      in case plugin_defaults px (flatten_dict defaults []) m of
           (m1, Some e) \<Rightarrow> (m1, Some e)
         | (m1, None) \<Rightarrow> if rules \<noteq> [] then plugin_schemas env px rules m1 else (apply_merge m1, None))"

section \<open>The service operations\<close>

definition cf_initialize :: "config_env \<Rightarrow> config \<Rightarrow> config \<times> exn option" where
  "cf_initialize env m = cf_reload env m"

definition cf_health :: "config_env \<Rightarrow> config \<Rightarrow> pydict" where
  "cf_health env m =
     (case cf_validate env m of
        None \<Rightarrow> [(''status'', PStr ''healthy''), (''healthy'', PBool True)]
      | Some e \<Rightarrow> [(''status'', PStr ''unhealthy''), (''healthy'', PBool False), (''error'', PStr (exn_msg e))])"

definition cf_status :: "string \<Rightarrow> config \<Rightarrow> pydict" where
  "cf_status path m =
     [(''state'', PStr ''active''), (''config_path'', PStr path), (''schema_count'', PInt (int (length (cf_schemas m)))),
      (''configuration'', PDict (mask_sensitive (cf_sensitive m) (cf_merged m) []))]"

end
