(* ===== verification/ConfigProps.thy ===== *)
theory ConfigProps
  imports ConfigSettings
begin

text \<open>The properties of the configuration manager: precedence of the layers, setting, masking, validation.\<close>

section \<open>Well-formed layers\<close>

definition layers_wf :: "config \<Rightarrow> bool" where
  "layers_wf m \<longleftrightarrow> wf_val (PDict (cf_defaults m)) \<and> wf_val (PDict (cf_file m)) \<and> wf_val (PDict (cf_env m)) \<and> wf_val (PDict (cf_overrides m))"

text \<open>The YAML and JSON readers give dictionaries with distinct keys.\<close>

definition readers_wf :: "config_env \<Rightarrow> bool" where
  "readers_wf env \<longleftrightarrow> wf_val (PDict (load_yaml (fe_default env))) \<and> wf_val (PDict (load_yaml (fe_config env)))
     \<and> list_all (\<lambda>p. wf_val (parse_env_value env (snd p))) (fe_environ env)"

definition layered :: "config \<Rightarrow> string list \<Rightarrow> pyval option" where
  "layered m p =
     over (walk (PDict (cf_overrides m)) p)
       (over (walk (PDict (cf_env m)) p)
         (over (walk (PDict (cf_file m)) p) (leaf_of (walk (PDict (cf_defaults m)) p))))"

lemma leaf_merge_layers: "layers_wf m \<Longrightarrow> leaf_of (walk (PDict (merge_layers m)) p) = layered m p"
  by (simp add: layers_wf_def merge_layers_def layered_def leaf_deep_update del: wf_val.simps)

lemma layered_merge [simp]: "layered (apply_merge m) p = layered m p" "layers_wf (apply_merge m) = layers_wf m"
  by (simp_all add: layered_def apply_merge_def layers_wf_def)

lemma wf_val_Nil [simp]: "wf_val (PDict [])"
  by simp

lemma env_overrides_wf:
  "env_overrides env m vars acc = Inr d \<Longrightarrow> list_all (\<lambda>p. wf_val (parse_env_value env (snd p))) vars \<Longrightarrow> wf_val (PDict acc)
     \<Longrightarrow> wf_val (PDict d)"
proof (induction vars arbitrary: acc)
  case (Cons v vars)
  obtain name tx where v: "v = (name, tx)" by (cases v)
  show ?case
  proof (cases "take 6 name = ''YASIN_''")
    case True
    then obtain acc' where a: "set_deep acc (env_path env m (drop 6 name)) (parse_env_value env tx) = Inr acc'"
      "env_overrides env m vars acc' = Inr d"
      using Cons.prems(1) by (auto simp: v and_then_Inr)
    have "wf_val (PDict acc')" by (rule set_deep_wf [OF a(1) Cons.prems(3)]) (use Cons.prems(2) v in simp)
    then show ?thesis using Cons.IH [OF a(2)] Cons.prems(2) by simp
  next
    case False
    then show ?thesis using Cons.IH [of acc] Cons.prems by (simp add: v)
  qed
qed simp

definition rules_hold :: "config_env \<Rightarrow> config \<Rightarrow> bool" where
  "rules_hold env m \<longleftrightarrow> list_all (\<lambda>(key, ru). check_rule env m key ru = None) (cf_schemas m)"

lemma validate_iff: "cf_validate env m = None \<longleftrightarrow> rules_hold env m"
proof -
  have "check_rules env m rules = None \<longleftrightarrow> list_all (\<lambda>(key, ru). check_rule env m key ru = None) rules" for rules
    by (induction rules) (auto split: option.splits)
  then show ?thesis by (simp add: cf_validate_def rules_hold_def)
qed

text \<open>What a change that returns normally has established.\<close>

definition config_current :: "config_env \<Rightarrow> config \<Rightarrow> string list \<Rightarrow> bool" where
  "config_current env m p \<longleftrightarrow> leaf_of (walk (PDict (cf_merged m)) p) = layered m p \<and> rules_hold env m"

lemma current_merge: "layers_wf m \<Longrightarrow> cf_validate env (apply_merge m) = None \<Longrightarrow> config_current env (apply_merge m) p"
  by (simp add: config_current_def validate_iff) (simp add: apply_merge_def leaf_merge_layers)

lemma reload_current:
  assumes "layers_wf m" "readers_wf env" "cf_reload env m = (m', r)"
  shows "layers_wf m' \<and> (r = None \<longrightarrow> config_current env m' p)"
proof -
  define m2 where "m2 = m\<lparr>cf_defaults := load_yaml (fe_default env), cf_file := (if fe_same_path env then [] else load_yaml (fe_config env))\<rparr>"
  have w2: "layers_wf m2" using assms(1,2) by (simp add: m2_def layers_wf_def readers_wf_def)
  show ?thesis
  proof (cases "env_overrides env m2 (fe_environ env) []")
    case (Inl e)
    then show ?thesis using assms(3) w2 by (auto simp: cf_reload_def Let_def m2_def)
  next
    case (Inr ev)
    have "wf_val (PDict ev)" using env_overrides_wf [OF Inr] assms(2) by (simp add: readers_wf_def)
    then have w3: "layers_wf (m2\<lparr>cf_env := ev\<rparr>)" using w2 by (simp add: layers_wf_def)
    have "m' = apply_merge (m2\<lparr>cf_env := ev\<rparr>)" "r = cf_validate env m'"
      using assms(3) Inr by (auto simp: cf_reload_def Let_def m2_def)
    then show ?thesis using current_merge [OF w3] w3 by simp
  qed
qed

lemma set_current:
  assumes "layers_wf m" "wf_val v" "cf_set env key v m = (m', r)"
  shows "layers_wf m' \<and> (r = None \<longrightarrow> config_current env m' p)"
proof (cases "set_deep (cf_overrides m) (dot_split key) v")
  case (Inr ov)
  have "wf_val (PDict ov)" using set_deep_wf [OF Inr _ assms(2)] assms(1) by (simp add: layers_wf_def)
  then have w: "layers_wf (m\<lparr>cf_overrides := ov\<rparr>)" using assms(1) by (simp add: layers_wf_def)
  have "m' = apply_merge (m\<lparr>cf_overrides := ov\<rparr>)" "r = cf_validate env m'"
    using assms(3) Inr by (auto simp: cf_set_def Let_def)
  then show ?thesis using current_merge [OF w] w by simp
qed (use assms in \<open>auto simp: cf_set_def\<close>)

lemma schema_current:
  assumes "layers_wf m" "wf_val (ru_default ru)" "register_schema env key ru m = (m', r)"
  shows "layers_wf m' \<and> (r = None \<longrightarrow> config_current env m' p)"
proof -
  define m1 where "m1 = m\<lparr>cf_schemas := AList.update key ru (cf_schemas m),
                 cf_sensitive := (if ru_sensitive ru then List.insert key (cf_sensitive m) else cf_sensitive m)\<rparr>"
  define dd where "dd = (if ru_default ru = PNone then Inr (cf_defaults m1) else set_deep (cf_defaults m1) (dot_split key) (ru_default ru))"
  have w1: "layers_wf m1" using assms(1) by (simp add: m1_def layers_wf_def)
  show ?thesis
  proof (cases dd)
    case (Inl e)
    then show ?thesis using assms(3) w1 unfolding register_schema_def Let_def m1_def [symmetric] dd_def [symmetric] by auto
  next
    case (Inr df)
    have "wf_val (PDict df)"
    proof (cases "ru_default ru = PNone")
      case True
      then show ?thesis using Inr w1 by (simp add: dd_def layers_wf_def)
    next
      case False
      then show ?thesis using set_deep_wf [of "cf_defaults m1" "dot_split key" "ru_default ru" df] Inr w1 assms(2)
        by (simp add: dd_def layers_wf_def)
    qed
    then have w: "layers_wf (m1\<lparr>cf_defaults := df\<rparr>)" using w1 by (simp add: layers_wf_def)
    have "m' = apply_merge (m1\<lparr>cf_defaults := df\<rparr>)" "r = cf_validate env m'"
      using assms(3) Inr unfolding register_schema_def Let_def m1_def [symmetric] dd_def [symmetric] by auto
    then show ?thesis using current_merge [OF w] w by simp
  qed
qed

section \<open>Reading\<close>

lemma config_walk_leaf: "leaf_of (walk v p) = Some x \<Longrightarrow> config_walk dflt v p = Some x"
proof (induction p arbitrary: v)
  case Nil
  then show ?case by (cases v) simp_all
next
  case (Cons k p)
  then show ?case by (cases v) (auto split: option.splits)
qed

lemma cf_get_leaf: "leaf_of (walk (PDict (cf_merged m)) (dot_split key)) = Some x \<Longrightarrow> x \<noteq> PNone \<Longrightarrow> cf_get key dflt m = x"
  using config_walk_leaf [of "PDict (cf_merged m)" "dot_split key" x dflt] by (simp add: cf_get_def del: config_walk.simps)

text \<open>Setting under one path leaves the places of paths that are neither above nor below it.\<close>

lemma walk_set_deep:
  "set_deep d p v = Inr d' \<Longrightarrow> take (length p) q \<noteq> p \<Longrightarrow> take (length q) p \<noteq> q \<Longrightarrow> walk (PDict d') q = walk (PDict d) q"
proof (induction d p v arbitrary: d' q rule: set_deep.induct)
  case (2 d k v)
  then show ?case by (cases q) (auto simp: map_of_update)
next
  case (3 d k k' ks v)
  obtain e x where x: "set_deep e (k' # ks) v = Inr x" "d' = AList.update k (PDict x) d"
      "map_of d k = None \<and> e = [] \<or> map_of d k = Some (PDict e)"
  proof (cases "map_of d k")
    case None
    then show ?thesis using 3(3) that [of "[]"] by (auto simp: and_then_Inr)
  next
    case (Some w)
    then show ?thesis using 3(3) that by (cases w) (auto simp: and_then_Inr split: if_splits)
  qed
  show ?case
  proof (cases q)
    case Nil
    then show ?thesis using 3(5) by simp
  next
    case (Cons c q')
    show ?thesis
    proof (cases "c = k")
      case True
      have ih: "walk (PDict x) q' = walk (PDict e) q'"
        using 3(1) [of x q'] 3(2) [of "PDict e" e x q'] x 3(4,5) Cons True by auto
      have "q' \<noteq> []" using 3(5) Cons True by auto
      then have "walk (PDict []) q' = Absent" by (cases q') simp_all
      then show ?thesis using ih x(2,3) Cons True by (auto simp: map_of_update)
    qed (use Cons x in \<open>simp add: map_of_update\<close>)
  qed
qed simp

lemma set_value:
  assumes "layers_wf m" "set_deep (cf_overrides m) (dot_split key) v = Inr ov" "v \<noteq> PNone" "\<forall>d. v \<noteq> PDict d"
  shows "cf_get key dflt (fst (cf_set env key v m)) = v
     \<and> leaf_of (walk (PDict (cf_merged (fst (cf_set env key v m)))) q) = layered (m\<lparr>cf_overrides := ov\<rparr>) q"
proof -
  have wv: "wf_val v" and leaf: "walk v [] = Leaf v" using assms(4) by (cases v; simp)+
  define m' where "m' = apply_merge (m\<lparr>cf_overrides := ov\<rparr>)"
  have m': "fst (cf_set env key v m) = m'" using assms(2) by (simp add: cf_set_def Let_def m'_def)
  have w: "layers_wf (m\<lparr>cf_overrides := ov\<rparr>)"
    using assms(1) set_deep_wf [OF assms(2) _ wv] by (simp add: layers_wf_def del: wf_val.simps)
  have rd: "leaf_of (walk (PDict (cf_merged m')) p) = layered (m\<lparr>cf_overrides := ov\<rparr>) p" for p
    using leaf_merge_layers [OF w] by (simp add: m'_def apply_merge_def merge_layers_def)
  have "leaf_of (walk (PDict ov) (dot_split key)) = Some v"
    using leaf_set_deep [OF assms(2), of "dot_split key"] leaf by simp
  then have "walk (PDict ov) (dot_split key) = Leaf v"
    by (cases "walk (PDict ov) (dot_split key)") simp_all
  then have "cf_get key dflt m' = v" using rd [of "dot_split key"] by (intro cf_get_leaf assms(3)) (simp add: layered_def)
  then show ?thesis using m' rd by simp
qed

section \<open>Properties\<close>


definition plain_env :: config_env where
  "plain_env = \<lparr> fe_default = YMissing, fe_config = YMissing, fe_same_path = False, fe_environ = [(''YASIN_A__B'', ''x'')],
     fe_json = (\<lambda>_. None), fe_shown = (\<lambda>_. []), fe_set_order = (\<lambda>ks. ks) \<rparr>"

definition port_rule :: schema_rule where
  "port_rule = \<lparr> ru_type = TInt, ru_required = True, ru_default = PInt 80, ru_description = [], ru_validator = None, ru_sensitive = False \<rparr>"

lemma plain_env_wf: "readers_wf plain_env" "layers_wf empty_config"
proof -
  have "parse_env_value plain_env ''x'' = PStr ''x''" by code_simp
  then show "readers_wf plain_env" by (simp add: readers_wf_def plain_env_def load_yaml_def)
  show "layers_wf empty_config" by (simp add: layers_wf_def empty_config_def)
qed


text \<open>
  After a value that is no dictionary was set, also if validation then raised, reading its key gives
  it whatever the other layers have and whatever the default is; the places of keys that are
  neither above nor below it are as the layers had them before.
\<close>

theorem config_set_get:
  assumes "layers_wf m" "set_deep (cf_overrides m) (dot_split key) v = Inr ov" "v \<noteq> PNone" "\<forall>d. v \<noteq> PDict d"
    "take (length (dot_split key)) q \<noteq> dot_split key" "take (length q) (dot_split key) \<noteq> q"
  shows "cf_get key dflt (fst (cf_set env key v m)) = v
     \<and> leaf_of (walk (PDict (cf_merged (fst (cf_set env key v m)))) q) = layered m q"
  using set_value [OF assms(1-4), of dflt env q] walk_set_deep [OF assms(2,5,6)] by (simp add: layered_def)

theorem config_set_get_witness:
  "cf_get ''a.b'' (PInt 7) (fst (cf_set plain_env ''a.b'' (PInt 1) empty_config)) = PInt 1"
  using config_set_get [OF plain_env_wf(2), of "''a.b''" "PInt 1" "[(''a'', PDict [(''b'', PInt 1)])]" "[''c'']" "PInt 7" plain_env]
  by (simp add: dot_split_def empty_config_def)

text \<open>
  \<open>C36\<close>. The status shows no sensitive value: on a path whose key, or the key of a dictionary above
  it, is marked sensitive there are only asterisks; every other value is shown as it is.
\<close>

theorem status_masks_secrets:
  "(if hidden (cf_sensitive m) [] p
    then leaf_of (walk (pyget (cf_status path m) ''configuration'') p) \<in> {None, Some (PStr ''******'')}
    else leaf_of (walk (pyget (cf_status path m) ''configuration'') p) = leaf_of (walk (PDict (cf_merged m)) p))
   \<and> (p \<noteq> [] \<longrightarrow> str_join (CHR ''.'') p \<in> set (cf_sensitive m) \<longrightarrow> hidden (cf_sensitive m) [] p)"
proof -
  have "pyget (cf_status path m) ''configuration'' = PDict (mask_sensitive (cf_sensitive m) (cf_merged m) [])"
    by (simp add: cf_status_def pyget_def)
  then show ?thesis
    using leaf_mask [of "cf_sensitive m" "[]" p "cf_merged m"] hidden_join [of p "[]" "cf_sensitive m"] by auto
qed

theorem status_masks_secrets_witness:
  "leaf_of (walk (pyget (cf_status [] (empty_config\<lparr>cf_sensitive := [''db.key''], cf_merged := [(''db'', PDict [(''key'', PStr ''s'')])]\<rparr>))
     ''configuration'') [''db'', ''key'']) \<in> {None, Some (PStr ''******'')}"
  using status_masks_secrets [of "empty_config\<lparr>cf_sensitive := [''db.key''], cf_merged := [(''db'', PDict [(''key'', PStr ''s'')])]\<rparr>"
      "[''db'', ''key'']" "[]"]
  by (auto split: if_splits)

text \<open>
  A value that fails validation stays set: \<open>set\<close> raises, but the override is not taken back, so the
  invalid value is read from then on and the service reports itself unhealthy.
\<close>

theorem config_invalid_set_sticks:
  assumes "layers_wf m" "set_deep (cf_overrides m) (dot_split key) v = Inr ov" "v \<noteq> PNone" "\<forall>d. v \<noteq> PDict d"
    "snd (cf_set env key v m) = Some e"
  shows "cf_get key dflt (fst (cf_set env key v m)) = v
     \<and> pyget (cf_health env (fst (cf_set env key v m))) ''healthy'' = PBool False"
proof -
  have "fst (cf_set env key v m) = apply_merge (m\<lparr>cf_overrides := ov\<rparr>)"
    "snd (cf_set env key v m) = cf_validate env (apply_merge (m\<lparr>cf_overrides := ov\<rparr>))"
    using assms(2) by (simp_all add: cf_set_def Let_def)
  moreover from this(2) have "cf_validate env (apply_merge (m\<lparr>cf_overrides := ov\<rparr>)) = Some e" using assms(5) by simp
  ultimately show ?thesis
    using set_value [OF assms(1-4), of dflt env "[]"] by (simp add: cf_health_def pyget_def)
qed

theorem config_invalid_set_sticks_witness:
  "cf_get ''port'' (PInt 1) (fst (cf_set plain_env ''port'' (PStr ''x'') (empty_config\<lparr>cf_schemas := [(''port'', port_rule)]\<rparr>))) = PStr ''x''"
proof -
  define m where "m = empty_config\<lparr>cf_schemas := [(''port'', port_rule)]\<rparr>"
  have w: "layers_wf m" by (simp add: m_def layers_wf_def empty_config_def)
  have s: "set_deep (cf_overrides m) (dot_split ''port'') (PStr ''x'') = Inr [(''port'', PStr ''x'')]"
    by (simp add: m_def empty_config_def dot_split_def)
  have "snd (cf_set plain_env ''port'' (PStr ''x'') m) \<noteq> None"
    by (simp add: cf_set_def m_def empty_config_def dot_split_def Let_def cf_validate_def apply_merge_def merge_layers_def
        deep_update_Cons merge_value_def check_rule_def cf_get_def port_rule_def)
  then obtain e where "snd (cf_set plain_env ''port'' (PStr ''x'') m) = Some e" by blast
  from config_invalid_set_sticks [OF w s _ _ this, of "PInt 1"] show ?thesis by (simp add: m_def)
qed

text \<open>
  Reloading forgets the defaults that schemas brought: they were written into the layer that is
  read anew from the file. A required key that had its default is missing after a reload, so the
  initialisation of the service raises.
\<close>

theorem schema_default_lost_on_reload:
  "case register_schema plain_env ''port'' port_rule empty_config of
     (m1, r1) \<Rightarrow> r1 = None \<and> cf_get ''port'' PNone m1 = PInt 80
       \<and> cf_get ''port'' PNone (fst (cf_initialize plain_env m1)) = PNone
       \<and> snd (cf_initialize plain_env m1) = Some (key_missing ''port'')"
proof -
  define m1 where "m1 = fst (register_schema plain_env ''port'' port_rule empty_config)"
  have r: "register_schema plain_env ''port'' port_rule empty_config = (m1, None)"
    "m1 = empty_config\<lparr>cf_schemas := [(''port'', port_rule)], cf_defaults := [(''port'', PInt 80)], cf_merged := [(''port'', PInt 80)]\<rparr>"
    by (simp_all add: m1_def register_schema_def empty_config_def Let_def port_rule_def dot_split_def cf_validate_def apply_merge_def
        merge_layers_def check_rule_def cf_get_def)
  have p: "parse_env_value plain_env ''x'' = PStr ''x''" "env_path plain_env m ''A__B'' = [''a'', ''b'']" for m
  proof -
    show "parse_env_value plain_env ''x'' = PStr ''x''" by code_simp
    have "split_double ''A__B'' = [''A'', ''B'']" "split_double (str_lower ''A__B'') = [''a'', ''b'']" by code_simp+
    then show "env_path plain_env m ''A__B'' = [''a'', ''b'']" by (simp add: env_path_def Let_def)
  qed
  have "cf_initialize plain_env m1
      = (m1\<lparr>cf_defaults := [], cf_env := [(''a'', PDict [(''b'', PStr ''x'')])], cf_merged := [(''a'', PDict [(''b'', PStr ''x'')])]\<rparr>,
         Some (key_missing ''port''))"
    by (simp add: r(2) cf_initialize_def cf_reload_def Let_def load_yaml_def plain_env_def [THEN arg_cong, of fe_default]
        plain_env_def [THEN arg_cong, of fe_config] plain_env_def [THEN arg_cong, of fe_environ] p empty_config_def apply_merge_def
        merge_layers_def deep_update_Cons merge_value_def cf_validate_def check_rule_def cf_get_def dot_split_def port_rule_def)
  then show ?thesis
    using r by (simp add: cf_get_def dot_split_def empty_config_def)
qed

end
