(* ===== verification/DIContainer.thy ===== *)
theory DIContainer
  imports CorePrelude
begin

text \<open>
  The dependency injection container (\<open>di/container.py\<close>): registrations by class or by name,
  the search that also accepts a registered subclass, and resolution with constructor injection,
  cached singletons and the stack of keys being resolved.

  Classes and functions are named by their qualified names. What \<open>inspect\<close> and
  \<open>typing.get_type_hints\<close> say of them is the record \<open>di_world\<close>. Running a constructor or a
  factory is a parameter \<open>mk\<close>: the number of constructions before it tells calls apart, since a
  constructor may return a new object each time. A constructor that itself calls the container is not
  modelled.
\<close>

section \<open>Registrations\<close>

datatype di_key = TypeKey string | NameKey string

datatype di_lifetime = DI_SINGLETON | DI_TRANSIENT

datatype di_callable = ClassC string | FuncC string

record registration =
  rg_lifetime :: di_lifetime
  rg_factory :: "di_callable option"
  rg_instance :: pyval

record container =
  di_regs :: "(di_key \<times> registration) list"
  di_built :: nat

definition di_empty :: container where
  "di_empty = \<lparr>di_regs = [], di_built = 0\<rparr>"

definition register_instance :: "di_key \<Rightarrow> pyval \<Rightarrow> container \<Rightarrow> container" where
  "register_instance key v s = s\<lparr>di_regs := AList.update key \<lparr>rg_lifetime = DI_SINGLETON, rg_factory = None, rg_instance = v\<rparr> (di_regs s)\<rparr>"

definition register_singleton :: "di_key \<Rightarrow> di_callable \<Rightarrow> container \<Rightarrow> container" where
  "register_singleton key c s = s\<lparr>di_regs := AList.update key \<lparr>rg_lifetime = DI_SINGLETON, rg_factory = Some c, rg_instance = PNone\<rparr> (di_regs s)\<rparr>"

definition register_transient :: "di_key \<Rightarrow> di_callable \<Rightarrow> container \<Rightarrow> container" where
  "register_transient key c s = s\<lparr>di_regs := AList.update key \<lparr>rg_lifetime = DI_TRANSIENT, rg_factory = Some c, rg_instance = PNone\<rparr> (di_regs s)\<rparr>"

section \<open>What is known of classes and functions\<close>

text \<open>The annotation of a parameter: a class, something else (as it is shown), or none.\<close>

datatype di_hint = HintType string | HintOther string | HintNone

record di_param =
  par_name :: string
  par_hint :: di_hint
  par_default :: "pyval option"
  par_variadic :: bool

record di_world =
  signatures :: "(di_callable \<times> di_param list) list"
  is_subclass :: "string \<Rightarrow> string \<Rightarrow> bool"

text \<open>The parameters the loops visit. A callable without a signature is called without arguments.\<close>

definition sig_params :: "di_world \<Rightarrow> di_callable \<Rightarrow> di_param list" where
  "sig_params w c = filter (\<lambda>p. \<not> par_variadic p \<and> \<not> (par_name p = ''self'' \<and> (case c of ClassC _ \<Rightarrow> True | FuncC _ \<Rightarrow> False)))
     (case map_of (signatures w) c of None \<Rightarrow> [] | Some ps \<Rightarrow> ps)"

text \<open>\<open>__name__\<close>: what follows the last dot of the qualified name.\<close>

definition short_name :: "string \<Rightarrow> string" where
  "short_name q = rev (takeWhile (\<lambda>c. c \<noteq> CHR ''.'') (rev q))"

definition callable_name :: "di_callable \<Rightarrow> string" where
  "callable_name c = (case c of ClassC q \<Rightarrow> short_name q | FuncC q \<Rightarrow> short_name q)"

definition key_str :: "di_key \<Rightarrow> string" where
  "key_str k = (case k of TypeKey q \<Rightarrow> ''<class '' @ quoted q @ ''>'' | NameKey n \<Rightarrow> n)"

definition hint_name :: "di_hint \<Rightarrow> string" where
  "hint_name h = (case h of HintType q \<Rightarrow> short_name q | HintOther s \<Rightarrow> s | HintNone \<Rightarrow> ''None'')"

section \<open>Looking a key up\<close>

definition find_registration :: "di_world \<Rightarrow> container \<Rightarrow> di_key \<Rightarrow> (di_key \<times> registration) option" where
  "find_registration w s key = (case map_of (di_regs s) key of
       Some r \<Rightarrow> Some (key, r)
     | None \<Rightarrow> (case key of
           TypeKey q \<Rightarrow> List.find (\<lambda>(k, r). case k of TypeKey q' \<Rightarrow> is_subclass w q' q | NameKey _ \<Rightarrow> False) (di_regs s)
         | NameKey _ \<Rightarrow> None))"

definition di_has :: "di_world \<Rightarrow> container \<Rightarrow> di_key \<Rightarrow> bool" where
  "di_has w s key \<longleftrightarrow> find_registration w s key \<noteq> None"

text \<open>The key by which a parameter is resolved: its class, else its name, else none.\<close>

definition param_key :: "di_world \<Rightarrow> container \<Rightarrow> di_param \<Rightarrow> di_key option" where
  "param_key w s p = (case par_hint p of
       HintType t \<Rightarrow> if di_has w s (TypeKey t) then Some (TypeKey t)
                    else if di_has w s (NameKey (par_name p)) then Some (NameKey (par_name p)) else None
     | _ \<Rightarrow> if di_has w s (NameKey (par_name p)) then Some (NameKey (par_name p)) else None)"

definition cached :: "registration \<Rightarrow> bool" where
  "cached r \<longleftrightarrow> rg_lifetime r = DI_SINGLETON \<and> rg_instance r \<noteq> PNone"

section \<open>Error messages\<close>

fun arrow_path :: "di_key list \<Rightarrow> string" where
  "arrow_path [] = []"
| "arrow_path [k] = key_str k"
| "arrow_path (k # ks) = key_str k @ '' -> '' @ arrow_path ks"

definition circular_error :: "di_key list \<Rightarrow> exn" where
  "circular_error ks = Exn DICircularDependencyErr (''Circular dependency detected: '' @ arrow_path ks)"

definition unresolvable_param :: "di_callable \<Rightarrow> di_param \<Rightarrow> exn" where
  "unresolvable_param c p = Exn DependencyResolutionErr (''Cannot resolve parameter '' @ quoted (par_name p) @ '' of type ''
     @ quoted (hint_name (par_hint p)) @ '' for '' @ (case c of ClassC _ \<Rightarrow> ''class '' | FuncC _ \<Rightarrow> ''callable '')
     @ quoted (callable_name c) @ ''.'')"

definition unregistered_name :: "string \<Rightarrow> exn" where
  "unregistered_name n = Exn DependencyResolutionErr (''No service registered for key '' @ quoted n @ '' and it cannot be autowired.'')"

definition autowire_error :: "string \<Rightarrow> exn \<Rightarrow> exn" where
  "autowire_error q e = (if exn_class e \<in> {DependencyResolutionErr, DICircularDependencyErr}
     then Exn DependencyResolutionErr (''Failed to autowire unregistered class '' @ quoted (short_name q) @ '': '' @ exn_msg e)
     else e)"

section \<open>Resolution\<close>

type_synonym maker = "nat \<Rightarrow> di_callable \<Rightarrow> (string \<times> pyval) list \<Rightarrow> exn + pyval"

text \<open>\<open>return cls(**kwargs)\<close>, unless collecting the arguments raised\<close>

definition construct :: "maker \<Rightarrow> di_callable \<Rightarrow> container \<times> (exn + (string \<times> pyval) list) \<Rightarrow> container \<times> (exn + pyval)" where
  "construct mk c x = (case x of
       (s, Inl e) \<Rightarrow> (s, Inl e)
     | (s, Inr kw) \<Rightarrow> (s\<lparr>di_built := di_built s + 1\<rparr>, mk (di_built s) c kw))"

text \<open>\<open>reg.instance = instance\<close> for a singleton\<close>

definition remember :: "di_key \<Rightarrow> registration \<Rightarrow> container \<times> (exn + pyval) \<Rightarrow> container \<times> (exn + pyval)" where
  "remember rk r x = (case x of
       (s, Inl e) \<Rightarrow> (s, Inl e)
     | (s, Inr v) \<Rightarrow> (if rg_lifetime r = DI_SINGLETON then s\<lparr>di_regs := AList.update rk (r\<lparr>rg_instance := v\<rparr>) (di_regs s)\<rparr> else s, Inr v))"

definition autowired :: "string \<Rightarrow> container \<times> (exn + pyval) \<Rightarrow> container \<times> (exn + pyval)" where
  "autowired q x = (case x of (s, Inl e) \<Rightarrow> (s, Inl (autowire_error q e)) | (s, Inr v) \<Rightarrow> (s, Inr v))"

text \<open>
  \<open>resolve_key\<close> is \<open>resolve\<close> with the stack of keys being resolved as an argument, and
  \<open>collect\<close> the loop of \<open>_inject_constructor\<close> and \<open>_inject_callable\<close> from the \<open>i\<close>-th parameter on.
  The recursion ends because a key on the stack is refused and only finitely many keys occur in
  signatures.
\<close>

definition param_keys :: "di_world \<Rightarrow> di_key set" where
  "param_keys w = (\<Union>ps \<in> set (map snd (signatures w)). \<Union>p \<in> set ps.
     {NameKey (par_name p)} \<union> (case par_hint p of HintType t \<Rightarrow> {TypeKey t} | _ \<Rightarrow> {}))"

lemma finite_param_keys: "finite (param_keys w)"
  by (auto simp: param_keys_def split: di_hint.split)

lemma param_key_in:
  assumes "p \<in> set (sig_params w c)" "param_key w s p = Some k"
  shows "k \<in> param_keys w"
proof -
  obtain ps where ps: "map_of (signatures w) c = Some ps" "p \<in> set ps"
    using assms(1) by (cases "map_of (signatures w) c") (auto simp: sig_params_def)
  then have "ps \<in> set (map snd (signatures w))" by (force dest: map_of_SomeD)
  moreover have "k \<in> {NameKey (par_name p)} \<union> (case par_hint p of HintType t \<Rightarrow> {TypeKey t} | _ \<Rightarrow> {})"
    using assms(2) by (auto simp: param_key_def split: di_hint.splits if_splits)
  ultimately show ?thesis using ps(2) by (fastforce simp: param_keys_def)
qed

lemma fewer_keys_left:
  "key \<notin> set stack \<Longrightarrow> card (param_keys w - insert key (set stack)) < card (insert key (param_keys w) - set stack)"
  by (intro psubset_card_mono) (auto simp: finite_param_keys)

lemma same_keys_left:
  "i < length (sig_params w c) \<Longrightarrow> param_key w s (sig_params w c ! i) = Some k \<Longrightarrow> insert k (param_keys w) = param_keys w"
  by (metis nth_mem param_key_in insert_absorb)

function resolve_key :: "di_world \<Rightarrow> maker \<Rightarrow> di_key list \<Rightarrow> di_key \<Rightarrow> container \<Rightarrow> container \<times> (exn + pyval)"
  and collect :: "di_world \<Rightarrow> maker \<Rightarrow> di_key list \<Rightarrow> di_callable \<Rightarrow> nat \<Rightarrow> (string \<times> pyval) list \<Rightarrow> container \<Rightarrow> container \<times> (exn + (string \<times> pyval) list)"
where
  "resolve_key w mk stack key s = (case find_registration w s key of
       Some (rk, r) \<Rightarrow>
         if cached r then (s, Inr (rg_instance r))
         else if key \<in> set stack then (s, Inl (circular_error (stack @ [key])))
         else (case rg_factory r of
             Some c \<Rightarrow> remember rk r (construct mk c (collect w mk (stack @ [key]) c 0 [] s))
           | None \<Rightarrow> (s, Inr (rg_instance r)))
     | None \<Rightarrow>
         if key \<in> set stack then (s, Inl (circular_error (stack @ [key])))
         else (case key of
             TypeKey q \<Rightarrow> autowired q (construct mk (ClassC q) (collect w mk (stack @ [key]) (ClassC q) 0 [] s))
           | NameKey n \<Rightarrow> (s, Inl (unregistered_name n))))"
| "collect w mk stack c i kw s =
     (if i < length (sig_params w c) then
        let p = sig_params w c ! i in
        case param_key w s p of
          Some k \<Rightarrow> (case resolve_key w mk stack k s of
              (s1, Inl e) \<Rightarrow> (s1, Inl e)
            | (s1, Inr v) \<Rightarrow> collect w mk stack c (i + 1) (kw @ [(par_name p, v)]) s1)
        | None \<Rightarrow> (case par_default p of
              Some d \<Rightarrow> collect w mk stack c (i + 1) (kw @ [(par_name p, d)]) s
            | None \<Rightarrow> (s, Inl (unresolvable_param c p)))
      else (s, Inr kw))"
  by pat_completeness auto
termination
  by (relation "measures [
    \<lambda>x. case x of Inl (w, mk, stack, key, s) \<Rightarrow> card (insert key (param_keys w) - set stack)
               | Inr (w, mk, stack, c, i, kw, s) \<Rightarrow> card (param_keys w - set stack),
    \<lambda>x. case x of Inl _ \<Rightarrow> 0 | Inr (w, mk, stack, c, i, kw, s) \<Rightarrow> Suc (length (sig_params w c) - i)]")
    (auto simp: fewer_keys_left same_keys_left)

declare resolve_key.simps [simp del] collect.simps [simp del]

definition di_resolve :: "di_world \<Rightarrow> maker \<Rightarrow> di_key \<Rightarrow> container \<Rightarrow> container \<times> (exn + pyval)" where
  "di_resolve w mk key s = resolve_key w mk [] key s"

end
