(* ===== verification/DIResolution.thy ===== *)
theory DIResolution
  imports DIContainer
begin

text \<open>
  What resolution promises. The specification \<open>resolvable\<close> has no stack and no order: it is the
  least predicate that holds for a key whose instance exists or whose constructor can be given all
  its parameters. Resolution succeeds exactly on these keys; a circle is an error and never an
  endless recursion. A singleton, once made, is the same object for ever.
\<close>

section \<open>The specification\<close>

inductive resolvable :: "di_world \<Rightarrow> container \<Rightarrow> di_key \<Rightarrow> bool"
  and buildable :: "di_world \<Rightarrow> container \<Rightarrow> di_callable \<Rightarrow> bool"
  for w s where
  by_cache: "find_registration w s key = Some (rk, r) \<Longrightarrow> cached r \<Longrightarrow> resolvable w s key"
| by_instance: "find_registration w s key = Some (rk, r) \<Longrightarrow> rg_factory r = None \<Longrightarrow> resolvable w s key"
| by_factory: "find_registration w s key = Some (rk, r) \<Longrightarrow> rg_factory r = Some c \<Longrightarrow> buildable w s c \<Longrightarrow> resolvable w s key"
| by_autowiring: "find_registration w s (TypeKey q) = None \<Longrightarrow> buildable w s (ClassC q) \<Longrightarrow> resolvable w s (TypeKey q)"
| buildableI: "(\<And>p k. p \<in> set (sig_params w c) \<Longrightarrow> param_key w s p = Some k \<Longrightarrow> resolvable w s k) \<Longrightarrow>
    (\<And>p. p \<in> set (sig_params w c) \<Longrightarrow> param_key w s p = None \<Longrightarrow> par_default p \<noteq> None) \<Longrightarrow> buildable w s c"

inductive_cases buildableE: "buildable w s c"

definition param_ok :: "(di_key \<Rightarrow> bool) \<Rightarrow> di_world \<Rightarrow> container \<Rightarrow> di_param \<Rightarrow> bool" where
  "param_ok R w s p = (case param_key w s p of Some k \<Rightarrow> R k | None \<Rightarrow> par_default p \<noteq> None)"

lemma buildable_iff: "buildable w s c \<longleftrightarrow> (\<forall>p \<in> set (sig_params w c). param_ok (resolvable w s) w s p)"
  by (auto simp: param_ok_def intro!: buildableI elim!: buildableE split: option.splits)

text \<open>The same with a bound on the depth of the derivation\<close>

fun resolvable_in :: "nat \<Rightarrow> di_world \<Rightarrow> container \<Rightarrow> di_key \<Rightarrow> bool" where
  "resolvable_in 0 w s key = False"
| "resolvable_in (Suc n) w s key = (case find_registration w s key of
       Some (rk, r) \<Rightarrow> cached r \<or> (case rg_factory r of None \<Rightarrow> True
                                  | Some c \<Rightarrow> \<forall>p \<in> set (sig_params w c). param_ok (resolvable_in n w s) w s p)
     | None \<Rightarrow> (case key of TypeKey q \<Rightarrow> \<forall>p \<in> set (sig_params w (ClassC q)). param_ok (resolvable_in n w s) w s p
                          | NameKey _ \<Rightarrow> False))"

lemma param_ok_mono: "param_ok R w s p \<Longrightarrow> (\<And>k. R k \<Longrightarrow> R' k) \<Longrightarrow> param_ok R' w s p"
  by (auto simp: param_ok_def split: option.splits)

lemma resolvable_in_Suc: "resolvable_in n w s key \<Longrightarrow> resolvable_in (Suc n) w s key"
proof (induction n arbitrary: key)
  case (Suc n)
  have p: "param_ok (resolvable_in (Suc n) w s) w s p" if "param_ok (resolvable_in n w s) w s p" for p
    using that Suc.IH by (blast intro: param_ok_mono)
  show ?case
    using Suc.prems
    by (simp only: resolvable_in.simps(2) [of "Suc n"] resolvable_in.simps(2) [of n])
      (auto simp del: resolvable_in.simps intro: p split: option.splits di_key.splits)
qed simp

lemma resolvable_in_mono: "resolvable_in n w s key \<Longrightarrow> n \<le> m \<Longrightarrow> resolvable_in m w s key"
  by (induction m) (auto simp del: resolvable_in.simps(2) simp: le_Suc_eq intro: resolvable_in_Suc)

lemma bounded_params:
  assumes "\<And>p. p \<in> set ps \<Longrightarrow> \<exists>n. param_ok (resolvable_in n w s) w s p"
  shows "\<exists>n. \<forall>p \<in> set ps. param_ok (resolvable_in n w s) w s p"
  using assms
proof (induction ps)
  case (Cons p ps)
  obtain n m where n: "param_ok (resolvable_in n w s) w s p" and m: "\<forall>p \<in> set ps. param_ok (resolvable_in m w s) w s p"
    using Cons by fastforce
  have "param_ok (resolvable_in (max n m) w s) w s p'" if "p' \<in> set (p # ps)" for p'
    using n m that by (fastforce intro: param_ok_mono resolvable_in_mono)
  then show ?case by blast
qed simp

lemma resolvable_bounded:
  "resolvable w s key \<Longrightarrow> \<exists>n. resolvable_in n w s key"
  "buildable w s c \<Longrightarrow> \<exists>n. \<forall>p \<in> set (sig_params w c). param_ok (resolvable_in n w s) w s p"
proof (induction rule: resolvable_buildable.inducts)
  case (by_factory key rk r c)
  then obtain n where "\<forall>p \<in> set (sig_params w c). param_ok (resolvable_in n w s) w s p" by blast
  with by_factory show ?case by (intro exI [of _ "Suc n"]) simp
next
  case (by_autowiring q)
  then obtain n where "\<forall>p \<in> set (sig_params w (ClassC q)). param_ok (resolvable_in n w s) w s p" by blast
  with by_autowiring show ?case by (intro exI [of _ "Suc n"]) simp
next
  case (buildableI c)
  have "\<exists>n. param_ok (resolvable_in n w s) w s p" if "p \<in> set (sig_params w c)" for p
    using buildableI that by (cases "param_key w s p") (auto simp: param_ok_def)
  then show ?case by (rule bounded_params)
qed (auto intro!: exI [of _ "Suc 0"])

section \<open>How resolution changes the container\<close>

text \<open>Only the empty instance of a singleton with a factory is filled.\<close>

definition entry_grows :: "(di_callable \<Rightarrow> bool) \<Rightarrow> registration \<Rightarrow> registration \<Rightarrow> bool" where
  "entry_grows P r r' \<longleftrightarrow> r' = r \<or> (rg_lifetime r = DI_SINGLETON \<and> rg_instance r = PNone \<and>
     (\<exists>c v. rg_factory r = Some c \<and> P c \<and> r' = r\<lparr>rg_instance := v\<rparr>))"

definition di_grows :: "(di_callable \<Rightarrow> bool) \<Rightarrow> container \<Rightarrow> container \<Rightarrow> bool" where
  "di_grows P s s' \<longleftrightarrow> list_all2 (\<lambda>(k, r) (k', r'). k = k' \<and> entry_grows P r r') (di_regs s) (di_regs s')"

lemma entry_grows_refl [simp]: "entry_grows P r r"
  by (simp add: entry_grows_def)

lemma di_grows_refl [simp, intro]: "di_grows P s s"
  by (auto simp: di_grows_def intro: list_all2_refl)

lemma di_grows_built [simp]: "di_grows P s (s'\<lparr>di_built := n\<rparr>) = di_grows P s s'"
  by (simp add: di_grows_def)

lemma entry_grows_trans: "entry_grows P r r' \<Longrightarrow> entry_grows P r' r'' \<Longrightarrow> entry_grows P r r''"
  by (auto simp: entry_grows_def)

lemma di_grows_trans: "di_grows P s s' \<Longrightarrow> di_grows P s' s'' \<Longrightarrow> di_grows P s s''"
  unfolding di_grows_def by (rule list_all2_trans) (auto intro: entry_grows_trans)

lemma di_grows_mono: "di_grows P s s' \<Longrightarrow> (\<And>c. P c \<Longrightarrow> Q c) \<Longrightarrow> di_grows Q s s'"
  unfolding di_grows_def by (erule list_all2_mono) (auto simp: entry_grows_def)

lemma grows_map_of:
  assumes "list_all2 (\<lambda>(k, r) (k', r'). k = k' \<and> entry_grows P r r') xs ys"
  shows "rel_option (entry_grows P) (map_of xs key) (map_of ys key)"
  using assms by (induction rule: list_all2_induct) auto

lemma grows_find:
  assumes "list_all2 (\<lambda>(k, r) (k', r'). k = k' \<and> entry_grows P r r') xs ys"
  shows "rel_option (\<lambda>(k, r) (k', r'). k = k' \<and> entry_grows P r r') (List.find (\<lambda>(k, r). Q k) xs) (List.find (\<lambda>(k, r). Q k) ys)"
  using assms by (induction rule: list_all2_induct) auto

lemma grows_registration:
  assumes "di_grows P s s'"
  shows "rel_option (\<lambda>(k, r) (k', r'). k = k' \<and> entry_grows P r r') (find_registration w s key) (find_registration w s' key)"
proof (cases key)
  case (TypeKey q)
  show ?thesis
    using grows_map_of [OF assms [unfolded di_grows_def], of key] TypeKey
      grows_find [OF assms [unfolded di_grows_def], of "\<lambda>k. case k of TypeKey q' \<Rightarrow> is_subclass w q' q | NameKey _ \<Rightarrow> False"]
    by (cases "map_of (di_regs s) key"; cases "map_of (di_regs s') key") (auto simp: find_registration_def)
next
  case (NameKey n)
  show ?thesis
    using grows_map_of [OF assms [unfolded di_grows_def], of key] NameKey
    by (cases "map_of (di_regs s) key"; cases "map_of (di_regs s') key") (auto simp: find_registration_def)
qed

lemma grows_has: "di_grows P s s' \<Longrightarrow> di_has w s' key = di_has w s key"
  using grows_registration [of P s s' w key]
  by (cases "find_registration w s key"; cases "find_registration w s' key") (auto simp: di_has_def)

lemma grows_param_key: "di_grows P s s' \<Longrightarrow> param_key w s' p = param_key w s p"
  by (simp add: param_key_def grows_has cong: di_hint.case_cong)

lemma grows_found:
  assumes "di_grows P s s'" "find_registration w s' key = Some (rk, r')"
  shows "\<exists>r. find_registration w s key = Some (rk, r) \<and> entry_grows P r r'"
  using grows_registration [OF assms(1), of w key] assms(2) by (cases "find_registration w s key") auto

lemma grows_found_fwd:
  assumes "di_grows P s s'" "find_registration w s key = Some (rk, r)"
  shows "\<exists>r'. find_registration w s' key = Some (rk, r') \<and> entry_grows P r r'"
  using grows_registration [OF assms(1), of w key] assms(2) by (cases "find_registration w s' key") auto

text \<open>The registration that is found is the first one under its key.\<close>

lemma find_first:
  "List.find (\<lambda>(k, r). Q k) xs = Some (rk, r) \<Longrightarrow> map_of xs rk = Some r"
  by (induction xs) (auto simp: find_Some_iff split: if_splits)

lemma found_registered: "find_registration w s key = Some (rk, r) \<Longrightarrow> map_of (di_regs s) rk = Some r"
  by (auto simp: find_registration_def dest: find_first split: option.splits di_key.splits)

lemma grows_update:
  assumes "map_of xs rk = Some r" "entry_grows P r r'"
  shows "list_all2 (\<lambda>(k, r) (k', r'). k = k' \<and> entry_grows P r r') xs (AList.update rk r' xs)"
  using assms by (induction xs) (auto intro: list_all2_refl split: if_splits)

lemma grows_remember:
  assumes "map_of (di_regs s) rk = Some r" "\<not> cached r" "rg_factory r = Some c" "P c" "di_grows P s s'"
  shows "di_grows P s (fst (remember rk r (s', res)))"
proof -
  obtain r1 where r1: "map_of (di_regs s') rk = Some r1" "entry_grows P r r1"
    using grows_map_of [OF assms(5) [unfolded di_grows_def], of rk] assms(1) by (cases "map_of (di_regs s') rk") auto
  have "di_grows P s (s'\<lparr>di_regs := AList.update rk (r\<lparr>rg_instance := v\<rparr>) (di_regs s')\<rparr>)"
    if l: "rg_lifetime r = DI_SINGLETON" for v
  proof -
    have e: "entry_grows P r (r\<lparr>rg_instance := v\<rparr>)"
      using assms l by (auto simp: entry_grows_def cached_def)
    have "list_all2 (\<lambda>(k, r) (k', r'). k = k' \<and> entry_grows P r r') xs (AList.update rk (r\<lparr>rg_instance := v\<rparr>) ys)"
      if "list_all2 (\<lambda>(k, r) (k', r'). k = k' \<and> entry_grows P r r') xs ys" "map_of xs rk = Some r" for xs ys
      using that by (induction rule: list_all2_induct) (auto simp: e split: if_splits)
    then show ?thesis using assms(1,5) by (simp add: di_grows_def)
  qed
  then show ?thesis using assms(5) by (cases res) (auto simp: remember_def)
qed

lemma cached_grows: "entry_grows P r r' \<Longrightarrow> cached r \<Longrightarrow> r' = r"
  by (auto simp: entry_grows_def cached_def)

section \<open>Soundness\<close>

lemma resolvable_grows:
  assumes g: "di_grows (buildable w s) s s'"
  shows "resolvable w s' key \<Longrightarrow> resolvable w s key" "buildable w s' c \<Longrightarrow> buildable w s c"
proof (induction rule: resolvable_buildable.inducts)
  case (by_cache key rk r)
  then obtain r0 where "find_registration w s key = Some (rk, r0)" "entry_grows (buildable w s) r0 r"
    using grows_found [OF g] by blast
  then show ?case using by_cache by (auto simp: entry_grows_def intro: resolvable_buildable.intros)
next
  case (by_instance key rk r)
  then obtain r0 where "find_registration w s key = Some (rk, r0)" "entry_grows (buildable w s) r0 r"
    using grows_found [OF g] by blast
  then show ?case using by_instance by (auto simp: entry_grows_def intro: resolvable_buildable.intros)
next
  case (by_factory key rk r c)
  then obtain r0 where "find_registration w s key = Some (rk, r0)" "entry_grows (buildable w s) r0 r"
    using grows_found [OF g] by blast
  then show ?case using by_factory by (auto simp: entry_grows_def intro: resolvable_buildable.intros)
next
  case (by_autowiring q)
  then have "find_registration w s (TypeKey q) = None"
    using grows_registration [OF g, of w "TypeKey q"] by (cases "find_registration w s (TypeKey q)") auto
  then show ?case using by_autowiring by (auto intro: resolvable_buildable.intros)
next
  case (buildableI c)
  then show ?case by (intro resolvable_buildable.buildableI) (auto simp: grows_param_key [OF g])
qed

lemma grows_sound_trans:
  assumes "di_grows (buildable w s) s s1" "di_grows (buildable w s1) s1 s2"
  shows "di_grows (buildable w s) s s2"
  by (rule di_grows_trans [OF assms(1) di_grows_mono [OF assms(2)]]) (rule resolvable_grows(2) [OF assms(1)])

definition params_from :: "di_world \<Rightarrow> container \<Rightarrow> di_callable \<Rightarrow> nat \<Rightarrow> bool" where
  "params_from w s c i \<longleftrightarrow> (\<forall>j. i \<le> j \<longrightarrow> j < length (sig_params w c) \<longrightarrow> param_ok (resolvable w s) w s (sig_params w c ! j))"

lemma params_from_0: "params_from w s c 0 \<longleftrightarrow> buildable w s c"
  by (auto simp: params_from_def buildable_iff all_set_conv_all_nth)

lemma params_from_step:
  "param_ok (resolvable w s) w s (sig_params w c ! i) \<Longrightarrow> params_from w s c (Suc i) \<Longrightarrow> params_from w s c i"
  by (metis params_from_def le_antisym not_less_eq_eq)

lemma params_from_grows:
  assumes "di_grows (buildable w s) s s'" "params_from w s' c i"
  shows "params_from w s c i"
  using assms(2) by (auto simp: params_from_def param_ok_def grows_param_key [OF assms(1)] split: option.splits
      dest: resolvable_grows(1) [OF assms(1)])

lemma fst_construct: "di_regs (fst (construct mk c x)) = di_regs (fst x)"
  by (auto simp: construct_def split: prod.split sum.split)

lemma di_grows_regs: "di_regs s1 = di_regs s2 \<Longrightarrow> di_grows P s s1 = di_grows P s s2"
  by (simp add: di_grows_def)

lemma fst_autowired: "fst (autowired q x) = fst x"
  by (auto simp: autowired_def split: prod.split sum.split)

lemma construct_Inr: "snd (construct mk c x) = Inr v \<Longrightarrow> \<exists>kw. snd x = Inr kw"
  by (auto simp: construct_def split: prod.splits sum.splits)

lemma remember_Inr: "snd (remember rk r x) = snd x"
  by (auto simp: remember_def split: prod.splits sum.splits)

lemma autowired_Inr: "snd (autowired q x) = Inr v \<longleftrightarrow> snd x = Inr v"
  by (auto simp: autowired_def split: prod.splits sum.splits)

lemma resolve_sound:
  shows "di_grows (buildable w s) s (fst (resolve_key w mk stack key s))
       \<and> ((\<exists>v. snd (resolve_key w mk stack key s) = Inr v) \<longrightarrow> resolvable w s key)"
    and "di_grows (buildable w s) s (fst (collect w mk stack c i kw s))
       \<and> ((\<exists>v. snd (collect w mk stack c i kw s) = Inr v) \<longrightarrow> params_from w s c i)"
proof (induction w mk stack key s and w mk stack c i kw s rule: resolve_key_collect.induct)
  case (1 w mk stack key s)
  show ?case
  proof (cases "find_registration w s key")
    case None
    show ?thesis
    proof (cases "key \<in> set stack \<or> (\<exists>n. key = NameKey n)")
      case True
      then show ?thesis using None by (auto simp: resolve_key.simps [of w mk stack key])
    next
      case False
      then obtain q where q: "key = TypeKey q" by (cases key) auto
      have eq: "resolve_key w mk stack key s = autowired q (construct mk (ClassC q) (collect w mk (stack @ [key]) (ClassC q) 0 [] s))"
        using None False q by (simp add: resolve_key.simps [of w mk stack])
      show ?thesis
        using 1(1) [OF None] False q None unfolding eq fst_autowired autowired_Inr
        by (auto simp: params_from_0 di_grows_regs [OF fst_construct] dest!: construct_Inr intro: resolvable_buildable.intros)
    qed
  next
    case (Some a)
    then obtain rk r where f: "find_registration w s key = Some (rk, r)" by (cases a) auto
    show ?thesis
    proof (cases "cached r \<or> key \<in> set stack \<or> rg_factory r = None")
      case True
      then show ?thesis using f by (auto simp: resolve_key.simps [of w mk stack key] intro: resolvable_buildable.intros)
    next
      case False
      then obtain c where c: "rg_factory r = Some c" by auto
      have eq: "resolve_key w mk stack key s = remember rk r (construct mk c (collect w mk (stack @ [key]) c 0 [] s))"
        using f False c by (simp add: resolve_key.simps [of w mk stack])
      have ih: "di_grows (buildable w s) s (fst (collect w mk (stack @ [key]) c 0 [] s))"
        "(\<exists>v. snd (collect w mk (stack @ [key]) c 0 [] s) = Inr v) \<Longrightarrow> buildable w s c"
        using 1(2) [OF f refl _ _ c] False by (auto simp: params_from_0)
      obtain s1 x where cc: "construct mk c (collect w mk (stack @ [key]) c 0 [] s) = (s1, x)" by (meson surj_pair)
      have g: "di_grows (buildable w s) s s1"
        using ih(1) fst_construct [of mk c "collect w mk (stack @ [key]) c 0 [] s"] cc by (simp add: di_grows_def)
      show ?thesis
      proof (cases x)
        case (Inl e)
        then show ?thesis using eq cc g by (simp add: remember_def)
      next
        case (Inr v)
        then have b: "buildable w s c" using construct_Inr [of mk c "collect w mk (stack @ [key]) c 0 [] s" v] cc ih(2) by auto
        then show ?thesis
          using eq cc grows_remember [OF found_registered [OF f] _ c b g] False f c by (auto intro: resolvable_buildable.intros)
      qed
    qed
  qed
next
  case (2 w mk stack c i kw s)
  show ?case
  proof (cases "i < length (sig_params w c)")
    case False
    then show ?thesis by (simp add: collect.simps [of w mk stack c i] params_from_def)
  next
    case True
    define p where "p = sig_params w c ! i"
    show ?thesis
    proof (cases "param_key w s p")
      case None
      show ?thesis
      proof (cases "par_default p")
        case None
        then show ?thesis using True \<open>param_key w s p = None\<close>
          by (simp add: collect.simps [of w mk stack c i] Let_def flip: p_def)
      next
        case (Some d)
        have "param_ok (resolvable w s) w s (sig_params w c ! i)" using Some None by (simp add: param_ok_def p_def)
        then show ?thesis using 2(1) [OF True p_def None Some] True None Some
          by (auto simp: collect.simps [of w mk stack c i] Let_def simp flip: p_def intro: params_from_step)
      qed
    next
      case (Some k)
      obtain s1 x where r: "resolve_key w mk stack k s = (s1, x)" by (meson surj_pair)
      have ih: "di_grows (buildable w s) s s1" "\<And>v. x = Inr v \<Longrightarrow> resolvable w s k"
        using 2(2) [OF True p_def Some] r by auto
      show ?thesis
      proof (cases x)
        case (Inl e)
        then show ?thesis using ih(1) r Some True by (simp add: collect.simps [of w mk stack c i] Let_def flip: p_def)
      next
        case (Inr v)
        have "param_ok (resolvable w s) w s (sig_params w c ! i)"
          using Some ih(2) Inr by (simp add: param_ok_def p_def)
        then show ?thesis
          using 2(3) [OF True p_def Some r [symmetric] Inr] ih(1) r Some True Inr
          by (auto simp: collect.simps [of w mk stack c i] Let_def simp flip: p_def
              intro: grows_sound_trans params_from_step params_from_grows)
      qed
    qed
  qed
qed

section \<open>Completeness\<close>

lemma resolve_keeps: "di_grows (\<lambda>_. True) s (fst (resolve_key w mk stack key s))"
  using resolve_sound(1) [of w s mk stack key] by (blast intro: di_grows_mono)

lemma collect_complete:
  assumes args: "\<And>k s. resolvable_in m w s0 k \<Longrightarrow> di_grows (\<lambda>_. True) s0 s \<Longrightarrow> \<exists>v. snd (resolve_key w mk stack k s) = Inr v"
    and ok: "\<forall>p \<in> set (sig_params w c). param_ok (resolvable_in m w s0) w s0 p"
  shows "di_grows (\<lambda>_. True) s0 s \<Longrightarrow> \<exists>s' kw'. collect w mk stack c i kw s = (s', Inr kw') \<and> di_grows (\<lambda>_. True) s0 s'"
proof (induction "length (sig_params w c) - i" arbitrary: i kw s)
  case 0
  then show ?case by (simp add: collect.simps [of w mk stack c i])
next
  case (Suc n)
  define p where "p = sig_params w c ! i"
  have i: "i < length (sig_params w c)" "n = length (sig_params w c) - (i + 1)" using Suc.hyps by auto
  then have p: "param_ok (resolvable_in m w s0) w s0 p" using ok by (simp add: p_def)
  show ?case
  proof (cases "param_key w s p")
    case None
    then obtain d where "par_default p = Some d" using p by (auto simp: param_ok_def grows_param_key [OF Suc.prems])
    then show ?thesis using Suc.hyps(1) [OF i(2) Suc.prems] None i(1)
      by (simp add: collect.simps [of w mk stack c i] Let_def flip: p_def)
  next
    case (Some k)
    then have "resolvable_in m w s0 k" using p by (simp add: param_ok_def grows_param_key [OF Suc.prems])
    then obtain v where v: "snd (resolve_key w mk stack k s) = Inr v" using args Suc.prems by blast
    obtain s1 where r: "resolve_key w mk stack k s = (s1, Inr v)" using v by (metis prod.collapse)
    have "di_grows (\<lambda>_. True) s0 s1"
      using di_grows_trans [OF Suc.prems resolve_keeps] r by (metis fst_conv)
    then show ?thesis using Suc.hyps(1) [OF i(2)] r Some i(1)
      by (simp add: collect.simps [of w mk stack c i] Let_def flip: p_def)
  qed
qed

lemma snd_construct: "snd x = Inr kw \<Longrightarrow> \<exists>v. snd (construct (\<lambda>n c kw. Inr (mk n c kw)) c x) = Inr v"
  by (cases x) (simp add: construct_def)

lemma resolve_complete:
  "resolvable_in n w s0 key \<Longrightarrow> \<forall>k \<in> set stack. \<not> resolvable_in n w s0 k \<Longrightarrow> di_grows (\<lambda>_. True) s0 s \<Longrightarrow>
   \<exists>v. snd (resolve_key w (\<lambda>n c kw. Inr (mk n c kw)) stack key s) = Inr v"
proof (induction n arbitrary: stack key s rule: less_induct)
  case (less n)
  define m where "m = (LEAST m. resolvable_in m w s0 key)"
  have m: "resolvable_in m w s0 key" unfolding m_def using less.prems(1) by (rule LeastI)
  have least: "\<not> resolvable_in j w s0 key" if "j < m" for j using that not_less_Least unfolding m_def by blast
  have mn: "m \<le> n" unfolding m_def using less.prems(1) by (rule Least_le)
  obtain m' where m': "m = Suc m'" using m by (cases m) auto
  have fresh: "key \<notin> set stack" using less.prems(1,2) by blast
  have out: "\<forall>k \<in> set (stack @ [key]). \<not> resolvable_in m' w s0 k"
    using less.prems(2) resolvable_in_mono [of m' w s0 _ n] least [of m'] mn m' by auto
  have args: "\<exists>s' kw'. collect w (\<lambda>n c kw. Inr (mk n c kw)) (stack @ [key]) c 0 [] s = (s', Inr kw') \<and> di_grows (\<lambda>_. True) s0 s'"
    if "\<forall>p \<in> set (sig_params w c). param_ok (resolvable_in m' w s0) w s0 p" for c
    by (rule collect_complete [OF _ that less.prems(3)]) (use less.IH [of m'] mn m' out in auto)
  show ?case
  proof (cases "find_registration w s key")
    case None
    then have n0: "find_registration w s0 key = None"
      using grows_registration [OF less.prems(3), of w key] by (cases "find_registration w s0 key") auto
    then obtain q where q: "key = TypeKey q" using m m' by (cases key) auto
    have "\<forall>p \<in> set (sig_params w (ClassC q)). param_ok (resolvable_in m' w s0) w s0 p"
      using m m' n0 q by simp
    then show ?thesis using args [of "ClassC q"] None fresh q
      by (auto simp: resolve_key.simps [of w _ stack] autowired_Inr intro: snd_construct)
  next
    case (Some a)
    then obtain rk r where f: "find_registration w s key = Some (rk, r)" by (cases a) auto
    obtain r0 where f0: "find_registration w s0 key = Some (rk, r0)" "entry_grows (\<lambda>_. True) r0 r"
      using grows_found [OF less.prems(3) f] by blast
    show ?thesis
    proof (cases "cached r \<or> rg_factory r = None")
      case True
      then show ?thesis using f fresh by (auto simp: resolve_key.simps [of w _ stack])
    next
      case False
      then obtain c where c: "rg_factory r = Some c" by auto
      have "\<not> cached r0" using cached_grows [OF f0(2)] False by auto
      moreover have "rg_factory r0 = Some c" using c f0(2) by (auto simp: entry_grows_def)
      ultimately have "\<forall>p \<in> set (sig_params w c). param_ok (resolvable_in m' w s0) w s0 p"
        using m m' f0(1) by simp
      then show ?thesis using args [of c] f fresh False c
        by (auto simp: resolve_key.simps [of w _ stack] remember_Inr intro: snd_construct)
    qed
  qed
qed

section \<open>Errors\<close>

definition di_failure :: "exn \<Rightarrow> bool" where
  "di_failure e \<longleftrightarrow> exn_class e \<in> {DependencyResolutionErr, DICircularDependencyErr}"

lemma di_failure_simps [simp]:
  "di_failure (circular_error ks)" "di_failure (unregistered_name n)" "di_failure (unresolvable_param c p)"
  "di_failure (autowire_error q e) = di_failure e"
  by (auto simp: di_failure_def circular_error_def unregistered_name_def unresolvable_param_def autowire_error_def)

definition never_raises :: "maker \<Rightarrow> bool" where
  "never_raises mk \<longleftrightarrow> (\<forall>n c kw e. mk n c kw \<noteq> Inl e)"

lemma construct_Inl: "never_raises mk \<Longrightarrow> snd (construct mk c x) = Inl e \<Longrightarrow> snd x = Inl e"
  by (auto simp: construct_def never_raises_def split: prod.splits sum.splits)

lemma autowired_Inl: "snd (autowired q y) = Inl e \<longleftrightarrow> (\<exists>e0. snd y = Inl e0 \<and> e = autowire_error q e0)"
  by (auto simp: autowired_def split: prod.splits sum.splits)

lemma resolve_errors:
  shows "never_raises mk \<Longrightarrow> snd (resolve_key w mk stack key s) = Inl e \<Longrightarrow> di_failure e"
    and "never_raises mk \<Longrightarrow> snd (collect w mk stack c i kw s) = Inl e \<Longrightarrow> di_failure e"
proof (induction w mk stack key s and w mk stack c i kw s arbitrary: e and e rule: resolve_key_collect.induct)
  case (1 w mk stack key s)
  then show ?case
    by (auto simp: resolve_key.simps [of w mk stack key s] remember_Inr autowired_Inl
        split: option.splits if_splits di_key.splits dest!: construct_Inl [OF 1(3)])
next
  case (2 w mk stack c i kw s)
  then show ?case
    by (auto simp: collect.simps [of w mk stack c i kw s] Let_def split: option.splits if_splits prod.splits sum.splits)
qed

section \<open>The properties\<close>

text \<open>
  \<open>C11\<close>. Resolution of a key returns exactly when the specification allows it: each parameter
  of each constructor on the way has a registered class, a registered name or a default, and the
  keys do not go round in circles. Otherwise it raises one of the container's own errors. It never
  recurses without end, whatever is registered. (Constructors do not raise here.)
\<close>

theorem di_resolve_correct:
  "case snd (di_resolve w (\<lambda>n c kw. Inr (mk n c kw)) key s) of
     Inr v \<Rightarrow> resolvable w s key
   | Inl e \<Rightarrow> \<not> resolvable w s key \<and> exn_class e \<in> {DependencyResolutionErr, DICircularDependencyErr}"
proof (cases "snd (di_resolve w (\<lambda>n c kw. Inr (mk n c kw)) key s)")
  case (Inr v)
  then have "resolvable w s key"
    using resolve_sound(1) [of w s "\<lambda>n c kw. Inr (mk n c kw)" "[]" key] by (simp add: di_resolve_def)
  then show ?thesis using Inr by simp
next
  case (Inl e)
  then have "di_failure e"
    using resolve_errors(1) [of "\<lambda>n c kw. Inr (mk n c kw)"] by (simp add: di_resolve_def never_raises_def)
  moreover have "\<not> resolvable w s key"
  proof
    assume "resolvable w s key"
    then obtain n where "resolvable_in n w s key" using resolvable_bounded(1) by blast
    from resolve_complete [OF this, of "[]" s mk] show False using Inl by (auto simp: di_resolve_def)
  qed
  ultimately show ?thesis using Inl by (simp add: di_failure_def)
qed

text \<open>Any number of further resolutions\<close>

definition resolve_all :: "di_world \<Rightarrow> maker \<Rightarrow> di_key list \<Rightarrow> container \<Rightarrow> container" where
  "resolve_all w mk ks s = foldl (\<lambda>s k. fst (di_resolve w mk k s)) s ks"

lemma resolve_all_keeps: "di_grows (\<lambda>_. True) s (resolve_all w mk ks s)"
proof (induction ks arbitrary: s)
  case (Cons k ks)
  show ?case
    using di_grows_trans [OF resolve_keeps [of s w mk "[]" k] Cons.IH]
    by (simp add: resolve_all_def di_resolve_def)
qed (simp add: resolve_all_def)

lemma resolved_is_cached:
  assumes "di_resolve w mk key s = (s', Inr v)" "find_registration w s key = Some (rk, r)"
    "rg_lifetime r = DI_SINGLETON" "v \<noteq> PNone"
  shows "\<exists>r'. find_registration w s' key = Some (rk, r') \<and> cached r' \<and> rg_instance r' = v"
proof (cases "cached r \<or> rg_factory r = None")
  case True
  then show ?thesis using assms by (auto simp: di_resolve_def resolve_key.simps cached_def split: if_splits)
next
  case False
  then obtain c where c: "rg_factory r = Some c" by auto
  have eq: "di_resolve w mk key s = remember rk r (construct mk c (collect w mk [key] c 0 [] s))"
    using assms(2) False c by (simp add: di_resolve_def resolve_key.simps)
  then obtain s1 where s1: "construct mk c (collect w mk [key] c 0 [] s) = (s1, Inr v)"
    "s' = s1\<lparr>di_regs := AList.update rk (r\<lparr>rg_instance := v\<rparr>) (di_regs s1)\<rparr>"
    using assms(1,3) by (auto simp: remember_def split: prod.splits sum.splits)
  have "di_grows (\<lambda>_. True) s s'"
    using resolve_keeps [of s w mk "[]" key] assms(1) by (simp add: di_resolve_def)
  from grows_found_fwd [OF this assms(2)] obtain r' where r': "find_registration w s' key = Some (rk, r')" by blast
  moreover have "map_of (di_regs s') rk = Some (r\<lparr>rg_instance := v\<rparr>)"
    using s1(2) by (simp add: map_of_update)
  ultimately have "r' = r\<lparr>rg_instance := v\<rparr>" using found_registered [OF r'] by simp
  then show ?thesis using r' assms(3,4) by (simp add: cached_def)
qed

text \<open>
  \<open>C32\<close>. A singleton is made once: when resolving a key whose registration is a singleton gave
  an object, every later resolution of the key gives the same object and changes nothing, whatever
  else was resolved in between.
\<close>

theorem singleton_made_once:
  assumes "di_resolve w mk key s = (s', Inr v)" "find_registration w s key = Some (rk, r)"
    "rg_lifetime r = DI_SINGLETON" "v \<noteq> PNone"
  shows "let s2 = resolve_all w mk ks s' in di_resolve w mk key s2 = (s2, Inr v)"
proof -
  obtain r' where r': "find_registration w s' key = Some (rk, r')" "cached r'" "rg_instance r' = v"
    using resolved_is_cached [OF assms] by blast
  obtain r2 where "find_registration w (resolve_all w mk ks s') key = Some (rk, r2)" "entry_grows (\<lambda>_. True) r' r2"
    using grows_found_fwd [OF resolve_all_keeps r'(1)] by blast
  then show ?thesis using cached_grows r' by (auto simp: di_resolve_def resolve_key.simps Let_def)
qed

text \<open>A service with a repository, which is asked for by its base class\<close>

definition example_world :: di_world where
  "example_world = \<lparr>signatures = [(ClassC ''app.Service'', [\<lparr>par_name = ''self'', par_hint = HintNone, par_default = None, par_variadic = False\<rparr>,
       \<lparr>par_name = ''repo'', par_hint = HintType ''app.Base'', par_default = None, par_variadic = False\<rparr>])],
     is_subclass = (\<lambda>a b. a = b \<or> (a = ''app.Repo'' \<and> b = ''app.Base''))\<rparr>"

definition example_container :: container where
  "example_container = register_singleton (TypeKey ''app.Service'') (ClassC ''app.Service'')
     (register_transient (TypeKey ''app.Repo'') (ClassC ''app.Repo'') di_empty)"

lemma singleton_made_once_witness:
  "let mk = (\<lambda>n c kw. Inr (PObj n)); key = TypeKey ''app.Service'';
       s2 = resolve_all example_world mk [TypeKey ''app.Base'', key] (fst (di_resolve example_world mk key example_container))
   in di_resolve example_world mk key s2 = (s2, Inr (PObj 1))"
proof -
  have "di_resolve example_world (\<lambda>n c kw. Inr (PObj n)) (TypeKey ''app.Service'') example_container =
    (fst (di_resolve example_world (\<lambda>n c kw. Inr (PObj n)) (TypeKey ''app.Service'') example_container), Inr (PObj 1))"
    by code_simp
  from singleton_made_once [OF this, of "TypeKey ''app.Service''" "\<lparr>rg_lifetime = DI_SINGLETON, rg_factory = Some (ClassC ''app.Service''), rg_instance = PNone\<rparr>"
      "[TypeKey ''app.Base'', TypeKey ''app.Service'']"]
  moreover have "find_registration example_world example_container (TypeKey ''app.Service'') =
    Some (TypeKey ''app.Service'', \<lparr>rg_lifetime = DI_SINGLETON, rg_factory = Some (ClassC ''app.Service''), rg_instance = PNone\<rparr>)"
    by (simp add: find_registration_def example_container_def register_singleton_def map_of_update)
  ultimately show ?thesis by (simp add: Let_def)
qed

text \<open>Two classes that need each other are refused with the path that was followed.\<close>

lemma circle_is_reported:
  "snd (di_resolve \<lparr>signatures = [(ClassC ''m.A'', [\<lparr>par_name = ''b'', par_hint = HintType ''m.B'', par_default = None, par_variadic = False\<rparr>]),
       (ClassC ''m.B'', [\<lparr>par_name = ''a'', par_hint = HintType ''m.A'', par_default = None, par_variadic = False\<rparr>])], is_subclass = (=)\<rparr>
     (\<lambda>n c kw. Inr (PObj n)) (TypeKey ''m.A'')
     (register_singleton (TypeKey ''m.A'') (ClassC ''m.A'') (register_transient (TypeKey ''m.B'') (ClassC ''m.B'') di_empty)))
   = Inl (circular_error [TypeKey ''m.A'', TypeKey ''m.B'', TypeKey ''m.A''])"
  by code_simp

end
