(* ===== verification/AgentRuntime.thy ===== *)
theory AgentRuntime
  imports ClientMemory SecurityModel
begin

text \<open>
  Agents and tasks (\<open>agents/base.py\<close>, \<open>agents/task.py\<close>, \<open>agents/planner.py\<close>,
  \<open>agents/executor.py\<close>, \<open>agents/runtime.py\<close>) and tools (\<open>agents/tool.py\<close>). Agents are objects on
  a heap; the methods of an agent are parameters that may change the agent itself. The events that are published
  are kept in order with their payloads. The calls of \<open>execute_agent_task\<close> to the metrics and the error
  tracker name methods the observability service does not have; the handlers around them swallow the
  error, so they have no effect.
\<close>

section \<open>Agents and tasks\<close>

record agent =
  ag_name :: string
  ag_description :: string
  ag_running :: bool
  ag_capabilities :: "string list"
  ag_permissions :: "string list"
  ag_state :: pyval
  ag_inbox :: "pyval list"

definition mk_agent :: "string \<Rightarrow> string \<Rightarrow> string list \<Rightarrow> string list \<Rightarrow> agent" where
  "mk_agent name desc capabilities permissions =
     \<lparr> ag_name = name, ag_description = desc, ag_running = False, ag_capabilities = capabilities,
       ag_permissions = permissions, ag_state = PDict [], ag_inbox = [] \<rparr>"

record task =
  tk_id :: string
  tk_name :: string
  tk_input :: pyval
  tk_status :: string
  tk_result :: pyval
  tk_error :: "string option"

definition mk_task :: "string \<Rightarrow> string \<Rightarrow> pyval \<Rightarrow> task" where
  "mk_task i name input =
     \<lparr> tk_id = i, tk_name = name, tk_input = (if input = PNone then PDict [] else input),
       tk_status = ''pending'', tk_result = PNone, tk_error = None \<rparr>"

definition task_to_dict :: "task \<Rightarrow> pydict" where
  "task_to_dict t = [(''id'', PStr (tk_id t)), (''name'', PStr (tk_name t)), (''input_data'', tk_input t),
     (''status'', PStr (tk_status t)), (''result'', tk_result t), (''error'', opt_str (tk_error t))]"

text \<open>What the methods of the agents do, by object, and how Python shows a value.\<close>

record agent_env =
  av_start :: "nat \<Rightarrow> agent \<Rightarrow> agent \<times> exn option"
  av_stop :: "nat \<Rightarrow> agent \<Rightarrow> agent \<times> exn option"
  av_execute :: "nat \<Rightarrow> pyval \<Rightarrow> agent \<Rightarrow> agent \<times> (exn + pyval)"
  av_shown :: "pyval \<Rightarrow> string"

definition text_of :: "agent_env \<Rightarrow> pyval \<Rightarrow> string" where
  "text_of env v = (case v of PStr s \<Rightarrow> s | _ \<Rightarrow> av_shown env v)"

section \<open>The table of agents\<close>

record agent_runtime =
  ar_heap :: "agent list"
  ar_agents :: "(string \<times> nat) list"
  ar_events :: "(string \<times> pydict) list"

definition ar_init :: agent_runtime where
  "ar_init = \<lparr> ar_heap = [], ar_agents = [], ar_events = [] \<rparr>"

definition agent_at :: "agent_runtime \<Rightarrow> nat \<Rightarrow> agent" where
  "agent_at rt r = ar_heap rt ! r"

definition put_agent :: "nat \<Rightarrow> agent \<Rightarrow> agent_runtime \<Rightarrow> agent_runtime" where
  "put_agent r a rt = rt\<lparr>ar_heap := (ar_heap rt)[r := a]\<rparr>"

definition ar_publish :: "string \<Rightarrow> pydict \<Rightarrow> agent_runtime \<Rightarrow> agent_runtime" where
  "ar_publish name payload rt = rt\<lparr>ar_events := ar_events rt @ [(name, payload)]\<rparr>"

definition get_agent :: "string \<Rightarrow> agent_runtime \<Rightarrow> nat option" where
  "get_agent name rt = map_of (ar_agents rt) name"

definition list_agents :: "agent_runtime \<Rightarrow> string list" where
  "list_agents rt = dict_keys (ar_agents rt)"

text \<open>\<open>action:resource\<close> is split at the first colon.\<close>

definition split_permission :: "string \<Rightarrow> string \<times> string" where
  "split_permission p = (if CHR '':'' \<in> set p
     then (takeWhile (\<lambda>c. c \<noteq> CHR '':'') p, tl (dropWhile (\<lambda>c. c \<noteq> CHR '':'') p))
     else (''execute'', p))"

text \<open>
  \<open>_validate_permission\<close>: the subject is what the active context has under
  \<open>security_subject\<close>; without one there is no check. Reading the context may raise. The
  subject is read once for the loop over the permissions.
\<close>

definition validate_permission :: "string \<Rightarrow> exn + subject option \<Rightarrow> string \<Rightarrow> security_manager \<Rightarrow> security_manager \<times> exn option" where
  "validate_permission now subj p sc =
     (case subj of
        Inl e \<Rightarrow> (sc, Some e)
      | Inr None \<Rightarrow> (sc, None)
      | Inr (Some s) \<Rightarrow> (case split_permission p of (action, resource) \<Rightarrow>
          (case validate_runtime_check now s action resource sc of
             (sc', Inl e) \<Rightarrow> (sc', Some e)
           | (sc', Inr _) \<Rightarrow> (sc', None))))"

fun validate_permissions :: "string \<Rightarrow> exn + subject option \<Rightarrow> string list \<Rightarrow> security_manager \<Rightarrow> security_manager \<times> exn option" where
  "validate_permissions now subj [] sc = (sc, None)"
| "validate_permissions now subj (p # ps) sc =
     (case validate_permission now subj p sc of
        (sc', Some e) \<Rightarrow> (sc', Some e)
      | (sc', None) \<Rightarrow> validate_permissions now subj ps sc')"

text \<open>\<open>register_agent\<close>: the agent is the object \<open>r\<close>.\<close>

definition register_agent ::
  "string \<Rightarrow> exn + subject option \<Rightarrow> nat \<Rightarrow> agent_runtime \<times> security_manager \<Rightarrow> (agent_runtime \<times> security_manager) \<times> exn option" where
  "register_agent now subj r w = (case w of (rt, sc) \<Rightarrow>
     (case validate_permissions now subj (ag_permissions (agent_at rt r)) sc of
        (sc', Some e) \<Rightarrow> ((rt, sc'), Some e)
      | (sc', None) \<Rightarrow>
          let name = ag_name (agent_at rt r)
          in ((ar_publish ''agent_registered'' [(''agent_name'', PStr name)]
                (rt\<lparr>ar_agents := AList.update name r (ar_agents rt)\<rparr>), sc'), None)))"

definition remove_agent :: "string \<Rightarrow> agent_runtime \<Rightarrow> agent_runtime \<times> nat option" where
  "remove_agent name rt =
     (case map_of (ar_agents rt) name of
        None \<Rightarrow> (rt, None)
      | Some r \<Rightarrow> (ar_publish ''agent_removed'' [(''agent_name'', PStr name)]
                    (rt\<lparr>ar_agents := AList.delete name (ar_agents rt)\<rparr>), Some r))"

text \<open>
  The loops over the table. A method that raises ends the loop; its agent keeps what the method had
  changed, and \<open>running\<close> is not set.
\<close>

fun start_agents :: "agent_env \<Rightarrow> (string \<times> nat) list \<Rightarrow> agent_runtime \<Rightarrow> agent_runtime \<times> exn option" where
  "start_agents env [] rt = (rt, None)"
| "start_agents env ((name, r) # rest) rt =
     (if ag_running (agent_at rt r) then start_agents env rest rt
      else case av_start env r (agent_at rt r) of
          (a, Some e) \<Rightarrow> (put_agent r a rt, Some e)
        | (a, None) \<Rightarrow> start_agents env rest
            (ar_publish ''agent_started'' [(''agent_name'', PStr name)] (put_agent r (a\<lparr>ag_running := True\<rparr>) rt)))"

fun stop_agents :: "agent_env \<Rightarrow> (string \<times> nat) list \<Rightarrow> agent_runtime \<Rightarrow> agent_runtime \<times> exn option" where
  "stop_agents env [] rt = (rt, None)"
| "stop_agents env ((name, r) # rest) rt =
     (if \<not> ag_running (agent_at rt r) then stop_agents env rest rt
      else case av_stop env r (agent_at rt r) of
          (a, Some e) \<Rightarrow> (put_agent r a rt, Some e)
        | (a, None) \<Rightarrow> stop_agents env rest
            (ar_publish ''agent_stopped'' [(''agent_name'', PStr name)] (put_agent r (a\<lparr>ag_running := False\<rparr>) rt)))"

definition discover_agents :: "string \<Rightarrow> agent_runtime \<Rightarrow> nat list" where
  "discover_agents capability rt = filter (\<lambda>r. capability \<in> set (ag_capabilities (agent_at rt r))) (map snd (ar_agents rt))"

definition agents_status :: "agent_runtime \<Rightarrow> pydict" where
  "agents_status rt = [(''state'', PStr ''active''), (''registered_agents_count'', PInt (int (length (ar_agents rt)))),
     (''agents'', PDict (map (\<lambda>(name, r). (name, PDict [(''running'', PBool (ag_running (agent_at rt r))),
        (''capabilities'', PList (map PStr (ag_capabilities (agent_at rt r)))),
        (''inbox_size'', PInt (int (length (ag_inbox (agent_at rt r)))))])) (ar_agents rt)))]"

section \<open>State and messages\<close>

definition agent_missing :: "string \<Rightarrow> exn" where
  "agent_missing name = Exn ValueErr (''Agent '' @ quoted name @ '' not found.'')"

definition receiver_missing :: "string \<Rightarrow> exn" where
  "receiver_missing name = Exn ValueErr (''Receiver agent '' @ quoted name @ '' not found.'')"

definition save_agent_state :: "'s storage_ops \<Rightarrow> string \<Rightarrow> agent_runtime \<Rightarrow> 's \<Rightarrow> 's \<times> exn option" where
  "save_agent_state ops name rt s =
     (case get_agent name rt of
        None \<Rightarrow> (s, Some (agent_missing name))
      | Some r \<Rightarrow> st_set ops (''agent_state_'' @ name) (ag_state (agent_at rt r)) s)"

text \<open>\<open>storage.get(key, default={})\<close>\<close>

definition load_agent_state :: "'s storage_ops \<Rightarrow> string \<Rightarrow> agent_runtime \<Rightarrow> 's \<Rightarrow> agent_runtime \<times> exn option" where
  "load_agent_state ops name rt s =
     (case get_agent name rt of
        None \<Rightarrow> (rt, Some (agent_missing name))
      | Some r \<Rightarrow>
          let st = (case st_get ops (''agent_state_'' @ name) s of Some v \<Rightarrow> v | None \<Rightarrow> PDict [])
          in (put_agent r ((agent_at rt r)\<lparr>ag_state := st\<rparr>) rt, None))"

definition agent_message :: "real \<Rightarrow> string \<Rightarrow> pyval \<Rightarrow> pyval" where
  "agent_message now sender message = PDict [(''sender'', PStr sender), (''message'', message), (''timestamp'', PFloat now)]"

definition send_message :: "real \<Rightarrow> string \<Rightarrow> string \<Rightarrow> pyval \<Rightarrow> agent_runtime \<Rightarrow> agent_runtime \<times> exn option" where
  "send_message now sender receiver message rt =
     (case get_agent receiver rt of
        None \<Rightarrow> (rt, Some (receiver_missing receiver))
      | Some r \<Rightarrow>
          let a = agent_at rt r
          in (ar_publish ''agent_message_sent''
                [(''sender'', PStr sender), (''receiver'', PStr receiver), (''timestamp'', PFloat now)]
                (put_agent r (a\<lparr>ag_inbox := ag_inbox a @ [agent_message now sender message]\<rparr>) rt), None))"

definition retrieve_messages :: "string \<Rightarrow> agent_runtime \<Rightarrow> agent_runtime \<times> (exn + pyval list)" where
  "retrieve_messages name rt =
     (case get_agent name rt of
        None \<Rightarrow> (rt, Inl (agent_missing name))
      | Some r \<Rightarrow>
          let a = agent_at rt r in (put_agent r (a\<lparr>ag_inbox := []\<rparr>) rt, Inr (ag_inbox a)))"

section \<open>Executing a task\<close>

definition no_get :: "pyval \<Rightarrow> exn" where
  "no_get v = attribute_error ''get'' v"

text \<open>\<open>task.input_data.get("agent_name", task.name)\<close>, in the runtime and in \<open>SimplePlanner.plan\<close>\<close>

definition plan_agent_name :: "task \<Rightarrow> exn + pyval" where
  "plan_agent_name t =
     (case tk_input t of
        PDict d \<Rightarrow> Inr (case map_of d ''agent_name'' of Some v \<Rightarrow> v | None \<Rightarrow> PStr (tk_name t))
      | v \<Rightarrow> Inl (no_get v))"

text \<open>\<open>self._agents.get(name)\<close> for any value: the keys are strings.\<close>

definition lookup_agent :: "pyval \<Rightarrow> agent_runtime \<Rightarrow> exn + nat option" where
  "lookup_agent v rt =
     (case v of
        PStr n \<Rightarrow> Inr (get_agent n rt)
      | PList _ \<Rightarrow> Inl (Exn TypeErr (''unhashable type: '' @ quoted ''list''))
      | PDict _ \<Rightarrow> Inl (Exn TypeErr (''unhashable type: '' @ quoted ''dict''))
      | _ \<Rightarrow> Inr None)"

definition task_event :: "task \<Rightarrow> string \<Rightarrow> pydict \<Rightarrow> agent_runtime \<Rightarrow> agent_runtime" where
  "task_event t name extra rt = ar_publish name
     ([(''task_id'', PStr (tk_id t)), (''task_name'', PStr (tk_name t))] @ extra @ [(''task'', PDict (task_to_dict t))]) rt"

text \<open>The agent is started if it is not running; \<open>start\<close> is left to set \<open>running\<close> itself.\<close>

definition ensure_started :: "agent_env \<Rightarrow> string \<Rightarrow> nat \<Rightarrow> agent_runtime \<Rightarrow> agent_runtime \<times> exn option" where
  "ensure_started env name r rt =
     (if ag_running (agent_at rt r) then (rt, None)
      else case av_start env r (agent_at rt r) of
          (a, Some e) \<Rightarrow> (put_agent r a rt, Some e)
        | (a, None) \<Rightarrow> (ar_publish ''agent_started'' [(''agent_name'', PStr name)] (put_agent r a rt), None))"

text \<open>The body of the \<open>try\<close>: the result of the agent, or what was raised.\<close>

definition agent_result :: "agent_env \<Rightarrow> task \<Rightarrow> agent_runtime \<Rightarrow> agent_runtime \<times> (exn + pyval)" where
  "agent_result env t rt =
     (case plan_agent_name t of
        Inl e \<Rightarrow> (rt, Inl e)
      | Inr v \<Rightarrow>
          if \<not> truthy v then (rt, Inl (Exn ValueErr ''Planner could not determine target agent name.''))
          else (case lookup_agent v rt of
              Inl e \<Rightarrow> (rt, Inl e)
            | Inr None \<Rightarrow> (rt, Inl (agent_missing (text_of env v)))
            | Inr (Some r) \<Rightarrow>
                (case ensure_started env (text_of env v) r rt of
                   (rt1, Some e) \<Rightarrow> (rt1, Inl e)
                 | (rt1, None) \<Rightarrow>
                     (case av_execute env r (tk_input t) (agent_at rt1 r) of
                        (a, x) \<Rightarrow> (put_agent r a rt1, x)))))"

definition execute_task :: "agent_env \<Rightarrow> task \<Rightarrow> agent_runtime \<Rightarrow> agent_runtime \<times> task" where
  "execute_task env t rt =
     (let t1 = t\<lparr>tk_status := ''running''\<rparr>
      in case agent_result env t1 (task_event t1 ''task_started'' [] rt) of
           (rt1, Inr v) \<Rightarrow>
             let t2 = t1\<lparr>tk_result := v, tk_status := ''completed''\<rparr>
             in (task_event t2 ''task_completed'' [(''result'', v)] rt1, t2)
         | (rt1, Inl e) \<Rightarrow>
             let t2 = t1\<lparr>tk_status := ''failed'', tk_error := Some (exn_msg e)\<rparr>
             in (task_event t2 ''task_failed'' [(''error'', PStr (exn_msg e))] rt1, t2))"

record 's agent_world =
  aw_runtime :: agent_runtime
  aw_security :: security_manager
  aw_memories :: "'s client_memories"

text \<open>The result of a completed task goes to both memories; the second is skipped if the first raises.\<close>

definition save_outcome :: "'s storage_ops \<Rightarrow> clock \<Rightarrow> string option \<Rightarrow> task \<Rightarrow> 's client_memories \<Rightarrow> 's client_memories" where
  "save_outcome ops ck context t m =
     (case save_memory ops ck context (tk_id t) (tk_result t) ''short-term'' None None m of
        (m1, Some _) \<Rightarrow> m1
      | (m1, None) \<Rightarrow> fst (save_memory ops ck context (tk_id t) (tk_result t) ''long-term'' None None m1))"

definition execute_agent_task ::
  "'s storage_ops \<Rightarrow> agent_env \<Rightarrow> clock \<Rightarrow> string \<Rightarrow> exn + subject option \<Rightarrow> string option \<Rightarrow> task \<Rightarrow> 's agent_world
     \<Rightarrow> 's agent_world \<times> (exn + task)" where
  "execute_agent_task ops env ck now subj context t w =
     (case plan_agent_name t of
        Inl e \<Rightarrow> (w, Inl e)
      | Inr v \<Rightarrow>
          (case lookup_agent v (aw_runtime w) of
             Inl e \<Rightarrow> (w, Inl e)
           | Inr None \<Rightarrow>
               (w, Inr (t\<lparr>tk_status := ''failed'', tk_error := Some (exn_msg (agent_missing (text_of env v)))\<rparr>))
           | Inr (Some r) \<Rightarrow>
               (case validate_permissions now subj (ag_permissions (agent_at (aw_runtime w) r)) (aw_security w) of
                  (sc, Some e) \<Rightarrow>
                    (w\<lparr>aw_security := sc\<rparr>, Inr (t\<lparr>tk_status := ''failed'', tk_error := Some (exn_msg e)\<rparr>))
                | (sc, None) \<Rightarrow>
                    (case execute_task env t (aw_runtime w) of
                       (rt, t') \<Rightarrow>
                         (w\<lparr>aw_security := sc, aw_runtime := rt,
                            aw_memories := (if tk_status t' = ''completed'' then save_outcome ops ck context t' (aw_memories w)
                                            else aw_memories w)\<rparr>, Inr t')))))"

section \<open>Tools\<close>

text \<open>A registered tool is an object; what its \<open>execute\<close> gives is a parameter.\<close>

record tool_manager =
  tm_tools :: "(string \<times> nat) list"

definition register_tool :: "string \<Rightarrow> nat \<Rightarrow> tool_manager \<Rightarrow> tool_manager" where
  "register_tool name t m = m\<lparr>tm_tools := AList.update name t (tm_tools m)\<rparr>"

definition remove_tool :: "string \<Rightarrow> tool_manager \<Rightarrow> tool_manager \<times> nat option" where
  "remove_tool name m = (m\<lparr>tm_tools := AList.delete name (tm_tools m)\<rparr>, map_of (tm_tools m) name)"

definition get_tool :: "string \<Rightarrow> tool_manager \<Rightarrow> nat option" where
  "get_tool name m = map_of (tm_tools m) name"

definition list_tools :: "tool_manager \<Rightarrow> string list" where
  "list_tools m = dict_keys (tm_tools m)"

definition execute_tool :: "(nat \<Rightarrow> pyval list \<Rightarrow> pydict \<Rightarrow> exn + pyval) \<Rightarrow> string \<Rightarrow> pyval list \<Rightarrow> pydict \<Rightarrow> tool_manager \<Rightarrow> exn + pyval" where
  "execute_tool run name args kwargs m =
     (case get_tool name m of
        None \<Rightarrow> Inl (Exn ValueErr (''Tool '' @ quoted name @ '' is not registered.''))
      | Some t \<Rightarrow> run t args kwargs)"

end
