(* ===== verification/AgentProps.thy ===== *)
theory AgentProps
  imports AgentRuntime
begin

text \<open>
  Properties of the agent runtime: refused permissions keep an agent from being touched, completed
  tasks are remembered, messages are queues, and the state of an agent survives in the storage.
\<close>

section \<open>Permissions\<close>

text \<open>What the security manager decides on is unaffected by its own checks.\<close>

definition same_rules :: "security_manager \<Rightarrow> security_manager \<Rightarrow> bool" where
  "same_rules sc sc' \<longleftrightarrow> sc_engine sc' = sc_engine sc \<and> sc_roles sc' = sc_roles sc"

lemma same_rules_refl [simp]: "same_rules sc sc"
  by (simp add: same_rules_def)

lemma audit_rules: "same_rules sc (audit now a i t r x d sc)"
  by (simp add: same_rules_def audit_def)

definition required_permission :: "string \<Rightarrow> string" where
  "required_permission p = (case split_permission p of (action, resource) \<Rightarrow> action @ '':'' @ resource)"

lemma required_permission_eq:
  "required_permission p = (if CHR '':'' \<in> set p then p else ''execute:'' @ p)"
proof -
  have "takeWhile (\<lambda>c. c \<noteq> CHR '':'') p @ '':'' @ tl (dropWhile (\<lambda>c. c \<noteq> CHR '':'') p) = p" if "CHR '':'' \<in> set p"
    using that by (induction p) auto
  then show ?thesis by (simp add: required_permission_def split_permission_def)
qed

lemma validate_permission_cases:
  assumes "validate_permission now (Inr (Some s)) p sc = (sc', r)"
  shows "same_rules sc sc'"
    and "r = None \<longleftrightarrow> evaluate_all (sc_engine sc) s (required_permission p) (sc_roles sc) = Inr True"
  using assms audit_rules
  by (auto simp: validate_permission_def validate_runtime_check_def check_access_def required_permission_def Let_def
      split: prod.splits sum.splits if_splits)

lemma validate_permissions_None [simp]: "validate_permissions now (Inr None) ps sc = (sc, None)"
  by (induction ps) (simp_all add: validate_permission_def)

lemma validate_permissions_rules: "same_rules sc (fst (validate_permissions now (Inr (Some s)) ps sc))"
proof (induction ps arbitrary: sc)
  case (Cons p ps)
  obtain sc1 r where v: "validate_permission now (Inr (Some s)) p sc = (sc1, r)" by (meson surj_pair)
  show ?case
    using Cons.IH [of sc1] validate_permission_cases(1) [OF v] v by (cases r) (auto simp: same_rules_def)
qed simp

lemma validate_permissions_iff:
  "snd (validate_permissions now (Inr (Some s)) ps sc) = None
     \<longleftrightarrow> (\<forall>p \<in> set ps. evaluate_all (sc_engine sc) s (required_permission p) (sc_roles sc) = Inr True)"
proof (induction ps arbitrary: sc)
  case (Cons p ps)
  obtain sc1 r where v: "validate_permission now (Inr (Some s)) p sc = (sc1, r)" by (meson surj_pair)
  note c = validate_permission_cases [OF v]
  show ?case
  proof (cases r)
    case None
    then show ?thesis using Cons.IH [of sc1] c v by (simp add: same_rules_def)
  next
    case (Some e)
    then show ?thesis using c(2) v by simp
  qed
qed simp

lemma execute_refused:
  assumes "plan_agent_name t = Inr v" "lookup_agent v (aw_runtime w) = Inr (Some r)"
    "snd (validate_permissions now subj (ag_permissions (agent_at (aw_runtime w) r)) (aw_security w)) = Some e"
  shows "execute_agent_task ops env ck now subj ctx t w =
    (w\<lparr>aw_security := fst (validate_permissions now subj (ag_permissions (agent_at (aw_runtime w) r)) (aw_security w))\<rparr>,
     Inr (t\<lparr>tk_status := ''failed'', tk_error := Some (exn_msg e)\<rparr>))"
  using assms
  by (cases "validate_permissions now subj (ag_permissions (agent_at (aw_runtime w) r)) (aw_security w)")
    (simp add: execute_agent_task_def)

text \<open>
  \<open>C12\<close>. An agent that needs a permission which the policies do not grant to the subject of the active
  context is neither started nor executed for it, and its memory, state, inbox and the table stay as
  they are: the task comes back as failed. Only the audit log of the security manager may grow.
\<close>

theorem unauthorized_agent_not_run:
  assumes "plan_agent_name t = Inr v" "lookup_agent v (aw_runtime w) = Inr (Some r)"
    "p \<in> set (ag_permissions (agent_at (aw_runtime w) r))"
    "evaluate_all (sc_engine (aw_security w)) s (if CHR '':'' \<in> set p then p else ''execute:'' @ p) (sc_roles (aw_security w)) \<noteq> Inr True"
  shows "case execute_agent_task ops env ck now (Inr (Some s)) ctx t w of
           (w', Inr t') \<Rightarrow> tk_status t' = ''failed'' \<and> tk_result t' = tk_result t \<and> aw_runtime w' = aw_runtime w
              \<and> aw_memories w' = aw_memories w \<and> sc_roles (aw_security w') = sc_roles (aw_security w)
         | (w', Inl e) \<Rightarrow> False"
proof -
  let ?v = "validate_permissions now (Inr (Some s)) (ag_permissions (agent_at (aw_runtime w) r)) (aw_security w)"
  have "snd ?v \<noteq> None"
    unfolding validate_permissions_iff required_permission_eq using assms(3,4) by blast
  then obtain e where e: "snd ?v = Some e" by blast
  show ?thesis
    using execute_refused [OF assms(1,2) e, of ops env ck ctx] validate_permissions_rules [of "aw_security w" now s]
    by (simp add: same_rules_def)
qed

section \<open>Completed tasks\<close>

lemma mem_save_ok: "\<exists>m'. save_memory mem_ops ck ctx k v ''long-term'' md None m = (m', None)"
  by (cases "cm_long m") (simp_all add: save_memory_def Let_def mm_set_def lt_set_def ttl_expiry_def mem_ops_def)

lemma completed_saved:
  assumes "memories_wf (\<lambda>s. wf_dict (ms_data s)) m" "ck_now ck \<le> ck_now ck'" "ck_local ck \<le> ck_local ck'"
    "cat = ''short-term'' \<or> cat = ''long-term''"
  shows "snd (get_memory mem_ops ck' k dflt cat (save_outcome mem_ops ck ctx t m)) =
    (if k = tk_id t then Inr (tk_result t) else snd (get_memory mem_ops ck' k dflt cat m))"
proof -
  obtain m1 where m1: "save_memory mem_ops ck ctx (tk_id t) (tk_result t) ''short-term'' None None m = (m1, None)"
    using save_memory_ok [of "''short-term''" m mem_ops ck ctx "tk_id t" "tk_result t" None] by auto
  obtain m2 where m2: "save_memory mem_ops ck ctx (tk_id t) (tk_result t) ''long-term'' None None m1 = (m2, None)"
    using mem_save_ok by blast
  have eq: "save_outcome mem_ops ck ctx t m = m2" using m1 m2 by (simp add: save_outcome_def)
  have wf1: "memories_wf (\<lambda>s. wf_dict (ms_data s)) m1" by (rule mem.save_keeps_wf [OF assms(1) m1])
  show ?thesis
    unfolding eq mem.get_after_save [OF wf1 m2 assms(2,3)] mem.get_after_save [OF assms(1) m1 assms(2,3)]
    using assms(4) by (auto simp: outlived_def)
qed

lemma execute_task_completed:
  assumes "execute_task env t rt = (rt', t')" "tk_status t' = ''completed''"
  shows "tk_id t' = tk_id t \<and> tk_name t' = tk_name t \<and> tk_input t' = tk_input t
    \<and> snd (agent_result env (t\<lparr>tk_status := ''running''\<rparr>) (task_event (t\<lparr>tk_status := ''running''\<rparr>) ''task_started'' [] rt)) = Inr (tk_result t')"
  using assms by (auto simp: execute_task_def Let_def split: prod.splits sum.splits)

lemma execute_task_id: "tk_id (snd (execute_task env t rt)) = tk_id t"
  by (auto simp: execute_task_def Let_def split: prod.splits sum.splits)

text \<open>
  A task that the agent runtime completes carries the agent's result, and from then on both
  memories give that result under the identifier of the task; everything else in the memories reads as before.
  This holds for the long-term memory in memory and on the client's default storage.
\<close>

theorem completed_task_remembered:
  assumes "memories_wf (\<lambda>s. wf_dict (ms_data s)) (aw_memories w)" "tk_status t = ''pending''"
    "execute_agent_task mem_ops env ck now subj ctx t w = (w', Inr t')" "tk_status t' = ''completed''"
    "ck_now ck \<le> ck_now ck'" "ck_local ck \<le> ck_local ck'" "cat = ''short-term'' \<or> cat = ''long-term''"
  shows "snd (agent_result env (t\<lparr>tk_status := ''running''\<rparr>)
           (task_event (t\<lparr>tk_status := ''running''\<rparr>) ''task_started'' [] (aw_runtime w))) = Inr (tk_result t')
    \<and> snd (get_memory mem_ops ck' k dflt cat (aw_memories w'))
        = (if k = tk_id t then Inr (tk_result t') else snd (get_memory mem_ops ck' k dflt cat (aw_memories w)))"
proof -
  obtain rt where x: "execute_task env t (aw_runtime w) = (rt, t')"
    "aw_memories w' = save_outcome mem_ops ck ctx t' (aw_memories w)"
    using assms(2-4) by (auto simp: execute_agent_task_def split: sum.splits option.splits prod.splits if_splits)
  show ?thesis
    using execute_task_completed [OF x(1) assms(4)] completed_saved [OF assms(1,5,6,7), of k dflt ctx t'] x(2) by simp
qed

section \<open>Messages\<close>

lemma send_message_cases:
  assumes "get_agent receiver rt = Some r" "r < length (ar_heap rt)"
  shows "snd (send_message now sender receiver m rt) = None"
    "ar_agents (fst (send_message now sender receiver m rt)) = ar_agents rt"
    "length (ar_heap (fst (send_message now sender receiver m rt))) = length (ar_heap rt)"
    "agent_at (fst (send_message now sender receiver m rt)) q =
       (if q = r then (agent_at rt r)\<lparr>ag_inbox := ag_inbox (agent_at rt r) @ [agent_message now sender m]\<rparr> else agent_at rt q)"
  using assms by (auto simp: send_message_def Let_def ar_publish_def put_agent_def agent_at_def nth_list_update)

fun send_all :: "string \<Rightarrow> (real \<times> string \<times> pyval) list \<Rightarrow> agent_runtime \<Rightarrow> agent_runtime" where
  "send_all receiver [] rt = rt"
| "send_all receiver ((now, sender, m) # ms) rt = send_all receiver ms (fst (send_message now sender receiver m rt))"

lemma send_all_inbox:
  assumes "get_agent receiver rt = Some r" "r < length (ar_heap rt)"
  shows "ar_agents (send_all receiver ms rt) = ar_agents rt \<and> length (ar_heap (send_all receiver ms rt)) = length (ar_heap rt)
    \<and> agent_at (send_all receiver ms rt) r = (agent_at rt r)\<lparr>ag_inbox := ag_inbox (agent_at rt r) @ map (\<lambda>(now, sender, m). agent_message now sender m) ms\<rparr>
    \<and> (\<forall>q. q \<noteq> r \<longrightarrow> agent_at (send_all receiver ms rt) q = agent_at rt q)"
  using assms
proof (induction ms arbitrary: rt)
  case (Cons m ms)
  obtain now sender x where m: "m = (now, sender, x)" by (cases m) auto
  note c = send_message_cases [OF Cons.prems, of now sender x]
  show ?case
    using Cons.IH [of "fst (send_message now sender receiver x rt)"] Cons.prems c m by (simp add: get_agent_def)
qed simp

text \<open>
  An inbox is a queue: after any messages were sent to an agent, \<open>retrieve_agent_messages\<close> gives what was
  there before and then the messages in the order they were sent, a second call gives nothing, and the other agents
  are untouched.
\<close>

theorem agent_messages_fifo:
  assumes "get_agent receiver rt = Some r" "r < length (ar_heap rt)"
  shows "let (rt1, got) = retrieve_messages receiver (send_all receiver ms rt)
     in got = Inr (ag_inbox (agent_at rt r) @ map (\<lambda>(now, sender, m). agent_message now sender m) ms)
        \<and> snd (retrieve_messages receiver rt1) = Inr []
        \<and> agent_at rt1 r = (agent_at rt r)\<lparr>ag_inbox := []\<rparr> \<and> (\<forall>q. q \<noteq> r \<longrightarrow> agent_at rt1 q = agent_at rt q)"
proof -
  note s = send_all_inbox [OF assms, of ms]
  then have g: "get_agent receiver (send_all receiver ms rt) = Some r" using assms(1) by (simp add: get_agent_def)
  show ?thesis
    using s g assms by (auto simp: retrieve_messages_def put_agent_def agent_at_def get_agent_def Let_def)
qed

section \<open>Saved state\<close>

context kv_store
begin

lemma load_after_save:
  assumes "wf s" "get_agent name rt = Some r" "r < length (ar_heap rt)" "get_agent name rt' = Some r'" "r' < length (ar_heap rt')"
    "save_agent_state ops name rt s = (s', None)"
  shows "load_agent_state ops name rt' s' = (put_agent r' ((agent_at rt' r')\<lparr>ag_state := ag_state (agent_at rt r)\<rparr>) rt', None)"
proof -
  have "st_set ops (''agent_state_'' @ name) (ag_state (agent_at rt r)) s = (s', None)"
    using assms(2,6) by (simp add: save_agent_state_def)
  then have "st_get ops (''agent_state_'' @ name) s' = Some (ag_state (agent_at rt r))"
    using set_view [OF assms(1)] get_view [of s' "''agent_state_'' @ name"] by auto
  then show ?thesis using assms(4) by (simp add: load_agent_state_def Let_def)
qed

end

text \<open>
  The state of an agent that was saved without error to a JSON storage is what loading gives, also to a
  new agent object of the same name in another runtime; nothing else of that agent changes.
\<close>

theorem agent_state_roundtrip:
  assumes "wf_dict (js_data s)" "get_agent name rt = Some r" "r < length (ar_heap rt)"
    "get_agent name rt' = Some r'" "r' < length (ar_heap rt')"
    "save_agent_state (json_ops env) name rt s = (s', None)"
  shows "load_agent_state (json_ops env) name rt' s'
    = (put_agent r' ((agent_at rt' r')\<lparr>ag_state := ag_state (agent_at rt r)\<rparr>) rt', None)"
  by (rule json.load_after_save [OF assms])

section \<open>Witnesses\<close>

definition demo_agents :: agent_runtime where
  "demo_agents = \<lparr> ar_heap = [mk_agent ''a'' [] [] [''db:read'']], ar_agents = [(''a'', 0)], ar_events = [] \<rparr>"

definition demo_agent_env :: agent_env where
  "demo_agent_env = \<lparr> av_start = (\<lambda>r a. (a\<lparr>ag_running := True\<rparr>, None)), av_stop = (\<lambda>r a. (a, None)),
     av_execute = (\<lambda>r v a. (a, Inr (PInt 7))), av_shown = (\<lambda>v. []) \<rparr>"

definition demo_agent_world :: "mem_storage agent_world" where
  "demo_agent_world = \<lparr> aw_runtime = demo_agents, aw_security = sc_init False, aw_memories = client_memories ms_metadata ms_init \<rparr>"

lemma unauthorized_agent_not_run_witness:
  "case execute_agent_task mem_ops demo_agent_env \<lparr> ck_now = 0, ck_local = 0 \<rparr> [] (Inr (Some (mk_subject ''u'' ''user'' [] [] [])))
      None (mk_task ''t'' ''a'' PNone) demo_agent_world of
     (w', Inr t') \<Rightarrow> tk_status t' = ''failed'' \<and> tk_result t' = PNone \<and> aw_runtime w' = demo_agents
        \<and> aw_memories w' = client_memories ms_metadata ms_init \<and> sc_roles (aw_security w') = []
   | (w', Inl e) \<Rightarrow> False"
proof -
  have "evaluate_all (sc_engine (aw_security demo_agent_world)) (mk_subject ''u'' ''user'' [] [] []) ''db:read''
      (sc_roles (aw_security demo_agent_world)) \<noteq> Inr True"
    by code_simp
  moreover have w: "aw_runtime demo_agent_world = demo_agents" "aw_memories demo_agent_world = client_memories ms_metadata ms_init"
    "sc_roles (aw_security demo_agent_world) = []" "tk_result (mk_task ''t'' ''a'' PNone) = PNone"
    by (simp_all add: demo_agent_world_def sc_init_def mk_task_def)
  moreover have "plan_agent_name (mk_task ''t'' ''a'' PNone) = Inr (PStr ''a'')" "lookup_agent (PStr ''a'') (aw_runtime demo_agent_world) = Inr (Some 0)"
    "''db:read'' \<in> set (ag_permissions (agent_at (aw_runtime demo_agent_world) 0))"
    by (simp_all add: w(1) demo_agents_def plan_agent_name_def mk_task_def lookup_agent_def get_agent_def agent_at_def mk_agent_def)
  ultimately show ?thesis
    using unauthorized_agent_not_run [of "mk_task ''t'' ''a'' PNone" "PStr ''a''" demo_agent_world 0 "''db:read''" "mk_subject ''u'' ''user'' [] [] []"
        mem_ops demo_agent_env "\<lparr> ck_now = 0, ck_local = 0 \<rparr>" "[]" None]
    by (simp only: w) (simp split: prod.splits sum.splits)
qed

lemma completed_task_remembered_witness:
  "\<exists>w' t'. execute_agent_task mem_ops demo_agent_env \<lparr> ck_now = 0, ck_local = 0 \<rparr> [] (Inr None) None (mk_task ''t'' ''a'' PNone) demo_agent_world
      = (w', Inr t')
    \<and> snd (get_memory mem_ops \<lparr> ck_now = 5, ck_local = 5 \<rparr> ''t'' PNone ''long-term'' (aw_memories w')) = Inr (PInt 7)"
proof -
  define res where "res = execute_agent_task mem_ops demo_agent_env \<lparr> ck_now = 0, ck_local = 0 \<rparr> [] (Inr None) None (mk_task ''t'' ''a'' PNone) demo_agent_world"
  have x: "\<exists>t'. snd res = Inr t' \<and> tk_status t' = ''completed'' \<and> tk_result t' = PInt 7"
    unfolding res_def by (simp add: execute_agent_task_def plan_agent_name_def mk_task_def lookup_agent_def get_agent_def demo_agent_world_def
        demo_agents_def execute_task_def agent_result_def task_event_def ar_publish_def ensure_started_def agent_at_def put_agent_def
        mk_agent_def demo_agent_env_def validate_permission_def Let_def)
  then obtain w' t' where r: "res = (w', Inr t')" "tk_status t' = ''completed''" "tk_result t' = PInt 7"
    by (metis prod.collapse)
  have wf: "memories_wf (\<lambda>s. wf_dict (ms_data s)) (aw_memories demo_agent_world)"
    unfolding demo_agent_world_def by (simp add: memories_wf_init ms_init_def)
  have "snd (get_memory mem_ops \<lparr> ck_now = 5, ck_local = 5 \<rparr> ''t'' PNone ''long-term'' (aw_memories w')) = Inr (PInt 7)"
    using completed_task_remembered [OF wf _ r(1) [unfolded res_def] r(2), of "\<lparr> ck_now = 5, ck_local = 5 \<rparr>" "''long-term''" "''t''" PNone] r(3)
    by (simp add: mk_task_def)
  then show ?thesis using r(1) unfolding res_def by blast
qed

lemma agent_messages_fifo_witness:
  "let (rt1, got) = retrieve_messages ''a'' (send_all ''a'' [(1, ''x'', PInt 1), (2, ''y'', PInt 2)] demo_agents)
   in got = Inr [agent_message 1 ''x'' (PInt 1), agent_message 2 ''y'' (PInt 2)] \<and> snd (retrieve_messages ''a'' rt1) = Inr []"
  using agent_messages_fifo [of "''a''" demo_agents 0 "[(1, ''x'', PInt 1), (2, ''y'', PInt 2)]"]
  by (auto simp: demo_agents_def get_agent_def agent_at_def mk_agent_def Let_def split: prod.splits)

lemma agent_state_roundtrip_witness:
  "\<exists>s'. save_agent_state (json_ops plain_files) ''a'' demo_agents (js_init ''x.json'' FNone True) = (s', None)
     \<and> fst (load_agent_state (json_ops plain_files) ''a'' demo_agents s') = demo_agents"
proof -
  have "snd (save_agent_state (json_ops plain_files) ''a'' demo_agents (js_init ''x.json'' FNone True)) = None"
    by (simp add: save_agent_state_def demo_agents_def get_agent_def json_ops_def js_set_def js_save_def js_init_def js_load_def
        plain_files_def Let_def agent_at_def mk_agent_def)
  then obtain s' where s: "save_agent_state (json_ops plain_files) ''a'' demo_agents (js_init ''x.json'' FNone True) = (s', None)"
    by (metis prod.collapse)
  have "load_agent_state (json_ops plain_files) ''a'' demo_agents s'
      = (put_agent 0 ((agent_at demo_agents 0)\<lparr>ag_state := ag_state (agent_at demo_agents 0)\<rparr>) demo_agents, None)"
    by (rule agent_state_roundtrip [OF _ _ _ _ _ s]) (simp_all add: js_init_def js_load_def demo_agents_def get_agent_def)
  then show ?thesis using s by (auto simp: demo_agents_def put_agent_def agent_at_def)
qed

end
