(* ===== verification/ApiGateway.thy ===== *)
theory ApiGateway
  imports PyStrings
begin

text \<open>
  The API gateway (\<open>api/models.py\<close>, \<open>api/errors.py\<close>, \<open>api/auth.py\<close>, \<open>api/gateway.py\<close>): requests and
  responses, the authenticator, the table of routes, the handlers and the dispatch with its
  mapping of errors. The client the gateway is constructed with is the interface \<open>api_client\<close>;
  the client of the SDK as one is in \<open>CoreClient\<close>.
\<close>

section \<open>Requests, responses and errors\<close>

record api_request =
  rq_method :: string
  rq_path :: string
  rq_headers :: pyval
  rq_query :: pyval
  rq_body :: pyval

definition mk_request :: "string \<Rightarrow> string \<Rightarrow> pyval \<Rightarrow> pyval \<Rightarrow> pyval \<Rightarrow> api_request" where
  "mk_request method path headers query body =
     \<lparr> rq_method = str_upper method, rq_path = path,
       rq_headers = (case headers of
           PDict d \<Rightarrow> PDict (fold (\<lambda>(k, v) acc. AList.update (str_lower k) v acc) d [])
         | PNone \<Rightarrow> PDict []
         | v \<Rightarrow> v),
       rq_query = (if truthy query then query else PDict []),
       rq_body = body \<rparr>"

definition validate_request :: "api_request \<Rightarrow> exn option" where
  "validate_request r =
     (if rq_method r = [] then Some (Exn ValueErr ''Request method is required.'')
      else if rq_path r = [] then Some (Exn ValueErr ''Request path is required.'')
      else case rq_headers r of
          PDict _ \<Rightarrow> (case rq_query r of
              PDict _ \<Rightarrow> None
            | _ \<Rightarrow> Some (Exn ValueErr ''Query parameters must be a dictionary.''))
        | _ \<Rightarrow> Some (Exn ValueErr ''Headers must be a dictionary.''))"

record api_response =
  rs_status :: int
  rs_data :: pyval
  rs_errors :: "pydict list"
  rs_version :: string

definition ok_response :: "int \<Rightarrow> pyval \<Rightarrow> api_response" where
  "ok_response status data = \<lparr> rs_status = status, rs_data = data, rs_errors = [], rs_version = ''v1'' \<rparr>"

definition response_to_dict :: "api_response \<Rightarrow> pydict" where
  "response_to_dict r = [(''status_code'', PInt (rs_status r)), (''data'', rs_data r),
     (''errors'', PList (map PDict (rs_errors r))), (''version'', PStr (rs_version r))]"

datatype api_code = VALIDATION_ERROR | UNAUTHORIZED | FORBIDDEN | NOT_FOUND | INTERNAL_SERVER_ERROR

fun api_code_value :: "api_code \<Rightarrow> string" where
  "api_code_value VALIDATION_ERROR = ''VALIDATION_ERROR''"
| "api_code_value UNAUTHORIZED = ''UNAUTHORIZED''"
| "api_code_value FORBIDDEN = ''FORBIDDEN''"
| "api_code_value NOT_FOUND = ''NOT_FOUND''"
| "api_code_value INTERNAL_SERVER_ERROR = ''INTERNAL_SERVER_ERROR''"

text \<open>What the dispatch distinguishes: an \<open>APIError\<close>, and any other exception.\<close>

datatype api_exn = ApiError string api_code int | CoreError exn

definition api_error_dict :: "string \<Rightarrow> api_code \<Rightarrow> pydict \<Rightarrow> pydict" where
  "api_error_dict msg code details =
     [(''code'', PStr (api_code_value code)), (''message'', PStr msg)]
     @ (if details = [] then [] else [(''details'', PDict details)])"

text \<open>
  How Python shows a value, the formatted traceback, the text of the \<open>TypeError\<close> an operation on a body of
  the wrong type raises, and which exceptions of other code are value errors.
\<close>

record gateway_env =
  ge_shown :: "pyval \<Rightarrow> string"
  ge_traceback :: "exn \<Rightarrow> string"
  ge_type_error :: "string \<Rightarrow> pyval \<Rightarrow> string"
  ge_user_value_error :: "string \<Rightarrow> bool"

definition shown_text :: "gateway_env \<Rightarrow> pyval \<Rightarrow> string" where
  "shown_text env v = (case v of PStr s \<Rightarrow> s | _ \<Rightarrow> ge_shown env v)"

definition is_value_error :: "gateway_env \<Rightarrow> exn_class \<Rightarrow> bool" where
  "is_value_error env c = (case c of ValueErr \<Rightarrow> True | ConfigurationValidationErr \<Rightarrow> True
     | UserExc n \<Rightarrow> ge_user_value_error env n | _ \<Rightarrow> False)"

definition error_response :: "gateway_env \<Rightarrow> string \<Rightarrow> api_exn \<Rightarrow> api_response" where
  "error_response env version x = (case x of
       ApiError msg code status \<Rightarrow>
         \<lparr> rs_status = status, rs_data = PNone, rs_errors = [api_error_dict msg code []], rs_version = version \<rparr>
     | CoreError e \<Rightarrow>
         if is_value_error env (exn_class e)
         then \<lparr> rs_status = 400, rs_data = PNone, rs_errors = [api_error_dict (exn_msg e) VALIDATION_ERROR []], rs_version = version \<rparr>
         else \<lparr> rs_status = 500, rs_data = PNone,
                rs_errors = [api_error_dict (''An unexpected error occurred: '' @ exn_msg e) INTERNAL_SERVER_ERROR
                               [(''traceback'', PStr (ge_traceback env e))]], rs_version = version \<rparr>)"

section \<open>Authentication\<close>

record authenticator =
  au_allowed :: "string list"
  au_required :: bool

definition header_text :: "string \<Rightarrow> pyval \<Rightarrow> api_exn + string" where
  "header_text attr v = (case v of PStr s \<Rightarrow> Inr s | _ \<Rightarrow> Inl (CoreError (attribute_error attr v)))"

definition api_then :: "api_exn + 'a \<Rightarrow> ('a \<Rightarrow> api_exn + 'b) \<Rightarrow> api_exn + 'b" where
  "api_then r f = (case r of Inl e \<Rightarrow> Inl e | Inr x \<Rightarrow> f x)"

lemma api_then_simps [simp]: "api_then (Inl e) f = Inl e" "api_then (Inr x) f = f x"
  by (simp_all add: api_then_def)

definition dict_items :: "pyval \<Rightarrow> pydict" where
  "dict_items v = (case v of PDict d \<Rightarrow> d | _ \<Rightarrow> [])"

text \<open>The token: after \<open>bearer\<close> in the authorization header, else that header, else the key header.\<close>

definition request_token :: "api_request \<Rightarrow> api_exn + string" where
  "request_token r =
     (let hdr = (\<lambda>k. case map_of (dict_items (rq_headers r)) k of Some v \<Rightarrow> v | None \<Rightarrow> PStr [])
      in api_then (header_text ''lower'' (hdr ''authorization'')) (\<lambda>auth.
           if take 7 (str_lower auth) = ''bearer '' then Inr (str_strip (drop 7 auth))
           else if auth \<noteq> [] then Inr (str_strip auth)
           else api_then (header_text ''strip'' (hdr ''x-api-key'')) (\<lambda>k. Inr (str_strip k))))"

definition anonymous :: pydict where
  "anonymous = [(''identity'', PStr ''anonymous''), (''authenticated'', PBool False)]"

definition authenticate :: "authenticator \<Rightarrow> api_request \<Rightarrow> api_exn + pydict" where
  "authenticate a r =
     (if \<not> au_required a \<and> au_allowed a = [] then Inr anonymous
      else api_then (request_token r) (\<lambda>token.
        if token = [] then
          (if au_required a then Inl (ApiError ''Authentication token is missing.'' UNAUTHORIZED 401)
           else Inr anonymous)
        else if au_allowed a \<noteq> [] \<and> token \<notin> set (au_allowed a)
        then Inl (ApiError ''Invalid authentication token.'' FORBIDDEN 403)
        else Inr [(''identity'', PStr ''authenticated_client''), (''token'', PStr token), (''authenticated'', PBool True)]))"

section \<open>The client\<close>

datatype plugin_command = PC_LOAD | PC_UNLOAD | PC_START | PC_STOP

text \<open>
  What the handlers call on the client. The attributes of a task come as a dictionary, contexts as
  their serialised form; \<open>ac_active\<close> is the context of the calling thread, \<open>None\<close> if it counts as false.
\<close>

record 'c api_client =
  ac_health :: "'c \<Rightarrow> 'c \<times> (exn + pyval)"
  ac_status :: "'c \<Rightarrow> 'c \<times> (exn + pyval)"
  ac_start :: "'c \<Rightarrow> 'c \<times> exn option"
  ac_stop :: "'c \<Rightarrow> 'c \<times> exn option"
  ac_reload :: "'c \<Rightarrow> 'c \<times> exn option"
  ac_create_task :: "pyval \<Rightarrow> pyval \<Rightarrow> pyval \<Rightarrow> 'c \<Rightarrow> 'c \<times> (exn + pydict)"
  ac_run_task :: "pyval \<Rightarrow> pyval \<Rightarrow> pyval \<Rightarrow> 'c \<Rightarrow> 'c \<times> (exn + pydict)"
  ac_save_memory :: "pyval \<Rightarrow> pyval \<Rightarrow> pyval \<Rightarrow> pyval \<Rightarrow> pyval \<Rightarrow> 'c \<Rightarrow> 'c \<times> exn option"
  ac_get_memory :: "pyval \<Rightarrow> pyval \<Rightarrow> 'c \<Rightarrow> 'c \<times> (exn + pyval)"
  ac_create_context :: "pyval \<Rightarrow> pyval \<Rightarrow> pyval \<Rightarrow> 'c \<Rightarrow> 'c \<times> (exn + pyval)"
  ac_active :: "'c \<Rightarrow> 'c \<times> pyval option"
  ac_memories :: "pyval \<Rightarrow> 'c \<Rightarrow> 'c \<times> (exn + pyval)"
  ac_list_plugins :: "'c \<Rightarrow> 'c \<times> (exn + pyval)"
  ac_plugin_status :: "'c \<Rightarrow> 'c \<times> (exn + pyval)"
  ac_plugin :: "plugin_command \<Rightarrow> pyval \<Rightarrow> 'c \<Rightarrow> 'c \<times> exn option"
  ac_plugin_state :: "pyval \<Rightarrow> 'c \<Rightarrow> 'c \<times> (exn + pyval)"
  ac_publish :: "pyval \<Rightarrow> pyval \<Rightarrow> 'c \<Rightarrow> 'c \<times> exn option"

section \<open>Bodies\<close>

definition body_of :: "api_request \<Rightarrow> pyval" where
  "body_of r = (if truthy (rq_body r) then rq_body r else PDict [])"

definition type_error :: "gateway_env \<Rightarrow> string \<Rightarrow> pyval \<Rightarrow> api_exn" where
  "type_error env what v = CoreError (Exn TypeErr (ge_type_error env what v))"

text \<open>\<open>k in body\<close>, \<open>body[k]\<close> and \<open>body.get(k, default)\<close>\<close>

definition body_has :: "gateway_env \<Rightarrow> string \<Rightarrow> pyval \<Rightarrow> api_exn + bool" where
  "body_has env k v = (case v of
       PDict d \<Rightarrow> Inr (dict_has d k)
     | PList xs \<Rightarrow> Inr (PStr k \<in> set xs)
     | PStr s \<Rightarrow> Inr (has_part k s)
     | _ \<Rightarrow> Inl (type_error env ''in'' v))"

definition body_item :: "gateway_env \<Rightarrow> string \<Rightarrow> pyval \<Rightarrow> api_exn + pyval" where
  "body_item env k v = (case v of
       PDict d \<Rightarrow> (case map_of d k of Some x \<Rightarrow> Inr x | None \<Rightarrow> Inl (CoreError (Exn KeyErr (quoted k))))
     | _ \<Rightarrow> Inl (type_error env ''getitem'' v))"

definition body_get :: "string \<Rightarrow> pyval \<Rightarrow> pyval \<Rightarrow> api_exn + pyval" where
  "body_get k dflt v = (case v of
       PDict d \<Rightarrow> Inr (case map_of d k of Some x \<Rightarrow> x | None \<Rightarrow> dflt)
     | _ \<Rightarrow> Inl (CoreError (attribute_error ''get'' v)))"

definition bad_request :: "string \<Rightarrow> api_exn" where
  "bad_request msg = ApiError msg VALIDATION_ERROR 400"

text \<open>\<open>if a not in body or b not in body: raise\<close>, then both items\<close>

definition two_fields :: "gateway_env \<Rightarrow> string \<Rightarrow> string \<Rightarrow> string \<Rightarrow> pyval \<Rightarrow> api_exn + pyval \<times> pyval" where
  "two_fields env msg a b body =
     api_then (body_has env a body) (\<lambda>ha.
       if \<not> ha then Inl (bad_request msg)
       else api_then (body_has env b body) (\<lambda>hb.
         if \<not> hb then Inl (bad_request msg)
         else api_then (body_item env a body) (\<lambda>x. api_then (body_item env b body) (\<lambda>y. Inr (x, y)))))"

section \<open>Handlers\<close>

type_synonym 'c handled = "'c \<times> (api_exn + api_response)"

definition respond :: "int \<Rightarrow> (pyval \<Rightarrow> pyval) \<Rightarrow> 'c \<times> (exn + pyval) \<Rightarrow> 'c handled" where
  "respond status f x = (case x of (c, Inl e) \<Rightarrow> (c, Inl (CoreError e)) | (c, Inr v) \<Rightarrow> (c, Inr (ok_response status (f v))))"

definition message_data :: "string \<Rightarrow> pyval" where
  "message_data msg = PDict [(''message'', PStr msg)]"

definition respond_done :: "string \<Rightarrow> 'c \<times> exn option \<Rightarrow> 'c handled" where
  "respond_done msg x = (case x of (c, Some e) \<Rightarrow> (c, Inl (CoreError e)) | (c, None) \<Rightarrow> (c, Inr (ok_response 200 (message_data msg))))"

definition handle_health :: "'c api_client \<Rightarrow> 'c \<Rightarrow> 'c handled" where
  "handle_health ops c = respond 200 id (ac_health ops c)"

definition handle_runtime_status :: "'c api_client \<Rightarrow> 'c \<Rightarrow> 'c handled" where
  "handle_runtime_status ops c = respond 200 id (ac_status ops c)"

definition handle_runtime_start :: "'c api_client \<Rightarrow> 'c \<Rightarrow> 'c handled" where
  "handle_runtime_start ops c = respond_done ''Runtime started successfully.'' (ac_start ops c)"

definition handle_runtime_stop :: "'c api_client \<Rightarrow> 'c \<Rightarrow> 'c handled" where
  "handle_runtime_stop ops c = respond_done ''Runtime stopped successfully.'' (ac_stop ops c)"

definition handle_runtime_reload :: "'c api_client \<Rightarrow> 'c \<Rightarrow> 'c handled" where
  "handle_runtime_reload ops c = respond_done ''Runtime reloaded successfully.'' (ac_reload ops c)"

definition pick :: "string list \<Rightarrow> pydict \<Rightarrow> pydict" where
  "pick ks d = map (\<lambda>k. (k, pyget d k)) ks"

definition id_name_missing :: string where
  "id_name_missing = ''Missing required fields: '' @ quoted ''id'' @ '' and '' @ quoted ''name'' @ ''.''"

definition handle_task_create :: "gateway_env \<Rightarrow> 'c api_client \<Rightarrow> api_request \<Rightarrow> 'c \<Rightarrow> 'c handled" where
  "handle_task_create env ops r c =
     (let body = body_of r
      in case api_then (two_fields env id_name_missing ''id'' ''name'' body) (\<lambda>(i, n).
                api_then (body_get ''input_data'' PNone body) (\<lambda>input. Inr (i, n, input))) of
           Inl e \<Rightarrow> (c, Inl e)
         | Inr (i, n, input) \<Rightarrow>
             (case ac_create_task ops i n input c of
                (c1, Inl e) \<Rightarrow> (c1, Inl (CoreError e))
              | (c1, Inr t) \<Rightarrow> (c1, Inr (ok_response 201
                  (PDict (pick [''id'', ''name'', ''input_data'', ''status'', ''result'', ''error''] t))))))"

definition handle_task_execute_v1 :: "gateway_env \<Rightarrow> 'c api_client \<Rightarrow> api_request \<Rightarrow> 'c \<Rightarrow> 'c handled" where
  "handle_task_execute_v1 env ops r c =
     (let body = body_of r
      in case api_then (two_fields env id_name_missing ''id'' ''name'' body) (\<lambda>(i, n).
                api_then (body_get ''input_data'' PNone body) (\<lambda>input. Inr (i, n, input))) of
           Inl e \<Rightarrow> (c, Inl e)
         | Inr (i, n, input) \<Rightarrow>
             (case ac_run_task ops i n input c of
                (c1, Inl e) \<Rightarrow> (c1, Inl (CoreError e))
              | (c1, Inr t) \<Rightarrow> (c1, Inr (ok_response 200 (PDict (pick [''id'', ''name'', ''status'', ''result'', ''error''] t))))))"

definition is_str :: "pyval \<Rightarrow> bool" where
  "is_str v = (case v of PStr _ \<Rightarrow> True | _ \<Rightarrow> False)"

definition v2_fields_missing :: string where
  "v2_fields_missing = ''Missing required fields for v2 execute: '' @ quoted ''id'' @ '' and '' @ quoted ''name'' @ ''.''"

definition v2_not_strings :: string where
  "v2_not_strings = quoted ''id'' @ '' and '' @ quoted ''name'' @ '' must be string values.''"

text \<open>\<open>list(body.get("input_data", {}).keys()) if body.get("input_data") else []\<close>\<close>

definition input_keys :: "pyval \<Rightarrow> api_exn + pyval" where
  "input_keys input =
     (if \<not> truthy input then Inr (PList [])
      else case input of
          PDict d \<Rightarrow> Inr (PList (map PStr (dict_keys d)))
        | v \<Rightarrow> Inl (CoreError (attribute_error ''keys'' v)))"

definition handle_task_execute_v2 :: "gateway_env \<Rightarrow> real \<Rightarrow> 'c api_client \<Rightarrow> api_request \<Rightarrow> 'c \<Rightarrow> 'c handled" where
  "handle_task_execute_v2 env duration ops r c =
     (let body = body_of r
      in case api_then (two_fields env v2_fields_missing ''id'' ''name'' body) (\<lambda>(i, n).
                if \<not> is_str i \<or> \<not> is_str n then Inl (bad_request v2_not_strings)
                else api_then (body_get ''input_data'' PNone body) (\<lambda>input. Inr (i, n, input))) of
           Inl e \<Rightarrow> (c, Inl e)
         | Inr (i, n, input) \<Rightarrow>
             (case ac_run_task ops i n input c of
                (c1, Inl e) \<Rightarrow> (c1, Inl (CoreError e))
              | (c1, Inr t) \<Rightarrow>
                  (c1, api_then (input_keys input) (\<lambda>ks. Inr ((ok_response 200
                     (PDict (pick [''id'', ''name'', ''status'', ''result'', ''error''] t
                        @ [(''meta'', PDict [(''version'', PStr ''v2''), (''duration_seconds'', PFloat duration), (''input_keys'', ks)])])))
                     \<lparr>rs_version := ''v2''\<rparr>)))))"

definition key_value_missing :: string where
  "key_value_missing = ''Missing required fields: '' @ quoted ''key'' @ '' and '' @ quoted ''value'' @ ''.''"

definition handle_memory_save_v1 :: "gateway_env \<Rightarrow> 'c api_client \<Rightarrow> api_request \<Rightarrow> 'c \<Rightarrow> 'c handled" where
  "handle_memory_save_v1 env ops r c =
     (let body = body_of r
      in case api_then (two_fields env key_value_missing ''key'' ''value'' body) (\<lambda>(k, v).
                api_then (body_get ''category'' (PStr ''short-term'') body) (\<lambda>cat.
                api_then (body_get ''metadata'' PNone body) (\<lambda>md.
                api_then (body_get ''ttl'' PNone body) (\<lambda>ttl. Inr (k, v, cat, md, ttl))))) of
           Inl e \<Rightarrow> (c, Inl e)
         | Inr (k, v, cat, md, ttl) \<Rightarrow>
             respond_done (''Saved key in '' @ shown_text env cat @ '' memory.'') (ac_save_memory ops k v cat md ttl c))"

definition v2_key_value_missing :: string where
  "v2_key_value_missing = ''Missing required fields for v2: '' @ quoted ''key'' @ '' and '' @ quoted ''value'' @ ''.''"

definition v2_metadata :: "pyval \<Rightarrow> api_exn + pyval" where
  "v2_metadata md = (case md of
       PNone \<Rightarrow> Inr (PDict [(''v2_saved'', PBool True)])
     | PDict d \<Rightarrow> Inr (PDict (AList.update ''v2_saved'' (PBool True) d))
     | _ \<Rightarrow> Inl (bad_request (quoted ''metadata'' @ '' must be a dictionary in v2.'')))"

definition handle_memory_save_v2 :: "gateway_env \<Rightarrow> 'c api_client \<Rightarrow> api_request \<Rightarrow> 'c \<Rightarrow> 'c handled" where
  "handle_memory_save_v2 env ops r c =
     (let body = body_of r
      in case api_then (two_fields env v2_key_value_missing ''key'' ''value'' body) (\<lambda>(k, v).
                api_then (body_get ''metadata'' PNone body) (\<lambda>md0.
                api_then (v2_metadata md0) (\<lambda>md.
                api_then (body_get ''category'' (PStr ''short-term'') body) (\<lambda>cat.
                api_then (body_get ''ttl'' PNone body) (\<lambda>ttl. Inr (k, v, cat, md, ttl)))))) of
           Inl e \<Rightarrow> (c, Inl e)
         | Inr (k, v, cat, md, ttl) \<Rightarrow>
             (case ac_save_memory ops k v cat md ttl c of
                (c1, Some e) \<Rightarrow> (c1, Inl (CoreError e))
              | (c1, None) \<Rightarrow> (c1, Inr ((ok_response 200
                  (PDict [(''message'', PStr (''Saved key in '' @ shown_text env cat @ '' memory with v2 metadata tag.'')),
                          (''v2'', PBool True)]))\<lparr>rs_version := ''v2''\<rparr>))))"

definition query_missing :: "string \<Rightarrow> api_exn" where
  "query_missing p = bad_request (''Missing query parameter '' @ quoted p @ ''.'')"

definition query_get :: "string \<Rightarrow> api_request \<Rightarrow> pyval" where
  "query_get k r = pyget (dict_items (rq_query r)) k"

definition handle_memory_get :: "'c api_client \<Rightarrow> api_request \<Rightarrow> 'c \<Rightarrow> 'c handled" where
  "handle_memory_get ops r c =
     (let key = query_get ''key'' r;
          cat = (case map_of (dict_items (rq_query r)) ''category'' of Some x \<Rightarrow> x | None \<Rightarrow> PStr ''short-term'')
      in if \<not> truthy key then (c, Inl (query_missing ''key''))
         else respond 200 (\<lambda>v. PDict [(''key'', key), (''value'', v), (''category'', cat)]) (ac_get_memory ops key cat c))"

definition handle_context_create :: "'c api_client \<Rightarrow> api_request \<Rightarrow> 'c \<Rightarrow> 'c handled" where
  "handle_context_create ops r c =
     (let body = body_of r
      in case api_then (body_get ''data'' PNone body) (\<lambda>d.
                api_then (body_get ''parent_id'' PNone body) (\<lambda>p.
                api_then (body_get ''metadata'' PNone body) (\<lambda>md. Inr (d, p, md)))) of
           Inl e \<Rightarrow> (c, Inl e)
         | Inr (d, p, md) \<Rightarrow> respond 201 id (ac_create_context ops d p md c))"

definition handle_context_active :: "'c api_client \<Rightarrow> 'c \<Rightarrow> 'c handled" where
  "handle_context_active ops c = (case ac_active ops c of
       (c1, Some v) \<Rightarrow> (c1, Inr (ok_response 200 v))
     | (c1, None) \<Rightarrow> (c1, Inr (ok_response 200 (message_data ''No active context found in current thread.''))))"

definition handle_context_memories :: "'c api_client \<Rightarrow> api_request \<Rightarrow> 'c \<Rightarrow> 'c handled" where
  "handle_context_memories ops r c =
     (let cid = query_get ''context_id'' r
      in if \<not> truthy cid then (c, Inl (query_missing ''context_id''))
         else respond 200 id (ac_memories ops cid c))"

definition handle_plugin_list :: "'c api_client \<Rightarrow> 'c \<Rightarrow> 'c handled" where
  "handle_plugin_list ops c = respond 200 (\<lambda>v. PDict [(''plugins'', v)]) (ac_list_plugins ops c)"

definition handle_plugin_status :: "'c api_client \<Rightarrow> 'c \<Rightarrow> 'c handled" where
  "handle_plugin_status ops c = respond 200 id (ac_plugin_status ops c)"

fun command_done :: "plugin_command \<Rightarrow> string" where
  "command_done PC_LOAD = ''loaded''"
| "command_done PC_UNLOAD = ''unloaded''"
| "command_done PC_START = ''started''"
| "command_done PC_STOP = ''stopped''"

text \<open>The four handlers \<open>_handle_plugin_load\<close>, \<open>_unload\<close>, \<open>_start\<close> and \<open>_stop\<close> differ in the call and a word.\<close>

definition handle_plugin_command :: "plugin_command \<Rightarrow> gateway_env \<Rightarrow> 'c api_client \<Rightarrow> api_request \<Rightarrow> 'c \<Rightarrow> 'c handled" where
  "handle_plugin_command cmd env ops r c =
     (case body_get ''name'' PNone (body_of r) of
        Inl e \<Rightarrow> (c, Inl e)
      | Inr name \<Rightarrow>
          if \<not> truthy name then (c, Inl (bad_request (''Missing required field '' @ quoted ''name'' @ ''.'')))
          else respond_done (''Plugin '' @ quoted (shown_text env name) @ '' '' @ command_done cmd @ '' successfully.'')
                 (ac_plugin ops cmd name c))"

definition handle_plugin_state :: "'c api_client \<Rightarrow> api_request \<Rightarrow> 'c \<Rightarrow> 'c handled" where
  "handle_plugin_state ops r c =
     (let name = query_get ''name'' r
      in if \<not> truthy name then (c, Inl (query_missing ''name''))
         else respond 200 (\<lambda>v. PDict [(''name'', name), (''state'', v)]) (ac_plugin_state ops name c))"

definition handle_event_publish :: "gateway_env \<Rightarrow> 'c api_client \<Rightarrow> api_request \<Rightarrow> 'c \<Rightarrow> 'c handled" where
  "handle_event_publish env ops r c =
     (case api_then (body_get ''event_name'' PNone (body_of r)) (\<lambda>n.
             api_then (body_get ''payload'' PNone (body_of r)) (\<lambda>p. Inr (n, p))) of
        Inl e \<Rightarrow> (c, Inl e)
      | Inr (n, p) \<Rightarrow>
          if \<not> truthy n then (c, Inl (bad_request (''Missing required field '' @ quoted ''event_name'' @ ''.'')))
          else respond_done (''Event '' @ quoted (shown_text env n) @ '' published successfully.'') (ac_publish ops n p c))"

section \<open>Routes and dispatch\<close>

text \<open>The bound methods of the gateway, and handlers others have registered.\<close>

datatype api_handler =
    H_HEALTH | H_STATUS | H_START | H_STOP | H_RELOAD
  | H_TASK_CREATE | H_TASK_EXECUTE_V1 | H_TASK_EXECUTE_V2
  | H_MEMORY_SAVE_V1 | H_MEMORY_SAVE_V2 | H_MEMORY_GET
  | H_CONTEXT_CREATE | H_CONTEXT_ACTIVE | H_CONTEXT_MEMORIES
  | H_PLUGIN_LIST | H_PLUGIN_STATUS | H_PLUGIN plugin_command | H_PLUGIN_STATE
  | H_EVENT_PUBLISH | H_CUSTOM nat

type_synonym route_table = "((string \<times> string) \<times> api_handler) list"

definition register_route :: "string \<Rightarrow> string \<Rightarrow> api_handler \<Rightarrow> route_table \<Rightarrow> route_table" where
  "register_route method path h routes = AList.update (str_upper method, path) h routes"

definition default_routes :: route_table where
  "default_routes = fold (\<lambda>(m, p, h). register_route m p h)
     [(''GET'', ''/v1/health'', H_HEALTH),
      (''GET'', ''/v1/runtime/status'', H_STATUS),
      (''POST'', ''/v1/runtime/start'', H_START),
      (''POST'', ''/v1/runtime/stop'', H_STOP),
      (''POST'', ''/v1/runtime/reload'', H_RELOAD),
      (''POST'', ''/v1/tasks/create'', H_TASK_CREATE),
      (''POST'', ''/v1/tasks/execute'', H_TASK_EXECUTE_V1),
      (''POST'', ''/v2/tasks/execute'', H_TASK_EXECUTE_V2),
      (''POST'', ''/v1/memory/save'', H_MEMORY_SAVE_V1),
      (''POST'', ''/v2/memory/save'', H_MEMORY_SAVE_V2),
      (''GET'', ''/v1/memory/get'', H_MEMORY_GET),
      (''POST'', ''/v1/context/create'', H_CONTEXT_CREATE),
      (''GET'', ''/v1/context/active'', H_CONTEXT_ACTIVE),
      (''GET'', ''/v1/context/memories'', H_CONTEXT_MEMORIES),
      (''GET'', ''/v1/plugins/list'', H_PLUGIN_LIST),
      (''GET'', ''/v1/plugins/status'', H_PLUGIN_STATUS),
      (''POST'', ''/v1/plugins/load'', H_PLUGIN PC_LOAD),
      (''POST'', ''/v1/plugins/unload'', H_PLUGIN PC_UNLOAD),
      (''POST'', ''/v1/plugins/start'', H_PLUGIN PC_START),
      (''POST'', ''/v1/plugins/stop'', H_PLUGIN PC_STOP),
      (''GET'', ''/v1/plugins/state'', H_PLUGIN_STATE),
      (''POST'', ''/v1/events/publish'', H_EVENT_PUBLISH)] []"

text \<open>
  A gateway: its authenticator, its routes, what registered handlers do, and the time a task takes.
\<close>

record 'c gateway =
  gw_auth :: authenticator
  gw_routes :: route_table
  gw_custom :: "nat \<Rightarrow> api_request \<Rightarrow> 'c \<Rightarrow> 'c handled"
  gw_duration :: real

definition mk_gateway :: "authenticator option \<Rightarrow> (nat \<Rightarrow> api_request \<Rightarrow> 'c \<Rightarrow> 'c handled) \<Rightarrow> real \<Rightarrow> 'c gateway" where
  "mk_gateway auth custom duration =
     \<lparr> gw_auth = (case auth of Some a \<Rightarrow> a | None \<Rightarrow> \<lparr> au_allowed = [], au_required = False \<rparr>),
       gw_routes = default_routes, gw_custom = custom, gw_duration = duration \<rparr>"

fun run_handler :: "gateway_env \<Rightarrow> 'c api_client \<Rightarrow> 'c gateway \<Rightarrow> api_handler \<Rightarrow> api_request \<Rightarrow> 'c \<Rightarrow> 'c handled" where
  "run_handler env ops g H_HEALTH r c = handle_health ops c"
| "run_handler env ops g H_STATUS r c = handle_runtime_status ops c"
| "run_handler env ops g H_START r c = handle_runtime_start ops c"
| "run_handler env ops g H_STOP r c = handle_runtime_stop ops c"
| "run_handler env ops g H_RELOAD r c = handle_runtime_reload ops c"
| "run_handler env ops g H_TASK_CREATE r c = handle_task_create env ops r c"
| "run_handler env ops g H_TASK_EXECUTE_V1 r c = handle_task_execute_v1 env ops r c"
| "run_handler env ops g H_TASK_EXECUTE_V2 r c = handle_task_execute_v2 env (gw_duration g) ops r c"
| "run_handler env ops g H_MEMORY_SAVE_V1 r c = handle_memory_save_v1 env ops r c"
| "run_handler env ops g H_MEMORY_SAVE_V2 r c = handle_memory_save_v2 env ops r c"
| "run_handler env ops g H_MEMORY_GET r c = handle_memory_get ops r c"
| "run_handler env ops g H_CONTEXT_CREATE r c = handle_context_create ops r c"
| "run_handler env ops g H_CONTEXT_ACTIVE r c = handle_context_active ops c"
| "run_handler env ops g H_CONTEXT_MEMORIES r c = handle_context_memories ops r c"
| "run_handler env ops g H_PLUGIN_LIST r c = handle_plugin_list ops c"
| "run_handler env ops g H_PLUGIN_STATUS r c = handle_plugin_status ops c"
| "run_handler env ops g (H_PLUGIN cmd) r c = handle_plugin_command cmd env ops r c"
| "run_handler env ops g H_PLUGIN_STATE r c = handle_plugin_state ops r c"
| "run_handler env ops g H_EVENT_PUBLISH r c = handle_event_publish env ops r c"
| "run_handler env ops g (H_CUSTOM i) r c = gw_custom g i r c"

definition not_found :: "api_request \<Rightarrow> api_exn" where
  "not_found r = ApiError (''Endpoint '' @ quoted (rq_method r @ '' '' @ rq_path r) @ '' not found.'') NOT_FOUND 404"

definition request_version :: "api_request \<Rightarrow> string" where
  "request_version r = (if take 4 (rq_path r) = ''/v2/'' then ''v2'' else ''v1'')"

text \<open>The steps before the handler: validation, authentication, and the route.\<close>

definition admit :: "'c gateway \<Rightarrow> api_request \<Rightarrow> api_exn + api_handler" where
  "admit g r = (case validate_request r of
       Some e \<Rightarrow> Inl (CoreError e)
     | None \<Rightarrow> api_then (authenticate (gw_auth g) r) (\<lambda>_.
         case map_of (gw_routes g) (rq_method r, rq_path r) of
           Some h \<Rightarrow> Inr h
         | None \<Rightarrow> Inl (not_found r)))"

definition handle_request :: "gateway_env \<Rightarrow> 'c api_client \<Rightarrow> 'c gateway \<Rightarrow> api_request \<Rightarrow> 'c \<Rightarrow> 'c \<times> api_response" where
  "handle_request env ops g r c = (case admit g r of
       Inl e \<Rightarrow> (c, error_response env (request_version r) e)
     | Inr h \<Rightarrow> (case run_handler env ops g h r c of
           (c1, Inl e) \<Rightarrow> (c1, error_response env (request_version r) e)
         | (c1, Inr x) \<Rightarrow> (c1, x)))"

section \<open>The WSGI application\<close>

text \<open>
  The environment of a WSGI call: its string entries in order, what \<open>parse_qs\<close> makes of the query
  string, the bytes of the input, and what \<open>json.loads\<close> makes of them (\<open>None\<close> for a value error).
\<close>

record wsgi_call =
  ws_environ :: "(string \<times> string) list"
  ws_parse_qs :: "string \<Rightarrow> (string \<times> string list) list"
  ws_has_input :: bool
  ws_json :: "int \<Rightarrow> pyval option"

definition environ_get :: "wsgi_call \<Rightarrow> string \<Rightarrow> string \<Rightarrow> string" where
  "environ_get w k dflt = (case map_of (ws_environ w) k of Some v \<Rightarrow> v | None \<Rightarrow> dflt)"

definition dashed :: "string \<Rightarrow> string" where
  "dashed s = str_lower (map (\<lambda>c. if c = CHR ''_'' then CHR ''-'' else c) s)"

definition wsgi_headers :: "(string \<times> string) list \<Rightarrow> pydict" where
  "wsgi_headers env = fold (\<lambda>(k, v) d.
     if take 5 k = ''HTTP_'' then AList.update (dashed (drop 5 k)) (PStr v) d
     else if k = ''CONTENT_TYPE'' \<or> k = ''CONTENT_LENGTH'' then AList.update (dashed k) (PStr v) d
     else d) env []"

definition wsgi_query :: "(string \<times> string list) list \<Rightarrow> pydict" where
  "wsgi_query qs = map (\<lambda>(k, vs). (k, if length vs = 1 then PStr (hd vs) else PList (map PStr vs))) qs"

definition wsgi_body :: "wsgi_call \<Rightarrow> pyval" where
  "wsgi_body w =
     (let n = (case map_of (ws_environ w) ''CONTENT_LENGTH'' of
                 None \<Rightarrow> 0
               | Some s \<Rightarrow> (case parse_int s of Inl _ \<Rightarrow> 0 | Inr i \<Rightarrow> i))
      in if n > 0 \<and> ws_has_input w then (case ws_json w n of Some v \<Rightarrow> v | None \<Rightarrow> PNone) else PNone)"

definition wsgi_request :: "wsgi_call \<Rightarrow> api_request" where
  "wsgi_request w = mk_request (environ_get w ''REQUEST_METHOD'' ''GET'') (environ_get w ''PATH_INFO'' ''/'')
     (PDict (wsgi_headers (ws_environ w))) (PDict (wsgi_query (ws_parse_qs w (environ_get w ''QUERY_STRING'' [])))) (wsgi_body w)"

definition reason :: "int \<Rightarrow> string" where
  "reason s = (if s = 200 then ''OK'' else if s = 201 then ''Created'' else if s = 400 then ''Bad Request''
     else if s = 401 then ''Unauthorized'' else if s = 403 then ''Forbidden'' else if s = 404 then ''Not Found''
     else ''Internal Server Error'')"

text \<open>
  The call: the status line, the headers and the body, unless \<open>json.dumps\<close> of the response raises,
  which the application does not catch.
\<close>

definition wsgi_app ::
  "gateway_env \<Rightarrow> (pydict \<Rightarrow> exn + string) \<Rightarrow> 'c api_client \<Rightarrow> 'c gateway \<Rightarrow> wsgi_call \<Rightarrow> 'c
     \<Rightarrow> 'c \<times> (exn + string \<times> (string \<times> string) list \<times> string)" where
  "wsgi_app env dumps ops g w c =
     (case handle_request env ops g (wsgi_request w) c of
        (c1, resp) \<Rightarrow> (c1, and_then (dumps (response_to_dict resp)) (\<lambda>body.
           Inr (int_str (rs_status resp) @ '' '' @ reason (rs_status resp),
                [(''Content-Type'', ''application/json''), (''Content-Length'', nat_str (length body))], body))))"

end
