(* ===== verification/ApiProps.thy ===== *)
theory ApiProps
  imports ApiGateway
begin

text \<open>
  Properties of the gateway for every client: the shape of the responses, which requests reach a
  handler, and what the authenticator lets through.
\<close>

section \<open>Responses\<close>

definition good_response :: "api_response \<Rightarrow> bool" where
  "good_response x \<longleftrightarrow> rs_status x \<in> {200, 201} \<and> rs_errors x = [] \<and> rs_version x \<in> {''v1'', ''v2''}"

definition handler_error :: "api_exn \<Rightarrow> bool" where
  "handler_error e = (case e of ApiError msg code status \<Rightarrow> code = VALIDATION_ERROR \<and> status = 400 | CoreError _ \<Rightarrow> True)"

definition handled_well :: "'c handled \<Rightarrow> bool" where
  "handled_well x = (case snd x of Inl e \<Rightarrow> handler_error e | Inr resp \<Rightarrow> good_response resp)"

lemma good_ok [simp]: "good_response (ok_response 200 v)" "good_response (ok_response 201 v)"
  "good_response ((ok_response 200 v)\<lparr>rs_version := ''v2''\<rparr>)"
  by (simp_all add: good_response_def ok_response_def)

lemma handler_error_simps [simp]: "handler_error (CoreError e)" "handler_error (bad_request m)"
  "handler_error (query_missing p)" "handler_error (type_error env what v)"
  by (simp_all add: handler_error_def bad_request_def query_missing_def type_error_def)

lemma handled_well_simps [simp]:
  "handled_well (c, Inl e) = handler_error e" "handled_well (c, Inr resp) = good_response resp"
  by (simp_all add: handled_well_def)

lemma handled_respond [simp]: "handled_well (respond 200 f x)" "handled_well (respond 201 f x)" "handled_well (respond_done m y)"
  by (auto simp: respond_def respond_done_def split: prod.split sum.split option.split)

definition parsed_well :: "api_exn + 'a \<Rightarrow> bool" where
  "parsed_well x = (case x of Inl e \<Rightarrow> handler_error e | Inr _ \<Rightarrow> True)"

lemma parsed_well_simps [simp]: "parsed_well (Inl e) = handler_error e" "parsed_well (Inr x)"
  by (simp_all add: parsed_well_def)

lemma parsed_then: "parsed_well x \<Longrightarrow> (\<And>y. parsed_well (f y)) \<Longrightarrow> parsed_well (api_then x f)"
  by (cases x) auto

lemma parsed_body [simp]: "parsed_well (body_has env k v)" "parsed_well (body_item env k v)" "parsed_well (body_get k d v)"
  "parsed_well (input_keys v)" "parsed_well (v2_metadata v)"
  by (auto simp: body_has_def body_item_def body_get_def input_keys_def v2_metadata_def split: pyval.split option.split)

lemma parsed_two [simp]: "parsed_well (two_fields env m a b body)"
  by (auto simp: two_fields_def intro!: parsed_then)

text \<open>A handler that parses the body and then acts.\<close>

lemma handled_parse:
  assumes "parsed_well x" "\<And>y. handled_well (f y)"
  shows "handled_well (case x of Inl e \<Rightarrow> (c, Inl e) | Inr y \<Rightarrow> f y)"
  using assms by (cases x) auto

lemma handled_task: "handled_well (handle_task_create env ops r c)" "handled_well (handle_task_execute_v1 env ops r c)"
  "handled_well (handle_task_execute_v2 env d ops r c)"
proof -
  have then_ok: "handled_well (c1, api_then x (\<lambda>ks. Inr ((ok_response 200 (f ks))\<lparr>rs_version := ''v2''\<rparr>)))" if "parsed_well x" for c1 :: 'c and x :: "api_exn + pyval" and f
    using that by (cases x) auto
  show "handled_well (handle_task_create env ops r c)"
    unfolding handle_task_create_def Let_def
    by (rule handled_parse) (auto intro!: parsed_then split: prod.split sum.split)
  show "handled_well (handle_task_execute_v1 env ops r c)"
    unfolding handle_task_execute_v1_def Let_def
    by (rule handled_parse) (auto intro!: parsed_then split: prod.split sum.split)
  show "handled_well (handle_task_execute_v2 env d ops r c)"
    unfolding handle_task_execute_v2_def Let_def
    by (rule handled_parse) (auto intro!: parsed_then then_ok split: prod.split sum.split)
qed

lemma handled_memory: "handled_well (handle_memory_save_v1 env ops r c)" "handled_well (handle_memory_save_v2 env ops r c)"
  "handled_well (handle_memory_get ops r c)"
  by (auto simp: handle_memory_save_v1_def handle_memory_save_v2_def handle_memory_get_def Let_def
      intro!: handled_parse parsed_then split: prod.split option.split)

lemma handled_context: "handled_well (handle_context_create ops r c)" "handled_well (handle_context_active ops c)"
  "handled_well (handle_context_memories ops r c)"
  by (auto simp: handle_context_create_def handle_context_active_def handle_context_memories_def Let_def
      intro!: handled_parse parsed_then split: prod.split option.split)

lemma handled_plugin: "handled_well (handle_plugin_command cmd env ops r c)" "handled_well (handle_plugin_state ops r c)"
  "handled_well (handle_event_publish env ops r c)"
  by (auto simp: handle_plugin_command_def handle_plugin_state_def handle_event_publish_def Let_def
      intro!: handled_parse parsed_then split: prod.split)

lemma run_handler_well: "\<forall>i. h \<noteq> H_CUSTOM i \<Longrightarrow> handled_well (run_handler env ops g h r c)"
  by (cases h) (simp_all add: handled_task handled_memory handled_context handled_plugin handle_health_def
      handle_runtime_status_def handle_runtime_start_def handle_runtime_stop_def handle_runtime_reload_def
      handle_plugin_list_def handle_plugin_status_def)

lemma default_handlers: "h \<in> snd ` set default_routes \<Longrightarrow> h \<noteq> H_CUSTOM i"
proof -
  have "list_all (\<lambda>p. case snd p of H_CUSTOM _ \<Rightarrow> False | _ \<Rightarrow> True) default_routes" by code_simp
  then show "h \<in> snd ` set default_routes \<Longrightarrow> h \<noteq> H_CUSTOM i" by (auto simp: list_all_iff)
qed

text \<open>The code an error response carries for each status\<close>

definition status_code_name :: "int \<Rightarrow> string" where
  "status_code_name s = (if s = 400 then ''VALIDATION_ERROR'' else if s = 401 then ''UNAUTHORIZED''
     else if s = 403 then ''FORBIDDEN'' else if s = 404 then ''NOT_FOUND'' else ''INTERNAL_SERVER_ERROR'')"

definition bad_response :: "api_request \<Rightarrow> int set \<Rightarrow> api_response \<Rightarrow> bool" where
  "bad_response r S x \<longleftrightarrow> rs_status x \<in> S \<and> rs_data x = PNone \<and> rs_version x = request_version r
     \<and> (\<exists>e. rs_errors x = [e] \<and> pyget e ''code'' = PStr (status_code_name (rs_status x)))"

definition allowed_error :: "int set \<Rightarrow> api_exn \<Rightarrow> bool" where
  "allowed_error S e = (case e of
       ApiError msg code status \<Rightarrow> status \<in> S \<and> api_code_value code = status_code_name status
     | CoreError _ \<Rightarrow> 400 \<in> S \<and> 500 \<in> S)"

lemma error_response_bad: "allowed_error S e \<Longrightarrow> bad_response r S (error_response env (request_version r) e)"
  by (auto simp: allowed_error_def bad_response_def error_response_def api_error_dict_def pyget_def status_code_name_def
      split: api_exn.splits)

lemma handler_error_allowed: "handler_error e \<Longrightarrow> allowed_error {400, 500} e"
  by (auto simp: handler_error_def allowed_error_def status_code_name_def split: api_exn.splits)

lemma token_errors: "request_token r = Inl e \<Longrightarrow> \<exists>x. e = CoreError x"
  by (auto simp: request_token_def header_text_def Let_def api_then_def split: pyval.splits if_splits sum.splits)

lemma authenticate_errors: "authenticate a r = Inl e \<Longrightarrow> allowed_error {400, 401, 403, 500} e"
  by (cases "request_token r")
    (auto simp: authenticate_def allowed_error_def status_code_name_def dest!: token_errors split: if_splits)

lemma admit_errors: "admit g r = Inl e \<Longrightarrow> allowed_error {400, 401, 403, 404, 500} e"
proof (cases "validate_request r")
  case None
  assume e: "admit g r = Inl e"
  show ?thesis
  proof (cases "authenticate (gw_auth g) r")
    case (Inl x)
    then show ?thesis using e None authenticate_errors [OF Inl]
      by (auto simp: admit_def allowed_error_def split: api_exn.splits)
  next
    case (Inr x)
    then show ?thesis using e None
      by (auto simp: admit_def not_found_def allowed_error_def status_code_name_def split: option.splits)
  qed
qed (auto simp: admit_def allowed_error_def)

lemma admitted_route: "admit g r = Inr h \<Longrightarrow> ((rq_method r, rq_path r), h) \<in> set (gw_routes g)"
  by (cases "authenticate (gw_auth g) r") (auto simp: admit_def dest: map_of_SomeD split: option.splits)

text \<open>
  \<open>C29\<close>. Whatever the client does, the gateway with its own routes answers every request, and the answer is
  either a success (200 or 201, no errors) or exactly one error: no data, the version of the path, a status
  of 400, 401, 403, 404 or 500 and the error code that belongs to it. A request that is refused before its handler
  leaves the client as it was.
\<close>

theorem gateway_answers:
  assumes "gw_routes g = default_routes"
  shows "case handle_request env ops g r c of (c', x) \<Rightarrow>
     (case admit g r of
        Inr h \<Rightarrow> good_response x \<or> bad_response r {400, 500} x
      | Inl e \<Rightarrow> c' = c \<and> bad_response r {400, 401, 403, 404, 500} x)"
proof (cases "admit g r")
  case (Inl e)
  then show ?thesis using error_response_bad [OF admit_errors [OF Inl]] by (simp add: handle_request_def)
next
  case (Inr h)
  then have "h \<in> snd ` set default_routes" using admitted_route [OF Inr] assms by force
  then have "\<forall>i. h \<noteq> H_CUSTOM i" using default_handlers [of h] by simp
  then have w: "handled_well (run_handler env ops g h r c)" by (rule run_handler_well)
  obtain c1 y where y: "run_handler env ops g h r c = (c1, y)" by (meson surj_pair)
  show ?thesis
  proof (cases y)
    case (Inl e)
    then have "allowed_error {400, 500} e" using w y handler_error_allowed by simp
    from error_response_bad [OF this] show ?thesis using Inl y \<open>admit g r = Inr h\<close> by (simp add: handle_request_def)
  next
    case (Inr x)
    then show ?thesis using w y \<open>admit g r = Inr h\<close> by (simp add: handle_request_def)
  qed
qed

section \<open>Keys\<close>

lemma authenticate_required:
  assumes "au_required a" "authenticate a r = Inr d"
  shows "\<exists>t. request_token r = Inr t \<and> t \<noteq> [] \<and> (au_allowed a = [] \<or> t \<in> set (au_allowed a))"
  using assms by (cases "request_token r") (auto simp: authenticate_def split: if_splits)

text \<open>
  \<open>C2\<close>. With a required key, whatever the routes and the client are: a request changes the client or is
  answered without an error only if it brings a token, and one of the allowed keys if keys are configured.
\<close>

theorem gateway_key_required:
  assumes "au_required (gw_auth g)" "handle_request env ops g r c = (c', x)" "c' \<noteq> c \<or> rs_errors x = []"
  shows "\<exists>t. request_token r = Inr t \<and> t \<noteq> [] \<and> (au_allowed (gw_auth g) = [] \<or> t \<in> set (au_allowed (gw_auth g)))"
proof -
  have "\<exists>h. admit g r = Inr h"
  proof (rule ccontr)
    assume "\<nexists>h. admit g r = Inr h"
    then obtain e where e: "admit g r = Inl e" by (cases "admit g r") auto
    then have "c' = c" "x = error_response env (request_version r) e" using assms(2) by (auto simp: handle_request_def)
    then show False using assms(3) by (simp add: error_response_def split: api_exn.splits if_splits)
  qed
  then obtain d where "authenticate (gw_auth g) r = Inr d"
    by (cases "authenticate (gw_auth g) r") (auto simp: admit_def split: option.splits)
  then show ?thesis using authenticate_required [OF assms(1)] by blast
qed

text \<open>
  Keys that are configured without \<open>required\<close> keep nobody out who brings no token: such a request is handled
  as if there were no keys.
\<close>

lemma configured_keys_optional:
  assumes "\<not> au_required (gw_auth g)" "request_token r = Inr []"
  shows "handle_request env ops g r c = handle_request env ops (g\<lparr>gw_auth := \<lparr> au_allowed = [], au_required = False \<rparr>\<rparr>) r c"
proof -
  have "admit g r = admit (g\<lparr>gw_auth := \<lparr> au_allowed = [], au_required = False \<rparr>\<rparr>) r"
    using assms by (simp add: admit_def authenticate_def split: option.split)
  moreover have "\<And>h. run_handler env ops g h r c = run_handler env ops (g\<lparr>gw_auth := \<lparr> au_allowed = [], au_required = False \<rparr>\<rparr>) h r c"
    by (case_tac h) simp_all
  ultimately show ?thesis unfolding handle_request_def by (auto split: sum.split)
qed

end
