(* ===== verification/CoreClient.thy ===== *)
theory CoreClient
  imports AgentProps ContextStore PluginRegistry Orchestrator EventBus ApiProps
begin

text \<open>
  The client of the SDK (\<open>sdk/client.py\<close>) as it composes the components, and as the client of the API
  gateway: agents and tasks, memories, contexts, plugins, the event bus and the orchestrator over the service
  registry. The methods of \<open>YasinCoreClient\<close> that the gateway does not call delegate in the same way to operations
  that are modelled in their own theories.
\<close>

section \<open>State and surroundings\<close>

text \<open>The context variable of the calling thread: unset, a plain context, or a runtime context of the engine.\<close>

datatype thread_context = TC_NONE | TC_PLAIN pydict | TC_RUNTIME nat

record 's core_client =
  kc_agents :: "'s agent_world"
  kc_contexts :: cengine
  kc_current :: thread_context
  kc_plugins :: plugin_registry
  kc_bus :: event_bus
  kc_orchestrator :: "service_manager orchestrator"

text \<open>
  Code outside the repository and facts about the process: the storage, agents, plugins, event handlers,
  services, the keys of the container as they are shown, the recursion depth, and the subject an object under
  \<open>security_subject\<close> is.
\<close>

record 's core_env =
  ke_storage :: "'s storage_ops"
  ke_agents :: agent_env
  ke_plugins :: plugin_env
  ke_bus :: bus_env
  ke_runtime :: runtime_env
  ke_services :: service_env
  ke_container :: "string list"
  ke_depth :: nat
  ke_subject :: "pyval \<Rightarrow> subject"

text \<open>What a call reads of clocks and of \<open>uuid4\<close>\<close>

record call_facts =
  cf_clock :: clock
  cf_seconds :: real
  cf_audit_time :: string
  cf_datetime :: datetime
  cf_uuid :: string

text \<open>Arguments whose type contradicts the annotation are outside the model.\<close>

definition outside_model :: exn where
  "outside_model = Exn (UserExc ''argument of another type'') []"

section \<open>The context of the thread\<close>

definition fetch_context :: "'s core_client \<Rightarrow> 's core_client" where
  "fetch_context c = (case kc_current c of TC_NONE \<Rightarrow> c\<lparr>kc_current := TC_PLAIN []\<rparr> | _ \<Rightarrow> c)"

definition current_context_id :: "'s core_client \<Rightarrow> string option" where
  "current_context_id c = (case kc_current c of TC_RUNTIME r \<Rightarrow> Some (rc_id (ctx_at (kc_contexts c) r)) | _ \<Rightarrow> None)"

definition current_subject :: "'s core_env \<Rightarrow> call_facts \<Rightarrow> 's core_client \<Rightarrow> 's core_client \<times> (exn + subject option)" where
  "current_subject env f c0 =
     (let c = fetch_context c0;
          found = (\<lambda>v. if truthy v then Some (ke_subject env v) else None)
      in case kc_current c of
           TC_RUNTIME r \<Rightarrow>
             (case ctx_get (ke_depth env) (cf_clock f) r ''security_subject'' PNone (kc_contexts c) of
                (e, Inl x) \<Rightarrow> (c\<lparr>kc_contexts := e\<rparr>, Inl x)
              | (e, Inr v) \<Rightarrow> (c\<lparr>kc_contexts := e\<rparr>, Inr (found v)))
         | TC_PLAIN d \<Rightarrow> (c, Inr (found (pyget d ''security_subject'')))
         | TC_NONE \<Rightarrow> (c, Inr None))"

section \<open>Tasks\<close>

definition core_create_task :: "pyval \<Rightarrow> pyval \<Rightarrow> pyval \<Rightarrow> 's core_client \<Rightarrow> 's core_client \<times> (exn + pydict)" where
  "core_create_task i n input c =
     (c, Inr [(''id'', i), (''name'', n), (''input_data'', if input = PNone then PDict [] else input),
              (''status'', PStr ''pending''), (''result'', PNone), (''error'', PNone)])"

text \<open>The subject is looked up only for an agent that needs permissions.\<close>

definition needs_subject :: "task \<Rightarrow> 's core_client \<Rightarrow> bool" where
  "needs_subject t c =
     (let rt = aw_runtime (kc_agents c)
      in case plan_agent_name t of
           Inl _ \<Rightarrow> False
         | Inr v \<Rightarrow> (case lookup_agent v rt of Inr (Some r) \<Rightarrow> ag_permissions (agent_at rt r) \<noteq> [] | _ \<Rightarrow> False))"

definition core_execute_task :: "'s core_env \<Rightarrow> call_facts \<Rightarrow> task \<Rightarrow> 's core_client \<Rightarrow> 's core_client \<times> (exn + task)" where
  "core_execute_task env f t c =
     (case (if needs_subject t c then current_subject env f c else (c, Inr None)) of
        (c1, subj) \<Rightarrow>
          (case execute_agent_task (ke_storage env) (ke_agents env) (cf_clock f) (cf_audit_time f) subj (current_context_id c1) t
                  (kc_agents c1) of
             (w, r) \<Rightarrow>
               let c2 = c1\<lparr>kc_agents := w\<rparr>
               in ((case r of Inr t' \<Rightarrow> if tk_status t' = ''completed'' then fetch_context c2 else c2 | Inl _ \<Rightarrow> c2), r)))"

definition core_run_task :: "'s core_env \<Rightarrow> call_facts \<Rightarrow> pyval \<Rightarrow> pyval \<Rightarrow> pyval \<Rightarrow> 's core_client \<Rightarrow> 's core_client \<times> (exn + pydict)" where
  "core_run_task env f i n input c =
     (case (i, n) of
        (PStr i', PStr n') \<Rightarrow>
          (case core_execute_task env f (mk_task i' n' input) c of
             (c1, Inl e) \<Rightarrow> (c1, Inl e)
           | (c1, Inr t) \<Rightarrow> (c1, Inr (task_to_dict t)))
      | _ \<Rightarrow> (c, Inl outside_model))"

section \<open>Memories\<close>

definition put_memories :: "'s client_memories \<Rightarrow> 's core_client \<Rightarrow> 's core_client" where
  "put_memories m c = c\<lparr>kc_agents := (kc_agents c)\<lparr>aw_memories := m\<rparr>\<rparr>"

definition opt_dict :: "pyval \<Rightarrow> exn + pydict option" where
  "opt_dict v = (case v of PNone \<Rightarrow> Inr None | PDict d \<Rightarrow> Inr (Some d) | _ \<Rightarrow> Inl outside_model)"

definition opt_int :: "pyval \<Rightarrow> exn + int option" where
  "opt_int v = (case v of PNone \<Rightarrow> Inr None | PInt i \<Rightarrow> Inr (Some i) | _ \<Rightarrow> Inl outside_model)"

definition core_save_memory ::
  "'s core_env \<Rightarrow> call_facts \<Rightarrow> pyval \<Rightarrow> pyval \<Rightarrow> pyval \<Rightarrow> pyval \<Rightarrow> pyval \<Rightarrow> 's core_client \<Rightarrow> 's core_client \<times> exn option" where
  "core_save_memory env f k v cat md ttl c =
     (case (k, opt_dict md, opt_int ttl) of
        (PStr k', Inr md', Inr ttl') \<Rightarrow>
          (case cat of
             PStr cat' \<Rightarrow>
               let c1 = fetch_context c
               in (case save_memory (ke_storage env) (cf_clock f) (current_context_id c1) k' v cat' md' ttl' (aw_memories (kc_agents c1)) of
                     (m, r) \<Rightarrow> (put_memories m c1, r))
           | _ \<Rightarrow> (fetch_context c, Some (unsupported_category (text_of (ke_agents env) cat))))
      | _ \<Rightarrow> (c, Some outside_model))"

definition core_get_memory :: "'s core_env \<Rightarrow> call_facts \<Rightarrow> pyval \<Rightarrow> pyval \<Rightarrow> 's core_client \<Rightarrow> 's core_client \<times> (exn + pyval)" where
  "core_get_memory env f k cat c =
     (case (k, cat) of
        (PStr k', PStr cat') \<Rightarrow>
          (case get_memory (ke_storage env) (cf_clock f) k' PNone cat' (aw_memories (kc_agents c)) of
             (m, r) \<Rightarrow> (put_memories m c, r))
      | (PStr k', _) \<Rightarrow> (c, Inl (unsupported_category (text_of (ke_agents env) cat)))
      | _ \<Rightarrow> (c, Inl outside_model))"

section \<open>Contexts\<close>

definition core_create_context ::
  "call_facts \<Rightarrow> pyval \<Rightarrow> pyval \<Rightarrow> pyval \<Rightarrow> 's core_client \<Rightarrow> 's core_client \<times> (exn + pyval)" where
  "core_create_context f data parent md c =
     (case (opt_dict data, parent, opt_dict md) of
        (Inr d, PNone, Inr m) \<Rightarrow>
          (case create_context (cf_clock f) (cf_uuid f) (case d of Some x \<Rightarrow> x | None \<Rightarrow> []) None (case m of Some x \<Rightarrow> x | None \<Rightarrow> []) PNone []
                  (kc_contexts c) of
             Inl e \<Rightarrow> (c, Inl e)
           | Inr (e, r) \<Rightarrow> (c\<lparr>kc_contexts := e\<rparr>, Inr (PDict (rc_serialize (ctx_at e r)))))
      | (Inr d, PStr p, Inr m) \<Rightarrow>
          (case create_context (cf_clock f) (cf_uuid f) (case d of Some x \<Rightarrow> x | None \<Rightarrow> []) (Some p) (case m of Some x \<Rightarrow> x | None \<Rightarrow> []) PNone []
                  (kc_contexts c) of
             Inl e \<Rightarrow> (c, Inl e)
           | Inr (e, r) \<Rightarrow> (c\<lparr>kc_contexts := e\<rparr>, Inr (PDict (rc_serialize (ctx_at e r)))))
      | _ \<Rightarrow> (c, Inl outside_model))"

text \<open>\<open>get_current_context()\<close> always gives a context, and a context counts as true.\<close>

definition core_active :: "'s core_client \<Rightarrow> 's core_client \<times> pyval option" where
  "core_active c0 =
     (let c = fetch_context c0
      in (c, case kc_current c of
               TC_RUNTIME r \<Rightarrow> Some (PDict (rc_serialize (ctx_at (kc_contexts c) r)))
             | TC_PLAIN d \<Rightarrow> Some (PDict d)
             | TC_NONE \<Rightarrow> None))"

fun long_filter :: "'s storage_ops \<Rightarrow> clock \<Rightarrow> pydict \<Rightarrow> 's long_term \<Rightarrow> 's long_term \<times> memory_entry list" where
  "long_filter ops ck d (LT_In_Memory m s) = map_prod (\<lambda>m'. LT_In_Memory m' s) id (mm_filter ck d m)"
| "long_filter ops ck d (LT_On_Storage m) = map_prod LT_On_Storage id (lt_filter ops ck d m)"

definition core_memories :: "'s core_env \<Rightarrow> call_facts \<Rightarrow> pyval \<Rightarrow> 's core_client \<Rightarrow> 's core_client \<times> (exn + pyval)" where
  "core_memories env f cid c =
     (case cid of
        PStr i \<Rightarrow>
          let m = aw_memories (kc_agents c)
          in (case retrieve_context_memories (mm_filter (cf_clock f)) (long_filter (ke_storage env) (cf_clock f)) i (cm_short m) (cm_long m) of
                (s, l, d) \<Rightarrow> (put_memories (m\<lparr>cm_short := s, cm_long := l\<rparr>) c, Inr (PDict d)))
      | _ \<Rightarrow> (c, Inl outside_model))"

section \<open>Plugins, events and the runtime\<close>

definition core_plugin :: "'s core_env \<Rightarrow> plugin_command \<Rightarrow> pyval \<Rightarrow> 's core_client \<Rightarrow> 's core_client \<times> exn option" where
  "core_plugin env cmd name c =
     (case name of
        PStr n \<Rightarrow>
          map_prod (\<lambda>p. c\<lparr>kc_plugins := p\<rparr>) id
            (case cmd of
               PC_LOAD \<Rightarrow> load_plugin (ke_plugins env) n (kc_plugins c)
             | PC_UNLOAD \<Rightarrow> unload_plugin (ke_plugins env) n (kc_plugins c)
             | PC_START \<Rightarrow> start_plugin (ke_depth env) (ke_plugins env) n (kc_plugins c)
             | PC_STOP \<Rightarrow> stop_plugin (ke_plugins env) n (kc_plugins c))
      | _ \<Rightarrow> (c, Some outside_model))"

definition core_plugin_state :: "pyval \<Rightarrow> 's core_client \<Rightarrow> 's core_client \<times> (exn + pyval)" where
  "core_plugin_state name c =
     (case name of
        PStr n \<Rightarrow> (c, and_then (pr_get_state n (kc_plugins c)) (\<lambda>s. Inr (PStr (plugin_state_value s))))
      | _ \<Rightarrow> (c, Inl outside_model))"

definition core_publish :: "'s core_env \<Rightarrow> call_facts \<Rightarrow> pyval \<Rightarrow> pyval \<Rightarrow> 's core_client \<Rightarrow> 's core_client \<times> exn option" where
  "core_publish env f name payload c =
     (case name of
        PStr n \<Rightarrow> (c\<lparr>kc_bus := fst (publish (ke_bus env) (mk_event n payload None None None (cf_datetime f) (cf_uuid f)) (kc_bus c))\<rparr>, None)
      | _ \<Rightarrow> (c, Some outside_model))"

definition on_orchestrator ::
  "(service_manager orchestrator \<Rightarrow> service_manager orchestrator \<times> exn option) \<Rightarrow> 's core_client \<Rightarrow> 's core_client \<times> exn option" where
  "on_orchestrator op c = map_prod (\<lambda>o'. c\<lparr>kc_orchestrator := o'\<rparr>) id (op (kc_orchestrator c))"

definition core_health :: "'s core_env \<Rightarrow> 's core_client \<Rightarrow> 's core_client \<times> (exn + pyval)" where
  "core_health env c = (c, Inr (PDict (oc_health (svc_ops (ke_services env)) (ke_runtime env) (kc_orchestrator c))))"

definition core_status :: "'s core_env \<Rightarrow> call_facts \<Rightarrow> 's core_client \<Rightarrow> 's core_client \<times> (exn + pyval)" where
  "core_status env f c =
     (case engine_status (cf_clock f) (kc_contexts c) of
        (e, d) \<Rightarrow> (c\<lparr>kc_contexts := e\<rparr>,
          Inr (PDict (oc_status (svc_ops (ke_services env)) (ke_runtime env) d (ke_container env) (cf_seconds f) (kc_orchestrator c)))))"

section \<open>The client as the gateway sees it\<close>

definition core_api :: "'s core_env \<Rightarrow> call_facts \<Rightarrow> 's core_client api_client" where
  "core_api env f = \<lparr>
     ac_health = core_health env,
     ac_status = core_status env f,
     ac_start = on_orchestrator (oc_start (svc_ops (ke_services env)) (ke_runtime env) (cf_seconds f)),
     ac_stop = on_orchestrator (oc_stop (svc_ops (ke_services env)) (ke_runtime env) (cf_seconds f)),
     ac_reload = on_orchestrator (oc_reload (svc_ops (ke_services env)) (ke_runtime env) (cf_seconds f)),
     ac_create_task = core_create_task,
     ac_run_task = core_run_task env f,
     ac_save_memory = core_save_memory env f,
     ac_get_memory = core_get_memory env f,
     ac_create_context = core_create_context f,
     ac_active = core_active,
     ac_memories = core_memories env f,
     ac_list_plugins = (\<lambda>c. (c, Inr (PList (map PStr (pr_list (kc_plugins c)))))),
     ac_plugin_status = (\<lambda>c. (c, Inr (PDict (pr_status (kc_plugins c))))),
     ac_plugin = core_plugin env,
     ac_plugin_state = core_plugin_state,
     ac_publish = core_publish env f \<rparr>"

text \<open>\<open>YasinCoreClient()\<close> with its default collaborators and a storage; the services are registered afterwards.\<close>

definition core_init :: "pydict \<Rightarrow> 's \<Rightarrow> service_manager \<Rightarrow> 's core_client" where
  "core_init storage_metadata s services =
     \<lparr> kc_agents = \<lparr> aw_runtime = ar_init, aw_security = sc_init True, aw_memories = client_memories storage_metadata s \<rparr>,
       kc_contexts = ce_init True, kc_current = TC_NONE, kc_plugins = pr_init, kc_bus = bus_init 100,
       kc_orchestrator = oc_init services \<rparr>"

end
