(* ===== verification/CoreProps.thy ===== *)
theory CoreProps
  imports CoreClient
begin

text \<open>
  Properties across the gateway, the client, the agent runtime and the memories: what is saved or computed through
  the API is read through the API.
\<close>

definition api_post :: "string \<Rightarrow> pydict \<Rightarrow> pydict \<Rightarrow> api_request" where
  "api_post path headers body = mk_request ''POST'' path (PDict headers) PNone (PDict body)"

definition api_read :: "string \<Rightarrow> pydict \<Rightarrow> pydict \<Rightarrow> api_request" where
  "api_read path headers query = mk_request ''GET'' path (PDict headers) (PDict query) PNone"

lemma admit_default:
  assumes "gw_routes g = default_routes" "validate_request r = None" "authenticate (gw_auth g) r = Inr d"
    "map_of default_routes (rq_method r, rq_path r) = Some h"
  shows "admit g r = Inr h"
  using assms by (simp add: admit_def)

lemma valid_post: "path \<noteq> [] \<Longrightarrow> validate_request (api_post path hs b) = None"
  by (simp add: validate_request_def api_post_def mk_request_def str_upper_def)

lemma valid_read: "path \<noteq> [] \<Longrightarrow> q \<noteq> [] \<Longrightarrow> validate_request (api_read path hs q) = None"
  by (simp add: validate_request_def api_read_def mk_request_def str_upper_def)

lemma method_post [simp]: "rq_method (api_post p hs b) = ''POST''" "rq_path (api_post p hs b) = p" "rq_body (api_post p hs b) = PDict b"
  by (simp_all add: api_post_def mk_request_def str_upper_def char_upper_def in_range_char_def)

lemma method_read [simp]: "rq_method (api_read p hs q) = ''GET''" "rq_path (api_read p hs q) = p" "rq_query (api_read p hs q) = PDict q"
  by (simp_all add: api_read_def mk_request_def str_upper_def char_upper_def in_range_char_def)

lemma memory_routes:
  "map_of default_routes (''POST'', ''/v1/memory/save'') = Some H_MEMORY_SAVE_V1"
  "map_of default_routes (''POST'', ''/v2/memory/save'') = Some H_MEMORY_SAVE_V2"
  "map_of default_routes (''GET'', ''/v1/memory/get'') = Some H_MEMORY_GET"
  "map_of default_routes (''POST'', ''/v1/tasks/execute'') = Some H_TASK_EXECUTE_V1"
  by code_simp+

lemma fetch_context_frames [simp]:
  "kc_agents (fetch_context c) = kc_agents c" "kc_contexts (fetch_context c) = kc_contexts c"
  by (auto simp: fetch_context_def split: thread_context.split)

lemma put_memories_simps [simp]: "aw_memories (kc_agents (put_memories m c)) = m"
  by (simp add: put_memories_def)

section \<open>Reading a memory through the API\<close>

definition memory_answer :: "string \<Rightarrow> pyval \<Rightarrow> string \<Rightarrow> api_response" where
  "memory_answer k v cat = ok_response 200 (PDict [(''key'', PStr k), (''value'', v), (''category'', PStr cat)])"

lemma read_memory_request:
  assumes "gw_routes g = default_routes" "k \<noteq> []"
    "authenticate (gw_auth g) (api_read ''/v1/memory/get'' hs [(''key'', PStr k), (''category'', PStr cat)]) = Inr d"
    "snd (get_memory (ke_storage env) (cf_clock f) k PNone cat (aw_memories (kc_agents c))) = Inr v"
  shows "snd (handle_request genv (core_api env f) g
      (api_read ''/v1/memory/get'' hs [(''key'', PStr k), (''category'', PStr cat)]) c) = memory_answer k v cat"
proof -
  let ?r = "api_read ''/v1/memory/get'' hs [(''key'', PStr k), (''category'', PStr cat)]"
  have a: "admit g ?r = Inr H_MEMORY_GET"
    by (rule admit_default [OF assms(1) valid_read assms(3)]) (simp_all add: memory_routes)
  obtain m where m: "get_memory (ke_storage env) (cf_clock f) k PNone cat (aw_memories (kc_agents c)) = (m, Inr v)"
    using assms(4) by (metis prod.collapse)
  show ?thesis
    using assms(2) by (simp add: handle_request_def a handle_memory_get_def query_get_def dict_items_def pyget_def core_api_def
        core_get_memory_def m respond_def memory_answer_def)
qed

section \<open>Saving a memory through the API\<close>

lemma mem_save_any:
  assumes "cat = ''short-term'' \<or> cat = ''long-term''"
  shows "\<exists>m'. save_memory mem_ops ck ctx k v cat md None m = (m', None)"
  using assms mem_save_ok save_memory_ok by metis

lemma core_save_ok:
  assumes "ke_storage env = mem_ops" "cat = ''short-term'' \<or> cat = ''long-term''" "memories_wf (\<lambda>s. wf_dict (ms_data s)) (aw_memories (kc_agents c))"
    "opt_dict md = Inr md'"
  obtains c1 where "core_save_memory env f (PStr k) v (PStr cat) md PNone c = (c1, None)"
    "\<And>ck' k' dflt cat'. ck_now (cf_clock f) \<le> ck_now ck' \<Longrightarrow> ck_local (cf_clock f) \<le> ck_local ck' \<Longrightarrow>
       snd (get_memory mem_ops ck' k' dflt cat' (aw_memories (kc_agents c1))) =
         (if k' = k \<and> cat' = cat then Inr v else snd (get_memory mem_ops ck' k' dflt cat' (aw_memories (kc_agents c))))"
proof -
  obtain m where m: "save_memory mem_ops (cf_clock f) (current_context_id (fetch_context c)) k v cat md' None (aw_memories (kc_agents c)) = (m, None)"
    using mem_save_any [OF assms(2)] by blast
  have "core_save_memory env f (PStr k) v (PStr cat) md PNone c = (put_memories m (fetch_context c), None)"
    using m assms(1,4) by (simp add: core_save_memory_def opt_int_def Let_def)
  then show ?thesis
    using that mem.get_after_save [OF assms(3) m] by (simp add: outlived_def)
qed

text \<open>
  \<open>C30\<close>. What is posted to \<open>/v1/memory/save\<close> or \<open>/v2/memory/save\<close> is what \<open>/v1/memory/get\<close> answers
  afterwards for the key and the category, whatever the thread's context is, and a request for another key or category is
  answered as it would have been without the save.
\<close>

theorem api_memory_roundtrip:
  assumes "gw_routes g = default_routes" "ke_storage env = mem_ops" "path = ''/v1/memory/save'' \<or> path = ''/v2/memory/save''"
    "memories_wf (\<lambda>s. wf_dict (ms_data s)) (aw_memories (kc_agents c))" "cat = ''short-term'' \<or> cat = ''long-term''" "k' \<noteq> []"
    "cat' = ''short-term'' \<or> cat' = ''long-term''"
    "authenticate (gw_auth g) (api_post path hs [(''key'', PStr k), (''value'', v), (''category'', PStr cat)]) = Inr d"
    "authenticate (gw_auth g) (api_read ''/v1/memory/get'' hs' [(''key'', PStr k'), (''category'', PStr cat')]) = Inr d'"
    "ck_now (cf_clock f) \<le> ck_now (cf_clock f')" "ck_local (cf_clock f) \<le> ck_local (cf_clock f')"
  shows "case handle_request genv (core_api env f) g (api_post path hs [(''key'', PStr k), (''value'', v), (''category'', PStr cat)]) c of
     (c1, x) \<Rightarrow> rs_status x = 200 \<and>
       (let read = (\<lambda>c. snd (handle_request genv (core_api env f') g
              (api_read ''/v1/memory/get'' hs' [(''key'', PStr k'), (''category'', PStr cat')]) c))
        in read c1 = (if k' = k \<and> cat' = cat then memory_answer k v cat else read c))"
proof -
  let ?r = "api_post path hs [(''key'', PStr k), (''value'', v), (''category'', PStr cat)]"
  let ?read = "\<lambda>c. snd (handle_request genv (core_api env f') g
              (api_read ''/v1/memory/get'' hs' [(''key'', PStr k'), (''category'', PStr cat')]) c)"
  have get: "\<exists>u. snd (get_memory mem_ops (cf_clock f') k' PNone cat' m) = Inr u" for m :: "mem_storage client_memories"
    using assms(7) by (auto simp: get_memory_def)
  have key: "\<exists>c1. fst (handle_request genv (core_api env f) g ?r c) = c1 \<and> rs_status (snd (handle_request genv (core_api env f) g ?r c)) = 200
     \<and> snd (get_memory mem_ops (cf_clock f') k' PNone cat' (aw_memories (kc_agents c1))) =
         (if k' = k \<and> cat' = cat then Inr v else snd (get_memory mem_ops (cf_clock f') k' PNone cat' (aw_memories (kc_agents c))))"
    using assms(3)
  proof
    assume p: "path = ''/v1/memory/save''"
    have a: "admit g ?r = Inr H_MEMORY_SAVE_V1"
      by (rule admit_default [OF assms(1) valid_post assms(8)]) (simp_all add: memory_routes p)
    have "opt_dict PNone = Inr None" by (simp add: opt_dict_def)
    from core_save_ok [OF assms(2,5,4) this, of f k v] obtain c1 where
      c1: "core_save_memory env f (PStr k) v (PStr cat) PNone PNone c = (c1, None)"
      and get1: "snd (get_memory mem_ops (cf_clock f') k' PNone cat' (aw_memories (kc_agents c1))) =
         (if k' = k \<and> cat' = cat then Inr v else snd (get_memory mem_ops (cf_clock f') k' PNone cat' (aw_memories (kc_agents c))))"
      using assms(10,11) by metis
    show ?thesis
      using get1 by (simp add: handle_request_def a handle_memory_save_v1_def Let_def body_of_def two_fields_def body_has_def body_item_def
          body_get_def core_api_def c1 respond_done_def ok_response_def)
  next
    assume p: "path = ''/v2/memory/save''"
    have a: "admit g ?r = Inr H_MEMORY_SAVE_V2"
      by (rule admit_default [OF assms(1) valid_post assms(8)]) (simp_all add: memory_routes p)
    have "opt_dict (PDict [(''v2_saved'', PBool True)]) = Inr (Some [(''v2_saved'', PBool True)])" by (simp add: opt_dict_def)
    from core_save_ok [OF assms(2,5,4) this, of f k v] obtain c1 where
      c1: "core_save_memory env f (PStr k) v (PStr cat) (PDict [(''v2_saved'', PBool True)]) PNone c = (c1, None)"
      and get1: "snd (get_memory mem_ops (cf_clock f') k' PNone cat' (aw_memories (kc_agents c1))) =
         (if k' = k \<and> cat' = cat then Inr v else snd (get_memory mem_ops (cf_clock f') k' PNone cat' (aw_memories (kc_agents c))))"
      using assms(10,11) by metis
    show ?thesis
      using get1 by (simp add: handle_request_def a handle_memory_save_v2_def Let_def body_of_def two_fields_def body_has_def body_item_def
          body_get_def v2_metadata_def core_api_def c1 ok_response_def)
  qed
  obtain u where u: "snd (get_memory mem_ops (cf_clock f') k' PNone cat' (aw_memories (kc_agents c))) = Inr u" using get by blast
  have r: "?read c2 = memory_answer k' w cat'"
    if "snd (get_memory mem_ops (cf_clock f') k' PNone cat' (aw_memories (kc_agents c2))) = Inr w" for c2 w
    by (rule read_memory_request [OF assms(1,6,9)]) (use that assms(2) in simp)
  show ?thesis
    using key r u by (auto simp: Let_def split: prod.split)
qed

section \<open>Executing a task through the API\<close>

definition task_body :: "string \<Rightarrow> string \<Rightarrow> pydict \<Rightarrow> pydict" where
  "task_body i n input = [(''id'', PStr i), (''name'', PStr n), (''input_data'', PDict input)]"

lemma core_task_remembered:
  assumes "ke_storage env = mem_ops" "memories_wf (\<lambda>s. wf_dict (ms_data s)) (aw_memories (kc_agents c))"
    "core_execute_task env f (mk_task i n (PDict input)) c = (c1, Inr t)" "tk_status t = ''completed''"
    "ck_now (cf_clock f) \<le> ck_now ck'" "ck_local (cf_clock f) \<le> ck_local ck'" "cat = ''short-term'' \<or> cat = ''long-term''"
  shows "snd (get_memory mem_ops ck' i PNone cat (aw_memories (kc_agents c1))) = Inr (tk_result t)"
proof -
  obtain c0 subj where c0: "(if needs_subject (mk_task i n (PDict input)) c then current_subject env f c else (c, Inr None)) = (c0, subj)"
    by (meson surj_pair)
  have same: "kc_agents c0 = kc_agents c"
    using c0 by (auto simp: current_subject_def Let_def split: if_splits thread_context.splits prod.splits sum.splits)
  obtain w where w: "execute_agent_task mem_ops (ke_agents env) (cf_clock f) (cf_audit_time f) subj (current_context_id c0) (mk_task i n (PDict input)) (kc_agents c) = (w, Inr t)"
    "aw_memories (kc_agents c1) = aw_memories w"
    using assms(1,3,4) c0 same by (auto simp: core_execute_task_def Let_def split: prod.splits sum.splits)
  have "execute_task (ke_agents env) (mk_task i n (PDict input)) (aw_runtime (kc_agents c)) = (aw_runtime w, t)
      \<and> aw_memories w = save_outcome mem_ops (cf_clock f) (current_context_id c0) t (aw_memories (kc_agents c))"
    using w(1) assms(4) by (auto simp: execute_agent_task_def mk_task_def split: sum.splits option.splits prod.splits if_splits)
  then show ?thesis
    using completed_saved [OF assms(2,5,6,7), of i PNone "current_context_id c0" t] w(2)
      execute_task_id [of "ke_agents env" "mk_task i n (PDict input)" "aw_runtime (kc_agents c)"]
    by (simp add: mk_task_def)
qed

lemma run_task_request:
  assumes "admit g (api_post p hs (task_body i n input)) = Inr H_TASK_EXECUTE_V1"
  shows "handle_request genv (core_api env f) g (api_post p hs (task_body i n input)) c =
    (case core_execute_task env f (mk_task i n (PDict input)) c of
       (c1, Inl e) \<Rightarrow> (c1, error_response genv (request_version (api_post p hs (task_body i n input))) (CoreError e))
     | (c1, Inr t) \<Rightarrow> (c1, ok_response 200 (PDict (pick [''id'', ''name'', ''status'', ''result'', ''error''] (task_to_dict t)))))"
proof -
  have "handle_task_execute_v1 genv (core_api env f) (api_post p hs (task_body i n input)) c =
    (case core_run_task env f (PStr i) (PStr n) (PDict input) c of
       (c1, Inl e) \<Rightarrow> (c1, Inl (CoreError e))
     | (c1, Inr t) \<Rightarrow> (c1, Inr (ok_response 200 (PDict (pick [''id'', ''name'', ''status'', ''result'', ''error''] t)))))"
    by (simp add: handle_task_execute_v1_def Let_def body_of_def task_body_def two_fields_def body_has_def body_item_def body_get_def core_api_def)
  then show ?thesis
    using assms by (auto simp: handle_request_def core_run_task_def split: prod.split sum.split)
qed

text \<open>
  \<open>C14\<close>. A task posted to \<open>/v1/tasks/execute\<close> and answered as completed is remembered: a later request for
  its identifier, in either category, answers with the result that the response showed.
\<close>

theorem api_task_result_remembered:
  assumes "gw_routes g = default_routes" "ke_storage env = mem_ops"
    "memories_wf (\<lambda>s. wf_dict (ms_data s)) (aw_memories (kc_agents c))" "cat = ''short-term'' \<or> cat = ''long-term''" "i \<noteq> []"
    "authenticate (gw_auth g) (api_post ''/v1/tasks/execute'' hs (task_body i n input)) = Inr d"
    "authenticate (gw_auth g) (api_read ''/v1/memory/get'' hs' [(''key'', PStr i), (''category'', PStr cat)]) = Inr d'"
    "ck_now (cf_clock f) \<le> ck_now (cf_clock f')" "ck_local (cf_clock f) \<le> ck_local (cf_clock f')"
    "handle_request genv (core_api env f) g (api_post ''/v1/tasks/execute'' hs (task_body i n input)) c = (c1, x)"
    "rs_data x = PDict answer" "pyget answer ''status'' = PStr ''completed''"
  shows "snd (handle_request genv (core_api env f') g (api_read ''/v1/memory/get'' hs' [(''key'', PStr i), (''category'', PStr cat)]) c1)
    = memory_answer i (pyget answer ''result'') cat"
proof -
  let ?r = "api_post ''/v1/tasks/execute'' hs (task_body i n input)"
  have a: "admit g ?r = Inr H_TASK_EXECUTE_V1"
    by (rule admit_default [OF assms(1) valid_post assms(6)]) (simp_all add: memory_routes)
  obtain c2 y where y: "core_execute_task env f (mk_task i n (PDict input)) c = (c2, y)" by (meson surj_pair)
  obtain t where t: "y = Inr t" "c1 = c2" "answer = pick [''id'', ''name'', ''status'', ''result'', ''error''] (task_to_dict t)"
    using assms(10,11) y unfolding run_task_request [OF a]
    by (cases y) (auto simp: ok_response_def error_response_def split: if_splits)
  have c: "tk_status t = ''completed''" "pyget answer ''result'' = tk_result t"
    using assms(12) t(3) by (simp_all add: pick_def pyget_def task_to_dict_def)
  show ?thesis
    by (rule read_memory_request [OF assms(1,5,7)])
      (use core_task_remembered [OF assms(2,3) y [unfolded t(1)] c(1) assms(8,9,4)] c(2) t(2) assms(2) in simp)
qed

section \<open>Witnesses\<close>

definition demo_core_env :: "mem_storage core_env" where
  "demo_core_env = \<lparr> ke_storage = mem_ops, ke_agents = demo_agent_env,
     ke_plugins = \<lparr> pe_initialize = (\<lambda>_. None), pe_load = (\<lambda>_. None), pe_start = (\<lambda>_. None), pe_stop = (\<lambda>_. None), pe_unload = (\<lambda>_. None), pe_bus = True \<rparr>,
     ke_bus = quiet_bus_env, ke_runtime = demo_runtime_env, ke_services = demo_env, ke_container = [], ke_depth = 100,
     ke_subject = (\<lambda>_. demo_reader) \<rparr>"

definition demo_facts :: "nat \<Rightarrow> call_facts" where
  "demo_facts t = \<lparr> cf_clock = \<lparr> ck_now = t, ck_local = int t \<rparr>, cf_seconds = 0, cf_audit_time = [], cf_datetime = demo_time, cf_uuid = ''u'' \<rparr>"

definition demo_gateway_env :: gateway_env where
  "demo_gateway_env = \<lparr> ge_shown = (\<lambda>_. []), ge_traceback = (\<lambda>_. ''traceback''), ge_type_error = (\<lambda>_ _. []), ge_user_value_error = (\<lambda>_. False) \<rparr>"

lemma demo_storage: "ke_storage demo_core_env = mem_ops"
  by (simp add: demo_core_env_def)

lemma demo_clock: "cf_clock (demo_facts t) = \<lparr> ck_now = t, ck_local = int t \<rparr>"
  by (simp add: demo_facts_def)

definition keyed_gateway :: "mem_storage core_client gateway" where
  "keyed_gateway = mk_gateway (Some \<lparr> au_allowed = [''secret''], au_required = True \<rparr>) (\<lambda>_ _ c. (c, Inl (CoreError outside_model))) 0"

definition demo_core :: "mem_storage core_client" where
  "demo_core = (core_init ms_metadata ms_init sv_init)\<lparr>kc_agents := demo_agent_world\<rparr>"

lemma keyed_routes [simp]: "gw_routes keyed_gateway = default_routes"
  by (simp add: keyed_gateway_def mk_gateway_def)

definition key_header :: pydict where
  "key_header = [(''X-Api-Key'', PStr ''secret'')]"

definition token_answer :: pydict where
  "token_answer = [(''identity'', PStr ''authenticated_client''), (''token'', PStr ''secret''), (''authenticated'', PBool True)]"

lemma key_accepted:
  "authenticate (gw_auth keyed_gateway) (api_post p key_header b) = Inr token_answer"
  "authenticate (gw_auth keyed_gateway) (api_read p key_header q) = Inr token_answer"
proof -
  have r: "request_token r = Inr ''secret''" if "rq_headers r = PDict [(''x-api-key'', PStr ''secret'')]" for r
    using that by (simp add: request_token_def Let_def dict_items_def header_text_def str_lower_def str_strip_def str_lstrip_def
        is_space_def in_range_char_def)
  have h: "rq_headers (mk_request m p (PDict key_header) q b) = PDict [(''x-api-key'', PStr ''secret'')]" for m p q b
  proof -
    have "str_lower ''X-Api-Key'' = ''x-api-key''" by code_simp
    then show ?thesis by (simp add: mk_request_def key_header_def)
  qed
  show "authenticate (gw_auth keyed_gateway) (api_post p key_header b) = Inr token_answer"
    "authenticate (gw_auth keyed_gateway) (api_read p key_header q) = Inr token_answer"
    unfolding authenticate_def api_post_def api_read_def r [OF h] by (simp_all add: keyed_gateway_def mk_gateway_def token_answer_def)
qed

lemma demo_core_wf: "memories_wf (\<lambda>s. wf_dict (ms_data s)) (aw_memories (kc_agents demo_core))"
  by (simp add: demo_core_def demo_agent_world_def memories_wf_init ms_init_def)

lemma api_memory_roundtrip_witness:
  "snd (handle_request demo_gateway_env (core_api demo_core_env (demo_facts 9)) keyed_gateway
      (api_read ''/v1/memory/get'' key_header [(''key'', PStr ''k''), (''category'', PStr ''long-term'')])
      (fst (handle_request demo_gateway_env (core_api demo_core_env (demo_facts 5)) keyed_gateway
         (api_post ''/v2/memory/save'' key_header [(''key'', PStr ''k''), (''value'', PInt 3), (''category'', PStr ''long-term'')]) demo_core)))
   = memory_answer ''k'' (PInt 3) ''long-term''"
  using api_memory_roundtrip [of keyed_gateway demo_core_env "''/v2/memory/save''" demo_core "''long-term''" "''k''" "''long-term''" key_header "''k''"
      "PInt 3" token_answer key_header token_answer "demo_facts 5" "demo_facts 9" demo_gateway_env]
  by (simp add: key_accepted demo_core_wf demo_storage demo_clock Let_def split_beta)

lemma api_task_result_remembered_witness:
  "\<exists>answer. pyget answer ''status'' = PStr ''completed''
     \<and> rs_data (snd (handle_request demo_gateway_env (core_api demo_core_env (demo_facts 5)) keyed_gateway
         (api_post ''/v1/tasks/execute'' key_header (task_body ''t'' ''a'' [])) demo_core)) = PDict answer
     \<and> snd (handle_request demo_gateway_env (core_api demo_core_env (demo_facts 9)) keyed_gateway
         (api_read ''/v1/memory/get'' key_header [(''key'', PStr ''t''), (''category'', PStr ''short-term'')])
         (fst (handle_request demo_gateway_env (core_api demo_core_env (demo_facts 5)) keyed_gateway
           (api_post ''/v1/tasks/execute'' key_header (task_body ''t'' ''a'' [])) demo_core)))
       = memory_answer ''t'' (PInt 7) ''short-term''"
proof -
  let ?r = "api_post ''/v1/tasks/execute'' key_header (task_body ''t'' ''a'' [])"
  obtain c1 x where x: "handle_request demo_gateway_env (core_api demo_core_env (demo_facts 5)) keyed_gateway ?r demo_core = (c1, x)"
    by (meson surj_pair)
  have a: "admit keyed_gateway ?r = Inr H_TASK_EXECUTE_V1"
    by (rule admit_default [OF keyed_routes valid_post key_accepted(1)]) (simp_all add: memory_routes)
  have "\<exists>c2 t. core_execute_task demo_core_env (demo_facts 5) (mk_task ''t'' ''a'' (PDict [])) demo_core = (c2, Inr t)
      \<and> tk_status t = ''completed'' \<and> tk_result t = PInt 7"
    by (simp add: core_execute_task_def demo_core_def demo_core_env_def needs_subject_def current_subject_def fetch_context_def core_init_def
        execute_agent_task_def plan_agent_name_def mk_task_def lookup_agent_def get_agent_def demo_agent_world_def validate_permission_def
        demo_agents_def execute_task_def agent_result_def task_event_def ar_publish_def ensure_started_def agent_at_def put_agent_def
        mk_agent_def demo_agent_env_def pyget_def Let_def)
  then obtain c2 t where t: "core_execute_task demo_core_env (demo_facts 5) (mk_task ''t'' ''a'' (PDict [])) demo_core = (c2, Inr t)"
    "tk_status t = ''completed''" "tk_result t = PInt 7" by blast
  define answer where "answer = pick [''id'', ''name'', ''status'', ''result'', ''error''] (task_to_dict t)"
  have d: "rs_data x = PDict answer" "pyget answer ''status'' = PStr ''completed''" "pyget answer ''result'' = PInt 7"
    using x t unfolding run_task_request [OF a] by (auto simp: ok_response_def answer_def pick_def pyget_def task_to_dict_def)
  have "snd (handle_request demo_gateway_env (core_api demo_core_env (demo_facts 9)) keyed_gateway
      (api_read ''/v1/memory/get'' key_header [(''key'', PStr ''t''), (''category'', PStr ''short-term'')]) c1)
     = memory_answer ''t'' (pyget answer ''result'') ''short-term''"
    by (rule api_task_result_remembered [OF keyed_routes demo_storage demo_core_wf _ _ key_accepted(1) key_accepted(2) _ _ x d(1,2)])
      (simp_all add: demo_clock)
  then show ?thesis using x d by auto
qed

lemma gateway_answers_witness:
  "case handle_request demo_gateway_env (core_api demo_core_env (demo_facts 5)) keyed_gateway (api_post ''/v1/none'' key_header []) demo_core of
     (c', x) \<Rightarrow> c' = demo_core \<and> bad_response (api_post ''/v1/none'' key_header []) {400, 401, 403, 404, 500} x"
proof -
  have "map_of default_routes (''POST'', ''/v1/none'') = None" by code_simp
  then have "admit keyed_gateway (api_post ''/v1/none'' key_header []) = Inl (not_found (api_post ''/v1/none'' key_header []))"
    by (simp add: admit_def valid_post key_accepted)
  then show ?thesis
    using gateway_answers [where g = keyed_gateway and env = demo_gateway_env and ops = "core_api demo_core_env (demo_facts 5)"
        and r = "api_post ''/v1/none'' key_header []" and c = demo_core]
    by simp
qed

lemma gateway_key_required_witness:
  "\<exists>t. request_token (api_post ''/v1/tasks/execute'' key_header (task_body ''t'' ''a'' [])) = Inr t \<and> t \<in> {''secret''}"
proof -
  let ?r = "api_post ''/v1/tasks/execute'' key_header (task_body ''t'' ''a'' [])"
  obtain c1 x where x: "handle_request demo_gateway_env (core_api demo_core_env (demo_facts 5)) keyed_gateway ?r demo_core = (c1, x)"
    by (meson surj_pair)
  have a: "admit keyed_gateway ?r = Inr H_TASK_EXECUTE_V1"
    by (rule admit_default [OF keyed_routes valid_post key_accepted(1)]) (simp_all add: memory_routes)
  have "\<exists>c2 t. core_execute_task demo_core_env (demo_facts 5) (mk_task ''t'' ''a'' (PDict [])) demo_core = (c2, Inr t)"
    by (simp add: core_execute_task_def demo_core_def demo_core_env_def needs_subject_def current_subject_def fetch_context_def core_init_def
        execute_agent_task_def plan_agent_name_def mk_task_def lookup_agent_def get_agent_def demo_agent_world_def validate_permission_def
        demo_agents_def agent_at_def mk_agent_def pyget_def Let_def split: prod.split)
  then have e: "rs_errors x = []" using x unfolding run_task_request [OF a] by (auto simp: ok_response_def)
  have k: "au_required (gw_auth keyed_gateway)" "au_allowed (gw_auth keyed_gateway) = [''secret'']"
    by (simp_all add: keyed_gateway_def mk_gateway_def)
  show ?thesis using gateway_key_required [OF k(1) x disjI2 [OF e]] k(2) by auto
qed

end
