(* ===== verification/Protection.thy ===== *)
theory Protection
  imports PyStrings "HOL-Library.Word"
begin

unbundle bit_operations_syntax

text \<open>
  The protection of sensitive data (\<open>security/protection.py\<close>): the check of configurations for
  plain credentials, encryption with a counter-mode keystream and an authentication tag, masking, and the store of
  credentials. Bytes are 8-bit words and a digest is a word of 256 bits. SHA-256, HMAC, base64 and UTF-8 of the
  standard library are the functions of \<open>crypto\<close>; what is relied on is that decoding undoes encoding.
\<close>

type_synonym bytes = "8 word list"

record crypto =
  cy_sha256 :: "bytes \<Rightarrow> 256 word"
  cy_hmac :: "bytes \<Rightarrow> bytes \<Rightarrow> 256 word"
  cy_b64encode :: "bytes \<Rightarrow> string"
  cy_b64decode :: "string \<Rightarrow> exn + bytes"
  cy_utf8 :: "string \<Rightarrow> bytes"
  cy_utf8_decode :: "bytes \<Rightarrow> exn + string"

definition codecs_invert :: "crypto \<Rightarrow> bool" where
  "codecs_invert cy \<longleftrightarrow> (\<forall>b. cy_b64decode cy (cy_b64encode cy b) = Inr b) \<and> (\<forall>s. cy_utf8_decode cy (cy_utf8 cy s) = Inr s)
     \<and> (\<forall>s. cy_utf8 cy s = [] \<longrightarrow> s = [])"

text \<open>The bytes of a digest and of a counter, the most significant first\<close>

definition digest_bytes :: "256 word \<Rightarrow> bytes" where
  "digest_bytes w = map (\<lambda>i. ucast (drop_bit (8 * (31 - i)) w)) [0..<32]"

definition counter_bytes :: "32 word \<Rightarrow> bytes" where
  "counter_bytes w = map (\<lambda>i. ucast (drop_bit (8 * (3 - i)) w)) [0..<4]"

lemma length_digest [simp]: "length (digest_bytes w) = 32"
  by (simp add: digest_bytes_def)

section \<open>Encryption\<close>

text \<open>The given key, else the environment's, else a random one; an empty string counts as none.\<close>

definition master_key :: "crypto \<Rightarrow> string option \<Rightarrow> string option \<Rightarrow> bytes \<Rightarrow> bytes" where
  "master_key cy given env random =
     (let source = (case given of Some s \<Rightarrow> if s \<noteq> [] then Some s else env | None \<Rightarrow> env)
      in case source of Some s \<Rightarrow> if s \<noteq> [] then cy_utf8 cy s else random | None \<Rightarrow> random)"

definition counter_overflow :: exn where
  "counter_overflow = Exn OverflowErr ''int too big to convert''"

definition keystream_block :: "crypto \<Rightarrow> bytes \<Rightarrow> bytes \<Rightarrow> nat \<Rightarrow> bytes" where
  "keystream_block cy key salt counter = digest_bytes (cy_sha256 cy (key @ salt @ counter_bytes (of_nat counter)))"

lemma length_block [simp]: "length (keystream_block cy key salt n) = 32"
  by (simp add: keystream_block_def)

text \<open>The loop of \<open>_keystream\<close>; \<open>counter.to_bytes(4, "big")\<close> raises for a counter of more than 32 bits.\<close>

function keystream_loop :: "crypto \<Rightarrow> bytes \<Rightarrow> bytes \<Rightarrow> nat \<Rightarrow> bytes \<Rightarrow> nat \<Rightarrow> exn + bytes" where
  "keystream_loop cy key salt len output counter =
     (if length output < len then
        if counter < 2 ^ 32 then keystream_loop cy key salt len (output @ keystream_block cy key salt counter) (counter + 1)
        else Inl counter_overflow
      else Inr (take len output))"
  by pat_completeness auto
termination
  by (relation "measure (\<lambda>(cy, key, salt, len, output, counter). len - length output)") auto

declare keystream_loop.simps [simp del]

definition keystream :: "crypto \<Rightarrow> bytes \<Rightarrow> bytes \<Rightarrow> nat \<Rightarrow> exn + bytes" where
  "keystream cy key salt len = keystream_loop cy key salt len [] 0"

definition xor_bytes :: "bytes \<Rightarrow> bytes \<Rightarrow> bytes" where
  "xor_bytes a b = map2 (XOR) a b"

definition security_error :: "string \<Rightarrow> exn" where
  "security_error msg = Exn SecurityErr msg"

definition encrypt :: "crypto \<Rightarrow> bytes \<Rightarrow> bytes \<Rightarrow> string \<Rightarrow> exn + string" where
  "encrypt cy key salt s =
     (if s = [] then Inr []
      else let data = cy_utf8 cy s
           in and_then (keystream cy key salt (length data)) (\<lambda>ks.
                let ciphertext = xor_bytes data ks;
                    mac = digest_bytes (cy_hmac cy key (salt @ ciphertext))
                in Inr (''ENC:'' @ cy_b64encode cy (salt @ mac @ ciphertext))))"

definition failed_decrypt :: "exn \<Rightarrow> exn" where
  "failed_decrypt e = (if exn_class e = SecurityErr then e else security_error (''Failed to decrypt sensitive data: '' @ exn_msg e))"

definition wrong_tag :: string where
  "wrong_tag = ''Integrity check failed: data may have been tampered with, or it was encrypted with a different master key.''"

definition open_payload :: "crypto \<Rightarrow> bytes \<Rightarrow> bytes \<Rightarrow> exn + string" where
  "open_payload cy key payload =
     (if length payload < 48 then Inl (security_error ''Malformed encrypted payload (too short).'')
      else let salt = take 16 payload; mac = take 32 (drop 16 payload); ciphertext = drop 48 payload
           in if mac \<noteq> digest_bytes (cy_hmac cy key (salt @ ciphertext)) then Inl (security_error wrong_tag)
              else and_then (keystream cy key salt (length ciphertext)) (\<lambda>ks. cy_utf8_decode cy (xor_bytes ciphertext ks)))"

definition decrypt :: "crypto \<Rightarrow> bytes \<Rightarrow> string \<Rightarrow> exn + string" where
  "decrypt cy key s =
     (if s = [] then Inr []
      else if take 4 s \<noteq> ''ENC:'' then Inl (security_error (''Data is not encrypted or format is invalid (missing '' @ quoted ''ENC:'' @ '' prefix).''))
      else (case and_then (cy_b64decode cy (drop 4 s)) (open_payload cy key) of
              Inl e \<Rightarrow> Inl (failed_decrypt e)
            | Inr x \<Rightarrow> Inr x))"

section \<open>Masking\<close>

text \<open>\<open>shown\<close> is \<open>str(val)\<close> of a value that is not a string.\<close>

definition mask_text :: "(pyval \<Rightarrow> string) \<Rightarrow> pyval \<Rightarrow> string" where
  "mask_text shown v =
     (if v = PNone then ''None''
      else let s = (case v of PStr x \<Rightarrow> x | _ \<Rightarrow> shown v)
           in if length s \<le> 4 then ''******''
              else take 2 s @ ''******'' @ drop (length s - 2) s)"

definition is_masked :: "pyval \<Rightarrow> bool" where
  "is_masked v = (case v of PStr s \<Rightarrow> s = ''******'' \<or> has_part ''***'' s | _ \<Rightarrow> False)"

section \<open>Credentials\<close>

record credential_store =
  cr_key :: bytes
  cr_credentials :: "(string \<times> string) list"

definition set_credential :: "crypto \<Rightarrow> bytes \<Rightarrow> string \<Rightarrow> string \<Rightarrow> credential_store \<Rightarrow> credential_store \<times> exn option" where
  "set_credential cy salt name v st =
     (case encrypt cy (cr_key st) salt v of
        Inl e \<Rightarrow> (st, Some e)
      | Inr x \<Rightarrow> (st\<lparr>cr_credentials := AList.update name x (cr_credentials st)\<rparr>, None))"

definition get_credential :: "crypto \<Rightarrow> string \<Rightarrow> credential_store \<Rightarrow> exn + string option" where
  "get_credential cy name st =
     (case map_of (cr_credentials st) name of
        None \<Rightarrow> Inr None
      | Some x \<Rightarrow> and_then (decrypt cy (cr_key st) x) (\<lambda>s. Inr (Some s)))"

definition remove_credential :: "string \<Rightarrow> credential_store \<Rightarrow> credential_store" where
  "remove_credential name st = (if dict_has (cr_credentials st) name then st\<lparr>cr_credentials := AList.delete name (cr_credentials st)\<rparr> else st)"

section \<open>The check of configurations\<close>

definition default_keywords :: "string list" where
  "default_keywords = [''key'', ''secret'', ''token'', ''password'', ''credential'', ''private'', ''auth'']"

definition sensitive_name :: "string list \<Rightarrow> string \<Rightarrow> bool" where
  "sensitive_name kws k = list_ex (\<lambda>kw. has_part kw (str_lower k)) kws"

definition unprotected :: "string \<Rightarrow> bool" where
  "unprotected v \<longleftrightarrow> v \<noteq> [] \<and> v \<noteq> ''******'' \<and> take 4 v \<noteq> ''ENC:'' \<and> take 7 v \<noteq> ''masked_''"

definition credential_warning :: "string \<Rightarrow> string \<Rightarrow> string" where
  "credential_warning path v = ''Security Warning: Dotted path '' @ quoted path
     @ '' contains potential plaintext sensitive credential: '' @ take 2 v @ ''...''"

definition dotted :: "string \<Rightarrow> string \<Rightarrow> string" where
  "dotted pre k = (if pre \<noteq> [] then pre @ ''.'' @ k else k)"

fun check_value :: "string list \<Rightarrow> string \<Rightarrow> string \<Rightarrow> pyval \<Rightarrow> string list"
  and check_items :: "string list \<Rightarrow> string \<Rightarrow> (string \<times> pyval) list \<Rightarrow> string list" where
  "check_value kws path k (PDict d) = check_items kws path d"
| "check_value kws path k (PStr v) = (if sensitive_name kws k \<and> unprotected v then [credential_warning path v] else [])"
| "check_value kws path k _ = []"
| "check_items kws pre [] = []"
| "check_items kws pre ((k, v) # d) = check_value kws (dotted pre k) k v @ check_items kws pre d"

definition validate_secrets :: "string list \<Rightarrow> pydict \<Rightarrow> string list" where
  "validate_secrets kws d = check_items (if kws = [] then default_keywords else kws) [] d"

section \<open>Decryption undoes encryption\<close>

text \<open>The keystream is made of the blocks in order, as long as the counter fits into four bytes.\<close>

definition blocks :: "crypto \<Rightarrow> bytes \<Rightarrow> bytes \<Rightarrow> nat \<Rightarrow> bytes" where
  "blocks cy key salt n = concat (map (keystream_block cy key salt) [0..<n])"

lemma blocks_Suc: "blocks cy key salt (Suc n) = blocks cy key salt n @ keystream_block cy key salt n"
  by (simp add: blocks_def)

lemma length_blocks [simp]: "length (blocks cy key salt n) = 32 * n"
  by (induction n) (simp_all add: blocks_Suc, simp add: blocks_def)

lemma keystream_loop_blocks:
  assumes "len \<le> 32 * 2 ^ 32"
  shows "c \<le> 2 ^ 32 \<Longrightarrow> \<exists>n. keystream_loop cy key salt len (blocks cy key salt c) c = Inr (take len (blocks cy key salt n)) \<and> len \<le> 32 * n"
proof (induction "len - 32 * c" arbitrary: c rule: less_induct)
  case less
  show ?case
  proof (cases "32 * c < len")
    case True
    then have c: "c < 2 ^ 32" using assms by linarith
    have "keystream_loop cy key salt len (blocks cy key salt c) c = keystream_loop cy key salt len (blocks cy key salt (Suc c)) (Suc c)"
      by (subst keystream_loop.simps) (use True c in \<open>simp add: blocks_Suc\<close>)
    then show ?thesis using less.hyps [of "Suc c"] True c by simp
  next
    case False
    then show ?thesis by (subst keystream_loop.simps) (auto intro!: exI [of _ c])
  qed
qed

lemma keystream_total:
  assumes "len \<le> 32 * 2 ^ 32"
  obtains ks where "keystream cy key salt len = Inr ks" "length ks = len"
proof -
  obtain n where "keystream_loop cy key salt len (blocks cy key salt 0) 0 = Inr (take len (blocks cy key salt n))" "len \<le> 32 * n"
    using keystream_loop_blocks [OF assms, of 0 cy key salt] by auto
  then show ?thesis using that by (simp add: keystream_def blocks_def [of _ _ _ 0])
qed

lemma xor_bytes_twice: "length a \<le> length b \<Longrightarrow> xor_bytes (xor_bytes a b) b = a"
  unfolding xor_bytes_def by (induction a b rule: list_induct2') (auto simp: xor.assoc)

lemma length_xor [simp]: "length a \<le> length b \<Longrightarrow> length (xor_bytes a b) = length a"
  by (simp add: xor_bytes_def)

definition encryptable :: "crypto \<Rightarrow> string \<Rightarrow> bool" where
  "encryptable cy s \<longleftrightarrow> length (cy_utf8 cy s) \<le> 32 * 2 ^ 32"

lemma decrypt_of_encrypt:
  assumes "codecs_invert cy" "length salt = 16" "encryptable cy s"
  shows "\<exists>x. encrypt cy key salt s = Inr x \<and> decrypt cy key x = Inr s"
proof (cases "s = []")
  case True
  then show ?thesis by (simp add: encrypt_def decrypt_def)
next
  case False
  obtain ks where ks: "keystream cy key salt (length (cy_utf8 cy s)) = Inr ks" "length ks = length (cy_utf8 cy s)"
    using keystream_total assms(3) unfolding encryptable_def by metis
  define ct where "ct = xor_bytes (cy_utf8 cy s) ks"
  define payload where "payload = salt @ digest_bytes (cy_hmac cy key (salt @ ct)) @ ct"
  have e: "encrypt cy key salt s = Inr (''ENC:'' @ cy_b64encode cy payload)"
    using False ks by (simp add: encrypt_def Let_def ct_def payload_def)
  have l: "length ct = length (cy_utf8 cy s)" using ks(2) by (simp add: ct_def)
  have p: "take 16 payload = salt" "take 32 (drop 16 payload) = digest_bytes (cy_hmac cy key (salt @ ct))" "drop 48 payload = ct"
    using assms(2) by (simp_all add: payload_def)
  have "open_payload cy key payload = Inr s"
    using ks l p assms(1,2) by (simp add: open_payload_def Let_def) (simp add: payload_def ct_def xor_bytes_twice codecs_invert_def)
  then have "decrypt cy key (''ENC:'' @ cy_b64encode cy payload) = Inr s"
    using assms(1) by (simp add: decrypt_def codecs_invert_def)
  then show ?thesis using e by blast
qed

lemma opened_payload:
  assumes "open_payload cy key payload = Inr s"
  shows "\<exists>salt ct. length salt = 16 \<and> payload = salt @ digest_bytes (cy_hmac cy key (salt @ ct)) @ ct"
proof -
  have "take 16 payload @ take 32 (drop 16 payload) @ drop 48 payload = payload"
  proof -
    have "drop 48 payload = drop 32 (drop 16 payload)" by simp
    then show ?thesis by (simp only: append_take_drop_id)
  qed
  then show ?thesis
    using assms by (intro exI [of _ "take 16 payload"] exI [of _ "drop 48 payload"]) (auto simp: open_payload_def Let_def split: if_splits)
qed

end
