(* ===== verification/ProtectionProps.thy ===== *)
theory ProtectionProps
  imports Protection
begin

text \<open>
  What the protection of sensitive data promises: stored credentials are read back, only payloads with the
  tag of the key are ever opened, and the check of configurations names every plain credential at any depth.
\<close>

section \<open>Credentials\<close>

text \<open>
  A credential that is set is what reading it gives, and the other credentials read as before, for
  every text whose encoding is at most 128 GiB long; an empty credential is kept too. Beyond that bound the block counter
  of four bytes overflows.
\<close>

theorem credentials_kept:
  assumes "codecs_invert cy" "length salt = 16" "encryptable cy v"
  shows "case set_credential cy salt name v st of
     (st', r) \<Rightarrow> r = None \<and> get_credential cy name' st' = (if name' = name then Inr (Some v) else get_credential cy name' st)"
proof -
  obtain x where x: "encrypt cy (cr_key st) salt v = Inr x" "decrypt cy (cr_key st) x = Inr v"
    using decrypt_of_encrypt [OF assms] by blast
  then show ?thesis by (simp add: set_credential_def get_credential_def map_of_update split: option.split)
qed

text \<open>
  \<open>C37\<close>. Decryption opens a payload only if it carries the authentication tag that the key gives its salt and
  ciphertext; whatever else it is given it answers with a security error, also when decoding fails. So data that were
  altered or made with another key are never returned as text unless the tag was forged.
\<close>

theorem only_authentic_opened:
  "case decrypt cy key x of
     Inr s \<Rightarrow> (x = [] \<and> s = []) \<or>
       (\<exists>salt ct. length salt = 16 \<and> take 4 x = ''ENC:'' \<and>
          cy_b64decode cy (drop 4 x) = Inr (salt @ digest_bytes (cy_hmac cy key (salt @ ct)) @ ct))
   | Inl e \<Rightarrow> exn_class e = SecurityErr"
proof (cases "decrypt cy key x")
  case (Inl e)
  then show ?thesis
    by (auto simp: decrypt_def security_error_def failed_decrypt_def split: if_splits sum.splits)
next
  case (Inr s)
  show ?thesis
  proof (cases "x = []")
    case True
    then show ?thesis using Inr by (simp add: decrypt_def)
  next
    case False
    then obtain payload where "take 4 x = ''ENC:''" "cy_b64decode cy (drop 4 x) = Inr payload" "open_payload cy key payload = Inr s"
      using Inr by (auto simp: decrypt_def and_then_Inr split: if_splits sum.splits)
    then show ?thesis using opened_payload Inr by fastforce
  qed
qed

section \<open>Plain credentials in configurations\<close>

text \<open>The values of a nested dictionary and the keys that lead to them\<close>

fun at_path :: "pydict \<Rightarrow> string list \<Rightarrow> pyval \<Rightarrow> bool" where
  "at_path d [] v \<longleftrightarrow> False"
| "at_path d [k] v \<longleftrightarrow> (k, v) \<in> set d"
| "at_path d (k # k' # ks) v \<longleftrightarrow> (\<exists>d'. (k, PDict d') \<in> set d \<and> at_path d' (k' # ks) v)"

lemma at_path_Cons:
  "at_path d (k # ks) v \<longleftrightarrow> (ks = [] \<and> (k, v) \<in> set d) \<or> (ks \<noteq> [] \<and> (\<exists>d'. (k, PDict d') \<in> set d \<and> at_path d' ks v))"
  by (cases ks) auto

definition plain_secret :: "string list \<Rightarrow> pydict \<Rightarrow> string list \<Rightarrow> string \<Rightarrow> bool" where
  "plain_secret kws d ks v \<longleftrightarrow> at_path d ks (PStr v) \<and> sensitive_name kws (last ks) \<and> unprotected v"

lemma plain_secret_Cons:
  "plain_secret kws d (k # ks) v \<longleftrightarrow>
     (ks = [] \<and> (k, PStr v) \<in> set d \<and> sensitive_name kws k \<and> unprotected v)
   \<or> (ks \<noteq> [] \<and> (\<exists>d'. (k, PDict d') \<in> set d \<and> plain_secret kws d' ks v))"
  by (auto simp: plain_secret_def at_path_Cons)

lemma plain_secret_Nil [simp]: "\<not> plain_secret kws d [] v" "\<not> plain_secret kws [] ks v"
  by (auto simp: plain_secret_def) (cases ks, auto simp: at_path_Cons)

definition value_warnings :: "string list \<Rightarrow> string \<Rightarrow> string \<Rightarrow> pyval \<Rightarrow> string set" where
  "value_warnings kws path k x = (case x of
       PDict d \<Rightarrow> {credential_warning (foldl dotted path ks) v | ks v. plain_secret kws d ks v}
     | PStr v \<Rightarrow> (if sensitive_name kws k \<and> unprotected v then {credential_warning path v} else {})
     | _ \<Rightarrow> {})"

lemma item_warnings:
  "{credential_warning (foldl dotted pre ks) v | ks v. plain_secret kws ((k, x) # d) ks v}
    = value_warnings kws (dotted pre k) k x \<union> {credential_warning (foldl dotted pre ks) v | ks v. plain_secret kws d ks v}"
  (is "?A = ?B \<union> ?C")
proof (intro equalityI subsetI)
  fix w assume "w \<in> ?A"
  then obtain ks v where w: "w = credential_warning (foldl dotted pre ks) v" "plain_secret kws ((k, x) # d) ks v" by blast
  then obtain k' ks' where ks: "ks = k' # ks'" by (cases ks) auto
  consider "plain_secret kws d ks v" | "k' = k" "ks' = []" "x = PStr v" "sensitive_name kws k" "unprotected v"
    | d' where "k' = k" "x = PDict d'" "plain_secret kws d' ks' v"
    using w(2) ks by (auto simp: plain_secret_Cons)
  then show "w \<in> ?B \<union> ?C"
    by cases (use w(1) ks in \<open>auto simp: value_warnings_def\<close>)
next
  fix w assume "w \<in> ?B \<union> ?C"
  then consider "w \<in> ?C" | v where "x = PStr v" "sensitive_name kws k" "unprotected v" "w = credential_warning (dotted pre k) v"
    | d' ks v where "x = PDict d'" "plain_secret kws d' ks v" "w = credential_warning (foldl dotted (dotted pre k) ks) v"
    by (auto simp: value_warnings_def split: pyval.splits if_splits)
  then show "w \<in> ?A"
  proof cases
    case 1
    then obtain ks v where w: "w = credential_warning (foldl dotted pre ks) v" "plain_secret kws d ks v" by blast
    then have "plain_secret kws ((k, x) # d) ks v"
      by (cases ks) (auto simp: plain_secret_Cons)
    then show ?thesis using w(1) by blast
  next
    case (2 v)
    then have "plain_secret kws ((k, x) # d) [k] v" by (simp add: plain_secret_Cons)
    then show ?thesis using 2 by (auto intro!: exI [of _ "[k]"])
  next
    case (3 d' ks v)
    then have "plain_secret kws ((k, x) # d) (k # ks) v" by (cases ks) (auto simp: plain_secret_Cons)
    then show ?thesis using 3 by (auto intro!: exI [of _ "k # ks"])
  qed
qed

lemma check_sets:
  "set (check_value kws path k x) = value_warnings kws path k x"
  "set (check_items kws pre d) = {credential_warning (foldl dotted pre ks) v | ks v. plain_secret kws d ks v}"
proof (induction kws path k x and kws pre d rule: check_value_check_items.induct)
  fix kws pre k v d
  assume "set (check_value kws (dotted pre k) k v) = value_warnings kws (dotted pre k) k v"
    "set (check_items kws pre d) = {credential_warning (foldl dotted pre ks) v | ks v. plain_secret kws d ks v}"
  then show "set (check_items kws pre ((k, v) # d)) = {credential_warning (foldl dotted pre ks) va | ks va. plain_secret kws ((k, v) # d) ks va}"
    using item_warnings [of pre kws k v d] by simp
qed (simp_all add: value_warnings_def)


section \<open>Masking\<close>

text \<open>A masked value counts as masked, unless it was no value at all; of a text of five characters four are shown.\<close>

lemma masked_text_is_masked: "v \<noteq> PNone \<Longrightarrow> is_masked (PStr (mask_text shown v))"
proof -
  have m: "has_part ''***'' (a @ ''******'' @ b)" for a b
    by (auto simp: has_part_def list_ex_iff intro!: bexI [of _ "length a"])
  assume "v \<noteq> PNone"
  then show ?thesis using m [of "take 2 s" "drop (length s - 2) s" for s] by (auto simp: mask_text_def is_masked_def Let_def)
qed

lemma short_secret_shown: "mask_text shown (PStr ''abcde'') = ''ab******de''"
  by (simp add: mask_text_def)

section \<open>Witnesses\<close>

definition plain_crypto :: crypto where
  "plain_crypto = \<lparr> cy_sha256 = (\<lambda>b. of_nat (length b)), cy_hmac = (\<lambda>k b. of_nat (length b)),
     cy_b64encode = map (\<lambda>b. char_of (unat b)), cy_b64decode = (\<lambda>s. Inr (map (\<lambda>c. of_nat (of_char c)) s)),
     cy_utf8 = map (\<lambda>c. of_nat (of_char c)), cy_utf8_decode = (\<lambda>b. Inr (map (\<lambda>b. char_of (unat b)) b)) \<rparr>"

lemma plain_crypto_ok: "codecs_invert plain_crypto"
proof -
  have b: "unat b mod 256 = unat b" for b :: "8 word"
  proof -
    have "unat b < 2 ^ LENGTH(8)" by (rule unsigned_less)
    then show ?thesis by simp
  qed
  have c: "char_of (unat (of_nat (of_char c) :: 8 word)) = c" for c
    by (simp add: unsigned_of_nat take_bit_eq_mod)
  show ?thesis by (auto simp: codecs_invert_def plain_crypto_def b c comp_def intro!: map_idI)
qed

lemma credentials_kept_witness:
  "get_credential plain_crypto ''db'' (fst (set_credential plain_crypto (replicate 16 7) ''db'' ''pw'' \<lparr> cr_key = [1, 2], cr_credentials = [] \<rparr>))
     = Inr (Some ''pw'')"
  using credentials_kept [OF plain_crypto_ok, where salt = "replicate 16 7" and v = "''pw''" and name = "''db''"
      and st = "\<lparr> cr_key = [1, 2], cr_credentials = [] \<rparr>" and name' = "''db''"]
  by (simp add: encryptable_def plain_crypto_def split: prod.splits)

end
