(* ===== verification/PyDynamic.thy ===== *)
theory PyDynamic
  imports PyStrings
begin

text \<open>
  Operations on dynamic values whose type the code does not check first: what the interpreter does with a
  value of the wrong type is part of the behaviour, because the callers catch the exception.
\<close>

text \<open>\<open>type(e).__name__\<close> of the exceptions\<close>

fun exn_name :: "exn_class \<Rightarrow> string" where
  "exn_name ValueErr = ''ValueError''"
| "exn_name TypeErr = ''TypeError''"
| "exn_name KeyErr = ''KeyError''"
| "exn_name IndexErr = ''IndexError''"
| "exn_name RuntimeErr = ''RuntimeError''"
| "exn_name OverflowErr = ''OverflowError''"
| "exn_name TimeoutErr = ''TimeoutError''"
| "exn_name QueueEmptyErr = ''Empty''"
| "exn_name RecursionErr = ''RecursionError''"
| "exn_name AttributeErr = ''AttributeError''"
| "exn_name (UserExc s) = s"
| "exn_name ServiceErr = ''ServiceError''"
| "exn_name DuplicateServiceErr = ''DuplicateServiceError''"
| "exn_name ServiceNotFoundErr = ''ServiceNotFoundError''"
| "exn_name DependencyErr = ''DependencyError''"
| "exn_name MissingDependencyErr = ''MissingDependencyError''"
| "exn_name CircularDependencyErr = ''CircularDependencyError''"
| "exn_name OrchestratorErr = ''OrchestratorError''"
| "exn_name DIErr = ''DIError''"
| "exn_name DependencyResolutionErr = ''DependencyResolutionError''"
| "exn_name DICircularDependencyErr = ''CircularDependencyError''"
| "exn_name PluginErr = ''PluginError''"
| "exn_name PluginDependencyErr = ''PluginDependencyError''"
| "exn_name PluginVersionErr = ''PluginVersionError''"
| "exn_name PluginNotFoundErr = ''PluginNotFoundError''"
| "exn_name PluginStateErr = ''PluginStateError''"
| "exn_name SecurityErr = ''SecurityError''"
| "exn_name AccessDeniedErr = ''AccessDeniedError''"
| "exn_name AuthenticationErr = ''AuthenticationError''"
| "exn_name PermissionValidationErr = ''PermissionValidationError''"
| "exn_name VersionMismatchErr = ''VersionMismatchError''"
| "exn_name MigrationErr = ''MigrationError''"
| "exn_name ConfigurationValidationErr = ''ConfigurationValidationError''"
| "exn_name StorageErr = ''StorageError''"
| "exn_name StorageConnectionErr = ''StorageConnectionError''"
| "exn_name StorageNotFoundErr = ''StorageNotFoundError''"
| "exn_name StorageValidationErr = ''StorageValidationError''"
| "exn_name AIProviderErr = ''AIProviderError''"
| "exn_name AIProviderConnectionErr = ''AIProviderConnectionError''"
| "exn_name AIProviderAuthErr = ''AIProviderAuthError''"
| "exn_name AIProviderRateLimitErr = ''AIProviderRateLimitError''"
| "exn_name SDKErr = ''SDKError''"
| "exn_name SDKValidationErr = ''SDKValidationError''"
| "exn_name SDKAuthenticationErr = ''SDKAuthenticationError''"
| "exn_name SDKConnectionErr = ''SDKConnectionError''"
| "exn_name SDKExecutionErr = ''SDKExecutionError''"
| "exn_name APICompatibilityErr = ''APICompatibilityError''"
| "exn_name EcosystemValidationErr = ''EcosystemValidationError''"

text \<open>\<open>d.get(v)\<close> of a dictionary with string keys: only strings can be present, and lists and
  dictionaries cannot be hashed.\<close>

definition lookup_any :: "(string \<times> 'a) list \<Rightarrow> pyval \<Rightarrow> exn + 'a option" where
  "lookup_any d v =
     (case v of
        PStr s \<Rightarrow> Inr (map_of d s)
      | PList _ \<Rightarrow> Inl (Exn TypeErr (''unhashable type: '' @ quoted ''list''))
      | PDict _ \<Rightarrow> Inl (Exn TypeErr (''unhashable type: '' @ quoted ''dict''))
      | _ \<Rightarrow> Inr None)"

lemma lookup_any_str [simp]: "lookup_any d (PStr s) = Inr (map_of d s)"
  by (simp add: lookup_any_def)

text \<open>The items of \<open>for x in v\<close>; objects are taken to be not iterable.\<close>

definition iterate :: "pyval \<Rightarrow> exn + pyval list" where
  "iterate v =
     (case v of
        PList xs \<Rightarrow> Inr xs
      | PStr s \<Rightarrow> Inr (map (\<lambda>c. PStr [c]) s)
      | PDict d \<Rightarrow> Inr (map (\<lambda>p. PStr (fst p)) d)
      | _ \<Rightarrow> Inl (Exn TypeErr (quoted (py_type_name v) @ '' object is not iterable'')))"

lemma iterate_list [simp]: "iterate (PList xs) = Inr xs"
  by (simp add: iterate_def)

text \<open>\<open>v.get(k, d)\<close> and \<open>v[0]\<close> of values that came from JSON\<close>

definition value_get :: "pyval \<Rightarrow> string \<Rightarrow> pyval \<Rightarrow> exn + pyval" where
  "value_get v k dflt =
     (case v of
        PDict d \<Rightarrow> Inr (case map_of d k of Some w \<Rightarrow> w | None \<Rightarrow> dflt)
      | _ \<Rightarrow> Inl (attribute_error ''get'' v))"

lemma value_get_dict [simp]: "value_get (PDict d) k dflt = Inr (case map_of d k of Some w \<Rightarrow> w | None \<Rightarrow> dflt)"
  by (simp add: value_get_def)

definition value_first :: "pyval \<Rightarrow> exn + pyval" where
  "value_first v =
     (case v of
        PList xs \<Rightarrow> (case xs of [] \<Rightarrow> Inl (Exn IndexErr ''list index out of range'') | x # _ \<Rightarrow> Inr x)
      | PStr s \<Rightarrow> (case s of [] \<Rightarrow> Inl (Exn IndexErr ''string index out of range'') | c # _ \<Rightarrow> Inr (PStr [c]))
      | PDict _ \<Rightarrow> Inl (Exn KeyErr ''0'')
      | _ \<Rightarrow> Inl (Exn TypeErr (quoted (py_type_name v) @ '' object is not subscriptable'')))"

text \<open>\<open>v > 0\<close>\<close>

definition positive :: "pyval \<Rightarrow> exn + bool" where
  "positive v =
     (case v of
        PInt i \<Rightarrow> Inr (0 < i)
      | PFloat x \<Rightarrow> Inr (0 < x)
      | PBool b \<Rightarrow> Inr b
      | _ \<Rightarrow> Inl (Exn TypeErr (quoted ''>'' @ '' not supported between instances of '' @ quoted (py_type_name v) @ '' and '' @ quoted ''int'')))"

text \<open>\<open>str(v)\<close> inside an f-string; \<open>shown\<close> is \<open>str\<close> of a value that is not a string.\<close>

definition py_text :: "(pyval \<Rightarrow> string) \<Rightarrow> pyval \<Rightarrow> string" where
  "py_text shown v = (case v of PStr s \<Rightarrow> s | _ \<Rightarrow> shown v)"

lemma text_of_str [simp]: "py_text shown (PStr s) = s"
  by (simp add: py_text_def)

end
