(* ===== verification/ProviderBase.thy ===== *)
theory ProviderBase
  imports PyDynamic ConfigSettings Metrics
begin

text \<open>
  The requests, responses and providers of \<open>yasin_core/providers\<close>: the models of \<open>base.py\<close> and the
  three adapters of \<open>adapters.py\<close>. Other providers are code of the users: what they answer is in the
  environment of a call, as are the HTTP client \<open>requests\<close>, \<open>json.loads\<close> and the clock.
\<close>

section \<open>Requests and responses\<close>

record chat_message =
  ch_role :: string
  ch_content :: string

definition message_dict :: "chat_message \<Rightarrow> pydict" where
  "message_dict m = [(''role'', PStr (ch_role m)), (''content'', PStr (ch_content m))]"

definition message_from_dict :: "(string \<times> string) list \<Rightarrow> chat_message" where
  "message_from_dict d =
     \<lparr> ch_role = (case map_of d ''role'' of Some s \<Rightarrow> s | None \<Rightarrow> ''user''),
       ch_content = (case map_of d ''content'' of Some s \<Rightarrow> s | None \<Rightarrow> []) \<rparr>"

record ai_request =
  ai_prompt :: "string option"
  ai_messages :: "chat_message list"
  ai_model :: "string option"
  ai_temperature :: "real option"
  ai_max_tokens :: "int option"
  ai_stream :: bool
  ai_extra :: pydict

definition mk_ai_request :: "string option \<Rightarrow> chat_message list option \<Rightarrow> string option \<Rightarrow> real option \<Rightarrow> int option \<Rightarrow> bool \<Rightarrow> pydict option \<Rightarrow> ai_request" where
  "mk_ai_request prompt messages model temperature max_tokens stream extra =
     \<lparr> ai_prompt = prompt, ai_messages = (case messages of Some ms \<Rightarrow> ms | None \<Rightarrow> []), ai_model = model,
       ai_temperature = temperature, ai_max_tokens = max_tokens, ai_stream = stream,
       ai_extra = (case extra of Some d \<Rightarrow> d | None \<Rightarrow> []) \<rparr>"

definition request_to_dict :: "ai_request \<Rightarrow> pydict" where
  "request_to_dict q =
     [(''prompt'', opt_str (ai_prompt q)), (''messages'', PList (map (\<lambda>m. PDict (message_dict m)) (ai_messages q))),
      (''model'', opt_str (ai_model q)), (''temperature'', opt_float (ai_temperature q)),
      (''max_tokens'', case ai_max_tokens q of Some n \<Rightarrow> PInt n | None \<Rightarrow> PNone),
      (''stream'', PBool (ai_stream q)), (''extra_params'', PDict (ai_extra q))]"

text \<open>The tests \<open>request.prompt\<close> and \<open>request.model\<close> are false for empty strings too.\<close>

definition given :: "string option \<Rightarrow> bool" where
  "given s \<longleftrightarrow> (case s of Some x \<Rightarrow> x \<noteq> [] | None \<Rightarrow> False)"

definition or_text :: "string option \<Rightarrow> string \<Rightarrow> string" where
  "or_text s dflt = (case s of Some x \<Rightarrow> if x \<noteq> [] then x else dflt | None \<Rightarrow> dflt)"

text \<open>What a provider sends back need not have the annotated types: text, model and usage are dynamic.\<close>

record ai_response =
  ar_text :: pyval
  ar_model :: pyval
  ar_usage :: pyval
  ar_raw :: pyval

definition usage_dict :: "int \<Rightarrow> int \<Rightarrow> int \<Rightarrow> pyval" where
  "usage_dict p c t = PDict [(''prompt_tokens'', PInt p), (''completion_tokens'', PInt c), (''total_tokens'', PInt t)]"

definition mk_ai_response :: "pyval \<Rightarrow> pyval \<Rightarrow> pyval \<Rightarrow> pyval \<Rightarrow> ai_response" where
  "mk_ai_response txt model usage raw =
     \<lparr> ar_text = txt, ar_model = model, ar_usage = (if truthy usage then usage else usage_dict 0 0 0), ar_raw = raw \<rparr>"

definition ai_response_dict :: "(pyval \<Rightarrow> string) \<Rightarrow> ai_response \<Rightarrow> pydict" where
  "ai_response_dict shown r =
     [(''text'', ar_text r), (''model'', ar_model r), (''usage'', ar_usage r),
      (''raw_response'', if truthy (ar_raw r) then PStr (py_text shown (ar_raw r)) else PNone)]"

record ai_chunk =
  ck_text :: pyval
  ck_usage :: pyval
  ck_last :: bool

definition mk_chunk :: "pyval \<Rightarrow> bool \<Rightarrow> ai_chunk" where
  "mk_chunk s l = \<lparr> ck_text = s, ck_usage = PNone, ck_last = l \<rparr>"

definition chunk_dict :: "ai_chunk \<Rightarrow> pydict" where
  "chunk_dict c = [(''text'', ck_text c), (''usage'', ck_usage c), (''is_last'', PBool (ck_last c))]"

text \<open>
  What a stream gives: texts for a request that is a text, chunks, or a whole response where a provider keeps the
  default \<open>generate_stream\<close>. A stream is the list of its items and the exception that ends it, if one does.
\<close>

datatype stream_item = Item_Text pyval | Item_Chunk ai_chunk | Item_Response ai_response

type_synonym stream = "stream_item list \<times> exn option"

section \<open>Providers and their environment\<close>

record openai =
  oa_api_key :: pyval
  oa_base_url :: pyval
  oa_default_model :: pyval

text \<open>A provider that is not an adapter is known by its name; what it does is in the environment.\<close>

datatype provider = Mock string | Local | OpenAI openai | Custom string

fun provider_name :: "provider \<Rightarrow> string" where
  "provider_name (Mock _) = ''mock''"
| "provider_name Local = ''local''"
| "provider_name (OpenAI _) = ''openai''"
| "provider_name (Custom n) = n"

text \<open>
  An HTTP answer: its status and text, what \<open>response.json()\<close> gives or the text of its error, and the lines of
  a streamed body with the text of the error that may interrupt them.
\<close>

record http_reply =
  hr_status :: int
  hr_text :: string
  hr_json :: "string + pyval"
  hr_lines :: "string list \<times> string option"

text \<open>
  The environment of one call. \<open>pe_post\<close> is \<open>requests.post(url, headers, json)\<close>, whose \<open>RequestException\<close> is
  on the left; the functions that start with \<open>pe_custom\<close> are the methods of the provider object of that number,
  where \<open>None\<close> stands for an inherited method.
\<close>

record provider_env =
  pe_shown :: "pyval \<Rightarrow> string"
  pe_post :: "string \<Rightarrow> (string \<times> string) list \<Rightarrow> pydict \<Rightarrow> string + http_reply"
  pe_loads :: "string \<Rightarrow> pyval option"
  pe_custom_text :: "nat \<Rightarrow> string \<Rightarrow> exn + pyval"
  pe_custom_generate :: "nat \<Rightarrow> ai_request \<Rightarrow> exn + (string + ai_response)"
  pe_custom_stream :: "nat \<Rightarrow> string + ai_request \<Rightarrow> stream option"
  pe_custom_health :: "nat \<Rightarrow> (exn + pyval) option"
  pe_custom_capabilities :: "nat \<Rightarrow> pydict option"
  pe_custom_models :: "nat \<Rightarrow> pyval list option"
  pe_duration :: "nat \<Rightarrow> real"
  pe_now :: real

section \<open>The mock and the local provider\<close>

definition messages_text :: "chat_message list \<Rightarrow> string" where
  "messages_text ms = join_with '', '' (map (\<lambda>m. ch_role m @ '': '' @ ch_content m) ms)"

definition request_text :: "ai_request \<Rightarrow> string" where
  "request_text q = or_text (ai_prompt q) (messages_text (ai_messages q))"

definition estimated_usage :: "string \<Rightarrow> string \<Rightarrow> pyval" where
  "estimated_usage input output =
     usage_dict (int (length input div 4)) (int (length output div 4)) (int ((length input + length output) div 4))"

definition mock_text :: "string \<Rightarrow> string \<Rightarrow> string" where
  "mock_text dflt s = dflt @ '': '' @ s"

definition mock_generate :: "string \<Rightarrow> ai_request \<Rightarrow> ai_response" where
  "mock_generate dflt q =
     (let input = request_text q; output = mock_text dflt input
      in mk_ai_response (PStr output) (PStr (or_text (ai_model q) ''mock-model'')) (estimated_usage input output) PNone)"

definition local_text :: "string \<Rightarrow> string" where
  "local_text s = ''Local response to: '' @ s"

definition local_generate :: "ai_request \<Rightarrow> ai_response" where
  "local_generate q =
     (let input = request_text q; output = ''Local simulated response to: '' @ input
      in mk_ai_response (PStr output) (PStr (or_text (ai_model q) ''local-llama'')) (estimated_usage input output) PNone)"

text \<open>A text is streamed word by word: with a space after every word for a request that is a text, and
  between the words otherwise.\<close>

definition text_words :: "string \<Rightarrow> stream_item list" where
  "text_words s = map (\<lambda>w. Item_Text (PStr (w @ '' ''))) (str_split (CHR '' '') s)"

fun word_chunks :: "string list \<Rightarrow> ai_chunk list" where
  "word_chunks [] = []"
| "word_chunks [w] = [mk_chunk (PStr w) True]"
| "word_chunks (w # ws) = mk_chunk (PStr (w @ '' '')) False # word_chunks ws"

definition text_chunks :: "string \<Rightarrow> stream_item list" where
  "text_chunks s = map Item_Chunk (word_chunks (str_split (CHR '' '') s))"

definition mock_stream :: "string \<Rightarrow> string + ai_request \<Rightarrow> stream_item list" where
  "mock_stream dflt r =
     (case r of
        Inl s \<Rightarrow> text_words (mock_text dflt s)
      | Inr q \<Rightarrow> text_chunks (mock_text dflt (request_text q)))"

definition local_stream :: "string + ai_request \<Rightarrow> stream_item list" where
  "local_stream r =
     (case r of
        Inl s \<Rightarrow> text_words (local_text s)
      | Inr q \<Rightarrow> text_chunks (''Local simulated stream response to: '' @ request_text q))"

end
