(* ===== verification/OpenAIAdapter.thy ===== *)
theory OpenAIAdapter
  imports ProviderBase
begin

text \<open>
  \<open>OpenAICompatibleProvider\<close> of \<open>yasin_core/providers/adapters.py\<close>: the payload it posts, how it reads
  the answer, the mapping of HTTP failures to exceptions, the reader of streamed lines, and what an operation of any
  provider amounts to. Answers come from outside, so every access to them can raise.
\<close>

definition new_openai :: openai where
  "new_openai = \<lparr> oa_api_key = PStr [], oa_base_url = PStr ''https://api.openai.com/v1'', oa_default_model = PStr ''gpt-4o-mini'' \<rparr>"

definition openai_initialize :: "config option \<Rightarrow> openai \<Rightarrow> openai" where
  "openai_initialize cfg oa =
     (case cfg of
        None \<Rightarrow> oa
      | Some c \<Rightarrow> \<lparr> oa_api_key = cf_get ''providers.openai.api_key'' (oa_api_key oa) c,
                   oa_base_url = cf_get ''providers.openai.base_url'' (oa_base_url oa) c,
                   oa_default_model = cf_get ''providers.openai.default_model'' (oa_default_model oa) c \<rparr>)"

section \<open>What is posted\<close>

definition openai_model :: "openai \<Rightarrow> ai_request \<Rightarrow> pyval" where
  "openai_model oa q = (if given (ai_model q) then opt_str (ai_model q) else oa_default_model oa)"

definition openai_messages :: "ai_request \<Rightarrow> pyval list" where
  "openai_messages q =
     (if given (ai_prompt q) then [PDict [(''role'', PStr ''user''), (''content'', opt_str (ai_prompt q))]]
      else map (\<lambda>m. PDict (message_dict m)) (ai_messages q))"

definition openai_payload :: "openai \<Rightarrow> ai_request \<Rightarrow> bool \<Rightarrow> pydict" where
  "openai_payload oa q stream =
     foldl (\<lambda>d p. AList.update (fst p) (snd p) d)
       ([(''model'', openai_model oa q), (''messages'', PList (openai_messages q)), (''stream'', PBool stream)]
          @ (case ai_temperature q of Some t \<Rightarrow> [(''temperature'', PFloat t)] | None \<Rightarrow> [])
          @ (case ai_max_tokens q of Some n \<Rightarrow> [(''max_tokens'', PInt n)] | None \<Rightarrow> []))
       (filter (\<lambda>p. fst p \<noteq> ''provider'') (ai_extra q))"

definition openai_headers :: "provider_env \<Rightarrow> openai \<Rightarrow> (string \<times> string) list" where
  "openai_headers env oa =
     (''Content-Type'', ''application/json'')
       # (if truthy (oa_api_key oa) then [(''Authorization'', ''Bearer '' @ py_text (pe_shown env) (oa_api_key oa))] else [])"

definition openai_simulated :: "openai \<Rightarrow> bool" where
  "openai_simulated oa \<longleftrightarrow> \<not> truthy (oa_api_key oa) \<or> oa_api_key oa = PStr ''mock_key''"

definition openai_url :: "openai \<Rightarrow> exn + string" where
  "openai_url oa =
     (case oa_base_url oa of
        PStr u \<Rightarrow> Inr (rev (dropWhile (\<lambda>c. c = CHR ''/'') (rev u)) @ ''/chat/completions'')
      | v \<Rightarrow> Inl (attribute_error ''rstrip'' v))"

section \<open>Answers\<close>

definition connection_failed :: "string \<Rightarrow> exn" where
  "connection_failed e = Exn AIProviderConnectionErr (''Failed to connect to OpenAI-compatible endpoint: '' @ e)"

definition http_error :: "http_reply \<Rightarrow> exn" where
  "http_error h =
     (if hr_status h = 401 then Exn AIProviderAuthErr (''OpenAI Authentication Error: '' @ hr_text h)
      else if hr_status h = 429 then Exn AIProviderRateLimitErr (''OpenAI Rate Limit Error: '' @ hr_text h)
      else Exn AIProviderErr (''OpenAI API Error (Status '' @ int_str (hr_status h) @ ''): '' @ hr_text h))"

definition openai_read :: "pyval \<Rightarrow> pyval \<Rightarrow> exn + ai_response" where
  "openai_read model data =
     and_then (value_get data ''choices'' (PList [PDict []])) (\<lambda>choices.
     and_then (value_first choices) (\<lambda>choice.
     and_then (value_get choice ''message'' (PDict [])) (\<lambda>message.
     and_then (value_get message ''content'' (PStr [])) (\<lambda>txt.
     and_then (value_get data ''usage'' (usage_dict 0 0 0)) (\<lambda>usage.
       Inr (mk_ai_response txt model usage data))))))"

definition openai_simulate :: "provider_env \<Rightarrow> openai \<Rightarrow> ai_request \<Rightarrow> ai_response" where
  "openai_simulate env oa q =
     (let model = openai_model oa q; input = pe_shown env (PList (openai_messages q));
          output = ''Simulated OpenAI ('' @ py_text (pe_shown env) model @ '') response to messages: '' @ input
      in mk_ai_response (PStr output) model (estimated_usage input output) (PDict [(''id'', PStr ''chatcmpl-123'')]))"

definition openai_generate :: "provider_env \<Rightarrow> openai \<Rightarrow> ai_request \<Rightarrow> exn + ai_response" where
  "openai_generate env oa q =
     (if openai_simulated oa then Inr (openai_simulate env oa q)
      else and_then (openai_url oa) (\<lambda>url.
        case pe_post env url (openai_headers env oa) (openai_payload oa q False) of
          Inl e \<Rightarrow> Inl (connection_failed e)
        | Inr h \<Rightarrow>
            if hr_status h = 200
            then (case hr_json h of Inl e \<Rightarrow> Inl (connection_failed e) | Inr data \<Rightarrow> openai_read (openai_model oa q) data)
            else Inl (http_error h)))"

text \<open>A text is asked for with the default model, which is what a request without a model gets.\<close>

definition openai_text :: "provider_env \<Rightarrow> openai \<Rightarrow> string \<Rightarrow> exn + pyval" where
  "openai_text env oa s =
     and_then (openai_generate env oa (mk_ai_request (Some s) None None None None False None)) (\<lambda>r. Inr (ar_text r))"

section \<open>Streams\<close>

definition openai_chunk :: "pyval \<Rightarrow> exn + ai_chunk" where
  "openai_chunk data =
     and_then (value_get data ''choices'' (PList [PDict []])) (\<lambda>choices.
     and_then (value_first choices) (\<lambda>choice.
     and_then (value_get choice ''delta'' (PDict [])) (\<lambda>delta.
     and_then (value_get delta ''content'' (PStr [])) (\<lambda>txt.
     and_then (value_get choice ''finish_reason'' PNone) (\<lambda>reason.
       Inr (mk_chunk txt (reason \<noteq> PNone)))))))"

definition sse_chunk :: "provider_env \<Rightarrow> string \<Rightarrow> ai_chunk list" where
  "sse_chunk env s = (case pe_loads env s of None \<Rightarrow> [] | Some data \<Rightarrow> (case openai_chunk data of Inl _ \<Rightarrow> [] | Inr c \<Rightarrow> [c]))"

text \<open>The loop over the lines of the body: what is no data line or cannot be read is skipped, and a
  line \<open>data: [DONE]\<close> ends the stream even if the connection would have broken later.\<close>

fun sse_stream :: "provider_env \<Rightarrow> string list \<Rightarrow> string option \<Rightarrow> ai_chunk list \<times> exn option" where
  "sse_stream env [] broken = ([], map_option connection_failed broken)"
| "sse_stream env (l # ls) broken =
     (let s = str_strip l
      in if l = [] \<or> take 6 s \<noteq> ''data: '' then sse_stream env ls broken
         else if drop 6 s = ''[DONE]'' then ([mk_chunk (PStr []) True], None)
         else (case sse_stream env ls broken of (cs, r) \<Rightarrow> (sse_chunk env (drop 6 s) @ cs, r)))"

definition openai_stream :: "provider_env \<Rightarrow> openai \<Rightarrow> ai_request \<Rightarrow> ai_chunk list \<times> exn option" where
  "openai_stream env oa q =
     (if openai_simulated oa
      then (word_chunks (str_split (CHR '' '') (''Simulated streaming response from ''
              @ py_text (pe_shown env) (openai_model oa q) @ '' for prompt/messages.'')), None)
      else case openai_url oa of
             Inl e \<Rightarrow> ([], Some e)
           | Inr url \<Rightarrow>
               (case pe_post env url (openai_headers env oa) (openai_payload oa q True) of
                  Inl e \<Rightarrow> ([], Some (connection_failed e))
                | Inr h \<Rightarrow> if hr_status h \<noteq> 200 then ([], Some (http_error h))
                          else sse_stream env (fst (hr_lines h)) (snd (hr_lines h))))"

definition openai_stream_items :: "provider_env \<Rightarrow> openai \<Rightarrow> string + ai_request \<Rightarrow> stream" where
  "openai_stream_items env oa r =
     (case r of
        Inl s \<Rightarrow> (case openai_stream env oa (mk_ai_request (Some s) None None None None True None) of
                    (cs, e) \<Rightarrow> (map (\<lambda>c. Item_Text (ck_text c)) cs, e))
      | Inr q \<Rightarrow> (case openai_stream env oa q of (cs, e) \<Rightarrow> (map Item_Chunk cs, e)))"

definition openai_health :: "openai \<Rightarrow> pydict" where
  "openai_health oa =
     [(''status'', PStr (if truthy (oa_api_key oa) then ''healthy'' else ''unconfigured'')), (''healthy'', PBool True),
      (''configured'', PBool (truthy (oa_api_key oa)))]"

section \<open>The operations of a provider\<close>

text \<open>\<open>r\<close> is the number of the provider's object, by which the environment knows its methods.\<close>

definition provider_text :: "provider_env \<Rightarrow> nat \<Rightarrow> provider \<Rightarrow> string \<Rightarrow> exn + pyval" where
  "provider_text env r p s =
     (case p of
        Mock dflt \<Rightarrow> Inr (PStr (mock_text dflt s))
      | Local \<Rightarrow> Inr (PStr (local_text s))
      | OpenAI oa \<Rightarrow> openai_text env oa s
      | Custom _ \<Rightarrow> pe_custom_text env r s)"

definition provider_response :: "provider_env \<Rightarrow> nat \<Rightarrow> provider \<Rightarrow> ai_request \<Rightarrow> exn + ai_response" where
  "provider_response env r p q =
     (case p of
        Mock dflt \<Rightarrow> Inr (mock_generate dflt q)
      | Local \<Rightarrow> Inr (local_generate q)
      | OpenAI oa \<Rightarrow> openai_generate env oa q
      | Custom _ \<Rightarrow> and_then (pe_custom_generate env r q) (\<lambda>res.
          case res of
            Inl s \<Rightarrow> Inr (mk_ai_response (PStr s) (PStr (or_text (ai_model q) ''unknown'')) PNone PNone)
          | Inr a \<Rightarrow> Inr a))"

definition default_stream :: "provider_env \<Rightarrow> nat \<Rightarrow> provider \<Rightarrow> string + ai_request \<Rightarrow> stream" where
  "default_stream env r p req =
     (case req of
        Inl s \<Rightarrow> (case provider_text env r p s of Inl e \<Rightarrow> ([], Some e) | Inr v \<Rightarrow> ([Item_Text v], None))
      | Inr q \<Rightarrow> (case provider_response env r p q of Inl e \<Rightarrow> ([], Some e) | Inr a \<Rightarrow> ([Item_Response a], None)))"

definition provider_stream :: "provider_env \<Rightarrow> nat \<Rightarrow> provider \<Rightarrow> string + ai_request \<Rightarrow> stream" where
  "provider_stream env r p req =
     (case p of
        Mock dflt \<Rightarrow> (mock_stream dflt req, None)
      | Local \<Rightarrow> (local_stream req, None)
      | OpenAI oa \<Rightarrow> openai_stream_items env oa req
      | Custom _ \<Rightarrow> (case pe_custom_stream env r req of Some st \<Rightarrow> st | None \<Rightarrow> default_stream env r p req))"

definition provider_health :: "provider_env \<Rightarrow> nat \<Rightarrow> provider \<Rightarrow> exn + pyval" where
  "provider_health env r p =
     (case p of
        OpenAI oa \<Rightarrow> Inr (PDict (openai_health oa))
      | Custom _ \<Rightarrow> (case pe_custom_health env r of
            Some h \<Rightarrow> h
          | None \<Rightarrow> Inr (PDict [(''status'', PStr ''healthy''), (''healthy'', PBool True)]))
      | _ \<Rightarrow> Inr (PDict [(''status'', PStr ''healthy''), (''healthy'', PBool True)]))"

definition capabilities :: "bool \<Rightarrow> pydict" where
  "capabilities embeddings = [(''chat'', PBool True), (''completion'', PBool True), (''streaming'', PBool True), (''embeddings'', PBool embeddings)]"

definition provider_capabilities :: "provider_env \<Rightarrow> nat \<Rightarrow> provider \<Rightarrow> pydict" where
  "provider_capabilities env r p =
     (case p of
        Mock _ \<Rightarrow> capabilities False
      | Custom _ \<Rightarrow> (case pe_custom_capabilities env r of Some d \<Rightarrow> d | None \<Rightarrow> capabilities False)
      | _ \<Rightarrow> capabilities True)"

definition model_entry :: "string \<Rightarrow> string \<Rightarrow> int \<Rightarrow> pyval" where
  "model_entry mid name window = PDict [(''model_id'', PStr mid), (''name'', PStr name), (''context_window'', PInt window)]"

definition provider_models :: "provider_env \<Rightarrow> nat \<Rightarrow> provider \<Rightarrow> pyval list" where
  "provider_models env r p =
     (case p of
        Mock _ \<Rightarrow> [model_entry ''mock-model'' ''Mock Model v1'' 4096]
      | Local \<Rightarrow> [model_entry ''local-llama3'' ''Local LLaMA 3'' 8192, model_entry ''local-phi3'' ''Local Phi-3'' 4096]
      | OpenAI _ \<Rightarrow> [model_entry ''gpt-4o-mini'' ''GPT-4o Mini'' 128000, model_entry ''gpt-4o'' ''GPT-4o'' 128000,
                    model_entry ''gpt-4-turbo'' ''GPT-4 Turbo'' 128000]
      | Custom _ \<Rightarrow> (case pe_custom_models env r of Some xs \<Rightarrow> xs | None \<Rightarrow> []))"

end
