(* ===== verification/MetricUse.thy ===== *)
theory MetricUse
  imports Metrics PyDynamic
begin

text \<open>
  How the components use the registry of metrics: find or make a metric and then change it, in one
  expression as \<open>registry.counter(...).inc()\<close>. A metric that was just made stays when the change raises. Also the
  execution timer of \<open>yasin_core/observability/performance.py\<close>.
\<close>

definition use_metric :: "metric_data \<Rightarrow> string \<Rightarrow> string \<Rightarrow> labels \<Rightarrow> real \<Rightarrow> (nat \<Rightarrow> metrics \<Rightarrow> exn + metrics) \<Rightarrow> metrics \<Rightarrow> metrics \<times> exn option" where
  "use_metric zero name desc ls now f m =
     (case get_or_create zero name desc ls now m of
        (m1, Inl e) \<Rightarrow> (m1, Some e)
      | (m1, Inr r) \<Rightarrow> (case f r m1 of Inl e \<Rightarrow> (m1, Some e) | Inr m2 \<Rightarrow> (m2, None)))"

definition count_by :: "string \<Rightarrow> string \<Rightarrow> labels \<Rightarrow> exn + real \<Rightarrow> real \<Rightarrow> metrics \<Rightarrow> metrics \<times> exn option" where
  "count_by name desc ls v now = use_metric (Counter 0) name desc ls now (\<lambda>r m. and_then v (\<lambda>x. metric_inc r x now m))"

definition count :: "string \<Rightarrow> string \<Rightarrow> labels \<Rightarrow> real \<Rightarrow> metrics \<Rightarrow> metrics \<times> exn option" where
  "count name desc ls = count_by name desc ls (Inr 1)"

definition observe :: "string \<Rightarrow> string \<Rightarrow> labels \<Rightarrow> real \<Rightarrow> real \<Rightarrow> metrics \<Rightarrow> metrics \<times> exn option" where
  "observe name desc ls v now = use_metric (Histogram []) name desc ls now (\<lambda>r. histogram_observe r v now)"

definition set_gauge :: "string \<Rightarrow> string \<Rightarrow> labels \<Rightarrow> real \<Rightarrow> real \<Rightarrow> metrics \<Rightarrow> metrics \<times> exn option" where
  "set_gauge name desc ls v now = use_metric (Gauge 0) name desc ls now (\<lambda>r. gauge_set r v now)"

text \<open>The next statement, unless the previous one raised\<close>

definition m_then :: "'s \<times> exn option \<Rightarrow> ('s \<Rightarrow> 's \<times> exn option) \<Rightarrow> 's \<times> exn option" where
  "m_then p f = (case p of (m, None) \<Rightarrow> f m | (m, Some e) \<Rightarrow> (m, Some e))"

lemma m_then_simps [simp]: "m_then (m, None) f = f m" "m_then (m, Some e) f = (m, Some e)"
  by (simp_all add: m_then_def)

lemma m_then_keeps: "Q (fst p) \<Longrightarrow> (\<And>m. Q m \<Longrightarrow> Q (fst (f m))) \<Longrightarrow> Q (fst (m_then p f))"
  by (cases p) (simp add: m_then_def split: option.splits)

section \<open>The timer\<close>

record timer =
  ti_metric :: string
  ti_description :: string
  ti_labels :: labels
  ti_start :: "real option"

definition mk_timer :: "string \<Rightarrow> string \<Rightarrow> labels option \<Rightarrow> timer" where
  "mk_timer name desc ls = \<lparr> ti_metric = name, ti_description = desc, ti_labels = (case ls of Some l \<Rightarrow> l | None \<Rightarrow> []), ti_start = None \<rparr>"

definition timer_enter :: "real \<Rightarrow> timer \<Rightarrow> timer" where
  "timer_enter clock t = t\<lparr>ti_start := Some clock\<rparr>"

text \<open>Two clocks: \<open>perf_counter\<close> measures, \<open>time\<close> stamps the metric.\<close>

definition timer_exit :: "real \<Rightarrow> real \<Rightarrow> timer \<Rightarrow> metrics \<Rightarrow> metrics \<times> exn option" where
  "timer_exit clock now t m =
     (case ti_start t of
        None \<Rightarrow> (m, None)
      | Some start \<Rightarrow> observe (ti_metric t) (ti_description t) (ti_labels t) (clock - start) now m)"

text \<open>
  The decorated function: \<open>func\<close> is what the call returns or raises. An exception of the measurement in the
  \<open>finally\<close> block replaces what the function gave.
\<close>

definition timed_call :: "timer \<Rightarrow> string \<Rightarrow> exn + 'a \<Rightarrow> real \<Rightarrow> real \<Rightarrow> metrics \<Rightarrow> metrics \<times> (exn + 'a)" where
  "timed_call t fname func elapsed now m =
     (let ls = (if dict_has (ti_labels t) ''function'' then ti_labels t else AList.update ''function'' fname (ti_labels t))
      in case observe (ti_metric t) (ti_description t) ls elapsed now m of
           (m', Some e) \<Rightarrow> (m', Inl e)
         | (m', None) \<Rightarrow> (m', func))"

section \<open>Frames and values\<close>

lemma spec_get_frame: "spec_get zero name desc ls now A = (A', res) \<Longrightarrow> n \<noteq> name \<Longrightarrow> A' n = A n"
  by (auto simp: spec_get_def map_metric_def mk_metric_def Let_def split: option.splits if_splits)

lemma spec_got:
  "spec_get zero name desc ls now A = (A', Inr x) \<Longrightarrow>
     metric_class (me_data x) = metric_class zero \<and> A' name (map_of ls) = Some x
     \<and> (\<forall>L. L \<noteq> map_of ls \<longrightarrow> A' name L = A name L) \<and> (A name (map_of ls) = None \<longrightarrow> me_data x = zero) \<and> (\<forall>y. A name (map_of ls) = Some y \<longrightarrow> x = y)"
  by (auto simp: spec_get_def map_metric_def mk_metric_def Let_def split: option.splits if_splits)

text \<open>A change that \<open>f\<close> may make: another datum of the metric, and counters stay nonnegative.\<close>

definition sets_data :: "real \<Rightarrow> (nat \<Rightarrow> metrics \<Rightarrow> exn + metrics) \<Rightarrow> bool" where
  "sets_data now f \<longleftrightarrow> (\<forall>r m m'. f r m = Inr m' \<longrightarrow> metrics_ok m \<longrightarrow> r < length (mt_heap m) \<longrightarrow>
     (\<exists>d. m' = set_data r d now m \<and> (case d of Counter v \<Rightarrow> 0 \<le> v | _ \<Rightarrow> True)))"

lemma sets_data_uses [simp]:
  "sets_data now (\<lambda>r m. and_then v (\<lambda>x. metric_inc r x now m))"
  "sets_data now (\<lambda>r. histogram_observe r x now)"
  "sets_data now (\<lambda>r. gauge_set r x now)"
proof -
  show "sets_data now (\<lambda>r m. and_then v (\<lambda>x. metric_inc r x now m))"
    unfolding sets_data_def and_then_Inr
    using metrics_ok_counter by (fastforce simp: metric_inc_def split: metric_data.splits if_splits)
qed (auto simp: sets_data_def histogram_observe_def gauge_set_def split: metric_data.splits)

lemma got_metric:
  assumes "metrics_ok m" "wf_dict ls" "get_or_create zero name desc ls now m = (m1, res)" "case zero of Counter v \<Rightarrow> 0 \<le> v | _ \<Rightarrow> True"
  shows "metrics_ok m1" "n \<noteq> name \<Longrightarrow> abs_metrics m1 n = abs_metrics m n"
    "res = Inr r \<Longrightarrow> r \<in> set (all_metrics m1) \<and> r < length (mt_heap m1) \<and> me_name (metric_at m1 r) = name \<and> map_of (me_labels (metric_at m1 r)) = map_of ls
       \<and> abs_metrics m1 name (map_of ls) = Some (metric_at m1 r) \<and> metric_class (me_data (metric_at m1 r)) = metric_class zero"
proof -
  have a: "metrics_ok m1" "spec_get zero name desc ls now (abs_metrics m) = (abs_metrics m1, map_sum id (metric_at m1) res)"
    using abs_get_or_create [OF assms] by auto
  then show "metrics_ok m1" "n \<noteq> name \<Longrightarrow> abs_metrics m1 n = abs_metrics m n" using spec_get_frame by blast+
  assume r: "res = Inr r"
  have key: "map_of (mt_table m1) (metric_key name ls) = Some r"
    using assms(3) r by (auto simp: get_or_create_def new_metric_def Let_def map_of_update split: option.splits if_splits)
  then have p: "(metric_key name ls, r) \<in> set (mt_table m1)" by (rule map_of_SomeD)
  have lt: "r < length (mt_heap m1)" "metric_key name ls = metric_key (me_name (metric_at m1 r)) (me_labels (metric_at m1 r))"
    using a(1) p by (auto simp: metrics_ok_def)
  then have "wf_dict (me_labels (metric_at m1 r))" using a(1) by (simp add: metrics_ok_def metric_at_def)
  then have "me_name (metric_at m1 r) = name \<and> map_of (me_labels (metric_at m1 r)) = map_of ls"
    using lt(2) metric_key_eq [OF assms(2)] by metis
  moreover have "abs_metrics m1 name (map_of ls) = Some (metric_at m1 r)"
    using abs_metrics_lookup [OF a(1) assms(2), of name] key by simp
  moreover have "metric_class (me_data (metric_at m1 r)) = metric_class zero"
    using spec_got [OF a(2) [unfolded r map_sum.simps]] by simp
  ultimately show "r \<in> set (all_metrics m1) \<and> r < length (mt_heap m1) \<and> me_name (metric_at m1 r) = name \<and> map_of (me_labels (metric_at m1 r)) = map_of ls
       \<and> abs_metrics m1 name (map_of ls) = Some (metric_at m1 r) \<and> metric_class (me_data (metric_at m1 r)) = metric_class zero"
    using p lt(1) by (force simp: all_metrics_def)
qed

lemma use_metric_frame:
  assumes "metrics_ok m" "wf_dict ls" "sets_data now f" "case zero of Counter v \<Rightarrow> 0 \<le> v | _ \<Rightarrow> True"
  shows "metrics_ok (fst (use_metric zero name desc ls now f m))
     \<and> (n \<noteq> name \<longrightarrow> abs_metrics (fst (use_metric zero name desc ls now f m)) n = abs_metrics m n)"
proof -
  obtain m1 res where g: "get_or_create zero name desc ls now m = (m1, res)" by fastforce
  note gm = got_metric [OF assms(1,2) g assms(4)]
  show ?thesis
  proof (cases "res")
    case (Inr r)
    note r = gm(3) [OF Inr]
    show ?thesis
    proof (cases "f r m1")
      case m2: (Inr m2)
      then obtain d where d: "m2 = set_data r d now m1" "case d of Counter v \<Rightarrow> 0 \<le> v | _ \<Rightarrow> True"
        using assms(3) gm(1) r unfolding sets_data_def by blast
      have "abs_metrics m2 = map_metric ((metric_at m1 r)\<lparr>me_data := d, me_time := now\<rparr>) (abs_metrics m1)"
        using abs_set_data [OF gm(1) _ d(2), of r now] r d(1) by simp
      then show ?thesis
        using metrics_ok_set [OF gm(1) d(2)] d(1) g Inr m2 gm(2) [of n] r by (simp add: use_metric_def map_metric_def)
    qed (use g Inr gm in \<open>simp add: use_metric_def\<close>)
  qed (use g gm in \<open>simp add: use_metric_def\<close>)
qed

lemma zeros_ok [simp]: "case Counter 0 of Counter v \<Rightarrow> 0 \<le> v | _ \<Rightarrow> True"
    "case Gauge x of Counter v \<Rightarrow> 0 \<le> v | _ \<Rightarrow> True" "case Histogram xs of Counter v \<Rightarrow> 0 \<le> v | _ \<Rightarrow> True"
  by simp_all

lemma use_frames:
  assumes "metrics_ok m" "wf_dict ls"
  shows "metrics_ok (fst (count_by name desc ls v now m))" "n \<noteq> name \<Longrightarrow> abs_metrics (fst (count_by name desc ls v now m)) n = abs_metrics m n"
    "metrics_ok (fst (count name desc ls now m))" "n \<noteq> name \<Longrightarrow> abs_metrics (fst (count name desc ls now m)) n = abs_metrics m n"
    "metrics_ok (fst (observe name desc ls x now m))" "n \<noteq> name \<Longrightarrow> abs_metrics (fst (observe name desc ls x now m)) n = abs_metrics m n"
    "metrics_ok (fst (set_gauge name desc ls x now m))" "n \<noteq> name \<Longrightarrow> abs_metrics (fst (set_gauge name desc ls x now m)) n = abs_metrics m n"
  using use_metric_frame [OF assms sets_data_uses(1) zeros_ok(1), where name = name and desc = desc and v1 = v and n = n]
    use_metric_frame [OF assms sets_data_uses(1) zeros_ok(1), where name = name and desc = desc and v1 = "Inr 1" and n = n]
    use_metric_frame [OF assms sets_data_uses(2) [where x = x] zeros_ok(3), where name = name and desc = desc and n = n]
    use_metric_frame [OF assms sets_data_uses(3) [where x = x] zeros_ok(2), where name = name and desc = desc and n = n]
  unfolding count_by_def count_def observe_def set_gauge_def by blast+

text \<open>The number a counter shows; a counter that does not exist shows 0.\<close>

definition counter_value :: "metrics \<Rightarrow> string \<Rightarrow> labels \<Rightarrow> real" where
  "counter_value m name ls =
     (case abs_metrics m name (map_of ls) of Some x \<Rightarrow> (case me_data x of Counter v \<Rightarrow> v | _ \<Rightarrow> 0) | None \<Rightarrow> 0)"

text \<open>A name under which there are only counters\<close>

definition counters_only :: "string \<Rightarrow> metrics \<Rightarrow> bool" where
  "counters_only name m \<longleftrightarrow> (\<forall>L x. abs_metrics m name L = Some x \<longrightarrow> metric_class (me_data x) = ''Counter'')"

lemma class_counter: "metric_class d = ''Counter'' \<longleftrightarrow> (\<exists>v. d = Counter v)"
  by (cases d) auto

lemma count_counts:
  assumes "metrics_ok m" "wf_dict ls" "counters_only name m"
  shows "\<exists>m'. count name desc ls now m = (m', None) \<and> metrics_ok m' \<and> counters_only name m'
     \<and> (\<forall>ls'. counter_value m' name ls' = counter_value m name ls' + (if map_of ls' = map_of ls then 1 else 0))"
proof -
  obtain m1 res where g: "get_or_create (Counter 0) name desc ls now m = (m1, res)" by fastforce
  note gm = got_metric [OF assms(1,2) g zeros_ok(1)]
  have sp: "spec_get (Counter 0) name desc ls now (abs_metrics m) = (abs_metrics m1, map_sum id (metric_at m1) res)"
    using abs_get_or_create [OF assms(1,2) g zeros_ok(1)] by auto
  have "\<exists>r. res = Inr r"
    using sp assms(3) by (cases res) (auto simp: spec_get_def counters_only_def Let_def split: option.splits if_splits)
  then obtain r where r: "res = Inr r" by blast
  note ri = gm(3) [OF r]
  then obtain v where v: "me_data (metric_at m1 r) = Counter v" using class_counter by auto
  have v0: "0 \<le> v" using metrics_ok_counter [OF gm(1) _ v] ri by blast
  define m2 where "m2 = set_data r (Counter (v + 1)) now m1"
  have c: "count name desc ls now m = (m2, None)"
    using g r v by (simp add: count_def count_by_def use_metric_def metric_inc_def m2_def)
  have ok: "metrics_ok m2" using metrics_ok_set [OF gm(1), of "Counter (v + 1)"] v0 by (simp add: m2_def)
  have a2: "abs_metrics m2 = map_metric ((metric_at m1 r)\<lparr>me_data := Counter (v + 1), me_time := now\<rparr>) (abs_metrics m1)"
    using abs_set_data [OF gm(1), of r "Counter (v + 1)" now] ri v0 by (simp add: m2_def)
  have a1: "abs_metrics m1 name L = abs_metrics m name L" if "L \<noteq> map_of ls" for L
    using spec_got [OF sp [unfolded r map_sum.simps]] that by blast
  have old: "counter_value m name ls = v"
    using spec_got [OF sp [unfolded r map_sum.simps]] v by (cases "abs_metrics m name (map_of ls)") (auto simp: counter_value_def)
  have "abs_metrics m2 name L = (if L = map_of ls then Some ((metric_at m1 r)\<lparr>me_data := Counter (v + 1), me_time := now\<rparr>) else abs_metrics m name L)" for L
    using a2 a1 ri by (simp add: map_metric_def)
  then have "counters_only name m2" "counter_value m2 name ls' = counter_value m name ls' + (if map_of ls' = map_of ls then 1 else 0)" for ls'
    using assms(3) old by (auto simp: counters_only_def counter_value_def)
  then show ?thesis using c ok by blast
qed

lemma count_keeps:
  assumes "abs_metrics m' name = abs_metrics m name"
  shows "counters_only name m' = counters_only name m" "counter_value m' name ls = counter_value m name ls"
  using assms by (simp_all add: counters_only_def counter_value_def)

end
