(* ===== verification/ProviderManager.thy ===== *)
theory ProviderManager
  imports OpenAIAdapter MetricUse
begin

text \<open>
  \<open>ProviderManager\<close> of \<open>yasin_core/providers/base.py\<close>: the registry of providers, the routing of a
  request, generation with fallbacks, streams, the metrics of both, health and status. Providers are
  objects in \<open>pm_objects\<close> and the registry maps names to their numbers; two providers are the same only if
  they are the same object. The configuration and the metrics of the client are parts of the state, absent when the
  manager has no client or the client has no such service.
\<close>

record provider_manager =
  pm_objects :: "provider list"
  pm_table :: "(string \<times> nat) list"
  pm_config :: "config option"
  pm_metrics :: "metrics option"

section \<open>The registry\<close>

definition provider_at :: "provider_manager \<Rightarrow> nat \<Rightarrow> provider" where
  "provider_at pm r = pm_objects pm ! r"

definition register_provider :: "nat \<Rightarrow> provider_manager \<Rightarrow> provider_manager" where
  "register_provider r pm = pm\<lparr>pm_table := AList.update (provider_name (provider_at pm r)) r (pm_table pm)\<rparr>"

text \<open>A provider that a caller has made is an object before it is registered.\<close>

definition new_provider :: "provider \<Rightarrow> provider_manager \<Rightarrow> provider_manager \<times> nat" where
  "new_provider p pm = (pm\<lparr>pm_objects := pm_objects pm @ [p]\<rparr>, length (pm_objects pm))"

definition remove_provider :: "string \<Rightarrow> provider_manager \<Rightarrow> provider_manager \<times> nat option" where
  "remove_provider name pm = (pm\<lparr>pm_table := AList.delete name (pm_table pm)\<rparr>, map_of (pm_table pm) name)"

definition get_provider :: "provider_manager \<Rightarrow> string \<Rightarrow> nat option" where
  "get_provider pm name = map_of (pm_table pm) name"

definition list_providers :: "provider_manager \<Rightarrow> string list" where
  "list_providers pm = dict_keys (pm_table pm)"

definition pm_init :: "config option \<Rightarrow> metrics option \<Rightarrow> provider_manager" where
  "pm_init cfg ms =
     fold (\<lambda>p pm. case new_provider p pm of (pm', r) \<Rightarrow> register_provider r pm')
       [Local, Mock ''Mock response'', OpenAI new_openai]
       \<lparr> pm_objects = [], pm_table = [], pm_config = cfg, pm_metrics = ms \<rparr>"

section \<open>Initialisation\<close>

definition provider_rule :: "config_type \<Rightarrow> pyval \<Rightarrow> string \<Rightarrow> bool \<Rightarrow> schema_rule" where
  "provider_rule ty dflt desc sensitive =
     \<lparr> ru_type = ty, ru_required = False, ru_default = dflt, ru_description = desc, ru_validator = None, ru_sensitive = sensitive \<rparr>"

definition provider_schemas :: "(string \<times> schema_rule) list" where
  "provider_schemas =
     [(''providers.default'', provider_rule TStr (PStr ''local'') ''Default AI provider'' False),
      (''providers.fallbacks'', provider_rule TList (PList [PStr ''mock'']) ''Fallback provider list'' False),
      (''providers.openai.api_key'', provider_rule TStr (PStr []) ''OpenAI API key'' True),
      (''providers.openai.base_url'', provider_rule TStr (PStr ''https://api.openai.com/v1'') ''OpenAI Base URL'' False),
      (''providers.openai.default_model'', provider_rule TStr (PStr ''gpt-4o-mini'') ''OpenAI Default Model'' False)]"

text \<open>The first schema that is refused ends the registration; its exception is only logged.\<close>

fun register_schemas :: "config_env \<Rightarrow> (string \<times> schema_rule) list \<Rightarrow> config \<Rightarrow> config" where
  "register_schemas env [] m = m"
| "register_schemas env ((k, ru) # rules) m =
     (case register_schema env k ru m of (m1, Some _) \<Rightarrow> m1 | (m1, None) \<Rightarrow> register_schemas env rules m1)"

fun initialize_provider :: "config option \<Rightarrow> provider \<Rightarrow> provider" where
  "initialize_provider cfg (OpenAI oa) = OpenAI (openai_initialize cfg oa)"
| "initialize_provider cfg p = p"

definition pm_initialize :: "config_env \<Rightarrow> provider_manager \<Rightarrow> provider_manager" where
  "pm_initialize env pm =
     (let cfg = map_option (register_schemas env provider_schemas) (pm_config pm)
      in pm\<lparr>pm_config := cfg,
            pm_objects := fold (\<lambda>r objs. objs[r := initialize_provider cfg (objs ! r)]) (map snd (pm_table pm)) (pm_objects pm)\<rparr>)"

section \<open>Routing\<close>

definition no_providers :: exn where
  "no_providers = Exn AIProviderErr ''No registered AI providers found.''"

text \<open>One of the places that may name a provider, and what follows if it names none that is registered\<close>

definition or_else :: "exn + nat option \<Rightarrow> exn + nat \<Rightarrow> exn + nat" where
  "or_else found rest = (case found of Inl e \<Rightarrow> Inl e | Inr (Some r) \<Rightarrow> Inr r | Inr None \<Rightarrow> rest)"

definition explicit_provider :: "provider_manager \<Rightarrow> ai_request \<Rightarrow> exn + nat option" where
  "explicit_provider pm q = (case map_of (ai_extra q) ''provider'' of None \<Rightarrow> Inr None | Some v \<Rightarrow> lookup_any (pm_table pm) v)"

definition model_provider :: "provider_manager \<Rightarrow> ai_request \<Rightarrow> exn + nat option" where
  "model_provider pm q =
     (case ai_model q of
        None \<Rightarrow> Inr None
      | Some m \<Rightarrow> Inr (if CHR ''/'' \<in> set m then get_provider pm (hd (str_split (CHR ''/'') m)) else None))"

definition default_provider :: "provider_manager \<Rightarrow> exn + nat option" where
  "default_provider pm =
     (case pm_config pm of
        None \<Rightarrow> Inr None
      | Some c \<Rightarrow> (let v = cf_get ''providers.default'' PNone c in if truthy v then lookup_any (pm_table pm) v else Inr None))"

definition route_request :: "provider_manager \<Rightarrow> ai_request \<Rightarrow> exn + nat" where
  "route_request pm q =
     or_else (explicit_provider pm q)
    (or_else (model_provider pm q)
    (or_else (default_provider pm)
    (or_else (Inr (get_provider pm ''mock''))
       (case pm_table pm of [] \<Rightarrow> Inl no_providers | (name, r) # _ \<Rightarrow> Inr r))))"

section \<open>Metrics\<close>

definition on_metrics :: "(metrics \<Rightarrow> metrics \<times> exn option) \<Rightarrow> provider_manager \<Rightarrow> provider_manager" where
  "on_metrics f pm = pm\<lparr>pm_metrics := map_option (\<lambda>m. fst (f m)) (pm_metrics pm)\<rparr>"

text \<open>The counters of one attempt; \<open>error\<close> is the name of the exception's class if it failed. The first exception
  ends the recording and is swallowed.\<close>

definition token_usage :: "labels \<Rightarrow> real \<Rightarrow> string \<times> pyval \<Rightarrow> metrics \<Rightarrow> metrics \<times> exn option" where
  "token_usage ls now p =
     count_by ''yasin_ai_token_usage_total'' ''Total number of AI tokens used'' (AList.update ''token_type'' (fst p) ls) (py_float (snd p)) now"

definition record_generation :: "labels \<Rightarrow> real \<Rightarrow> pyval \<Rightarrow> pyval \<Rightarrow> pyval \<Rightarrow> string option \<Rightarrow> real \<Rightarrow> metrics \<Rightarrow> metrics \<times> exn option" where
  "record_generation ls duration prompt completion tokens err now m =
     m_then (m_then (m_then
       (count ''yasin_ai_generation_requests_total'' ''Total number of AI generation requests'' ls now m)
       (case err of
          None \<Rightarrow> (\<lambda>m. (m, None))
        | Some name \<Rightarrow> count ''yasin_ai_generation_errors_total'' ''Total number of AI generation failures''
            (AList.update ''error_type'' (if name \<noteq> [] then name else ''unknown'') ls) now))
       (observe ''yasin_ai_generation_duration_seconds'' ''Duration of AI generation requests in seconds'' ls duration now))
       (\<lambda>m. if err \<noteq> None then (m, None)
            else case positive tokens of
                   Inl e \<Rightarrow> (m, Some e)
                 | Inr False \<Rightarrow> (m, None)
                 | Inr True \<Rightarrow> m_then (m_then (token_usage ls now (''prompt'', prompt) m) (token_usage ls now (''completion'', completion)))
                                 (token_usage ls now (''total'', tokens)))"

definition generation_labels :: "provider \<Rightarrow> string option \<Rightarrow> labels" where
  "generation_labels p model = [(''provider'', provider_name p), (''model'', or_text model ''unknown'')]"

section \<open>Generation with fallbacks\<close>

definition pm_generate :: "provider_env \<Rightarrow> string \<Rightarrow> string \<Rightarrow> provider_manager \<Rightarrow> exn + pyval" where
  "pm_generate env name prompt pm =
     (case get_provider pm name of
        None \<Rightarrow> Inl (Exn ValueErr (''Provider '' @ quoted name @ '' is not registered.''))
      | Some r \<Rightarrow> provider_text env r (provider_at pm r) prompt)"

fun extend_candidates :: "(string \<times> nat) list \<Rightarrow> pyval list \<Rightarrow> nat list \<Rightarrow> exn + nat list" where
  "extend_candidates tab [] rs = Inr rs"
| "extend_candidates tab (v # vs) rs =
     and_then (lookup_any tab v) (\<lambda>found.
       extend_candidates tab vs (case found of None \<Rightarrow> rs | Some r \<Rightarrow> if r \<in> set rs then rs else rs @ [r]))"

definition fallback_names :: "string list \<Rightarrow> provider_manager \<Rightarrow> exn + pyval list" where
  "fallback_names chain pm =
     (if chain \<noteq> [] then Inr (map PStr chain)
      else case pm_config pm of
             None \<Rightarrow> Inr []
           | Some c \<Rightarrow> iterate (cf_get ''providers.fallbacks'' (PList []) c))"

definition candidates :: "string list \<Rightarrow> provider_manager \<Rightarrow> nat \<Rightarrow> exn + nat list" where
  "candidates chain pm r = and_then (fallback_names chain pm) (\<lambda>vs. extend_candidates (pm_table pm) vs [r])"

text \<open>The tokens are read from the usage before the success is recorded; a usage that is no dictionary makes the
  attempt a failure.\<close>

definition attempt :: "provider_env \<Rightarrow> ai_request \<Rightarrow> provider_manager \<Rightarrow> nat \<Rightarrow> exn + (ai_response \<times> pyval \<times> pyval \<times> pyval)" where
  "attempt env q pm r =
     and_then (provider_response env r (provider_at pm r) q) (\<lambda>a.
     and_then (value_get (ar_usage a) ''prompt_tokens'' (PInt 0)) (\<lambda>p.
     and_then (value_get (ar_usage a) ''completion_tokens'' (PInt 0)) (\<lambda>c.
     and_then (value_get (ar_usage a) ''total_tokens'' (PInt 0)) (\<lambda>t. Inr (a, p, c, t)))))"

definition record_attempt :: "provider_env \<Rightarrow> ai_request \<Rightarrow> nat \<Rightarrow> exn + (ai_response \<times> pyval \<times> pyval \<times> pyval) \<Rightarrow> provider_manager \<Rightarrow> provider_manager" where
  "record_attempt env q r res pm =
     on_metrics (case res of
         Inr (a, p, c, t) \<Rightarrow> record_generation (generation_labels (provider_at pm r) (ai_model q)) (pe_duration env r) p c t None (pe_now env)
       | Inl e \<Rightarrow> record_generation (generation_labels (provider_at pm r) (ai_model q)) (pe_duration env r) (PInt 0) (PInt 0) (PInt 0)
                    (Some (exn_name (exn_class e))) (pe_now env)) pm"

definition all_failed :: exn where
  "all_failed = Exn AIProviderErr ''AI Provider generation failed on all attempted providers.''"

fun try_each :: "provider_env \<Rightarrow> ai_request \<Rightarrow> nat list \<Rightarrow> exn option \<Rightarrow> provider_manager \<Rightarrow> provider_manager \<times> (exn + ai_response)" where
  "try_each env q [] last_error pm = (pm, Inl (case last_error of Some e \<Rightarrow> e | None \<Rightarrow> all_failed))"
| "try_each env q (r # rs) last_error pm =
     (let res = attempt env q pm r; pm' = record_attempt env q r res pm
      in case res of Inr (a, _) \<Rightarrow> (pm', Inr a) | Inl e \<Rightarrow> try_each env q rs (Some e) pm')"

definition generate_response :: "provider_env \<Rightarrow> ai_request \<Rightarrow> string list \<Rightarrow> provider_manager \<Rightarrow> provider_manager \<times> (exn + ai_response)" where
  "generate_response env q chain pm =
     (case route_request pm q of
        Inl e \<Rightarrow> (pm, Inl (Exn AIProviderErr (''Routing failed: '' @ exn_msg e)))
      | Inr r \<Rightarrow> (case candidates chain pm r of
          Inl e \<Rightarrow> (pm, Inl e)
        | Inr rs \<Rightarrow> try_each env q rs None pm))"

section \<open>Streams\<close>

text \<open>\<open>"".join(full_text)\<close>: only strings can be joined.\<close>

fun joined :: "nat \<Rightarrow> stream_item list \<Rightarrow> exn + string" where
  "joined n [] = Inr []"
| "joined n (x # xs) =
     (let found = (\<lambda>ty. Inl (Exn TypeErr (''sequence item '' @ nat_str n @ '': expected str instance, '' @ ty @ '' found'')))
      in case x of
           Item_Response _ \<Rightarrow> found ''AIResponse''
         | Item_Text v \<Rightarrow> (case v of PStr s \<Rightarrow> and_then (joined (Suc n) xs) (\<lambda>t. Inr (s @ t)) | _ \<Rightarrow> found (py_type_name v))
         | Item_Chunk c \<Rightarrow> (case ck_text c of PStr s \<Rightarrow> and_then (joined (Suc n) xs) (\<lambda>t. Inr (s @ t)) | v \<Rightarrow> found (py_type_name v)))"

definition stream_provider :: "provider_manager \<Rightarrow> string + ai_request \<Rightarrow> string option \<Rightarrow> exn + nat" where
  "stream_provider pm req name =
     (if given name
      then (case get_provider pm (the name) of
              Some r \<Rightarrow> Inr r
            | None \<Rightarrow> Inl (Exn AIProviderErr ''No AI provider resolved for streaming.''))
      else route_request pm (case req of Inr q \<Rightarrow> q | Inl s \<Rightarrow> mk_ai_request (Some s) None None None None False None))"

text \<open>
  The items a consumer receives that asks for \<open>asked\<close> of them, or for all, and the exception it gets. The
  generator is suspended after an item: metrics are recorded only if the consumer asks for more than there are.
\<close>

definition generate_stream ::
  "provider_env \<Rightarrow> string + ai_request \<Rightarrow> string option \<Rightarrow> nat option \<Rightarrow> provider_manager \<Rightarrow> provider_manager \<times> stream_item list \<times> exn option" where
  "generate_stream env req name asked pm =
     (if asked = Some 0 then (pm, [], None)
      else case stream_provider pm req name of
        Inl e \<Rightarrow> (pm, [], Some e)
      | Inr r \<Rightarrow>
          (case provider_stream env r (provider_at pm r) req of
             (items, raised) \<Rightarrow>
               if (case asked of Some n \<Rightarrow> n \<le> length items | None \<Rightarrow> False) then (pm, take (the asked) items, None)
               else let ls = generation_labels (provider_at pm r) (case req of Inr q \<Rightarrow> ai_model q | Inl _ \<Rightarrow> None);
                        outcome = (case raised of Some e \<Rightarrow> Inl e | None \<Rightarrow> joined 0 items)
                    in case outcome of
                         Inl e \<Rightarrow> (on_metrics (record_generation ls (pe_duration env r) (PInt 0) (PInt 0) (PInt 0)
                                     (Some (exn_name (exn_class e))) (pe_now env)) pm, items, Some e)
                       | Inr s \<Rightarrow> (on_metrics (record_generation ls (pe_duration env r) (PInt 0) (PInt (int (length s div 4)))
                                     (PInt (int (length s div 4))) None (pe_now env)) pm, items, None)))"

section \<open>Health and status\<close>

definition health_entry :: "provider_env \<Rightarrow> provider_manager \<Rightarrow> nat \<Rightarrow> pyval \<times> bool" where
  "health_entry env pm r =
     (case and_then (provider_health env r (provider_at pm r)) (\<lambda>h. and_then (value_get h ''healthy'' (PBool True)) (\<lambda>ok. Inr (h, truthy ok))) of
        Inr x \<Rightarrow> x
      | Inl e \<Rightarrow> (PDict [(''status'', PStr ''unhealthy''), (''healthy'', PBool False), (''error'', PStr (exn_msg e))], False))"

definition pm_health :: "provider_env \<Rightarrow> provider_manager \<Rightarrow> pydict" where
  "pm_health env pm =
     (let ok = list_all (\<lambda>p. snd (health_entry env pm (snd p))) (pm_table pm)
      in [(''status'', PStr (if ok then ''healthy'' else ''degraded'')), (''healthy'', PBool ok),
          (''providers'', PDict (map (\<lambda>p. (fst p, fst (health_entry env pm (snd p)))) (pm_table pm)))])"

definition pm_status :: "provider_env \<Rightarrow> provider_manager \<Rightarrow> pydict" where
  "pm_status env pm =
     [(''state'', PStr ''active''), (''registered_providers'', PList (map PStr (list_providers pm))),
      (''providers_details'', PDict (map (\<lambda>p. (fst p, PDict
         [(''capabilities'', PDict (provider_capabilities env (snd p) (provider_at pm (snd p)))),
          (''models'', PList (provider_models env (snd p) (provider_at pm (snd p))))])) (pm_table pm)))]"

end
