(* ===== verification/ProviderProps.thy ===== *)
theory ProviderProps
  imports ProviderManager
begin

text \<open>
  What generation promises: the order of the attempts, which response or exception comes out, that every attempt
  is counted once, and that streams carry the text of the provider.
\<close>

section \<open>Candidates\<close>

lemma extend_candidates:
  assumes "extend_candidates tab vs rs = Inr rs'" "distinct rs"
  shows "distinct rs' \<and> (\<exists>ext. rs' = rs @ ext \<and> set ext = {r. \<exists>v \<in> set vs. lookup_any tab v = Inr (Some r)} - set rs
     \<and> subseq ext (List.map_filter (\<lambda>v. case lookup_any tab v of Inr (Some r) \<Rightarrow> Some r | _ \<Rightarrow> None) vs))"
  using assms
proof (induction tab vs rs rule: extend_candidates.induct)
  case (1 tab rs)
  then show ?case by simp
next
  case (2 tab v vs rs)
  obtain found where f: "lookup_any tab v = Inr found" using "2.prems"(1) by (auto simp: and_then_Inr)
  define rs1 where "rs1 = (case found of None \<Rightarrow> rs | Some r \<Rightarrow> if r \<in> set rs then rs else rs @ [r])"
  have p: "extend_candidates tab vs rs1 = Inr rs'" "distinct rs1"
    using "2.prems" f by (auto simp: rs1_def split: option.splits)
  obtain ext where ext: "distinct rs'" "rs' = rs1 @ ext" "set ext = {r. \<exists>v \<in> set vs. lookup_any tab v = Inr (Some r)} - set rs1"
    "subseq ext (List.map_filter (\<lambda>v. case lookup_any tab v of Inr (Some r) \<Rightarrow> Some r | _ \<Rightarrow> None) vs)"
    using "2.IH" [of found] p unfolding rs1_def by blast
  show ?case
  proof (cases found)
    case None
    then show ?thesis using ext f by (auto simp: rs1_def map_filter_simps)
  next
    case (Some r)
    show ?thesis
    proof (cases "r \<in> set rs")
      case True
      then show ?thesis using ext f Some by (auto simp: rs1_def map_filter_simps)
    next
      case False
      then show ?thesis using ext f Some by (intro conjI ext(1) exI [of _ "r # ext"]) (auto simp: rs1_def map_filter_simps)
    qed
  qed
qed

definition named_providers :: "provider_manager \<Rightarrow> pyval list \<Rightarrow> nat list" where
  "named_providers pm vs = List.map_filter (\<lambda>v. case lookup_any (pm_table pm) v of Inr (Some r) \<Rightarrow> Some r | _ \<Rightarrow> None) vs"

lemma mem_map_filter: "y \<in> set (List.map_filter f xs) \<longleftrightarrow> (\<exists>x \<in> set xs. f x = Some y)"
  by (induction xs) (auto simp: map_filter_simps split: option.splits)

lemma found_Some: "(case x of Inr (Some r) \<Rightarrow> Some r | _ \<Rightarrow> None) = Some y \<longleftrightarrow> x = Inr (Some y)"
  by (auto split: sum.splits option.splits)

lemma candidates_order:
  assumes "fallback_names chain pm = Inr vs" "candidates chain pm r = Inr rs"
  shows "distinct rs \<and> (\<exists>ext. rs = r # ext \<and> subseq ext (named_providers pm vs) \<and> set rs = insert r (set (named_providers pm vs)))"
proof -
  have "extend_candidates (pm_table pm) vs [r] = Inr rs" using assms by (simp add: candidates_def)
  then obtain ext where e: "distinct rs" "rs = [r] @ ext" "set ext = {r. \<exists>v \<in> set vs. lookup_any (pm_table pm) v = Inr (Some r)} - {r}"
     "subseq ext (List.map_filter (\<lambda>v. case lookup_any (pm_table pm) v of Inr (Some r) \<Rightarrow> Some r | _ \<Rightarrow> None) vs)"
    using extend_candidates [of "pm_table pm" vs "[r]" rs] by auto
  have s: "set (named_providers pm vs) = {r. \<exists>v \<in> set vs. lookup_any (pm_table pm) v = Inr (Some r)}"
    by (auto simp: named_providers_def mem_map_filter found_Some)
  show ?thesis using e s by (auto simp: named_providers_def)
qed

section \<open>Attempts\<close>

text \<open>Recording changes the metrics only, on which no attempt depends.\<close>

lemma record_attempt_fields [simp]:
  "pm_objects (record_attempt env q r res pm) = pm_objects pm" "pm_table (record_attempt env q r res pm) = pm_table pm"
  "pm_config (record_attempt env q r res pm) = pm_config pm"
  by (simp_all add: record_attempt_def on_metrics_def)

lemma attempt_record [simp]: "attempt env q (record_attempt env q' r' res pm) r = attempt env q pm r"
  by (simp add: attempt_def provider_at_def)

definition answers :: "provider_env \<Rightarrow> ai_request \<Rightarrow> provider_manager \<Rightarrow> nat \<Rightarrow> bool" where
  "answers env q pm r \<longleftrightarrow> \<not> isl (attempt env q pm r)"

lemma answers_record [simp]: "answers env q (record_attempt env q' r' res pm) = answers env q pm"
  by (simp add: answers_def fun_eq_iff)

text \<open>The candidates up to the first that answers\<close>

fun tried :: "(nat \<Rightarrow> bool) \<Rightarrow> nat list \<Rightarrow> nat list" where
  "tried P [] = []"
| "tried P (r # rs) = (if P r then [r] else r # tried P rs)"

lemma tried_Nil [simp]: "tried P rs = [] \<longleftrightarrow> rs = []"
  by (cases rs) simp_all

lemma last_tried: "s \<in> set rs \<Longrightarrow> P s \<Longrightarrow> P (last (tried P rs))"
  by (induction rs) auto

definition outcome :: "provider_env \<Rightarrow> ai_request \<Rightarrow> provider_manager \<Rightarrow> nat \<Rightarrow> exn + ai_response" where
  "outcome env q pm r = map_sum id fst (attempt env q pm r)"

definition record_all :: "provider_env \<Rightarrow> ai_request \<Rightarrow> nat list \<Rightarrow> provider_manager \<Rightarrow> provider_manager" where
  "record_all env q rs pm = fold (\<lambda>r pm'. record_attempt env q r (attempt env q pm r) pm') rs pm"

lemma record_all_Cons:
  "record_all env q (r # rs) pm = record_all env q rs (record_attempt env q r (attempt env q pm r) pm)"
  by (simp add: record_all_def)

lemma try_each_tried:
  "try_each env q rs e pm =
     (record_all env q (tried (answers env q pm) rs) pm,
      if rs = [] then Inl (case e of Some x \<Rightarrow> x | None \<Rightarrow> all_failed) else outcome env q pm (last (tried (answers env q pm) rs)))"
proof (induction rs arbitrary: e pm)
  case Nil
  then show ?case by (simp add: record_all_def)
next
  case (Cons r rs)
  show ?case
  proof (cases "attempt env q pm r")
    case (Inr x)
    then show ?thesis by (cases x) (simp add: answers_def record_all_def outcome_def Let_def)
  next
    case (Inl x)
    show ?thesis
      using Inl Cons.IH [of "Some x" "record_attempt env q r (Inl x) pm"]
      by (cases "rs = []") (auto simp: answers_def record_all_Cons outcome_def Let_def record_all_def)
  qed
qed

text \<open>
  \<open>C5\<close>. A request that is routed is tried on the routed provider and then, in the order of the fallback chain, on
  each registered provider the chain names, none twice, until one answers with a response whose usage can be read; that
  response is returned. If none answers, the exception of the last attempt is raised. Nothing but the metrics changes.
\<close>

theorem fallback_outcome:
  assumes "route_request pm q = Inr r" "fallback_names chain pm = Inr vs" "candidates chain pm r = Inr rs"
  shows "let tr = tried (answers env q pm) rs; (pm', res) = generate_response env q chain pm
     in distinct rs \<and> rs \<noteq> [] \<and> hd rs = r \<and> subseq (tl rs) (named_providers pm vs)
        \<and> set rs = insert r (set (named_providers pm vs))
        \<and> res = outcome env q pm (last tr)
        \<and> ((\<exists>s \<in> set rs. answers env q pm s) \<longrightarrow> \<not> isl res)
        \<and> pm_objects pm' = pm_objects pm \<and> pm_table pm' = pm_table pm \<and> pm_config pm' = pm_config pm"
proof -
  obtain ext where rs: "distinct rs" "rs = r # ext" "subseq ext (named_providers pm vs)" "set rs = insert r (set (named_providers pm vs))"
    using candidates_order [OF assms(2,3)] by blast
  have g: "generate_response env q chain pm = (record_all env q (tried (answers env q pm) rs) pm, outcome env q pm (last (tried (answers env q pm) rs)))"
    using assms(1,3) rs(2) try_each_tried [of env q rs None pm] by (simp add: generate_response_def)
  have ans: "(\<exists>s \<in> set rs. answers env q pm s) \<longrightarrow> \<not> isl (outcome env q pm (last (tried (answers env q pm) rs)))"
    using last_tried [of _ rs "answers env q pm"] unfolding outcome_def isl_map_sum by (auto simp: answers_def)
  have keep: "pm_objects (record_all env q ss pm) = pm_objects pm \<and> pm_table (record_all env q ss pm) = pm_table pm \<and> pm_config (record_all env q ss pm) = pm_config pm" for ss
  proof -
    have "pm_objects (fold (\<lambda>r. record_attempt env q r (f r)) ss x) = pm_objects x \<and> pm_table (fold (\<lambda>r. record_attempt env q r (f r)) ss x) = pm_table x
        \<and> pm_config (fold (\<lambda>r. record_attempt env q r (f r)) ss x) = pm_config x" for x f
      by (induction ss arbitrary: x) simp_all
    then show ?thesis by (simp add: record_all_def)
  qed
  show ?thesis
    using g rs ans keep by (simp add: Let_def)
qed

section \<open>Every attempt is counted\<close>

abbreviation requests :: string where
  "requests \<equiv> ''yasin_ai_generation_requests_total''"

lemma record_generation_counts:
  assumes "metrics_ok m" "counters_only requests m" "wf_dict ls"
  shows "\<exists>m'. fst (record_generation ls d p c t err now m) = m' \<and> metrics_ok m' \<and> counters_only requests m'
     \<and> (\<forall>ls'. counter_value m' requests ls' = counter_value m requests ls' + (if map_of ls' = map_of ls then 1 else 0))"
proof -
  obtain m1 where m1: "count requests ''Total number of AI generation requests'' ls now m = (m1, None)" "metrics_ok m1" "counters_only requests m1"
      "\<And>ls'. counter_value m1 requests ls' = counter_value m requests ls' + (if map_of ls' = map_of ls then 1 else 0)"
    using count_counts [OF assms(1,3,2)] by blast
  define Q where "Q m' \<longleftrightarrow> metrics_ok m' \<and> abs_metrics m' requests = abs_metrics m1 requests" for m'
  have tok: "Q (fst (token_usage ls now x m'))" if "Q m'" for x m'
    using that use_frames(1,2) [of m' "AList.update ''token_type'' (fst x) ls"] assms(3) by (simp add: Q_def token_usage_def)
  have "Q (fst (record_generation ls d p c t err now m))"
    unfolding record_generation_def m1(1) m_then_simps(1)
  proof (rule m_then_keeps [of Q], rule m_then_keeps [of Q])
    show "Q (fst ((case err of None \<Rightarrow> \<lambda>m. (m, None)
        | Some name \<Rightarrow> count ''yasin_ai_generation_errors_total'' ''Total number of AI generation failures''
            (AList.update ''error_type'' (if name \<noteq> [] then name else ''unknown'') ls) now) m1))"
      by (cases err) (simp_all add: Q_def use_frames(3,4) m1(2) assms(3))
    show "Q (fst (observe ''yasin_ai_generation_duration_seconds'' ''Duration of AI generation requests in seconds'' ls d now m'))" if "Q m'" for m'
      using that use_frames(5,6) [of m' ls] assms(3) by (simp add: Q_def)
    show "Q (fst (if err \<noteq> None then (m', None) else case positive t of Inl e \<Rightarrow> (m', Some e) | Inr False \<Rightarrow> (m', None)
        | Inr True \<Rightarrow> m_then (m_then (token_usage ls now (''prompt'', p) m') (token_usage ls now (''completion'', c))) (token_usage ls now (''total'', t))))"
      if "Q m'" for m'
      using that tok m_then_keeps [of Q] by (auto split: sum.splits bool.splits)
  qed
  then show ?thesis using m1(3,4) count_keeps [of _ requests m1] unfolding Q_def by metis
qed

text \<open>
  When the client's metrics use the name for counters, generation counts every attempt exactly once: the number of
  requests of a provider's name and the model grows by the attempts on providers of that name, failed ones
  included, and the counters of other labels stay.
\<close>

theorem attempts_counted:
  assumes "pm_metrics pm = Some m" "metrics_ok m" "counters_only requests m"
    "route_request pm q = Inr r" "candidates chain pm r = Inr rs"
  shows "\<exists>m'. pm_metrics (fst (generate_response env q chain pm)) = Some m' \<and> metrics_ok m'
     \<and> (\<forall>ls. counter_value m' requests ls = counter_value m requests ls
          + real (length (filter (\<lambda>s. map_of (generation_labels (provider_at pm s) (ai_model q)) = map_of ls)
                                 (tried (answers env q pm) rs))))"
proof -
  have step: "\<exists>m'. pm_metrics (record_attempt env q s res x) = Some m' \<and> metrics_ok m' \<and> counters_only requests m'
      \<and> (\<forall>ls. counter_value m' requests ls = counter_value y requests ls
           + (if map_of ls = map_of (generation_labels (provider_at x s) (ai_model q)) then 1 else 0))"
    if "pm_metrics x = Some y" "metrics_ok y" "counters_only requests y" for x y s res
    using that record_generation_counts [OF that(2,3), of "generation_labels (provider_at x s) (ai_model q)"]
    by (auto simp: record_attempt_def on_metrics_def generation_labels_def wf_dict_def split: sum.splits prod.splits)
  have "\<exists>m'. pm_metrics (fold (\<lambda>r. record_attempt env q r (f r)) ss x) = Some m' \<and> metrics_ok m'
      \<and> (\<forall>ls. counter_value m' requests ls = counter_value y requests ls
           + real (length (filter (\<lambda>s. map_of (generation_labels (provider_at x s) (ai_model q)) = map_of ls) ss)))"
    if "pm_metrics x = Some y" "metrics_ok y" "counters_only requests y" for x y ss f
    using that
  proof (induction ss arbitrary: x y)
    case (Cons s ss)
    obtain y' where y': "pm_metrics (record_attempt env q s (f s) x) = Some y'" "metrics_ok y'" "counters_only requests y'"
      "\<And>ls. counter_value y' requests ls = counter_value y requests ls
           + (if map_of ls = map_of (generation_labels (provider_at x s) (ai_model q)) then 1 else 0)"
      using step [OF Cons.prems] by blast
    show ?case using Cons.IH [OF y'(1-3)] y'(4) by (auto simp: provider_at_def algebra_simps)
  qed simp
  moreover have "rs \<noteq> []"
    using assms(5) extend_candidates [of "pm_table pm" _ "[r]" rs] by (auto simp: candidates_def and_then_Inr)
  ultimately show ?thesis
    using assms try_each_tried [of env q rs None pm] by (simp add: generate_response_def record_all_def)
qed

section \<open>Streams\<close>

lemma joined_chunks: "ws \<noteq> [] \<Longrightarrow> joined n (map Item_Chunk (word_chunks ws)) = Inr (str_join (CHR '' '') ws)"
  by (induction ws arbitrary: n rule: word_chunks.induct) (simp_all add: mk_chunk_def)

lemma joined_words: "joined n (map (\<lambda>w. Item_Text (PStr (w @ '' ''))) ws) = Inr (concat (map (\<lambda>w. w @ '' '') ws))"
  by (induction ws arbitrary: n) simp_all

lemma concat_words: "ws \<noteq> [] \<Longrightarrow> concat (map (\<lambda>w. w @ '' '') ws) = str_join (CHR '' '') ws @ '' ''"
  by (induction ws rule: word_chunks.induct) simp_all

lemma joined_text_chunks: "joined 0 (text_chunks s) = Inr s"
  by (simp add: text_chunks_def joined_chunks str_join_split)

lemma last_chunk_only: "ws \<noteq> [] \<Longrightarrow> map ck_last (word_chunks ws) = replicate (length ws - 1) False @ [True]"
  by (induction ws rule: word_chunks.induct) (simp_all add: mk_chunk_def)

text \<open>
  The chunks of the mock provider for a request are its words, of which only the last is marked as the last, and
  joined they are the text that the provider generates. A text is streamed with one space too many at its end.
\<close>

theorem mock_stream_text:
  "joined 0 (fst (provider_stream env r (Mock dflt) (Inr q))) = Inr (mock_text dflt (request_text q))
   \<and> provider_response env r (Mock dflt) q = Inr (mock_generate dflt q) \<and> ar_text (mock_generate dflt q) = PStr (mock_text dflt (request_text q))
   \<and> (\<exists>cs. fst (provider_stream env r (Mock dflt) (Inr q)) = map Item_Chunk cs \<and> map ck_last cs = replicate (length cs - 1) False @ [True])
   \<and> joined 0 (fst (provider_stream env r (Mock dflt) (Inl s))) = Inr (mock_text dflt s @ '' '')"
proof -
  have l: "ws \<noteq> [] \<Longrightarrow> length (word_chunks ws) = length ws" for ws by (induction ws rule: word_chunks.induct) simp_all
  have "\<exists>cs. fst (provider_stream env r (Mock dflt) (Inr q)) = map Item_Chunk cs \<and> map ck_last cs = replicate (length cs - 1) False @ [True]"
    by (intro exI [of _ "word_chunks (str_split (CHR '' '') (mock_text dflt (request_text q)))"])
      (simp add: provider_stream_def mock_stream_def text_chunks_def last_chunk_only l)
  then show ?thesis
    by (simp add: provider_stream_def mock_stream_def joined_text_chunks provider_response_def mock_generate_def mk_ai_response_def Let_def
        text_words_def joined_words concat_words str_join_split)
qed

text \<open>A provider that keeps the inherited stream delivers its whole response and then ends with an exception, which
  is counted as a failure: a response cannot be joined.\<close>

lemma inherited_stream_fails:
  assumes "stream_provider pm (Inr q) name = Inr r" "provider_at pm r = Custom n" "pe_custom_stream env r (Inr q) = None"
    "provider_response env r (Custom n) q = Inr a"
  shows "\<exists>pm' msg. generate_stream env (Inr q) name None pm = (pm', [Item_Response a], Some (Exn TypeErr msg))"
  using assms by (simp add: generate_stream_def provider_stream_def default_stream_def Let_def)

text \<open>An answer without choices is no provider error.\<close>

lemma empty_choices_index_error:
  "openai_read model (PDict [(''choices'', PList [])]) = Inl (Exn IndexErr ''list index out of range'')"
  by (simp add: openai_read_def value_first_def)

section \<open>Witnesses\<close>

text \<open>An environment in which every other provider is down\<close>

definition down_env :: provider_env where
  "down_env = \<lparr> pe_shown = (\<lambda>_. ''?''), pe_post = (\<lambda>_ _ _. Inl ''refused''), pe_loads = (\<lambda>_. None),
     pe_custom_text = (\<lambda>_ _. Inl (Exn AIProviderErr ''down'')), pe_custom_generate = (\<lambda>_ _. Inl (Exn AIProviderErr ''down'')),
     pe_custom_stream = (\<lambda>_ _. None), pe_custom_health = (\<lambda>_. None), pe_custom_capabilities = (\<lambda>_. None),
     pe_custom_models = (\<lambda>_. None), pe_duration = (\<lambda>_. 1), pe_now = 5 \<rparr>"

definition two_providers :: provider_manager where
  "two_providers = \<lparr> pm_objects = [Custom ''big'', Mock ''M''], pm_table = [(''big'', 0), (''mock'', 1)], pm_config = None, pm_metrics = Some mt_init \<rparr>"

abbreviation hello :: ai_request where
  "hello \<equiv> mk_ai_request (Some ''hi'') None (Some ''big/x'') None None False None"

lemma two_route: "route_request two_providers hello = Inr 0"
  by (simp add: route_request_def or_else_def explicit_provider_def model_provider_def mk_ai_request_def two_providers_def get_provider_def)

lemma two_candidates:
  "fallback_names [''mock'', ''big''] two_providers = Inr [PStr ''mock'', PStr ''big'']" "candidates [''mock'', ''big''] two_providers 0 = Inr [0, 1]"
  by (simp_all add: candidates_def fallback_names_def two_providers_def)

lemma two_answers: "answers down_env hello two_providers 0 = False" "answers down_env hello two_providers 1 = True"
  by (simp_all add: answers_def attempt_def provider_response_def provider_at_def two_providers_def down_env_def mock_generate_def mk_ai_response_def
      estimated_usage_def usage_dict_def Let_def)

theorem fallback_outcome_witness:
  "case snd (generate_response down_env hello [''mock'', ''big''] two_providers) of Inr a \<Rightarrow> ar_text a = PStr ''M: hi'' | Inl _ \<Rightarrow> False"
  using fallback_outcome [OF two_route two_candidates, of down_env] two_answers
  by (auto simp: Let_def outcome_def attempt_def provider_response_def provider_at_def two_providers_def mock_generate_def mk_ai_response_def
      mk_ai_request_def mock_text_def request_text_def or_text_def estimated_usage_def usage_dict_def split: prod.splits)

theorem attempts_counted_witness:
  "\<exists>m'. pm_metrics (fst (generate_response down_env hello [''mock'', ''big''] two_providers)) = Some m'
     \<and> counter_value m' requests [(''provider'', ''big''), (''model'', ''big/x'')] = 1"
proof -
  have "counters_only requests mt_init" "counter_value mt_init requests ls = 0" for ls
    by (simp_all add: counters_only_def counter_value_def abs_metrics_def all_metrics_def mt_init_def)
  then show ?thesis
    using attempts_counted [of two_providers mt_init hello 0 "[''mock'', ''big'']" "[0, 1]" down_env, OF _ metrics_ok_init _ two_route two_candidates(2)] two_answers
    by (auto simp: generation_labels_def provider_at_def two_providers_def mk_ai_request_def or_text_def fun_eq_iff)
qed

end
