(* ===== verification/ErrorTracking.thy ===== *)
theory ErrorTracking
  imports MetricUse
begin

text \<open>
  The two bounded histories of \<open>yasin_core/observability\<close>: the tracker of errors (\<open>error_tracker.py\<close>) and the
  provider that keeps snapshots of the metrics (\<open>providers.py\<close>).
\<close>

section \<open>Errors\<close>

record error_record =
  er_time :: real
  er_component :: string
  er_message :: pyval
  er_traceback :: "string option"
  er_context :: "string option"
  er_metadata :: pyval

text \<open>A time stamp of 0 and empty metadata count as not given.\<close>

definition mk_error :: "string \<Rightarrow> pyval \<Rightarrow> string option \<Rightarrow> string option \<Rightarrow> pyval \<Rightarrow> real option \<Rightarrow> real \<Rightarrow> error_record" where
  "mk_error component message tb ctx metadata stamp now =
     \<lparr> er_time = (case stamp of Some t \<Rightarrow> if t \<noteq> 0 then t else now | None \<Rightarrow> now), er_component = component, er_message = message,
       er_traceback = tb, er_context = ctx, er_metadata = (if truthy metadata then metadata else PDict []) \<rparr>"

definition error_to_dict :: "error_record \<Rightarrow> pydict" where
  "error_to_dict e =
     [(''timestamp'', PFloat (er_time e)), (''component'', PStr (er_component e)), (''message'', er_message e),
      (''traceback'', opt_str (er_traceback e)), (''context_id'', opt_str (er_context e)), (''metadata'', er_metadata e)]"

record error_tracker =
  et_max :: nat
  et_errors :: "error_record list"

definition et_init :: "nat \<Rightarrow> error_tracker" where
  "et_init n = \<lparr> et_max = n, et_errors = [] \<rparr>"

definition et_append :: "error_record \<Rightarrow> error_tracker \<Rightarrow> error_tracker" where
  "et_append e t = t\<lparr>et_errors := bounded_push (et_max t) (et_errors t) e\<rparr>"

text \<open>\<open>tb\<close> is the formatted traceback of the exception.\<close>

definition record_error :: "string \<Rightarrow> exn \<Rightarrow> string \<Rightarrow> string option \<Rightarrow> pyval \<Rightarrow> real \<Rightarrow> error_tracker \<Rightarrow> error_tracker \<times> error_record" where
  "record_error component e tb ctx metadata now t =
     (let r = mk_error component (PStr (exn_msg e)) (Some tb) ctx metadata None now in (et_append r t, r))"

definition record_custom_error :: "string \<Rightarrow> pyval \<Rightarrow> string option \<Rightarrow> string option \<Rightarrow> pyval \<Rightarrow> real \<Rightarrow> error_tracker \<Rightarrow> error_tracker \<times> error_record" where
  "record_custom_error component message tb ctx metadata now t =
     (let r = mk_error component message tb ctx metadata None now in (et_append r t, r))"

definition error_passes :: "string option \<Rightarrow> string option \<Rightarrow> real option \<Rightarrow> real option \<Rightarrow> error_record \<Rightarrow> bool" where
  "error_passes component ctx start_time end_time e \<longleftrightarrow>
     (case component of Some c \<Rightarrow> c = [] \<or> er_component e = c | None \<Rightarrow> True)
     \<and> (case ctx of Some c \<Rightarrow> c = [] \<or> er_context e = Some c | None \<Rightarrow> True)
     \<and> (case start_time of Some t \<Rightarrow> t = 0 \<or> t \<le> er_time e | None \<Rightarrow> True)
     \<and> (case end_time of Some t \<Rightarrow> t = 0 \<or> er_time e \<le> t | None \<Rightarrow> True)"

definition get_errors :: "string option \<Rightarrow> string option \<Rightarrow> real option \<Rightarrow> real option \<Rightarrow> int option \<Rightarrow> error_tracker \<Rightarrow> error_record list" where
  "get_errors component ctx start_time end_time limit t =
     (let found = filter (error_passes component ctx start_time end_time) (et_errors t)
      in case limit of None \<Rightarrow> found | Some n \<Rightarrow> last_slice n found)"

definition et_clear :: "error_tracker \<Rightarrow> error_tracker" where
  "et_clear t = t\<lparr>et_errors := []\<rparr>"

section \<open>Snapshots\<close>

record snapshots =
  sn_max :: nat
  sn_taken :: "(real \<times> pydict list) list"

definition sn_init :: snapshots where
  "sn_init = \<lparr> sn_max = 1000, sn_taken = [] \<rparr>"

definition metric_dicts :: "metrics \<Rightarrow> pydict list" where
  "metric_dicts m = map (\<lambda>r. metric_dict (metric_at m r)) (all_metrics m)"

definition sn_collect :: "real \<Rightarrow> metrics \<Rightarrow> snapshots \<Rightarrow> snapshots" where
  "sn_collect now m s = s\<lparr>sn_taken := bounded_push (sn_max s) (sn_taken s) (now, metric_dicts m)\<rparr>"

definition sn_export :: "snapshots \<Rightarrow> (real \<times> pydict list) list" where
  "sn_export s = sn_taken s"

definition sn_latest :: "snapshots \<Rightarrow> (real \<times> pydict list) option" where
  "sn_latest s = (if sn_taken s = [] then None else Some (last (sn_taken s)))"

definition sn_clear :: "snapshots \<Rightarrow> snapshots" where
  "sn_clear s = s\<lparr>sn_taken := []\<rparr>"

section \<open>The tracker keeps the newest errors\<close>

text \<open>The abstract tracker: all errors since the last clearing, of which the newest can be seen\<close>

datatype tracked = T_Error string exn string "string option" pyval real | T_Custom string pyval "string option" "string option" pyval real | T_Clear

fun track :: "tracked \<Rightarrow> error_tracker \<Rightarrow> error_tracker" where
  "track (T_Error c e tb ctx md now) t = fst (record_error c e tb ctx md now t)"
| "track (T_Custom c msg tb ctx md now) t = fst (record_custom_error c msg tb ctx md now t)"
| "track T_Clear t = et_clear t"

fun all_errors :: "tracked \<Rightarrow> error_record list \<Rightarrow> error_record list" where
  "all_errors (T_Error c e tb ctx md now) es = es @ [mk_error c (PStr (exn_msg e)) (Some tb) ctx md None now]"
| "all_errors (T_Custom c msg tb ctx md now) es = es @ [mk_error c msg tb ctx md None now]"
| "all_errors T_Clear es = []"

lemma track_newest:
  assumes "et_errors t = drop (length es - n) es" "et_max t = n"
  shows "et_errors (track op t) = drop (length (all_errors op es) - n) (all_errors op es) \<and> et_max (track op t) = n"
  using assms bounded_push_keeps_newest [OF assms(1)]
  by (cases op) (simp_all add: record_error_def record_custom_error_def et_append_def et_clear_def Let_def del: drop_append)

lemma track_all_newest:
  "et_errors (fold track ops (et_init n)) = drop (length (fold all_errors ops []) - n) (fold all_errors ops []) \<and> et_max (fold track ops (et_init n)) = n"
proof -
  have "et_errors t = drop (length es - n) es \<Longrightarrow> et_max t = n \<Longrightarrow>
      et_errors (fold track ops t) = drop (length (fold all_errors ops es) - n) (fold all_errors ops es) \<and> et_max (fold track ops t) = n" for t es
    by (induction ops arbitrary: t es) (simp_all, metis track_newest)
  from this [of "et_init n" "[]"] show ?thesis by (simp add: et_init_def)
qed

text \<open>
  \<open>C25\<close>. Whatever was recorded and cleared, a query sees the newest errors since the last clearing, at most the maximum,
  in the order they were recorded, and gives those that pass its filters; a positive limit keeps the last ones.
\<close>

theorem tracker_shows_newest:
  "let t = fold track ops (et_init n); seen = drop (length (fold all_errors ops []) - n) (fold all_errors ops []);
       found = filter (error_passes component ctx start_time end_time) seen
   in length (et_errors t) \<le> n
      \<and> get_errors component ctx start_time end_time None t = found
      \<and> get_errors component ctx start_time end_time (Some (int (Suc k))) t = drop (length found - Suc k) found"
  using track_all_newest [of ops n] by (simp add: Let_def get_errors_def last_slice_def nat_add_distrib)

text \<open>A limit of 0 does not limit.\<close>

lemma limit_zero_gives_all: "get_errors c x s e (Some 0) t = get_errors c x s e None t"
  by (simp add: get_errors_def last_slice_def)

end
