(* ===== verification/Observability.thy ===== *)
theory Observability
  imports ErrorTracking EventBus ServiceManager
begin

text \<open>
  \<open>ObservabilityService\<close> of \<open>yasin_core/observability/service.py\<close>: the metrics of API requests and of
  the events on the bus, the collection of the state of the other components, health and status. A provider that is
  not the in-memory one is a number whose \<open>collect\<close> is a function on the registry. What the operating
  system and the components of the client report is \<open>sources\<close>, absent where the client has no such component.
\<close>

datatype metric_provider = In_Memory snapshots | Other_Provider nat

record observability =
  ob_metrics :: metrics
  ob_errors :: error_tracker
  ob_providers :: "metric_provider list"
  ob_initialized :: bool

definition ob_init :: observability where
  "ob_init = \<lparr> ob_metrics = mt_init, ob_errors = et_init 500, ob_providers = [], ob_initialized = False \<rparr>"

definition on_registry :: "(metrics \<Rightarrow> metrics \<times> exn option) \<Rightarrow> observability \<Rightarrow> observability \<times> exn option" where
  "on_registry f ob = (case f (ob_metrics ob) of (m, r) \<Rightarrow> (ob\<lparr>ob_metrics := m\<rparr>, r))"

section \<open>Life cycle\<close>

text \<open>Another provider is registered once. A new in-memory provider is a new object, which is never in the list.\<close>

definition register_metric_provider :: "metric_provider \<Rightarrow> observability \<Rightarrow> observability" where
  "register_metric_provider p ob =
     (case p of
        Other_Provider n \<Rightarrow> if Other_Provider n \<in> set (ob_providers ob) then ob else ob\<lparr>ob_providers := ob_providers ob @ [p]\<rparr>
      | In_Memory _ \<Rightarrow> ob\<lparr>ob_providers := ob_providers ob @ [p]\<rparr>)"

text \<open>\<open>h\<close> is the number of the bound method \<open>_handle_event\<close> on the bus of the client.\<close>

text \<open>
  The readings of the process: of \<open>psutil\<close> where it is installed, else the peak that \<open>resource\<close> reports (in bytes on
  macOS, in kilobytes elsewhere), and nothing is left to raise then.
\<close>

record process_env =
  pe_psutil :: bool
  pe_rss :: "exn + int"
  pe_cpu :: "exn + real"
  pe_maxrss :: "exn + int"
  pe_darwin :: bool

definition process_memory_mb :: "process_env \<Rightarrow> exn + real" where
  "process_memory_mb p =
     (if pe_psutil p then map_sum id (\<lambda>rss. of_int rss / (1024 * 1024)) (pe_rss p)
      else case pe_maxrss p of
             Inl _ \<Rightarrow> Inr 0
           | Inr usage \<Rightarrow> Inr (if pe_darwin p then of_int usage / (1024 * 1024) else of_int usage / 1024))"

definition process_cpu_percent :: "process_env \<Rightarrow> exn + real" where
  "process_cpu_percent p = (if pe_psutil p then pe_cpu p else Inr 0)"

lemma readings_without_psutil: "\<not> pe_psutil p \<Longrightarrow> \<exists>m c. process_memory_mb p = Inr m \<and> process_cpu_percent p = Inr c"
  by (cases "pe_maxrss p") (simp_all add: process_memory_mb_def process_cpu_percent_def)

definition ob_initialize :: "nat \<Rightarrow> observability \<Rightarrow> event_bus option \<Rightarrow> observability \<times> event_bus option" where
  "ob_initialize h ob bus =
     (if ob_initialized ob then (ob, bus)
      else ((register_metric_provider (In_Memory sn_init) ob)\<lparr>ob_initialized := True\<rparr>, map_option (subscribe ''*'' h None False) bus))"

definition ob_shutdown :: "nat \<Rightarrow> observability \<Rightarrow> event_bus option \<Rightarrow> observability \<times> event_bus option" where
  "ob_shutdown h ob bus =
     (if \<not> ob_initialized ob then (ob, bus) else (ob\<lparr>ob_initialized := False\<rparr>, map_option (unsubscribe ''*'' h) bus))"

definition clear_provider :: "metric_provider \<Rightarrow> metric_provider" where
  "clear_provider p = (case p of In_Memory s \<Rightarrow> In_Memory (sn_clear s) | Other_Provider n \<Rightarrow> Other_Provider n)"

definition ob_reload :: "observability \<Rightarrow> observability" where
  "ob_reload ob = ob\<lparr>ob_metrics := mt_clear (ob_metrics ob), ob_errors := et_clear (ob_errors ob),
                     ob_providers := map clear_provider (ob_providers ob)\<rparr>"

section \<open>API requests\<close>

definition record_api_request :: "string \<Rightarrow> string \<Rightarrow> int \<Rightarrow> real \<Rightarrow> real \<Rightarrow> observability \<Rightarrow> observability \<times> exn option" where
  "record_api_request meth endpoint status_code response_time now =
     (let ls = [(''method'', meth), (''endpoint'', endpoint), (''status_class'', int_str (status_code div 100) @ ''xx'')]
      in on_registry (\<lambda>m. m_then (m_then
           (count ''yasin_api_requests_total'' ''Total number of API requests processed'' ls now m)
           (observe ''yasin_api_request_duration_seconds'' ''API request duration in seconds''
              [(''method'', meth), (''endpoint'', endpoint)] response_time now))
           (\<lambda>m. if status_code \<ge> 400
                then count ''yasin_api_request_errors_total'' ''Total number of API request errors''
                       (AList.update ''status_code'' (int_str status_code) ls) now m
                else (m, None))))"

section \<open>Events\<close>

text \<open>
  The value of a label is hashed with the key of the metric, which lists and dictionaries refuse. Values that
  are not strings are represented by their text.
\<close>

definition label_text :: "(pyval \<Rightarrow> string) \<Rightarrow> pyval \<Rightarrow> exn + string" where
  "label_text shown v =
     (case v of
        PList _ \<Rightarrow> Inl (Exn TypeErr (''unhashable type: '' @ quoted ''list''))
      | PDict _ \<Rightarrow> Inl (Exn TypeErr (''unhashable type: '' @ quoted ''dict''))
      | _ \<Rightarrow> Inr (py_text shown v))"

definition payload_label :: "(pyval \<Rightarrow> string) \<Rightarrow> pyval \<Rightarrow> string \<Rightarrow> exn + string" where
  "payload_label shown payload k = and_then (value_get payload k (PStr ''unknown'')) (label_text shown)"

definition count_task :: "(pyval \<Rightarrow> string) \<Rightarrow> string \<Rightarrow> string \<Rightarrow> pyval \<Rightarrow> real \<Rightarrow> metrics \<Rightarrow> metrics \<times> exn option" where
  "count_task shown name desc payload now m =
     (case and_then (payload_label shown payload ''id'') (\<lambda>i. and_then (payload_label shown payload ''name'') (\<lambda>n. Inr (i, n))) of
        Inl e \<Rightarrow> (m, Some e)
      | Inr (i, n) \<Rightarrow> count name desc [(''task_id'', i), (''task_name'', n)] now m)"

definition count_agent :: "(pyval \<Rightarrow> string) \<Rightarrow> string \<Rightarrow> string \<Rightarrow> pyval \<Rightarrow> real \<Rightarrow> metrics \<Rightarrow> metrics \<times> exn option" where
  "count_agent shown name desc payload now m =
     (case payload_label shown payload ''name'' of
        Inl e \<Rightarrow> (m, Some e)
      | Inr n \<Rightarrow> count name desc [(''agent_name'', n)] now m)"

definition failed_task :: "pyval \<Rightarrow> real \<Rightarrow> observability \<Rightarrow> observability \<times> exn option" where
  "failed_task payload now ob =
     (case value_get payload ''error'' (PStr ''Task execution failed'') of
        Inl e \<Rightarrow> (ob, Some e)
      | Inr msg \<Rightarrow> (ob\<lparr>ob_errors := fst (record_custom_error ''task_executor'' msg None None payload now (ob_errors ob))\<rparr>, None))"

definition handle_event :: "(pyval \<Rightarrow> string) \<Rightarrow> real \<Rightarrow> event \<Rightarrow> observability \<Rightarrow> observability \<times> exn option" where
  "handle_event shown now ev ob =
     (let name = ev_name ev; payload = ev_payload ev
      in m_then (on_registry (count ''yasin_event_bus_events_total'' ''Total number of events published on the Event Bus''
                    [(''event_name'', name)] now) ob)
           (\<lambda>ob.
              if name = ''task_started'' then
                on_registry (count_task shown ''yasin_tasks_started_total'' ''Total number of tasks started'' payload now) ob
              else if name = ''task_completed'' then
                on_registry (count_task shown ''yasin_tasks_completed_total'' ''Total number of tasks successfully completed'' payload now) ob
              else if name = ''task_failed'' then
                m_then (on_registry (count_task shown ''yasin_tasks_failed_total'' ''Total number of tasks that failed'' payload now) ob)
                  (failed_task payload now)
              else if name = ''agent_registered'' then
                on_registry (count_agent shown ''yasin_agents_registered_total'' ''Total number of agents registered'' payload now) ob
              else if name = ''agent_started'' then
                on_registry (count_agent shown ''yasin_agents_started_total'' ''Total number of agents started'' payload now) ob
              else if name = ''agent_stopped'' then
                on_registry (count_agent shown ''yasin_agents_stopped_total'' ''Total number of agents stopped'' payload now) ob
              else (ob, None)))"

section \<open>Collection\<close>

record sources =
  src_cpu :: real
  src_memory :: real
  src_services :: "service_manager option"
  src_contexts :: "(exn + pydict) option"
  src_plugins :: "(exn + pydict) option"
  src_short_term :: "(exn + pydict) option"
  src_long_term :: "(exn + pydict) option"
  src_collect :: "nat \<Rightarrow> metrics \<Rightarrow> metrics"

text \<open>The statuses carry integers under the keys that are read.\<close>

definition status_number :: "pydict \<Rightarrow> string \<Rightarrow> real" where
  "status_number d k = (case map_of d k of Some (PInt i) \<Rightarrow> real_of_int i | _ \<Rightarrow> 0)"

definition attempted :: "metrics \<times> exn option \<Rightarrow> metrics" where
  "attempted = fst"

definition collect_system :: "sources \<Rightarrow> real \<Rightarrow> metrics \<Rightarrow> metrics \<times> exn option" where
  "collect_system src now m =
     m_then (set_gauge ''yasin_runtime_cpu_percent'' ''Current process CPU usage percent'' [] (src_cpu src) now m)
       (set_gauge ''yasin_runtime_memory_mb'' ''Current process resident set size in MB'' [] (src_memory src) now)"

fun collect_services :: "service_manager \<Rightarrow> string list \<Rightarrow> real \<Rightarrow> metrics \<Rightarrow> metrics \<times> exn option" where
  "collect_services sv [] now m = (m, None)"
| "collect_services sv (name # names) now m =
     m_then (set_gauge ''yasin_service_healthy'' ''Health status of a registered service (1 = healthy, 0 = unhealthy)''
               [(''service_name'', name)] (if map_of (sv_states sv) name = Some S_ACTIVE then 1 else 0) now m)
       (collect_services sv names now)"

definition collect_contexts :: "pydict \<Rightarrow> real \<Rightarrow> metrics \<Rightarrow> metrics \<times> exn option" where
  "collect_contexts d now m =
     m_then (set_gauge ''yasin_contexts_total'' ''Total registered contexts'' [] (status_number d ''total_contexts'') now m)
       (set_gauge ''yasin_contexts_active'' ''Currently active contexts'' [] (status_number d ''active_contexts'') now)"

definition status_plugins :: "pydict \<Rightarrow> pydict" where
  "status_plugins d = (case map_of d ''plugins'' of Some (PDict ps) \<Rightarrow> ps | _ \<Rightarrow> [])"

definition active_plugin :: "pyval \<Rightarrow> bool" where
  "active_plugin p = (case p of PDict d \<Rightarrow> map_of d ''state'' = Some (PStr ''active'') | _ \<Rightarrow> False)"

definition collect_plugins :: "pydict \<Rightarrow> real \<Rightarrow> metrics \<Rightarrow> metrics \<times> exn option" where
  "collect_plugins d now m =
     m_then (set_gauge ''yasin_plugins_total'' ''Total discovered plugins'' [] (real (length (status_plugins d))) now m)
       (set_gauge ''yasin_plugins_active'' ''Currently active plugins'' []
          (real (length (filter (\<lambda>p. active_plugin (snd p)) (status_plugins d)))) now)"

definition collect_memory :: "string \<Rightarrow> pydict \<Rightarrow> real \<Rightarrow> metrics \<Rightarrow> metrics \<times> exn option" where
  "collect_memory category d now =
     set_gauge ''yasin_memory_entries_total'' ''Total entries in the memory module'' [(''category'', category)]
       (status_number d ''total_entries'') now"

text \<open>Each section is in a \<open>try\<close> of its own: what it changed before an exception stays.\<close>

definition guarded :: "(exn + pydict) option \<Rightarrow> (pydict \<Rightarrow> metrics \<Rightarrow> metrics \<times> exn option) \<Rightarrow> metrics \<Rightarrow> metrics" where
  "guarded st f m = (case st of Some (Inr d) \<Rightarrow> attempted (f d m) | _ \<Rightarrow> m)"

definition collect_components :: "sources \<Rightarrow> real \<Rightarrow> metrics \<Rightarrow> metrics" where
  "collect_components src now m =
     (let m1 = (case src_services src of Some sv \<Rightarrow> attempted (collect_services sv (dict_keys (sv_services sv)) now m) | None \<Rightarrow> m);
          m2 = guarded (src_contexts src) (\<lambda>d. collect_contexts d now) m1;
          m3 = guarded (src_plugins src) (\<lambda>d. collect_plugins d now) m2;
          m4 = guarded (src_short_term src) (\<lambda>d. collect_memory ''short-term'' d now) m3
      in guarded (src_long_term src) (\<lambda>d. collect_memory ''long-term'' d now) m4)"

fun collect_providers :: "sources \<Rightarrow> real \<Rightarrow> metric_provider list \<Rightarrow> metrics \<Rightarrow> metrics \<times> metric_provider list" where
  "collect_providers src now [] m = (m, [])"
| "collect_providers src now (p # ps) m =
     (let (m1, p1) = (case p of In_Memory s \<Rightarrow> (m, In_Memory (sn_collect now m s)) | Other_Provider n \<Rightarrow> (src_collect src n m, p));
          (m2, ps2) = collect_providers src now ps m1
      in (m2, p1 # ps2))"

definition collect_all :: "sources \<Rightarrow> real \<Rightarrow> observability \<Rightarrow> observability \<times> exn option" where
  "collect_all src now ob =
     m_then (on_registry (collect_system src now) ob)
       (\<lambda>ob. case collect_providers src now (ob_providers ob) (collect_components src now (ob_metrics ob)) of
               (m, ps) \<Rightarrow> (ob\<lparr>ob_metrics := m, ob_providers := ps\<rparr>, None))"

section \<open>Queries, health and status\<close>

definition get_metric_value :: "string \<Rightarrow> labels \<Rightarrow> observability \<Rightarrow> real option" where
  "get_metric_value name ls ob =
     (case query_metrics name ls None None (ob_metrics ob) of
        [] \<Rightarrow> None
      | r # _ \<Rightarrow> Some (case me_data (metric_at (ob_metrics ob) r) of Counter v \<Rightarrow> v | Gauge v \<Rightarrow> v | Histogram xs \<Rightarrow> sum_list xs))"

definition ob_query :: "string \<Rightarrow> labels \<Rightarrow> real option \<Rightarrow> real option \<Rightarrow> observability \<Rightarrow> pydict list" where
  "ob_query name ls start_time end_time ob =
     map (\<lambda>r. metric_dict (metric_at (ob_metrics ob) r)) (query_metrics name ls start_time end_time (ob_metrics ob))"

text \<open>The report reads the system once more: \<open>cpu\<close> and \<open>memory\<close>. \<open>services\<close> is the health of the client's
  services, empty without a client.\<close>

definition ob_health :: "sources \<Rightarrow> real \<Rightarrow> real \<Rightarrow> pydict \<Rightarrow> real \<Rightarrow> observability \<Rightarrow> observability \<times> (exn + pydict)" where
  "ob_health src cpu memory services now ob =
     (case collect_all src now ob of
        (ob1, Some e) \<Rightarrow> (ob1, Inl e)
      | (ob1, None) \<Rightarrow>
          (let es = get_errors None None None None None (ob_errors ob1)
           in (ob1, Inr [(''status'', PStr (if es \<noteq> [] then ''degraded'' else ''healthy'')), (''timestamp'', PFloat now),
                 (''system'', PDict [(''cpu_percent'', PFloat cpu), (''memory_mb'', PFloat memory)]),
                 (''error_summary'', PDict [(''total_errors'', PInt (int (length es))),
                    (''latest_error'', if es \<noteq> [] then er_message (last es) else PNone)]),
                 (''services'', PDict services)])))"

text \<open>The metrics of the first in-memory provider that has a snapshot\<close>

fun latest_snapshot :: "metric_provider list \<Rightarrow> pydict list" where
  "latest_snapshot [] = []"
| "latest_snapshot (p # ps) =
     (case p of
        In_Memory s \<Rightarrow> (case sn_latest s of Some (_, ds) \<Rightarrow> ds | None \<Rightarrow> latest_snapshot ps)
      | Other_Provider _ \<Rightarrow> latest_snapshot ps)"

definition ob_status :: "sources \<Rightarrow> real \<Rightarrow> observability \<Rightarrow> observability \<times> (exn + pydict)" where
  "ob_status src now ob =
     (case collect_all src now ob of
        (ob1, Some e) \<Rightarrow> (ob1, Inl e)
      | (ob1, None) \<Rightarrow>
          (let snap = latest_snapshot (ob_providers ob1); ds = (if snap = [] then metric_dicts (ob_metrics ob1) else snap)
           in (ob1, Inr [(''state'', PStr (if ob_initialized ob1 then ''active'' else ''inactive'')),
                 (''metrics_count'', PInt (int (length (all_metrics (ob_metrics ob1))))),
                 (''errors_count'', PInt (int (length (get_errors None None None None None (ob_errors ob1))))),
                 (''metrics'', PList (map PDict ds))])))"

end
