(* ===== verification/ObservabilityProps.thy ===== *)
theory ObservabilityProps
  imports Observability PluginRegistry AgentRuntime
begin

text \<open>
  What the observability service promises: every event is counted once under its name, the status reports the
  registry as it is after the collection; and two places where the code counts something else than it means to, shown
  on the events of the task executor and the status of the plugin registry.
\<close>

section \<open>Events are counted\<close>

abbreviation bus_events :: string where
  "bus_events \<equiv> ''yasin_event_bus_events_total''"

definition ob_counts :: "observability \<Rightarrow> bool" where
  "ob_counts ob \<longleftrightarrow> metrics_ok (ob_metrics ob) \<and> counters_only bus_events (ob_metrics ob)"

definition same_events :: "metrics \<Rightarrow> observability \<Rightarrow> bool" where
  "same_events m ob \<longleftrightarrow> metrics_ok (ob_metrics ob) \<and> abs_metrics (ob_metrics ob) bus_events = abs_metrics m bus_events"

lemma on_registry_fst: "ob_metrics (fst (on_registry f ob)) = fst (f (ob_metrics ob))"
  by (simp add: on_registry_def split: prod.splits)

lemma count_task_frame:
  assumes "metrics_ok m" "name \<noteq> bus_events"
  shows "metrics_ok (fst (count_task shown name desc p now m)) \<and> abs_metrics (fst (count_task shown name desc p now m)) bus_events = abs_metrics m bus_events"
  using assms use_frames(3,4) [OF assms(1)] by (simp add: count_task_def wf_dict_def split: sum.splits prod.splits)

lemma count_agent_frame:
  assumes "metrics_ok m" "name \<noteq> bus_events"
  shows "metrics_ok (fst (count_agent shown name desc p now m)) \<and> abs_metrics (fst (count_agent shown name desc p now m)) bus_events = abs_metrics m bus_events"
  using assms use_frames(3,4) [OF assms(1)] by (simp add: count_agent_def wf_dict_def split: sum.splits)

lemma handle_event_counts:
  assumes "ob_counts ob"
  shows "ob_counts (fst (handle_event shown now ev ob))
     \<and> counter_value (ob_metrics (fst (handle_event shown now ev ob))) bus_events [(''event_name'', n)]
       = counter_value (ob_metrics ob) bus_events [(''event_name'', n)] + (if ev_name ev = n then 1 else 0)"
proof -
  have w: "wf_dict [(''event_name'', ev_name ev)]" by (simp add: wf_dict_def)
  obtain m1 where m1: "count bus_events ''Total number of events published on the Event Bus'' [(''event_name'', ev_name ev)] now (ob_metrics ob) = (m1, None)"
      "metrics_ok m1" "counters_only bus_events m1"
      "\<And>ls. counter_value m1 bus_events ls = counter_value (ob_metrics ob) bus_events ls + (if map_of ls = map_of [(''event_name'', ev_name ev)] then 1 else 0)"
    using count_counts [OF _ w, of "ob_metrics ob" bus_events] assms unfolding ob_counts_def by blast
  define ob1 where "ob1 = ob\<lparr>ob_metrics := m1\<rparr>"
  have q1: "same_events m1 ob1" using m1(2) by (simp add: same_events_def ob1_def)
  have t: "same_events m1 (fst (on_registry (count_task shown name desc p now) x))" if "same_events m1 x" "name \<noteq> bus_events" for x name desc p
    using that count_task_frame [of "ob_metrics x" name] by (simp add: same_events_def on_registry_fst)
  have a: "same_events m1 (fst (on_registry (count_agent shown name desc p now) x))" if "same_events m1 x" "name \<noteq> bus_events" for x name desc p
    using that count_agent_frame [of "ob_metrics x" name] by (simp add: same_events_def on_registry_fst)
  have f: "same_events m1 (fst (failed_task p now x))" if "same_events m1 x" for x p
    using that by (simp add: same_events_def failed_task_def split: sum.splits)
  have tf: "same_events m1 (fst (m_then (on_registry (count_task shown ''yasin_tasks_failed_total'' desc p now) ob1) (failed_task p' now)))" for desc p p'
    by (rule m_then_keeps [of "same_events m1"]) (use t [OF q1] f in \<open>simp_all\<close>)
  have on: "on_registry (count bus_events ''Total number of events published on the Event Bus'' [(''event_name'', ev_name ev)] now) ob = (ob1, None)"
    by (simp add: on_registry_def m1(1) ob1_def)
  have "same_events m1 (fst (handle_event shown now ev ob))"
    unfolding handle_event_def Let_def on m_then_simps(1)
    using q1 t [OF q1] a [OF q1] tf by simp
  then have e: "metrics_ok (ob_metrics (fst (handle_event shown now ev ob)))"
      "abs_metrics (ob_metrics (fst (handle_event shown now ev ob))) bus_events = abs_metrics m1 bus_events"
    by (simp_all add: same_events_def)
  have l: "map_of [(''event_name'', n)] = map_of [(''event_name'', ev_name ev)] \<longleftrightarrow> ev_name ev = n"
    by (auto dest: fun_cong [of _ _ "''event_name''"])
  show ?thesis
    using m1(3) m1(4) [of "[(''event_name'', n)]"] e(1) count_keeps [OF e(2)] l by (simp add: ob_counts_def)
qed

text \<open>
  From an initialised service on, the counter of an event name grows by the number of events of that name that
  are handled, whatever their payload is and even if a later step of the handler raises.
\<close>

theorem events_counted:
  assumes "ob_counts ob"
  shows "counter_value (ob_metrics (fold (\<lambda>(now, ev) ob. fst (handle_event shown now ev ob)) evs ob)) bus_events [(''event_name'', n)]
     = counter_value (ob_metrics ob) bus_events [(''event_name'', n)] + real (length (filter (\<lambda>(now, ev). ev_name ev = n) evs))"
  using assms
proof (induction evs arbitrary: ob)
  case (Cons p evs)
  obtain now ev where p: "p = (now, ev)" by fastforce
  show ?case
    using Cons.IH [of "fst (handle_event shown now ev ob)"] handle_event_counts [OF Cons.prems, of shown now ev n] p by simp
qed simp

lemma ob_counts_init: "ob_counts ob_init"
  using metrics_ok_init by (simp add: ob_counts_def ob_init_def counters_only_def abs_metrics_def all_metrics_def) (simp add: mt_init_def)

definition stopped_event :: event where
  "stopped_event = \<lparr> ev_name = ''agent_stopped'', ev_payload = PInt 3, ev_metadata = [], ev_timestamp = demo_time, ev_id = ''e'' \<rparr>"

theorem events_counted_witness:
  "counter_value (ob_metrics (fold (\<lambda>(now, ev) ob. fst (handle_event (\<lambda>_. ''?'') now ev ob)) [(1, stopped_event), (2, stopped_event)] ob_init))
     bus_events [(''event_name'', ''agent_stopped'')] = 2"
  using events_counted [OF ob_counts_init, of "\<lambda>_. ''?''" "[(1, stopped_event), (2, stopped_event)]" "''agent_stopped''"]
  by (simp add: stopped_event_def counter_value_def ob_init_def abs_metrics_def all_metrics_def mt_init_def)

section \<open>The status reports the registry\<close>

definition in_memory_only :: "observability \<Rightarrow> bool" where
  "in_memory_only ob \<longleftrightarrow> list_all (\<lambda>p. case p of In_Memory s \<Rightarrow> 0 < sn_max s | Other_Provider _ \<Rightarrow> False) (ob_providers ob)"

lemma collect_in_memory:
  "list_all (\<lambda>p. case p of In_Memory s \<Rightarrow> 0 < sn_max s | Other_Provider _ \<Rightarrow> False) ps \<Longrightarrow>
     \<exists>ps'. collect_providers src now ps m = (m, ps') \<and> (latest_snapshot ps' = metric_dicts m \<or> ps' = [])"
proof (induction ps)
  case (Cons p ps)
  then obtain s where s: "p = In_Memory s" "0 < sn_max s" by (auto split: metric_provider.splits)
  have "sn_latest (sn_collect now m s) = Some (now, metric_dicts m)"
    using bounded_push_last [OF s(2), of "sn_taken s" "(now, metric_dicts m)"] by (simp add: sn_latest_def sn_collect_def)
  then show ?case using Cons s(1) by (auto split: prod.splits)
qed simp

text \<open>
  With in-memory providers, as after initialisation, the status reports exactly the metrics that the registry holds
  when the collection is done, and their number.
\<close>

theorem status_reports_registry:
  assumes "in_memory_only ob" "ob_status src now ob = (ob', Inr d)"
  shows "map_of d ''metrics'' = Some (PList (map PDict (metric_dicts (ob_metrics ob'))))
     \<and> map_of d ''metrics_count'' = Some (PInt (int (length (metric_dicts (ob_metrics ob')))))
     \<and> map_of d ''errors_count'' = Some (PInt (int (length (et_errors (ob_errors ob)))))"
proof -
  obtain ob1 where c: "collect_all src now ob = (ob1, None)"
    using assms(2) by (auto simp: ob_status_def split: prod.splits option.splits)
  obtain ob2 where o2: "on_registry (collect_system src now) ob = (ob2, None)"
    using c by (auto simp: collect_all_def m_then_def split: prod.splits option.splits)
  have keep: "ob_providers ob2 = ob_providers ob" "ob_errors ob2 = ob_errors ob"
    using o2 by (auto simp: on_registry_def split: prod.splits)
  define m where "m = collect_components src now (ob_metrics ob2)"
  obtain ps where ps: "collect_providers src now (ob_providers ob2) m = (m, ps)" "latest_snapshot ps = metric_dicts m \<or> ps = []"
    using collect_in_memory [of "ob_providers ob2" src now m] assms(1) keep(1) unfolding in_memory_only_def by auto
  have ob1: "ob1 = ob2\<lparr>ob_metrics := m, ob_providers := ps\<rparr>"
    using c o2 ps(1) by (simp add: collect_all_def m_def)
  have all: "filter (error_passes None None None None) es = es" for es by (simp add: error_passes_def)
  have same: "ob' = ob1" using assms(2) c by (simp add: ob_status_def Let_def)
  have snap: "(if latest_snapshot ps = [] then metric_dicts m else latest_snapshot ps) = metric_dicts m"
    using ps(2) by auto
  show ?thesis
    using assms(2) c keep(2) snap unfolding same by (auto simp: ob_status_def Let_def ob1 metric_dicts_def get_errors_def all)
qed

text \<open>A service that was just initialised, and a system without components\<close>

definition no_sources :: sources where
  "no_sources = \<lparr> src_cpu = 3, src_memory = 80, src_services = None, src_contexts = None, src_plugins = None,
     src_short_term = None, src_long_term = None, src_collect = (\<lambda>_ m. m) \<rparr>"

theorem status_reports_registry_witness:
  "\<exists>ob' d. ob_status no_sources 7 (fst (ob_initialize 1 ob_init None)) = (ob', Inr d)
     \<and> map_of d ''metrics'' = Some (PList (map PDict (metric_dicts (ob_metrics ob')))) \<and> in_memory_only (fst (ob_initialize 1 ob_init None))"
proof -
  define ob where "ob = fst (ob_initialize 1 ob_init None)"
  have i: "in_memory_only ob"
    by (simp add: ob_def ob_initialize_def ob_init_def register_metric_provider_def in_memory_only_def sn_init_def)
  have "snd (collect_all no_sources 7 ob) = None"
    by (simp add: collect_all_def collect_system_def on_registry_def set_gauge_def use_metric_def get_or_create_def new_metric_def metric_key_def
        gauge_set_def metric_at_def mk_metric_def ob_def ob_initialize_def ob_init_def register_metric_provider_def mt_init_def set_data_def
        no_sources_def Let_def split: prod.splits)
  then obtain ob' d where "ob_status no_sources 7 ob = (ob', Inr d)"
    by (cases "collect_all no_sources 7 ob") (simp add: ob_status_def Let_def)
  then show ?thesis using status_reports_registry [OF i, of no_sources 7] i unfolding ob_def by blast
qed

section \<open>What is counted wrongly\<close>

text \<open>The states of plugins are upper-case words, so no plugin of the registry counts as active.\<close>

lemma no_active_plugins: "filter (\<lambda>p. active_plugin (snd p)) (status_plugins (pr_status pr)) = []"
proof -
  have "plugin_state_value s \<noteq> ''active''" for s by (cases s) simp_all
  then show ?thesis by (auto simp: status_plugins_def pr_status_def active_plugin_def filter_empty_conv)
qed

text \<open>The executor's events carry \<open>task_id\<close> and \<open>task_name\<close>, the handler reads \<open>id\<close> and \<open>name\<close>: all tasks are
  counted as one unknown task.\<close>

lemma tasks_counted_unknown:
  assumes "map_of extra ''id'' = None" "map_of extra ''name'' = None"
  shows "count_task shown name desc (PDict ([(''task_id'', PStr i), (''task_name'', PStr n)] @ extra @ [(''task'', PDict t)])) now m
     = count name desc [(''task_id'', ''unknown''), (''task_name'', ''unknown'')] now m"
  using assms by (simp add: count_task_def payload_label_def label_text_def py_text_def map_add_def)

text \<open>Every initialisation adds an in-memory provider, also after a shutdown.\<close>

lemma restart_adds_provider:
  assumes "ob_initialized ob"
  shows "ob_providers (fst (ob_initialize h (fst (ob_shutdown h ob b)) b')) = ob_providers ob @ [In_Memory sn_init]"
  using assms by (simp add: ob_shutdown_def ob_initialize_def register_metric_provider_def)

end
