(* ===== verification/ObservedBus.thy ===== *)
theory ObservedBus
  imports ObservabilityProps
begin

text \<open>
  The observability service on the bus of the client: the service subscribes when it is initialised and unsubscribes
  when it is shut down, other components subscribe, unsubscribe and publish in any order, and the bus calls the handler.
\<close>

section \<open>The composition\<close>

datatype bus_act = Publish_Event real event | Start_Observing | Stop_Observing
  | Other_Subscribes string nat "nat option" bool | Other_Unsubscribes string nat

text \<open>What the calls of the handler \<open>h\<close> in a publication do to the service\<close>

fun observe :: "nat \<Rightarrow> (pyval \<Rightarrow> string) \<Rightarrow> real \<Rightarrow> event \<Rightarrow> dispatch list \<Rightarrow> observability \<Rightarrow> observability" where
  "observe h shown now ev [] ob = ob"
| "observe h shown now ev (d # ds) ob =
     observe h shown now ev ds (case d of Called h' _ \<Rightarrow> if h' = h then fst (handle_event shown now ev ob) else ob | _ \<Rightarrow> ob)"

fun observed_step :: "bus_env \<Rightarrow> nat \<Rightarrow> (pyval \<Rightarrow> string) \<Rightarrow> bus_act \<Rightarrow> observability \<times> event_bus \<Rightarrow> observability \<times> event_bus" where
  "observed_step env h shown (Publish_Event now ev) (ob, b) =
     (case publish env ev b of (b', ds) \<Rightarrow> (observe h shown now ev ds ob, b'))"
| "observed_step env h shown Start_Observing (ob, b) =
     (case ob_initialize h ob (Some b) of (ob', Some b') \<Rightarrow> (ob', b') | (ob', None) \<Rightarrow> (ob', b))"
| "observed_step env h shown Stop_Observing (ob, b) =
     (case ob_shutdown h ob (Some b) of (ob', Some b') \<Rightarrow> (ob', b') | (ob', None) \<Rightarrow> (ob', b))"
| "observed_step env h shown (Other_Subscribes ev k f a) (ob, b) = (ob, subscribe ev k f a b)"
| "observed_step env h shown (Other_Unsubscribes ev k) (ob, b) = (ob, unsubscribe ev k b)"

text \<open>The handler's number belongs to the service alone.\<close>

fun foreign :: "nat \<Rightarrow> bus_act \<Rightarrow> bool" where
  "foreign h (Other_Subscribes ev k f a) = (k \<noteq> h)"
| "foreign h (Other_Unsubscribes ev k) = (k \<noteq> h)"
| "foreign h _ = True"

text \<open>
  The specification: the events named \<open>n\<close> that are published while the service is on. An event named \<open>*\<close> reaches
  the subscribers of \<open>*\<close> twice.
\<close>

fun published_on :: "string \<Rightarrow> bool \<Rightarrow> bus_act list \<Rightarrow> nat" where
  "published_on n on [] = 0"
| "published_on n on (Publish_Event _ ev # as) =
     (if on \<and> ev_name ev = n then (if n = ''*'' then 2 else 1) else 0) + published_on n on as"
| "published_on n on (Start_Observing # as) = published_on n True as"
| "published_on n on (Stop_Observing # as) = published_on n False as"
| "published_on n on (_ # as) = published_on n on as"

section \<open>Who is called\<close>

definition mine :: "nat \<Rightarrow> subscription list \<Rightarrow> subscription list" where
  "mine h ss = filter (\<lambda>s. sb_handler s = h) ss"

abbreviation plain :: "nat \<Rightarrow> subscription" where
  "plain h \<equiv> \<lparr> sb_handler = h, sb_filter = None, sb_async = False \<rparr>"

definition calls_of :: "nat \<Rightarrow> dispatch list \<Rightarrow> nat" where
  "calls_of h ds = length (filter (\<lambda>d. case d of Called k _ \<Rightarrow> k = h | _ \<Rightarrow> False) ds)"

lemma calls_of_simps [simp]: "calls_of h [] = 0" "calls_of h (ds @ ds') = calls_of h ds + calls_of h ds'"
  by (simp_all add: calls_of_def)

lemma dispatch_one_calls:
  assumes "\<And>k e b. eb_subs (fst (be_run env k e b)) = eb_subs b" "\<not> be_coro env h" "sb_handler s = h \<longrightarrow> s = plain h"
  shows "eb_subs (fst (dispatch_one env e s b)) = eb_subs b
     \<and> calls_of h (snd (dispatch_one env e s b)) = (if sb_handler s = h then 1 else 0)"
  using assms(1) [of "sb_handler s" e b] assms(2,3)
  by (auto simp: dispatch_one_def passes_def submit_to_executor_def get_executor_def calls_of_def split: prod.splits)

lemma dispatch_all_calls:
  assumes "\<And>k e b. eb_subs (fst (be_run env k e b)) = eb_subs b" "\<not> be_coro env h" "\<forall>s \<in> set ss. sb_handler s = h \<longrightarrow> s = plain h"
  shows "eb_subs (fst (dispatch_all env e ss b)) = eb_subs b \<and> calls_of h (snd (dispatch_all env e ss b)) = length (mine h ss)"
  using assms(3)
proof (induction ss arbitrary: b)
  case (Cons s ss)
  have "eb_subs (fst (dispatch_one env e s b)) = eb_subs b
     \<and> calls_of h (snd (dispatch_one env e s b)) = (if sb_handler s = h then 1 else 0)"
    by (rule dispatch_one_calls [OF assms(1,2)]) (use Cons.prems in simp)
  moreover have "\<forall>s \<in> set ss. sb_handler s = h \<longrightarrow> s = plain h" using Cons.prems by simp
  ultimately show ?case
    using Cons.IH [of "fst (dispatch_one env e s b)"] by (simp add: case_prod_beta mine_def)
qed (simp add: mine_def)

lemma on_registry_on [simp]: "ob_initialized (fst (on_registry f x)) = ob_initialized x"
  by (simp add: on_registry_def split: prod.splits)

lemma failed_task_on [simp]: "ob_initialized (fst (failed_task p now x)) = ob_initialized x"
  by (simp add: failed_task_def split: sum.splits)

lemma handle_event_on: "ob_initialized (fst (handle_event shown now ev ob)) = ob_initialized ob"
proof -
  have m: "ob_initialized (fst (m_then p f)) = ob_initialized ob"
    if "ob_initialized (fst p) = ob_initialized ob" "\<And>x. ob_initialized x = ob_initialized ob \<Longrightarrow> ob_initialized (fst (f x)) = ob_initialized ob" for p f
    using m_then_keeps [of "\<lambda>x. ob_initialized x = ob_initialized ob" p f] that by blast
  show ?thesis unfolding handle_event_def Let_def by (rule m) (auto intro!: m)
qed

lemma observe_counts:
  assumes "ob_counts ob"
  shows "ob_counts (observe h shown now ev ds ob) \<and> ob_initialized (observe h shown now ev ds ob) = ob_initialized ob
     \<and> counter_value (ob_metrics (observe h shown now ev ds ob)) bus_events [(''event_name'', n)]
       = counter_value (ob_metrics ob) bus_events [(''event_name'', n)] + (if ev_name ev = n then real (calls_of h ds) else 0)"
  using assms
proof (induction ds arbitrary: ob)
  case (Cons d ds)
  show ?case
    using Cons.IH [OF conjunct1 [OF handle_event_counts [OF Cons.prems, of shown now ev n]]] Cons.IH [OF Cons.prems]
      handle_event_counts [OF Cons.prems, of shown now ev n] handle_event_on [of shown now ev ob]
    by (auto simp: calls_of_def split: dispatch.splits)
qed simp

section \<open>The invariant\<close>

text \<open>The handler has one plain subscription, to \<open>*\<close>, while the service is on, and none while it is off.\<close>

definition attached :: "nat \<Rightarrow> bool \<Rightarrow> event_bus \<Rightarrow> bool" where
  "attached h on b \<longleftrightarrow> (\<forall>ev. mine h (entries (eb_subs b) ev) = (if on \<and> ev = ''*'' then [plain h] else []))"

lemma attached_plain:
  assumes "attached h on b"
  shows "\<forall>s \<in> set (entries (eb_subs b) ev). sb_handler s = h \<longrightarrow> s = plain h"
proof clarify
  fix s assume "s \<in> set (entries (eb_subs b) ev)" "h = sb_handler s"
  then have "s \<in> set (mine h (entries (eb_subs b) ev))" by (simp add: mine_def)
  then show "s = plain (sb_handler s)"
    using assms \<open>h = sb_handler s\<close> by (auto simp: attached_def split: if_splits)
qed

lemma attached_cong: "eb_subs b' = eb_subs b \<Longrightarrow> attached h on b' = attached h on b"
  by (simp add: attached_def)

lemma publish_calls:
  assumes "\<And>k e b. eb_subs (fst (be_run env k e b)) = eb_subs b" "\<not> be_coro env h" "attached h on b"
  shows "attached h on (fst (publish env ev b))
     \<and> calls_of h (snd (publish env ev b)) = (if on then (if ev_name ev = ''*'' then 2 else 1) else 0)"
proof -
  let ?b = "b\<lparr>eb_history := bounded_push (eb_max b) (eb_history b) ev\<rparr>"
  have r: "recipients ev ?b = recipients ev b" by (simp add: recipients_def)
  have "\<forall>s \<in> set (recipients ev b). sb_handler s = h \<longrightarrow> s = plain h"
    using attached_plain [OF assms(3)] by (auto simp: recipients_def)
  from dispatch_all_calls [OF assms(1,2) this, of ev ?b]
  have d: "eb_subs (fst (publish env ev b)) = eb_subs b" "calls_of h (snd (publish env ev b)) = length (mine h (recipients ev b))"
    by (simp_all add: publish_def Let_def r)
  have "length (mine h (recipients ev b)) = (if on then (if ev_name ev = ''*'' then 2 else 1) else 0)"
    using assms(3) by (simp add: recipients_def mine_def attached_def)
  then show ?thesis using d assms(3) attached_cong [OF d(1)] by simp
qed

lemma mine_empty: "mine h ss = [] \<longleftrightarrow> h \<notin> sb_handler ` set ss"
  by (auto simp: mine_def filter_empty_conv)

lemma attached_subscribe: "attached h on b \<Longrightarrow> k \<noteq> h \<Longrightarrow> attached h on (subscribe ev k f a b)"
  by (auto simp: attached_def subscribe_def Let_def entries_update mine_def)

lemma attached_unsubscribe:
  assumes "attached h on b" "k \<noteq> h"
  shows "attached h on (unsubscribe ev k b)"
proof -
  have "mine h (filter (\<lambda>s. sb_handler s \<noteq> k) ss) = mine h ss" for ss
    using assms(2) by (auto simp: mine_def intro: filter_cong)
  then show ?thesis using assms(1) by (auto simp: attached_def unsubscribe_def entries_prune)
qed

lemma attached_on: "attached h False b \<Longrightarrow> attached h True (subscribe ''*'' h None False b)"
  by (auto simp: attached_def subscribe_def Let_def entries_update mine_empty) (auto simp: mine_def filter_empty_conv)

lemma attached_off:
  assumes "attached h True b"
  shows "attached h False (unsubscribe ''*'' h b)"
proof -
  have "mine h (filter (\<lambda>s. sb_handler s \<noteq> h) ss) = []" for ss by (auto simp: mine_def)
  then show ?thesis using assms by (auto simp: attached_def unsubscribe_def entries_prune)
qed

definition observed :: "nat \<Rightarrow> bool \<Rightarrow> observability \<times> event_bus \<Rightarrow> bool" where
  "observed h on s \<longleftrightarrow> ob_counts (fst s) \<and> ob_initialized (fst s) = on \<and> attached h on (snd s)"

abbreviation events_named :: "string \<Rightarrow> observability \<times> event_bus \<Rightarrow> real" where
  "events_named n s \<equiv> counter_value (ob_metrics (fst s)) bus_events [(''event_name'', n)]"

fun on_after :: "bool \<Rightarrow> bus_act \<Rightarrow> bool" where
  "on_after on Start_Observing = True"
| "on_after on Stop_Observing = False"
| "on_after on _ = on"

lemma published_on_Cons: "published_on n on (a # as) = published_on n on [a] + published_on n (on_after on a) as"
  by (cases a) simp_all

lemma observed_step_counts:
  assumes "\<And>k e b. eb_subs (fst (be_run env k e b)) = eb_subs b" "\<not> be_coro env h" "observed h on s" "foreign h a"
  shows "observed h (on_after on a) (observed_step env h shown a s)
     \<and> events_named n (observed_step env h shown a s) = events_named n s + real (published_on n on [a])"
proof -
  obtain ob b where s: "s = (ob, b)" by fastforce
  have st: "ob_counts ob" "ob_initialized ob = on" "attached h on b" using assms(3) by (simp_all add: observed_def s)
  show ?thesis
  proof (cases a)
    case (Publish_Event now ev)
    show ?thesis
      using publish_calls [OF assms(1,2) st(3), of ev] observe_counts [OF st(1), of h shown now ev "snd (publish env ev b)" n] st(2)
      by (auto simp: Publish_Event s observed_def case_prod_beta)
  next
    case Start_Observing
    show ?thesis
      using st attached_on [of h b]
      by (auto simp: Start_Observing s observed_def ob_initialize_def register_metric_provider_def ob_counts_def)
  next
    case Stop_Observing
    show ?thesis
      using st attached_off [of h b] by (auto simp: Stop_Observing s observed_def ob_shutdown_def ob_counts_def)
  qed (use st assms(4) in \<open>simp_all add: s observed_def attached_subscribe attached_unsubscribe\<close>)
qed

lemma observed_run:
  assumes "\<And>k e b. eb_subs (fst (be_run env k e b)) = eb_subs b" "\<not> be_coro env h" "observed h on s" "list_all (foreign h) acts"
  shows "events_named n (fold (observed_step env h shown) acts s) = events_named n s + real (published_on n on acts)"
  using assms(3,4)
proof (induction acts arbitrary: s on)
  case (Cons a acts)
  have "foreign h a" "list_all (foreign h) acts" using Cons.prems(2) by simp_all
  note st = observed_step_counts [OF assms(1,2) Cons.prems(1) this(1), of shown n]
  show ?case
    using Cons.IH [OF conjunct1 [OF st] \<open>list_all (foreign h) acts\<close>] conjunct2 [OF st] published_on_Cons [of n on a acts] by simp
qed simp

lemma observed_init: "observed h False (ob_init, bus_init k)"
  using ob_counts_init by (simp add: observed_def ob_init_def attached_def bus_init_def entries_def mine_def)

lemma events_named_init: "events_named n (ob_init, b) = 0"
  by (simp add: counter_value_def ob_init_def abs_metrics_def all_metrics_def mt_init_def)



end
