(* ===== verification/Redaction.thy ===== *)
theory Redaction
  imports PyDynamic
begin

text \<open>
  \<open>redact_secrets\<close> of \<open>yasin_core/contracts/errors.py\<close>: the two regular expressions, each followed by the loop of
  \<open>re.sub\<close>, and the cut to a limit. Both patterns match in at most one way at a position, because the
  characters of consecutive parts exclude each other: no backtracking has to be modelled.
\<close>

section \<open>The patterns\<close>

text \<open>A match is the text that is kept, the text that is replaced, and the rest.\<close>

type_synonym matched = "string \<times> string \<times> string"

definition secret_words :: "string list" where
  "secret_words = [''token'', ''secret'', ''password'', ''passwd'', ''api_key'', ''api-key'', ''apikey'', ''bearer'', ''authorization'']"

definition word_at :: "string \<Rightarrow> string option" where
  "word_at s = find (\<lambda>w. str_lower (take (length w) s) = w) secret_words"

definition is_sep :: "char \<Rightarrow> bool" where
  "is_sep c \<longleftrightarrow> c = CHR '':'' \<or> c = CHR ''=''"

definition secret_at :: "string \<Rightarrow> matched option" where
  "secret_at s =
     (case word_at s of
        None \<Rightarrow> None
      | Some w \<Rightarrow>
          (let s1 = drop (length w) s; sp1 = takeWhile is_space s1; s2 = dropWhile is_space s1
           in case s2 of
                [] \<Rightarrow> None
              | c # s3 \<Rightarrow>
                  (let sp2 = takeWhile is_space s3; s4 = dropWhile is_space s3
                   in if is_sep c \<and> s4 \<noteq> []
                      then Some (take (length w) s @ sp1 @ c # sp2, takeWhile (\<lambda>x. \<not> is_space x) s4, dropWhile (\<lambda>x. \<not> is_space x) s4)
                      else None)))"

definition jwt_char :: "char \<Rightarrow> bool" where
  "jwt_char c \<longleftrightarrow> in_range_char 65 90 c \<or> in_range_char 97 122 c \<or> is_digit c \<or> c = CHR ''_'' \<or> c = CHR ''-''"

definition jwt_at :: "string \<Rightarrow> matched option" where
  "jwt_at s =
     (let a = takeWhile jwt_char (drop 3 s); s1 = dropWhile jwt_char (drop 3 s);
          b = takeWhile jwt_char (drop 1 s1); s2 = dropWhile jwt_char (drop 1 s1);
          c = takeWhile jwt_char (drop 1 s2)
      in if take 3 s = ''eyJ'' \<and> a \<noteq> [] \<and> take 1 s1 = ''.'' \<and> b \<noteq> [] \<and> take 1 s2 = ''.'' \<and> c \<noteq> []
         then Some ([], ''eyJ'' @ a @ ''.'' @ b @ ''.'' @ c, dropWhile jwt_char (drop 1 s2))
         else None)"

section \<open>Replacing every match\<close>

definition stars :: string where
  "stars = ''***''"

text \<open>The loop of \<open>re.sub\<close> for a pattern that never matches the empty text; the guard on the length, which
  holds for the two patterns, makes it total.\<close>

function scan :: "(string \<Rightarrow> matched option) \<Rightarrow> string \<Rightarrow> string" where
  "scan m [] = []"
| "scan m (c # cs) =
     (case m (c # cs) of
        Some (k, v, r) \<Rightarrow> if length r \<le> length cs then k @ stars @ scan m r else c # cs
      | None \<Rightarrow> c # scan m cs)"
  by pat_completeness auto
termination
  by (relation "measure (\<lambda>(m, s). length s)") (auto simp: less_Suc_eq_le)

definition cleaned :: "string \<Rightarrow> string" where
  "cleaned s = scan jwt_at (scan secret_at s)"

text \<open>\<open>shown\<close> is what \<open>str(text)\<close> gives or raises.\<close>

definition redact_secrets :: "exn + string \<Rightarrow> int \<Rightarrow> string" where
  "redact_secrets shown limit =
     (case shown of Inl _ \<Rightarrow> ''Unknown error.'' | Inr s \<Rightarrow> take (nat (max 1 limit)) (cleaned s))"

section \<open>What a replacement needs to be clean\<close>

text \<open>No suffix of a clean text matches with anything but the stars as its value.\<close>

definition clean :: "(string \<Rightarrow> matched option) \<Rightarrow> string \<Rightarrow> bool" where
  "clean m t \<longleftrightarrow> (\<forall>a u k v r. t = a @ u \<longrightarrow> m u = Some (k, v, r) \<longrightarrow> v = stars)"

definition same_edge :: "string \<Rightarrow> string \<Rightarrow> bool" where
  "same_edge r t \<longleftrightarrow> (r = [] \<and> t = []) \<or> (\<exists>c x y. r = c # x \<and> t = c # y)"

locale masker =
  fixes m :: "string \<Rightarrow> matched option"
  assumes split_match: "m u = Some (k, v, r) \<Longrightarrow> u = k @ v @ r \<and> v \<noteq> []"
    and transfer: "m u = Some (k, v, r) \<Longrightarrow> m (p @ v @ r) = None \<Longrightarrow> p \<noteq> [] \<Longrightarrow> m (p @ stars @ t) = None"
    and no_match_after: "m u = Some (k, v, r) \<Longrightarrow> m r = None"
    and masked: "m u = Some (k, v, r) \<Longrightarrow> k @ stars = a @ y \<Longrightarrow> y \<noteq> [] \<Longrightarrow> same_edge r t
        \<Longrightarrow> m (y @ t) = Some (k2, v2, r2) \<Longrightarrow> v2 = stars"
    and none_empty: "m [] = None"
begin

lemma match_shorter: "m (c # cs) = Some (k, v, r) \<Longrightarrow> length r \<le> length cs"
  using split_match [of "c # cs" k v r] by (cases k; cases v) (auto simp: Cons_eq_append_conv)

lemma scan_match: "m u = Some (k, v, r) \<Longrightarrow> scan m u = k @ stars @ scan m r"
  using none_empty match_shorter by (cases u) auto

lemma scan_edge: "m r = None \<Longrightarrow> same_edge r (scan m r)"
  by (cases r) (simp_all add: same_edge_def)

lemma scan_induct [case_names Nil None Some]:
  assumes "P []" "\<And>c cs. m (c # cs) = None \<Longrightarrow> P cs \<Longrightarrow> P (c # cs)"
    "\<And>c cs k v r. m (c # cs) = Some (k, v, r) \<Longrightarrow> P r \<Longrightarrow> P (c # cs)"
  shows "P s"
proof (induction s rule: measure_induct_rule [of length])
  case (less s)
  show ?case
  proof (cases s)
    case (Cons c cs)
    show ?thesis
    proof (cases "m (c # cs)")
      case None
      then show ?thesis using assms(2) less Cons by simp
    next
      case (Some x)
      then obtain k v r where x: "m (c # cs) = Some (k, v, r)" by (cases x) auto
      then show ?thesis using assms(3) [OF x] less match_shorter [OF x] Cons by simp
    qed
  qed (simp add: assms(1))
qed

text \<open>A text and its scan agree up to the value of the first match.\<close>

lemma scan_agrees:
  "scan m s = s \<or> (\<exists>p k v r u t. m u = Some (k, v, r) \<and> s = p @ v @ r \<and> scan m s = p @ stars @ t)"
proof (induction s rule: scan_induct)
  case (None c cs)
  show ?case
  proof (cases "scan m cs = cs")
    case False
    then obtain p k v r u t where "m u = Some (k, v, r)" "cs = p @ v @ r" "scan m cs = p @ stars @ t"
      using None by blast
    then have "m u = Some (k, v, r)" "c # cs = (c # p) @ v @ r" "scan m (c # cs) = (c # p) @ stars @ t"
      using None(1) by simp_all
    then show ?thesis by blast
  qed (simp add: None)
next
  case (Some c cs k v r)
  then show ?case using split_match [OF Some(1)] scan_match [OF Some(1)] by blast
qed simp

lemma clean_scan: "clean m (scan m s)"
proof (induction s rule: scan_induct)
  case Nil
  then show ?case by (simp add: clean_def none_empty)
next
  case (None c cs)
  have "m (c # scan m cs) = None"
    using scan_agrees [of cs]
  proof (elim disjE exE conjE)
    fix p k v r u t assume *: "m u = Some (k, v, r)" "cs = p @ v @ r" "scan m cs = p @ stars @ t"
    then show ?thesis using transfer [OF *(1), of "c # p" t] None(1) by simp
  qed (simp add: None(1))
  then show ?case using None by (auto simp: clean_def Cons_eq_append_conv)
next
  case (Some c cs k v r)
  show ?case
    unfolding clean_def
  proof (intro allI impI)
    fix a u k2 v2 r2 assume u: "scan m (c # cs) = a @ u" "m u = Some (k2, v2, r2)"
    have "(k @ stars) @ scan m r = a @ u" using u(1) scan_match [OF Some(1)] by simp
    then consider y where "k @ stars = a @ y" "y @ scan m r = u" "y \<noteq> []" | b where "scan m r = b @ u"
      unfolding append_eq_append_conv2 by (metis append_Nil append_Nil2)
    then show "v2 = stars"
    proof cases
      case (1 y)
      then show ?thesis using masked [OF Some(1) 1(1,3) scan_edge] no_match_after [OF Some(1)] u(2) by blast
    next
      case (2 b)
      then show ?thesis using Some(2) u(2) by (auto simp: clean_def)
    qed
  qed
qed

lemma clean_suffix: "clean m (a @ u) \<Longrightarrow> clean m u"
  unfolding clean_def by (metis append.assoc)

lemma scan_clean: "clean m s \<Longrightarrow> scan m s = s"
proof (induction s rule: scan_induct)
  case (None c cs)
  then show ?case using clean_suffix [of "[c]" cs] by simp
next
  case (Some c cs k v r)
  have s: "c # cs = k @ v @ r" using split_match [OF Some(1)] by blast
  moreover have "v = stars" using Some(1,3) unfolding clean_def by blast
  moreover have "clean m r" using Some(3) clean_suffix [of "k @ v" r] s by simp
  ultimately show ?case using scan_match [OF Some(1)] Some(2) by simp
qed simp

end

section \<open>Credentials after a keyword\<close>

definition secret_shape :: "string \<Rightarrow> bool" where
  "secret_shape k \<longleftrightarrow> (\<exists>w s1 c s2. k = w @ s1 @ c # s2 \<and> str_lower w \<in> set secret_words \<and> list_all is_space s1 \<and> is_sep c \<and> list_all is_space s2)"

lemma word_chars: "list_all (\<lambda>w. list_all (\<lambda>c. \<not> is_space c \<and> \<not> is_sep c \<and> c \<noteq> CHR ''*'') w \<and> w \<noteq> []) secret_words"
  by code_simp

lemma words_no_prefix: "list_all (\<lambda>w. list_all (\<lambda>w'. take (length w) w' = w \<longrightarrow> w' = w) secret_words) secret_words"
  by code_simp

lemma of_char_lower: "(of_char (char_lower c) :: nat) = (if in_range_char 65 90 c then of_char c + 32 else of_char c)"
proof (cases "in_range_char 65 90 c")
  case True
  then have "of_char c + 32 < (256 :: nat)" by (simp add: in_range_char_def)
  then show ?thesis using True by (simp add: char_lower_def)
qed (simp add: char_lower_def)

lemma char_eq_code: "c = d \<longleftrightarrow> (of_char c :: nat) = of_char d"
  by simp

lemma lower_kept: "is_space (char_lower c) = is_space c" "is_sep (char_lower c) = is_sep c" "char_lower c = CHR ''*'' \<longleftrightarrow> c = CHR ''*''"
proof -
  show "is_space (char_lower c) = is_space c" by (simp add: is_space_def in_range_char_def of_char_lower)
  have "char_lower c = d \<longleftrightarrow> c = d" if "of_char d < (65 :: nat)" for d
    unfolding char_eq_code [of "char_lower c"] char_eq_code [of c] of_char_lower using that by (auto simp: in_range_char_def)
  then show "is_sep (char_lower c) = is_sep c" "char_lower c = CHR ''*'' \<longleftrightarrow> c = CHR ''*''"
    by (simp_all add: is_sep_def)
qed

lemma shape_word:
  assumes "str_lower w \<in> set secret_words" "x \<in> set w"
  shows "\<not> is_space x" "\<not> is_sep x" "x \<noteq> CHR ''*''"
proof -
  have "char_lower x \<in> set (str_lower w)" using assms(2) by (simp add: str_lower_def)
  then have "\<not> is_space (char_lower x) \<and> \<not> is_sep (char_lower x) \<and> char_lower x \<noteq> CHR ''*''"
    using word_chars assms(1) by (auto simp: list_all_iff)
  then show "\<not> is_space x" "\<not> is_sep x" "x \<noteq> CHR ''*''" by (simp_all add: lower_kept)
qed

lemma word_not_empty: "str_lower w \<in> set secret_words \<Longrightarrow> w \<noteq> []"
  using word_chars by (auto simp: list_all_iff str_lower_def)

lemma star_no_space: "\<not> is_space (CHR ''*'')" "\<not> is_sep (CHR ''*'')"
  by code_simp+

text \<open>What the pattern keeps has the shape, and any text of the shape before a character that is no space matches.\<close>

lemma find_word:
  assumes "str_lower w \<in> set secret_words" "is_space x \<or> is_sep x"
  shows "word_at (w @ x # y) = Some (str_lower w)"
proof -
  have eq: "w' = str_lower w" if w': "w' \<in> set secret_words" "str_lower (take (length w') (w @ x # y)) = w'" for w'
  proof (cases "length w' \<le> length w")
    case True
    then have "take (length w') (str_lower w) = w'" using w'(2) by (simp add: str_lower_def take_map)
    then show ?thesis using words_no_prefix w'(1) assms(1) unfolding list_all_iff by blast
  next
    case False
    then obtain n where n: "length w' = length w + Suc n" by (metis add_Suc_right less_iff_Suc_add not_le)
    then have "str_lower (take (length w') (w @ x # y)) = str_lower w @ char_lower x # str_lower (take n y)"
      by (simp add: str_lower_def)
    then have "char_lower x \<in> set w'" using w'(2) by (metis in_set_conv_decomp)
    then have "\<not> is_space (char_lower x) \<and> \<not> is_sep (char_lower x)"
      using word_chars w'(1) unfolding list_all_iff by blast
    then show ?thesis using assms(2) by (simp add: lower_kept)
  qed
  have "str_lower (take (length (str_lower w)) (w @ x # y)) = str_lower w" by simp
  then have "find (\<lambda>w'. str_lower (take (length w') (w @ x # y)) = w') secret_words \<noteq> None"
    using assms(1) by (auto simp: find_None_iff)
  then obtain w' where "word_at (w @ x # y) = Some w'" by (auto simp: word_at_def)
  moreover from this have "w' \<in> set secret_words \<and> str_lower (take (length w') (w @ x # y)) = w'"
    by (auto simp: word_at_def find_Some_iff)
  ultimately show ?thesis using eq [of w'] by simp
qed

lemma secret_at_shape:
  assumes "secret_at u = Some (k, v, r)"
  shows "secret_shape k" "u = k @ v @ r" "v \<noteq> []" "list_all (\<lambda>x. \<not> is_space x) v" "r \<noteq> [] \<Longrightarrow> is_space (hd r)"
proof -
  obtain w where w: "word_at u = Some w" using assms by (auto simp: secret_at_def split: option.splits)
  then have ww: "w \<in> set secret_words" "str_lower (take (length w) u) = w" by (auto simp: word_at_def find_Some_iff)
  define s1 where "s1 = drop (length w) u"
  obtain c s3 where c: "dropWhile is_space s1 = c # s3" "is_sep c" "dropWhile is_space s3 \<noteq> []"
      "k = take (length w) u @ takeWhile is_space s1 @ c # takeWhile is_space s3"
      "v = takeWhile (\<lambda>x. \<not> is_space x) (dropWhile is_space s3)" "r = dropWhile (\<lambda>x. \<not> is_space x) (dropWhile is_space s3)"
    using assms w by (auto simp: secret_at_def Let_def s1_def split: list.splits if_splits)
  show "secret_shape k"
    unfolding secret_shape_def c(4) using ww c(2)
    by (intro exI [of _ "take (length w) u"] exI [of _ "takeWhile is_space s1"] exI [of _ c] exI [of _ "takeWhile is_space s3"])
      (auto simp: list_all_iff dest: set_takeWhileD)
  have "s1 = takeWhile is_space s1 @ c # takeWhile is_space s3 @ v @ r"
    using takeWhile_dropWhile_id [of is_space s1] c(1,5,6) by simp
  then show "u = k @ v @ r" using append_take_drop_id [of "length w" u] unfolding s1_def c(4) by simp
  obtain x y where "dropWhile is_space s3 = x # y" "\<not> is_space x"
    using c(3) by (metis hd_dropWhile list.exhaust_sel)
  then show "v \<noteq> []" using c(5) by simp
  show "list_all (\<lambda>x. \<not> is_space x) v" using c(5) by (auto simp: list_all_iff dest: set_takeWhileD)
  show "r \<noteq> [] \<Longrightarrow> is_space (hd r)" using c(6) hd_dropWhile by metis
qed

lemma shape_matches:
  assumes "secret_shape k" "\<not> is_space x"
  shows "secret_at (k @ x # y) = Some (k, takeWhile (\<lambda>x. \<not> is_space x) (x # y), dropWhile (\<lambda>x. \<not> is_space x) (x # y))"
proof -
  obtain w s1 c s2 where k: "k = w @ s1 @ c # s2" "str_lower w \<in> set secret_words" "list_all is_space s1" "is_sep c" "list_all is_space s2"
    using assms(1) unfolding secret_shape_def by blast
  have nc: "\<not> is_space c" using k(4) by (auto simp: is_sep_def is_space_def in_range_char_def)
  obtain z zs where z: "s1 @ c # s2 @ x # y = z # zs" "is_space z \<or> is_sep z"
    using k(3,4) by (cases s1) auto
  have w: "word_at (k @ x # y) = Some (str_lower w)"
    using find_word [OF k(2) z(2), of zs] z(1) k(1) by simp
  have d: "drop (length (str_lower w)) (k @ x # y) = s1 @ c # s2 @ x # y" "take (length (str_lower w)) (k @ x # y) = w"
    using k(1) by simp_all
  have s: "takeWhile is_space (s1 @ c # s2 @ x # y) = s1" "dropWhile is_space (s1 @ c # s2 @ x # y) = c # s2 @ x # y"
    "takeWhile is_space (s2 @ x # y) = s2" "dropWhile is_space (s2 @ x # y) = x # y"
    using k(3,5) nc assms(2) by (simp_all add: list_all_iff)
  show ?thesis using w d s k(1,4) assms(2) by (simp add: secret_at_def Let_def)
qed

lemma shape_no_star: "secret_shape k \<Longrightarrow> CHR ''*'' \<notin> set k"
  using star_no_space shape_word by (fastforce simp: secret_shape_def list_all_iff)

lemma shape_not_empty: "secret_shape k \<Longrightarrow> k \<noteq> []"
  by (auto simp: secret_shape_def)

lemma shape_head: "secret_shape (c # k) \<Longrightarrow> \<not> is_space c \<and> c \<noteq> CHR ''*''"
proof -
  assume "secret_shape (c # k)"
  then obtain w s1 d s2 where *: "c # k = w @ s1 @ d # s2" "str_lower w \<in> set secret_words" unfolding secret_shape_def by blast
  then obtain w' where "w = c # w'" using word_not_empty by (cases w) auto
  then show ?thesis using shape_word [OF *(2), of c] by simp
qed

text \<open>After the separator of a text of the shape there are only spaces.\<close>

lemma shape_tail:
  assumes "secret_shape (a @ k2 @ q)" "secret_shape k2"
  shows "list_all is_space q"
proof -
  obtain w s1 c s2 where k: "a @ k2 @ q = w @ s1 @ c # s2" "str_lower w \<in> set secret_words" "list_all is_space s1" "is_sep c" "list_all is_space s2"
    using assms(1) unfolding secret_shape_def by blast
  obtain w' t1 d t2 where k2: "k2 = w' @ t1 @ d # t2" "is_sep d" using assms(2) unfolding secret_shape_def by blast
  have only: "\<not> is_sep x" if "x \<in> set w \<or> x \<in> set s1 \<or> x \<in> set s2" for x
    using that k(2,3,5) shape_word(2) by (auto simp: list_all_iff is_sep_def is_space_def in_range_char_def)
  have "(a @ w' @ t1) @ d # (t2 @ q) = (w @ s1) @ c # s2" using k(1) k2(1) by simp
  then have "t2 @ q = s2"
    using only k2(2) k(4) by (auto simp: append_eq_append_conv2 Cons_eq_append_conv append_eq_Cons_conv)
  then show ?thesis using k(5) by auto
qed

lemma stars_Cons: "stars = CHR ''*'' # ''**''"
  by (simp add: stars_def)

text \<open>A text without stars that starts a text with stars in its middle ends before them.\<close>

lemma before_stars:
  assumes "k2 @ z = p @ stars @ t" "CHR ''*'' \<notin> set k2"
  obtains q where "p = k2 @ q" "z = q @ stars @ t"
proof -
  consider us where "k2 @ us = p" "z = us @ stars @ t" | us where "k2 = p @ us" "us @ z = stars @ t"
    using assms(1) by (auto simp: append_eq_append_conv2)
  then show thesis
  proof cases
    case (1 us)
    then show ?thesis using that by blast
  next
    case (2 us)
    then have "us = []" using assms(2) by (cases us) (auto simp: stars_Cons)
    then show ?thesis using 2 that by simp
  qed
qed

lemma star_no_secret: "secret_at (CHR ''*'' # y) = None"
proof (cases "secret_at (CHR ''*'' # y)")
  case (Some x)
  then obtain k v r where "secret_at (CHR ''*'' # y) = Some (k, v, r)" by (cases x) auto
  from secret_at_shape(1,2) [OF this] show ?thesis using shape_not_empty shape_head by (cases k) auto
qed

lemma space_no_secret: "is_space c \<Longrightarrow> secret_at (c # y) = None"
proof (cases "secret_at (c # y)")
  case (Some x)
  then obtain k v r where "secret_at (c # y) = Some (k, v, r)" by (cases x) auto
  from secret_at_shape(1,2) [OF this] show "is_space c \<Longrightarrow> ?thesis" using shape_not_empty shape_head by (cases k) auto
qed

lemma no_secret_Nil: "secret_at [] = None"
  by code_simp

text \<open>A nonempty suffix of the stars starts with one.\<close>

lemma suffix_stars: "stars = a @ y \<Longrightarrow> y \<noteq> [] \<Longrightarrow> \<exists>y'. y = CHR ''*'' # y'"
  by (auto simp: stars_def Cons_eq_append_conv)

lemma value_stars: "same_edge r t \<Longrightarrow> (r \<noteq> [] \<Longrightarrow> is_space (hd r)) \<Longrightarrow> takeWhile (\<lambda>x. \<not> is_space x) (stars @ t) = stars"
  using star_no_space by (auto simp: same_edge_def stars_def)

interpretation kv: masker secret_at
proof
  fix u k v r assume m: "secret_at u = Some (k, v, r)"
  note sh = secret_at_shape [OF m]
  show "u = k @ v @ r \<and> v \<noteq> []" using sh by simp
  show "secret_at r = None"
  proof (cases r)
    case (Cons c y)
    then show ?thesis using sh(5) space_no_secret by simp
  qed (simp add: no_secret_Nil)
  show "secret_at (p @ stars @ t) = None" if none: "secret_at (p @ v @ r) = None" for p t
  proof (cases "secret_at (p @ stars @ t)")
    case (Some x)
    then obtain k2 v2 r2 where m2: "secret_at (p @ stars @ t) = Some (k2, v2, r2)" by (cases x) auto
    note s2 = secret_at_shape [OF m2]
    obtain q where q: "p = k2 @ q" "v2 @ r2 = q @ stars @ t"
      using before_stars [OF s2(2) [symmetric] shape_no_star [OF s2(1)]] by blast
    obtain x y where x: "q @ v @ r = x # y" "\<not> is_space x"
      using q(2) sh(3,4) s2(3,4) by (cases q; cases v; cases v2) auto
    show ?thesis using none shape_matches [OF s2(1) x(2), of y] q(1) x(1) by simp
  qed
  show "v2 = stars" if "k @ stars = a @ y" "y \<noteq> []" "same_edge r t" and m2: "secret_at (y @ t) = Some (k2, v2, r2)" for a y t k2 v2 r2
  proof -
    note s2 = secret_at_shape [OF m2]
    from that(1) consider k' where "k = a @ k'" "y = k' @ stars" | b where "stars = b @ y"
      by (auto simp: append_eq_append_conv2)
    then show ?thesis
    proof cases
      case (1 k')
      obtain q where q: "k' = k2 @ q" "v2 @ r2 = q @ stars @ t"
        using before_stars [of k2 "v2 @ r2" k' t] s2(2) 1(2) shape_no_star [OF s2(1)] by auto
      have "list_all is_space q" using shape_tail [OF _ s2(1), of a q] sh(1) 1(1) q(1) by simp
      then have "q = []" using q(2) s2(3,4) by (cases q; cases v2) auto
      then have "y @ t = k2 @ CHR ''*'' # ''**'' @ t" using 1(2) q(1) by (simp add: stars_def)
      then show ?thesis
        using m2 shape_matches [OF s2(1) star_no_space(1), of "''**'' @ t"] value_stars [OF that(3) sh(5)] by (simp add: stars_def)
    next
      case (2 b)
      then show ?thesis using suffix_stars [OF 2 that(2)] m2 star_no_secret by auto
    qed
  qed
qed (rule no_secret_Nil)

section \<open>Tokens\<close>

definition jwt_shape :: "string \<Rightarrow> bool" where
  "jwt_shape v \<longleftrightarrow> (\<exists>a b c. v = ''eyJ'' @ a @ ''.'' @ b @ ''.'' @ c \<and> a \<noteq> [] \<and> b \<noteq> [] \<and> c \<noteq> []
     \<and> list_all jwt_char a \<and> list_all jwt_char b \<and> list_all jwt_char c)"

lemma no_jwt_char: "\<not> jwt_char (CHR ''*'')" "\<not> jwt_char (CHR ''.'')" "jwt_char (CHR ''e'')"
  by code_simp+

lemma no_jwt_space: "is_space c \<Longrightarrow> \<not> jwt_char c"
  by (auto simp: is_space_def jwt_char_def is_digit_def in_range_char_def)

lemma jwt_matches: "jwt_shape v \<Longrightarrow> jwt_at (v @ w) \<noteq> None"
proof -
  assume "jwt_shape v"
  then obtain a b c where v: "v = ''eyJ'' @ a @ ''.'' @ b @ ''.'' @ c" "a \<noteq> []" "b \<noteq> []" "c \<noteq> []"
    "list_all jwt_char a" "list_all jwt_char b" "list_all jwt_char c" unfolding jwt_shape_def by blast
  have t: "takeWhile jwt_char (x @ ''.'' @ y) = x" "dropWhile jwt_char (x @ ''.'' @ y) = ''.'' @ y" if "list_all jwt_char x" for x y
    using that no_jwt_char(2) by (simp_all add: list_all_iff)
  have c: "takeWhile jwt_char (c @ w) \<noteq> []" using v(4,7) by (cases c) auto
  show ?thesis
    using t [OF v(5), of "b @ ''.'' @ c @ w"] t [OF v(6), of "c @ w"] v(2,3) c by (simp add: jwt_at_def Let_def v(1))
qed

lemma jwt_at_shape:
  assumes "jwt_at u = Some (k, v, r)"
  shows "k = []" "jwt_shape v" "u = v @ r" "r \<noteq> [] \<Longrightarrow> \<not> jwt_char (hd r)"
proof -
  define s0 where "s0 = drop 3 u"
  define s1 where "s1 = dropWhile jwt_char s0"
  define s2 where "s2 = dropWhile jwt_char (drop 1 s1)"
  have *: "take 3 u = ''eyJ''" "takeWhile jwt_char s0 \<noteq> []" "take 1 s1 = ''.''" "takeWhile jwt_char (drop 1 s1) \<noteq> []" "take 1 s2 = ''.''"
    "takeWhile jwt_char (drop 1 s2) \<noteq> []" "k = []" "r = dropWhile jwt_char (drop 1 s2)"
    "v = ''eyJ'' @ takeWhile jwt_char s0 @ ''.'' @ takeWhile jwt_char (drop 1 s1) @ ''.'' @ takeWhile jwt_char (drop 1 s2)"
    using assms unfolding jwt_at_def Let_def s0_def s1_def s2_def by (auto split: if_splits)
  show "k = []" by (rule *(7))
  show "jwt_shape v"
    unfolding jwt_shape_def *(9) using *(2,4,6)
    by (intro exI [of _ "takeWhile jwt_char s0"] exI [of _ "takeWhile jwt_char (drop 1 s1)"] exI [of _ "takeWhile jwt_char (drop 1 s2)"])
      (auto simp: list_all_iff dest: set_takeWhileD)
  have "u = ''eyJ'' @ s0" using *(1) append_take_drop_id [of 3 u] by (simp add: s0_def)
  moreover have "s0 = takeWhile jwt_char s0 @ ''.'' @ drop 1 s1"
    using *(3) append_take_drop_id [of 1 s1] takeWhile_dropWhile_id [of jwt_char s0] by (simp add: s1_def)
  moreover have "drop 1 s1 = takeWhile jwt_char (drop 1 s1) @ ''.'' @ drop 1 s2"
    using *(5) append_take_drop_id [of 1 s2] takeWhile_dropWhile_id [of jwt_char "drop 1 s1"] by (simp add: s2_def)
  moreover have "drop 1 s2 = takeWhile jwt_char (drop 1 s2) @ r" using *(8) by simp
  ultimately show "u = v @ r" unfolding *(9) by (metis append.assoc)
  show "r \<noteq> [] \<Longrightarrow> \<not> jwt_char (hd r)" using *(8) hd_dropWhile by metis
qed

lemma jwt_no_star: "jwt_shape v \<Longrightarrow> CHR ''*'' \<notin> set v"
  using no_jwt_char(1) by (auto simp: jwt_shape_def list_all_iff)

lemma jwt_head: "jwt_shape v \<Longrightarrow> \<exists>v'. v = CHR ''e'' # v'"
  by (auto simp: jwt_shape_def)

lemma no_jwt_start: "c \<noteq> CHR ''e'' \<Longrightarrow> jwt_at (c # y) = None"
proof (cases "jwt_at (c # y)")
  case (Some x)
  then obtain k v r where "jwt_at (c # y) = Some (k, v, r)" by (cases x) auto
  from jwt_at_shape(2,3) [OF this] show "c \<noteq> CHR ''e'' \<Longrightarrow> ?thesis" using jwt_head by fastforce
qed

lemma no_jwt_Nil: "jwt_at [] = None"
  by code_simp

interpretation jwt: masker jwt_at
proof
  fix u k v r assume m: "jwt_at u = Some (k, v, r)"
  note sh = jwt_at_shape [OF m]
  show "u = k @ v @ r \<and> v \<noteq> []" using sh jwt_head by fastforce
  show "jwt_at r = None"
  proof (cases r)
    case (Cons c y)
    then have "c \<noteq> CHR ''e''" using sh(4) no_jwt_char(3) by auto
    then show ?thesis using Cons by (simp add: no_jwt_start)
  qed (simp add: no_jwt_Nil)
  show "jwt_at (p @ stars @ t) = None" if none: "jwt_at (p @ v @ r) = None" for p t
  proof (cases "jwt_at (p @ stars @ t)")
    case (Some x)
    then obtain k2 v2 r2 where m2: "jwt_at (p @ stars @ t) = Some (k2, v2, r2)" by (cases x) auto
    note s2 = jwt_at_shape [OF m2]
    obtain q where "p = v2 @ q" using before_stars [OF s2(3) [symmetric] jwt_no_star [OF s2(2)]] by blast
    then show ?thesis using none jwt_matches [OF s2(2), of "q @ v @ r"] by simp
  qed
  show "v2 = stars" if y: "k @ stars = a @ y" "y \<noteq> []" "jwt_at (y @ t) = Some (k2, v2, r2)" for a y t k2 v2 r2
  proof -
    obtain y' where "y = CHR ''*'' # y'" using suffix_stars [of a y] y(1,2) sh(1) by auto
    then show ?thesis using y(3) no_jwt_start [of "CHR ''*''" "y' @ t"] by simp
  qed
qed (rule no_jwt_Nil)

text \<open>A text without tokens, since no token is made of stars\<close>

lemma jwt_none_iff: "jwt_at u = None \<longleftrightarrow> (\<forall>k v r. jwt_at u = Some (k, v, r) \<longrightarrow> v = stars)"
proof (cases "jwt_at u")
  case (Some x)
  then obtain k v r where x: "jwt_at u = Some (k, v, r)" by (cases x) auto
  then have "v \<noteq> stars" using jwt_no_star [OF jwt_at_shape(2) [OF x]] by (auto simp: stars_def)
  then show ?thesis using x by auto
qed simp

lemma clean_jwt: "clean jwt_at t \<longleftrightarrow> (\<forall>a u. t = a @ u \<longrightarrow> jwt_at u = None)"
  unfolding clean_def jwt_none_iff by blast

section \<open>The second pass keeps the first clean\<close>

text \<open>A keyword match in the second pass's result was one in its input, with the same value.\<close>

lemma secret_before_token:
  assumes "secret_at (p @ stars @ t) = Some (k, v, r)" "jwt_at u = Some (k', w, z)" "clean secret_at (p @ w @ x)"
  shows "v = stars"
proof -
  note s = secret_at_shape [OF assms(1)]
  obtain q where q: "p = k @ q" "v @ r = q @ stars @ t"
    using before_stars [OF s(2) [symmetric] shape_no_star [OF s(1)]] by blast
  obtain w' where w: "w = CHR ''e'' # w'" using jwt_head [OF jwt_at_shape(2) [OF assms(2)]] by blast
  have ns: "\<not> is_space (CHR ''e'')" by code_simp
  obtain c y where c: "q @ w @ x = c # y" "\<not> is_space c"
    using q(2) s(3,4) w ns by (cases q; cases v) auto
  have "secret_at (k @ c # y) = Some (k, takeWhile (\<lambda>x. \<not> is_space x) (c # y), dropWhile (\<lambda>x. \<not> is_space x) (c # y))"
    by (rule shape_matches [OF s(1) c(2)])
  moreover have "k @ c # y = p @ w @ x" using q(1) c(1) by simp
  ultimately have val: "takeWhile (\<lambda>x. \<not> is_space x) (q @ w @ x) = stars"
    using assms(3) c(1) unfolding clean_def by (metis append_Nil)
  have all: "takeWhile (\<lambda>x. \<not> is_space x) v = v" using s(4) by (simp add: takeWhile_eq_all_conv list_all_iff)
  have sv: "v = takeWhile (\<lambda>x. \<not> is_space x) (v @ r)"
  proof (cases r)
    case (Cons d y)
    then show ?thesis using s(4,5) by (simp add: list_all_iff)
  qed (simp add: all)
  show ?thesis
  proof (cases "\<exists>b \<in> set q. is_space b")
    case True
    then have "takeWhile (\<lambda>x. \<not> is_space x) (q @ y') = takeWhile (\<lambda>x. \<not> is_space x) q" for y' by auto
    then show ?thesis using val sv q(2) by metis
  next
    case False
    then have "q @ CHR ''e'' # takeWhile (\<lambda>x. \<not> is_space x) (w' @ x) = stars" using val w ns by simp
    then have "CHR ''e'' \<in> set stars" by (metis in_set_conv_decomp)
    then show ?thesis by (simp add: stars_def)
  qed
qed

lemma second_pass_clean: "clean secret_at s \<Longrightarrow> clean secret_at (scan jwt_at s)"
proof (induction s rule: jwt.scan_induct)
  case Nil
  then show ?case by simp
next
  case (None c cs)
  have IH: "clean secret_at (scan jwt_at cs)" using None(2,3) kv.clean_suffix [of "[c]" cs] by simp
  have "v = stars" if m: "secret_at (c # scan jwt_at cs) = Some (k, v, r)" for k v r
    using jwt.scan_agrees [of cs]
  proof (elim disjE exE conjE)
    assume "scan jwt_at cs = cs"
    then show ?thesis using m None(3) unfolding clean_def by (metis append_Nil)
  next
    fix p k' w z u t assume *: "jwt_at u = Some (k', w, z)" "cs = p @ w @ z" "scan jwt_at cs = p @ stars @ t"
    then show ?thesis using secret_before_token [of "c # p" t k v r, OF _ *(1), of z] m None(3) by simp
  qed
  then show ?case using IH None(1) by (auto simp: clean_def Cons_eq_append_conv)
next
  case (Some c cs k v r)
  have k: "k = []" "c # cs = v @ r" using jwt_at_shape(1,3) [OF Some(1)] by simp_all
  have IH: "clean secret_at (scan jwt_at r)" using Some(2,3) kv.clean_suffix [of v r] k(2) by simp
  show ?case
    unfolding clean_def
  proof (intro allI impI)
    fix a u k2 v2 r2 assume u: "scan jwt_at (c # cs) = a @ u" "secret_at u = Some (k2, v2, r2)"
    have "stars @ scan jwt_at r = a @ u" using u(1) jwt.scan_match [OF Some(1)] k(1) by simp
    then consider y where "stars = a @ y" "y @ scan jwt_at r = u" "y \<noteq> []" | b where "scan jwt_at r = b @ u"
      unfolding append_eq_append_conv2 by (metis append_Nil append_Nil2)
    then show "v2 = stars"
    proof cases
      case (1 y)
      then show ?thesis using suffix_stars [of a y] u(2) star_no_secret by auto
    next
      case (2 b)
      then show ?thesis using IH u(2) by (auto simp: clean_def)
    qed
  qed
qed

lemma cleaned_clean: "clean secret_at (cleaned s)" "clean jwt_at (cleaned s)"
  unfolding cleaned_def by (simp_all add: second_pass_clean kv.clean_scan jwt.clean_scan)

section \<open>Cutting a clean text\<close>

text \<open>A cut may shorten the stars at the end; the next redaction completes them and is cut at the same place.\<close>

lemma secret_extend:
  assumes "secret_at u = Some (k, v, r)" "clean secret_at (u @ w)"
  shows "v = stars \<or> (r = [] \<and> (\<exists>e. stars = v @ e))"
proof -
  note s = secret_at_shape [OF assms(1)]
  have all: "takeWhile (\<lambda>x. \<not> is_space x) (v @ z) = v @ takeWhile (\<lambda>x. \<not> is_space x) z" for z
    using s(4) by (auto simp: list_all_iff)
  obtain x y where x: "v @ r @ w = x # y" "\<not> is_space x" using s(3,4) by (cases v) auto
  have "secret_at (u @ w) = Some (k, takeWhile (\<lambda>x. \<not> is_space x) (x # y), dropWhile (\<lambda>x. \<not> is_space x) (x # y))"
    using shape_matches [OF s(1) x(2), of y] s(2) x(1) by simp
  then have "v @ takeWhile (\<lambda>x. \<not> is_space x) (r @ w) = stars"
    using assms(2) x(1) all [of "r @ w"] unfolding clean_def by (metis append_Nil)
  then have st: "stars = v @ takeWhile (\<lambda>x. \<not> is_space x) (r @ w)" by simp
  show ?thesis
  proof (cases r)
    case Nil
    then show ?thesis using st by blast
  next
    case (Cons d z)
    then show ?thesis using st s(5) by simp
  qed
qed

lemma cut_scan: "clean secret_at (t @ w) \<Longrightarrow> \<exists>e. scan secret_at t = t @ e \<and> set e \<subseteq> {CHR ''*''}"
proof (induction t rule: kv.scan_induct)
  case (None c cs)
  then show ?case using kv.clean_suffix [of "[c]" "cs @ w"] by auto
next
  case (Some c cs k v r)
  have u: "c # cs = k @ v @ r" using secret_at_shape(2) [OF Some(1)] .
  then have "clean secret_at (r @ w)" using Some(3) kv.clean_suffix [of "k @ v" "r @ w"] by simp
  then obtain e where e: "scan secret_at r = r @ e" "set e \<subseteq> {CHR ''*''}" using Some(2) by blast
  have sc: "scan secret_at (c # cs) = k @ stars @ r @ e" using kv.scan_match [OF Some(1)] e(1) by simp
  show ?case using secret_extend [OF Some(1,3)]
  proof (elim disjE conjE exE)
    assume "v = stars"
    then show ?thesis using sc u e(2) by auto
  next
    fix e' assume *: "r = []" "stars = v @ e'"
    have "set e' \<subseteq> {CHR ''*''}" using arg_cong [OF *(2), of set] by (auto simp: stars_def)
    moreover have "scan secret_at r = []" using *(1) by simp
    ultimately show ?thesis using kv.scan_match [OF Some(1)] u * by auto
  qed
qed simp

lemma cut_cleaned:
  assumes "clean secret_at (t @ w)" "clean jwt_at (t @ w)"
  shows "\<exists>e. cleaned t = t @ e"
proof -
  obtain e where e: "scan secret_at t = t @ e" "set e \<subseteq> {CHR ''*''}" using cut_scan [OF assms(1)] by blast
  have "jwt_at u = None" if u: "t @ e = a @ u" for a u
  proof (cases "jwt_at u")
    case (Some x)
    then obtain k v r where x: "jwt_at u = Some (k, v, r)" by (cases x) auto
    note s = jwt_at_shape [OF x]
    obtain v' where v: "v = CHR ''e'' # v'" using jwt_head [OF s(2)] by blast
    from u consider b where "t = a @ b" "u = b @ e" | b where "a = t @ b" "e = b @ u"
      by (auto simp: append_eq_append_conv2)
    then show ?thesis
    proof cases
      case (1 b)
      obtain q where "b = v @ q"
      proof -
        have "v @ r = b @ e" using s(3) 1(2) by simp
        then consider us where "v @ us = b" | us where "v = b @ us" "us @ r = e" by (auto simp: append_eq_append_conv2)
        then show thesis
        proof cases
          case (2 us)
          then have "set us \<subseteq> {CHR ''*''}" using e(2) by auto
          then have "us = []" using 2(1) jwt_no_star [OF s(2)] by (cases us) auto
          then show ?thesis using 2(1) that [of "[]"] by simp
        qed (use that in blast)
      qed
      then have "jwt_at (b @ w) \<noteq> None" using jwt_matches [OF s(2), of "q @ w"] by simp
      then show ?thesis using assms(2) 1(1) by (simp add: clean_jwt)
    next
      case (2 b)
      then show ?thesis using e(2) s(3) v by auto
    qed
  qed
  then have "clean jwt_at (t @ e)" by (simp add: clean_jwt)
  then show ?thesis using jwt.scan_clean e(1) by (auto simp: cleaned_def)
qed

lemma cleaned_idem: "cleaned (cleaned s) = cleaned s"
  using kv.scan_clean [OF cleaned_clean(1)] jwt.scan_clean [OF cleaned_clean(2)] by (simp add: cleaned_def [of "cleaned s"])

lemma cut_redaction: "take n (cleaned (take n (cleaned s))) = take n (cleaned s)"
proof (cases "length (cleaned s) \<le> n")
  case True
  then show ?thesis by (simp add: cleaned_idem)
next
  case False
  obtain e where "cleaned (take n (cleaned s)) = take n (cleaned s) @ e"
    using cut_cleaned [of "take n (cleaned s)" "drop n (cleaned s)"] cleaned_clean [of s] by auto
  then show ?thesis using False by simp
qed


text \<open>An authorization header keeps its credential: only the word for the scheme is replaced.\<close>

lemma bearer_kept: "redact_secrets (Inr ''Authorization: Bearer s3'') 500 = ''Authorization: *** s3''"
proof -
  have "secret_at ''Authorization: Bearer s3'' = Some (''Authorization: '', ''Bearer'', '' s3'')" by code_simp
  moreover have "scan secret_at '' s3'' = '' s3''" by code_simp
  ultimately have "scan secret_at ''Authorization: Bearer s3'' = ''Authorization: *** s3''"
    using kv.scan_match [of "''Authorization: Bearer s3''"] by (simp add: stars_def)
  moreover have "jwt_at u = None" if "''Authorization: *** s3'' = a @ u" for a u
    using that no_jwt_start no_jwt_Nil by (auto simp: Cons_eq_append_conv)
  then have "clean jwt_at ''Authorization: *** s3''" by (simp add: clean_jwt)
  then have "scan jwt_at ''Authorization: *** s3'' = ''Authorization: *** s3''" by (rule jwt.scan_clean)
  ultimately show ?thesis by (simp add: redact_secrets_def cleaned_def)
qed

end
