(* ===== verification/Contracts.thy ===== *)
theory Contracts
  imports Redaction "HOL-Library.List_Lexorder"
begin

text \<open>
  The shared records of \<open>yasin_core/contracts\<close>: \<open>HealthReport\<close> (\<open>health.py\<close>), \<open>ErrorInfo\<close>
  (\<open>errors.py\<close>), \<open>ServiceStatus\<close> and \<open>ControlResult\<close> (\<open>services.py\<close>), with their enumerations. The fields of
  a data class hold whatever they are given until \<open>validate\<close> looks at them, so the fields are dynamic values; a field
  for a member of an enumeration holds a member or another value. \<open>repr\<close> is the function of the language.
\<close>

section \<open>Enumerations\<close>

datatype health_state = HEALTHY | DEGRADED | UNHEALTHY | HEALTH_UNKNOWN

definition health_names :: "(string \<times> health_state) list" where
  "health_names = [(''HEALTHY'', HEALTHY), (''DEGRADED'', DEGRADED), (''UNHEALTHY'', UNHEALTHY), (''UNKNOWN'', HEALTH_UNKNOWN)]"

datatype error_code = E_UNKNOWN | E_INVALID | E_NOT_FOUND | E_UNAVAILABLE | E_TIMEOUT | E_REFUSED | E_CONFLICT

definition error_names :: "(string \<times> error_code) list" where
  "error_names = [(''UNKNOWN'', E_UNKNOWN), (''INVALID'', E_INVALID), (''NOT_FOUND'', E_NOT_FOUND), (''UNAVAILABLE'', E_UNAVAILABLE),
     (''TIMEOUT'', E_TIMEOUT), (''REFUSED'', E_REFUSED), (''CONFLICT'', E_CONFLICT)]"

datatype status_value = RUNNING | STOPPED | FAILED | STATUS_UNKNOWN | IDLE | SUCCESS | STALE

definition status_names :: "(string \<times> status_value) list" where
  "status_names = [(''RUNNING'', RUNNING), (''STOPPED'', STOPPED), (''FAILED'', FAILED), (''UNKNOWN'', STATUS_UNKNOWN), (''IDLE'', IDLE),
     (''SUCCESS'', SUCCESS), (''STALE'', STALE)]"

datatype control_action = START | STOP | RESTART

definition action_names :: "(string \<times> control_action) list" where
  "action_names = [(''start'', START), (''stop'', STOP), (''restart'', RESTART)]"

text \<open>The value of a member\<close>

definition member_value :: "(string \<times> 'e) list \<Rightarrow> 'e \<Rightarrow> string" where
  "member_value names e = (case find (\<lambda>p. snd p = e) names of Some p \<Rightarrow> fst p | None \<Rightarrow> [])"

definition values_repr :: "string list \<Rightarrow> string" where
  "values_repr xs = ''['' @ join_with '', '' (map quoted xs) @ '']''"

text \<open>
  The four \<open>coerce_\<close> functions: a member is returned as it is, and a string is looked up after it was stripped and
  put into upper or lower case.
\<close>

definition coerce :: "(string \<times> 'e) list \<Rightarrow> (string \<Rightarrow> string) \<Rightarrow> string \<Rightarrow> (pyval \<Rightarrow> string) \<Rightarrow> 'e + pyval \<Rightarrow> exn + 'e" where
  "coerce names fold_case kind repr v =
     (case v of
        Inl e \<Rightarrow> Inr e
      | Inr x \<Rightarrow>
          (case (case x of PStr s \<Rightarrow> map_of names (fold_case (str_strip s)) | _ \<Rightarrow> None) of
             Some e \<Rightarrow> Inr e
           | None \<Rightarrow> Inl (Exn ValueErr (''Unknown '' @ kind @ '' '' @ repr x @ ''; expected one of '' @ values_repr (sort (map fst names)) @ ''.''))))"

definition coerce_health_state :: "(pyval \<Rightarrow> string) \<Rightarrow> health_state + pyval \<Rightarrow> exn + health_state" where
  "coerce_health_state = coerce health_names str_upper ''health state''"

definition coerce_error_code :: "(pyval \<Rightarrow> string) \<Rightarrow> error_code + pyval \<Rightarrow> exn + error_code" where
  "coerce_error_code = coerce error_names str_upper ''error code''"

definition coerce_status_value :: "(pyval \<Rightarrow> string) \<Rightarrow> status_value + pyval \<Rightarrow> exn + status_value" where
  "coerce_status_value = coerce status_names str_upper ''service status''"

definition coerce_control_action :: "(pyval \<Rightarrow> string) \<Rightarrow> control_action + pyval \<Rightarrow> exn + control_action" where
  "coerce_control_action = coerce action_names str_lower ''control action''"

section \<open>Parts of the validation\<close>

definition bad_field :: "string \<Rightarrow> exn option" where
  "bad_field msg = Some (Exn ValueErr msg)"

text \<open>The first check that fails\<close>

definition first_error :: "exn option list \<Rightarrow> exn option" where
  "first_error es = (case dropWhile (\<lambda>e. e = None) es of [] \<Rightarrow> None | e # _ \<Rightarrow> e)"

definition need :: "bool \<Rightarrow> string \<Rightarrow> exn option" where
  "need ok msg = (if ok then None else bad_field msg)"

definition str_value :: "pyval \<Rightarrow> bool" where
  "str_value v = (case v of PStr _ \<Rightarrow> True | _ \<Rightarrow> False)"

definition is_bool :: "pyval \<Rightarrow> bool" where
  "is_bool v = (case v of PBool _ \<Rightarrow> True | _ \<Rightarrow> False)"

definition is_dict :: "pyval \<Rightarrow> bool" where
  "is_dict v = (case v of PDict _ \<Rightarrow> True | _ \<Rightarrow> False)"

definition nonempty_name :: "pyval \<Rightarrow> bool" where
  "nonempty_name v = (case v of PStr s \<Rightarrow> str_strip s \<noteq> [] | _ \<Rightarrow> False)"

definition valid_pid :: "pyval \<Rightarrow> bool" where
  "valid_pid v = (case v of PNone \<Rightarrow> True | PInt i \<Rightarrow> 0 < i | _ \<Rightarrow> False)"

section \<open>Reading dictionaries\<close>

definition or_given :: "pyval \<Rightarrow> pyval \<Rightarrow> pyval" where
  "or_given v dflt = (if truthy v then v else dflt)"

definition field :: "pydict \<Rightarrow> string \<Rightarrow> pyval \<Rightarrow> pyval" where
  "field d k dflt = (case map_of d k of Some v \<Rightarrow> v | None \<Rightarrow> dflt)"

text \<open>\<open>dict(v)\<close>: of a dictionary a copy, of another iterable the pairs that its items give. Keys that are no strings
  are represented by their text.\<close>

fun dict_pairs :: "(pyval \<Rightarrow> string) \<Rightarrow> nat \<Rightarrow> pyval list \<Rightarrow> pydict \<Rightarrow> exn + pydict" where
  "dict_pairs shown n [] d = Inr d"
| "dict_pairs shown n (x # xs) d =
     (case iterate x of
        Inl _ \<Rightarrow> Inl (Exn TypeErr (''cannot convert dictionary update sequence element #'' @ nat_str n @ '' to a sequence''))
      | Inr ys \<Rightarrow>
          (case ys of
             [k, v] \<Rightarrow> (case k of
                 PList _ \<Rightarrow> Inl (Exn TypeErr (''unhashable type: '' @ quoted ''list''))
               | PDict _ \<Rightarrow> Inl (Exn TypeErr (''unhashable type: '' @ quoted ''dict''))
               | _ \<Rightarrow> dict_pairs shown (Suc n) xs (AList.update (py_text shown k) v d))
           | _ \<Rightarrow> Inl (Exn ValueErr (''dictionary update sequence element #'' @ nat_str n @ '' has length ''
                    @ nat_str (length ys) @ ''; 2 is required''))))"

definition dict_of :: "(pyval \<Rightarrow> string) \<Rightarrow> pyval \<Rightarrow> exn + pydict" where
  "dict_of shown v = (case v of PDict d \<Rightarrow> Inr d | _ \<Rightarrow> and_then (iterate v) (\<lambda>xs. dict_pairs shown 0 xs []))"

text \<open>\<open>dict(data.get(k, {}) or {})\<close>\<close>

definition field_dict :: "(pyval \<Rightarrow> string) \<Rightarrow> pydict \<Rightarrow> string \<Rightarrow> exn + pydict" where
  "field_dict shown d k = dict_of shown (or_given (field d k (PDict [])) (PDict []))"

text \<open>A record that is returned only if it is valid\<close>

definition validated :: "('r \<Rightarrow> exn option) \<Rightarrow> 'r \<Rightarrow> exn + 'r" where
  "validated check r = (case check r of Some e \<Rightarrow> Inl e | None \<Rightarrow> Inr r)"

section \<open>Health reports\<close>

record health_report =
  hp_service :: pyval
  hp_state :: "health_state + pyval"
  hp_message :: pyval
  hp_details :: pyval

definition validate_report :: "health_report \<Rightarrow> exn option" where
  "validate_report r = first_error
     [need (nonempty_name (hp_service r)) ''HealthReport.service must be a non-empty string.'',
      need (isl (hp_state r)) ''HealthReport.state must be a HealthState.'',
      need (str_value (hp_message r)) ''HealthReport.message must be a string.'',
      need (is_dict (hp_details r)) ''HealthReport.details must be a dict.'']"

definition report_healthy :: "health_report \<Rightarrow> bool" where
  "report_healthy r \<longleftrightarrow> hp_state r = Inl HEALTHY"

definition report_to_dict :: "health_report \<Rightarrow> exn + pydict" where
  "report_to_dict r =
     (case validate_report r of
        Some e \<Rightarrow> Inl e
      | None \<Rightarrow> Inr [(''service'', hp_service r), (''state'', PStr (member_value health_names (projl (hp_state r)))),
                     (''message'', hp_message r), (''details'', hp_details r)])"

definition report_from_dict :: "(pyval \<Rightarrow> string) \<Rightarrow> pyval \<Rightarrow> exn + health_report" where
  "report_from_dict repr data =
     (case data of
        PDict d \<Rightarrow>
          and_then (coerce_health_state repr (Inr (field d ''state'' (PStr ''UNKNOWN'')))) (\<lambda>s.
          and_then (field_dict repr d ''details'') (\<lambda>ds.
            validated validate_report \<lparr> hp_service = field d ''service'' (PStr []), hp_state = Inl s,
              hp_message = or_given (field d ''message'' (PStr [])) (PStr []), hp_details = PDict ds \<rparr>))
      | _ \<Rightarrow> Inl (Exn ValueErr ''HealthReport snapshot must be a dict.''))"

section \<open>Errors\<close>

record error_info =
  ei_code :: "error_code + pyval"
  ei_message :: pyval
  ei_details :: pyval

text \<open>The message is redacted when the record is made, whatever it is; \<open>str\<close> of a value gives a text here.\<close>

definition mk_error_info :: "(pyval \<Rightarrow> string) \<Rightarrow> error_code + pyval \<Rightarrow> pyval \<Rightarrow> pyval \<Rightarrow> error_info" where
  "mk_error_info shown code message details =
     \<lparr> ei_code = code, ei_message = PStr (redact_secrets (Inr (py_text shown message)) 500), ei_details = details \<rparr>"

definition validate_error :: "error_info \<Rightarrow> exn option" where
  "validate_error r = first_error
     [need (isl (ei_code r)) ''ErrorInfo.code must be an ErrorCode.'',
      need (str_value (ei_message r)) ''ErrorInfo.message must be a string.'',
      need (is_dict (ei_details r)) ''ErrorInfo.details must be a dict.'']"

definition error_info_dict :: "error_info \<Rightarrow> exn + pydict" where
  "error_info_dict r =
     (case validate_error r of
        Some e \<Rightarrow> Inl e
      | None \<Rightarrow> Inr [(''code'', PStr (member_value error_names (projl (ei_code r)))), (''message'', ei_message r), (''details'', ei_details r)])"

definition error_info_from :: "(pyval \<Rightarrow> string) \<Rightarrow> (pyval \<Rightarrow> string) \<Rightarrow> pyval \<Rightarrow> exn + error_info" where
  "error_info_from repr shown data =
     (case data of
        PDict d \<Rightarrow>
          and_then (coerce_error_code repr (Inr (field d ''code'' (PStr ''UNKNOWN'')))) (\<lambda>c.
          and_then (field_dict repr d ''details'') (\<lambda>ds.
            validated validate_error (mk_error_info shown (Inl c) (or_given (field d ''message'' (PStr [])) (PStr [])) (PDict ds))))
      | _ \<Rightarrow> Inl (Exn ValueErr ''ErrorInfo record must be a dict.''))"

section \<open>Service states\<close>

record service_report =
  ss_name :: pyval
  ss_status :: "status_value + pyval"
  ss_pid :: pyval
  ss_running :: pyval
  ss_message :: pyval
  ss_extra :: pyval

definition validate_status :: "service_report \<Rightarrow> exn option" where
  "validate_status r = first_error
     [need (nonempty_name (ss_name r)) ''ServiceStatus.name must be a non-empty string.'',
      need (isl (ss_status r)) ''ServiceStatus.status must be a ServiceStatusValue.'',
      need (valid_pid (ss_pid r)) ''pid must be a positive integer PID or None.'',
      need (is_bool (ss_running r)) ''ServiceStatus.running must be a bool.'',
      need (str_value (ss_message r)) ''ServiceStatus.message must be a string.'',
      need (is_dict (ss_extra r)) ''ServiceStatus.extra must be a dict.'']"

definition status_to_dict :: "service_report \<Rightarrow> exn + pydict" where
  "status_to_dict r =
     (case validate_status r of
        Some e \<Rightarrow> Inl e
      | None \<Rightarrow> Inr [(''name'', ss_name r), (''status'', PStr (member_value status_names (projl (ss_status r)))), (''pid'', ss_pid r),
                     (''running'', ss_running r), (''message'', ss_message r), (''extra'', ss_extra r)])"

definition status_from_dict :: "(pyval \<Rightarrow> string) \<Rightarrow> pyval \<Rightarrow> exn + service_report" where
  "status_from_dict repr data =
     (case data of
        PDict d \<Rightarrow>
          and_then (coerce_status_value repr (Inr (field d ''status'' (PStr ''UNKNOWN'')))) (\<lambda>s.
          and_then (field_dict repr d ''extra'') (\<lambda>ds.
            validated validate_status \<lparr> ss_name = field d ''name'' (PStr []), ss_status = Inl s, ss_pid = field d ''pid'' PNone,
              ss_running = PBool (truthy (field d ''running'' (PBool False))),
              ss_message = or_given (field d ''message'' (PStr [])) (PStr []), ss_extra = PDict ds \<rparr>))
      | _ \<Rightarrow> Inl (Exn ValueErr ''ServiceStatus snapshot must be a dict.''))"

record control_result =
  cr_service :: pyval
  cr_action :: "control_action + pyval"
  cr_success :: pyval
  cr_status :: "status_value + pyval"
  cr_pid :: pyval
  cr_message :: pyval

definition validate_result :: "control_result \<Rightarrow> exn option" where
  "validate_result r = first_error
     [need (nonempty_name (cr_service r)) ''ControlResult.service must be a non-empty string.'',
      need (isl (cr_action r)) ''ControlResult.action must be a ControlAction.'',
      need (is_bool (cr_success r)) ''ControlResult.success must be a bool.'',
      need (isl (cr_status r)) ''ControlResult.status must be a ServiceStatusValue.'',
      need (valid_pid (cr_pid r)) ''pid must be a positive integer PID or None.'',
      need (str_value (cr_message r)) ''ControlResult.message must be a string.'']"

definition result_to_dict :: "control_result \<Rightarrow> exn + pydict" where
  "result_to_dict r =
     (case validate_result r of
        Some e \<Rightarrow> Inl e
      | None \<Rightarrow> Inr [(''service'', cr_service r), (''action'', PStr (member_value action_names (projl (cr_action r)))),
                     (''success'', cr_success r), (''status'', PStr (member_value status_names (projl (cr_status r)))),
                     (''pid'', cr_pid r), (''message'', cr_message r)])"

definition result_from_dict :: "(pyval \<Rightarrow> string) \<Rightarrow> pyval \<Rightarrow> exn + control_result" where
  "result_from_dict repr data =
     (case data of
        PDict d \<Rightarrow>
          and_then (coerce_control_action repr (Inr (field d ''action'' (PStr [])))) (\<lambda>a.
          and_then (coerce_status_value repr (Inr (field d ''status'' (PStr ''UNKNOWN'')))) (\<lambda>s.
            validated validate_result \<lparr> cr_service = field d ''service'' (PStr []), cr_action = Inl a,
              cr_success = PBool (truthy (field d ''success'' (PBool False))), cr_status = Inl s,
              cr_pid = field d ''pid'' PNone, cr_message = or_given (field d ''message'' (PStr [])) (PStr []) \<rparr>))
      | _ \<Rightarrow> Inl (Exn ValueErr ''ControlResult verdict must be a dict.''))"

end
