(* ===== verification/ContractProps.thy ===== *)
theory ContractProps
  imports Contracts
begin

text \<open>What a record writes it reads back, and every other dictionary is refused or gives a valid record.\<close>

section \<open>Members\<close>

text \<open>A table of names that are found under their own value, however it was put into case\<close>

definition names_ok :: "(string \<times> 'e) list \<Rightarrow> (string \<Rightarrow> string) \<Rightarrow> bool" where
  "names_ok names f \<longleftrightarrow> distinct (map snd names) \<and> distinct (map fst names) \<and> list_all (\<lambda>p. f (str_strip (fst p)) = fst p) names"

lemma coerce_value:
  assumes "names_ok names f" "e \<in> snd ` set names"
  shows "coerce names f kind repr (Inr (PStr (member_value names e))) = Inr e"
proof -
  obtain n where n: "(n, e) \<in> set names" using assms(2) by force
  obtain q where q: "find (\<lambda>p. snd p = e) names = Some q"
    using n by (cases "find (\<lambda>p. snd p = e) names") (auto simp: find_None_iff)
  then have "q \<in> set names" "snd q = e" by (auto simp: find_Some_iff)
  then have "map_of names (fst q) = Some e" "f (str_strip (fst q)) = fst q"
    using assms(1) by (auto simp: names_ok_def list_all_iff)
  then show ?thesis using q by (simp add: coerce_def member_value_def)
qed

lemma names_ok: "names_ok health_names str_upper" "names_ok error_names str_upper" "names_ok status_names str_upper" "names_ok action_names str_lower"
  by code_simp+

lemma all_members: "e \<in> snd ` set health_names" "c \<in> snd ` set error_names" "s \<in> snd ` set status_names" "a \<in> snd ` set action_names"
proof -
  show "e \<in> snd ` set health_names" by (cases e) (simp_all add: health_names_def)
  show "c \<in> snd ` set error_names" by (cases c) (simp_all add: error_names_def)
  show "s \<in> snd ` set status_names" by (cases s) (simp_all add: status_names_def)
  show "a \<in> snd ` set action_names" by (cases a) (simp_all add: action_names_def)
qed

lemma coerce_values [simp]:
  "coerce_health_state repr (Inr (PStr (member_value health_names h))) = Inr h"
  "coerce_error_code repr (Inr (PStr (member_value error_names c))) = Inr c"
  "coerce_status_value repr (Inr (PStr (member_value status_names s))) = Inr s"
  "coerce_control_action repr (Inr (PStr (member_value action_names a))) = Inr a"
  by (simp_all add: coerce_health_state_def coerce_error_code_def coerce_status_value_def coerce_control_action_def
      coerce_value names_ok all_members)

section \<open>Round trips\<close>

lemma need_None [simp]: "need ok msg = None \<longleftrightarrow> ok"
  by (simp add: need_def bad_field_def)

lemma first_error_None [simp]: "first_error es = None \<longleftrightarrow> list_all (\<lambda>e. e = None) es"
  by (induction es) (auto simp: first_error_def)

lemma typed_values:
  "str_value v \<longleftrightarrow> (\<exists>s. v = PStr s)" "is_bool v \<longleftrightarrow> (\<exists>b. v = PBool b)" "is_dict v \<longleftrightarrow> (\<exists>d. v = PDict d)"
  by (simp_all add: str_value_def is_bool_def is_dict_def split: pyval.splits)

lemma or_default_str [simp]: "or_given (PStr s) (PStr []) = PStr s"
  by (simp add: or_given_def)

lemma dict_of_or [simp]: "dict_of shown (or_given (PDict d) (PDict [])) = Inr d"
  by (simp add: dict_of_def or_given_def)

lemma isl_projl: "isl x \<Longrightarrow> x = Inl (projl x)"
  by (cases x) simp_all

lemma report_roundtrip: "report_to_dict r = Inr d \<Longrightarrow> report_from_dict repr (PDict d) = Inr r"
proof -
  assume "report_to_dict r = Inr d"
  then have v: "validate_report r = None" and d: "d = [(''service'', hp_service r), (''state'', PStr (member_value health_names (projl (hp_state r)))),
                     (''message'', hp_message r), (''details'', hp_details r)]"
    by (auto simp: report_to_dict_def split: option.splits)
  from v obtain s m ds where f: "hp_state r = Inl s" "hp_message r = PStr m" "hp_details r = PDict ds"
    by (auto simp: validate_report_def typed_values dest: isl_projl)
  then show ?thesis using v by (cases r) (simp add: d report_from_dict_def field_def field_dict_def validated_def)
qed

lemma status_roundtrip: "status_to_dict r = Inr d \<Longrightarrow> status_from_dict repr (PDict d) = Inr r"
proof -
  assume "status_to_dict r = Inr d"
  then have v: "validate_status r = None" and d: "d = [(''name'', ss_name r), (''status'', PStr (member_value status_names (projl (ss_status r)))), (''pid'', ss_pid r),
                     (''running'', ss_running r), (''message'', ss_message r), (''extra'', ss_extra r)]"
    by (auto simp: status_to_dict_def split: option.splits)
  from v obtain s b m ds where f: "ss_status r = Inl s" "ss_running r = PBool b" "ss_message r = PStr m" "ss_extra r = PDict ds"
    by (auto simp: validate_status_def typed_values dest: isl_projl)
  then show ?thesis using v by (cases r) (simp add: d status_from_dict_def field_def field_dict_def validated_def)
qed

lemma result_roundtrip: "result_to_dict r = Inr d \<Longrightarrow> result_from_dict repr (PDict d) = Inr r"
proof -
  assume "result_to_dict r = Inr d"
  then have v: "validate_result r = None" and d: "d = [(''service'', cr_service r), (''action'', PStr (member_value action_names (projl (cr_action r)))),
                     (''success'', cr_success r), (''status'', PStr (member_value status_names (projl (cr_status r)))),
                     (''pid'', cr_pid r), (''message'', cr_message r)]"
    by (auto simp: result_to_dict_def split: option.splits)
  from v have "isl (cr_action r)" "isl (cr_status r)" "is_bool (cr_success r)" "str_value (cr_message r)" by (simp_all add: validate_result_def)
  then obtain a b s m where f: "cr_action r = Inl a" "cr_success r = PBool b" "cr_status r = Inl s" "cr_message r = PStr m"
    unfolding typed_values by (metis isl_projl)
  then show ?thesis using v by (cases r) (simp add: d result_from_dict_def field_def validated_def)
qed

lemma error_roundtrip:
  assumes "error_info_dict (mk_error_info shown code msg details) = Inr d"
  shows "error_info_from repr shown (PDict d) = Inr (mk_error_info shown code msg details)"
proof -
  have v: "validate_error (mk_error_info shown code msg details) = None"
    using assms by (auto simp: error_info_dict_def split: option.splits)
  then obtain c ds where f: "code = Inl c" "details = PDict ds"
    by (auto simp: validate_error_def mk_error_info_def typed_values dest: isl_projl)
  have d: "d = [(''code'', PStr (member_value error_names c)), (''message'', PStr (redact_secrets (Inr (py_text shown msg)) 500)), (''details'', PDict ds)]"
    using assms v f by (simp add: error_info_dict_def mk_error_info_def)
  have "take 500 (cleaned (take 500 (cleaned s))) = take 500 (cleaned s)" for s
    using cut_redaction [of 500 s] by simp
  then show ?thesis
    using v f by (simp add: d error_info_from_def field_def field_dict_def validated_def mk_error_info_def redact_secrets_def)
qed

text \<open>
  \<open>C31\<close>. Whatever one of the four records writes as a dictionary it reads back as the same record. For errors this
  includes the message, which is redacted again on the way.
\<close>

theorem contracts_roundtrip:
  assumes "report_to_dict hp = Inr d1" "status_to_dict ss = Inr d2" "result_to_dict cr = Inr d3"
    "error_info_dict (mk_error_info shown code msg details) = Inr d4"
  shows "report_from_dict repr (PDict d1) = Inr hp \<and> status_from_dict repr (PDict d2) = Inr ss \<and> result_from_dict repr (PDict d3) = Inr cr
     \<and> error_info_from repr shown (PDict d4) = Inr (mk_error_info shown code msg details)"
  using assms by (simp add: report_roundtrip status_roundtrip result_roundtrip error_roundtrip)

section \<open>Refusals\<close>

lemma validated_Inr: "validated check r = Inr x \<Longrightarrow> check x = None"
  by (auto simp: validated_def split: option.splits)

lemma valid_from_dict:
  "report_from_dict repr v = Inr hp \<Longrightarrow> validate_report hp = None" "status_from_dict repr v = Inr ss \<Longrightarrow> validate_status ss = None"
  "result_from_dict repr v = Inr cr \<Longrightarrow> validate_result cr = None" "error_info_from repr shown v = Inr ei \<Longrightarrow> validate_error ei = None"
  by (auto simp: report_from_dict_def status_from_dict_def result_from_dict_def error_info_from_def and_then_Inr split: pyval.splits
      dest: validated_Inr)

text \<open>The documentation promises a \<open>ValueError\<close> for every malformed input; details that are a number give another one.\<close>

lemma details_type_error:
  "\<exists>msg. report_from_dict repr (PDict [(''service'', PStr ''db''), (''state'', PStr (member_value health_names HEALTHY)), (''details'', PInt 5)])
     = Inl (Exn TypeErr msg)"
  by (simp add: report_from_dict_def field_def field_dict_def or_given_def dict_of_def iterate_def)

section \<open>Witness\<close>

theorem contracts_roundtrip_witness:
  "\<exists>d. report_to_dict \<lparr> hp_service = PStr ''db'', hp_state = Inl HEALTHY, hp_message = PStr [], hp_details = PDict [] \<rparr> = Inr d
     \<and> report_from_dict (\<lambda>_. ''?'') (PDict d) = Inr \<lparr> hp_service = PStr ''db'', hp_state = Inl HEALTHY, hp_message = PStr [], hp_details = PDict [] \<rparr>"
proof -
  have n: "nonempty_name (PStr ''db'')" by code_simp
  have r: "\<exists>d. report_to_dict \<lparr> hp_service = PStr ''db'', hp_state = Inl HEALTHY, hp_message = PStr [], hp_details = PDict [] \<rparr> = Inr d"
    using n by (simp add: report_to_dict_def validate_report_def first_error_def need_def str_value_def is_dict_def)
  have s: "\<exists>d. status_to_dict \<lparr> ss_name = PStr ''db'', ss_status = Inl IDLE, ss_pid = PNone, ss_running = PBool False, ss_message = PStr [], ss_extra = PDict [] \<rparr> = Inr d"
    using n by (simp add: status_to_dict_def validate_status_def first_error_def need_def str_value_def is_dict_def is_bool_def valid_pid_def)
  have c: "\<exists>d. result_to_dict \<lparr> cr_service = PStr ''db'', cr_action = Inl STOP, cr_success = PBool True, cr_status = Inl STOPPED, cr_pid = PNone, cr_message = PStr [] \<rparr> = Inr d"
    using n by (simp add: result_to_dict_def validate_result_def first_error_def need_def str_value_def is_bool_def valid_pid_def)
  have e: "\<exists>d. error_info_dict (mk_error_info (\<lambda>_. ''?'') (Inl E_TIMEOUT) (PStr []) (PDict [])) = Inr d"
    by (simp add: error_info_dict_def validate_error_def mk_error_info_def first_error_def need_def str_value_def is_dict_def)
  from r s c e show ?thesis using contracts_roundtrip by blast
qed

end
