(* ===== verification/SdkContract.thy ===== *)
theory SdkContract
  imports PyDynamic "HOL-Library.List_Lexorder"
begin

text \<open>
  The validation of the contract registry (\<open>yasin_core/sdk/contract.py\<close>) with the functions that read it, and
  the translation of exceptions at the SDK (\<open>yasin_core/sdk/errors.py\<close>). The registry is what \<open>json.load\<close>
  gives: dynamic values, read without type checks in the accessors.
\<close>

section \<open>The registry\<close>

definition required_top_level :: "string list" where
  "required_top_level = [''contract_version'', ''core_version'', ''status'', ''public_sdk'', ''ecosystem_consumers'', ''compatibility'']"

definition required_consumers :: "string list" where
  "required_consumers = [''Yasin-Agent'', ''YasinHub'', ''YasinRelay'', ''YasinCLI'']"

definition sdk :: pyval where
  "sdk = PStr ''yasin_core.sdk''"

definition str_in_list :: "pyval \<Rightarrow> bool" where
  "str_in_list v = (case v of PList xs \<Rightarrow> sdk \<in> set xs | _ \<Rightarrow> False)"

definition nonempty_list :: "pyval \<Rightarrow> bool" where
  "nonempty_list v = (case v of PList xs \<Rightarrow> xs \<noteq> [] | _ \<Rightarrow> False)"

definition unhashable :: "pyval \<Rightarrow> bool" where
  "unhashable v = (case v of PList _ \<Rightarrow> True | PDict _ \<Rightarrow> True | _ \<Rightarrow> False)"

definition unhashable_type :: "pyval \<Rightarrow> exn" where
  "unhashable_type v = Exn TypeErr (''unhashable type: '' @ quoted (py_type_name v))"

text \<open>\<open>set(xs)\<close> raises for items that cannot be hashed; equal numbers of different types are not distinguished by the
  code, but occur in no list of names.\<close>

definition distinct_items :: "pyval list \<Rightarrow> exn + bool" where
  "distinct_items xs = (case filter unhashable xs of v # _ \<Rightarrow> Inl (unhashable_type v) | [] \<Rightarrow> Inr (distinct xs))"

definition export_errors :: "pyval \<Rightarrow> exn + string list" where
  "export_errors exports =
     (case exports of
        PList xs \<Rightarrow>
          if xs = [] then Inr [''public_sdk.modules['' @ quoted ''yasin_core.sdk'' @ ''].exports must be a non-empty list'']
          else and_then (distinct_items xs) (\<lambda>ok. Inr (if ok then [] else [''public_sdk exports list contains duplicates'']))
      | _ \<Rightarrow> Inr [''public_sdk.modules['' @ quoted ''yasin_core.sdk'' @ ''].exports must be a non-empty list''])"

definition module_errors :: "pyval \<Rightarrow> exn + string list" where
  "module_errors modules =
     (case (case modules of PDict d \<Rightarrow> map_of d ''yasin_core.sdk'' | _ \<Rightarrow> None) of
        None \<Rightarrow> Inr [''public_sdk.modules must define '' @ quoted ''yasin_core.sdk'']
      | Some m \<Rightarrow> and_then (value_get m ''exports'' PNone) export_errors)"

definition public_sdk_errors :: "pyval \<Rightarrow> exn + string list" where
  "public_sdk_errors public =
     (case public of
        PDict d \<Rightarrow>
          and_then (module_errors (pyget d ''modules'')) (\<lambda>es. Inr (
            (if pyget d ''package'' \<noteq> sdk then [''public_sdk.package must be '' @ quoted ''yasin_core.sdk''] else [])
            @ (if \<not> str_in_list (pyget d ''supported_import_boundary'')
               then [''public_sdk.supported_import_boundary must include '' @ quoted ''yasin_core.sdk''] else [])
            @ es
            @ (if \<not> nonempty_list (pyget d ''forbidden_consumer_import_prefixes'')
               then [''public_sdk.forbidden_consumer_import_prefixes must be a non-empty list''] else [])))
      | _ \<Rightarrow> Inr [''public_sdk must be an object''])"

definition consumer_errors :: "pydict \<Rightarrow> string \<Rightarrow> string list" where
  "consumer_errors d name =
     (case map_of d name of
        None \<Rightarrow> [''Missing required ecosystem consumer: '' @ name]
      | Some (PDict entry) \<Rightarrow>
          concat (map (\<lambda>f. if dict_has entry f then [] else [''ecosystem_consumers['' @ name @ ''] missing required field '' @ quoted f])
                      [''id'', ''import_boundary'', ''validator'', ''status''])
          @ (if pyget entry ''import_boundary'' \<noteq> sdk
             then [''ecosystem_consumers['' @ name @ ''].import_boundary must be '' @ quoted ''yasin_core.sdk''] else [])
      | Some _ \<Rightarrow> [''ecosystem_consumers['' @ name @ ''] must be an object''])"

definition consumers_errors :: "pyval \<Rightarrow> string list" where
  "consumers_errors consumers =
     (case consumers of
        PDict d \<Rightarrow> concat (map (consumer_errors d) required_consumers)
      | _ \<Rightarrow> [''ecosystem_consumers must be an object''])"

definition compatibility_errors :: "pyval \<Rightarrow> string list" where
  "compatibility_errors v =
     (case v of
        PDict d \<Rightarrow>
          (if dict_has d ''python_requires'' then [] else [''compatibility.python_requires is required''])
          @ (if nonempty_list (pyget d ''certified_python_versions'') then []
             else [''compatibility.certified_python_versions must be a non-empty list''])
      | _ \<Rightarrow> [''compatibility must be an object''])"

definition validate_registry_schema :: "pydict \<Rightarrow> exn + string list" where
  "validate_registry_schema reg =
     and_then (public_sdk_errors (pyget reg ''public_sdk'')) (\<lambda>es. Inr (
       concat (map (\<lambda>k. if dict_has reg k then [] else [''Missing required top-level key: '' @ k]) required_top_level)
       @ es @ consumers_errors (pyget reg ''ecosystem_consumers'') @ compatibility_errors (pyget reg ''compatibility'')))"

text \<open>Subscripts \<open>v["k"]\<close>, \<open>set(v)\<close>, \<open>list(v)\<close> and \<open>dict(v)\<close> of the accessors\<close>

definition subscript :: "pyval \<Rightarrow> string \<Rightarrow> exn + pyval" where
  "subscript v k =
     (case v of
        PDict d \<Rightarrow> (case map_of d k of Some w \<Rightarrow> Inr w | None \<Rightarrow> Inl (Exn KeyErr (quoted k)))
      | PList _ \<Rightarrow> Inl (Exn TypeErr ''list indices must be integers or slices, not str'')
      | PStr _ \<Rightarrow> Inl (Exn TypeErr ''string indices must be integers'')
      | _ \<Rightarrow> Inl (Exn TypeErr (quoted (py_type_name v) @ '' object is not subscriptable'')))"

definition items_set :: "pyval \<Rightarrow> exn + pyval set" where
  "items_set v = and_then (iterate v) (\<lambda>xs. case filter unhashable xs of x # _ \<Rightarrow> Inl (unhashable_type x) | [] \<Rightarrow> Inr (set xs))"

definition get_public_exports :: "pydict \<Rightarrow> exn + pyval set" where
  "get_public_exports reg =
     and_then (subscript (PDict reg) ''public_sdk'') (\<lambda>p.
     and_then (subscript p ''modules'') (\<lambda>m.
     and_then (subscript m ''yasin_core.sdk'') (\<lambda>s.
     and_then (subscript s ''exports'') items_set)))"

definition get_forbidden_import_prefixes :: "pydict \<Rightarrow> exn + pyval list" where
  "get_forbidden_import_prefixes reg =
     and_then (subscript (PDict reg) ''public_sdk'') (\<lambda>p.
     and_then (subscript p ''forbidden_consumer_import_prefixes'') iterate)"

definition get_ecosystem_consumers :: "pydict \<Rightarrow> exn + pyval" where
  "get_ecosystem_consumers reg = subscript (PDict reg) ''ecosystem_consumers''"

section \<open>A valid registry can be read\<close>

lemma Inr_Nil_append: "and_then r (\<lambda>es. Inr (a @ es @ b)) = Inr [] \<longleftrightarrow> r = Inr [] \<and> a = [] \<and> b = []"
  by (cases r) auto

lemma module_errors_Nil:
  assumes "module_errors v = Inr []"
  obtains d m xs where "v = PDict d" "map_of d ''yasin_core.sdk'' = Some (PDict m)" "map_of m ''exports'' = Some (PList xs)"
    "xs \<noteq> []" "distinct xs" "filter unhashable xs = []"
proof -
  obtain d m where d: "v = PDict d" "map_of d ''yasin_core.sdk'' = Some m" "and_then (value_get m ''exports'' PNone) export_errors = Inr []"
    using assms by (auto simp: module_errors_def split: pyval.splits option.splits)
  obtain m' where m: "m = PDict m'" using d(3) by (auto simp: value_get_def split: pyval.splits)
  define x where "x = (case map_of m' ''exports'' of Some w \<Rightarrow> w | None \<Rightarrow> PNone)"
  have "export_errors x = Inr []" using d(3) m by (simp add: x_def)
  then obtain xs where xs: "x = PList xs" "xs \<noteq> []" "distinct_items xs = Inr True"
    by (cases x) (auto simp: export_errors_def and_then_def split: if_splits sum.splits)
  then have "map_of m' ''exports'' = Some (PList xs)" by (auto simp: x_def split: option.splits)
  then show thesis
    using that d m xs by (auto simp: distinct_items_def split: list.splits)
qed

text \<open>
  \<open>C38\<close>. A registry in which the validation finds nothing can be read by every accessor: the exports are a nonempty set
  of as many items as the list has, there are forbidden prefixes, and all required consumers import from the SDK only.
\<close>

theorem valid_registry_readable:
  assumes "validate_registry_schema reg = Inr []"
  shows "(\<exists>xs. get_public_exports reg = Inr (set xs) \<and> xs \<noteq> [] \<and> distinct xs)
     \<and> (\<exists>ps. get_forbidden_import_prefixes reg = Inr ps \<and> ps \<noteq> [])
     \<and> (\<exists>cs. get_ecosystem_consumers reg = Inr (PDict cs)
          \<and> list_all (\<lambda>name. \<exists>entry. map_of cs name = Some (PDict entry) \<and> map_of entry ''import_boundary'' = Some sdk) required_consumers)"
proof -
  have parts: "public_sdk_errors (pyget reg ''public_sdk'') = Inr []" "consumers_errors (pyget reg ''ecosystem_consumers'') = []"
    using assms unfolding validate_registry_schema_def by (auto simp: and_then_Inr)
  obtain p where p: "map_of reg ''public_sdk'' = Some (PDict p)"
    using parts(1) by (auto simp: public_sdk_errors_def pyget_def split: pyval.splits option.splits)
  have "module_errors (pyget p ''modules'') = Inr []" "nonempty_list (pyget p ''forbidden_consumer_import_prefixes'')"
    using parts(1) by (auto simp: public_sdk_errors_def pyget_def [of reg] p and_then_Inr split: if_splits)
  then obtain d m xs fs where mo: "map_of p ''modules'' = Some (PDict d)" "map_of d ''yasin_core.sdk'' = Some (PDict m)"
      "map_of m ''exports'' = Some (PList xs)" "xs \<noteq> []" "distinct xs" "filter unhashable xs = []"
      "map_of p ''forbidden_consumer_import_prefixes'' = Some (PList fs)" "fs \<noteq> []"
    by (elim module_errors_Nil) (auto simp: pyget_def nonempty_list_def split: option.splits pyval.splits)
  obtain cs where cs: "map_of reg ''ecosystem_consumers'' = Some (PDict cs)" "\<And>n. n \<in> set required_consumers \<Longrightarrow> consumer_errors cs n = []"
    using parts(2) by (auto simp: consumers_errors_def pyget_def split: pyval.splits option.splits)
  have "\<exists>entry. map_of cs n = Some (PDict entry) \<and> map_of entry ''import_boundary'' = Some sdk" if "n \<in> set required_consumers" for n
    using cs(2) [OF that] by (auto simp: consumer_errors_def pyget_def sdk_def split: option.splits pyval.splits if_splits)
  then show ?thesis
    using p mo cs(1) by (auto simp: get_public_exports_def get_forbidden_import_prefixes_def get_ecosystem_consumers_def subscript_def
        items_set_def list_all_iff)
qed

definition small_consumer :: pyval where
  "small_consumer = PDict [(''id'', PStr ''a''), (''import_boundary'', sdk), (''validator'', PStr ''v''), (''status'', PStr ''s'')]"

definition small_registry :: pydict where
  "small_registry = [(''contract_version'', PStr ''1''), (''core_version'', PStr ''3''), (''status'', PStr ''stable''),
     (''public_sdk'', PDict [(''package'', sdk), (''supported_import_boundary'', PList [sdk]),
        (''modules'', PDict [(''yasin_core.sdk'', PDict [(''exports'', PList [PStr ''Task''])])]),
        (''forbidden_consumer_import_prefixes'', PList [PStr ''yasin_core.api''])]),
     (''ecosystem_consumers'', PDict (map (\<lambda>n. (n, small_consumer)) required_consumers)),
     (''compatibility'', PDict [(''python_requires'', PStr ''>=3.9''), (''certified_python_versions'', PList [PStr ''3.12''])])]"

theorem valid_registry_readable_witness:
  "validate_registry_schema small_registry = Inr [] \<and> (\<exists>xs. get_public_exports small_registry = Inr (set xs) \<and> xs \<noteq> [])"
proof -
  have "validate_registry_schema small_registry = Inr []"
    by (simp add: validate_registry_schema_def small_registry_def required_top_level_def required_consumers_def pyget_def public_sdk_errors_def
        module_errors_def export_errors_def distinct_items_def unhashable_def str_in_list_def nonempty_list_def consumers_errors_def
        consumer_errors_def compatibility_errors_def small_consumer_def sdk_def)
  then show ?thesis using valid_registry_readable by blast
qed

text \<open>The validation itself can raise, although it promises a list of errors.\<close>

lemma validation_raises:
  "map_of reg ''public_sdk'' = Some (PDict d) \<Longrightarrow> map_of d ''modules'' = Some (PDict [(''yasin_core.sdk'', PNone)])
     \<Longrightarrow> \<exists>e. validate_registry_schema reg = Inl e"
  by (simp add: validate_registry_schema_def public_sdk_errors_def module_errors_def pyget_def value_get_def)

section \<open>The translation of exceptions\<close>

text \<open>The classes from which an exception inherits, among those that are caught. What users raise is no subclass of them.\<close>

fun is_security_error :: "exn_class \<Rightarrow> bool" where
  "is_security_error SecurityErr = True"
| "is_security_error AccessDeniedErr = True"
| "is_security_error AuthenticationErr = True"
| "is_security_error PermissionValidationErr = True"
| "is_security_error _ = False"

fun is_storage_error :: "exn_class \<Rightarrow> bool" where
  "is_storage_error StorageErr = True"
| "is_storage_error StorageConnectionErr = True"
| "is_storage_error StorageNotFoundErr = True"
| "is_storage_error StorageValidationErr = True"
| "is_storage_error _ = False"

fun value_error_class :: "exn_class \<Rightarrow> bool" where
  "value_error_class ValueErr = True"
| "value_error_class ConfigurationValidationErr = True"
| "value_error_class SDKValidationErr = True"
| "value_error_class _ = False"

fun is_sdk_error :: "exn_class \<Rightarrow> bool" where
  "is_sdk_error SDKErr = True"
| "is_sdk_error SDKValidationErr = True"
| "is_sdk_error SDKAuthenticationErr = True"
| "is_sdk_error SDKConnectionErr = True"
| "is_sdk_error SDKExecutionErr = True"
| "is_sdk_error _ = False"

definition translate_exn :: "exn \<Rightarrow> exn" where
  "translate_exn e =
     (let msg = exn_msg e in
      if is_security_error (exn_class e) then Exn SDKAuthenticationErr (''Security/Authentication failure: '' @ msg)
      else if exn_class e = ConfigurationValidationErr then Exn SDKValidationErr (''Configuration validation failure: '' @ msg)
      else if is_storage_error (exn_class e) then Exn SDKConnectionErr (''Storage backend failure: '' @ msg)
      else if value_error_class (exn_class e) then Exn SDKValidationErr msg
      else if has_part ''not found'' (str_lower msg) \<or> has_part ''missing'' (str_lower msg) then Exn SDKValidationErr msg
      else Exn SDKExecutionErr (''SDK execution failed: '' @ msg))"

definition translated :: "exn + 'a \<Rightarrow> exn + 'a" where
  "translated r = map_sum translate_exn id r"

text \<open>For operations that change a state also when they raise\<close>

definition translated_op :: "'s \<times> exn option \<Rightarrow> 's \<times> exn option" where
  "translated_op r = (fst r, map_option translate_exn (snd r))"

lemma translate_is_sdk: "is_sdk_error (exn_class (translate_exn e))"
  by (simp add: translate_exn_def Let_def)

text \<open>Translation is not the identity on SDK errors: what was an authentication error becomes an execution error when
  the call goes through two namespaces.\<close>

lemma translated_twice:
  "\<not> has_part ''not found'' (str_lower msg) \<Longrightarrow> \<not> has_part ''missing'' (str_lower msg) \<Longrightarrow>
     translate_exn (Exn SDKAuthenticationErr msg) = Exn SDKExecutionErr (''SDK execution failed: '' @ msg)"
  by (simp add: translate_exn_def)

end
