(* ===== verification/SdkBoundary.thy ===== *)
theory SdkBoundary
  imports PyDynamic
begin

text \<open>
  The import boundary of the SDK (\<open>yasin_core/sdk/boundary.py\<close>): which modules a consumer may import, the
  violations of a file, and the scan of directories. The import statements of a source text, in the order of \<open>ast.walk\<close>,
  and the files of a directory are given, as the Python parser and the file system give them.
\<close>

section \<open>The policy\<close>

definition under :: "string \<Rightarrow> string \<Rightarrow> bool" where
  "under nm p \<longleftrightarrow> nm = p \<or> take (length p + 1) nm = p @ ''.''"

definition is_module_allowed :: "string list \<Rightarrow> string list \<Rightarrow> string \<Rightarrow> bool" where
  "is_module_allowed allowed forbidden nm =
     (if nm = [] then True
      else if list_ex (under nm) allowed then True
      else if nm = ''yasin_core'' then False
      else if list_ex (under nm) forbidden then False
      else take 11 nm \<noteq> ''yasin_core.'')"

section \<open>Imports of a source text\<close>

text \<open>A name with its alias; \<open>level\<close> counts the dots of a relative import.\<close>

type_synonym import_name = "string \<times> string option"

datatype import_node = Import "import_name list" nat | Import_From "string option" "import_name list" nat nat | Other_Node

definition normalize_module :: "string option \<Rightarrow> string option" where
  "normalize_module name = (case name of None \<Rightarrow> None | Some s \<Rightarrow> if s = [] then None else Some (str_strip s))"

definition alias_text :: "string \<Rightarrow> string option \<Rightarrow> string" where
  "alias_text name asname = name @ (case asname of Some a \<Rightarrow> if a \<noteq> [] then '' as '' @ a else [] | None \<Rightarrow> [])"

fun imported_modules :: "import_node \<Rightarrow> (string \<times> nat \<times> string) list" where
  "imported_modules (Import aliases line) =
     concat (map (\<lambda>(name, asname). case normalize_module (Some name) of
         Some m \<Rightarrow> if m \<noteq> [] then [(m, line, ''import '' @ alias_text m asname)] else []
       | None \<Rightarrow> []) aliases)"
| "imported_modules (Import_From nm names level line) =
     (if 0 < level then []
      else case normalize_module nm of
             Some m \<Rightarrow> if m \<noteq> [] then [(m, line, ''from '' @ m @ '' import '' @ join_with '', '' (map (\<lambda>(n, a). alias_text n a) names))] else []
           | None \<Rightarrow> [])"
| "imported_modules Other_Node = []"

record violation =
  vi_file :: string
  vi_line :: nat
  vi_module :: string
  vi_statement :: string
  vi_reason :: string

definition violation_format :: "violation \<Rightarrow> string" where
  "violation_format v = vi_file v @ '':'' @ nat_str (vi_line v) @ '': forbidden import '' @ quoted (vi_module v) @ '' (''
     @ vi_reason v @ ''); statement: '' @ vi_statement v"

definition violation_dict :: "violation \<Rightarrow> pydict" where
  "violation_dict v = [(''file'', PStr (vi_file v)), (''line'', PInt (int (vi_line v))), (''module'', PStr (vi_module v)),
     (''statement'', PStr (vi_statement v)), (''reason'', PStr (vi_reason v))]"

definition violations_to_dicts :: "violation list \<Rightarrow> pydict list" where
  "violations_to_dicts vs = map violation_dict vs"

definition mk_violation :: "string list \<Rightarrow> string \<Rightarrow> string \<times> nat \<times> string \<Rightarrow> violation" where
  "mk_violation allowed filename x = (case x of (m, line, stmt) \<Rightarrow>
     \<lparr> vi_file = filename, vi_line = line, vi_module = m, vi_statement = stmt,
       vi_reason = ''consumers must import only from '' @ join_with '', '' allowed @ ''; '' @ quoted m
         @ '' is outside the supported public SDK boundary'' \<rparr>)"

text \<open>\<open>tree\<close> is the parsed text, absent after a \<open>SyntaxError\<close>.\<close>

definition check_source :: "import_node list option \<Rightarrow> string \<Rightarrow> string list \<Rightarrow> string list \<Rightarrow> violation list" where
  "check_source tree filename allowed forbidden =
     (case tree of
        None \<Rightarrow> []
      | Some nodes \<Rightarrow> map (mk_violation allowed filename)
          (filter (\<lambda>x. \<not> is_module_allowed allowed forbidden (fst x)) (concat (map imported_modules nodes))))"

section \<open>Files and directories\<close>

text \<open>A path is the list of its parts. A readable file has a parsed text; what lies under a directory is given in the
  order of \<open>rglob\<close>.\<close>

type_synonym path = "string list"

datatype root_kind = Is_File | Is_Dir "path list" | Is_Missing

record files =
  fs_kind :: "path \<Rightarrow> root_kind"
  fs_text :: "path \<Rightarrow> import_node list option option"
  fs_str :: "path \<Rightarrow> string"

definition py_suffix :: "string \<Rightarrow> bool" where
  "py_suffix name \<longleftrightarrow> 3 < length name \<and> drop (length name - 3) name = ''.py''"

definition skip_dirs :: "string list" where
  "skip_dirs = [''.git'', ''.hg'', ''.svn'', ''.tox'', ''.venv'', ''venv'', ''__pycache__'', ''.pytest_cache'', ''node_modules'', ''dist'',
     ''build'', ''.eggs'', ''egg-info'']"

definition skipped_part :: "string \<Rightarrow> bool" where
  "skipped_part s \<longleftrightarrow> s \<in> set skip_dirs \<or> (9 \<le> length s \<and> drop (length s - 9) s = ''.egg-info'')"

definition file_name :: "path \<Rightarrow> string" where
  "file_name p = (if p = [] then [] else last p)"

text \<open>\<open>rglob("*.py")\<close> matches every name that ends in \<open>.py\<close>.\<close>

definition py_pattern :: "string \<Rightarrow> bool" where
  "py_pattern name \<longleftrightarrow> 3 \<le> length name \<and> drop (length name - 3) name = ''.py''"

definition python_files :: "files \<Rightarrow> path \<Rightarrow> path list" where
  "python_files fs start =
     (case fs_kind fs start of
        Is_File \<Rightarrow> if py_suffix (file_name start) then [start] else []
      | Is_Dir ps \<Rightarrow> filter (\<lambda>p. \<not> list_ex skipped_part p) (filter (\<lambda>p. py_pattern (file_name p)) ps)
      | Is_Missing \<Rightarrow> [])"

text \<open>A file with the suffix that is no directory gives no further files, as in the code: only directories are searched.\<close>

definition check_file :: "files \<Rightarrow> string list \<Rightarrow> string list \<Rightarrow> path \<Rightarrow> violation list" where
  "check_file fs allowed forbidden p =
     (case fs_text fs p of None \<Rightarrow> [] | Some tree \<Rightarrow> check_source tree (fs_str fs p) allowed forbidden)"

definition check_paths :: "files \<Rightarrow> string list \<Rightarrow> string list \<Rightarrow> path list \<Rightarrow> violation list" where
  "check_paths fs allowed forbidden starts =
     concat (map (\<lambda>start. concat (map (check_file fs allowed forbidden) (python_files fs start))) starts)"

text \<open>The command: its exit status and what it prints; \<open>dumps\<close> is \<open>json.dumps\<close>.\<close>

definition boundary_main :: "(pydict \<Rightarrow> string) \<Rightarrow> bool \<Rightarrow> violation list \<Rightarrow> nat \<times> string list" where
  "boundary_main dumps json vs =
     (if vs = [] then (0, [''OK: no public SDK boundary violations found.''])
      else if json then (1, map (\<lambda>v. dumps (violation_dict v)) vs)
      else (1, [''Found '' @ nat_str (length vs) @ '' public SDK boundary violation(s):'' @ [CHR 0x0A]]
              @ map (\<lambda>v. ''  '' @ violation_format v) vs
              @ [CHR 0x0A # ''Consumers must import only from yasin_core.sdk. See docs/integration/sdk_contract.md.'']))"

section \<open>What the scan finds\<close>

text \<open>The policy as the contract states it: inside the boundary, or outside of the package and of every forbidden prefix\<close>

definition inside :: "string list \<Rightarrow> string \<Rightarrow> bool" where
  "inside ps nm \<longleftrightarrow> (\<exists>p \<in> set ps. nm = p \<or> (\<exists>rest. nm = p @ ''.'' @ rest))"

lemma under_iff: "under nm p \<longleftrightarrow> nm = p \<or> (\<exists>rest. nm = p @ ''.'' @ rest)"
proof -
  have "take (length p + 1) nm = p @ ''.'' \<longleftrightarrow> (\<exists>rest. nm = p @ ''.'' @ rest)"
  proof
    assume "take (length p + 1) nm = p @ ''.''"
    then show "\<exists>rest. nm = p @ ''.'' @ rest" using append_take_drop_id [of "length p + 1" nm] by (metis append.assoc)
  qed auto
  then show ?thesis by (simp add: under_def)
qed

lemma allowed_iff:
  "is_module_allowed allowed forbidden nm \<longleftrightarrow>
     nm = [] \<or> inside allowed nm \<or> (\<not> inside [''yasin_core''] nm \<and> \<not> inside forbidden nm)"
proof -
  have "list_ex (under nm) ps = inside ps nm" for ps
    by (auto simp: list_ex_iff under_iff inside_def)
  moreover have "take 11 nm = ''yasin_core.'' \<or> nm = ''yasin_core'' \<longleftrightarrow> inside [''yasin_core''] nm"
    using under_iff [of nm "''yasin_core''"] by (auto simp: inside_def under_def eval_nat_numeral)
  ultimately show ?thesis by (auto simp: is_module_allowed_def)
qed

text \<open>
  The check of a parsed file reports exactly its absolute imports of modules that are outside the boundary and
  that belong to the package or to a forbidden prefix, each with its line, in the order of the file; relative imports
  and other packages are never reported.
\<close>

theorem boundary_exact:
  "map (\<lambda>v. (vi_module v, vi_line v, vi_statement v)) (check_source (Some nodes) f allowed forbidden)
     = filter (\<lambda>(m, l, s). m \<noteq> [] \<and> \<not> inside allowed m \<and> (inside [''yasin_core''] m \<or> inside forbidden m))
         (concat (map imported_modules nodes))"
  by (simp add: check_source_def mk_violation_def comp_def case_prod_unfold allowed_iff)

text \<open>Every part of a path counts, also those that lead to the directory that is to be checked: a consumer that was
  checked out below a directory called \<open>build\<close> has no violations.\<close>

lemma below_build_unchecked:
  assumes "fs_kind fs start = Is_Dir ps" "list_all (\<lambda>p. take (length start) p = start) ps" "''build'' \<in> set start"
  shows "check_paths fs allowed forbidden [start] = []"
proof -
  have "list_ex skipped_part p" if "p \<in> set ps" for p
    using that assms(2,3) in_set_takeD [of "''build''" "length start" p] by (auto simp: list_all_iff list_ex_iff skipped_part_def skip_dirs_def)
  then show ?thesis by (auto simp: check_paths_def python_files_def assms(1) filter_empty_conv)
qed

end
