(* ===== verification/SdkExports.thy ===== *)
theory SdkExports
  imports SdkContract SdkBoundary "HOL-Library.List_Lexorder" "HOL-Library.Char_ord"
begin

text \<open>
  What the packages of \<open>yasin_core\<close> export: the imports, assignments and \<open>__all__\<close> of their \<open>__init__.py\<close>, what
  \<open>from package import *\<close> binds, and the contract registry that the SDK is shipped with (\<open>sdk/contract_registry.json\<close>).
\<close>

section \<open>The packages\<close>

text \<open>
  The names that the body of a package binds: those imported, with the module each is imported from, and those that are
  assigned or defined.
\<close>

record package =
  pk_imports :: "(string \<times> string list) list"
  pk_defined :: "string list"
  pk_all :: "string list"

definition agents_package :: package where
  "agents_package = \<lparr>
     pk_imports = [
       (''yasin_core.agents.base'', [''BaseAgent'']),
       (''yasin_core.agents.task'', [''Task'']),
       (''yasin_core.agents.manager'', [''AgentRegistry'', ''AgentManager'']),
       (''yasin_core.agents.planner'', [''Planner'', ''SimplePlanner'']),
       (''yasin_core.agents.executor'', [''TaskExecutor'', ''Executor''])],
     pk_defined = [],
     pk_all = [
       ''BaseAgent'', ''Task'', ''AgentRegistry'', ''AgentManager'', ''Planner'', ''SimplePlanner'', ''TaskExecutor'',
       ''Executor''] \<rparr>"

definition api_package :: package where
  "api_package = \<lparr>
     pk_imports = [
       (''.models'', [''APIRequest'', ''APIResponse'']),
       (''.errors'', [''APIError'', ''APIErrorCode'']),
       (''.auth'', [''BaseAuthenticator'', ''APIKeyAuthenticator'']),
       (''.gateway'', [''APIGateway''])],
     pk_defined = [],
     pk_all = [
       ''APIRequest'', ''APIResponse'', ''APIError'', ''APIErrorCode'', ''BaseAuthenticator'', ''APIKeyAuthenticator'',
       ''APIGateway''] \<rparr>"

definition compatibility_all :: "string list" where
  "compatibility_all = [
     ''CompatibilityError'', ''VersionMismatchError'', ''APICompatibilityError'', ''MigrationError'',
     ''EcosystemValidationError'', ''Version'', ''is_compatible'', ''VersionNegotiator'', ''APICompatibilityChecker'',
     ''DeprecationManager'', ''deprecated'', ''LegacyAPIAdapter'', ''SchemaMigrator'', ''ConfigurationMigrator'',
     ''DataMigrator'', ''AgentCompatibilityValidator'', ''HubCompatibilityValidator'', ''RelayCompatibilityValidator'',
     ''CLICompatibilityValidator'', ''RuntimeCompatibilityChecker'', ''CompatibilityManager'']"

definition compatibility_package :: package where
  "compatibility_package = \<lparr>
     pk_imports = [
       (''typing'', [''Any'']),
       (''yasin_core.compatibility.exceptions'', [''CompatibilityError'', ''VersionMismatchError'', ''APICompatibilityError'', ''MigrationError'',
          ''EcosystemValidationError'']),
       (''yasin_core.compatibility.version'', [''Version'', ''is_compatible'', ''VersionNegotiator'']),
       (''yasin_core.compatibility.api'', [''APICompatibilityChecker'']),
       (''yasin_core.compatibility.warnings'', [''DeprecationManager'', ''deprecated'']),
       (''yasin_core.compatibility.adapters'', [''LegacyAPIAdapter'']),
       (''yasin_core.compatibility.migration'', [''SchemaMigrator'', ''ConfigurationMigrator'', ''DataMigrator'']),
       (''yasin_core.compatibility.ecosystem'', [''AgentCompatibilityValidator'', ''HubCompatibilityValidator'', ''RelayCompatibilityValidator'',
          ''CLICompatibilityValidator'', ''RuntimeCompatibilityChecker''])],
     pk_defined = [''CompatibilityManager''],
     pk_all = compatibility_all \<rparr>"

definition config_package :: package where
  "config_package = \<lparr>
     pk_imports = [
       (''.settings'', [''ConfigurationManager'', ''ConfigurationValidationError'', ''Settings''])],
     pk_defined = [],
     pk_all = [
       ''ConfigurationManager'', ''ConfigurationValidationError'', ''Settings''] \<rparr>"

definition context_package :: package where
  "context_package = \<lparr>
     pk_imports = [
       (''yasin_core.context.manager'', [''Context'', ''get_current_context'', ''active_context'']),
       (''yasin_core.context.engine'', [''RuntimeContext'', ''ContextEngine''])],
     pk_defined = [],
     pk_all = [
       ''Context'', ''get_current_context'', ''active_context'', ''RuntimeContext'', ''ContextEngine''] \<rparr>"

definition contracts_package :: package where
  "contracts_package = \<lparr>
     pk_imports = [
       (''__future__'', [''annotations'']),
       (''.errors'', [''ErrorCode'', ''ErrorInfo'', ''coerce_error_code'', ''redact_secrets'']),
       (''.health'', [''HealthReport'', ''HealthState'', ''coerce_health_state'']),
       (''.services'', [''ControlAction'', ''ControlResult'', ''ServiceStatus'', ''ServiceStatusValue'', ''coerce_control_action'',
          ''coerce_status_value''])],
     pk_defined = [],
     pk_all = [
       ''HealthState'', ''HealthReport'', ''coerce_health_state'', ''ServiceStatusValue'', ''ControlAction'',
       ''ServiceStatus'', ''ControlResult'', ''coerce_status_value'', ''coerce_control_action'', ''ErrorCode'',
       ''ErrorInfo'', ''redact_secrets'', ''coerce_error_code''] \<rparr>"

definition core_package :: package where
  "core_package = \<lparr>
     pk_imports = [
       (''.runtime'', [''YasinRuntime''])],
     pk_defined = [],
     pk_all = [
       ''YasinRuntime''] \<rparr>"

definition di_package :: package where
  "di_package = \<lparr>
     pk_imports = [
       (''.exceptions'', [''DIError'', ''DependencyResolutionError'', ''CircularDependencyError'']),
       (''.interfaces'', [''IDIContainer'', ''ServiceLifetime'']),
       (''.container'', [''DIContainer''])],
     pk_defined = [],
     pk_all = [
       ''DIError'', ''DependencyResolutionError'', ''CircularDependencyError'', ''IDIContainer'', ''ServiceLifetime'',
       ''DIContainer''] \<rparr>"

definition events_package :: package where
  "events_package = \<lparr>
     pk_imports = [
       (''.event'', [''Event'']),
       (''.event_bus'', [''EventBus'', ''AGENT_REGISTERED'', ''AGENT_REMOVED'', ''AGENT_STARTED'', ''AGENT_STOPPED'', ''TASK_STARTED'',
          ''TASK_COMPLETED'', ''TASK_FAILED''])],
     pk_defined = [],
     pk_all = [
       ''Event'', ''EventBus'', ''AGENT_REGISTERED'', ''AGENT_REMOVED'', ''AGENT_STARTED'', ''AGENT_STOPPED'',
       ''TASK_STARTED'', ''TASK_COMPLETED'', ''TASK_FAILED''] \<rparr>"

definition execution_package :: package where
  "execution_package = \<lparr>
     pk_imports = [
       (''.models'', [''Job'', ''ExecutionTask'', ''JobStatus'', ''JobPriority'']),
       (''.engine'', [''TaskExecutionEngine'']),
       (''.scheduler'', [''Scheduler'', ''ScheduledJob''])],
     pk_defined = [],
     pk_all = [
       ''Job'', ''ExecutionTask'', ''JobStatus'', ''JobPriority'', ''TaskExecutionEngine'', ''Scheduler'', ''ScheduledJob''] \<rparr>"

definition observability_package :: package where
  "observability_package = \<lparr>
     pk_imports = [
       (''.metrics'', [''MetricsRegistry'', ''Metric'', ''Counter'', ''Gauge'', ''Histogram'', ''MetricType'']),
       (''.providers'', [''BaseMetricProvider'', ''InMemoryMetricProvider'']),
       (''.error_tracker'', [''ErrorTracker'', ''ErrorRecord'']),
       (''.performance'', [''PerformanceTimer'']),
       (''.logger'', [''JSONFormatter'', ''StructuredLogger'', ''get_structured_logger'']),
       (''.service'', [''ObservabilityService''])],
     pk_defined = [],
     pk_all = [
       ''MetricsRegistry'', ''Metric'', ''Counter'', ''Gauge'', ''Histogram'', ''MetricType'', ''BaseMetricProvider'',
       ''InMemoryMetricProvider'', ''ErrorTracker'', ''ErrorRecord'', ''PerformanceTimer'', ''JSONFormatter'',
       ''StructuredLogger'', ''get_structured_logger'', ''ObservabilityService''] \<rparr>"

definition plugins_package :: package where
  "plugins_package = \<lparr>
     pk_imports = [
       (''.base'', [''YasinPlugin'']),
       (''.registry'', [''PluginRegistry'']),
       (''.bridge'', [''PluginExecutionBridge''])],
     pk_defined = [],
     pk_all = [
       ''YasinPlugin'', ''PluginRegistry'', ''PluginExecutionBridge''] \<rparr>"

definition providers_package :: package where
  "providers_package = \<lparr>
     pk_imports = [
       (''.base'', [''AIProvider'', ''AIChatMessage'', ''AIRequest'', ''AIResponse'', ''AIResponseChunk'', ''AIProviderError'',
          ''AIProviderConnectionError'', ''AIProviderAuthError'', ''AIProviderRateLimitError'', ''ProviderRegistry'',
          ''ProviderManager'']),
       (''.adapters'', [''MockProvider'', ''LocalProvider'', ''OpenAICompatibleProvider''])],
     pk_defined = [],
     pk_all = [
       ''AIProvider'', ''AIChatMessage'', ''AIRequest'', ''AIResponse'', ''AIResponseChunk'', ''AIProviderError'',
       ''AIProviderConnectionError'', ''AIProviderAuthError'', ''AIProviderRateLimitError'', ''ProviderRegistry'',
       ''ProviderManager'', ''MockProvider'', ''LocalProvider'', ''OpenAICompatibleProvider''] \<rparr>"

definition runtime_package :: package where
  "runtime_package = \<lparr>
     pk_imports = [
       (''.service_manager'', [''RuntimeServiceManager'']),
       (''.registry'', [''RuntimeServiceRegistry'']),
       (''.interfaces'', [''IService'', ''BaseService'']),
       (''.models'', [''ServiceMetadata'', ''ServiceState'']),
       (''.exceptions'', [''ServiceError'', ''DuplicateServiceError'', ''ServiceNotFoundError'', ''DependencyError'',
          ''MissingDependencyError'', ''CircularDependencyError''])],
     pk_defined = [],
     pk_all = [
       ''RuntimeServiceManager'', ''RuntimeServiceRegistry'', ''IService'', ''BaseService'', ''ServiceMetadata'',
       ''ServiceState'', ''ServiceError'', ''DuplicateServiceError'', ''ServiceNotFoundError'', ''DependencyError'',
       ''MissingDependencyError'', ''CircularDependencyError''] \<rparr>"

definition security_package :: package where
  "security_package = \<lparr>
     pk_imports = [
       (''yasin_core.security.exceptions'', [''SecurityError'', ''AccessDeniedError'', ''AuthenticationError'', ''PermissionValidationError'']),
       (''yasin_core.security.models'', [''Permission'', ''Role'', ''Subject'']),
       (''yasin_core.security.policy'', [''BasePolicy'', ''DefaultRBACPolicy'', ''PolicyEngine'']),
       (''yasin_core.security.protection'', [''ConfigurationSecurityValidator'', ''SensitiveDataProtector'', ''BaseCredentialStore'',
          ''InMemoryCredentialStore'']),
       (''yasin_core.security.audit'', [''AuditLogger'', ''SECURITY_EVENT_AUDIT'', ''SECURITY_ACCESS_GRANTED'', ''SECURITY_ACCESS_DENIED'']),
       (''yasin_core.security.manager'', [''SecurityManager'', ''require_permission''])],
     pk_defined = [],
     pk_all = [
       ''SecurityError'', ''AccessDeniedError'', ''AuthenticationError'', ''PermissionValidationError'', ''Permission'',
       ''Role'', ''Subject'', ''BasePolicy'', ''DefaultRBACPolicy'', ''PolicyEngine'', ''ConfigurationSecurityValidator'',
       ''SensitiveDataProtector'', ''BaseCredentialStore'', ''InMemoryCredentialStore'', ''AuditLogger'',
       ''SECURITY_EVENT_AUDIT'', ''SECURITY_ACCESS_GRANTED'', ''SECURITY_ACCESS_DENIED'', ''SecurityManager'',
       ''require_permission''] \<rparr>"

text \<open>The SDK, whose names come from all parts of the core\<close>

definition sdk_core_imports :: "(string \<times> string list) list" where
  "sdk_core_imports = [
     (''.client'', [''YasinCoreClient'']),
     (''yasin_core.config'', [''ConfigurationManager'', ''ConfigurationValidationError'', ''Settings'']),
     (''yasin_core.agents.base'', [''BaseAgent'']),
     (''yasin_core.agents.task'', [''Task'']),
     (''yasin_core.agents.runtime'', [''IAgentRuntime'', ''AgentRuntime'']),
     (''yasin_core.context.manager'', [''active_context'', ''get_current_context'']),
     (''yasin_core.context.engine'', [''RuntimeContext'', ''ContextEngine'']),
     (''yasin_core.plugins.bridge'', [''PluginExecutionBridge'']),
     (''yasin_core.agents.tool'', [''BaseTool'', ''FunctionTool'', ''tool'', ''ToolRegistry'', ''ToolManager'']),
     (''yasin_core.events'', [''Event'', ''EventBus'']),
     (''yasin_core.di'', [''DIContainer'', ''IDIContainer'', ''ServiceLifetime'', ''DIError'', ''DependencyResolutionError'',
        ''CircularDependencyError'']),
     (''yasin_core.storage'', [''BaseStorage'', ''JSONFileStorage'', ''InMemoryStorage'', ''StorageError'', ''StorageConnectionError'',
        ''StorageNotFoundError'', ''StorageValidationError'', ''get_storage'', ''register_backend'']),
     (''yasin_core.core.orchestrator'', [''RuntimeOrchestrator'', ''RuntimeState'', ''OrchestratorError'']),
     (''yasin_core.observability'', [''MetricsRegistry'', ''Metric'', ''Counter'', ''Gauge'', ''Histogram'', ''MetricType'', ''BaseMetricProvider'',
        ''InMemoryMetricProvider'', ''ErrorTracker'', ''ErrorRecord'', ''PerformanceTimer'', ''JSONFormatter'',
        ''StructuredLogger'', ''get_structured_logger'', ''ObservabilityService'']),
     (''yasin_core.execution'', [''Job'', ''ExecutionTask'', ''JobStatus'', ''JobPriority'', ''TaskExecutionEngine'', ''Scheduler'', ''ScheduledJob'']),
     (''yasin_core.execution.distributed'', [''WorkerState'', ''WorkerNode'', ''BaseDistributedWorker'', ''DistributedWorkerManager''])]"

definition sdk_layer_imports :: "(string \<times> string list) list" where
  "sdk_layer_imports = [
     (''yasin_core.providers'', [''AIProvider'', ''AIChatMessage'', ''AIRequest'', ''AIResponse'', ''AIResponseChunk'', ''AIProviderError'',
        ''AIProviderConnectionError'', ''AIProviderAuthError'', ''AIProviderRateLimitError'', ''ProviderRegistry'',
        ''ProviderManager'', ''MockProvider'', ''LocalProvider'', ''OpenAICompatibleProvider'']),
     (''yasin_core.api'', [''APIRequest'', ''APIResponse'', ''APIError'', ''APIErrorCode'', ''BaseAuthenticator'', ''APIKeyAuthenticator'',
        ''APIGateway'']),
     (''yasin_core.security'', [''SecurityError'', ''AccessDeniedError'', ''AuthenticationError'', ''PermissionValidationError'', ''Permission'',
        ''Role'', ''Subject'', ''BasePolicy'', ''DefaultRBACPolicy'', ''PolicyEngine'', ''ConfigurationSecurityValidator'',
        ''SensitiveDataProtector'', ''BaseCredentialStore'', ''InMemoryCredentialStore'', ''AuditLogger'',
        ''SECURITY_EVENT_AUDIT'', ''SECURITY_ACCESS_GRANTED'', ''SECURITY_ACCESS_DENIED'', ''SecurityManager'',
        ''require_permission'']),
     (''.errors'', [''SDKError'', ''SDKValidationError'', ''SDKAuthenticationError'', ''SDKConnectionError'', ''SDKExecutionError'',
        ''SDKDeprecationWarning'', ''translate_core_errors'']),
     (''.models'', [''SDKRequest'', ''SDKResponse'']),
     (''.interfaces'', [''ISDKClient'', ''ISDKAuthenticator'']),
     (''.compat'', [''SDKVersionChecker'', ''deprecated'', ''SDKMigrationHelper'']),
     (''.async_client'', [''AsyncYasinCoreClient'']),
     (''yasin_core.contracts'', [''HealthState'', ''HealthReport'', ''coerce_health_state'', ''ServiceStatusValue'', ''ControlAction'',
        ''ServiceStatus'', ''ControlResult'', ''coerce_status_value'', ''coerce_control_action'', ''ErrorCode'',
        ''ErrorInfo'', ''redact_secrets'', ''coerce_error_code'']),
     (''yasin_core.compatibility'', [''Version'', ''is_compatible'', ''VersionNegotiator'', ''APICompatibilityChecker'', ''DeprecationManager'',
        ''LegacyAPIAdapter'', ''SchemaMigrator'', ''ConfigurationMigrator'', ''DataMigrator'',
        ''AgentCompatibilityValidator'', ''HubCompatibilityValidator'', ''RelayCompatibilityValidator'',
        ''CLICompatibilityValidator'', ''RuntimeCompatibilityChecker'', ''CompatibilityManager'', ''CompatibilityError'',
        ''VersionMismatchError'', ''APICompatibilityError'', ''MigrationError'', ''EcosystemValidationError''])]"

definition sdk_event_names :: "(string \<times> string) list" where
  "sdk_event_names = [
     (''AGENT_REGISTERED'', ''agent_registered''), (''AGENT_REMOVED'', ''agent_removed''),
     (''AGENT_STARTED'', ''agent_started''), (''AGENT_STOPPED'', ''agent_stopped''), (''TASK_STARTED'', ''task_started''),
     (''TASK_COMPLETED'', ''task_completed''), (''TASK_FAILED'', ''task_failed''), (''JOB_QUEUED'', ''job_queued''),
     (''JOB_STARTED'', ''job_started''), (''JOB_COMPLETED'', ''job_completed''), (''JOB_FAILED'', ''job_failed''),
     (''JOB_CANCELLED'', ''job_cancelled''), (''JOB_RETRYING'', ''job_retrying'')]"

definition sdk_all :: "string list" where
  "sdk_all = [
     ''YasinCoreClient'', ''AIProvider'', ''AIChatMessage'', ''AIRequest'', ''AIResponse'', ''AIResponseChunk'',
     ''AIProviderError'', ''AIProviderConnectionError'', ''AIProviderAuthError'', ''AIProviderRateLimitError'',
     ''ProviderRegistry'', ''ProviderManager'', ''MockProvider'', ''LocalProvider'', ''OpenAICompatibleProvider'',
     ''MetricsRegistry'', ''Metric'', ''Counter'', ''Gauge'', ''Histogram'', ''MetricType'', ''BaseMetricProvider'',
     ''InMemoryMetricProvider'', ''ErrorTracker'', ''ErrorRecord'', ''PerformanceTimer'', ''JSONFormatter'',
     ''StructuredLogger'', ''get_structured_logger'', ''ObservabilityService'', ''ConfigurationManager'',
     ''RuntimeOrchestrator'', ''RuntimeState'', ''OrchestratorError'', ''ConfigurationValidationError'', ''Settings'',
     ''BaseAgent'', ''Task'', ''IAgentRuntime'', ''AgentRuntime'', ''active_context'', ''get_current_context'',
     ''RuntimeContext'', ''ContextEngine'', ''Event'', ''EventBus'', ''AGENT_REGISTERED'', ''AGENT_REMOVED'',
     ''AGENT_STARTED'', ''AGENT_STOPPED'', ''TASK_STARTED'', ''TASK_COMPLETED'', ''TASK_FAILED'', ''JOB_QUEUED'',
     ''JOB_STARTED'', ''JOB_COMPLETED'', ''JOB_FAILED'', ''JOB_CANCELLED'', ''JOB_RETRYING'', ''PluginExecutionBridge'',
     ''BaseTool'', ''FunctionTool'', ''tool'', ''ToolRegistry'', ''ToolManager'', ''DIContainer'', ''IDIContainer'',
     ''ServiceLifetime'', ''DIError'', ''DependencyResolutionError'', ''CircularDependencyError'', ''BaseStorage'',
     ''JSONFileStorage'', ''InMemoryStorage'', ''StorageError'', ''StorageConnectionError'', ''StorageNotFoundError'',
     ''StorageValidationError'', ''get_storage'', ''register_backend'', ''Job'', ''ExecutionTask'', ''JobStatus'',
     ''JobPriority'', ''TaskExecutionEngine'', ''Scheduler'', ''ScheduledJob'', ''WorkerState'', ''WorkerNode'',
     ''BaseDistributedWorker'', ''DistributedWorkerManager'', ''SecurityError'', ''AccessDeniedError'',
     ''AuthenticationError'', ''PermissionValidationError'', ''Permission'', ''Role'', ''Subject'', ''BasePolicy'',
     ''DefaultRBACPolicy'', ''PolicyEngine'', ''ConfigurationSecurityValidator'', ''SensitiveDataProtector'',
     ''BaseCredentialStore'', ''InMemoryCredentialStore'', ''AuditLogger'', ''SECURITY_EVENT_AUDIT'',
     ''SECURITY_ACCESS_GRANTED'', ''SECURITY_ACCESS_DENIED'', ''SecurityManager'', ''require_permission'', ''SDKError'',
     ''SDKValidationError'', ''SDKAuthenticationError'', ''SDKConnectionError'', ''SDKExecutionError'',
     ''SDKDeprecationWarning'', ''translate_core_errors'', ''SDKRequest'', ''SDKResponse'', ''ISDKClient'',
     ''ISDKAuthenticator'', ''SDKVersionChecker'', ''deprecated'', ''SDKMigrationHelper'', ''AsyncYasinCoreClient'',
     ''HealthState'', ''HealthReport'', ''coerce_health_state'', ''ServiceStatusValue'', ''ControlAction'',
     ''ServiceStatus'', ''ControlResult'', ''coerce_status_value'', ''coerce_control_action'', ''ErrorCode'', ''ErrorInfo'',
     ''redact_secrets'', ''coerce_error_code'', ''Version'', ''is_compatible'', ''VersionNegotiator'',
     ''APICompatibilityChecker'', ''DeprecationManager'', ''LegacyAPIAdapter'', ''SchemaMigrator'',
     ''ConfigurationMigrator'', ''DataMigrator'', ''AgentCompatibilityValidator'', ''HubCompatibilityValidator'',
     ''RelayCompatibilityValidator'', ''CLICompatibilityValidator'', ''RuntimeCompatibilityChecker'',
     ''CompatibilityManager'', ''CompatibilityError'', ''VersionMismatchError'', ''APICompatibilityError'',
     ''MigrationError'', ''EcosystemValidationError'']"

definition sdk_package :: package where
  "sdk_package = \<lparr> pk_imports = sdk_core_imports @ sdk_layer_imports, pk_defined = map fst sdk_event_names, pk_all = sdk_all \<rparr>"

definition packages :: "(string \<times> package) list" where
  "packages = [
     (''yasin_core.agents'', agents_package), (''yasin_core.api'', api_package),
     (''yasin_core.compatibility'', compatibility_package), (''yasin_core.config'', config_package),
     (''yasin_core.context'', context_package), (''yasin_core.contracts'', contracts_package),
     (''yasin_core.core'', core_package), (''yasin_core.di'', di_package), (''yasin_core.events'', events_package),
     (''yasin_core.execution'', execution_package), (''yasin_core.observability'', observability_package),
     (''yasin_core.plugins'', plugins_package), (''yasin_core.providers'', providers_package),
     (''yasin_core.runtime'', runtime_package), (''yasin_core.sdk'', sdk_package),
     (''yasin_core.security'', security_package)]"

section \<open>The registry of the contract\<close>

definition contract_exports :: "string list" where
  "contract_exports = [
     ''AGENT_REGISTERED'', ''AGENT_REMOVED'', ''AGENT_STARTED'', ''AGENT_STOPPED'', ''AIChatMessage'', ''AIProvider'',
     ''AIProviderAuthError'', ''AIProviderConnectionError'', ''AIProviderError'', ''AIProviderRateLimitError'',
     ''AIRequest'', ''AIResponse'', ''AIResponseChunk'', ''APICompatibilityChecker'', ''APICompatibilityError'',
     ''AccessDeniedError'', ''AgentCompatibilityValidator'', ''AgentRuntime'', ''AsyncYasinCoreClient'', ''AuditLogger'',
     ''AuthenticationError'', ''BaseAgent'', ''BaseCredentialStore'', ''BaseDistributedWorker'', ''BaseMetricProvider'',
     ''BasePolicy'', ''BaseStorage'', ''BaseTool'', ''CLICompatibilityValidator'', ''CircularDependencyError'',
     ''CompatibilityError'', ''CompatibilityManager'', ''ConfigurationManager'', ''ConfigurationMigrator'',
     ''ConfigurationSecurityValidator'', ''ConfigurationValidationError'', ''ContextEngine'', ''Counter'', ''DIContainer'',
     ''DIError'', ''DataMigrator'', ''DefaultRBACPolicy'', ''DependencyResolutionError'', ''DeprecationManager'',
     ''DistributedWorkerManager'', ''EcosystemValidationError'', ''ErrorRecord'', ''ErrorTracker'', ''Event'', ''EventBus'',
     ''ExecutionTask'', ''FunctionTool'', ''Gauge'', ''Histogram'', ''HubCompatibilityValidator'', ''IAgentRuntime'',
     ''IDIContainer'', ''ISDKAuthenticator'', ''ISDKClient'', ''InMemoryCredentialStore'', ''InMemoryMetricProvider'',
     ''InMemoryStorage'', ''JOB_CANCELLED'', ''JOB_COMPLETED'', ''JOB_FAILED'', ''JOB_QUEUED'', ''JOB_RETRYING'',
     ''JOB_STARTED'', ''JSONFileStorage'', ''JSONFormatter'', ''Job'', ''JobPriority'', ''JobStatus'', ''LegacyAPIAdapter'',
     ''LocalProvider'', ''Metric'', ''MetricType'', ''MetricsRegistry'', ''MigrationError'', ''MockProvider'',
     ''ObservabilityService'', ''OpenAICompatibleProvider'', ''OrchestratorError'', ''PerformanceTimer'', ''Permission'',
     ''PermissionValidationError'', ''PluginExecutionBridge'', ''PolicyEngine'', ''ProviderManager'', ''ProviderRegistry'',
     ''RelayCompatibilityValidator'', ''Role'', ''RuntimeCompatibilityChecker'', ''RuntimeContext'',
     ''RuntimeOrchestrator'', ''RuntimeState'', ''SDKAuthenticationError'', ''SDKConnectionError'',
     ''SDKDeprecationWarning'', ''SDKError'', ''SDKExecutionError'', ''SDKMigrationHelper'', ''SDKRequest'',
     ''SDKResponse'', ''SDKValidationError'', ''SDKVersionChecker'', ''SECURITY_ACCESS_DENIED'',
     ''SECURITY_ACCESS_GRANTED'', ''SECURITY_EVENT_AUDIT'', ''ScheduledJob'', ''Scheduler'', ''SchemaMigrator'',
     ''SecurityError'', ''SecurityManager'', ''SensitiveDataProtector'', ''ServiceLifetime'', ''Settings'',
     ''StorageConnectionError'', ''StorageError'', ''StorageNotFoundError'', ''StorageValidationError'',
     ''StructuredLogger'', ''Subject'', ''TASK_COMPLETED'', ''TASK_FAILED'', ''TASK_STARTED'', ''Task'',
     ''TaskExecutionEngine'', ''ToolManager'', ''ToolRegistry'', ''Version'', ''VersionMismatchError'',
     ''VersionNegotiator'', ''WorkerNode'', ''WorkerState'', ''YasinCoreClient'', ''active_context'', ''deprecated'',
     ''get_current_context'', ''get_storage'', ''get_structured_logger'', ''is_compatible'', ''register_backend'',
     ''require_permission'', ''tool'', ''translate_core_errors'', ''HealthState'', ''HealthReport'',
     ''coerce_health_state'', ''ServiceStatusValue'', ''ControlAction'', ''ServiceStatus'', ''ControlResult'',
     ''coerce_status_value'', ''coerce_control_action'', ''ErrorCode'', ''ErrorInfo'', ''redact_secrets'',
     ''coerce_error_code'']"

definition forbidden_prefixes :: "string list" where
  "forbidden_prefixes = [
     ''yasin_core.agents'', ''yasin_core.api'', ''yasin_core.compatibility'', ''yasin_core.config'', ''yasin_core.context'',
     ''yasin_core.core'', ''yasin_core.di'', ''yasin_core.events'', ''yasin_core.execution'', ''yasin_core.memory'',
     ''yasin_core.observability'', ''yasin_core.plugins'', ''yasin_core.providers'', ''yasin_core.runtime'',
     ''yasin_core.security'', ''yasin_core.storage'', ''yasin_core.utils'']"

definition shipped_registry :: pydict where
  "shipped_registry = [
     (''contract_version'', PStr ''1.1.0''),
     (''core_version'', PStr ''3.4.0''),
     (''status'', PStr ''stable''),
     (''description'', PStr ''Canonical machine-checkable public SDK and ecosystem contract registry for Yasin-Core. Single source of truth for public surface and consumer boundaries.''),
     (''public_sdk'', PDict [
       (''package'', PStr ''yasin_core.sdk''),
       (''supported_import_boundary'', PList [PStr ''yasin_core.sdk'']),
       (''forbidden_consumer_import_prefixes'', PList (map PStr forbidden_prefixes)),
       (''note'', PStr ''Ecosystem consumers must import only from yasin_core.sdk. Direct imports of internal packages listed in forbidden_consumer_import_prefixes are outside the supported contract.''),
       (''modules'', PDict [
         (''yasin_core.sdk'', PDict [
           (''exports'', PList (map PStr contract_exports))])])]),
     (''ecosystem_consumers'', PDict [
       (''Yasin-Agent'', PDict [
         (''id'', PStr ''Yasin-Agent''),
         (''role'', PStr ''agent_runtime_platform''),
         (''import_boundary'', PStr ''yasin_core.sdk''),
         (''compatibility_expectation'', PStr ''Consume BaseAgent, Task, AgentRuntime, memory/context helpers, and YasinCoreClient via public SDK only.''),
         (''validator'', PStr ''AgentCompatibilityValidator''),
         (''core_version_compat'', PStr ''^3.0.0''),
         (''status'', PStr ''documented'')]),
       (''YasinHub'', PDict [
         (''id'', PStr ''YasinHub''),
         (''role'', PStr ''integration_hub''),
         (''import_boundary'', PStr ''yasin_core.sdk''),
         (''compatibility_expectation'', PStr ''Hub metadata must include id, version, core_version_compat; consume SDK public surface only.''),
         (''validator'', PStr ''HubCompatibilityValidator''),
         (''core_version_compat'', PStr ''*''),
         (''status'', PStr ''documented'')]),
       (''YasinRelay'', PDict [
         (''id'', PStr ''YasinRelay''),
         (''role'', PStr ''relay_transport_feed''),
         (''import_boundary'', PStr ''yasin_core.sdk''),
         (''compatibility_expectation'', PStr ''Relay components implement process/publish and declare core_version_compat; no Core internal imports.''),
         (''validator'', PStr ''RelayCompatibilityValidator''),
         (''core_version_compat'', PStr ''*''),
         (''status'', PStr ''documented'')]),
       (''YasinCLI'', PDict [
         (''id'', PStr ''YasinCLI''),
         (''role'', PStr ''command_line_interface''),
         (''import_boundary'', PStr ''yasin_core.sdk''),
         (''compatibility_expectation'', PStr ''CLI metadata includes commands dict and core_version_compat; commands go through SDK client.''),
         (''validator'', PStr ''CLICompatibilityValidator''),
         (''core_version_compat'', PStr ''^3.0.0''),
         (''status'', PStr ''documented'')])]),
     (''compatibility'', PDict [
       (''python_requires'', PStr ''>=3.9''),
       (''certified_python_versions'', PList [PStr ''3.9'', PStr ''3.10'', PStr ''3.11'', PStr ''3.12'', PStr ''3.13'']),
       (''ci_primary_matrix'', PList [PStr ''3.9'', PStr ''3.12'']),
       (''notes'', PStr ''certified_python_versions is the authoritative set used by the extended matrix workflow. 3.14 is not certified.'')]),
     (''validation'', PDict [
       (''schema_required_top_level'', PList [PStr ''contract_version'', PStr ''core_version'', PStr ''status'', PStr ''public_sdk'',
         PStr ''ecosystem_consumers'', PStr ''compatibility'']),
       (''regression_tests'', PStr ''tests/test_sdk_contract.py'')])]"

section \<open>Importing\<close>

definition bound_names :: "package \<Rightarrow> string list" where
  "bound_names p = concat (map snd (pk_imports p)) @ pk_defined p"

text \<open>\<open>from package import *\<close>: the names bound in the importing module, or the failure at the first one that is missing\<close>

definition star_import :: "string \<Rightarrow> package \<Rightarrow> exn + string list" where
  "star_import name p =
     (case filter (\<lambda>n. n \<notin> set (bound_names p)) (pk_all p) of
        [] \<Rightarrow> Inr (pk_all p)
      | n # _ \<Rightarrow> Inl (Exn AttributeErr (''module '' @ quoted name @ '' has no attribute '' @ quoted n)))"

text \<open>An import from a package, as opposed to a module, finds the names that the package binds.\<close>

definition import_resolves :: "string \<times> string list \<Rightarrow> bool" where
  "import_resolves i = (case map_of packages (fst i) of Some p \<Rightarrow> list_all (\<lambda>n. n \<in> set (bound_names p)) (snd i) | None \<Rightarrow> True)"

text \<open>Where the names of the SDK's \<open>__all__\<close> stand among those bound, and those of the contract in \<open>__all__\<close>\<close>

definition export_positions :: "nat list" where
  "export_positions = [0] @ [64..<78] @ [38..<53] @ [1] @ [35..<38] @ [2..<12] @ [18..<20] @ [153..<166] @ [12..<18] @ [20..<35] @
     [53..<64] @ [85..<153]"

definition contract_positions :: "nat list" where
  "contract_positions = [
     46, 47, 48, 49, 2, 1, 8, 7, 6, 9, 3, 4, 5, 142, 156, 92, 148, 39, 125, 105, 93, 36, 103, 89, 21, 98, 71, 60, 151,
     70, 154, 153, 30, 146, 101, 34, 43, 17, 65, 68, 147, 99, 69, 143, 90, 158, 24, 23, 44, 45, 81, 61, 18, 19, 149, 38,
     66, 121, 120, 104, 22, 73, 57, 55, 56, 53, 58, 54, 72, 26, 80, 83, 82, 144, 13, 16, 20, 15, 157, 12, 29, 14, 33, 25,
     95, 94, 59, 100, 11, 10, 150, 96, 152, 42, 31, 32, 113, 114, 116, 111, 115, 124, 118, 119, 112, 122, 108, 107, 106,
     86, 85, 145, 91, 109, 102, 67, 35, 75, 74, 76, 77, 27, 97, 51, 52, 50, 37, 84, 64, 63, 139, 155, 141, 88, 87, 0, 40,
     123, 41, 78, 28, 140, 79, 110, 62, 117, 126, 127, 128, 129, 130, 131, 132, 133, 134, 135, 136, 137, 138]"

lemma sdk_exports_bound: "map ((!) (bound_names sdk_package)) export_positions = pk_all sdk_package"
  unfolding export_positions_def bound_names_def sdk_package_def
  by (simp add: sdk_core_imports_def sdk_layer_imports_def sdk_event_names_def sdk_all_def)

lemma contract_exports_order: "map ((!) sdk_all) contract_positions = contract_exports"
  unfolding contract_positions_def sdk_all_def contract_exports_def by simp

lemma contract_positions_sorted: "sort contract_positions = [0..<length sdk_all]"
  unfolding contract_positions_def by (simp add: sdk_all_def)

text \<open>The names stand in two parts of the registry: those of the core in order, then those of the shared contracts.\<close>

lemma core_names_sorted: "successively (<) (take 146 contract_exports)"
  by code_simp

lemma shared_names_distinct: "distinct (drop 146 contract_exports)"
  by code_simp

lemma parts_disjoint: "list_all (\<lambda>n. n \<notin> set (take 146 contract_exports)) (drop 146 contract_exports)"
  by code_simp

lemma contract_exports_distinct: "distinct contract_exports"
proof -
  have "sorted_wrt (<) (take 146 contract_exports)"
    using core_names_sorted by (simp add: successively_conv_sorted_wrt)
  then have "distinct (take 146 contract_exports)" by (simp add: strict_sorted_iff)
  moreover have "set (take 146 contract_exports) \<inter> set (drop 146 contract_exports) = {}"
    using parts_disjoint by (auto simp: list_all_iff)
  ultimately have "distinct (take 146 contract_exports @ drop 146 contract_exports)"
    using shared_names_distinct by (simp only: distinct_append simp_thms)
  then show ?thesis by (simp only: append_take_drop_id)
qed

lemma contract_exports_set: "set contract_exports = set sdk_all"
proof -
  have "set contract_positions = {0..<length sdk_all}"
    using arg_cong [OF contract_positions_sorted, of set] by simp
  then have "set contract_exports = (!) sdk_all ` {0..<length sdk_all}"
    using arg_cong [OF contract_exports_order, of set] by simp
  then show ?thesis by (simp add: nth_image [of "length sdk_all", simplified])
qed

section \<open>The packages hold together\<close>

lemma other_packages_complete:
  "list_all (\<lambda>np. list_all (\<lambda>n. n \<in> set (bound_names (snd np))) (pk_all (snd np)) \<and> distinct (pk_all (snd np)))
     (filter (\<lambda>np. fst np \<noteq> ''yasin_core.sdk'') packages)"
  by code_simp

lemma sdk_imports_found:
  "list_all (\<lambda>np. list_all (\<lambda>i. if fst i = fst np then list_all (\<lambda>n. n \<in> set (bound_names (snd np))) (snd i) else True)
     (sdk_core_imports @ sdk_layer_imports)) (filter (\<lambda>np. fst np \<noteq> ''yasin_core.sdk'') packages)"
  by code_simp

lemma sdk_not_from_itself: "list_all (\<lambda>i. fst i \<noteq> ''yasin_core.sdk'') (sdk_core_imports @ sdk_layer_imports)"
  by code_simp

lemma packages_names: "map_of packages ''yasin_core.sdk'' = Some sdk_package" "distinct (map fst packages)"
  by (simp_all add: packages_def)

lemma sdk_exports_subset: "set sdk_all \<subseteq> set (bound_names sdk_package)"
proof -
  have "length (bound_names sdk_package) = 166"
    unfolding bound_names_def sdk_package_def by (simp add: sdk_core_imports_def sdk_layer_imports_def sdk_event_names_def)
  moreover have "\<forall>i \<in> set export_positions. i < 166" by (simp add: export_positions_def)
  moreover have "set sdk_all = (!) (bound_names sdk_package) ` set export_positions"
    using arg_cong [OF sdk_exports_bound, of set] by (simp add: sdk_package_def)
  ultimately show ?thesis by auto
qed

lemma star_import_complete: "set (pk_all p) \<subseteq> set (bound_names p) \<Longrightarrow> star_import name p = Inr (pk_all p)"
  by (auto simp: star_import_def filter_empty_conv split: list.split) (metis (no_types, lifting) filter_eq_Cons_iff list.set_intros(1) subsetD in_set_conv_decomp)

text \<open>Every package can be imported with a star, which binds the names it declares.\<close>

lemma star_imports_succeed:
  assumes "(name, p) \<in> set packages"
  shows "star_import name p = Inr (pk_all p)"
proof (rule star_import_complete)
  show "set (pk_all p) \<subseteq> set (bound_names p)"
  proof (cases "name = ''yasin_core.sdk''")
    case True
    then have "p = sdk_package" using assms packages_names map_of_is_SomeI by fastforce
    then show ?thesis using sdk_exports_subset by (simp add: sdk_package_def)
  next
    case False
    then show ?thesis using assms other_packages_complete by (fastforce simp: list_all_iff)
  qed
qed

text \<open>Every name that the SDK takes from another package is bound there.\<close>

lemma sdk_imports_resolve: "\<forall>i \<in> set (pk_imports sdk_package). import_resolves i"
proof
  fix i assume i: "i \<in> set (pk_imports sdk_package)"
  have "list_all (\<lambda>n. n \<in> set (bound_names p)) (snd i)" if p: "map_of packages (fst i) = Some p" for p
  proof -
    have "fst i \<noteq> ''yasin_core.sdk''" using i sdk_not_from_itself by (auto simp: list_all_iff sdk_package_def)
    moreover have "(fst i, p) \<in> set packages" using p by (rule map_of_SomeD)
    ultimately have "(fst i, p) \<in> set (filter (\<lambda>np. fst np \<noteq> ''yasin_core.sdk'') packages)" by simp
    from bspec [OF sdk_imports_found [unfolded list_all_iff [of _ "filter _ _"]] this]
    have "list_all (\<lambda>i'. if fst i' = fst i then list_all (\<lambda>n. n \<in> set (bound_names p)) (snd i') else True)
        (sdk_core_imports @ sdk_layer_imports)" by (simp only: fst_conv snd_conv)
    then have "if fst i = fst i then list_all (\<lambda>n. n \<in> set (bound_names p)) (snd i) else True"
      using i unfolding list_all_iff [of _ "sdk_core_imports @ sdk_layer_imports"] by (simp add: sdk_package_def)
    then show ?thesis by simp
  qed
  then show "import_resolves i" by (simp add: import_resolves_def split: option.split)
qed

section \<open>The shipped contract\<close>

lemma shipped_registry_valid: "validate_registry_schema shipped_registry = Inr []"
proof -
  have "distinct_items (map PStr contract_exports) = Inr True"
    using contract_exports_distinct
    by (simp add: distinct_items_def unhashable_def filter_empty_conv distinct_map inj_on_def split: list.split)
  moreover have "map PStr contract_exports \<noteq> []" by (simp add: contract_exports_def)
  ultimately show ?thesis
    by (simp add: validate_registry_schema_def shipped_registry_def required_top_level_def required_consumers_def pyget_def public_sdk_errors_def
        module_errors_def export_errors_def str_in_list_def nonempty_list_def consumers_errors_def
        consumer_errors_def compatibility_errors_def sdk_def forbidden_prefixes_def)
qed

lemma registry_read:
  "get_public_exports shipped_registry = Inr (PStr ` set contract_exports)"
  "get_forbidden_import_prefixes shipped_registry = Inr (map PStr forbidden_prefixes)"
proof -
  have "items_set (PList (map PStr contract_exports)) = Inr (PStr ` set contract_exports)"
    by (simp add: items_set_def unhashable_def filter_empty_conv split: list.split)
  then show "get_public_exports shipped_registry = Inr (PStr ` set contract_exports)"
    by (simp add: get_public_exports_def shipped_registry_def subscript_def)
  show "get_forbidden_import_prefixes shipped_registry = Inr (map PStr forbidden_prefixes)"
    by (simp add: get_forbidden_import_prefixes_def shipped_registry_def subscript_def)
qed

lemma core_module_refused:
  "is_module_allowed [''yasin_core.sdk''] forbidden (''yasin_core.'' @ m) = under (''yasin_core.'' @ m) ''yasin_core.sdk''"
  by (simp add: is_module_allowed_def)

text \<open>
  The registry that the SDK is shipped with is valid, declares exactly the names that the package exports, each of them is bound, and
  with its prefixes the boundary refuses every module of the core outside the SDK, the shared contracts among them, which no prefix names.
\<close>

theorem shipped_contract_holds:
  "validate_registry_schema shipped_registry = Inr []
   \<and> get_public_exports shipped_registry = Inr (PStr ` set sdk_all)
   \<and> star_import ''yasin_core.sdk'' sdk_package = Inr sdk_all
   \<and> get_forbidden_import_prefixes shipped_registry = Inr (map PStr forbidden_prefixes)
   \<and> (\<forall>m. is_module_allowed [''yasin_core.sdk''] forbidden_prefixes (''yasin_core.'' @ m) = under (''yasin_core.'' @ m) ''yasin_core.sdk'')"
proof (intro conjI allI)
  show "star_import ''yasin_core.sdk'' sdk_package = Inr sdk_all"
    using star_imports_succeed [OF map_of_SomeD [OF packages_names(1)]] by (simp add: sdk_package_def)
qed (simp_all only: shipped_registry_valid registry_read contract_exports_set core_module_refused)

lemma contracts_not_listed: "\<not> list_ex (under ''yasin_core.contracts'') forbidden_prefixes"
  by (simp add: forbidden_prefixes_def under_def)

end
