(* ===== verification/CompatSupport.thy ===== *)
theory CompatSupport
  imports PyDynamic VersionCompat
begin

text \<open>
  The remaining parts of the compatibility layer: deprecation warnings (\<open>warnings.py\<close>), the adapter for
  legacy names (\<open>adapters.py\<close>), the checker of interfaces (\<open>api.py\<close>) and of the ecosystem
  (\<open>ecosystem.py\<close>), and the helpers of \<open>yasin_core/sdk/compat.py\<close>. Objects of users are known by their
  attributes. \<open>shown\<close> is \<open>str\<close> of a value.
\<close>

section \<open>Warnings\<close>

text \<open>The manager's count, and the texts that went to the standard library's warnings and to the log\<close>

record deprecations =
  dp_count :: nat
  dp_warned :: "string list"
  dp_logged :: "string list"

definition full_message :: "string \<Rightarrow> string option \<Rightarrow> string option \<Rightarrow> string" where
  "full_message msg since instead =
     msg @ (case since of Some s \<Rightarrow> if s \<noteq> [] then '' (deprecated since version '' @ s @ '')'' else [] | None \<Rightarrow> [])
         @ (case instead of Some s \<Rightarrow> if s \<noteq> [] then ''. Use '' @ quoted s @ '' instead'' else [] | None \<Rightarrow> [])"

definition warn :: "string \<Rightarrow> string option \<Rightarrow> string option \<Rightarrow> deprecations \<Rightarrow> deprecations" where
  "warn msg since instead d =
     (let s = full_message msg since instead
      in d\<lparr>dp_count := dp_count d + 1, dp_warned := dp_warned d @ [s], dp_logged := dp_logged d @ [''DEPRECATED: '' @ s]\<rparr>)"

datatype decorated = Function_Named string | Class_Named string

text \<open>What a decorated function or class does before the call goes on\<close>

definition deprecated_message :: "string option \<Rightarrow> decorated \<Rightarrow> string" where
  "deprecated_message msg x =
     (case msg of
        Some s \<Rightarrow> if s \<noteq> [] then s else (case x of Class_Named n \<Rightarrow> ''Class '' @ quoted n @ '' is deprecated''
                                       | Function_Named n \<Rightarrow> ''Function/method '' @ quoted n @ '' is deprecated'')
      | None \<Rightarrow> (case x of Class_Named n \<Rightarrow> ''Class '' @ quoted n @ '' is deprecated''
                 | Function_Named n \<Rightarrow> ''Function/method '' @ quoted n @ '' is deprecated''))"

definition call_deprecated :: "string option \<Rightarrow> string option \<Rightarrow> string option \<Rightarrow> decorated \<Rightarrow> deprecations \<Rightarrow> deprecations" where
  "call_deprecated since instead msg x d = warn (deprecated_message msg x) since instead d"

section \<open>Legacy names\<close>

text \<open>
  The object behind an adapter: its attributes. A translator is known by its function's name. What reading an attribute
  gives is its value, or the translator bound to the object.
\<close>

record adapter =
  ad_alias :: "(string \<times> string) list"
  ad_translators :: "(string \<times> string) list"
  ad_since :: string

datatype attribute = Attr_Value pyval | Translator string

definition target_get :: "string \<Rightarrow> pydict \<Rightarrow> exn + pyval" where
  "target_get name attrs =
     (case map_of attrs name of
        Some v \<Rightarrow> Inr v
      | None \<Rightarrow> Inl (Exn AttributeErr (''object has no attribute '' @ quoted name)))"

definition adapter_get :: "adapter \<Rightarrow> string \<Rightarrow> pydict \<Rightarrow> deprecations \<Rightarrow> deprecations \<times> (exn + attribute)" where
  "adapter_get ad name attrs d =
     (case map_of (ad_translators ad) name of
        Some f \<Rightarrow> (warn (''Legacy method '' @ quoted name @ '' is called via adapter'') (Some (ad_since ad)) (Some f) d, Inr (Translator f))
      | None \<Rightarrow>
          (case map_of (ad_alias ad) name of
             Some modern \<Rightarrow> (warn (''Legacy attribute/method '' @ quoted name @ '' is accessed'') (Some (ad_since ad)) (Some modern) d,
                            map_sum id Attr_Value (target_get modern attrs))
           | None \<Rightarrow> (d, map_sum id Attr_Value (target_get name attrs))))"

definition own_attributes :: "string list" where
  "own_attributes = [''_target_obj'', ''_alias_mapping'', ''_custom_translators'', ''_since_version'']"

text \<open>Setting one of the adapter's own attributes changes the adapter and not the object.\<close>

definition adapter_set :: "adapter \<Rightarrow> string \<Rightarrow> pyval \<Rightarrow> pydict \<Rightarrow> deprecations \<Rightarrow> deprecations \<times> pydict" where
  "adapter_set ad name v attrs d =
     (if name \<in> set own_attributes then (d, attrs)
      else case map_of (ad_alias ad) name of
             Some modern \<Rightarrow> (warn (''Setting legacy attribute '' @ quoted name) (Some (ad_since ad)) (Some modern) d, AList.update modern v attrs)
           | None \<Rightarrow> (d, AList.update name v attrs))"

section \<open>Interfaces\<close>

datatype param_kind = Plain_Param | Var_Positional | Var_Keyword

record sig_param =
  sp_name :: string
  sp_kind :: param_kind
  sp_default :: bool

text \<open>A member that is callable has a signature, unless \<open>inspect\<close> cannot tell it.\<close>

datatype member = Not_Callable | Callable "sig_param list option"

definition self_name :: "string \<Rightarrow> bool" where
  "self_name s \<longleftrightarrow> s = ''self'' \<or> s = ''cls''"

definition validate_method_signature :: "member \<Rightarrow> string list option \<Rightarrow> int option \<Rightarrow> bool" where
  "validate_method_signature f expected min_args =
     (case f of
        Not_Callable \<Rightarrow> False
      | Callable None \<Rightarrow> True
      | Callable (Some ps) \<Rightarrow>
          (let names = (case map sp_name ps of n # ns \<Rightarrow> if self_name n then ns else n # ns | [] \<Rightarrow> []);
               var = list_ex (\<lambda>p. sp_kind p \<noteq> Plain_Param) ps;
               needed = filter (\<lambda>p. \<not> self_name (sp_name p) \<and> \<not> sp_default p \<and> sp_kind p = Plain_Param) ps
           in (case expected of Some es \<Rightarrow> list_all (\<lambda>e. e \<in> set names \<or> var) es | None \<Rightarrow> True)
              \<and> (case min_args of Some n \<Rightarrow> int (length needed) \<le> n | None \<Rightarrow> True)))"

text \<open>What is expected of a member: that it exists, or that it is a method with parameters and required arguments\<close>

datatype api_spec = Spec_Attribute | Spec_Method "string list option" "int option"

record api_report =
  ap_missing :: "string list"
  ap_mismatched :: "string list"

definition member_mismatch :: "string \<Rightarrow> api_spec \<Rightarrow> member \<Rightarrow> string list" where
  "member_mismatch name sp f =
     (case sp of
        Spec_Attribute \<Rightarrow> []
      | Spec_Method ps n \<Rightarrow>
          if f = Not_Callable then [name @ '' is not callable'']
          else if validate_method_signature f ps n then [] else [name])"

definition check_api :: "(string \<times> member) list \<Rightarrow> (string \<times> api_spec) list \<Rightarrow> api_report" where
  "check_api target expected =
     \<lparr> ap_missing = map fst (filter (\<lambda>(n, _). \<not> dict_has target n) expected),
       ap_mismatched = concat (map (\<lambda>(n, sp). case map_of target n of None \<Rightarrow> [] | Some f \<Rightarrow> member_mismatch n sp f) expected) \<rparr>"

definition api_compatible :: "api_report \<Rightarrow> bool" where
  "api_compatible r \<longleftrightarrow> ap_missing r = [] \<and> ap_mismatched r = []"

definition names_repr :: "string list \<Rightarrow> string" where
  "names_repr xs = ''['' @ join_with '', '' (map quoted xs) @ '']''"

definition check_compatibility :: "(string \<times> member) list \<Rightarrow> (string \<times> api_spec) list \<Rightarrow> bool \<Rightarrow> exn + (bool \<times> api_report)" where
  "check_compatibility target expected raise =
     (let r = check_api target expected; ok = api_compatible r
      in if raise \<and> \<not> ok
         then Inl (Exn APICompatibilityErr (''API compatibility check failed: '' @ join_with ''; ''
                ((if ap_missing r \<noteq> [] then [''Missing attributes/methods: '' @ names_repr (ap_missing r)] else [])
                 @ (if ap_mismatched r \<noteq> [] then [''Mismatched signatures: '' @ names_repr (ap_mismatched r)] else []))))
         else Inr (ok, r))"

section \<open>The ecosystem\<close>

definition version_string :: string where
  "version_string = ''3.4.0''"

text \<open>\<open>is_compatible(expr, VERSION)\<close> of a value: what is false is compatible, and only strings can be stripped.\<close>

definition core_compatible :: "pyval \<Rightarrow> exn + bool" where
  "core_compatible v =
     (if \<not> truthy v then Inr True
      else case v of PStr s \<Rightarrow> Inr (is_compatible s version_string) | _ \<Rightarrow> Inl (attribute_error ''strip'' v))"

text \<open>An object of a user: its attributes and the names of its methods\<close>

record user_object =
  uo_attrs :: pydict
  uo_methods :: "string list"

definition has_attr :: "user_object \<Rightarrow> string \<Rightarrow> bool" where
  "has_attr x name \<longleftrightarrow> dict_has (uo_attrs x) name \<or> name \<in> set (uo_methods x)"

definition compat_attr :: "user_object \<Rightarrow> pyval" where
  "compat_attr x = (case map_of (uo_attrs x) ''core_version_compat'' of Some v \<Rightarrow> v | None \<Rightarrow> PStr ''*'')"

type_synonym validation = "bool \<times> string list"

definition add_errors :: "string list \<Rightarrow> bool \<Rightarrow> string \<Rightarrow> validation" where
  "add_errors es ok msg = (let all = es @ (if ok then [] else [msg]) in (all = [], all))"

definition validate_agent :: "(pyval \<Rightarrow> string) \<Rightarrow> user_object \<Rightarrow> exn + validation" where
  "validate_agent shown a =
     (let es = (case map_of (uo_attrs a) ''name'' of Some (PStr _) \<Rightarrow> [] | _ \<Rightarrow> [''Agent must have a string '' @ quoted ''name'' @ '' attribute.''])
               @ (if \<not> has_attr a ''execute_task'' \<and> \<not> has_attr a ''execute''
                  then [''Agent must implement either '' @ quoted ''execute_task'' @ '' or '' @ quoted ''execute'' @ '' method.''] else [])
      in and_then (core_compatible (compat_attr a)) (\<lambda>ok. Inr (add_errors es ok
           (''Agent version compatibility '' @ quoted (py_text shown (compat_attr a)) @ '' is not compatible with core version '' @ quoted version_string))))"

definition validate_hub :: "(pyval \<Rightarrow> string) \<Rightarrow> pydict \<Rightarrow> exn + validation" where
  "validate_hub shown d =
     (let es = concat (map (\<lambda>f. if dict_has d f then [] else [''Hub metadata is missing required field '' @ quoted f @ ''.''])
                           [''id'', ''version'', ''core_version_compat''])
      in if es \<noteq> [] then Inr (False, es)
         else and_then (core_compatible (pyget d ''core_version_compat'')) (\<lambda>ok. Inr (add_errors [] ok
           (''Hub package compatibility '' @ quoted (py_text shown (pyget d ''core_version_compat'')) @ '' is incompatible with core version ''
             @ quoted version_string))))"

definition validate_relay :: "(pyval \<Rightarrow> string) \<Rightarrow> user_object \<Rightarrow> exn + validation" where
  "validate_relay shown x =
     (let es = (if ''process'' \<in> set (uo_methods x) \<or> ''publish'' \<in> set (uo_methods x) then []
                else [''Relay component must implement either a '' @ quoted ''process'' @ '' or '' @ quoted ''publish'' @ '' method.''])
      in and_then (core_compatible (compat_attr x)) (\<lambda>ok. Inr (add_errors es ok
           (''Relay component core version constraint '' @ quoted (py_text shown (compat_attr x)) @ '' is incompatible with core version ''
             @ quoted version_string))))"

definition validate_cli :: "(pyval \<Rightarrow> string) \<Rightarrow> pydict \<Rightarrow> exn + validation" where
  "validate_cli shown d =
     (let es = (case map_of d ''commands'' of Some (PDict _) \<Rightarrow> [] | _ \<Rightarrow> [''CLI metadata must include a '' @ quoted ''commands'' @ '' dictionary.'']);
          v = (case map_of d ''core_version_compat'' of Some v \<Rightarrow> v | None \<Rightarrow> PStr ''*'')
      in and_then (core_compatible v) (\<lambda>ok. Inr (add_errors es ok
           (''CLI compatibility constraint '' @ quoted (py_text shown v) @ '' is incompatible with core version '' @ quoted version_string))))"

section \<open>The running client\<close>

text \<open>
  What the checker sees of a client: the \<open>settings\<close> attribute of its configuration, the states of its services as far as the
  registry can report them, whether its storage has \<open>get\<close> and \<open>set\<close>, and what the container gives for a name. A part is
  absent if the client has none; reading a part can raise.
\<close>

record client_view =
  vw_settings :: "(exn + pyval) option"
  vw_services :: "(exn + (string \<times> pyval) list) option"
  vw_storage :: "(exn + bool) option"
  vw_resolve :: "(string \<Rightarrow> exn + pyval) option"

datatype check_status = PASS | WARN | FAIL

type_synonym check_entry = "check_status \<times> string list"

definition config_check :: "client_view \<Rightarrow> check_entry" where
  "config_check c =
     (case vw_settings c of
        None \<Rightarrow> (PASS, [])
      | Some (Inl e) \<Rightarrow> (FAIL, [''Config check error: '' @ exn_msg e])
      | Some (Inr v) \<Rightarrow> if truthy v then (PASS, []) else (WARN, [''Settings dictionary is empty or not initialized.'']))"

definition services_check :: "client_view \<Rightarrow> check_entry" where
  "services_check c =
     (case vw_services c of
        None \<Rightarrow> (PASS, [])
      | Some (Inl e) \<Rightarrow> (FAIL, [''Service registry check error: '' @ exn_msg e])
      | Some (Inr ss) \<Rightarrow>
          (let failed = filter (\<lambda>p. snd p = PStr ''FAILED'') ss
           in (if failed = [] then PASS else WARN, map (\<lambda>p. ''Service '' @ quoted (fst p) @ '' is in a FAILED state.'') failed)))"

definition storage_check :: "client_view \<Rightarrow> check_entry" where
  "storage_check c =
     (case vw_storage c of
        None \<Rightarrow> (PASS, [])
      | Some (Inl e) \<Rightarrow> (FAIL, [''Storage check error: '' @ exn_msg e])
      | Some (Inr ok) \<Rightarrow> if ok then (PASS, [])
                       else (FAIL, [''Active storage provider is missing required '' @ quoted ''get'' @ '' or '' @ quoted ''set'' @ '' APIs.'']))"

definition recommended :: "string list" where
  "recommended = [''client'', ''config'', ''storage'', ''event_bus'']"

definition di_check :: "client_view \<Rightarrow> check_entry" where
  "di_check c =
     (case vw_resolve c of
        None \<Rightarrow> (PASS, [])
      | Some f \<Rightarrow>
          (let bad = filter (\<lambda>n. case f n of Inl _ \<Rightarrow> True | Inr v \<Rightarrow> \<not> truthy v) recommended
           in (if bad = [] then PASS else WARN, map (\<lambda>n. ''Missing recommended DI registration for alias '' @ quoted n @ ''.'') bad)))"

definition check_runtime :: "client_view \<Rightarrow> bool \<times> (string \<times> check_entry) list" where
  "check_runtime c =
     (let checks = [(''config'', config_check c), (''services'', services_check c), (''storage'', storage_check c), (''di'', di_check c)]
      in (list_all (\<lambda>p. fst (snd p) \<noteq> FAIL) checks, checks))"

section \<open>Helpers of the SDK\<close>

definition sdk_check_compatibility :: "string \<Rightarrow> string \<Rightarrow> bool" where
  "sdk_check_compatibility sdk_version version =
     (let sp = str_split (CHR ''.'') sdk_version; cp = str_split (CHR ''.'') version
      in 2 \<le> length sp \<and> 2 \<le> length cp \<and> hd sp = hd cp)"

definition migrate_task_payload :: "(pyval \<Rightarrow> exn + pydict) \<Rightarrow> pydict \<Rightarrow> exn + pydict" where
  "migrate_task_payload to_dict d =
     (case map_of d ''meta'' of
        None \<Rightarrow> Inr (AList.update ''meta'' (PDict [(''version'', PStr ''v2''), (''migrated'', PBool True)]) d)
      | Some m \<Rightarrow> and_then (to_dict m) (\<lambda>md. Inr (AList.update ''meta''
           (PDict (AList.update ''migrated'' (PBool True) (AList.update ''version'' (PStr ''v2'') md))) d)))"

definition migrate_memory_payload :: "pydict \<Rightarrow> pydict" where
  "migrate_memory_payload d =
     (let d1 = (if dict_has d ''metadata'' then d else AList.update ''metadata'' (PDict []) d)
      in case pyget d1 ''metadata'' of
           PDict md \<Rightarrow> AList.update ''metadata'' (PDict (AList.update ''migrated'' (PBool True) (AList.update ''v2_saved'' (PBool True) md))) d1
         | _ \<Rightarrow> d1)"

end
