(* ===== verification/SdkWiring.thy ===== *)
theory SdkWiring
  imports CompatSupport DIResolution ServiceManager
begin

text \<open>
  How the constructor of the client (\<open>YasinCoreClient.__init__\<close> in \<open>sdk/client.py\<close>) wires its parts: the
  parts a caller may bring along, the registrations in the dependency injection container and the services
  in the registry with their dependencies. An object is a number. The second half shows what follows for
  resolution, for the start-up of the services and for the audit of \<open>compatibility/ecosystem.py\<close>.
\<close>

section \<open>Parts\<close>

datatype part = Client | Event_Bus | Agent_Runtime | Plugin_Registry | Provider_Manager | Service_Registry
  | Context_Engine | DI_Container | Config_Manager | Observability_Service | Task_Engine | Job_Scheduler
  | Worker_Manager | Runtime_Orchestrator | Security_Part | Compatibility_Part | Storage_Part | Short_Term
  | Long_Term | API_Gateway

definition injectable :: "part list" where
  "injectable = [Short_Term, Long_Term, Service_Registry, Context_Engine, DI_Container, Config_Manager, Storage_Part, API_Gateway]"

text \<open>
  \<open>x or Default()\<close>: what the caller gave, if it is injectable, else the object that the constructor of the
  part returns. None of the classes defines truth, so an object that is given counts as true.
\<close>

definition client_part :: "(part \<Rightarrow> nat option) \<Rightarrow> (part \<Rightarrow> nat) \<Rightarrow> part \<Rightarrow> nat" where
  "client_part given made p =
     (if p \<in> set injectable then (case given p of Some x \<Rightarrow> x | None \<Rightarrow> made p) else made p)"

section \<open>Registrations in the container\<close>

definition registrations :: "(di_key \<times> part) list" where
  "registrations =
     [(TypeKey ''yasin_core.api.gateway.APIGateway'', API_Gateway), (NameKey ''api_gateway'', API_Gateway),
      (TypeKey ''yasin_core.providers.base.ProviderManager'', Provider_Manager), (NameKey ''providers'', Provider_Manager),
      (TypeKey ''yasin_core.sdk.client.YasinCoreClient'', Client), (NameKey ''client'', Client),
      (TypeKey ''yasin_core.runtime.registry.RuntimeServiceRegistry'', Service_Registry), (NameKey ''service_registry'', Service_Registry),
      (TypeKey ''yasin_core.context.engine.ContextEngine'', Context_Engine), (NameKey ''context_engine'', Context_Engine),
      (NameKey ''event_bus'', Event_Bus),
      (TypeKey ''yasin_core.plugins.registry.PluginRegistry'', Plugin_Registry), (NameKey ''plugin_registry'', Plugin_Registry),
      (TypeKey ''yasin_core.config.settings.ConfigurationManager'', Config_Manager), (NameKey ''config'', Config_Manager),
      (TypeKey ''yasin_core.storage.base.BaseStorage'', Storage_Part), (NameKey ''storage'', Storage_Part),
      (TypeKey ''yasin_core.core.orchestrator.RuntimeOrchestrator'', Runtime_Orchestrator), (NameKey ''orchestrator'', Runtime_Orchestrator),
      (TypeKey ''yasin_core.observability.service.ObservabilityService'', Observability_Service), (NameKey ''observability'', Observability_Service),
      (TypeKey ''yasin_core.execution.engine.TaskExecutionEngine'', Task_Engine), (NameKey ''execution'', Task_Engine),
      (TypeKey ''yasin_core.execution.distributed.DistributedWorkerManager'', Worker_Manager), (NameKey ''worker_manager'', Worker_Manager),
      (TypeKey ''yasin_core.security.manager.SecurityManager'', Security_Part), (NameKey ''security_manager'', Security_Part),
      (TypeKey ''yasin_core.compatibility.CompatibilityManager'', Compatibility_Part), (NameKey ''compatibility'', Compatibility_Part),
      (TypeKey ''yasin_core.agents.runtime.AgentRuntime'', Agent_Runtime), (NameKey ''agent_runtime'', Agent_Runtime)]"

definition register_parts :: "(part \<Rightarrow> nat) \<Rightarrow> container \<Rightarrow> container" where
  "register_parts obj c = fold (\<lambda>(k, p). register_instance k (PObj (obj p))) registrations c"

section \<open>Services\<close>

definition client_services :: "(string \<times> part \<times> string \<times> string list option) list" where
  "client_services =
     [(''providers'', Provider_Manager, ''Unified AI Provider Abstraction Layer managing LLM endpoints.'', Some [''config'']),
      (''observability'', Observability_Service, ''Observability and metrics collection service.'', None),
      (''plugin_registry'', Plugin_Registry, ''Manages core and third-party plugin lifecycles.'', None),
      (''execution'', Task_Engine, ''Manages unified background task/job execution workflows.'', Some [''config'']),
      (''config'', Config_Manager, ''Manages ecosystem configuration.'', None),
      (''storage'', Storage_Part, ''Manages ecosystem storage services.'', None),
      (''security_manager'', Security_Part, ''Manages system access control and auditing.'', None),
      (''agent_runtime'', Agent_Runtime, ''Central official Agent Runtime integration layer service.'',
         Some [''config'', ''storage'', ''security_manager'']),
      (''short_term_memory'', Short_Term, ''Short-term working memory layer.'', None),
      (''long_term_memory'', Long_Term, ''Long-term semantic/persistent memory layer.'', None),
      (''api_gateway'', API_Gateway, ''Unified public API Gateway interface.'', None),
      (''scheduler'', Job_Scheduler, ''Manages scheduled and recurring background jobs.'', Some [''execution'', ''storage'']),
      (''worker_manager'', Worker_Manager, ''Manages distributed worker nodes, heartbeats, and task routing.'', Some [''config''])]"

fun register_services :: "string \<Rightarrow> (part \<Rightarrow> nat) \<Rightarrow> (string \<times> part \<times> string \<times> string list option) list \<Rightarrow> service_manager \<Rightarrow> service_manager \<times> exn option" where
  "register_services version obj [] m = (m, None)"
| "register_services version obj ((name, p, description, deps) # rest) m =
     (case reg_register name (obj p) version description deps None m of
        Inl e \<Rightarrow> (m, Some e)
      | Inr m' \<Rightarrow> register_services version obj rest m')"

text \<open>The end of the constructor: first the container, then the services. A service that is already there raises.\<close>

definition wire_client :: "(part \<Rightarrow> nat) \<Rightarrow> container \<Rightarrow> service_manager \<Rightarrow> container \<times> service_manager \<times> exn option" where
  "wire_client obj c m = (register_parts obj c, register_services version_string obj client_services m)"

text \<open>\<open>is_active\<close> of the client, from the state the orchestrator reports\<close>

definition client_is_active :: "pydict \<Rightarrow> (pyval \<Rightarrow> string) \<Rightarrow> bool" where
  "client_is_active status shown \<longleftrightarrow> str_lower (py_text shown (pyget status ''state'')) = ''running''"

section \<open>Attributes\<close>

text \<open>What the properties of the client return: the client, one of its namespaces, a part, or the version\<close>

datatype client_value = The_Client | Namespace_Of string | Of_Part part | The_Version

definition client_properties :: "(string \<times> client_value) list" where
  "client_properties =
     [(''v2'', The_Client), (''agents'', Namespace_Of ''AgentNamespace''), (''tasks'', Namespace_Of ''TaskNamespace''),
      (''memory'', Namespace_Of ''MemoryNamespace''), (''context'', Namespace_Of ''ContextNamespace''), (''tools'', Namespace_Of ''ToolNamespace''),
      (''providers'', Of_Part Provider_Manager), (''observability'', Of_Part Observability_Service),
      (''di_container'', Of_Part DI_Container), (''container'', Of_Part DI_Container), (''config'', Of_Part Config_Manager),
      (''security'', Of_Part Security_Part), (''compatibility'', Of_Part Compatibility_Part), (''agent_runtime'', Of_Part Agent_Runtime),
      (''registry'', Of_Part Service_Registry), (''orchestrator'', Of_Part Runtime_Orchestrator), (''api_gateway'', Of_Part API_Gateway)]"

definition execution_properties :: "(string \<times> client_value) list" where
  "execution_properties =
     [(''execution'', Of_Part Task_Engine), (''worker_manager'', Of_Part Worker_Manager), (''scheduler'', Of_Part Job_Scheduler),
      (''storage'', Of_Part Storage_Part), (''version'', The_Version)]"

definition core_properties :: "(string \<times> client_value) list" where
  "core_properties =
     [(''event_bus'', Of_Part Event_Bus), (''service_registry'', Of_Part Service_Registry), (''context_engine'', Of_Part Context_Engine),
      (''short_term_memory'', Of_Part Short_Term), (''long_term_memory'', Of_Part Long_Term)]"

definition client_attribute :: "string \<Rightarrow> client_value option" where
  "client_attribute = map_of (client_properties @ execution_properties @ core_properties)"

text \<open>
  An attribute that is also a name in the container, or the name of a service, denotes the same part there. All the
  properties that other components look for with \<open>hasattr\<close> exist but \<open>plugin_registry\<close>, which the observability service
  looks for: it is registered in the container and as a service, but is no attribute, so the metrics of plugins are
  never collected for this client.
\<close>

lemma attributes_agree:
  assumes "client_attribute n = Some (Of_Part p)"
  shows "map_of registrations (NameKey n) \<in> {None, Some p} \<and> map_option fst (map_of client_services n) \<in> {None, Some p}"
proof -
  have "list_all (\<lambda>(n, v). case v of
      Of_Part p \<Rightarrow> (map_of registrations (NameKey n) = None \<or> map_of registrations (NameKey n) = Some p)
        \<and> (map_of client_services n = None \<or> map_option fst (map_of client_services n) = Some p)
    | _ \<Rightarrow> True) (client_properties @ execution_properties @ core_properties)" by code_simp
  moreover have "(n, Of_Part p) \<in> set (client_properties @ execution_properties @ core_properties)"
    using assms by (auto simp: client_attribute_def dest!: map_of_SomeD)
  ultimately have "(map_of registrations (NameKey n) = None \<or> map_of registrations (NameKey n) = Some p)
      \<and> (map_of client_services n = None \<or> map_option fst (map_of client_services n) = Some p)"
    unfolding list_all_iff by (elim ballE [where x = "(n, Of_Part p)"]) simp_all
  then show ?thesis by auto
qed

lemma attributes_looked_for:
  "filter (\<lambda>n. client_attribute n = None)
     [''config'', ''context_engine'', ''di_container'', ''event_bus'', ''execution'', ''long_term_memory'', ''observability'', ''plugin_registry'',
      ''security'', ''service_registry'', ''short_term_memory'', ''storage'', ''worker_manager'', ''registry'', ''container''] = [''plugin_registry'']
   \<and> map_of registrations (NameKey ''plugin_registry'') = Some Plugin_Registry"
  by (simp add: client_attribute_def client_properties_def execution_properties_def core_properties_def registrations_def)

section \<open>The container after the construction\<close>

lemma map_of_register: "map_of (di_regs (register_instance k v c)) =
    (map_of (di_regs c))(k \<mapsto> \<lparr>rg_lifetime = DI_SINGLETON, rg_factory = None, rg_instance = v\<rparr>)"
  by (simp add: register_instance_def update_conv')

lemma map_of_fold_register:
  "map_of (di_regs (fold (\<lambda>(k, p). register_instance k (PObj (obj p))) rs c)) =
     (map_of (di_regs c) ++ map_of (rev (map (\<lambda>(k, p). (k, \<lparr>rg_lifetime = DI_SINGLETON, rg_factory = None, rg_instance = PObj (obj p)\<rparr>)) rs)))"
  by (induction rs arbitrary: c) (auto simp: map_of_register map_add_def fun_eq_iff split: option.splits prod.splits)

lemma distinct_registrations: "distinct (map fst registrations)"
  by (simp add: registrations_def)

lemma map_of_register_parts: "map_of (di_regs (register_parts obj c)) k =
    (case map_of registrations k of
       Some p \<Rightarrow> Some \<lparr>rg_lifetime = DI_SINGLETON, rg_factory = None, rg_instance = PObj (obj p)\<rparr>
     | None \<Rightarrow> map_of (di_regs c) k)"
proof -
  let ?g = "\<lambda>p. \<lparr>rg_lifetime = DI_SINGLETON, rg_factory = None, rg_instance = PObj (obj p)\<rparr>"
  have "map_of (rev (map (\<lambda>(k, p). (k, ?g p)) registrations)) = map_of (map (\<lambda>(k, p). (k, ?g p)) registrations)"
    using distinct_registrations by (intro map_of_inject_set [THEN iffD2]) (auto simp: o_def split_def simp flip: rev_map)
  then show ?thesis
    by (simp add: register_parts_def map_of_fold_register map_add_def map_of_map split: option.splits)
qed

lemma registered_part_resolves:
  assumes "map_of registrations k = Some p"
  shows "di_resolve w mk k (register_parts obj c) = (register_parts obj c, Inr (PObj (obj p)))"
  using assms by (simp add: di_resolve_def resolve_key.simps [of _ _ "[]"] find_registration_def map_of_register_parts cached_def)

section \<open>The services after the construction\<close>

definition client_order :: "string list" where
  "client_order = [''api_gateway'', ''config'', ''execution'', ''long_term_memory'', ''observability'', ''plugin_registry'', ''providers'',
     ''security_manager'', ''short_term_memory'', ''storage'', ''agent_runtime'', ''scheduler'', ''worker_manager'']"

lemma client_services_registered:
  "register_services v obj client_services sv_init = (m, None) \<Longrightarrow>
     svc_deps m = map (\<lambda>(name, _, _, deps). (name, case deps of Some d \<Rightarrow> d | None \<Rightarrow> [])) client_services
     \<and> sv_services m = map (\<lambda>(name, p, _). (name, obj p)) client_services"
  by (auto simp: client_services_def reg_register_def svc_register_def svc_has_def sv_init_def svc_deps_def Let_def)

lemma client_services_accepted: "snd (register_services v obj client_services sv_init) = None"
  by (simp add: client_services_def reg_register_def svc_register_def svc_has_def sv_init_def Let_def)

lemma client_startup:
  "startup_order (map (\<lambda>(name, _, _, deps). (name, case deps of Some d \<Rightarrow> d | None \<Rightarrow> [])) client_services) = Inr client_order"
  by code_simp


section \<open>The audit of the client\<close>

text \<open>
  What the audit sees of a wired client. \<open>ConfigurationManager\<close> has no attribute \<open>settings\<close>, so the default \<open>None\<close> is
  what is read; the registry has no method \<open>get_service_status\<close>, so the state of every service is \<open>None\<close>; every storage
  has \<open>get\<close> and \<open>set\<close>.
\<close>

definition wired_view :: "di_world \<Rightarrow> maker \<Rightarrow> (part \<Rightarrow> nat) \<Rightarrow> container \<Rightarrow> service_manager \<Rightarrow> client_view" where
  "wired_view w mk obj c m =
     \<lparr> vw_settings = Some (Inr PNone),
       vw_services = Some (Inr (map (\<lambda>s. (s, PNone)) (svc_list m))),
       vw_storage = Some (Inr True),
       vw_resolve = Some (\<lambda>n. snd (di_resolve w mk (NameKey n) (register_parts obj c))) \<rparr>"

text \<open>
  The audit of a wired client has the same outcome whatever state the client is in: compatible, a warning about missing
  settings, and no service reported as failed, even if services have failed.
\<close>
lemma audit_of_client:
  "check_runtime (wired_view w mk obj c m) =
     (True, [(''config'', (WARN, [''Settings dictionary is empty or not initialized.''])), (''services'', (PASS, [])),
             (''storage'', (PASS, [])), (''di'', (PASS, []))])"
proof -
  have "list_all (\<lambda>n. \<exists>p. map_of registrations (NameKey n) = Some p) recommended"
    by (simp add: recommended_def registrations_def)
  then have "filter (\<lambda>n. case snd (di_resolve w mk (NameKey n) (register_parts obj c)) of Inl _ \<Rightarrow> True | Inr v \<Rightarrow> \<not> truthy v) recommended = []"
    by (auto simp: list_all_iff registered_part_resolves filter_empty_conv)
  then show ?thesis
    by (simp add: check_runtime_def wired_view_def config_check_def services_check_def storage_check_def di_check_def)
qed

text \<open>
  The event bus is registered by name only. A constructor that asks for it by its class does not get the client's bus:
  resolving the class builds another one.
\<close>
lemma event_bus_by_class_is_new:
  assumes "map_of (signatures w) (ClassC ''yasin_core.events.event_bus.EventBus'')
           = Some [\<lparr>par_name = ''max_history_size'', par_hint = HintType ''int'', par_default = Some (PInt 100), par_variadic = False\<rparr>]"
    and "\<And>q. \<not> is_subclass w q ''yasin_core.events.event_bus.EventBus'' \<and> \<not> is_subclass w q ''int''"
  shows "snd (di_resolve w mk (TypeKey ''yasin_core.events.event_bus.EventBus'') (register_parts obj di_empty))
           = map_sum (autowire_error ''yasin_core.events.event_bus.EventBus'') id
               (mk (di_built (register_parts obj di_empty)) (ClassC ''yasin_core.events.event_bus.EventBus'') [(''max_history_size'', PInt 100)])"
proof -
  let ?s = "register_parts obj di_empty"
  have n: "map_of (di_regs ?s) k = None" if "map_of registrations k = None" for k
    using that by (simp add: map_of_register_parts di_empty_def)
  have u: "find_registration w ?s (TypeKey q) = None" if "map_of registrations (TypeKey q) = None" "\<And>q'. \<not> is_subclass w q' q" for q
    using that n by (auto simp: find_registration_def find_None_iff split: di_key.splits)
  have h: "\<not> di_has w ?s (TypeKey ''int'')" "\<not> di_has w ?s (NameKey ''max_history_size'')"
    using assms(2) u [of "''int''"] n [of "NameKey ''max_history_size''"]
    by (auto simp: di_has_def find_registration_def registrations_def)
  have f: "find_registration w ?s (TypeKey ''yasin_core.events.event_bus.EventBus'') = None"
    using assms(2) by (intro u) (auto simp: registrations_def)
  have "collect w mk [TypeKey ''yasin_core.events.event_bus.EventBus''] (ClassC ''yasin_core.events.event_bus.EventBus'') 0 [] ?s
          = (?s, Inr [(''max_history_size'', PInt 100)])"
    using h assms(1) by (simp add: collect.simps sig_params_def param_key_def)
  then show ?thesis
    by (simp add: di_resolve_def resolve_key.simps [of _ _ "[]"] f autowired_def construct_def split: sum.splits)
qed

end
