(* ===== verification/SdkStart.thy ===== *)
theory SdkStart
  imports SdkWiring Orchestrator
begin

text \<open>
  The client's whole life: the services its constructor registers, started and stopped by the orchestrator through the
  service manager.
\<close>

lemma svc_wf_client:
  assumes "register_services v obj client_services sv_init = (m, None)"
  shows "svc_wf m" "\<not> sv_initialized m" "sv_calls m = []"
    "\<And>x. svc_state m x = (if x \<in> set client_order then Some S_UNINITIALIZED else None)"
  using assms
  by (auto simp: client_services_def client_order_def reg_register_def svc_register_def svc_has_def sv_init_def svc_wf_def wf_dict_def
      svc_state_def Let_def)

lemma init_never_raises:
  assumes "\<And>n. se_initialize sv n \<in> {None, Some None}"
  shows "call_raises (se_initialize sv) m name = Some e \<Longrightarrow> map_of (sv_services m) name = None"
  using assms by (auto simp: call_raises_def split: option.splits) (metis insertE option.distinct(1) option.inject singletonD)+

text \<open>Only what the table says is active is shown as active.\<close>

lemma active_shown_only:
  assumes "svc_wf m"
  shows "set (active_in_status (svc_status env m)) \<subseteq> svc_active m"
proof
  fix x assume "x \<in> set (active_in_status (svc_status env m))"
  then obtain ob meta where sh: "shows_active (x, PDict (service_status env m x ob meta))"
    by (auto simp: active_in_status_def svc_status_def dict_get_or_def split: option.splits)
  have "str_upper (service_state_value s) = ''ACTIVE'' \<Longrightarrow> s = S_ACTIVE" for s
    by (cases s) (simp_all add: str_upper_def char_upper_def in_range_char_def)
  moreover have "str_upper ''UNINITIALIZED'' \<noteq> ''ACTIVE''" by code_simp
  ultimately show "x \<in> svc_active m"
    using sh by (auto simp: shows_active_def service_status_state svc_active_def split: option.splits)
qed


section \<open>Witness\<close>

definition quiet_services :: service_env where
  "quiet_services = \<lparr> se_initialize = (\<lambda>n. if even n then Some None else None), se_shutdown = (\<lambda>_. Some None), se_reload = (\<lambda>_. None),
     se_health = (\<lambda>_. None), se_status = (\<lambda>_. None) \<rparr>"

definition plain_runtime :: runtime_env where
  "plain_runtime = \<lparr> re_event_bus = False, re_publish = (\<lambda>_. None), re_bus_reset = None, re_bus_shutdown = None,
     re_config_init = None, re_registry = True \<rparr>"


end
