(* ===== verification/SdkClient.thy ===== *)
theory SdkClient
  imports CoreClient SdkContract ProviderManager ExecScheduler
begin

text \<open>
  The rest of the client of the SDK (\<open>sdk/client.py\<close>): its methods that delegate to one part, and the grouped
  operations of version 2 (\<open>AgentNamespace\<close> to \<open>ToolNamespace\<close>), which call the client and translate
  what is raised into errors of the SDK. The agents, contexts, memories, plugins and the orchestrator are the
  client of \<open>CoreClient\<close>; tools, providers and the jobs with the schedule complete it.
\<close>

record 's sdk_client =
  sd_core :: "'s core_client"
  sd_tools :: tool_manager
  sd_providers :: provider_manager
  sd_scheduler :: scheduler

definition on_core :: "('s core_client \<Rightarrow> 's core_client \<times> 'r) \<Rightarrow> 's sdk_client \<Rightarrow> 's sdk_client \<times> 'r" where
  "on_core f c = map_prod (\<lambda>k. c\<lparr>sd_core := k\<rparr>) id (f (sd_core c))"

definition on_agents :: "(agent_runtime \<Rightarrow> agent_runtime \<times> 'r) \<Rightarrow> 's core_client \<Rightarrow> 's core_client \<times> 'r" where
  "on_agents f k = map_prod (\<lambda>rt. k\<lparr>kc_agents := (kc_agents k)\<lparr>aw_runtime := rt\<rparr>\<rparr>) id (f (aw_runtime (kc_agents k)))"

definition on_contexts :: "(cengine \<Rightarrow> cengine \<times> 'r) \<Rightarrow> 's core_client \<Rightarrow> 's core_client \<times> 'r" where
  "on_contexts f k = map_prod (\<lambda>e. k\<lparr>kc_contexts := e\<rparr>) id (f (kc_contexts k))"

definition on_world :: "(world \<Rightarrow> world \<times> 'r) \<Rightarrow> 's sdk_client \<Rightarrow> 's sdk_client \<times> 'r" where
  "on_world f c = map_prod (\<lambda>w. c\<lparr>sd_scheduler := (sd_scheduler c)\<lparr>sd_world := w\<rparr>\<rparr>) id (f (sd_world (sd_scheduler c)))"

section \<open>Agents\<close>

text \<open>The subject is looked up if the agent asks for a permission.\<close>

definition client_register_agent :: "'s core_env \<Rightarrow> call_facts \<Rightarrow> nat \<Rightarrow> 's core_client \<Rightarrow> 's core_client \<times> exn option" where
  "client_register_agent env f r k =
     (case (if ag_permissions (agent_at (aw_runtime (kc_agents k)) r) \<noteq> [] then current_subject env f k else (k, Inr None)) of
        (k1, subj) \<Rightarrow>
          (case register_agent (cf_audit_time f) subj r (aw_runtime (kc_agents k1), aw_security (kc_agents k1)) of
             ((rt, sc), e) \<Rightarrow> (k1\<lparr>kc_agents := (kc_agents k1)\<lparr>aw_runtime := rt, aw_security := sc\<rparr>\<rparr>, e)))"

definition client_get_agent :: "string \<Rightarrow> 's core_client \<Rightarrow> nat option" where
  "client_get_agent name k = get_agent name (aw_runtime (kc_agents k))"

definition client_remove_agent :: "string \<Rightarrow> 's core_client \<Rightarrow> 's core_client \<times> nat option" where
  "client_remove_agent name = on_agents (remove_agent name)"

definition client_list_agents :: "'s core_client \<Rightarrow> string list" where
  "client_list_agents k = list_agents (aw_runtime (kc_agents k))"

definition client_start_agents :: "'s core_env \<Rightarrow> 's core_client \<Rightarrow> 's core_client \<times> exn option" where
  "client_start_agents env = on_agents (\<lambda>rt. start_agents (ke_agents env) (ar_agents rt) rt)"

definition client_stop_agents :: "'s core_env \<Rightarrow> 's core_client \<Rightarrow> 's core_client \<times> exn option" where
  "client_stop_agents env = on_agents (\<lambda>rt. stop_agents (ke_agents env) (ar_agents rt) rt)"

section \<open>Contexts and storage\<close>

definition client_get_context :: "call_facts \<Rightarrow> string \<Rightarrow> 's core_client \<Rightarrow> 's core_client \<times> nat option" where
  "client_get_context f cid = on_contexts (get_context (cf_clock f) cid)"

definition client_delete_context :: "string \<Rightarrow> 's core_client \<Rightarrow> 's core_client" where
  "client_delete_context cid k = k\<lparr>kc_contexts := delete_context cid (kc_contexts k)\<rparr>"

definition client_list_contexts :: "call_facts \<Rightarrow> bool \<Rightarrow> string list \<Rightarrow> 's core_client \<Rightarrow> 's core_client \<times> string list" where
  "client_list_contexts f active_only tags = on_contexts (list_contexts (cf_clock f) active_only tags)"

definition client_update_data :: "call_facts \<Rightarrow> string \<Rightarrow> pydict \<Rightarrow> 's core_client \<Rightarrow> 's core_client \<times> nat option" where
  "client_update_data f cid data = on_contexts (update_context_data (cf_clock f) cid data)"

definition client_update_metadata :: "call_facts \<Rightarrow> string \<Rightarrow> pydict \<Rightarrow> 's core_client \<Rightarrow> 's core_client \<times> nat option" where
  "client_update_metadata f cid md = on_contexts (update_context_metadata (cf_clock f) cid md)"

definition client_add_tags :: "call_facts \<Rightarrow> string \<Rightarrow> string list \<Rightarrow> 's core_client \<Rightarrow> 's core_client \<times> nat option" where
  "client_add_tags f cid tags = on_contexts (add_tags (cf_clock f) cid tags)"

text \<open>The storage of the client is the one behind its long-term memory.\<close>

definition put_client_storage :: "'s \<Rightarrow> 's core_client \<Rightarrow> 's core_client" where
  "put_client_storage s k =
     (let m = aw_memories (kc_agents k) in put_memories (m\<lparr>cm_long := put_storage s (cm_long m)\<rparr>) k)"

definition client_save_context :: "'s core_env \<Rightarrow> call_facts \<Rightarrow> string \<Rightarrow> string \<Rightarrow> 's core_client \<Rightarrow> 's core_client \<times> exn option" where
  "client_save_context env f cid key_prefix k =
     (case save_context (ke_storage env) (cf_clock f) cid key_prefix (kc_contexts k) (client_storage (cm_long (aw_memories (kc_agents k)))) of
        (e, s, r) \<Rightarrow> (put_client_storage s (k\<lparr>kc_contexts := e\<rparr>), r))"

definition client_load_context ::
  "'s core_env \<Rightarrow> call_facts \<Rightarrow> string \<Rightarrow> string \<Rightarrow> 's core_client \<Rightarrow> 's core_client \<times> (exn + nat option)" where
  "client_load_context env f cid key_prefix k =
     on_contexts (load_context (ke_storage env) (cf_clock f) (cf_uuid f) cid key_prefix
                    (client_storage (cm_long (aw_memories (kc_agents k))))) k"

section \<open>Providers, plugins, jobs and tools\<close>

definition on_providers :: "(provider_manager \<Rightarrow> provider_manager \<times> 'r) \<Rightarrow> 's sdk_client \<Rightarrow> 's sdk_client \<times> 'r" where
  "on_providers f c = map_prod (\<lambda>p. c\<lparr>sd_providers := p\<rparr>) id (f (sd_providers c))"

definition client_register_provider :: "nat \<Rightarrow> 's sdk_client \<Rightarrow> 's sdk_client" where
  "client_register_provider r c = c\<lparr>sd_providers := register_provider r (sd_providers c)\<rparr>"

definition client_get_provider :: "string \<Rightarrow> 's sdk_client \<Rightarrow> nat option" where
  "client_get_provider name c = get_provider (sd_providers c) name"

definition client_list_providers :: "'s sdk_client \<Rightarrow> string list" where
  "client_list_providers c = list_providers (sd_providers c)"

definition client_generate :: "provider_env \<Rightarrow> string \<Rightarrow> string \<Rightarrow> 's sdk_client \<Rightarrow> exn + pyval" where
  "client_generate env name prompt c =
     (case client_get_provider name c of
        None \<Rightarrow> Inl (Exn ValueErr (''Provider '' @ quoted name @ '' is not registered.''))
      | Some r \<Rightarrow> provider_text env r (provider_at (sd_providers c) r) prompt)"

definition client_generate_response :: "provider_env \<Rightarrow> ai_request \<Rightarrow> string list \<Rightarrow> 's sdk_client \<Rightarrow> 's sdk_client \<times> (exn + ai_response)" where
  "client_generate_response env q chain = on_providers (generate_response env q chain)"

definition client_generate_stream ::
  "provider_env \<Rightarrow> string + ai_request \<Rightarrow> string option \<Rightarrow> nat option \<Rightarrow> 's sdk_client \<Rightarrow> 's sdk_client \<times> stream_item list \<times> exn option" where
  "client_generate_stream env req name asked = on_providers (generate_stream env req name asked)"

definition client_register_plugin :: "'s core_env \<Rightarrow> string \<Rightarrow> plugin \<Rightarrow> 's core_client \<Rightarrow> 's core_client" where
  "client_register_plugin env name p k = k\<lparr>kc_plugins := pr_register (ke_plugins env) name p (kc_plugins k)\<rparr>"

definition client_unregister_plugin :: "'s core_env \<Rightarrow> string \<Rightarrow> 's core_client \<Rightarrow> exn + 's core_client" where
  "client_unregister_plugin env name k =
     map_sum id (\<lambda>p. k\<lparr>kc_plugins := p\<rparr>) (pr_unregister (ke_plugins env) name (kc_plugins k))"

definition client_get_plugin :: "string \<Rightarrow> 's core_client \<Rightarrow> plugin option" where
  "client_get_plugin name k = pr_get name (kc_plugins k)"

definition client_list_plugins :: "'s core_client \<Rightarrow> string list" where
  "client_list_plugins k = pr_list (kc_plugins k)"

definition client_discover_plugins :: "'s core_env \<Rightarrow> (string \<times> plugin) list \<Rightarrow> 's core_client \<Rightarrow> 's core_client" where
  "client_discover_plugins env found k = k\<lparr>kc_plugins := pr_discover (ke_plugins env) found (kc_plugins k)\<rparr>"

definition client_plugin_status :: "'s core_client \<Rightarrow> pydict" where
  "client_plugin_status k = pr_status (kc_plugins k)"

definition client_submit_job :: "client_cfg \<Rightarrow> string option \<Rightarrow> nat \<Rightarrow> 's sdk_client \<Rightarrow> 's sdk_client \<times> nat" where
  "client_submit_job cfg ctx ob = on_world (\<lambda>w. (submit_job cfg ctx ob w, ob))"

definition client_create_job ::
  "client_cfg \<Rightarrow> string option \<Rightarrow> job_target \<Rightarrow> pyval list option \<Rightarrow> pydict option \<Rightarrow> string option \<Rightarrow> int \<Rightarrow> int \<Rightarrow> real option
   \<Rightarrow> string \<Rightarrow> real \<Rightarrow> nat \<Rightarrow> 's sdk_client \<Rightarrow> 's sdk_client \<times> nat" where
  "client_create_job cfg ctx target args kwargs name priority retries timeout uuid now ob =
     on_world (\<lambda>w. (create_job cfg ctx target args kwargs name priority retries timeout uuid now ob w, ob))"

definition client_get_job :: "string \<Rightarrow> 's sdk_client \<Rightarrow> nat option" where
  "client_get_job jid c = engine_get_job jid (sd_world (sd_scheduler c))"

definition client_cancel_job :: "client_cfg \<Rightarrow> real \<Rightarrow> string \<Rightarrow> 's sdk_client \<Rightarrow> 's sdk_client \<times> bool" where
  "client_cancel_job cfg now jid = on_world (engine_cancel_job cfg now jid)"

definition client_schedule_job ::
  "sched_env \<Rightarrow> string option \<Rightarrow> string option \<Rightarrow> string \<Rightarrow> real \<Rightarrow> sched_job \<Rightarrow> 's sdk_client \<Rightarrow> 's sdk_client \<times> (exn + nat)" where
  "client_schedule_job env jid name uuid now raw c =
     map_prod (\<lambda>s. c\<lparr>sd_scheduler := s\<rparr>) id (schedule_job env jid name uuid now raw (sd_scheduler c))"

definition client_register_tool :: "string \<Rightarrow> nat \<Rightarrow> 's sdk_client \<Rightarrow> 's sdk_client" where
  "client_register_tool name t c = c\<lparr>sd_tools := register_tool name t (sd_tools c)\<rparr>"

definition client_get_tool :: "string \<Rightarrow> 's sdk_client \<Rightarrow> nat option" where
  "client_get_tool name c = get_tool name (sd_tools c)"

definition client_remove_tool :: "string \<Rightarrow> 's sdk_client \<Rightarrow> 's sdk_client \<times> nat option" where
  "client_remove_tool name c = map_prod (\<lambda>t. c\<lparr>sd_tools := t\<rparr>) id (remove_tool name (sd_tools c))"

definition client_list_tools :: "'s sdk_client \<Rightarrow> string list" where
  "client_list_tools c = list_tools (sd_tools c)"

definition client_execute_tool :: "(nat \<Rightarrow> pyval list \<Rightarrow> pydict \<Rightarrow> exn + pyval) \<Rightarrow> string \<Rightarrow> pyval list \<Rightarrow> pydict \<Rightarrow> 's sdk_client \<Rightarrow> exn + pyval" where
  "client_execute_tool run name args kwargs c = execute_tool run name args kwargs (sd_tools c)"

section \<open>Starting and stopping\<close>

definition client_start :: "'s core_env \<Rightarrow> call_facts \<Rightarrow> 's core_client \<Rightarrow> 's core_client \<times> exn option" where
  "client_start env f = on_orchestrator (oc_start (svc_ops (ke_services env)) (ke_runtime env) (cf_seconds f))"

definition client_stop :: "'s core_env \<Rightarrow> call_facts \<Rightarrow> 's core_client \<Rightarrow> 's core_client \<times> exn option" where
  "client_stop env f = on_orchestrator (oc_stop (svc_ops (ke_services env)) (ke_runtime env) (cf_seconds f))"

definition client_reload :: "'s core_env \<Rightarrow> call_facts \<Rightarrow> 's core_client \<Rightarrow> 's core_client \<times> exn option" where
  "client_reload env f = on_orchestrator (oc_reload (svc_ops (ke_services env)) (ke_runtime env) (cf_seconds f))"

text \<open>
  \<open>with YasinCoreClient() as c\<close>: \<open>initialize\<close> does nothing after the constructor. If starting raises, the body does
  not run and the client is not stopped; what stopping raises takes the place of what the body raised.
\<close>

definition with_client ::
  "'s core_env \<Rightarrow> call_facts \<Rightarrow> call_facts \<Rightarrow> ('s core_client \<Rightarrow> 's core_client \<times> exn option) \<Rightarrow> 's core_client \<Rightarrow> 's core_client \<times> exn option" where
  "with_client env f g body k =
     (case client_start env f k of
        (k1, Some e) \<Rightarrow> (k1, Some e)
      | (k1, None) \<Rightarrow>
          (case body k1 of
             (k2, raised) \<Rightarrow>
               (case client_stop env g k2 of
                  (k3, Some e) \<Rightarrow> (k3, Some e)
                | (k3, None) \<Rightarrow> (k3, raised))))"

section \<open>The grouped operations\<close>

definition translated_result :: "'c \<times> (exn + 'a) \<Rightarrow> 'c \<times> (exn + 'a)" where
  "translated_result r = (fst r, translated (snd r))"

text \<open>Operations that return and do not raise\<close>

definition returned :: "'c \<times> 'a \<Rightarrow> 'c \<times> (exn + 'a)" where
  "returned r = translated_result (fst r, Inr (snd r))"

definition agents_register :: "'s core_env \<Rightarrow> call_facts \<Rightarrow> nat \<Rightarrow> 's core_client \<Rightarrow> 's core_client \<times> exn option" where
  "agents_register env f r k = translated_op (client_register_agent env f r k)"

definition agents_get :: "string \<Rightarrow> 's core_client \<Rightarrow> exn + nat option" where
  "agents_get name k = translated (Inr (client_get_agent name k))"

definition agents_remove :: "string \<Rightarrow> 's core_client \<Rightarrow> 's core_client \<times> (exn + nat option)" where
  "agents_remove name k = returned (client_remove_agent name k)"

definition agents_list :: "'s core_client \<Rightarrow> exn + string list" where
  "agents_list k = translated (Inr (client_list_agents k))"

definition agents_start :: "'s core_env \<Rightarrow> 's core_client \<Rightarrow> 's core_client \<times> exn option" where
  "agents_start env k = translated_op (client_start_agents env k)"

definition agents_stop :: "'s core_env \<Rightarrow> 's core_client \<Rightarrow> 's core_client \<times> exn option" where
  "agents_stop env k = translated_op (client_stop_agents env k)"

definition tasks_create :: "string \<Rightarrow> string \<Rightarrow> pyval \<Rightarrow> exn + task" where
  "tasks_create i name input = translated (Inr (mk_task i name input))"

definition tasks_execute :: "'s core_env \<Rightarrow> call_facts \<Rightarrow> task \<Rightarrow> 's core_client \<Rightarrow> 's core_client \<times> (exn + task)" where
  "tasks_execute env f t k = translated_result (core_execute_task env f t k)"

definition tasks_submit_job :: "client_cfg \<Rightarrow> string option \<Rightarrow> nat \<Rightarrow> 's sdk_client \<Rightarrow> 's sdk_client \<times> (exn + nat)" where
  "tasks_submit_job cfg ctx ob c = returned (client_submit_job cfg ctx ob c)"

definition tasks_create_job ::
  "client_cfg \<Rightarrow> string option \<Rightarrow> job_target \<Rightarrow> pyval list option \<Rightarrow> pydict option \<Rightarrow> string option \<Rightarrow> int \<Rightarrow> int \<Rightarrow> real option
   \<Rightarrow> string \<Rightarrow> real \<Rightarrow> nat \<Rightarrow> 's sdk_client \<Rightarrow> 's sdk_client \<times> (exn + nat)" where
  "tasks_create_job cfg ctx target args kwargs name priority retries timeout uuid now ob c =
     returned (client_create_job cfg ctx target args kwargs name priority retries timeout uuid now ob c)"

definition tasks_get_job :: "string \<Rightarrow> 's sdk_client \<Rightarrow> exn + nat option" where
  "tasks_get_job jid c = translated (Inr (client_get_job jid c))"

definition tasks_cancel_job :: "client_cfg \<Rightarrow> real \<Rightarrow> string \<Rightarrow> 's sdk_client \<Rightarrow> 's sdk_client \<times> (exn + bool)" where
  "tasks_cancel_job cfg now jid c = returned (client_cancel_job cfg now jid c)"

definition memory_save ::
  "'s core_env \<Rightarrow> call_facts \<Rightarrow> pyval \<Rightarrow> pyval \<Rightarrow> pyval \<Rightarrow> pyval \<Rightarrow> pyval \<Rightarrow> 's core_client \<Rightarrow> 's core_client \<times> exn option" where
  "memory_save env f key v category md ttl k = translated_op (core_save_memory env f key v category md ttl k)"

definition memory_get :: "'s core_env \<Rightarrow> call_facts \<Rightarrow> pyval \<Rightarrow> pyval \<Rightarrow> 's core_client \<Rightarrow> 's core_client \<times> (exn + pyval)" where
  "memory_get env f key category k = translated_result (core_get_memory env f key category k)"

definition context_create :: "call_facts \<Rightarrow> pyval \<Rightarrow> 's core_client \<Rightarrow> 's core_client \<times> (exn + pyval)" where
  "context_create f data k = translated_result (core_create_context f data PNone PNone k)"

definition context_active :: "'s core_client \<Rightarrow> 's core_client \<times> pyval option" where
  "context_active k = core_active k"

definition tools_register :: "string \<Rightarrow> nat \<Rightarrow> 's sdk_client \<Rightarrow> 's sdk_client \<times> exn option" where
  "tools_register name t c = translated_op (client_register_tool name t c, None)"

definition tools_get :: "string \<Rightarrow> 's sdk_client \<Rightarrow> exn + nat option" where
  "tools_get name c = translated (Inr (client_get_tool name c))"

definition tools_remove :: "string \<Rightarrow> 's sdk_client \<Rightarrow> 's sdk_client \<times> (exn + nat option)" where
  "tools_remove name c = returned (client_remove_tool name c)"

definition tools_list :: "'s sdk_client \<Rightarrow> exn + string list" where
  "tools_list c = translated (Inr (client_list_tools c))"

definition tools_execute :: "(nat \<Rightarrow> pyval list \<Rightarrow> pydict \<Rightarrow> exn + pyval) \<Rightarrow> string \<Rightarrow> pyval list \<Rightarrow> pydict \<Rightarrow> 's sdk_client \<Rightarrow> exn + pyval" where
  "tools_execute run name args kwargs c = translated (client_execute_tool run name args kwargs c)"

section \<open>What leaves the grouped operations\<close>

text \<open>
  A grouped operation has the effect of the client's operation and raises exactly if that raises, and then an error of
  the SDK.
\<close>

lemma translated_op_spec:
  "fst (translated_op r) = fst r \<and> (snd (translated_op r) = None \<longleftrightarrow> snd r = None)
   \<and> (case snd (translated_op r) of Some e \<Rightarrow> is_sdk_error (exn_class e) | None \<Rightarrow> True)"
  by (simp add: translated_op_def translate_is_sdk split: option.split)

lemma translated_result_spec:
  "fst (translated_result r) = fst r \<and> isl (snd (translated_result r)) = isl (snd r)
   \<and> (case snd (translated_result r) of Inl e \<Rightarrow> is_sdk_error (exn_class e) | Inr x \<Rightarrow> snd r = Inr x)"
  by (cases "snd r") (simp_all add: translated_result_def translated_def translate_is_sdk)

lemma fetch_keeps_memories: "kc_agents (fetch_context k) = kc_agents k"
  by (simp add: fetch_context_def split: thread_context.split)

text \<open>
  A category of memory that does not exist is a validation error of the SDK, for saving and for reading,
  and the memories stay what they were.
\<close>
lemma unknown_category_refused:
  assumes "category \<noteq> ''short-term''" "category \<noteq> ''long-term''"
  shows "\<exists>k' msg. memory_save env f (PStr key) v (PStr category) PNone PNone k = (k', Some (Exn SDKValidationErr msg))
       \<and> kc_agents k' = kc_agents k
       \<and> memory_get env f (PStr key) (PStr category) k = (k, Inl (Exn SDKValidationErr msg))"
  using assms
  by (simp add: memory_save_def memory_get_def core_save_memory_def core_get_memory_def save_memory_def get_memory_def
      opt_dict_def opt_int_def translated_op_def translated_result_def translated_def put_memories_def fetch_keeps_memories
      unsupported_category_def translate_exn_def Let_def)

end
