(* ===== verification/SdkAsync.thy ===== *)
theory SdkAsync
  imports SdkClient SdkWiring
begin

text \<open>
  The asynchronous client (\<open>sdk/async_client.py\<close>), what is left of the synchronous one (its initialisation and its
  information), the service methods of the agent runtime, the defaults of \<open>runtime/interfaces.py\<close>, and the
  compatibility manager that bundles the check of a running client.
\<close>

section \<open>Initialisation and information\<close>

text \<open>
  \<open>initialize\<close> over the flag and the storage, with the storage's own \<open>initialize\<close>. The constructor calls it, so that every
  later call finds the flag set.
\<close>

definition client_initialize :: "('s \<Rightarrow> 's \<times> exn option) \<Rightarrow> bool \<times> 's \<Rightarrow> (bool \<times> 's) \<times> exn option" where
  "client_initialize init c =
     (if fst c then (c, None)
      else case init (snd c) of (s, Some e) \<Rightarrow> ((False, s), Some e) | (s, None) \<Rightarrow> ((True, s), None))"

lemma initialized_once:
  "client_initialize init c = (c', None) \<Longrightarrow> client_initialize init c' = (c', None)"
  by (auto simp: client_initialize_def split: if_splits prod.splits option.splits)

definition client_version :: string where
  "client_version = version_string"

definition get_version :: string where
  "get_version = version_string"

definition get_info :: pydict where
  "get_info = [(''name'', PStr ''Yasin Core SDK Client''), (''version'', PStr version_string)]"

definition client_info :: pydict where
  "client_info = get_info"

section \<open>Services with the default methods\<close>

text \<open>An object that inherits everything from \<open>BaseService\<close>\<close>

definition base_service :: service_env where
  "base_service =
     \<lparr> se_initialize = (\<lambda>_. Some None), se_shutdown = (\<lambda>_. Some None), se_reload = (\<lambda>_. Some None),
       se_health = (\<lambda>_. Some (Inr (PDict [(''status'', PStr ''healthy'')]))), se_status = (\<lambda>_. Some (Inr (PDict [(''state'', PStr ''active'')]))) \<rparr>"

text \<open>Whatever its state, such a service is reported healthy unless its initialisation failed; its own state is not shown.\<close>

lemma base_service_healthy:
  "snd (service_health base_service m name ob) \<longleftrightarrow> svc_state m name \<noteq> Some S_FAILED"
  by (cases "svc_state m name"; (cases "the (svc_state m name)")?)
    (auto simp: service_health_def base_service_def interpret_health_def dict_get_or_def Let_def split: service_state.splits)

lemma base_service_state:
  "map_of (service_status base_service m name ob meta) ''state'' =
     Some (PStr (service_state_value (case svc_state m name of Some s \<Rightarrow> s | None \<Rightarrow> S_UNINITIALIZED)))"
  by (simp add: service_status_def base_service_def merge_new_def Let_def)

section \<open>The agent runtime as a service and as a registry\<close>

definition ar_initialize :: "agent_env \<Rightarrow> agent_runtime \<Rightarrow> agent_runtime \<times> exn option" where
  "ar_initialize env rt = start_agents env (ar_agents rt) rt"

definition ar_shutdown :: "agent_env \<Rightarrow> agent_runtime \<Rightarrow> agent_runtime \<times> exn option" where
  "ar_shutdown env rt = stop_agents env (ar_agents rt) rt"

definition ar_health :: "agent_runtime \<Rightarrow> pydict" where
  "ar_health rt = [(''status'', PStr ''healthy'')]"

definition ar_get :: "string \<Rightarrow> agent_runtime \<Rightarrow> nat option" where
  "ar_get = get_agent"

definition ar_list :: "agent_runtime \<Rightarrow> string list" where
  "ar_list = list_agents"

definition ar_register ::
  "string \<Rightarrow> exn + subject option \<Rightarrow> nat \<Rightarrow> agent_runtime \<times> security_manager \<Rightarrow> (agent_runtime \<times> security_manager) \<times> exn option" where
  "ar_register = register_agent"

definition ar_remove :: "string \<Rightarrow> agent_runtime \<Rightarrow> agent_runtime \<times> nat option" where
  "ar_remove = remove_agent"

section \<open>The compatibility manager\<close>

record compat_manager =
  cm_checker :: client_view

definition mk_compat_manager :: "client_view \<Rightarrow> compat_manager" where
  "mk_compat_manager client = \<lparr> cm_checker = client \<rparr>"

definition manager_check_runtime :: "compat_manager \<Rightarrow> bool \<times> (string \<times> check_entry) list" where
  "manager_check_runtime m = check_runtime (cm_checker m)"

section \<open>The asynchronous client\<close>

record 's async_client =
  as_sync :: "'s sdk_client"

definition mk_async :: "'s sdk_client \<Rightarrow> 's sdk_client option \<Rightarrow> 's async_client" where
  "mk_async fresh own = \<lparr> as_sync = (case own of Some c \<Rightarrow> c | None \<Rightarrow> fresh) \<rparr>"

text \<open>
  \<open>await asyncio.to_thread(f, ...)\<close>: the call runs in a thread of the pool; awaiting it gives what it returns and raises
  what it raises.
\<close>

definition to_thread :: "('s sdk_client \<Rightarrow> 's sdk_client \<times> 'r) \<Rightarrow> 's async_client \<Rightarrow> 's async_client \<times> 'r" where
  "to_thread f a = map_prod (\<lambda>c. a\<lparr>as_sync := c\<rparr>) id (f (as_sync a))"

definition sync_client :: "'s async_client \<Rightarrow> 's sdk_client" where
  "sync_client a = as_sync a"

definition async_version :: "'s async_client \<Rightarrow> string" where
  "async_version a = client_version"

definition async_start :: "'s core_env \<Rightarrow> call_facts \<Rightarrow> 's async_client \<Rightarrow> 's async_client \<times> exn option" where
  "async_start env f = to_thread (on_core (client_start env f))"

definition async_stop :: "'s core_env \<Rightarrow> call_facts \<Rightarrow> 's async_client \<Rightarrow> 's async_client \<times> exn option" where
  "async_stop env f = to_thread (on_core (client_stop env f))"

definition async_health :: "'s core_env \<Rightarrow> 's async_client \<Rightarrow> 's async_client \<times> (exn + pyval)" where
  "async_health env = to_thread (on_core (core_health env))"

definition async_status :: "'s core_env \<Rightarrow> call_facts \<Rightarrow> 's async_client \<Rightarrow> 's async_client \<times> (exn + pyval)" where
  "async_status env f = to_thread (on_core (core_status env f))"

definition async_execute_task :: "'s core_env \<Rightarrow> call_facts \<Rightarrow> task \<Rightarrow> 's async_client \<Rightarrow> 's async_client \<times> (exn + task)" where
  "async_execute_task env f t = to_thread (on_core (core_execute_task env f t))"

definition async_generate_response ::
  "provider_env \<Rightarrow> ai_request \<Rightarrow> string list \<Rightarrow> 's async_client \<Rightarrow> 's async_client \<times> (exn + ai_response)" where
  "async_generate_response env q chain = to_thread (client_generate_response env q chain)"

definition async_save_memory ::
  "'s core_env \<Rightarrow> call_facts \<Rightarrow> pyval \<Rightarrow> pyval \<Rightarrow> pyval \<Rightarrow> pyval \<Rightarrow> pyval \<Rightarrow> 's async_client \<Rightarrow> 's async_client \<times> exn option" where
  "async_save_memory env f key v category md ttl = to_thread (on_core (core_save_memory env f key v category md ttl))"

definition async_get_memory :: "'s core_env \<Rightarrow> call_facts \<Rightarrow> pyval \<Rightarrow> pyval \<Rightarrow> 's async_client \<Rightarrow> 's async_client \<times> (exn + pyval)" where
  "async_get_memory env f key category = to_thread (on_core (core_get_memory env f key category))"

definition async_execute_tool ::
  "(nat \<Rightarrow> pyval list \<Rightarrow> pydict \<Rightarrow> exn + pyval) \<Rightarrow> string \<Rightarrow> pyval list \<Rightarrow> pydict \<Rightarrow> 's async_client \<Rightarrow> 's async_client \<times> (exn + pyval)" where
  "async_execute_tool run name args kwargs = to_thread (\<lambda>c. (c, client_execute_tool run name args kwargs c))"

text \<open>
  Awaiting operations one after the other does to the wrapped client what the operations do, and gives what they give.
\<close>

lemma awaited_in_order:
  "as_sync (fold (\<lambda>f a. fst (to_thread f a)) fs a) = fold (\<lambda>f c. fst (f c)) fs (as_sync a)"
  by (induction fs arbitrary: a) (simp_all add: to_thread_def)

lemma awaited_result: "snd (to_thread f a) = snd (f (as_sync a))"
  by (simp add: to_thread_def)

end
