(* ===== verification/StructuredLog.thy ===== *)
theory StructuredLog
  imports PyStrings
begin

text \<open>
  The loggers: \<open>observability/logger.py\<close> and \<open>utils/logger.py\<close> over what they use of the standard library's \<open>logging\<close>, which
  is its table of loggers with their level, handlers and propagation, and the way of a record to the handlers.
\<close>

section \<open>Loggers of the standard library\<close>

datatype log_handler = Json_Handler | Text_Handler | Other_Handler nat

record logger =
  lg_level :: int
  lg_handlers :: "log_handler list"
  lg_propagate :: bool

type_synonym loggers = "(string \<times> logger) list"

text \<open>The handlers and the level of the root logger, and which dictionaries \<open>json.dumps\<close> can write\<close>

record log_env =
  le_root :: "log_handler list"
  le_root_level :: int
  le_json :: "pydict \<Rightarrow> bool"

definition new_logger :: logger where
  "new_logger = \<lparr> lg_level = 0, lg_handlers = [], lg_propagate = True \<rparr>"

definition logger_at :: "loggers \<Rightarrow> string \<Rightarrow> logger" where
  "logger_at t name = (case map_of t name of Some l \<Rightarrow> l | None \<Rightarrow> new_logger)"

text \<open>Looking a logger up makes it; \<open>g\<close> is what is done with it.\<close>

definition change_logger :: "(logger \<Rightarrow> logger) \<Rightarrow> string \<Rightarrow> loggers \<Rightarrow> loggers" where
  "change_logger g name t = AList.update name (g (logger_at t name)) t"

text \<open>
  The names of the ancestors, the nearest first: the parts before the dots, where \<open>rfind\<close> passes over a dot right
  before the last one it found.
\<close>

fun spaced :: "nat list \<Rightarrow> nat list" where
  "spaced (i # j # is) = i # (if Suc j = i then spaced is else spaced (j # is))"
| "spaced is = is"

definition ancestors :: "string \<Rightarrow> string list" where
  "ancestors name = map (\<lambda>i. take i name) (takeWhile (\<lambda>i. 0 < i) (spaced (filter (\<lambda>i. name ! i = CHR ''.'') (rev [0..<length name]))))"

definition logger_chain :: "loggers \<Rightarrow> string \<Rightarrow> string list" where
  "logger_chain t name = name # filter (\<lambda>n. map_of t n \<noteq> None) (ancestors name)"

definition effective_level :: "log_env \<Rightarrow> loggers \<Rightarrow> string \<Rightarrow> int" where
  "effective_level env t name =
     (case filter (\<lambda>l. l \<noteq> 0) (map (\<lambda>n. lg_level (logger_at t n)) (logger_chain t name)) of
        [] \<Rightarrow> le_root_level env | l # _ \<Rightarrow> l)"

text \<open>\<open>logging.disable\<close> is never called, so exactly the level 0 is disabled everywhere.\<close>

definition log_enabled :: "log_env \<Rightarrow> loggers \<Rightarrow> string \<Rightarrow> int \<Rightarrow> bool" where
  "log_enabled env t name lvl \<longleftrightarrow> 0 < lvl \<and> effective_level env t name \<le> lvl"

fun handlers_along :: "log_env \<Rightarrow> loggers \<Rightarrow> string list \<Rightarrow> log_handler list" where
  "handlers_along env t [] = le_root env"
| "handlers_along env t (n # ns) =
     lg_handlers (logger_at t n) @ (if lg_propagate (logger_at t n) then handlers_along env t ns else [])"

section \<open>Records and lines\<close>

record log_record =
  lr_time :: string
  lr_level :: string
  lr_logger :: string
  lr_message :: string
  lr_module :: string
  lr_filename :: string
  lr_line :: int
  lr_extra :: pyval
  lr_exception :: "string option"

text \<open>The time that \<open>formatTime\<close> gives is never empty; \<open>seconds\<close> stands in the code for an empty one.\<close>

definition log_data :: "real \<Rightarrow> log_record \<Rightarrow> pydict" where
  "log_data seconds r =
     (let d = [(''timestamp'', if lr_time r = [] then PFloat seconds else PStr (lr_time r)), (''level'', PStr (lr_level r)),
               (''logger'', PStr (lr_logger r)), (''message'', PStr (lr_message r)),
               (''module'', PStr (lr_module r)), (''filename'', PStr (lr_filename r)), (''line'', PInt (lr_line r))];
          d1 = (case lr_extra r of PDict x \<Rightarrow> fold (\<lambda>(k, v). AList.update k v) x d | _ \<Rightarrow> d)
      in case lr_exception r of Some s \<Rightarrow> AList.update ''exception'' (PStr s) d1 | None \<Rightarrow> d1)"

text \<open>
  What is written: a dictionary as JSON, a text of the time, the name, the level and the message, the record given to
  another handler, or the bare message of the handler of last resort.
\<close>

datatype log_line = Json_Line pydict | Text_Line string string string string | Given nat log_record | Last_Resort string

definition handle_record :: "log_env \<Rightarrow> real \<Rightarrow> log_record \<Rightarrow> log_handler \<Rightarrow> log_line list" where
  "handle_record env seconds r h =
     (case h of
        Json_Handler \<Rightarrow> if le_json env (log_data seconds r) then [Json_Line (log_data seconds r)] else []
      | Text_Handler \<Rightarrow> [Text_Line (lr_time r) (lr_logger r) (lr_level r) (lr_message r)]
      | Other_Handler n \<Rightarrow> [Given n r])"

definition call_handlers :: "log_env \<Rightarrow> real \<Rightarrow> loggers \<Rightarrow> string \<Rightarrow> int \<Rightarrow> log_record \<Rightarrow> log_line list" where
  "call_handlers env seconds t name lvl r =
     (let hs = handlers_along env t (logger_chain t name)
      in if hs = [] then (if 30 \<le> lvl then [Last_Resort (lr_message r)] else []) else concat (map (handle_record env seconds r) hs))"

section \<open>The repository's loggers\<close>

definition obs_name :: "string \<Rightarrow> string" where
  "obs_name name = ''YASIN-OBS-'' @ name"

definition get_structured_logger :: "string \<Rightarrow> int \<Rightarrow> loggers \<Rightarrow> loggers" where
  "get_structured_logger name level =
     change_logger (\<lambda>l. let l1 = l\<lparr>lg_level := level\<rparr>
       in if lg_handlers l1 = [] then l1\<lparr>lg_handlers := lg_handlers l1 @ [Json_Handler], lg_propagate := False\<rparr> else l1) (obs_name name)"

definition get_text_logger :: "string \<Rightarrow> loggers \<Rightarrow> loggers" where
  "get_text_logger name =
     change_logger (\<lambda>l. if lg_handlers l = [] then l\<lparr>lg_handlers := lg_handlers l @ [Text_Handler], lg_level := 20\<rparr> else l) (''YASIN-'' @ name)"

text \<open>The attributes of \<open>logging\<close> in upper case: the levels, and two that are no integers\<close>

definition level_table :: "(string \<times> int) list" where
  "level_table = [(''CRITICAL'', 50), (''FATAL'', 50), (''ERROR'', 40), (''WARNING'', 30), (''WARN'', 30), (''INFO'', 20), (''DEBUG'', 10), (''NOTSET'', 0)]"

definition level_attr :: "string \<Rightarrow> int option" where
  "level_attr s = (if s \<in> set [''BASIC_FORMAT'', ''_STYLES''] then None
     else case map_of level_table s of Some n \<Rightarrow> Some n | None \<Rightarrow> Some 20)"

definition level_name :: "int \<Rightarrow> string" where
  "level_name n = (if n = 50 then ''CRITICAL'' else if n = 40 then ''ERROR'' else if n = 30 then ''WARNING'' else if n = 20 then ''INFO''
     else if n = 10 then ''DEBUG'' else if n = 0 then ''NOTSET'' else ''Level '' @ int_str n)"

text \<open>The caller that the record names is the wrapper itself, in its line 85.\<close>

definition structured_record :: "string \<Rightarrow> int \<Rightarrow> string \<Rightarrow> string \<Rightarrow> pydict \<Rightarrow> log_record" where
  "structured_record time lvl name message kwargs =
     \<lparr> lr_time = time, lr_level = level_name lvl, lr_logger = obs_name name, lr_message = message, lr_module = ''logger'',
       lr_filename = ''logger.py'', lr_line = 85, lr_extra = PDict kwargs, lr_exception = None \<rparr>"

definition structured_log ::
  "log_env \<Rightarrow> string \<Rightarrow> real \<Rightarrow> loggers \<Rightarrow> string \<Rightarrow> string \<Rightarrow> string \<Rightarrow> pydict \<Rightarrow> exn + log_line list" where
  "structured_log env time seconds t name level message kwargs =
     (case level_attr (str_upper level) of
        None \<Rightarrow> Inl (Exn TypeErr ''level must be an integer'')
      | Some lvl \<Rightarrow> Inr (if log_enabled env t (obs_name name) lvl
          then call_handlers env seconds t (obs_name name) lvl (structured_record time lvl name message kwargs) else []))"

definition structured_info :: "log_env \<Rightarrow> string \<Rightarrow> real \<Rightarrow> loggers \<Rightarrow> string \<Rightarrow> string \<Rightarrow> pydict \<Rightarrow> exn + log_line list" where
  "structured_info env time seconds t name = structured_log env time seconds t name ''INFO''"

definition structured_error :: "log_env \<Rightarrow> string \<Rightarrow> real \<Rightarrow> loggers \<Rightarrow> string \<Rightarrow> string \<Rightarrow> pydict \<Rightarrow> exn + log_line list" where
  "structured_error env time seconds t name = structured_log env time seconds t name ''ERROR''"

definition structured_warn :: "log_env \<Rightarrow> string \<Rightarrow> real \<Rightarrow> loggers \<Rightarrow> string \<Rightarrow> string \<Rightarrow> pydict \<Rightarrow> exn + log_line list" where
  "structured_warn env time seconds t name = structured_log env time seconds t name ''WARNING''"

definition structured_debug :: "log_env \<Rightarrow> string \<Rightarrow> real \<Rightarrow> loggers \<Rightarrow> string \<Rightarrow> string \<Rightarrow> pydict \<Rightarrow> exn + log_line list" where
  "structured_debug env time seconds t name = structured_log env time seconds t name ''DEBUG''"

section \<open>One line per record\<close>

datatype log_action = Structured string int | Text_Logger string

fun log_step :: "log_action \<Rightarrow> loggers \<Rightarrow> loggers" where
  "log_step (Structured name level) = get_structured_logger name level"
| "log_step (Text_Logger name) = get_text_logger name"

fun names_structured :: "log_action \<Rightarrow> bool" where
  "names_structured (Text_Logger name) = (take 4 name = ''OBS-'')"
| "names_structured _ = False"

fun level_of :: "string \<Rightarrow> log_action list \<Rightarrow> int option" where
  "level_of x [] = None"
| "level_of x (Structured name level # as) = (case level_of x as of None \<Rightarrow> if name = x then Some level else None | l \<Rightarrow> l)"
| "level_of x (_ # as) = level_of x as"

lemma logger_at_change [simp]:
  "logger_at (change_logger g name t) x = (if x = name then g (logger_at t name) else logger_at t x)"
  by (simp add: logger_at_def change_logger_def update_conv')

lemma text_name_apart: "take 4 name \<noteq> ''OBS-'' \<Longrightarrow> ''YASIN-'' @ name \<noteq> obs_name x"
  by (auto simp: obs_name_def)

definition obs_logger :: "int option \<Rightarrow> logger" where
  "obs_logger l = (case l of None \<Rightarrow> new_logger | Some level \<Rightarrow> \<lparr> lg_level = level, lg_handlers = [Json_Handler], lg_propagate = False \<rparr>)"

lemma obs_logger_step:
  assumes "\<not> names_structured a" "logger_at t (obs_name x) = obs_logger l"
  shows "logger_at (log_step a t) (obs_name x) = obs_logger (case level_of x [a] of None \<Rightarrow> l | m \<Rightarrow> m)"
proof (cases a)
  case (Structured name level)
  then show ?thesis using assms(2) by (cases l) (auto simp: get_structured_logger_def obs_name_def obs_logger_def new_logger_def Let_def)
next
  case (Text_Logger name)
  then show ?thesis using assms text_name_apart [of name x] by (auto simp: get_text_logger_def)
qed

lemma level_of_Cons: "level_of x (a # as) = (case level_of x as of None \<Rightarrow> level_of x [a] | l \<Rightarrow> l)"
  by (cases a) (auto split: option.splits)

lemma obs_logger_fold:
  assumes "\<not> list_ex names_structured acts" "logger_at t (obs_name x) = obs_logger l"
  shows "logger_at (fold log_step acts t) (obs_name x) = obs_logger (case level_of x acts of None \<Rightarrow> l | m \<Rightarrow> m)"
  using assms
proof (induction acts arbitrary: t l)
  case (Cons a acts)
  then have "logger_at (log_step a t) (obs_name x) = obs_logger (case level_of x [a] of None \<Rightarrow> l | m \<Rightarrow> m)"
    by (intro obs_logger_step) simp_all
  from Cons.IH [OF _ this] Cons.prems(1) show ?case
    unfolding level_of_Cons [of x a acts] by (auto split: option.splits)
qed simp

text \<open>
  However often loggers of whatever names are made before, and whatever handlers the root has: a call of a structured
  logger with a nonzero threshold writes one line of JSON with the record if its level reaches the last threshold that
  was set for the name and the record can be written as JSON, and otherwise nothing. The exception is a logger of
  \<open>utils/logger.py\<close> with a name that begins with \<open>OBS-\<close>.
\<close>

lemma structured_line_once:
  assumes "\<not> list_ex names_structured acts" "level_of x acts = Some threshold" "threshold \<noteq> 0" "level_attr (str_upper level) = Some lvl"
  shows "structured_log env time seconds (fold log_step acts []) x level message kwargs
     = Inr (if 0 < lvl \<and> threshold \<le> lvl \<and> le_json env (log_data seconds (structured_record time lvl x message kwargs))
            then [Json_Line (log_data seconds (structured_record time lvl x message kwargs))] else [])"
proof -
  let ?t = "fold log_step acts []"
  have "logger_at [] (obs_name x) = obs_logger None" by (simp add: logger_at_def obs_logger_def)
  from obs_logger_fold [OF assms(1) this] assms(2)
  have l: "logger_at ?t (obs_name x) = \<lparr> lg_level = threshold, lg_handlers = [Json_Handler], lg_propagate = False \<rparr>"
    by (simp add: obs_logger_def)
  have "effective_level env ?t (obs_name x) = threshold"
    using assms(3) by (simp add: effective_level_def logger_chain_def l)
  moreover have "handlers_along env ?t (logger_chain ?t (obs_name x)) = [Json_Handler]"
    by (simp add: logger_chain_def l)
  ultimately show ?thesis
    using assms(4) by (simp add: structured_log_def log_enabled_def call_handlers_def handle_record_def)
qed

text \<open>A name that both factories share: the structured logger writes plain text then.\<close>

lemma shared_name_writes_text:
  "structured_log env time seconds (get_structured_logger ''x'' 20 (get_text_logger ''OBS-x'' [])) ''x'' ''info'' message kwargs
     = Inr (Text_Line time ''YASIN-OBS-x'' ''INFO'' message # concat (map (handle_record env seconds (structured_record time 20 ''x'' message kwargs)) (le_root env)))"
proof -
  have u: "level_attr (str_upper ''info'') = Some 20" by code_simp
  have a: "ancestors ''YASIN-OBS-x'' = []" by code_simp
  show ?thesis
    unfolding structured_log_def u
    by (simp add: get_structured_logger_def get_text_logger_def log_enabled_def effective_level_def logger_chain_def a
        call_handlers_def handle_record_def Let_def new_logger_def logger_at_def change_logger_def update_conv' obs_name_def structured_record_def level_name_def)
qed

text \<open>Every record names the logger's own module and line as its place.\<close>

lemma records_name_the_logger:
  assumes "\<forall>(k, v) \<in> set kwargs. k \<noteq> ''module'' \<and> k \<noteq> ''line''"
  shows "map_of (log_data seconds (structured_record time lvl x message kwargs)) ''module'' = Some (PStr ''logger'')"
    and "map_of (log_data seconds (structured_record time lvl x message kwargs)) ''line'' = Some (PInt 85)"
proof -
  have keep: "map_of (fold (\<lambda>(k, v). AList.update k v) kw d) y = map_of d y" if "\<forall>(k, v) \<in> set kw. k \<noteq> y" for kw d y
    using that by (induction kw arbitrary: d) (auto simp: update_conv')
  have "\<forall>(k, v) \<in> set kwargs. k \<noteq> ''module''" "\<forall>(k, v) \<in> set kwargs. k \<noteq> ''line''" using assms by auto
  then show "map_of (log_data seconds (structured_record time lvl x message kwargs)) ''module'' = Some (PStr ''logger'')"
    "map_of (log_data seconds (structured_record time lvl x message kwargs)) ''line'' = Some (PInt 85)"
    by (simp_all add: log_data_def structured_record_def keep)
qed

text \<open>Fields of the caller replace the fields of the record, its time and its logger too.\<close>

lemma fields_replace_record:
  "map_of (log_data seconds (structured_record t lvl ''x'' msg [(''timestamp'', PInt 0), (''logger'', PStr ''root'')])) ''logger'' = Some (PStr ''root'')"
  by (simp add: log_data_def structured_record_def update_conv')

end
