(* ===== verification/Facades.thy ===== *)
theory Facades
  imports SdkClient SdkWiring
begin

text \<open>
  The smaller entry points around the core: the stand-alone runtime (\<open>core/runtime.py\<close>), the manager of
  agents without permissions (\<open>agents/manager.py\<close>), the bridge that runs a plugin as an agent
  (\<open>plugins/bridge.py\<close>), tools made from functions (\<open>agents/tool.py\<close>) and the request and response models of the SDK (\<open>sdk/models.py\<close>).
\<close>

section \<open>The stand-alone runtime\<close>

datatype runtime_part = RT_Container | RT_Runtime | RT_Registry | RT_Contexts | RT_Event_Bus | RT_Config | RT_Orchestrator | RT_Execution

definition runtime_registrations :: "(di_key \<times> runtime_part) list" where
  "runtime_registrations =
     [(TypeKey ''yasin_core.di.container.DIContainer'', RT_Container), (NameKey ''container'', RT_Container),
      (TypeKey ''yasin_core.core.runtime.YasinRuntime'', RT_Runtime), (NameKey ''runtime'', RT_Runtime),
      (TypeKey ''yasin_core.runtime.registry.RuntimeServiceRegistry'', RT_Registry), (NameKey ''registry'', RT_Registry),
      (TypeKey ''yasin_core.context.engine.ContextEngine'', RT_Contexts), (NameKey ''context_engine'', RT_Contexts),
      (TypeKey ''yasin_core.events.event_bus.EventBus'', RT_Event_Bus), (NameKey ''event_bus'', RT_Event_Bus),
      (TypeKey ''yasin_core.config.settings.ConfigurationManager'', RT_Config), (NameKey ''config'', RT_Config),
      (TypeKey ''yasin_core.core.orchestrator.RuntimeOrchestrator'', RT_Orchestrator), (NameKey ''orchestrator'', RT_Orchestrator),
      (TypeKey ''yasin_core.execution.engine.TaskExecutionEngine'', RT_Execution), (NameKey ''execution'', RT_Execution)]"

record 's runtime =
  rt_contexts :: cengine
  rt_bus :: event_bus
  rt_container :: container
  rt_orchestrator :: "service_manager orchestrator"

definition runtime_services :: "(runtime_part \<Rightarrow> nat) \<Rightarrow> exn + service_manager" where
  "runtime_services obj =
     and_then (reg_register ''config'' (obj RT_Config) version_string ''Manages core configuration.'' None None sv_init)
       (reg_register ''execution'' (obj RT_Execution) version_string ''Manages unified background task/job execution workflows.''
          (Some [''config'']) None)"

definition mk_runtime :: "(runtime_part \<Rightarrow> nat) \<Rightarrow> exn + 's runtime" where
  "mk_runtime obj = and_then (runtime_services obj) (\<lambda>m. Inr
     \<lparr> rt_contexts = ce_init False, rt_bus = bus_init 100,
       rt_container = fold (\<lambda>(k, p). register_instance k (PObj (obj p))) runtime_registrations di_empty,
       rt_orchestrator = oc_init m \<rparr>)"

definition runtime_running :: "'s runtime \<Rightarrow> bool" where
  "runtime_running rt \<longleftrightarrow> oc_state (rt_orchestrator rt) = R_RUNNING"

text \<open>Assigning to \<open>running\<close> has no effect.\<close>

definition set_running :: "bool \<Rightarrow> 's runtime \<Rightarrow> 's runtime" where
  "set_running b rt = rt"

definition runtime_start :: "service_env \<Rightarrow> runtime_env \<Rightarrow> real \<Rightarrow> 's runtime \<Rightarrow> 's runtime \<times> exn option" where
  "runtime_start sv env now rt = map_prod (\<lambda>c. rt\<lparr>rt_orchestrator := c\<rparr>) id (oc_start (svc_ops sv) env now (rt_orchestrator rt))"

definition runtime_stop :: "service_env \<Rightarrow> runtime_env \<Rightarrow> real \<Rightarrow> 's runtime \<Rightarrow> 's runtime \<times> exn option" where
  "runtime_stop sv env now rt = map_prod (\<lambda>c. rt\<lparr>rt_orchestrator := c\<rparr>) id (oc_stop (svc_ops sv) env now (rt_orchestrator rt))"

text \<open>The engine prunes expired contexts each time its status is read.\<close>

definition runtime_status :: "service_env \<Rightarrow> runtime_env \<Rightarrow> clock \<Rightarrow> real \<Rightarrow> 's runtime \<Rightarrow> 's runtime \<times> pydict" where
  "runtime_status sv env ck now rt =
     (case ContextStore.engine_status ck (rt_contexts rt) of
        (e1, ctx) \<Rightarrow> (case ContextStore.engine_status ck e1 of
          (e2, ctx2) \<Rightarrow>
            let keys = map (key_str \<circ> fst) (di_regs (rt_container rt))
            in (rt\<lparr>rt_contexts := e2\<rparr>,
                [(''name'', PStr ''Yasin Core''), (''running'', PBool (runtime_running rt)), (''version'', PStr version_string),
                 (''registry'', PDict (svc_status sv (oc_mgr (rt_orchestrator rt)))), (''context'', PDict ctx),
                 (''di_container'', PDict [(''registered_services'', PList (map PStr keys))]),
                 (''orchestrator'', PDict (oc_status (svc_ops sv) env ctx2 keys now (rt_orchestrator rt)))])))"

section \<open>The manager of agents\<close>

text \<open>The agents are objects; events go to the bus if the manager has one.\<close>

record agent_manager =
  am_heap :: "agent list"
  am_agents :: "(string \<times> nat) list"
  am_event_bus :: bool
  am_events :: "(string \<times> pydict) list"

definition mk_agent_manager :: "agent list \<Rightarrow> (string \<times> nat) list \<Rightarrow> bool \<Rightarrow> agent_manager" where
  "mk_agent_manager heap registry event_bus =
     (\<lparr> am_heap = heap, am_agents = registry, am_event_bus = event_bus, am_events = [] \<rparr>)\<lparr>am_event_bus := False\<rparr>"

definition am_publish :: "string \<Rightarrow> string \<Rightarrow> agent_manager \<Rightarrow> agent_manager" where
  "am_publish ev name m = (if am_event_bus m then m\<lparr>am_events := am_events m @ [(ev, [(''agent_name'', PStr name)])]\<rparr> else m)"

definition am_register :: "nat \<Rightarrow> agent_manager \<Rightarrow> agent_manager" where
  "am_register r m =
     (let name = ag_name (am_heap m ! r)
      in am_publish ''agent_registered'' name (m\<lparr>am_agents := AList.update name r (am_agents m)\<rparr>))"

definition am_remove :: "string \<Rightarrow> agent_manager \<Rightarrow> agent_manager \<times> nat option" where
  "am_remove name m =
     (let m1 = m\<lparr>am_agents := AList.delete name (am_agents m)\<rparr>
      in case map_of (am_agents m) name of
           None \<Rightarrow> (m1, None)
         | Some r \<Rightarrow> (am_publish ''agent_removed'' name m1, Some r))"

definition am_get :: "string \<Rightarrow> agent_manager \<Rightarrow> nat option" where
  "am_get name m = map_of (am_agents m) name"

definition am_list :: "agent_manager \<Rightarrow> string list" where
  "am_list m = dict_keys (am_agents m)"

text \<open>\<open>start\<close> and \<open>stop\<close> of an agent set \<open>running\<close> themselves, or do not.\<close>

fun am_start :: "agent_env \<Rightarrow> string list \<Rightarrow> agent_manager \<Rightarrow> agent_manager \<times> exn option" where
  "am_start env [] m = (m, None)"
| "am_start env (name # names) m =
     (case am_get name m of
        None \<Rightarrow> am_start env names m
      | Some r \<Rightarrow>
          if ag_running (am_heap m ! r) then am_start env names m
          else case av_start env r (am_heap m ! r) of
                 (a, Some e) \<Rightarrow> (m\<lparr>am_heap := (am_heap m)[r := a]\<rparr>, Some e)
               | (a, None) \<Rightarrow> am_start env names (am_publish ''agent_started'' name (m\<lparr>am_heap := (am_heap m)[r := a]\<rparr>)))"

fun am_stop :: "agent_env \<Rightarrow> string list \<Rightarrow> agent_manager \<Rightarrow> agent_manager \<times> exn option" where
  "am_stop env [] m = (m, None)"
| "am_stop env (name # names) m =
     (case am_get name m of
        None \<Rightarrow> am_stop env names m
      | Some r \<Rightarrow>
          if \<not> ag_running (am_heap m ! r) then am_stop env names m
          else case av_stop env r (am_heap m ! r) of
                 (a, Some e) \<Rightarrow> (m\<lparr>am_heap := (am_heap m)[r := a]\<rparr>, Some e)
               | (a, None) \<Rightarrow> am_stop env names (am_publish ''agent_stopped'' name (m\<lparr>am_heap := (am_heap m)[r := a]\<rparr>)))"

definition am_start_all :: "agent_env \<Rightarrow> agent_manager \<Rightarrow> agent_manager \<times> exn option" where
  "am_start_all env m = am_start env (am_list m) m"

definition am_stop_all :: "agent_env \<Rightarrow> agent_manager \<Rightarrow> agent_manager \<times> exn option" where
  "am_stop_all env m = am_stop env (am_list m) m"

text \<open>A bus given to the constructor is dropped: the manager publishes nothing until the attribute is set from outside.\<close>

lemma manager_drops_bus: "am_events (am_register r (mk_agent_manager heap registry True)) = []"
  by (simp add: am_register_def mk_agent_manager_def am_publish_def Let_def)

section \<open>Plugins run as agents\<close>

text \<open>What a plugin object can do when it is run: its methods \<open>execute\<close> and \<open>run\<close>, and whether it can be called.\<close>

record plugin_actions =
  pa_start :: "nat \<Rightarrow> exn option option"
  pa_stop :: "nat \<Rightarrow> exn option option"
  pa_execute :: "nat \<Rightarrow> (pyval \<Rightarrow> exn + pyval) option"
  pa_run :: "nat \<Rightarrow> (pyval \<Rightarrow> exn + pyval) option"
  pa_call :: "nat \<Rightarrow> (pyval \<Rightarrow> exn + pyval) option"

record plugin_bridge =
  br_name :: string
  br_plugin :: string
  br_running :: bool

definition mk_bridge :: "string \<Rightarrow> string \<Rightarrow> plugin_bridge" where
  "mk_bridge name plugin = \<lparr> br_name = name, br_plugin = plugin, br_running = False \<rparr>"

definition hook_result :: "(nat \<Rightarrow> exn option option) \<Rightarrow> plugin option \<Rightarrow> exn option" where
  "hook_result hook p = (case p of Some x \<Rightarrow> (case hook (pl_object x) of Some r \<Rightarrow> r | None \<Rightarrow> None) | None \<Rightarrow> None)"

definition bridge_start :: "plugin_actions \<Rightarrow> plugin_registry \<Rightarrow> plugin_bridge \<Rightarrow> plugin_bridge \<times> exn option" where
  "bridge_start pa reg b = (b\<lparr>br_running := True\<rparr>, hook_result (pa_start pa) (pr_get (br_plugin b) reg))"

definition bridge_stop :: "plugin_actions \<Rightarrow> plugin_registry \<Rightarrow> plugin_bridge \<Rightarrow> plugin_bridge \<times> exn option" where
  "bridge_stop pa reg b = (b\<lparr>br_running := False\<rparr>, hook_result (pa_stop pa) (pr_get (br_plugin b) reg))"

definition bridge_execute :: "plugin_actions \<Rightarrow> plugin_registry \<Rightarrow> pyval \<Rightarrow> plugin_bridge \<Rightarrow> exn + pyval" where
  "bridge_execute pa reg input b =
     (case pr_get (br_plugin b) reg of
        None \<Rightarrow> Inl (Exn ValueErr (''Plugin '' @ quoted (br_plugin b) @ '' not found in registry.''))
      | Some p \<Rightarrow>
          (case pa_execute pa (pl_object p) of
             Some f \<Rightarrow> f input
           | None \<Rightarrow> (case pa_run pa (pl_object p) of
               Some f \<Rightarrow> f input
             | None \<Rightarrow> (case pa_call pa (pl_object p) of
                 Some f \<Rightarrow> f input
               | None \<Rightarrow> Inl (Exn AttributeErr (''Plugin '' @ quoted (br_plugin b)
                          @ '' is not executable (no execute/run method and not callable).''))))))"

text \<open>
  The bridge does not look at the plugin's state: a plugin that has failed or was stopped by the registry is run, and starting
  the bridge starts the plugin's object without the registry's knowledge.
\<close>

lemma bridge_ignores_state:
  "bridge_execute pa (set_plugin_state name st reg) input b = bridge_execute pa reg input b"
  by (simp add: bridge_execute_def pr_get_def set_plugin_state_def)

section \<open>Tools made from functions\<close>

record function_tool =
  ft_name :: string
  ft_description :: string
  ft_schema :: pydict
  ft_func :: nat

definition mk_function_tool :: "nat \<Rightarrow> string \<Rightarrow> string option \<Rightarrow> string option \<Rightarrow> string option \<Rightarrow> pydict option \<Rightarrow> function_tool" where
  "mk_function_tool func func_name doc name description schema =
     \<lparr> ft_name = or_text name func_name, ft_description = or_text description (or_text doc []),
       ft_schema = (case schema of Some d \<Rightarrow> d | None \<Rightarrow> []), ft_func = func \<rparr>"

text \<open>\<open>@tool\<close> on a function passes nothing else on; \<open>@tool(...)\<close> passes what it was given.\<close>

definition tool_decorator :: "nat \<Rightarrow> string \<Rightarrow> string option \<Rightarrow> (string option \<times> string option \<times> pydict option) option \<Rightarrow> function_tool" where
  "tool_decorator func func_name doc args =
     (case args of
        None \<Rightarrow> mk_function_tool func func_name doc None None None
      | Some (name, description, schema) \<Rightarrow> mk_function_tool func func_name doc name description schema)"

section \<open>Requests and responses of the SDK\<close>

record sdk_request =
  sq_payload :: pydict
  sq_metadata :: pydict

record sdk_response =
  sp_success :: bool
  sp_data :: pyval
  sp_error :: "string option"
  sp_metadata :: pydict

definition mk_sdk_request :: "pydict \<Rightarrow> pydict option \<Rightarrow> sdk_request" where
  "mk_sdk_request payload md = \<lparr> sq_payload = payload, sq_metadata = (case md of Some d \<Rightarrow> d | None \<Rightarrow> []) \<rparr>"

definition sdk_request_dict :: "sdk_request \<Rightarrow> pydict" where
  "sdk_request_dict q = [(''payload'', PDict (sq_payload q)), (''metadata'', PDict (sq_metadata q))]"

definition mk_sdk_response :: "bool \<Rightarrow> pyval \<Rightarrow> string option \<Rightarrow> pydict option \<Rightarrow> sdk_response" where
  "mk_sdk_response ok data err md =
     \<lparr> sp_success = ok, sp_data = data, sp_error = err, sp_metadata = (case md of Some d \<Rightarrow> d | None \<Rightarrow> []) \<rparr>"

definition sdk_response_dict :: "sdk_response \<Rightarrow> pydict" where
  "sdk_response_dict a =
     [(''success'', PBool (sp_success a)), (''data'', sp_data a), (''error'', opt_str (sp_error a)), (''metadata'', PDict (sp_metadata a))]"

section \<open>The runtime's wiring\<close>

text \<open>The stand-alone runtime can be built; it starts its configuration before its execution engine.\<close>

lemma runtime_wiring:
  "\<exists>rt m. mk_runtime obj = Inr rt \<and> oc_mgr (rt_orchestrator rt) = m \<and> svc_startup_order m = Inr [''config'', ''execution'']
     \<and> oc_state (rt_orchestrator rt) = R_UNINITIALIZED"
proof -
  have "startup_order [(''config'', []), (''execution'', [''config''])] = Inr [''config'', ''execution'']" by code_simp
  then show ?thesis
    by (simp add: mk_runtime_def runtime_services_def reg_register_def svc_register_def svc_has_def sv_init_def oc_init_def Let_def
        svc_startup_order_def svc_deps_def)
qed

end
