(* ===== verification/CompatProps.thy ===== *)
theory CompatProps
  imports CompatSupport
begin

text \<open>
  What the adapter for legacy names, the checker of interfaces and the validators of the ecosystem promise.
\<close>

section \<open>Legacy names\<close>

text \<open>
  Setting a legacy attribute and reading it again, by the legacy or by the modern name, gives what was set; other attributes
  keep their values. Each use of the legacy name is counted and warned of once, the modern name is silent.
\<close>
theorem legacy_name_roundtrip:
  assumes "map_of (ad_alias ad) name = Some modern" "map_of (ad_translators ad) name = None" "name \<notin> set own_attributes"
    and "map_of (ad_alias ad) modern = None" "map_of (ad_translators ad) modern = None"
  shows "\<exists>d' attrs'. adapter_set ad name v attrs d = (d', attrs') \<and> dp_count d' = dp_count d + 1
     \<and> snd (adapter_get ad name attrs' d') = Inr (Attr_Value v)
     \<and> dp_count (fst (adapter_get ad name attrs' d')) = dp_count d + 2
     \<and> adapter_get ad modern attrs' d' = (d', Inr (Attr_Value v))
     \<and> (\<forall>other. other \<noteq> modern \<longrightarrow> map_of attrs' other = map_of attrs other)"
  using assms by (simp add: adapter_set_def adapter_get_def target_get_def warn_def Let_def update_conv')

definition demo_adapter :: adapter where
  "demo_adapter = \<lparr>ad_alias = [(''old'', ''new'')], ad_translators = [], ad_since = ''1.0.0''\<rparr>"

lemma legacy_name_roundtrip_witness:
  "\<exists>d' attrs'. adapter_set demo_adapter ''old'' (PInt 3) [(''new'', PInt 1), (''x'', PInt 2)] \<lparr>dp_count = 0, dp_warned = [], dp_logged = []\<rparr> = (d', attrs')
     \<and> dp_count d' = 1 \<and> map_of attrs' ''x'' = Some (PInt 2)
     \<and> snd (adapter_get demo_adapter ''old'' attrs' d') = Inr (Attr_Value (PInt 3))"
  using legacy_name_roundtrip [of demo_adapter "''old''" "''new''" "PInt 3" "[(''new'', PInt 1), (''x'', PInt 2)]"
      "\<lparr>dp_count = 0, dp_warned = [], dp_logged = []\<rparr>"]
  by (auto simp: demo_adapter_def own_attributes_def)

section \<open>Interfaces\<close>

text \<open>The check passes exactly if every expected member is there and fits; with \<open>raise\<close> it raises otherwise.\<close>

definition fits :: "(string \<times> member) list \<Rightarrow> string \<times> api_spec \<Rightarrow> bool" where
  "fits target e \<longleftrightarrow> (case map_of target (fst e) of Some f \<Rightarrow> member_mismatch (fst e) (snd e) f = [] | None \<Rightarrow> False)"

lemma api_compatible_iff: "api_compatible (check_api target expected) \<longleftrightarrow> list_all (fits target) expected"
proof (induction expected)
  case (Cons e es)
  have "dict_has target (fst e) \<longleftrightarrow> map_of target (fst e) \<noteq> None" by (auto simp: map_of_eq_None_iff)
  with Cons show ?case
    by (cases "map_of target (fst e)") (auto simp: api_compatible_def check_api_def fits_def split_def)
qed (simp add: api_compatible_def check_api_def)

theorem check_compatibility_exact:
  "isl (check_compatibility target expected raising) = (raising \<and> \<not> list_all (fits target) expected)
   \<and> (\<not> raising \<longrightarrow> check_compatibility target expected raising = Inr (list_all (fits target) expected, check_api target expected))"
  by (simp add: check_compatibility_def Let_def flip: api_compatible_iff)

text \<open>The minimum number of arguments is checked as a maximum: a function without parameters has five, one with two has not one.\<close>

lemma min_args_is_a_maximum:
  "validate_method_signature (Callable (Some [])) None (Some 5)"
  "\<not> validate_method_signature (Callable (Some [\<lparr>sp_name = ''a'', sp_kind = Plain_Param, sp_default = False\<rparr>,
       \<lparr>sp_name = ''b'', sp_kind = Plain_Param, sp_default = False\<rparr>])) None (Some 1)"
  by (simp_all add: validate_method_signature_def self_name_def)

section \<open>The ecosystem\<close>

text \<open>The documented major/minor match of the SDK's version checker compares major versions only.\<close>

lemma minor_not_compared: "sdk_check_compatibility ''3.0.0'' ''3.4.0'' \<and> \<not> sdk_check_compatibility ''3'' ''3''"
  by (simp add: sdk_check_compatibility_def)

text \<open>A plugin package whose version constraint is a number is no report of incompatibility but an \<open>AttributeError\<close>.\<close>

lemma constraint_type_error:
  "validate_hub shown [(''id'', PStr ''p''), (''version'', PStr ''1''), (''core_version_compat'', PInt 3)]
     = Inl (attribute_error ''strip'' (PInt 3))"
  by (simp add: validate_hub_def core_compatible_def pyget_def)

end
