(* ===== verification/Spec2Isabelle.thy ===== *)
theory Spec2Isabelle
  imports JobProperties ExecMonitor ExecResults ScheduledRuns EventBus Orchestrator SecurityModel VersionCompat SchemaMigration PluginSystem Metrics
    ContextLife ConfigProps DIResolution CoreProps ProtectionProps ProviderProps ObservedBus Redaction ContractProps
    SdkExports SdkStart SdkAsync StructuredLog Facades CompatProps
begin

text \<open>
  The verification development of \<open>yasin_core\<close> (\<open>src/yasin_core\<close>): a runtime for agents, jobs and
  plugins with a client library in front of it.

  \<^bold>\<open>The program.\<close> \<open>YasinCoreClient\<close> (\<open>sdk/client.py\<close>) builds all parts, registers them in a
  dependency injection container and a service registry, and passes calls on to them. Thirteen of them are services
  that the service manager starts in the order of their dependencies; the runtime orchestrator drives the service
  manager through the states of the runtime. The parts talk through the event bus, which the observability service
  listens to. The API gateway puts routes, authentication and error codes in front of the client.

  \<^bold>\<open>Conventions.\<close> A Python exception is a value \<open>Exn class message\<close>; an operation that can raise returns a sum
  \<open>exn + 'a\<close>, or the new state with \<open>exn option\<close>, so that what was changed before the exception
  stays changed. Dictionaries are association lists in insertion order. Objects that several containers share live in
  a store and are referred to by index. Dynamic values are \<open>pyval\<close>; a type that the code does not check is an
  exception of the model too. Floats are reals. Clocks, fresh identifiers and hash functions are arguments.
  Operations under a lock are atomic; what runs between two locked sections is split into steps, and the order
  of steps is arbitrary.

  \<^bold>\<open>Theories.\<close>

  \<^item> \<open>CorePrelude\<close>, \<open>PyStrings\<close>, \<open>PyDateTime\<close>, \<open>PyInstant\<close>, \<open>PyDynamic\<close>, \<open>Glob\<close>: the
    shared vocabulary and the parts of the Python language and library the sources use.
  \<^item> \<open>ExecJobs\<close>, \<open>JobProperties\<close>, \<open>ExecQueue\<close>, \<open>ExecWorld\<close>, \<open>ExecEngine\<close>, \<open>ExecManager\<close>, \<open>DistWorker\<close>:
    \<open>execution/models.py\<close>, \<open>queue.py\<close>, \<open>engine.py\<close>, \<open>worker.py\<close> and \<open>distributed.py\<close>. The state
    \<open>world\<close> holds the jobs, the queue, the tables of the engine, the worker threads and the nodes.
    \<open>ExecInvariant\<close> has the invariants and what each operation does to them, \<open>ExecSystem\<close> the step relation of
    clients, threads, remote workers and the monitor (no registered job is lost, retries are bounded),
    \<open>ExecMonitor\<close> the monitor's loop (jobs of dead workers come back), \<open>ExecDrain\<close> the worker loop run to its end,
    \<open>ExecResults\<close> the results of jobs in the memory of the client.
  \<^item> \<open>CronTime\<close>, \<open>ExecScheduler\<close>, \<open>ScheduledRuns\<close>: \<open>execution/scheduler.py\<close>: cron fields and the next run, scheduling,
    ticks, the limit of runs, persistence; and the runs of the scheduler together with the execution service.
  \<^item> \<open>ServiceOrder\<close>, \<open>ServiceManager\<close>, \<open>Orchestrator\<close>: \<open>runtime/service_manager.py\<close>,
    \<open>runtime/registry.py\<close>, \<open>runtime/models.py\<close>, \<open>core/orchestrator.py\<close>: Kahn's algorithm as the unique greedy
    topological order, the outcome of starting and stopping, and the life cycle of the runtime over the
    locale \<open>service_registry\<close>, which the service manager interprets.
  \<^item> \<open>DIContainer\<close>, \<open>DIResolution\<close>: \<open>di/container.py\<close>: resolution succeeds exactly on the least set of
    resolvable keys, circles are errors, singletons are made once.
  \<^item> \<open>EventBus\<close>: \<open>events/event.py\<close>, \<open>events/event_bus.py\<close>: subscription, delivery, history.
  \<^item> \<open>SecurityModel\<close>, \<open>Protection\<close>, \<open>ProtectionProps\<close>: \<open>security/\<close>: permissions, roles, policies, audit,
    encryption, masking, credentials and the check of configurations.
  \<^item> \<open>ConfigLayers\<close>, \<open>ConfigSettings\<close>, \<open>ConfigProps\<close>: \<open>config/settings.py\<close>: four layers of configuration.
  \<^item> \<open>Storage\<close>, \<open>MemoryStore\<close>, \<open>ClientMemory\<close>: \<open>storage/\<close>, \<open>memory/\<close>: the locale \<open>kv_store\<close> is the
    contract of a storage, interpreted for both back ends; memories with their expiry.
  \<^item> \<open>ContextStore\<close>, \<open>ContextLife\<close>: \<open>context/\<close>: contexts with parents, tags and expiry.
  \<^item> \<open>PluginVersion\<close>, \<open>PluginDeps\<close>, \<open>PluginRegistry\<close>, \<open>PluginLife\<close>, \<open>PluginSystem\<close>:
    \<open>plugins/registry.py\<close>: dependencies, loading, starting, and the invariant of the registry.
  \<^item> \<open>VersionCompat\<close>, \<open>SchemaMigration\<close>, \<open>CompatSupport\<close>, \<open>CompatProps\<close>: \<open>compatibility/\<close> and
    \<open>sdk/compat.py\<close>: versions, migrations, warnings, legacy names, interface checks and the audit.
  \<^item> \<open>Metrics\<close>, \<open>MetricUse\<close>, \<open>ErrorTracking\<close>, \<open>Observability\<close>, \<open>ObservabilityProps\<close>, \<open>ObservedBus\<close>: \<open>observability/\<close>,
    and the service as a subscriber of the event bus.
  \<^item> \<open>ProviderBase\<close>, \<open>OpenAIAdapter\<close>, \<open>ProviderManager\<close>, \<open>ProviderProps\<close>: \<open>providers/\<close>: models,
    adapters, routing, fallbacks, streams.
  \<^item> \<open>Contracts\<close>, \<open>ContractProps\<close>, \<open>Redaction\<close>: \<open>contracts/\<close>: shared records, and the redaction of secrets by
    two regular expressions.
  \<^item> \<open>AgentRuntime\<close>, \<open>AgentProps\<close>: \<open>agents/\<close>: agents, tasks, messages, permissions, tools.
  \<^item> \<open>ApiGateway\<close>, \<open>ApiProps\<close>: \<open>api/\<close>: the gateway over any client, given by the record \<open>api_client\<close>.
  \<^item> \<open>CoreClient\<close>, \<open>CoreProps\<close>, \<open>SdkWiring\<close>, \<open>SdkStart\<close>, \<open>SdkClient\<close>, \<open>SdkBoundary\<close>, \<open>SdkContract\<close>, \<open>SdkExports\<close>: \<open>sdk/\<close>: the client
    composed of the modelled components, and properties of whole requests through the gateway; its construction,
    starting and stopping; its remaining methods and the grouped operations; the import boundary; the registry of the contract; errors;
    the names that the packages export.
  \<^item> \<open>Facades\<close>: \<open>core/runtime.py\<close>, \<open>agents/manager.py\<close>, \<open>plugins/bridge.py\<close>, \<open>agents/tool.py\<close>,
    \<open>sdk/models.py\<close>.
  \<^item> \<open>StructuredLog\<close>: \<open>observability/logger.py\<close>, \<open>utils/logger.py\<close>, over the loggers of the standard library.
  \<^item> \<open>SdkAsync\<close>: \<open>sdk/async_client.py\<close>, \<open>runtime/interfaces.py\<close>, \<open>compatibility/__init__.py\<close>, and the service methods of the
    agent runtime.

  \<^bold>\<open>What the lemmas show.\<close> Each component has its invariant, kept by every operation, and the outcome of its
  operations on every branch. The step relation of the execution service has the invariant of accounted jobs, from
  which the properties of whole runs follow. Optimised or layered code is compared with a reference: the priority queue
  with a stable sort, the metrics registry with a map, the two long-term memories with each other, resolution with a
  least fixed point. Properties that cross components are stated of requests to the gateway. Where the code does not do
  what it means to, a lemma shows the case.

  \<^bold>\<open>Bounds.\<close> Recursion that Python bounds by its stack (reading a context through its parents, starting plugins with
  their dependencies) has the depth as an argument, and there are theorems on which depth suffices, or that none
  does on a cycle. The keystream has a counter of four bytes; that it does not overflow is proved for texts up
  to 128 GiB. The number of rounds that empties the queue is computed from the retry counters. All other
  recursion ends by a measure.

  \<^bold>\<open>Parameters.\<close> Methods of agents, plugins, services, tools, policies, migrations and event handlers; the file
  system, YAML and JSON readers; how Python shows a value; \<open>uuid4\<close>, clocks and time zones; SHA-256, HMAC, base64 and
  UTF-8; the HTTP client; \<open>inspect\<close> and \<open>ast\<close>. No law of theirs is assumed unless a theorem names it.

  \<^bold>\<open>Not modelled.\<close> Abstract interfaces without bodies; the order in which modules are loaded; calls of the asynchronous client that run at the
  same time; the real time that passes in loops and timeouts; interleavings inside a section that holds a lock; a
  constructor that calls the container itself; values of \<open>repr\<close> for floats; characters outside ASCII.
\<close>

end
